(* ===== verification/Go_Prelude.thy ===== *)
theory Go_Prelude
  imports Main "HOL-Library.AList"
begin

text \<open>
  Shared prelude of the development: the fragment of Go's language and standard library that
  the modelled packages use, and the generic lemmas the component theories rely on.

  \<^item> A Go \<open>string\<close> or \<open>[]byte\<close> is an Isabelle \<open>string\<close>, a list of bytes. Case mapping and
    white space are the ASCII ones: on ASCII text \<open>strings.ToLower\<close> and
    \<open>strings.TrimSpace\<close> work byte by byte, and bytes from 128 upwards are left alone. Host
    names, header names, Kubernetes object names and bearers are ASCII.
  \<^item> \<open>time.Time\<close> and \<open>time.Duration\<close> are integers counting nanoseconds; the origin is Go's
    zero time, so \<open>t.IsZero()\<close> is \<open>t = 0\<close>.
  \<^item> A Go map that the code iterates over is an association list with distinct keys. Go leaves
    the iteration order unspecified; every list order is covered because lemmas hold for all lists.
  \<^item> A fallible call is a value of \<open>'e + 'a\<close>, with \<open>Inl\<close> the error.
\<close>

named_theorems go_string "characterisations of the string functions"
named_theorems go_alist "lookup rules for association lists standing for Go maps"

type_synonym time = int
type_synonym duration = int
type_synonym error_msg = string
type_synonym ('k, 'v) gomap = "('k \<times> 'v) list"

definition second :: duration where
  "second = 1000000000"

definition minute :: duration where
  "minute = 60 * second"

definition IsZero :: "time \<Rightarrow> bool" where
  "IsZero t \<longleftrightarrow> t = 0"

text \<open>Go's conversion \<open>int32(x)\<close> keeps the low 32 bits, read as two's complement.\<close>

definition int32 :: "int \<Rightarrow> int" where
  "int32 x = (x + 2147483648) mod 4294967296 - 2147483648"

section \<open>Strings\<close>

definition lower_char :: "char \<Rightarrow> char" where
  "lower_char c = (if (65::nat) \<le> of_char c \<and> of_char c \<le> (90::nat) then char_of (of_char c + (32::nat)) else c)"

definition ToLower :: "string \<Rightarrow> string" where
  "ToLower s = map lower_char s"

definition HasPrefix :: "string \<Rightarrow> string \<Rightarrow> bool" where
  "HasPrefix s p \<longleftrightarrow> take (length p) s = p"

definition HasSuffix :: "string \<Rightarrow> string \<Rightarrow> bool" where
  "HasSuffix s p \<longleftrightarrow> length p \<le> length s \<and> drop (length s - length p) s = p"

definition TrimPrefix :: "string \<Rightarrow> string \<Rightarrow> string" where
  "TrimPrefix s p = (if HasPrefix s p then drop (length p) s else s)"

definition isSpace :: "char \<Rightarrow> bool" where
  "isSpace c \<longleftrightarrow> of_char c \<in> {9, 10, 11, 12, 13, 32 :: nat}"

lemma of_char_eq: "n < 256 \<Longrightarrow> of_char c = n \<longleftrightarrow> c = char_of (n::nat)"
  by (metis char_of_char of_char_of mod_less)

lemma isSpace_code [code]: "isSpace c \<longleftrightarrow> c \<in> set [CHR 0x09, CHR 0x0A, CHR 0x0B, CHR 0x0C, CHR 0x0D, CHR 0x20]"
  by (auto simp: isSpace_def of_char_eq char_of_def bit_0)

definition TrimSpace :: "string \<Rightarrow> string" where
  "TrimSpace s = rev (dropWhile isSpace (rev (dropWhile isSpace s)))"

text \<open>\<open>strings.IndexByte\<close>: the index of the first occurrence, \<open>None\<close> for Go's \<open>-1\<close>.\<close>

fun IndexByte :: "string \<Rightarrow> char \<Rightarrow> nat option" where
  "IndexByte [] c = None"
| "IndexByte (x # xs) c = (if x = c then Some 0 else map_option Suc (IndexByte xs c))"

fun Contains :: "string \<Rightarrow> string \<Rightarrow> bool" where
  "Contains [] p \<longleftrightarrow> p = []"
| "Contains (x # xs) p \<longleftrightarrow> HasPrefix (x # xs) p \<or> Contains xs p"

text \<open>\<open>strings.Split\<close> with a one-byte separator: always at least one part.\<close>

fun SplitByte :: "string \<Rightarrow> char \<Rightarrow> string list" where
  "SplitByte [] c = [[]]"
| "SplitByte (x # xs) c =
     (if x = c then [] # SplitByte xs c
      else (case SplitByte xs c of [] \<Rightarrow> [[x]] | p # ps \<Rightarrow> (x # p) # ps))"

fun Join :: "string list \<Rightarrow> string \<Rightarrow> string" where
  "Join [] sep = []"
| "Join [x] sep = x"
| "Join (x # y # ys) sep = x @ sep @ Join (y # ys) sep"

fun decimal_nat :: "nat \<Rightarrow> string" where
  "decimal_nat n =
     (if n < 10 then [char_of (48 + n)] else decimal_nat (n div 10) @ [char_of (48 + n mod 10)])"

declare decimal_nat.simps [simp del]

text \<open>The same on a table of digits, for evaluation.\<close>

lemma digit_char: "n < 10 \<Longrightarrow> char_of (48 + n) = ''0123456789'' ! n"
proof -
  assume "n < 10"
  then have "n \<in> {0,1,2,3,4,5,6,7,8,9}" by auto
  then show ?thesis by (auto simp: char_of_def bit_0)
qed

lemma decimal_nat_code [code]:
  "decimal_nat n = (if n < 10 then [''0123456789'' ! n] else decimal_nat (n div 10) @ [''0123456789'' ! (n mod 10)])"
  by (subst decimal_nat.simps) (simp add: digit_char)

text \<open>The verb \<open>%d\<close> of package \<open>fmt\<close>.\<close>

definition fmt_d :: "int \<Rightarrow> string" where
  "fmt_d i = (if i < 0 then CHR ''-'' # decimal_nat (nat (- i)) else decimal_nat (nat i))"

text \<open>
  The verb \<open>%q\<close> on printable ASCII: a double quote, the text with the double quote and the
  backslash escaped, a double quote.
\<close>

definition dquote :: char where
  "dquote = char_of (34::nat)"

definition backslash :: char where
  "backslash = char_of (92::nat)"

lemma quote_code [code]: "dquote = CHR 0x22" "backslash = CHR 0x5C"
  by (simp_all add: dquote_def backslash_def char_of_def bit_0)

definition fmt_q :: "string \<Rightarrow> string" where
  "fmt_q s = [dquote]
     @ concat (map (\<lambda>c. if c = dquote \<or> c = backslash then [backslash, c] else [c]) s)
     @ [dquote]"

text \<open>The verb \<open>%v\<close> on a \<open>[]string\<close>.\<close>

definition fmt_v :: "string list \<Rightarrow> string" where
  "fmt_v xs = ''['' @ Join xs '' '' @ '']''"

section \<open>Association lists for Go maps\<close>

definition mdelete :: "'k \<Rightarrow> ('k, 'v) gomap \<Rightarrow> ('k, 'v) gomap" where
  "mdelete k m = filter (\<lambda>(k', v). k' \<noteq> k) m"

definition mset_key :: "'k \<Rightarrow> 'v \<Rightarrow> ('k, 'v) gomap \<Rightarrow> ('k, 'v) gomap" where
  "mset_key k v m = AList.update k v m"

definition mkeys_ok :: "('k, 'v) gomap \<Rightarrow> bool" where
  "mkeys_ok m \<longleftrightarrow> distinct (map fst m)"

section \<open>Lemmas on integers\<close>

lemma int32_id: "- 2147483648 \<le> x \<Longrightarrow> x < 2147483648 \<Longrightarrow> int32 x = x"
  by (simp add: int32_def)

lemma int32_range: "- 2147483648 \<le> int32 x \<and> int32 x < 2147483648"
  by (simp add: int32_def)

section \<open>Lemmas on strings\<close>

lemma HasPrefix_append [simp]: "HasPrefix (p @ s) p"
  by (simp add: HasPrefix_def)

lemma HasPrefix_iff [go_string]: "HasPrefix s p \<longleftrightarrow> (\<exists>t. s = p @ t)"
  by (auto simp: HasPrefix_def) (metis append_take_drop_id)

lemma HasSuffix_iff [go_string]: "HasSuffix s p \<longleftrightarrow> (\<exists>t. s = t @ p)"
  by (auto simp: HasSuffix_def) (metis append_take_drop_id)

lemma HasSuffix_append [simp]: "HasSuffix (t @ p) p"
  by (auto simp: HasSuffix_iff)

lemma HasSuffix_trans: "HasSuffix s t \<Longrightarrow> HasSuffix t u \<Longrightarrow> HasSuffix s u"
  by (auto simp: HasSuffix_iff)

lemma HasSuffix_length: "HasSuffix s t \<Longrightarrow> length t \<le> length s"
  by (auto simp: HasSuffix_def)

text \<open>Two suffixes of one string: the shorter is a suffix of the longer.\<close>

lemma HasSuffix_same:
  assumes "HasSuffix s t" and "HasSuffix s u" and "length u \<le> length t"
  shows "HasSuffix t u"
proof -
  from assms(1) obtain a where "s = a @ t" by (auto simp: HasSuffix_iff)
  moreover from assms(2) obtain b where "s = b @ u" by (auto simp: HasSuffix_iff)
  ultimately obtain c where "t = c @ u \<or> u = c @ t"
    by (metis append_eq_append_conv2)
  then show ?thesis using assms(3)
    by (auto simp: HasSuffix_iff)
qed

lemma TrimPrefix_append [simp]: "TrimPrefix (p @ s) p = s"
  by (simp add: TrimPrefix_def)

lemma ToLower_append [simp]: "ToLower (a @ b) = ToLower a @ ToLower b"
  by (simp add: ToLower_def)

lemma ToLower_Nil [simp]: "ToLower [] = []"
  by (simp add: ToLower_def)

lemma ToLower_Nil_iff [simp]: "ToLower s = [] \<longleftrightarrow> s = []"
  by (simp add: ToLower_def)

lemma length_ToLower [simp]: "length (ToLower s) = length s"
  by (simp add: ToLower_def)

lemma lower_char_idem [simp]: "lower_char (lower_char c) = lower_char c"
proof (cases "65 \<le> (of_char c :: nat) \<and> of_char c \<le> (90::nat)")
  case True
  then have "(of_char (char_of (of_char c + (32::nat)) :: char) :: nat) = of_char c + 32"
    by (simp add: of_char_of)
  with True show ?thesis by (simp add: lower_char_def)
next
  case False
  then show ?thesis by (auto simp: lower_char_def)
qed

text \<open>Only letters are changed by case mapping.\<close>

lemma lower_char_eq:
  assumes "lower_char x = c" "\<not> (97 \<le> (of_char c :: nat) \<and> of_char c \<le> (122::nat))"
  shows "x = c"
proof (rule ccontr)
  assume "x \<noteq> c"
  with assms(1) have r: "65 \<le> (of_char x :: nat)" "of_char x \<le> (90::nat)" and c: "c = char_of (of_char x + (32::nat))"
    by (auto simp: lower_char_def split: if_splits)
  from r have "(of_char c :: nat) = of_char x + 32" unfolding c by (simp add: of_char_of)
  with r assms(2) show False by simp
qed

lemma ToLower_idem [simp]: "ToLower (ToLower s) = ToLower s"
  by (simp add: ToLower_def)

lemma Contains_append: "Contains (a @ p @ b) p"
proof (induction a)
  case Nil
  have "HasPrefix (p @ b) p" by simp
  then show ?case by (cases "p @ b") (auto simp: HasPrefix_def)
next
  case (Cons x a)
  then show ?case by simp
qed

lemma Contains_iff [go_string]: "Contains s p \<longleftrightarrow> (\<exists>a b. s = a @ p @ b)"
proof
  show "Contains s p \<Longrightarrow> \<exists>a b. s = a @ p @ b"
  proof (induction s)
    case (Cons x xs)
    show ?case
    proof (cases "HasPrefix (x # xs) p")
      case True
      then obtain t where "x # xs = [] @ p @ t" by (auto simp: HasPrefix_iff)
      then show ?thesis by blast
    next
      case False
      with Cons obtain a b where "xs = a @ p @ b" by auto
      then have "x # xs = (x # a) @ p @ b" by simp
      then show ?thesis by blast
    qed
  qed simp
qed (auto simp: Contains_append)

lemma SplitByte_nonempty [simp]: "SplitByte s c \<noteq> []"
  by (induction s) (auto split: list.splits)

lemma SplitByte_no_sep: "p \<in> set (SplitByte s c) \<Longrightarrow> c \<notin> set p"
  by (induction s arbitrary: p) (auto split: list.splits if_splits)

lemma dropWhile_hd: "s = [] \<or> \<not> P (hd s) \<Longrightarrow> dropWhile P s = s"
  by (cases s) auto

lemma TrimSpace_idem_head:
  assumes "s = [] \<or> (\<not> isSpace (hd s) \<and> \<not> isSpace (last s))"
  shows "TrimSpace s = s"
proof -
  have "dropWhile isSpace s = s" and "dropWhile isSpace (rev s) = rev s"
    using assms by (auto intro!: dropWhile_hd simp: hd_rev)
  then show ?thesis by (simp add: TrimSpace_def)
qed

lemma IndexByte_None [simp]: "IndexByte s c = None \<longleftrightarrow> c \<notin> set s"
  by (induction s) auto

lemma IndexByte_append: "c \<notin> set a \<Longrightarrow> IndexByte (a @ c # b) c = Some (length a)"
  by (induction a) auto

lemma IndexByte_Some:
  "IndexByte s c = Some i \<Longrightarrow> i < length s \<and> s = take i s @ c # drop (i + 1) s \<and> c \<notin> set (take i s)"
  by (induction s arbitrary: i) (auto split: if_splits)

section \<open>Lemmas on association lists\<close>

lemma map_of_mdelete [go_alist]: "map_of (mdelete k m) k' = (if k' = k then None else map_of m k')"
  by (induction m) (auto simp: mdelete_def)

lemma map_of_mset_key [go_alist]: "map_of (mset_key k v m) k' = (if k' = k then Some v else map_of m k')"
  by (simp add: mset_key_def update_conv)

lemma mkeys_ok_Nil [simp]: "mkeys_ok []"
  by (simp add: mkeys_ok_def)

lemma mkeys_ok_mdelete [simp]: "mkeys_ok m \<Longrightarrow> mkeys_ok (mdelete k m)"
  by (auto simp: mkeys_ok_def mdelete_def distinct_map_filter)

lemma mkeys_ok_mset_key [simp]: "mkeys_ok m \<Longrightarrow> mkeys_ok (mset_key k v m)"
  by (simp add: mkeys_ok_def mset_key_def distinct_update)

lemma mkeys_ok_filter [simp]: "mkeys_ok m \<Longrightarrow> mkeys_ok (filter P m)"
  by (auto simp: mkeys_ok_def distinct_map_filter)

lemma map_of_filter_val [go_alist]:
  "mkeys_ok m \<Longrightarrow> map_of (filter (\<lambda>(k, v). P k v) m) k =
     (case map_of m k of None \<Rightarrow> None | Some v \<Rightarrow> if P k v then Some v else None)"
  by (induction m) (auto simp: mkeys_ok_def map_of_eq_None_iff[symmetric] split: option.splits)

lemma set_mdelete: "set (mdelete k m) = {x \<in> set m. fst x \<noteq> k}"
  by (auto simp: mdelete_def)

lemma mkeys_ok_map_of: "mkeys_ok m \<Longrightarrow> (k, v) \<in> set m \<longleftrightarrow> map_of m k = Some v"
  by (auto simp: mkeys_ok_def map_of_eq_Some_iff)

lemma find_None_ball: "find P xs = None \<longleftrightarrow> (\<forall>x \<in> set xs. \<not> P x)"
  by (auto simp: find_None_iff)

lemma find_SomeD: "find P xs = Some x \<Longrightarrow> x \<in> set xs \<and> P x"
  by (auto simp: find_Some_iff)

lemma find_append: "find P (xs @ ys) = (case find P xs of Some x \<Rightarrow> Some x | None \<Rightarrow> find P ys)"
  by (induction xs) auto

lemma set_map_filter_iff: "y \<in> set (List.map_filter f xs) \<longleftrightarrow> (\<exists>x \<in> set xs. f x = Some y)"
  by (induction xs) (auto simp: map_filter_simps split: option.splits)

lemma dom_mset_key: "dom (map_of (mset_key k v m)) = insert k (dom (map_of m))"
  by (auto simp: dom_def map_of_mset_key)

lemmas go_map_lookup = map_of_mdelete map_of_mset_key

lemma SplitByte_append: "c \<notin> set a \<Longrightarrow> SplitByte (a @ c # b) c = a # SplitByte b c"
  by (induction a) auto

lemma SplitByte_single: "c \<notin> set a \<Longrightarrow> SplitByte a c = [a]"
  by (induction a) auto

text \<open>Splitting undoes joining.\<close>

lemma SplitByte_Join: "es \<noteq> [] \<Longrightarrow> \<forall>e \<in> set es. c \<notin> set e \<Longrightarrow> SplitByte (Join es [c]) c = es"
  by (induction es "[c]" rule: Join.induct) (simp_all add: SplitByte_append SplitByte_single)

end
