(* ===== verification/Api_Types.thy ===== *)
theory Api_Types
  imports Go_Prelude
begin

text \<open>
  The API objects of \<open>src/api/v1alpha1\<close> that the policy engine, the broker, the proxy and the
  controller share, as records with the source's fields (prefixed by the type's initials, since
  record fields are global names). A Go pointer is an \<open>option\<close>. Kubernetes types the sources only
  pass through are carried in serialised form.

  The Kubernetes API server is not part of the repository: it is the parameter \<open>kube\<close>, a record
  of the reads the code performs, each of which can fail.
\<close>

section \<open>BrokerPolicy\<close>

record SecretKeyReference =
  skr_Name :: string
  skr_Key :: string

record HeaderSubstitution =
  hs_Name :: string
  hs_ValuePrefix :: string

record QueryParamSubstitution =
  qs_Name :: string

record BasicAuthSubstitution =
  bs_Username :: string

record ProxyInjectedDelivery =
  pi_Hosts :: "string list"
  pi_Header :: "HeaderSubstitution option"
  pi_QueryParam :: "QueryParamSubstitution option"
  pi_BasicAuth :: "BasicAuthSubstitution option"

record InContainerDelivery =
  ic_Accepted :: bool
  ic_Reason :: string

record DeliveryMode =
  dm_ProxyInjected :: "ProxyInjectedDelivery option"
  dm_InContainer :: "InContainerDelivery option"

record ProviderConfig =
  pc_Kind :: string
  pc_SecretRef :: "SecretKeyReference option"
  pc_AppID :: string
  pc_InstallationID :: string
  pc_RotationSeconds :: "int option"
  pc_Hosts :: "string list"
  pc_DeliveryMode :: "DeliveryMode option"

record CredentialGrant =
  cg_Name :: string
  cg_Provider :: ProviderConfig

record EgressGrant =
  eg_Host :: string
  eg_Ports :: "int list"

datatype GitRepoAccess = GitRepoAccessUnset | GitRepoAccessRead | GitRepoAccessWrite

record GitRepoGrant =
  gr_Owner :: string
  gr_Repo :: string
  gr_Access :: GitRepoAccess

datatype HarnessRunPhase =
    PhaseUnset
  | PhasePending
  | PhaseRunning
  | PhaseIdle
  | PhaseSucceeded
  | PhaseFailed
  | PhaseCancelled

record ShellCapability =
  sc_Target :: string
  sc_Command :: "string list"
  sc_AllowedPhases :: "HarnessRunPhase list"
  sc_RecordTranscript :: bool

record GrantRunsCapabilities =
  rc_Interact :: bool
  rc_Shell :: "ShellCapability option"

record BrokerPolicyGrants =
  gs_Credentials :: "CredentialGrant list"
  gs_Egress :: "EgressGrant list"
  gs_GitRepos :: "GitRepoGrant list"
  gs_Runs :: "GrantRunsCapabilities option"

datatype InterceptionMode =
    InterceptionModeUnset
  | InterceptionModeTransparent
  | InterceptionModeCooperative

record CooperativeAcceptedInterception =
  ca_Accepted :: bool
  ca_Reason :: string

record InterceptionSpec =
  is_Transparent :: "unit option"
  is_CooperativeAccepted :: "CooperativeAcceptedInterception option"

record EgressDiscoverySpec =
  ed_Accepted :: bool
  ed_Reason :: string
  ed_ExpiresAt :: time

record BrokerPolicySpec =
  bps_AppliesToTemplates :: "string list"
  bps_Grants :: BrokerPolicyGrants
  bps_Interception :: "InterceptionSpec option"
  bps_EgressDiscovery :: "EgressDiscoverySpec option"

record BrokerPolicy =
  bp_Name :: string
  bp_Namespace :: string
  bp_Spec :: BrokerPolicySpec

section \<open>HarnessTemplate\<close>

text \<open>Quantities are carried as they are written; pod overlays have no structure here.\<close>

record ResourceRequirements =
  rr_Requests :: "(string, string) gomap"
  rr_Limits :: "(string, string) gomap"

datatype PodTemplateSpec = PodTemplateSpec string

record LocalObjectReference =
  lor_Name :: string

record HarnessTemplateDefaults =
  htd_Model :: string
  htd_Timeout :: "duration option"
  htd_Resources :: "ResourceRequirements option"
  htd_TerminationGracePeriodSeconds :: "int option"

record InteractiveSpec =
  ints_Mode :: string
  ints_IdleTimeout :: "duration option"
  ints_DetachIdleTimeout :: "duration option"
  ints_DetachTimeout :: "duration option"
  ints_MaxLifetime :: "duration option"
  ints_MaxRecentEvents :: "int option"

record RuntimeSpec =
  rts_Image :: string
  rts_ImagePullPolicy :: string

record CredentialRequirement =
  cr_Name :: string

record EgressRequirement =
  er_Host :: string
  er_Ports :: "int list"

record RequireSpec =
  rq_Credentials :: "CredentialRequirement list"
  rq_Egress :: "EgressRequirement list"

record WorkspaceRequirement =
  wr_Required :: bool
  wr_MountPath :: string

record HarnessTemplateSpec =
  hts_BaseTemplateRef :: "LocalObjectReference option"
  hts_Harness :: string
  hts_Image :: string
  hts_Command :: "string list"
  hts_Args :: "string list"
  hts_Defaults :: HarnessTemplateDefaults
  hts_Runtime :: "RuntimeSpec option"
  hts_Requires :: RequireSpec
  hts_Workspace :: WorkspaceRequirement
  hts_PodTemplateOverlay :: "PodTemplateSpec option"
  hts_Interactive :: "InteractiveSpec option"

section \<open>HarnessRun\<close>

record TemplateRef =
  tr_Name :: string
  tr_Kind :: string

datatype HarnessRunMode = HarnessRunModeUnset | HarnessRunModeBatch | HarnessRunModeInteractive

record PoolLeaseRef =
  plr_SecretRef :: SecretKeyReference
  plr_SlotIndex :: int

record IssuedLease =
  il_Provider :: string
  il_LeaseID :: string
  il_CredentialName :: string
  il_ExpiresAt :: "time option"
  il_PoolRef :: "PoolLeaseRef option"

record InteractiveStatus =
  ist_PromptCount :: int
  ist_LastPromptAt :: "time option"
  ist_AttachedSessions :: int
  ist_LastAttachedAt :: "time option"
  ist_IdleSince :: "time option"
  ist_CurrentTurnSeq :: "int option"
  ist_RenewalCount :: int
  ist_LastRenewalAt :: "time option"

record InteractiveOverrides =
  io_IdleTimeout :: "duration option"
  io_DetachIdleTimeout :: "duration option"
  io_DetachTimeout :: "duration option"
  io_MaxLifetime :: "duration option"

record KeySelector =
  ks_Name :: string
  ks_Key :: string

record PromptSource =
  ps_ConfigMapKeyRef :: "KeySelector option"
  ps_SecretKeyRef :: "KeySelector option"

text \<open>\<open>FieldRef\<close> is the downward API's \<open>fieldRef\<close>; any other source is carried without structure.\<close>

datatype EnvVarSource = EnvVarSource string | FieldRef string

record EnvVar =
  ev_Name :: string
  ev_Value :: string
  ev_ValueFrom :: "EnvVarSource option"

record HarnessRunSpec =
  hrs_TemplateRef :: TemplateRef
  hrs_WorkspaceRef :: string
  hrs_Prompt :: string
  hrs_PromptFrom :: "PromptSource option"
  hrs_Timeout :: "duration option"
  hrs_Retries :: int
  hrs_Resources :: "ResourceRequirements option"
  hrs_ExtraEnv :: "EnvVar list"
  hrs_Model :: string
  hrs_TTLSecondsAfterFinished :: "int option"
  hrs_Mode :: HarnessRunMode
  hrs_InteractiveOverrides :: "InteractiveOverrides option"

datatype ConditionStatus = ConditionTrue | ConditionFalse | ConditionUnknown

record Condition =
  cond_Type :: string
  cond_Status :: ConditionStatus
  cond_Reason :: string
  cond_Message :: string
  cond_ObservedGeneration :: int
  cond_LastTransitionTime :: time

record PaddockEvent =
  pev_SchemaVersion :: string
  pev_Timestamp :: time
  pev_Type :: string
  pev_Summary :: string
  pev_Fields :: "(string, string) gomap"

record HarnessRunOutputs =
  hro_PullRequests :: "string list"
  hro_FilesChanged :: int
  hro_Summary :: string
  hro_Artifacts :: "string list"

record CredentialStatus =
  cs_Name :: string
  cs_Provider :: string
  cs_DeliveryMode :: string
  cs_Hosts :: "string list"
  cs_InContainerReason :: string

record HarnessRunStatus =
  hrt_ObservedGeneration :: int
  hrt_Phase :: HarnessRunPhase
  hrt_Conditions :: "Condition list"
  hrt_JobName :: string
  hrt_WorkspaceRef :: string
  hrt_StartTime :: "time option"
  hrt_CompletionTime :: "time option"
  hrt_RecentEvents :: "PaddockEvent list"
  hrt_Outputs :: "HarnessRunOutputs option"
  hrt_Credentials :: "CredentialStatus list"
  hrt_NetworkPolicyEnforced :: "bool option"
  hrt_IssuedLeases :: "IssuedLease list"
  hrt_Interactive :: "InteractiveStatus option"

text \<open>Of the object's metadata, the fields the modelled code reads.\<close>

record HarnessRun =
  hr_Name :: string
  hr_Namespace :: string
  hr_UID :: string
  hr_Generation :: int
  hr_CreationTimestamp :: time
  hr_DeletionTimestamp :: "time option"
  hr_Finalizers :: "string list"
  hr_Spec :: HarnessRunSpec
  hr_Status :: HarnessRunStatus

abbreviation hr_TemplateRef :: "HarnessRun \<Rightarrow> TemplateRef" where "hr_TemplateRef r \<equiv> hrs_TemplateRef (hr_Spec r)"

abbreviation hr_Mode :: "HarnessRun \<Rightarrow> HarnessRunMode" where "hr_Mode r \<equiv> hrs_Mode (hr_Spec r)"

abbreviation hr_Phase :: "HarnessRun \<Rightarrow> HarnessRunPhase" where "hr_Phase r \<equiv> hrt_Phase (hr_Status r)"

abbreviation hr_IssuedLeases :: "HarnessRun \<Rightarrow> IssuedLease list" where
  "hr_IssuedLeases r \<equiv> hrt_IssuedLeases (hr_Status r)"

abbreviation hr_Interactive :: "HarnessRun \<Rightarrow> InteractiveStatus option" where
  "hr_Interactive r \<equiv> hrt_Interactive (hr_Status r)"

definition MaxInlinePromptBytes :: nat where
  "MaxInlinePromptBytes = 256 * 1024"

section \<open>The Kubernetes API as a parameter\<close>

datatype api_error = NotFound error_msg | Conflict error_msg | ApiError error_msg

definition IsNotFound :: "api_error \<Rightarrow> bool" where
  "IsNotFound e = (case e of NotFound _ \<Rightarrow> True | _ \<Rightarrow> False)"

definition IsConflict :: "api_error \<Rightarrow> bool" where
  "IsConflict e = (case e of Conflict _ \<Rightarrow> True | _ \<Rightarrow> False)"

definition api_Error :: "api_error \<Rightarrow> error_msg" where
  "api_Error e = (case e of NotFound m \<Rightarrow> m | Conflict m \<Rightarrow> m | ApiError m \<Rightarrow> m)"

record Secret =
  sec_Data :: "(string, string) gomap"
  sec_ResourceVersion :: string

record HarnessTemplate =
  ht_Name :: string
  ht_Annotations :: "(string, string) gomap"
  ht_Spec :: HarnessTemplateSpec

record kube =
  getRun :: "string \<Rightarrow> string \<Rightarrow> api_error + HarnessRun"
  listRuns :: "api_error + HarnessRun list"
  listPolicies :: "string \<Rightarrow> api_error + BrokerPolicy list"
  getSecret :: "string \<Rightarrow> string \<Rightarrow> api_error + Secret"
  getTemplate :: "string \<Rightarrow> string \<Rightarrow> api_error + HarnessTemplate"
  getClusterTemplate :: "string \<Rightarrow> api_error + HarnessTemplate"
  getNamespaceLabels :: "string \<Rightarrow> api_error + (string, string) gomap"

text \<open>An API server that holds nothing, from which examples are built by record update.\<close>

definition empty_kube :: kube where
  "empty_kube =
     \<lparr> getRun = (\<lambda>_ _. Inl (NotFound ''run not found'')),
       listRuns = Inr [],
       listPolicies = (\<lambda>_. Inr []),
       getSecret = (\<lambda>_ _. Inl (NotFound ''secret not found'')),
       getTemplate = (\<lambda>_ _. Inl (NotFound ''template not found'')),
       getClusterTemplate = (\<lambda>_. Inl (NotFound ''clustertemplate not found'')),
       getNamespaceLabels = (\<lambda>_. Inl (NotFound ''namespace not found'')) \<rparr>"

end
