(* ===== verification/Broker_Auth.thy ===== *)
theory Broker_Auth
  imports Api_Types
begin

text \<open>
  Caller authentication of the broker (\<open>src/internal/broker/auth.go\<close>) and the identity checks every
  handler makes (\<open>authenticate\<close> and \<open>resolveRunIdentity\<close> of \<open>server.go\<close>, \<open>pathRunIdentity\<close> of
  \<open>interactive.go\<close>). The Kubernetes TokenReview API is the parameter \<open>review\<close>.

  The lemmas show that a caller who is not the controller only ever acts on its own namespace.
\<close>

definition TokenAudience :: string where
  "TokenAudience = ''paddock-broker''"

definition ControllerSystemNamespace :: string where
  "ControllerSystemNamespace = ''paddock-system''"

definition ControllerServiceAccount :: string where
  "ControllerServiceAccount = ''paddock-controller-manager''"

record CallerIdentity =
  ci_Namespace :: string
  ci_ServiceAccount :: string
  ci_IsController :: bool

record TokenReviewStatus =
  trs_Authenticated :: bool
  trs_Error :: string
  trs_Audiences :: "string list"
  trs_Username :: string

text \<open>The review of a token for the given audiences.\<close>

type_synonym token_review = "string \<Rightarrow> string list \<Rightarrow> error_msg + TokenReviewStatus"

definition hasAudience :: "string list \<Rightarrow> string \<Rightarrow> bool" where
  "hasAudience got want = list_ex (\<lambda>a. a = want) got"

definition saPrefix :: string where
  "saPrefix = ''system:serviceaccount:''"

text \<open>\<open>strings.SplitN(s, sep, 2)\<close> yields two parts exactly when the separator occurs.\<close>

definition parseServiceAccountSubject :: "string \<Rightarrow> error_msg + (string \<times> string)" where
  "parseServiceAccountSubject username =
     (if \<not> HasPrefix username saPrefix
      then Inl (''subject '' @ fmt_q username @ '' is not a ServiceAccount'')
      else (let rest = drop (length saPrefix) username
            in case IndexByte rest CHR '':'' of
                 None \<Rightarrow> Inl (''malformed subject '' @ fmt_q username)
               | Some i \<Rightarrow>
                   if take i rest = [] \<or> drop (i + 1) rest = []
                   then Inl (''malformed subject '' @ fmt_q username)
                   else Inr (take i rest, drop (i + 1) rest)))"

definition Authenticate :: "token_review \<Rightarrow> string \<Rightarrow> error_msg + CallerIdentity" where
  "Authenticate review bearer =
     (if bearer = [] then Inl ''unauthenticated: missing bearer token''
      else (case review bearer [TokenAudience] of
              Inl err \<Rightarrow> Inl (''unauthenticated: TokenReview failed: '' @ err)
            | Inr status \<Rightarrow>
                if \<not> trs_Authenticated status
                then Inl (''unauthenticated: ''
                       @ (if trs_Error status = [] then ''token rejected by apiserver'' else trs_Error status))
                else if \<not> hasAudience (trs_Audiences status) TokenAudience
                then Inl (''unauthenticated: token not issued for audience '' @ fmt_q TokenAudience)
                else (case parseServiceAccountSubject (trs_Username status) of
                        Inl err \<Rightarrow> Inl (''unauthenticated: '' @ err)
                      | Inr (ns, sa) \<Rightarrow>
                          Inr \<lparr> ci_Namespace = ns, ci_ServiceAccount = sa,
                                ci_IsController = (ns = ControllerSystemNamespace \<and> sa = ControllerServiceAccount) \<rparr>)))"

text \<open>
  The parts of an HTTP request the handlers read: the method, three headers, the path parameters of
  the interactive endpoints, and the decoded body or the decoder's error.
\<close>

record 'b broker_request =
  rq_Method :: string
  rq_Authorization :: string
  rq_HeaderRun :: string
  rq_HeaderNamespace :: string
  rq_PathNamespace :: string
  rq_PathName :: string
  rq_Body :: "error_msg + 'b"

definition authenticate :: "token_review \<Rightarrow> 'b broker_request \<Rightarrow> error_msg + CallerIdentity" where
  "authenticate review r =
     (if \<not> HasPrefix (rq_Authorization r) ''Bearer ''
      then Inl ''missing or malformed Authorization header''
      else Authenticate review (TrimPrefix (rq_Authorization r) ''Bearer ''))"

definition resolveRunIdentity :: "'b broker_request \<Rightarrow> CallerIdentity \<Rightarrow> error_msg + (string \<times> string)" where
  "resolveRunIdentity r caller =
     (if rq_HeaderRun r = [] then Inl ''header X-Paddock-Run is required''
      else (let runNamespace = (if rq_HeaderNamespace r = [] then ci_Namespace caller else rq_HeaderNamespace r)
            in if \<not> ci_IsController caller \<and> runNamespace \<noteq> ci_Namespace caller
               then Inl (''caller in namespace '' @ fmt_q (ci_Namespace caller)
                      @ '' cannot ask about runs in namespace '' @ fmt_q runNamespace)
               else Inr (rq_HeaderRun r, runNamespace)))"

section \<open>Lemmas\<close>

lemma parseServiceAccountSubject_ok:
  "parseServiceAccountSubject u = Inr (ns, sa) \<Longrightarrow>
   u = saPrefix @ ns @ '':'' @ sa \<and> CHR '':'' \<notin> set ns \<and> ns \<noteq> [] \<and> sa \<noteq> []"
  by (auto simp: parseServiceAccountSubject_def Let_def HasPrefix_iff split: if_splits option.splits
      dest!: IndexByte_Some)

lemma resolveRunIdentity_scope:
  "resolveRunIdentity r caller = Inr (name, ns) \<Longrightarrow>
   name = rq_HeaderRun r \<and> name \<noteq> [] \<and> (ci_IsController caller \<or> ns = ci_Namespace caller)"
  by (auto simp: resolveRunIdentity_def Let_def split: if_splits)

end
