(* ===== verification/Policy_Match.thy ===== *)
theory Policy_Match
  imports Api_Types
begin

text \<open>
  Selector and destination matching of package \<open>policy\<close>: \<open>AppliesToTemplate\<close> and
  \<open>ValidateAppliesToTemplate\<close> (\<open>resolver.go\<close>) over Go's \<open>path.Match\<close>, \<open>EgressHostMatches\<close> and
  \<open>portMatches\<close> (\<open>intersect.go\<close>), \<open>AnyHostMatches\<close> (\<open>host_match.go\<close>).

  \<open>path.Match\<close> is the standard library's: the pattern is parsed by the documented grammar
  (\<open>None\<close> is \<open>ErrBadPattern\<close>) and the parsed items are matched against the whole name, a star
  matching any run of bytes other than a slash.

  The lemmas show that host matching is a reflexive, transitive, case-insensitive relation in
  which a wildcard covers exactly the proper subdomains of its suffix, and that port matching is
  transitive through a requirement. Both are what makes admission and the run-time checks agree.
\<close>

section \<open>Glob patterns of package path\<close>

datatype glob_item =
    GStar
  | GAny
  | GClass bool "(char \<times> char) list"
  | GLit char

definition getEsc :: "string \<Rightarrow> (char \<times> string) option" where
  "getEsc s =
     (case s of
        [] \<Rightarrow> None
      | c # cs \<Rightarrow>
          if c = CHR ''-'' \<or> c = CHR '']'' then None
          else (case (if c = backslash then cs else s) of
                  [] \<Rightarrow> None
                | r # n \<Rightarrow> if n = [] then None else Some (r, n)))"

lemma getEsc_length: "getEsc s = Some (r, n) \<Longrightarrow> length n < length s \<and> n \<noteq> []"
  by (auto simp: getEsc_def split: list.splits if_splits)

text \<open>One range of a character class: a byte, or two bytes joined by a dash.\<close>

definition getRange :: "string \<Rightarrow> ((char \<times> char) \<times> string) option" where
  "getRange s =
     (case getEsc s of
        None \<Rightarrow> None
      | Some (lo, s1) \<Rightarrow>
          if hd s1 = CHR ''-'' then map_option (\<lambda>(hi, s2). ((lo, hi), s2)) (getEsc (tl s1))
          else Some ((lo, lo), s1))"

lemma getRange_length: "getRange s = Some (r, n) \<Longrightarrow> length n < length s"
  by (auto simp: getRange_def split: option.splits if_splits dest!: getEsc_length)

function parse_ranges :: "bool \<Rightarrow> string \<Rightarrow> ((char \<times> char) list \<times> string) option" where
  "parse_ranges started s =
     (if started \<and> s \<noteq> [] \<and> hd s = CHR '']'' then Some ([], tl s)
      else (case getRange s of
              None \<Rightarrow> None
            | Some (r, s1) \<Rightarrow> map_option (\<lambda>(rs, rest). (r # rs, rest)) (parse_ranges True s1)))"
  by pat_completeness auto
termination
  by (relation "measure (\<lambda>(b, s). length s)") (auto dest: getRange_length)

declare parse_ranges.simps [simp del]

lemma parse_ranges_length: "parse_ranges b s = Some (rs, n) \<Longrightarrow> length n < length s"
proof (induction b s arbitrary: rs n rule: parse_ranges.induct)
  case (1 b s)
  show ?case
  proof (cases "b \<and> s \<noteq> [] \<and> hd s = CHR '']''")
    case True
    then have "parse_ranges b s = Some ([], tl s)" by (subst parse_ranges.simps) simp
    with True "1.prems" show ?thesis by auto
  next
    case False
    with "1.prems" obtain r s1 rs' where r: "getRange s = Some (r, s1)"
      and p: "parse_ranges True s1 = Some (rs', n)"
      by (auto simp: parse_ranges.simps [of b s] split: option.splits)
    from "1.IH" [OF False r] p have "length n < length s1" by simp
    with getRange_length [OF r] show ?thesis by simp
  qed
qed

definition parse_class :: "string \<Rightarrow> (glob_item \<times> string) option" where
  "parse_class s =
     (let neg = (s \<noteq> [] \<and> hd s = CHR ''^'')
      in map_option (\<lambda>(rs, rest). (GClass neg rs, rest))
           (parse_ranges False (if neg then tl s else s)))"

lemma parse_class_length: "parse_class s = Some (g, n) \<Longrightarrow> length n < length s"
  by (auto simp: parse_class_def Let_def split: if_splits dest!: parse_ranges_length)

function parse_glob :: "string \<Rightarrow> glob_item list option" where
  "parse_glob [] = Some []"
| "parse_glob (c # cs) =
     (if c = CHR ''*'' then map_option (\<lambda>g. GStar # g) (parse_glob cs)
      else if c = CHR ''?'' then map_option (\<lambda>g. GAny # g) (parse_glob cs)
      else if c = CHR ''['' then
        (case parse_class cs of
           None \<Rightarrow> None
         | Some (g, rest) \<Rightarrow> map_option (\<lambda>gs. g # gs) (parse_glob rest))
      else if c = backslash then
        (case cs of [] \<Rightarrow> None | d # ds \<Rightarrow> map_option (\<lambda>g. GLit d # g) (parse_glob ds))
      else map_option (\<lambda>g. GLit c # g) (parse_glob cs))"
  by pat_completeness auto
termination
  by (relation "measure length") (auto dest: parse_class_length)

fun glob_match :: "glob_item list \<Rightarrow> string \<Rightarrow> bool" where
  "glob_match [] s \<longleftrightarrow> s = []"
| "glob_match (GStar # g) [] \<longleftrightarrow> glob_match g []"
| "glob_match (GStar # g) (c # cs) \<longleftrightarrow>
     glob_match g (c # cs) \<or> (c \<noteq> CHR ''/'' \<and> glob_match (GStar # g) cs)"
| "glob_match (GAny # g) [] \<longleftrightarrow> False"
| "glob_match (GAny # g) (c # cs) \<longleftrightarrow> c \<noteq> CHR ''/'' \<and> glob_match g cs"
| "glob_match (GClass neg rs # g) [] \<longleftrightarrow> False"
| "glob_match (GClass neg rs # g) (c # cs) \<longleftrightarrow>
     (list_ex (\<lambda>(lo, hi). (of_char lo :: nat) \<le> of_char c \<and> (of_char c :: nat) \<le> of_char hi) rs \<noteq> neg)
     \<and> glob_match g cs"
| "glob_match (GLit d # g) [] \<longleftrightarrow> False"
| "glob_match (GLit d # g) (c # cs) \<longleftrightarrow> c = d \<and> glob_match g cs"

definition ErrBadPattern :: error_msg where
  "ErrBadPattern = ''syntax error in pattern''"

definition path_Match :: "string \<Rightarrow> string \<Rightarrow> error_msg + bool" where
  "path_Match pattern name =
     (case parse_glob pattern of None \<Rightarrow> Inl ErrBadPattern | Some g \<Rightarrow> Inr (glob_match g name))"

section \<open>Template selectors\<close>

fun AppliesToTemplate :: "string list \<Rightarrow> string \<Rightarrow> bool" where
  "AppliesToTemplate [] templateName = False"
| "AppliesToTemplate (sel # sels) templateName =
     (if sel = ''*'' then True
      else (case path_Match sel templateName of
              Inl err \<Rightarrow> AppliesToTemplate sels templateName
            | Inr ok \<Rightarrow> if ok then True else AppliesToTemplate sels templateName))"

definition ValidateAppliesToTemplate :: "string \<Rightarrow> error_msg option" where
  "ValidateAppliesToTemplate selector =
     (case path_Match selector '''' of Inl err \<Rightarrow> Some err | Inr _ \<Rightarrow> None)"

section \<open>Destinations\<close>

definition EgressHostMatches :: "string \<Rightarrow> string \<Rightarrow> bool" where
  "EgressHostMatches grant required =
     (let g = ToLower grant; r = ToLower required
      in if g = r then True
         else if HasPrefix g ''*.'' then
           (let suffix = drop 1 g
            in HasSuffix r suffix \<and> length r > length suffix)
         else False)"

definition hostMatches :: "string \<Rightarrow> string \<Rightarrow> bool" where
  "hostMatches grant required = EgressHostMatches grant required"

definition portMatches :: "int list \<Rightarrow> int \<Rightarrow> bool" where
  "portMatches grantPorts required =
     (if grantPorts = [] then True
      else list_ex (\<lambda>p. p = 0 \<or> p = required) grantPorts)"

definition AnyHostMatches :: "string list \<Rightarrow> string \<Rightarrow> bool" where
  "AnyHostMatches grants required =
     (let r = TrimSpace required
      in list_ex (\<lambda>g. EgressHostMatches (TrimSpace g) r) grants)"

section \<open>Selectors: lemmas\<close>

definition glob_meta :: "char set" where
  "glob_meta = {CHR ''*'', CHR ''?'', CHR ''['', backslash}"

lemma parse_glob_literal: "set s \<inter> glob_meta = {} \<Longrightarrow> parse_glob s = Some (map GLit s)"
  by (induction s) (auto simp: glob_meta_def)

lemma glob_match_literal [simp]: "glob_match (map GLit s) n \<longleftrightarrow> n = s"
proof (induction s arbitrary: n)
  case (Cons d s)
  then show ?case by (cases n) auto
qed auto

lemma glob_match_star [simp]: "glob_match [GStar] s \<longleftrightarrow> CHR ''/'' \<notin> set s"
  by (induction s) auto

lemma glob_match_star_append:
  "CHR ''/'' \<notin> set a \<Longrightarrow> glob_match g b \<Longrightarrow> glob_match (GStar # g) (a @ b)"
proof (induction a)
  case Nil
  then show ?case by (cases b) auto
qed auto

lemma glob_match_star_split:
  "glob_match (GStar # g) s \<longleftrightarrow> (\<exists>a b. s = a @ b \<and> CHR ''/'' \<notin> set a \<and> glob_match g b)"
proof
  show "glob_match (GStar # g) s \<Longrightarrow> \<exists>a b. s = a @ b \<and> CHR ''/'' \<notin> set a \<and> glob_match g b"
  proof (induction s)
    case (Cons c cs)
    show ?case
    proof (cases "glob_match g (c # cs)")
      case True
      then show ?thesis by (metis append_Nil empty_iff empty_set)
    next
      case False
      with Cons obtain a b where "cs = a @ b" "CHR ''/'' \<notin> set (c # a)" "glob_match g b"
        by auto
      then have "c # cs = (c # a) @ b \<and> CHR ''/'' \<notin> set (c # a) \<and> glob_match g b" by simp
      then show ?thesis by blast
    qed
  qed auto
qed (auto intro: glob_match_star_append)

lemma AppliesToTemplate_iff:
  "AppliesToTemplate sels n \<longleftrightarrow> (\<exists>sel \<in> set sels. sel = ''*'' \<or> path_Match sel n = Inr True)"
  by (induction sels) (auto split: sum.splits if_splits)

lemma ValidateAppliesToTemplate_None:
  "ValidateAppliesToTemplate sel = None \<longleftrightarrow> parse_glob sel \<noteq> None"
  by (auto simp: ValidateAppliesToTemplate_def path_Match_def split: option.splits)

section \<open>Destinations: lemmas\<close>

lemma proper_suffix_iff:
  "HasSuffix r s \<and> length s < length r \<longleftrightarrow> (\<exists>a. r = a @ s \<and> a \<noteq> [])"
proof -
  have "(r = a @ s \<and> length s < length r) = (r = a @ s \<and> a \<noteq> [])" for a by (cases a) auto
  then show ?thesis unfolding HasSuffix_iff by blast
qed

lemma EgressHostMatches_iff:
  "EgressHostMatches g r \<longleftrightarrow>
     ToLower g = ToLower r \<or>
     (\<exists>s a. ToLower g = ''*.'' @ s \<and> ToLower r = a @ ''.'' @ s \<and> a \<noteq> [])"
proof (cases "HasPrefix (ToLower g) ''*.''")
  case True
  then obtain s where s: "ToLower g = ''*.'' @ s" by (auto simp: HasPrefix_iff)
  then have "drop 1 (ToLower g) = ''.'' @ s" by simp
  with True show ?thesis
    unfolding EgressHostMatches_def Let_def proper_suffix_iff s by auto
next
  case False
  then have "\<nexists>s. ToLower g = ''*.'' @ s" by (simp add: HasPrefix_iff)
  with False show ?thesis by (auto simp: EgressHostMatches_def Let_def)
qed

lemma EgressHostMatches_refl [simp]: "EgressHostMatches h h"
  by (simp add: EgressHostMatches_iff)

lemma EgressHostMatches_lower [simp]:
  "EgressHostMatches (ToLower g) r = EgressHostMatches g r"
  "EgressHostMatches g (ToLower r) = EgressHostMatches g r"
  by (simp_all add: EgressHostMatches_iff)

lemma EgressHostMatches_trans:
  assumes gr: "EgressHostMatches g r" and rh: "EgressHostMatches r h"
  shows "EgressHostMatches g h"
proof (cases "ToLower g = ToLower r \<or> ToLower r = ToLower h")
  case True
  with gr rh show ?thesis by (auto simp: EgressHostMatches_iff)
next
  case False
  with gr obtain s a where g: "ToLower g = ''*.'' @ s" and r: "ToLower r = a @ ''.'' @ s" and "a \<noteq> []"
    by (auto simp: EgressHostMatches_iff)
  from False rh obtain t b where r': "ToLower r = ''*.'' @ t" and h: "ToLower h = b @ ''.'' @ t" and "b \<noteq> []"
    by (auto simp: EgressHostMatches_iff)
  from r r' \<open>a \<noteq> []\<close> obtain a' where "a' @ ''.'' @ s = ''.'' @ t"
    by (cases a) auto
  with h have "ToLower h = (b @ a') @ ''.'' @ s" by simp
  with g \<open>b \<noteq> []\<close> show ?thesis by (auto simp: EgressHostMatches_iff)
qed

lemma portMatches_iff: "portMatches ps p \<longleftrightarrow> ps = [] \<or> 0 \<in> set ps \<or> p \<in> set ps"
  by (auto simp: portMatches_def list_ex_iff)

lemma AnyHostMatches_iff:
  "AnyHostMatches gs h \<longleftrightarrow> (\<exists>g \<in> set gs. EgressHostMatches (TrimSpace g) (TrimSpace h))"
  by (simp add: AnyHostMatches_def list_ex_iff)

end
