(* ===== verification/Policy_Intersect.thy ===== *)
theory Policy_Intersect
  imports Policy_Match
begin

text \<open>
  The admission algorithm of package \<open>policy\<close>: \<open>ListMatchingPolicies\<close>, \<open>Intersect\<close>,
  \<open>IntersectMatches\<close>, \<open>mergeShell\<close>, \<open>DescribeShortfall\<close> (\<open>intersect.go\<close>), the discovery
  window functions (\<open>discovery.go\<close>) and the interception-mode resolver
  (\<open>interception_mode.go\<close>).

  The lemmas characterise \<open>IntersectMatches\<close> by what it decides (\<open>cred_granted\<close>,
  \<open>egress_granted\<close>), give the shell merge a meaning as a join of permissions, and show the
  fail-closed shape of the interception decision.
\<close>

section \<open>Intersection\<close>

record EgressShortfall =
  es_Host :: string
  es_Port :: int

record CoveredCredential =
  cc_Policy :: string
  cc_Provider :: string

record IntersectionResult =
  ir_Admitted :: bool
  ir_MatchedPolicies :: "string list"
  ir_MissingCredentials :: "string list"
  ir_MissingEgress :: "EgressShortfall list"
  ir_CoveredCredentials :: "(string, CoveredCredential) gomap"
  ir_RunsInteract :: bool
  ir_Shell :: "ShellCapability option"

abbreviation bp_Grants :: "BrokerPolicy \<Rightarrow> BrokerPolicyGrants" where
  "bp_Grants bp \<equiv> bps_Grants (bp_Spec bp)"

definition ListMatchingPolicies ::
  "kube \<Rightarrow> string \<Rightarrow> string \<Rightarrow> api_error + BrokerPolicy list" where
  "ListMatchingPolicies c namespace templateName =
     (case listPolicies c namespace of
        Inl err \<Rightarrow> Inl err
      | Inr items \<Rightarrow>
          Inr (filter (\<lambda>bp. AppliesToTemplate (bps_AppliesToTemplates (bp_Spec bp)) templateName) items))"

definition mergeShell :: "ShellCapability option \<Rightarrow> ShellCapability \<Rightarrow> ShellCapability" where
  "mergeShell a b =
     (case a of
        None \<Rightarrow> b
      | Some out0 \<Rightarrow>
          let out1 = (if sc_Target b = ''agent'' then out0\<lparr>sc_Target := ''agent''\<rparr> else out0);
              out2 = (if sc_AllowedPhases b = [] then out1\<lparr>sc_AllowedPhases := []\<rparr>
                      else if sc_AllowedPhases out1 \<noteq> [] then
                        out1\<lparr>sc_AllowedPhases :=
                          foldl (\<lambda>acc ph. if ph \<in> set acc then acc else acc @ [ph])
                            (sc_AllowedPhases out1) (sc_AllowedPhases b)\<rparr>
                      else out1);
              out3 = (if sc_RecordTranscript b then out2\<lparr>sc_RecordTranscript := True\<rparr> else out2)
          in if sc_Command out3 = [] \<and> sc_Command b \<noteq> [] then out3\<lparr>sc_Command := sc_Command b\<rparr>
             else out3)"

fun grantsCoverEgress :: "BrokerPolicy list \<Rightarrow> string \<Rightarrow> int \<Rightarrow> bool" where
  "grantsCoverEgress [] host port = False"
| "grantsCoverEgress (bp # bps) host port =
     (if list_ex (\<lambda>g. hostMatches (eg_Host g) host \<and> portMatches (eg_Ports g) port)
           (gs_Egress (bp_Grants bp))
      then True else grantsCoverEgress bps host port)"

text \<open>The two nested loops that look for the policy granting a required credential.\<close>

fun findCoverage :: "BrokerPolicy list \<Rightarrow> string \<Rightarrow> CoveredCredential option" where
  "findCoverage [] name = None"
| "findCoverage (bp # bps) name =
     (case find (\<lambda>g. cg_Name g = name) (gs_Credentials (bp_Grants bp)) of
        Some g \<Rightarrow> Some \<lparr>cc_Policy = bp_Name bp, cc_Provider = pc_Kind (cg_Provider g)\<rparr>
      | None \<Rightarrow> findCoverage bps name)"

definition intersectCredential ::
  "BrokerPolicy list \<Rightarrow> CredentialRequirement \<Rightarrow> IntersectionResult \<Rightarrow> IntersectionResult" where
  "intersectCredential matching cred res =
     (case findCoverage matching (cr_Name cred) of
        None \<Rightarrow> res\<lparr>ir_Admitted := False,
                    ir_MissingCredentials := ir_MissingCredentials res @ [cr_Name cred]\<rparr>
      | Some cov \<Rightarrow> res\<lparr>ir_CoveredCredentials :=
                        mset_key (cr_Name cred) cov (ir_CoveredCredentials res)\<rparr>)"

definition intersectPort ::
  "BrokerPolicy list \<Rightarrow> string \<Rightarrow> int \<Rightarrow> IntersectionResult \<Rightarrow> IntersectionResult" where
  "intersectPort matching host port res =
     (if \<not> grantsCoverEgress matching host port
      then res\<lparr>ir_Admitted := False,
               ir_MissingEgress := ir_MissingEgress res @ [\<lparr>es_Host = host, es_Port = port\<rparr>]\<rparr>
      else res)"

definition reqPorts :: "EgressRequirement \<Rightarrow> int list" where
  "reqPorts eg = (if er_Ports eg = [] then [0] else er_Ports eg)"

definition intersectEgress ::
  "BrokerPolicy list \<Rightarrow> EgressRequirement \<Rightarrow> IntersectionResult \<Rightarrow> IntersectionResult" where
  "intersectEgress matching eg res = fold (intersectPort matching (er_Host eg)) (reqPorts eg) res"

definition intersectRuns :: "BrokerPolicy \<Rightarrow> IntersectionResult \<Rightarrow> IntersectionResult" where
  "intersectRuns p res =
     (case gs_Runs (bp_Grants p) of
        None \<Rightarrow> res
      | Some runs \<Rightarrow>
          let res1 = (if rc_Interact runs then res\<lparr>ir_RunsInteract := True\<rparr> else res)
          in (case rc_Shell runs of
                None \<Rightarrow> res1
              | Some sh \<Rightarrow> res1\<lparr>ir_Shell := Some (mergeShell (ir_Shell res1) sh)\<rparr>))"

definition IntersectMatches :: "BrokerPolicy list \<Rightarrow> RequireSpec \<Rightarrow> IntersectionResult" where
  "IntersectMatches matching requires =
     (let r0 = \<lparr> ir_Admitted = True, ir_MatchedPolicies = map bp_Name matching,
                 ir_MissingCredentials = [], ir_MissingEgress = [], ir_CoveredCredentials = [],
                 ir_RunsInteract = False, ir_Shell = None \<rparr>;
          r1 = fold (intersectCredential matching) (rq_Credentials requires) r0;
          r2 = fold (intersectEgress matching) (rq_Egress requires) r1
      in fold intersectRuns matching r2)"

definition Intersect ::
  "kube \<Rightarrow> string \<Rightarrow> string \<Rightarrow> RequireSpec \<Rightarrow> api_error + IntersectionResult" where
  "Intersect c namespace templateName requires =
     (case ListMatchingPolicies c namespace templateName of
        Inl err \<Rightarrow> Inl err
      | Inr matching \<Rightarrow> Inr (IntersectMatches matching requires))"

definition newline :: string where
  "newline = [char_of (10::nat)]"

definition DescribeShortfall :: "IntersectionResult \<Rightarrow> string \<Rightarrow> string \<Rightarrow> string" where
  "DescribeShortfall result templateName namespace =
     ''template '' @ fmt_q templateName @ '' requires capabilities not granted in namespace ''
       @ fmt_q namespace @ '':'' @ newline
     @ concat (map (\<lambda>c. ''  - credential: '' @ c @ newline) (ir_MissingCredentials result))
     @ concat (map (\<lambda>e. if es_Port e = 0 then ''  - egress: '' @ es_Host e @ newline
                        else ''  - egress: '' @ es_Host e @ '':'' @ fmt_d (es_Port e) @ newline)
                 (ir_MissingEgress result))
     @ (if ir_MatchedPolicies result = []
        then ''  Matching BrokerPolicies considered: (none)'' @ newline
        else ''  Matching BrokerPolicies considered: ''
               @ Join (ir_MatchedPolicies result) '', '' @ newline)
     @ ''  Hint: kubectl paddock policy scaffold '' @ templateName @ '' -n '' @ namespace"

section \<open>Discovery windows\<close>

definition discoveryActive :: "BrokerPolicy \<Rightarrow> time \<Rightarrow> bool" where
  "discoveryActive bp now =
     (case bps_EgressDiscovery (bp_Spec bp) of
        None \<Rightarrow> False
      | Some ed \<Rightarrow> if \<not> ed_Accepted ed then False else ed_ExpiresAt ed > now)"

definition discoveryExpired :: "BrokerPolicy \<Rightarrow> time \<Rightarrow> bool" where
  "discoveryExpired bp now =
     (case bps_EgressDiscovery (bp_Spec bp) of
        None \<Rightarrow> False
      | Some ed \<Rightarrow> if \<not> ed_Accepted ed then False else \<not> ed_ExpiresAt ed > now)"

definition AnyDiscoveryActive :: "BrokerPolicy list \<Rightarrow> time \<Rightarrow> bool" where
  "AnyDiscoveryActive matches now = list_ex (\<lambda>bp. discoveryActive bp now) matches"

definition FilterUnexpired :: "BrokerPolicy list \<Rightarrow> time \<Rightarrow> BrokerPolicy list" where
  "FilterUnexpired matches now = filter (\<lambda>bp. \<not> discoveryExpired bp now) matches"

section \<open>Interception mode\<close>

record InterceptionDecision =
  id_Mode :: InterceptionMode
  id_Unavailable :: bool
  id_Reason :: string
  id_AcceptanceReason :: string
  id_MatchedPolicy :: string

record mergedInterception =
  mi_Mode :: InterceptionMode
  mi_AcceptanceReason :: string
  mi_MatchedPolicy :: string

definition cooperativeReason :: "BrokerPolicy \<Rightarrow> string option" where
  "cooperativeReason bp =
     (case bps_Interception (bp_Spec bp) of
        None \<Rightarrow> None
      | Some i \<Rightarrow> (case is_CooperativeAccepted i of
                    None \<Rightarrow> None
                  | Some ca \<Rightarrow> if \<not> ca_Accepted ca then None else Some (ca_Reason ca)))"

text \<open>The loop of \<open>mergePolicyInterception\<close>; \<open>None\<close> once \<open>allCooperative\<close> is cleared.\<close>

fun mergeInterceptionLoop :: "BrokerPolicy list \<Rightarrow> string \<Rightarrow> string \<Rightarrow> (string \<times> string) option" where
  "mergeInterceptionLoop [] firstReason firstName = Some (firstReason, firstName)"
| "mergeInterceptionLoop (bp # bps) firstReason firstName =
     (case cooperativeReason bp of
        None \<Rightarrow> None
      | Some reason \<Rightarrow>
          if firstReason = [] then mergeInterceptionLoop bps reason (bp_Name bp)
          else mergeInterceptionLoop bps firstReason firstName)"

definition mergePolicyInterception :: "BrokerPolicy list \<Rightarrow> mergedInterception" where
  "mergePolicyInterception matches =
     (let transparent = \<lparr>mi_Mode = InterceptionModeTransparent, mi_AcceptanceReason = [], mi_MatchedPolicy = []\<rparr>
      in if matches = [] then transparent
         else (case mergeInterceptionLoop matches [] [] of
                 Some (reason, name) \<Rightarrow>
                   \<lparr>mi_Mode = InterceptionModeCooperative, mi_AcceptanceReason = reason, mi_MatchedPolicy = name\<rparr>
               | None \<Rightarrow> transparent))"

definition PSAEnforceLabel :: string where
  "PSAEnforceLabel = ''pod-security.kubernetes.io/enforce''"

definition psaBlocksNetAdmin :: "string \<Rightarrow> bool" where
  "psaBlocksNetAdmin level \<longleftrightarrow> level = ''restricted'' \<or> level = ''baseline''"

definition psaReason :: "string \<Rightarrow> string \<Rightarrow> string" where
  "psaReason ns level =
     ''namespace '' @ fmt_q ns @ '' has PSA enforce='' @ fmt_q level
     @ '' which forbids NET_ADMIN on the iptables init container required for transparent interception; ''
     @ ''either relabel the namespace as privileged or set ''
     @ ''spec.interception.cooperativeAccepted on the BrokerPolicy.''"

definition ResolveInterceptionMode ::
  "kube \<Rightarrow> string \<Rightarrow> BrokerPolicy list \<Rightarrow> error_msg + InterceptionDecision" where
  "ResolveInterceptionMode c ns matches =
     (let merged = mergePolicyInterception matches
      in if mi_Mode merged = InterceptionModeCooperative then
           Inr \<lparr>id_Mode = mi_Mode merged, id_Unavailable = False, id_Reason = [],
                id_AcceptanceReason = mi_AcceptanceReason merged,
                id_MatchedPolicy = mi_MatchedPolicy merged\<rparr>
         else
           let decide = (\<lambda>labels.
                 let level = (case map_of labels PSAEnforceLabel of None \<Rightarrow> [] | Some l \<Rightarrow> l)
                 in if psaBlocksNetAdmin level then
                      \<lparr>id_Mode = InterceptionModeUnset, id_Unavailable = True,
                       id_Reason = psaReason ns level, id_AcceptanceReason = [], id_MatchedPolicy = []\<rparr>
                    else
                      \<lparr>id_Mode = InterceptionModeTransparent, id_Unavailable = False,
                       id_Reason = [], id_AcceptanceReason = [], id_MatchedPolicy = []\<rparr>)
           in (case getNamespaceLabels c ns of
                 Inl e \<Rightarrow> if \<not> IsNotFound e
                          then Inl (''reading namespace '' @ ns @ '': '' @ api_Error e)
                          else Inr (decide [])
               | Inr labels \<Rightarrow> Inr (decide labels)))"

section \<open>What the intersection decides\<close>

definition cred_granted :: "BrokerPolicy list \<Rightarrow> string \<Rightarrow> bool" where
  "cred_granted matching n \<longleftrightarrow>
     (\<exists>bp \<in> set matching. \<exists>g \<in> set (gs_Credentials (bp_Grants bp)). cg_Name g = n)"

definition egress_granted :: "BrokerPolicy list \<Rightarrow> string \<Rightarrow> int \<Rightarrow> bool" where
  "egress_granted matching h p \<longleftrightarrow>
     (\<exists>bp \<in> set matching. \<exists>g \<in> set (gs_Egress (bp_Grants bp)).
        EgressHostMatches (eg_Host g) h \<and> portMatches (eg_Ports g) p)"

definition required_destinations :: "RequireSpec \<Rightarrow> (string \<times> int) list" where
  "required_destinations rq = concat (map (\<lambda>eg. map (Pair (er_Host eg)) (reqPorts eg)) (rq_Egress rq))"

lemma grantsCoverEgress_iff: "grantsCoverEgress m h p \<longleftrightarrow> egress_granted m h p"
  by (induction m) (auto simp: egress_granted_def hostMatches_def list_ex_iff)

lemma findCoverage_None: "findCoverage m n = None \<longleftrightarrow> \<not> cred_granted m n"
proof (induction m)
  case (Cons bp bps)
  show ?case
  proof (cases "find (\<lambda>g. cg_Name g = n) (gs_Credentials (bp_Grants bp))")
    case None
    then have "\<forall>g \<in> set (gs_Credentials (bp_Grants bp)). cg_Name g \<noteq> n"
      by (simp only: find_None_ball)
    with Cons None show ?thesis by (auto simp: cred_granted_def)
  next
    case (Some g)
    then have "g \<in> set (gs_Credentials (bp_Grants bp)) \<and> cg_Name g = n"
      by (rule find_SomeD)
    with Some show ?thesis by (auto simp: cred_granted_def)
  qed
qed (simp add: cred_granted_def)

lemma cred_granted_coverage: "cred_granted m n \<longleftrightarrow> findCoverage m n \<noteq> None"
  by (simp add: findCoverage_None)

lemma findCoverage_Some:
  assumes "findCoverage m n = Some cov"
  obtains bp g where "bp \<in> set m" and "g \<in> set (gs_Credentials (bp_Grants bp))"
    and "cg_Name g = n" and "cov = \<lparr>cc_Policy = bp_Name bp, cc_Provider = pc_Kind (cg_Provider g)\<rparr>"
  using assms
proof (induction m)
  case (Cons bp bps)
  then show ?case
    by (auto simp: find_Some_iff split: option.splits) (metis nth_mem)
qed simp

text \<open>Each fold touches only its own fields.\<close>

lemma fold_credentials:
  fixes m cs res
  defines "r \<equiv> fold (intersectCredential m) cs res"
  shows "ir_Admitted r \<longleftrightarrow> ir_Admitted res \<and> (\<forall>c \<in> set cs. cred_granted m (cr_Name c))"
    and "ir_MissingCredentials r =
           ir_MissingCredentials res @ filter (\<lambda>n. \<not> cred_granted m n) (map cr_Name cs)"
    and "ir_MatchedPolicies r = ir_MatchedPolicies res"
    and "ir_MissingEgress r = ir_MissingEgress res"
    and "ir_RunsInteract r = ir_RunsInteract res"
    and "ir_Shell r = ir_Shell res"
    and "map_of (ir_CoveredCredentials r) n =
           (if n \<in> cr_Name ` set cs \<and> cred_granted m n then findCoverage m n
            else map_of (ir_CoveredCredentials res) n)"
  unfolding r_def cred_granted_coverage
  by (induction cs arbitrary: res; auto simp: intersectCredential_def go_map_lookup split: option.splits)+

lemma fold_ports:
  fixes m h ps res
  defines "r \<equiv> fold (intersectPort m h) ps res"
  shows "ir_Admitted r \<longleftrightarrow> ir_Admitted res \<and> (\<forall>p \<in> set ps. egress_granted m h p)"
    and "ir_MissingEgress r = ir_MissingEgress res
           @ map (\<lambda>p. \<lparr>es_Host = h, es_Port = p\<rparr>) (filter (\<lambda>p. \<not> egress_granted m h p) ps)"
    and "ir_MatchedPolicies r = ir_MatchedPolicies res"
    and "ir_MissingCredentials r = ir_MissingCredentials res"
    and "ir_CoveredCredentials r = ir_CoveredCredentials res"
    and "ir_RunsInteract r = ir_RunsInteract res"
    and "ir_Shell r = ir_Shell res"
  unfolding r_def
  by (induction ps arbitrary: res) (auto simp: intersectPort_def grantsCoverEgress_iff)

lemma fold_egress:
  fixes m es res
  defines "r \<equiv> fold (intersectEgress m) es res"
  shows "ir_Admitted r \<longleftrightarrow>
           ir_Admitted res \<and> (\<forall>eg \<in> set es. \<forall>p \<in> set (reqPorts eg). egress_granted m (er_Host eg) p)"
    and "ir_MissingEgress r = ir_MissingEgress res
           @ map (\<lambda>(h, p). \<lparr>es_Host = h, es_Port = p\<rparr>)
               (filter (\<lambda>(h, p). \<not> egress_granted m h p)
                 (concat (map (\<lambda>eg. map (Pair (er_Host eg)) (reqPorts eg)) es)))"
    and "ir_MatchedPolicies r = ir_MatchedPolicies res"
    and "ir_MissingCredentials r = ir_MissingCredentials res"
    and "ir_CoveredCredentials r = ir_CoveredCredentials res"
    and "ir_RunsInteract r = ir_RunsInteract res"
    and "ir_Shell r = ir_Shell res"
  unfolding r_def
  by (induction es arbitrary: res)
     (auto simp: intersectEgress_def fold_ports filter_map comp_def)

definition policy_shells :: "BrokerPolicy list \<Rightarrow> ShellCapability list" where
  "policy_shells m =
     List.map_filter (\<lambda>p. Option.bind (gs_Runs (bp_Grants p)) rc_Shell) m"

definition policy_interact :: "BrokerPolicy \<Rightarrow> bool" where
  "policy_interact p = (case gs_Runs (bp_Grants p) of None \<Rightarrow> False | Some runs \<Rightarrow> rc_Interact runs)"

fun merge_shells :: "ShellCapability option \<Rightarrow> ShellCapability list \<Rightarrow> ShellCapability option" where
  "merge_shells a [] = a"
| "merge_shells a (b # bs) = merge_shells (Some (mergeShell a b)) bs"

lemma fold_runs:
  fixes m res
  defines "r \<equiv> fold intersectRuns m res"
  shows "ir_Admitted r = ir_Admitted res"
    and "ir_MatchedPolicies r = ir_MatchedPolicies res"
    and "ir_MissingCredentials r = ir_MissingCredentials res"
    and "ir_MissingEgress r = ir_MissingEgress res"
    and "ir_CoveredCredentials r = ir_CoveredCredentials res"
    and "ir_RunsInteract r \<longleftrightarrow> ir_RunsInteract res \<or> (\<exists>p \<in> set m. policy_interact p)"
    and "ir_Shell r = merge_shells (ir_Shell res) (policy_shells m)"
  unfolding r_def
  by (induction m arbitrary: res)
     (auto simp: intersectRuns_def policy_interact_def policy_shells_def map_filter_simps
           split: option.splits)

lemmas intersect_folds = fold_credentials fold_egress fold_runs

lemma IntersectMatches_fields:
  "ir_Admitted (IntersectMatches m rq) \<longleftrightarrow>
     (\<forall>c \<in> set (rq_Credentials rq). cred_granted m (cr_Name c)) \<and>
     (\<forall>(h, p) \<in> set (required_destinations rq). egress_granted m h p)"
  "ir_MissingCredentials (IntersectMatches m rq) =
     filter (\<lambda>n. \<not> cred_granted m n) (map cr_Name (rq_Credentials rq))"
  "ir_MissingEgress (IntersectMatches m rq) =
     map (\<lambda>(h, p). \<lparr>es_Host = h, es_Port = p\<rparr>)
       (filter (\<lambda>(h, p). \<not> egress_granted m h p) (required_destinations rq))"
  "ir_MatchedPolicies (IntersectMatches m rq) = map bp_Name m"
  "ir_RunsInteract (IntersectMatches m rq) \<longleftrightarrow> (\<exists>p \<in> set m. policy_interact p)"
  "ir_Shell (IntersectMatches m rq) = merge_shells None (policy_shells m)"
  "map_of (ir_CoveredCredentials (IntersectMatches m rq)) n =
     (if n \<in> cr_Name ` set (rq_Credentials rq) then findCoverage m n else None)"
  by (auto simp: IntersectMatches_def Let_def intersect_folds required_destinations_def
           cred_granted_coverage)

section \<open>Merging shell capabilities\<close>

text \<open>
  An interface for the "any policy wins" merges: a permission \<open>holds\<close> of a merged value exactly
  when it holds of one of the two. The client's lemma lifts it to any number of policies.
\<close>

locale any_wins =
  fixes merge :: "'a \<Rightarrow> 'a \<Rightarrow> 'a"
    and holds :: "'a \<Rightarrow> 'q \<Rightarrow> bool"
  assumes merge_holds: "holds (merge a b) q \<longleftrightarrow> holds a q \<or> holds b q"
begin

lemma fold_holds: "holds (foldl merge a bs) q \<longleftrightarrow> holds a q \<or> (\<exists>b \<in> set bs. holds b q)"
  by (induction bs arbitrary: a) (auto simp: merge_holds)

lemma fold_order_irrelevant:
  assumes "set (a # bs) = set (a' # bs')"
  shows "holds (foldl merge a bs) q = holds (foldl merge a' bs') q"
proof -
  have "holds (foldl merge a bs) q \<longleftrightarrow> (\<exists>b \<in> set (a # bs). holds b q)" for a bs
    by (simp add: fold_holds)
  then show ?thesis by (simp only: assms)
qed

end

definition shell_phase_allowed :: "ShellCapability \<Rightarrow> HarnessRunPhase \<Rightarrow> bool" where
  "shell_phase_allowed sc ph \<longleftrightarrow> sc_AllowedPhases sc = [] \<or> ph \<in> set (sc_AllowedPhases sc)"

definition shell_agent :: "ShellCapability \<Rightarrow> unit \<Rightarrow> bool" where
  "shell_agent sc _ \<longleftrightarrow> sc_Target sc = ''agent''"

definition shell_records :: "ShellCapability \<Rightarrow> unit \<Rightarrow> bool" where
  "shell_records sc _ \<longleftrightarrow> sc_RecordTranscript sc"

lemma foldl_dedup:
  "set (foldl (\<lambda>acc ph. if ph \<in> set acc then acc else acc @ [ph]) xs ys) = set xs \<union> set ys"
  by (induction ys arbitrary: xs) auto

lemma foldl_dedup_Nil:
  "foldl (\<lambda>acc ph. if ph \<in> set acc then acc else acc @ [ph]) xs ys = [] \<longleftrightarrow> xs = [] \<and> ys = []"
  unfolding set_empty [symmetric] foldl_dedup by auto

lemma mergeShell_None [simp]: "mergeShell None b = b"
  by (simp add: mergeShell_def)

lemma mergeShell_phases:
  "shell_phase_allowed (mergeShell (Some a) b) ph \<longleftrightarrow>
     shell_phase_allowed a ph \<or> shell_phase_allowed b ph"
  by (auto simp: mergeShell_def Let_def shell_phase_allowed_def foldl_dedup foldl_dedup_Nil)

lemma mergeShell_agent:
  "shell_agent (mergeShell (Some a) b) u \<longleftrightarrow> shell_agent a u \<or> shell_agent b u"
  by (simp add: mergeShell_def Let_def shell_agent_def)

lemma mergeShell_records:
  "shell_records (mergeShell (Some a) b) u \<longleftrightarrow> shell_records a u \<or> shell_records b u"
  by (simp add: mergeShell_def Let_def shell_records_def)

lemma mergeShell_command:
  "sc_Command (mergeShell (Some a) b) = (if sc_Command a = [] then sc_Command b else sc_Command a)"
  by (simp add: mergeShell_def Let_def)

interpretation shell_phases: any_wins "\<lambda>a b. mergeShell (Some a) b" shell_phase_allowed
  by unfold_locales (rule mergeShell_phases)

interpretation shell_target: any_wins "\<lambda>a b. mergeShell (Some a) b" shell_agent
  by unfold_locales (rule mergeShell_agent)

interpretation shell_record: any_wins "\<lambda>a b. mergeShell (Some a) b" shell_records
  by unfold_locales (rule mergeShell_records)

lemma merge_shells_foldl: "merge_shells (Some a) bs = Some (foldl (\<lambda>a b. mergeShell (Some a) b) a bs)"
  by (induction bs arbitrary: a) auto

lemma merge_shells_None:
  "merge_shells None bs =
     (case bs of [] \<Rightarrow> None | a # bs' \<Rightarrow> Some (foldl (\<lambda>a b. mergeShell (Some a) b) a bs'))"
  by (cases bs) (simp_all add: merge_shells_foldl mergeShell_None)

section \<open>Discovery and interception: lemmas\<close>

lemma discovery_exclusive:
  "discoveryActive bp now \<Longrightarrow> \<not> discoveryExpired bp now"
  by (auto simp: discoveryActive_def discoveryExpired_def split: option.splits if_splits)

lemma discoveryExpired_mono: "discoveryExpired bp t \<Longrightarrow> t \<le> t' \<Longrightarrow> discoveryExpired bp t'"
  by (auto simp: discoveryExpired_def split: option.splits if_splits)

lemma discoveryActive_anti: "discoveryActive bp t' \<Longrightarrow> t \<le> t' \<Longrightarrow> discoveryActive bp t"
  by (auto simp: discoveryActive_def split: option.splits if_splits)

lemma granted_subset:
  assumes "set m' \<subseteq> set m"
  shows "cred_granted m' n \<Longrightarrow> cred_granted m n" and "egress_granted m' h p \<Longrightarrow> egress_granted m h p"
  using assms by (auto simp: cred_granted_def egress_granted_def)

lemma FilterUnexpired_anti: "t \<le> t' \<Longrightarrow> set (FilterUnexpired m t') \<subseteq> set (FilterUnexpired m t)"
  by (auto simp: FilterUnexpired_def dest: discoveryExpired_mono)

lemma mergeInterceptionLoop_None:
  "mergeInterceptionLoop m r n = None \<longleftrightarrow> (\<exists>bp \<in> set m. cooperativeReason bp = None)"
  by (induction m arbitrary: r n) (auto split: option.splits)

lemma mergeInterceptionLoop_keep:
  "r \<noteq> [] \<Longrightarrow> mergeInterceptionLoop m r n = Some (r', n') \<Longrightarrow> r' = r \<and> n' = n"
  by (induction m) (auto split: option.splits)

lemma cooperative_iff:
  "mi_Mode (mergePolicyInterception m) = InterceptionModeCooperative \<longleftrightarrow>
     m \<noteq> [] \<and> (\<forall>bp \<in> set m. cooperativeReason bp \<noteq> None)"
proof -
  have "mi_Mode (mergePolicyInterception m) = InterceptionModeCooperative \<longleftrightarrow>
     m \<noteq> [] \<and> mergeInterceptionLoop m [] [] \<noteq> None"
    by (auto simp: mergePolicyInterception_def Let_def split: option.splits)
  then show ?thesis unfolding mergeInterceptionLoop_None by simp
qed

end
