(* ===== verification/Policy_Resolver.thy ===== *)
theory Policy_Resolver
  imports Policy_Intersect "HOL-Library.Multiset"
begin

text \<open>
  Template resolution of package \<open>policy\<close> (\<open>resolver.go\<close>): the lookup order of
  \<open>ResolveTemplate\<close>, base-template inheritance and \<open>MergeTemplates\<close>.

  \<open>MergeTemplates\<close> rebuilds the credential requirements by ranging over a Go map, whose order the
  language leaves open. That order is the argument \<open>ord\<close>, a function that permutes the keys
  (\<open>map_order_ok\<close>); the lemmas hold for every such function.

  \<open>apierrors.IsNotFound\<close> looks through wrapped errors, so \<open>wrapErr\<close> keeps the kind of the error
  it wraps.
\<close>

type_synonym map_order = "string list \<Rightarrow> string list"

definition map_order_ok :: "map_order \<Rightarrow> bool" where
  "map_order_ok ord \<longleftrightarrow> (\<forall>ks. mset (ord ks) = mset ks)"

definition wrapErr :: "error_msg \<Rightarrow> api_error \<Rightarrow> api_error" where
  "wrapErr p e = (case e of NotFound m \<Rightarrow> NotFound (p @ '': '' @ m) | Conflict m \<Rightarrow> Conflict (p @ '': '' @ m) | ApiError m \<Rightarrow> ApiError (p @ '': '' @ m))"

definition RequiresEmpty :: "RequireSpec \<Rightarrow> bool" where
  "RequiresEmpty r \<longleftrightarrow> rq_Credentials r = [] \<and> rq_Egress r = []"

definition credsByName ::
  "CredentialRequirement list \<Rightarrow> CredentialRequirement list \<Rightarrow> (string, CredentialRequirement) gomap" where
  "credsByName parentCreds childCreds =
     fold (\<lambda>c. mset_key (cr_Name c) c) childCreds (fold (\<lambda>c. mset_key (cr_Name c) c) parentCreds [])"

definition mergeCredentials ::
  "map_order \<Rightarrow> CredentialRequirement list \<Rightarrow> CredentialRequirement list \<Rightarrow> CredentialRequirement list" where
  "mergeCredentials ord parentCreds childCreds =
     (let byName = credsByName parentCreds childCreds
      in List.map_filter (map_of byName) (ord (map fst byName)))"

definition mergeDefaults ::
  "HarnessTemplateDefaults \<Rightarrow> HarnessTemplateDefaults \<Rightarrow> HarnessTemplateDefaults" where
  "mergeDefaults out child =
     (let out1 = (if htd_Model child \<noteq> [] then out\<lparr>htd_Model := htd_Model child\<rparr> else out);
          out2 = (if htd_Timeout child \<noteq> None then out1\<lparr>htd_Timeout := htd_Timeout child\<rparr> else out1);
          out3 = (if htd_Resources child \<noteq> None then out2\<lparr>htd_Resources := htd_Resources child\<rparr> else out2)
      in if htd_TerminationGracePeriodSeconds child \<noteq> None
         then out3\<lparr>htd_TerminationGracePeriodSeconds := htd_TerminationGracePeriodSeconds child\<rparr>
         else out3)"

definition MergeTemplates ::
  "map_order \<Rightarrow> HarnessTemplateSpec \<Rightarrow> HarnessTemplateSpec \<Rightarrow> HarnessTemplateSpec" where
  "MergeTemplates ord parent child =
     (let out1 = parent\<lparr>hts_Defaults := mergeDefaults (hts_Defaults parent) (hts_Defaults child)\<rparr>;
          out2 = (if rq_Credentials (hts_Requires child) \<noteq> []
                  then out1\<lparr>hts_Requires := (hts_Requires out1)\<lparr>rq_Credentials :=
                         mergeCredentials ord (rq_Credentials (hts_Requires out1))
                           (rq_Credentials (hts_Requires child))\<rparr>\<rparr>
                  else out1);
          out3 = (if rq_Egress (hts_Requires child) \<noteq> []
                  then out2\<lparr>hts_Requires := (hts_Requires out2)\<lparr>rq_Egress :=
                         rq_Egress (hts_Requires out2) @ rq_Egress (hts_Requires child)\<rparr>\<rparr>
                  else out2)
      in if hts_PodTemplateOverlay child \<noteq> None
         then out3\<lparr>hts_PodTemplateOverlay := hts_PodTemplateOverlay child\<rparr> else out3)"

definition getClusterHarnessTemplate ::
  "kube \<Rightarrow> string \<Rightarrow> api_error + HarnessTemplateSpec \<times> string" where
  "getClusterHarnessTemplate c name =
     (case getClusterTemplate c name of
        Inl err \<Rightarrow> Inl err
      | Inr cht \<Rightarrow> Inr (ht_Spec cht, ''ClusterHarnessTemplate/'' @ ht_Name cht))"

definition getHarnessTemplate ::
  "map_order \<Rightarrow> kube \<Rightarrow> string \<Rightarrow> string \<Rightarrow> api_error + HarnessTemplateSpec \<times> string" where
  "getHarnessTemplate ord c namespace name =
     (case getTemplate c namespace name of
        Inl err \<Rightarrow> Inl err
      | Inr ht \<Rightarrow>
          (case hts_BaseTemplateRef (ht_Spec ht) of
             Some ref \<Rightarrow>
               (case getClusterHarnessTemplate c (lor_Name ref) of
                  Inl err \<Rightarrow> Inl (wrapErr (''resolving base template '' @ fmt_q (lor_Name ref)) err)
                | Inr (parent, _) \<Rightarrow>
                    Inr (MergeTemplates ord parent (ht_Spec ht), ''HarnessTemplate/'' @ ht_Name ht))
           | None \<Rightarrow> Inr (ht_Spec ht, ''HarnessTemplate/'' @ ht_Name ht)))"

definition ResolveTemplate ::
  "map_order \<Rightarrow> kube \<Rightarrow> string \<Rightarrow> TemplateRef \<Rightarrow> api_error + HarnessTemplateSpec \<times> string" where
  "ResolveTemplate ord c namespace ref =
     (if tr_Kind ref = ''HarnessTemplate'' then getHarnessTemplate ord c namespace (tr_Name ref)
      else if tr_Kind ref = ''ClusterHarnessTemplate'' then getClusterHarnessTemplate c (tr_Name ref)
      else if tr_Kind ref = [] \<or> tr_Kind ref = ''namespaced-first'' then
        (case getHarnessTemplate ord c namespace (tr_Name ref) of
           Inr r \<Rightarrow> Inr r
         | Inl err \<Rightarrow>
             if \<not> IsNotFound err then Inl err else getClusterHarnessTemplate c (tr_Name ref))
      else Inl (ApiError (''unknown template kind '' @ fmt_q (tr_Kind ref))))"

section \<open>Lemmas\<close>

lemma IsNotFound_wrapErr [simp]: "IsNotFound (wrapErr p e) = IsNotFound e"
  by (cases e) (simp_all add: IsNotFound_def wrapErr_def)

text \<open>Folding \<open>byName[c.Name] = c\<close>: the last requirement of a name wins.\<close>

lemma fold_by_name:
  "map_of (fold (\<lambda>c. mset_key (cr_Name c) c) cs m) n =
     (case find (\<lambda>c. cr_Name c = n) (rev cs) of Some c \<Rightarrow> Some c | None \<Rightarrow> map_of m n)"
  by (induction cs arbitrary: m) (simp_all add: find_append go_map_lookup split: option.splits)

lemma fold_by_name_dom:
  "dom (map_of (fold (\<lambda>c. mset_key (cr_Name c) c) cs m)) = cr_Name ` set cs \<union> dom (map_of m)"
  by (induction cs arbitrary: m) (auto simp: dom_mset_key)

lemma fold_by_name_keys:
  "mkeys_ok m \<Longrightarrow> mkeys_ok (fold (\<lambda>c. mset_key (cr_Name c) c) cs m)"
  by (induction cs arbitrary: m) auto

lemma credsByName_lookup:
  "map_of (credsByName ps cs) n =
     (case find (\<lambda>c. cr_Name c = n) (rev cs) of
        Some c \<Rightarrow> Some c
      | None \<Rightarrow> find (\<lambda>c. cr_Name c = n) (rev ps))"
  unfolding credsByName_def fold_by_name by (auto split: option.splits)

lemma credsByName_name: "map_of (credsByName ps cs) n = Some c \<Longrightarrow> cr_Name c = n"
  by (auto simp: credsByName_lookup split: option.splits dest!: find_SomeD)

lemma set_mergeCredentials:
  assumes "map_order_ok ord"
  shows "set (mergeCredentials ord ps cs) = ran (map_of (credsByName ps cs))"
proof -
  let ?m = "credsByName ps cs"
  have "set (ord (map fst ?m)) = fst ` set ?m"
    using assms by (metis map_order_ok_def mset_eq_setD set_map)
  then show ?thesis
    by (auto simp: mergeCredentials_def Let_def set_map_filter_iff ran_def)
       (metis fst_conv image_eqI map_of_SomeD)
qed

lemma mergeCredentials_names:
  assumes "map_order_ok ord"
  shows "cr_Name ` set (mergeCredentials ord ps cs) = cr_Name ` set ps \<union> cr_Name ` set cs"
proof -
  have "cr_Name ` ran (map_of (credsByName ps cs)) = dom (map_of (credsByName ps cs))"
  proof (intro equalityI subsetI)
    fix n assume "n \<in> dom (map_of (credsByName ps cs))"
    then obtain c where "map_of (credsByName ps cs) n = Some c" by auto
    then show "n \<in> cr_Name ` ran (map_of (credsByName ps cs))"
      using credsByName_name by (intro image_eqI [of _ _ c]) (auto intro: ranI)
  qed (auto simp: ran_def dest: credsByName_name)
  also have "\<dots> = cr_Name ` set ps \<union> cr_Name ` set cs"
    by (auto simp: credsByName_def fold_by_name_dom)
  finally show ?thesis by (simp add: set_mergeCredentials [OF assms])
qed

lemma MergeTemplates_locked:
  "hts_Image (MergeTemplates ord p c) = hts_Image p"
  "hts_Command (MergeTemplates ord p c) = hts_Command p"
  "hts_Args (MergeTemplates ord p c) = hts_Args p"
  "hts_Runtime (MergeTemplates ord p c) = hts_Runtime p"
  "hts_Workspace (MergeTemplates ord p c) = hts_Workspace p"
  "hts_Harness (MergeTemplates ord p c) = hts_Harness p"
  "hts_Interactive (MergeTemplates ord p c) = hts_Interactive p"
  by (simp_all add: MergeTemplates_def Let_def)

lemma MergeTemplates_requires:
  "rq_Credentials (hts_Requires (MergeTemplates ord p c)) =
     (if rq_Credentials (hts_Requires c) = [] then rq_Credentials (hts_Requires p)
      else mergeCredentials ord (rq_Credentials (hts_Requires p)) (rq_Credentials (hts_Requires c)))"
  "rq_Egress (hts_Requires (MergeTemplates ord p c)) =
     rq_Egress (hts_Requires p) @ rq_Egress (hts_Requires c)"
  by (simp_all add: MergeTemplates_def Let_def)

lemma MergeTemplates_credential_names:
  assumes "map_order_ok ord"
  shows "cr_Name ` set (rq_Credentials (hts_Requires (MergeTemplates ord p c))) =
    cr_Name ` set (rq_Credentials (hts_Requires p)) \<union> cr_Name ` set (rq_Credentials (hts_Requires c))"
  by (simp add: MergeTemplates_requires mergeCredentials_names [OF assms])

end
