(* ===== verification/Broker_Matching.thy ===== *)
theory Broker_Matching
  imports Policy_Resolver
begin

text \<open>
  The broker's run-time policy lookups (\<open>src/internal/broker/matching.go\<close>): which grant backs a
  credential, which grant covers a destination, and whether a destination needs credential
  substitution. Every lookup lists the namespace's policies afresh.

  The lemmas relate these lookups to the admission decision of \<open>Policy_Intersect\<close>: on the same
  policies, a lookup succeeds exactly where admission found the capability granted, and picks the
  same policy.
\<close>

definition resolveTemplateSpec ::
  "map_order \<Rightarrow> kube \<Rightarrow> string \<Rightarrow> TemplateRef \<Rightarrow> api_error + HarnessTemplateSpec" where
  "resolveTemplateSpec ord c namespace ref =
     (case ResolveTemplate ord c namespace ref of Inl err \<Rightarrow> Inl err | Inr (spec, _) \<Rightarrow> Inr spec)"

definition hasRequirement :: "CredentialRequirement list \<Rightarrow> string \<Rightarrow> bool" where
  "hasRequirement creds name = list_ex (\<lambda>c. cr_Name c = name) creds"

fun matchPolicyGrantLoop ::
  "BrokerPolicy list \<Rightarrow> string \<Rightarrow> string \<Rightarrow> (CredentialGrant \<times> BrokerPolicy \<times> string) option" where
  "matchPolicyGrantLoop [] templateName credentialName = None"
| "matchPolicyGrantLoop (bp # bps) templateName credentialName =
     (if \<not> AppliesToTemplate (bps_AppliesToTemplates (bp_Spec bp)) templateName
      then matchPolicyGrantLoop bps templateName credentialName
      else (case find (\<lambda>g. cg_Name g = credentialName) (gs_Credentials (bp_Grants bp)) of
              Some g \<Rightarrow> Some (g, bp, bp_Name bp)
            | None \<Rightarrow> matchPolicyGrantLoop bps templateName credentialName))"

definition matchPolicyGrant ::
  "kube \<Rightarrow> string \<Rightarrow> string \<Rightarrow> string \<Rightarrow> api_error + (CredentialGrant \<times> BrokerPolicy \<times> string) option" where
  "matchPolicyGrant c namespace templateName credentialName =
     (case listPolicies c namespace of
        Inl err \<Rightarrow> Inl err
      | Inr items \<Rightarrow> Inr (matchPolicyGrantLoop items templateName credentialName))"

definition egressCovers :: "EgressGrant \<Rightarrow> string \<Rightarrow> int \<Rightarrow> bool" where
  "egressCovers g host port =
     (if \<not> EgressHostMatches (eg_Host g) host then False
      else if eg_Ports g = [] then True
      else (let p32 = int32 port in list_ex (\<lambda>allowed. allowed = 0 \<or> allowed = p32) (eg_Ports g)))"

fun matchEgressGrantLoop ::
  "BrokerPolicy list \<Rightarrow> string \<Rightarrow> string \<Rightarrow> int \<Rightarrow> (EgressGrant \<times> string) option" where
  "matchEgressGrantLoop [] templateName host port = None"
| "matchEgressGrantLoop (bp # bps) templateName host port =
     (if \<not> AppliesToTemplate (bps_AppliesToTemplates (bp_Spec bp)) templateName
      then matchEgressGrantLoop bps templateName host port
      else (case find (\<lambda>g. egressCovers g host port) (gs_Egress (bp_Grants bp)) of
              Some g \<Rightarrow> Some (g, bp_Name bp)
            | None \<Rightarrow> matchEgressGrantLoop bps templateName host port))"

definition matchEgressGrant ::
  "kube \<Rightarrow> string \<Rightarrow> string \<Rightarrow> string \<Rightarrow> int \<Rightarrow> api_error + (EgressGrant \<times> string) option" where
  "matchEgressGrant c namespace templateName host port =
     (case listPolicies c namespace of
        Inl err \<Rightarrow> Inl err
      | Inr items \<Rightarrow> Inr (matchEgressGrantLoop items templateName host port))"

definition grantInjectsHost :: "string \<Rightarrow> CredentialGrant \<Rightarrow> bool" where
  "grantInjectsHost host g =
     (case pc_DeliveryMode (cg_Provider g) of
        None \<Rightarrow> False
      | Some dm \<Rightarrow> (case dm_ProxyInjected dm of
                     None \<Rightarrow> False
                   | Some pi \<Rightarrow> AnyHostMatches (pi_Hosts pi) host))"

definition anyProxyInjectedHostCovers ::
  "kube \<Rightarrow> string \<Rightarrow> string \<Rightarrow> string \<Rightarrow> api_error + bool" where
  "anyProxyInjectedHostCovers c namespace templateName host =
     (case listPolicies c namespace of
        Inl err \<Rightarrow> Inl err
      | Inr items \<Rightarrow>
          Inr (list_ex (\<lambda>bp. AppliesToTemplate (bps_AppliesToTemplates (bp_Spec bp)) templateName
                 \<and> list_ex (grantInjectsHost host) (gs_Credentials (bp_Grants bp))) items))"

section \<open>Lemmas\<close>

lemma hasRequirement_iff: "hasRequirement cs n \<longleftrightarrow> n \<in> cr_Name ` set cs"
  by (auto simp: hasRequirement_def list_ex_iff)

lemma egressCovers_iff:
  "egressCovers g host port \<longleftrightarrow>
     EgressHostMatches (eg_Host g) host \<and> portMatches (eg_Ports g) (int32 port)"
  by (auto simp: egressCovers_def portMatches_def Let_def)

text \<open>
  Both loops are the first match over the policies that apply to the template, so they work on
  the list \<open>ListMatchingPolicies\<close> returns.
\<close>

definition applying :: "string \<Rightarrow> BrokerPolicy list \<Rightarrow> BrokerPolicy list" where
  "applying tpl items = filter (\<lambda>bp. AppliesToTemplate (bps_AppliesToTemplates (bp_Spec bp)) tpl) items"

lemma ListMatchingPolicies_applying:
  "ListMatchingPolicies c ns tpl = map_sum id (applying tpl) (listPolicies c ns)"
  by (cases "listPolicies c ns") (simp_all add: ListMatchingPolicies_def applying_def)

lemma matchEgressGrantLoop_None:
  "matchEgressGrantLoop items tpl h p = None \<longleftrightarrow> \<not> egress_granted (applying tpl items) h (int32 p)"
proof (induction items)
  case (Cons bp bps)
  show ?case
  proof (cases "find (\<lambda>g. egressCovers g h p) (gs_Egress (bp_Grants bp))")
    case None
    then have "\<forall>g \<in> set (gs_Egress (bp_Grants bp)). \<not> egressCovers g h p"
      by (simp only: find_None_ball)
    with None Cons show ?thesis by (auto simp: egress_granted_def applying_def egressCovers_iff)
  next
    case (Some g)
    then have "g \<in> set (gs_Egress (bp_Grants bp)) \<and> egressCovers g h p" by (rule find_SomeD)
    with Some Cons show ?thesis by (auto simp: egress_granted_def applying_def egressCovers_iff)
  qed
qed (simp add: egress_granted_def applying_def)

lemma matchEgressGrantLoop_Some:
  "matchEgressGrantLoop items tpl h p = Some (g, n) \<Longrightarrow>
     \<exists>bp \<in> set items. AppliesToTemplate (bps_AppliesToTemplates (bp_Spec bp)) tpl
       \<and> g \<in> set (gs_Egress (bp_Grants bp)) \<and> egressCovers g h p \<and> n = bp_Name bp"
  by (induction items) (auto split: if_splits option.splits dest: find_SomeD)

lemma matchPolicyGrantLoop_coverage:
  "map_option (\<lambda>(g, bp, n). \<lparr>cc_Policy = n, cc_Provider = pc_Kind (cg_Provider g)\<rparr>)
     (matchPolicyGrantLoop items tpl n) = findCoverage (applying tpl items) n"
  by (induction items) (auto simp: applying_def split: option.splits)

lemma matchPolicyGrantLoop_Some:
  "matchPolicyGrantLoop items tpl cred = Some (g, bp, n) \<Longrightarrow>
     bp \<in> set items \<and> AppliesToTemplate (bps_AppliesToTemplates (bp_Spec bp)) tpl
       \<and> g \<in> set (gs_Credentials (bp_Grants bp)) \<and> cg_Name g = cred \<and> n = bp_Name bp"
  by (induction items) (auto split: if_splits option.splits dest: find_SomeD)

lemma matchPolicyGrant_InrD:
  "matchPolicyGrant c ns tpl cred = Inr (Some (g, bp, n)) \<Longrightarrow>
     \<exists>items. listPolicies c ns = Inr items \<and> bp \<in> set items
       \<and> AppliesToTemplate (bps_AppliesToTemplates (bp_Spec bp)) tpl
       \<and> g \<in> set (gs_Credentials (bp_Grants bp)) \<and> cg_Name g = cred \<and> n = bp_Name bp"
  by (auto simp: matchPolicyGrant_def split: sum.splits dest!: matchPolicyGrantLoop_Some)

lemma matchEgressGrant_InrD:
  "matchEgressGrant c ns tpl h p = Inr (Some (g, n)) \<Longrightarrow>
     \<exists>items bp. listPolicies c ns = Inr items \<and> bp \<in> set items
       \<and> AppliesToTemplate (bps_AppliesToTemplates (bp_Spec bp)) tpl
       \<and> g \<in> set (gs_Egress (bp_Grants bp)) \<and> egressCovers g h p \<and> n = bp_Name bp"
  by (auto simp: matchEgressGrant_def split: sum.splits dest!: matchEgressGrantLoop_Some)

lemma egress_granted_host:
  "egress_granted m r p \<Longrightarrow> EgressHostMatches r h \<Longrightarrow> p = 0 \<or> p' = p \<Longrightarrow> egress_granted m h p'"
  by (auto simp: egress_granted_def portMatches_iff dest: EgressHostMatches_trans)

end
