(* ===== verification/Bearer.thy ===== *)
theory Bearer
  imports Api_Types
begin

text \<open>
  Bearers (\<open>src/internal/broker/providers/bearer.go\<close>): \<open>ExtractBearer\<close> and \<open>mintBearer\<close>, over the
  standard library's base64 and hex encodings. The random bytes \<open>crypto/rand\<close> returns are an
  argument, \<open>None\<close> standing for a failed read.

  The lemmas give the encode/decode round trip and, from it, that \<open>ExtractBearer\<close> recovers the
  token from each of the three header shapes it documents.
\<close>

section \<open>Base64 and hex\<close>

definition b64_char :: "bool \<Rightarrow> nat \<Rightarrow> char" where
  "b64_char url v =
     (if v < 26 then char_of (65 + v)
      else if v < 52 then char_of (97 + (v - 26))
      else if v < 62 then char_of (48 + (v - 52))
      else if v = 62 then char_of (if url then 45 else 43 :: nat)
      else char_of (if url then 95 else 47 :: nat))"

definition b64_val :: "bool \<Rightarrow> char \<Rightarrow> nat option" where
  "b64_val url c =
     (let n = of_char c
      in if 65 \<le> n \<and> n \<le> 90 then Some (n - 65)
         else if 97 \<le> n \<and> n \<le> 122 then Some (n - 97 + 26)
         else if 48 \<le> n \<and> n \<le> 57 then Some (n - 48 + 52)
         else if n = (if url then 45 else 43) then Some 62
         else if n = (if url then 95 else 47) then Some 63
         else None)"

definition pad :: char where
  "pad = CHR ''=''"

fun b64_encode :: "bool \<Rightarrow> string \<Rightarrow> string" where
  "b64_encode u [] = []"
| "b64_encode u [a] =
     [b64_char u (of_char a div 4), b64_char u ((of_char a mod 4) * 16), pad, pad]"
| "b64_encode u [a, b] =
     [b64_char u (of_char a div 4),
      b64_char u ((of_char a mod 4) * 16 + of_char b div 16),
      b64_char u ((of_char b mod 16) * 4), pad]"
| "b64_encode u (a # b # c # rest) =
     b64_char u (of_char a div 4)
     # b64_char u ((of_char a mod 4) * 16 + of_char b div 16)
     # b64_char u ((of_char b mod 16) * 4 + of_char c div 64)
     # b64_char u (of_char c mod 64)
     # b64_encode u rest"

text \<open>
  Go's decoder drops carriage returns and newlines, needs full padding, accepts padding only at
  the end, and does not check the unused low bits of the last quantum.
\<close>

fun b64_quanta :: "bool \<Rightarrow> string \<Rightarrow> string option" where
  "b64_quanta u [] = Some []"
| "b64_quanta u (a # b # c # d # rest) =
     (case (b64_val u a, b64_val u b) of
        (Some x, Some y) \<Rightarrow>
          if c = pad then
            (if d = pad \<and> rest = [] then Some [char_of (x * 4 + y div 16)] else None)
          else (case b64_val u c of
                  None \<Rightarrow> None
                | Some z \<Rightarrow>
                    if d = pad then
                      (if rest = [] then Some [char_of (x * 4 + y div 16), char_of ((y mod 16) * 16 + z div 4)]
                       else None)
                    else (case b64_val u d of
                            None \<Rightarrow> None
                          | Some w \<Rightarrow>
                              map_option (\<lambda>r. char_of (x * 4 + y div 16) # char_of ((y mod 16) * 16 + z div 4)
                                            # char_of ((z mod 4) * 64 + w) # r)
                                (b64_quanta u rest)))
      | _ \<Rightarrow> None)"
| "b64_quanta u _ = None"

definition b64_decode :: "bool \<Rightarrow> string \<Rightarrow> string option" where
  "b64_decode u s = b64_quanta u (filter (\<lambda>c. of_char c \<noteq> (10::nat) \<and> of_char c \<noteq> (13::nat)) s)"

definition hex_digit :: "nat \<Rightarrow> char" where
  "hex_digit n = (if n < 10 then char_of (48 + n) else char_of (87 + n))"

definition hex_encode :: "string \<Rightarrow> string" where
  "hex_encode s = concat (map (\<lambda>c. [hex_digit (of_char c div 16), hex_digit (of_char c mod 16)]) s)"

section \<open>Extracting and minting\<close>

definition ExtractBearer :: "string \<Rightarrow> string" where
  "ExtractBearer v0 =
     (let v = TrimSpace v0
      in if v = [] then []
         else (case IndexByte v CHR '' '' of
                 None \<Rightarrow> v
               | Some space \<Rightarrow>
                   let scheme = ToLower (take space v); rest = TrimSpace (drop (space + 1) v)
                   in if scheme = ''bearer'' then rest
                      else if scheme = ''basic'' then
                        (case (case b64_decode False rest of
                                 Some raw \<Rightarrow> Some raw
                               | None \<Rightarrow> b64_decode True rest) of
                           None \<Rightarrow> []
                         | Some raw \<Rightarrow>
                             (case IndexByte raw CHR '':'' of
                                Some i \<Rightarrow> drop (i + 1) raw
                              | None \<Rightarrow> raw))
                      else v))"

text \<open>\<open>rand\<close> is the outcome of \<open>rand.Read\<close> on the 24-byte buffer.\<close>

definition mintBearer :: "string option \<Rightarrow> string \<Rightarrow> error_msg + string" where
  "mintBearer rand prefix =
     (case rand of
        None \<Rightarrow> Inl ''generating bearer: rand failed''
      | Some buf \<Rightarrow> Inr (prefix @ hex_encode buf))"

section \<open>Lemmas\<close>

lemma of_char_lt: "of_char c < (256::nat)"
proof -
  have "of_char c = (of_char c :: nat) mod 256"
    by (metis char_of_char of_char_of)
  then show ?thesis by (metis mod_less_divisor zero_less_numeral)
qed

lemma of_char_of_small [simp]: "n < 256 \<Longrightarrow> (of_char (char_of n :: char) :: nat) = n"
  by (simp add: of_char_of)

lemma b64_val_char [simp]: "v < 64 \<Longrightarrow> b64_val u (b64_char u v) = Some v"
  by (auto simp: b64_val_def b64_char_def Let_def)

lemma of_char_pad: "(of_char pad :: nat) = 61"
  by (simp add: pad_def)

lemma b64_val_pad: "b64_val u pad = None"
  by (simp add: b64_val_def of_char_pad)

lemma b64_char_not_pad [simp]: "v < 64 \<Longrightarrow> b64_char u v \<noteq> pad"
  by (metis b64_val_char b64_val_pad option.distinct(1))

lemma b64_val_space:
  assumes "isSpace c"
  shows "b64_val u c = None \<and> c \<noteq> pad"
proof
  have c: "(of_char c :: nat) \<in> {9, 10, 11, 12, 13, 32}" using assms by (simp only: isSpace_def)
  then show "b64_val u c = None" by (auto simp: b64_val_def)
  from c have "(of_char c :: nat) \<noteq> of_char pad" by (auto simp: of_char_pad)
  then show "c \<noteq> pad" by auto
qed

lemma b64_quantum_bounds:
  fixes a b c :: char
  shows "(of_char a :: nat) div 4 < 64"
    and "((of_char a :: nat) mod 4) * 16 < 64"
    and "((of_char a :: nat) mod 4) * 16 + of_char b div 16 < 64"
    and "((of_char b :: nat) mod 16) * 4 < 64"
    and "((of_char b :: nat) mod 16) * 4 + of_char c div 64 < 64"
    and "(of_char c :: nat) mod 64 < 64"
proof -
  have less: "x div 4 < 64" "x div 16 < 16" "x div 64 < 4" if "x < 256" for x :: nat
    using that by simp_all
  note lt = of_char_lt [of a] of_char_lt [of b] of_char_lt [of c]
  have m4: "(of_char a :: nat) mod 4 < 4" and m16: "(of_char b :: nat) mod 16 < 16" by simp_all
  show "(of_char a :: nat) div 4 < 64" by (rule less(1) [OF lt(1)])
  show "((of_char a :: nat) mod 4) * 16 < 64" using m4 by linarith
  show "((of_char a :: nat) mod 4) * 16 + of_char b div 16 < 64" using m4 less(2) [OF lt(2)] by linarith
  show "((of_char b :: nat) mod 16) * 4 < 64" using m16 by linarith
  show "((of_char b :: nat) mod 16) * 4 + of_char c div 64 < 64" using m16 less(3) [OF lt(3)] by linarith
  show "(of_char c :: nat) mod 64 < 64" by simp
qed

lemma b64_encode_chars: "c \<in> set (b64_encode u s) \<Longrightarrow> c = pad \<or> b64_val u c \<noteq> None"
  by (induction u s rule: b64_encode.induct) (auto simp: b64_quantum_bounds)

lemma b64_encode_no_space: "c \<in> set (b64_encode u s) \<Longrightarrow> \<not> isSpace c"
  using b64_encode_chars b64_val_space by blast

lemma b64_encode_Nil_iff [simp]: "b64_encode u s = [] \<longleftrightarrow> s = []"
  by (cases "(u, s)" rule: b64_encode.cases) auto

text \<open>Reassembling the three bytes of a quantum from its four six-bit groups.\<close>

lemma quantum_byte1: "(y::nat) < 16 \<Longrightarrow> x div 4 * 4 + (x mod 4 * 16 + y) div 16 = x"
  by simp

lemma quantum_byte2:
  fixes x y z :: nat
  assumes "y < 256" "z < 4"
  shows "(x mod 4 * 16 + y div 16) mod 16 * 16 + (y mod 16 * 4 + z) div 4 = y"
proof -
  have "y div 16 < 16" using assms(1) by simp
  then have "(x mod 4 * 16 + y div 16) mod 16 = y div 16" by simp
  moreover have "(y mod 16 * 4 + z) div 4 = y mod 16" using assms(2) by simp
  ultimately show ?thesis by simp
qed

lemma quantum_byte3:
  fixes y z :: nat
  assumes "z < 256"
  shows "(y mod 16 * 4 + z div 64) mod 4 * 64 + z mod 64 = z"
proof -
  have "z div 64 < 4" using assms by simp
  then have "(y mod 16 * 4 + z div 64) mod 4 = z div 64" by simp
  then show ?thesis by simp
qed

lemma of_char_div: "(of_char c :: nat) div 16 < 16" "(of_char c :: nat) div 64 < 4"
  by (rule less_mult_imp_div_less, use of_char_lt [of c] in simp)+

lemma b64_quanta_encode: "b64_quanta u (b64_encode u s) = Some s"
proof (induction u s rule: b64_encode.induct)
  case (2 u a)
  show ?case using quantum_byte1 [of 0 "of_char a"] by (simp add: b64_quantum_bounds)
next
  case (3 u a b)
  show ?case
    using quantum_byte1 [OF of_char_div(1) [of b], of "of_char a"]
      quantum_byte2 [OF of_char_lt [of b], of 0 "of_char a"]
    by (simp add: b64_quantum_bounds del: mod_mult_self3 mod_mult_self4)
next
  case (4 u a b c rest)
  show ?case
    using 4 quantum_byte1 [OF of_char_div(1) [of b], of "of_char a"]
      quantum_byte2 [OF of_char_lt [of b] of_char_div(2) [of c], of "of_char a"]
      quantum_byte3 [OF of_char_lt [of c], of "of_char b"]
    by (simp add: b64_quantum_bounds del: mod_mult_self3 mod_mult_self4)
qed simp

lemma b64_decode_encode: "b64_decode u (b64_encode u s) = Some s"
proof -
  have "filter (\<lambda>c. of_char c \<noteq> (10::nat) \<and> of_char c \<noteq> (13::nat)) (b64_encode u s) = b64_encode u s"
    by (rule filter_True) (auto simp: isSpace_def dest!: b64_encode_no_space)
  then show ?thesis by (simp add: b64_decode_def b64_quanta_encode)
qed

lemma hex_encode_length: "length (hex_encode s) = 2 * length s"
  by (induction s) (simp_all add: hex_encode_def)

lemma hex_digit_not_space: "n < 16 \<Longrightarrow> \<not> isSpace (hex_digit n)"
  by (auto simp: isSpace_def hex_digit_def)

lemma hex_encode_no_space: "c \<in> set (hex_encode s) \<Longrightarrow> \<not> isSpace c"
  using of_char_div hex_digit_not_space by (fastforce simp: hex_encode_def)

lemma TrimSpace_no_space: "\<forall>c \<in> set s. \<not> isSpace c \<Longrightarrow> TrimSpace s = s"
  by (rule TrimSpace_idem_head) (cases "s = []", auto)

lemma space_isSpace [simp]: "isSpace CHR '' ''"
  by (simp add: isSpace_def)

lemma ExtractBearer_token:
  assumes "\<forall>c \<in> set t. \<not> isSpace c"
  shows "ExtractBearer t = t"
proof -
  have "CHR '' '' \<notin> set t" using assms space_isSpace by blast
  then have "IndexByte t CHR '' '' = None" by simp
  then show ?thesis
    by (simp add: ExtractBearer_def TrimSpace_no_space [OF assms] Let_def del: IndexByte_None)
qed

lemma TrimSpace_scheme:
  assumes "a \<noteq> []" "\<not> isSpace (hd a)" "t \<noteq> []" "\<not> isSpace (last t)"
  shows "TrimSpace (a @ t) = a @ t"
  by (rule TrimSpace_idem_head) (use assms in auto)

lemma ToLower_Bearer: "ToLower ''Bearer'' = ''bearer''"
  by code_simp

lemma ToLower_Basic: "ToLower ''Basic'' = ''basic''"
  by code_simp

lemma ExtractBearer_bearer:
  assumes "\<forall>c \<in> set t. \<not> isSpace c" "t \<noteq> []"
  shows "ExtractBearer (''Bearer '' @ t) = t"
proof -
  have "TrimSpace (''Bearer '' @ t) = ''Bearer '' @ t"
    using assms by (intro TrimSpace_scheme) (auto simp: isSpace_def)
  then show ?thesis using TrimSpace_no_space [OF assms(1)]
    by (simp add: ExtractBearer_def Let_def ToLower_Bearer)
qed

lemma ExtractBearer_basic:
  assumes "CHR '':'' \<notin> set user"
  shows "ExtractBearer (''Basic '' @ b64_encode False (user @ '':'' @ pass)) = pass"
proof -
  let ?e = "b64_encode False (user @ '':'' @ pass)"
  have e: "\<forall>c \<in> set ?e. \<not> isSpace c" "?e \<noteq> []"
    using b64_encode_no_space by (blast, simp)
  have "TrimSpace (''Basic '' @ ?e) = ''Basic '' @ ?e"
    using e by (intro TrimSpace_scheme) (auto simp: isSpace_def)
  then show ?thesis
    using TrimSpace_no_space [OF e(1)] IndexByte_append [OF assms, of pass]
      b64_decode_encode [of False "user @ '':'' @ pass"]
    by (simp add: ExtractBearer_def Let_def ToLower_Basic)
qed

lemma mintBearer_shape:
  assumes "mintBearer rand prefix = Inr b"
  obtains buf where "rand = Some buf" "b = prefix @ hex_encode buf"
  using assms by (auto simp: mintBearer_def split: option.splits)

end
