(* ===== verification/Provider_Base.thy ===== *)
theory Provider_Base
  imports Bearer Policy_Match "HOL-Library.Multiset"
begin

text \<open>
  What the broker's credential providers share (\<open>src/internal/broker/providers/provider.go\<close>,
  \<open>registry.go\<close>, and the wire types of \<open>src/internal/broker/api/types.go\<close>): request and result
  records, the errors a provider returns, and the environment an operation reads.

  A provider operation is a function of its environment and its state. The environment holds the
  API server, the random bytes \<open>mintBearer\<close> reads, the successive readings of the provider's
  clock, SHA-256, and, for the GitHub App provider, the cryptographic and HTTP primitives it calls.
  The provider's mutex makes each critical section atomic; an operation is modelled as run without
  another operation of the same provider in between.

  The locale \<open>substituter\<close> states the contract of the \<open>Substituter\<close> interface that the broker's
  dispatch relies on: a provider claims exactly the bearers that carry its prefix and leaves its
  state alone on every other one. The locale \<open>lease_provider\<close> extends it with the laws of \<open>Issue\<close>,
  \<open>Revoke\<close> and \<open>Renew\<close> over a view of the provider's leases, and derives that in every state the
  operations can reach a lease stands for an earlier \<open>Issue\<close>, and that a substitution succeeds only
  for a live lease of the caller's namespace whose hosts cover the destination.
\<close>

record IssueRequest =
  iq_RunName :: string
  iq_Namespace :: string
  iq_CredentialName :: string
  iq_Grant :: CredentialGrant
  iq_GitRepos :: "GitRepoGrant list"

record IssueResult =
  ir_Value :: string
  ir_LeaseID :: string
  ir_ExpiresAt :: time
  ir_DeliveryMode :: string
  ir_Hosts :: "string list"
  ir_InContainerReason :: string
  ir_PoolSecretRef :: "SecretKeyReference option"
  ir_PoolSlotIndex :: "int option"

record SubstituteRequest =
  sr_RunName :: string
  sr_Namespace :: string
  sr_Host :: string
  sr_Port :: int
  sr_IncomingBearer :: string

record BasicAuth =
  ba_Username :: string
  ba_Password :: string

record SubstituteResult =
  sub_Matched :: bool
  sub_SetHeaders :: "(string, string) gomap"
  sub_RemoveHeaders :: "string list"
  sub_SetQueryParam :: "(string, string) gomap"
  sub_SetBasicAuth :: "BasicAuth option"
  sub_AllowedHeaders :: "string list"
  sub_AllowedQueryParams :: "string list"
  sub_CredentialName :: string

text \<open>\<open>PoolExhausted\<close> is an error wrapping \<open>ErrPoolExhausted\<close>; \<open>Panic\<close> a nil dereference.\<close>

datatype prov_error = PErr error_msg | PoolExhausted error_msg | Panic

definition perr_Error :: "prov_error \<Rightarrow> error_msg" where
  "perr_Error e = (case e of PErr m \<Rightarrow> m | PoolExhausted m \<Rightarrow> m | Panic \<Rightarrow> [])"

type_synonym substitute_outcome = "SubstituteResult \<times> prov_error option"

text \<open>\<open>brokerapi.SubstituteResult{Matched: false}\<close> and \<open>brokerapi.SubstituteResult{Matched: true}\<close>.\<close>

definition subst_zero :: SubstituteResult where
  "subst_zero =
     \<lparr> sub_Matched = False, sub_SetHeaders = [], sub_RemoveHeaders = [], sub_SetQueryParam = [],
       sub_SetBasicAuth = None, sub_AllowedHeaders = [], sub_AllowedQueryParams = [],
       sub_CredentialName = [] \<rparr>"

definition unmatched :: substitute_outcome where
  "unmatched = (subst_zero, None)"

definition denied :: "error_msg \<Rightarrow> substitute_outcome" where
  "denied m = (subst_zero\<lparr>sub_Matched := True\<rparr>, Some (PErr m))"

section \<open>Environment\<close>

text \<open>
  The primitives the GitHub App provider calls: PEM and RSA key parsing and signing, the HTTP
  exchange (a method, a URL, headers and a body, to a status and a body) and the decoding of the
  \<open>access_tokens\<close> response.
\<close>

record http_request =
  hq_Method :: string
  hq_URL :: string
  hq_Header :: "(string, string) gomap"
  hq_Body :: "string option"

text \<open>
  \<open>ge_parsePKCS8\<close> returns the type of the key beside the key; \<open>ge_newRequestErr\<close> is the error
  \<open>http.NewRequestWithContext\<close> gives for a malformed URL.
\<close>

record github_env =
  ge_pemDecode :: "string \<Rightarrow> (string \<times> string) option"
  ge_parsePKCS1 :: "string \<Rightarrow> error_msg + string"
  ge_parsePKCS8 :: "string \<Rightarrow> error_msg + (string \<times> string)"
  ge_signPKCS1v15 :: "string \<Rightarrow> string \<Rightarrow> error_msg + string"
  ge_newRequestErr :: "string \<Rightarrow> error_msg option"
  ge_doRequest :: "http_request \<Rightarrow> error_msg + (int \<times> string)"
  ge_decodeToken :: "string \<Rightarrow> error_msg + (string \<times> time)"

record prov_env =
  pe_kube :: kube
  pe_rand :: "string option"
  pe_now :: time
  pe_now2 :: time
  pe_now3 :: time
  pe_sha256 :: "string \<Rightarrow> string"
  pe_github :: github_env

section \<open>Lease tables\<close>

text \<open>The opportunistic sweep: drop the leases that expired strictly before \<open>now\<close>.\<close>

definition sweepExpired :: "('l \<Rightarrow> time) \<Rightarrow> time \<Rightarrow> (string, 'l) gomap \<Rightarrow> (string, 'l) gomap" where
  "sweepExpired expires now m = filter (\<lambda>(b, l). \<not> expires l < now) m"

text \<open>\<open>Revoke\<close>: drop the first lease met with this lease ID; the empty ID revokes nothing.\<close>

definition revokeLease :: "('l \<Rightarrow> string) \<Rightarrow> string \<Rightarrow> (string, 'l) gomap \<Rightarrow> (string, 'l) gomap" where
  "revokeLease leaseID lid m =
     (if lid = [] then m
      else (case find (\<lambda>(b, l). leaseID l = lid) m of
              None \<Rightarrow> m
            | Some (b, l) \<Rightarrow> mdelete b m))"

definition ttl_or :: "duration \<Rightarrow> int option \<Rightarrow> duration" where
  "ttl_or dflt rot = (case rot of Some n \<Rightarrow> if n > 0 then n * second else dflt | None \<Rightarrow> dflt)"

definition lease_suffix :: "string \<Rightarrow> string \<Rightarrow> string" where
  "lease_suffix prefix bearer = take 8 (drop (length prefix) bearer)"

definition namespace_mismatch :: "string \<Rightarrow> string \<Rightarrow> error_msg" where
  "namespace_mismatch lns rns =
     ''bearer lease namespace '' @ fmt_q lns @ '' does not match caller namespace '' @ fmt_q rns"

definition host_not_in_lease :: "string \<Rightarrow> string list \<Rightarrow> error_msg" where
  "host_not_in_lease host hosts =
     ''bearer host '' @ fmt_q host @ '' not in lease''@ [CHR 0x27] @ ''s allowed hosts '' @ fmt_v hosts"

definition secret_key_missing :: "string \<Rightarrow> string \<Rightarrow> string \<Rightarrow> error_msg" where
  "secret_key_missing key ns name =
     ''key '' @ fmt_q key @ '' missing or empty in secret '' @ ns @ ''/'' @ name"

text \<open>The value of one Secret key, absent and empty alike yielding the empty list as Go's nil slice.\<close>

definition secretData :: "Secret \<Rightarrow> string \<Rightarrow> string" where
  "secretData s k = (case map_of (sec_Data s) k of None \<Rightarrow> [] | Some v \<Rightarrow> v)"

section \<open>Lemmas on lease tables\<close>

lemma mkeys_ok_sweepExpired [simp]: "mkeys_ok m \<Longrightarrow> mkeys_ok (sweepExpired f now m)"
  by (simp add: sweepExpired_def)

lemma sweepExpired_subset: "set (sweepExpired f now m) \<subseteq> set m"
  by (auto simp: sweepExpired_def)

lemma map_of_sweepExpired:
  "mkeys_ok m \<Longrightarrow> map_of (sweepExpired f now m) b =
     (case map_of m b of None \<Rightarrow> None | Some l \<Rightarrow> if f l < now then None else Some l)"
  unfolding sweepExpired_def using map_of_filter_val [of m "\<lambda>_ l. \<not> f l < now" b]
  by (auto split: option.splits)

lemma sweepExpired_kept:
  "mkeys_ok m \<Longrightarrow> map_of m b = Some l \<Longrightarrow> now \<le> f l \<Longrightarrow> map_of (sweepExpired f now m) b = Some l"
  by (simp add: map_of_sweepExpired)

lemma set_mset_key_subset: "set (mset_key k v m) \<subseteq> insert (k, v) (set m)"
  unfolding mset_key_def by (induction m) auto

lemma revokeLease_subset: "set (revokeLease f lid m) \<subseteq> set m"
  by (auto simp: revokeLease_def mdelete_def split: option.splits)

lemma mkeys_ok_revokeLease [simp]: "mkeys_ok m \<Longrightarrow> mkeys_ok (revokeLease f lid m)"
  by (auto simp: revokeLease_def split: option.splits)

text \<open>With lease IDs that no two leases share, revoking one removes the lease that has it.\<close>

lemma revokeLease_gone:
  assumes keys: "mkeys_ok m" and b: "map_of m b = Some l" and id: "f l = lid" "lid \<noteq> []"
    and uniq: "\<forall>b1 l1 b2 l2. map_of m b1 = Some l1 \<longrightarrow> map_of m b2 = Some l2 \<longrightarrow> f l1 = f l2 \<longrightarrow> b1 = b2"
  shows "map_of (revokeLease f lid m) b = None"
proof -
  have "(b, l) \<in> set m" using keys b by (simp add: mkeys_ok_map_of)
  then have "find (\<lambda>(b, l). f l = lid) m \<noteq> None" using id by (auto simp: find_None_ball)
  then obtain b' l' where fnd: "find (\<lambda>(b, l). f l = lid) m = Some (b', l')" by auto
  then have "(b', l') \<in> set m" "f l' = lid" by (auto dest: find_SomeD)
  then have "b' = b" using uniq b id keys by (metis mkeys_ok_map_of)
  with fnd id show ?thesis by (simp add: revokeLease_def map_of_mdelete)
qed

lemma revokeLease_other:
  assumes "mkeys_ok m" "map_of m b = Some l" "f l \<noteq> lid"
  shows "map_of (revokeLease f lid m) b = Some l"
proof (cases "find (\<lambda>(b, l). f l = lid) m")
  case None
  then show ?thesis using assms by (simp add: revokeLease_def)
next
  case (Some p)
  obtain b' l' where p: "p = (b', l')" by (cases p)
  then have "(b', l') \<in> set m" "f l' = lid" using find_SomeD [OF Some] by auto
  then have "b' \<noteq> b" using assms by (metis mkeys_ok_map_of option.inject)
  then show ?thesis using assms Some p by (simp add: revokeLease_def map_of_mdelete)
qed

section \<open>The substituter contract\<close>

definition owns :: "string \<Rightarrow> SubstituteRequest \<Rightarrow> bool" where
  "owns prefix r \<longleftrightarrow> HasPrefix (ExtractBearer (sr_IncomingBearer r)) prefix"

locale substituter =
  fixes prefix :: string
    and step :: "prov_env \<Rightarrow> 's \<Rightarrow> SubstituteRequest \<Rightarrow> substitute_outcome \<times> 's"
  assumes not_owned: "\<not> owns prefix r \<Longrightarrow> step e s r = (unmatched, s)"
    and owned_matched: "owns prefix r \<Longrightarrow> sub_Matched (fst (fst (step e s r)))"
begin

lemma matched_iff: "sub_Matched (fst (fst (step e s r))) \<longleftrightarrow> owns prefix r"
  using not_owned owned_matched by (cases "owns prefix r") (auto simp: unmatched_def subst_zero_def)

lemma state_kept: "\<not> sub_Matched (fst (fst (step e s r))) \<Longrightarrow> snd (step e s r) = s"
  using matched_iff not_owned by simp

end

lemma sub_Matched_denied [simp]: "sub_Matched (fst (denied m))"
  by (simp add: denied_def)

lemma denied_error [simp]: "snd (denied m) = Some (PErr m)"
  by (simp add: denied_def)

lemma sub_Matched_unmatched [simp]: "\<not> sub_Matched (fst unmatched)"
  by (simp add: unmatched_def subst_zero_def)

lemma denied_neq_success [simp]: "denied m \<noteq> (res, None)"
  by (simp add: denied_def)

lemma owns_exclusive:
  assumes "owns p r" "owns q r"
  shows "HasPrefix p q \<or> HasPrefix q p"
  using assms unfolding owns_def HasPrefix_iff by (metis append_eq_append_conv2)

section \<open>The lease contract\<close>

text \<open>The part of a lease that every provider keeps.\<close>

record lease_view =
  lv_Namespace :: string
  lv_RunName :: string
  lv_CredentialName :: string
  lv_ExpiresAt :: time
  lv_Hosts :: "string list"

definition same_lease :: "lease_view \<Rightarrow> lease_view \<Rightarrow> bool" where
  "same_lease a b \<longleftrightarrow> lv_Namespace a = lv_Namespace b \<and> lv_RunName a = lv_RunName b
     \<and> lv_CredentialName a = lv_CredentialName b \<and> lv_Hosts a = lv_Hosts b"

definition issued_as :: "IssueRequest \<Rightarrow> IssueResult \<Rightarrow> string \<Rightarrow> lease_view \<Rightarrow> bool" where
  "issued_as q res b lv \<longleftrightarrow> b = ir_Value res \<and> lv_Namespace lv = iq_Namespace q
     \<and> lv_RunName lv = iq_RunName q \<and> lv_CredentialName lv = iq_CredentialName q
     \<and> lv_Hosts lv = ir_Hosts res"

text \<open>A lease authorises a request when its namespace, its expiry and its hosts all allow it.\<close>

definition lease_authorises :: "time \<Rightarrow> lease_view \<Rightarrow> SubstituteRequest \<Rightarrow> bool" where
  "lease_authorises now lv r \<longleftrightarrow>
     (sr_Namespace r = [] \<or> lv_Namespace lv = sr_Namespace r)
     \<and> now \<le> lv_ExpiresAt lv
     \<and> AnyHostMatches (lv_Hosts lv) (sr_Host r)"

text \<open>
  The states a provider reaches from its initial one, with the successful \<open>Issue\<close> calls made on
  the way, the latest first.
\<close>

inductive prov_reach ::
  "(prov_env \<Rightarrow> 's \<Rightarrow> IssueRequest \<Rightarrow> (prov_error + IssueResult) \<times> 's)
   \<Rightarrow> (prov_env \<Rightarrow> 's \<Rightarrow> SubstituteRequest \<Rightarrow> substitute_outcome \<times> 's)
   \<Rightarrow> ('s \<Rightarrow> string \<Rightarrow> 's) \<Rightarrow> (prov_env \<Rightarrow> 's \<Rightarrow> IssuedLease \<Rightarrow> 's) \<Rightarrow> 's
   \<Rightarrow> 's \<Rightarrow> (IssueRequest \<times> IssueResult) list \<Rightarrow> bool"
  for issue step revoke renew init where
  reach_init: "prov_reach issue step revoke renew init init []"
| reach_issue: "prov_reach issue step revoke renew init s h \<Longrightarrow> issue e s q = (Inr res, s')
    \<Longrightarrow> prov_reach issue step revoke renew init s' ((q, res) # h)"
| reach_issue_err: "prov_reach issue step revoke renew init s h \<Longrightarrow> issue e s q = (Inl err, s')
    \<Longrightarrow> prov_reach issue step revoke renew init s' h"
| reach_subst: "prov_reach issue step revoke renew init s h
    \<Longrightarrow> prov_reach issue step revoke renew init (snd (step e s r)) h"
| reach_revoke: "prov_reach issue step revoke renew init s h
    \<Longrightarrow> prov_reach issue step revoke renew init (revoke s lid) h"
| reach_renew: "prov_reach issue step revoke renew init s h
    \<Longrightarrow> prov_reach issue step revoke renew init (renew e s l) h"

locale lease_provider = substituter prefix step
  for prefix :: string and step :: "prov_env \<Rightarrow> 's \<Rightarrow> SubstituteRequest \<Rightarrow> substitute_outcome \<times> 's" +
  fixes issue :: "prov_env \<Rightarrow> 's \<Rightarrow> IssueRequest \<Rightarrow> (prov_error + IssueResult) \<times> 's"
    and revoke :: "'s \<Rightarrow> string \<Rightarrow> 's"
    and renew :: "prov_env \<Rightarrow> 's \<Rightarrow> IssuedLease \<Rightarrow> 's"
    and init :: 's
    and inv :: "'s \<Rightarrow> bool"
    and holds :: "'s \<Rightarrow> string \<Rightarrow> lease_view \<Rightarrow> bool"
  assumes inv_init: "inv init"
    and holds_init: "\<not> holds init b lv"
    and inv_issue: "inv s \<Longrightarrow> inv (snd (issue e s q))"
    and inv_step: "inv s \<Longrightarrow> inv (snd (step e s r))"
    and inv_revoke: "inv s \<Longrightarrow> inv (revoke s lid)"
    and inv_renew: "inv s \<Longrightarrow> inv (renew e s l)"
    and issue_ok: "inv s \<Longrightarrow> issue e s q = (Inr res, s') \<Longrightarrow> holds s' b lv
      \<Longrightarrow> holds s b lv \<or> issued_as q res b lv"
    and issue_err: "inv s \<Longrightarrow> issue e s q = (Inl err, s') \<Longrightarrow> holds s' b lv
      \<Longrightarrow> holds s b lv"
    and step_keeps: "inv s \<Longrightarrow> holds (snd (step e s r)) b lv \<Longrightarrow> holds s b lv"
    and revoke_keeps: "inv s \<Longrightarrow> holds (revoke s lid) b lv \<Longrightarrow> holds s b lv"
    and renew_keeps: "inv s \<Longrightarrow> holds (renew e s l) b lv
      \<Longrightarrow> \<exists>lv0. holds s b lv0 \<and> same_lease lv0 lv"
    and success: "inv s \<Longrightarrow> step e s r = ((out, None), s') \<Longrightarrow> sub_Matched out
      \<Longrightarrow> \<exists>lv. holds s (ExtractBearer (sr_IncomingBearer r)) lv
             \<and> lease_authorises (pe_now e) lv r \<and> sub_CredentialName out = lv_CredentialName lv"
begin

lemma reach_inv: "prov_reach issue step revoke renew init s h \<Longrightarrow> inv s"
proof (induction rule: prov_reach.induct)
  case (reach_issue s h e q res s')
  then show ?case using inv_issue [of s e q] by simp
next
  case (reach_issue_err s h e q err s')
  then show ?case using inv_issue [of s e q] by simp
qed (simp_all add: inv_init inv_step inv_revoke inv_renew)

lemma provenance:
  "prov_reach issue step revoke renew init s h \<Longrightarrow> holds s b lv
   \<Longrightarrow> \<exists>(q, res) \<in> set h. issued_as q res b lv"
proof (induction arbitrary: lv rule: prov_reach.induct)
  case (reach_issue s h e q res s')
  then show ?case using issue_ok [OF reach_inv] by fastforce
next
  case (reach_issue_err s h e q err s')
  then show ?case using issue_err [OF reach_inv] by blast
next
  case (reach_subst s h e r)
  then show ?case using step_keeps [OF reach_inv] by blast
next
  case (reach_revoke s h lid)
  then show ?case using revoke_keeps [OF reach_inv] by blast
next
  case (reach_renew s h e l)
  then obtain lv0 where "holds s b lv0" "same_lease lv0 lv"
    using renew_keeps [OF reach_inv] by blast
  then show ?case using reach_renew.IH by (fastforce simp: issued_as_def same_lease_def)
qed (simp add: holds_init)

text \<open>Every substitution a provider grants goes back to an \<open>Issue\<close> for the caller's namespace.\<close>

lemma confined:
  assumes "prov_reach issue step revoke renew init s h"
    and "step e s r = ((res, None), s')" and "sub_Matched res" and "sr_Namespace r \<noteq> []"
  shows "\<exists>(q, ir) \<in> set h. ir_Value ir = ExtractBearer (sr_IncomingBearer r)
           \<and> iq_Namespace q = sr_Namespace r
           \<and> iq_CredentialName q = sub_CredentialName res
           \<and> AnyHostMatches (ir_Hosts ir) (sr_Host r)"
proof -
  obtain lv where lv: "holds s (ExtractBearer (sr_IncomingBearer r)) lv"
    "lease_authorises (pe_now e) lv r" "sub_CredentialName res = lv_CredentialName lv"
    using success [OF reach_inv [OF assms(1)] assms(2,3)] by blast
  obtain q ir where "(q, ir) \<in> set h" "issued_as q ir (ExtractBearer (sr_IncomingBearer r)) lv"
    using provenance [OF assms(1) lv(1)] by blast
  then show ?thesis using lv assms(4) by (fastforce simp: issued_as_def lease_authorises_def)
qed

end

end
