(* ===== verification/Provider_Anthropic.thy ===== *)
theory Provider_Anthropic
  imports Provider_Base
begin

text \<open>
  The Anthropic API provider (\<open>src/internal/broker/providers/anthropic.go\<close>): state, \<open>Issue\<close>,
  \<open>Revoke\<close> and \<open>SubstituteAuth\<close>. The state is the bearer table.
\<close>

definition anthropicBearerPrefix :: string where
  "anthropicBearerPrefix = ''pdk-anthropic-''"

definition defaultAnthropicTTL :: duration where
  "defaultAnthropicTTL = 60 * minute"

record anthropicLease =
  al_Namespace :: string
  al_SecretRef :: SecretKeyReference
  al_RunName :: string
  al_CredentialName :: string
  al_ExpiresAt :: time
  al_AllowedHosts :: "string list"
  al_LeaseID :: string

type_synonym anthropic_state = "(string, anthropicLease) gomap"

definition anthropicHosts :: "ProviderConfig \<Rightarrow> string list" where
  "anthropicHosts cfg = (if pc_Hosts cfg = [] then [''api.anthropic.com''] else pc_Hosts cfg)"

definition anthropicMint ::
  "prov_env \<Rightarrow> anthropic_state \<Rightarrow> IssueRequest \<Rightarrow> SecretKeyReference
    \<Rightarrow> (prov_error + IssueResult) \<times> anthropic_state" where
  "anthropicMint e st req ref =
     (let cfg = cg_Provider (iq_Grant req)
      in case mintBearer (pe_rand e) anthropicBearerPrefix of
           Inl m \<Rightarrow> (Inl (PErr m), st)
         | Inr bearer \<Rightarrow>
             let now = pe_now e;
                 expires = now + ttl_or defaultAnthropicTTL (pc_RotationSeconds cfg);
                 hosts = anthropicHosts cfg;
                 leaseID = ''anth-'' @ lease_suffix anthropicBearerPrefix bearer;
                 lease = \<lparr> al_Namespace = iq_Namespace req, al_SecretRef = ref,
                           al_RunName = iq_RunName req, al_CredentialName = iq_CredentialName req,
                           al_ExpiresAt = expires, al_AllowedHosts = hosts, al_LeaseID = leaseID \<rparr>
             in (Inr \<lparr> ir_Value = bearer, ir_LeaseID = leaseID, ir_ExpiresAt = expires,
                       ir_DeliveryMode = ''ProxyInjected'', ir_Hosts = hosts,
                       ir_InContainerReason = [], ir_PoolSecretRef = None, ir_PoolSlotIndex = None \<rparr>,
                 sweepExpired al_ExpiresAt now (mset_key bearer lease st)))"

definition anthropicIssue ::
  "prov_env \<Rightarrow> anthropic_state \<Rightarrow> IssueRequest \<Rightarrow> (prov_error + IssueResult) \<times> anthropic_state" where
  "anthropicIssue e st req =
     (let cfg = cg_Provider (iq_Grant req)
      in case pc_SecretRef cfg of
           None \<Rightarrow> (Inl (PErr (''AnthropicAPIProvider requires secretRef on grant ''
                         @ fmt_q (cg_Name (iq_Grant req)))), st)
         | Some ref \<Rightarrow>
             (case getSecret (pe_kube e) (iq_Namespace req) (skr_Name ref) of
                Inl err \<Rightarrow> (Inl (PErr (''reading secret '' @ iq_Namespace req @ ''/'' @ skr_Name ref
                              @ '': '' @ api_Error err)), st)
              | Inr secret \<Rightarrow>
                  if secretData secret (skr_Key ref) = []
                  then (Inl (PErr (''key '' @ fmt_q (skr_Key ref) @ '' not present or empty in secret ''
                          @ iq_Namespace req @ ''/'' @ skr_Name ref)), st)
                  else anthropicMint e st req ref))"

definition anthropicRevoke :: "anthropic_state \<Rightarrow> string \<Rightarrow> anthropic_state" where
  "anthropicRevoke st leaseID = revokeLease al_LeaseID leaseID st"

definition anthropicSubstitution :: "anthropicLease \<Rightarrow> string \<Rightarrow> SubstituteResult" where
  "anthropicSubstitution lease v =
     \<lparr> sub_Matched = True,
       sub_SetHeaders = [(''x-api-key'', v)],
       sub_RemoveHeaders = [''Authorization''],
       sub_SetQueryParam = [],
       sub_SetBasicAuth = None,
       sub_AllowedHeaders =
         [''Content-Type'', ''Content-Length'', ''Accept'', ''Accept-Encoding'', ''User-Agent'',
          ''Anthropic-Version'', ''Anthropic-Beta''],
       sub_AllowedQueryParams = [],
       sub_CredentialName = al_CredentialName lease \<rparr>"

definition anthropicSubstituteAuth ::
  "prov_env \<Rightarrow> anthropic_state \<Rightarrow> SubstituteRequest \<Rightarrow> substitute_outcome \<times> anthropic_state" where
  "anthropicSubstituteAuth e st req =
     (let bearer = ExtractBearer (sr_IncomingBearer req)
      in if \<not> HasPrefix bearer anthropicBearerPrefix then (unmatched, st)
         else (case map_of st bearer of
                 None \<Rightarrow> (denied ''anthropic bearer not recognised'', st)
               | Some lease \<Rightarrow>
                   if sr_Namespace req \<noteq> [] \<and> al_Namespace lease \<noteq> sr_Namespace req
                   then (denied (namespace_mismatch (al_Namespace lease) (sr_Namespace req)), st)
                   else if pe_now e > al_ExpiresAt lease
                   then (denied ''anthropic bearer expired'', mdelete bearer st)
                   else if \<not> AnyHostMatches (al_AllowedHosts lease) (sr_Host req)
                   then (denied (host_not_in_lease (sr_Host req) (al_AllowedHosts lease)), st)
                   else (case getSecret (pe_kube e) (al_Namespace lease) (skr_Name (al_SecretRef lease)) of
                           Inl err \<Rightarrow>
                             (denied (''reading secret '' @ al_Namespace lease @ ''/''
                                @ skr_Name (al_SecretRef lease) @ '': '' @ api_Error err), st)
                         | Inr secret \<Rightarrow>
                             if secretData secret (skr_Key (al_SecretRef lease)) = []
                             then (denied (secret_key_missing (skr_Key (al_SecretRef lease))
                                      (al_Namespace lease) (skr_Name (al_SecretRef lease))), st)
                             else ((anthropicSubstitution lease
                                      (secretData secret (skr_Key (al_SecretRef lease))), None), st))))"

section \<open>Invariant\<close>

definition anthropic_inv :: "anthropic_state \<Rightarrow> bool" where
  "anthropic_inv st \<longleftrightarrow>
     mkeys_ok st \<and>
     (\<forall>(b, l) \<in> set st. HasPrefix b anthropicBearerPrefix
        \<and> al_LeaseID l = ''anth-'' @ lease_suffix anthropicBearerPrefix b)"

lemma anthropic_inv_subset:
  "anthropic_inv st \<Longrightarrow> mkeys_ok st' \<Longrightarrow> set st' \<subseteq> set st \<Longrightarrow> anthropic_inv st'"
  unfolding anthropic_inv_def by blast

lemma anthropicMint_inv: "anthropic_inv st \<Longrightarrow> anthropic_inv (snd (anthropicMint e st req ref))"
proof (cases "mintBearer (pe_rand e) anthropicBearerPrefix")
  case (Inr bearer)
  assume inv: "anthropic_inv st"
  obtain buf where b: "bearer = anthropicBearerPrefix @ hex_encode buf"
    using mintBearer_shape [OF Inr] by metis
  show ?thesis
    using inv b Inr set_mset_key_subset sweepExpired_subset
    by (fastforce simp: anthropicMint_def anthropic_inv_def Let_def)
qed (simp add: anthropicMint_def)

lemma anthropicIssue_inv: "anthropic_inv st \<Longrightarrow> anthropic_inv (snd (anthropicIssue e st req))"
  by (auto simp: anthropicIssue_def Let_def anthropicMint_inv split: option.splits sum.splits)

lemma anthropicRevoke_inv: "anthropic_inv st \<Longrightarrow> anthropic_inv (anthropicRevoke st lid)"
  unfolding anthropicRevoke_def
  by (rule anthropic_inv_subset [OF _ _ revokeLease_subset]) (auto simp: anthropic_inv_def)

lemma anthropicSubstituteAuth_state:
  "snd (anthropicSubstituteAuth e st req) = st
   \<or> snd (anthropicSubstituteAuth e st req) = mdelete (ExtractBearer (sr_IncomingBearer req)) st"
  by (auto simp: anthropicSubstituteAuth_def Let_def split: option.splits sum.splits)

lemma anthropicSubstituteAuth_inv:
  "anthropic_inv st \<Longrightarrow> anthropic_inv (snd (anthropicSubstituteAuth e st req))"
  using anthropicSubstituteAuth_state [of e st req]
  by (auto simp: anthropic_inv_def set_mdelete)

interpretation anthropic: substituter anthropicBearerPrefix anthropicSubstituteAuth
proof
  fix r e s
  show "\<not> owns anthropicBearerPrefix r \<Longrightarrow> anthropicSubstituteAuth e s r = (unmatched, s)"
    by (simp add: anthropicSubstituteAuth_def owns_def Let_def)
  show "owns anthropicBearerPrefix r \<Longrightarrow> sub_Matched (fst (fst (anthropicSubstituteAuth e s r)))"
    by (auto simp: anthropicSubstituteAuth_def owns_def Let_def anthropicSubstitution_def
        split: option.splits sum.splits)
qed

section \<open>Behaviour\<close>

text \<open>What a successful substitution requires, and what it then answers.\<close>

definition anthropic_serves :: "prov_env \<Rightarrow> anthropic_state \<Rightarrow> SubstituteRequest \<Rightarrow> anthropicLease \<Rightarrow> string \<Rightarrow> bool" where
  "anthropic_serves e st req lease v \<longleftrightarrow>
     owns anthropicBearerPrefix req
     \<and> map_of st (ExtractBearer (sr_IncomingBearer req)) = Some lease
     \<and> (sr_Namespace req = [] \<or> al_Namespace lease = sr_Namespace req)
     \<and> pe_now e \<le> al_ExpiresAt lease
     \<and> AnyHostMatches (al_AllowedHosts lease) (sr_Host req)
     \<and> v \<noteq> []
     \<and> (\<exists>secret. getSecret (pe_kube e) (al_Namespace lease) (skr_Name (al_SecretRef lease)) = Inr secret
          \<and> secretData secret (skr_Key (al_SecretRef lease)) = v)"

lemma anthropic_serves_ok:
  "anthropic_serves e st req lease v \<Longrightarrow>
   anthropicSubstituteAuth e st req = ((anthropicSubstitution lease v, None), st)"
  by (auto simp: anthropic_serves_def anthropicSubstituteAuth_def owns_def)

lemma anthropic_success_serves:
  assumes "anthropicSubstituteAuth e st req = ((res, None), st')" "sub_Matched res"
  shows "\<exists>lease v. anthropic_serves e st req lease v \<and> res = anthropicSubstitution lease v \<and> st' = st"
  using assms
  by (auto simp: anthropicSubstituteAuth_def anthropic_serves_def owns_def Let_def denied_def
      unmatched_def subst_zero_def not_less split: option.splits sum.splits if_splits)

text \<open>A successful \<open>Issue\<close> records the lease of the bearer it returns.\<close>

definition anthropic_view :: "anthropicLease \<Rightarrow> lease_view" where
  "anthropic_view l = \<lparr> lv_Namespace = al_Namespace l, lv_RunName = al_RunName l,
     lv_CredentialName = al_CredentialName l, lv_ExpiresAt = al_ExpiresAt l, lv_Hosts = al_AllowedHosts l \<rparr>"

definition anthropic_lookup :: "anthropic_state \<Rightarrow> string \<Rightarrow> lease_view option" where
  "anthropic_lookup st b = map_option anthropic_view (map_of st b)"

lemma anthropicIssue_cases:
  assumes "anthropicIssue e st req = (x, st')"
  obtains (err) m where "x = Inl (PErr m)" "st' = st"
  | (mint) ref where "pc_SecretRef (cg_Provider (iq_Grant req)) = Some ref"
      "anthropicMint e st req ref = (x, st')"
  using assms by (auto simp: anthropicIssue_def Let_def split: option.splits sum.splits if_splits)

lemma anthropicMint_lookup:
  assumes inv: "anthropic_inv st" and mint: "anthropicMint e st req ref = (x, st')"
    and b: "anthropic_lookup st' b = Some lv"
  shows "anthropic_lookup st b = Some lv \<or> (\<exists>res. x = Inr res \<and> issued_as req res b lv)"
proof (cases "mintBearer (pe_rand e) anthropicBearerPrefix")
  case (Inr bearer)
  with assms show ?thesis
    by (auto simp: anthropicMint_def Let_def anthropic_lookup_def map_of_sweepExpired anthropic_inv_def
        map_of_mset_key issued_as_def anthropic_view_def split: option.splits if_splits)
qed (use assms in \<open>auto simp: anthropicMint_def\<close>)

lemma anthropicIssue_lookup:
  assumes "anthropic_inv st" "anthropicIssue e st req = (x, st')" "anthropic_lookup st' b = Some lv"
  shows "anthropic_lookup st b = Some lv \<or> (\<exists>res. x = Inr res \<and> issued_as req res b lv)"
  using assms(2) by (cases rule: anthropicIssue_cases) (use assms anthropicMint_lookup in auto)

interpretation anthropic: lease_provider anthropicBearerPrefix anthropicSubstituteAuth
  anthropicIssue anthropicRevoke "\<lambda>_ s _. s" "[]" anthropic_inv "\<lambda>s b lv. anthropic_lookup s b = Some lv"
proof unfold_locales
  fix e s q res s' b lv
  assume "anthropic_inv s" "anthropicIssue e s q = (Inr res, s')" "anthropic_lookup s' b = Some lv"
  then show "anthropic_lookup s b = Some lv \<or> issued_as q res b lv"
    using anthropicIssue_lookup by blast
next
  fix e s q err s' b lv
  assume "anthropic_inv s" "anthropicIssue e s q = (Inl err, s')" "anthropic_lookup s' b = Some lv"
  then show "anthropic_lookup s b = Some lv" using anthropicIssue_lookup by blast
next
  fix s e r b lv
  assume "anthropic_lookup (snd (anthropicSubstituteAuth e s r)) b = Some lv"
  then show "anthropic_lookup s b = Some lv"
    using anthropicSubstituteAuth_state [of e s r]
    by (auto simp: anthropic_lookup_def map_of_mdelete split: if_splits)
next
  fix s lid b lv
  assume "anthropic_inv s" "anthropic_lookup (anthropicRevoke s lid) b = Some lv"
  then show "anthropic_lookup s b = Some lv"
    by (auto simp: anthropic_lookup_def anthropicRevoke_def revokeLease_def map_of_mdelete
        split: option.splits if_splits)
next
  fix s e r res s'
  assume "anthropicSubstituteAuth e s r = ((res, None), s')" "sub_Matched res"
  then show "\<exists>lv. anthropic_lookup s (ExtractBearer (sr_IncomingBearer r)) = Some lv
      \<and> lease_authorises (pe_now e) lv r \<and> sub_CredentialName res = lv_CredentialName lv"
    by (auto dest!: anthropic_success_serves simp: anthropic_serves_def anthropic_lookup_def
        anthropic_view_def lease_authorises_def anthropicSubstitution_def)
qed (auto simp: anthropic_inv_def [of "[]"] anthropic_lookup_def anthropicIssue_inv
      anthropicSubstituteAuth_inv anthropicRevoke_inv same_lease_def)

text \<open>
  The bearer a successful \<open>Issue\<close> returns is in the table, unless the table is swept later; it is
  one token with no white space, so every header shape carries it.
\<close>

lemma ttl_or_pos: "0 < d \<Longrightarrow> 0 < ttl_or d rot"
  by (auto simp: ttl_or_def second_def split: option.splits)

lemma anthropicIssue_records:
  assumes ok: "anthropicIssue e st req = (Inr res, st')" and inv: "anthropic_inv st"
  shows "\<exists>ref lease. pc_SecretRef (cg_Provider (iq_Grant req)) = Some ref
     \<and> map_of st' (ir_Value res) = Some lease \<and> al_Namespace lease = iq_Namespace req
     \<and> al_SecretRef lease = ref \<and> al_CredentialName lease = iq_CredentialName req
     \<and> al_ExpiresAt lease = ir_ExpiresAt res \<and> al_AllowedHosts lease = ir_Hosts res
     \<and> al_LeaseID lease = ir_LeaseID res \<and> pe_now e < ir_ExpiresAt res
     \<and> (\<exists>buf. ir_Value res = anthropicBearerPrefix @ hex_encode buf)"
  using ok
proof (cases rule: anthropicIssue_cases)
  case (mint ref)
  then obtain bearer where m: "mintBearer (pe_rand e) anthropicBearerPrefix = Inr bearer"
    by (cases "mintBearer (pe_rand e) anthropicBearerPrefix") (auto simp: anthropicMint_def)
  have ttl: "0 < ttl_or defaultAnthropicTTL (pc_RotationSeconds (cg_Provider (iq_Grant req)))"
    by (rule ttl_or_pos) (simp add: defaultAnthropicTTL_def minute_def second_def)
  obtain buf where "bearer = anthropicBearerPrefix @ hex_encode buf"
    using mintBearer_shape [OF m] by metis
  then show ?thesis
    using mint m inv ttl
    by (auto simp: anthropicMint_def Let_def map_of_sweepExpired anthropic_inv_def map_of_mset_key)
qed auto

end
