(* ===== verification/Provider_UserSecret.thy ===== *)
theory Provider_UserSecret
  imports Provider_Base
begin

text \<open>
  The provider of user-supplied secrets (\<open>src/internal/broker/providers/usersuppliedsecret.go\<close>).
  An in-container grant hands the Secret value itself to the run; a proxy-injected grant mints a
  bearer that \<open>SubstituteAuth\<close> later swaps for the value as a header, a query parameter or basic
  authentication. \<open>Issue\<close> reads the clock twice: for the lease's expiry and for the sweep.
\<close>

definition userSuppliedBearerPrefix :: string where
  "userSuppliedBearerPrefix = ''pdk-usersecret-''"

definition defaultUserSuppliedTTL :: duration where
  "defaultUserSuppliedTTL = 60 * minute"

record userSuppliedLease =
  ul_Namespace :: string
  ul_SecretRef :: SecretKeyReference
  ul_RunName :: string
  ul_CredentialName :: string
  ul_ExpiresAt :: time
  ul_ProxyInjected :: ProxyInjectedDelivery

type_synonym usersecret_state = "(string, userSuppliedLease) gomap"

text \<open>The in-container branch: a deterministic lease ID, and no state.\<close>

definition userSecretInContainer ::
  "prov_env \<Rightarrow> IssueRequest \<Rightarrow> Secret \<Rightarrow> string \<Rightarrow> InContainerDelivery \<Rightarrow> IssueResult" where
  "userSecretInContainer e req secret data ic =
     \<lparr> ir_Value = data,
       ir_LeaseID = ''uss-'' @ hex_encode (take 8 (pe_sha256 e
          (iq_Namespace req @ ''|'' @ iq_RunName req @ ''|'' @ iq_CredentialName req @ ''|''
            @ sec_ResourceVersion secret))),
       ir_ExpiresAt = (case pc_RotationSeconds (cg_Provider (iq_Grant req)) of
                         Some n \<Rightarrow> if n > 0 then pe_now e + n * second else 0
                       | None \<Rightarrow> 0),
       ir_DeliveryMode = ''InContainer'',
       ir_Hosts = [],
       ir_InContainerReason = ic_Reason ic,
       ir_PoolSecretRef = None,
       ir_PoolSlotIndex = None \<rparr>"

definition userSecretMint ::
  "prov_env \<Rightarrow> usersecret_state \<Rightarrow> IssueRequest \<Rightarrow> SecretKeyReference \<Rightarrow> DeliveryMode
    \<Rightarrow> (prov_error + IssueResult) \<times> usersecret_state" where
  "userSecretMint e st req ref dm =
     (case mintBearer (pe_rand e) userSuppliedBearerPrefix of
        Inl m \<Rightarrow> (Inl (PErr m), st)
      | Inr bearer \<Rightarrow>
          let expires = pe_now e + ttl_or defaultUserSuppliedTTL
                          (pc_RotationSeconds (cg_Provider (iq_Grant req)))
          in case dm_ProxyInjected dm of
               None \<Rightarrow> (Inl Panic, st)
             | Some pri \<Rightarrow>
                 let lease = \<lparr> ul_Namespace = iq_Namespace req, ul_SecretRef = ref,
                               ul_RunName = iq_RunName req, ul_CredentialName = iq_CredentialName req,
                               ul_ExpiresAt = expires, ul_ProxyInjected = pri \<rparr>
                 in (Inr \<lparr> ir_Value = bearer,
                           ir_LeaseID = ''uss-'' @ lease_suffix userSuppliedBearerPrefix bearer,
                           ir_ExpiresAt = expires, ir_DeliveryMode = ''ProxyInjected'',
                           ir_Hosts = pi_Hosts pri, ir_InContainerReason = [],
                           ir_PoolSecretRef = None, ir_PoolSlotIndex = None \<rparr>,
                     sweepExpired ul_ExpiresAt (pe_now2 e) (mset_key bearer lease st)))"

definition userSecretIssue ::
  "prov_env \<Rightarrow> usersecret_state \<Rightarrow> IssueRequest \<Rightarrow> (prov_error + IssueResult) \<times> usersecret_state" where
  "userSecretIssue e st req =
     (let cfg = cg_Provider (iq_Grant req)
      in case pc_SecretRef cfg of
           None \<Rightarrow> (Inl (PErr (''UserSuppliedSecret requires secretRef on grant ''
                         @ fmt_q (cg_Name (iq_Grant req)))), st)
         | Some ref \<Rightarrow>
             (case pc_DeliveryMode cfg of
                None \<Rightarrow> (Inl (PErr (''UserSuppliedSecret grant '' @ fmt_q (cg_Name (iq_Grant req))
                           @ '' has no deliveryMode (should have been caught at admission)'')), st)
              | Some dm \<Rightarrow>
                  (case getSecret (pe_kube e) (iq_Namespace req) (skr_Name ref) of
                     Inl err \<Rightarrow> (Inl (PErr (''reading secret '' @ iq_Namespace req @ ''/'' @ skr_Name ref
                                   @ '': '' @ api_Error err)), st)
                   | Inr secret \<Rightarrow>
                       (case map_of (sec_Data secret) (skr_Key ref) of
                          None \<Rightarrow> (Inl (PErr (''key '' @ fmt_q (skr_Key ref) @ '' not present in secret ''
                                     @ iq_Namespace req @ ''/'' @ skr_Name ref)), st)
                        | Some data \<Rightarrow>
                            (case dm_InContainer dm of
                               Some ic \<Rightarrow> (Inr (userSecretInContainer e req secret data ic), st)
                             | None \<Rightarrow> userSecretMint e st req ref dm)))))"

definition userSecretRevoke :: "usersecret_state \<Rightarrow> string \<Rightarrow> usersecret_state" where
  "userSecretRevoke st leaseID = st"

text \<open>The substitution pattern, in the order of the code's switch.\<close>

definition userSecretSubstitution :: "userSuppliedLease \<Rightarrow> string \<Rightarrow> string \<Rightarrow> substitute_outcome" where
  "userSecretSubstitution lease bearer v =
     (let res = subst_zero\<lparr> sub_Matched := True,
                  sub_AllowedHeaders :=
                    [''Content-Type'', ''Content-Length'', ''Accept'', ''Accept-Encoding'', ''User-Agent''],
                  sub_CredentialName := ul_CredentialName lease \<rparr>;
          pri = ul_ProxyInjected lease
      in case pi_Header pri of
           Some h \<Rightarrow> (res\<lparr> sub_SetHeaders := [(hs_Name h, hs_ValuePrefix h @ v)] \<rparr>, None)
         | None \<Rightarrow>
             (case pi_QueryParam pri of
                Some q \<Rightarrow> (res\<lparr> sub_SetQueryParam := [(qs_Name q, v)],
                               sub_AllowedQueryParams := [qs_Name q] \<rparr>, None)
              | None \<Rightarrow>
                  (case pi_BasicAuth pri of
                     Some ba \<Rightarrow> (res\<lparr> sub_SetBasicAuth :=
                                  Some \<lparr> ba_Username = bs_Username ba, ba_Password = v \<rparr> \<rparr>, None)
                   | None \<Rightarrow> denied (''lease for '' @ bearer @ '' has no substitution pattern set''))))"

definition userSecretSubstituteAuth ::
  "prov_env \<Rightarrow> usersecret_state \<Rightarrow> SubstituteRequest \<Rightarrow> substitute_outcome \<times> usersecret_state" where
  "userSecretSubstituteAuth e st req =
     (let bearer = ExtractBearer (sr_IncomingBearer req)
      in if \<not> HasPrefix bearer userSuppliedBearerPrefix then (unmatched, st)
         else (case map_of st bearer of
                 None \<Rightarrow> (denied ''UserSuppliedSecret bearer not recognised'', st)
               | Some lease \<Rightarrow>
                   if sr_Namespace req \<noteq> [] \<and> ul_Namespace lease \<noteq> sr_Namespace req
                   then (denied (namespace_mismatch (ul_Namespace lease) (sr_Namespace req)), st)
                   else if pe_now e > ul_ExpiresAt lease
                   then (denied ''UserSuppliedSecret bearer expired'', mdelete bearer st)
                   else if \<not> AnyHostMatches (pi_Hosts (ul_ProxyInjected lease)) (sr_Host req)
                   then (denied (''bearer host '' @ fmt_q (sr_Host req) @ '' not in grant'' @ [CHR 0x27]
                           @ ''s allowed hosts '' @ fmt_v (pi_Hosts (ul_ProxyInjected lease))), st)
                   else (case getSecret (pe_kube e) (ul_Namespace lease) (skr_Name (ul_SecretRef lease)) of
                           Inl err \<Rightarrow>
                             (denied (''reading secret '' @ ul_Namespace lease @ ''/''
                                @ skr_Name (ul_SecretRef lease) @ '': '' @ api_Error err), st)
                         | Inr secret \<Rightarrow>
                             if secretData secret (skr_Key (ul_SecretRef lease)) = []
                             then (denied (secret_key_missing (skr_Key (ul_SecretRef lease))
                                      (ul_Namespace lease) (skr_Name (ul_SecretRef lease))), st)
                             else (userSecretSubstitution lease bearer
                                      (secretData secret (skr_Key (ul_SecretRef lease))), st))))"

section \<open>Invariant and contract\<close>

definition usersecret_inv :: "usersecret_state \<Rightarrow> bool" where
  "usersecret_inv st \<longleftrightarrow> mkeys_ok st \<and> (\<forall>(b, l) \<in> set st. HasPrefix b userSuppliedBearerPrefix)"

lemma userSecretMint_inv: "usersecret_inv st \<Longrightarrow> usersecret_inv (snd (userSecretMint e st req ref dm))"
proof (cases "mintBearer (pe_rand e) userSuppliedBearerPrefix")
  case (Inr bearer)
  assume inv: "usersecret_inv st"
  obtain buf where b: "bearer = userSuppliedBearerPrefix @ hex_encode buf"
    using mintBearer_shape [OF Inr] by metis
  show ?thesis
    using inv b Inr set_mset_key_subset sweepExpired_subset
    by (fastforce simp: userSecretMint_def usersecret_inv_def Let_def split: option.splits)
qed (simp add: userSecretMint_def)

lemma userSecretIssue_cases:
  assumes "userSecretIssue e st req = (x, st')"
  obtains (err) m where "x = Inl (PErr m)" "st' = st"
  | (incontainer) res where "x = Inr res" "ir_DeliveryMode res = ''InContainer''" "st' = st"
  | (mint) ref dm where "pc_SecretRef (cg_Provider (iq_Grant req)) = Some ref"
      "pc_DeliveryMode (cg_Provider (iq_Grant req)) = Some dm" "dm_InContainer dm = None"
      "userSecretMint e st req ref dm = (x, st')"
  using assms by (auto simp: userSecretIssue_def Let_def userSecretInContainer_def
      split: option.splits sum.splits if_splits)

lemma userSecretIssue_inv:
  assumes "usersecret_inv st" shows "usersecret_inv (snd (userSecretIssue e st req))"
proof -
  obtain x st' where eq: "userSecretIssue e st req = (x, st')" by fastforce
  then show ?thesis
    by (cases rule: userSecretIssue_cases)
      (use assms userSecretMint_inv [OF assms, of e req] in \<open>auto simp: eq dest!: arg_cong [where f = snd]\<close>)
qed

lemma userSecretSubstituteAuth_state:
  "snd (userSecretSubstituteAuth e st req) = st
   \<or> snd (userSecretSubstituteAuth e st req) = mdelete (ExtractBearer (sr_IncomingBearer req)) st"
  by (auto simp: userSecretSubstituteAuth_def Let_def split: option.splits sum.splits)

lemma userSecretSubstituteAuth_inv:
  "usersecret_inv st \<Longrightarrow> usersecret_inv (snd (userSecretSubstituteAuth e st req))"
  using userSecretSubstituteAuth_state [of e st req]
  by (auto simp: usersecret_inv_def set_mdelete)

lemma userSecretSubstitution_matched [simp]: "sub_Matched (fst (userSecretSubstitution l b v))"
  by (auto simp: userSecretSubstitution_def Let_def split: option.splits)

lemma userSecretSubstitution_name:
  "userSecretSubstitution l b v = (res, None) \<Longrightarrow> sub_CredentialName res = ul_CredentialName l"
  by (auto simp: userSecretSubstitution_def Let_def split: option.splits)

definition usersecret_view :: "userSuppliedLease \<Rightarrow> lease_view" where
  "usersecret_view l = \<lparr> lv_Namespace = ul_Namespace l, lv_RunName = ul_RunName l,
     lv_CredentialName = ul_CredentialName l, lv_ExpiresAt = ul_ExpiresAt l,
     lv_Hosts = pi_Hosts (ul_ProxyInjected l) \<rparr>"

definition usersecret_lookup :: "usersecret_state \<Rightarrow> string \<Rightarrow> lease_view option" where
  "usersecret_lookup st b = map_option usersecret_view (map_of st b)"

lemma userSecretMint_lookup:
  assumes inv: "usersecret_inv st" and mint: "userSecretMint e st req ref dm = (x, st')"
    and b: "usersecret_lookup st' b = Some lv"
  shows "usersecret_lookup st b = Some lv \<or> (\<exists>res. x = Inr res \<and> issued_as req res b lv)"
proof (cases "mintBearer (pe_rand e) userSuppliedBearerPrefix")
  case (Inr bearer)
  with assms show ?thesis
    by (auto simp: userSecretMint_def Let_def usersecret_lookup_def map_of_sweepExpired usersecret_inv_def
        map_of_mset_key issued_as_def usersecret_view_def split: option.splits if_splits)
qed (use assms in \<open>auto simp: userSecretMint_def\<close>)

lemma userSecretIssue_lookup:
  assumes "usersecret_inv st" "userSecretIssue e st req = (x, st')" "usersecret_lookup st' b = Some lv"
  shows "usersecret_lookup st b = Some lv \<or> (\<exists>res. x = Inr res \<and> issued_as req res b lv)"
  using assms(2) by (cases rule: userSecretIssue_cases) (use assms userSecretMint_lookup in auto)

lemma userSecret_success:
  assumes "userSecretSubstituteAuth e st req = ((res, None), st')" "sub_Matched res"
  shows "\<exists>lease v. map_of st (ExtractBearer (sr_IncomingBearer req)) = Some lease
    \<and> lease_authorises (pe_now e) (usersecret_view lease) req
    \<and> getSecret (pe_kube e) (ul_Namespace lease) (skr_Name (ul_SecretRef lease)) = Inr v
    \<and> secretData v (skr_Key (ul_SecretRef lease)) \<noteq> []
    \<and> userSecretSubstitution lease (ExtractBearer (sr_IncomingBearer req))
        (secretData v (skr_Key (ul_SecretRef lease))) = (res, None)"
  using assms
  by (auto simp: userSecretSubstituteAuth_def Let_def unmatched_def subst_zero_def lease_authorises_def
      usersecret_view_def not_less split: option.splits sum.splits if_splits)

interpretation usersecret: lease_provider userSuppliedBearerPrefix userSecretSubstituteAuth
  userSecretIssue userSecretRevoke "\<lambda>_ s _. s" "[]" usersecret_inv "\<lambda>s b lv. usersecret_lookup s b = Some lv"
proof unfold_locales
  fix r e s
  show "\<not> owns userSuppliedBearerPrefix r \<Longrightarrow> userSecretSubstituteAuth e s r = (unmatched, s)"
    by (simp add: userSecretSubstituteAuth_def owns_def Let_def)
  show "owns userSuppliedBearerPrefix r \<Longrightarrow> sub_Matched (fst (fst (userSecretSubstituteAuth e s r)))"
    by (auto simp: userSecretSubstituteAuth_def owns_def Let_def split: option.splits sum.splits)
next
  fix e s q res s' b lv
  assume "usersecret_inv s" "userSecretIssue e s q = (Inr res, s')" "usersecret_lookup s' b = Some lv"
  then show "usersecret_lookup s b = Some lv \<or> issued_as q res b lv"
    using userSecretIssue_lookup by blast
next
  fix e s q err s' b lv
  assume "usersecret_inv s" "userSecretIssue e s q = (Inl err, s')" "usersecret_lookup s' b = Some lv"
  then show "usersecret_lookup s b = Some lv" using userSecretIssue_lookup by blast
next
  fix s e r b lv
  assume "usersecret_lookup (snd (userSecretSubstituteAuth e s r)) b = Some lv"
  then show "usersecret_lookup s b = Some lv"
    using userSecretSubstituteAuth_state [of e s r]
    by (auto simp: usersecret_lookup_def map_of_mdelete split: if_splits)
next
  fix s e r res s'
  assume "userSecretSubstituteAuth e s r = ((res, None), s')" "sub_Matched res"
  then show "\<exists>lv. usersecret_lookup s (ExtractBearer (sr_IncomingBearer r)) = Some lv
      \<and> lease_authorises (pe_now e) lv r \<and> sub_CredentialName res = lv_CredentialName lv"
    by (fastforce dest!: userSecret_success dest: userSecretSubstitution_name
        simp: usersecret_lookup_def usersecret_view_def)
qed (auto simp: usersecret_inv_def [of "[]"] usersecret_lookup_def userSecretIssue_inv
      userSecretSubstituteAuth_inv userSecretRevoke_def same_lease_def)

end
