(* ===== verification/Provider_GitHubApp.thy ===== *)
theory Provider_GitHubApp
  imports Provider_Base
begin

text \<open>
  The GitHub App provider (\<open>src/internal/broker/providers/githubapp.go\<close>): bearers, the cache of
  installation tokens, the exchange of a signed App JWT for a token, and renewal.

  \<open>SubstituteAuth\<close> reads the clock for the bearer's expiry (\<open>pe_now\<close>), for the cached token's
  slack (\<open>pe_now2\<close>) and, when GitHub reports no expiry, once more (\<open>pe_now3\<close>); \<open>Renew\<close> reads it when
  it signs (\<open>pe_now\<close>) and in the exchange (\<open>pe_now3\<close>).
\<close>

definition githubAppBearerPrefix :: string where
  "githubAppBearerPrefix = ''pdk-github-''"

definition defaultGitHubAppTokenTTL :: duration where
  "defaultGitHubAppTokenTTL = 60 * minute"

definition installationTokenRefreshBefore :: duration where
  "installationTokenRefreshBefore = 8 * minute"

definition defaultGitHubAPIEndpoint :: string where
  "defaultGitHubAPIEndpoint = ''https://api.github.com''"

record githubLease =
  gl_Namespace :: string
  gl_SecretRef :: SecretKeyReference
  gl_AppID :: string
  gl_InstallationID :: string
  gl_RunName :: string
  gl_CredentialName :: string
  gl_Repositories :: "string list"
  gl_APIEndpoint :: string
  gl_ExpiresAt :: time
  gl_AllowedHosts :: "string list"
  gl_LeaseID :: string

record githubTokenKey =
  gk_RunName :: string
  gk_Namespace :: string
  gk_CredentialName :: string

record installationToken =
  it_Token :: string
  it_ExpiresAt :: time

record github_state =
  gh_APIEndpoint :: string
  gh_bearers :: "(string, githubLease) gomap"
  gh_tokens :: "(githubTokenKey, installationToken) gomap"

section \<open>Keys and JSON Web Tokens\<close>

definition parsePrivateKey :: "github_env \<Rightarrow> string \<Rightarrow> error_msg + string" where
  "parsePrivateKey g pemBytes =
     (case ge_pemDecode g pemBytes of
        None \<Rightarrow> Inl ''no PEM block found''
      | Some (typ, bytes) \<Rightarrow>
          if typ = ''RSA PRIVATE KEY'' then ge_parsePKCS1 g bytes
          else if typ = ''PRIVATE KEY'' then
            (case ge_parsePKCS8 g bytes of
               Inl err \<Rightarrow> Inl err
             | Inr (kt, k) \<Rightarrow>
                 if kt = ''*rsa.PrivateKey'' then Inr k
                 else Inl (''expected RSA private key, got '' @ kt))
          else Inl (''unexpected PEM block type '' @ fmt_q typ
                     @ '' (expected RSA PRIVATE KEY or PRIVATE KEY)''))"

definition TrimRightByte :: "string \<Rightarrow> char \<Rightarrow> string" where
  "TrimRightByte s c = rev (dropWhile (\<lambda>x. x = c) (rev s))"

definition base64URLEncode :: "string \<Rightarrow> string" where
  "base64URLEncode b = TrimRightByte (b64_encode True b) CHR ''=''"

text \<open>\<open>encoding/json\<close> on an ASCII string: the escapes of \<open>json.Marshal\<close>, HTML characters included.\<close>

definition json_escape :: "char \<Rightarrow> string" where
  "json_escape c =
     (let n = (of_char c :: nat)
      in if c = dquote \<or> c = backslash then [backslash, c]
         else if n = 8 then [backslash, CHR ''b'']
         else if n = 12 then [backslash, CHR ''f'']
         else if n = 10 then [backslash, CHR ''n'']
         else if n = 13 then [backslash, CHR ''r'']
         else if n = 9 then [backslash, CHR ''t'']
         else if n < 32 \<or> c = CHR ''<'' \<or> c = CHR ''>'' \<or> c = CHR ''&''
         then [backslash] @ ''u00'' @ hex_encode [c]
         else [c])"

definition json_string :: "string \<Rightarrow> string" where
  "json_string s = [dquote] @ concat (map json_escape s) @ [dquote]"

definition UnixTime :: "time \<Rightarrow> int" where
  "UnixTime t = t div second - 62135596800"

definition signAppJWT :: "prov_env \<Rightarrow> string \<Rightarrow> string \<Rightarrow> time \<Rightarrow> error_msg + string" where
  "signAppJWT e appID key now =
     (let header = ''{'' @ json_string ''alg'' @ '':'' @ json_string ''RS256'' @ '','' @ json_string ''typ''
                     @ '':'' @ json_string ''JWT'' @ ''}'';
          claims = ''{'' @ json_string ''exp'' @ '':'' @ fmt_d (UnixTime (now + 9 * minute)) @ '',''
                     @ json_string ''iat'' @ '':'' @ fmt_d (UnixTime (now - 30 * second)) @ '',''
                     @ json_string ''iss'' @ '':'' @ json_string appID @ ''}'';
          signingInput = base64URLEncode header @ ''.'' @ base64URLEncode claims
      in case ge_signPKCS1v15 (pe_github e) key (pe_sha256 e signingInput) of
           Inl err \<Rightarrow> Inl err
         | Inr sig \<Rightarrow> Inr (signingInput @ ''.'' @ base64URLEncode sig))"

definition repoNamesFromGitRepos :: "GitRepoGrant list \<Rightarrow> string list" where
  "repoNamesFromGitRepos grants = filter (\<lambda>r. r \<noteq> []) (map (\<lambda>g. TrimSpace (gr_Repo g)) grants)"

section \<open>Issue and Revoke\<close>

definition githubSweep :: "github_state \<Rightarrow> time \<Rightarrow> github_state" where
  "githubSweep st now =
     st\<lparr> gh_bearers := sweepExpired gl_ExpiresAt now (gh_bearers st),
         gh_tokens := filter (\<lambda>(k, tok). \<not> it_ExpiresAt tok < now) (gh_tokens st) \<rparr>"

definition githubHosts :: "ProviderConfig \<Rightarrow> string list" where
  "githubHosts cfg = (if pc_Hosts cfg = [] then [''github.com'', ''api.github.com''] else pc_Hosts cfg)"

definition githubMint ::
  "prov_env \<Rightarrow> github_state \<Rightarrow> IssueRequest \<Rightarrow> SecretKeyReference
    \<Rightarrow> (prov_error + IssueResult) \<times> github_state" where
  "githubMint e st req ref =
     (let cfg = cg_Provider (iq_Grant req)
      in case mintBearer (pe_rand e) githubAppBearerPrefix of
           Inl m \<Rightarrow> (Inl (PErr m), st)
         | Inr bearer \<Rightarrow>
             let leaseID = ''gha-'' @ lease_suffix githubAppBearerPrefix bearer;
                 now = pe_now e;
                 expires = now + defaultGitHubAppTokenTTL;
                 hosts = githubHosts cfg;
                 lease = \<lparr> gl_Namespace = iq_Namespace req, gl_SecretRef = ref,
                           gl_AppID = pc_AppID cfg, gl_InstallationID = pc_InstallationID cfg,
                           gl_RunName = iq_RunName req, gl_CredentialName = iq_CredentialName req,
                           gl_Repositories = repoNamesFromGitRepos (iq_GitRepos req),
                           gl_APIEndpoint = (if gh_APIEndpoint st = [] then defaultGitHubAPIEndpoint
                                             else gh_APIEndpoint st),
                           gl_ExpiresAt = expires, gl_AllowedHosts = hosts, gl_LeaseID = leaseID \<rparr>
             in (Inr \<lparr> ir_Value = bearer, ir_LeaseID = leaseID, ir_ExpiresAt = expires,
                       ir_DeliveryMode = ''ProxyInjected'', ir_Hosts = hosts,
                       ir_InContainerReason = [], ir_PoolSecretRef = None, ir_PoolSlotIndex = None \<rparr>,
                 githubSweep (st\<lparr> gh_bearers := mset_key bearer lease (gh_bearers st) \<rparr>) now))"

definition githubIssue ::
  "prov_env \<Rightarrow> github_state \<Rightarrow> IssueRequest \<Rightarrow> (prov_error + IssueResult) \<times> github_state" where
  "githubIssue e st req =
     (let cfg = cg_Provider (iq_Grant req); name = fmt_q (cg_Name (iq_Grant req));
          ns = iq_Namespace req
      in case pc_SecretRef cfg of
           None \<Rightarrow> (Inl (PErr (''GitHubAppProvider requires secretRef on grant '' @ name)), st)
         | Some ref \<Rightarrow>
             if TrimSpace (pc_AppID cfg) = []
             then (Inl (PErr (''GitHubAppProvider requires appId on grant '' @ name)), st)
             else if TrimSpace (pc_InstallationID cfg) = []
             then (Inl (PErr (''GitHubAppProvider requires installationId on grant '' @ name)), st)
             else (case getSecret (pe_kube e) ns (skr_Name ref) of
                     Inl err \<Rightarrow> (Inl (PErr (''reading secret '' @ ns @ ''/'' @ skr_Name ref @ '': ''
                                   @ api_Error err)), st)
                   | Inr secret \<Rightarrow>
                       if secretData secret (skr_Key ref) = []
                       then (Inl (PErr (''key '' @ fmt_q (skr_Key ref)
                               @ '' not present or empty in secret '' @ ns @ ''/'' @ skr_Name ref)), st)
                       else (case parsePrivateKey (pe_github e) (secretData secret (skr_Key ref)) of
                               Inl err \<Rightarrow> (Inl (PErr (''parsing private key from secret '' @ ns @ ''/''
                                             @ skr_Name ref @ '': '' @ err)), st)
                             | Inr _ \<Rightarrow> githubMint e st req ref)))"

definition githubRevoke :: "github_state \<Rightarrow> string \<Rightarrow> github_state" where
  "githubRevoke st leaseID = st\<lparr> gh_bearers := revokeLease gl_LeaseID leaseID (gh_bearers st) \<rparr>"

section \<open>Installation tokens\<close>

definition accessTokensRequest :: "githubLease \<Rightarrow> string \<Rightarrow> http_request" where
  "accessTokensRequest lease jwt =
     (let body = (if gl_Repositories lease = [] then None
                  else Some (''{'' @ json_string ''repositories'' @ '':['' @
                         Join (map json_string (gl_Repositories lease)) '','' @ '']}''))
      in \<lparr> hq_Method = ''POST'',
           hq_URL = TrimRightByte (gl_APIEndpoint lease) CHR ''/'' @ ''/app/installations/''
                      @ gl_InstallationID lease @ ''/access_tokens'',
           hq_Header =
             [(''Authorization'', ''Bearer '' @ jwt), (''Accept'', ''application/vnd.github+json''),
              (''X-Github-Api-Version'', ''2022-11-28'')]
             @ (if body = None then [] else [(''Content-Type'', ''application/json'')]),
           hq_Body = body \<rparr>)"

definition exchangeInstallationToken ::
  "prov_env \<Rightarrow> githubLease \<Rightarrow> string \<Rightarrow> error_msg + (string \<times> time)" where
  "exchangeInstallationToken e lease jwt =
     (let req = accessTokensRequest lease jwt; g = pe_github e
      in case ge_newRequestErr g (hq_URL req) of
           Some err \<Rightarrow> Inl err
         | None \<Rightarrow>
             (case ge_doRequest g req of
                Inl err \<Rightarrow> Inl (''POST '' @ hq_URL req @ '': '' @ err)
              | Inr (status, body) \<Rightarrow>
                  if status div 100 \<noteq> 2
                  then Inl (''github access_tokens returned '' @ fmt_d status @ '': ''
                              @ TrimSpace (take 4096 body))
                  else (case ge_decodeToken g body of
                          Inl err \<Rightarrow> Inl (''decoding access_tokens response: '' @ err)
                        | Inr (token, expires) \<Rightarrow>
                            if token = [] then Inl ''github returned empty token''
                            else Inr (token, if IsZero expires then pe_now3 e + defaultGitHubAppTokenTTL
                                             else expires))))"

definition tokenKey :: "githubLease \<Rightarrow> githubTokenKey" where
  "tokenKey lease = \<lparr> gk_RunName = gl_RunName lease, gk_Namespace = gl_Namespace lease,
     gk_CredentialName = gl_CredentialName lease \<rparr>"

text \<open>The part \<open>resolveInstallationToken\<close> and \<open>Renew\<close> write out alike: key, JWT, exchange.\<close>

definition freshInstallationToken ::
  "prov_env \<Rightarrow> githubLease \<Rightarrow> time \<Rightarrow> error_msg + (string \<times> time)" where
  "freshInstallationToken e lease now =
     (let ns = gl_Namespace lease; ref = gl_SecretRef lease
      in case getSecret (pe_kube e) ns (skr_Name ref) of
           Inl err \<Rightarrow> Inl (''reading secret '' @ ns @ ''/'' @ skr_Name ref @ '': '' @ api_Error err)
         | Inr secret \<Rightarrow>
             if secretData secret (skr_Key ref) = []
             then Inl (secret_key_missing (skr_Key ref) ns (skr_Name ref))
             else (case parsePrivateKey (pe_github e) (secretData secret (skr_Key ref)) of
                     Inl err \<Rightarrow> Inl (''parsing private key: '' @ err)
                   | Inr key \<Rightarrow>
                       (case signAppJWT e (gl_AppID lease) key now of
                          Inl err \<Rightarrow> Inl (''signing app JWT: '' @ err)
                        | Inr jwt \<Rightarrow> exchangeInstallationToken e lease jwt)))"

definition resolveInstallationToken ::
  "prov_env \<Rightarrow> github_state \<Rightarrow> githubLease \<Rightarrow> (error_msg + string) \<times> github_state" where
  "resolveInstallationToken e st lease =
     (let key = tokenKey lease; now = pe_now2 e;
          usable = (case map_of (gh_tokens st) key of
                      Some cached \<Rightarrow>
                        if now + installationTokenRefreshBefore < it_ExpiresAt cached
                        then Some (it_Token cached) else None
                    | None \<Rightarrow> None)
      in case usable of
           Some token \<Rightarrow> (Inr token, st)
         | None \<Rightarrow>
             (case freshInstallationToken e lease now of
                Inl err \<Rightarrow> (Inl err, st)
              | Inr (token, expires) \<Rightarrow>
                  (Inr token, st\<lparr> gh_tokens := mset_key key \<lparr> it_Token = token, it_ExpiresAt = expires \<rparr>
                                    (gh_tokens st) \<rparr>)))"

definition githubSubstitution :: "githubLease \<Rightarrow> string \<Rightarrow> SubstituteResult" where
  "githubSubstitution lease token =
     \<lparr> sub_Matched = True,
       sub_SetHeaders =
         [(''Authorization'', ''Basic '' @ b64_encode False (''x-access-token'' @ '':'' @ token))],
       sub_RemoveHeaders = [], sub_SetQueryParam = [], sub_SetBasicAuth = None,
       sub_AllowedHeaders =
         [''Content-Type'', ''Content-Length'', ''Accept'', ''Accept-Encoding'', ''User-Agent'',
          ''X-GitHub-Api-Version''],
       sub_AllowedQueryParams = [],
       sub_CredentialName = gl_CredentialName lease \<rparr>"

definition githubSubstituteAuth ::
  "prov_env \<Rightarrow> github_state \<Rightarrow> SubstituteRequest \<Rightarrow> substitute_outcome \<times> github_state" where
  "githubSubstituteAuth e st req =
     (let bearer = ExtractBearer (sr_IncomingBearer req)
      in if \<not> HasPrefix bearer githubAppBearerPrefix then (unmatched, st)
         else (case map_of (gh_bearers st) bearer of
                 None \<Rightarrow> (denied ''github bearer not recognised'', st)
               | Some lease \<Rightarrow>
                   if sr_Namespace req \<noteq> [] \<and> gl_Namespace lease \<noteq> sr_Namespace req
                   then (denied (namespace_mismatch (gl_Namespace lease) (sr_Namespace req)), st)
                   else if pe_now e > gl_ExpiresAt lease
                   then (denied ''github bearer expired'',
                         st\<lparr> gh_bearers := mdelete bearer (gh_bearers st) \<rparr>)
                   else if \<not> AnyHostMatches (gl_AllowedHosts lease) (sr_Host req)
                   then (denied (host_not_in_lease (sr_Host req) (gl_AllowedHosts lease)), st)
                   else (case resolveInstallationToken e st lease of
                           (Inl err, st') \<Rightarrow> (denied err, st')
                         | (Inr token, st') \<Rightarrow> ((githubSubstitution lease token, None), st'))))"

definition leaseByID :: "github_state \<Rightarrow> string \<Rightarrow> (string \<times> githubLease) option" where
  "leaseByID st leaseID = find (\<lambda>(b, l). gl_LeaseID l = leaseID) (gh_bearers st)"

text \<open>
  \<open>Renew\<close>. The lease is shared with the bearer table, so the new expiry shows there; the new token
  replaces the cached one.
\<close>

definition githubRenew ::
  "prov_env \<Rightarrow> github_state \<Rightarrow> IssuedLease \<Rightarrow> (prov_error + IssueResult) \<times> github_state" where
  "githubRenew e st lease =
     (case leaseByID st (il_LeaseID lease) of
        None \<Rightarrow> (Inl (PErr (''GitHubApp.Renew: no in-memory lease for leaseID ''
                   @ fmt_q (il_LeaseID lease))), st)
      | Some (bearer, internal) \<Rightarrow>
          (case freshInstallationToken e internal (pe_now e) of
             Inl err \<Rightarrow> (Inl (PErr (''GitHubApp.Renew: '' @ err)), st)
           | Inr (token, expiresAt) \<Rightarrow>
               (Inr \<lparr> ir_Value = token, ir_LeaseID = il_LeaseID lease, ir_ExpiresAt = expiresAt,
                      ir_DeliveryMode = ''ProxyInjected'', ir_Hosts = gl_AllowedHosts internal,
                      ir_InContainerReason = [], ir_PoolSecretRef = None, ir_PoolSlotIndex = None \<rparr>,
                st\<lparr> gh_bearers := mset_key bearer (internal\<lparr> gl_ExpiresAt := expiresAt \<rparr>) (gh_bearers st),
                    gh_tokens := mset_key (tokenKey internal)
                      \<lparr> it_Token = token, it_ExpiresAt = expiresAt \<rparr> (gh_tokens st) \<rparr>)))"

section \<open>Invariant and contract\<close>

definition github_inv :: "github_state \<Rightarrow> bool" where
  "github_inv st \<longleftrightarrow>
     mkeys_ok (gh_bearers st) \<and>
     (\<forall>(b, l) \<in> set (gh_bearers st). HasPrefix b githubAppBearerPrefix
        \<and> gl_LeaseID l = ''gha-'' @ lease_suffix githubAppBearerPrefix b)"

definition github_init :: "string \<Rightarrow> github_state" where
  "github_init endpoint = \<lparr> gh_APIEndpoint = endpoint, gh_bearers = [], gh_tokens = [] \<rparr>"

definition github_view :: "githubLease \<Rightarrow> lease_view" where
  "github_view l = \<lparr> lv_Namespace = gl_Namespace l, lv_RunName = gl_RunName l,
     lv_CredentialName = gl_CredentialName l, lv_ExpiresAt = gl_ExpiresAt l, lv_Hosts = gl_AllowedHosts l \<rparr>"

definition github_lookup :: "github_state \<Rightarrow> string \<Rightarrow> lease_view option" where
  "github_lookup st b = map_option github_view (map_of (gh_bearers st) b)"

lemma github_inv_init: "github_inv (github_init endpoint)"
  by (simp add: github_inv_def github_init_def)

lemma github_lookup_init: "github_lookup (github_init endpoint) b = None"
  by (simp add: github_lookup_def github_init_def)

lemma github_inv_subset:
  "github_inv st \<Longrightarrow> mkeys_ok (gh_bearers st') \<Longrightarrow> set (gh_bearers st') \<subseteq> set (gh_bearers st)
   \<Longrightarrow> github_inv st'"
  unfolding github_inv_def by blast

lemma githubIssue_cases:
  assumes "githubIssue e st req = (x, st')"
  obtains (err) m where "x = Inl (PErr m)" "st' = st"
  | (mint) ref where "pc_SecretRef (cg_Provider (iq_Grant req)) = Some ref"
      "githubMint e st req ref = (x, st')"
  using assms by (auto simp: githubIssue_def Let_def split: option.splits sum.splits if_splits)

lemma githubMint_inv: "github_inv st \<Longrightarrow> github_inv (snd (githubMint e st req ref))"
proof (cases "mintBearer (pe_rand e) githubAppBearerPrefix")
  case (Inr bearer)
  assume inv: "github_inv st"
  obtain buf where b: "bearer = githubAppBearerPrefix @ hex_encode buf"
    using mintBearer_shape [OF Inr] by metis
  show ?thesis
    using inv b Inr set_mset_key_subset sweepExpired_subset
    by (fastforce simp: githubMint_def github_inv_def githubSweep_def Let_def)
qed (simp add: githubMint_def)

lemma githubIssue_inv: "github_inv st \<Longrightarrow> github_inv (snd (githubIssue e st req))"
  by (auto simp: githubIssue_def Let_def githubMint_inv split: option.splits sum.splits)

lemma githubRevoke_inv: "github_inv st \<Longrightarrow> github_inv (githubRevoke st lid)"
  by (rule github_inv_subset [of st])
    (auto simp: githubRevoke_def github_inv_def dest: revokeLease_subset [THEN subsetD])

lemma resolveInstallationToken_bearers [simp]:
  "gh_bearers (snd (resolveInstallationToken e st lease)) = gh_bearers st"
  by (auto simp: resolveInstallationToken_def Let_def split: option.splits sum.splits)

lemma githubSubstituteAuth_bearers:
  "gh_bearers (snd (githubSubstituteAuth e st req)) = gh_bearers st
   \<or> gh_bearers (snd (githubSubstituteAuth e st req))
       = mdelete (ExtractBearer (sr_IncomingBearer req)) (gh_bearers st)"
proof -
  have "gh_bearers st' = gh_bearers st" if "resolveInstallationToken e st lease = (x, st')" for lease x st'
    using resolveInstallationToken_bearers [of e st lease] that by simp
  then show ?thesis
    by (auto simp: githubSubstituteAuth_def Let_def split: option.splits sum.splits prod.splits)
qed

lemma githubSubstituteAuth_inv: "github_inv st \<Longrightarrow> github_inv (snd (githubSubstituteAuth e st req))"
  using githubSubstituteAuth_bearers [of e st req]
  by (auto simp: github_inv_def set_mdelete)

lemma githubRenew_cases:
  assumes "githubRenew e st l = (x, st')"
  obtains (err) m where "x = Inl (PErr m)" "st' = st"
  | (renewed) b internal token expires res where "leaseByID st (il_LeaseID l) = Some (b, internal)"
      "freshInstallationToken e internal (pe_now e) = Inr (token, expires)" "x = Inr res"
      "ir_Value res = token" "ir_ExpiresAt res = expires" "ir_LeaseID res = il_LeaseID l"
      "gh_bearers st' = mset_key b (internal\<lparr> gl_ExpiresAt := expires \<rparr>) (gh_bearers st)"
      "gh_tokens st' = mset_key (tokenKey internal) \<lparr> it_Token = token, it_ExpiresAt = expires \<rparr> (gh_tokens st)"
  using assms by (auto simp: githubRenew_def split: option.splits sum.splits)

lemma leaseByID_SomeD:
  assumes "github_inv st" "leaseByID st lid = Some (b, l)"
  shows "(b, l) \<in> set (gh_bearers st)" "map_of (gh_bearers st) b = Some l" "gl_LeaseID l = lid"
  using find_SomeD [OF assms(2) [unfolded leaseByID_def]] assms(1)
  by (auto simp: github_inv_def mkeys_ok_map_of)

lemma githubRenew_inv:
  assumes "github_inv st" shows "github_inv (snd (githubRenew e st l))"
proof -
  obtain x st' where eq: "githubRenew e st l = (x, st')" by fastforce
  then show ?thesis
  proof (cases rule: githubRenew_cases)
    case (renewed b internal token expires res)
    then show ?thesis
      using assms leaseByID_SomeD [OF assms renewed(1)]
        set_mset_key_subset [of b "internal\<lparr> gl_ExpiresAt := expires \<rparr>" "gh_bearers st"]
      by (fastforce simp: github_inv_def eq)
  qed (simp add: assms eq)
qed

lemma githubMint_lookup:
  assumes inv: "github_inv st" and mint: "githubMint e st req ref = (x, st')"
    and b: "github_lookup st' b = Some lv"
  shows "github_lookup st b = Some lv \<or> (\<exists>res. x = Inr res \<and> issued_as req res b lv)"
proof (cases "mintBearer (pe_rand e) githubAppBearerPrefix")
  case (Inr bearer)
  with assms show ?thesis
    by (auto simp: githubMint_def Let_def github_lookup_def githubSweep_def map_of_sweepExpired github_inv_def
        map_of_mset_key issued_as_def github_view_def split: option.splits if_splits)
qed (use assms in \<open>auto simp: githubMint_def\<close>)

lemma githubIssue_lookup:
  assumes "github_inv st" "githubIssue e st req = (x, st')" "github_lookup st' b = Some lv"
  shows "github_lookup st b = Some lv \<or> (\<exists>res. x = Inr res \<and> issued_as req res b lv)"
  using assms(2) by (cases rule: githubIssue_cases) (use assms githubMint_lookup in auto)

text \<open>A successful substitution: a live lease of the namespace, and a token for its key.\<close>

lemma github_success:
  assumes "githubSubstituteAuth e st req = ((res, None), st')" "sub_Matched res"
  shows "\<exists>lease token. map_of (gh_bearers st) (ExtractBearer (sr_IncomingBearer req)) = Some lease
    \<and> lease_authorises (pe_now e) (github_view lease) req
    \<and> resolveInstallationToken e st lease = (Inr token, st')
    \<and> res = githubSubstitution lease token"
  using assms
  by (auto simp: githubSubstituteAuth_def Let_def unmatched_def subst_zero_def lease_authorises_def
      github_view_def not_less split: option.splits sum.splits if_splits prod.splits)

lemma github_renew_lookup:
  assumes "github_inv s" "github_lookup (snd (githubRenew e s l)) b = Some lv"
  shows "\<exists>lv0. github_lookup s b = Some lv0 \<and> same_lease lv0 lv"
proof -
  obtain x st' where eq: "githubRenew e s l = (x, st')" by fastforce
  then show ?thesis
  proof (cases rule: githubRenew_cases)
    case (renewed b' internal token expires res)
    then show ?thesis
      using assms leaseByID_SomeD [OF assms(1) renewed(1)]
      by (auto simp: eq github_lookup_def map_of_mset_key same_lease_def github_view_def split: if_splits)
  qed (use assms in \<open>simp add: eq same_lease_def\<close>)
qed

interpretation github: lease_provider githubAppBearerPrefix githubSubstituteAuth
  githubIssue githubRevoke "\<lambda>e s l. snd (githubRenew e s l)" "github_init endpoint" github_inv "\<lambda>s b lv. github_lookup s b = Some lv"
  for endpoint
proof unfold_locales
  fix r e s
  show "\<not> owns githubAppBearerPrefix r \<Longrightarrow> githubSubstituteAuth e s r = (unmatched, s)"
    by (simp add: githubSubstituteAuth_def owns_def Let_def)
  show "owns githubAppBearerPrefix r \<Longrightarrow> sub_Matched (fst (fst (githubSubstituteAuth e s r)))"
    by (auto simp: githubSubstituteAuth_def owns_def Let_def githubSubstitution_def
        split: option.splits sum.splits prod.splits)
next
  fix e s q res s' b lv
  assume "github_inv s" "githubIssue e s q = (Inr res, s')" "github_lookup s' b = Some lv"
  then show "github_lookup s b = Some lv \<or> issued_as q res b lv"
    using githubIssue_lookup by blast
next
  fix e s q err s' b lv
  assume "github_inv s" "githubIssue e s q = (Inl err, s')" "github_lookup s' b = Some lv"
  then show "github_lookup s b = Some lv" using githubIssue_lookup by blast
next
  fix s e r b lv
  assume "github_lookup (snd (githubSubstituteAuth e s r)) b = Some lv"
  then show "github_lookup s b = Some lv"
    using githubSubstituteAuth_bearers [of e s r]
    by (auto simp: github_lookup_def map_of_mdelete split: if_splits)
next
  fix s lid b lv
  assume "github_lookup (githubRevoke s lid) b = Some lv"
  then show "github_lookup s b = Some lv"
    by (auto simp: github_lookup_def githubRevoke_def revokeLease_def map_of_mdelete
        split: option.splits if_splits)
next
  fix s e l b lv
  assume "github_inv s" "github_lookup (snd (githubRenew e s l)) b = Some lv"
  then show "\<exists>lv0. github_lookup s b = Some lv0 \<and> same_lease lv0 lv" by (rule github_renew_lookup)
next
  fix s e r res s'
  assume "githubSubstituteAuth e s r = ((res, None), s')" "sub_Matched res"
  then show "\<exists>lv. github_lookup s (ExtractBearer (sr_IncomingBearer r)) = Some lv
      \<and> lease_authorises (pe_now e) lv r \<and> sub_CredentialName res = lv_CredentialName lv"
    by (fastforce dest!: github_success simp: github_lookup_def github_view_def githubSubstitution_def)
qed (simp_all add: github_inv_init github_lookup_init
      githubIssue_inv githubSubstituteAuth_inv githubRevoke_inv githubRenew_inv)

section \<open>Token cache\<close>

text \<open>
  A cached token with more than the refresh slack left is served to every lease of the same run,
  namespace and credential, and nothing outside the cache is consulted.
\<close>

lemma resolve_cached:
  assumes "map_of (gh_tokens st) (tokenKey lease) = Some tok"
    and "pe_now2 e + installationTokenRefreshBefore < it_ExpiresAt tok"
  shows "resolveInstallationToken e st lease = (Inr (it_Token tok), st)"
  using assms by (simp add: resolveInstallationToken_def)

lemma exchange_token_nonempty: "exchangeInstallationToken e lease jwt = Inr (t, x) \<Longrightarrow> t \<noteq> []"
  by (auto simp: exchangeInstallationToken_def Let_def split: option.splits sum.splits if_splits)

lemma resolve_Inr_cases:
  assumes "resolveInstallationToken e st lease = (Inr token, st')"
  obtains (cached) tok where "map_of (gh_tokens st) (tokenKey lease) = Some tok" "token = it_Token tok"
      "pe_now2 e + installationTokenRefreshBefore < it_ExpiresAt tok" "st' = st"
  | (fresh) expires where "freshInstallationToken e lease (pe_now2 e) = Inr (token, expires)"
      "gh_tokens st' = mset_key (tokenKey lease) \<lparr> it_Token = token, it_ExpiresAt = expires \<rparr> (gh_tokens st)"
proof (cases "\<exists>tok. map_of (gh_tokens st) (tokenKey lease) = Some tok
    \<and> pe_now2 e + installationTokenRefreshBefore < it_ExpiresAt tok")
  case True
  then obtain tok where "map_of (gh_tokens st) (tokenKey lease) = Some tok"
    "pe_now2 e + installationTokenRefreshBefore < it_ExpiresAt tok" by blast
  then show thesis using assms by (intro cached) (auto simp: resolve_cached)
next
  case False
  then have "resolveInstallationToken e st lease =
      (case freshInstallationToken e lease (pe_now2 e) of
         Inl err \<Rightarrow> (Inl err, st)
       | Inr (token, expires) \<Rightarrow>
           (Inr token, st\<lparr> gh_tokens := mset_key (tokenKey lease) \<lparr> it_Token = token, it_ExpiresAt = expires \<rparr>
                             (gh_tokens st) \<rparr>))"
    by (auto simp: resolveInstallationToken_def Let_def split: option.splits)
  then show thesis using assms fresh
    by (cases "freshInstallationToken e lease (pe_now2 e)") (auto split: prod.splits)
qed

end
