(* ===== verification/Provider_PATPool.thy ===== *)
theory Provider_PATPool
  imports Provider_Base
begin

text \<open>
  The PAT pool provider (\<open>src/internal/broker/providers/patpool.go\<close>): pools of long-lived tokens
  read from a Secret, one entry leased per bearer. Prometheus gauges and counters are left out;
  they are written and never read by the code.

  The pool invariant ties the three parallel structures of \<open>patPool\<close> together: each lease points at
  a claimed slot whose entry is the token it was minted for. When the lines of the Secret are
  pairwise different, no two leases share a slot, so no token is served to two bearers at once.
\<close>

definition patPoolBearerPrefix :: string where
  "patPoolBearerPrefix = ''pdk-patpool-''"

definition defaultPATLeaseTTL :: duration where
  "defaultPATLeaseTTL = 60 * minute"

record PatPoolKey =
  pk_Namespace :: string
  pk_Secret :: string
  pk_Key :: string

record patLease =
  pl_Index :: int
  pl_RunName :: string
  pl_CredentialName :: string
  pl_ExpiresAt :: time
  pl_AllowedHosts :: "string list"
  pl_LeasedPAT :: string
  pl_LeaseID :: string

record patPool =
  pp_entries :: "string list"
  pp_leased :: "bool list"
  pp_byBearer :: "(string, patLease) gomap"

type_synonym patpool_state = "(PatPoolKey, patPool) gomap"

definition empty_pool :: patPool where
  "empty_pool = \<lparr> pp_entries = [], pp_leased = [], pp_byBearer = [] \<rparr>"

section \<open>Helpers\<close>

definition parsePoolEntries :: "string \<Rightarrow> string list" where
  "parsePoolEntries raw =
     filter (\<lambda>l. l \<noteq> [] \<and> \<not> HasPrefix l ''#'') (map TrimSpace (SplitByte raw (char_of (10::nat))))"

fun firstFreeIndex :: "bool list \<Rightarrow> nat option" where
  "firstFreeIndex [] = None"
| "firstFreeIndex (v # vs) = (if \<not> v then Some 0 else map_option Suc (firstFreeIndex vs))"

definition countLeased :: "bool list \<Rightarrow> nat" where
  "countLeased leased = length (filter (\<lambda>v. v) leased)"

fun indexOf :: "string list \<Rightarrow> string \<Rightarrow> nat option" where
  "indexOf [] v = None"
| "indexOf (s # ss) v = (if s = v then Some 0 else map_option Suc (indexOf ss v))"

definition inRange :: "int \<Rightarrow> 'a list \<Rightarrow> bool" where
  "inRange i xs \<longleftrightarrow> 0 \<le> i \<and> i < int (length xs)"

definition setSlot :: "bool list \<Rightarrow> int \<Rightarrow> bool \<Rightarrow> bool list" where
  "setSlot leased i v = (if inRange i leased then leased[nat i := v] else leased)"

definition readPool :: "kube \<Rightarrow> string \<Rightarrow> string \<Rightarrow> string \<Rightarrow> error_msg + string list" where
  "readPool k ns name key =
     (case getSecret k ns name of
        Inl err \<Rightarrow> Inl (''reading secret '' @ ns @ ''/'' @ name @ '': '' @ api_Error err)
      | Inr secret \<Rightarrow>
          (case map_of (sec_Data secret) key of
             None \<Rightarrow> Inl (''key '' @ fmt_q key @ '' not present in secret '' @ ns @ ''/'' @ name)
           | Some raw \<Rightarrow> Inr (parsePoolEntries raw)))"

section \<open>Reconciling a pool with its Secret\<close>

text \<open>The first loop of \<open>reconcilePoolLocked\<close>: free the slots of expired leases and drop them.\<close>

definition sweepPool :: "patPool \<Rightarrow> time \<Rightarrow> patPool" where
  "sweepPool pool now =
     pool\<lparr> pp_leased := foldl (\<lambda>ls (b, l). if now > pl_ExpiresAt l then setSlot ls (pl_Index l) False else ls)
             (pp_leased pool) (pp_byBearer pool),
           pp_byBearer := filter (\<lambda>(b, l). \<not> now > pl_ExpiresAt l) (pp_byBearer pool) \<rparr>"

text \<open>
  One iteration of the second loop: the lease at the new index of its token, or nothing when the
  token is gone. The slots are then claimed for the leases that are left.
\<close>

definition remapLease :: "string list \<Rightarrow> string list \<Rightarrow> string \<times> patLease \<Rightarrow> (string \<times> patLease) option" where
  "remapLease oldByIndex newEntries bl =
     (case bl of (bearer, lease) \<Rightarrow>
        if \<not> inRange (pl_Index lease) oldByIndex then None
        else (case indexOf newEntries (oldByIndex ! nat (pl_Index lease)) of
                None \<Rightarrow> None
              | Some newIdx \<Rightarrow> Some (bearer, lease\<lparr> pl_Index := int newIdx \<rparr>)))"

definition claimSlots :: "bool list \<Rightarrow> (string, patLease) gomap \<Rightarrow> bool list" where
  "claimSlots leased bls = foldl (\<lambda>ls (b, l). setSlot ls (pl_Index l) True) leased bls"

definition reconcilePoolLocked :: "patPool \<Rightarrow> string list \<Rightarrow> time \<Rightarrow> patPool" where
  "reconcilePoolLocked pool0 fresh now =
     (let pool = sweepPool pool0 now
      in if pp_entries pool = fresh then pool
         else (let newByBearer = List.map_filter (remapLease (pp_entries pool) fresh) (pp_byBearer pool)
               in \<lparr> pp_entries = fresh,
                    pp_leased = claimSlots (replicate (length fresh) False) newByBearer,
                    pp_byBearer = newByBearer \<rparr>))"

definition releaseLocked :: "patPool \<Rightarrow> string \<Rightarrow> patPool" where
  "releaseLocked pool bearer =
     (case map_of (pp_byBearer pool) bearer of
        None \<Rightarrow> pool
      | Some lease \<Rightarrow>
          pool\<lparr> pp_leased := setSlot (pp_leased pool) (pl_Index lease) False,
                pp_byBearer := mdelete bearer (pp_byBearer pool) \<rparr>)"

section \<open>Operations\<close>

definition patIssueLocked ::
  "prov_env \<Rightarrow> patpool_state \<Rightarrow> IssueRequest \<Rightarrow> SecretKeyReference \<Rightarrow> string list
    \<Rightarrow> (prov_error + IssueResult) \<times> patpool_state" where
  "patIssueLocked e st req ref entries =
     (let cfg = cg_Provider (iq_Grant req);
          key = \<lparr> pk_Namespace = iq_Namespace req, pk_Secret = skr_Name ref, pk_Key = skr_Key ref \<rparr>;
          now = pe_now e;
          pool = reconcilePoolLocked
                   (case map_of st key of Some p \<Rightarrow> p | None \<Rightarrow> empty_pool) entries now;
          st1 = mset_key key pool st
      in case firstFreeIndex (pp_leased pool) of
           None \<Rightarrow> (Inl (PoolExhausted (''PAT pool exhausted: '' @ pk_Namespace key @ ''/'' @ pk_Secret key
                      @ '' key '' @ fmt_q (pk_Key key) @ '' has ''
                      @ fmt_d (int (countLeased (pp_leased pool))) @ ''/''
                      @ fmt_d (int (length (pp_entries pool))) @ '' leased'')), st1)
         | Some idx \<Rightarrow>
             (case mintBearer (pe_rand e) patPoolBearerPrefix of
                Inl m \<Rightarrow> (Inl (PErr m), st1)
              | Inr bearer \<Rightarrow>
                  let expires = now + ttl_or defaultPATLeaseTTL (pc_RotationSeconds cfg);
                      leaseID = ''pat-'' @ lease_suffix patPoolBearerPrefix bearer;
                      lease = \<lparr> pl_Index = int idx, pl_RunName = iq_RunName req,
                                pl_CredentialName = iq_CredentialName req, pl_ExpiresAt = expires,
                                pl_AllowedHosts = pc_Hosts cfg, pl_LeasedPAT = pp_entries pool ! idx,
                                pl_LeaseID = leaseID \<rparr>;
                      pool' = pool\<lparr> pp_leased := (pp_leased pool)[idx := True],
                                    pp_byBearer := mset_key bearer lease (pp_byBearer pool) \<rparr>
                  in (Inr \<lparr> ir_Value = bearer, ir_LeaseID = leaseID, ir_ExpiresAt = expires,
                            ir_DeliveryMode = ''ProxyInjected'', ir_Hosts = pc_Hosts cfg,
                            ir_InContainerReason = [], ir_PoolSecretRef = Some ref,
                            ir_PoolSlotIndex = Some (int idx) \<rparr>,
                      mset_key key pool' st1)))"

definition patIssue ::
  "prov_env \<Rightarrow> patpool_state \<Rightarrow> IssueRequest \<Rightarrow> (prov_error + IssueResult) \<times> patpool_state" where
  "patIssue e st req =
     (case pc_SecretRef (cg_Provider (iq_Grant req)) of
        None \<Rightarrow> (Inl (PErr (''PATPoolProvider requires secretRef on grant ''
                   @ fmt_q (cg_Name (iq_Grant req)))), st)
      | Some ref \<Rightarrow>
          (case readPool (pe_kube e) (iq_Namespace req) (skr_Name ref) (skr_Key ref) of
             Inl m \<Rightarrow> (Inl (PErr m), st)
           | Inr entries \<Rightarrow>
               if entries = []
               then (Inl (PErr (''pool '' @ iq_Namespace req @ ''/'' @ skr_Name ref @ '' key ''
                       @ fmt_q (skr_Key ref) @ '' is empty'')), st)
               else patIssueLocked e st req ref entries))"

definition patRevoke :: "patpool_state \<Rightarrow> string \<Rightarrow> patpool_state" where
  "patRevoke st leaseID =
     (if leaseID = [] then st
      else (case find (\<lambda>(k, pool). \<exists>(b, l) \<in> set (pp_byBearer pool). pl_LeaseID l = leaseID) st of
              None \<Rightarrow> st
            | Some (k, pool) \<Rightarrow>
                (case find (\<lambda>(b, l). pl_LeaseID l = leaseID) (pp_byBearer pool) of
                   None \<Rightarrow> st
                 | Some (bearer, l) \<Rightarrow> mset_key k (releaseLocked pool bearer) st)))"

definition ReserveSlot :: "patpool_state \<Rightarrow> PatPoolKey \<Rightarrow> string list \<Rightarrow> int \<Rightarrow> string \<Rightarrow> patpool_state" where
  "ReserveSlot st key entries slotIndex leaseID =
     (let pool = (case map_of st key of
                    Some p \<Rightarrow> p
                  | None \<Rightarrow> \<lparr> pp_entries = entries, pp_leased = replicate (length entries) False,
                              pp_byBearer = [] \<rparr>)
      in mset_key key (pool\<lparr> pp_leased := setSlot (pp_leased pool) slotIndex True \<rparr>) st)"

definition patSubstitution :: "patLease \<Rightarrow> string \<Rightarrow> SubstituteResult" where
  "patSubstitution lease pat =
     \<lparr> sub_Matched = True,
       sub_SetHeaders =
         [(''Authorization'', ''Basic '' @ b64_encode False (''x-access-token'' @ '':'' @ pat))],
       sub_RemoveHeaders = [], sub_SetQueryParam = [], sub_SetBasicAuth = None,
       sub_AllowedHeaders =
         [''Content-Type'', ''Content-Length'', ''Accept'', ''Accept-Encoding'', ''User-Agent'',
          ''X-GitHub-Api-Version''],
       sub_AllowedQueryParams = [],
       sub_CredentialName = pl_CredentialName lease \<rparr>"

text \<open>The second critical section of \<open>SubstituteAuth\<close>, on the pool already reconciled.\<close>

definition patServe :: "PatPoolKey \<Rightarrow> patPool \<Rightarrow> time \<Rightarrow> SubstituteRequest \<Rightarrow> string \<Rightarrow> substitute_outcome \<times> patPool" where
  "patServe key pool now req bearer =
     (case map_of (pp_byBearer pool) bearer of
        None \<Rightarrow> (denied (''patpool PAT revoked; bearer'' @ [CHR 0x27] @ ''s PAT is no longer in the pool''), pool)
      | Some lease \<Rightarrow>
          if sr_Namespace req \<noteq> [] \<and> pk_Namespace key \<noteq> sr_Namespace req
          then (denied (namespace_mismatch (pk_Namespace key) (sr_Namespace req)), pool)
          else if now > pl_ExpiresAt lease
          then (denied ''patpool bearer expired'', releaseLocked pool bearer)
          else if \<not> inRange (pl_Index lease) (pp_entries pool)
          then (denied (''patpool shrank; bearer'' @ [CHR 0x27] @ ''s lease index is stale''), releaseLocked pool bearer)
          else if pp_entries pool ! nat (pl_Index lease) \<noteq> pl_LeasedPAT lease
          then (denied ''patpool PAT revoked; entry at lease index does not match leased PAT'',
                releaseLocked pool bearer)
          else if \<not> AnyHostMatches (pl_AllowedHosts lease) (sr_Host req)
          then (denied (host_not_in_lease (sr_Host req) (pl_AllowedHosts lease)), pool)
          else ((patSubstitution lease (pp_entries pool ! nat (pl_Index lease)), None), pool))"

definition patSubstituteAuth ::
  "prov_env \<Rightarrow> patpool_state \<Rightarrow> SubstituteRequest \<Rightarrow> substitute_outcome \<times> patpool_state" where
  "patSubstituteAuth e st req =
     (let bearer = ExtractBearer (sr_IncomingBearer req)
      in if \<not> HasPrefix bearer patPoolBearerPrefix then (unmatched, st)
         else (case find (\<lambda>(k, pool). map_of (pp_byBearer pool) bearer \<noteq> None) st of
                 None \<Rightarrow> (denied ''patpool bearer not recognised'', st)
               | Some (key, pool) \<Rightarrow>
                   (case readPool (pe_kube e) (pk_Namespace key) (pk_Secret key) (pk_Key key) of
                      Inl m \<Rightarrow> (denied (''re-reading pool secret: '' @ m), st)
                    | Inr fresh \<Rightarrow>
                        let now = pe_now e
                        in case patServe key (reconcilePoolLocked pool fresh now) now req bearer of
                             (out, pool') \<Rightarrow> (out, mset_key key pool' st))))"

section \<open>Lemmas on the helpers\<close>

lemma firstFreeIndex_Some: "firstFreeIndex ls = Some i \<Longrightarrow> i < length ls \<and> \<not> ls ! i"
  by (induction ls arbitrary: i) (auto split: if_splits)

lemma firstFreeIndex_None: "firstFreeIndex ls = None \<longleftrightarrow> (\<forall>i < length ls. ls ! i)"
  by (induction ls) (auto simp: nth_Cons split: nat.splits)

lemma indexOf_Some: "indexOf ss v = Some i \<Longrightarrow> i < length ss \<and> ss ! i = v"
  by (induction ss arbitrary: i) (auto split: if_splits)

lemma indexOf_None: "indexOf ss v = None \<longleftrightarrow> v \<notin> set ss"
  by (induction ss) auto

lemma length_setSlot [simp]: "length (setSlot ls i v) = length ls"
  by (simp add: setSlot_def)

lemma setSlot_same: "inRange i ls \<Longrightarrow> setSlot ls i v ! nat i = v"
  by (auto simp: setSlot_def inRange_def)

lemma setSlot_other: "i \<noteq> int j \<Longrightarrow> setSlot ls i v ! j = ls ! j"
  by (auto simp: setSlot_def inRange_def nth_list_update)

lemma inRange_length: "length xs = length ys \<Longrightarrow> inRange i xs \<longleftrightarrow> inRange i ys"
  by (simp add: inRange_def)

lemma inRange_nat: "inRange i xs \<Longrightarrow> nat i < length xs \<and> int (nat i) = i"
  by (auto simp: inRange_def)

lemma parsePoolEntries_entry:
  "p \<in> set (parsePoolEntries raw) \<Longrightarrow> p \<noteq> [] \<and> \<not> HasPrefix p ''#''"
  by (simp add: parsePoolEntries_def)

definition sweepSlots :: "time \<Rightarrow> bool list \<Rightarrow> (string, patLease) gomap \<Rightarrow> bool list" where
  "sweepSlots now = foldl (\<lambda>ls (b, l). if now > pl_ExpiresAt l then setSlot ls (pl_Index l) False else ls)"

lemma length_sweepSlots [simp]: "length (sweepSlots now ls bls) = length ls"
  unfolding sweepSlots_def by (induction bls arbitrary: ls) auto

lemma sweepSlots_kept:
  "\<forall>(b, l) \<in> set bls. now > pl_ExpiresAt l \<longrightarrow> pl_Index l \<noteq> int j \<Longrightarrow> sweepSlots now ls bls ! j = ls ! j"
  unfolding sweepSlots_def
proof (induction bls arbitrary: ls)
  case (Cons p bls)
  then show ?case by (cases p) (auto simp: setSlot_other)
qed simp

lemma sweepSlots_le: "j < length ls \<Longrightarrow> sweepSlots now ls bls ! j \<Longrightarrow> ls ! j"
  unfolding sweepSlots_def
proof (induction bls arbitrary: ls)
  case (Cons p bls)
  obtain b l where p: "p = (b, l)" by (cases p)
  show ?case
  proof (cases "now > pl_ExpiresAt l")
    case True
    with Cons p have "setSlot ls (pl_Index l) False ! j" by simp
    then show ?thesis by (auto simp: setSlot_def inRange_def nth_list_update split: if_splits)
  qed (use Cons p in simp)
qed simp

lemma sweepSlots_freed:
  "(b, l) \<in> set bls \<Longrightarrow> now > pl_ExpiresAt l \<Longrightarrow> inRange (pl_Index l) ls
   \<Longrightarrow> \<not> sweepSlots now ls bls ! nat (pl_Index l)"
proof (induction bls arbitrary: ls)
  case (Cons p bls)
  obtain b' l' where p: "p = (b', l')" by (cases p)
  let ?ls = "if now > pl_ExpiresAt l' then setSlot ls (pl_Index l') False else ls"
  have step: "sweepSlots now ls (p # bls) = sweepSlots now ?ls bls" by (simp add: sweepSlots_def p)
  have rng: "inRange (pl_Index l) ?ls" using Cons.prems(3) by (simp add: inRange_def)
  show ?case
  proof (cases "(b, l) \<in> set bls")
    case True
    then show ?thesis using Cons.IH [OF True Cons.prems(2) rng] step by simp
  next
    case False
    then have "\<not> ?ls ! nat (pl_Index l)" using Cons.prems p by (auto simp: setSlot_same)
    then show ?thesis using sweepSlots_le [of "nat (pl_Index l)" ?ls] inRange_nat [OF rng] step by metis
  qed
qed simp

lemma length_claimSlots [simp]: "length (claimSlots ls bls) = length ls"
  unfolding claimSlots_def by (induction bls arbitrary: ls) auto

lemma claimSlots_mono: "ls ! j \<Longrightarrow> claimSlots ls bls ! j"
  unfolding claimSlots_def
proof (induction bls arbitrary: ls)
  case (Cons p bls)
  then show ?case by (cases p) (auto simp: setSlot_def inRange_def nth_list_update)
qed simp

lemma claimSlots_claimed:
  "(b, l) \<in> set bls \<Longrightarrow> inRange (pl_Index l) ls \<Longrightarrow> claimSlots ls bls ! nat (pl_Index l)"
proof (induction bls arbitrary: ls)
  case (Cons p bls)
  obtain b' l' where p: "p = (b', l')" by (cases p)
  have step: "claimSlots ls (p # bls) = claimSlots (setSlot ls (pl_Index l') True) bls"
    by (simp add: claimSlots_def p)
  have rng: "inRange (pl_Index l) (setSlot ls (pl_Index l') True)"
    using Cons.prems(2) by (simp add: inRange_def)
  show ?case
  proof (cases "(b, l) \<in> set bls")
    case True
    then show ?thesis using Cons.IH [OF True rng] step by simp
  next
    case False
    then have "setSlot ls (pl_Index l') True ! nat (pl_Index l)"
      using Cons.prems p by (auto simp: setSlot_same)
    then show ?thesis using claimSlots_mono step by simp
  qed
qed simp

lemma claimSlots_only:
  "j < length ls \<Longrightarrow> claimSlots ls bls ! j \<Longrightarrow> ls ! j \<or> (\<exists>(b, l) \<in> set bls. pl_Index l = int j)"
proof (induction bls arbitrary: ls)
  case (Cons p bls)
  obtain b l where p: "p = (b, l)" by (cases p)
  have "claimSlots (setSlot ls (pl_Index l) True) bls ! j" using Cons.prems(2) by (simp add: claimSlots_def p)
  then have "setSlot ls (pl_Index l) True ! j \<or> (\<exists>(b, l) \<in> set bls. pl_Index l = int j)"
    using Cons.IH Cons.prems(1) by simp
  then show ?case using setSlot_other [of "pl_Index l" j ls True] p by (cases "pl_Index l = int j") auto
qed (simp add: claimSlots_def)

section \<open>The pool invariant\<close>

definition pool_wf :: "patPool \<Rightarrow> bool" where
  "pool_wf pool \<longleftrightarrow>
     length (pp_leased pool) = length (pp_entries pool)
     \<and> mkeys_ok (pp_byBearer pool)
     \<and> (\<forall>(b, l) \<in> set (pp_byBearer pool). HasPrefix b patPoolBearerPrefix
          \<and> inRange (pl_Index l) (pp_entries pool)
          \<and> pp_entries pool ! nat (pl_Index l) = pl_LeasedPAT l)"

text \<open>No two leases share a slot, and every slot a lease points at is claimed.\<close>

definition pool_exclusive :: "patPool \<Rightarrow> bool" where
  "pool_exclusive pool \<longleftrightarrow>
     distinct (pp_entries pool)
     \<and> (\<forall>(b, l) \<in> set (pp_byBearer pool). pp_leased pool ! nat (pl_Index l))
     \<and> (\<forall>(b1, l1) \<in> set (pp_byBearer pool). \<forall>(b2, l2) \<in> set (pp_byBearer pool).
          pl_Index l1 = pl_Index l2 \<longrightarrow> b1 = b2)"

text \<open>Every claimed slot is held by a lease.\<close>

definition pool_tight :: "patPool \<Rightarrow> bool" where
  "pool_tight pool \<longleftrightarrow>
     (\<forall>i < length (pp_leased pool). pp_leased pool ! i \<longrightarrow> (\<exists>(b, l) \<in> set (pp_byBearer pool). pl_Index l = int i))"

lemma pool_wf_lease:
  "pool_wf pool \<Longrightarrow> (b, l) \<in> set (pp_byBearer pool) \<Longrightarrow>
   HasPrefix b patPoolBearerPrefix \<and> inRange (pl_Index l) (pp_entries pool)
   \<and> pp_entries pool ! nat (pl_Index l) = pl_LeasedPAT l"
  unfolding pool_wf_def by auto

lemma pool_wf_byBearer:
  "pool_wf pool \<Longrightarrow> (b, l) \<in> set (pp_byBearer pool) \<longleftrightarrow> map_of (pp_byBearer pool) b = Some l"
  by (simp add: pool_wf_def mkeys_ok_map_of)

lemma empty_pool_ok: "pool_wf empty_pool \<and> pool_exclusive empty_pool \<and> pool_tight empty_pool"
  by (simp add: pool_wf_def pool_exclusive_def pool_tight_def empty_pool_def)

lemma sweepPool_simps:
  "pp_entries (sweepPool pool now) = pp_entries pool"
  "pp_leased (sweepPool pool now) = sweepSlots now (pp_leased pool) (pp_byBearer pool)"
  "pp_byBearer (sweepPool pool now) = filter (\<lambda>(b, l). \<not> now > pl_ExpiresAt l) (pp_byBearer pool)"
  by (simp_all add: sweepPool_def sweepSlots_def)

lemma sweepPool_wf: "pool_wf pool \<Longrightarrow> pool_wf (sweepPool pool now)"
  by (auto simp: pool_wf_def sweepPool_simps)

lemma pool_exclusiveI:
  assumes "distinct (pp_entries pool)"
    and "\<And>b l. (b, l) \<in> set (pp_byBearer pool) \<Longrightarrow> pp_leased pool ! nat (pl_Index l)"
    and "\<And>b1 l1 b2 l2. (b1, l1) \<in> set (pp_byBearer pool) \<Longrightarrow> (b2, l2) \<in> set (pp_byBearer pool)
      \<Longrightarrow> pl_Index l1 = pl_Index l2 \<Longrightarrow> b1 = b2"
  shows "pool_exclusive pool"
  unfolding pool_exclusive_def using assms by blast

lemma pool_exclusiveD:
  assumes "pool_exclusive pool"
  shows "distinct (pp_entries pool)"
    and "(b, l) \<in> set (pp_byBearer pool) \<Longrightarrow> pp_leased pool ! nat (pl_Index l)"
    and "(b1, l1) \<in> set (pp_byBearer pool) \<Longrightarrow> (b2, l2) \<in> set (pp_byBearer pool)
      \<Longrightarrow> pl_Index l1 = pl_Index l2 \<Longrightarrow> b1 = b2"
  using assms unfolding pool_exclusive_def by blast+

lemma sweepPool_exclusive:
  assumes wf: "pool_wf pool" and ex: "pool_exclusive pool"
  shows "pool_exclusive (sweepPool pool now)"
proof (rule pool_exclusiveI, unfold sweepPool_simps)
  show "distinct (pp_entries pool)" by (rule pool_exclusiveD(1) [OF ex])
next
  fix b l assume "(b, l) \<in> set (filter (\<lambda>(b, l). \<not> now > pl_ExpiresAt l) (pp_byBearer pool))"
  then have x: "(b, l) \<in> set (pp_byBearer pool)" "\<not> now > pl_ExpiresAt l" by auto
  have rng: "int (nat (pl_Index l)) = pl_Index l"
    using pool_wf_lease [OF wf x(1)] inRange_nat by blast
  have "pl_Index l' \<noteq> int (nat (pl_Index l))"
    if l': "(b', l') \<in> set (pp_byBearer pool)" "now > pl_ExpiresAt l'" for b' l'
  proof
    assume "pl_Index l' = int (nat (pl_Index l))"
    then have "b' = b" using pool_exclusiveD(3) [OF ex l'(1) x(1)] rng by simp
    then have "l' = l" using l'(1) x(1) pool_wf_byBearer [OF wf] by simp
    then show False using l'(2) x(2) by simp
  qed
  then have "sweepSlots now (pp_leased pool) (pp_byBearer pool) ! nat (pl_Index l)
      = pp_leased pool ! nat (pl_Index l)" by (intro sweepSlots_kept) blast
  then show "sweepSlots now (pp_leased pool) (pp_byBearer pool) ! nat (pl_Index l)"
    using pool_exclusiveD(2) [OF ex x(1)] by simp
next
  fix b1 l1 b2 l2
  assume "(b1, l1) \<in> set (filter (\<lambda>(b, l). \<not> now > pl_ExpiresAt l) (pp_byBearer pool))"
    "(b2, l2) \<in> set (filter (\<lambda>(b, l). \<not> now > pl_ExpiresAt l) (pp_byBearer pool))"
    "pl_Index l1 = pl_Index l2"
  then show "b1 = b2" using pool_exclusiveD(3) [OF ex] by auto
qed

lemma sweepPool_tight:
  assumes wf: "pool_wf pool" and t: "pool_tight pool"
  shows "pool_tight (sweepPool pool now)"
  unfolding pool_tight_def sweepPool_simps
proof (intro allI impI)
  fix i assume i: "i < length (sweepSlots now (pp_leased pool) (pp_byBearer pool))"
    and s: "sweepSlots now (pp_leased pool) (pp_byBearer pool) ! i"
  have len: "length (pp_leased pool) = length (pp_entries pool)" using wf by (simp add: pool_wf_def)
  have "pp_leased pool ! i" using sweepSlots_le i s by simp
  then obtain b l where l: "(b, l) \<in> set (pp_byBearer pool)" "pl_Index l = int i"
    using t i by (fastforce simp: pool_tight_def)
  have "inRange (pl_Index l) (pp_leased pool)"
    using pool_wf_lease [OF wf l(1)] inRange_length [OF len] by blast
  then have "\<not> now > pl_ExpiresAt l" using sweepSlots_freed [OF l(1)] s l(2) by fastforce
  then show "\<exists>(b, l) \<in> set (filter (\<lambda>(b, l). \<not> now > pl_ExpiresAt l) (pp_byBearer pool)). pl_Index l = int i"
    using l by force
qed

lemma remapLease_Some:
  "remapLease old fresh (b, l) = Some (b', l') \<longleftrightarrow>
     b' = b \<and> inRange (pl_Index l) old
     \<and> (\<exists>i. indexOf fresh (old ! nat (pl_Index l)) = Some i \<and> l' = l\<lparr> pl_Index := int i \<rparr>)"
  by (auto simp: remapLease_def split: option.splits)

lemma remapped_mem:
  "(b, l') \<in> set (List.map_filter (remapLease old fresh) bls) \<longleftrightarrow>
     (\<exists>l i. (b, l) \<in> set bls \<and> inRange (pl_Index l) old
        \<and> indexOf fresh (old ! nat (pl_Index l)) = Some i \<and> l' = l\<lparr> pl_Index := int i \<rparr>)"
proof -
  have "(b, l') \<in> set (List.map_filter (remapLease old fresh) bls) \<longleftrightarrow>
     (\<exists>c l. (c, l) \<in> set bls \<and> remapLease old fresh (c, l) = Some (b, l'))"
    by (simp only: set_map_filter_iff Bex_def split_paired_Ex)
  then show ?thesis unfolding remapLease_Some by metis
qed

lemma remapped_keys: "mkeys_ok bls \<Longrightarrow> mkeys_ok (List.map_filter (remapLease old fresh) bls)"
proof (induction bls)
  case (Cons p bls)
  obtain b l where p: "p = (b, l)" by (cases p)
  have ok: "mkeys_ok bls" and b: "b \<notin> fst ` set bls" using Cons.prems p by (auto simp: mkeys_ok_def)
  have "b \<notin> fst ` set (List.map_filter (remapLease old fresh) bls)"
    using b by (force simp: remapped_mem)
  then show ?case using Cons.IH [OF ok] p
    by (auto simp: map_filter_simps mkeys_ok_def remapLease_Some split: option.splits)
qed (simp add: map_filter_simps)

text \<open>The pool after the sweep, when the Secret's entries changed.\<close>

definition rebuilt :: "patPool \<Rightarrow> string list \<Rightarrow> patPool" where
  "rebuilt pool fresh =
     (let newByBearer = List.map_filter (remapLease (pp_entries pool) fresh) (pp_byBearer pool)
      in \<lparr> pp_entries = fresh, pp_leased = claimSlots (replicate (length fresh) False) newByBearer,
           pp_byBearer = newByBearer \<rparr>)"

lemma rebuilt_simps:
  "pp_entries (rebuilt pool fresh) = fresh"
  "pp_leased (rebuilt pool fresh) =
     claimSlots (replicate (length fresh) False) (pp_byBearer (rebuilt pool fresh))"
  "pp_byBearer (rebuilt pool fresh) =
     List.map_filter (remapLease (pp_entries pool) fresh) (pp_byBearer pool)"
  by (simp_all add: rebuilt_def Let_def)

lemma reconcile_cases:
  "reconcilePoolLocked pool fresh now =
     (if pp_entries pool = fresh then sweepPool pool now else rebuilt (sweepPool pool now) fresh)"
  by (simp add: reconcilePoolLocked_def rebuilt_def sweepPool_simps Let_def)

lemma rebuilt_wf:
  assumes wf: "pool_wf pool" shows "pool_wf (rebuilt pool fresh)"
proof -
  have "HasPrefix b patPoolBearerPrefix \<and> inRange (int i) fresh \<and> fresh ! nat (int i) = pl_LeasedPAT l"
    if "(b, l) \<in> set (pp_byBearer pool)" "indexOf fresh (pp_entries pool ! nat (pl_Index l)) = Some i" for b l i
    using pool_wf_lease [OF wf that(1)] indexOf_Some [OF that(2)] by (auto simp: inRange_def)
  then show ?thesis
    using wf remapped_keys by (auto simp: pool_wf_def rebuilt_simps remapped_mem)
qed

lemma rebuilt_exclusive:
  assumes wf: "pool_wf pool" and ex: "pool_exclusive pool" and d: "distinct fresh"
  shows "pool_exclusive (rebuilt pool fresh)"
proof -
  let ?new = "List.map_filter (remapLease (pp_entries pool) fresh) (pp_byBearer pool)"
  have claimed: "claimSlots (replicate (length fresh) False) ?new ! nat (pl_Index l)" if "(b, l) \<in> set ?new" for b l
  proof -
    have "inRange (pl_Index l) fresh"
      using that by (auto simp: remapped_mem inRange_def dest: indexOf_Some)
    then show ?thesis using that by (intro claimSlots_claimed) (auto simp: inRange_def)
  qed
  have inj: "b1 = b2"
    if n1: "(b1, l1) \<in> set ?new" and n2: "(b2, l2) \<in> set ?new" and eq: "pl_Index l1 = pl_Index l2"
    for b1 l1 b2 l2
  proof -
    obtain m1 i where m1: "(b1, m1) \<in> set (pp_byBearer pool)" "inRange (pl_Index m1) (pp_entries pool)"
      "indexOf fresh (pp_entries pool ! nat (pl_Index m1)) = Some i" "pl_Index l1 = int i"
      using n1 by (auto simp: remapped_mem)
    obtain m2 j where m2: "(b2, m2) \<in> set (pp_byBearer pool)" "inRange (pl_Index m2) (pp_entries pool)"
      "indexOf fresh (pp_entries pool ! nat (pl_Index m2)) = Some j" "pl_Index l2 = int j"
      using n2 by (auto simp: remapped_mem)
    have "pp_entries pool ! nat (pl_Index m1) = pp_entries pool ! nat (pl_Index m2)"
      using m1 m2 eq indexOf_Some by (metis of_nat_eq_iff)
    then have "nat (pl_Index m1) = nat (pl_Index m2)"
      using ex inRange_nat m1(2) m2(2) by (metis pool_exclusiveD(1) nth_eq_iff_index_eq)
    then have "pl_Index m1 = pl_Index m2" using inRange_nat m1(2) m2(2) by metis
    then show ?thesis by (rule pool_exclusiveD(3) [OF ex m1(1) m2(1)])
  qed
  show ?thesis
    by (rule pool_exclusiveI) (use d claimed inj in \<open>simp_all add: rebuilt_simps\<close>)
qed

lemma rebuilt_tight: "pool_tight (rebuilt pool fresh)"
  unfolding pool_tight_def
proof (intro allI impI)
  fix i assume "i < length (pp_leased (rebuilt pool fresh))" "pp_leased (rebuilt pool fresh) ! i"
  then have i: "i < length fresh"
    and c: "claimSlots (replicate (length fresh) False) (pp_byBearer (rebuilt pool fresh)) ! i"
    by (simp_all add: rebuilt_simps(2))
  then show "\<exists>(b, l) \<in> set (pp_byBearer (rebuilt pool fresh)). pl_Index l = int i"
    using claimSlots_only [OF _ c] by simp
qed

lemma reconcile_wf: "pool_wf pool \<Longrightarrow> pool_wf (reconcilePoolLocked pool fresh now)"
  by (simp add: reconcile_cases sweepPool_wf rebuilt_wf)

lemma reconcile_exclusive:
  "pool_wf pool \<Longrightarrow> pool_exclusive pool \<Longrightarrow> distinct fresh
   \<Longrightarrow> pool_exclusive (reconcilePoolLocked pool fresh now)"
  by (simp add: reconcile_cases sweepPool_wf sweepPool_exclusive rebuilt_exclusive)

lemma reconcile_tight: "pool_wf pool \<Longrightarrow> pool_tight pool \<Longrightarrow> pool_tight (reconcilePoolLocked pool fresh now)"
  by (simp add: reconcile_cases sweepPool_tight rebuilt_tight)

lemma reconcile_entries [simp]: "pp_entries (reconcilePoolLocked pool fresh now) = fresh"
  by (simp add: reconcile_cases sweepPool_simps rebuilt_simps)

text \<open>Reconciling keeps exactly the unexpired leases whose token is still in the Secret.\<close>

lemma reconcile_leaseD:
  assumes wf: "pool_wf pool" and l': "(b, l') \<in> set (pp_byBearer (reconcilePoolLocked pool fresh now))"
  shows "\<exists>l. (b, l) \<in> set (pp_byBearer pool) \<and> l' = l\<lparr> pl_Index := pl_Index l' \<rparr>
    \<and> now \<le> pl_ExpiresAt l \<and> pl_LeasedPAT l \<in> set fresh"
proof (cases "pp_entries pool = fresh")
  case True
  then have l: "(b, l') \<in> set (pp_byBearer pool)" "now \<le> pl_ExpiresAt l'"
    using l' by (auto simp: reconcile_cases sweepPool_simps)
  have "pl_LeasedPAT l' \<in> set fresh"
    using pool_wf_lease [OF wf l(1)] inRange_nat True nth_mem by metis
  then show ?thesis using l by (intro exI [of _ l']) simp
next
  case False
  then obtain l i where l: "(b, l) \<in> set (pp_byBearer pool)" "now \<le> pl_ExpiresAt l"
    "indexOf fresh (pp_entries pool ! nat (pl_Index l)) = Some i" "l' = l\<lparr> pl_Index := int i \<rparr>"
    using l' by (auto simp: reconcile_cases rebuilt_simps remapped_mem sweepPool_simps)
  have "pl_LeasedPAT l \<in> set fresh"
    using pool_wf_lease [OF wf l(1)] indexOf_Some [OF l(3)] nth_mem by metis
  then show ?thesis using l by (intro exI [of _ l]) simp
qed

lemma reconcile_leaseI:
  assumes wf: "pool_wf pool" and l: "(b, l) \<in> set (pp_byBearer pool)" "now \<le> pl_ExpiresAt l"
    "pl_LeasedPAT l \<in> set fresh"
  shows "\<exists>i. (b, l\<lparr> pl_Index := i \<rparr>) \<in> set (pp_byBearer (reconcilePoolLocked pool fresh now))"
proof (cases "pp_entries pool = fresh")
  case True
  then show ?thesis using l by (intro exI [of _ "pl_Index l"]) (simp add: reconcile_cases sweepPool_simps)
next
  case False
  obtain j where "indexOf fresh (pl_LeasedPAT l) = Some j"
    using l(3) indexOf_None [of fresh "pl_LeasedPAT l"] by auto
  then have "(b, l\<lparr> pl_Index := int j \<rparr>) \<in> set (pp_byBearer (rebuilt (sweepPool pool now) fresh))"
    using pool_wf_lease [OF wf l(1)] l by (auto simp: rebuilt_simps remapped_mem sweepPool_simps)
  then show ?thesis using False by (auto simp: reconcile_cases)
qed

lemma release_wf: "pool_wf pool \<Longrightarrow> pool_wf (releaseLocked pool b)"
  by (auto simp: releaseLocked_def pool_wf_def set_mdelete split: option.splits)

lemma release_subset: "set (pp_byBearer (releaseLocked pool b)) \<subseteq> set (pp_byBearer pool)"
  by (auto simp: releaseLocked_def set_mdelete split: option.splits)

lemma release_exclusive:
  assumes wf: "pool_wf pool" and ex: "pool_exclusive pool"
  shows "pool_exclusive (releaseLocked pool b)"
proof (cases "map_of (pp_byBearer pool) b")
  case (Some l)
  then have l: "(b, l) \<in> set (pp_byBearer pool)" using pool_wf_byBearer [OF wf] by simp
  have "setSlot (pp_leased pool) (pl_Index l) False ! nat (pl_Index l')"
    if l': "(b', l') \<in> set (pp_byBearer pool)" "b' \<noteq> b" for b' l'
  proof -
    have "pl_Index l \<noteq> int (nat (pl_Index l'))"
      using pool_exclusiveD(3) [OF ex l l'(1)] l'(2) pool_wf_lease [OF wf l'(1)] inRange_nat by metis
    then have "setSlot (pp_leased pool) (pl_Index l) False ! nat (pl_Index l')
        = pp_leased pool ! nat (pl_Index l')" by (rule setSlot_other)
    then show ?thesis using pool_exclusiveD(2) [OF ex l'(1)] by simp
  qed
  then show ?thesis
    by (intro pool_exclusiveI)
      (use Some pool_exclusiveD [OF ex] in \<open>auto simp: releaseLocked_def set_mdelete\<close>)
qed (use ex in \<open>simp add: releaseLocked_def\<close>)

lemma release_tight:
  assumes wf: "pool_wf pool" and t: "pool_tight pool"
  shows "pool_tight (releaseLocked pool b)"
proof (cases "map_of (pp_byBearer pool) b")
  case (Some l)
  then have l: "(b, l) \<in> set (pp_byBearer pool)" using pool_wf_byBearer [OF wf] by simp
  have len: "length (pp_leased pool) = length (pp_entries pool)" using wf by (simp add: pool_wf_def)
  have rng: "inRange (pl_Index l) (pp_leased pool)"
    using pool_wf_lease [OF wf l] inRange_length [OF len] by blast
  have "\<exists>(b', l') \<in> set (mdelete b (pp_byBearer pool)). pl_Index l' = int i"
    if i: "i < length (pp_leased pool)" "setSlot (pp_leased pool) (pl_Index l) False ! i" for i
  proof -
    have ne: "pl_Index l \<noteq> int i" using i(2) setSlot_same [OF rng, of False] by auto
    then have "pp_leased pool ! i" using i(2) by (simp add: setSlot_other)
    then obtain b' l' where l': "(b', l') \<in> set (pp_byBearer pool)" "pl_Index l' = int i"
      using t i(1) by (fastforce simp: pool_tight_def)
    then have "b' \<noteq> b" using ne Some pool_wf_byBearer [OF wf] by auto
    then show ?thesis using l' by (auto simp: set_mdelete)
  qed
  then show ?thesis using Some by (auto simp: pool_tight_def releaseLocked_def)
qed (use t in \<open>simp add: releaseLocked_def\<close>)

text \<open>Granting a free slot, as \<open>Issue\<close> does.\<close>

definition grantSlot :: "patPool \<Rightarrow> nat \<Rightarrow> string \<Rightarrow> patLease \<Rightarrow> patPool" where
  "grantSlot pool idx bearer lease =
     pool\<lparr> pp_leased := (pp_leased pool)[idx := True], pp_byBearer := mset_key bearer lease (pp_byBearer pool) \<rparr>"

lemma grantSlot_simps [simp]:
  "pp_entries (grantSlot pool idx b l) = pp_entries pool"
  "pp_leased (grantSlot pool idx b l) = (pp_leased pool)[idx := True]"
  "pp_byBearer (grantSlot pool idx b l) = mset_key b l (pp_byBearer pool)"
  by (simp_all add: grantSlot_def)

lemma set_mset_key: "mkeys_ok m \<Longrightarrow> (k', v') \<in> set (mset_key k v m) \<longleftrightarrow> (if k' = k then v' = v else (k', v') \<in> set m)"
  by (auto simp: mkeys_ok_map_of map_of_mset_key)

lemma grantSlot_wf:
  assumes wf: "pool_wf pool" and idx: "firstFreeIndex (pp_leased pool) = Some idx"
    and lease: "pl_Index lease = int idx" "pl_LeasedPAT lease = pp_entries pool ! idx"
      "HasPrefix b patPoolBearerPrefix"
  shows "pool_wf (grantSlot pool idx b lease)"
proof -
  have "inRange (int idx) (pp_entries pool)"
    using firstFreeIndex_Some [OF idx] wf by (simp add: pool_wf_def inRange_def)
  then show ?thesis using wf lease set_mset_key_subset [of b lease "pp_byBearer pool"]
    by (fastforce simp: pool_wf_def)
qed

lemma grantSlot_exclusive:
  assumes wf: "pool_wf pool" and ex: "pool_exclusive pool"
    and idx: "firstFreeIndex (pp_leased pool) = Some idx" and lease: "pl_Index lease = int idx"
  shows "pool_exclusive (grantSlot pool idx b lease)"
proof -
  have keys: "mkeys_ok (pp_byBearer pool)" using wf by (simp add: pool_wf_def)
  note free = firstFreeIndex_Some [OF idx]
  have other: "pl_Index l \<noteq> int idx" if "(c, l) \<in> set (pp_byBearer pool)" for c l
    using pool_exclusiveD(2) [OF ex that] free by auto
  show ?thesis
  proof (rule pool_exclusiveI)
    show "distinct (pp_entries (grantSlot pool idx b lease))" using pool_exclusiveD(1) [OF ex] by simp
    fix c l assume l: "(c, l) \<in> set (pp_byBearer (grantSlot pool idx b lease))"
    show "pp_leased (grantSlot pool idx b lease) ! nat (pl_Index l)"
      using l lease free pool_exclusiveD(2) [OF ex]
      by (cases "c = b") (auto simp: set_mset_key [OF keys] nth_list_update)
  next
    fix b1 l1 b2 l2
    assume "(b1, l1) \<in> set (pp_byBearer (grantSlot pool idx b lease))"
      "(b2, l2) \<in> set (pp_byBearer (grantSlot pool idx b lease))" "pl_Index l1 = pl_Index l2"
    then show "b1 = b2"
      using other lease pool_exclusiveD(3) [OF ex] unfolding grantSlot_simps set_mset_key [OF keys]
      by metis
  qed
qed

lemma grantSlot_tight:
  assumes wf: "pool_wf pool" and t: "pool_tight pool" and fresh: "map_of (pp_byBearer pool) b = None"
    and lease: "pl_Index lease = int idx"
  shows "pool_tight (grantSlot pool idx b lease)"
proof -
  have keys: "mkeys_ok (pp_byBearer pool)" using wf by (simp add: pool_wf_def)
  have "\<exists>c l. (c, l) \<in> set (mset_key b lease (pp_byBearer pool)) \<and> pl_Index l = int i"
    if i: "i < length (pp_leased pool)" "(pp_leased pool)[idx := True] ! i" for i
  proof (cases "i = idx")
    case True
    then show ?thesis using lease by (auto simp: set_mset_key [OF keys])
  next
    case False
    then obtain c l where l: "(c, l) \<in> set (pp_byBearer pool)" "pl_Index l = int i"
      using t i by (fastforce simp: pool_tight_def)
    then have "c \<noteq> b" using fresh pool_wf_byBearer [OF wf] by auto
    then show ?thesis using l by (auto simp: set_mset_key [OF keys])
  qed
  then show ?thesis by (auto simp: pool_tight_def)
qed

section \<open>States\<close>

definition patpool_inv :: "patpool_state \<Rightarrow> bool" where
  "patpool_inv st \<longleftrightarrow> mkeys_ok st \<and> (\<forall>k pool. map_of st k = Some pool \<longrightarrow> pool_wf pool)"

definition pat_view :: "PatPoolKey \<Rightarrow> patLease \<Rightarrow> lease_view" where
  "pat_view k l = \<lparr> lv_Namespace = pk_Namespace k, lv_RunName = pl_RunName l,
     lv_CredentialName = pl_CredentialName l, lv_ExpiresAt = pl_ExpiresAt l, lv_Hosts = pl_AllowedHosts l \<rparr>"

definition patpool_holds :: "patpool_state \<Rightarrow> string \<Rightarrow> lease_view \<Rightarrow> bool" where
  "patpool_holds st b lv \<longleftrightarrow>
     (\<exists>k pool l. map_of st k = Some pool \<and> (b, l) \<in> set (pp_byBearer pool) \<and> lv = pat_view k l)"

definition pool_at :: "patpool_state \<Rightarrow> PatPoolKey \<Rightarrow> patPool" where
  "pool_at st k = (case map_of st k of Some p \<Rightarrow> p | None \<Rightarrow> empty_pool)"

lemma pool_at_wf: "patpool_inv st \<Longrightarrow> pool_wf (pool_at st k)"
  using empty_pool_ok by (auto simp: patpool_inv_def pool_at_def split: option.splits)

lemma patpool_inv_update: "patpool_inv st \<Longrightarrow> pool_wf pool \<Longrightarrow> patpool_inv (mset_key k pool st)"
  by (auto simp: patpool_inv_def map_of_mset_key)

text \<open>Replacing one pool: its leases are the new pool's, the others are untouched.\<close>

lemma patpool_holds_update:
  assumes "patpool_holds (mset_key k pool st) b lv"
  shows "(\<exists>l. (b, l) \<in> set (pp_byBearer pool) \<and> lv = pat_view k l) \<or> patpool_holds st b lv"
  using assms by (fastforce simp: patpool_holds_def map_of_mset_key split: if_splits)

lemma patpool_holds_pool:
  "(b, l) \<in> set (pp_byBearer (pool_at st k)) \<Longrightarrow> patpool_holds st b (pat_view k l)"
  by (force simp: patpool_holds_def pool_at_def empty_pool_def split: option.splits)

lemma reconcile_view:
  assumes "pool_wf pool" "(b, l) \<in> set (pp_byBearer (reconcilePoolLocked pool fresh now))"
  shows "\<exists>l0. (b, l0) \<in> set (pp_byBearer pool) \<and> pat_view k l0 = pat_view k l"
proof -
  obtain l0 where l0: "(b, l0) \<in> set (pp_byBearer pool)" "l = l0\<lparr> pl_Index := pl_Index l \<rparr>"
    using reconcile_leaseD [OF assms] by blast
  have "pat_view k (l0\<lparr> pl_Index := pl_Index l \<rparr>) = pat_view k l0" by (simp add: pat_view_def)
  then show ?thesis using l0 by metis
qed

definition pool_key :: "IssueRequest \<Rightarrow> SecretKeyReference \<Rightarrow> PatPoolKey" where
  "pool_key req ref = \<lparr> pk_Namespace = iq_Namespace req, pk_Secret = skr_Name ref, pk_Key = skr_Key ref \<rparr>"

text \<open>The pool \<open>Issue\<close> picks from, and the lease it records for slot \<open>idx\<close>.\<close>

definition issue_pool :: "prov_env \<Rightarrow> patpool_state \<Rightarrow> IssueRequest \<Rightarrow> SecretKeyReference \<Rightarrow> string list \<Rightarrow> patPool" where
  "issue_pool e st req ref entries = reconcilePoolLocked (pool_at st (pool_key req ref)) entries (pe_now e)"

definition issue_lease :: "prov_env \<Rightarrow> IssueRequest \<Rightarrow> string list \<Rightarrow> nat \<Rightarrow> string \<Rightarrow> patLease" where
  "issue_lease e req entries idx bearer =
     \<lparr> pl_Index = int idx, pl_RunName = iq_RunName req, pl_CredentialName = iq_CredentialName req,
       pl_ExpiresAt = pe_now e + ttl_or defaultPATLeaseTTL (pc_RotationSeconds (cg_Provider (iq_Grant req))),
       pl_AllowedHosts = pc_Hosts (cg_Provider (iq_Grant req)), pl_LeasedPAT = entries ! idx,
       pl_LeaseID = ''pat-'' @ lease_suffix patPoolBearerPrefix bearer \<rparr>"

lemma issue_pool_entries [simp]: "pp_entries (issue_pool e st req ref entries) = entries"
  by (simp add: issue_pool_def)

lemma issue_pool_wf: "patpool_inv st \<Longrightarrow> pool_wf (issue_pool e st req ref entries)"
  by (simp add: issue_pool_def pool_at_wf reconcile_wf)

lemma patIssueLocked_cases:
  assumes "patIssueLocked e st req ref entries = (x, st')"
  obtains (exhausted) m where "x = Inl (PoolExhausted m)"
      "firstFreeIndex (pp_leased (issue_pool e st req ref entries)) = None"
      "st' = mset_key (pool_key req ref) (issue_pool e st req ref entries) st"
  | (norand) m where "x = Inl (PErr m)" "pe_rand e = None"
      "st' = mset_key (pool_key req ref) (issue_pool e st req ref entries) st"
  | (granted) idx buf res lease where "x = Inr res" "pe_rand e = Some buf"
      "firstFreeIndex (pp_leased (issue_pool e st req ref entries)) = Some idx"
      "ir_Value res = patPoolBearerPrefix @ hex_encode buf"
      "lease = issue_lease e req entries idx (ir_Value res)"
      "pl_LeaseID lease = ir_LeaseID res" "pl_ExpiresAt lease = ir_ExpiresAt res"
      "ir_Hosts res = pl_AllowedHosts lease" "ir_PoolSlotIndex res = Some (int idx)"
      "st' = mset_key (pool_key req ref) (grantSlot (issue_pool e st req ref entries) idx (ir_Value res) lease)
              (mset_key (pool_key req ref) (issue_pool e st req ref entries) st)"
proof (cases "firstFreeIndex (pp_leased (issue_pool e st req ref entries))")
  case None
  with assms show thesis
    by (intro exhausted)
      (auto simp: patIssueLocked_def Let_def issue_pool_def pool_at_def pool_key_def)
next
  case (Some idx)
  show thesis
  proof (cases "pe_rand e")
    case None
    with assms Some show thesis
      by (intro norand)
        (auto simp: patIssueLocked_def Let_def issue_pool_def pool_at_def pool_key_def mintBearer_def)
  next
    case (Some buf)
    with assms \<open>firstFreeIndex _ = Some idx\<close> show thesis
      by (intro granted [of _ buf idx])
        (auto simp: patIssueLocked_def Let_def issue_pool_def pool_at_def pool_key_def mintBearer_def
          issue_lease_def grantSlot_def)
  qed
qed

lemma issue_lease_simps [simp]:
  "pl_Index (issue_lease e req entries idx b) = int idx"
  "pl_LeasedPAT (issue_lease e req entries idx b) = entries ! idx"
  by (simp_all add: issue_lease_def)

lemma patIssue_cases:
  assumes "patIssue e st req = (x, st')"
  obtains (err) m where "x = Inl (PErr m)" "st' = st"
  | (locked) ref entries where "pc_SecretRef (cg_Provider (iq_Grant req)) = Some ref"
      "readPool (pe_kube e) (iq_Namespace req) (skr_Name ref) (skr_Key ref) = Inr entries" "entries \<noteq> []"
      "patIssueLocked e st req ref entries = (x, st')"
  using assms by (auto simp: patIssue_def split: option.splits sum.splits if_splits)

lemma patIssueLocked_inv:
  assumes inv: "patpool_inv st" and eq: "patIssueLocked e st req ref entries = (x, st')"
  shows "patpool_inv st'"
  using eq
proof (cases rule: patIssueLocked_cases)
  case (granted idx buf res lease)
  have "pool_wf (grantSlot (issue_pool e st req ref entries) idx (ir_Value res) lease)"
    by (rule grantSlot_wf [OF issue_pool_wf [OF inv] granted(3)]) (simp_all add: granted(4,5))
  then show ?thesis
    using granted(10) by (simp add: patpool_inv_update inv issue_pool_wf [OF inv])
qed (simp_all add: patpool_inv_update inv issue_pool_wf [OF inv])

lemma patIssue_inv:
  assumes "patpool_inv st" shows "patpool_inv (snd (patIssue e st req))"
proof -
  obtain x st' where eq: "patIssue e st req = (x, st')" by fastforce
  then show ?thesis by (cases rule: patIssue_cases) (use assms patIssueLocked_inv eq in auto)
qed

lemma issue_pool_holds:
  assumes "patpool_inv st" "(b, l) \<in> set (pp_byBearer (issue_pool e st req ref entries))"
  shows "patpool_holds st b (pat_view (pool_key req ref) l)"
proof -
  obtain l0 where "(b, l0) \<in> set (pp_byBearer (pool_at st (pool_key req ref)))"
    "pat_view (pool_key req ref) l0 = pat_view (pool_key req ref) l"
    using reconcile_view [OF pool_at_wf [OF assms(1)] assms(2) [unfolded issue_pool_def]] by blast
  then show ?thesis using patpool_holds_pool by metis
qed

lemma patIssueLocked_holds:
  assumes inv: "patpool_inv st" and eq: "patIssueLocked e st req ref entries = (x, st')"
    and b: "patpool_holds st' b lv"
  shows "patpool_holds st b lv \<or> (\<exists>res. x = Inr res \<and> issued_as req res b lv)"
  using eq
proof (cases rule: patIssueLocked_cases)
  case (granted idx buf res lease)
  let ?pool = "issue_pool e st req ref entries"
  have keys: "mkeys_ok (pp_byBearer ?pool)" using issue_pool_wf [OF inv] by (simp add: pool_wf_def)
  have "issued_as req res (ir_Value res) (pat_view (pool_key req ref) lease)"
    using granted(5,8) by (simp add: issued_as_def pat_view_def pool_key_def issue_lease_def)
  moreover have "(\<exists>l. (b, l) \<in> set (mset_key (ir_Value res) lease (pp_byBearer ?pool)) \<and> lv = pat_view (pool_key req ref) l)
      \<or> (\<exists>l. (b, l) \<in> set (pp_byBearer ?pool) \<and> lv = pat_view (pool_key req ref) l) \<or> patpool_holds st b lv"
    using patpool_holds_update [OF b [unfolded granted(10)]]
      patpool_holds_update [of "pool_key req ref" ?pool st b lv] by auto
  ultimately show ?thesis
    using issue_pool_holds [OF inv] granted(1) unfolding set_mset_key [OF keys] by metis
qed (use b patpool_holds_update issue_pool_holds [OF inv] in metis)+

lemma patIssue_holds:
  assumes "patpool_inv st" "patIssue e st req = (x, st')" "patpool_holds st' b lv"
  shows "patpool_holds st b lv \<or> (\<exists>res. x = Inr res \<and> issued_as req res b lv)"
  using assms(2) by (cases rule: patIssue_cases) (use assms patIssueLocked_holds in blast)+

lemma patRevoke_cases:
  obtains "patRevoke st lid = st"
  | k pool b where "(k, pool) \<in> set st" "patRevoke st lid = mset_key k (releaseLocked pool b) st"
proof (cases "patRevoke st lid = st")
  case False
  then obtain k pool b where "find (\<lambda>(k, pool). \<exists>(b, l) \<in> set (pp_byBearer pool). pl_LeaseID l = lid) st = Some (k, pool)"
    "patRevoke st lid = mset_key k (releaseLocked pool b) st"
    by (auto simp: patRevoke_def split: if_splits option.splits)
  then show thesis using that(2) find_SomeD by fastforce
qed (use that in simp)

lemma mem_pool_at: "mkeys_ok st \<Longrightarrow> (k, pool) \<in> set st \<Longrightarrow> pool_at st k = pool"
  by (simp add: pool_at_def mkeys_ok_map_of)

lemma patRevoke_inv: "patpool_inv st \<Longrightarrow> patpool_inv (patRevoke st lid)"
  by (rule patRevoke_cases [of st lid])
    (auto simp: patpool_inv_def mkeys_ok_map_of map_of_mset_key release_wf)

lemma release_holds:
  assumes "mkeys_ok st" "(k, pool) \<in> set st" "(b, l) \<in> set (pp_byBearer (releaseLocked pool c))"
  shows "patpool_holds st b (pat_view k l)"
  using assms release_subset mem_pool_at patpool_holds_pool by (metis subsetD)

lemma patRevoke_holds:
  assumes "patpool_inv st" "patpool_holds (patRevoke st lid) b lv"
  shows "patpool_holds st b lv"
proof (rule patRevoke_cases [of st lid])
  fix k pool c assume "(k, pool) \<in> set st" "patRevoke st lid = mset_key k (releaseLocked pool c) st"
  then show ?thesis
    using assms patpool_holds_update release_holds unfolding patpool_inv_def by metis
qed (use assms in simp)

lemma ReserveSlot_inv: "patpool_inv st \<Longrightarrow> patpool_inv (ReserveSlot st key entries i lid)"
  unfolding ReserveSlot_def Let_def
  by (rule patpool_inv_update) (auto simp: patpool_inv_def pool_wf_def split: option.splits)

section \<open>SubstituteAuth\<close>

text \<open>The outcomes of the second critical section: it serves the lease, or denies and may release it.\<close>

lemma patServe_cases:
  assumes "patServe key pool now req b = (out, pool')"
  obtains (deny) m where "out = denied m" "pool' = pool \<or> pool' = releaseLocked pool b"
  | (serve) lease where "map_of (pp_byBearer pool) b = Some lease" "pool' = pool"
      "lease_authorises now (pat_view key lease) req" "inRange (pl_Index lease) (pp_entries pool)"
      "pp_entries pool ! nat (pl_Index lease) = pl_LeasedPAT lease"
      "out = (patSubstitution lease (pl_LeasedPAT lease), None)"
  using assms
  by (auto simp: patServe_def lease_authorises_def pat_view_def not_less split: option.splits if_splits)

lemma patSubstituteAuth_cases:
  assumes "patSubstituteAuth e st req = (out, st')" and inv: "patpool_inv st"
  obtains (unowned) "\<not> owns patPoolBearerPrefix req" "out = unmatched" "st' = st"
  | (deny) m where "owns patPoolBearerPrefix req" "out = denied m" "st' = st"
  | (serve) key pool fresh pool' where "owns patPoolBearerPrefix req" "map_of st key = Some pool"
      "readPool (pe_kube e) (pk_Namespace key) (pk_Secret key) (pk_Key key) = Inr fresh"
      "patServe key (reconcilePoolLocked pool fresh (pe_now e)) (pe_now e) req
         (ExtractBearer (sr_IncomingBearer req)) = (out, pool')"
      "st' = mset_key key pool' st"
proof (cases "owns patPoolBearerPrefix req")
  case True
  show thesis
  proof (cases "find (\<lambda>(k, pool). map_of (pp_byBearer pool) (ExtractBearer (sr_IncomingBearer req)) \<noteq> None) st")
    case None
    then show thesis using assms True by (intro deny) (auto simp: patSubstituteAuth_def owns_def Let_def)
  next
    case (Some kp)
    obtain key pool where kp: "kp = (key, pool)" by (cases kp)
    have "map_of st key = Some pool"
      using find_SomeD [OF Some] kp inv by (auto simp: patpool_inv_def mkeys_ok_map_of)
    show thesis
    proof (cases "readPool (pe_kube e) (pk_Namespace key) (pk_Secret key) (pk_Key key)")
      case (Inl m)
      then show thesis using assms(1) True Some kp
        by (intro deny) (auto simp: patSubstituteAuth_def owns_def Let_def)
    next
      case (Inr fresh)
      obtain o' pool' where sv: "patServe key (reconcilePoolLocked pool fresh (pe_now e)) (pe_now e) req
          (ExtractBearer (sr_IncomingBearer req)) = (o', pool')" by fastforce
      then have "patSubstituteAuth e st req = (o', mset_key key pool' st)"
        using True Some kp Inr by (simp add: patSubstituteAuth_def owns_def Let_def)
      then show thesis using assms(1) True \<open>map_of st key = Some pool\<close> Inr sv by (intro serve) simp_all
    qed
  qed
next
  case False
  then show thesis using assms unowned by (auto simp: patSubstituteAuth_def owns_def Let_def)
qed

lemma patServe_wf: "pool_wf pool \<Longrightarrow> patServe key pool now req b = (out, pool') \<Longrightarrow> pool_wf pool'"
  by (erule patServe_cases) (auto simp: release_wf)

lemma patServe_subset:
  "patServe key pool now req b = (out, pool') \<Longrightarrow> set (pp_byBearer pool') \<subseteq> set (pp_byBearer pool)"
  by (erule patServe_cases) (use release_subset in auto)

lemma patSubstituteAuth_inv:
  assumes "patpool_inv st" shows "patpool_inv (snd (patSubstituteAuth e st req))"
proof -
  obtain out st' where eq: "patSubstituteAuth e st req = (out, st')" by fastforce
  from eq assms show ?thesis
  proof (cases rule: patSubstituteAuth_cases)
    case 3: (serve key pool fresh pool')
    then have "pool_wf pool'" using assms patServe_wf reconcile_wf by (metis patpool_inv_def)
    then show ?thesis using 3 eq assms by (simp add: patpool_inv_update)
  qed (use assms eq in simp_all)
qed

lemma patSubstituteAuth_holds:
  assumes inv: "patpool_inv st" and b: "patpool_holds (snd (patSubstituteAuth e st req)) b lv"
  shows "patpool_holds st b lv"
proof -
  obtain out st' where eq: "patSubstituteAuth e st req = (out, st')" by fastforce
  from eq inv show ?thesis
  proof (cases rule: patSubstituteAuth_cases)
    case 3: (serve key pool fresh pool')
    have "patpool_holds st b (pat_view key l)" if "(b, l) \<in> set (pp_byBearer pool')" for l
    proof -
      have "(b, l) \<in> set (pp_byBearer (reconcilePoolLocked pool fresh (pe_now e)))"
        using patServe_subset [OF 3(4)] that by blast
      then obtain l0 where "(b, l0) \<in> set (pp_byBearer pool)" "pat_view key l0 = pat_view key l"
        using reconcile_view inv 3(2) by (metis patpool_inv_def)
      then show ?thesis using 3(2) unfolding patpool_holds_def by metis
    qed
    then show ?thesis using b eq 3(5) patpool_holds_update by (metis snd_conv)
  qed (use b eq in simp_all)
qed

text \<open>A served request: the lease is live, and its token is what the Secret holds now.\<close>

lemma pat_success:
  assumes inv: "patpool_inv st" and eq: "patSubstituteAuth e st req = ((res, None), st')" "sub_Matched res"
  obtains key pool lease fresh where "map_of st key = Some pool"
    "map_of (pp_byBearer pool) (ExtractBearer (sr_IncomingBearer req)) = Some lease"
    "lease_authorises (pe_now e) (pat_view key lease) req"
    "readPool (pe_kube e) (pk_Namespace key) (pk_Secret key) (pk_Key key) = Inr fresh"
    "pl_LeasedPAT lease \<in> set fresh" "res = patSubstitution lease (pl_LeasedPAT lease)"
  using eq(1) inv
proof (cases rule: patSubstituteAuth_cases)
  case 3: (serve key pool fresh pool')
  let ?b = "ExtractBearer (sr_IncomingBearer req)"
  have wf: "pool_wf pool" using inv 3(2) by (simp add: patpool_inv_def)
  show thesis using 3(4)
  proof (cases rule: patServe_cases)
    case (serve lease)
    then have "(?b, lease) \<in> set (pp_byBearer (reconcilePoolLocked pool fresh (pe_now e)))"
      using pool_wf_byBearer [OF reconcile_wf [OF wf]] by blast
    then obtain l0 where l0: "(?b, l0) \<in> set (pp_byBearer pool)" "lease = l0\<lparr> pl_Index := pl_Index lease \<rparr>"
      "pl_LeasedPAT l0 \<in> set fresh"
      using reconcile_leaseD [OF wf] by blast
    have "pat_view key (l0\<lparr> pl_Index := i \<rparr>) = pat_view key l0
      \<and> patSubstitution (l0\<lparr> pl_Index := i \<rparr>) (pl_LeasedPAT (l0\<lparr> pl_Index := i \<rparr>))
          = patSubstitution l0 (pl_LeasedPAT l0)" for i
      by (simp add: pat_view_def patSubstitution_def)
    then have "pat_view key lease = pat_view key l0
      \<and> patSubstitution lease (pl_LeasedPAT lease) = patSubstitution l0 (pl_LeasedPAT l0)"
      using l0(2) by metis
    then show thesis
      using that [of key pool l0 fresh] 3(2,3) l0 serve pool_wf_byBearer [OF wf] by auto
  qed (simp add: denied_def)
qed (use eq in \<open>auto simp: unmatched_def denied_def subst_zero_def\<close>)

text \<open>
  The state the broker starts from: the slots that \<open>ReconstructLeases\<close> reserves, and no lease.
\<close>

definition reserveAll :: "(PatPoolKey \<times> string list \<times> int \<times> string) list \<Rightarrow> patpool_state" where
  "reserveAll rs = foldl (\<lambda>st (key, entries, i, lid). ReserveSlot st key entries i lid) [] rs"

lemma reserveAll_snoc:
  "reserveAll (rs @ [(key, entries, i, lid)]) = ReserveSlot (reserveAll rs) key entries i lid"
  by (simp add: reserveAll_def)

lemma reserveAll_inv: "patpool_inv (reserveAll rs)"
proof (induction rs rule: rev_induct)
  case Nil
  show ?case by (simp add: reserveAll_def patpool_inv_def)
next
  case (snoc r rs)
  then show ?case by (cases r) (simp add: reserveAll_snoc ReserveSlot_inv)
qed

lemma reserveAll_no_lease: "map_of (reserveAll rs) k = Some pool \<Longrightarrow> pp_byBearer pool = []"
proof (induction rs arbitrary: k pool rule: rev_induct)
  case Nil
  then show ?case by (simp add: reserveAll_def)
next
  case (snoc r rs)
  then show ?case
    by (cases r)
      (auto simp: reserveAll_snoc ReserveSlot_def Let_def map_of_mset_key split: if_splits option.splits)
qed

interpretation patpool: lease_provider patPoolBearerPrefix patSubstituteAuth
  patIssue patRevoke "\<lambda>_ s _. s" "reserveAll rs" patpool_inv patpool_holds
  for rs
proof unfold_locales
  fix r e s
  show "\<not> owns patPoolBearerPrefix r \<Longrightarrow> patSubstituteAuth e s r = (unmatched, s)"
    by (simp add: patSubstituteAuth_def owns_def Let_def)
  show "owns patPoolBearerPrefix r \<Longrightarrow> sub_Matched (fst (fst (patSubstituteAuth e s r)))"
    by (auto simp: patSubstituteAuth_def owns_def Let_def patServe_def patSubstitution_def
        split: option.splits sum.splits prod.splits if_splits)
next
  fix e s q res s' b lv
  assume "patpool_inv s" "patIssue e s q = (Inr res, s')" "patpool_holds s' b lv"
  then show "patpool_holds s b lv \<or> issued_as q res b lv" using patIssue_holds by blast
next
  fix e s q err s' b lv
  assume "patpool_inv s" "patIssue e s q = (Inl err, s')" "patpool_holds s' b lv"
  then show "patpool_holds s b lv" using patIssue_holds by blast
next
  fix s e r res s'
  assume "patpool_inv s" "patSubstituteAuth e s r = ((res, None), s')" "sub_Matched res"
  then show "\<exists>lv. patpool_holds s (ExtractBearer (sr_IncomingBearer r)) lv
      \<and> lease_authorises (pe_now e) lv r \<and> sub_CredentialName res = lv_CredentialName lv"
    by (rule pat_success)
      (fastforce simp: patpool_holds_def pat_view_def patSubstitution_def dest: map_of_SomeD)
qed (auto simp: reserveAll_inv patpool_holds_def [of "reserveAll rs"] patIssue_inv patSubstituteAuth_inv
      patRevoke_inv same_lease_def intro: patSubstituteAuth_holds patRevoke_holds dest: reserveAll_no_lease)

section \<open>Exclusive pools\<close>

definition patpool_exclusive :: "patpool_state \<Rightarrow> bool" where
  "patpool_exclusive st \<longleftrightarrow> (\<forall>k pool. map_of st k = Some pool \<longrightarrow> pool_exclusive pool)"

text \<open>Every pool Secret the environment shows lists each token once.\<close>

definition distinct_pools :: "kube \<Rightarrow> bool" where
  "distinct_pools k \<longleftrightarrow> (\<forall>ns name key entries. readPool k ns name key = Inr entries \<longrightarrow> distinct entries)"

lemma patpool_exclusive_update:
  "patpool_exclusive st \<Longrightarrow> pool_exclusive pool \<Longrightarrow> patpool_exclusive (mset_key k pool st)"
  by (auto simp: patpool_exclusive_def map_of_mset_key)

lemma pool_at_exclusive: "patpool_exclusive st \<Longrightarrow> pool_exclusive (pool_at st k)"
  using empty_pool_ok by (auto simp: patpool_exclusive_def pool_at_def split: option.splits)

lemma patIssue_exclusive:
  assumes inv: "patpool_inv st" and ex: "patpool_exclusive st" and d: "distinct_pools (pe_kube e)"
  shows "patpool_exclusive (snd (patIssue e st req))"
proof -
  obtain x st' where eq: "patIssue e st req = (x, st')" by fastforce
  then show ?thesis
  proof (cases rule: patIssue_cases)
    case (locked ref entries)
    let ?pool = "issue_pool e st req ref entries"
    have pool: "pool_exclusive ?pool"
      unfolding issue_pool_def
      by (rule reconcile_exclusive [OF pool_at_wf [OF inv] pool_at_exclusive [OF ex]])
        (use d locked(2) in \<open>auto simp: distinct_pools_def\<close>)
    from locked(4) show ?thesis
    proof (cases rule: patIssueLocked_cases)
      case (granted idx buf res lease)
      have "pool_exclusive (grantSlot ?pool idx (ir_Value res) lease)"
        by (rule grantSlot_exclusive [OF issue_pool_wf [OF inv] pool granted(3)]) (simp add: granted(5))
      then show ?thesis using eq granted(10) ex pool by (simp add: patpool_exclusive_update)
    qed (use eq ex pool in \<open>simp_all add: patpool_exclusive_update\<close>)
  qed (use eq ex in simp)
qed

lemma patRevoke_exclusive:
  assumes inv: "patpool_inv st" and ex: "patpool_exclusive st"
  shows "patpool_exclusive (patRevoke st lid)"
proof (rule patRevoke_cases [of st lid])
  fix k pool b assume kp: "(k, pool) \<in> set st" and eq: "patRevoke st lid = mset_key k (releaseLocked pool b) st"
  have "map_of st k = Some pool" using inv kp by (simp add: patpool_inv_def mkeys_ok_map_of)
  then have "pool_exclusive (releaseLocked pool b)"
    using inv ex release_exclusive by (auto simp: patpool_inv_def patpool_exclusive_def)
  then show ?thesis unfolding eq by (rule patpool_exclusive_update [OF ex])
qed (use ex in simp)

lemma patSubstituteAuth_exclusive:
  assumes inv: "patpool_inv st" and ex: "patpool_exclusive st" and d: "distinct_pools (pe_kube e)"
  shows "patpool_exclusive (snd (patSubstituteAuth e st req))"
proof -
  obtain out st' where eq: "patSubstituteAuth e st req = (out, st')" by fastforce
  from eq inv show ?thesis
  proof (cases rule: patSubstituteAuth_cases)
    case (serve key pool fresh pool')
    let ?pool = "reconcilePoolLocked pool fresh (pe_now e)"
    have wf: "pool_wf pool" and pex: "pool_exclusive pool"
      using inv ex serve(2) by (auto simp: patpool_inv_def patpool_exclusive_def)
    have "distinct fresh" using d serve(3) by (auto simp: distinct_pools_def)
    then have "pool_exclusive ?pool" "pool_wf ?pool"
      using reconcile_exclusive [OF wf pex] reconcile_wf [OF wf] by blast+
    then have "pool_exclusive pool'"
      using serve(4) release_exclusive by (elim patServe_cases) auto
    then show ?thesis using eq serve(5) ex by (simp add: patpool_exclusive_update)
  qed (use ex eq in simp_all)
qed

text \<open>
  The states reached while every pool Secret lists each token once, from the reservations made at
  start-up.
\<close>

inductive pat_reach :: "patpool_state \<Rightarrow> bool" where
  pat_init: "\<forall>(key, entries, i, lid) \<in> set rs. distinct entries \<Longrightarrow> pat_reach (reserveAll rs)"
| pat_issue: "pat_reach st \<Longrightarrow> distinct_pools (pe_kube e) \<Longrightarrow> pat_reach (snd (patIssue e st q))"
| pat_subst: "pat_reach st \<Longrightarrow> distinct_pools (pe_kube e) \<Longrightarrow> pat_reach (snd (patSubstituteAuth e st r))"
| pat_revoke: "pat_reach st \<Longrightarrow> pat_reach (patRevoke st lid)"

lemma reserveAll_exclusive:
  "\<forall>(key, entries, i, lid) \<in> set rs. distinct entries \<Longrightarrow> patpool_exclusive (reserveAll rs)"
proof (induction rs rule: rev_induct)
  case Nil
  show ?case by (simp add: reserveAll_def patpool_exclusive_def)
next
  case (snoc r rs)
  obtain key entries i lid where r: "r = (key, entries, i, lid)" by (cases r)
  have ex: "patpool_exclusive (reserveAll rs)" using snoc by simp
  have "pool_exclusive p" if "map_of (reserveAll rs) k = Some p" for k p
    using ex that by (simp add: patpool_exclusive_def)
  then show ?case
    using snoc.prems reserveAll_no_lease [of rs key] ex unfolding r reserveAll_snoc ReserveSlot_def Let_def
    by (intro patpool_exclusive_update) (auto simp: pool_exclusive_def split: option.splits)
qed

lemma pat_reach_ok: "pat_reach st \<Longrightarrow> patpool_inv st \<and> patpool_exclusive st"
  by (induction rule: pat_reach.induct)
    (simp_all add: reserveAll_inv reserveAll_exclusive patIssue_inv patIssue_exclusive patSubstituteAuth_inv
      patSubstituteAuth_exclusive patRevoke_inv patRevoke_exclusive)

lemma exclusive_tokens:
  assumes "pool_wf pool" "pool_exclusive pool" "(b1, l1) \<in> set (pp_byBearer pool)" "(b2, l2) \<in> set (pp_byBearer pool)"
    and "pl_LeasedPAT l1 = pl_LeasedPAT l2"
  shows "b1 = b2"
proof -
  have r: "inRange (pl_Index l1) (pp_entries pool)" "inRange (pl_Index l2) (pp_entries pool)"
    and e: "pp_entries pool ! nat (pl_Index l1) = pp_entries pool ! nat (pl_Index l2)"
    using pool_wf_lease [OF assms(1,3)] pool_wf_lease [OF assms(1,4)] assms(5) by simp_all
  then have "nat (pl_Index l1) = nat (pl_Index l2)"
    using inRange_nat pool_exclusiveD(1) [OF assms(2)] by (metis nth_eq_iff_index_eq)
  then have "pl_Index l1 = pl_Index l2" using r inRange_nat by metis
  then show ?thesis using pool_exclusiveD(3) [OF assms(2-4)] by blast
qed

text \<open>An exclusive and tight pool is exhausted exactly when each token is held by a live lease.\<close>

lemma exhausted_iff:
  assumes wf: "pool_wf pool" and ex: "pool_exclusive pool" and t: "pool_tight pool" and d: "distinct fresh"
  shows "firstFreeIndex (pp_leased (reconcilePoolLocked pool fresh now)) = None \<longleftrightarrow>
    (\<forall>pat \<in> set fresh. \<exists>(b, l) \<in> set (pp_byBearer pool). pl_LeasedPAT l = pat \<and> now \<le> pl_ExpiresAt l)"
    (is "?full \<longleftrightarrow> ?held")
proof
  let ?pool = "reconcilePoolLocked pool fresh now"
  note wf' = reconcile_wf [OF wf, of fresh now]
  have len: "length (pp_leased ?pool) = length fresh" using wf' by (simp add: pool_wf_def)
  show ?held if full: ?full
  proof
    fix pat assume "pat \<in> set fresh"
    then obtain i where i: "i < length fresh" "fresh ! i = pat" by (auto simp: in_set_conv_nth)
    then have "pp_leased ?pool ! i" using full len by (simp add: firstFreeIndex_None)
    then obtain b l where l: "(b, l) \<in> set (pp_byBearer ?pool)" "pl_Index l = int i"
      using reconcile_tight [OF wf t, of fresh now] i len by (fastforce simp: pool_tight_def)
    then have lp: "pl_LeasedPAT l = pat" using pool_wf_lease [OF wf' l(1)] i by simp
    obtain l0 where l0: "(b, l0) \<in> set (pp_byBearer pool)" "l = l0\<lparr> pl_Index := pl_Index l \<rparr>" "now \<le> pl_ExpiresAt l0"
      using reconcile_leaseD [OF wf l(1)] by blast
    have "pl_LeasedPAT (l0\<lparr> pl_Index := j \<rparr>) = pl_LeasedPAT l0" for j by simp
    then have "pl_LeasedPAT l0 = pat" using lp l0(2) by metis
    then show "\<exists>(b, l) \<in> set (pp_byBearer pool). pl_LeasedPAT l = pat \<and> now \<le> pl_ExpiresAt l"
      using l0(1,3) by (intro bexI [of _ "(b, l0)"]) simp_all
  qed
  show ?full if held: ?held
    unfolding firstFreeIndex_None len
  proof (intro allI impI)
    fix i assume i: "i < length fresh"
    have "fresh ! i \<in> set fresh" using i by simp
    then obtain b l where l: "(b, l) \<in> set (pp_byBearer pool)" "pl_LeasedPAT l = fresh ! i" "now \<le> pl_ExpiresAt l"
      using held by blast
    then obtain j where j: "(b, l\<lparr> pl_Index := j \<rparr>) \<in> set (pp_byBearer ?pool)"
      using reconcile_leaseI [OF wf l(1,3), of fresh] i by auto
    have "inRange j fresh" "fresh ! nat j = fresh ! i" using pool_wf_lease [OF wf' j] l(2) by simp_all
    then have "nat j = i" using i d inRange_nat by (metis nth_eq_iff_index_eq)
    then show "pp_leased ?pool ! i"
      using pool_exclusiveD(2) [OF reconcile_exclusive [OF wf ex d] j] by simp
  qed
qed

end
