(* ===== verification/Broker_Server.thy ===== *)
theory Broker_Server
  imports Broker_Auth Broker_Matching Provider_Anthropic Provider_UserSecret Provider_GitHubApp Provider_PATPool
begin

text \<open>
  The broker's credential endpoints (\<open>src/internal/broker/server.go\<close>, \<open>handler_revoke.go\<close>):
  \<open>/v1/issue\<close>, \<open>/v1/validate-egress\<close>, \<open>/v1/substitute-auth\<close> and \<open>/v1/revoke\<close>, over the four providers
  \<open>cmd/broker\<close> registers.

  The state of the broker is the state of its providers and the list of audit events written so
  far, newest first. A handler is a function of the environment of the call, the state and the
  request; it yields the response and the next state. The environment holds the API server, the
  token review, the outcome of the rate limiter and of the audit write, the clock, and the order in
  which \<open>Registry.All\<close> happens to enumerate the providers. Log lines and metrics are left out.
\<close>

section \<open>Registry\<close>

datatype provider_kind = UserSuppliedSecret | AnthropicAPI | GitHubApp | PATPool

definition prov_Name :: "provider_kind \<Rightarrow> string" where
  "prov_Name k = (case k of
     UserSuppliedSecret \<Rightarrow> ''UserSuppliedSecret'' | AnthropicAPI \<Rightarrow> ''AnthropicAPI''
   | GitHubApp \<Rightarrow> ''GitHubApp'' | PATPool \<Rightarrow> ''PATPool'')"

text \<open>\<open>byName\<close>, the registry's map.\<close>

type_synonym registry = "(string, provider_kind) gomap"

definition NewRegistry :: "provider_kind list \<Rightarrow> error_msg + registry" where
  "NewRegistry ps =
     foldl (\<lambda>r p. case r of
         Inl err \<Rightarrow> Inl err
       | Inr byName \<Rightarrow>
           if map_of byName (prov_Name p) \<noteq> None
           then Inl (''duplicate provider name: '' @ fmt_q (prov_Name p))
           else Inr (mset_key (prov_Name p) p byName)) (Inr []) ps"

definition LookupProvider :: "registry \<Rightarrow> string \<Rightarrow> provider_kind option" where
  "LookupProvider r name = map_of r name"

definition AllProviders :: "registry \<Rightarrow> provider_kind list" where
  "AllProviders r = map snd r"

record prov_states =
  ps_user :: usersecret_state
  ps_anthropic :: anthropic_state
  ps_github :: github_state
  ps_patpool :: patpool_state

definition prov_Issue ::
  "provider_kind \<Rightarrow> prov_env \<Rightarrow> prov_states \<Rightarrow> IssueRequest \<Rightarrow> (prov_error + IssueResult) \<times> prov_states" where
  "prov_Issue k e ps q =
     (case k of
        UserSuppliedSecret \<Rightarrow> (case userSecretIssue e (ps_user ps) q of (x, s) \<Rightarrow> (x, ps\<lparr> ps_user := s \<rparr>))
      | AnthropicAPI \<Rightarrow> (case anthropicIssue e (ps_anthropic ps) q of (x, s) \<Rightarrow> (x, ps\<lparr> ps_anthropic := s \<rparr>))
      | GitHubApp \<Rightarrow> (case githubIssue e (ps_github ps) q of (x, s) \<Rightarrow> (x, ps\<lparr> ps_github := s \<rparr>))
      | PATPool \<Rightarrow> (case patIssue e (ps_patpool ps) q of (x, s) \<Rightarrow> (x, ps\<lparr> ps_patpool := s \<rparr>)))"

definition prov_Revoke :: "provider_kind \<Rightarrow> prov_states \<Rightarrow> string \<Rightarrow> prov_states" where
  "prov_Revoke k ps lid =
     (case k of
        UserSuppliedSecret \<Rightarrow> ps\<lparr> ps_user := userSecretRevoke (ps_user ps) lid \<rparr>
      | AnthropicAPI \<Rightarrow> ps\<lparr> ps_anthropic := anthropicRevoke (ps_anthropic ps) lid \<rparr>
      | GitHubApp \<Rightarrow> ps\<lparr> ps_github := githubRevoke (ps_github ps) lid \<rparr>
      | PATPool \<Rightarrow> ps\<lparr> ps_patpool := patRevoke (ps_patpool ps) lid \<rparr>)"

definition prov_SubstituteAuth ::
  "provider_kind \<Rightarrow> prov_env \<Rightarrow> prov_states \<Rightarrow> SubstituteRequest \<Rightarrow> substitute_outcome \<times> prov_states" where
  "prov_SubstituteAuth k e ps r =
     (case k of
        UserSuppliedSecret \<Rightarrow> (case userSecretSubstituteAuth e (ps_user ps) r of (x, s) \<Rightarrow> (x, ps\<lparr> ps_user := s \<rparr>))
      | AnthropicAPI \<Rightarrow> (case anthropicSubstituteAuth e (ps_anthropic ps) r of (x, s) \<Rightarrow> (x, ps\<lparr> ps_anthropic := s \<rparr>))
      | GitHubApp \<Rightarrow> (case githubSubstituteAuth e (ps_github ps) r of (x, s) \<Rightarrow> (x, ps\<lparr> ps_github := s \<rparr>))
      | PATPool \<Rightarrow> (case patSubstituteAuth e (ps_patpool ps) r of (x, s) \<Rightarrow> (x, ps\<lparr> ps_patpool := s \<rparr>)))"

section \<open>Wire types, audit and environment\<close>

record BrokerIssueRequest =
  biq_Name :: string

record IssueResponse =
  isr_Value :: string
  isr_LeaseID :: string
  isr_ExpiresAt :: time
  isr_Provider :: string
  isr_DeliveryMode :: string
  isr_Hosts :: "string list"
  isr_InContainerReason :: string
  isr_PoolSecretRef :: "(string \<times> string) option"
  isr_PoolSlotIndex :: "int option"

record ValidateEgressRequest =
  veq_Host :: string
  veq_Port :: int

record ValidateEgressResponse =
  ver_Allowed :: bool
  ver_MatchedPolicy :: string
  ver_Reason :: string
  ver_SubstituteAuth :: bool
  ver_DiscoveryAllow :: bool

record SubstituteAuthRequest =
  saq_Host :: string
  saq_Port :: int
  saq_IncomingAuthorization :: string
  saq_IncomingXAPIKey :: string

record SubstituteAuthResponse =
  sar_SetHeaders :: "(string, string) gomap"
  sar_RemoveHeaders :: "string list"
  sar_AllowedHeaders :: "string list"
  sar_AllowedQueryParams :: "string list"

record RevokeRequest =
  rvq_Provider :: string
  rvq_LeaseID :: string
  rvq_CredentialName :: string

record CredentialAudit =
  ca_RunName :: string
  ca_Namespace :: string
  ca_CredentialName :: string
  ca_Provider :: string
  ca_MatchedPolicy :: string
  ca_AReason :: string
  ca_When :: time

datatype audit_event =
    CredentialDenied CredentialAudit
  | CredentialIssued CredentialAudit
  | CredentialRevoked CredentialAudit

record applicationError =
  ae_status :: int
  ae_code :: string
  ae_message :: string

datatype server_error = AppErr applicationError | InfraErr error_msg | Panicked

text \<open>A response: a JSON body, the broker's error envelope, no content, or a handler that panicked.\<close>

datatype 'b http_response =
    RespJSON int 'b
  | RespError int string string
  | RespNoContent
  | RespAborted

record broker_env =
  be_prov :: prov_env
  be_order :: map_order
  be_review :: token_review
  be_limiterAllow :: "string \<Rightarrow> string \<Rightarrow> string \<Rightarrow> bool"
  be_auditOk :: bool
  be_now :: time
  be_registry :: registry

record broker_state =
  bs_provs :: prov_states
  bs_audit :: "audit_event list"

abbreviation be_kube :: "broker_env \<Rightarrow> kube" where
  "be_kube e \<equiv> pe_kube (be_prov e)"

definition denial :: "string \<Rightarrow> string \<Rightarrow> string \<Rightarrow> string \<Rightarrow> CredentialAudit" where
  "denial run ns cred reason =
     \<lparr> ca_RunName = run, ca_Namespace = ns, ca_CredentialName = cred, ca_Provider = [],
       ca_MatchedPolicy = [], ca_AReason = reason, ca_When = 0 \<rparr>"

definition app_error :: "int \<Rightarrow> string \<Rightarrow> string \<Rightarrow> server_error" where
  "app_error st code msg = AppErr \<lparr> ae_status = st, ae_code = code, ae_message = msg \<rparr>"

text \<open>Writing an audit event: it is recorded, or the write fails.\<close>

definition writeAudit :: "broker_env \<Rightarrow> broker_state \<Rightarrow> audit_event \<Rightarrow> bool \<times> broker_state" where
  "writeAudit e st ev =
     (if be_auditOk e then (True, st\<lparr> bs_audit := ev # bs_audit st \<rparr>) else (False, st))"

definition auditUnavailable :: "'b http_response" where
  "auditUnavailable = RespError 503 ''AuditUnavailable'' ''paddock-broker: audit unavailable, please retry''"

text \<open>Write the event and respond, or answer 503 when the event cannot be written.\<close>

definition audited :: "broker_env \<Rightarrow> broker_state \<Rightarrow> audit_event \<Rightarrow> 'b http_response \<Rightarrow> 'b http_response \<times> broker_state" where
  "audited e st ev resp =
     (case writeAudit e st ev of (ok, st') \<Rightarrow> (if ok then resp else auditUnavailable, st'))"

definition writeServerError :: "server_error \<Rightarrow> 'b http_response" where
  "writeServerError err =
     (case err of
        AppErr a \<Rightarrow> RespError (ae_status a) (ae_code a) (ae_message a)
      | InfraErr m \<Rightarrow> RespError 500 ''ProviderFailure'' m
      | Panicked \<Rightarrow> RespAborted)"

section \<open>Issue\<close>

definition populateDeliveryMetadata :: "IssueResponse \<Rightarrow> IssueResult \<Rightarrow> IssueResponse" where
  "populateDeliveryMetadata resp result =
     resp\<lparr> isr_DeliveryMode := ir_DeliveryMode result,
           isr_Hosts := ir_Hosts result,
           isr_InContainerReason := ir_InContainerReason result,
           isr_PoolSecretRef := (case ir_PoolSecretRef result of
                                   Some ref \<Rightarrow> Some (skr_Name ref, skr_Key ref)
                                 | None \<Rightarrow> isr_PoolSecretRef resp),
           isr_PoolSlotIndex := ir_PoolSlotIndex result \<rparr>"

text \<open>The dispatch to the provider of the matched grant, the last part of \<open>Server.issue\<close>.\<close>

definition issueDispatch ::
  "broker_env \<Rightarrow> prov_states \<Rightarrow> string \<Rightarrow> string \<Rightarrow> string \<Rightarrow> CredentialGrant \<Rightarrow> BrokerPolicy \<Rightarrow> string
    \<Rightarrow> (server_error + IssueResult) \<times> CredentialAudit option \<times> prov_states" where
  "issueDispatch e ps namespace runName credName grant matchedPolicy policyName =
     (case LookupProvider (be_registry e) (pc_Kind (cg_Provider grant)) of
        None \<Rightarrow>
          (Inl (app_error 500 ''ProviderFailure''
             (''provider kind '' @ fmt_q (pc_Kind (cg_Provider grant)) @ '' is not registered on this broker'')),
           Some ((denial runName namespace credName ''provider not registered on this broker'')
             \<lparr> ca_Provider := pc_Kind (cg_Provider grant), ca_MatchedPolicy := policyName \<rparr>), ps)
      | Some prov \<Rightarrow>
          (let req = \<lparr> iq_RunName = runName, iq_Namespace = namespace, iq_CredentialName = credName,
                       iq_Grant = grant, iq_GitRepos = gs_GitRepos (bps_Grants (bp_Spec matchedPolicy)) \<rparr>;
               audit = (denial runName namespace credName [])
                         \<lparr> ca_Provider := prov_Name prov, ca_MatchedPolicy := policyName, ca_When := be_now e \<rparr>
           in case prov_Issue prov (be_prov e) ps req of
                (Inr result, ps') \<Rightarrow> (Inr result, Some audit, ps')
              | (Inl Panic, ps') \<Rightarrow> (Inl Panicked, None, ps')
              | (Inl (PoolExhausted m), ps') \<Rightarrow>
                  (Inl (app_error 503 ''PoolExhausted'' m), Some (audit\<lparr> ca_AReason := m \<rparr>), ps')
              | (Inl (PErr m), ps') \<Rightarrow>
                  (Inl (app_error 500 ''ProviderFailure'' m), Some (audit\<lparr> ca_AReason := m \<rparr>), ps')))"

definition noGrantReason :: "string \<Rightarrow> string \<Rightarrow> string \<Rightarrow> string" where
  "noGrantReason ns cred tpl =
     ''no BrokerPolicy in namespace '' @ fmt_q ns @ '' grants credential '' @ fmt_q cred
       @ '' for template '' @ fmt_q tpl"

definition issue ::
  "broker_env \<Rightarrow> prov_states \<Rightarrow> string \<Rightarrow> string \<Rightarrow> BrokerIssueRequest
    \<Rightarrow> (server_error + IssueResult) \<times> CredentialAudit option \<times> prov_states" where
  "issue e ps namespace runName req =
     (let deny = denial runName namespace (biq_Name req); infra = ''broker infrastructure error: ''
      in case getRun (be_kube e) namespace runName of
           Inl err \<Rightarrow>
             if IsNotFound err
             then (Inl (app_error 404 ''RunNotFound'' (api_Error err)), Some (deny ''run not found''), ps)
             else (Inl (InfraErr (''loading run: '' @ api_Error err)),
                   Some (deny (infra @ ''loading run: '' @ api_Error err)), ps)
         | Inr run \<Rightarrow>
             (case resolveTemplateSpec (be_order e) (be_kube e) namespace (hr_TemplateRef run) of
                Inl err \<Rightarrow>
                  (Inl (InfraErr (''resolving template: '' @ api_Error err)),
                   Some (deny (infra @ ''resolving template: '' @ api_Error err)), ps)
              | Inr spec \<Rightarrow>
                  if \<not> hasRequirement (rq_Credentials (hts_Requires spec)) (biq_Name req)
                  then (Inl (app_error 404 ''CredentialNotFound''
                          (''template '' @ fmt_q (tr_Name (hr_TemplateRef run)) @ '' does not declare credential ''
                            @ fmt_q (biq_Name req) @ '' in spec.requires'')),
                        Some (deny ''template does not declare this credential in spec.requires''), ps)
                  else (case matchPolicyGrant (be_kube e) namespace (tr_Name (hr_TemplateRef run)) (biq_Name req) of
                          Inl err \<Rightarrow>
                            (Inl (InfraErr (''listing BrokerPolicies: '' @ api_Error err)),
                             Some (deny (infra @ ''listing BrokerPolicies: '' @ api_Error err)), ps)
                        | Inr None \<Rightarrow>
                            (let m = noGrantReason namespace (biq_Name req) (tr_Name (hr_TemplateRef run))
                             in (Inl (app_error 403 ''PolicyMissing'' m), Some (deny m), ps))
                        | Inr (Some (grant, matchedPolicy, policyName)) \<Rightarrow>
                            issueDispatch e ps namespace runName (biq_Name req) grant matchedPolicy policyName)))"

definition handleIssue ::
  "broker_env \<Rightarrow> broker_state \<Rightarrow> BrokerIssueRequest broker_request \<Rightarrow> IssueResponse http_response \<times> broker_state" where
  "handleIssue e st r =
     (if rq_Method r \<noteq> ''POST'' then (RespError 405 ''BadRequest'' ''POST required'', st)
      else case authenticate (be_review e) r of
        Inl err \<Rightarrow> (RespError 401 ''Unauthorized'' err, st)
      | Inr caller \<Rightarrow>
          (case resolveRunIdentity r caller of
             Inl err \<Rightarrow> (RespError 400 ''BadRequest'' err, st)
           | Inr (runName, runNamespace) \<Rightarrow>
               if \<not> be_limiterAllow e runNamespace runName ''issue''
               then audited e st
                      (CredentialDenied ((denial runName runNamespace ''(rate-limit)''
                         ''per-run rate limit exceeded for /v1/issue'')\<lparr> ca_When := be_now e \<rparr>))
                      (RespError 429 ''RateLimited'' ''per-run rate limit exceeded for /v1/issue'')
               else (case rq_Body r of
                       Inl err \<Rightarrow> (RespError 400 ''BadRequest'' (''decoding body: '' @ err), st)
                     | Inr req \<Rightarrow>
                         if biq_Name req = [] then (RespError 400 ''BadRequest'' ''name is required'', st)
                         else (case issue e (bs_provs st) runNamespace runName req of
                                 (Inl err, Some audit, ps) \<Rightarrow>
                                   audited e (st\<lparr> bs_provs := ps \<rparr>) (CredentialDenied audit) (writeServerError err)
                               | (Inl err, None, ps) \<Rightarrow> (writeServerError err, st\<lparr> bs_provs := ps \<rparr>)
                               | (Inr result, None, ps) \<Rightarrow> (RespAborted, st\<lparr> bs_provs := ps \<rparr>)
                               | (Inr result, Some audit, ps) \<Rightarrow>
                                   audited e (st\<lparr> bs_provs := ps \<rparr>) (CredentialIssued audit)
                                     (RespJSON 200 (populateDeliveryMetadata
                                        \<lparr> isr_Value = ir_Value result, isr_LeaseID = ir_LeaseID result,
                                          isr_ExpiresAt = ir_ExpiresAt result, isr_Provider = ca_Provider audit,
                                          isr_DeliveryMode = [], isr_Hosts = [], isr_InContainerReason = [],
                                          isr_PoolSecretRef = None, isr_PoolSlotIndex = None \<rparr> result))))))"

section \<open>Validating egress\<close>

definition egressDenied :: "string \<Rightarrow> ValidateEgressResponse http_response" where
  "egressDenied reason =
     RespJSON 200 \<lparr> ver_Allowed = False, ver_MatchedPolicy = [], ver_Reason = reason,
                    ver_SubstituteAuth = False, ver_DiscoveryAllow = False \<rparr>"

definition hostPort :: "string \<Rightarrow> int \<Rightarrow> string" where
  "hostPort host port = host @ '':'' @ fmt_d port"

text \<open>The decision for a run that exists, the part of the handler after the run is loaded.\<close>

definition validateEgress :: "broker_env \<Rightarrow> string \<Rightarrow> HarnessRun \<Rightarrow> ValidateEgressRequest \<Rightarrow> ValidateEgressResponse http_response" where
  "validateEgress e ns run req =
     (let tpl = tr_Name (hr_TemplateRef run); k = be_kube e
      in case matchEgressGrant k ns tpl (veq_Host req) (veq_Port req) of
           Inl err \<Rightarrow> RespError 500 ''ProviderFailure'' (api_Error err)
         | Inr None \<Rightarrow>
             (case ListMatchingPolicies k ns tpl of
                Inl err \<Rightarrow> RespError 500 ''ProviderFailure'' (api_Error err)
              | Inr matches \<Rightarrow>
                  if AnyDiscoveryActive matches (be_now e)
                  then RespJSON 200 \<lparr> ver_Allowed = True, ver_MatchedPolicy = [],
                         ver_Reason = ''no grant covers '' @ hostPort (veq_Host req) (veq_Port req)
                           @ '', but a matching policy has an active egressDiscovery window'',
                         ver_SubstituteAuth = False, ver_DiscoveryAllow = True \<rparr>
                  else egressDenied (''no BrokerPolicy grants egress to '' @ hostPort (veq_Host req) (veq_Port req)))
         | Inr (Some (g, policyName)) \<Rightarrow>
             (case anyProxyInjectedHostCovers k ns tpl (veq_Host req) of
                Inl err \<Rightarrow> RespError 500 ''ProviderFailure'' (api_Error err)
              | Inr needsSubstitute \<Rightarrow>
                  RespJSON 200 \<lparr> ver_Allowed = True, ver_MatchedPolicy = policyName, ver_Reason = [],
                                 ver_SubstituteAuth = needsSubstitute, ver_DiscoveryAllow = False \<rparr>))"

definition handleValidateEgress ::
  "broker_env \<Rightarrow> ValidateEgressRequest broker_request \<Rightarrow> ValidateEgressResponse http_response" where
  "handleValidateEgress e r =
     (if rq_Method r \<noteq> ''POST'' then RespError 405 ''BadRequest'' ''POST required''
      else case authenticate (be_review e) r of
        Inl err \<Rightarrow> RespError 401 ''Unauthorized'' err
      | Inr caller \<Rightarrow>
          (case resolveRunIdentity r caller of
             Inl err \<Rightarrow> RespError 400 ''BadRequest'' err
           | Inr (runName, runNamespace) \<Rightarrow>
               (case rq_Body r of
                  Inl err \<Rightarrow> RespError 400 ''BadRequest'' (''decoding body: '' @ err)
                | Inr req \<Rightarrow>
                    if veq_Host req = [] then RespError 400 ''BadRequest'' ''host is required''
                    else (case getRun (be_kube e) runNamespace runName of
                            Inl err \<Rightarrow>
                              if IsNotFound err then egressDenied ''run no longer exists''
                              else RespError 500 ''ProviderFailure'' (api_Error err)
                          | Inr run \<Rightarrow> validateEgress e runNamespace run req))))"

section \<open>Substituting credentials\<close>

definition phaseString :: "HarnessRunPhase \<Rightarrow> string" where
  "phaseString p = (case p of
     PhaseUnset \<Rightarrow> [] | PhasePending \<Rightarrow> ''Pending'' | PhaseRunning \<Rightarrow> ''Running'' | PhaseIdle \<Rightarrow> ''Idle''
   | PhaseSucceeded \<Rightarrow> ''Succeeded'' | PhaseFailed \<Rightarrow> ''Failed'' | PhaseCancelled \<Rightarrow> ''Cancelled'')"

definition isTerminalPhase :: "HarnessRunPhase \<Rightarrow> bool" where
  "isTerminalPhase p \<longleftrightarrow> p = PhaseCancelled \<or> p = PhaseSucceeded \<or> p = PhaseFailed"

text \<open>
  \<open>substituteOutcome\<close>: not matched, or matched with exactly one of a response and its audit record,
  an application error and its audit record, or an infrastructure error.
\<close>

datatype substituteOutcome =
    OutUnmatched
  | OutResponse SubstituteAuthResponse CredentialAudit
  | OutAppErr applicationError CredentialAudit
  | OutInfraErr error_msg

definition notInLease :: string where
  "notInLease = ''not in lease'' @ [CHR 0x27] @ ''s allowed hosts''"

text \<open>The re-validation of the policy and the egress grant after the provider has answered.\<close>

definition revalidate ::
  "broker_env \<Rightarrow> provider_kind \<Rightarrow> HarnessRun \<Rightarrow> string \<Rightarrow> string \<Rightarrow> SubstituteAuthRequest \<Rightarrow> SubstituteResult \<Rightarrow> substituteOutcome" where
  "revalidate e prov run runName ns wireReq result =
     (let tpl = tr_Name (hr_TemplateRef run); cred = sub_CredentialName result;
          audit = (\<lambda>reason. (denial runName ns cred reason)\<lparr> ca_Provider := prov_Name prov \<rparr>)
      in case matchPolicyGrant (be_kube e) ns tpl cred of
           Inl err \<Rightarrow> OutInfraErr (api_Error err)
         | Inr mg \<Rightarrow>
             if (case mg of None \<Rightarrow> True | Some (grant, _, _) \<Rightarrow> pc_Kind (cg_Provider grant) \<noteq> prov_Name prov)
             then (let reason = ''policy revoked: no BrokerPolicy in namespace '' @ fmt_q ns
                         @ '' grants credential '' @ fmt_q cred @ '' via provider '' @ fmt_q (prov_Name prov)
                         @ '' for template '' @ fmt_q tpl
                   in OutAppErr \<lparr> ae_status = 403, ae_code = ''PolicyRevoked'', ae_message = reason \<rparr> (audit reason))
             else (case matchEgressGrant (be_kube e) ns tpl (saq_Host wireReq) (saq_Port wireReq) of
                     Inl err \<Rightarrow> OutInfraErr (api_Error err)
                   | Inr None \<Rightarrow>
                       (let reason = ''egress revoked: no BrokerPolicy in namespace '' @ fmt_q ns
                              @ '' grants egress to '' @ hostPort (saq_Host wireReq) (saq_Port wireReq)
                              @ '' for template '' @ fmt_q tpl
                        in OutAppErr \<lparr> ae_status = 403, ae_code = ''EgressRevoked'', ae_message = reason \<rparr> (audit reason))
                   | Inr (Some _) \<Rightarrow>
                       OutResponse
                         \<lparr> sar_SetHeaders = sub_SetHeaders result, sar_RemoveHeaders = sub_RemoveHeaders result,
                           sar_AllowedHeaders = sub_AllowedHeaders result,
                           sar_AllowedQueryParams = sub_AllowedQueryParams result \<rparr>
                         (audit ''substituted upstream credential'')))"

definition dispatchSubstituter ::
  "broker_env \<Rightarrow> prov_states \<Rightarrow> provider_kind \<Rightarrow> HarnessRun \<Rightarrow> string \<Rightarrow> string \<Rightarrow> SubstituteRequest
    \<Rightarrow> SubstituteAuthRequest \<Rightarrow> substituteOutcome \<times> prov_states" where
  "dispatchSubstituter e ps prov run runName ns pReq wireReq =
     (case prov_SubstituteAuth prov (be_prov e) ps pReq of
        ((result, err), ps') \<Rightarrow>
          (if \<not> sub_Matched result then OutUnmatched
           else (case err of
                   Some pe \<Rightarrow>
                     OutAppErr
                       \<lparr> ae_status = 403,
                         ae_code = (if Contains (perr_Error pe) notInLease then ''HostNotAllowed'' else ''SubstituteFailed''),
                         ae_message = perr_Error pe \<rparr>
                       ((denial runName ns (sr_Host pReq) (''substitute failed: '' @ perr_Error pe))
                          \<lparr> ca_Provider := prov_Name prov \<rparr>)
                 | None \<Rightarrow>
                     if sub_CredentialName result = []
                     then OutInfraErr ''provider returned SubstituteResult with no CredentialName''
                     else revalidate e prov run runName ns wireReq result), ps'))"

text \<open>The two nested loops of \<open>substituteAuth\<close>, over the providers and over the candidate bearers.\<close>

fun dispatchProviders ::
  "broker_env \<Rightarrow> prov_states \<Rightarrow> provider_kind list \<Rightarrow> HarnessRun \<Rightarrow> string \<Rightarrow> string \<Rightarrow> SubstituteRequest
    \<Rightarrow> SubstituteAuthRequest \<Rightarrow> substituteOutcome \<times> prov_states" where
  "dispatchProviders e ps [] run runName ns pReq wireReq = (OutUnmatched, ps)"
| "dispatchProviders e ps (prov # provs) run runName ns pReq wireReq =
     (case dispatchSubstituter e ps prov run runName ns pReq wireReq of
        (OutUnmatched, ps') \<Rightarrow> dispatchProviders e ps' provs run runName ns pReq wireReq
      | (out, ps') \<Rightarrow> (out, ps'))"

fun dispatchCandidates ::
  "broker_env \<Rightarrow> prov_states \<Rightarrow> string list \<Rightarrow> HarnessRun \<Rightarrow> string \<Rightarrow> string \<Rightarrow> SubstituteRequest
    \<Rightarrow> SubstituteAuthRequest \<Rightarrow> substituteOutcome \<times> prov_states" where
  "dispatchCandidates e ps [] run runName ns pReq wireReq = (OutUnmatched, ps)"
| "dispatchCandidates e ps (bearer # bearers) run runName ns pReq wireReq =
     (if bearer = [] then dispatchCandidates e ps bearers run runName ns pReq wireReq
      else (case dispatchProviders e ps (AllProviders (be_registry e)) run runName ns
                   (pReq\<lparr> sr_IncomingBearer := bearer \<rparr>) wireReq of
              (OutUnmatched, ps') \<Rightarrow> dispatchCandidates e ps' bearers run runName ns pReq wireReq
            | (out, ps') \<Rightarrow> (out, ps')))"

definition substituteAuth ::
  "broker_env \<Rightarrow> prov_states \<Rightarrow> string \<Rightarrow> string \<Rightarrow> SubstituteAuthRequest
    \<Rightarrow> (server_error + SubstituteAuthResponse) \<times> CredentialAudit option \<times> prov_states" where
  "substituteAuth e ps ns runName req =
     (let deny = denial runName ns (saq_Host req)
      in case getRun (be_kube e) ns runName of
           Inl err \<Rightarrow>
             if IsNotFound err
             then (Inl (app_error 404 ''RunTerminated'' ''run not found''), Some (deny ''run not found''), ps)
             else (Inl (InfraErr (''loading run: '' @ api_Error err)), None, ps)
         | Inr run \<Rightarrow>
             if isTerminalPhase (hr_Phase run)
             then (let reason = ''run terminated: '' @ phaseString (hr_Phase run)
                   in (Inl (app_error 403 ''RunTerminated'' reason), Some (deny reason), ps))
             else (case dispatchCandidates e ps [saq_IncomingXAPIKey req, saq_IncomingAuthorization req] run runName ns
                          \<lparr> sr_RunName = runName, sr_Namespace = ns, sr_Host = saq_Host req,
                            sr_Port = saq_Port req, sr_IncomingBearer = [] \<rparr> req of
                     (OutUnmatched, ps') \<Rightarrow>
                       (let reason = ''no registered provider owns the supplied bearer''
                        in (Inl (app_error 404 ''BearerUnknown'' reason), Some (deny reason), ps'))
                   | (OutInfraErr m, ps') \<Rightarrow> (Inl (InfraErr m), None, ps')
                   | (OutAppErr a audit, ps') \<Rightarrow> (Inl (AppErr a), Some audit, ps')
                   | (OutResponse resp audit, ps') \<Rightarrow> (Inr resp, Some audit, ps')))"

definition handleSubstituteAuth ::
  "broker_env \<Rightarrow> broker_state \<Rightarrow> SubstituteAuthRequest broker_request
    \<Rightarrow> SubstituteAuthResponse http_response \<times> broker_state" where
  "handleSubstituteAuth e st r =
     (if rq_Method r \<noteq> ''POST'' then (RespError 405 ''BadRequest'' ''POST required'', st)
      else case authenticate (be_review e) r of
        Inl err \<Rightarrow> (RespError 401 ''Unauthorized'' err, st)
      | Inr caller \<Rightarrow>
          (case resolveRunIdentity r caller of
             Inl err \<Rightarrow> (RespError 400 ''BadRequest'' err, st)
           | Inr (runName, runNamespace) \<Rightarrow>
               if \<not> be_limiterAllow e runNamespace runName ''substitute''
               then audited e st
                      (CredentialDenied ((denial runName runNamespace ''(rate-limit)''
                         ''per-run rate limit exceeded for /v1/substitute-auth'')\<lparr> ca_When := be_now e \<rparr>))
                      (RespError 429 ''RateLimited'' ''per-run rate limit exceeded for /v1/substitute-auth'')
               else (case rq_Body r of
                       Inl err \<Rightarrow> (RespError 400 ''BadRequest'' (''decoding body: '' @ err), st)
                     | Inr req \<Rightarrow>
                         if saq_IncomingAuthorization req = [] \<and> saq_IncomingXAPIKey req = []
                         then (RespError 400 ''BadRequest''
                                 ''request must carry incomingAuthorization or incomingXApiKey'', st)
                         else (case substituteAuth e (bs_provs st) runNamespace runName req of
                                 (Inl err, Some audit, ps) \<Rightarrow>
                                   audited e (st\<lparr> bs_provs := ps \<rparr>) (CredentialDenied audit) (writeServerError err)
                               | (Inl err, None, ps) \<Rightarrow> (writeServerError err, st\<lparr> bs_provs := ps \<rparr>)
                               | (Inr resp, None, ps) \<Rightarrow> (RespJSON 200 resp, st\<lparr> bs_provs := ps \<rparr>)
                               | (Inr resp, Some audit, ps) \<Rightarrow>
                                   audited e (st\<lparr> bs_provs := ps \<rparr>) (CredentialIssued audit) (RespJSON 200 resp)))))"

section \<open>Revoking\<close>

text \<open>Every provider's \<open>Revoke\<close> returns nil, so the failure branch of the handler is not taken.\<close>

definition handleRevoke ::
  "broker_env \<Rightarrow> broker_state \<Rightarrow> RevokeRequest broker_request \<Rightarrow> unit http_response \<times> broker_state" where
  "handleRevoke e st r =
     (if rq_Method r \<noteq> ''POST'' then (RespError 405 ''BadRequest'' ''POST required'', st)
      else case authenticate (be_review e) r of
        Inl err \<Rightarrow> (RespError 401 ''Unauthorized'' err, st)
      | Inr caller \<Rightarrow>
          if \<not> ci_IsController caller
          then (RespError 403 ''Forbidden'' ''only the controller-manager may call /v1/revoke'', st)
          else (case resolveRunIdentity r caller of
                  Inl err \<Rightarrow> (RespError 400 ''BadRequest'' err, st)
                | Inr (runName, runNamespace) \<Rightarrow>
                    (case rq_Body r of
                       Inl err \<Rightarrow> (RespError 400 ''BadRequest'' (''decoding body: '' @ err), st)
                     | Inr req \<Rightarrow>
                         if rvq_Provider req = [] \<or> rvq_LeaseID req = []
                         then (RespError 400 ''BadRequest'' ''provider and leaseId are required'', st)
                         else (case LookupProvider (be_registry e) (rvq_Provider req) of
                                 None \<Rightarrow> (RespError 400 ''BadRequest''
                                            (''unknown provider '' @ fmt_q (rvq_Provider req)), st)
                               | Some prov \<Rightarrow>
                                   audited e
                                     (st\<lparr> bs_provs := prov_Revoke prov (bs_provs st) (rvq_LeaseID req) \<rparr>)
                                     (CredentialRevoked
                                        ((denial runName runNamespace (rvq_CredentialName req) ''lease revoked'')
                                          \<lparr> ca_Provider := rvq_Provider req, ca_When := be_now e \<rparr>))
                                     RespNoContent))))"

end
