(* ===== verification/Broker_Facts.thy ===== *)
theory Broker_Facts
  imports Broker_Server
begin

text \<open>
  Facts about the broker's endpoints: the registry's providers claim disjoint sets of bearers, so
  the order in which the registry enumerates them is irrelevant; every handler moves the provider
  states along the providers' own operations; a substitution that is granted has a live run, a live
  lease, a policy grant of the same provider kind and an egress grant; and no decision is returned
  without its audit event.
\<close>

section \<open>Providers of the registry\<close>

definition prov_prefix :: "provider_kind \<Rightarrow> string" where
  "prov_prefix k = (case k of
     UserSuppliedSecret \<Rightarrow> userSuppliedBearerPrefix | AnthropicAPI \<Rightarrow> anthropicBearerPrefix
   | GitHubApp \<Rightarrow> githubAppBearerPrefix | PATPool \<Rightarrow> patPoolBearerPrefix)"

lemma prov_Name_inj: "prov_Name k = prov_Name k' \<Longrightarrow> k = k'"
  by (cases k; cases k') (simp_all add: prov_Name_def)

lemmas prefix_defs = userSuppliedBearerPrefix_def anthropicBearerPrefix_def githubAppBearerPrefix_def
  patPoolBearerPrefix_def

lemma prov_prefix_exclusive:
  assumes "owns (prov_prefix k) r" "owns (prov_prefix k') r"
  shows "k = k'"
proof -
  have "HasPrefix (prov_prefix k) (prov_prefix k') \<or> HasPrefix (prov_prefix k') (prov_prefix k)"
    by (rule owns_exclusive [OF assms])
  then show ?thesis
    by (cases k; cases k') (simp_all add: prov_prefix_def prefix_defs HasPrefix_def)
qed

interpretation dispatch: substituter "prov_prefix k" "prov_SubstituteAuth k" for k
proof
  fix r e s
  show "\<not> owns (prov_prefix k) r \<Longrightarrow> prov_SubstituteAuth k e s r = (unmatched, s)"
    by (cases k) (simp_all add: prov_prefix_def prov_SubstituteAuth_def usersecret.not_owned
        anthropic.not_owned github.not_owned patpool.not_owned)
  show "owns (prov_prefix k) r \<Longrightarrow> sub_Matched (fst (fst (prov_SubstituteAuth k e s r)))"
    using usersecret.owned_matched [of r e "ps_user s"] anthropic.owned_matched [of r e "ps_anthropic s"]
      github.owned_matched [of r e "ps_github s"] patpool.owned_matched [of r e "ps_patpool s"]
    by (cases k) (auto simp: prov_prefix_def prov_SubstituteAuth_def split: prod.splits)
qed

lemma dispatchSubstituter_unowned:
  "\<not> owns (prov_prefix k) r \<Longrightarrow> dispatchSubstituter e ps k run n ns r w = (OutUnmatched, ps)"
  by (simp add: dispatchSubstituter_def dispatch.not_owned unmatched_def subst_zero_def)

lemma revalidate_matched: "revalidate e k run n ns w res \<noteq> OutUnmatched"
  by (auto simp: revalidate_def Let_def split: sum.splits option.splits)

lemma dispatchSubstituter_owned:
  assumes "owns (prov_prefix k) r"
  shows "fst (dispatchSubstituter e ps k run n ns r w) \<noteq> OutUnmatched"
  using dispatch.owned_matched [OF assms, of "be_prov e" ps] revalidate_matched
  by (auto simp: dispatchSubstituter_def split: prod.splits option.splits)

text \<open>Walking the providers: the one that owns the bearer answers, or none does.\<close>

lemma dispatchProviders_find:
  "dispatchProviders e ps ks run n ns r w =
     (case find (\<lambda>k. owns (prov_prefix k) r) ks of
        None \<Rightarrow> (OutUnmatched, ps)
      | Some k \<Rightarrow> dispatchSubstituter e ps k run n ns r w)"
proof (induction ks)
  case (Cons k ks)
  show ?case
  proof (cases "owns (prov_prefix k) r")
    case True
    obtain out ps' where d: "dispatchSubstituter e ps k run n ns r w = (out, ps')" by fastforce
    then have "out \<noteq> OutUnmatched" using dispatchSubstituter_owned [OF True, of e ps run n ns w] by simp
    then show ?thesis using d True by (cases out) simp_all
  next
    case False
    then show ?thesis using Cons by (simp add: dispatchSubstituter_unowned)
  qed
qed simp

lemma find_owner_perm:
  assumes "set ks = set ks'"
  shows "find (\<lambda>k. owns (prov_prefix k) r) ks = find (\<lambda>k. owns (prov_prefix k) r) ks'"
proof (cases "find (\<lambda>k. owns (prov_prefix k) r) ks")
  case None
  then have "\<forall>k \<in> set ks'. \<not> owns (prov_prefix k) r" using assms by (simp add: find_None_ball)
  then have "find (\<lambda>k. owns (prov_prefix k) r) ks' = None" by (simp only: find_None_ball)
  then show ?thesis using None by simp
next
  case (Some k)
  then have k: "k \<in> set ks'" "owns (prov_prefix k) r" using assms find_SomeD by fastforce+
  then obtain k' where k': "find (\<lambda>k. owns (prov_prefix k) r) ks' = Some k'"
    using find_None_ball [of "\<lambda>k. owns (prov_prefix k) r" ks'] by fastforce
  then have "k' = k" using k(2) prov_prefix_exclusive find_SomeD by metis
  then show ?thesis using Some k' by simp
qed

lemma dispatchProviders_perm:
  "set ks = set ks' \<Longrightarrow> dispatchProviders e ps ks run n ns r w = dispatchProviders e ps ks' run n ns r w"
  using find_owner_perm [of ks ks' r] by (simp add: dispatchProviders_find)

lemma revalidate_registry: "revalidate (e\<lparr> be_registry := reg \<rparr>) k run n ns w res = revalidate e k run n ns w res"
  by (auto simp: revalidate_def Let_def split: sum.splits option.splits)

lemma dispatchSubstituter_registry:
  "dispatchSubstituter (e\<lparr> be_registry := reg \<rparr>) ps k run n ns r w = dispatchSubstituter e ps k run n ns r w"
  by (auto simp: dispatchSubstituter_def revalidate_registry split: prod.splits option.splits)

lemma dispatchCandidates_perm:
  assumes "set (AllProviders reg) = set (AllProviders (be_registry e))"
  shows "dispatchCandidates (e\<lparr> be_registry := reg \<rparr>) ps bs run n ns r w = dispatchCandidates e ps bs run n ns r w"
proof (induction bs arbitrary: ps)
  case (Cons b bs)
  have "dispatchProviders (e\<lparr> be_registry := reg \<rparr>) ps (AllProviders reg) run n ns r' w
      = dispatchProviders e ps (AllProviders (be_registry e)) run n ns r' w" for r'
    using find_owner_perm [OF assms, of r'] by (simp add: dispatchProviders_find dispatchSubstituter_registry split: option.splits)
  then show ?case using Cons by (simp split: prod.splits substituteOutcome.splits)
qed simp

section \<open>Reachable provider states\<close>

definition provs_init :: "string \<Rightarrow> (PatPoolKey \<times> string list \<times> int \<times> string) list \<Rightarrow> prov_states" where
  "provs_init endpoint rs =
     \<lparr> ps_user = [], ps_anthropic = [], ps_github = github_init endpoint, ps_patpool = reserveAll rs \<rparr>"

definition prov_Renew :: "provider_kind \<Rightarrow> prov_env \<Rightarrow> prov_states \<Rightarrow> IssuedLease \<Rightarrow> prov_states" where
  "prov_Renew k e ps l =
     (case k of GitHubApp \<Rightarrow> ps\<lparr> ps_github := snd (githubRenew e (ps_github ps) l) \<rparr> | _ \<Rightarrow> ps)"

text \<open>One operation of one provider, with the successful \<open>Issue\<close> it may be.\<close>

inductive provs_step ::
  "prov_states \<Rightarrow> (provider_kind \<times> IssueRequest \<times> IssueResult) list \<Rightarrow> prov_states \<Rightarrow> bool" where
  step_issue: "prov_Issue k e ps q = (Inr res, ps') \<Longrightarrow> provs_step ps [(k, q, res)] ps'"
| step_issue_err: "prov_Issue k e ps q = (Inl err, ps') \<Longrightarrow> provs_step ps [] ps'"
| step_subst: "provs_step ps [] (snd (prov_SubstituteAuth k e ps r))"
| step_revoke: "provs_step ps [] (prov_Revoke k ps lid)"
| step_renew: "provs_step ps [] (prov_Renew k e ps l)"

inductive provs_reach ::
  "string \<Rightarrow> (PatPoolKey \<times> string list \<times> int \<times> string) list \<Rightarrow> prov_states
    \<Rightarrow> (provider_kind \<times> IssueRequest \<times> IssueResult) list \<Rightarrow> bool"
  for endpoint rs where
  provs_reach_init: "provs_reach endpoint rs (provs_init endpoint rs) []"
| provs_reach_step: "provs_reach endpoint rs ps h \<Longrightarrow> provs_step ps new ps' \<Longrightarrow> provs_reach endpoint rs ps' (new @ h)"

definition history :: "provider_kind \<Rightarrow> (provider_kind \<times> IssueRequest \<times> IssueResult) list \<Rightarrow> (IssueRequest \<times> IssueResult) list" where
  "history k h = map snd (filter (\<lambda>x. fst x = k) h)"

abbreviation user_reach where
  "user_reach \<equiv> prov_reach userSecretIssue userSecretSubstituteAuth userSecretRevoke (\<lambda>_ s _. s) []"

abbreviation anthropic_reach where
  "anthropic_reach \<equiv> prov_reach anthropicIssue anthropicSubstituteAuth anthropicRevoke (\<lambda>_ s _. s) []"

abbreviation github_reach where
  "github_reach endpoint \<equiv> prov_reach githubIssue githubSubstituteAuth githubRevoke
     (\<lambda>e s l. snd (githubRenew e s l)) (github_init endpoint)"

abbreviation patpool_reach where
  "patpool_reach rs \<equiv> prov_reach patIssue patSubstituteAuth patRevoke (\<lambda>_ s _. s) (reserveAll rs)"

definition components_reach where
  "components_reach endpoint rs ps h \<longleftrightarrow>
     user_reach (ps_user ps) (history UserSuppliedSecret h)
     \<and> anthropic_reach (ps_anthropic ps) (history AnthropicAPI h)
     \<and> github_reach endpoint (ps_github ps) (history GitHubApp h)
     \<and> patpool_reach rs (ps_patpool ps) (history PATPool h)"

lemma history_Nil [simp]: "history k [] = []"
  by (simp add: history_def)

lemma history_Cons [simp]: "history k ((k', x) # h) = (if k' = k then x # history k h else history k h)"
  by (simp add: history_def)

lemma set_history: "(q, res) \<in> set (history k h) \<longleftrightarrow> (k, q, res) \<in> set h"
  by (force simp: history_def)

lemma components_step:
  assumes "provs_step ps new ps'" "components_reach endpoint rs ps h"
  shows "components_reach endpoint rs ps' (new @ h)"
  using assms
proof (induction rule: provs_step.induct)
  case (step_issue k e ps q res ps')
  then show ?case
    by (cases k) (auto simp: components_reach_def prov_Issue_def split: prod.splits intro: prov_reach.intros)
next
  case (step_issue_err k e ps q err ps')
  then show ?case
    by (cases k) (auto simp: components_reach_def prov_Issue_def split: prod.splits intro: prov_reach.intros)
next
  case (step_subst ps k e r)
  then show ?case
    using reach_subst [where step = userSecretSubstituteAuth] reach_subst [where step = anthropicSubstituteAuth]
      reach_subst [where step = githubSubstituteAuth] reach_subst [where step = patSubstituteAuth]
    by (cases k) (auto simp: components_reach_def prov_SubstituteAuth_def split: prod.splits, (metis snd_conv)+)
next
  case (step_revoke ps k lid)
  then show ?case
    by (cases k) (auto simp: components_reach_def prov_Revoke_def intro: prov_reach.intros)
next
  case (step_renew ps k e l)
  then show ?case
    by (cases k) (auto simp: components_reach_def prov_Renew_def
        intro: reach_renew [where renew = "\<lambda>e s l. snd (githubRenew e s l)"])
qed

lemma provs_reach_components: "provs_reach endpoint rs ps h \<Longrightarrow> components_reach endpoint rs ps h"
proof (induction rule: provs_reach.induct)
  case provs_reach_init
  show ?case by (simp add: components_reach_def provs_init_def prov_reach.reach_init)
next
  case (provs_reach_step ps h new ps')
  then show ?case using components_step by blast
qed

text \<open>A successful answer of any provider goes back to one of its own \<open>Issue\<close> calls.\<close>

lemma provs_confined:
  assumes reach: "provs_reach endpoint rs ps h"
    and sub: "prov_SubstituteAuth k e ps r = ((res, None), ps')" "sub_Matched res" "sr_Namespace r \<noteq> []"
  shows "\<exists>q ir. (k, q, ir) \<in> set h \<and> ir_Value ir = ExtractBearer (sr_IncomingBearer r)
    \<and> iq_Namespace q = sr_Namespace r \<and> iq_CredentialName q = sub_CredentialName res
    \<and> AnyHostMatches (ir_Hosts ir) (sr_Host r)"
proof -
  have "components_reach endpoint rs ps h" by (rule provs_reach_components [OF reach])
  then have usersecret_r: "user_reach (ps_user ps) (history UserSuppliedSecret h)"
    and anthropic_r: "anthropic_reach (ps_anthropic ps) (history AnthropicAPI h)"
    and github_r: "github_reach endpoint (ps_github ps) (history GitHubApp h)"
    and patpool_r: "patpool_reach rs (ps_patpool ps) (history PATPool h)"
    by (simp_all add: components_reach_def)
  have "\<exists>(q, ir) \<in> set (history k h). ir_Value ir = ExtractBearer (sr_IncomingBearer r)
    \<and> iq_Namespace q = sr_Namespace r \<and> iq_CredentialName q = sub_CredentialName res
    \<and> AnyHostMatches (ir_Hosts ir) (sr_Host r)"
  proof (cases k)
    case UserSuppliedSecret
    with sub(1) obtain s' where s': "userSecretSubstituteAuth e (ps_user ps) r = ((res, None), s')"
      by (auto simp: prov_SubstituteAuth_def split: prod.splits)
    show ?thesis using usersecret.confined [OF usersecret_r s' sub(2,3)] UserSuppliedSecret by simp
  next
    case AnthropicAPI
    with sub(1) obtain s' where s': "anthropicSubstituteAuth e (ps_anthropic ps) r = ((res, None), s')"
      by (auto simp: prov_SubstituteAuth_def split: prod.splits)
    show ?thesis using anthropic.confined [OF anthropic_r s' sub(2,3)] AnthropicAPI by simp
  next
    case GitHubApp
    with sub(1) obtain s' where s': "githubSubstituteAuth e (ps_github ps) r = ((res, None), s')"
      by (auto simp: prov_SubstituteAuth_def split: prod.splits)
    show ?thesis using github.confined [OF github_r s' sub(2,3)] GitHubApp by simp
  next
    case PATPool
    with sub(1) obtain s' where s': "patSubstituteAuth e (ps_patpool ps) r = ((res, None), s')"
      by (auto simp: prov_SubstituteAuth_def split: prod.splits)
    show ?thesis using patpool.confined [OF patpool_r s' sub(2,3)] PATPool by simp
  qed
  then show ?thesis using set_history by fastforce
qed

section \<open>Substitution\<close>

lemma dispatchCandidates_cases:
  assumes "dispatchCandidates e ps bs run n ns r w = (out, ps')"
  obtains (none) "out = OutUnmatched" "ps' = ps"
    "\<forall>b \<in> set bs. b \<noteq> [] \<longrightarrow> (\<forall>k \<in> set (AllProviders (be_registry e)). \<not> owns (prov_prefix k) (r\<lparr> sr_IncomingBearer := b \<rparr>))"
  | (owner) b k where "b \<in> set bs" "b \<noteq> []" "k \<in> set (AllProviders (be_registry e))"
    "owns (prov_prefix k) (r\<lparr> sr_IncomingBearer := b \<rparr>)" "out \<noteq> OutUnmatched"
    "dispatchSubstituter e ps k run n ns (r\<lparr> sr_IncomingBearer := b \<rparr>) w = (out, ps')"
  using assms
proof (induction bs arbitrary: thesis)
  case (Cons b bs)
  let ?r = "r\<lparr> sr_IncomingBearer := b \<rparr>"
  show ?case
  proof (cases "b = [] \<or> find (\<lambda>k. owns (prov_prefix k) ?r) (AllProviders (be_registry e)) = None")
    case True
    then have rest: "dispatchCandidates e ps bs run n ns r w = (out, ps')"
      using Cons.prems(3) by (auto simp: dispatchProviders_find split: if_splits)
    have none: "b \<noteq> [] \<longrightarrow> (\<forall>k \<in> set (AllProviders (be_registry e)). \<not> owns (prov_prefix k) ?r)"
      using True by (auto simp: find_None_ball)
    show ?thesis
      by (rule Cons.IH [OF _ _ rest]) (use none Cons.prems(1,2) in auto)
  next
    case False
    then obtain k where k: "find (\<lambda>k. owns (prov_prefix k) ?r) (AllProviders (be_registry e)) = Some k" by auto
    then have o: "k \<in> set (AllProviders (be_registry e))" "owns (prov_prefix k) ?r" using find_SomeD by fastforce+
    obtain out' ps'' where d: "dispatchSubstituter e ps k run n ns ?r w = (out', ps'')" by fastforce
    then have ne: "out' \<noteq> OutUnmatched" using dispatchSubstituter_owned [OF o(2), of e ps run n ns w] by simp
    then have "(out', ps'') = (out, ps')"
      using False k d Cons.prems(3) by (cases out') (simp_all add: dispatchProviders_find)
    then show ?thesis using Cons.prems(2) [of b k] False o d ne by simp
  qed
qed simp

lemma revalidate_response:
  assumes "revalidate e k run n ns w res = OutResponse resp audit"
  obtains grant bp pname eg ename where
    "matchPolicyGrant (be_kube e) ns (tr_Name (hr_TemplateRef run)) (sub_CredentialName res) = Inr (Some (grant, bp, pname))"
    "pc_Kind (cg_Provider grant) = prov_Name k"
    "matchEgressGrant (be_kube e) ns (tr_Name (hr_TemplateRef run)) (saq_Host w) (saq_Port w) = Inr (Some (eg, ename))"
    "sar_SetHeaders resp = sub_SetHeaders res" "sar_AllowedHeaders resp = sub_AllowedHeaders res"
    "sar_RemoveHeaders resp = sub_RemoveHeaders res" "sar_AllowedQueryParams resp = sub_AllowedQueryParams res"
    "audit = (denial n ns (sub_CredentialName res) ''substituted upstream credential'')\<lparr> ca_Provider := prov_Name k \<rparr>"
  using assms
  by (auto simp: revalidate_def Let_def split: sum.splits option.splits if_splits) blast

lemma dispatchSubstituter_response:
  assumes "dispatchSubstituter e ps k run n ns r w = (OutResponse resp audit, ps')"
  obtains res where "prov_SubstituteAuth k (be_prov e) ps r = ((res, None), ps')" "sub_Matched res"
    "sub_CredentialName res \<noteq> []" "revalidate e k run n ns w res = OutResponse resp audit"
  using assms by (auto simp: dispatchSubstituter_def split: prod.splits if_splits option.splits)

text \<open>Everything a granted substitution rests on.\<close>

lemma substituteAuth_granted:
  assumes "substituteAuth e ps ns n req = (Inr resp, audit, ps')"
  obtains run k b res a where "getRun (be_kube e) ns n = Inr run" "\<not> isTerminalPhase (hr_Phase run)"
    "k \<in> set (AllProviders (be_registry e))"
    "b \<in> {saq_IncomingXAPIKey req, saq_IncomingAuthorization req}" "b \<noteq> []"
    "prov_SubstituteAuth k (be_prov e) ps \<lparr> sr_RunName = n, sr_Namespace = ns, sr_Host = saq_Host req,
       sr_Port = saq_Port req, sr_IncomingBearer = b \<rparr> = ((res, None), ps')"
    "sub_Matched res" "sub_CredentialName res \<noteq> []" "audit = Some a"
    "revalidate e k run n ns req res = OutResponse resp a"
proof -
  obtain run where run: "getRun (be_kube e) ns n = Inr run" "\<not> isTerminalPhase (hr_Phase run)"
    using assms by (auto simp: substituteAuth_def Let_def split: sum.splits if_splits)
  let ?r = "\<lparr> sr_RunName = n, sr_Namespace = ns, sr_Host = saq_Host req,
              sr_Port = saq_Port req, sr_IncomingBearer = [] \<rparr>"
  obtain a where d: "dispatchCandidates e ps [saq_IncomingXAPIKey req, saq_IncomingAuthorization req] run n ns ?r req
      = (OutResponse resp a, ps')" and a: "audit = Some a"
    using assms run by (auto simp: substituteAuth_def Let_def split: prod.splits substituteOutcome.splits)
  from d show thesis
  proof (cases rule: dispatchCandidates_cases)
    case (owner b k)
    from owner(6) obtain res where "prov_SubstituteAuth k (be_prov e) ps (?r\<lparr> sr_IncomingBearer := b \<rparr>) = ((res, None), ps')"
      "sub_Matched res" "sub_CredentialName res \<noteq> []" "revalidate e k run n ns req res = OutResponse resp a"
      by (rule dispatchSubstituter_response)
    then show thesis using that run owner a by simp
  qed simp
qed

text \<open>The preamble every credential handler shares.\<close>

definition identified :: "broker_env \<Rightarrow> 'b broker_request \<Rightarrow> string \<Rightarrow> string \<Rightarrow> bool" where
  "identified e r n ns \<longleftrightarrow>
     (\<exists>caller. authenticate (be_review e) r = Inr caller \<and> resolveRunIdentity r caller = Inr (n, ns))"

lemma audited_JSON:
  "audited e st ev (RespJSON s b) = (RespJSON s' b', st') \<Longrightarrow>
   s' = s \<and> b' = b \<and> st' = st\<lparr> bs_audit := ev # bs_audit st \<rparr>"
  by (auto simp: audited_def writeAudit_def auditUnavailable_def split: if_splits)

lemma audited_not_JSON:
  "audited e st ev resp = (RespJSON s b, st') \<Longrightarrow> resp = RespJSON s b"
  by (auto simp: audited_def writeAudit_def auditUnavailable_def split: if_splits)

lemma writeServerError_not_JSON [simp]: "writeServerError err \<noteq> RespJSON s b"
  by (cases err) (simp_all add: writeServerError_def)

lemma audited_provs [simp]: "bs_provs (snd (audited e st ev resp)) = bs_provs st"
  by (simp add: audited_def writeAudit_def)

lemma substituteAuth_audit: "fst (substituteAuth e ps ns n req) = Inr resp \<Longrightarrow> fst (snd (substituteAuth e ps ns n req)) \<noteq> None"
  by (auto simp: substituteAuth_def Let_def split: sum.splits prod.splits substituteOutcome.splits if_splits)

lemma handleSubstituteAuth_granted:
  assumes "handleSubstituteAuth e st r = (RespJSON status resp, st')"
  obtains n ns req a where "identified e r n ns" "rq_Body r = Inr req" "status = 200"
    "be_limiterAllow e ns n ''substitute''"
    "substituteAuth e (bs_provs st) ns n req = (Inr resp, Some a, bs_provs st')"
    "bs_audit st' = CredentialIssued a # bs_audit st"
proof -
  obtain caller n ns where id: "authenticate (be_review e) r = Inr caller" "resolveRunIdentity r caller = Inr (n, ns)"
    and lim: "be_limiterAllow e ns n ''substitute''"
    using assms
    by (auto simp: handleSubstituteAuth_def split: if_splits sum.splits dest!: audited_not_JSON)
  obtain req where req: "rq_Body r = Inr req" "\<not> (saq_IncomingAuthorization req = [] \<and> saq_IncomingXAPIKey req = [])"
    using assms id lim by (auto simp: handleSubstituteAuth_def split: if_splits sum.splits)
  obtain x audit ps where s: "substituteAuth e (bs_provs st) ns n req = (x, audit, ps)" by (metis prod_cases3)
  have "\<exists>a. x = Inr resp \<and> audit = Some a \<and> ps = bs_provs st' \<and> status = 200
      \<and> bs_audit st' = CredentialIssued a # bs_audit st"
    using assms id lim req s substituteAuth_audit [of e "bs_provs st" ns n req]
    by (auto simp: handleSubstituteAuth_def split: if_splits sum.splits option.splits
        dest!: audited_JSON dest: audited_not_JSON)
  then show thesis using that id lim req s by (auto simp: identified_def)
qed

section \<open>Issue\<close>

text \<open>Everything an issued credential rests on.\<close>

lemma issueDispatch_issued:
  assumes "issueDispatch e ps ns n cred grant bp pname = (Inr result, audit, ps')"
  obtains k where "LookupProvider (be_registry e) (pc_Kind (cg_Provider grant)) = Some k"
    "prov_Issue k (be_prov e) ps \<lparr> iq_RunName = n, iq_Namespace = ns, iq_CredentialName = cred,
       iq_Grant = grant, iq_GitRepos = gs_GitRepos (bps_Grants (bp_Spec bp)) \<rparr> = (Inr result, ps')"
    "audit = Some ((denial n ns cred [])
       \<lparr> ca_Provider := prov_Name k, ca_MatchedPolicy := pname, ca_When := be_now e \<rparr>)"
  using assms
  by (auto simp: issueDispatch_def Let_def split: option.splits prod.splits sum.splits prov_error.splits)

lemma issue_issued:
  assumes "issue e ps ns n req = (Inr result, audit, ps')"
  obtains run spec grant bp pname where "getRun (be_kube e) ns n = Inr run"
    "resolveTemplateSpec (be_order e) (be_kube e) ns (hr_TemplateRef run) = Inr spec"
    "hasRequirement (rq_Credentials (hts_Requires spec)) (biq_Name req)"
    "matchPolicyGrant (be_kube e) ns (tr_Name (hr_TemplateRef run)) (biq_Name req) = Inr (Some (grant, bp, pname))"
    "issueDispatch e ps ns n (biq_Name req) grant bp pname = (Inr result, audit, ps')"
  using assms
  by (auto simp: issue_def Let_def split: sum.splits if_splits option.splits)

text \<open>Whatever \<open>issue\<close> decides, it leaves the providers alone or makes one \<open>Issue\<close> call.\<close>

lemma issueDispatch_step:
  assumes "issueDispatch e ps ns n cred grant bp pname = (Inl err, audit, ps')"
  shows "ps' = ps \<or> provs_step ps [] ps'"
  using assms
  by (auto simp: issueDispatch_def Let_def split: option.splits prod.splits sum.splits prov_error.splits
      intro: step_issue_err)

lemma issue_step_err:
  assumes "issue e ps ns n req = (Inl err, audit, ps')"
  shows "ps' = ps \<or> provs_step ps [] ps'"
  using assms issueDispatch_step
  by (fastforce simp: issue_def Let_def split: sum.splits if_splits option.splits)

lemma issue_step_ok:
  assumes "issue e ps ns n req = (Inr result, audit, ps')"
  shows "\<exists>k q. provs_step ps [(k, q, result)] ps' \<and> iq_Namespace q = ns \<and> iq_RunName q = n
    \<and> iq_CredentialName q = biq_Name req"
  using assms
proof (rule issue_issued)
  fix run spec grant bp pname
  assume "issueDispatch e ps ns n (biq_Name req) grant bp pname = (Inr result, audit, ps')"
  then obtain k where "prov_Issue k (be_prov e) ps \<lparr> iq_RunName = n, iq_Namespace = ns,
      iq_CredentialName = biq_Name req, iq_Grant = grant,
      iq_GitRepos = gs_GitRepos (bps_Grants (bp_Spec bp)) \<rparr> = (Inr result, ps')"
    by (rule issueDispatch_issued)
  then show ?thesis by (fastforce dest: step_issue)
qed

lemma issue_step:
  "issue e ps ns n req = (x, audit, ps') \<Longrightarrow> ps' = ps \<or> (\<exists>new. provs_step ps new ps')"
  by (cases x) (use issue_step_err issue_step_ok in blast)+

lemma issueDispatch_audit:
  "issueDispatch e ps ns n cred grant bp pname = (Inl err, None, ps') \<Longrightarrow> err = Panicked"
  by (auto simp: issueDispatch_def Let_def app_error_def
      split: option.splits prod.splits sum.splits prov_error.splits)

lemma issue_audit: "issue e ps ns n req = (Inl err, None, ps') \<Longrightarrow> err = Panicked"
  by (auto simp: issue_def Let_def app_error_def split: sum.splits if_splits option.splits
      dest: issueDispatch_audit)

lemma issue_audit_fields:
  assumes "issue e ps ns n req = (x, Some a, ps')"
  shows "ca_RunName a = n \<and> ca_Namespace a = ns \<and> ca_CredentialName a = biq_Name req"
  using assms
  by (auto simp: issue_def issueDispatch_def Let_def denial_def
      split: sum.splits if_splits option.splits prod.splits prov_error.splits)

lemma handleIssue_issued:
  assumes "handleIssue e st r = (RespJSON status resp, st')"
  obtains n ns req result a where "identified e r n ns" "rq_Body r = Inr req" "biq_Name req \<noteq> []"
    "status = 200" "be_limiterAllow e ns n ''issue''"
    "issue e (bs_provs st) ns n req = (Inr result, Some a, bs_provs st')"
    "bs_audit st' = CredentialIssued a # bs_audit st"
    "isr_Value resp = ir_Value result" "isr_LeaseID resp = ir_LeaseID result"
    "isr_ExpiresAt resp = ir_ExpiresAt result" "isr_Provider resp = ca_Provider a"
    "isr_DeliveryMode resp = ir_DeliveryMode result" "isr_Hosts resp = ir_Hosts result"
    "isr_PoolSlotIndex resp = ir_PoolSlotIndex result"
proof -
  obtain caller n ns where id: "authenticate (be_review e) r = Inr caller" "resolveRunIdentity r caller = Inr (n, ns)"
    and lim: "be_limiterAllow e ns n ''issue''"
    using assms
    by (auto simp: handleIssue_def split: if_splits sum.splits dest!: audited_not_JSON)
  obtain req where req: "rq_Body r = Inr req" "biq_Name req \<noteq> []"
    using assms id lim by (auto simp: handleIssue_def split: if_splits sum.splits)
  obtain x audit ps where s: "issue e (bs_provs st) ns n req = (x, audit, ps)" by (metis prod_cases3)
  have "\<exists>result a. x = Inr result \<and> audit = Some a \<and> ps = bs_provs st' \<and> status = 200
      \<and> bs_audit st' = CredentialIssued a # bs_audit st
      \<and> resp = populateDeliveryMetadata
                  \<lparr> isr_Value = ir_Value result, isr_LeaseID = ir_LeaseID result,
                    isr_ExpiresAt = ir_ExpiresAt result, isr_Provider = ca_Provider a,
                    isr_DeliveryMode = [], isr_Hosts = [], isr_InContainerReason = [],
                    isr_PoolSecretRef = None, isr_PoolSlotIndex = None \<rparr> result"
    using assms id lim req s
    by (auto simp: handleIssue_def split: if_splits sum.splits option.splits
        dest!: audited_JSON dest: audited_not_JSON)
  then show thesis using that id lim req s by (auto simp: identified_def populateDeliveryMetadata_def)
qed

section \<open>Handlers as steps of the providers\<close>

text \<open>
  Each handler moves the provider states by at most one provider operation; an \<open>Issue\<close> that is
  answered with a credential is that operation.
\<close>

lemma handleIssue_step:
  assumes "handleIssue e st r = (resp, st')"
  shows "bs_provs st' = bs_provs st \<or> (\<exists>new. provs_step (bs_provs st) new (bs_provs st'))"
  using assms
  by (fastforce simp: handleIssue_def audited_def writeAudit_def
      split: if_splits sum.splits option.splits prod.splits dest: issue_step)

lemma dispatchSubstituter_step: "provs_step ps [] (snd (dispatchSubstituter e ps k run n ns r w))"
  using step_subst [of ps k "be_prov e" r] by (auto simp: dispatchSubstituter_def split: prod.splits)

lemma dispatchCandidates_step:
  assumes "dispatchCandidates e ps bs run n ns r w = (out, ps')"
  shows "ps' = ps \<or> provs_step ps [] ps'"
  using assms
proof (cases rule: dispatchCandidates_cases)
  case (owner b k)
  then show ?thesis using dispatchSubstituter_step [of ps e k run n ns "r\<lparr> sr_IncomingBearer := b \<rparr>" w] by simp
qed simp

lemma substituteAuth_step:
  "substituteAuth e ps ns n req = (x, audit, ps') \<Longrightarrow> ps' = ps \<or> provs_step ps [] ps'"
  by (auto simp: substituteAuth_def Let_def split: sum.splits if_splits prod.splits substituteOutcome.splits
      simp del: dispatchCandidates.simps dest: dispatchCandidates_step)

lemma handleSubstituteAuth_step:
  assumes "handleSubstituteAuth e st r = (resp, st')"
  shows "bs_provs st' = bs_provs st \<or> provs_step (bs_provs st) [] (bs_provs st')"
  using assms
  by (fastforce simp: handleSubstituteAuth_def audited_def writeAudit_def
      split: if_splits sum.splits option.splits prod.splits dest: substituteAuth_step)

lemma handleRevoke_step:
  assumes "handleRevoke e st r = (resp, st')"
  shows "bs_provs st' = bs_provs st \<or> provs_step (bs_provs st) [] (bs_provs st')"
  using assms
  by (fastforce simp: handleRevoke_def audited_def writeAudit_def
      split: if_splits sum.splits option.splits prod.splits intro: step_revoke)

end
