(* ===== verification/Fixtures.thy ===== *)
theory Fixtures
  imports Broker_Facts
begin

text \<open>
  A small concrete cluster: one namespace with a run, its template, one policy and one Secret, and
  an authenticated caller. The examples beside the properties are evaluated on it.
\<close>

definition ex_secretRef :: SecretKeyReference where
  "ex_secretRef = \<lparr> skr_Name = ''s'', skr_Key = ''k'' \<rparr>"

definition ex_provider :: ProviderConfig where
  "ex_provider = \<lparr> pc_Kind = ''AnthropicAPI'', pc_SecretRef = Some ex_secretRef, pc_AppID = [],
     pc_InstallationID = [], pc_RotationSeconds = None, pc_Hosts = [''a.io''], pc_DeliveryMode = None \<rparr>"

definition ex_grant :: CredentialGrant where
  "ex_grant = \<lparr> cg_Name = ''c'', cg_Provider = ex_provider \<rparr>"

definition ex_grants :: BrokerPolicyGrants where
  "ex_grants = \<lparr> gs_Credentials = [ex_grant], gs_Egress = [\<lparr> eg_Host = ''a.io'', eg_Ports = [443] \<rparr>],
     gs_GitRepos = [], gs_Runs = None \<rparr>"

definition ex_policy :: BrokerPolicy where
  "ex_policy = \<lparr> bp_Name = ''p'', bp_Namespace = ''ns'',
     bp_Spec = \<lparr> bps_AppliesToTemplates = [''*''], bps_Grants = ex_grants, bps_Interception = None,
                 bps_EgressDiscovery = None \<rparr> \<rparr>"

definition ex_requires :: RequireSpec where
  "ex_requires = \<lparr> rq_Credentials = [\<lparr> cr_Name = ''c'' \<rparr>],
     rq_Egress = [\<lparr> er_Host = ''a.io'', er_Ports = [443] \<rparr>] \<rparr>"

definition ex_template :: HarnessTemplateSpec where
  "ex_template = \<lparr> hts_BaseTemplateRef = None, hts_Harness = ''h'', hts_Image = ''i'', hts_Command = [],
     hts_Args = [], hts_Defaults = \<lparr> htd_Model = [], htd_Timeout = None, htd_Resources = None,
       htd_TerminationGracePeriodSeconds = None \<rparr>, hts_Runtime = None, hts_Requires = ex_requires,
     hts_Workspace = \<lparr> wr_Required = False, wr_MountPath = [] \<rparr>, hts_PodTemplateOverlay = None,
     hts_Interactive = None \<rparr>"

definition ex_run_spec :: HarnessRunSpec where
  "ex_run_spec = \<lparr> hrs_TemplateRef = \<lparr> tr_Name = ''t'', tr_Kind = ''ClusterHarnessTemplate'' \<rparr>, hrs_WorkspaceRef = [],
     hrs_Prompt = ''do it'', hrs_PromptFrom = None, hrs_Timeout = None, hrs_Retries = 0, hrs_Resources = None,
     hrs_ExtraEnv = [], hrs_Model = [], hrs_TTLSecondsAfterFinished = None, hrs_Mode = HarnessRunModeUnset,
     hrs_InteractiveOverrides = None \<rparr>"

definition ex_run_status :: HarnessRunStatus where
  "ex_run_status = \<lparr> hrt_ObservedGeneration = 0, hrt_Phase = PhaseRunning, hrt_Conditions = [], hrt_JobName = [],
     hrt_WorkspaceRef = [], hrt_StartTime = None, hrt_CompletionTime = None, hrt_RecentEvents = [], hrt_Outputs = None,
     hrt_Credentials = [], hrt_NetworkPolicyEnforced = None, hrt_IssuedLeases = [], hrt_Interactive = None \<rparr>"

definition ex_run :: HarnessRun where
  "ex_run = \<lparr> hr_Name = ''r'', hr_Namespace = ''ns'', hr_UID = ''u'', hr_Generation = 1, hr_CreationTimestamp = 1,
     hr_DeletionTimestamp = None, hr_Finalizers = [], hr_Spec = ex_run_spec, hr_Status = ex_run_status \<rparr>"

definition ex_secret :: Secret where
  "ex_secret = \<lparr> sec_Data = [(''k'', ''v'')], sec_ResourceVersion = ''1'' \<rparr>"

definition ex_kube :: kube where
  "ex_kube = empty_kube\<lparr>
     getRun := (\<lambda>ns n. if ns = ''ns'' \<and> n = ''r'' then Inr ex_run else Inl (NotFound [])),
     listPolicies := (\<lambda>ns. Inr (if ns = ''ns'' then [ex_policy] else [])),
     getSecret := (\<lambda>ns n. if ns = ''ns'' \<and> n = ''s'' then Inr ex_secret else Inl (NotFound [])),
     getClusterTemplate := (\<lambda>n. if n = ''t'' then Inr \<lparr> ht_Name = ''t'', ht_Annotations = [], ht_Spec = ex_template \<rparr>
        else Inl (NotFound [])) \<rparr>"

definition ex_github :: github_env where
  "ex_github = \<lparr> ge_pemDecode = (\<lambda>_. None), ge_parsePKCS1 = Inr, ge_parsePKCS8 = (\<lambda>_. Inl []),
     ge_signPKCS1v15 = (\<lambda>_ _. Inl []), ge_newRequestErr = (\<lambda>_. None), ge_doRequest = (\<lambda>_. Inl []),
     ge_decodeToken = (\<lambda>_. Inl []) \<rparr>"

definition ex_prov_env :: prov_env where
  "ex_prov_env = \<lparr> pe_kube = ex_kube, pe_rand = Some ''ABCDEF'', pe_now = 10, pe_now2 = 10, pe_now3 = 10,
     pe_sha256 = (\<lambda>s. s), pe_github = ex_github \<rparr>"

definition ex_review :: token_review where
  "ex_review token auds = Inr \<lparr> trs_Authenticated = True, trs_Error = [], trs_Audiences = auds,
     trs_Username = saPrefix @ ''ns:sa'' \<rparr>"

definition ex_env :: broker_env where
  "ex_env = \<lparr> be_prov = ex_prov_env, be_order = (\<lambda>ks. ks), be_review = ex_review,
     be_limiterAllow = (\<lambda>_ _ _. True), be_auditOk = True, be_now = 10,
     be_registry = [(''AnthropicAPI'', AnthropicAPI), (''PATPool'', PATPool)] \<rparr>"

definition ex_state :: broker_state where
  "ex_state = \<lparr> bs_provs = provs_init [] [], bs_audit = [] \<rparr>"

definition ex_request :: "'b \<Rightarrow> 'b broker_request" where
  "ex_request b = \<lparr> rq_Method = ''POST'', rq_Authorization = ''Bearer tok'', rq_HeaderRun = ''r'',
     rq_HeaderNamespace = ''ns'', rq_PathNamespace = ''ns'', rq_PathName = ''r'', rq_Body = Inr b \<rparr>"

definition ex_issue :: "BrokerIssueRequest broker_request" where
  "ex_issue = ex_request \<lparr> biq_Name = ''c'' \<rparr>"

definition ex_bearer :: string where
  "ex_bearer = ''pdk-anthropic-414243444546''"

definition ex_substitute :: "SubstituteAuthRequest broker_request" where
  "ex_substitute = ex_request \<lparr> saq_Host = ''a.io'', saq_Port = 443, saq_IncomingAuthorization = [],
     saq_IncomingXAPIKey = ex_bearer \<rparr>"

definition ex_issued :: broker_state where
  "ex_issued = snd (handleIssue ex_env ex_state ex_issue)"

lemma ex_issue_ok: "fst (handleIssue ex_env ex_state ex_issue) =
   RespJSON 200 \<lparr> isr_Value = ex_bearer, isr_LeaseID = ''anth-41424344'', isr_ExpiresAt = 3600000000010,
     isr_Provider = ''AnthropicAPI'', isr_DeliveryMode = ''ProxyInjected'', isr_Hosts = [''a.io''],
     isr_InContainerReason = [], isr_PoolSecretRef = None, isr_PoolSlotIndex = None \<rparr>"
  by code_simp

lemma ex_substitute_ok: "map_of (sar_SetHeaders (case fst (handleSubstituteAuth ex_env ex_issued ex_substitute) of
    RespJSON s b \<Rightarrow> b)) ''x-api-key'' = Some ''v''"
  by code_simp

definition ex_issueRequest :: IssueRequest where
  "ex_issueRequest = \<lparr> iq_RunName = ''r'', iq_Namespace = ''ns'', iq_CredentialName = ''c'',
     iq_Grant = ex_grant, iq_GitRepos = [] \<rparr>"

definition ex_subRequest :: "string \<Rightarrow> SubstituteRequest" where
  "ex_subRequest b = \<lparr> sr_RunName = ''r'', sr_Namespace = ''ns'', sr_Host = ''a.io'', sr_Port = 443,
     sr_IncomingBearer = b \<rparr>"

definition ex_issueResult :: IssueResult where
  "ex_issueResult = \<lparr> ir_Value = ex_bearer, ir_LeaseID = ''anth-41424344'', ir_ExpiresAt = 3600000000010,
     ir_DeliveryMode = ''ProxyInjected'', ir_Hosts = [''a.io''], ir_InContainerReason = [],
     ir_PoolSecretRef = None, ir_PoolSlotIndex = None \<rparr>"

definition ex_anthropic :: anthropic_state where
  "ex_anthropic = snd (anthropicIssue ex_prov_env [] ex_issueRequest)"

lemma ex_anthropic_issue: "anthropicIssue ex_prov_env [] ex_issueRequest = (Inr ex_issueResult, ex_anthropic)"
proof -
  have "fst (anthropicIssue ex_prov_env [] ex_issueRequest) = Inr ex_issueResult" by code_simp
  then show ?thesis unfolding ex_anthropic_def by (metis prod.collapse)
qed

end
