(* ===== verification/Policy_Properties.thy ===== *)
theory Policy_Properties
  imports Fixtures
begin

text \<open>
  Properties of the policy engine: what admission decides, that the broker's run-time lookups agree
  with it, and the fail-closed shape of the interception mode and of discovery windows.
\<close>

text \<open>
  C4: a run is admitted exactly when every credential its template requires is named by a grant of a
  matching policy and every required destination is covered by an egress grant; the result lists
  precisely the requirements that are not, so a rejection always names its cause.
\<close>

theorem admission_decision:
  "(ir_Admitted (IntersectMatches m rq) \<longleftrightarrow>
      (\<forall>c \<in> set (rq_Credentials rq). cred_granted m (cr_Name c)) \<and>
      (\<forall>(h, p) \<in> set (required_destinations rq). egress_granted m h p))
   \<and> ir_MissingCredentials (IntersectMatches m rq) =
       filter (\<lambda>n. \<not> cred_granted m n) (map cr_Name (rq_Credentials rq))
   \<and> map (\<lambda>e. (es_Host e, es_Port e)) (ir_MissingEgress (IntersectMatches m rq)) =
       filter (\<lambda>(h, p). \<not> egress_granted m h p) (required_destinations rq)"
  by (auto simp: IntersectMatches_fields comp_def case_prod_beta)

theorem admission_decision_witness: "ir_Admitted (IntersectMatches [ex_policy] ex_requires)"
proof -
  have "cred_granted [ex_policy] ''c''" "egress_granted [ex_policy] ''a.io'' 443"
    by code_simp+
  then show ?thesis
    using admission_decision [of "[ex_policy]" ex_requires]
    by (simp add: ex_requires_def required_destinations_def reqPorts_def)
qed

text \<open>
  Host matching composes. A grant that covers a required host pattern covers every concrete host
  the pattern covers, whatever the case of the letters, so a wildcard requirement admitted once holds
  for each of its hosts.
\<close>

theorem host_match_composes:
  assumes "EgressHostMatches g r" and "EgressHostMatches r h"
  shows "EgressHostMatches g h \<and> EgressHostMatches (ToLower g) (ToLower h)"
  using EgressHostMatches_trans [OF assms] by simp

theorem host_match_composes_witness: "EgressHostMatches ''*.Io'' ''x.a.IO''"
proof -
  have "EgressHostMatches ''*.Io'' ''*.a.io''" "EgressHostMatches ''*.a.io'' ''x.a.IO''" by code_simp+
  then show ?thesis using host_match_composes by blast
qed

text \<open>
  Admission and the run-time egress check agree. When admission accepts a template's
  requirements, the broker answers every validate-egress request for a host covered by a required
  host, on a required port or on any port where the requirement names none, with an allow that
  comes from a grant and not from a discovery window.
\<close>

theorem admitted_egress_allowed:
  assumes "Intersect (be_kube e) ns (tr_Name (hr_TemplateRef run)) rq = Inr res" "ir_Admitted res"
    and "(h, p) \<in> set (required_destinations rq)"
    and "EgressHostMatches h (veq_Host req)" "p = 0 \<or> int32 (veq_Port req) = p"
  shows "\<exists>v. validateEgress e ns run req = RespJSON 200 v \<and> ver_Allowed v \<and> \<not> ver_DiscoveryAllow v"
proof -
  let ?tpl = "tr_Name (hr_TemplateRef run)"
  obtain items where items: "listPolicies (be_kube e) ns = Inr items"
    and res: "res = IntersectMatches (applying ?tpl items) rq"
    using assms(1) by (auto simp: Intersect_def ListMatchingPolicies_def applying_def split: sum.splits)
  have "egress_granted (applying ?tpl items) h p"
    using assms(2,3) res by (auto simp: IntersectMatches_fields)
  then have "egress_granted (applying ?tpl items) (veq_Host req) (int32 (veq_Port req))"
    using assms(4,5) by (rule egress_granted_host)
  then obtain g n where "matchEgressGrantLoop items ?tpl (veq_Host req) (veq_Port req) = Some (g, n)"
    using matchEgressGrantLoop_None by (metis not_Some_eq surj_pair)
  then show ?thesis
    using items by (simp add: validateEgress_def matchEgressGrant_def anyProxyInjectedHostCovers_def Let_def)
qed

theorem admitted_egress_allowed_witness:
  "\<exists>v. validateEgress ex_env ''ns'' ex_run \<lparr> veq_Host = ''A.io'', veq_Port = 443 \<rparr> = RespJSON 200 v
     \<and> ver_Allowed v \<and> \<not> ver_DiscoveryAllow v"
  by (rule admitted_egress_allowed
        [of _ _ _ ex_requires "IntersectMatches [ex_policy] ex_requires" "''a.io''" 443]) code_simp+

text \<open>
  The converse for a broker that sees no discovery window. An allowed destination is covered by
  an egress grant of a policy of the namespace that applies to the run's template.
\<close>

theorem egress_allow_needs_grant:
  assumes "validateEgress e ns run req = RespJSON s v" "ver_Allowed v" "\<not> ver_DiscoveryAllow v"
  shows "\<exists>items. listPolicies (be_kube e) ns = Inr items
    \<and> egress_granted (applying (tr_Name (hr_TemplateRef run)) items) (veq_Host req) (int32 (veq_Port req))"
proof -
  obtain g n items where "listPolicies (be_kube e) ns = Inr items"
    "matchEgressGrantLoop items (tr_Name (hr_TemplateRef run)) (veq_Host req) (veq_Port req) = Some (g, n)"
    using assms
    by (auto simp: validateEgress_def matchEgressGrant_def egressDenied_def Let_def
        split: sum.splits option.splits if_splits)
  then show ?thesis using matchEgressGrantLoop_None by (metis option.distinct(1))
qed

theorem egress_allow_needs_grant_witness:
  "\<exists>items. listPolicies (be_kube ex_env) ''ns'' = Inr items
    \<and> egress_granted (applying (tr_Name (hr_TemplateRef ex_run)) items) ''a.io'' (int32 443)"
proof -
  have "validateEgress ex_env ''ns'' ex_run \<lparr> veq_Host = ''a.io'', veq_Port = 443 \<rparr> = RespJSON 200
      \<lparr> ver_Allowed = True, ver_MatchedPolicy = ''p'', ver_Reason = [], ver_SubstituteAuth = False,
        ver_DiscoveryAllow = False \<rparr>" by code_simp
  from egress_allow_needs_grant [OF this] show ?thesis by simp
qed

text \<open>
  Admission and issuance agree on credentials. A credential admission found covered is found by
  the broker's lookup on the same policies, in the policy and with the provider kind that admission
  reported.
\<close>

theorem admitted_credential_found:
  assumes "Intersect c ns tpl rq = Inr res" "ir_Admitted res" "cred \<in> cr_Name ` set (rq_Credentials rq)"
  shows "\<exists>g bp n. matchPolicyGrant c ns tpl cred = Inr (Some (g, bp, n))
    \<and> map_of (ir_CoveredCredentials res) cred = Some \<lparr> cc_Policy = n, cc_Provider = pc_Kind (cg_Provider g) \<rparr>"
proof -
  obtain items where items: "listPolicies c ns = Inr items" and res: "res = IntersectMatches (applying tpl items) rq"
    using assms(1) by (auto simp: Intersect_def ListMatchingPolicies_def applying_def split: sum.splits)
  have "cred_granted (applying tpl items) cred"
    using assms(2,3) res by (auto simp: IntersectMatches_fields)
  then obtain g bp n where m: "matchPolicyGrantLoop items tpl cred = Some (g, bp, n)"
    using matchPolicyGrantLoop_coverage [of items tpl cred] findCoverage_None by fastforce
  then have "findCoverage (applying tpl items) cred
      = Some \<lparr> cc_Policy = n, cc_Provider = pc_Kind (cg_Provider g) \<rparr>"
    using matchPolicyGrantLoop_coverage [of items tpl cred] by simp
  then show ?thesis using m items assms(3) res by (simp add: matchPolicyGrant_def IntersectMatches_fields)
qed

theorem admitted_credential_found_witness:
  "\<exists>g bp n. matchPolicyGrant ex_kube ''ns'' ''t'' ''c'' = Inr (Some (g, bp, n))
    \<and> map_of (ir_CoveredCredentials (IntersectMatches [ex_policy] ex_requires)) ''c''
        = Some \<lparr> cc_Policy = n, cc_Provider = pc_Kind (cg_Provider g) \<rparr>"
  by (rule admitted_credential_found [of _ _ _ ex_requires]) code_simp+

text \<open>
  Shell grants of several policies are joined: the merged capability allows a phase, targets the
  agent container or records a transcript exactly when one of the merged policies does. The result
  therefore does not depend on the order in which the API server lists the policies.
\<close>

theorem shell_any_policy_wins:
  assumes "ir_Shell (IntersectMatches m rq) = Some sc"
  shows "(shell_phase_allowed sc ph \<longleftrightarrow> (\<exists>b \<in> set (policy_shells m). shell_phase_allowed b ph))
    \<and> (shell_agent sc u \<longleftrightarrow> (\<exists>b \<in> set (policy_shells m). shell_agent b u))
    \<and> (shell_records sc u \<longleftrightarrow> (\<exists>b \<in> set (policy_shells m). shell_records b u))"
proof -
  obtain a bs where shells: "policy_shells m = a # bs"
    and sc: "sc = foldl (\<lambda>a b. mergeShell (Some a) b) a bs"
    using assms by (auto simp: IntersectMatches_fields merge_shells_None split: list.splits)
  show ?thesis
    unfolding sc shells
    by (simp add: shell_phases.fold_holds shell_target.fold_holds shell_record.fold_holds)
qed

definition ex_shell :: "string \<Rightarrow> HarnessRunPhase list \<Rightarrow> BrokerPolicy" where
  "ex_shell target phases = ex_policy\<lparr> bp_Spec := (bp_Spec ex_policy)\<lparr> bps_Grants := ex_grants\<lparr> gs_Runs :=
     Some \<lparr> rc_Interact = False, rc_Shell = Some \<lparr> sc_Target = target, sc_Command = [],
       sc_AllowedPhases = phases, sc_RecordTranscript = False \<rparr> \<rparr> \<rparr> \<rparr> \<rparr>"

theorem shell_any_policy_wins_witness:
  "\<exists>sc. ir_Shell (IntersectMatches [ex_shell ''agent'' [PhaseIdle], ex_shell [] [PhaseFailed]] ex_requires) = Some sc
     \<and> shell_phase_allowed sc PhaseFailed \<and> \<not> shell_phase_allowed sc PhaseRunning \<and> shell_agent sc ()"
proof -
  let ?m = "[ex_shell ''agent'' [PhaseIdle], ex_shell [] [PhaseFailed]]"
  have "ir_Shell (IntersectMatches ?m ex_requires) \<noteq> None" by code_simp
  then obtain sc where sc: "ir_Shell (IntersectMatches ?m ex_requires) = Some sc" by blast
  have "(\<exists>b \<in> set (policy_shells ?m). shell_phase_allowed b PhaseFailed)"
    "\<not> (\<exists>b \<in> set (policy_shells ?m). shell_phase_allowed b PhaseRunning)"
    "(\<exists>b \<in> set (policy_shells ?m). shell_agent b ())" by code_simp+
  then show ?thesis using sc shell_any_policy_wins [OF sc] by blast
qed

text \<open>
  C15: the interception mode fails closed. The bypassable cooperative mode is chosen only when at
  least one policy matches and every matching policy accepts it; otherwise the mode is transparent,
  and where the namespace's pod-security level forbids the init container that transparent mode
  needs, the decision is unavailable rather than a weaker mode.
\<close>

theorem interception_fails_closed:
  assumes "ResolveInterceptionMode c ns m = Inr d"
  shows "(id_Mode d = InterceptionModeCooperative \<longleftrightarrow>
            m \<noteq> [] \<and> (\<forall>bp \<in> set m. cooperativeReason bp \<noteq> None))
    \<and> (id_Unavailable d \<longleftrightarrow> id_Mode d \<noteq> InterceptionModeCooperative
         \<and> (\<exists>labels level. getNamespaceLabels c ns = Inr labels \<and> map_of labels PSAEnforceLabel = Some level
              \<and> psaBlocksNetAdmin level))
    \<and> (\<not> id_Unavailable d \<longrightarrow> id_Mode d \<noteq> InterceptionModeUnset)"
proof (cases "mi_Mode (mergePolicyInterception m) = InterceptionModeCooperative")
  case True
  then have "m \<noteq> [] \<and> (\<forall>bp \<in> set m. cooperativeReason bp \<noteq> None)" using cooperative_iff [of m] by blast
  then show ?thesis using assms True by (auto simp: ResolveInterceptionMode_def Let_def)
next
  case False
  then show ?thesis
    using assms cooperative_iff [of m]
    by (auto simp: ResolveInterceptionMode_def Let_def psaBlocksNetAdmin_def split: sum.splits if_splits option.splits)
qed

theorem interception_fails_closed_witness:
  "\<exists>d. ResolveInterceptionMode (ex_kube\<lparr> getNamespaceLabels := (\<lambda>_. Inr [(PSAEnforceLabel, ''baseline'')]) \<rparr>)
          ''ns'' [ex_policy] = Inr d \<and> id_Unavailable d \<and> id_Mode d \<noteq> InterceptionModeCooperative"
proof -
  let ?c = "ex_kube\<lparr> getNamespaceLabels := (\<lambda>_. Inr [(PSAEnforceLabel, ''baseline'')]) \<rparr>"
  have "\<not> isl (ResolveInterceptionMode ?c ''ns'' [ex_policy])" by code_simp
  then obtain d where d: "ResolveInterceptionMode ?c ''ns'' [ex_policy] = Inr d" by (metis sum.collapse(2))
  have "cooperativeReason ex_policy = None" "psaBlocksNetAdmin ''baseline''" by code_simp+
  then show ?thesis using d interception_fails_closed [OF d] by auto
qed

text \<open>
  Discovery windows only close with time. What admission accepts at some instant, with expired
  windows filtered out, it accepted at every earlier instant; and a window open now was open before.
\<close>

theorem discovery_only_closes:
  assumes "t \<le> t'"
  shows "(ir_Admitted (IntersectMatches (FilterUnexpired m t') rq) \<longrightarrow>
            ir_Admitted (IntersectMatches (FilterUnexpired m t) rq))
    \<and> (AnyDiscoveryActive m t' \<longrightarrow> AnyDiscoveryActive m t)"
  using granted_subset [OF FilterUnexpired_anti [OF assms, of m]] discoveryActive_anti [OF _ assms]
  by (fastforce simp: IntersectMatches_fields AnyDiscoveryActive_def list_ex_iff)

theorem discovery_only_closes_witness:
  "ir_Admitted (IntersectMatches (FilterUnexpired [ex_policy] 1) ex_requires)"
proof -
  have "ir_Admitted (IntersectMatches (FilterUnexpired [ex_policy] 2) ex_requires)" by code_simp
  then show ?thesis using discovery_only_closes [of 1 2 "[ex_policy]" ex_requires] by simp
qed

text \<open>
  A template that extends a cluster template cannot change what it runs. Image, command,
  arguments, runtime, workspace, harness and interactive settings come from the base; of the
  requirements, the credentials are the union by name and the egress entries accumulate, whatever
  order Go's map iteration takes.
\<close>

theorem merge_locks_base:
  assumes "map_order_ok ord" and t_def: "t = MergeTemplates ord p c"
  shows "(hts_Image t, hts_Command t, hts_Args t, hts_Runtime t, hts_Workspace t, hts_Harness t, hts_Interactive t)
       = (hts_Image p, hts_Command p, hts_Args p, hts_Runtime p, hts_Workspace p, hts_Harness p, hts_Interactive p)
    \<and> cr_Name ` set (rq_Credentials (hts_Requires t)) =
        cr_Name ` set (rq_Credentials (hts_Requires p)) \<union> cr_Name ` set (rq_Credentials (hts_Requires c))
    \<and> rq_Egress (hts_Requires t) = rq_Egress (hts_Requires p) @ rq_Egress (hts_Requires c)"
  unfolding t_def
  using MergeTemplates_credential_names [OF assms(1)] by (simp add: MergeTemplates_locked MergeTemplates_requires)

theorem merge_locks_base_witness:
  "hts_Image (MergeTemplates rev ex_template (ex_template\<lparr> hts_Image := ''evil'' \<rparr>)) = ''i''"
  using merge_locks_base [of rev _ ex_template "ex_template\<lparr> hts_Image := ''evil'' \<rparr>", OF _ refl]
  by (simp add: map_order_ok_def ex_template_def)

text \<open>
  A namespaced template whose base is missing is replaced. In the namespaced-first mode the
  lookup of the base fails with a wrapped not-found error, which is taken for the absence of the
  namespaced template itself, so the run silently gets the cluster template of the same name.
\<close>

theorem missing_base_falls_back:
  assumes "tr_Kind ref = [] \<or> tr_Kind ref = ''namespaced-first''"
    and "getTemplate c ns (tr_Name ref) = Inr t" "hts_BaseTemplateRef (ht_Spec t) = Some b"
    and "getClusterTemplate c (lor_Name b) = Inl (NotFound m)"
    and "getClusterTemplate c (tr_Name ref) = Inr ct"
  shows "map_sum id fst (ResolveTemplate ord c ns ref) = Inr (ht_Spec ct)"
  using assms by (auto simp: ResolveTemplate_def getHarnessTemplate_def getClusterHarnessTemplate_def
      wrapErr_def IsNotFound_def)

definition ex_extends :: kube where
  "ex_extends = ex_kube\<lparr> getTemplate := (\<lambda>ns n. Inr \<lparr> ht_Name = n, ht_Annotations = [],
     ht_Spec = ex_template\<lparr> hts_BaseTemplateRef := Some \<lparr> lor_Name = ''gone'' \<rparr> \<rparr> \<rparr>) \<rparr>"

theorem missing_base_falls_back_witness:
  "map_sum id fst (ResolveTemplate id ex_extends ''ns'' \<lparr> tr_Name = ''t'', tr_Kind = [] \<rparr>) = Inr ex_template"
  by (rule missing_base_falls_back [of _ _ _
        "\<lparr> ht_Name = ''t'', ht_Annotations = [], ht_Spec = ex_template\<lparr> hts_BaseTemplateRef := Some \<lparr> lor_Name = ''gone'' \<rparr> \<rparr> \<rparr>"
        "\<lparr> lor_Name = ''gone'' \<rparr>" "[]" "\<lparr> ht_Name = ''t'', ht_Annotations = [], ht_Spec = ex_template \<rparr>", simplified])
    (simp_all add: ex_extends_def ex_kube_def ex_template_def)

end
