(* ===== verification/Provider_Properties.thy ===== *)
theory Provider_Properties
  imports Fixtures
begin

text \<open>Properties of the bearer functions and of the four credential providers.\<close>

section \<open>Bearers\<close>

lemma hex_bearer_no_space:
  assumes "\<forall>c \<in> set prefix. \<not> isSpace c" "b = prefix @ hex_encode buf"
  shows "\<forall>c \<in> set b. \<not> isSpace c"
  using assms hex_encode_no_space by auto

text \<open>The three shapes in which a client may send the bearer \<open>b\<close>.\<close>

definition carries :: "string \<Rightarrow> string \<Rightarrow> bool" where
  "carries h b \<longleftrightarrow> h = b \<or> h = ''Bearer '' @ b
     \<or> (\<exists>user. CHR '':'' \<notin> set user \<and> h = ''Basic '' @ b64_encode False (user @ '':'' @ b))"

lemma carries_extract:
  assumes "carries h b" "\<forall>c \<in> set b. \<not> isSpace c" "b \<noteq> []"
  shows "ExtractBearer h = b"
  using assms ExtractBearer_token ExtractBearer_bearer ExtractBearer_basic by (auto simp: carries_def)

text \<open>
  C16: a minted bearer survives the trip through the client. However the agent presents it, raw in an
  API-key header, as a bearer token, or as the password of basic authentication, the broker extracts
  exactly the bearer that was minted.
\<close>

theorem bearer_roundtrip:
  assumes "mintBearer rand prefix = Inr b" "prefix \<noteq> []" "\<forall>c \<in> set prefix. \<not> isSpace c"
    and "carries h b"
  shows "ExtractBearer h = b \<and> HasPrefix b prefix"
proof -
  obtain buf where b: "b = prefix @ hex_encode buf" using mintBearer_shape [OF assms(1)] by metis
  then show ?thesis
    using carries_extract [OF assms(4) hex_bearer_no_space [OF assms(3) b]] assms(2) by simp
qed

theorem bearer_roundtrip_witness:
  "ExtractBearer (''Basic '' @ b64_encode False (''git:pdk-github-41'')) = ''pdk-github-41''"
proof -
  have "mintBearer (Some ''A'') ''pdk-github-'' = Inr ''pdk-github-41''" by code_simp
  moreover have "\<forall>c \<in> set ''pdk-github-''. \<not> isSpace c" by code_simp
  moreover have "carries (''Basic '' @ b64_encode False (''git:pdk-github-41'')) ''pdk-github-41''"
    unfolding carries_def by (intro disjI2 exI [of _ "''git''"]) simp
  ultimately show ?thesis using bearer_roundtrip by blast
qed

section \<open>Anthropic\<close>

lemma anthropic_prefix_no_space: "\<forall>c \<in> set anthropicBearerPrefix. \<not> isSpace c"
  by code_simp

text \<open>
  Issue and substitution fit together. A bearer issued for a namespace is honoured until its
  expiry for every host the issue response names: the upstream request gets the current value of the
  granted Secret as \<open>x-api-key\<close> and loses the agent's \<open>Authorization\<close> header.
\<close>

theorem anthropic_issue_then_substitute:
  assumes "anthropicIssue e st q = (Inr res, st')" "anthropic_inv st"
    and "carries (sr_IncomingBearer r) (ir_Value res)" "sr_Namespace r = iq_Namespace q"
    and "AnyHostMatches (ir_Hosts res) (sr_Host r)" "pe_now e' \<le> ir_ExpiresAt res"
    and "pc_SecretRef (cg_Provider (iq_Grant q)) = Some ref"
    and "getSecret (pe_kube e') (iq_Namespace q) (skr_Name ref) = Inr secret"
    and "secretData secret (skr_Key ref) \<noteq> []"
  shows "\<exists>out. anthropicSubstituteAuth e' st' r = ((out, None), st')
    \<and> sub_SetHeaders out = [(''x-api-key'', secretData secret (skr_Key ref))]
    \<and> ''Authorization'' \<in> set (sub_RemoveHeaders out)
    \<and> sub_CredentialName out = iq_CredentialName q"
proof -
  obtain lease buf where l: "map_of st' (ir_Value res) = Some lease" "al_Namespace lease = iq_Namespace q"
    "al_SecretRef lease = ref" "al_CredentialName lease = iq_CredentialName q"
    "al_ExpiresAt lease = ir_ExpiresAt res" "al_AllowedHosts lease = ir_Hosts res"
    and b: "ir_Value res = anthropicBearerPrefix @ hex_encode buf"
    using anthropicIssue_records [OF assms(1,2)] assms(7) by auto
  have "ExtractBearer (sr_IncomingBearer r) = ir_Value res"
    by (rule carries_extract [OF assms(3)])
      (use b hex_bearer_no_space [OF anthropic_prefix_no_space b] in \<open>auto simp: anthropicBearerPrefix_def\<close>)
  then have "anthropic_serves e' st' r lease (secretData secret (skr_Key ref))"
    using l b assms(4-9) by (simp add: anthropic_serves_def owns_def)
  then show ?thesis
    using anthropic_serves_ok l(4) by (fastforce simp: anthropicSubstitution_def)
qed

theorem anthropic_issue_then_substitute_witness:
  "\<exists>out. anthropicSubstituteAuth ex_prov_env ex_anthropic (ex_subRequest (''Bearer '' @ ex_bearer))
      = ((out, None), ex_anthropic) \<and> sub_SetHeaders out = [(''x-api-key'', ''v'')]"
proof -
  have "anthropic_inv []" by (simp add: anthropic_inv_def)
  moreover have "carries (sr_IncomingBearer (ex_subRequest (''Bearer '' @ ex_bearer))) (ir_Value ex_issueResult)"
    by (simp add: carries_def ex_subRequest_def ex_issueResult_def)
  moreover have "sr_Namespace (ex_subRequest (''Bearer '' @ ex_bearer)) = iq_Namespace ex_issueRequest"
    "AnyHostMatches (ir_Hosts ex_issueResult) (sr_Host (ex_subRequest (''Bearer '' @ ex_bearer)))"
    "pe_now ex_prov_env \<le> ir_ExpiresAt ex_issueResult"
    "pc_SecretRef (cg_Provider (iq_Grant ex_issueRequest)) = Some ex_secretRef"
    "getSecret (pe_kube ex_prov_env) (iq_Namespace ex_issueRequest) (skr_Name ex_secretRef) = Inr ex_secret"
    "secretData ex_secret (skr_Key ex_secretRef) \<noteq> []" by code_simp+
  moreover have "secretData ex_secret (skr_Key ex_secretRef) = ''v''" by code_simp
  ultimately show ?thesis using anthropic_issue_then_substitute [OF ex_anthropic_issue] by metis
qed

text \<open>
  Revoking works. When no two live leases share a lease ID, a bearer whose lease ID has been
  revoked is still claimed by the provider, so no other provider sees it, but is refused.
\<close>

theorem anthropic_revoked_refused:
  assumes "anthropicIssue e st q = (Inr res, st')" "anthropic_inv st"
    and "\<forall>b1 l1 b2 l2. map_of st' b1 = Some l1 \<longrightarrow> map_of st' b2 = Some l2
           \<longrightarrow> al_LeaseID l1 = al_LeaseID l2 \<longrightarrow> b1 = b2"
    and "carries (sr_IncomingBearer r) (ir_Value res)"
  shows "fst (anthropicSubstituteAuth e' (anthropicRevoke st' (ir_LeaseID res)) r)
    = denied ''anthropic bearer not recognised''"
proof -
  obtain lease buf where l: "map_of st' (ir_Value res) = Some lease" "al_LeaseID lease = ir_LeaseID res"
    and b: "ir_Value res = anthropicBearerPrefix @ hex_encode buf"
    using anthropicIssue_records [OF assms(1,2)] by auto
  have inv: "anthropic_inv st'" using anthropicIssue_inv [OF assms(2), of e q] assms(1) by simp
  then have keys: "mkeys_ok st'" and "ir_LeaseID res \<noteq> []"
    using l map_of_SomeD [OF l(1)] by (auto simp: anthropic_inv_def)
  then have gone: "map_of (revokeLease al_LeaseID (ir_LeaseID res) st') (ir_Value res) = None"
    using revokeLease_gone [OF keys l(1) l(2) _ assms(3)] by blast
  have "ExtractBearer (sr_IncomingBearer r) = ir_Value res"
    by (rule carries_extract [OF assms(4)])
      (use b hex_bearer_no_space [OF anthropic_prefix_no_space b] in \<open>auto simp: anthropicBearerPrefix_def\<close>)
  then show ?thesis using gone b by (simp add: anthropicSubstituteAuth_def anthropicRevoke_def Let_def)
qed

theorem anthropic_revoked_refused_witness:
  "fst (anthropicSubstituteAuth ex_prov_env (anthropicRevoke ex_anthropic ''anth-41424344'') (ex_subRequest ex_bearer))
   = denied ''anthropic bearer not recognised''"
proof -
  have "anthropic_inv []" by (simp add: anthropic_inv_def)
  moreover have "map fst ex_anthropic = [ex_bearer]" by code_simp
  then have "\<forall>b1 l1 b2 l2. map_of ex_anthropic b1 = Some l1 \<longrightarrow> map_of ex_anthropic b2 = Some l2
      \<longrightarrow> al_LeaseID l1 = al_LeaseID l2 \<longrightarrow> b1 = b2"
    by (metis (no_types) list.set(1,2) map_of_eq_None_iff option.distinct(1) set_map singletonD)
  moreover have "carries (sr_IncomingBearer (ex_subRequest ex_bearer)) (ir_Value ex_issueResult)"
    by (simp add: carries_def ex_subRequest_def ex_issueResult_def)
  moreover have "ir_LeaseID ex_issueResult = ''anth-41424344''" by (simp add: ex_issueResult_def)
  ultimately show ?thesis using anthropic_revoked_refused [OF ex_anthropic_issue] by metis
qed

section \<open>PAT pools\<close>

definition ex_pool_ref :: SecretKeyReference where
  "ex_pool_ref = \<lparr> skr_Name = ''pool'', skr_Key = ''k'' \<rparr>"

definition ex_pool_secret :: Secret where
  "ex_pool_secret = \<lparr> sec_Data = [(''k'', ''p1'' @ newline @ ''#x'' @ newline @ '' p2'')], sec_ResourceVersion = ''1'' \<rparr>"

definition ex_pool_kube :: kube where
  "ex_pool_kube = empty_kube\<lparr> getSecret := (\<lambda>ns n. Inr ex_pool_secret) \<rparr>"

definition ex_pool_env :: "string \<Rightarrow> prov_env" where
  "ex_pool_env buf = ex_prov_env\<lparr> pe_kube := ex_pool_kube, pe_rand := Some buf \<rparr>"

definition ex_pool_request :: IssueRequest where
  "ex_pool_request = ex_issueRequest\<lparr> iq_Grant := \<lparr> cg_Name = ''c'', cg_Provider = ex_provider\<lparr> pc_Kind := ''PATPool'',
     pc_SecretRef := Some ex_pool_ref \<rparr> \<rparr> \<rparr>"

definition ex_pool_key :: PatPoolKey where
  "ex_pool_key = \<lparr> pk_Namespace = ''ns'', pk_Secret = ''pool'', pk_Key = ''k'' \<rparr>"

definition ex_pool_one :: patpool_state where
  "ex_pool_one = snd (patIssue (ex_pool_env ''A'') [] ex_pool_request)"

definition ex_pool_two :: patpool_state where
  "ex_pool_two = snd (patIssue (ex_pool_env ''B'') ex_pool_one ex_pool_request)"

lemma ex_pool_distinct: "distinct_pools (pe_kube (ex_pool_env buf))"
proof -
  have "distinct (parsePoolEntries (''p1'' @ newline @ ''#x'' @ newline @ '' p2''))" by code_simp
  then show ?thesis
    by (auto simp: distinct_pools_def readPool_def ex_pool_env_def ex_pool_kube_def ex_pool_secret_def
        split: option.splits if_splits)
qed

lemma ex_pool_reach: "pat_reach ex_pool_one" "pat_reach ex_pool_two"
proof -
  have "pat_reach []" using pat_init [of "[]"] by (simp add: reserveAll_def)
  then show one: "pat_reach ex_pool_one"
    unfolding ex_pool_one_def by (rule pat_issue) (rule ex_pool_distinct)
  then show "pat_reach ex_pool_two"
    unfolding ex_pool_two_def by (rule pat_issue) (rule ex_pool_distinct)
qed

definition pool_tokens :: "patpool_state \<Rightarrow> PatPoolKey \<Rightarrow> (string \<times> string) list" where
  "pool_tokens st key = map (\<lambda>(b, l). (b, pl_LeasedPAT l)) (pp_byBearer (pool_at st key))"



text \<open>
  A rotated token is never served. Every substitution the pool grants injects the token of a live
  lease of the bearer, for the caller's namespace and an allowed host, and that token is listed in
  the pool's Secret at the moment of the request.
\<close>

theorem pat_serves_current_token:
  assumes "patpool_inv st" "patSubstituteAuth e st r = ((res, None), st')" "sub_Matched res"
  shows "\<exists>key lease fresh. (ExtractBearer (sr_IncomingBearer r), lease) \<in> set (pp_byBearer (pool_at st key))
    \<and> lease_authorises (pe_now e) (pat_view key lease) r
    \<and> readPool (pe_kube e) (pk_Namespace key) (pk_Secret key) (pk_Key key) = Inr fresh
    \<and> pl_LeasedPAT lease \<in> set fresh
    \<and> sub_SetHeaders res =
        [(''Authorization'', ''Basic '' @ b64_encode False (''x-access-token'' @ '':'' @ pl_LeasedPAT lease))]"
proof -
  obtain key pool lease fresh where k: "map_of st key = Some pool"
    "map_of (pp_byBearer pool) (ExtractBearer (sr_IncomingBearer r)) = Some lease"
    "lease_authorises (pe_now e) (pat_view key lease) r"
    "readPool (pe_kube e) (pk_Namespace key) (pk_Secret key) (pk_Key key) = Inr fresh"
    "pl_LeasedPAT lease \<in> set fresh" "res = patSubstitution lease (pl_LeasedPAT lease)"
    using assms by (rule pat_success)
  have "(ExtractBearer (sr_IncomingBearer r), lease) \<in> set (pp_byBearer (pool_at st key))"
    using k(1,2) map_of_SomeD by (simp add: pool_at_def)
  then show ?thesis
    using k(3-6) by (intro exI [of _ key] exI [of _ lease] exI [of _ fresh]) (simp add: patSubstitution_def)
qed

theorem pat_serves_current_token_witness:
  "\<exists>key lease fresh. (''pdk-patpool-42'', lease) \<in> set (pp_byBearer (pool_at ex_pool_two key))
    \<and> readPool ex_pool_kube (pk_Namespace key) (pk_Secret key) (pk_Key key) = Inr fresh
    \<and> pl_LeasedPAT lease \<in> set fresh"
proof -
  let ?r = "patSubstituteAuth (ex_pool_env []) ex_pool_two (ex_subRequest ''pdk-patpool-42'')"
  have "snd (fst ?r) = None" "sub_Matched (fst (fst ?r))" by code_simp+
  then have "?r = ((fst (fst ?r), None), snd ?r)" by (metis prod.collapse)
  moreover have "ExtractBearer (sr_IncomingBearer (ex_subRequest ''pdk-patpool-42'')) = ''pdk-patpool-42''"
    by code_simp
  moreover have "pe_kube (ex_pool_env []) = ex_pool_kube" by (simp add: ex_pool_env_def)
  ultimately show ?thesis
    using pat_serves_current_token [OF conjunct1 [OF pat_reach_ok [OF ex_pool_reach(2)]], of "ex_pool_env []"
        "ex_subRequest ''pdk-patpool-42''" "fst (fst ?r)" "snd ?r"] \<open>sub_Matched (fst (fst ?r))\<close>
    by metis
qed

text \<open>
  A pool is reported exhausted exactly when every token its Secret lists now is held by a lease
  that has not expired; expired leases and tokens removed from the Secret never cause it.
\<close>

theorem pat_exhausted_iff_all_held:
  assumes "patpool_inv st" "pool_exclusive (pool_at st (pool_key q ref))" "pool_tight (pool_at st (pool_key q ref))"
    and "pc_SecretRef (cg_Provider (iq_Grant q)) = Some ref"
    and "readPool (pe_kube e) (iq_Namespace q) (skr_Name ref) (skr_Key ref) = Inr entries"
    and "entries \<noteq> []" "distinct entries"
  shows "(\<exists>m. fst (patIssue e st q) = Inl (PoolExhausted m)) \<longleftrightarrow>
    (\<forall>pat \<in> set entries. \<exists>(b, l) \<in> set (pp_byBearer (pool_at st (pool_key q ref))).
        pl_LeasedPAT l = pat \<and> pe_now e \<le> pl_ExpiresAt l)"
proof -
  obtain x st' where l: "patIssueLocked e st q ref entries = (x, st')" by fastforce
  then have "fst (patIssue e st q) = x" using assms(4-6) by (simp add: patIssue_def)
  moreover from l have "(\<exists>m. x = Inl (PoolExhausted m)) \<longleftrightarrow>
      firstFreeIndex (pp_leased (issue_pool e st q ref entries)) = None"
  proof (cases rule: patIssueLocked_cases)
    case (norand m)
    then show ?thesis using l
      by (auto simp: patIssueLocked_def Let_def issue_pool_def pool_at_def pool_key_def split: option.splits)
  qed auto
  ultimately show ?thesis
    using exhausted_iff [OF pool_at_wf [OF assms(1)] assms(2,3,7), of "pe_now e"]
    by (simp add: issue_pool_def)
qed

theorem pat_exhausted_iff_all_held_witness:
  "\<exists>m. fst (patIssue (ex_pool_env ''C'') ex_pool_two ex_pool_request) = Inl (PoolExhausted m)"
proof -
  have ok: "patpool_inv ex_pool_two" "patpool_exclusive ex_pool_two"
    using pat_reach_ok [OF ex_pool_reach(2)] by auto
  have "map (pl_Index \<circ> snd) (pp_byBearer (pool_at ex_pool_two (pool_key ex_pool_request ex_pool_ref))) = [0, 1]"
    "pp_leased (pool_at ex_pool_two (pool_key ex_pool_request ex_pool_ref)) = [True, True]" by code_simp+
  then have "pool_tight (pool_at ex_pool_two (pool_key ex_pool_request ex_pool_ref))"
    by (auto simp: pool_tight_def less_Suc_eq numeral_2_eq_2)
  moreover have "pc_SecretRef (cg_Provider (iq_Grant ex_pool_request)) = Some ex_pool_ref"
    "readPool (pe_kube (ex_pool_env ''C'')) (iq_Namespace ex_pool_request) (skr_Name ex_pool_ref) (skr_Key ex_pool_ref)
      = Inr [''p1'', ''p2'']"
    "\<forall>pat \<in> set [''p1'', ''p2'']. \<exists>(b, l) \<in> set (pp_byBearer (pool_at ex_pool_two (pool_key ex_pool_request ex_pool_ref))).
        pl_LeasedPAT l = pat \<and> pe_now (ex_pool_env ''C'') \<le> pl_ExpiresAt l" by code_simp+
  ultimately show ?thesis
    using pat_exhausted_iff_all_held [OF ok(1) pool_at_exclusive [OF ok(2)]] by simp
qed

text \<open>
  A slot reserved at start-up is never given back while the Secret keeps its content. No lease
  stands behind the reservation, so neither the expiry of the lease it was made for nor the
  controller's revocation of that lease frees it.
\<close>

theorem pat_reservation_stays:
  assumes "pool_wf pool" "i < length (pp_leased pool)" "pp_leased pool ! i"
    and "\<forall>(b, l) \<in> set (pp_byBearer pool). pl_Index l \<noteq> int i"
  shows "pp_leased (reconcilePoolLocked pool (pp_entries pool) now) ! i \<and> pp_leased (releaseLocked pool b) ! i"
proof
  show "pp_leased (reconcilePoolLocked pool (pp_entries pool) now) ! i"
    using assms(3,4) sweepSlots_kept [of "pp_byBearer pool" now i "pp_leased pool"]
    by (auto simp: reconcile_cases sweepPool_simps)
  show "pp_leased (releaseLocked pool b) ! i"
  proof (cases "map_of (pp_byBearer pool) b")
    case (Some l)
    then have "pl_Index l \<noteq> int i" using assms(1,4) pool_wf_byBearer by fastforce
    then show ?thesis using Some assms(3) by (simp add: releaseLocked_def setSlot_other)
  qed (use assms(3) in \<open>simp add: releaseLocked_def\<close>)
qed

theorem pat_reservation_stays_witness:
  "pp_leased (reconcilePoolLocked (pool_at (ReserveSlot [] ex_pool_key [''p1''] 0 ''pat-1'') ex_pool_key) [''p1''] 999) ! 0"
proof -
  let ?pool = "pool_at (ReserveSlot [] ex_pool_key [''p1''] 0 ''pat-1'') ex_pool_key"
  have "pool_wf ?pool" using pool_at_wf ReserveSlot_inv [of "[]"] by (simp add: patpool_inv_def)
  moreover have "0 < length (pp_leased ?pool)" "pp_leased ?pool ! 0" "pp_entries ?pool = [''p1'']"
    "\<forall>(b, l) \<in> set (pp_byBearer ?pool). pl_Index l \<noteq> int 0" by code_simp+
  ultimately show ?thesis using pat_reservation_stays [of ?pool 0 999] by simp
qed

section \<open>GitHub App\<close>

text \<open>A request that a lease of the bearer table allows.\<close>

definition github_request_ok :: "prov_env \<Rightarrow> github_state \<Rightarrow> SubstituteRequest \<Rightarrow> githubLease \<Rightarrow> bool" where
  "github_request_ok e st r lease \<longleftrightarrow> owns githubAppBearerPrefix r
     \<and> map_of (gh_bearers st) (ExtractBearer (sr_IncomingBearer r)) = Some lease
     \<and> lease_authorises (pe_now e) (github_view lease) r"

lemma github_request_ok_resolves:
  assumes "github_request_ok e st r lease" "resolveInstallationToken e st lease = (Inr token, st')"
  shows "githubSubstituteAuth e st r = ((githubSubstitution lease token, None), st')"
  using assms
  by (auto simp: github_request_ok_def githubSubstituteAuth_def owns_def lease_authorises_def github_view_def)

text \<open>
  The bearers of one run and credential share an installation token. After a substitution, every
  further request under a lease of the same run, namespace and credential gets the same
  \<open>Authorization\<close> value as long as the token has more than the eight minutes of slack left, without any
  call to GitHub, whatever App, installation or repositories that lease names.
\<close>

theorem github_token_shared:
  assumes "githubSubstituteAuth e st r = ((res, None), st')" "sub_Matched res"
    and "map_of (gh_bearers st) (ExtractBearer (sr_IncomingBearer r)) = Some l1"
    and "github_request_ok e2 st' r2 l2" "tokenKey l2 = tokenKey l1"
    and "map_of (gh_tokens st') (tokenKey l1) = Some tok"
    and "pe_now2 e2 + installationTokenRefreshBefore < it_ExpiresAt tok"
  shows "\<exists>res2. githubSubstituteAuth e2 st' r2 = ((res2, None), st') \<and> sub_SetHeaders res2 = sub_SetHeaders res"
proof -
  obtain token where t: "resolveInstallationToken e st l1 = (Inr token, st')" "res = githubSubstitution l1 token"
    using github_success [OF assms(1,2)] assms(3) by auto
  from t(1) have "it_Token tok = token"
    by (cases rule: resolve_Inr_cases) (use assms(6) in \<open>auto simp: map_of_mset_key\<close>)
  moreover have "resolveInstallationToken e2 st' l2 = (Inr (it_Token tok), st')"
    using resolve_cached assms(5-7) by simp
  ultimately show ?thesis
    using github_request_ok_resolves [OF assms(4)] t(2) by (simp add: githubSubstitution_def)
qed

text \<open>
  Renewal keeps a bearer alive. After a successful renewal the bearer's lease carries the expiry
  GitHub reported, and requests under it are served the renewed token, up to the refresh slack before
  that expiry, without minting a new bearer.
\<close>

theorem github_renewed_bearer_serves:
  assumes "githubRenew e st l = (Inr res, st')" "github_inv st"
  shows "\<exists>b lease. map_of (gh_bearers st') b = Some lease \<and> gl_LeaseID lease = il_LeaseID l
    \<and> gl_ExpiresAt lease = ir_ExpiresAt res
    \<and> (\<forall>e2 r2. ExtractBearer (sr_IncomingBearer r2) = b \<and> lease_authorises (pe_now e2) (github_view lease) r2
         \<and> pe_now2 e2 + installationTokenRefreshBefore < ir_ExpiresAt res
         \<longrightarrow> githubSubstituteAuth e2 st' r2 = ((githubSubstitution lease (ir_Value res), None), st'))"
  using assms(1)
proof (cases rule: githubRenew_cases)
  case (renewed b internal token expires res')
  let ?lease = "internal\<lparr> gl_ExpiresAt := expires \<rparr>"
  have res: "res' = res" using renewed(3) by simp
  note lease = leaseByID_SomeD [OF assms(2) renewed(1)]
  have prefix: "HasPrefix b githubAppBearerPrefix" using assms(2) lease(1) by (auto simp: github_inv_def)
  have key: "tokenKey ?lease = tokenKey internal" by (simp add: tokenKey_def)
  have look: "map_of (gh_bearers st') b = Some ?lease" using renewed(7) by (simp add: map_of_mset_key)
  have "githubSubstituteAuth e2 st' r2 = ((githubSubstitution ?lease (ir_Value res), None), st')"
    if h: "ExtractBearer (sr_IncomingBearer r2) = b" "lease_authorises (pe_now e2) (github_view ?lease) r2"
      "pe_now2 e2 + installationTokenRefreshBefore < ir_ExpiresAt res" for e2 r2
  proof (rule github_request_ok_resolves)
    show "github_request_ok e2 st' r2 ?lease" using h(1,2) look prefix by (simp add: github_request_ok_def owns_def)
    have "map_of (gh_tokens st') (tokenKey ?lease) = Some \<lparr> it_Token = token, it_ExpiresAt = expires \<rparr>"
      using renewed(8) key by (simp add: map_of_mset_key)
    from resolve_cached [OF this, of e2] show "resolveInstallationToken e2 st' ?lease = (Inr (ir_Value res), st')"
      using h(3) renewed(4,5) res by simp
  qed
  then show ?thesis
    using look lease(3) renewed(5) res by (intro exI [of _ b] exI [of _ ?lease]) simp
qed simp

definition ex_gh_env :: prov_env where
  "ex_gh_env = ex_prov_env\<lparr> pe_github := \<lparr> ge_pemDecode = (\<lambda>s. Some (''RSA PRIVATE KEY'', s)), ge_parsePKCS1 = Inr,
     ge_parsePKCS8 = (\<lambda>_. Inl []), ge_signPKCS1v15 = (\<lambda>_ _. Inr ''s''), ge_newRequestErr = (\<lambda>_. None),
     ge_doRequest = (\<lambda>_. Inr (201, [])), ge_decodeToken = (\<lambda>_. Inr (''tok'', 9999999999999)) \<rparr> \<rparr>"

definition ex_gh_request :: IssueRequest where
  "ex_gh_request = ex_issueRequest\<lparr> iq_Grant := \<lparr> cg_Name = ''c'', cg_Provider = ex_provider\<lparr> pc_Kind := ''GitHubApp'',
     pc_AppID := ''1'', pc_InstallationID := ''2'' \<rparr> \<rparr> \<rparr>"

definition ex_gh_state :: github_state where
  "ex_gh_state = snd (githubIssue ex_gh_env (github_init []) ex_gh_request)"

definition ex_gh_cached :: github_state where
  "ex_gh_cached = ex_gh_state\<lparr> gh_tokens :=
     [(\<lparr> gk_RunName = ''r'', gk_Namespace = ''ns'', gk_CredentialName = ''c'' \<rparr>,
       \<lparr> it_Token = ''tok'', it_ExpiresAt = 9999999999999 \<rparr>)] \<rparr>"

definition ex_gh_bearer :: string where
  "ex_gh_bearer = ''pdk-github-414243444546''"

definition ex_gh_lease :: IssuedLease where
  "ex_gh_lease = \<lparr> il_Provider = ''GitHubApp'', il_LeaseID = ''gha-41424344'', il_CredentialName = ''c'',
     il_ExpiresAt = None, il_PoolRef = None \<rparr>"

lemma ex_gh_inv: "github_inv ex_gh_state"
  unfolding ex_gh_state_def by (intro githubIssue_inv github_inv_init)

theorem github_token_shared_witness:
  "\<exists>res2. githubSubstituteAuth (ex_gh_env\<lparr> pe_github := ex_github \<rparr>)
     (snd (githubSubstituteAuth ex_gh_env ex_gh_cached (ex_subRequest ex_gh_bearer))) (ex_subRequest ex_gh_bearer)
   = ((res2, None), snd (githubSubstituteAuth ex_gh_env ex_gh_cached (ex_subRequest ex_gh_bearer)))"
proof -
  let ?r = "ex_subRequest ex_gh_bearer"
  let ?s = "githubSubstituteAuth ex_gh_env ex_gh_cached ?r"
  let ?e2 = "ex_gh_env\<lparr> pe_github := ex_github \<rparr>"
  have "snd (fst ?s) = None" and m: "sub_Matched (fst (fst ?s))" by code_simp+
  then have s: "?s = ((fst (fst ?s), None), snd ?s)" by (metis prod.collapse)
  obtain lease token where l: "map_of (gh_bearers ex_gh_cached) (ExtractBearer (sr_IncomingBearer ?r)) = Some lease"
    "lease_authorises (pe_now ex_gh_env) (github_view lease) ?r"
    using github_success [OF s m] by blast
  have "gh_bearers (snd ?s) = gh_bearers ex_gh_cached" by code_simp
  moreover have "owns githubAppBearerPrefix ?r" "pe_now ?e2 = pe_now ex_gh_env" by code_simp+
  ultimately have ok: "github_request_ok ?e2 (snd ?s) ?r lease"
    using l by (simp add: github_request_ok_def)
  have key: "tokenKey lease = \<lparr> gk_RunName = ''r'', gk_Namespace = ''ns'', gk_CredentialName = ''c'' \<rparr>"
  proof -
    have "map_option tokenKey (map_of (gh_bearers ex_gh_cached) (ExtractBearer (sr_IncomingBearer ?r)))
      = Some \<lparr> gk_RunName = ''r'', gk_Namespace = ''ns'', gk_CredentialName = ''c'' \<rparr>" by code_simp
    then show ?thesis using l(1) by simp
  qed
  have "map_of (gh_tokens (snd ?s)) \<lparr> gk_RunName = ''r'', gk_Namespace = ''ns'', gk_CredentialName = ''c'' \<rparr>
      = Some \<lparr> it_Token = ''tok'', it_ExpiresAt = 9999999999999 \<rparr>" by code_simp
  moreover have "pe_now2 ?e2 + installationTokenRefreshBefore < 9999999999999" by code_simp
  ultimately show ?thesis
    using github_token_shared [OF s m l(1) ok refl] key by auto
qed

lemma ex_gh_fresh:
  assumes "gl_Namespace lease = ''ns''" "gl_SecretRef lease = ex_secretRef"
  shows "freshInstallationToken ex_gh_env lease now = Inr (''tok'', 9999999999999)"
  using assms
  by (simp add: freshInstallationToken_def signAppJWT_def exchangeInstallationToken_def parsePrivateKey_def
      ex_gh_env_def ex_prov_env_def ex_kube_def ex_secretRef_def ex_secret_def secretData_def IsZero_def Let_def)

theorem github_renewed_bearer_serves_witness:
  "\<exists>b lease. map_of (gh_bearers (snd (githubRenew ex_gh_env ex_gh_state ex_gh_lease))) b = Some lease
     \<and> gl_LeaseID lease = ''gha-41424344'' \<and> gl_ExpiresAt lease = 9999999999999"
proof -
  let ?n = "githubRenew ex_gh_env ex_gh_state ex_gh_lease"
  have "leaseByID ex_gh_state ''gha-41424344'' \<noteq> None
    \<and> list_all (\<lambda>(b, l). gl_Namespace l = ''ns'' \<and> gl_SecretRef l = ex_secretRef) (gh_bearers ex_gh_state)"
    by code_simp
  then obtain b l where "leaseByID ex_gh_state (il_LeaseID ex_gh_lease) = Some (b, l)"
    "gl_Namespace l = ''ns''" "gl_SecretRef l = ex_secretRef"
    using leaseByID_SomeD(1) [OF ex_gh_inv] by (fastforce simp: list_all_iff ex_gh_lease_def)
  then have "map_sum id ir_ExpiresAt (fst ?n) = Inr 9999999999999"
    by (simp add: githubRenew_def ex_gh_fresh)
  then obtain res where res: "fst ?n = Inr res" "ir_ExpiresAt res = 9999999999999" by (cases "fst ?n") auto
  then have "?n = (Inr res, snd ?n)" by (metis prod.collapse)
  from github_renewed_bearer_serves [OF this ex_gh_inv] res(2) show ?thesis
    by (auto simp: ex_gh_lease_def)
qed

end
