(* ===== verification/Broker_Properties.thy ===== *)
theory Broker_Properties
  imports Fixtures
begin

text \<open>Properties of the broker's credential endpoints.\<close>

section \<open>Identity\<close>

lemma Authenticate_ok:
  assumes "Authenticate review b = Inr c"
  shows "ci_Namespace c \<noteq> [] \<and> (ci_IsController c \<longleftrightarrow>
    ci_Namespace c = ControllerSystemNamespace \<and> ci_ServiceAccount c = ControllerServiceAccount)"
  using assms
  by (auto simp: Authenticate_def split: if_splits sum.splits dest: parseServiceAccountSubject_ok)

lemma authenticate_ok:
  "authenticate review r = Inr c \<Longrightarrow> ci_Namespace c \<noteq> [] \<and> (ci_IsController c \<longleftrightarrow>
    ci_Namespace c = ControllerSystemNamespace \<and> ci_ServiceAccount c = ControllerServiceAccount)"
  using Authenticate_ok by (auto simp: authenticate_def split: if_splits)

lemma identified_ok: "identified e r n ns \<Longrightarrow> n \<noteq> [] \<and> ns \<noteq> []"
  using authenticate_ok by (fastforce simp: identified_def resolveRunIdentity_def Let_def split: if_splits)

section \<open>Substitution\<close>

text \<open>
  C1: a credential leaves the broker only on a chain of authority. When \<open>/v1/substitute-auth\<close> answers
  200, the caller was identified for the run's namespace, the run exists and has not ended, the
  presented bearer is the value of an earlier \<open>Issue\<close> of some provider for that namespace whose hosts
  cover the destination, a policy still grants that very credential through that provider kind, a
  policy still grants egress to the destination, and the decision is on the audit log.
\<close>

theorem substitution_confined:
  assumes reach: "provs_reach endpoint rs (bs_provs st) h"
    and ok: "handleSubstituteAuth e st r = (RespJSON s resp, st')"
  shows "\<exists>n ns req run k q ir grant bp pname eg ename a.
      identified e r n ns \<and> rq_Body r = Inr req
    \<and> getRun (be_kube e) ns n = Inr run \<and> \<not> isTerminalPhase (hr_Phase run)
    \<and> (k, q, ir) \<in> set h \<and> iq_Namespace q = ns \<and> AnyHostMatches (ir_Hosts ir) (saq_Host req)
    \<and> ir_Value ir \<in> {ExtractBearer (saq_IncomingXAPIKey req), ExtractBearer (saq_IncomingAuthorization req)}
    \<and> matchPolicyGrant (be_kube e) ns (tr_Name (hr_TemplateRef run)) (iq_CredentialName q) = Inr (Some (grant, bp, pname))
    \<and> pc_Kind (cg_Provider grant) = prov_Name k
    \<and> matchEgressGrant (be_kube e) ns (tr_Name (hr_TemplateRef run)) (saq_Host req) (saq_Port req) = Inr (Some (eg, ename))
    \<and> bs_audit st' = CredentialIssued a # bs_audit st
    \<and> ca_RunName a = n \<and> ca_Namespace a = ns \<and> ca_CredentialName a = iq_CredentialName q \<and> ca_Provider a = prov_Name k"
  using ok
proof (rule handleSubstituteAuth_granted)
  fix n ns req a
  assume id: "identified e r n ns" and req: "rq_Body r = Inr req"
    and sub: "substituteAuth e (bs_provs st) ns n req = (Inr resp, Some a, bs_provs st')"
    and aud: "bs_audit st' = CredentialIssued a # bs_audit st"
  from sub show ?thesis
  proof (rule substituteAuth_granted)
    fix run k b res a'
    let ?pr = "\<lparr> sr_RunName = n, sr_Namespace = ns, sr_Host = saq_Host req, sr_Port = saq_Port req, sr_IncomingBearer = b \<rparr>"
    assume run: "getRun (be_kube e) ns n = Inr run" "\<not> isTerminalPhase (hr_Phase run)"
      and b: "b \<in> {saq_IncomingXAPIKey req, saq_IncomingAuthorization req}"
      and p: "prov_SubstituteAuth k (be_prov e) (bs_provs st) ?pr = ((res, None), bs_provs st')" "sub_Matched res"
      and a': "Some a = Some a'" and rv: "revalidate e k run n ns req res = OutResponse resp a'"
    obtain q ir where q: "(k, q, ir) \<in> set h" "ir_Value ir = ExtractBearer b" "iq_Namespace q = ns"
      "iq_CredentialName q = sub_CredentialName res" "AnyHostMatches (ir_Hosts ir) (saq_Host req)"
      using provs_confined [OF reach p] identified_ok [OF id] by auto
    from rv obtain grant bp pname eg ename where
      "matchPolicyGrant (be_kube e) ns (tr_Name (hr_TemplateRef run)) (sub_CredentialName res) = Inr (Some (grant, bp, pname))"
      "pc_Kind (cg_Provider grant) = prov_Name k"
      "matchEgressGrant (be_kube e) ns (tr_Name (hr_TemplateRef run)) (saq_Host req) (saq_Port req) = Inr (Some (eg, ename))"
      "a' = (denial n ns (sub_CredentialName res) ''substituted upstream credential'')\<lparr> ca_Provider := prov_Name k \<rparr>"
      by (rule revalidate_response)
    then show ?thesis
      using id req run b q aud a'
      by (intro exI [of _ n] exI [of _ ns] exI [of _ req] exI [of _ run] exI [of _ k] exI [of _ q] exI [of _ ir]
          exI [of _ grant] exI [of _ bp] exI [of _ pname] exI [of _ eg] exI [of _ ename] exI [of _ a])
        (auto simp: denial_def)
  qed
qed

lemma ex_issued_reach: "\<exists>h. provs_reach [] [] (bs_provs ex_issued) h"
proof -
  have "handleIssue ex_env ex_state ex_issue = (fst (handleIssue ex_env ex_state ex_issue), ex_issued)"
    by (simp add: ex_issued_def)
  from handleIssue_step [OF this] show ?thesis
    using provs_reach_init [of "[]" "[]"] provs_reach_step [OF provs_reach_init [of "[]" "[]"]]
    by (auto simp: ex_state_def)
qed

theorem substitution_confined_witness:
  "\<exists>h n ns k q ir. provs_reach [] [] (bs_provs ex_issued) h \<and> identified ex_env ex_substitute n ns
     \<and> (k, q, ir) \<in> set h \<and> iq_Namespace q = ns"
proof -
  obtain h where h: "provs_reach [] [] (bs_provs ex_issued) h" using ex_issued_reach by blast
  have "(case fst (handleSubstituteAuth ex_env ex_issued ex_substitute) of RespJSON s b \<Rightarrow> True | _ \<Rightarrow> False)"
    by code_simp
  then obtain s b where "handleSubstituteAuth ex_env ex_issued ex_substitute
      = (RespJSON s b, snd (handleSubstituteAuth ex_env ex_issued ex_substitute))"
    by (cases "fst (handleSubstituteAuth ex_env ex_issued ex_substitute)") (auto simp: prod_eq_iff)
  from substitution_confined [OF h this] h show ?thesis by metis
qed

text \<open>
  The order in which the registry enumerates its providers, which Go leaves unspecified, never
  matters to \<open>/v1/substitute-auth\<close>: response, audit log and provider states are the same for every
  enumeration of the same providers.
\<close>

theorem registry_order_irrelevant:
  assumes "set (AllProviders reg) = set (AllProviders (be_registry e))"
  shows "handleSubstituteAuth (e\<lparr> be_registry := reg \<rparr>) st r = handleSubstituteAuth e st r"
proof -
  have "substituteAuth (e\<lparr> be_registry := reg \<rparr>) ps ns n req = substituteAuth e ps ns n req" for ps ns n req
    by (simp add: substituteAuth_def dispatchCandidates_perm [OF assms] Let_def
        del: dispatchCandidates.simps split: sum.splits)
  moreover have "audited (e\<lparr> be_registry := reg \<rparr>) s ev y = audited e s ev y" for s ev and y :: "SubstituteAuthResponse http_response"
    by (simp add: audited_def writeAudit_def)
  ultimately show ?thesis
    by (auto simp: handleSubstituteAuth_def split: sum.splits option.splits prod.splits)
qed

theorem registry_order_irrelevant_witness:
  "handleSubstituteAuth (ex_env\<lparr> be_registry := rev (be_registry ex_env) \<rparr>) ex_issued ex_substitute
    = handleSubstituteAuth ex_env ex_issued ex_substitute"
  by (rule registry_order_irrelevant) (simp add: AllProviders_def)

text \<open>
  A run that is gone or has reached a terminal phase gets no credential any more: the request is
  refused before any provider is asked, and the refusal is what the audit record says.
\<close>

theorem ended_run_refused:
  assumes "getRun (be_kube e) ns n = Inr run \<and> isTerminalPhase (hr_Phase run)
    \<or> (\<exists>m. getRun (be_kube e) ns n = Inl (NotFound m))"
  shows "\<exists>status msg audit. substituteAuth e ps ns n req = (Inl (app_error status ''RunTerminated'' msg), Some audit, ps)
    \<and> ca_AReason audit = msg"
  using assms by (auto simp: substituteAuth_def IsNotFound_def Let_def denial_def)

theorem ended_run_refused_witness:
  "\<exists>status msg audit. substituteAuth ex_env (bs_provs ex_issued) ''ns'' ''other''
     \<lparr> saq_Host = ''a.io'', saq_Port = 443, saq_IncomingAuthorization = [], saq_IncomingXAPIKey = ex_bearer \<rparr>
     = (Inl (app_error status ''RunTerminated'' msg), Some audit, bs_provs ex_issued)"
proof -
  have "getRun (be_kube ex_env) ''ns'' ''other'' = Inl (NotFound [])" by code_simp
  then show ?thesis using ended_run_refused [of ex_env "''ns''" "''other''" ex_run] by blast
qed

section \<open>Issue and revoke\<close>

text \<open>
  C3: \<open>/v1/issue\<close> answers 200 only for a credential the run's template declares and a policy of the
  run's namespace grants; the credential comes from the provider the grant names; a caller other than
  the controller only obtains credentials of its own namespace; and the issuance is on the audit log.
\<close>

theorem issue_needs_grant:
  assumes "handleIssue e st r = (RespJSON s resp, st')"
  shows "\<exists>caller n ns req run spec grant bp pname k ps' result a.
      authenticate (be_review e) r = Inr caller \<and> (ci_IsController caller \<or> ns = ci_Namespace caller)
    \<and> n = rq_HeaderRun r \<and> rq_Body r = Inr req
    \<and> getRun (be_kube e) ns n = Inr run
    \<and> resolveTemplateSpec (be_order e) (be_kube e) ns (hr_TemplateRef run) = Inr spec
    \<and> biq_Name req \<in> cr_Name ` set (rq_Credentials (hts_Requires spec))
    \<and> matchPolicyGrant (be_kube e) ns (tr_Name (hr_TemplateRef run)) (biq_Name req) = Inr (Some (grant, bp, pname))
    \<and> LookupProvider (be_registry e) (pc_Kind (cg_Provider grant)) = Some k
    \<and> prov_Issue k (be_prov e) (bs_provs st) \<lparr> iq_RunName = n, iq_Namespace = ns, iq_CredentialName = biq_Name req,
         iq_Grant = grant, iq_GitRepos = gs_GitRepos (bps_Grants (bp_Spec bp)) \<rparr> = (Inr result, ps')
    \<and> isr_Value resp = ir_Value result \<and> isr_Hosts resp = ir_Hosts result
    \<and> bs_audit st' = CredentialIssued a # bs_audit st
    \<and> ca_RunName a = n \<and> ca_Namespace a = ns \<and> ca_CredentialName a = biq_Name req \<and> ca_MatchedPolicy a = pname"
  using assms
proof (rule handleIssue_issued)
  fix n ns req result a
  assume id: "identified e r n ns" and req: "rq_Body r = Inr req"
    and iss: "issue e (bs_provs st) ns n req = (Inr result, Some a, bs_provs st')"
    and aud: "bs_audit st' = CredentialIssued a # bs_audit st"
    and resp: "isr_Value resp = ir_Value result" "isr_Hosts resp = ir_Hosts result"
  obtain caller where caller: "authenticate (be_review e) r = Inr caller" "resolveRunIdentity r caller = Inr (n, ns)"
    using id by (auto simp: identified_def)
  from iss show ?thesis
  proof (rule issue_issued)
    fix run spec grant bp pname
    assume run: "getRun (be_kube e) ns n = Inr run"
      "resolveTemplateSpec (be_order e) (be_kube e) ns (hr_TemplateRef run) = Inr spec"
      "hasRequirement (rq_Credentials (hts_Requires spec)) (biq_Name req)"
      "matchPolicyGrant (be_kube e) ns (tr_Name (hr_TemplateRef run)) (biq_Name req) = Inr (Some (grant, bp, pname))"
      and d: "issueDispatch e (bs_provs st) ns n (biq_Name req) grant bp pname = (Inr result, Some a, bs_provs st')"
    from d obtain k where "LookupProvider (be_registry e) (pc_Kind (cg_Provider grant)) = Some k"
      "prov_Issue k (be_prov e) (bs_provs st) \<lparr> iq_RunName = n, iq_Namespace = ns, iq_CredentialName = biq_Name req,
         iq_Grant = grant, iq_GitRepos = gs_GitRepos (bps_Grants (bp_Spec bp)) \<rparr> = (Inr result, bs_provs st')"
      "Some a = Some ((denial n ns (biq_Name req) [])
         \<lparr> ca_Provider := prov_Name k, ca_MatchedPolicy := pname, ca_When := be_now e \<rparr>)"
      by (rule issueDispatch_issued)
    then show ?thesis
      using caller resolveRunIdentity_scope [OF caller(2)] req run resp aud
      by (intro exI [of _ caller] exI [of _ n] exI [of _ ns] exI [of _ req] exI [of _ run] exI [of _ spec]
          exI [of _ grant] exI [of _ bp] exI [of _ pname] exI [of _ k] exI [of _ "bs_provs st'"] exI [of _ result] exI [of _ a])
        (auto simp: denial_def hasRequirement_iff)
  qed
qed

theorem issue_needs_grant_witness:
  "\<exists>ns req run spec. rq_Body ex_issue = Inr req \<and> getRun (be_kube ex_env) ns (rq_HeaderRun ex_issue) = Inr run
    \<and> resolveTemplateSpec (be_order ex_env) (be_kube ex_env) ns (hr_TemplateRef run) = Inr spec
    \<and> biq_Name req \<in> cr_Name ` set (rq_Credentials (hts_Requires spec))"
proof -
  have "handleIssue ex_env ex_state ex_issue = (RespJSON 200 \<lparr> isr_Value = ex_bearer, isr_LeaseID = ''anth-41424344'',
     isr_ExpiresAt = 3600000000010, isr_Provider = ''AnthropicAPI'', isr_DeliveryMode = ''ProxyInjected'',
     isr_Hosts = [''a.io''], isr_InContainerReason = [], isr_PoolSecretRef = None, isr_PoolSlotIndex = None \<rparr>, ex_issued)"
    using ex_issue_ok by (simp add: ex_issued_def prod_eq_iff)
  from issue_needs_grant [OF this] show ?thesis
    by (elim exE conjE) (intro exI conjI; simp)
qed

text \<open>
  C14: the audit log fails closed. When the audit sink refuses the event, no credential, no
  substitution and no revocation is acknowledged: none of the three endpoints answers with success,
  and the log is unchanged.
\<close>

theorem audit_fails_closed:
  assumes "\<not> be_auditOk e"
  shows "(\<nexists>s b. fst (handleIssue e st r1) = RespJSON s b) \<and> bs_audit (snd (handleIssue e st r1)) = bs_audit st
    \<and> (\<nexists>s b. fst (handleSubstituteAuth e st r2) = RespJSON s b)
    \<and> bs_audit (snd (handleSubstituteAuth e st r2)) = bs_audit st
    \<and> fst (handleRevoke e st r3) \<noteq> RespNoContent \<and> bs_audit (snd (handleRevoke e st r3)) = bs_audit st"
proof -
  have w: "writeAudit e s ev = (False, s)" for s ev using assms by (simp add: writeAudit_def)
  have i: "bs_audit (snd (handleIssue e st r1)) = bs_audit st"
    by (auto simp: handleIssue_def audited_def w split: sum.splits option.splits prod.splits)
  have u: "bs_audit (snd (handleSubstituteAuth e st r2)) = bs_audit st"
    by (auto simp: handleSubstituteAuth_def audited_def w split: sum.splits option.splits prod.splits)
  have "fst (handleRevoke e st r3) \<noteq> RespNoContent" "bs_audit (snd (handleRevoke e st r3)) = bs_audit st"
    by (auto simp: handleRevoke_def audited_def w auditUnavailable_def split: sum.splits option.splits prod.splits)
  moreover have "\<nexists>s b. fst (handleIssue e st r1) = RespJSON s b"
  proof
    assume "\<exists>s b. fst (handleIssue e st r1) = RespJSON s b"
    then obtain s b where "handleIssue e st r1 = (RespJSON s b, snd (handleIssue e st r1))" by (metis prod.collapse)
    then show False by (rule handleIssue_issued) (use i in simp)
  qed
  moreover have "\<nexists>s b. fst (handleSubstituteAuth e st r2) = RespJSON s b"
  proof
    assume "\<exists>s b. fst (handleSubstituteAuth e st r2) = RespJSON s b"
    then obtain s b where "handleSubstituteAuth e st r2 = (RespJSON s b, snd (handleSubstituteAuth e st r2))"
      by (metis prod.collapse)
    then show False by (rule handleSubstituteAuth_granted) (use u in simp)
  qed
  ultimately show ?thesis using i u by blast
qed

theorem audit_fails_closed_witness:
  "\<nexists>s b. fst (handleIssue (ex_env\<lparr> be_auditOk := False \<rparr>) ex_state ex_issue) = RespJSON s b"
  using audit_fails_closed [of "ex_env\<lparr> be_auditOk := False \<rparr>" ex_state ex_issue] by simp

text \<open>
  Only the controller revokes. A call to \<open>/v1/revoke\<close> that changes any provider's state was made by
  the service account \<open>paddock-controller-manager\<close> of the namespace \<open>paddock-system\<close>.
\<close>

theorem only_controller_revokes:
  assumes "bs_provs (snd (handleRevoke e st r)) \<noteq> bs_provs st"
  shows "\<exists>caller. authenticate (be_review e) r = Inr caller
    \<and> ci_Namespace caller = ControllerSystemNamespace \<and> ci_ServiceAccount caller = ControllerServiceAccount"
proof (cases "authenticate (be_review e) r")
  case (Inr caller)
  then have "ci_IsController caller"
    using assms by (auto simp: handleRevoke_def split: if_splits)
  then show ?thesis using Inr authenticate_ok by blast
qed (use assms in \<open>auto simp: handleRevoke_def split: if_splits\<close>)

definition ex_revoke :: "RevokeRequest broker_request" where
  "ex_revoke = ex_request \<lparr> rvq_Provider = ''AnthropicAPI'', rvq_LeaseID = ''anth-41424344'', rvq_CredentialName = ''c'' \<rparr>"

definition ex_controller :: broker_env where
  "ex_controller = ex_env\<lparr> be_review := (\<lambda>t auds. Inr \<lparr> trs_Authenticated = True, trs_Error = [],
     trs_Audiences = auds, trs_Username = saPrefix @ ''paddock-system:paddock-controller-manager'' \<rparr>) \<rparr>"

theorem only_controller_revokes_witness:
  "\<exists>caller. authenticate (be_review ex_controller) ex_revoke = Inr caller
    \<and> ci_ServiceAccount caller = ''paddock-controller-manager''"
proof -
  have "ps_anthropic (bs_provs (snd (handleRevoke ex_controller ex_issued ex_revoke))) = []"
    "ps_anthropic (bs_provs ex_issued) \<noteq> []" by code_simp+
  then have "bs_provs (snd (handleRevoke ex_controller ex_issued ex_revoke)) \<noteq> bs_provs ex_issued" by auto
  from only_controller_revokes [OF this] show ?thesis by (auto simp: ControllerServiceAccount_def)
qed



section \<open>Where the endpoints fall short\<close>

text \<open>
  The query-parameter and basic-authentication patterns of a user-supplied secret never reach the
  proxy. The response carries headers only, so a lease without a header pattern is answered, and
  audited as a substituted credential, with a response that sets nothing.
\<close>

theorem non_header_patterns_lost:
  assumes "dispatchSubstituter e ps UserSuppliedSecret run n ns r w = (OutResponse resp a, ps')"
    and "map_of (ps_user ps) (ExtractBearer (sr_IncomingBearer r)) = Some lease"
    and "pi_Header (ul_ProxyInjected lease) = None"
  shows "sar_SetHeaders resp = [] \<and> ca_AReason a = ''substituted upstream credential''"
  using assms(1)
proof (rule dispatchSubstituter_response)
  fix res
  assume p: "prov_SubstituteAuth UserSuppliedSecret (be_prov e) ps r = ((res, None), ps')" "sub_Matched res"
    and rv: "revalidate e UserSuppliedSecret run n ns w res = OutResponse resp a"
  obtain s' where "userSecretSubstituteAuth (be_prov e) (ps_user ps) r = ((res, None), s')"
    using p(1) by (auto simp: prov_SubstituteAuth_def split: prod.splits)
  from userSecret_success [OF this p(2)] assms(2,3) have "sub_SetHeaders res = []"
    by (auto simp: userSecretSubstitution_def Let_def subst_zero_def split: option.splits)
  then show ?thesis
    using rv by (auto elim!: revalidate_response simp: denial_def)
qed

definition ex_query_delivery :: ProxyInjectedDelivery where
  "ex_query_delivery = \<lparr> pi_Hosts = [''a.io''], pi_Header = None, pi_QueryParam = Some \<lparr> qs_Name = ''key'' \<rparr>,
     pi_BasicAuth = None \<rparr>"

definition ex_query_lease :: userSuppliedLease where
  "ex_query_lease = \<lparr> ul_Namespace = ''ns'', ul_SecretRef = ex_secretRef, ul_RunName = ''r'', ul_CredentialName = ''c'',
     ul_ExpiresAt = 100, ul_ProxyInjected = ex_query_delivery \<rparr>"

definition ex_query_provs :: prov_states where
  "ex_query_provs = (provs_init [] [])\<lparr> ps_user := [(''pdk-usersecret-1'', ex_query_lease)] \<rparr>"

definition ex_query_env :: broker_env where
  "ex_query_env = ex_env\<lparr> be_prov := ex_prov_env\<lparr> pe_kube := ex_kube\<lparr> listPolicies := (\<lambda>_. Inr [ex_policy\<lparr> bp_Spec :=
     (bp_Spec ex_policy)\<lparr> bps_Grants := ex_grants\<lparr> gs_Credentials := [ex_grant\<lparr> cg_Provider :=
       ex_provider\<lparr> pc_Kind := ''UserSuppliedSecret'' \<rparr> \<rparr>] \<rparr> \<rparr> \<rparr>]) \<rparr> \<rparr> \<rparr>"

theorem non_header_patterns_lost_witness:
  "\<exists>resp a ps'. dispatchSubstituter ex_query_env ex_query_provs UserSuppliedSecret ex_run ''r'' ''ns''
      (ex_subRequest ''pdk-usersecret-1'')
      \<lparr> saq_Host = ''a.io'', saq_Port = 443, saq_IncomingAuthorization = [], saq_IncomingXAPIKey = ''pdk-usersecret-1'' \<rparr>
    = (OutResponse resp a, ps') \<and> sar_SetHeaders resp = []"
proof -
  let ?d = "dispatchSubstituter ex_query_env ex_query_provs UserSuppliedSecret ex_run ''r'' ''ns''
      (ex_subRequest ''pdk-usersecret-1'')
      \<lparr> saq_Host = ''a.io'', saq_Port = 443, saq_IncomingAuthorization = [], saq_IncomingXAPIKey = ''pdk-usersecret-1'' \<rparr>"
  have "(case fst ?d of OutResponse r a \<Rightarrow> True | _ \<Rightarrow> False)" by code_simp
  then obtain resp a where d: "?d = (OutResponse resp a, snd ?d)" by (cases "fst ?d") (auto simp: prod_eq_iff)
  have "map_of (ps_user ex_query_provs) (ExtractBearer (sr_IncomingBearer (ex_subRequest ''pdk-usersecret-1'')))
      = Some ex_query_lease" "pi_Header (ul_ProxyInjected ex_query_lease) = None" by code_simp+
  from non_header_patterns_lost [OF d this] d show ?thesis by blast
qed

end
