(* ===== verification/Go_Net.thy ===== *)
theory Go_Net
  imports Go_Prelude
begin

text \<open>
  The parts of Go's packages \<open>net\<close>, \<open>net/netip\<close>, \<open>strconv\<close> and \<open>net/textproto\<close> that the proxy and the
  admission webhooks use: addresses and networks, splitting \<open>host:port\<close>, decimal integers and canonical
  header names. An address is its list of bytes, four or sixteen of them, as in \<open>net.IP\<close>.
\<close>

type_synonym IP = "nat list"

section \<open>Numbers\<close>

definition isDigit :: "char \<Rightarrow> bool" where
  "isDigit c \<longleftrightarrow> (48::nat) \<le> of_char c \<and> of_char c \<le> (57::nat)"

definition digit_val :: "char \<Rightarrow> nat" where
  "digit_val c = of_char c - 48"

definition digits_val :: "string \<Rightarrow> nat" where
  "digits_val s = foldl (\<lambda>n c. n * 10 + digit_val c) 0 s"

text \<open>\<open>strconv.Atoi\<close> on a 64-bit machine.\<close>

definition Atoi :: "string \<Rightarrow> error_msg + int" where
  "Atoi s =
     (let neg = (s \<noteq> [] \<and> hd s = CHR ''-'');
          ds = (if s \<noteq> [] \<and> (hd s = CHR ''-'' \<or> hd s = CHR ''+'') then tl s else s);
          n = (if neg then - int (digits_val ds) else int (digits_val ds));
          fail = (\<lambda>why. Inl (''strconv.Atoi: parsing '' @ fmt_q s @ '': '' @ why))
      in if ds = [] \<or> \<not> list_all isDigit ds then fail ''invalid syntax''
         else if n < - 9223372036854775808 \<or> n > 9223372036854775807 then fail ''value out of range''
         else Inr n)"

definition hexDigit :: "char \<Rightarrow> nat option" where
  "hexDigit c =
     (let n = (of_char c :: nat)
      in if 48 \<le> n \<and> n \<le> 57 then Some (n - 48)
         else if 97 \<le> n \<and> n \<le> 102 then Some (n - 87)
         else if 65 \<le> n \<and> n \<le> 70 then Some (n - 55)
         else None)"

definition hex_val :: "string \<Rightarrow> nat" where
  "hex_val s = foldl (\<lambda>n c. n * 16 + (case hexDigit c of Some d \<Rightarrow> d | None \<Rightarrow> 0)) 0 s"

section \<open>Parsing addresses\<close>

definition v4Field :: "string \<Rightarrow> nat option" where
  "v4Field f =
     (if f = [] \<or> \<not> list_all isDigit f \<or> (length f > 1 \<and> hd f = CHR ''0'') \<or> digits_val f > 255 then None
      else Some (digits_val f))"

definition parseIPv4 :: "string \<Rightarrow> IP option" where
  "parseIPv4 s =
     (let fs = map v4Field (SplitByte s CHR ''.'')
      in if length fs = 4 \<and> None \<notin> set fs then Some (map the fs) else None)"

text \<open>
  The loop of \<open>netip.parseIPv6\<close>: \<open>k\<close> groups are still free, \<open>acc\<close> holds the bytes written, \<open>ell\<close> the
  position of the ellipsis. The result is the unread rest with the final \<open>acc\<close> and \<open>ell\<close>.
\<close>

fun parseIPv6Loop :: "nat \<Rightarrow> string \<Rightarrow> IP \<Rightarrow> nat option \<Rightarrow> (string \<times> IP \<times> nat option) option" where
  "parseIPv6Loop 0 s acc ell = Some (s, acc, ell)"
| "parseIPv6Loop (Suc k) s acc ell =
     (let ds = takeWhile (\<lambda>c. hexDigit c \<noteq> None) s; rest = dropWhile (\<lambda>c. hexDigit c \<noteq> None) s
      in if ds = [] \<or> length ds > 4 then None
         else if rest \<noteq> [] \<and> hd rest = CHR ''.'' then
           (if (ell = None \<and> length acc \<noteq> 12) \<or> length acc + 4 > 16 then None
            else (case parseIPv4 s of None \<Rightarrow> None | Some v4 \<Rightarrow> Some ([], acc @ v4, ell)))
         else (let acc' = acc @ [hex_val ds div 256, hex_val ds mod 256]
               in if rest = [] then Some ([], acc', ell)
                  else if hd rest \<noteq> CHR '':'' \<or> length rest = 1 then None
                  else if hd (tl rest) = CHR '':'' then
                    (if ell \<noteq> None then None
                     else if tl (tl rest) = [] then Some ([], acc', Some (length acc'))
                     else parseIPv6Loop k (tl (tl rest)) acc' (Some (length acc')))
                  else parseIPv6Loop k (tl rest) acc' ell))"

definition parseIPv6 :: "string \<Rightarrow> IP option" where
  "parseIPv6 s0 =
     (let lead = HasPrefix s0 ''::''; s = (if lead then drop 2 s0 else s0)
      in if lead \<and> s = [] then Some (replicate 16 0)
         else (case parseIPv6Loop 8 s [] (if lead then Some 0 else None) of
                 None \<Rightarrow> None
               | Some (rest, acc, ell) \<Rightarrow>
                   if rest \<noteq> [] then None
                   else if length acc < 16
                   then map_option (\<lambda>p. take p acc @ replicate (16 - length acc) 0 @ drop p acc) ell
                   else if ell \<noteq> None then None else Some acc))"

text \<open>
  \<open>netip.ParseAddr\<close> restricted to addresses without a zone, which is what \<open>net.ParseIP\<close> and
  \<open>net.ParseCIDR\<close> accept: the first dot or colon decides the family. Four bytes or sixteen.
\<close>

definition parseAddr :: "string \<Rightarrow> IP option" where
  "parseAddr s =
     (if CHR ''%'' \<in> set s then None
      else (case find (\<lambda>c. c = CHR ''.'' \<or> c = CHR '':'') s of
              None \<Rightarrow> None
            | Some c \<Rightarrow> if c = CHR ''.'' then parseIPv4 s else parseIPv6 s))"

definition v4InV6Prefix :: IP where
  "v4InV6Prefix = replicate 10 0 @ [255, 255]"

definition To16 :: "IP \<Rightarrow> IP" where
  "To16 ip = (if length ip = 4 then v4InV6Prefix @ ip else ip)"

definition To4 :: "IP \<Rightarrow> IP option" where
  "To4 ip = (if length ip = 4 then Some ip
             else if length ip = 16 \<and> take 12 ip = v4InV6Prefix then Some (drop 12 ip) else None)"

definition ParseIP :: "string \<Rightarrow> IP option" where
  "ParseIP s = map_option To16 (parseAddr s)"

definition ip_Equal :: "IP \<Rightarrow> IP \<Rightarrow> bool" where
  "ip_Equal a b \<longleftrightarrow> length a \<in> {4, 16} \<and> length b \<in> {4, 16} \<and> To16 a = To16 b \<or> length a = length b \<and> a = b"

section \<open>Networks\<close>

record IPNet =
  net_IP :: IP
  net_Mask :: "nat list"

definition mask_byte :: "nat \<Rightarrow> nat" where
  "mask_byte n = (if n \<ge> 8 then 255 else 256 - 2 ^ (8 - n))"

definition CIDRMask :: "nat \<Rightarrow> nat \<Rightarrow> nat list" where
  "CIDRMask ones bits = map (\<lambda>i. mask_byte (ones - 8 * i)) [0..<bits div 8]"

definition byte_and :: "nat \<Rightarrow> nat \<Rightarrow> nat" where
  "byte_and a b = and a b"

definition ParseCIDR :: "string \<Rightarrow> IPNet option" where
  "ParseCIDR s =
     (case IndexByte s CHR ''/'' of
        None \<Rightarrow> None
      | Some i \<Rightarrow>
          (let m = drop (i + 1) s
           in case parseAddr (take i s) of
                None \<Rightarrow> None
              | Some ip \<Rightarrow>
                  if m = [] \<or> \<not> list_all isDigit m \<or> digits_val m > 8 * length ip then None
                  else (let mask = CIDRMask (digits_val m) (8 * length ip)
                        in Some \<lparr> net_IP = map2 byte_and ip mask, net_Mask = mask \<rparr>)))"

definition net_Contains :: "IPNet \<Rightarrow> IP \<Rightarrow> bool" where
  "net_Contains n ip0 =
     (let nn = (case To4 (net_IP n) of Some x \<Rightarrow> x | None \<Rightarrow> net_IP n);
          m = (if length nn = 4 \<and> length (net_Mask n) = 16 then drop 12 (net_Mask n) else net_Mask n);
          ip = (case To4 ip0 of Some x \<Rightarrow> x | None \<Rightarrow> ip0)
      in length ip = length nn \<and> length m = length nn \<and> map2 byte_and nn m = map2 byte_and ip m)"

section \<open>Host and port\<close>

definition LastIndexByte :: "string \<Rightarrow> char \<Rightarrow> nat option" where
  "LastIndexByte s c = map_option (\<lambda>i. length s - 1 - i) (IndexByte (rev s) c)"

definition addrErr :: "string \<Rightarrow> string \<Rightarrow> error_msg + 'a" where
  "addrErr addr why = Inl (''address '' @ addr @ '': '' @ why)"

definition SplitHostPort :: "string \<Rightarrow> error_msg + (string \<times> string)" where
  "SplitHostPort hp =
     (case LastIndexByte hp CHR '':'' of
        None \<Rightarrow> addrErr hp ''missing port in address''
      | Some i \<Rightarrow>
          (let finish = (\<lambda>host j k.
                 if CHR ''['' \<in> set (drop j hp) then addrErr hp ''unexpected '[' in address''
                 else if CHR '']'' \<in> set (drop k hp) then addrErr hp ''unexpected ']' in address''
                 else Inr (host, drop (i + 1) hp))
           in if hp \<noteq> [] \<and> hd hp = CHR ''[''
              then (case IndexByte hp CHR '']'' of
                      None \<Rightarrow> addrErr hp ''missing ']' in address''
                    | Some e \<Rightarrow>
                        if e + 1 = length hp then addrErr hp ''missing port in address''
                        else if e + 1 = i then finish (take (e - 1) (drop 1 hp)) 1 (e + 1)
                        else if hp ! (e + 1) = CHR '':'' then addrErr hp ''too many colons in address''
                        else addrErr hp ''missing port in address'')
              else (let host = take i hp
                    in if CHR '':'' \<in> set host then addrErr hp ''too many colons in address''
                       else finish host 0 0)))"

section \<open>Rendering addresses\<close>

definition hex_lower :: "nat \<Rightarrow> char" where
  "hex_lower d = char_of (if d < 10 then 48 + d else 87 + d)"

fun hex_nat :: "nat \<Rightarrow> string" where
  "hex_nat n = (if n < 16 then [hex_lower n] else hex_nat (n div 16) @ [hex_lower (n mod 16)])"

declare hex_nat.simps [simp del]

fun groups16 :: "nat list \<Rightarrow> nat list" where
  "groups16 (a # b # r) = (a * 256 + b) # groups16 r"
| "groups16 _ = []"

text \<open>\<open>net.IP.String\<close>: dotted quads, and groups with the first longest run of zeros elided.\<close>

definition zero_run :: "nat list \<Rightarrow> nat \<Rightarrow> nat" where
  "zero_run gs i = length (takeWhile (\<lambda>g. g = 0) (drop i gs))"

definition longest_run :: "nat list \<Rightarrow> nat \<times> nat" where
  "longest_run gs = foldl (\<lambda>(p, l) i. if zero_run gs i > l then (i, zero_run gs i) else (p, l)) (0, 0) [0..<length gs]"

definition ip_String :: "IP \<Rightarrow> string" where
  "ip_String ip =
     (case To4 ip of
        Some v4 \<Rightarrow> Join (map (\<lambda>b. decimal_nat b) v4) ''.''
      | None \<Rightarrow>
          (let gs = groups16 ip; (p, l) = longest_run gs;
               show = (\<lambda>xs. Join (map hex_nat xs) '':'')
           in if l < 2 then show gs else show (take p gs) @ ''::'' @ show (drop (p + l) gs)))"

section \<open>Canonical header names\<close>

definition isTokenChar :: "char \<Rightarrow> bool" where
  "isTokenChar c \<longleftrightarrow>
     (let n = (of_char c :: nat)
      in (48 \<le> n \<and> n \<le> 57) \<or> (65 \<le> n \<and> n \<le> 90) \<or> (97 \<le> n \<and> n \<le> 122)
         \<or> c \<in> set ''!#$%&*+-.^_`|~'' \<or> n = 39)"

definition upper_char :: "char \<Rightarrow> char" where
  "upper_char c = (if (97::nat) \<le> of_char c \<and> of_char c \<le> (122::nat) then char_of (of_char c - (32::nat)) else c)"

fun canonicalWord :: "bool \<Rightarrow> string \<Rightarrow> string" where
  "canonicalWord up [] = []"
| "canonicalWord up (c # cs) = (if up then upper_char c else lower_char c) # canonicalWord (c = CHR ''-'') cs"

definition CanonicalHeaderKey :: "string \<Rightarrow> string" where
  "CanonicalHeaderKey s = (if list_all isTokenChar s then canonicalWord True s else s)"

end
