(* ===== verification/Webhook_Base.thy ===== *)
theory Webhook_Base
  imports Policy_Resolver Go_Net
begin

text \<open>
  What the admission webhooks of \<open>src/internal/webhook/v1alpha1\<close> share: field errors, the helpers of
  their validators, and \<open>host_validation.go\<close>.

  A \<open>field.Path\<close> is the list of its segments, a \<open>field.Error\<close> the kind, the path and the detail; the
  offending value, which only decorates the message, is left out. Three things come from outside the
  repository and are parameters (\<open>webhook_env\<close>): the rendering of an error list, Kubernetes'
  \<open>IsDNS1123Subdomain\<close>, and \<open>url.Parse\<close>, of which only the scheme and the presence of user
  information are used.
\<close>

datatype path_segment = Child string | Index nat

type_synonym field_path = "path_segment list"

datatype field_error_kind =
    FieldRequired
  | FieldInvalid
  | FieldForbidden
  | FieldDuplicate
  | FieldNotSupported
  | FieldTooLong

record field_error =
  fe_Kind :: field_error_kind
  fe_Path :: field_path
  fe_Detail :: string

definition fieldErr :: "field_error_kind \<Rightarrow> field_path \<Rightarrow> string \<Rightarrow> field_error" where
  "fieldErr k p d = \<lparr> fe_Kind = k, fe_Path = p, fe_Detail = d \<rparr>"

record parsed_url =
  url_Scheme :: string
  url_HasUser :: bool

record webhook_env =
  we_aggregate :: "field_error list \<Rightarrow> error_msg"
  we_IsDNS1123Subdomain :: "string \<Rightarrow> string list"
  we_urlParse :: "string \<Rightarrow> error_msg + parsed_url"

text \<open>The common tail of the validators: no error, or the rendered list.\<close>

definition aggregate :: "webhook_env \<Rightarrow> field_error list \<Rightarrow> error_msg option" where
  "aggregate w errs = (if errs = [] then None else Some (we_aggregate w errs))"

text \<open>One iteration per entry, with its index, over the entries of a list.\<close>

definition for_each :: "(nat \<Rightarrow> 'a \<Rightarrow> field_error list) \<Rightarrow> 'a list \<Rightarrow> field_error list" where
  "for_each f xs = concat (map (\<lambda>(i, x). f i x) (enumerate 0 xs))"

lemma for_each_Nil [simp]: "for_each f [] = []"
  by (simp add: for_each_def)

lemma for_each_empty: "for_each f xs = [] \<longleftrightarrow> (\<forall>i < length xs. f i (xs ! i) = [])"
proof -
  have "for_each f xs = [] \<longleftrightarrow> (\<forall>n < length xs. case enumerate 0 xs ! n of (i, x) \<Rightarrow> f i x = [])"
    by (auto simp: for_each_def all_set_conv_all_nth split: prod.splits)
  then show ?thesis by (simp add: nth_enumerate_eq)
qed

lemma for_each_emptyD: "for_each f xs = [] \<Longrightarrow> x \<in> set xs \<Longrightarrow> \<exists>i. f i x = []"
  by (metis for_each_empty in_set_conv_nth)

lemma aggregate_None [simp]: "aggregate w errs = None \<longleftrightarrow> errs = []"
  by (simp add: aggregate_def)

section \<open>Host validation\<close>

definition clusterInternalExacts :: "string list" where
  "clusterInternalExacts =
     [''localhost'', ''kubernetes'', ''kubernetes.default'', ''kubernetes.default.svc'',
      ''kubernetes.default.svc.cluster.local'', ''svc'', ''cluster.local'', ''svc.cluster.local'']"

definition clusterInternalSuffixes :: "string list" where
  "clusterInternalSuffixes = [''.svc.cluster.local'', ''.svc'', ''.cluster.local'']"

definition isClusterInternal :: "string \<Rightarrow> bool" where
  "isClusterInternal s \<longleftrightarrow>
     s \<in> set clusterInternalExacts
     \<or> list_ex (\<lambda>suf. HasSuffix s suf \<and> length s > length suf) clusterInternalSuffixes"

definition ipLiteralMsg :: string where
  "ipLiteralMsg = ''IP literals are not permitted; use a DNS name so the proxy can match the SNI''"

definition validateExternalHost :: "webhook_env \<Rightarrow> field_path \<Rightarrow> string \<Rightarrow> field_error list" where
  "validateExternalHost w p raw =
     (let host = TrimSpace raw; invalid = (\<lambda>d. [fieldErr FieldInvalid p d])
      in if host = [] then [fieldErr FieldRequired p []]
         else if host = ''*'' then
           invalid (''catch-all host is not permitted; restrict to a specific TLD or apex (e.g. '' @ fmt_q ''*.example.com'' @ '')'')
         else if host = ''*.'' then
           invalid (''empty wildcard suffix is not permitted; provide a TLD or apex after '' @ fmt_q ''*.''
                      @ '' (e.g. '' @ fmt_q ''*.example.com'' @ '')'')
         else if HasPrefix host ''*.'' \<and> CHR ''*'' \<in> set (drop 2 host) then
           invalid (''only a single leading '' @ [CHR 0x27] @ ''*.'' @ [CHR 0x27] @ '' wildcard is permitted'')
         else if \<not> HasPrefix host ''*.'' \<and> CHR ''*'' \<in> set host then
           invalid (''wildcard '' @ [CHR 0x27] @ ''*'' @ [CHR 0x27] @ '' is only permitted as a leading '' @ [CHR 0x27] @ ''*.''
                      @ [CHR 0x27] @ '' segment'')
         else
           (let effective = TrimPrefix host ''*.''
            in if HasPrefix effective ''['' \<and> HasSuffix effective '']''
                  \<and> ParseIP (take (length effective - 2) (drop 1 effective)) \<noteq> None then invalid ipLiteralMsg
               else if ParseIP effective \<noteq> None then invalid ipLiteralMsg
               else if \<not> HasPrefix effective ''['' \<and> CHR '':'' \<in> set effective then
                 invalid (''host must not contain a port; ports go in the egress grant'' @ [CHR 0x27] @ ''s ''
                            @ fmt_q ''ports'' @ '' field'')
               else if isClusterInternal effective then
                 invalid ''cluster-internal hosts are not permitted; use a public DNS name instead''
               else if we_IsDNS1123Subdomain w effective \<noteq> [] then
                 invalid (''host must be a lowercase RFC 1123 DNS name: ''
                            @ Join (we_IsDNS1123Subdomain w effective) ''; '')
               else []))"

definition validateHosts :: "webhook_env \<Rightarrow> field_path \<Rightarrow> string list \<Rightarrow> field_error list" where
  "validateHosts w p hosts = for_each (\<lambda>i h. validateExternalHost w (p @ [Index i]) h) hosts"

text \<open>The check of a port list, shared by policies and templates.\<close>

definition validatePorts :: "field_path \<Rightarrow> int list \<Rightarrow> field_error list" where
  "validatePorts p ports =
     for_each (\<lambda>j port. if port < 0 \<or> port > 65535
       then [fieldErr FieldInvalid (p @ [Child ''ports'', Index j]) ''port must be 0 (any) or in [1, 65535]'']
       else []) ports"

lemma validatePorts_empty: "validatePorts p ports = [] \<longleftrightarrow> (\<forall>q \<in> set ports. 0 \<le> q \<and> q \<le> 65535)"
  by (simp add: validatePorts_def for_each_empty all_set_conv_all_nth not_less) (meson not_less)

text \<open>
  What an accepted host is: trimmed, it is no catch-all, carries no star but a leading one, and the name
  behind the star is neither an address nor a name that only resolves inside the cluster.
\<close>

definition external_host :: "string \<Rightarrow> bool" where
  "external_host host \<longleftrightarrow>
     (let effective = TrimPrefix host ''*.''
      in effective \<noteq> [] \<and> CHR ''*'' \<notin> set effective \<and> ParseIP effective = None \<and> \<not> isClusterInternal effective)"

lemma validateExternalHost_accepts:
  assumes "validateExternalHost w p raw = []"
  shows "external_host (TrimSpace raw) \<and> we_IsDNS1123Subdomain w (TrimPrefix (TrimSpace raw) ''*.'') = []"
  using assms
  by (auto simp: validateExternalHost_def external_host_def Let_def TrimPrefix_def HasPrefix_iff split: if_splits)

section \<open>Unique names\<close>

text \<open>
  The loops that reject an entry whose key was seen before: \<open>seen\<close> maps a key to the index of its
  first entry. \<open>skip\<close> entries are reported by the body and not recorded.
\<close>

fun unique_loop ::
  "(nat \<Rightarrow> 'a \<Rightarrow> field_error list) \<Rightarrow> ('a \<Rightarrow> bool) \<Rightarrow> ('a \<Rightarrow> string) \<Rightarrow> (nat \<Rightarrow> 'a \<Rightarrow> nat \<Rightarrow> field_error)
    \<Rightarrow> nat \<Rightarrow> (string, nat) gomap \<Rightarrow> 'a list \<Rightarrow> field_error list" where
  "unique_loop body skip key dup i seen [] = []"
| "unique_loop body skip key dup i seen (x # xs) =
     (if skip x then body i x @ unique_loop body skip key dup (Suc i) seen xs
      else (case map_of seen (key x) of
              Some prev \<Rightarrow> dup i x prev # unique_loop body skip key dup (Suc i) seen xs
            | None \<Rightarrow> body i x @ unique_loop body skip key dup (Suc i) (mset_key (key x) i seen) xs))"

lemma unique_loop_empty:
  assumes "\<And>i x. skip x \<Longrightarrow> body i x \<noteq> []"
  shows "unique_loop body skip key dup i seen xs = [] \<longleftrightarrow>
    (\<forall>x \<in> set xs. \<not> skip x) \<and> distinct (map key xs) \<and> (\<forall>x \<in> set xs. map_of seen (key x) = None)
      \<and> (\<forall>j < length xs. body (i + j) (xs ! j) = [])"
proof (induction xs arbitrary: i seen)
  case (Cons x xs)
  have *: "(\<forall>j < length (x # xs). body (i + j) ((x # xs) ! j) = []) \<longleftrightarrow>
      body i x = [] \<and> (\<forall>j < length xs. body (Suc i + j) (xs ! j) = [])"
    by (auto simp: less_Suc_eq_0_disj)
  show ?case
    using assms unfolding *
    by (auto simp: Cons.IH go_alist intro: rev_image_eqI split: option.splits)
qed simp

end
