(* ===== verification/Audit_Events.thy ===== *)
theory Audit_Events
  imports Api_Types
begin

text \<open>
  Audit events: the resource type (\<open>src/api/v1alpha1/auditevent_types.go\<close>), the builders of
  \<open>src/internal/auditing\<close> that every component uses, and the sink that stamps and writes them. The
  builders are pure; \<open>now\<close> stands for the clock they read when no time is given.
\<close>

section \<open>The resource\<close>

datatype AuditDecision = AuditDecisionUnset | AuditDecisionGranted | AuditDecisionDenied | AuditDecisionWarned

datatype AuditKind =
    AuditKindUnset
  | AuditKindCredentialIssued
  | AuditKindCredentialDenied
  | AuditKindCredentialRenewed
  | AuditKindCredentialRevoked
  | AuditKindEgressAllow
  | AuditKindEgressBlock
  | AuditKindEgressBlockSummary
  | AuditKindEgressDiscoveryAllow
  | AuditKindPolicyApplied
  | AuditKindPolicyRejected
  | AuditKindBrokerUnavailable
  | AuditKindRunFailed
  | AuditKindRunCompleted
  | AuditKindCAProjected
  | AuditKindNetworkPolicyEnforcementWithdrawn
  | AuditKindCAMisconfigured
  | AuditKindBrokerCredsTampered
  | AuditKindInterceptionModeCooperativeAccepted
  | AuditKindPromptSubmitted
  | AuditKindPromptCompleted
  | AuditKindShellSessionOpened
  | AuditKindShellSessionClosed
  | AuditKindCredentialRenewalFailed
  | AuditKindInteractiveRunTerminated

definition decision_str :: "AuditDecision \<Rightarrow> string" where
  "decision_str d = (case d of AuditDecisionUnset \<Rightarrow> [] | AuditDecisionGranted \<Rightarrow> ''granted''
     | AuditDecisionDenied \<Rightarrow> ''denied'' | AuditDecisionWarned \<Rightarrow> ''warned'')"

fun kind_str :: "AuditKind \<Rightarrow> string" where
  "kind_str AuditKindUnset = []"
| "kind_str AuditKindCredentialIssued = ''credential-issued''"
| "kind_str AuditKindCredentialDenied = ''credential-denied''"
| "kind_str AuditKindCredentialRenewed = ''credential-renewed''"
| "kind_str AuditKindCredentialRevoked = ''credential-revoked''"
| "kind_str AuditKindEgressAllow = ''egress-allow''"
| "kind_str AuditKindEgressBlock = ''egress-block''"
| "kind_str AuditKindEgressBlockSummary = ''egress-block-summary''"
| "kind_str AuditKindEgressDiscoveryAllow = ''egress-discovery-allow''"
| "kind_str AuditKindPolicyApplied = ''policy-applied''"
| "kind_str AuditKindPolicyRejected = ''policy-rejected''"
| "kind_str AuditKindBrokerUnavailable = ''broker-unavailable''"
| "kind_str AuditKindRunFailed = ''run-failed''"
| "kind_str AuditKindRunCompleted = ''run-completed''"
| "kind_str AuditKindCAProjected = ''ca-projected''"
| "kind_str AuditKindNetworkPolicyEnforcementWithdrawn = ''network-policy-enforcement-withdrawn''"
| "kind_str AuditKindCAMisconfigured = ''ca-misconfigured''"
| "kind_str AuditKindBrokerCredsTampered = ''broker-creds-tampered''"
| "kind_str AuditKindInterceptionModeCooperativeAccepted = ''interception-mode-cooperative-accepted''"
| "kind_str AuditKindPromptSubmitted = ''prompt-submitted''"
| "kind_str AuditKindPromptCompleted = ''prompt-completed''"
| "kind_str AuditKindShellSessionOpened = ''shell-session-opened''"
| "kind_str AuditKindShellSessionClosed = ''shell-session-closed''"
| "kind_str AuditKindCredentialRenewalFailed = ''credential-renewal-failed''"
| "kind_str AuditKindInteractiveRunTerminated = ''interactive-run-terminated''"

record AuditDestination =
  ad_Host :: string
  ad_Port :: int

record AuditCredentialRef =
  acr_Name :: string
  acr_Provider :: string
  acr_Purpose :: string

record OwnerReference =
  or_APIVersion :: string
  or_Kind :: string
  or_Name :: string
  or_UID :: string

record AuditEventSpec =
  aes_RunRef :: "LocalObjectReference option"
  aes_Decision :: AuditDecision
  aes_Kind :: AuditKind
  aes_Timestamp :: time
  aes_Destination :: "AuditDestination option"
  aes_Credential :: "AuditCredentialRef option"
  aes_MatchedPolicy :: "LocalObjectReference option"
  aes_Reason :: string
  aes_Count :: int
  aes_SampleDestinations :: "AuditDestination list"
  aes_WindowStart :: "time option"
  aes_WindowEnd :: "time option"
  aes_Detail :: "(string, string) gomap"

record AuditEvent =
  ae_Namespace :: string
  ae_GenerateName :: string
  ae_Labels :: "(string, string) gomap"
  ae_OwnerReferences :: "OwnerReference list"
  ae_Spec :: AuditEventSpec

definition AuditEventLabelRun :: string where "AuditEventLabelRun = ''paddock.dev/run''"

definition AuditEventLabelDecision :: string where "AuditEventLabelDecision = ''paddock.dev/decision''"

definition AuditEventLabelKind :: string where "AuditEventLabelKind = ''paddock.dev/kind''"

definition AuditEventLabelComponent :: string where "AuditEventLabelComponent = ''paddock.dev/component''"

section \<open>Shared steps of the builders\<close>

definition nowOr :: "time \<Rightarrow> time \<Rightarrow> time" where
  "nowOr now w = (if IsZero w then now else w)"

definition stampLabels :: "AuditEvent \<Rightarrow> string \<Rightarrow> AuditEvent" where
  "stampLabels ae runName =
     (let l1 = (if runName \<noteq> [] then mset_key AuditEventLabelRun runName (ae_Labels ae) else ae_Labels ae);
          l2 = mset_key AuditEventLabelDecision (decision_str (aes_Decision (ae_Spec ae))) l1
      in ae\<lparr> ae_Labels := mset_key AuditEventLabelKind (kind_str (aes_Kind (ae_Spec ae))) l2 \<rparr>)"

definition ref_of :: "string \<Rightarrow> LocalObjectReference option" where
  "ref_of name = (if name \<noteq> [] then Some \<lparr> lor_Name = name \<rparr> else None)"

text \<open>An event with every optional field at its zero value.\<close>

definition blankEvent :: "string \<Rightarrow> string \<Rightarrow> AuditDecision \<Rightarrow> AuditKind \<Rightarrow> time \<Rightarrow> string \<Rightarrow> string \<Rightarrow> AuditEvent" where
  "blankEvent ns gen decision kind ts reason runName =
     \<lparr> ae_Namespace = ns, ae_GenerateName = gen, ae_Labels = [], ae_OwnerReferences = [],
       ae_Spec = \<lparr> aes_RunRef = ref_of runName, aes_Decision = decision, aes_Kind = kind, aes_Timestamp = ts,
         aes_Destination = None, aes_Credential = None, aes_MatchedPolicy = None, aes_Reason = reason,
         aes_Count = 0, aes_SampleDestinations = [], aes_WindowStart = None, aes_WindowEnd = None,
         aes_Detail = [] \<rparr> \<rparr>"

section \<open>Credential events\<close>

record CredentialInput =
  cin_RunName :: string
  cin_Namespace :: string
  cin_CredentialName :: string
  cin_Provider :: string
  cin_MatchedPolicy :: string
  cin_Reason :: string
  cin_When :: time

record CredentialIssuedInput = CredentialInput +
  cin_Count :: int

definition newCredential ::
  "time \<Rightarrow> AuditDecision \<Rightarrow> AuditKind \<Rightarrow> int \<Rightarrow> 'a CredentialInput_scheme \<Rightarrow> AuditEvent" where
  "newCredential now decision kind cnt inp =
     (let ae = blankEvent (cin_Namespace inp) ''ae-cred-'' decision kind (nowOr now (cin_When inp)) (cin_Reason inp) (cin_RunName inp)
      in stampLabels (ae\<lparr> ae_Spec := (ae_Spec ae)\<lparr>
           aes_Credential := Some \<lparr> acr_Name = cin_CredentialName inp, acr_Provider = cin_Provider inp, acr_Purpose = [] \<rparr>,
           aes_Count := cnt, aes_MatchedPolicy := ref_of (cin_MatchedPolicy inp) \<rparr> \<rparr>) (cin_RunName inp))"

definition NewCredentialIssued :: "time \<Rightarrow> CredentialIssuedInput \<Rightarrow> AuditEvent" where
  "NewCredentialIssued now inp = newCredential now AuditDecisionGranted AuditKindCredentialIssued (cin_Count inp) inp"

definition NewCredentialDenied :: "time \<Rightarrow> CredentialInput \<Rightarrow> AuditEvent" where
  "NewCredentialDenied now inp = newCredential now AuditDecisionDenied AuditKindCredentialDenied 0 inp"

definition NewCredentialRevoked :: "time \<Rightarrow> CredentialInput \<Rightarrow> AuditEvent" where
  "NewCredentialRevoked now inp = newCredential now AuditDecisionGranted AuditKindCredentialRevoked 0 inp"

section \<open>Egress events\<close>

record EgressInput =
  ei_RunName :: string
  ei_Namespace :: string
  ei_Host :: string
  ei_Port :: int
  ei_Decision :: AuditDecision
  ei_MatchedPolicy :: string
  ei_Reason :: string
  ei_When :: time
  ei_Kind :: AuditKind

definition newEgress :: "time \<Rightarrow> EgressInput \<Rightarrow> AuditKind \<Rightarrow> AuditEvent" where
  "newEgress now inp defaultKind =
     (let kind = (if ei_Kind inp = AuditKindUnset then defaultKind else ei_Kind inp);
          ae = blankEvent (ei_Namespace inp) ''ae-egress-'' (ei_Decision inp) kind (nowOr now (ei_When inp)) (ei_Reason inp) (ei_RunName inp)
      in stampLabels (ae\<lparr> ae_Spec := (ae_Spec ae)\<lparr>
           aes_Destination := Some \<lparr> ad_Host = ei_Host inp, ad_Port = int32 (ei_Port inp) \<rparr>,
           aes_MatchedPolicy := ref_of (ei_MatchedPolicy inp) \<rparr> \<rparr>) (ei_RunName inp))"

definition NewEgressAllow :: "time \<Rightarrow> EgressInput \<Rightarrow> AuditEvent" where
  "NewEgressAllow now inp = newEgress now inp AuditKindEgressAllow"

definition NewEgressBlock :: "time \<Rightarrow> EgressInput \<Rightarrow> AuditEvent" where
  "NewEgressBlock now inp = newEgress now inp AuditKindEgressBlock"

definition NewEgressDiscoveryAllow :: "time \<Rightarrow> EgressInput \<Rightarrow> AuditEvent" where
  "NewEgressDiscoveryAllow now inp = newEgress now inp AuditKindEgressDiscoveryAllow"

section \<open>Admission, run and configuration events\<close>

record AdmissionInput =
  ai_RunName :: string
  ai_Namespace :: string
  ai_TemplateRef :: string
  ai_Reason :: string
  ai_When :: time
  ai_OwnerRef :: "OwnerReference option"

definition newAdmission :: "time \<Rightarrow> AdmissionInput \<Rightarrow> AuditDecision \<Rightarrow> AuditKind \<Rightarrow> AuditEvent" where
  "newAdmission now inp decision kind =
     (let ae = blankEvent (ai_Namespace inp) ''ae-policy-'' decision kind (nowOr now (ai_When inp)) (ai_Reason inp) (ai_RunName inp)
      in stampLabels (ae\<lparr> ae_OwnerReferences := (case ai_OwnerRef inp of None \<Rightarrow> [] | Some r \<Rightarrow> [r]) \<rparr>) (ai_RunName inp))"

definition NewPolicyApplied :: "time \<Rightarrow> AdmissionInput \<Rightarrow> AuditEvent" where
  "NewPolicyApplied now inp = newAdmission now inp AuditDecisionGranted AuditKindPolicyApplied"

definition NewPolicyRejected :: "time \<Rightarrow> AdmissionInput \<Rightarrow> AuditEvent" where
  "NewPolicyRejected now inp = newAdmission now inp AuditDecisionDenied AuditKindPolicyRejected"

record RunDecisionInput =
  ri_RunName :: string
  ri_Namespace :: string
  ri_Reason :: string
  ri_Decision :: AuditDecision
  ri_When :: time

definition newRun :: "time \<Rightarrow> RunDecisionInput \<Rightarrow> AuditKind \<Rightarrow> AuditEvent" where
  "newRun now inp kind =
     stampLabels (blankEvent (ri_Namespace inp) ''ae-run-'' (ri_Decision inp) kind (nowOr now (ri_When inp)) (ri_Reason inp) (ri_RunName inp))
       (ri_RunName inp)"

definition NewRunFailed :: "time \<Rightarrow> RunDecisionInput \<Rightarrow> AuditEvent" where
  "NewRunFailed now inp = newRun now inp AuditKindRunFailed"

definition NewRunCompleted :: "time \<Rightarrow> RunDecisionInput \<Rightarrow> AuditEvent" where
  "NewRunCompleted now inp = newRun now inp AuditKindRunCompleted"

record CAProjectionInput =
  cpi_RunName :: string
  cpi_Namespace :: string
  cpi_SecretName :: string
  cpi_Reason :: string
  cpi_When :: time

definition NewCAProjected :: "time \<Rightarrow> CAProjectionInput \<Rightarrow> AuditEvent" where
  "NewCAProjected now inp =
     stampLabels (blankEvent (cpi_Namespace inp) ''ae-ca-'' AuditDecisionGranted AuditKindCAProjected
       (nowOr now (cpi_When inp)) (cpi_Reason inp) (cpi_RunName inp)) (cpi_RunName inp)"

record CAMisconfiguredInput =
  cmi_Name :: string
  cmi_Namespace :: string
  cmi_Reason :: string
  cmi_When :: time

definition NewCAMisconfigured :: "time \<Rightarrow> CAMisconfiguredInput \<Rightarrow> AuditEvent" where
  "NewCAMisconfigured now inp =
     stampLabels (blankEvent (cmi_Namespace inp) ''ae-ca-misconfigured-'' AuditDecisionDenied AuditKindCAMisconfigured
       (nowOr now (cmi_When inp)) (cmi_Reason inp) (cmi_Name inp)) (cmi_Name inp)"

record InterceptionInput =
  ici_RunName :: string
  ici_Namespace :: string
  ici_MatchedPolicy :: string
  ici_Reason :: string
  ici_When :: time

definition NewInterceptionModeCooperativeAccepted :: "time \<Rightarrow> InterceptionInput \<Rightarrow> AuditEvent" where
  "NewInterceptionModeCooperativeAccepted now inp =
     (let ae = blankEvent (ici_Namespace inp) ''ae-interception-'' AuditDecisionGranted
                 AuditKindInterceptionModeCooperativeAccepted (nowOr now (ici_When inp)) (ici_Reason inp) (ici_RunName inp)
      in stampLabels (ae\<lparr> ae_Spec := (ae_Spec ae)\<lparr> aes_MatchedPolicy := ref_of (ici_MatchedPolicy inp) \<rparr> \<rparr>) (ici_RunName inp))"

record NetworkPolicyEnforcementWithdrawnInput =
  npi_RunName :: string
  npi_Namespace :: string
  npi_Reason :: string
  npi_When :: time

definition NewNetworkPolicyEnforcementWithdrawn :: "time \<Rightarrow> NetworkPolicyEnforcementWithdrawnInput \<Rightarrow> AuditEvent" where
  "NewNetworkPolicyEnforcementWithdrawn now inp =
     stampLabels (blankEvent (npi_Namespace inp) ''ae-np-'' AuditDecisionWarned AuditKindNetworkPolicyEnforcementWithdrawn
       (nowOr now (npi_When inp)) (npi_Reason inp) (npi_RunName inp)) (npi_RunName inp)"

record BrokerCredsTamperedInput =
  bti_RunName :: string
  bti_Namespace :: string
  bti_PrunedKeys :: "string list"
  bti_When :: time

definition NewBrokerCredsTampered :: "time \<Rightarrow> BrokerCredsTamperedInput \<Rightarrow> AuditEvent" where
  "NewBrokerCredsTampered now inp =
     (let reason = ''broker-creds Secret had unexpected keys; pruned''
            @ (if bti_PrunedKeys inp \<noteq> [] then '': '' @ Join (bti_PrunedKeys inp) '','' else [])
      in stampLabels (blankEvent (bti_Namespace inp) ''ae-creds-tampered-'' AuditDecisionWarned AuditKindBrokerCredsTampered
           (nowOr now (bti_When inp)) reason (bti_RunName inp)) (bti_RunName inp))"

section \<open>Events of interactive runs\<close>

definition withDetail :: "(string, string) gomap \<Rightarrow> AuditEvent \<Rightarrow> AuditEvent" where
  "withDetail d ae = ae\<lparr> ae_Spec := (ae_Spec ae)\<lparr> aes_Detail := d \<rparr> \<rparr>"

record PromptAuditInput =
  pai_RunName :: string
  pai_Namespace :: string
  pai_SubmitterSA :: string
  pai_PromptHash :: string
  pai_PromptLength :: int
  pai_TurnSeq :: int
  pai_When :: time

definition NewPromptSubmitted :: "time \<Rightarrow> PromptAuditInput \<Rightarrow> AuditEvent" where
  "NewPromptSubmitted now inp =
     stampLabels (withDetail
       [(''submitterSA'', pai_SubmitterSA inp), (''promptHash'', pai_PromptHash inp),
        (''promptLength'', fmt_d (pai_PromptLength inp)), (''turnSeq'', fmt_d (pai_TurnSeq inp))]
       (blankEvent (pai_Namespace inp) ''prompt-submitted-'' AuditDecisionGranted AuditKindPromptSubmitted
         (nowOr now (pai_When inp)) [] (pai_RunName inp))) (pai_RunName inp)"

record PromptCompletedInput =
  pci_RunName :: string
  pci_Namespace :: string
  pci_TurnSeq :: int
  pci_DurationMs :: int
  pci_EventCount :: int
  pci_Outcome :: string
  pci_When :: time

definition NewPromptCompleted :: "time \<Rightarrow> PromptCompletedInput \<Rightarrow> AuditEvent" where
  "NewPromptCompleted now inp =
     stampLabels (withDetail
       [(''turnSeq'', fmt_d (pci_TurnSeq inp)), (''durationMs'', fmt_d (pci_DurationMs inp)),
        (''eventCount'', fmt_d (pci_EventCount inp)), (''outcome'', pci_Outcome inp)]
       (blankEvent (pci_Namespace inp) ''prompt-completed-'' AuditDecisionGranted AuditKindPromptCompleted
         (nowOr now (pci_When inp)) [] (pci_RunName inp))) (pci_RunName inp)"

record ShellOpenedInput =
  soi_RunName :: string
  soi_Namespace :: string
  soi_SessionID :: string
  soi_SubmitterSA :: string
  soi_Target :: string
  soi_Command :: "string list"
  soi_When :: time

definition NewShellSessionOpened :: "time \<Rightarrow> ShellOpenedInput \<Rightarrow> AuditEvent" where
  "NewShellSessionOpened now inp =
     stampLabels (withDetail
       [(''sessionID'', soi_SessionID inp), (''submitterSA'', soi_SubmitterSA inp),
        (''target'', soi_Target inp), (''command'', Join (soi_Command inp) '' '')]
       (blankEvent (soi_Namespace inp) ''shell-opened-'' AuditDecisionGranted AuditKindShellSessionOpened
         (nowOr now (soi_When inp)) [] (soi_RunName inp))) (soi_RunName inp)"

record ShellClosedInput =
  sci_RunName :: string
  sci_Namespace :: string
  sci_SessionID :: string
  sci_DurationMs :: int
  sci_ByteCount :: int
  sci_When :: time

definition NewShellSessionClosed :: "time \<Rightarrow> ShellClosedInput \<Rightarrow> AuditEvent" where
  "NewShellSessionClosed now inp =
     stampLabels (withDetail
       [(''sessionID'', sci_SessionID inp), (''durationMs'', fmt_d (sci_DurationMs inp)),
        (''byteCount'', fmt_d (sci_ByteCount inp))]
       (blankEvent (sci_Namespace inp) ''shell-closed-'' AuditDecisionGranted AuditKindShellSessionClosed
         (nowOr now (sci_When inp)) [] (sci_RunName inp))) (sci_RunName inp)"

record CredentialRenewalFailedInput =
  rfi_RunName :: string
  rfi_Namespace :: string
  rfi_Provider :: string
  rfi_LeaseID :: string
  rfi_Error :: string
  rfi_When :: time

definition NewCredentialRenewalFailed :: "time \<Rightarrow> CredentialRenewalFailedInput \<Rightarrow> AuditEvent" where
  "NewCredentialRenewalFailed now inp =
     stampLabels (withDetail
       [(''provider'', rfi_Provider inp), (''leaseID'', rfi_LeaseID inp), (''error'', rfi_Error inp)]
       (blankEvent (rfi_Namespace inp) ''renewal-failed-'' AuditDecisionDenied AuditKindCredentialRenewalFailed
         (nowOr now (rfi_When inp)) [] (rfi_RunName inp))) (rfi_RunName inp)"

text \<open>
  \<open>time.RFC3339\<close> in UTC: the civil date of a day count, then the time of day. Day 0 is the first of
  January of year 1; the computation starts its years in March.
\<close>

definition civil_date :: "int \<Rightarrow> int \<times> int \<times> int" where
  "civil_date days =
     (let z = days + 306; era = z div 146097; doe = z mod 146097;
          yoe = (doe - doe div 1460 + doe div 36524 - doe div 146096) div 365;
          doy = doe - (365 * yoe + yoe div 4 - yoe div 100);
          mp = (5 * doy + 2) div 153;
          d = doy - (153 * mp + 2) div 5 + 1;
          m = (if mp < 10 then mp + 3 else mp - 9)
      in (yoe + era * 400 + (if m \<le> 2 then 1 else 0), m, d))"

definition pad0 :: "nat \<Rightarrow> int \<Rightarrow> string" where
  "pad0 w n = (let s = fmt_d n in replicate (w - length s) CHR ''0'' @ s)"

definition fmt_RFC3339 :: "time \<Rightarrow> string" where
  "fmt_RFC3339 t =
     (let secs = t div second; (y, m, d) = civil_date (secs div 86400); r = secs mod 86400
      in pad0 4 y @ ''-'' @ pad0 2 m @ ''-'' @ pad0 2 d @ ''T'' @ pad0 2 (r div 3600) @ '':''
         @ pad0 2 (r mod 3600 div 60) @ '':'' @ pad0 2 (r mod 60) @ ''Z'')"

record CredentialRenewedInput =
  rni_RunName :: string
  rni_Namespace :: string
  rni_Provider :: string
  rni_LeaseID :: string
  rni_ExpiresAt :: time
  rni_When :: time

definition NewCredentialRenewed :: "time \<Rightarrow> CredentialRenewedInput \<Rightarrow> AuditEvent" where
  "NewCredentialRenewed now inp =
     (let detail = [(''provider'', rni_Provider inp), (''leaseID'', rni_LeaseID inp)]
            @ (if IsZero (rni_ExpiresAt inp) then [] else [(''expiresAt'', fmt_RFC3339 (rni_ExpiresAt inp))])
      in stampLabels (withDetail detail
           (blankEvent (rni_Namespace inp) ''credential-renewed-'' AuditDecisionGranted AuditKindCredentialRenewed
             (nowOr now (rni_When inp)) [] (rni_RunName inp))) (rni_RunName inp))"

record InteractiveRunTerminatedInput =
  iti_RunName :: string
  iti_Namespace :: string
  iti_Reason :: string
  iti_Decision :: AuditDecision
  iti_When :: time

definition NewInteractiveRunTerminated :: "time \<Rightarrow> InteractiveRunTerminatedInput \<Rightarrow> AuditEvent" where
  "NewInteractiveRunTerminated now inp =
     stampLabels (withDetail [(''reason'', iti_Reason inp)]
       (blankEvent (iti_Namespace inp) ''interactive-terminated-'' (iti_Decision inp) AuditKindInteractiveRunTerminated
         (nowOr now (iti_When inp)) [] (iti_RunName inp))) (iti_RunName inp)"

section \<open>Sink\<close>

definition ErrAuditWrite :: string where "ErrAuditWrite = ''audit write failed''"

text \<open>
  \<open>KubeSink.Write\<close>: \<open>create\<close> is the API server's answer to the new object, \<open>log\<close> the events it holds,
  latest first.
\<close>

definition KubeSink_Write ::
  "(AuditEvent \<Rightarrow> error_msg option) \<Rightarrow> string \<Rightarrow> AuditEvent list \<Rightarrow> AuditEvent \<Rightarrow> error_msg option \<times> AuditEvent list" where
  "KubeSink_Write create component log ae =
     (let ae' = ae\<lparr> ae_Labels := mset_key AuditEventLabelComponent component (ae_Labels ae) \<rparr>
      in case create ae' of
           Some err \<Rightarrow> (Some (ErrAuditWrite @ '': '' @ err), log)
         | None \<Rightarrow> (None, ae' # log))"

end
