(* ===== verification/Webhook_Policy.thy ===== *)
theory Webhook_Policy
  imports Webhook_Base Audit_Events
begin

text \<open>
  The validating webhook of BrokerPolicies (\<open>src/internal/webhook/v1alpha1/brokerpolicy_webhook.go\<close>),
  validator by validator, and the webhook of AuditEvents (\<open>auditevent_webhook.go\<close>). The admission
  audit fails open: the decision never depends on the sink.
\<close>

section \<open>Provider configuration\<close>

definition MaxDiscoveryWindow :: duration where
  "MaxDiscoveryWindow = 7 * 24 * 60 * minute"

text \<open>The regular expression \<open>^[1-9][0-9]{0,19}$\<close>.\<close>

definition gitHubAppNumericID :: "string \<Rightarrow> bool" where
  "gitHubAppNumericID s \<longleftrightarrow> s \<noteq> [] \<and> length s \<le> 20 \<and> list_all isDigit s \<and> hd s \<noteq> CHR ''0''"

definition validateInContainer :: "field_path \<Rightarrow> InContainerDelivery \<Rightarrow> field_error list" where
  "validateInContainer p ic =
     (if \<not> ic_Accepted ic then [fieldErr FieldInvalid (p @ [Child ''accepted''])
        ''accepted must be true to deliver a secret in-container; set it with a reason or use deliveryMode.proxyInjected instead''] else [])
     @ (if length (TrimSpace (ic_Reason ic)) < 20 then [fieldErr FieldInvalid (p @ [Child ''reason''])
        ''reason must be at least 20 characters explaining why in-container delivery is needed''] else [])"

definition count_set :: "bool list \<Rightarrow> nat" where
  "count_set bs = length (filter (\<lambda>b. b) bs)"

definition validateProxyInjected :: "webhook_env \<Rightarrow> field_path \<Rightarrow> ProxyInjectedDelivery \<Rightarrow> field_error list" where
  "validateProxyInjected w p pinj =
     (let cnt = count_set [pi_Header pinj \<noteq> None, pi_QueryParam pinj \<noteq> None, pi_BasicAuth pinj \<noteq> None]
      in (if pi_Hosts pinj = [] then [fieldErr FieldRequired (p @ [Child ''hosts''])
            ''at least one host is required for proxy-injected delivery''] else [])
       @ validateHosts w (p @ [Child ''hosts'']) (pi_Hosts pinj)
       @ (if cnt = 0 then [fieldErr FieldRequired p ''exactly one of header/queryParam/basicAuth must be set'']
          else if cnt = 1 then []
          else [fieldErr FieldInvalid p ''exactly one of header/queryParam/basicAuth must be set; multiple were provided''])
       @ (case pi_Header pinj of None \<Rightarrow> [] | Some h \<Rightarrow>
            if TrimSpace (hs_Name h) = [] then [fieldErr FieldRequired (p @ [Child ''header'', Child ''name'']) []] else [])
       @ (case pi_QueryParam pinj of None \<Rightarrow> [] | Some q \<Rightarrow>
            if TrimSpace (qs_Name q) = [] then [fieldErr FieldRequired (p @ [Child ''queryParam'', Child ''name'']) []] else [])
       @ (case pi_BasicAuth pinj of None \<Rightarrow> [] | Some b \<Rightarrow>
            if TrimSpace (bs_Username b) = [] then [fieldErr FieldRequired (p @ [Child ''basicAuth'', Child ''username'']) []] else []))"

definition deliveryModeRequiredMsg :: string where
  "deliveryModeRequiredMsg =
     ''provider '' @ fmt_q ''UserSuppliedSecret'' @ '' requires deliveryMode. Set deliveryMode.proxyInjected (with hosts + one of header/queryParam/basicAuth) to inject the real value at the proxy, or deliveryMode.inContainer (with accepted=true and a reason) to accept that the secret will be visible to the agent container.''"

definition validateDeliveryMode :: "webhook_env \<Rightarrow> field_path \<Rightarrow> DeliveryMode option \<Rightarrow> field_error list" where
  "validateDeliveryMode w p odm =
     (case odm of
        None \<Rightarrow> [fieldErr FieldRequired p deliveryModeRequiredMsg]
      | Some dm \<Rightarrow>
          (let cnt = count_set [dm_ProxyInjected dm \<noteq> None, dm_InContainer dm \<noteq> None]
           in (if cnt = 0 then [fieldErr FieldInvalid p ''exactly one of proxyInjected or inContainer must be set'']
               else if cnt = 1 then []
               else [fieldErr FieldInvalid p ''exactly one of proxyInjected or inContainer must be set; both were provided''])
            @ (case dm_ProxyInjected dm of None \<Rightarrow> [] | Some pinj \<Rightarrow> validateProxyInjected w (p @ [Child ''proxyInjected'']) pinj)
            @ (case dm_InContainer dm of None \<Rightarrow> [] | Some ic \<Rightarrow> validateInContainer (p @ [Child ''inContainer'']) ic)))"

definition requireSecretRef :: "field_path \<Rightarrow> string \<Rightarrow> ProviderConfig \<Rightarrow> field_error list" where
  "requireSecretRef p msg cfg = (if pc_SecretRef cfg = None then [fieldErr FieldRequired (p @ [Child ''secretRef'']) msg] else [])"

definition forbidAppIDs :: "field_path \<Rightarrow> string \<Rightarrow> ProviderConfig \<Rightarrow> field_error list" where
  "forbidAppIDs p msg cfg =
     (if pc_AppID cfg \<noteq> [] \<or> pc_InstallationID cfg \<noteq> [] then [fieldErr FieldForbidden p msg] else [])"

definition validateAppID :: "field_path \<Rightarrow> string \<Rightarrow> string \<Rightarrow> field_error list" where
  "validateAppID p hint v =
     (if v = [] then [fieldErr FieldRequired p ''required for GitHubApp provider'']
      else if \<not> gitHubAppNumericID v then [fieldErr FieldInvalid p hint] else [])"

definition validateProviderConfig :: "webhook_env \<Rightarrow> field_path \<Rightarrow> ProviderConfig \<Rightarrow> field_error list" where
  "validateProviderConfig w p cfg =
     (let kind = pc_Kind cfg; quoted = ''provider kind '' @ fmt_q kind
      in if kind = [] then [fieldErr FieldRequired (p @ [Child ''kind'']) []]
         else
           (if kind \<noteq> ''UserSuppliedSecret'' \<and> pc_DeliveryMode cfg \<noteq> None
            then [fieldErr FieldForbidden (p @ [Child ''deliveryMode'']) ''deliveryMode is only valid for UserSuppliedSecret''] else [])
         @ (if kind = ''UserSuppliedSecret'' then
              requireSecretRef p ''UserSuppliedSecret requires secretRef'' cfg
              @ forbidAppIDs p ''UserSuppliedSecret must not set appId or installationId'' cfg
              @ (if pc_Hosts cfg \<noteq> [] then [fieldErr FieldForbidden (p @ [Child ''hosts''])
                   ''for UserSuppliedSecret, hosts live under deliveryMode.proxyInjected.hosts''] else [])
              @ validateDeliveryMode w (p @ [Child ''deliveryMode'']) (pc_DeliveryMode cfg)
            else if kind = ''AnthropicAPI'' then
              requireSecretRef p (quoted @ '' requires secretRef'') cfg
              @ forbidAppIDs p (quoted @ '' must not set appId or installationId'') cfg
            else if kind = ''PATPool'' then
              requireSecretRef p (quoted @ '' requires secretRef'') cfg
              @ forbidAppIDs p (quoted @ '' must not set appId or installationId'') cfg
              @ (if pc_Hosts cfg = [] then [fieldErr FieldRequired (p @ [Child ''hosts''])
                   ''PATPool requires hosts: list the destinations these PATs may be substituted on''] else [])
            else if kind = ''GitHubApp'' then
              validateAppID (p @ [Child ''appId''])
                ''appId must be a positive integer (1-20 digits); find it on the GitHub App settings page (https://github.com/settings/apps/<app>) or via gh api /app''
                (pc_AppID cfg)
              @ validateAppID (p @ [Child ''installationId''])
                ''installationId must be a positive integer (1-20 digits); find it via gh api /users/{user}/installation or in the installation URL https://github.com/settings/installations/<id>''
                (pc_InstallationID cfg)
              @ requireSecretRef p ''required for GitHubApp provider (holds the app private key)'' cfg
            else [])
         @ (case pc_SecretRef cfg of None \<Rightarrow> [] | Some ref \<Rightarrow>
              (if skr_Name ref = [] then [fieldErr FieldRequired (p @ [Child ''secretRef'', Child ''name'']) []] else [])
              @ (if skr_Key ref = [] then [fieldErr FieldRequired (p @ [Child ''secretRef'', Child ''key'']) []] else []))
         @ validateHosts w (p @ [Child ''hosts'']) (pc_Hosts cfg))"

section \<open>Grants\<close>

definition validateCredentialGrants :: "webhook_env \<Rightarrow> field_path \<Rightarrow> CredentialGrant list \<Rightarrow> field_error list" where
  "validateCredentialGrants w p grants =
     unique_loop
       (\<lambda>i g. if cg_Name g = [] then [fieldErr FieldRequired (p @ [Index i, Child ''name'']) []]
               else validateProviderConfig w (p @ [Index i, Child ''provider'']) (cg_Provider g))
       (\<lambda>g. cg_Name g = []) cg_Name
       (\<lambda>i g prev. fieldErr FieldInvalid (p @ [Index i, Child ''name''])
          (''name '' @ [dquote] @ cg_Name g @ [dquote] @ '' collides with credentials['' @ fmt_d (int prev) @ ''].name''))
       0 [] grants"

definition validateEgressGrants :: "webhook_env \<Rightarrow> field_path \<Rightarrow> EgressGrant list \<Rightarrow> field_error list" where
  "validateEgressGrants w p grants =
     for_each (\<lambda>i g. validateExternalHost w (p @ [Index i, Child ''host'']) (eg_Host g)
                      @ validatePorts (p @ [Index i]) (eg_Ports g)) grants"

definition validateGitRepoGrants :: "field_path \<Rightarrow> GitRepoGrant list \<Rightarrow> field_error list" where
  "validateGitRepoGrants p grants =
     unique_loop
       (\<lambda>i g. (if gr_Owner g = [] then [fieldErr FieldRequired (p @ [Index i, Child ''owner'']) []] else [])
               @ (if gr_Repo g = [] then [fieldErr FieldRequired (p @ [Index i, Child ''repo'']) []] else []))
       (\<lambda>g. gr_Owner g = [] \<or> gr_Repo g = []) (\<lambda>g. gr_Owner g @ ''/'' @ gr_Repo g)
       (\<lambda>i g prev. fieldErr FieldDuplicate (p @ [Index i])
          (gr_Owner g @ ''/'' @ gr_Repo g @ '' collides with gitRepos['' @ fmt_d (int prev) @ '']''))
       0 [] grants"

definition phasesWithPod :: "HarnessRunPhase list" where
  "phasesWithPod = [PhaseRunning, PhaseIdle, PhaseSucceeded, PhaseFailed, PhaseCancelled]"

definition phasesWithPodList :: "string list" where
  "phasesWithPodList = [''Cancelled'', ''Failed'', ''Idle'', ''Running'', ''Succeeded'']"

definition validateRunsGrant :: "field_path \<Rightarrow> GrantRunsCapabilities option \<Rightarrow> field_error list" where
  "validateRunsGrant p inp =
     (case Option.bind inp rc_Shell of
        None \<Rightarrow> []
      | Some sh \<Rightarrow>
          (let sp = p @ [Child ''shell'']
           in for_each (\<lambda>i ph. if ph \<notin> set phasesWithPod
                then [fieldErr FieldNotSupported (sp @ [Child ''allowedPhases'', Index i]) (Join phasesWithPodList '', '')] else [])
                (sc_AllowedPhases sh)
            @ for_each (\<lambda>i c. if c = [] then [fieldErr FieldInvalid (sp @ [Child ''command'', Index i]) ''must be non-empty''] else [])
                (sc_Command sh)
            @ (case sc_Command sh of [] \<Rightarrow> [] | c # _ \<Rightarrow>
                 if c \<noteq> [] \<and> \<not> HasPrefix c ''/''
                 then [fieldErr FieldInvalid (sp @ [Child ''command'', Index 0]) ''must be an absolute path''] else [])))"

definition hostCoveredByAnyEgress :: "string \<Rightarrow> EgressGrant list \<Rightarrow> bool" where
  "hostCoveredByAnyEgress candidate0 egress =
     (let candidate = ToLower (TrimSpace candidate0)
      in list_ex (\<lambda>e. let eh = ToLower (TrimSpace (eg_Host e))
           in if HasPrefix eh ''*.''
              then HasSuffix candidate (drop 1 eh) \<and> candidate \<noteq> drop 2 eh
              else eh = candidate) egress)"

definition grant_hosts :: "CredentialGrant \<Rightarrow> string list" where
  "grant_hosts cg =
     (case Option.bind (pc_DeliveryMode (cg_Provider cg)) dm_ProxyInjected of
        Some pinj \<Rightarrow> pi_Hosts pinj
      | None \<Rightarrow> pc_Hosts (cg_Provider cg))"

definition grant_hosts_path :: "field_path \<Rightarrow> CredentialGrant \<Rightarrow> field_path" where
  "grant_hosts_path p cg =
     p @ (case Option.bind (pc_DeliveryMode (cg_Provider cg)) dm_ProxyInjected of
            Some _ \<Rightarrow> [Child ''provider'', Child ''deliveryMode'', Child ''proxyInjected'', Child ''hosts'']
          | None \<Rightarrow> [Child ''provider'', Child ''hosts''])"

definition validateCredentialHostsCoveredByEgress :: "field_path \<Rightarrow> BrokerPolicyGrants \<Rightarrow> field_error list" where
  "validateCredentialHostsCoveredByEgress p g =
     for_each (\<lambda>i cg.
       for_each (\<lambda>j h. if \<not> hostCoveredByAnyEgress h (gs_Egress g)
         then [fieldErr FieldInvalid (grant_hosts_path (p @ [Child ''credentials'', Index i]) cg @ [Index j])
                (''host '' @ fmt_q h @ '' is not covered by any egress grant; add an entry to spec.grants.egress (globs with leading ''
                  @ [CHR 0x27] @ ''*.'' @ [CHR 0x27] @ '' are supported)'')]
         else []) (grant_hosts cg)) (gs_Credentials g)"

section \<open>Interception and discovery\<close>

definition validateInterception :: "field_path \<Rightarrow> InterceptionSpec option \<Rightarrow> field_error list" where
  "validateInterception p oi =
     (case oi of
        None \<Rightarrow> []
      | Some i \<Rightarrow>
          (let cnt = count_set [is_Transparent i \<noteq> None, is_CooperativeAccepted i \<noteq> None];
               cp = p @ [Child ''cooperativeAccepted'']
           in (if cnt = 0 then [fieldErr FieldInvalid p
                 ''exactly one of transparent or cooperativeAccepted must be set; omit spec.interception to default to transparent'']
               else if cnt = 1 then []
               else [fieldErr FieldInvalid p ''exactly one of transparent or cooperativeAccepted must be set; both were provided''])
            @ (case is_CooperativeAccepted i of None \<Rightarrow> [] | Some ca \<Rightarrow>
                 (if \<not> ca_Accepted ca then [fieldErr FieldInvalid (cp @ [Child ''accepted''])
                    ''accepted must be true to opt into cooperative interception; omit spec.interception (or set spec.interception.transparent) to use the safer default''] else [])
                 @ (if length (TrimSpace (ca_Reason ca)) < 20 then [fieldErr FieldInvalid (cp @ [Child ''reason''])
                    ''reason must be at least 20 characters explaining why cooperative interception is needed''] else []))))"

definition validateEgressDiscovery :: "field_path \<Rightarrow> EgressDiscoverySpec option \<Rightarrow> time \<Rightarrow> field_error list" where
  "validateEgressDiscovery p oed now =
     (case oed of
        None \<Rightarrow> []
      | Some ed \<Rightarrow>
          (if \<not> ed_Accepted ed then [fieldErr FieldInvalid (p @ [Child ''accepted''])
             ''accepted must be true to opt into a discovery window; omit spec.egressDiscovery to keep deny-by-default''] else [])
          @ (if length (TrimSpace (ed_Reason ed)) < 20 then [fieldErr FieldInvalid (p @ [Child ''reason''])
             ''reason must be at least 20 characters explaining why a discovery window is needed''] else [])
          @ (if IsZero (ed_ExpiresAt ed) \<or> \<not> ed_ExpiresAt ed > now
             then [fieldErr FieldInvalid (p @ [Child ''expiresAt'']) ''expiresAt must be in the future'']
             else if ed_ExpiresAt ed > now + MaxDiscoveryWindow
             then [fieldErr FieldInvalid (p @ [Child ''expiresAt''])
                    (''expiresAt must be within '' @ fmt_d 7 @ '' days of now'')]
             else []))"

section \<open>The spec and the webhook\<close>

definition validateSelectors :: "field_path \<Rightarrow> string list \<Rightarrow> field_error list" where
  "validateSelectors p sels =
     (if sels = [] then [fieldErr FieldRequired p ''at least one template selector is required''] else [])
     @ for_each (\<lambda>i sel.
         if TrimSpace sel = [] then [fieldErr FieldInvalid (p @ [Index i]) ''selector must not be empty'']
         else (case ValidateAppliesToTemplate (TrimSpace sel) of
                 None \<Rightarrow> []
               | Some err \<Rightarrow> [fieldErr FieldInvalid (p @ [Index i]) (''selector is not a valid glob pattern: '' @ err)])) sels"

definition brokerPolicyErrors :: "webhook_env \<Rightarrow> BrokerPolicySpec \<Rightarrow> time \<Rightarrow> field_error list" where
  "brokerPolicyErrors w spec now =
     (let sp = [Child ''spec'']; gp = sp @ [Child ''grants'']; g = bps_Grants spec
      in validateSelectors (sp @ [Child ''appliesToTemplates'']) (bps_AppliesToTemplates spec)
       @ validateCredentialGrants w (gp @ [Child ''credentials'']) (gs_Credentials g)
       @ validateEgressGrants w (gp @ [Child ''egress'']) (gs_Egress g)
       @ validateGitRepoGrants (gp @ [Child ''gitRepos'']) (gs_GitRepos g)
       @ validateCredentialHostsCoveredByEgress gp g
       @ validateRunsGrant (gp @ [Child ''runs'']) (gs_Runs g)
       @ validateInterception (sp @ [Child ''interception'']) (bps_Interception spec)
       @ validateEgressDiscovery (sp @ [Child ''egressDiscovery'']) (bps_EgressDiscovery spec) now)"

definition validateBrokerPolicySpec :: "webhook_env \<Rightarrow> BrokerPolicySpec \<Rightarrow> time \<Rightarrow> error_msg option" where
  "validateBrokerPolicySpec w spec now = aggregate w (brokerPolicyErrors w spec now)"

text \<open>
  One admission: the decision, and the event handed to the sink. A sink error is logged and dropped,
  so the log of written events is extended only when \<open>sink\<close> accepts.
\<close>

definition auditAdmission ::
  "(AuditEvent \<Rightarrow> bool) \<Rightarrow> time \<Rightarrow> AdmissionInput \<Rightarrow> error_msg option \<Rightarrow> AuditEvent list \<Rightarrow> AuditEvent list" where
  "auditAdmission sink now inp err log =
     (let ae = (case err of
                  None \<Rightarrow> NewPolicyApplied now (inp\<lparr> ai_Reason := ''admitted'' \<rparr>)
                | Some m \<Rightarrow> NewPolicyRejected now (inp\<lparr> ai_Reason := m \<rparr>))
      in if sink ae then ae # log else log)"

definition policyValidate ::
  "webhook_env \<Rightarrow> (AuditEvent \<Rightarrow> bool) \<Rightarrow> time \<Rightarrow> string \<Rightarrow> BrokerPolicy \<Rightarrow> AuditEvent list \<Rightarrow> error_msg option \<times> AuditEvent list" where
  "policyValidate w sink now uid bp log =
     (let err = validateBrokerPolicySpec w (bp_Spec bp) now;
          owner = \<lparr> or_APIVersion = ''paddock.dev/v1alpha1'', or_Kind = ''BrokerPolicy'', or_Name = bp_Name bp, or_UID = uid \<rparr>
      in (err, auditAdmission sink now
                 \<lparr> ai_RunName = [], ai_Namespace = bp_Namespace bp, ai_TemplateRef = [], ai_Reason = [], ai_When = 0,
                   ai_OwnerRef = Some owner \<rparr> err log))"

section \<open>AuditEvents\<close>

definition auditEventErrors :: "AuditEventSpec \<Rightarrow> field_error list" where
  "auditEventErrors spec =
     (let sp = [Child ''spec'']
      in (if aes_Decision spec = AuditDecisionUnset then [fieldErr FieldRequired (sp @ [Child ''decision'']) []] else [])
       @ (if aes_Kind spec = AuditKindUnset then [fieldErr FieldRequired (sp @ [Child ''kind'']) []] else [])
       @ (if IsZero (aes_Timestamp spec) then [fieldErr FieldRequired (sp @ [Child ''timestamp'']) []] else [])
       @ (if aes_Kind spec = AuditKindEgressBlockSummary
          then (if aes_Count spec < 1 then [fieldErr FieldRequired (sp @ [Child ''count''])
                  ''summary events must set count >= 1''] else [])
             @ (if aes_WindowStart spec = None \<or> aes_WindowEnd spec = None
                then [fieldErr FieldRequired (sp @ [Child ''windowStart'']) ''summary events must set windowStart and windowEnd''] else [])
          else if aes_Count spec \<noteq> 0 \<and> aes_Count spec \<noteq> 1
          then [fieldErr FieldInvalid (sp @ [Child ''count'']) ''count is only valid on summary kinds; leave zero for single events'']
          else []))"

definition validateAuditEventSpec :: "webhook_env \<Rightarrow> AuditEventSpec \<Rightarrow> error_msg option" where
  "validateAuditEventSpec w spec = aggregate w (auditEventErrors spec)"

definition auditEventValidateUpdate :: "AuditEvent \<Rightarrow> AuditEvent \<Rightarrow> error_msg option" where
  "auditEventValidateUpdate old new =
     (if ae_Spec old \<noteq> ae_Spec new then Some ''spec is immutable: AuditEvent is write-once (ADR-0016)'' else None)"

end
