(* ===== verification/Webhook_Run.thy ===== *)
theory Webhook_Run
  imports Webhook_Policy
begin

text \<open>
  The validating webhooks of templates (\<open>harnesstemplate_shared.go\<close>), runs (\<open>harnessrun_webhook.go\<close>) and
  workspaces (\<open>workspace_webhook.go\<close>) under \<open>src/internal/webhook/v1alpha1\<close>. The run webhook is where
  the policy engine decides on admission.
\<close>

section \<open>Templates\<close>

definition MaxTerminationGracePeriodSeconds :: int where
  "MaxTerminationGracePeriodSeconds = 300"

definition validateTerminationGracePeriodSeconds :: "int option \<Rightarrow> field_path \<Rightarrow> field_error list" where
  "validateTerminationGracePeriodSeconds v p =
     (case v of
        None \<Rightarrow> []
      | Some n \<Rightarrow>
          if n < 0 then [fieldErr FieldInvalid p ''must be non-negative'']
          else if n > MaxTerminationGracePeriodSeconds
          then [fieldErr FieldInvalid p (''must be <= '' @ fmt_d MaxTerminationGracePeriodSeconds
                 @ '' (5 minutes); values above this bound would keep credential-bearing sidecar volumes mounted after run deletion'')]
          else [])"

definition validateRequireSpec :: "webhook_env \<Rightarrow> field_path \<Rightarrow> RequireSpec \<Rightarrow> field_error list" where
  "validateRequireSpec w p req =
     unique_loop
       (\<lambda>i c. if cr_Name c = [] then [fieldErr FieldRequired (p @ [Child ''credentials'', Index i, Child ''name'']) []] else [])
       (\<lambda>c. cr_Name c = []) cr_Name
       (\<lambda>i c prev. fieldErr FieldDuplicate (p @ [Child ''credentials'', Index i, Child ''name''])
          (''name '' @ fmt_q (cr_Name c) @ '' collides with credentials['' @ fmt_d (int prev) @ ''].name''))
       0 [] (rq_Credentials req)
     @ for_each (\<lambda>i e. validateExternalHost w (p @ [Child ''egress'', Index i, Child ''host'']) (er_Host e)
                        @ validatePorts (p @ [Child ''egress'', Index i]) (er_Ports e)) (rq_Egress req)"

definition mustBePositive :: "field_path \<Rightarrow> (string \<times> duration option) list \<Rightarrow> field_error list" where
  "mustBePositive p fs =
     concat (map (\<lambda>(name, v). case v of None \<Rightarrow> [] | Some d \<Rightarrow>
       if d \<le> 0 then [fieldErr FieldInvalid (p @ [Child name]) ''must be positive''] else []) fs)"

definition notExceeding :: "field_path \<Rightarrow> string \<Rightarrow> duration option \<Rightarrow> string \<Rightarrow> duration option \<Rightarrow> field_error list" where
  "notExceeding p name v limName lim =
     (case (v, lim) of
        (Some d, Some l) \<Rightarrow> if d > l then [fieldErr FieldInvalid (p @ [Child name]) (name @ '' must not exceed '' @ limName)] else []
      | _ \<Rightarrow> [])"

definition validateInteractiveSpec :: "InteractiveSpec option \<Rightarrow> field_path \<Rightarrow> field_error list" where
  "validateInteractiveSpec oin p =
     (case oin of
        None \<Rightarrow> []
      | Some inp \<Rightarrow>
          mustBePositive p [(''idleTimeout'', ints_IdleTimeout inp), (''detachIdleTimeout'', ints_DetachIdleTimeout inp),
            (''detachTimeout'', ints_DetachTimeout inp), (''maxLifetime'', ints_MaxLifetime inp)]
          @ notExceeding p ''idleTimeout'' (ints_IdleTimeout inp) ''maxLifetime'' (ints_MaxLifetime inp)
          @ notExceeding p ''detachTimeout'' (ints_DetachTimeout inp) ''maxLifetime'' (ints_MaxLifetime inp)
          @ notExceeding p ''detachIdleTimeout'' (ints_DetachIdleTimeout inp) ''idleTimeout'' (ints_IdleTimeout inp))"

definition inheritedMsg :: string where
  "inheritedMsg = ''must be empty when baseTemplateRef is set; inherited from the base template''"

definition harnessTemplateErrors :: "webhook_env \<Rightarrow> HarnessTemplateSpec \<Rightarrow> bool \<Rightarrow> field_error list" where
  "harnessTemplateErrors w spec isClusterScoped =
     (let sp = [Child ''spec''];
          inheriting = (\<not> isClusterScoped \<and> hts_BaseTemplateRef spec \<noteq> None);
          locked = (\<lambda>set name. if set then [fieldErr FieldForbidden (sp @ [Child name]) inheritedMsg] else [])
      in (if isClusterScoped \<and> hts_BaseTemplateRef spec \<noteq> None
          then [fieldErr FieldForbidden (sp @ [Child ''baseTemplateRef'']) ''ClusterHarnessTemplate cannot inherit from another template''] else [])
       @ (if inheriting then
            locked (hts_Image spec \<noteq> []) ''image''
            @ locked (hts_Command spec \<noteq> []) ''command''
            @ locked (hts_Args spec \<noteq> []) ''args''
            @ locked (hts_Runtime spec \<noteq> None) ''runtime''
            @ locked (hts_Workspace spec \<noteq> \<lparr> wr_Required = False, wr_MountPath = [] \<rparr>) ''workspace''
          else
            (if hts_Image spec = [] then [fieldErr FieldRequired (sp @ [Child ''image'']) ''image is required when baseTemplateRef is not set''] else [])
            @ (if hts_Command spec = [] then [fieldErr FieldRequired (sp @ [Child ''command'']) ''command is required when baseTemplateRef is not set''] else []))
       @ (case hts_Runtime spec of None \<Rightarrow> [] | Some rt \<Rightarrow>
            if rts_Image rt = [] then [fieldErr FieldRequired (sp @ [Child ''runtime'', Child ''image'']) ''runtime.image is required when runtime is set''] else [])
       @ validateTerminationGracePeriodSeconds (htd_TerminationGracePeriodSeconds (hts_Defaults spec))
           (sp @ [Child ''defaults'', Child ''terminationGracePeriodSeconds''])
       @ validateRequireSpec w (sp @ [Child ''requires'']) (hts_Requires spec)
       @ validateInteractiveSpec (hts_Interactive spec) (sp @ [Child ''interactive'']))"

definition validateHarnessTemplateSpec :: "webhook_env \<Rightarrow> HarnessTemplateSpec \<Rightarrow> bool \<Rightarrow> error_msg option" where
  "validateHarnessTemplateSpec w spec isClusterScoped = aggregate w (harnessTemplateErrors w spec isClusterScoped)"

section \<open>Runs: the spec\<close>

definition reservedExtraEnvLiterals :: "string list" where
  "reservedExtraEnvLiterals =
     [''HTTPS_PROXY'', ''HTTP_PROXY'', ''NO_PROXY'', ''SSL_CERT_FILE'', ''NODE_EXTRA_CA_CERTS'', ''REQUESTS_CA_BUNDLE'', ''GIT_SSL_CAINFO'']"

definition reservedExtraEnvPrefix :: string where
  "reservedExtraEnvPrefix = ''PADDOCK_''"

definition validateExtraEnv :: "field_path \<Rightarrow> EnvVar list \<Rightarrow> field_error list" where
  "validateExtraEnv p env =
     for_each (\<lambda>i e.
       (if ev_Name e \<in> set reservedExtraEnvLiterals \<or> HasPrefix (ev_Name e) reservedExtraEnvPrefix
        then [fieldErr FieldForbidden (p @ [Index i, Child ''name''])
               ''env name is reserved by the controller; see docs/internal/specs/0002-broker-proxy-v0.3.md''] else [])
       @ (if ev_ValueFrom e \<noteq> None
          then [fieldErr FieldForbidden (p @ [Index i, Child ''valueFrom''])
                 ''valueFrom is not permitted on extraEnv; use a literal value, or declare a credential on the template's requires and grant via a BrokerPolicy''] else [])) env"

definition validateRunInteractiveSpec :: "HarnessRunSpec \<Rightarrow> field_path \<Rightarrow> field_error list" where
  "validateRunInteractiveSpec spec p =
     (case hrs_InteractiveOverrides spec of
        None \<Rightarrow> []
      | Some ov \<Rightarrow>
          (let op = p @ [Child ''interactiveOverrides'']
           in if hrs_Mode spec \<noteq> HarnessRunModeInteractive
              then [fieldErr FieldForbidden op ''interactiveOverrides may only be set when spec.mode == Interactive'']
              else mustBePositive op [(''idleTimeout'', io_IdleTimeout ov), (''detachIdleTimeout'', io_DetachIdleTimeout ov),
                     (''detachTimeout'', io_DetachTimeout ov), (''maxLifetime'', io_MaxLifetime ov)]))"

definition harnessRunErrors :: "HarnessRunSpec \<Rightarrow> field_error list" where
  "harnessRunErrors spec =
     (let sp = [Child ''spec'']; hasPrompt = (hrs_Prompt spec \<noteq> []); hasPromptFrom = (hrs_PromptFrom spec \<noteq> None)
      in (if tr_Name (hrs_TemplateRef spec) = [] then [fieldErr FieldRequired (sp @ [Child ''templateRef'', Child ''name'']) []] else [])
       @ (if hasPrompt \<and> hasPromptFrom then [fieldErr FieldForbidden sp ''exactly one of prompt or promptFrom may be set'']
          else if \<not> hasPrompt \<and> \<not> hasPromptFrom then [fieldErr FieldRequired sp ''one of prompt or promptFrom must be set'']
          else [])
       @ (if hasPrompt \<and> length (hrs_Prompt spec) > MaxInlinePromptBytes then [fieldErr FieldTooLong (sp @ [Child ''prompt'']) []] else [])
       @ (case hrs_PromptFrom spec of None \<Rightarrow> [] | Some pf \<Rightarrow>
            if ps_ConfigMapKeyRef pf \<noteq> None \<and> ps_SecretKeyRef pf \<noteq> None
            then [fieldErr FieldForbidden (sp @ [Child ''promptFrom'']) ''exactly one of configMapKeyRef or secretKeyRef may be set'']
            else if ps_ConfigMapKeyRef pf = None \<and> ps_SecretKeyRef pf = None
            then [fieldErr FieldRequired (sp @ [Child ''promptFrom'']) ''one of configMapKeyRef or secretKeyRef must be set'']
            else [])
       @ validateExtraEnv (sp @ [Child ''extraEnv'']) (hrs_ExtraEnv spec)
       @ validateRunInteractiveSpec spec sp)"

definition validateHarnessRunSpec :: "webhook_env \<Rightarrow> HarnessRunSpec \<Rightarrow> error_msg option" where
  "validateHarnessRunSpec w spec = aggregate w (harnessRunErrors spec)"

section \<open>Runs: against the template and the policies\<close>

definition adapterInteractiveModesAnnotation :: string where
  "adapterInteractiveModesAnnotation = ''paddock.dev/runtime-interactive-modes''"

definition lookupTemplateAnnotations :: "kube \<Rightarrow> string \<Rightarrow> TemplateRef \<Rightarrow> api_error + (string, string) gomap" where
  "lookupTemplateAnnotations c namespace ref =
     (let namespaced = map_sum id ht_Annotations (getTemplate c namespace (tr_Name ref));
          cluster = map_sum id ht_Annotations (getClusterTemplate c (tr_Name ref))
      in if tr_Kind ref = ''HarnessTemplate'' then namespaced
         else if tr_Kind ref = ''ClusterHarnessTemplate'' then cluster
         else if tr_Kind ref = [] \<or> tr_Kind ref = ''namespaced-first'' then
           (case namespaced of
              Inr a \<Rightarrow> Inr a
            | Inl err \<Rightarrow> if \<not> IsNotFound err then Inl err else cluster)
         else Inr [])"

definition validateInteractiveModeAnnotation :: "kube \<Rightarrow> HarnessRun \<Rightarrow> string \<Rightarrow> error_msg option" where
  "validateInteractiveModeAnnotation c run mode =
     (case lookupTemplateAnnotations c (hr_Namespace run) (hr_TemplateRef run) of
        Inl err \<Rightarrow> Some (''reading template annotations: '' @ api_Error err)
      | Inr annotations \<Rightarrow>
          (case map_of annotations adapterInteractiveModesAnnotation of
             None \<Rightarrow> None
           | Some declared \<Rightarrow>
               if TrimSpace declared = [] then None
               else if list_ex (\<lambda>m. TrimSpace m = mode) (SplitByte declared CHR '','') then None
               else Some (''template '' @ fmt_q (tr_Name (hr_TemplateRef run)) @ '' interactive.mode='' @ fmt_q mode
                      @ '' is not in '' @ adapterInteractiveModesAnnotation @ '' annotation ['' @ declared @ '']'')))"

definition noInteractGrantMsg :: "HarnessRun \<Rightarrow> error_msg" where
  "noInteractGrantMsg run =
     ''no matching BrokerPolicy grants runs.interact for template '' @ fmt_q (tr_Name (hr_TemplateRef run))
       @ '' in namespace '' @ fmt_q (hr_Namespace run)
       @ ''; add grants.runs.interact: true to a BrokerPolicy that applies to this template''"

text \<open>The part of \<open>validateAgainstTemplate\<close> after the template and its interactive mode are settled.\<close>

definition validateAgainstPolicies :: "kube \<Rightarrow> time \<Rightarrow> HarnessRun \<Rightarrow> HarnessTemplateSpec \<Rightarrow> error_msg option" where
  "validateAgainstPolicies c now run spec =
     (let tpl = tr_Name (hr_TemplateRef run); ns = hr_Namespace run
      in case ListMatchingPolicies c ns tpl of
           Inl err \<Rightarrow> Some (''listing BrokerPolicies: '' @ api_Error err)
         | Inr matches \<Rightarrow>
             (let filtered = FilterUnexpired matches now
              in if filtered = [] \<and> matches \<noteq> []
                 then Some (''BrokerPolicy(s) '' @ Join (map bp_Name matches) '', ''
                        @ '' have expired egressDiscovery windows; advance or remove spec.egressDiscovery.expiresAt to resume admitting runs'')
                 else (let result = IntersectMatches filtered (hts_Requires spec)
                       in if \<not> ir_Admitted result then Some (DescribeShortfall result tpl ns)
                          else if hr_Mode run = HarnessRunModeInteractive \<and> \<not> ir_RunsInteract result
                          then Some (noInteractGrantMsg run)
                          else None)))"

definition validateAgainstTemplate :: "map_order \<Rightarrow> kube \<Rightarrow> time \<Rightarrow> HarnessRun \<Rightarrow> error_msg option" where
  "validateAgainstTemplate ord c now run =
     (case ResolveTemplate ord c (hr_Namespace run) (hr_TemplateRef run) of
        Inl err \<Rightarrow> if IsNotFound err then None else Some (''resolving template: '' @ api_Error err)
      | Inr (spec, _) \<Rightarrow>
          (let interactive = (hr_Mode run = HarnessRunModeInteractive);
               mode = (case hts_Interactive spec of None \<Rightarrow> [] | Some i \<Rightarrow> ints_Mode i);
               modeErr = (if \<not> interactive then None
                          else if mode = []
                          then Some (''template '' @ fmt_q (tr_Name (hr_TemplateRef run))
                                 @ '' does not declare spec.interactive.mode; Interactive runs require the template to declare an interactive mode'')
                          else validateInteractiveModeAnnotation c run mode)
           in case modeErr of
                Some err \<Rightarrow> Some err
              | None \<Rightarrow>
                  if RequiresEmpty (hts_Requires spec) \<and> \<not> interactive then None
                  else validateAgainstPolicies c now run spec))"

definition run_admission_input :: "HarnessRun \<Rightarrow> OwnerReference option \<Rightarrow> AdmissionInput" where
  "run_admission_input run owner =
     \<lparr> ai_RunName = hr_Name run, ai_Namespace = hr_Namespace run, ai_TemplateRef = tr_Name (hr_TemplateRef run),
       ai_Reason = [], ai_When = 0, ai_OwnerRef = owner \<rparr>"

definition runValidateCreate ::
  "webhook_env \<Rightarrow> map_order \<Rightarrow> kube \<Rightarrow> (AuditEvent \<Rightarrow> bool) \<Rightarrow> time \<Rightarrow> HarnessRun \<Rightarrow> AuditEvent list \<Rightarrow> error_msg option \<times> AuditEvent list" where
  "runValidateCreate w ord c sink now run log =
     (let err = (case validateHarnessRunSpec w (hr_Spec run) of
                   Some e \<Rightarrow> Some e
                 | None \<Rightarrow> validateAgainstTemplate ord c now run)
      in (err, auditAdmission sink now (run_admission_input run None) err log))"

definition runValidateUpdate ::
  "webhook_env \<Rightarrow> map_order \<Rightarrow> kube \<Rightarrow> (AuditEvent \<Rightarrow> bool) \<Rightarrow> time \<Rightarrow> HarnessRun \<Rightarrow> HarnessRun \<Rightarrow> AuditEvent list
    \<Rightarrow> error_msg option \<times> AuditEvent list" where
  "runValidateUpdate w ord c sink now old new log =
     (if hr_DeletionTimestamp new \<noteq> None then (None, log)
      else
        (let err = (if hr_Spec old \<noteq> hr_Spec new
                    then Some ''spec is immutable: submit a new HarnessRun to change configuration''
                    else (case validateHarnessRunSpec w (hr_Spec new) of
                            Some e \<Rightarrow> Some e
                          | None \<Rightarrow> validateAgainstTemplate ord c now new));
             owner = \<lparr> or_APIVersion = ''paddock.dev/v1alpha1'', or_Kind = ''HarnessRun'', or_Name = hr_Name new, or_UID = hr_UID new \<rparr>
         in (err, auditAdmission sink now (run_admission_input new (Some owner)) err log)))"

section \<open>Workspaces\<close>

record WorkspaceStorage =
  wst_Size :: int
  wst_StorageClass :: string
  wst_AccessMode :: string

record BrokerCredentialReference =
  bcr_Name :: string
  bcr_Key :: string

record WorkspaceGitSource =
  wgs_URL :: string
  wgs_Path :: string
  wgs_Branch :: string
  wgs_Depth :: int
  wgs_BrokerCredentialRef :: "BrokerCredentialReference option"
  wgs_CredentialsSecretRef :: "LocalObjectReference option"

record WorkspaceSeed =
  wse_Repos :: "WorkspaceGitSource list"

record WorkspaceSpec =
  wsp_Storage :: WorkspaceStorage
  wsp_Seed :: "WorkspaceSeed option"
  wsp_Ephemeral :: bool

text \<open>
  \<open>path.Clean\<close> of package \<open>path\<close>: the elements of the path are pushed on a stack; an empty element or a
  dot is skipped, a double dot removes an element, is dropped at the root, and is kept otherwise.
\<close>

fun clean_elems :: "bool \<Rightarrow> string list \<Rightarrow> string list \<Rightarrow> string list" where
  "clean_elems rooted st [] = rev st"
| "clean_elems rooted st (e # es) =
     (if e = [] \<or> e = ''.'' then clean_elems rooted st es
      else if e = ''..'' then
        (case st of
           [] \<Rightarrow> clean_elems rooted (if rooted then [] else [''..'']) es
         | s # st' \<Rightarrow> if s = ''..'' then clean_elems rooted (''..'' # st) es else clean_elems rooted st' es)
      else clean_elems rooted (e # st) es)"

definition path_Clean :: "string \<Rightarrow> string" where
  "path_Clean p =
     (let rooted = HasPrefix p ''/''; es = clean_elems rooted [] (SplitByte p CHR ''/'')
      in if rooted then ''/'' @ Join es ''/'' else if es = [] then ''.'' else Join es ''/'')"

definition isSSHURLLocal :: "string \<Rightarrow> bool" where
  "isSSHURLLocal raw =
     (if HasPrefix raw ''ssh://'' then True
      else if Contains raw ''://'' then False
      else (case IndexByte raw CHR ''@'' of
              None \<Rightarrow> False
            | Some at \<Rightarrow>
                at > 0 \<and>
                (let rest = drop (at + 1) raw
                 in case IndexByte rest CHR '':'' of
                      None \<Rightarrow> False
                    | Some colon \<Rightarrow> colon > 0 \<and> CHR ''/'' \<notin> set (take colon rest))))"

definition validateRepoURL :: "webhook_env \<Rightarrow> field_path \<Rightarrow> string \<Rightarrow> field_error option" where
  "validateRepoURL w p raw =
     (if raw = [] then None
      else if isSSHURLLocal raw then None
      else if \<not> HasPrefix raw ''https://'' then
        (case we_urlParse w raw of
           Inl _ \<Rightarrow> Some (fieldErr FieldInvalid p ''must be a valid URL'')
         | Inr u \<Rightarrow>
             if url_Scheme u = [] then Some (fieldErr FieldInvalid p ''must be a valid URL'')
             else Some (fieldErr FieldInvalid p (''scheme '' @ fmt_q (url_Scheme u)
                    @ '' is not allowed; only https:// or ssh:// (or scp-style user@host:path) accepted'')))
      else (case we_urlParse w raw of
              Inl _ \<Rightarrow> Some (fieldErr FieldInvalid p ''must be a valid URL'')
            | Inr u \<Rightarrow>
                if url_HasUser u
                then Some (fieldErr FieldInvalid p ''https URL must not contain userinfo; use credentialsSecretRef or brokerCredentialRef for credentials'')
                else None))"

definition validateRepoPath :: "field_path \<Rightarrow> string \<Rightarrow> field_error option" where
  "validateRepoPath p raw =
     (if HasPrefix raw ''/'' then Some (fieldErr FieldInvalid p ''must be a relative path'')
      else (let cleaned = path_Clean raw
            in if cleaned = ''.'' \<or> cleaned = ''/'' then Some (fieldErr FieldInvalid p ''must not resolve to the workspace root'')
               else if ''..'' \<in> set (SplitByte cleaned CHR ''/'')
               then Some (fieldErr FieldInvalid p ''must not contain '..' segments'')
               else None))"

definition opt_list :: "'a option \<Rightarrow> 'a list" where
  "opt_list x = (case x of None \<Rightarrow> [] | Some a \<Rightarrow> [a])"

definition validateRepoSource :: "webhook_env \<Rightarrow> field_path \<Rightarrow> WorkspaceGitSource \<Rightarrow> field_error list" where
  "validateRepoSource w p repo =
     (if wgs_URL repo = [] then [fieldErr FieldRequired (p @ [Child ''url'']) []]
      else opt_list (validateRepoURL w (p @ [Child ''url'']) (wgs_URL repo)))
     @ (if wgs_CredentialsSecretRef repo \<noteq> None \<and> wgs_BrokerCredentialRef repo \<noteq> None
        then [fieldErr FieldInvalid (p @ [Child ''brokerCredentialRef'']) ''must not be set together with credentialsSecretRef''] else [])
     @ (case wgs_BrokerCredentialRef repo of None \<Rightarrow> [] | Some b \<Rightarrow>
          (if bcr_Name b = [] then [fieldErr FieldRequired (p @ [Child ''brokerCredentialRef'', Child ''name'']) []] else [])
          @ (if bcr_Key b = [] then [fieldErr FieldRequired (p @ [Child ''brokerCredentialRef'', Child ''key'']) []] else [])
          @ (if isSSHURLLocal (wgs_URL repo)
             then [fieldErr FieldInvalid (p @ [Child ''brokerCredentialRef''])
                    ''broker-backed credentials are only valid for https URLs; use credentialsSecretRef for ssh''] else []))"

text \<open>The loop of \<open>validateWorkspaceRepos\<close>: \<open>seen\<close> maps a cleaned path to the index of its entry.\<close>

fun workspaceReposLoop ::
  "webhook_env \<Rightarrow> field_path \<Rightarrow> bool \<Rightarrow> nat \<Rightarrow> (string, nat) gomap \<Rightarrow> WorkspaceGitSource list \<Rightarrow> field_error list" where
  "workspaceReposLoop w p multi i seen [] = []"
| "workspaceReposLoop w p multi i seen (repo # repos) =
     (let ep = p @ [Index i]; trimmed = TrimSpace (wgs_Path repo); cleaned = path_Clean trimmed
      in validateRepoSource w ep repo
       @ (if trimmed = [] then
            (if multi then [fieldErr FieldRequired (ep @ [Child ''path'']) ''path is required when multiple repos are declared''] else [])
            @ workspaceReposLoop w p multi (Suc i) seen repos
          else (case validateRepoPath (ep @ [Child ''path'']) trimmed of
                  Some err \<Rightarrow> err # workspaceReposLoop w p multi (Suc i) seen repos
                | None \<Rightarrow>
                    (case map_of seen cleaned of
                       Some prev \<Rightarrow>
                         fieldErr FieldDuplicate (ep @ [Child ''path''])
                           (''path '' @ fmt_q trimmed @ '' collides with repos['' @ fmt_d (int prev) @ ''].path'')
                         # workspaceReposLoop w p multi (Suc i) seen repos
                     | None \<Rightarrow> workspaceReposLoop w p multi (Suc i) (mset_key cleaned i seen) repos))))"

definition validateWorkspaceRepos :: "webhook_env \<Rightarrow> field_path \<Rightarrow> WorkspaceGitSource list \<Rightarrow> field_error list" where
  "validateWorkspaceRepos w p repos = workspaceReposLoop w p (length repos > 1) 0 [] repos"

definition workspaceErrors :: "webhook_env \<Rightarrow> WorkspaceSpec \<Rightarrow> field_error list" where
  "workspaceErrors w spec =
     (let sp = [Child ''spec'']; rp = sp @ [Child ''seed'', Child ''repos'']
      in (if wst_Size (wsp_Storage spec) = 0 then [fieldErr FieldRequired (sp @ [Child ''storage'', Child ''size'']) ''storage size must be > 0''] else [])
       @ (case wsp_Seed spec of None \<Rightarrow> [] | Some seed \<Rightarrow>
            if wse_Repos seed = [] then [fieldErr FieldRequired rp ''at least one repo must be declared when seed is set'']
            else validateWorkspaceRepos w rp (wse_Repos seed)))"

definition validateWorkspaceSpec :: "webhook_env \<Rightarrow> WorkspaceSpec \<Rightarrow> error_msg option" where
  "validateWorkspaceSpec w spec = aggregate w (workspaceErrors w spec)"

definition workspaceValidateUpdate :: "webhook_env \<Rightarrow> WorkspaceSpec \<Rightarrow> WorkspaceSpec \<Rightarrow> error_msg option" where
  "workspaceValidateUpdate w old new =
     (if wsp_Storage old \<noteq> wsp_Storage new then Some ''spec.storage is immutable''
      else if wsp_Seed old \<noteq> wsp_Seed new then Some ''spec.seed is immutable''
      else validateWorkspaceSpec w new)"

end
