(* ===== verification/Webhook_Properties.thy ===== *)
theory Webhook_Properties
  imports Webhook_Run Fixtures
begin

text \<open>
  What admission guarantees to the rest of the system: policies, templates, runs, workspaces and audit
  events that pass their webhooks satisfy what the broker, the controller and the audit trail rely on.
\<close>

section \<open>Accepted policies\<close>

lemma brokerPolicyErrors_empty:
  assumes "validateBrokerPolicySpec w spec now = None"
  shows "validateCredentialGrants w [Child ''spec'', Child ''grants'', Child ''credentials''] (gs_Credentials (bps_Grants spec)) = []"
    and "validateEgressGrants w [Child ''spec'', Child ''grants'', Child ''egress''] (gs_Egress (bps_Grants spec)) = []"
    and "validateCredentialHostsCoveredByEgress [Child ''spec'', Child ''grants''] (bps_Grants spec) = []"
    and "validateEgressDiscovery [Child ''spec'', Child ''egressDiscovery''] (bps_EgressDiscovery spec) now = []"
  using assms by (auto simp: validateBrokerPolicySpec_def brokerPolicyErrors_def Let_def)

lemma accepted_grant:
  assumes "validateBrokerPolicySpec w spec now = None" "cg \<in> set (gs_Credentials (bps_Grants spec))"
  shows "\<exists>p. validateProviderConfig w p (cg_Provider cg) = []"
proof -
  let ?gs = "gs_Credentials (bps_Grants spec)" and ?p = "[Child ''spec'', Child ''grants'', Child ''credentials'']"
  from brokerPolicyErrors_empty(1) [OF assms(1)] obtain body where
    body: "\<And>i g. cg_Name g \<noteq> [] \<Longrightarrow> body i g = validateProviderConfig w (?p @ [Index i, Child ''provider'']) (cg_Provider g)"
      "\<forall>g \<in> set ?gs. cg_Name g \<noteq> []" "\<forall>j < length ?gs. body j (?gs ! j) = []"
    unfolding validateCredentialGrants_def by (subst (asm) unique_loop_empty) auto
  obtain j where "j < length ?gs" "?gs ! j = cg" using assms(2) by (auto simp: in_set_conv_nth)
  then show ?thesis using body assms(2) by metis
qed

text \<open>Of an accepted configuration: hosts are valid, and only user-supplied secrets have a delivery mode.\<close>

lemma accepted_config:
  assumes "validateProviderConfig w p cfg = []"
  shows "pc_DeliveryMode cfg \<noteq> None \<Longrightarrow> pc_Kind cfg = ''UserSuppliedSecret''"
    and "\<exists>q. validateHosts w q (pc_Hosts cfg) = []"
    and "pc_Kind cfg = ''UserSuppliedSecret'' \<Longrightarrow> \<exists>q. validateDeliveryMode w q (pc_DeliveryMode cfg) = []"
    and "pc_Kind cfg \<in> {''UserSuppliedSecret'', ''AnthropicAPI'', ''PATPool'', ''GitHubApp''} \<Longrightarrow> pc_SecretRef cfg \<noteq> None"
  using assms
  by (auto simp: validateProviderConfig_def Let_def requireSecretRef_def split: if_splits)

lemma accepted_delivery:
  assumes "validateDeliveryMode w p (Some dm) = []"
  shows "(dm_ProxyInjected dm = None) \<noteq> (dm_InContainer dm = None)"
    and "dm_ProxyInjected dm = Some pinj \<Longrightarrow> \<exists>q. validateHosts w q (pi_Hosts pinj) = []"
  using assms
  by (auto simp: validateDeliveryMode_def validateProxyInjected_def count_set_def Let_def split: option.splits if_splits)

lemma accepted_grant_hosts:
  assumes "validateProviderConfig w p (cg_Provider cg) = []" "h \<in> set (grant_hosts cg)"
  shows "\<exists>q. validateExternalHost w q h = []"
proof -
  have "\<exists>q. validateHosts w q (grant_hosts cg) = []"
  proof (cases "Option.bind (pc_DeliveryMode (cg_Provider cg)) dm_ProxyInjected")
    case None
    then show ?thesis using accepted_config(2) [OF assms(1)] by (simp add: grant_hosts_def)
  next
    case (Some pinj)
    then obtain dm where "pc_DeliveryMode (cg_Provider cg) = Some dm" "dm_ProxyInjected dm = Some pinj"
      by (auto simp: Option.bind_eq_Some_conv)
    then show ?thesis
      using accepted_config(1,3) [OF assms(1)] accepted_delivery(2) Some by (fastforce simp: grant_hosts_def)
  qed
  then show ?thesis using assms(2) by (auto simp: validateHosts_def dest: for_each_emptyD)
qed

text \<open>The webhook's notion of coverage is host matching, for names that do not start with a dot.\<close>

lemma hostCovered_matches:
  assumes "hostCoveredByAnyEgress h egress" "\<not> HasPrefix (TrimSpace h) ''.''"
  shows "\<exists>e \<in> set egress. EgressHostMatches (TrimSpace (eg_Host e)) (TrimSpace h)"
proof -
  let ?c = "ToLower (TrimSpace h)"
  obtain e where e: "e \<in> set egress"
    "if HasPrefix (ToLower (TrimSpace (eg_Host e))) ''*.''
     then HasSuffix ?c (drop 1 (ToLower (TrimSpace (eg_Host e)))) \<and> ?c \<noteq> drop 2 (ToLower (TrimSpace (eg_Host e)))
     else ToLower (TrimSpace (eg_Host e)) = ?c"
    using assms(1) by (auto simp: hostCoveredByAnyEgress_def Let_def list_ex_iff)
  show ?thesis
  proof (cases "HasPrefix (ToLower (TrimSpace (eg_Host e))) ''*.''")
    case True
    then obtain s where s: "ToLower (TrimSpace (eg_Host e)) = ''*.'' @ s" by (auto simp: HasPrefix_iff)
    with True e(2) obtain a where a: "?c = a @ ''.'' @ s" by (auto simp: HasSuffix_iff)
    have "a \<noteq> []"
    proof
      assume "a = []"
      with a have "?c = CHR ''.'' # s" by simp
      then obtain x xs where x: "TrimSpace h = x # xs" "lower_char x = CHR ''.''" by (cases "TrimSpace h") (auto simp: ToLower_def)
      then have "x = CHR ''.''" by (auto intro: lower_char_eq)
      then show False using assms(2) x by (simp add: HasPrefix_def)
    qed
    with s a e(1) show ?thesis by (auto simp: EgressHostMatches_iff)
  next
    case False
    with e show ?thesis by (auto simp: EgressHostMatches_iff)
  qed
qed

lemma covered_hosts:
  assumes "validateCredentialHostsCoveredByEgress p g = []" "cg \<in> set (gs_Credentials g)" "h \<in> set (grant_hosts cg)"
  shows "hostCoveredByAnyEgress h (gs_Egress g)"
proof -
  obtain i j where "i < length (gs_Credentials g)" "gs_Credentials g ! i = cg" "j < length (grant_hosts cg)" "grant_hosts cg ! j = h"
    using assms(2,3) by (auto simp: in_set_conv_nth)
  then show ?thesis
    using assms(1) by (auto simp: validateCredentialHostsCoveredByEgress_def for_each_empty split: if_splits)
qed

text \<open>
  An accepted policy can be used. Wherever a credential of the policy may be substituted, the
  policy itself grants the egress the broker demands before it substitutes: every host that matches
  the credential's hosts matches, by the run-time rules, the host of one of the policy's egress grants.
  Kubernetes' name check is assumed to reject names that begin with a dot, and the egress hosts to
  carry no surrounding white space, which the webhook trims and the run-time check does not.
\<close>

theorem accepted_policy_hosts_covered:
  assumes "validateBrokerPolicySpec w spec now = None"
    and "cg \<in> set (gs_Credentials (bps_Grants spec))" "AnyHostMatches (grant_hosts cg) h"
    and dns: "\<forall>s. we_IsDNS1123Subdomain w (CHR ''.'' # s) \<noteq> []"
    and trimmed: "\<forall>e \<in> set (gs_Egress (bps_Grants spec)). TrimSpace (eg_Host e) = eg_Host e"
  shows "\<exists>e \<in> set (gs_Egress (bps_Grants spec)). EgressHostMatches (eg_Host e) (TrimSpace h)"
proof -
  obtain g where g: "g \<in> set (grant_hosts cg)" "EgressHostMatches (TrimSpace g) (TrimSpace h)"
    using assms(3) by (auto simp: AnyHostMatches_iff)
  have covered: "hostCoveredByAnyEgress g (gs_Egress (bps_Grants spec))"
    using covered_hosts [OF brokerPolicyErrors_empty(3) [OF assms(1)] assms(2) g(1)] .
  obtain q where "validateExternalHost w q g = []"
    using accepted_grant [OF assms(1,2)] accepted_grant_hosts g(1) by blast
  then have "we_IsDNS1123Subdomain w (TrimPrefix (TrimSpace g) ''*.'') = []" by (simp add: validateExternalHost_accepts)
  then have "\<not> HasPrefix (TrimSpace g) ''.''"
    using dns by (auto simp: HasPrefix_iff TrimPrefix_def)
  from hostCovered_matches [OF covered this] obtain e where "e \<in> set (gs_Egress (bps_Grants spec))"
    "EgressHostMatches (TrimSpace (eg_Host e)) (TrimSpace g)" by blast
  then show ?thesis using trimmed g(2) EgressHostMatches_trans by metis
qed

definition ex_webhook :: webhook_env where
  "ex_webhook = \<lparr> we_aggregate = (\<lambda>_. ''invalid''),
     we_IsDNS1123Subdomain = (\<lambda>s. if s = [] \<or> hd s = CHR ''.'' then [''a lowercase RFC 1123 subdomain must start with an alphanumeric''] else []),
     we_urlParse = (\<lambda>_. Inr \<lparr> url_Scheme = ''https'', url_HasUser = False \<rparr>) \<rparr>"

theorem accepted_policy_hosts_covered_witness:
  "\<exists>e \<in> set (gs_Egress (bps_Grants (bp_Spec ex_policy))). EgressHostMatches (eg_Host e) (TrimSpace ''A.io'')"
proof (rule accepted_policy_hosts_covered [of ex_webhook "bp_Spec ex_policy" 1 ex_grant])
  show "validateBrokerPolicySpec ex_webhook (bp_Spec ex_policy) 1 = None" by code_simp
  show "ex_grant \<in> set (gs_Credentials (bps_Grants (bp_Spec ex_policy)))"
    by (simp add: ex_policy_def ex_grants_def)
  show "AnyHostMatches (grant_hosts ex_grant) ''A.io''" by code_simp
  show "\<forall>s. we_IsDNS1123Subdomain ex_webhook (CHR ''.'' # s) \<noteq> []" by (simp add: ex_webhook_def)
  show "\<forall>e \<in> set (gs_Egress (bps_Grants (bp_Spec ex_policy))). TrimSpace (eg_Host e) = eg_Host e" by code_simp
qed

text \<open>
  Admission bounds what it admits. An accepted policy opens a discovery window for at most seven
  days from its admission and names only ports from 0 to 65535; an accepted template keeps a deleted
  run's pod, and the credentials mounted in it, for at most 300 seconds.
\<close>

theorem admitted_bounds:
  assumes policy: "validateBrokerPolicySpec w (bp_Spec bp) now = None"
    and tpl: "validateHarnessTemplateSpec w tpl cluster = None" "htd_TerminationGracePeriodSeconds (hts_Defaults tpl) = Some n"
    and active: "AnyDiscoveryActive [bp] t"
    and port: "g \<in> set (gs_Egress (bps_Grants (bp_Spec bp)))" "p \<in> set (eg_Ports g)"
  shows "t < now + 7 * 24 * 60 * 60 * second \<and> 0 \<le> p \<and> p \<le> 65535 \<and> 0 \<le> n \<and> n \<le> 300"
proof -
  have "t < now + MaxDiscoveryWindow"
    using brokerPolicyErrors_empty(4) [OF policy] active
    by (auto simp: AnyDiscoveryActive_def discoveryActive_def validateEgressDiscovery_def split: option.splits if_splits)
  moreover obtain i where "i < length (gs_Egress (bps_Grants (bp_Spec bp)))" "gs_Egress (bps_Grants (bp_Spec bp)) ! i = g"
    using port(1) by (auto simp: in_set_conv_nth)
  then have "0 \<le> p \<and> p \<le> 65535"
    using brokerPolicyErrors_empty(2) [OF policy] port(2)
    by (auto simp: validateEgressGrants_def validatePorts_empty for_each_empty)
  moreover have "validateTerminationGracePeriodSeconds (Some n) [Child ''spec'', Child ''defaults'', Child ''terminationGracePeriodSeconds''] = []"
    using tpl by (simp add: validateHarnessTemplateSpec_def harnessTemplateErrors_def Let_def)
  then have "0 \<le> n \<and> n \<le> 300"
    by (auto simp: validateTerminationGracePeriodSeconds_def MaxTerminationGracePeriodSeconds_def split: if_splits)
  ultimately show ?thesis by (simp add: MaxDiscoveryWindow_def minute_def)
qed

definition ex_discovery :: BrokerPolicy where
  "ex_discovery = ex_policy\<lparr> bp_Spec := (bp_Spec ex_policy)\<lparr> bps_EgressDiscovery :=
     Some \<lparr> ed_Accepted = True, ed_Reason = ''finding out what the agent needs'', ed_ExpiresAt = 20 \<rparr> \<rparr> \<rparr>"

definition ex_graceful :: HarnessTemplateSpec where
  "ex_graceful = ex_template\<lparr> hts_Command := [''run''], hts_Defaults := (hts_Defaults ex_template)\<lparr> htd_TerminationGracePeriodSeconds := Some 30 \<rparr> \<rparr>"

theorem admitted_bounds_witness:
  "(15::int) < 10 + 7 * 24 * 60 * 60 * second \<and> 0 \<le> (443::int) \<and> (443::int) \<le> 65535 \<and> 0 \<le> (30::int) \<and> (30::int) \<le> 300"
proof (rule admitted_bounds [of ex_webhook ex_discovery _ ex_graceful False 30 _ "\<lparr> eg_Host = ''a.io'', eg_Ports = [443] \<rparr>"])
  show "validateBrokerPolicySpec ex_webhook (bp_Spec ex_discovery) 10 = None" by code_simp
  show "validateHarnessTemplateSpec ex_webhook ex_graceful False = None" by code_simp
  show "htd_TerminationGracePeriodSeconds (hts_Defaults ex_graceful) = Some 30" by (simp add: ex_graceful_def)
  show "AnyDiscoveryActive [ex_discovery] 15" by code_simp
qed (simp_all add: ex_discovery_def ex_policy_def ex_grants_def)

lemma builtin_no_injection:
  assumes "validateBrokerPolicySpec w (bp_Spec bp) now = None"
    and "\<forall>cg \<in> set (gs_Credentials (bps_Grants (bp_Spec bp))). pc_Kind (cg_Provider cg) \<noteq> ''UserSuppliedSecret''"
  shows "\<not> list_ex (grantInjectsHost h) (gs_Credentials (bp_Grants bp))"
  using assms accepted_grant [OF assms(1)] accepted_config(1)
  by (fastforce simp: list_ex_iff grantInjectsHost_def split: option.splits)

text \<open>
  C23: the built-in providers are never asked to substitute. When the policies of a namespace passed
  admission and their credentials come from the built-in providers only, the broker answers every
  egress check without the flag that makes the proxy substitute credentials, whatever hosts the
  credentials name: admission forbids for these providers the delivery mode the flag is computed from.
\<close>

theorem builtin_never_substituted:
  assumes "listPolicies (be_kube e) ns = Inr items"
    and "\<forall>bp \<in> set items. validateBrokerPolicySpec w (bp_Spec bp) (since bp) = None
      \<and> (\<forall>cg \<in> set (gs_Credentials (bps_Grants (bp_Spec bp))). pc_Kind (cg_Provider cg) \<noteq> ''UserSuppliedSecret'')"
    and "validateEgress e ns run req = RespJSON status v"
  shows "\<not> ver_SubstituteAuth v"
proof -
  have "\<not> list_ex (\<lambda>bp. AppliesToTemplate (bps_AppliesToTemplates (bp_Spec bp)) (tr_Name (hr_TemplateRef run))
      \<and> list_ex (grantInjectsHost (veq_Host req)) (gs_Credentials (bp_Grants bp))) items"
    using assms(2) builtin_no_injection by (fastforce simp: list_ex_iff)
  then show ?thesis
    using assms(1,3)
    by (auto simp: validateEgress_def anyProxyInjectedHostCovers_def egressDenied_def Let_def split: sum.splits option.splits if_splits)
qed

theorem builtin_never_substituted_witness:
  "\<exists>v. validateEgress ex_env ''ns'' ex_run \<lparr> veq_Host = ''a.io'', veq_Port = 443 \<rparr> = RespJSON 200 v \<and> \<not> ver_SubstituteAuth v"
proof -
  have v: "validateEgress ex_env ''ns'' ex_run \<lparr> veq_Host = ''a.io'', veq_Port = 443 \<rparr> = RespJSON 200
      \<lparr> ver_Allowed = True, ver_MatchedPolicy = ''p'', ver_Reason = [], ver_SubstituteAuth = False, ver_DiscoveryAllow = False \<rparr>"
    by code_simp
  have "validateBrokerPolicySpec ex_webhook (bp_Spec ex_policy) 1 = None" by code_simp
  moreover have "listPolicies (be_kube ex_env) ''ns'' = Inr [ex_policy]" by (simp add: ex_env_def ex_prov_env_def ex_kube_def)
  moreover have "\<forall>cg \<in> set (gs_Credentials (bps_Grants (bp_Spec ex_policy))). pc_Kind (cg_Provider cg) \<noteq> ''UserSuppliedSecret''"
    by code_simp
  ultimately show ?thesis
    using builtin_never_substituted [of ex_env "''ns''" "[ex_policy]" ex_webhook "\<lambda>_. 1", OF _ _ v] v by simp
qed

section \<open>Admitted runs\<close>

lemma set_FilterUnexpired: "set (FilterUnexpired m now) \<subseteq> set m"
  by (auto simp: FilterUnexpired_def)

lemma validateAgainstPolicies_None:
  assumes "validateAgainstPolicies c now run spec = None"
  obtains items where "listPolicies c (hr_Namespace run) = Inr items"
    "\<forall>cr \<in> set (rq_Credentials (hts_Requires spec)). cred_granted (applying (tr_Name (hr_TemplateRef run)) items) (cr_Name cr)"
    "\<forall>(h, p) \<in> set (required_destinations (hts_Requires spec)). egress_granted (applying (tr_Name (hr_TemplateRef run)) items) h p"
    "hr_Mode run = HarnessRunModeInteractive \<Longrightarrow> \<exists>bp \<in> set (applying (tr_Name (hr_TemplateRef run)) items). policy_interact bp"
proof -
  let ?tpl = "tr_Name (hr_TemplateRef run)"
  obtain items where items: "listPolicies c (hr_Namespace run) = Inr items"
    using assms by (cases "listPolicies c (hr_Namespace run)") (auto simp: validateAgainstPolicies_def Let_def ListMatchingPolicies_applying)
  let ?m = "applying ?tpl items" and ?f = "FilterUnexpired (applying ?tpl items) now"
  have "ir_Admitted (IntersectMatches ?f (hts_Requires spec))"
    "hr_Mode run = HarnessRunModeInteractive \<Longrightarrow> ir_RunsInteract (IntersectMatches ?f (hts_Requires spec))"
    using assms items by (auto simp: validateAgainstPolicies_def Let_def ListMatchingPolicies_applying split: if_splits)
  then show thesis
    using that [OF items] set_FilterUnexpired [of ?m now] granted_subset [of ?f ?m]
    unfolding IntersectMatches_fields by blast
qed

lemma runValidateCreate_policies:
  assumes "fst (runValidateCreate w ord c sink now run log) = None"
    and "ResolveTemplate ord c (hr_Namespace run) (hr_TemplateRef run) = Inr (spec, src)"
    and "\<not> RequiresEmpty (hts_Requires spec) \<or> hr_Mode run = HarnessRunModeInteractive"
  shows "validateAgainstPolicies c now run spec = None"
  using assms by (auto simp: runValidateCreate_def validateAgainstTemplate_def Let_def split: option.splits if_splits)



section \<open>Audit events\<close>

lemma ae_Spec_stampLabels [simp]: "ae_Spec (stampLabels ae r) = ae_Spec ae"
  by (simp add: stampLabels_def Let_def)

lemmas event_spec_defs =
  newEgress_def NewEgressAllow_def NewEgressBlock_def NewEgressDiscoveryAllow_def newAdmission_def NewPolicyApplied_def
  NewPolicyRejected_def newRun_def NewRunFailed_def NewRunCompleted_def NewCAProjected_def NewCAMisconfigured_def
  NewInterceptionModeCooperativeAccepted_def NewNetworkPolicyEnforcementWithdrawn_def NewBrokerCredsTampered_def
  newCredential_def NewCredentialIssued_def NewCredentialDenied_def NewCredentialRevoked_def withDetail_def
  NewPromptSubmitted_def NewPromptCompleted_def NewShellSessionOpened_def NewShellSessionClosed_def
  NewCredentialRenewalFailed_def NewCredentialRenewed_def NewInteractiveRunTerminated_def

text \<open>An event with a decision, a kind other than the summary, a time and a count of at most one is admitted.\<close>

lemma event_admitted:
  assumes "aes_Decision spec \<noteq> AuditDecisionUnset" "aes_Kind spec \<notin> {AuditKindUnset, AuditKindEgressBlockSummary}"
    "aes_Timestamp spec \<noteq> 0"
  shows "validateAuditEventSpec w spec = None \<longleftrightarrow> aes_Count spec \<in> {0, 1}"
  using assms by (auto simp: validateAuditEventSpec_def auditEventErrors_def Let_def IsZero_def)

lemma nowOr_nonzero: "now \<noteq> 0 \<Longrightarrow> nowOr now t \<noteq> 0"
  by (simp add: nowOr_def IsZero_def)



section \<open>Workspaces\<close>

text \<open>Following the elements of a path from a directory \<open>d\<close> levels below the root, never above the root.\<close>

fun stays_inside :: "nat \<Rightarrow> string list \<Rightarrow> bool" where
  "stays_inside d [] \<longleftrightarrow> True"
| "stays_inside d (e # es) \<longleftrightarrow>
     (if e = [] \<or> e = ''.'' then stays_inside d es
      else if e = ''..'' then 0 < d \<and> stays_inside (d - 1) es
      else stays_inside (Suc d) es)"

text \<open>A double dot that reached the stack is never removed.\<close>

lemma clean_elems_dotdot: "''..'' \<in> set st \<Longrightarrow> ''..'' \<in> set (clean_elems False st es)"
proof (induction es arbitrary: st)
  case (Cons e es)
  then show ?case by (cases st) auto
qed simp

lemma clean_elems_inside: "''..'' \<notin> set (clean_elems False st es) \<Longrightarrow> stays_inside (length st) es"
proof (induction es arbitrary: st)
  case (Cons e es)
  show ?case
  proof (cases "e = ''..''")
    case True
    then have "st \<noteq> [] \<and> hd st \<noteq> ''..''"
      using Cons.prems clean_elems_dotdot [of "[''..'']" es] clean_elems_dotdot [of "''..'' # st" es]
      by (cases st) (auto split: if_splits)
    then show ?thesis using Cons.prems Cons.IH [of "tl st"] True by (cases st) auto
  next
    case False
    then show ?thesis using Cons.prems Cons.IH [of st] Cons.IH [of "e # st"] by auto
  qed
qed simp

lemma set_clean_elems: "set (clean_elems False st es) \<subseteq> set es \<union> set st"
proof (induction es arbitrary: st)
  case (Cons e es)
  show ?case using Cons [of st] Cons [of "e # st"] Cons [of "[''..'']"] Cons [of "tl st"] by (cases st) auto
qed simp

lemma validateRepoPath_None:
  assumes "validateRepoPath p raw = None"
  shows "stays_inside 0 (SplitByte raw CHR ''/'')" "path_Clean raw \<noteq> ''.''"
proof -
  let ?es = "clean_elems False [] (SplitByte raw CHR ''/'')"
  have rel: "\<not> HasPrefix raw ''/''" and ok: "path_Clean raw \<noteq> ''.''" "''..'' \<notin> set (SplitByte (path_Clean raw) CHR ''/'')"
    using assms by (auto simp: validateRepoPath_def Let_def split: if_splits)
  then have "?es \<noteq> []" "path_Clean raw = Join ?es [CHR ''/'']" by (auto simp: path_Clean_def Let_def split: if_splits)
  moreover have "\<forall>e \<in> set ?es. CHR ''/'' \<notin> set e" using set_clean_elems [of "[]" "SplitByte raw CHR ''/''"] SplitByte_no_sep by fastforce
  ultimately have "''..'' \<notin> set ?es" using ok(2) by (simp add: SplitByte_Join)
  then show "stays_inside 0 (SplitByte raw CHR ''/'')" using clean_elems_inside [of "[]"] by simp
qed (use assms in \<open>auto simp: validateRepoPath_def Let_def split: if_splits\<close>)

lemma workspaceReposLoop_empty:
  assumes "workspaceReposLoop w p multi i seen repos = []" "multi"
  shows "(\<forall>r \<in> set repos. TrimSpace (wgs_Path r) \<noteq> [] \<and> map_of seen (path_Clean (TrimSpace (wgs_Path r))) = None
           \<and> (\<exists>q. validateRepoPath q (TrimSpace (wgs_Path r)) = None))
    \<and> distinct (map (\<lambda>r. path_Clean (TrimSpace (wgs_Path r))) repos)"
  using assms(1)
proof (induction repos arbitrary: i seen)
  case (Cons r repos)
  let ?c = "path_Clean (TrimSpace (wgs_Path r))"
  have "TrimSpace (wgs_Path r) \<noteq> []" "validateRepoPath (p @ [Index i, Child ''path'']) (TrimSpace (wgs_Path r)) = None"
    "map_of seen ?c = None" and rest: "workspaceReposLoop w p multi (Suc i) (mset_key ?c i seen) repos = []"
    using Cons.prems assms(2) by (auto simp: Let_def split: if_splits option.splits)
  then show ?case using Cons.IH [OF rest] by (auto simp: go_alist split: if_splits)
qed simp

lemma workspaceReposLoop_single:
  assumes "workspaceReposLoop w p False 0 [] [r] = []"
  shows "TrimSpace (wgs_Path r) = [] \<or> (\<exists>q. validateRepoPath q (TrimSpace (wgs_Path r)) = None)"
  using assms by (auto simp: Let_def split: if_splits option.splits)

text \<open>
  Seeding stays inside the workspace. In an accepted workspace every repository has a path that,
  followed element by element, never rises above the workspace root and does not name the root itself,
  unless it is the only repository and has no path; and no two repositories share a directory, however
  their paths are spelled.
\<close>

theorem workspace_repos_inside:
  assumes "validateWorkspaceSpec w spec = None" "wsp_Seed spec = Some seed" "r \<in> set (wse_Repos seed)"
  shows "distinct (map (\<lambda>r. path_Clean (TrimSpace (wgs_Path r))) (wse_Repos seed))
    \<and> (wse_Repos seed = [r] \<and> TrimSpace (wgs_Path r) = []
       \<or> stays_inside 0 (SplitByte (TrimSpace (wgs_Path r)) CHR ''/'') \<and> path_Clean (TrimSpace (wgs_Path r)) \<noteq> ''.'')"
proof -
  obtain p where loop: "workspaceReposLoop w p (length (wse_Repos seed) > 1) 0 [] (wse_Repos seed) = []"
    using assms by (auto simp: validateWorkspaceSpec_def workspaceErrors_def validateWorkspaceRepos_def Let_def split: if_splits)
  show ?thesis
  proof (cases "length (wse_Repos seed) > 1")
    case True
    with loop show ?thesis
      using workspaceReposLoop_empty [of w p True 0 "[]" "wse_Repos seed"] validateRepoPath_None assms(3) by (auto simp: Bex_def)
  next
    case False
    with assms(3) have "wse_Repos seed = [r]" by (cases "wse_Repos seed") auto
    with loop show ?thesis using workspaceReposLoop_single validateRepoPath_None by (fastforce simp del: workspaceReposLoop.simps)
  qed
qed

definition ex_repo :: "string \<Rightarrow> WorkspaceGitSource" where
  "ex_repo path = \<lparr> wgs_URL = ''https://g.io/x'', wgs_Path = path, wgs_Branch = [], wgs_Depth = 0, wgs_BrokerCredentialRef = None,
     wgs_CredentialsSecretRef = None \<rparr>"

theorem workspace_repos_inside_witness:
  "stays_inside 0 (SplitByte ''a/../b'' CHR ''/'') \<and> path_Clean ''a/../b'' \<noteq> path_Clean ''c''"
  using workspace_repos_inside [of ex_webhook
      "\<lparr> wsp_Storage = \<lparr> wst_Size = 1, wst_StorageClass = [], wst_AccessMode = [] \<rparr>,
         wsp_Seed = Some \<lparr> wse_Repos = [ex_repo ''a/../b'', ex_repo ''c''] \<rparr>, wsp_Ephemeral = False \<rparr>"
      "\<lparr> wse_Repos = [ex_repo ''a/../b'', ex_repo ''c''] \<rparr>" "ex_repo ''a/../b''"]
  by code_simp

end
