(* ===== verification/Proxy_Cache.thy ===== *)
theory Proxy_Cache
  imports Go_Net
begin

text \<open>
  The two caches of the proxy: the resolver's answers (\<open>src/internal/proxy/resolver.go\<close>) and the forged
  leaf certificates (\<open>ca.go\<close>). Both keep a map and a list of its keys, most recently used first, and drop
  the keys at the end of the list when the list outgrows the capacity.

  \<open>singleflight\<close> makes concurrent calls for one host share one execution; calls are modelled one after
  the other. Cryptography is a parameter: only its success or failure and the validity period of the
  certificate matter here.

  The locale \<open>bounded_cache\<close> is the contract of such a cache; it is proved of both.
\<close>

section \<open>Map and order\<close>

record 'v lru =
  lru_map :: "(string, 'v) gomap"
  lru_order :: "string list"

definition lru_empty :: "'v lru" where
  "lru_empty = \<lparr> lru_map = [], lru_order = [] \<rparr>"

definition lru_MoveToFront :: "string \<Rightarrow> 'v lru \<Rightarrow> 'v lru" where
  "lru_MoveToFront k c = c\<lparr> lru_order := k # remove1 k (lru_order c) \<rparr>"

definition evictOldestLocked :: "'v lru \<Rightarrow> 'v lru" where
  "evictOldestLocked c =
     (if lru_order c = [] then c
      else \<lparr> lru_map = mdelete (last (lru_order c)) (lru_map c), lru_order = butlast (lru_order c) \<rparr>)"

lemma evictOldestLocked_shorter:
  "lru_order c \<noteq> [] \<Longrightarrow> length (lru_order (evictOldestLocked c)) < length (lru_order c)"
  by (simp add: evictOldestLocked_def)

text \<open>The loop that evicts until the list fits.\<close>

function evictUntil :: "nat \<Rightarrow> 'v lru \<Rightarrow> 'v lru" where
  "evictUntil cap c = (if length (lru_order c) > cap then evictUntil cap (evictOldestLocked c) else c)"
  by pat_completeness auto

termination
  by (relation "measure (\<lambda>(cap, c). length (lru_order c))") (auto simp: evictOldestLocked_def)

declare evictUntil.simps [simp del]

definition lru_push :: "string \<Rightarrow> 'v \<Rightarrow> 'v lru \<Rightarrow> 'v lru" where
  "lru_push k v c = \<lparr> lru_map = mset_key k v (lru_map c), lru_order = k # lru_order c \<rparr>"

definition lru_inv :: "'v lru \<Rightarrow> bool" where
  "lru_inv c \<longleftrightarrow> distinct (lru_order c) \<and> mkeys_ok (lru_map c) \<and> set (lru_order c) = fst ` set (lru_map c)"

lemma lru_inv_dom: "lru_inv c \<Longrightarrow> (map_of (lru_map c) k \<noteq> None) \<longleftrightarrow> k \<in> set (lru_order c)"
  by (auto simp: lru_inv_def map_of_eq_None_iff)

lemma lru_inv_empty [simp]: "lru_inv lru_empty"
  by (simp add: lru_inv_def lru_empty_def)

lemma lru_inv_MoveToFront [simp]:
  assumes "lru_inv c" "map_of (lru_map c) k \<noteq> None"
  shows "lru_inv (lru_MoveToFront k c)"
  using assms lru_inv_dom [OF assms(1), of k] by (auto simp: lru_inv_def lru_MoveToFront_def)

lemma set_keys_mset_key: "fst ` set (mset_key k v m) = insert k (fst ` set m)"
  by (simp add: mset_key_def dom_update)

lemma lru_inv_push [simp]: "lru_inv c \<Longrightarrow> map_of (lru_map c) k = None \<Longrightarrow> lru_inv (lru_push k v c)"
  using lru_inv_dom [of c k] by (auto simp: lru_inv_def lru_push_def set_keys_mset_key)

lemma fst_set_mdelete: "fst ` set (mdelete k m) = fst ` set m - {k}"
  by (auto simp: set_mdelete image_iff)

lemma lru_inv_evict [simp]:
  assumes "lru_inv c"
  shows "lru_inv (evictOldestLocked c)"
proof (cases "lru_order c" rule: rev_cases)
  case (snoc ks k)
  with assms show ?thesis
    by (auto simp: lru_inv_def evictOldestLocked_def fst_set_mdelete)
qed (use assms in \<open>simp add: evictOldestLocked_def\<close>)

lemma lru_inv_evictUntil [simp]: "lru_inv c \<Longrightarrow> lru_inv (evictUntil cap c)"
  by (induction cap c rule: evictUntil.induct) (subst evictUntil.simps, simp)

lemma evictUntil_length: "length (lru_order (evictUntil cap c)) = min cap (length (lru_order c))"
proof (induction cap c rule: evictUntil.induct)
  case (1 cap c)
  show ?case
  proof (cases "length (lru_order c) > cap")
    case True
    then have "lru_order c \<noteq> []" by auto
    with True 1 show ?thesis by (subst evictUntil.simps) (auto simp: evictOldestLocked_def min_def)
  qed (subst evictUntil.simps, simp)
qed

text \<open>The most recently used keys survive an eviction.\<close>

lemma evictUntil_take:
  assumes "lru_inv c"
  shows "lru_order (evictUntil cap c) = take cap (lru_order c)
    \<and> (\<forall>k. map_of (lru_map (evictUntil cap c)) k = (if k \<in> set (take cap (lru_order c)) then map_of (lru_map c) k else None))"
  using assms
proof (induction cap c rule: evictUntil.induct)
  case (1 cap c)
  show ?case
  proof (cases "length (lru_order c) > cap")
    case True
    then obtain ks k where k: "lru_order c = ks @ [k]" by (cases "lru_order c" rule: rev_cases) auto
    then have "lru_order (evictOldestLocked c) = ks" "\<forall>x. map_of (lru_map (evictOldestLocked c)) x = (if x = k then None else map_of (lru_map c) x)"
      by (simp_all add: evictOldestLocked_def go_alist)
    moreover have "evictUntil cap c = evictUntil cap (evictOldestLocked c)" using True by (subst evictUntil.simps) simp
    moreover have "k \<notin> set ks" using k 1(2) by (auto simp: lru_inv_def)
    ultimately show ?thesis using 1(1) [OF True lru_inv_evict [OF 1(2)]] True k by (auto dest: in_set_takeD)
  next
    case False
    then have "evictUntil cap c = c" by (subst evictUntil.simps) simp
    moreover have "k \<notin> set (lru_order c) \<Longrightarrow> map_of (lru_map c) k = None" for k using lru_inv_dom [OF 1(2), of k] by auto
    ultimately show ?thesis using False by simp
  qed
qed

section \<open>The resolver\<close>

record resolveEntry =
  re_ips :: "IP list"
  re_expires :: time

record cachingResolver =
  rv_ttl :: duration
  rv_capacity :: nat
  rv_cache :: "resolveEntry lru"

definition newCachingResolver :: "duration \<Rightarrow> int \<Rightarrow> cachingResolver" where
  "newCachingResolver ttl capacity =
     \<lparr> rv_ttl = (if ttl \<le> 0 then 30 * second else ttl), rv_capacity = (if capacity \<le> 0 then 256 else nat capacity),
       rv_cache = lru_empty \<rparr>"

text \<open>\<open>defaultLookup\<close>: the system resolver's answer, less what does not parse as an address.\<close>

definition defaultLookup :: "(string \<Rightarrow> error_msg + string list) \<Rightarrow> string \<Rightarrow> error_msg + IP list" where
  "defaultLookup system host = map_sum id (List.map_filter ParseIP) (system host)"

definition resolver_insert :: "time \<Rightarrow> string \<Rightarrow> IP list \<Rightarrow> cachingResolver \<Rightarrow> cachingResolver" where
  "resolver_insert now host ips r =
     (let entry = \<lparr> re_ips = ips, re_expires = now + rv_ttl r \<rparr>; c = rv_cache r
      in if map_of (lru_map c) host \<noteq> None
         then r\<lparr> rv_cache := lru_MoveToFront host (c\<lparr> lru_map := mset_key host entry (lru_map c) \<rparr>) \<rparr>
         else r\<lparr> rv_cache := evictUntil (rv_capacity r) (lru_push host entry c) \<rparr>)"

text \<open>\<open>now\<close> is the clock at the check of the cache, \<open>now2\<close> when the entry is stored.\<close>

definition LookupHost ::
  "(string \<Rightarrow> error_msg + IP list) \<Rightarrow> time \<Rightarrow> time \<Rightarrow> string \<Rightarrow> cachingResolver \<Rightarrow> (error_msg + IP list) \<times> cachingResolver" where
  "LookupHost lookup now now2 host r =
     (case ParseIP host of
        Some ip \<Rightarrow> (Inr [ip], r)
      | None \<Rightarrow>
          (let miss = (case lookup host of
                         Inl err \<Rightarrow> (Inl err, r)
                       | Inr ips \<Rightarrow> (Inr ips, resolver_insert now2 host ips r))
           in case map_of (lru_map (rv_cache r)) host of
                Some e \<Rightarrow>
                  if now < re_expires e then (Inr (re_ips e), r\<lparr> rv_cache := lru_MoveToFront host (rv_cache r) \<rparr>)
                  else miss
              | None \<Rightarrow> miss))"

section \<open>The certificate authority\<close>

text \<open>What the model keeps of a leaf: whom it names and when it is valid.\<close>

record leaf_cert =
  lc_Host :: string
  lc_IsIP :: bool
  lc_NotBefore :: time
  lc_NotAfter :: time

record MITMCertificateAuthority =
  mca_leafExpiry :: duration
  mca_capacity :: nat
  mca_cache :: "leaf_cert lru"

definition defaultLeafCacheCapacity :: nat where
  "defaultLeafCacheCapacity = 1024"

text \<open>The parsers of package \<open>x509\<close> and the random source, of which only success and \<open>IsCA\<close> matter.\<close>

record x509_env =
  xe_pemDecode :: "string \<Rightarrow> string option"
  xe_parseCertificate :: "string \<Rightarrow> error_msg + bool"
  xe_parsePKCS8 :: "string \<Rightarrow> error_msg + string"
  xe_parsePKCS1 :: "string \<Rightarrow> error_msg + string"
  xe_parseEC :: "string \<Rightarrow> error_msg + string"
  xe_generateKey :: "error_msg option"
  xe_serial :: "error_msg option"
  xe_createCertificate :: "string \<Rightarrow> error_msg option"
  xe_parseLeaf :: "string \<Rightarrow> error_msg option"

definition proxyParsePrivateKey :: "x509_env \<Rightarrow> string \<Rightarrow> error_msg + string" where
  "proxyParsePrivateKey x keyPEM =
     (case xe_pemDecode x keyPEM of
        None \<Rightarrow> Inl ''key PEM: no block found''
      | Some block \<Rightarrow>
          (case xe_parsePKCS8 x block of
             Inr k \<Rightarrow> Inr k
           | Inl _ \<Rightarrow> (case xe_parsePKCS1 x block of
               Inr k \<Rightarrow> Inr k
             | Inl _ \<Rightarrow> (case xe_parseEC x block of
                 Inr k \<Rightarrow> Inr k
               | Inl _ \<Rightarrow> Inl ''key PEM: unsupported format (tried PKCS#8, PKCS#1, EC)''))))"

definition NewMITMCertificateAuthority :: "x509_env \<Rightarrow> string \<Rightarrow> string \<Rightarrow> error_msg + MITMCertificateAuthority" where
  "NewMITMCertificateAuthority x certPEM keyPEM =
     (case xe_pemDecode x certPEM of
        None \<Rightarrow> Inl ''cert PEM: no block found''
      | Some block \<Rightarrow>
          (case xe_parseCertificate x block of
             Inl err \<Rightarrow> Inl (''parse cert: '' @ err)
           | Inr isCA \<Rightarrow>
               if \<not> isCA then Inl ''cert is not a CA (isCA=false); cert-manager Certificate needs spec.isCA=true''
               else case proxyParsePrivateKey x keyPEM of
                 Inl err \<Rightarrow> Inl err
               | Inr _ \<Rightarrow>
                   (case xe_generateKey x of
                      Some err \<Rightarrow> Inl (''generate leaf key: '' @ err)
                    | None \<Rightarrow> Inr \<lparr> mca_leafExpiry = 24 * 60 * minute, mca_capacity = defaultLeafCacheCapacity,
                                    mca_cache = lru_empty \<rparr>)))"

definition LoadMITMCertificateAuthority ::
  "x509_env \<Rightarrow> (string \<Rightarrow> error_msg + string) \<Rightarrow> string \<Rightarrow> string \<Rightarrow> error_msg + MITMCertificateAuthority" where
  "LoadMITMCertificateAuthority x readFile certFile keyFile =
     (case readFile certFile of
        Inl err \<Rightarrow> Inl (''read cert '' @ certFile @ '': '' @ err)
      | Inr certPEM \<Rightarrow>
          (case readFile keyFile of
             Inl err \<Rightarrow> Inl (''read key '' @ keyFile @ '': '' @ err)
           | Inr keyPEM \<Rightarrow> NewMITMCertificateAuthority x certPEM keyPEM))"

definition signLeaf :: "x509_env \<Rightarrow> time \<Rightarrow> string \<Rightarrow> MITMCertificateAuthority \<Rightarrow> error_msg + leaf_cert" where
  "signLeaf x now host ca =
     (case xe_serial x of
        Some err \<Rightarrow> Inl (''serial: '' @ err)
      | None \<Rightarrow>
          (case xe_createCertificate x host of
             Some err \<Rightarrow> Inl (''sign leaf: '' @ err)
           | None \<Rightarrow>
               (case xe_parseLeaf x host of
                  Some err \<Rightarrow> Inl (''parse forged leaf: '' @ err)
                | None \<Rightarrow> Inr \<lparr> lc_Host = host, lc_IsIP = (ParseIP host \<noteq> None), lc_NotBefore = now - 5 * minute,
                                lc_NotAfter = now + mca_leafExpiry ca \<rparr>)))"

text \<open>Storing a signed leaf, the second critical section of \<open>forge\<close>: an entry that is there already wins.\<close>

definition ca_store :: "string \<Rightarrow> leaf_cert \<Rightarrow> MITMCertificateAuthority \<Rightarrow> leaf_cert \<times> MITMCertificateAuthority" where
  "ca_store host cert ca =
     (case map_of (lru_map (mca_cache ca)) host of
        Some e \<Rightarrow> (e, ca\<lparr> mca_cache := lru_MoveToFront host (mca_cache ca) \<rparr>)
      | None \<Rightarrow>
          (let c = lru_push host cert (mca_cache ca)
           in (cert, ca\<lparr> mca_cache := (if length (lru_order c) > mca_capacity ca then evictOldestLocked c else c) \<rparr>)))"

definition forge :: "x509_env \<Rightarrow> time \<Rightarrow> string \<Rightarrow> MITMCertificateAuthority \<Rightarrow> (error_msg + leaf_cert) \<times> MITMCertificateAuthority" where
  "forge x now host ca =
     (case map_of (lru_map (mca_cache ca)) host of
        Some e \<Rightarrow> (Inr e, ca\<lparr> mca_cache := lru_MoveToFront host (mca_cache ca) \<rparr>)
      | None \<Rightarrow>
          (case signLeaf x now host ca of
             Inl err \<Rightarrow> (Inl err, ca)
           | Inr cert \<Rightarrow> (case ca_store host cert ca of (e, ca') \<Rightarrow> (Inr e, ca'))))"

definition GetCertificate ::
  "x509_env \<Rightarrow> time \<Rightarrow> string \<Rightarrow> MITMCertificateAuthority \<Rightarrow> (error_msg + leaf_cert) \<times> MITMCertificateAuthority" where
  "GetCertificate x now serverName ca = forge x now (if serverName = [] then ''localhost'' else serverName) ca"

definition SetCacheCapacity :: "int \<Rightarrow> MITMCertificateAuthority \<Rightarrow> MITMCertificateAuthority" where
  "SetCacheCapacity n ca =
     (let cap = (if n \<le> 0 then defaultLeafCacheCapacity else nat n)
      in ca\<lparr> mca_capacity := cap, mca_cache := evictUntil cap (mca_cache ca) \<rparr>)"

section \<open>The contract of a bounded cache\<close>

text \<open>
  A cache of a fixed capacity: storing keeps it well formed and within its capacity, makes the key
  available, and never changes what another key holds, though it may drop the key.
\<close>

locale bounded_cache =
  fixes wf :: "'c \<Rightarrow> bool"
    and cap :: "'c \<Rightarrow> nat"
    and keys :: "'c \<Rightarrow> string set"
    and get :: "'c \<Rightarrow> string \<Rightarrow> 'v option"
    and put :: "string \<Rightarrow> 'v \<Rightarrow> 'c \<Rightarrow> 'c"
  assumes wf_put: "wf c \<Longrightarrow> wf (put k v c)"
    and cap_put [simp]: "cap (put k v c) = cap c"
    and bounded: "wf c \<Longrightarrow> finite (keys c) \<and> card (keys c) \<le> cap c"
    and keys_get: "wf c \<Longrightarrow> k \<in> keys c \<longleftrightarrow> get c k \<noteq> None"
    and get_put: "wf c \<Longrightarrow> get (put k v c) k \<noteq> None"
    and get_put_same: "wf c \<Longrightarrow> get (put k v c) k \<in> {Some v, get c k}"
    and get_put_other: "wf c \<Longrightarrow> k' \<noteq> k \<Longrightarrow> get (put k v c) k' \<in> {None, get c k'}"
begin

text \<open>However many entries are stored, the cache stays within its capacity.\<close>

lemma wf_puts: "wf c \<Longrightarrow> wf (fold (\<lambda>(k, v). put k v) kvs c) \<and> cap (fold (\<lambda>(k, v). put k v) kvs c) = cap c"
  by (induction kvs arbitrary: c) (auto simp: wf_put)

lemma puts_bounded: "wf c \<Longrightarrow> card (keys (fold (\<lambda>(k, v). put k v) kvs c)) \<le> cap c"
  using wf_puts bounded by metis

text \<open>An entry is never invented: what a key holds was stored under that key, or was there before.\<close>

lemma puts_origin:
  assumes "wf c" "get (fold (\<lambda>(k, v). put k v) kvs c) k = Some v"
  shows "get c k = Some v \<or> (k, v) \<in> set kvs"
  using assms(1,2)
proof (induction kvs arbitrary: c)
  case (Cons kv kvs)
  obtain k0 v0 where kv: "kv = (k0, v0)" by fastforce
  have "get (put k0 v0 c) k = Some v \<or> (k, v) \<in> set kvs" using Cons kv wf_put by auto
  then show ?case
    using get_put_other [OF Cons.prems(1), of k k0 v0] get_put_same [OF Cons.prems(1), of k0 v0] kv by (cases "k = k0") auto
qed simp

end

definition resolver_ok :: "cachingResolver \<Rightarrow> bool" where
  "resolver_ok r \<longleftrightarrow> lru_inv (rv_cache r) \<and> length (lru_order (rv_cache r)) \<le> rv_capacity r \<and> 0 < rv_capacity r"

definition ca_ok :: "MITMCertificateAuthority \<Rightarrow> bool" where
  "ca_ok ca \<longleftrightarrow> lru_inv (mca_cache ca) \<and> length (lru_order (mca_cache ca)) \<le> mca_capacity ca \<and> 0 < mca_capacity ca"

lemma card_order: "lru_inv c \<Longrightarrow> card (set (lru_order c)) = length (lru_order c)"
  unfolding lru_inv_def by (metis distinct_card)

lemma lru_inv_set: "lru_inv c \<Longrightarrow> map_of (lru_map c) k \<noteq> None \<Longrightarrow> lru_inv (c\<lparr> lru_map := mset_key k v (lru_map c) \<rparr>)"
  using lru_inv_dom [of c k] by (auto simp: lru_inv_def set_keys_mset_key)

lemma MoveToFront_map [simp]: "lru_map (lru_MoveToFront k c) = lru_map c"
  by (simp add: lru_MoveToFront_def)

lemma MoveToFront_length: "k \<in> set (lru_order c) \<Longrightarrow> length (lru_order (lru_MoveToFront k c)) = length (lru_order c)"
  by (auto simp: lru_MoveToFront_def length_remove1) (metis Suc_pred length_pos_if_in_set)

lemma push_order [simp]: "lru_order (lru_push k v c) = k # lru_order c"
  by (simp add: lru_push_def)

lemma push_lookup [simp]: "map_of (lru_map (lru_push k v c)) k' = (if k' = k then Some v else map_of (lru_map c) k')"
  by (simp add: lru_push_def go_alist)

lemma ca_evict: "length (lru_order c) = Suc n \<Longrightarrow> evictOldestLocked c = evictUntil n c"
  by (subst evictUntil.simps, subst evictUntil.simps) (auto simp: evictOldestLocked_def)

lemma resolver_insert_capacity [simp]:
  "rv_capacity (resolver_insert now h ips r) = rv_capacity r" "rv_ttl (resolver_insert now h ips r) = rv_ttl r"
  by (simp_all add: resolver_insert_def Let_def)

lemma resolver_insert_ok:
  assumes "resolver_ok r"
  shows "resolver_ok (resolver_insert now h ips r)"
proof (cases "map_of (lru_map (rv_cache r)) h")
  case None
  with assms show ?thesis by (simp add: resolver_ok_def resolver_insert_def evictUntil_length)
next
  case (Some e)
  with assms lru_inv_dom [of "rv_cache r" h] show ?thesis
    by (auto simp: resolver_ok_def resolver_insert_def Let_def lru_inv_set go_alist MoveToFront_length)
qed

lemma resolver_insert_get:
  assumes "resolver_ok r"
  shows "map_of (lru_map (rv_cache (resolver_insert now h ips r))) h = Some \<lparr> re_ips = ips, re_expires = now + rv_ttl r \<rparr>"
    and "h' \<noteq> h \<Longrightarrow> map_of (lru_map (rv_cache (resolver_insert now h ips r))) h' \<in> {None, map_of (lru_map (rv_cache r)) h'}"
proof -
  let ?e = "\<lparr> re_ips = ips, re_expires = now + rv_ttl r \<rparr>"
  have *: "map_of (lru_map (rv_cache r)) h = None \<Longrightarrow>
      \<forall>k. map_of (lru_map (evictUntil (rv_capacity r) (lru_push h ?e (rv_cache r)))) k =
        (if k \<in> set (take (rv_capacity r) (h # lru_order (rv_cache r))) then map_of (lru_map (lru_push h ?e (rv_cache r))) k else None)"
    using evictUntil_take [of "lru_push h ?e (rv_cache r)" "rv_capacity r"] assms by (auto simp: resolver_ok_def)
  show "map_of (lru_map (rv_cache (resolver_insert now h ips r))) h = Some ?e"
    using * assms by (cases "rv_capacity r") (auto simp: resolver_insert_def Let_def go_alist resolver_ok_def)
  show "h' \<noteq> h \<Longrightarrow> map_of (lru_map (rv_cache (resolver_insert now h ips r))) h' \<in> {None, map_of (lru_map (rv_cache r)) h'}"
    using * by (auto simp: resolver_insert_def Let_def go_alist)
qed

interpretation resolver: bounded_cache resolver_ok rv_capacity "\<lambda>r. set (lru_order (rv_cache r))"
  "\<lambda>r h. map_option re_ips (map_of (lru_map (rv_cache r)) h)" "resolver_insert now" for now
proof
  fix c :: cachingResolver and k k' v
  assume ok: "resolver_ok c"
  show "resolver_ok (resolver_insert now k v c)" using ok by (rule resolver_insert_ok)
  show "finite (set (lru_order (rv_cache c))) \<and> card (set (lru_order (rv_cache c))) \<le> rv_capacity c"
    using ok by (simp add: resolver_ok_def card_order)
  show "k \<in> set (lru_order (rv_cache c)) \<longleftrightarrow> map_option re_ips (map_of (lru_map (rv_cache c)) k) \<noteq> None"
    using ok lru_inv_dom [of "rv_cache c" k] by (auto simp: resolver_ok_def)
  show "map_option re_ips (map_of (lru_map (rv_cache (resolver_insert now k v c))) k) \<noteq> None"
    using resolver_insert_get(1) [OF ok] by simp
  show "map_option re_ips (map_of (lru_map (rv_cache (resolver_insert now k v c))) k)
      \<in> {Some v, map_option re_ips (map_of (lru_map (rv_cache c)) k)}"
    using resolver_insert_get(1) [OF ok] by simp
  show "k' \<noteq> k \<Longrightarrow> map_option re_ips (map_of (lru_map (rv_cache (resolver_insert now k v c))) k')
      \<in> {None, map_option re_ips (map_of (lru_map (rv_cache c)) k')}"
    using resolver_insert_get(2) [OF ok, of k' k now v] by (metis insert_iff option.map_disc_iff empty_iff)
qed simp

lemma ca_store_capacity [simp]:
  "mca_capacity (snd (ca_store h v ca)) = mca_capacity ca" "mca_leafExpiry (snd (ca_store h v ca)) = mca_leafExpiry ca"
  by (simp_all add: ca_store_def Let_def split: option.splits)

lemma ca_store_evict:
  assumes "ca_ok ca" "map_of (lru_map (mca_cache ca)) h = None"
  shows "mca_cache (snd (ca_store h v ca)) = evictUntil (mca_capacity ca) (lru_push h v (mca_cache ca))"
proof (cases "length (lru_order (mca_cache ca)) = mca_capacity ca")
  case True
  then show ?thesis using assms by (simp add: ca_store_def ca_evict)
next
  case False
  then show ?thesis using assms by (subst evictUntil.simps) (auto simp: ca_store_def ca_ok_def)
qed

lemma ca_store_ok:
  assumes "ca_ok ca"
  shows "ca_ok (snd (ca_store h v ca))"
proof (cases "map_of (lru_map (mca_cache ca)) h")
  case None
  with assms show ?thesis by (simp add: ca_ok_def ca_store_evict evictUntil_length)
next
  case (Some e)
  with assms lru_inv_dom [of "mca_cache ca" h] show ?thesis by (auto simp: ca_ok_def ca_store_def MoveToFront_length)
qed

lemma ca_store_get:
  assumes "ca_ok ca"
  shows "map_of (lru_map (mca_cache (snd (ca_store h v ca)))) h = Some (fst (ca_store h v ca))"
    and "h' \<noteq> h \<Longrightarrow> map_of (lru_map (mca_cache (snd (ca_store h v ca)))) h' \<in> {None, map_of (lru_map (mca_cache ca)) h'}"
proof -
  have *: "map_of (lru_map (mca_cache ca)) h = None \<Longrightarrow>
      \<forall>k. map_of (lru_map (mca_cache (snd (ca_store h v ca)))) k =
        (if k \<in> set (take (mca_capacity ca) (h # lru_order (mca_cache ca))) then map_of (lru_map (lru_push h v (mca_cache ca))) k else None)"
    using evictUntil_take [of "lru_push h v (mca_cache ca)" "mca_capacity ca"] assms by (simp add: ca_store_evict ca_ok_def)
  show "map_of (lru_map (mca_cache (snd (ca_store h v ca)))) h = Some (fst (ca_store h v ca))"
  proof (cases "map_of (lru_map (mca_cache ca)) h")
    case None
    with * assms show ?thesis by (cases "mca_capacity ca") (auto simp: ca_ok_def ca_store_def Let_def)
  qed (simp add: ca_store_def)
  show "h' \<noteq> h \<Longrightarrow> map_of (lru_map (mca_cache (snd (ca_store h v ca)))) h' \<in> {None, map_of (lru_map (mca_cache ca)) h'}"
    using * by (cases "map_of (lru_map (mca_cache ca)) h") (auto simp: ca_store_def)
qed

interpretation leaves: bounded_cache ca_ok mca_capacity "\<lambda>ca. set (lru_order (mca_cache ca))"
  "\<lambda>ca h. map_of (lru_map (mca_cache ca)) h" "\<lambda>h v ca. snd (ca_store h v ca)"
proof
  fix c :: MITMCertificateAuthority and k k' v
  assume ok: "ca_ok c"
  show "ca_ok (snd (ca_store k v c))" using ok by (rule ca_store_ok)
  show "finite (set (lru_order (mca_cache c))) \<and> card (set (lru_order (mca_cache c))) \<le> mca_capacity c"
    using ok by (simp add: ca_ok_def card_order)
  show "k \<in> set (lru_order (mca_cache c)) \<longleftrightarrow> map_of (lru_map (mca_cache c)) k \<noteq> None"
    using ok lru_inv_dom [of "mca_cache c" k] by (auto simp: ca_ok_def)
  show "map_of (lru_map (mca_cache (snd (ca_store k v c)))) k \<noteq> None" using ca_store_get(1) [OF ok] by simp
  show "map_of (lru_map (mca_cache (snd (ca_store k v c)))) k \<in> {Some v, map_of (lru_map (mca_cache c)) k}"
    using ca_store_get(1) [OF ok, of k v] by (auto simp: ca_store_def Let_def split: option.splits)
  show "k' \<noteq> k \<Longrightarrow> map_of (lru_map (mca_cache (snd (ca_store k v c)))) k' \<in> {None, map_of (lru_map (mca_cache c)) k'}"
    using ca_store_get(2) [OF ok] by blast
qed simp

end
