(* ===== verification/Broker_Client.thy ===== *)
theory Broker_Client
  imports Broker_Server Go_Net
begin

text \<open>
  The HTTPS client of the broker that the controller and the proxy share
  (\<open>src/internal/brokerclient/brokerclient.go\<close>).

  A call is split the way the wire splits it: the request the client builds, the answer of a server that
  may carry a state, and what the client makes of the answer. The server is a parameter, so that a caller
  can be composed with the broker's own handlers. A body is the value it encodes; \<open>None\<close> is a response
  without one. \<open>url.Parse\<close>, the file system and the certificate parser are parameters of \<open>New\<close>.
\<close>

section \<open>Errors\<close>

record BrokerError =
  bke_Status :: int
  bke_Code :: string
  bke_Message :: string

definition BrokerError_Error :: "BrokerError \<Rightarrow> error_msg" where
  "BrokerError_Error e = ''broker '' @ fmt_d (bke_Status e) @ '' '' @ bke_Code e @ '': '' @ bke_Message e"

text \<open>A typed broker error, or any other error.\<close>

datatype client_error = BrokerErr BrokerError | PlainErr error_msg

definition client_Error :: "client_error \<Rightarrow> error_msg" where
  "client_Error e = (case e of BrokerErr b \<Rightarrow> BrokerError_Error b | PlainErr m \<Rightarrow> m)"

definition decodeBrokerError :: "int \<Rightarrow> string \<Rightarrow> string \<Rightarrow> BrokerError" where
  "decodeBrokerError status code msg =
     \<lparr> bke_Status = status, bke_Code = (if code = [] then ''HTTP'' @ fmt_d status else code), bke_Message = msg \<rparr>"

section \<open>The endpoint\<close>

record endpoint_url =
  eu_Scheme :: string
  eu_HasUser :: bool
  eu_Hostname :: string
  eu_Port :: string
  eu_Path :: string
  eu_RawQuery :: string
  eu_Fragment :: string

definition TrimRight :: "string \<Rightarrow> char \<Rightarrow> string" where
  "TrimRight s c = rev (dropWhile (\<lambda>x. x = c) (rev s))"

definition validateBrokerEndpoint :: "(string \<Rightarrow> error_msg + endpoint_url) \<Rightarrow> string \<Rightarrow> error_msg option" where
  "validateBrokerEndpoint urlParse endpoint =
     (case urlParse (TrimRight endpoint CHR ''/'') of
        Inl err \<Rightarrow> Some (''endpoint is not a valid URL: '' @ err)
      | Inr u \<Rightarrow>
          if eu_Scheme u \<noteq> ''https'' then Some (''endpoint scheme must be https; got '' @ fmt_q (eu_Scheme u))
          else if eu_HasUser u then Some ''endpoint must not contain userinfo''
          else if eu_Hostname u = [] then Some ''endpoint host is empty''
          else
            (let host = ToLower (eu_Hostname u); fqdn = HasSuffix host ''.svc.cluster.local'';
                 labels = SplitByte host CHR ''.''
             in if \<not> fqdn \<and> \<not> HasSuffix host ''.svc''
                then Some (''endpoint host must end in .svc or .svc.cluster.local; got '' @ fmt_q host)
                else if fqdn \<and> length labels < 5
                then Some (''endpoint host must include service.namespace before .svc.cluster.local; got '' @ fmt_q host)
                else if HasSuffix host ''.svc'' \<and> \<not> fqdn \<and> length labels < 3
                then Some (''endpoint host must include service.namespace before .svc; got '' @ fmt_q host)
                else if eu_Port u \<noteq> ''8443'' then Some (''endpoint port must be 8443; got '' @ fmt_q (eu_Port u))
                else if eu_Path u \<noteq> [] \<and> eu_Path u \<noteq> ''/''
                then Some (''endpoint must have no path component; got '' @ fmt_q (eu_Path u))
                else if eu_RawQuery u \<noteq> [] then Some ''endpoint must have no query component''
                else if eu_Fragment u \<noteq> [] then Some ''endpoint must have no fragment component''
                else None))"

section \<open>Construction\<close>

record client_options =
  opt_Endpoint :: string
  opt_CABundlePath :: string
  opt_HasTokenReader :: bool
  opt_RunName :: string
  opt_RunNamespace :: string
  opt_Timeout :: duration

record broker_client =
  bc_Endpoint :: string
  bc_RunName :: string
  bc_RunNamespace :: string

record client_env =
  ce_urlParse :: "string \<Rightarrow> error_msg + endpoint_url"
  ce_ReadFile :: "string \<Rightarrow> error_msg + string"
  ce_AppendCertsFromPEM :: "string \<Rightarrow> bool"

definition newBrokerclient :: "client_env \<Rightarrow> client_options \<Rightarrow> error_msg + broker_client" where
  "newBrokerclient e opts =
     (if opt_Endpoint opts = [] then Inl ''brokerclient: endpoint is required''
      else case validateBrokerEndpoint (ce_urlParse e) (opt_Endpoint opts) of
        Some err \<Rightarrow> Inl (''brokerclient: '' @ err)
      | None \<Rightarrow>
          if \<not> opt_HasTokenReader opts then Inl ''brokerclient: TokenReader is required''
          else if opt_Timeout opts \<le> 0 then Inl ''brokerclient: Timeout is required''
          else
            (let client = \<lparr> bc_Endpoint = TrimRight (opt_Endpoint opts) CHR ''/'', bc_RunName = opt_RunName opts,
                            bc_RunNamespace = opt_RunNamespace opts \<rparr>
             in if opt_CABundlePath opts = [] then Inr client
                else case ce_ReadFile e (opt_CABundlePath opts) of
                  Inl err \<Rightarrow> Inl (''reading broker CA at '' @ opt_CABundlePath opts @ '': '' @ err)
                | Inr pem \<Rightarrow>
                    if \<not> ce_AppendCertsFromPEM e pem
                    then Inl (''broker CA at '' @ opt_CABundlePath opts @ '' has no valid certificates'')
                    else Inr client))"

section \<open>Calls\<close>

text \<open>The request: the token is read afresh, the run's identity goes into the headers.\<close>

definition client_request :: "broker_client \<Rightarrow> error_msg + string \<Rightarrow> 'b \<Rightarrow> error_msg + 'b broker_request" where
  "client_request c token body =
     (case token of
        Inl err \<Rightarrow> Inl (''reading broker token: '' @ err)
      | Inr t \<Rightarrow>
          Inr \<lparr> rq_Method = ''POST'', rq_Authorization = ''Bearer '' @ TrimSpace t, rq_HeaderRun = bc_RunName c,
                rq_HeaderNamespace = bc_RunNamespace c, rq_PathNamespace = [], rq_PathName = [], rq_Body = Inr body \<rparr>)"

text \<open>The answer: any 2xx is a success, everything else an error.\<close>

definition is_2xx :: "int \<Rightarrow> bool" where
  "is_2xx s \<longleftrightarrow> 200 \<le> s \<and> s < 300"

definition client_response :: "error_msg + 'r http_response \<Rightarrow> client_error + 'r option" where
  "client_response x =
     (case x of
        Inl err \<Rightarrow> Inl (PlainErr err)
      | Inr (RespJSON s b) \<Rightarrow> if is_2xx s then Inr (Some b) else Inl (BrokerErr (decodeBrokerError s [] []))
      | Inr (RespError s code msg) \<Rightarrow> if is_2xx s then Inr None else Inl (BrokerErr (decodeBrokerError s code msg))
      | Inr RespNoContent \<Rightarrow> Inr None
      | Inr RespAborted \<Rightarrow> Inl (PlainErr ''EOF''))"

text \<open>\<open>Client.Do\<close> against a server with a state.\<close>

definition client_Do ::
  "broker_client \<Rightarrow> error_msg + string \<Rightarrow> ('s \<Rightarrow> 'b broker_request \<Rightarrow> (error_msg + 'r http_response) \<times> 's) \<Rightarrow> 's \<Rightarrow> 'b
    \<Rightarrow> (client_error + 'r option) \<times> 's" where
  "client_Do c token send st body =
     (case client_request c token body of
        Inl err \<Rightarrow> (Inl (PlainErr err), st)
      | Inr r \<Rightarrow> (case send st r of (x, st') \<Rightarrow> (client_response x, st')))"

section \<open>Lemmas\<close>

lemma client_response_JSON:
  "client_response x = Inr (Some b) \<longleftrightarrow> (\<exists>s. x = Inr (RespJSON s b) \<and> is_2xx s)"
  by (auto simp: client_response_def split: sum.splits http_response.splits if_splits)

lemma client_Do_ok:
  assumes "client_Do c token send st body = (Inr (Some b), st')"
  obtains r s where "client_request c token body = Inr r" "send st r = (Inr (RespJSON s b), st')" "is_2xx s"
  using assms by (auto simp: client_Do_def client_response_JSON split: sum.splits prod.splits)

text \<open>
  The bearer can only go to a host with the shape of a service in the cluster: at least a service and a
  namespace label before the suffix, over HTTPS on port 8443.
\<close>

lemma validateBrokerEndpoint_ok:
  assumes "validateBrokerEndpoint urlParse endpoint = None"
  obtains u where "urlParse (TrimRight endpoint CHR ''/'') = Inr u" "eu_Scheme u = ''https''" "\<not> eu_HasUser u"
    "eu_Port u = ''8443''" "eu_RawQuery u = []" "eu_Fragment u = []"
    "HasSuffix (ToLower (eu_Hostname u)) ''.svc.cluster.local'' \<and> length (SplitByte (ToLower (eu_Hostname u)) CHR ''.'') \<ge> 5
     \<or> HasSuffix (ToLower (eu_Hostname u)) ''.svc'' \<and> length (SplitByte (ToLower (eu_Hostname u)) CHR ''.'') \<ge> 3"
  using assms by (auto simp: validateBrokerEndpoint_def Let_def not_less split: sum.splits if_splits)

end
