(* ===== verification/Proxy_Egress.thy ===== *)
theory Proxy_Egress
  imports Broker_Client Audit_Events
begin

text \<open>
  What the proxy decides with: the verdict on a destination (\<open>src/internal/proxy/egress.go\<close>), from a static
  list or from the broker (\<open>broker_client.go\<close>), the networks it refuses to dial (\<open>deny_cidr.go\<close>) and the
  record of a decision (\<open>audit.go\<close>).

  The locale \<open>egress_validator\<close> states what the proxy relies on when it asks a \<open>Validator\<close>: an allow is
  justified, and a refusal says why. Both implementations satisfy it.
\<close>

section \<open>Verdicts\<close>

record Decision =
  de_Allowed :: bool
  de_MatchedPolicy :: string
  de_Reason :: string
  de_SubstituteAuth :: bool
  de_DiscoveryAllow :: bool

type_synonym validator = "string \<Rightarrow> int \<Rightarrow> error_msg + Decision"

record AllowRule =
  ar_Host :: string
  ar_Ports :: "int list"

type_synonym StaticValidator = "AllowRule list"

definition staticHostMatches :: "string \<Rightarrow> string \<Rightarrow> bool" where
  "staticHostMatches pattern host =
     (let pattern = ToLower pattern; host = ToLower host
      in if pattern = ''*'' then True
         else if HasPrefix pattern ''*.'' then HasSuffix host (drop 1 pattern) \<and> host \<noteq> drop 2 pattern
         else pattern = host)"

definition splitAllowEntry :: "string \<Rightarrow> error_msg + (string \<times> int)" where
  "splitAllowEntry entry =
     (case LastIndexByte entry CHR '':'' of
        None \<Rightarrow> Inl ''missing port (use host:port, with port=* for any)''
      | Some idx \<Rightarrow>
          (let host = take idx entry; portStr = drop (idx + 1) entry
           in if host = [] then Inl ''missing host''
              else if portStr = ''*'' \<or> portStr = [] then Inr (host, 0)
              else case Atoi portStr of
                Inl err \<Rightarrow> Inl (''port '' @ fmt_q portStr @ '': '' @ err)
              | Inr port \<Rightarrow>
                  if port < 1 \<or> port > 65535 then Inl (''port '' @ fmt_d port @ '' out of range'')
                  else Inr (host, port)))"

text \<open>The loop over the comma-separated entries; empty entries are skipped.\<close>

fun parseAllowEntries :: "string list \<Rightarrow> error_msg + AllowRule list" where
  "parseAllowEntries [] = Inr []"
| "parseAllowEntries (part # parts) =
     (let p = TrimSpace part
      in if p = [] then parseAllowEntries parts
         else case splitAllowEntry p of
           Inl err \<Rightarrow> Inl (''allow-list entry '' @ fmt_q p @ '': '' @ err)
         | Inr (host, port) \<Rightarrow>
             (case parseAllowEntries parts of
                Inl err \<Rightarrow> Inl err
              | Inr rules \<Rightarrow> Inr (\<lparr> ar_Host = ToLower host, ar_Ports = (if port \<noteq> 0 then [port] else []) \<rparr> # rules)))"

definition NewStaticValidatorFromEnv :: "string \<Rightarrow> error_msg + StaticValidator" where
  "NewStaticValidatorFromEnv raw =
     (let raw = TrimSpace raw in if raw = [] then Inr [] else parseAllowEntries (SplitByte raw CHR '',''))"

definition staticAllow :: Decision where
  "staticAllow = \<lparr> de_Allowed = True, de_MatchedPolicy = ''static-allow'', de_Reason = [], de_SubstituteAuth = False,
     de_DiscoveryAllow = False \<rparr>"

fun staticLoop :: "AllowRule list \<Rightarrow> string \<Rightarrow> int \<Rightarrow> Decision option" where
  "staticLoop [] h port = None"
| "staticLoop (r # rs) h port =
     (if \<not> staticHostMatches (ar_Host r) h then staticLoop rs h port
      else if ar_Ports r = [] then Some staticAllow
      else if port \<in> set (ar_Ports r) then Some staticAllow
      else staticLoop rs h port)"

definition staticValidateEgress :: "StaticValidator \<Rightarrow> validator" where
  "staticValidateEgress v host port =
     (case staticLoop v (ToLower host) port of
        Some d \<Rightarrow> Inr d
      | None \<Rightarrow> Inr \<lparr> de_Allowed = False, de_MatchedPolicy = [],
          de_Reason = ''no BrokerPolicy grants egress to '' @ host @ '':'' @ fmt_d port,
          de_SubstituteAuth = False, de_DiscoveryAllow = False \<rparr>)"

section \<open>The broker as validator and substituter\<close>

definition brokerValidateEgress ::
  "broker_client \<Rightarrow> error_msg + string
    \<Rightarrow> (ValidateEgressRequest broker_request \<Rightarrow> error_msg + ValidateEgressResponse http_response) \<Rightarrow> validator" where
  "brokerValidateEgress c token send host port =
     (case fst (client_Do c token (\<lambda>u r. (send r, u)) () \<lparr> veq_Host = host, veq_Port = port \<rparr>) of
        Inl err \<Rightarrow> Inl (client_Error err)
      | Inr None \<Rightarrow> Inl ''decoding validate-egress response: EOF''
      | Inr (Some out) \<Rightarrow>
          Inr \<lparr> de_Allowed = ver_Allowed out, de_MatchedPolicy = ver_MatchedPolicy out, de_Reason = ver_Reason out,
                de_SubstituteAuth = ver_SubstituteAuth out, de_DiscoveryAllow = ver_DiscoveryAllow out \<rparr>)"

text \<open>The two request headers the broker is shown.\<close>

definition brokerSubstituteAuth ::
  "broker_client \<Rightarrow> error_msg + string
    \<Rightarrow> ('s \<Rightarrow> SubstituteAuthRequest broker_request \<Rightarrow> (error_msg + SubstituteAuthResponse http_response) \<times> 's)
    \<Rightarrow> 's \<Rightarrow> string \<Rightarrow> int \<Rightarrow> (string \<Rightarrow> string) \<Rightarrow> (error_msg + SubstituteResult) \<times> 's" where
  "brokerSubstituteAuth c token send st host port getHeader =
     (case client_Do c token send st
             \<lparr> saq_Host = host, saq_Port = port, saq_IncomingAuthorization = getHeader ''Authorization'',
               saq_IncomingXAPIKey = getHeader ''X-Api-Key'' \<rparr> of
        (Inl err, st') \<Rightarrow> (Inl (client_Error err), st')
      | (Inr None, st') \<Rightarrow> (Inl ''decoding substitute-auth response: EOF'', st')
      | (Inr (Some out), st') \<Rightarrow>
          (Inr (subst_zero\<lparr> sub_SetHeaders := sar_SetHeaders out, sub_RemoveHeaders := sar_RemoveHeaders out,
                 sub_AllowedHeaders := sar_AllowedHeaders out, sub_AllowedQueryParams := sar_AllowedQueryParams out \<rparr>), st'))"

definition newProxyBrokerClient :: "client_env \<Rightarrow> string \<Rightarrow> string \<Rightarrow> string \<Rightarrow> string \<Rightarrow> error_msg + broker_client" where
  "newProxyBrokerClient e endpoint caPath runName runNamespace =
     (if endpoint = [] then Inl ''broker endpoint is required''
      else newBrokerclient e \<lparr> opt_Endpoint = endpoint, opt_CABundlePath = caPath, opt_HasTokenReader = True,
             opt_RunName = runName, opt_RunNamespace = runNamespace, opt_Timeout = 5 * second \<rparr>)"

section \<open>Refused networks\<close>

type_synonym DeniedCIDRSet = "IPNet list"

fun parseDeniedEntries :: "string list \<Rightarrow> error_msg + IPNet list" where
  "parseDeniedEntries [] = Inr []"
| "parseDeniedEntries (part # parts) =
     (let raw = TrimSpace part
      in if raw = [] then parseDeniedEntries parts
         else case ParseCIDR raw of
           None \<Rightarrow> Inl (''denied CIDR '' @ fmt_q raw @ '': invalid CIDR address: '' @ raw)
         | Some n \<Rightarrow> map_sum id (\<lambda>ns. n # ns) (parseDeniedEntries parts))"

definition ParseDeniedCIDRs :: "string \<Rightarrow> error_msg + DeniedCIDRSet" where
  "ParseDeniedCIDRs csv =
     (let csv = TrimSpace csv in if csv = [] then Inr [] else parseDeniedEntries (SplitByte csv CHR '',''))"

text \<open>A nil set or a nil address is \<open>None\<close>.\<close>

definition DeniedCIDRSet_Contains :: "DeniedCIDRSet option \<Rightarrow> IP option \<Rightarrow> bool" where
  "DeniedCIDRSet_Contains d ip =
     (case (d, ip) of (Some nets, Some ip) \<Rightarrow> list_ex (\<lambda>n. net_Contains n ip) nets | _ \<Rightarrow> False)"

section \<open>Recording a decision\<close>

record EgressEvent =
  ee_Host :: string
  ee_Port :: int
  ee_Decision :: AuditDecision
  ee_MatchedPolicy :: string
  ee_Reason :: string
  ee_When :: time
  ee_Kind :: AuditKind

text \<open>\<open>ClientAuditSink.RecordEgress\<close>: the audit event built for a decision.\<close>

definition egressAuditEvent :: "string \<Rightarrow> string \<Rightarrow> time \<Rightarrow> EgressEvent \<Rightarrow> AuditEvent" where
  "egressAuditEvent ns runName now e =
     (let inp = \<lparr> ei_RunName = runName, ei_Namespace = ns, ei_Host = ee_Host e, ei_Port = ee_Port e,
                  ei_Decision = ee_Decision e, ei_MatchedPolicy = ee_MatchedPolicy e, ei_Reason = ee_Reason e,
                  ei_When = (if IsZero (ee_When e) then now else ee_When e), ei_Kind = ee_Kind e \<rparr>
      in if ee_Decision e \<in> {AuditDecisionDenied, AuditDecisionWarned} then NewEgressBlock now inp else NewEgressAllow now inp)"

definition RecordEgress ::
  "string \<Rightarrow> string \<Rightarrow> time \<Rightarrow> (AuditEvent list \<Rightarrow> AuditEvent \<Rightarrow> error_msg option \<times> AuditEvent list)
    \<Rightarrow> AuditEvent list \<Rightarrow> EgressEvent \<Rightarrow> error_msg option \<times> AuditEvent list" where
  "RecordEgress ns runName now write log e = write log (egressAuditEvent ns runName now e)"

section \<open>The contract of a validator\<close>

locale egress_validator =
  fixes validate :: validator
    and granted :: "string \<Rightarrow> int \<Rightarrow> bool"
  assumes allow_granted: "validate h p = Inr d \<Longrightarrow> de_Allowed d \<Longrightarrow> granted h p"
    and deny_reason: "validate h p = Inr d \<Longrightarrow> \<not> de_Allowed d \<Longrightarrow> de_Reason d \<noteq> []"
begin

lemma not_granted: "\<not> granted h p \<Longrightarrow> validate h p = Inr d \<Longrightarrow> \<not> de_Allowed d \<and> de_Reason d \<noteq> []"
  using allow_granted deny_reason by blast

end

text \<open>What a static list grants.\<close>

definition static_granted :: "StaticValidator \<Rightarrow> string \<Rightarrow> int \<Rightarrow> bool" where
  "static_granted v host port \<longleftrightarrow>
     (\<exists>r \<in> set v. staticHostMatches (ar_Host r) host \<and> (ar_Ports r = [] \<or> port \<in> set (ar_Ports r)))"

lemma staticHostMatches_lower [simp]: "staticHostMatches p (ToLower h) = staticHostMatches p h"
  by (simp add: staticHostMatches_def)

lemma staticLoop_iff:
  "staticLoop v h port = (if static_granted v h port then Some staticAllow else None)"
  by (induction v) (auto simp: static_granted_def)

lemma static_granted_lower [simp]: "static_granted v (ToLower h) p = static_granted v h p"
  by (simp add: static_granted_def)

interpretation static: egress_validator "staticValidateEgress v" "static_granted v" for v
  by unfold_locales (auto simp: staticValidateEgress_def staticLoop_iff staticAllow_def split: if_splits)

text \<open>
  What the broker grants to a run: the run exists and either a policy that applies to its template grants
  the destination, or one of them has an open discovery window.
\<close>

definition broker_granted :: "broker_env \<Rightarrow> string \<Rightarrow> string \<Rightarrow> string \<Rightarrow> int \<Rightarrow> bool" where
  "broker_granted e ns runName host port \<longleftrightarrow>
     (\<exists>run items. getRun (be_kube e) ns runName = Inr run \<and> listPolicies (be_kube e) ns = Inr items
       \<and> (egress_granted (applying (tr_Name (hr_TemplateRef run)) items) host (int32 port)
          \<or> AnyDiscoveryActive (applying (tr_Name (hr_TemplateRef run)) items) (be_now e)))"

lemma validateEgress_granted:
  assumes "validateEgress e ns run req = RespJSON s v" "ver_Allowed v"
  shows "\<exists>items. listPolicies (be_kube e) ns = Inr items
    \<and> (egress_granted (applying (tr_Name (hr_TemplateRef run)) items) (veq_Host req) (int32 (veq_Port req))
       \<or> AnyDiscoveryActive (applying (tr_Name (hr_TemplateRef run)) items) (be_now e))"
proof (cases "listPolicies (be_kube e) ns")
  case (Inr items)
  then show ?thesis
    using assms matchEgressGrantLoop_None [of items "tr_Name (hr_TemplateRef run)" "veq_Host req" "veq_Port req"]
    by (auto simp: validateEgress_def Let_def matchEgressGrant_def ListMatchingPolicies_applying egressDenied_def
        split: option.splits if_splits)
qed (use assms in \<open>simp add: validateEgress_def matchEgressGrant_def\<close>)

lemma validateEgress_reason:
  "validateEgress e ns run req = RespJSON s v \<Longrightarrow> \<not> ver_Allowed v \<Longrightarrow> ver_Reason v \<noteq> []"
  by (auto simp: validateEgress_def Let_def egressDenied_def split: sum.splits option.splits if_splits)

lemma handleValidateEgress_JSON:
  assumes "handleValidateEgress e r = RespJSON s v" "rq_Body r = Inr req"
  obtains (gone) "v = \<lparr> ver_Allowed = False, ver_MatchedPolicy = [], ver_Reason = ''run no longer exists'',
      ver_SubstituteAuth = False, ver_DiscoveryAllow = False \<rparr>"
  | (run) caller n ns run where "authenticate (be_review e) r = Inr caller" "resolveRunIdentity r caller = Inr (n, ns)"
      "getRun (be_kube e) ns n = Inr run" "validateEgress e ns run req = RespJSON s v"
  using assms by (auto simp: handleValidateEgress_def egressDenied_def split: if_splits sum.splits)

text \<open>The validator the proxy runs with: its client, speaking to the broker's own handler.\<close>

definition broker_validator :: "broker_env \<Rightarrow> broker_client \<Rightarrow> error_msg + string \<Rightarrow> validator" where
  "broker_validator e c token = brokerValidateEgress c token (\<lambda>r. Inr (handleValidateEgress e r))"

lemma broker_validator_ok:
  assumes "broker_validator e c token h p = Inr d"
  obtains r v s where "client_request c token \<lparr> veq_Host = h, veq_Port = p \<rparr> = Inr r" "handleValidateEgress e r = RespJSON s v"
    "d = \<lparr> de_Allowed = ver_Allowed v, de_MatchedPolicy = ver_MatchedPolicy v, de_Reason = ver_Reason v,
           de_SubstituteAuth = ver_SubstituteAuth v, de_DiscoveryAllow = ver_DiscoveryAllow v \<rparr>"
  using assms
  by (auto simp: broker_validator_def brokerValidateEgress_def client_Do_def client_response_JSON
      split: sum.splits option.splits)

text \<open>The namespace the broker resolves is the one of the client, or the caller's when the client names none.\<close>

lemma client_request_fields:
  "client_request c token body = Inr r \<Longrightarrow>
   rq_HeaderRun r = bc_RunName c \<and> rq_HeaderNamespace r = bc_RunNamespace c \<and> rq_Body r = Inr body"
  by (auto simp: client_request_def split: sum.splits)

interpretation broker: egress_validator "broker_validator e c token"
  "\<lambda>h p. \<exists>ns. (bc_RunNamespace c = [] \<or> ns = bc_RunNamespace c) \<and> broker_granted e ns (bc_RunName c) h p" for e c token
proof
  fix h p d
  assume d: "broker_validator e c token h p = Inr d" "de_Allowed d"
  from d(1) obtain r v s where r: "client_request c token \<lparr> veq_Host = h, veq_Port = p \<rparr> = Inr r"
    "handleValidateEgress e r = RespJSON s v" "de_Allowed d = ver_Allowed v" by (rule broker_validator_ok) simp
  note f = client_request_fields [OF r(1)]
  have "rq_Body r = Inr \<lparr> veq_Host = h, veq_Port = p \<rparr>" using f by simp
  from r(2) this show "\<exists>ns. (bc_RunNamespace c = [] \<or> ns = bc_RunNamespace c) \<and> broker_granted e ns (bc_RunName c) h p"
  proof (cases rule: handleValidateEgress_JSON)
    case (run caller n ns run)
    have n: "n = bc_RunName c" "bc_RunNamespace c = [] \<or> ns = bc_RunNamespace c"
      using run(2) f by (auto simp: resolveRunIdentity_def Let_def split: if_splits)
    have "broker_granted e ns n h p"
      using validateEgress_granted [OF run(4)] run(3) d(2) r(3) by (auto simp: broker_granted_def)
    then show ?thesis using n by blast
  qed (use d r in auto)
next
  fix h p d
  assume d: "broker_validator e c token h p = Inr d" "\<not> de_Allowed d"
  from d(1) obtain r v s where r: "client_request c token \<lparr> veq_Host = h, veq_Port = p \<rparr> = Inr r"
    "handleValidateEgress e r = RespJSON s v" "de_Allowed d = ver_Allowed v" "de_Reason d = ver_Reason v"
    by (rule broker_validator_ok) simp
  note f = client_request_fields [OF r(1)]
  have "rq_Body r = Inr \<lparr> veq_Host = h, veq_Port = p \<rparr>" using f by simp
  from r(2) this show "de_Reason d \<noteq> []"
  proof (cases rule: handleValidateEgress_JSON)
    case (run caller n ns run)
    then show ?thesis using validateEgress_reason d(2) r(3,4) by metis
  qed (use d r in auto)
qed

end
