(* ===== verification/Proxy_Substitute.thy ===== *)
theory Proxy_Substitute
  imports Proxy_Egress
begin

text \<open>
  The request loop of a connection whose credentials are substituted
  (\<open>src/internal/proxy/substitute.go\<close>).

  A header map holds canonical names and their values, as \<open>net/http\<close> builds it from the wire; a query is
  its parsed form. What the connections deliver is a list of exchanges, one per turn of the loop, with
  the outcome of each read and write; the end of the list is the client closing the connection. The
  result is the error of the loop and what was written to either side, in order.
\<close>

section \<open>Headers\<close>

type_synonym http_header = "(string, string list) gomap"

definition header_Get :: "http_header \<Rightarrow> string \<Rightarrow> string" where
  "header_Get h k = (case map_of h (CanonicalHeaderKey k) of Some (v # _) \<Rightarrow> v | _ \<Rightarrow> [])"

definition header_Del :: "string \<Rightarrow> http_header \<Rightarrow> http_header" where
  "header_Del k h = mdelete (CanonicalHeaderKey k) h"

definition header_Set :: "string \<Rightarrow> string \<Rightarrow> http_header \<Rightarrow> http_header" where
  "header_Set k v h = mset_key (CanonicalHeaderKey k) [v] h"

definition header_ok :: "http_header \<Rightarrow> bool" where
  "header_ok h \<longleftrightarrow> mkeys_ok h \<and> (\<forall>k \<in> fst ` set h. CanonicalHeaderKey k = k)"

record proxy_req =
  pq_Method :: string
  pq_Host :: string
  pq_URLScheme :: string
  pq_URLHost :: string
  pq_Path :: string
  pq_Query :: "(string, string list) gomap"
  pq_RequestURI :: string
  pq_Header :: http_header
  pq_Body :: string
  pq_Close :: bool
  pq_ProtoMajor :: int
  pq_ProtoMinor :: int

record proxy_resp =
  prs_Status :: int
  prs_Header :: http_header
  prs_Body :: string
  prs_Close :: bool

definition hopByHopHeaders :: "string list" where
  "hopByHopHeaders = [''Connection'', ''Keep-Alive'', ''Proxy-Authenticate'', ''Proxy-Authorization'', ''Proxy-Connection'',
     ''Te'', ''Trailers'', ''Transfer-Encoding'', ''Upgrade'']"

definition mustKeepHeaders :: "string list" where
  "mustKeepHeaders = [''host'', ''content-length'', ''content-type'', ''transfer-encoding'']"

section \<open>Applying a substitution\<close>

definition allowedHdr :: "SubstituteResult \<Rightarrow> string list" where
  "allowedHdr res = mustKeepHeaders @ map ToLower (sub_AllowedHeaders res) @ map (ToLower \<circ> fst) (sub_SetHeaders res)"

definition setBasicAuth :: "BasicAuth \<Rightarrow> http_header \<Rightarrow> http_header" where
  "setBasicAuth ba h =
     header_Set ''Authorization'' (''Basic '' @ b64_encode False (ba_Username ba @ '':'' @ ba_Password ba))
       (header_Del ''Authorization'' h)"

definition substituteHeaders :: "SubstituteResult \<Rightarrow> http_header \<Rightarrow> http_header" where
  "substituteHeaders res h0 =
     (let h1 = foldl (\<lambda>h k. header_Del k h) h0 (sub_RemoveHeaders res);
          h2 = foldl (\<lambda>h (k, v). header_Set k v h) h1 (sub_SetHeaders res)
      in foldl (\<lambda>h name. if ToLower name \<in> set (allowedHdr res) then h else header_Del name h) h2 (map fst h2))"

definition substituteQuery :: "SubstituteResult \<Rightarrow> (string, string list) gomap \<Rightarrow> (string, string list) gomap" where
  "substituteQuery res q =
     foldl (\<lambda>q (k, v). mset_key k [v] q)
       (filter (\<lambda>(k, vs). k \<in> set (sub_AllowedQueryParams res) \<union> fst ` set (sub_SetQueryParam res)) q)
       (sub_SetQueryParam res)"

definition applySubstitutionToRequest :: "proxy_req \<Rightarrow> SubstituteResult \<Rightarrow> proxy_req" where
  "applySubstitutionToRequest req res =
     (let h = substituteHeaders res (pq_Header req)
      in req\<lparr> pq_Header := (case sub_SetBasicAuth res of None \<Rightarrow> h | Some ba \<Rightarrow> setBasicAuth ba h),
              pq_Query := substituteQuery res (pq_Query req) \<rparr>)"

section \<open>The loop\<close>

definition EqualFold :: "string \<Rightarrow> string \<Rightarrow> bool" where
  "EqualFold a b \<longleftrightarrow> ToLower a = ToLower b"

definition keepAliveEnabled :: "proxy_req \<Rightarrow> proxy_resp \<Rightarrow> bool" where
  "keepAliveEnabled req resp =
     (if pq_ProtoMajor req = 1 \<and> pq_ProtoMinor req = 0
      then EqualFold (header_Get (pq_Header req) ''Connection'') ''keep-alive''
         \<and> EqualFold (header_Get (prs_Header resp) ''Connection'') ''keep-alive''
      else True)"

datatype read_outcome = ReadEOF | ReadErr error_msg | ReadReq proxy_req

record exchange =
  xc_read :: read_outcome
  xc_writeErr :: "error_msg option"
  xc_resp :: "error_msg + proxy_resp"
  xc_replyErr :: "error_msg option"

datatype wire = ToUpstream proxy_req | ToClient proxy_resp

type_synonym 's substituter = "'s \<Rightarrow> string \<Rightarrow> int \<Rightarrow> http_header \<Rightarrow> (error_msg + SubstituteResult) \<times> 's"

definition scrub :: "http_header \<Rightarrow> http_header" where
  "scrub h = foldl (\<lambda>h k. header_Del k h) h hopByHopHeaders"

definition prepareRequest :: "string \<Rightarrow> proxy_req \<Rightarrow> proxy_req" where
  "prepareRequest host req =
     req\<lparr> pq_URLScheme := ''https'', pq_URLHost := host, pq_RequestURI := [], pq_Header := scrub (pq_Header req) \<rparr>"

definition substituteRequest ::
  "'s substituter option \<Rightarrow> string \<Rightarrow> int \<Rightarrow> proxy_req \<Rightarrow> 's \<Rightarrow> (error_msg + proxy_req) \<times> 's" where
  "substituteRequest sub host port req st =
     (case sub of
        None \<Rightarrow> (Inr req, st)
      | Some s \<Rightarrow>
          (case s st host port (pq_Header req) of
             (Inl err, st') \<Rightarrow> (Inl (''substitute-auth: '' @ err), st')
           | (Inr res, st') \<Rightarrow> (Inr (applySubstitutionToRequest req res), st')))"

fun handleSubstituted ::
  "'s substituter option \<Rightarrow> string \<Rightarrow> int \<Rightarrow> exchange list \<Rightarrow> 's \<Rightarrow> error_msg option \<times> wire list \<times> 's" where
  "handleSubstituted sub host port [] st = (None, [], st)"
| "handleSubstituted sub host port (x # xs) st =
     (case xc_read x of
        ReadEOF \<Rightarrow> (None, [], st)
      | ReadErr err \<Rightarrow> (Some (''reading client request: '' @ err), [], st)
      | ReadReq req0 \<Rightarrow>
          (case substituteRequest sub host port (prepareRequest host req0) st of
             (Inl err, st') \<Rightarrow> (Some err, [], st')
           | (Inr req, st') \<Rightarrow>
               (case xc_writeErr x of
                  Some err \<Rightarrow> (Some (''writing upstream request: '' @ err), [ToUpstream req], st')
                | None \<Rightarrow>
                    (case xc_resp x of
                       Inl err \<Rightarrow> (Some (''reading upstream response: '' @ err), [ToUpstream req], st')
                     | Inr resp0 \<Rightarrow>
                         (let resp = resp0\<lparr> prs_Header := scrub (prs_Header resp0) \<rparr>
                          in case xc_replyErr x of
                               Some err \<Rightarrow> (Some (''writing client response: '' @ err), [ToUpstream req, ToClient resp], st')
                             | None \<Rightarrow>
                                 if pq_Close req \<or> prs_Close resp \<or> \<not> keepAliveEnabled req resp
                                 then (None, [ToUpstream req, ToClient resp], st')
                                 else (case handleSubstituted sub host port xs st' of
                                         (e, w, st'') \<Rightarrow> (e, ToUpstream req # ToClient resp # w, st'')))))))"

section \<open>Lemmas: headers\<close>

lemma header_ok_Del [simp]: "header_ok h \<Longrightarrow> header_ok (header_Del k h)"
  by (auto simp: header_ok_def header_Del_def mdelete_def)

text \<open>A letter: upper and lower case differ by 32, and no other byte is changed.\<close>

lemma of_char_upper: "(of_char (upper_char c) :: nat) = (if 97 \<le> (of_char c :: nat) \<and> of_char c \<le> (122::nat) then of_char c - 32 else of_char c)"
proof (cases "97 \<le> (of_char c :: nat) \<and> of_char c \<le> (122::nat)")
  case True
  then have "(of_char c - (32::nat)) < 256" by linarith
  with True show ?thesis by (simp add: upper_char_def of_char_of)
qed (auto simp: upper_char_def)

lemma of_char_lower: "(of_char (lower_char c) :: nat) = (if 65 \<le> (of_char c :: nat) \<and> of_char c \<le> (90::nat) then of_char c + 32 else of_char c)"
proof (cases "65 \<le> (of_char c :: nat) \<and> of_char c \<le> (90::nat)")
  case True
  then have "(of_char c + (32::nat)) < 256" by linarith
  with True show ?thesis by (simp add: lower_char_def of_char_of)
qed (auto simp: lower_char_def)

lemma char_eqI: "(of_char a :: nat) = of_char b \<Longrightarrow> a = b"
  by (metis char_of_char)

lemma lower_upper_char [simp]: "lower_char (upper_char c) = lower_char c"
  by (rule char_eqI) (auto simp: of_char_upper of_char_lower)

lemma upper_lower_char [simp]: "upper_char (lower_char c) = upper_char c"
  by (rule char_eqI) (auto simp: of_char_upper of_char_lower)

lemma lower_dash [simp]: "lower_char c = CHR ''-'' \<longleftrightarrow> c = CHR ''-''"
  using lower_char_eq [of c "CHR ''-''"] by (auto simp: lower_char_def)

lemma isTokenChar_lower [simp]: "isTokenChar (lower_char c) = isTokenChar c"
proof (cases "65 \<le> (of_char c :: nat) \<and> of_char c \<le> (90::nat)")
  case True
  then show ?thesis by (simp add: isTokenChar_def Let_def of_char_lower)
qed (auto simp: lower_char_def)

lemma list_all_token_lower: "list_all isTokenChar (ToLower s) = list_all isTokenChar s"
  by (simp add: ToLower_def list_all_iff)

lemma ToLower_canonicalWord: "ToLower (canonicalWord b s) = ToLower s"
  by (induction s arbitrary: b) (simp_all add: ToLower_def)

lemma canonicalWord_lower: "canonicalWord b (ToLower s) = canonicalWord b s"
  by (induction s arbitrary: b) (simp_all add: ToLower_def)

text \<open>Names that differ in case only have one canonical form.\<close>

lemma canonical_case:
  assumes "list_all isTokenChar k" "ToLower n = ToLower k"
  shows "CanonicalHeaderKey n = CanonicalHeaderKey k"
proof -
  have "list_all isTokenChar n" using assms list_all_token_lower by metis
  then show ?thesis using assms canonicalWord_lower by (metis CanonicalHeaderKey_def)
qed

lemma ToLower_canonical [simp]: "ToLower (CanonicalHeaderKey s) = ToLower s"
  by (simp add: CanonicalHeaderKey_def ToLower_canonicalWord)

lemma map_of_header_Del [simp]: "map_of (header_Del k h) k' = (if k' = CanonicalHeaderKey k then None else map_of h k')"
  by (simp add: header_Del_def go_alist)

lemma map_of_header_Set [simp]: "map_of (header_Set k v h) k' = (if k' = CanonicalHeaderKey k then Some [v] else map_of h k')"
  by (simp add: header_Set_def go_alist)

lemma fold_Del_lookup:
  "map_of (foldl (\<lambda>h k. header_Del k h) h ks) k = (if k \<in> CanonicalHeaderKey ` set ks then None else map_of h k)"
  by (induction ks arbitrary: h) auto

lemma fold_Set_lookup:
  "map_of (foldl (\<lambda>h (k, v). header_Set k v h) h kvs) k = Some vs \<Longrightarrow>
   (\<exists>(n, v) \<in> set kvs. CanonicalHeaderKey n = k \<and> vs = [v]) \<or> map_of h k = Some vs \<and> k \<notin> CanonicalHeaderKey ` fst ` set kvs"
proof (induction kvs arbitrary: h)
  case (Cons kv kvs)
  obtain n v where kv: "kv = (n, v)" by fastforce
  from Cons.IH [of "header_Set n v h"] Cons.prems show ?case by (auto simp: kv split: if_splits)
qed simp

lemma fold_filter_lookup:
  "map_of (foldl (\<lambda>h name. if P name then h else header_Del name h) h ns) k =
   (if \<exists>n \<in> set ns. \<not> P n \<and> CanonicalHeaderKey n = k then None else map_of h k)"
  by (induction ns arbitrary: h) auto

text \<open>
  What the upstream can see in a header after a substitution: the value the broker set, or the agent's
  own value of a header that is allowed and that the broker did not set.
\<close>

lemma substituteHeaders_lookup:
  assumes ok: "\<forall>k \<in> fst ` set h. CanonicalHeaderKey k = k"
    and "map_of (substituteHeaders res h) k = Some vs" and tok: "list_all isTokenChar k"
  shows "(\<exists>(n, v) \<in> set (sub_SetHeaders res). CanonicalHeaderKey n = k \<and> vs = [v])
    \<or> map_of h k = Some vs \<and> ToLower k \<in> set mustKeepHeaders \<union> ToLower ` set (sub_AllowedHeaders res)"
proof -
  let ?h1 = "foldl (\<lambda>h k. header_Del k h) h (sub_RemoveHeaders res)"
  let ?h2 = "foldl (\<lambda>h (k, v). header_Set k v h) ?h1 (sub_SetHeaders res)"
  have h2: "map_of ?h2 k = Some vs" and
    keep: "\<And>n. n \<in> fst ` set ?h2 \<Longrightarrow> CanonicalHeaderKey n = k \<Longrightarrow> ToLower n \<in> set (allowedHdr res)"
    using assms(2) by (auto simp: substituteHeaders_def Let_def fold_filter_lookup split: if_splits)
  show ?thesis
  proof (cases "\<exists>(n, v) \<in> set (sub_SetHeaders res). CanonicalHeaderKey n = k \<and> vs = [v]")
    case False
    then have orig: "map_of ?h1 k = Some vs" "k \<notin> CanonicalHeaderKey ` fst ` set (sub_SetHeaders res)"
      using fold_Set_lookup [OF h2] by blast+
    then have h: "map_of h k = Some vs" by (simp add: fold_Del_lookup split: if_splits)
    then have ck: "CanonicalHeaderKey k = k" using ok map_of_SomeD by force
    moreover have "k \<in> fst ` set ?h2" using h2 map_of_SomeD by force
    ultimately have "ToLower k \<in> set (allowedHdr res)" using keep by blast
    then consider "ToLower k \<in> set mustKeepHeaders \<union> ToLower ` set (sub_AllowedHeaders res)"
      | n v where "(n, v) \<in> set (sub_SetHeaders res)" "ToLower n = ToLower k" by (auto simp: allowedHdr_def)
    then show ?thesis
    proof cases
      case 1
      then show ?thesis using h by blast
    next
      case (2 n v)
      then show ?thesis using canonical_case [OF tok 2(2)] ck orig(2) by force
    qed
  qed simp
qed

lemma scrub_ok: "\<forall>k \<in> fst ` set h. CanonicalHeaderKey k = k \<Longrightarrow> \<forall>k \<in> fst ` set (scrub h). CanonicalHeaderKey k = k"
proof -
  have "\<forall>k \<in> fst ` set h. CanonicalHeaderKey k = k \<Longrightarrow>
      \<forall>k \<in> fst ` set (foldl (\<lambda>h k. header_Del k h) h ks). CanonicalHeaderKey k = k" for ks h
  proof (induction ks arbitrary: h)
    case (Cons k ks)
    have "\<forall>k' \<in> fst ` set (header_Del k h). CanonicalHeaderKey k' = k'" using Cons.prems by (auto simp: header_Del_def mdelete_def)
    then show ?case using Cons.IH by simp
  qed simp
  then show "\<forall>k \<in> fst ` set h. CanonicalHeaderKey k = k \<Longrightarrow> \<forall>k \<in> fst ` set (scrub h). CanonicalHeaderKey k = k"
    by (simp add: scrub_def)
qed

section \<open>The contract of a substituter\<close>

text \<open>The headers in which an agent presents a bearer.\<close>

definition bearer_headers :: "string set" where
  "bearer_headers = {''Authorization'', ''X-Api-Key''}"

lemma bearer_token: "k \<in> bearer_headers \<Longrightarrow> list_all isTokenChar k"
proof -
  have "list_all isTokenChar ''Authorization''" "list_all isTokenChar ''X-Api-Key''" by code_simp+
  then show "k \<in> bearer_headers \<Longrightarrow> list_all isTokenChar k" by (auto simp: bearer_headers_def)
qed

lemma bearer_not_kept: "k \<in> bearer_headers \<Longrightarrow> ToLower k \<notin> set mustKeepHeaders"
proof -
  have "ToLower ''Authorization'' \<notin> set mustKeepHeaders" "ToLower ''X-Api-Key'' \<notin> set mustKeepHeaders" by code_simp+
  then show "k \<in> bearer_headers \<Longrightarrow> ToLower k \<notin> set mustKeepHeaders" by (auto simp: bearer_headers_def)
qed

text \<open>Every request head the client sent has canonical names, as \<open>net/http\<close> delivers it.\<close>

definition exchange_ok :: "exchange \<Rightarrow> bool" where
  "exchange_ok x \<longleftrightarrow> (case xc_read x of ReadReq req \<Rightarrow> \<forall>k \<in> fst ` set (pq_Header req). CanonicalHeaderKey k = k | _ \<Rightarrow> True)"

text \<open>
  The substituter never lets a bearer header of the agent through. For a client of the contract, every
  bearer header that goes upstream then holds a value the substituter itself supplied.
\<close>

locale bearer_safe =
  fixes sub :: "'s substituter"
  assumes bearer_not_allowed: "sub st host port h = (Inr res, st') \<Longrightarrow> ToLower ` set (sub_AllowedHeaders res) \<inter> ToLower ` bearer_headers = {}"
    and no_basic: "sub st host port h = (Inr res, st') \<Longrightarrow> sub_SetBasicAuth res = None"
begin

definition supplied :: "string \<Rightarrow> int \<Rightarrow> string \<Rightarrow> string \<Rightarrow> bool" where
  "supplied host port k v \<longleftrightarrow>
     (\<exists>st h res st' n. sub st host port h = (Inr res, st') \<and> (n, v) \<in> set (sub_SetHeaders res) \<and> CanonicalHeaderKey n = k)"

lemma substituteRequest_bearer:
  assumes "substituteRequest (Some sub) host port req st = (Inr req', st')"
    and "\<forall>k \<in> fst ` set (pq_Header req). CanonicalHeaderKey k = k"
    and "k \<in> bearer_headers" "map_of (pq_Header req') k = Some vs"
  shows "\<exists>v. vs = [v] \<and> supplied host port k v"
proof -
  obtain res where res: "sub st host port (pq_Header req) = (Inr res, st')" "req' = applySubstitutionToRequest req res"
    using assms(1) by (auto simp: substituteRequest_def split: prod.splits sum.splits)
  have tok: "list_all isTokenChar k" using assms(3) by (rule bearer_token)
  have "map_of (substituteHeaders res (pq_Header req)) k = Some vs"
    using assms(4) res no_basic [OF res(1)] by (simp add: applySubstitutionToRequest_def Let_def)
  from substituteHeaders_lookup [OF assms(2) this tok] show ?thesis
  proof
    assume "\<exists>(n, v) \<in> set (sub_SetHeaders res). CanonicalHeaderKey n = k \<and> vs = [v]"
    then obtain n v where nv: "(n, v) \<in> set (sub_SetHeaders res)" "CanonicalHeaderKey n = k" "vs = [v]" by blast
    have "supplied host port k v" unfolding supplied_def using res(1) nv(1,2) by blast
    then show ?thesis using nv(3) by simp
  next
    assume "map_of (pq_Header req) k = Some vs \<and> ToLower k \<in> set mustKeepHeaders \<union> ToLower ` set (sub_AllowedHeaders res)"
    then show ?thesis using bearer_not_kept bearer_not_allowed [OF res(1)] assms(3) by blast
  qed
qed

lemma loop_bearer:
  assumes "\<forall>x \<in> set xs. exchange_ok x" "ToUpstream r \<in> set (fst (snd (handleSubstituted (Some sub) host port xs st)))"
    and "k \<in> bearer_headers" "map_of (pq_Header r) k = Some vs"
  shows "\<exists>v. vs = [v] \<and> supplied host port k v"
  using assms(1,2)
proof (induction xs arbitrary: st)
  case (Cons x xs)
  show ?case
  proof (cases "xc_read x")
    case (ReadReq req0)
    have ok: "\<forall>k \<in> fst ` set (pq_Header (prepareRequest host req0)). CanonicalHeaderKey k = k"
      using Cons.prems(1) ReadReq scrub_ok by (auto simp: exchange_ok_def prepareRequest_def)
    obtain y st' where s: "substituteRequest (Some sub) host port (prepareRequest host req0) st = (y, st')" by fastforce
    show ?thesis
    proof (cases y)
      case (Inl err)
      with Cons.prems(2) ReadReq s show ?thesis by simp
    next
      case (Inr req)
      with Cons.prems(2) ReadReq s have "r = req \<or> ToUpstream r \<in> set (fst (snd (handleSubstituted (Some sub) host port xs st')))"
        by (auto simp: Let_def split: option.splits sum.splits if_splits prod.splits)
      then show ?thesis using Cons.IH Cons.prems(1) substituteRequest_bearer [OF _ ok assms(3)] assms(4) s Inr by auto
    qed
  qed (use Cons.prems in simp_all)
qed simp

end

end
