(* ===== verification/Proxy_Server.thy ===== *)
theory Proxy_Server
  imports Proxy_Cache Proxy_Substitute "HOL-Library.Word"
begin

text \<open>
  The proxy itself: cooperative connections (\<open>src/internal/proxy/server.go\<close>), transparent connections
  (\<open>mode.go\<close>, \<open>transparent_linux.go\<close>, \<open>sniffer.go\<close>), the interception they share (\<open>mitm.go\<close>), and the checks
  before the process starts (\<open>src/cmd/proxy/main.go\<close>).

  A connection is handled by a function of the environment and the state: the environment gives the
  outcome of everything outside the proxy (the validator, DNS, the audit sink, handshakes, dialing, the
  traffic), the state holds the two caches and the state of the substituter. The result is the list of
  effects in the order they happen. Logging and deadlines are left out.
\<close>

section \<open>Environment, state and effects\<close>

record proxy_env =
  px_validate :: validator
  px_denied :: "DeniedCIDRSet option"
  px_auditErr :: "EgressEvent \<Rightarrow> error_msg option"
  px_lookup :: "string \<Rightarrow> error_msg + IP list"
  px_now :: time
  px_now2 :: time
  px_x509 :: x509_env
  px_hijackable :: bool
  px_hijackErr :: "error_msg option"
  px_clientHandshake :: "error_msg option"
  px_dial :: "IP \<Rightarrow> int \<Rightarrow> error_msg option"
  px_upstreamHandshake :: "IP \<Rightarrow> string \<Rightarrow> error_msg option"
  px_shuttleErr :: "error_msg option"
  px_traffic :: "exchange list"

record 's proxy_state =
  pxs_resolver :: cachingResolver
  pxs_ca :: MITMCertificateAuthority
  pxs_sub :: 's

datatype proxy_effect =
    Audited EgressEvent
  | AuditFailed EgressEvent
  | Rejected string
  | Replied int string
  | Established
  | Reset
  | HandshakeFailed
  | Dialed IP int string
  | Relayed wire
  | Shuttled

definition egressDenial :: "string \<Rightarrow> int \<Rightarrow> string \<Rightarrow> EgressEvent" where
  "egressDenial host port reason =
     \<lparr> ee_Host = host, ee_Port = port, ee_Decision = AuditDecisionDenied, ee_MatchedPolicy = [], ee_Reason = reason,
       ee_When = 0, ee_Kind = AuditKindUnset \<rparr>"

definition recordEgress :: "proxy_env \<Rightarrow> EgressEvent \<Rightarrow> error_msg option \<times> proxy_effect list" where
  "recordEgress e ev = (case px_auditErr e ev of None \<Rightarrow> (None, [Audited ev]) | Some err \<Rightarrow> (Some err, [AuditFailed ev]))"

section \<open>Interception\<close>

definition dialUpstreamTLS :: "proxy_env \<Rightarrow> IP \<Rightarrow> int \<Rightarrow> string \<Rightarrow> error_msg option \<times> proxy_effect list" where
  "dialUpstreamTLS e dialIP port serverName =
     (case px_dial e dialIP port of
        Some err \<Rightarrow> (Some err, [Dialed dialIP port serverName])
      | None \<Rightarrow>
          (case px_upstreamHandshake e dialIP serverName of
             Some err \<Rightarrow> (Some (''upstream TLS handshake: '' @ err),
                          [Dialed dialIP port serverName, HandshakeFailed, Rejected ''handshake_failed''])
           | None \<Rightarrow> (None, [Dialed dialIP port serverName])))"

definition grantEvent :: "string \<Rightarrow> int \<Rightarrow> Decision \<Rightarrow> EgressEvent" where
  "grantEvent sni port d =
     \<lparr> ee_Host = sni, ee_Port = port, ee_Decision = AuditDecisionGranted, ee_MatchedPolicy = de_MatchedPolicy d,
       ee_Reason = de_Reason d, ee_When = 0,
       ee_Kind = (if de_DiscoveryAllow d then AuditKindEgressDiscoveryAllow else AuditKindEgressAllow) \<rparr>"

definition doMITM ::
  "proxy_env \<Rightarrow> 's substituter option \<Rightarrow> string \<Rightarrow> IP \<Rightarrow> int \<Rightarrow> Decision \<Rightarrow> 's proxy_state
    \<Rightarrow> error_msg option \<times> proxy_effect list \<times> 's proxy_state" where
  "doMITM e sub sni dialIP port decision st =
     (case forge (px_x509 e) (px_now e) sni (pxs_ca st) of
        (Inl err, ca) \<Rightarrow> (Some (''forge leaf: '' @ err), [], st\<lparr> pxs_ca := ca \<rparr>)
      | (Inr leaf, ca) \<Rightarrow>
          (let st1 = st\<lparr> pxs_ca := ca \<rparr>
           in case px_clientHandshake e of
                Some err \<Rightarrow> (Some (''client TLS handshake: '' @ err), [HandshakeFailed, Rejected ''handshake_failed''], st1)
              | None \<Rightarrow>
                  (case dialUpstreamTLS e dialIP port sni of
                     (Some err, effs) \<Rightarrow> (Some (''upstream dial: '' @ err), effs, st1)
                   | (None, effs) \<Rightarrow>
                       (let audit = snd (recordEgress e (grantEvent sni port decision))
                        in if de_SubstituteAuth decision \<and> sub \<noteq> None
                           then (case handleSubstituted sub sni port (px_traffic e) (pxs_sub st1) of
                                   (err, w, s) \<Rightarrow>
                                     (map_option (\<lambda>m. ''substitute-auth MITM: '' @ m) err, effs @ audit @ map Relayed w,
                                      st1\<lparr> pxs_sub := s \<rparr>))
                           else (px_shuttleErr e, effs @ audit @ [Shuttled], st1)))))"

section \<open>Cooperative connections\<close>

definition splitConnectTarget :: "string \<Rightarrow> error_msg + (string \<times> int)" where
  "splitConnectTarget target =
     (case SplitHostPort target of
        Inl err \<Rightarrow> Inl (''CONNECT target '' @ fmt_q target @ '': '' @ err)
      | Inr (hostStr, portStr) \<Rightarrow>
          (case Atoi portStr of
             Inl err \<Rightarrow> Inl (''CONNECT port '' @ fmt_q portStr @ '': '' @ err)
           | Inr port \<Rightarrow>
               if port < 1 \<or> port > 65535 then Inl (''CONNECT port '' @ fmt_d port @ '' out of range'')
               else Inr (ToLower hostStr, port)))"

text \<open>A denial that is audited first, and reported as unavailable when it cannot be audited.\<close>

definition deniedAudited :: "proxy_env \<Rightarrow> EgressEvent \<Rightarrow> proxy_effect \<Rightarrow> proxy_effect list" where
  "deniedAudited e ev reply =
     (case recordEgress e ev of
        (None, effs) \<Rightarrow> effs @ [reply]
      | (Some _, effs) \<Rightarrow> effs @ [Replied 502 ''paddock-proxy: audit unavailable''])"

text \<open>The part of \<open>handleConnect\<close> after the resolver answered.\<close>

definition connectResolved ::
  "proxy_env \<Rightarrow> 's substituter option \<Rightarrow> string \<Rightarrow> int \<Rightarrow> Decision \<Rightarrow> IP list \<Rightarrow> 's proxy_state \<Rightarrow> proxy_effect list \<times> 's proxy_state" where
  "connectResolved e sub host port decision resolved st =
     (case filter (\<lambda>ip. \<not> DeniedCIDRSet_Contains (px_denied e) (Some ip)) resolved of
        [] \<Rightarrow>
          (snd (recordEgress e (egressDenial host port ''denied-destination-cidr: all resolved IPs in denied set''))
             @ [Rejected ''denied_destination_cidr'', Replied 403 ''paddock-proxy: all resolved IPs denied by CIDR set''], st)
      | dialIP # _ \<Rightarrow>
          if \<not> px_hijackable e then ([Replied 500 ''paddock-proxy: hijack not supported''], st)
          else if px_hijackErr e \<noteq> None then ([Established], st)
          else (case doMITM e sub host dialIP port decision st of (err, effs, st') \<Rightarrow> (Established # effs, st')))"

definition handleConnect ::
  "proxy_env \<Rightarrow> 's substituter option \<Rightarrow> string \<Rightarrow> 's proxy_state \<Rightarrow> proxy_effect list \<times> 's proxy_state" where
  "handleConnect e sub target st =
     (case splitConnectTarget target of
        Inl err \<Rightarrow> ([Replied 400 err], st)
      | Inr (host, port) \<Rightarrow>
          if ParseIP host \<noteq> None \<and> DeniedCIDRSet_Contains (px_denied e) (ParseIP host)
          then (snd (recordEgress e (egressDenial host port (''denied-destination-cidr: '' @ host)))
                  @ [Rejected ''denied_destination_cidr'', Replied 403 ''paddock-proxy: denied destination CIDR''], st)
          else (case px_validate e host port of
                  Inl vErr \<Rightarrow>
                    (deniedAudited e (egressDenial host port (''validator error: '' @ vErr))
                       (Replied 502 ''paddock-proxy: broker unreachable''), st)
                | Inr decision \<Rightarrow>
                    if \<not> de_Allowed decision
                    then (deniedAudited e (egressDenial host port (de_Reason decision))
                            (Replied 403 (''paddock-proxy: '' @ de_Reason decision)), st)
                    else (case LookupHost (px_lookup e) (px_now e) (px_now2 e) host (pxs_resolver st) of
                            (Inl rerr, rv) \<Rightarrow>
                              (snd (recordEgress e (egressDenial host port (''dns-resolution-failed: '' @ rerr)))
                                 @ [Rejected ''dns_resolution_failed'', Replied 502 ''paddock-proxy: dns resolution failed''],
                               st\<lparr> pxs_resolver := rv \<rparr>)
                          | (Inr resolved, rv) \<Rightarrow>
                              connectResolved e sub host port decision resolved (st\<lparr> pxs_resolver := rv \<rparr>))))"

definition ServeHTTP ::
  "proxy_env \<Rightarrow> 's substituter option \<Rightarrow> string \<Rightarrow> string \<Rightarrow> 's proxy_state \<Rightarrow> proxy_effect list \<times> 's proxy_state" where
  "ServeHTTP e sub meth target st =
     (if meth \<noteq> ''CONNECT''
      then ([Replied 405 ''paddock-proxy: only HTTPS CONNECT traffic is supported (M4)''], st)
      else handleConnect e sub target st)"

section \<open>Transparent connections\<close>

text \<open>
  The port of the socket address arrives with its two bytes swapped; \<open>originalDestination\<close> swaps them
  back. \<open>port16\<close> is the raw field.
\<close>

definition decodePort :: "16 word \<Rightarrow> int" where
  "decodePort p = or (uint (and (drop_bit 8 p) 255)) (push_bit 8 (uint (and p 255)))"

definition originalDestination :: "(error_msg + (nat list \<times> 16 word)) \<Rightarrow> error_msg + (IP \<times> int)" where
  "originalDestination sockaddr =
     (case sockaddr of
        Inl err \<Rightarrow> Inl err
      | Inr (addr, port16) \<Rightarrow> Inr (To16 (take 4 addr), decodePort port16))"

text \<open>A refusal that resets the connection only when it could not be audited.\<close>

definition closeUnaudited :: "proxy_env \<Rightarrow> EgressEvent \<Rightarrow> proxy_effect list" where
  "closeUnaudited e ev = (case recordEgress e ev of (None, effs) \<Rightarrow> effs | (Some _, effs) \<Rightarrow> effs @ [Reset])"

text \<open>\<open>orig\<close> is the outcome of \<open>SO_ORIGINAL_DST\<close>, \<open>hello\<close> that of reading the ClientHello: the SNI.\<close>

definition HandleTransparentConn ::
  "proxy_env \<Rightarrow> 's substituter option \<Rightarrow> error_msg + (IP \<times> int) \<Rightarrow> error_msg + string \<Rightarrow> 's proxy_state
    \<Rightarrow> proxy_effect list \<times> 's proxy_state" where
  "HandleTransparentConn e sub orig hello st =
     (case orig of
        Inl _ \<Rightarrow> ([], st)
      | Inr (origIP, origPort) \<Rightarrow>
          if DeniedCIDRSet_Contains (px_denied e) (Some origIP)
          then (snd (recordEgress e (egressDenial (ip_String origIP) origPort (''denied-destination-cidr: '' @ ip_String origIP)))
                  @ [Rejected ''denied_destination_cidr'', Reset], st)
          else (case hello of
                  Inl _ \<Rightarrow>
                    (closeUnaudited e (egressDenial (ip_String origIP) origPort
                       (''could not parse TLS ClientHello '' @ [CHR 0xE2, CHR 0x80, CHR 0x94]
                          @ '' plain-HTTP transparent interception is a v0.4 item'')), st)
                | Inr sni \<Rightarrow>
                    if sni = []
                    then (closeUnaudited e (egressDenial (ip_String origIP) origPort
                            ''TLS ClientHello did not carry an SNI; destinations without SNI are blocked in v0.3''), st)
                    else (case px_validate e sni origPort of
                            Inl vErr \<Rightarrow> (closeUnaudited e (egressDenial sni origPort (''validator error: '' @ vErr)), st)
                          | Inr decision \<Rightarrow>
                              if \<not> de_Allowed decision
                              then (closeUnaudited e (egressDenial sni origPort (de_Reason decision)), st)
                              else (case LookupHost (px_lookup e) (px_now e) (px_now2 e) sni (pxs_resolver st) of
                                      (Inl rerr, rv) \<Rightarrow>
                                        (snd (recordEgress e (egressDenial sni origPort (''dns-resolution-failed: '' @ rerr)))
                                           @ [Rejected ''dns_resolution_failed'', Reset], st\<lparr> pxs_resolver := rv \<rparr>)
                                    | (Inr resolved, rv) \<Rightarrow>
                                        if \<not> list_ex (\<lambda>ip. ip_Equal ip origIP) resolved
                                        then (snd (recordEgress e (egressDenial sni origPort
                                                (''dns-rebinding-mismatch: agent IP '' @ ip_String origIP
                                                   @ '' not in proxy-resolved set'')))
                                                @ [Rejected ''dns_rebinding_mismatch'', Reset], st\<lparr> pxs_resolver := rv \<rparr>)
                                        else (case doMITM e sub sni origIP origPort decision (st\<lparr> pxs_resolver := rv \<rparr>) of
                                                (err, effs, st') \<Rightarrow> (effs, st'))))))"

section \<open>Replaying peeked bytes\<close>

text \<open>
  A connection's unread input is a byte string. The peek reads through a tee that copies what it reads
  into \<open>buffered\<close>; afterwards \<open>Read\<close> drains the copy before the connection.
\<close>

record peekConn =
  pk_input :: string
  pk_buffered :: string

definition teeRead :: "nat \<Rightarrow> peekConn \<Rightarrow> string \<times> peekConn" where
  "teeRead n c = (take n (pk_input c), \<lparr> pk_input = drop n (pk_input c), pk_buffered = pk_buffered c @ take n (pk_input c) \<rparr>)"

definition peekRead :: "nat \<Rightarrow> peekConn \<Rightarrow> string \<times> peekConn" where
  "peekRead n c =
     (if pk_buffered c \<noteq> [] then (take n (pk_buffered c), c\<lparr> pk_buffered := drop n (pk_buffered c) \<rparr>)
      else (take n (pk_input c), c\<lparr> pk_input := drop n (pk_input c) \<rparr>))"

fun reads :: "(nat \<Rightarrow> peekConn \<Rightarrow> string \<times> peekConn) \<Rightarrow> nat list \<Rightarrow> peekConn \<Rightarrow> string \<times> peekConn" where
  "reads rd [] c = ([], c)"
| "reads rd (n # ns) c = (case rd n c of (b, c') \<Rightarrow> case reads rd ns c' of (bs, c'') \<Rightarrow> (b @ bs, c''))"

section \<open>Starting\<close>

record proxy_flags =
  pf_mode :: string
  pf_acceptanceReason :: string
  pf_allow :: string
  pf_brokerEndpoint :: string
  pf_disableAudit :: bool
  pf_runName :: string
  pf_runNamespace :: string

definition AuditSinkTypeClient :: string where "AuditSinkTypeClient = ''client''"
definition AuditSinkTypeNoop :: string where "AuditSinkTypeNoop = ''noop''"

text \<open>\<open>buildAuditSink\<close>: which sink, given whether the cluster configuration and the client could be built.\<close>

definition buildAuditSink :: "proxy_flags \<Rightarrow> error_msg option \<Rightarrow> error_msg option \<Rightarrow> string" where
  "buildAuditSink f configErr clientErr =
     (if pf_disableAudit f then AuditSinkTypeNoop
      else if pf_runName f = [] \<or> pf_runNamespace f = [] then AuditSinkTypeNoop
      else if configErr \<noteq> None then AuditSinkTypeNoop
      else if clientErr \<noteq> None then AuditSinkTypeNoop
      else AuditSinkTypeClient)"

definition refuseToStart :: "proxy_flags \<Rightarrow> error_msg option \<Rightarrow> error_msg option \<Rightarrow> error_msg option" where
  "refuseToStart f configErr clientErr =
     (if pf_mode f = [] then Some (''--mode is required (no default): set 'transparent' or 'cooperative'' @ [CHR 0x27])
      else if pf_mode f \<noteq> ''transparent'' \<and> pf_mode f \<noteq> ''cooperative'' then Some (''--mode must be 'transparent' or 'cooperative'' @ [CHR 0x27])
      else if pf_mode f = ''cooperative'' \<and> pf_acceptanceReason f = []
      then Some ''--interception-acceptance-reason is required when --mode=cooperative''
      else if pf_allow f = [] \<and> pf_brokerEndpoint f = [] \<and> \<not> pf_disableAudit f
      then Some ''default-deny + no audit is never intentional''
      else if buildAuditSink f configErr clientErr = AuditSinkTypeNoop \<and> \<not> pf_disableAudit f
      then Some ''audit sink resolved to noop without --disable-audit; refusing to start (F-27)''
      else None)"

end
