(* ===== verification/Proxy_Limit.thy ===== *)
theory Proxy_Limit
  imports Go_Prelude
begin

text \<open>
  The bound on concurrent connections (\<open>src/internal/proxy/limit.go\<close>): the counting semaphore, the
  listener that drops connections over the bound, and the connection that gives its slot back when it is
  closed, once.

  A buffered channel used as a semaphore is its capacity and the number of tokens in it; receiving from
  an empty channel blocks, which is \<open>None\<close>. A connection is an identifier. The listener's state holds the
  connections whose slot is still taken, and the two metrics.
\<close>

section \<open>The semaphore\<close>

record ConnLimiter =
  cl_cap :: "nat option"
  cl_used :: nat

definition NewConnLimiter :: "int \<Rightarrow> ConnLimiter" where
  "NewConnLimiter cap = \<lparr> cl_cap = (if cap \<le> 0 then None else Some (nat cap)), cl_used = 0 \<rparr>"

definition Acquire :: "ConnLimiter \<Rightarrow> ConnLimiter option" where
  "Acquire l =
     (case cl_cap l of
        None \<Rightarrow> Some l
      | Some cap \<Rightarrow> if cl_used l < cap then Some (l\<lparr> cl_used := cl_used l + 1 \<rparr>) else None)"

definition release :: "ConnLimiter \<Rightarrow> ConnLimiter option" where
  "release l =
     (case cl_cap l of
        None \<Rightarrow> Some l
      | Some _ \<Rightarrow> if cl_used l = 0 then None else Some (l\<lparr> cl_used := cl_used l - 1 \<rparr>))"

section \<open>The listener\<close>

record LimitedListener =
  ll_limiter :: ConnLimiter
  ll_held :: "nat list"
  ll_active :: int
  ll_rejected :: nat

definition NewLimitedListener :: "int \<Rightarrow> LimitedListener" where
  "NewLimitedListener cap = \<lparr> ll_limiter = NewConnLimiter cap, ll_held = [], ll_active = 0, ll_rejected = 0 \<rparr>"

text \<open>
  \<open>Accept\<close> on a queue of incoming connections: the result is the connection handed out, with those
  still waiting, or nothing when the queue runs dry, where the code waits for the next one.
\<close>

fun Accept :: "LimitedListener \<Rightarrow> nat list \<Rightarrow> (nat \<times> nat list) option \<times> LimitedListener" where
  "Accept l [] = (None, l)"
| "Accept l (c # queue) =
     (case Acquire (ll_limiter l) of
        None \<Rightarrow> Accept (l\<lparr> ll_rejected := ll_rejected l + 1 \<rparr>) queue
      | Some lim \<Rightarrow>
          (Some (c, queue), l\<lparr> ll_limiter := lim, ll_held := c # ll_held l, ll_active := ll_active l + 1 \<rparr>))"

text \<open>\<open>limitedConn.Close\<close>: the first call on a connection runs the \<open>sync.Once\<close>, later calls do not.\<close>

definition closeConn :: "nat \<Rightarrow> LimitedListener \<Rightarrow> LimitedListener option" where
  "closeConn c l =
     (if c \<notin> set (ll_held l) then Some l
      else (case release (ll_limiter l) of
              None \<Rightarrow> None
            | Some lim \<Rightarrow>
                Some (l\<lparr> ll_limiter := lim, ll_held := remove1 c (ll_held l), ll_active := ll_active l - 1 \<rparr>)))"

section \<open>Interleavings\<close>

text \<open>
  Accepting and closing happen in any order. Every accepted connection is new; the third index is the
  state, \<open>None\<close> once a close blocked for ever.
\<close>

inductive lim_run :: "int \<Rightarrow> nat set \<Rightarrow> LimitedListener option \<Rightarrow> bool" for cap where
  start: "lim_run cap {} (Some (NewLimitedListener cap))"
| accept: "lim_run cap seen (Some l) \<Longrightarrow> distinct queue \<Longrightarrow> set queue \<inter> seen = {}
    \<Longrightarrow> lim_run cap (seen \<union> set queue) (Some (snd (Accept l queue)))"
| close: "lim_run cap seen (Some l) \<Longrightarrow> c \<in> seen \<Longrightarrow> lim_run cap seen (closeConn c l)"

definition lim_inv :: "int \<Rightarrow> nat set \<Rightarrow> LimitedListener \<Rightarrow> bool" where
  "lim_inv cap seen l \<longleftrightarrow>
     distinct (ll_held l) \<and> set (ll_held l) \<subseteq> seen \<and> ll_active l = int (length (ll_held l))
     \<and> cl_cap (ll_limiter l) = (if cap \<le> 0 then None else Some (nat cap))
     \<and> (cap \<le> 0 \<or> cl_used (ll_limiter l) = length (ll_held l) \<and> int (length (ll_held l)) \<le> cap)"

lemma Acquire_Some:
  "Acquire l = Some l' \<longleftrightarrow> cl_cap l = None \<and> l' = l \<or> (\<exists>cap. cl_cap l = Some cap \<and> cl_used l < cap \<and> l' = l\<lparr> cl_used := cl_used l + 1 \<rparr>)"
  by (auto simp: Acquire_def split: option.splits if_splits)

lemma lim_inv_Accept:
  assumes "lim_inv cap seen l" "distinct queue" "set queue \<inter> seen = {}"
  shows "lim_inv cap (seen \<union> set queue) (snd (Accept l queue))"
  using assms
proof (induction l queue rule: Accept.induct)
  case (2 l c queue)
  show ?case
  proof (cases "Acquire (ll_limiter l)")
    case None
    then have "lim_inv cap (seen \<union> set queue) (snd (Accept (l\<lparr> ll_rejected := ll_rejected l + 1 \<rparr>) queue))"
      using 2 by (auto simp: lim_inv_def)
    with None show ?thesis by (auto simp: lim_inv_def)
  next
    case (Some lim)
    then have "lim = ll_limiter l \<and> cap \<le> 0 \<or> cap > 0 \<and> int (length (ll_held l)) < cap \<and> lim = (ll_limiter l)\<lparr> cl_used := cl_used (ll_limiter l) + 1 \<rparr>"
      using "2.prems"(1) by (auto simp: Acquire_Some lim_inv_def split: if_splits)
    with 2 Some show ?thesis by (auto simp: lim_inv_def)
  qed
qed simp

text \<open>A close never blocks: the semaphore holds a token for every connection that has not been closed.\<close>

lemma closeConn_ok:
  assumes "lim_inv cap seen l" "c \<in> seen"
  obtains l' where "closeConn c l = Some l'" "lim_inv cap seen l'" "ll_held l' = remove1 c (ll_held l)"
proof (cases "c \<in> set (ll_held l)")
  case True
  then have pos: "Suc 0 \<le> length (ll_held l)" by (cases "ll_held l") auto
  show thesis
  proof (cases "cap \<le> 0")
    case True
    with assms \<open>c \<in> set (ll_held l)\<close> pos show thesis
      by (intro that [of "l\<lparr> ll_held := remove1 c (ll_held l), ll_active := ll_active l - 1 \<rparr>"])
        (auto simp: closeConn_def release_def lim_inv_def length_remove1 of_nat_diff dest: notin_set_remove1 split: option.splits)
  next
    case False
    with assms \<open>c \<in> set (ll_held l)\<close> pos show thesis
      by (intro that [of "l\<lparr> ll_limiter := (ll_limiter l)\<lparr> cl_used := cl_used (ll_limiter l) - 1 \<rparr>,
            ll_held := remove1 c (ll_held l), ll_active := ll_active l - 1 \<rparr>"])
        (auto simp: closeConn_def release_def lim_inv_def length_remove1 of_nat_diff dest: notin_set_remove1 split: option.splits)
  qed
next
  case False
  with assms show thesis by (intro that [of l]) (auto simp: closeConn_def remove1_idem)
qed

lemma lim_run_inv: "lim_run cap seen ol \<Longrightarrow> \<exists>l. ol = Some l \<and> lim_inv cap seen l"
proof (induction rule: lim_run.induct)
  case start
  show ?case by (auto simp: lim_inv_def NewLimitedListener_def NewConnLimiter_def)
next
  case (accept seen l queue)
  then show ?case using lim_inv_Accept by blast
next
  case (close seen l c)
  then show ?case by (metis closeConn_ok option.inject)
qed

text \<open>With a free slot the next connection is taken.\<close>

lemma Accept_free:
  assumes "lim_inv cap seen l" "cap \<le> 0 \<or> int (length (ll_held l)) < cap"
  shows "fst (Accept l (c # queue)) = Some (c, queue)"
  using assms by (auto simp: lim_inv_def Acquire_def split: option.splits if_splits)

text \<open>Closing every held connection empties the listener.\<close>

fun closeAll :: "nat list \<Rightarrow> LimitedListener option \<Rightarrow> LimitedListener option" where
  "closeAll [] ol = ol"
| "closeAll (c # cs) ol = closeAll cs (Option.bind ol (closeConn c))"

lemma closeAll_empties:
  assumes "lim_inv cap seen l" "set (ll_held l) \<subseteq> set cs" "set cs \<subseteq> seen"
  shows "\<exists>l'. closeAll cs (Some l) = Some l' \<and> lim_inv cap seen l' \<and> ll_held l' = []"
  using assms
proof (induction cs arbitrary: l)
  case (Cons c cs)
  from Cons.prems(1,3) obtain l' where "closeConn c l = Some l'" "lim_inv cap seen l'" "ll_held l' = remove1 c (ll_held l)"
    by (auto elim: closeConn_ok)
  moreover from Cons.prems(1,2) have "set (remove1 c (ll_held l)) \<subseteq> set cs" by (auto simp: lim_inv_def)
  ultimately show ?case using Cons by simp
qed auto

end
