(* ===== verification/Proxy_Facts.thy ===== *)
theory Proxy_Facts
  imports Proxy_Server Proxy_Limit Broker_Facts
begin

text \<open>
  Lemmas about the proxy's handlers, and the proxy composed with the broker: the broker's answers satisfy
  the contract of a substituter.
\<close>

section \<open>Effects\<close>

lemma recordEgress_effects: "snd (recordEgress e ev) = [Audited ev] \<or> snd (recordEgress e ev) = [AuditFailed ev]"
  by (simp add: recordEgress_def split: option.splits)

lemma recordEgress_no_dial [simp]:
  "Dialed ip p s \<notin> set (snd (recordEgress e ev))" "Relayed w \<notin> set (snd (recordEgress e ev))" "Established \<notin> set (snd (recordEgress e ev))"
  using recordEgress_effects [of e ev] by auto

lemma deniedAudited_effects:
  "deniedAudited e ev reply = [Audited ev, reply]
   \<or> deniedAudited e ev reply = [AuditFailed ev, Replied 502 ''paddock-proxy: audit unavailable'']"
  by (simp add: deniedAudited_def recordEgress_def split: option.splits)

lemma deniedAudited_no_dial [simp]: "Dialed ip p s \<notin> set (deniedAudited e ev (Replied n m))" "Relayed w \<notin> set (deniedAudited e ev (Replied n m))"
  using deniedAudited_effects [of e ev "Replied n m"] by auto

lemma closeUnaudited_effects: "closeUnaudited e ev = [Audited ev] \<or> closeUnaudited e ev = [AuditFailed ev, Reset]"
  by (simp add: closeUnaudited_def recordEgress_def split: option.splits)

lemma closeUnaudited_no_dial [simp]: "Dialed ip p s \<notin> set (closeUnaudited e ev)" "Relayed w \<notin> set (closeUnaudited e ev)"
  using closeUnaudited_effects [of e ev] by auto

lemma dialUpstreamTLS_dial: "Dialed ip p s \<in> set (snd (dialUpstreamTLS e dialIP port sn)) \<Longrightarrow> ip = dialIP \<and> p = port \<and> s = sn"
  by (auto simp: dialUpstreamTLS_def split: option.splits)

lemma dialUpstreamTLS_no_relay [simp]: "Relayed w \<notin> set (snd (dialUpstreamTLS e dialIP port sn))"
  by (auto simp: dialUpstreamTLS_def split: option.splits)

lemma doMITM_dial:
  assumes "Dialed ip p s \<in> set (fst (snd (doMITM e sub sni dialIP port d st)))"
  shows "ip = dialIP \<and> p = port \<and> s = sni"
proof -
  obtain y effs where d: "dialUpstreamTLS e dialIP port sni = (y, effs)" by fastforce
  have "Dialed ip p s \<in> set effs"
    using assms by (auto simp: doMITM_def d Let_def split: prod.splits sum.splits option.splits if_splits)
  then show ?thesis using dialUpstreamTLS_dial d by (metis snd_conv)
qed

lemma doMITM_relay:
  assumes "Relayed w \<in> set (fst (snd (doMITM e sub sni dialIP port d st)))"
  shows "de_SubstituteAuth d \<and> sub \<noteq> None \<and> (\<exists>s. w \<in> set (fst (snd (handleSubstituted sub sni port (px_traffic e) s))))"
proof -
  obtain y effs where d: "dialUpstreamTLS e dialIP port sni = (y, effs)" by fastforce
  then have no: "Relayed w \<notin> set effs" using dialUpstreamTLS_no_relay by (metis snd_conv)
  obtain err ws s' where h: "handleSubstituted sub sni port (px_traffic e) (pxs_sub st) = (err, ws, s')" by (metis prod_cases3)
  have "de_SubstituteAuth d \<and> sub \<noteq> None \<and> w \<in> set ws"
    using assms no h by (auto simp: doMITM_def d Let_def split: prod.splits sum.splits option.splits if_splits)
  then show ?thesis using h by (metis fst_conv snd_conv)
qed

section \<open>Handlers\<close>

text \<open>Everything a dial of a cooperative connection rests on.\<close>

lemma connectResolved_dial:
  assumes "Dialed ip p s \<in> set (fst (connectResolved e sub host port d ips st))"
  shows "p = port \<and> s = host \<and> ip \<in> set ips \<and> \<not> DeniedCIDRSet_Contains (px_denied e) (Some ip)"
proof (cases "filter (\<lambda>ip. \<not> DeniedCIDRSet_Contains (px_denied e) (Some ip)) ips")
  case Nil
  then show ?thesis using assms by (simp add: connectResolved_def)
next
  case (Cons a as)
  then have "a \<in> set ips \<and> \<not> DeniedCIDRSet_Contains (px_denied e) (Some a)"
    by (metis (mono_tags, lifting) filter_eq_Cons_iff in_set_conv_decomp)
  moreover have "Dialed ip p s \<in> set (fst (snd (doMITM e sub host a port d st)))"
    using assms Cons by (auto simp: connectResolved_def split: if_splits prod.splits)
  ultimately show ?thesis using doMITM_dial by blast
qed

lemma handleConnect_dial:
  assumes "Dialed ip p s \<in> set (fst (handleConnect e sub target st))"
  obtains d ips rv where "splitConnectTarget target = Inr (s, p)" "px_validate e s p = Inr d" "de_Allowed d"
    "LookupHost (px_lookup e) (px_now e) (px_now2 e) s (pxs_resolver st) = (Inr ips, rv)" "ip \<in> set ips"
    "\<not> DeniedCIDRSet_Contains (px_denied e) (Some ip)"
proof -
  obtain host port where t: "splitConnectTarget target = Inr (host, port)"
    using assms by (auto simp: handleConnect_def split: sum.splits)
  have lit: "\<not> (ParseIP host \<noteq> None \<and> DeniedCIDRSet_Contains (px_denied e) (ParseIP host))"
    using assms t by (auto simp: handleConnect_def)
  obtain d where d: "px_validate e host port = Inr d" "de_Allowed d"
    using assms t lit by (auto simp: handleConnect_def split: sum.splits if_splits)
  obtain y rv where r: "LookupHost (px_lookup e) (px_now e) (px_now2 e) host (pxs_resolver st) = (y, rv)" by fastforce
  obtain ips where y: "y = Inr ips" using assms t lit d r by (cases y) (auto simp: handleConnect_def split: if_splits)
  have "Dialed ip p s \<in> set (fst (connectResolved e sub host port d ips (st\<lparr> pxs_resolver := rv \<rparr>)))"
    using assms t lit d r y by (auto simp: handleConnect_def split: if_splits)
  from connectResolved_dial [OF this] show thesis using that t d r y by blast
qed

lemma HandleTransparentConn_dial:
  assumes "Dialed ip p s \<in> set (fst (HandleTransparentConn e sub orig hello st))"
  obtains d ips rv where "orig = Inr (ip, p)" "hello = Inr s" "px_validate e s p = Inr d" "de_Allowed d"
    "LookupHost (px_lookup e) (px_now e) (px_now2 e) s (pxs_resolver st) = (Inr ips, rv)" "\<exists>ip' \<in> set ips. ip_Equal ip' ip"
    "\<not> DeniedCIDRSet_Contains (px_denied e) (Some ip)"
proof -
  obtain oip oport where o: "orig = Inr (oip, oport)" using assms by (auto simp: HandleTransparentConn_def split: sum.splits)
  have den: "\<not> DeniedCIDRSet_Contains (px_denied e) (Some oip)" using assms o by (auto simp: HandleTransparentConn_def)
  obtain sni where h: "hello = Inr sni" "sni \<noteq> []"
    using assms o den by (auto simp: HandleTransparentConn_def split: sum.splits if_splits)
  obtain d where d: "px_validate e sni oport = Inr d" "de_Allowed d"
    using assms o den h by (auto simp: HandleTransparentConn_def split: sum.splits if_splits)
  obtain y rv where r: "LookupHost (px_lookup e) (px_now e) (px_now2 e) sni (pxs_resolver st) = (y, rv)" by fastforce
  obtain ips where y: "y = Inr ips" "\<exists>ip' \<in> set ips. ip_Equal ip' oip"
    using assms o den h d r by (cases y) (auto simp: HandleTransparentConn_def list_ex_iff split: if_splits)
  have "Dialed ip p s \<in> set (fst (snd (doMITM e sub sni oip oport d (st\<lparr> pxs_resolver := rv \<rparr>))))"
    using assms o den h d r y by (auto simp: HandleTransparentConn_def split: if_splits prod.splits)
  from doMITM_dial [OF this] show thesis using that o h d r y den by blast
qed

lemma handleConnect_relay:
  assumes "Relayed w \<in> set (fst (handleConnect e sub target st))"
  shows "\<exists>host port s. sub \<noteq> None \<and> w \<in> set (fst (snd (handleSubstituted sub host port (px_traffic e) s)))"
proof -
  have "\<exists>host port d ips st'. Relayed w \<in> set (fst (connectResolved e sub host port d ips st'))"
    using assms by (auto simp: handleConnect_def split: sum.splits prod.splits if_splits) blast+
  then obtain host port d ips st' where "Relayed w \<in> set (fst (connectResolved e sub host port d ips st'))" by blast
  then have "\<exists>ip. Relayed w \<in> set (fst (snd (doMITM e sub host ip port d st')))"
    by (auto simp: connectResolved_def split: list.splits if_splits prod.splits) (metis fst_conv snd_conv)
  then show ?thesis using doMITM_relay by blast
qed

lemma HandleTransparentConn_relay:
  assumes "Relayed w \<in> set (fst (HandleTransparentConn e sub orig hello st))"
  shows "\<exists>host port s. sub \<noteq> None \<and> w \<in> set (fst (snd (handleSubstituted sub host port (px_traffic e) s)))"
proof -
  have "\<exists>host ip port d st'. Relayed w \<in> set (fst (snd (doMITM e sub host ip port d st')))"
    using assms by (auto simp: HandleTransparentConn_def split: sum.splits prod.splits if_splits) (metis fst_conv snd_conv)
  then show ?thesis using doMITM_relay by blast
qed

text \<open>
  A recorded refusal of a cooperative connection: one denied decision for the host and port goes to the
  sink, then the client hears 403 or 502, and 502 when the sink failed and no counter explains the refusal.
\<close>

definition refusal :: "string \<Rightarrow> int \<Rightarrow> proxy_effect list \<Rightarrow> bool" where
  "refusal host port effs \<longleftrightarrow>
     (\<exists>a ev mid status msg. effs = a # mid @ [Replied status msg] \<and> a \<in> {Audited ev, AuditFailed ev}
       \<and> ee_Decision ev = AuditDecisionDenied \<and> ee_Host ev = host \<and> ee_Port ev = port
       \<and> set mid \<subseteq> range Rejected \<and> status \<in> {403, 502} \<and> (a = AuditFailed ev \<and> mid = [] \<longrightarrow> status = 502))"

lemma refusal_plain:
  assumes "s \<in> {403, 502}"
  shows "refusal host port (snd (recordEgress e (egressDenial host port r)) @ [Rejected k, Replied s m])"
proof -
  obtain a where "snd (recordEgress e (egressDenial host port r)) = [a]"
    "a \<in> {Audited (egressDenial host port r), AuditFailed (egressDenial host port r)}"
    using recordEgress_effects [of e "egressDenial host port r"] by auto
  then show ?thesis
    unfolding refusal_def using assms
    by (intro exI [of _ a] exI [of _ "egressDenial host port r"] exI [of _ "[Rejected k]"] exI [of _ s] exI [of _ m])
      (auto simp: egressDenial_def)
qed

lemma refusal_verdict:
  assumes "s \<in> {403, 502}"
  shows "refusal host port (deniedAudited e (egressDenial host port r) (Replied s m))"
  using deniedAudited_effects [of e "egressDenial host port r" "Replied s m"]
proof
  assume "deniedAudited e (egressDenial host port r) (Replied s m) = [Audited (egressDenial host port r), Replied s m]"
  then show ?thesis
    unfolding refusal_def using assms
    by (intro exI [of _ "Audited (egressDenial host port r)"] exI [of _ "egressDenial host port r"] exI [of _ "[]"] exI [of _ s]
        exI [of _ m]) (auto simp: egressDenial_def)
next
  assume "deniedAudited e (egressDenial host port r) (Replied s m)
    = [AuditFailed (egressDenial host port r), Replied 502 ''paddock-proxy: audit unavailable'']"
  then show ?thesis
    unfolding refusal_def
    by (intro exI [of _ "AuditFailed (egressDenial host port r)"] exI [of _ "egressDenial host port r"] exI [of _ "[]"]
        exI [of _ 502] exI [of _ "''paddock-proxy: audit unavailable''"]) (auto simp: egressDenial_def)
qed

section \<open>The broker as substituter\<close>

text \<open>
  The substituter the proxy runs with: its client against the broker's own handler. The \<open>i\<close>-th call of a
  connection sees the \<open>i\<close>-th environment and token; the broker's state is carried along.
\<close>

definition broker_substituter ::
  "broker_client \<Rightarrow> (nat \<Rightarrow> error_msg + string) \<Rightarrow> (nat \<Rightarrow> broker_env) \<Rightarrow> (nat \<times> broker_state) substituter" where
  "broker_substituter c token env st host port h =
     brokerSubstituteAuth c (token (fst st))
       (\<lambda>(j, s) r. case handleSubstituteAuth (env j) s r of (x, s') \<Rightarrow> (Inr x, (Suc j, s')))
       st host port (header_Get h)"

lemma broker_substituter_ok:
  assumes "broker_substituter c token env st host port h = (Inr res, st')"
  obtains r s resp where "handleSubstituteAuth (env (fst st)) (snd st) r = (RespJSON s resp, snd st')"
    "sub_SetHeaders res = sar_SetHeaders resp" "sub_AllowedHeaders res = sar_AllowedHeaders resp" "sub_SetBasicAuth res = None"
  using assms
  by (auto simp: broker_substituter_def brokerSubstituteAuth_def subst_zero_def split: prod.splits sum.splits option.splits
      elim!: client_Do_ok)

definition allows_no_bearer :: "SubstituteResult \<Rightarrow> bool" where
  "allows_no_bearer res \<longleftrightarrow> ToLower ` set (sub_AllowedHeaders res) \<inter> ToLower ` bearer_headers = {}"

lemma allowed_bearer: "allows_no_bearer res \<longleftrightarrow> ''authorization'' \<notin> ToLower ` set (sub_AllowedHeaders res) \<and> ''x-api-key'' \<notin> ToLower ` set (sub_AllowedHeaders res)"
proof -
  have "ToLower ` bearer_headers = {''authorization'', ''x-api-key''}"
    by (simp add: bearer_headers_def) code_simp
  then show ?thesis by (auto simp: allows_no_bearer_def)
qed

lemma substitution_allows [simp]:
  "allows_no_bearer (anthropicSubstitution l v)" "allows_no_bearer (githubSubstitution gl v)"
  "allows_no_bearer (patSubstitution pl v)" "allows_no_bearer (fst (userSecretSubstitution ul b v))"
  "allows_no_bearer (fst (denied m))" "allows_no_bearer (fst unmatched)"
  unfolding allowed_bearer
  by (simp_all add: anthropicSubstitution_def githubSubstitution_def patSubstitution_def userSecretSubstitution_def subst_zero_def
      denied_def unmatched_def ToLower_def Let_def split: option.splits)

lemma patServe_allows: "allows_no_bearer (fst (fst (patServe key pool now req b)))"
  by (simp add: patServe_def Let_def split: option.splits)

lemma provider_allows:
  "allows_no_bearer (fst (fst (anthropicSubstituteAuth e st1 r)))" "allows_no_bearer (fst (fst (githubSubstituteAuth e st2 r)))"
  "allows_no_bearer (fst (fst (userSecretSubstituteAuth e st3 r)))" "allows_no_bearer (fst (fst (patSubstituteAuth e st4 r)))"
  using patServe_allows
  by (simp_all add: anthropicSubstituteAuth_def githubSubstituteAuth_def userSecretSubstituteAuth_def patSubstituteAuth_def
      Let_def split_beta split: sum.split option.split)

lemma prov_allows: "allows_no_bearer (fst (fst (prov_SubstituteAuth k e ps r)))"
  by (cases k) (simp_all add: prov_SubstituteAuth_def split_beta provider_allows)

lemma handleSubstituteAuth_allows:
  assumes "handleSubstituteAuth e st r = (RespJSON s resp, st')"
  shows "ToLower ` set (sar_AllowedHeaders resp) \<inter> ToLower ` bearer_headers = {}"
proof -
  obtain n ns req a where "substituteAuth e (bs_provs st) ns n req = (Inr resp, Some a, bs_provs st')"
    using assms by (rule handleSubstituteAuth_granted)
  then obtain k q res run a' where "prov_SubstituteAuth k (be_prov e) (bs_provs st) q = ((res, None), bs_provs st')"
    "revalidate e k run n ns req res = OutResponse resp a'" by (rule substituteAuth_granted)
  moreover from this(2) have "sar_AllowedHeaders resp = sub_AllowedHeaders res" by (rule revalidate_response)
  ultimately show ?thesis using prov_allows [of k "be_prov e" "bs_provs st" q] by (simp add: allows_no_bearer_def)
qed

interpretation brokered: bearer_safe "broker_substituter c token env" for c token env
proof
  fix st host port h res st'
  assume "broker_substituter c token env st host port h = (Inr res, st')"
  then obtain r s resp where "handleSubstituteAuth (env (fst st)) (snd st) r = (RespJSON s resp, snd st')"
    "sub_AllowedHeaders res = sar_AllowedHeaders resp" "sub_SetBasicAuth res = None" by (rule broker_substituter_ok)
  then show "ToLower ` set (sub_AllowedHeaders res) \<inter> ToLower ` bearer_headers = {}" "sub_SetBasicAuth res = None"
    using handleSubstituteAuth_allows by simp_all
qed

section \<open>Keeping connections\<close>

text \<open>
  The loop asks for the \<open>Connection\<close> header after it has removed it, so an HTTP/1.0 connection is never
  kept open, whatever both sides asked for.
\<close>

lemma http10_never_kept:
  assumes "pq_ProtoMajor req = 1" "pq_ProtoMinor req = 0"
  shows "\<not> keepAliveEnabled req (resp\<lparr> prs_Header := scrub (prs_Header resp) \<rparr>)"
proof -
  have "CanonicalHeaderKey ''Connection'' = ''Connection''" by code_simp
  then have "map_of (scrub (prs_Header resp)) ''Connection'' = None"
    by (simp add: scrub_def fold_Del_lookup) (metis hopByHopHeaders_def image_eqI list.set_intros(1))
  then show ?thesis using assms \<open>CanonicalHeaderKey ''Connection'' = ''Connection''\<close>
    by (auto simp: keepAliveEnabled_def header_Get_def EqualFold_def ToLower_def)
qed

section \<open>Peeking\<close>

lemma teeReads:
  "reads teeRead ns c = (bs, c') \<Longrightarrow> pk_buffered c' = pk_buffered c @ bs \<and> bs @ pk_input c' = pk_input c"
  by (induction ns arbitrary: c bs) (auto simp: teeRead_def split: prod.splits)

lemma peekRead_stream: "peekRead n c = (b, c') \<Longrightarrow> b @ pk_buffered c' @ pk_input c' = pk_buffered c @ pk_input c"
  by (auto simp: peekRead_def split: if_splits)

lemma peekReads: "reads peekRead ns c = (bs, c') \<Longrightarrow> bs @ pk_buffered c' @ pk_input c' = pk_buffered c @ pk_input c"
proof (induction ns arbitrary: c bs)
  case (Cons n ns)
  obtain b c1 bs' where "peekRead n c = (b, c1)" "reads peekRead ns c1 = (bs', c')" "bs = b @ bs'"
    using Cons.prems by (auto split: prod.splits)
  then show ?case using Cons.IH peekRead_stream by fastforce
qed simp

section \<open>The resolver over time\<close>

text \<open>
  The states a resolver goes through, with the DNS answers it was given: the time, the host and the
  addresses of every lookup that reached the system resolver and succeeded, latest first.
\<close>

definition answered_from_cache :: "cachingResolver \<Rightarrow> time \<Rightarrow> string \<Rightarrow> bool" where
  "answered_from_cache r now host \<longleftrightarrow>
     ParseIP host \<noteq> None \<or> (case map_of (lru_map (rv_cache r)) host of Some e \<Rightarrow> now < re_expires e | None \<Rightarrow> False)"

inductive resolver_run :: "duration \<Rightarrow> int \<Rightarrow> cachingResolver \<Rightarrow> (time \<times> string \<times> IP list) list \<Rightarrow> bool" for ttl cap where
  init: "resolver_run ttl cap (newCachingResolver ttl cap) []"
| cached: "resolver_run ttl cap r log \<Longrightarrow> answered_from_cache r now host
    \<Longrightarrow> resolver_run ttl cap (snd (LookupHost lookup now now2 host r)) log"
| looked_up: "resolver_run ttl cap r log \<Longrightarrow> \<not> answered_from_cache r now host \<Longrightarrow> lookup host = Inr ips
    \<Longrightarrow> resolver_run ttl cap (snd (LookupHost lookup now now2 host r)) ((now2, host, ips) # log)"
| failed: "resolver_run ttl cap r log \<Longrightarrow> \<not> answered_from_cache r now host \<Longrightarrow> lookup host = Inl err
    \<Longrightarrow> resolver_run ttl cap (snd (LookupHost lookup now now2 host r)) log"

definition resolver_inv :: "cachingResolver \<Rightarrow> (time \<times> string \<times> IP list) list \<Rightarrow> bool" where
  "resolver_inv r log \<longleftrightarrow> resolver_ok r
     \<and> (\<forall>h e. map_of (lru_map (rv_cache r)) h = Some e \<longrightarrow> (re_expires e - rv_ttl r, h, re_ips e) \<in> set log)"

lemma LookupHost_cached:
  assumes "answered_from_cache r now host" "resolver_ok r"
  shows "lru_map (rv_cache (snd (LookupHost lookup now now2 host r))) = lru_map (rv_cache r)"
    "rv_ttl (snd (LookupHost lookup now now2 host r)) = rv_ttl r" "rv_capacity (snd (LookupHost lookup now now2 host r)) = rv_capacity r"
    "resolver_ok (snd (LookupHost lookup now now2 host r))"
  using assms lru_inv_dom [of "rv_cache r" host]
  by (auto simp: LookupHost_def answered_from_cache_def resolver_ok_def MoveToFront_length split: option.splits)

lemma LookupHost_miss:
  assumes "\<not> answered_from_cache r now host"
  shows "LookupHost lookup now now2 host r =
    (case lookup host of Inl err \<Rightarrow> (Inl err, r) | Inr ips \<Rightarrow> (Inr ips, resolver_insert now2 host ips r))"
  using assms by (auto simp: LookupHost_def answered_from_cache_def Let_def split: option.splits)

lemma resolver_insert_inv:
  assumes "resolver_inv r log"
  shows "resolver_inv (resolver_insert now h ips r) ((now, h, ips) # log)"
  unfolding resolver_inv_def
proof (intro conjI allI impI)
  have ok: "resolver_ok r" using assms by (simp add: resolver_inv_def)
  then show "resolver_ok (resolver_insert now h ips r)" by (rule resolver_insert_ok)
  fix h' e
  assume e: "map_of (lru_map (rv_cache (resolver_insert now h ips r))) h' = Some e"
  show "(re_expires e - rv_ttl (resolver_insert now h ips r), h', re_ips e) \<in> set ((now, h, ips) # log)"
  proof (cases "h' = h")
    case True
    then show ?thesis using e resolver_insert_get(1) [OF ok, of now h ips] by auto
  next
    case False
    then have "map_of (lru_map (rv_cache r)) h' = Some e" using e resolver_insert_get(2) [OF ok False, of now ips] by auto
    then show ?thesis using assms by (simp add: resolver_inv_def)
  qed
qed

lemma resolver_run_inv: "resolver_run ttl cap r log \<Longrightarrow> resolver_inv r log \<and> rv_ttl r = (if ttl \<le> 0 then 30 * second else ttl)
    \<and> rv_capacity r = (if cap \<le> 0 then 256 else nat cap)"
proof (induction rule: resolver_run.induct)
  case init
  show ?case by (simp add: resolver_inv_def resolver_ok_def newCachingResolver_def lru_empty_def lru_inv_def)
next
  case (cached r log now host lookup now2)
  then have "resolver_ok r" by (simp add: resolver_inv_def)
  note eqs = LookupHost_cached [OF cached(2) this, of lookup now2]
  show ?case using cached(3) unfolding resolver_inv_def eqs(1-3) using eqs(4) by blast
next
  case (looked_up r log now host lookup ips now2)
  then show ?case using resolver_insert_inv by (simp add: LookupHost_miss)
next
  case (failed r log now host lookup err now2)
  then show ?case by (simp add: LookupHost_miss)
qed

end
