(* ===== verification/Proxy_Properties.thy ===== *)
theory Proxy_Properties
  imports Proxy_Facts Fixtures
begin

text \<open>
  What the egress proxy guarantees, on its own and together with the broker it asks.
\<close>

section \<open>A proxy in the example cluster\<close>

definition ex_client :: broker_client where
  "ex_client = \<lparr> bc_Endpoint = ''https://paddock-broker.paddock-system.svc:8443'', bc_RunName = ''r'', bc_RunNamespace = ''ns'' \<rparr>"

definition ex_x509 :: x509_env where
  "ex_x509 = \<lparr> xe_pemDecode = Some, xe_parseCertificate = (\<lambda>_. Inr True), xe_parsePKCS8 = Inr, xe_parsePKCS1 = Inr, xe_parseEC = Inr,
     xe_generateKey = None, xe_serial = None, xe_createCertificate = (\<lambda>_. None), xe_parseLeaf = (\<lambda>_. None) \<rparr>"

definition ex_req :: proxy_req where
  "ex_req = \<lparr> pq_Method = ''GET'', pq_Host = ''a.io'', pq_URLScheme = [], pq_URLHost = [], pq_Path = ''/'', pq_Query = [],
     pq_RequestURI = ''/'', pq_Header = [(''X-Api-Key'', [ex_bearer]), (''Cookie'', [''c''])], pq_Body = [], pq_Close = True,
     pq_ProtoMajor = 1, pq_ProtoMinor = 1 \<rparr>"

definition ex_proxy :: proxy_env where
  "ex_proxy = \<lparr> px_validate = broker_validator ex_env ex_client (Inr ''tok''),
     px_denied = Some [\<lparr> net_IP = [10, 0, 0, 0], net_Mask = [255, 0, 0, 0] \<rparr>], px_auditErr = (\<lambda>_. None),
     px_lookup = (\<lambda>_. Inr [[10, 0, 0, 7], [93, 184, 216, 34]]), px_now = 5, px_now2 = 5, px_x509 = ex_x509, px_hijackable = True,
     px_hijackErr = None, px_clientHandshake = None, px_dial = (\<lambda>_ _. None), px_upstreamHandshake = (\<lambda>_ _. None),
     px_shuttleErr = None, px_traffic = [] \<rparr>"

definition ex_ca :: MITMCertificateAuthority where
  "ex_ca = \<lparr> mca_leafExpiry = 24 * 60 * minute, mca_capacity = 1024, mca_cache = lru_empty \<rparr>"

definition ex_proxy_state :: "(nat \<times> broker_state) proxy_state" where
  "ex_proxy_state = \<lparr> pxs_resolver = newCachingResolver (30 * second) 256, pxs_ca = ex_ca, pxs_sub = (0, ex_issued) \<rparr>"

definition ex_sub :: "(nat \<times> broker_state) substituter" where
  "ex_sub = broker_substituter ex_client (\<lambda>_. Inr ''tok'') (\<lambda>_. ex_env)"

section \<open>Dialing\<close>

text \<open>
  C18: the proxy opens a connection only where the policies say so. For a proxy that asks the broker,
  in either mode, every address it dials belongs to a host and port that the broker grants to the proxy's
  run, by a policy or by an open discovery window; the address is outside the refused networks; it is
  one of those the proxy itself resolved for the name; and the certificate is checked for that name.
\<close>

theorem proxy_dials_granted:
  assumes "Dialed ip port name \<in> set (fst (handleConnect e sub target st)) \<union> set (fst (HandleTransparentConn e sub orig hello st))"
    and "px_validate e = broker_validator be c token"
  shows "(\<exists>ns. (bc_RunNamespace c = [] \<or> ns = bc_RunNamespace c) \<and> broker_granted be ns (bc_RunName c) name port)
    \<and> \<not> DeniedCIDRSet_Contains (px_denied e) (Some ip)
    \<and> (\<exists>ips. fst (LookupHost (px_lookup e) (px_now e) (px_now2 e) name (pxs_resolver st)) = Inr ips
         \<and> (\<exists>ip' \<in> set ips. ip_Equal ip' ip))"
proof -
  from assms(1) obtain d ips rv where "px_validate e name port = Inr d" "de_Allowed d"
    and rest: "LookupHost (px_lookup e) (px_now e) (px_now2 e) name (pxs_resolver st) = (Inr ips, rv)"
      "\<exists>ip' \<in> set ips. ip_Equal ip' ip" "\<not> DeniedCIDRSet_Contains (px_denied e) (Some ip)"
  proof
    assume "Dialed ip port name \<in> set (fst (handleConnect e sub target st))"
    then show thesis by (rule handleConnect_dial) (rule that; auto simp: ip_Equal_def)
  next
    assume "Dialed ip port name \<in> set (fst (HandleTransparentConn e sub orig hello st))"
    then show thesis by (rule HandleTransparentConn_dial) (rule that)
  qed
  then show ?thesis using broker.allow_granted assms(2) by simp
qed

theorem proxy_dials_granted_witness:
  "broker_granted ex_env ''ns'' ''r'' ''a.io'' 443 \<and> \<not> DeniedCIDRSet_Contains (px_denied ex_proxy) (Some [93, 184, 216, 34])"
proof -
  have "Dialed [93, 184, 216, 34] 443 ''a.io'' \<in> set (fst (handleConnect ex_proxy (Some ex_sub) ''a.io:443'' ex_proxy_state))"
    by code_simp
  then show ?thesis
    using proxy_dials_granted [of "[93, 184, 216, 34]" 443 "''a.io''" ex_proxy "Some ex_sub" "''a.io:443''" ex_proxy_state
        "Inl []" "Inl []" ex_env ex_client "Inr ''tok''"]
    by (auto simp: ex_proxy_def ex_client_def)
qed

section \<open>Refusing\<close>

text \<open>
  No refusal goes unrecorded. When a cooperative connection with a well-formed target is not
  established, the first thing the proxy does is to record one denied decision for that host and port
  with the audit sink, then the client is told so with status 403 or 502; nothing is dialed. Where the
  verdict was the validator's and the sink failed, the client hears 502.
\<close>

theorem refusals_audited:
  assumes "splitConnectTarget target = Inr (host, port)" "px_hijackable e"
    and "Established \<notin> set (fst (handleConnect e sub target st))"
  shows "\<exists>a ev mid status msg. fst (handleConnect e sub target st) = a # mid @ [Replied status msg]
    \<and> a \<in> {Audited ev, AuditFailed ev} \<and> ee_Decision ev = AuditDecisionDenied \<and> ee_Host ev = host \<and> ee_Port ev = port
    \<and> (set mid \<subseteq> range Rejected) \<and> status \<in> {403, 502} \<and> (a = AuditFailed ev \<and> mid = [] \<longrightarrow> status = 502)"
proof -
  have "refusal host port (fst (handleConnect e sub target st))"
    using assms
    by (simp add: handleConnect_def connectResolved_def refusal_plain refusal_verdict
        split: sum.splits prod.splits list.splits if_splits)
  then show ?thesis by (simp only: refusal_def)
qed

theorem refusals_audited_witness:
  "\<exists>a ev. hd (fst (handleConnect (ex_proxy\<lparr> px_auditErr := (\<lambda>_. Some ''down'') \<rparr>) (Some ex_sub) ''b.io:443'' ex_proxy_state)) = a
     \<and> a \<in> {Audited ev, AuditFailed ev} \<and> ee_Host ev = ''b.io''"
proof -
  let ?e = "ex_proxy\<lparr> px_auditErr := (\<lambda>_. Some ''down'') \<rparr>"
  have "splitConnectTarget ''b.io:443'' = Inr (''b.io'', 443)" by code_simp
  moreover have "px_hijackable ?e" by (simp add: ex_proxy_def)
  moreover have "Established \<notin> set (fst (handleConnect ?e (Some ex_sub) ''b.io:443'' ex_proxy_state))" by code_simp
  ultimately obtain a ev mid status msg where
    "fst (handleConnect ?e (Some ex_sub) ''b.io:443'' ex_proxy_state) = a # mid @ [Replied status msg]"
    "a \<in> {Audited ev, AuditFailed ev}" "ee_Host ev = ''b.io''"
    using refusals_audited [of "''b.io:443''" "''b.io''" 443 ?e "Some ex_sub" ex_proxy_state] by blast
  then show ?thesis by (intro exI [of _ a] exI [of _ ev]) simp
qed

section \<open>Substituting\<close>

text \<open>
  C19: the agent's bearers stay inside. On a connection whose credentials the broker substitutes, in
  either mode and for any number of requests, an \<open>Authorization\<close> or \<open>X-Api-Key\<close> header that reaches the
  upstream holds exactly one value, and the broker supplied it in an answer it gave with status 200; no
  value the agent sent in these headers is ever forwarded.
\<close>

theorem bearers_never_forwarded:
  assumes "Relayed (ToUpstream r) \<in> set (fst (handleConnect e (Some (broker_substituter c token env)) target st))
      \<union> set (fst (HandleTransparentConn e (Some (broker_substituter c token env)) orig hello st))"
    and "\<forall>x \<in> set (px_traffic e). exchange_ok x"
    and "k \<in> {''Authorization'', ''X-Api-Key''}" "map_of (pq_Header r) k = Some vs"
  shows "\<exists>v i bst req resp bst' n. vs = [v] \<and> handleSubstituteAuth (env i) bst req = (RespJSON 200 resp, bst')
    \<and> (n, v) \<in> set (sar_SetHeaders resp) \<and> CanonicalHeaderKey n = k"
proof -
  obtain host port s where "ToUpstream r \<in> set (fst (snd (handleSubstituted (Some (broker_substituter c token env)) host port (px_traffic e) s)))"
    using assms(1) handleConnect_relay HandleTransparentConn_relay by blast
  moreover have "k \<in> bearer_headers" using assms(3) by (simp add: bearer_headers_def)
  ultimately obtain v where v: "vs = [v]" "brokered.supplied c token env host port k v"
    using brokered.loop_bearer assms(2,4) by blast
  then obtain st0 h res st1 n where sub: "broker_substituter c token env st0 host port h = (Inr res, st1)"
    and n: "(n, v) \<in> set (sub_SetHeaders res)" "CanonicalHeaderKey n = k" by (auto simp: brokered.supplied_def)
  from sub obtain req status resp where "handleSubstituteAuth (env (fst st0)) (snd st0) req = (RespJSON status resp, snd st1)"
    "sub_SetHeaders res = sar_SetHeaders resp" by (rule broker_substituter_ok)
  moreover from this(1) have "status = 200" by (rule handleSubstituteAuth_granted)
  ultimately show ?thesis
    using v n by (intro exI [of _ v] exI [of _ "fst st0"] exI [of _ "snd st0"] exI [of _ req] exI [of _ resp] exI [of _ "snd st1"] exI [of _ n])
      simp
qed

definition ex_exchange :: exchange where
  "ex_exchange = \<lparr> xc_read = ReadReq ex_req, xc_writeErr = None,
     xc_resp = Inr \<lparr> prs_Status = 200, prs_Header = [], prs_Body = [], prs_Close = False \<rparr>, xc_replyErr = None \<rparr>"

definition ex_substituting :: proxy_env where
  "ex_substituting = ex_proxy\<lparr> px_traffic := [ex_exchange], px_validate := (\<lambda>h p. Inr \<lparr> de_Allowed = True, de_MatchedPolicy = ''p'',
     de_Reason = [], de_SubstituteAuth = True, de_DiscoveryAllow = False \<rparr>) \<rparr>"

theorem bearers_never_forwarded_witness:
  "\<exists>i bst req resp bst' n. handleSubstituteAuth ((\<lambda>_. ex_env) (i::nat)) bst req = (RespJSON 200 resp, bst') \<and> (n, ''v'') \<in> set (sar_SetHeaders resp)"
proof -
  let ?effs = "fst (handleConnect ex_substituting (Some ex_sub) ''a.io:443'' ex_proxy_state)"
  let ?r = "ex_req\<lparr> pq_URLScheme := ''https'', pq_URLHost := ''a.io'', pq_RequestURI := [], pq_Header := [(''X-Api-Key'', [''v''])] \<rparr>"
  have "Relayed (ToUpstream ?r) \<in> set ?effs" by code_simp
  moreover have "map_of (pq_Header ?r) ''X-Api-Key'' = Some [''v'']" by simp
  moreover have "\<forall>x \<in> set (px_traffic ex_substituting). exchange_ok x" by code_simp
  ultimately show ?thesis
    using bearers_never_forwarded [of ?r ex_substituting ex_client "\<lambda>_. Inr ''tok''" "\<lambda>_. ex_env" "''a.io:443''" ex_proxy_state
        "Inl []" "Inl []" "''X-Api-Key''" "[''v'']"]
    unfolding ex_sub_def by auto
qed

section \<open>Connections and caches\<close>

text \<open>
  C21: the number of connections is bounded and slots are not lost. Whatever the order in which
  connections arrive and are closed, some of them twice, no close ever blocks; at most \<open>cap\<close> connections
  are held and the gauge counts exactly these; and once every connection that was handed out is closed,
  the next one to arrive is taken.
\<close>

theorem connections_bounded:
  assumes "lim_run cap seen ol" "0 < cap"
  shows "\<exists>l. ol = Some l \<and> int (length (ll_held l)) \<le> cap \<and> ll_active l = int (length (ll_held l))
    \<and> (\<forall>cs c queue. set (ll_held l) \<subseteq> set cs \<and> set cs \<subseteq> seen \<longrightarrow>
         (\<exists>l'. closeAll cs (Some l) = Some l' \<and> fst (Accept l' (c # queue)) = Some (c, queue)))"
proof -
  obtain l where l: "ol = Some l" "lim_inv cap seen l" using lim_run_inv [OF assms(1)] by blast
  have "\<exists>l'. closeAll cs (Some l) = Some l' \<and> fst (Accept l' (c # queue)) = Some (c, queue)"
    if cs: "set (ll_held l) \<subseteq> set cs" "set cs \<subseteq> seen" for cs c queue
  proof -
    obtain l' where l': "closeAll cs (Some l) = Some l'" "lim_inv cap seen l'" "ll_held l' = []"
      using closeAll_empties [OF l(2) cs] by blast
    have "fst (Accept l' (c # queue)) = Some (c, queue)" using Accept_free [OF l'(2)] l'(3) assms(2) by simp
    with l'(1) show ?thesis by blast
  qed
  moreover have "int (length (ll_held l)) \<le> cap \<and> ll_active l = int (length (ll_held l))"
    using l(2) assms(2) by (simp add: lim_inv_def)
  ultimately show ?thesis using l(1) by blast
qed

theorem connections_bounded_witness:
  "int (length (ll_held (snd (Accept (NewLimitedListener 1) [7, 8])))) \<le> 1"
proof -
  have "lim_run 1 ({} \<union> set [7, 8]) (Some (snd (Accept (NewLimitedListener 1) [7, 8])))"
    by (rule lim_run.accept [OF lim_run.start]) simp_all
  from connections_bounded [OF this] show ?thesis by simp
qed

text \<open>
  The addresses the proxy compares against are recent. In every reachable state of the resolver an
  answer is the literal address itself, or what the system resolver says now, or what it said for this
  very host less than the time to live ago; and the cache never holds more hosts than its capacity.
\<close>

theorem resolver_answers_recent:
  assumes "resolver_run ttl cap r log" "0 < ttl" "0 < cap"
    and "LookupHost lookup now now2 host r = (Inr ips, r')"
  shows "((\<exists>ip. ParseIP host = Some ip \<and> ips = [ip]) \<or> lookup host = Inr ips
           \<or> (\<exists>t. (t, host, ips) \<in> set log \<and> now < t + ttl))
    \<and> int (card (set (lru_order (rv_cache r)))) \<le> cap"
proof -
  have inv: "resolver_inv r log" "rv_ttl r = ttl" "rv_capacity r = nat cap"
    using resolver_run_inv [OF assms(1)] assms(2,3) by auto
  have "ParseIP host = Some ip \<Longrightarrow> ips = [ip]" for ip using assms(4) by (simp add: LookupHost_def)
  moreover have "lookup host = Inr ips \<or> (\<exists>t. (t, host, ips) \<in> set log \<and> now < t + ttl)" if "ParseIP host = None"
  proof (cases "answered_from_cache r now host")
    case True
    with that obtain e where e: "map_of (lru_map (rv_cache r)) host = Some e" "now < re_expires e"
      by (auto simp: answered_from_cache_def split: option.splits)
    then have "ips = re_ips e" using assms(4) that by (simp add: LookupHost_def)
    moreover have "(re_expires e - ttl, host, re_ips e) \<in> set log" using inv e by (auto simp: resolver_inv_def)
    ultimately show ?thesis using e(2) by (intro disjI2 exI [of _ "re_expires e - ttl"]) simp
  next
    case False
    then show ?thesis using assms(4) by (simp add: LookupHost_miss split: sum.splits)
  qed
  moreover have "card (set (lru_order (rv_cache r))) \<le> nat cap"
    using resolver.bounded [of r] inv by (simp add: resolver_inv_def)
  ultimately show ?thesis using assms(3) by (cases "ParseIP host") auto
qed

theorem resolver_answers_recent_witness:
  "int (card (set (lru_order (rv_cache (snd (LookupHost (\<lambda>_. Inr [[1, 2, 3, 4]]) 5 6 ''a.io'' (newCachingResolver 30 2))))))) \<le> 2
    \<and> (6, ''a.io'', [[1, 2, 3, 4]]) \<in> set [(6 :: int, ''a.io'', [[1 :: nat, 2, 3, 4]])]"
proof -
  let ?r = "snd (LookupHost (\<lambda>_. Inr [[1, 2, 3, 4]]) 5 6 ''a.io'' (newCachingResolver 30 2))"
  have "\<not> answered_from_cache (newCachingResolver 30 2) 5 ''a.io''" by code_simp
  then have run: "resolver_run 30 2 ?r [(6, ''a.io'', [[1, 2, 3, 4]])]"
    by (rule resolver_run.looked_up [OF resolver_run.init]) simp
  have "fst (LookupHost (\<lambda>_. Inl ''down'') 20 20 ''a.io'' ?r) = Inr [[1, 2, 3, 4]]" by code_simp
  then obtain r' where "LookupHost (\<lambda>_. Inl ''down'') 20 20 ''a.io'' ?r = (Inr [[1, 2, 3, 4]], r')" by (metis prod.collapse)
  from resolver_answers_recent [OF run _ _ this] show ?thesis by simp
qed

text \<open>
  A forged certificate is served past its end. A leaf that was forged at \<open>t\<close> is handed out again for
  its host at every later time while it stays in the cache, with the validity it got at \<open>t\<close>; after a day
  the agent is shown an expired certificate.
\<close>

theorem forged_leaf_not_renewed:
  assumes "ca_ok ca" "map_of (lru_map (mca_cache ca)) host = None" "forge x t host ca = (Inr leaf, ca')"
  shows "fst (forge x' t' host ca') = Inr leaf \<and> lc_NotAfter leaf = t + mca_leafExpiry ca"
proof -
  obtain cert where cert: "signLeaf x t host ca = Inr cert" and st: "ca_store host cert ca = (leaf, ca')"
    using assms(2,3) by (auto simp: forge_def split: sum.splits prod.splits)
  have "map_of (lru_map (mca_cache ca')) host = Some leaf" using ca_store_get(1) [OF assms(1), of host cert] st by simp
  moreover have "leaf = cert" using st assms(2) by (auto simp: ca_store_def Let_def)
  ultimately show ?thesis using cert by (auto simp: forge_def signLeaf_def split: option.splits)
qed

theorem forged_leaf_not_renewed_witness:
  "\<exists>leaf. fst (forge ex_x509 (7 * 24 * 60 * minute) ''a.io'' (snd (forge ex_x509 0 ''a.io'' ex_ca))) = Inr leaf
     \<and> lc_NotAfter leaf = 24 * 60 * minute"
proof -
  let ?leaf = "\<lparr> lc_Host = ''a.io'', lc_IsIP = False, lc_NotBefore = - 5 * minute, lc_NotAfter = 24 * 60 * minute \<rparr>"
  have "ca_ok ex_ca" by (simp add: ca_ok_def ex_ca_def lru_empty_def lru_inv_def)
  moreover have "map_of (lru_map (mca_cache ex_ca)) ''a.io'' = None" by (simp add: ex_ca_def lru_empty_def)
  moreover have "fst (forge ex_x509 0 ''a.io'' ex_ca) = Inr ?leaf" by code_simp
  then have "forge ex_x509 0 ''a.io'' ex_ca = (Inr ?leaf, snd (forge ex_x509 0 ''a.io'' ex_ca))" by (metis prod.collapse)
  ultimately show ?thesis using forged_leaf_not_renewed by (metis ex_ca_def MITMCertificateAuthority.select_convs(1) add_0)
qed

end
