(* ===== verification/Controller_Pod.thy ===== *)
theory Controller_Pod
  imports Webhook_Run
begin

text \<open>
  The pod of a run: \<open>internal/controller/pod_spec.go\<close> and \<open>template_resolve.go\<close>. The Kubernetes types
  are records with the fields the builders set. Everything here is a pure function of the run, the
  resolved template and the inputs the reconciler has gathered.
\<close>

section \<open>Resolved templates\<close>

record resolvedTemplate =
  rt_Spec :: HarnessTemplateSpec
  rt_SourceKind :: string
  rt_SourceName :: string

definition resolveClusterTemplate :: "kube \<Rightarrow> string \<Rightarrow> api_error + resolvedTemplate" where
  "resolveClusterTemplate c name =
     (case getClusterTemplate c name of
        Inl err \<Rightarrow> Inl err
      | Inr cht \<Rightarrow> Inr \<lparr> rt_Spec = ht_Spec cht, rt_SourceKind = ''ClusterHarnessTemplate'', rt_SourceName = ht_Name cht \<rparr>)"

definition resolveNamespacedTemplate :: "map_order \<Rightarrow> kube \<Rightarrow> string \<Rightarrow> string \<Rightarrow> api_error + resolvedTemplate" where
  "resolveNamespacedTemplate ord c namespace name =
     (case getTemplate c namespace name of
        Inl err \<Rightarrow> Inl err
      | Inr ht \<Rightarrow>
          (case hts_BaseTemplateRef (ht_Spec ht) of
             None \<Rightarrow> Inr \<lparr> rt_Spec = ht_Spec ht, rt_SourceKind = ''HarnessTemplate'', rt_SourceName = ht_Name ht \<rparr>
           | Some ref \<Rightarrow>
               (case getClusterTemplate c (lor_Name ref) of
                  Inl err \<Rightarrow> Inl (wrapErr (''resolving baseTemplateRef '' @ fmt_q (lor_Name ref)) err)
                | Inr parent \<Rightarrow>
                    Inr \<lparr> rt_Spec = MergeTemplates ord (ht_Spec parent) (ht_Spec ht),
                          rt_SourceKind = ''HarnessTemplate'', rt_SourceName = ht_Name ht \<rparr>)))"

definition resolveTemplate :: "map_order \<Rightarrow> kube \<Rightarrow> HarnessRun \<Rightarrow> api_error + resolvedTemplate" where
  "resolveTemplate ord c run =
     (let ref = hr_TemplateRef run in
      if tr_Name ref = [] then Inl (ApiError ''spec.templateRef.name is empty'')
      else if tr_Kind ref = ''HarnessTemplate'' then resolveNamespacedTemplate ord c (hr_Namespace run) (tr_Name ref)
      else if tr_Kind ref = ''ClusterHarnessTemplate'' then resolveClusterTemplate c (tr_Name ref)
      else if tr_Kind ref = [] then
        (case resolveNamespacedTemplate ord c (hr_Namespace run) (tr_Name ref) of
           Inr t \<Rightarrow> Inr t
         | Inl err \<Rightarrow> if \<not> IsNotFound err then Inl err else resolveClusterTemplate c (tr_Name ref))
      else Inl (ApiError (''spec.templateRef.kind '' @ fmt_q (tr_Kind ref) @ '' is not supported'')))"

section \<open>Kubernetes types\<close>

record Capabilities =
  cap_Drop :: "string list"
  cap_Add :: "string list"

record SecurityContext =
  sc_RunAsUser :: "int option"
  sc_RunAsGroup :: "int option"
  sc_RunAsNonRoot :: "bool option"
  sc_AllowPrivilegeEscalation :: "bool option"
  sc_ReadOnlyRootFilesystem :: "bool option"
  sc_Capabilities :: "Capabilities option"
  sc_SeccompProfile :: "string option"

record VolumeMount =
  vm_Name :: string
  vm_MountPath :: string
  vm_SubPath :: string
  vm_ReadOnly :: bool

record Container =
  ctr_Name :: string
  ctr_Image :: string
  ctr_ImagePullPolicy :: string
  ctr_Command :: "string list"
  ctr_Args :: "string list"
  ctr_WorkingDir :: string
  ctr_Env :: "EnvVar list"
  ctr_EnvFrom :: "string list"
  ctr_Resources :: ResourceRequirements
  ctr_VolumeMounts :: "VolumeMount list"
  ctr_RestartPolicy :: "string option"
  ctr_SecurityContext :: "SecurityContext option"

datatype VolumeProjection =
    ServiceAccountToken string "int option" string
  | ConfigMapProjection string "(string \<times> string) list"
  | DownwardAPI "(string \<times> string) list"

datatype VolumeSource =
    EmptyDir string
  | SecretVolume string "(string \<times> string) list" "int option"
  | PersistentVolumeClaim string
  | Projected "VolumeProjection list"

record Volume =
  vol_Name :: string
  vol_Source :: VolumeSource

record PodSecurityContext =
  psc_RunAsNonRoot :: "bool option"
  psc_RunAsUser :: "int option"
  psc_RunAsGroup :: "int option"
  psc_FSGroup :: "int option"
  psc_SeccompProfile :: "string option"

record PodSpec =
  pod_ServiceAccountName :: string
  pod_AutomountServiceAccountToken :: "bool option"
  pod_RestartPolicy :: string
  pod_TerminationGracePeriodSeconds :: "int option"
  pod_ActiveDeadlineSeconds :: "int option"
  pod_InitContainers :: "Container list"
  pod_Containers :: "Container list"
  pod_Volumes :: "Volume list"
  pod_SecurityContext :: PodSecurityContext

record JobCondition =
  jc_Type :: string
  jc_Status :: ConditionStatus

record Job =
  job_Name :: string
  job_Namespace :: string
  job_Labels :: "(string, string) gomap"
  job_Annotations :: "(string, string) gomap"
  job_Controller :: "(string \<times> string) option"
  job_Deleting :: bool
  job_BackoffLimit :: int
  job_ActiveDeadlineSeconds :: "int option"
  job_TTLSecondsAfterFinished :: "int option"
  job_PodLabels :: "(string, string) gomap"
  job_PodSpec :: PodSpec
  job_Conditions :: "JobCondition list"
  job_Active :: int

text \<open>Go's zero values, from which the builders' literals are record updates.\<close>

definition zeroResources :: ResourceRequirements where
  "zeroResources = \<lparr> rr_Requests = [], rr_Limits = [] \<rparr>"

definition zeroContainer :: Container where
  "zeroContainer =
     \<lparr> ctr_Name = [], ctr_Image = [], ctr_ImagePullPolicy = [], ctr_Command = [], ctr_Args = [], ctr_WorkingDir = [],
       ctr_Env = [], ctr_EnvFrom = [], ctr_Resources = zeroResources, ctr_VolumeMounts = [], ctr_RestartPolicy = None,
       ctr_SecurityContext = None \<rparr>"

definition zeroSecurityContext :: SecurityContext where
  "zeroSecurityContext =
     \<lparr> sc_RunAsUser = None, sc_RunAsGroup = None, sc_RunAsNonRoot = None, sc_AllowPrivilegeEscalation = None,
       sc_ReadOnlyRootFilesystem = None, sc_Capabilities = None, sc_SeccompProfile = None \<rparr>"

definition envVar :: "string \<Rightarrow> string \<Rightarrow> EnvVar" where
  "envVar n v = \<lparr> ev_Name = n, ev_Value = v, ev_ValueFrom = None \<rparr>"

definition rwMount :: "string \<Rightarrow> string \<Rightarrow> VolumeMount" where
  "rwMount n p = \<lparr> vm_Name = n, vm_MountPath = p, vm_SubPath = [], vm_ReadOnly = False \<rparr>"

definition roMount :: "string \<Rightarrow> string \<Rightarrow> VolumeMount" where
  "roMount n p = \<lparr> vm_Name = n, vm_MountPath = p, vm_SubPath = [], vm_ReadOnly = True \<rparr>"

definition dropAll :: "Capabilities" where
  "dropAll = \<lparr> cap_Drop = [''ALL''], cap_Add = [] \<rparr>"

definition podNamespaceEnv :: EnvVar where
  "podNamespaceEnv = \<lparr> ev_Name = ''POD_NAMESPACE'', ev_Value = [], ev_ValueFrom = Some (FieldRef ''metadata.namespace'') \<rparr>"

section \<open>Names and paths\<close>

definition sharedVolumeName :: string where "sharedVolumeName = ''paddock-shared''"
definition sharedMountPath :: string where "sharedMountPath = ''/paddock''"
definition promptVolumeName :: string where "promptVolumeName = ''paddock-prompt''"
definition promptMountPath :: string where "promptMountPath = ''/paddock/prompt''"
definition promptFileName :: string where "promptFileName = ''prompt.txt''"
definition workspaceVolumeName :: string where "workspaceVolumeName = ''workspace''"
definition defaultWorkspaceMount :: string where "defaultWorkspaceMount = ''/workspace''"
definition rawSubdir :: string where "rawSubdir = ''/paddock/raw/out''"
definition eventsSubdir :: string where "eventsSubdir = ''/paddock/events/events.jsonl''"
definition agentDataSocketPath :: string where "agentDataSocketPath = ''/paddock/agent-data.sock''"
definition agentCtlSocketPath :: string where "agentCtlSocketPath = ''/paddock/agent-ctl.sock''"
definition reposManifestRelPath :: string where "reposManifestRelPath = ''.paddock/repos.json''"
definition agentContainerName :: string where "agentContainerName = ''agent''"
definition runtimeContainerName :: string where "runtimeContainerName = ''runtime''"
definition proxyContainerName :: string where "proxyContainerName = ''proxy''"
definition iptablesInitContainerName :: string where "iptablesInitContainerName = ''iptables-init''"
definition paddockHomeInitContainerName :: string where "paddockHomeInitContainerName = ''paddock-home-init''"
definition defaultGracePeriodSecs :: int where "defaultGracePeriodSecs = 60"
definition interactiveGracePeriodSecs :: int where "interactiveGracePeriodSecs = 300"
definition maxPodGracePeriodSecs :: int where "maxPodGracePeriodSecs = 300"
definition proxyListenPort :: int where "proxyListenPort = 15001"
definition proxyListenAddr :: string where "proxyListenAddr = ''0.0.0.0:15001''"
definition proxyLocalhostAddr :: string where "proxyLocalhostAddr = ''127.0.0.1:15001''"
definition proxyHTTPSProxy :: string where "proxyHTTPSProxy = ''http://127.0.0.1:15001''"
definition proxyCAVolumeName :: string where "proxyCAVolumeName = ''paddock-proxy-tls''"
definition proxyCAMountPath :: string where "proxyCAMountPath = ''/etc/paddock-proxy/tls''"
definition brokerTokenVolumeName :: string where "brokerTokenVolumeName = ''paddock-broker-token''"
definition brokerTokenMountPath :: string where "brokerTokenMountPath = ''/var/run/secrets/paddock-broker''"
definition brokerTokenPath :: string where "brokerTokenPath = brokerTokenMountPath @ ''/token''"
definition brokerCAVolumeName :: string where "brokerCAVolumeName = ''paddock-broker-ca''"
definition brokerCAMountPath :: string where "brokerCAMountPath = ''/etc/paddock-broker/ca''"
definition brokerCAKey :: string where "brokerCAKey = ''ca.crt''"
definition brokerCAPath :: string where "brokerCAPath = brokerCAMountPath @ ''/'' @ brokerCAKey"
definition brokerTokenAudience :: string where "brokerTokenAudience = ''paddock-broker''"
definition brokerTokenExpirationSeconds :: int where "brokerTokenExpirationSeconds = 3600"
definition proxyRunAsUID :: int where "proxyRunAsUID = 1337"
definition runtimeRunAsUID :: int where "runtimeRunAsUID = 1339"
definition agentCABundleMountPath :: string where "agentCABundleMountPath = ''/etc/ssl/certs/paddock-proxy-ca.crt''"
definition agentCABundleSubPath :: string where "agentCABundleSubPath = ''ca.crt''"
definition paddockSAVolumeName :: string where "paddockSAVolumeName = ''paddock-sa-token''"
definition paddockSAMountPath :: string where "paddockSAMountPath = ''/var/run/secrets/kubernetes.io/serviceaccount''"
definition DefaultIPTablesInitImage :: string where "DefaultIPTablesInitImage = ''paddock-iptables-init:dev''"
definition DefaultHomeInitImage :: string where "DefaultHomeInitImage = ''busybox:1.36''"
definition homeSubdirRelPath :: string where "homeSubdirRelPath = ''.home''"

definition defaultProxyResources :: ResourceRequirements where
  "defaultProxyResources =
     \<lparr> rr_Requests = [(''cpu'', ''10m''), (''memory'', ''32Mi'')], rr_Limits = [(''memory'', ''128Mi'')] \<rparr>"

lemmas pod_volume_names = sharedVolumeName_def promptVolumeName_def workspaceVolumeName_def proxyCAVolumeName_def
  brokerTokenVolumeName_def brokerCAVolumeName_def paddockSAVolumeName_def

text \<open>\<open>path.Join\<close>: empty elements are dropped, the rest joined and cleaned.\<close>

definition path_Join :: "string list \<Rightarrow> string" where
  "path_Join es = (let es' = filter (\<lambda>e. e \<noteq> []) es in if es' = [] then [] else path_Clean (Join es' ''/''))"

definition jobName :: "HarnessRun \<Rightarrow> string" where "jobName run = hr_Name run"
definition promptSecretName :: "HarnessRun \<Rightarrow> string" where "promptSecretName run = hr_Name run @ ''-prompt''"
definition outputCMName :: "HarnessRun \<Rightarrow> string" where "outputCMName run = hr_Name run @ ''-out''"
definition collectorSAName :: "HarnessRun \<Rightarrow> string" where "collectorSAName run = hr_Name run @ ''-collector''"
definition ephemeralWSName :: "HarnessRun \<Rightarrow> string" where "ephemeralWSName run = hr_Name run @ ''-ws''"

definition effectiveWorkspaceMount :: "resolvedTemplate \<Rightarrow> string" where
  "effectiveWorkspaceMount t =
     (if wr_MountPath (hts_Workspace (rt_Spec t)) \<noteq> [] then wr_MountPath (hts_Workspace (rt_Spec t)) else defaultWorkspaceMount)"

definition effectiveHomePath :: "resolvedTemplate \<Rightarrow> string" where
  "effectiveHomePath t = path_Join [effectiveWorkspaceMount t, homeSubdirRelPath]"

definition effectiveModel :: "HarnessRun \<Rightarrow> resolvedTemplate \<Rightarrow> string" where
  "effectiveModel run t = (if hrs_Model (hr_Spec run) \<noteq> [] then hrs_Model (hr_Spec run) else htd_Model (hts_Defaults (rt_Spec t)))"

definition effectiveResources :: "HarnessRun \<Rightarrow> resolvedTemplate \<Rightarrow> ResourceRequirements" where
  "effectiveResources run t =
     (case hrs_Resources (hr_Spec run) of
        Some r \<Rightarrow> r
      | None \<Rightarrow> (case htd_Resources (hts_Defaults (rt_Spec t)) of Some r \<Rightarrow> r | None \<Rightarrow> zeroResources))"

text \<open>
  The timeout, which the code converts to seconds as a floating-point number, stays in nanoseconds here;
  the conversion to whole seconds in \<open>buildJob\<close> truncates, as the code's does for durations of up to
  half a year, beyond which rounding of the fraction may differ.
\<close>

definition effectiveTimeout :: "HarnessRun \<Rightarrow> resolvedTemplate \<Rightarrow> duration" where
  "effectiveTimeout run t =
     (case hrs_Timeout (hr_Spec run) of
        Some d \<Rightarrow> d
      | None \<Rightarrow> (case htd_Timeout (hts_Defaults (rt_Spec t)) of Some d \<Rightarrow> d | None \<Rightarrow> 0))"

definition resultFilePath :: "HarnessRun \<Rightarrow> resolvedTemplate \<Rightarrow> string" where
  "resultFilePath run t = effectiveWorkspaceMount t @ ''/.paddock/runs/'' @ hr_Name run @ ''/result.json''"

definition effectiveMode :: "HarnessRun \<Rightarrow> HarnessRunMode" where
  "effectiveMode run = (if hr_Mode run = HarnessRunModeUnset then HarnessRunModeBatch else hr_Mode run)"

definition mode_str :: "HarnessRunMode \<Rightarrow> string" where
  "mode_str m = (case m of HarnessRunModeUnset \<Rightarrow> [] | HarnessRunModeBatch \<Rightarrow> ''Batch'' | HarnessRunModeInteractive \<Rightarrow> ''Interactive'')"

definition runLabels :: "HarnessRun \<Rightarrow> resolvedTemplate \<Rightarrow> (string, string) gomap" where
  "runLabels run t =
     [(''app.kubernetes.io/name'', ''paddock''),
      (''app.kubernetes.io/component'', ''harnessrun''),
      (''app.kubernetes.io/managed-by'', ''paddock-controller''),
      (''paddock.dev/run'', hr_Name run),
      (''paddock.dev/namespace'', hr_Namespace run),
      (''paddock.dev/template'', rt_SourceName t),
      (''paddock.dev/harness'', hts_Harness (rt_Spec t)),
      (''paddock.dev/mode'', mode_str (effectiveMode run))]
     @ (if hrs_WorkspaceRef (hr_Spec run) \<noteq> [] then [(''paddock.dev/workspace'', hrs_WorkspaceRef (hr_Spec run))] else [])"

section \<open>Inputs\<close>

record podSpecInputs =
  psi_workspacePVC :: string
  psi_promptSecret :: string
  psi_outputConfigMap :: string
  psi_serviceAccount :: string
  psi_brokerCredsSecret :: string
  psi_proxyImage :: string
  psi_proxyTLSSecret :: string
  psi_proxyAllowList :: string
  psi_interceptionMode :: InterceptionMode
  psi_iptablesInitImage :: string
  psi_homeInitImage :: string
  psi_brokerEndpoint :: string
  psi_brokerCASecret :: string
  psi_interceptionAcceptanceReason :: string
  psi_interceptionAcceptanceMatchedPolicy :: string
  psi_proxyDenyCIDR :: string

definition proxyEnabled :: "podSpecInputs \<Rightarrow> bool" where
  "proxyEnabled i = (psi_proxyImage i \<noteq> [] \<and> psi_proxyTLSSecret i \<noteq> [])"

section \<open>Containers\<close>

definition runContainerSecurityContextBaseline :: SecurityContext where
  "runContainerSecurityContextBaseline =
     zeroSecurityContext\<lparr> sc_AllowPrivilegeEscalation := Some False, sc_Capabilities := Some dropAll,
       sc_SeccompProfile := Some ''RuntimeDefault'' \<rparr>"

definition stdEnv :: "HarnessRun \<Rightarrow> resolvedTemplate \<Rightarrow> EnvVar list" where
  "stdEnv run t =
     (let mount = effectiveWorkspaceMount t in
      [envVar ''PADDOCK_PROMPT_PATH'' (promptMountPath @ ''/'' @ promptFileName),
       envVar ''PADDOCK_RAW_PATH'' rawSubdir,
       envVar ''PADDOCK_EVENTS_PATH'' eventsSubdir,
       envVar ''PADDOCK_RESULT_PATH'' (resultFilePath run t),
       envVar ''PADDOCK_WORKSPACE'' mount,
       envVar ''PADDOCK_REPOS_PATH'' (mount @ ''/'' @ reposManifestRelPath),
       envVar ''PADDOCK_RUN_NAME'' (hr_Name run),
       envVar ''PADDOCK_MODEL'' (effectiveModel run t),
       envVar ''PADDOCK_AGENT_DATA_SOCKET'' agentDataSocketPath,
       envVar ''PADDOCK_AGENT_CTL_SOCKET'' agentCtlSocketPath])"

definition proxyEnv :: "podSpecInputs \<Rightarrow> EnvVar list" where
  "proxyEnv i =
     (if proxyEnabled i
      then (if psi_interceptionMode i \<noteq> InterceptionModeTransparent
            then [envVar ''HTTPS_PROXY'' proxyHTTPSProxy,
                  envVar ''HTTP_PROXY'' proxyHTTPSProxy,
                  envVar ''NO_PROXY'' ''127.0.0.1,localhost,kubernetes.default.svc'']
            else [])
         @ [envVar ''SSL_CERT_FILE'' agentCABundleMountPath,
            envVar ''CURL_CA_BUNDLE'' agentCABundleMountPath,
            envVar ''NODE_EXTRA_CA_CERTS'' agentCABundleMountPath,
            envVar ''REQUESTS_CA_BUNDLE'' agentCABundleMountPath,
            envVar ''GIT_SSL_CAINFO'' agentCABundleMountPath]
      else [])"

definition interactive_mode :: "resolvedTemplate \<Rightarrow> string" where
  "interactive_mode t = (case hts_Interactive (rt_Spec t) of None \<Rightarrow> [] | Some s \<Rightarrow> ints_Mode s)"

definition buildEnv :: "HarnessRun \<Rightarrow> resolvedTemplate \<Rightarrow> podSpecInputs \<Rightarrow> EnvVar list" where
  "buildEnv run t i =
     hrs_ExtraEnv (hr_Spec run)
     @ stdEnv run t
     @ [envVar ''HOME'' (effectiveHomePath t)]
     @ (if hr_Mode run = HarnessRunModeInteractive \<and> interactive_mode t \<noteq> []
        then [envVar ''PADDOCK_INTERACTIVE_MODE'' (interactive_mode t)] else [])
     @ proxyEnv i"

definition buildAgentContainer :: "HarnessRun \<Rightarrow> resolvedTemplate \<Rightarrow> podSpecInputs \<Rightarrow> Container" where
  "buildAgentContainer run t i =
     zeroContainer\<lparr>
       ctr_Name := agentContainerName,
       ctr_Image := hts_Image (rt_Spec t),
       ctr_Command := hts_Command (rt_Spec t),
       ctr_Args := hts_Args (rt_Spec t),
       ctr_Env := buildEnv run t i,
       ctr_Resources := effectiveResources run t,
       ctr_SecurityContext := Some runContainerSecurityContextBaseline,
       ctr_VolumeMounts :=
         [rwMount sharedVolumeName sharedMountPath,
          roMount promptVolumeName promptMountPath,
          rwMount workspaceVolumeName (effectiveWorkspaceMount t)]
         @ (if proxyEnabled i
            then [(roMount proxyCAVolumeName agentCABundleMountPath)\<lparr> vm_SubPath := agentCABundleSubPath \<rparr>] else []),
       ctr_EnvFrom := (if psi_brokerCredsSecret i \<noteq> [] then [psi_brokerCredsSecret i] else []) \<rparr>"

definition runtimeEnv :: "HarnessRun \<Rightarrow> resolvedTemplate \<Rightarrow> podSpecInputs \<Rightarrow> EnvVar list" where
  "runtimeEnv run t i =
     [envVar ''PADDOCK_RAW_PATH'' rawSubdir,
      envVar ''PADDOCK_AGENT_DATA_SOCKET'' agentDataSocketPath,
      envVar ''PADDOCK_AGENT_CTL_SOCKET'' agentCtlSocketPath,
      envVar ''PADDOCK_RUN_NAME'' (hr_Name run),
      envVar ''PADDOCK_RUN_NAMESPACE'' (hr_Namespace run),
      envVar ''PADDOCK_WORKSPACE_NAME'' (hrs_WorkspaceRef (hr_Spec run)),
      envVar ''PADDOCK_TEMPLATE_NAME'' (rt_SourceName t),
      envVar ''PADDOCK_HARNESS_IMAGE'' (hts_Image (rt_Spec t)),
      envVar ''PADDOCK_MODE'' (mode_str (effectiveMode run)),
      envVar ''PADDOCK_TRANSCRIPT_DIR'' (path_Join [effectiveWorkspaceMount t, ''.paddock'', ''runs'', hr_Name run]),
      envVar ''PADDOCK_OUTPUT_CONFIGMAP'' (psi_outputConfigMap i),
      envVar ''PADDOCK_PROMPT_FILE'' (promptMountPath @ ''/'' @ promptFileName)]
     @ (if interactive_mode t \<noteq> [] then [envVar ''PADDOCK_INTERACTIVE_MODE'' (interactive_mode t)] else [])
     @ [podNamespaceEnv]
     @ (if psi_brokerEndpoint i \<noteq> []
        then [envVar ''PADDOCK_BROKER_URL'' (psi_brokerEndpoint i),
              envVar ''PADDOCK_BROKER_TOKEN_PATH'' brokerTokenPath,
              envVar ''PADDOCK_BROKER_CA_PATH'' brokerCAPath]
        else [])"

definition brokerMounts :: "podSpecInputs \<Rightarrow> VolumeMount list" where
  "brokerMounts i =
     (if psi_brokerEndpoint i \<noteq> []
      then [roMount brokerTokenVolumeName brokerTokenMountPath, roMount brokerCAVolumeName brokerCAMountPath] else [])"

definition buildRuntimeContainer :: "HarnessRun \<Rightarrow> resolvedTemplate \<Rightarrow> RuntimeSpec \<Rightarrow> podSpecInputs \<Rightarrow> Container" where
  "buildRuntimeContainer run t rts i =
     zeroContainer\<lparr>
       ctr_Name := runtimeContainerName,
       ctr_Image := rts_Image rts,
       ctr_RestartPolicy := Some ''Always'',
       ctr_SecurityContext :=
         Some (runContainerSecurityContextBaseline\<lparr> sc_RunAsUser := Some runtimeRunAsUID, sc_RunAsGroup := Some 65532 \<rparr>),
       ctr_Env := runtimeEnv run t i,
       ctr_VolumeMounts :=
         [rwMount sharedVolumeName sharedMountPath,
          rwMount workspaceVolumeName (effectiveWorkspaceMount t),
          roMount promptVolumeName promptMountPath,
          roMount paddockSAVolumeName paddockSAMountPath]
         @ brokerMounts i,
       ctr_ImagePullPolicy := rts_ImagePullPolicy rts \<rparr>"

definition imode_str :: "InterceptionMode \<Rightarrow> string" where
  "imode_str m =
     (case m of InterceptionModeUnset \<Rightarrow> [] | InterceptionModeTransparent \<Rightarrow> ''transparent'' | InterceptionModeCooperative \<Rightarrow> ''cooperative'')"

definition proxyMode :: "podSpecInputs \<Rightarrow> InterceptionMode" where
  "proxyMode i = (if psi_interceptionMode i = InterceptionModeUnset then InterceptionModeCooperative else psi_interceptionMode i)"

definition proxyArgs :: "HarnessRun \<Rightarrow> podSpecInputs \<Rightarrow> string list" where
  "proxyArgs run i =
     [''--listen-address='' @ (if proxyMode i = InterceptionModeTransparent then proxyListenAddr else proxyLocalhostAddr),
      ''--ca-dir='' @ proxyCAMountPath,
      ''--run-name='' @ hr_Name run,
      ''--run-namespace='' @ hr_Namespace run,
      ''--mode='' @ imode_str (proxyMode i),
      ''--interception-acceptance-reason='' @ psi_interceptionAcceptanceReason i,
      ''--interception-acceptance-matched-policy='' @ psi_interceptionAcceptanceMatchedPolicy i,
      ''--deny-cidr='' @ psi_proxyDenyCIDR i]
     @ (if psi_brokerEndpoint i \<noteq> []
        then [''--broker-endpoint='' @ psi_brokerEndpoint i,
              ''--broker-token-path='' @ brokerTokenPath,
              ''--broker-ca-path='' @ brokerCAPath]
        else if psi_proxyAllowList i \<noteq> [] then [''--allow='' @ psi_proxyAllowList i] else [])"

definition buildProxyContainer :: "HarnessRun \<Rightarrow> podSpecInputs \<Rightarrow> Container" where
  "buildProxyContainer run i =
     zeroContainer\<lparr>
       ctr_Name := proxyContainerName,
       ctr_Image := psi_proxyImage i,
       ctr_RestartPolicy := Some ''Always'',
       ctr_Args := proxyArgs run i,
       ctr_Env := [podNamespaceEnv],
       ctr_VolumeMounts :=
         [roMount proxyCAVolumeName proxyCAMountPath, roMount paddockSAVolumeName paddockSAMountPath] @ brokerMounts i,
       ctr_Resources := defaultProxyResources,
       ctr_SecurityContext :=
         Some \<lparr> sc_RunAsUser = Some proxyRunAsUID, sc_RunAsGroup = Some proxyRunAsUID, sc_RunAsNonRoot = Some True,
                sc_AllowPrivilegeEscalation = Some False, sc_ReadOnlyRootFilesystem = Some True,
                sc_Capabilities = Some dropAll, sc_SeccompProfile = Some ''RuntimeDefault'' \<rparr> \<rparr>"

definition buildIPTablesInitContainer :: "podSpecInputs \<Rightarrow> Container" where
  "buildIPTablesInitContainer i =
     zeroContainer\<lparr>
       ctr_Name := iptablesInitContainerName,
       ctr_Image := (if psi_iptablesInitImage i = [] then DefaultIPTablesInitImage else psi_iptablesInitImage i),
       ctr_Args :=
         [''--bypass-uids='' @ fmt_d proxyRunAsUID @ '','' @ fmt_d runtimeRunAsUID,
          ''--proxy-port='' @ fmt_d proxyListenPort,
          ''--ports=80,443''],
       ctr_SecurityContext :=
         Some (zeroSecurityContext\<lparr> sc_RunAsUser := Some 0, sc_AllowPrivilegeEscalation := Some False,
           sc_ReadOnlyRootFilesystem := Some True,
           sc_Capabilities := Some \<lparr> cap_Drop = [''ALL''], cap_Add = [''NET_ADMIN'', ''NET_RAW''] \<rparr> \<rparr>) \<rparr>"

definition buildHomeInitContainer :: "resolvedTemplate \<Rightarrow> podSpecInputs \<Rightarrow> Container" where
  "buildHomeInitContainer t i =
     (let home = fmt_q (effectiveHomePath t) in
      zeroContainer\<lparr>
        ctr_Name := paddockHomeInitContainerName,
        ctr_Image := (if psi_homeInitImage i = [] then DefaultHomeInitImage else psi_homeInitImage i),
        ctr_Command := [''/bin/sh'', ''-c''],
        ctr_Args := [''mkdir -p '' @ home @ '' && chgrp 65532 '' @ home @ '' && chmod 02775 '' @ home],
        ctr_SecurityContext :=
          Some (zeroSecurityContext\<lparr> sc_RunAsUser := Some 0, sc_AllowPrivilegeEscalation := Some False,
            sc_ReadOnlyRootFilesystem := Some True, sc_Capabilities := Some dropAll,
            sc_SeccompProfile := Some ''RuntimeDefault'' \<rparr>),
        ctr_VolumeMounts := [rwMount workspaceVolumeName (effectiveWorkspaceMount t)] \<rparr>)"

section \<open>The pod and the job\<close>

definition saTokenVolume :: Volume where
  "saTokenVolume =
     \<lparr> vol_Name = paddockSAVolumeName,
       vol_Source = Projected
         [ServiceAccountToken [] (Some 3600) ''token'',
          ConfigMapProjection ''kube-root-ca.crt'' [(''ca.crt'', ''ca.crt'')],
          DownwardAPI [(''namespace'', ''metadata.namespace'')]] \<rparr>"

definition brokerTokenVolume :: Volume where
  "brokerTokenVolume =
     \<lparr> vol_Name = brokerTokenVolumeName,
       vol_Source = Projected [ServiceAccountToken brokerTokenAudience (Some brokerTokenExpirationSeconds) ''token''] \<rparr>"

definition secretVolume :: "string \<Rightarrow> string \<Rightarrow> Volume" where
  "secretVolume n s = \<lparr> vol_Name = n, vol_Source = SecretVolume s [] None \<rparr>"

definition buildPodVolumes :: "podSpecInputs \<Rightarrow> Volume list" where
  "buildPodVolumes i =
     [\<lparr> vol_Name = sharedVolumeName, vol_Source = EmptyDir [] \<rparr>,
      \<lparr> vol_Name = promptVolumeName,
        vol_Source = SecretVolume (psi_promptSecret i) [(promptFileName, promptFileName)] None \<rparr>,
      \<lparr> vol_Name = workspaceVolumeName, vol_Source = PersistentVolumeClaim (psi_workspacePVC i) \<rparr>]
     @ (if proxyEnabled i then [secretVolume proxyCAVolumeName (psi_proxyTLSSecret i)] else [])
     @ [saTokenVolume]
     @ (if psi_brokerEndpoint i \<noteq> [] then [brokerTokenVolume, secretVolume brokerCAVolumeName (psi_brokerCASecret i)] else [])"

definition gracePeriod :: "HarnessRun \<Rightarrow> resolvedTemplate \<Rightarrow> int" where
  "gracePeriod run t =
     (let grace = (if hr_Mode run = HarnessRunModeInteractive then interactiveGracePeriodSecs else defaultGracePeriodSecs);
          grace = (case htd_TerminationGracePeriodSeconds (hts_Defaults (rt_Spec t)) of Some s \<Rightarrow> s | None \<Rightarrow> grace)
      in if grace > maxPodGracePeriodSecs then maxPodGracePeriodSecs else grace)"

definition buildPodSpec :: "HarnessRun \<Rightarrow> resolvedTemplate \<Rightarrow> podSpecInputs \<Rightarrow> PodSpec" where
  "buildPodSpec run t i =
     \<lparr> pod_ServiceAccountName = psi_serviceAccount i,
       pod_AutomountServiceAccountToken = Some False,
       pod_RestartPolicy = ''Never'',
       pod_TerminationGracePeriodSeconds = Some (gracePeriod run t),
       pod_ActiveDeadlineSeconds = None,
       pod_InitContainers =
         [buildHomeInitContainer t i]
         @ (if proxyEnabled i \<and> psi_interceptionMode i = InterceptionModeTransparent then [buildIPTablesInitContainer i] else [])
         @ (case hts_Runtime (rt_Spec t) of Some rts \<Rightarrow> [buildRuntimeContainer run t rts i] | None \<Rightarrow> [])
         @ (if proxyEnabled i then [buildProxyContainer run i] else []),
       pod_Containers = [buildAgentContainer run t i],
       pod_Volumes = buildPodVolumes i,
       pod_SecurityContext =
         \<lparr> psc_RunAsNonRoot = None, psc_RunAsUser = None, psc_RunAsGroup = None, psc_FSGroup = Some 65532,
           psc_SeccompProfile = Some ''RuntimeDefault'' \<rparr> \<rparr>"

definition buildJob :: "HarnessRun \<Rightarrow> resolvedTemplate \<Rightarrow> string \<Rightarrow> podSpecInputs \<Rightarrow> Job" where
  "buildJob run t workspaceName i =
     \<lparr> job_Name = jobName run,
       job_Namespace = hr_Namespace run,
       job_Labels = runLabels run t,
       job_Annotations = [(''paddock.dev/template'', rt_SourceName t), (''paddock.dev/workspace'', workspaceName)],
       job_Controller = None,
       job_Deleting = False,
       job_BackoffLimit = hrs_Retries (hr_Spec run),
       job_ActiveDeadlineSeconds =
         (if hr_Mode run \<noteq> HarnessRunModeInteractive \<and> effectiveTimeout run t > 0
          then Some (effectiveTimeout run t div second) else None),
       job_TTLSecondsAfterFinished = None,
       job_PodLabels = runLabels run t,
       job_PodSpec = buildPodSpec run t i,
       job_Conditions = [],
       job_Active = 0 \<rparr>"

section \<open>What the agent sees\<close>

text \<open>
  The value of a variable in a container: of several entries with one name the last counts, and an entry
  of the list shadows what the container takes from Secrets.
\<close>

definition env_lookup :: "EnvVar list \<Rightarrow> string \<Rightarrow> EnvVar option" where
  "env_lookup env n = find (\<lambda>e. ev_Name e = n) (rev env)"

lemma env_lookup_append:
  "env_lookup (xs @ ys) n = (case env_lookup ys n of Some e \<Rightarrow> Some e | None \<Rightarrow> env_lookup xs n)"
  by (simp add: env_lookup_def find_append split: option.split)

lemma env_lookup_Nil [simp]: "env_lookup [] n = None"
  by (simp add: env_lookup_def)

lemma env_lookup_Cons:
  "env_lookup (e # es) n = (case env_lookup es n of Some e' \<Rightarrow> Some e' | None \<Rightarrow> if ev_Name e = n then Some e else None)"
  using env_lookup_append [of "[e]" es n] by (simp add: env_lookup_def split: option.split)

lemma grace_bounded: "gracePeriod run t \<le> 300"
  by (simp add: gracePeriod_def Let_def maxPodGracePeriodSecs_def)

text \<open>The agent's mounts: its shared directory, its prompt, its workspace, and one public certificate.\<close>

lemma agent_mounts:
  assumes "m \<in> set (ctr_VolumeMounts (buildAgentContainer run t i))"
  shows "vm_Name m \<in> {sharedVolumeName, promptVolumeName, workspaceVolumeName}
    \<or> vm_Name m = proxyCAVolumeName \<and> vm_SubPath m = agentCABundleSubPath \<and> vm_ReadOnly m"
  using assms by (auto simp: buildAgentContainer_def rwMount_def roMount_def split: if_splits)

lemma pod_volume_sources:
  assumes "v \<in> set (buildPodVolumes i)" "vol_Name v \<in> {sharedVolumeName, promptVolumeName, workspaceVolumeName}"
  shows "vol_Source v \<in> {EmptyDir [], SecretVolume (psi_promptSecret i) [(promptFileName, promptFileName)] None,
    PersistentVolumeClaim (psi_workspacePVC i)}"
  using assms by (auto simp: buildPodVolumes_def saTokenVolume_def brokerTokenVolume_def secretVolume_def
      pod_volume_names split: if_splits)

lemma pod_proxy_volume:
  "v \<in> set (buildPodVolumes i) \<Longrightarrow> vol_Name v = proxyCAVolumeName \<Longrightarrow> vol_Source v = SecretVolume (psi_proxyTLSSecret i) [] None"
  by (auto simp: buildPodVolumes_def saTokenVolume_def brokerTokenVolume_def secretVolume_def pod_volume_names split: if_splits)

end
