(* ===== verification/Controller_Network.thy ===== *)
theory Controller_Network
  imports Controller_Pod Proxy_Egress
begin

text \<open>
  Network policies of run and seed pods: \<open>network_policy.go\<close>, \<open>cilium_network_policy.go\<close>,
  \<open>apiserver_ips.go\<close> and the configuration of \<open>proxybroker_config.go\<close>. A policy is a pure function of its
  owner and the configuration; what a policy permits is defined after the Kubernetes documentation, so
  that the policy can be compared with what the proxy refuses to dial.
\<close>

section \<open>Workspaces\<close>

datatype WorkspacePhase =
  WorkspacePhaseUnset | WorkspacePhaseSeeding | WorkspacePhaseActive | WorkspacePhaseFailed | WorkspacePhaseTerminating

definition wsPhase_str :: "WorkspacePhase \<Rightarrow> string" where
  "wsPhase_str p =
     (case p of WorkspacePhaseUnset \<Rightarrow> [] | WorkspacePhaseSeeding \<Rightarrow> ''Seeding'' | WorkspacePhaseActive \<Rightarrow> ''Active''
      | WorkspacePhaseFailed \<Rightarrow> ''Failed'' | WorkspacePhaseTerminating \<Rightarrow> ''Terminating'')"

record WorkspaceStatus =
  wss_ObservedGeneration :: int
  wss_Phase :: WorkspacePhase
  wss_PVCName :: string
  wss_SeedJobName :: string
  wss_ActiveRunRef :: string
  wss_TotalRuns :: int
  wss_LastCountedRun :: string
  wss_LastActivity :: "time option"
  wss_Conditions :: "Condition list"

record Workspace =
  ws_Name :: string
  ws_Namespace :: string
  ws_Labels :: "(string, string) gomap"
  ws_ResourceVersion :: nat
  ws_Generation :: int
  ws_DeletionTimestamp :: "time option"
  ws_Finalizers :: "string list"
  ws_Controller :: "(string \<times> string) option"
  ws_Spec :: WorkspaceSpec
  ws_Status :: WorkspaceStatus

definition seedJobName :: "Workspace \<Rightarrow> string" where "seedJobName ws = ws_Name ws @ ''-seed''"
definition seedNetworkPolicyName :: "Workspace \<Rightarrow> string" where "seedNetworkPolicyName ws = seedJobName ws @ ''-egress''"

section \<open>Configuration\<close>

datatype NetworkPolicyEnforceMode = NetworkPolicyEnforceAuto | NetworkPolicyEnforceOn | NetworkPolicyEnforceOff

record BrokerCASource =
  bca_Namespace :: string
  bca_Name :: string

record ProxyBrokerConfig =
  pbc_ProxyImage :: string
  pbc_BrokerEndpoint :: string
  pbc_BrokerNamespace :: string
  pbc_BrokerPort :: int
  pbc_BrokerCASource :: BrokerCASource
  pbc_ProxyCAClusterIssuer :: string
  pbc_NetworkPolicyEnforce :: NetworkPolicyEnforceMode
  pbc_NetworkPolicyAutoEnabled :: bool
  pbc_ClusterPodCIDR :: string
  pbc_ClusterServiceCIDR :: string
  pbc_APIServerIPs :: "IP list"
  pbc_CiliumCNPAvailable :: bool

record networkPolicyConfig =
  npc_ClusterPodCIDR :: string
  npc_ClusterServiceCIDR :: string
  npc_BrokerNamespace :: string
  npc_BrokerPort :: int
  npc_APIServerIPs :: "IP list"

definition networkPolicyEnforced :: "ProxyBrokerConfig \<Rightarrow> bool" where
  "networkPolicyEnforced c =
     (case pbc_NetworkPolicyEnforce c of
        NetworkPolicyEnforceOn \<Rightarrow> True
      | NetworkPolicyEnforceAuto \<Rightarrow> pbc_NetworkPolicyAutoEnabled c
      | NetworkPolicyEnforceOff \<Rightarrow> False)"

definition policyConfig :: "ProxyBrokerConfig \<Rightarrow> networkPolicyConfig" where
  "policyConfig c =
     \<lparr> npc_ClusterPodCIDR = pbc_ClusterPodCIDR c, npc_ClusterServiceCIDR = pbc_ClusterServiceCIDR c,
       npc_BrokerNamespace = pbc_BrokerNamespace c, npc_BrokerPort = pbc_BrokerPort c, npc_APIServerIPs = pbc_APIServerIPs c \<rparr>"

section \<open>Excluded networks\<close>

definition rfc1918AndLinkLocalCIDRs :: "string list" where
  "rfc1918AndLinkLocalCIDRs = [''10.0.0.0/8'', ''172.16.0.0/12'', ''192.168.0.0/16'', ''169.254.0.0/16'']"

definition buildExceptCIDRs :: "networkPolicyConfig \<Rightarrow> string list" where
  "buildExceptCIDRs cfg =
     rfc1918AndLinkLocalCIDRs
     @ (if npc_ClusterPodCIDR cfg \<noteq> [] then [npc_ClusterPodCIDR cfg] else [])
     @ (if npc_ClusterServiceCIDR cfg \<noteq> [] then [npc_ClusterServiceCIDR cfg] else [])"

definition proxyDeniedCIDRs :: "networkPolicyConfig \<Rightarrow> string" where
  "proxyDeniedCIDRs cfg =
     Join (rfc1918AndLinkLocalCIDRs
           @ (if npc_ClusterPodCIDR cfg \<noteq> [] then [npc_ClusterPodCIDR cfg] else [])
           @ (if npc_ClusterServiceCIDR cfg \<noteq> [] then [npc_ClusterServiceCIDR cfg] else [])) '',''"

section \<open>Network policies\<close>

type_synonym labels = "(string, string) gomap"

record IPBlock =
  ipb_CIDR :: string
  ipb_Except :: "string list"

record NetworkPolicyPeer =
  npp_PodSelector :: "labels option"
  npp_NamespaceSelector :: "labels option"
  npp_IPBlock :: "IPBlock option"

record NetworkPolicyPort =
  npt_Protocol :: string
  npt_Port :: "int option"

record NetworkPolicyRule =
  npr_Peers :: "NetworkPolicyPeer list"
  npr_Ports :: "NetworkPolicyPort list"

record NetworkPolicy =
  np_Name :: string
  np_Namespace :: string
  np_Labels :: labels
  np_Controller :: "(string \<times> string) option"
  np_PodSelector :: labels
  np_PolicyTypes :: "string list"
  np_Egress :: "NetworkPolicyRule list"
  np_Ingress :: "NetworkPolicyRule list"

definition openCIDR :: string where "openCIDR = ''0.0.0.0/0''"
definition interactiveAdapterPort :: int where "interactiveAdapterPort = 8431"

definition podsPeer :: "labels \<Rightarrow> labels \<Rightarrow> NetworkPolicyPeer" where
  "podsPeer ns pod = \<lparr> npp_PodSelector = Some pod, npp_NamespaceSelector = Some ns, npp_IPBlock = None \<rparr>"

definition blockPeer :: "string \<Rightarrow> string list \<Rightarrow> NetworkPolicyPeer" where
  "blockPeer cidr exc = \<lparr> npp_PodSelector = None, npp_NamespaceSelector = None, npp_IPBlock = Some \<lparr> ipb_CIDR = cidr, ipb_Except = exc \<rparr> \<rparr>"

definition brokerPeer :: "networkPolicyConfig \<Rightarrow> NetworkPolicyPeer" where
  "brokerPeer cfg = podsPeer [(''kubernetes.io/metadata.name'', npc_BrokerNamespace cfg)]
     [(''app.kubernetes.io/component'', ''broker''), (''app.kubernetes.io/name'', ''paddock'')]"

definition buildBrokerEgressRule :: "networkPolicyConfig \<Rightarrow> NetworkPolicyRule option" where
  "buildBrokerEgressRule cfg =
     (if npc_BrokerNamespace cfg = [] then None
      else Some \<lparr> npr_Peers = [brokerPeer cfg],
                  npr_Ports = [\<lparr> npt_Protocol = ''TCP'', npt_Port = Some (if npc_BrokerPort cfg = 0 then 8443 else npc_BrokerPort cfg) \<rparr>] \<rparr>)"

definition buildEgressNetworkPolicy :: "labels \<Rightarrow> string \<Rightarrow> string \<Rightarrow> labels \<Rightarrow> networkPolicyConfig \<Rightarrow> NetworkPolicy" where
  "buildEgressNetworkPolicy selector name namespace lbls cfg =
     (let exceptCIDRs = buildExceptCIDRs cfg;
          tcp = (\<lambda>p. \<lparr> npt_Protocol = ''TCP'', npt_Port = Some p \<rparr>);
          rules =
            [\<lparr> npr_Peers = [podsPeer [(''kubernetes.io/metadata.name'', ''kube-system'')] [(''k8s-app'', ''kube-dns'')]],
               npr_Ports = [\<lparr> npt_Protocol = ''UDP'', npt_Port = Some 53 \<rparr>, tcp 53] \<rparr>,
             \<lparr> npr_Peers = [blockPeer openCIDR exceptCIDRs], npr_Ports = [tcp 443] \<rparr>,
             \<lparr> npr_Peers = [blockPeer openCIDR exceptCIDRs], npr_Ports = [tcp 80] \<rparr>,
             \<lparr> npr_Peers = [blockPeer ''127.0.0.0/8'' []], npr_Ports = [\<lparr> npt_Protocol = ''TCP'', npt_Port = None \<rparr>] \<rparr>]
            @ (case buildBrokerEgressRule cfg of Some r \<Rightarrow> [r] | None \<Rightarrow> [])
            @ (if npc_APIServerIPs cfg \<noteq> []
               then [\<lparr> npr_Peers = map (\<lambda>ip. blockPeer (ip_String ip @ ''/32'') []) (npc_APIServerIPs cfg), npr_Ports = [tcp 443] \<rparr>]
               else [])
      in \<lparr> np_Name = name, np_Namespace = namespace, np_Labels = lbls, np_Controller = None, np_PodSelector = selector,
           np_PolicyTypes = [''Egress''], np_Egress = rules, np_Ingress = [] \<rparr>)"

definition applyInteractiveIngress :: "NetworkPolicy \<Rightarrow> networkPolicyConfig \<Rightarrow> NetworkPolicy" where
  "applyInteractiveIngress np cfg =
     (if npc_BrokerNamespace cfg = [] then np
      else np\<lparr> np_PolicyTypes := np_PolicyTypes np @ [''Ingress''],
               np_Ingress := np_Ingress np
                 @ [\<lparr> npr_Peers = [brokerPeer cfg], npr_Ports = [\<lparr> npt_Protocol = ''TCP'', npt_Port = Some interactiveAdapterPort \<rparr>] \<rparr>] \<rparr>)"

definition runNetworkPolicyName :: "string \<Rightarrow> string" where
  "runNetworkPolicyName runName = runName @ ''-egress''"

definition runEgressLabels :: "HarnessRun \<Rightarrow> labels" where
  "runEgressLabels run =
     [(''app.kubernetes.io/name'', ''paddock''), (''app.kubernetes.io/component'', ''harnessrun-egress''), (''paddock.dev/run'', hr_Name run)]"

definition buildRunNetworkPolicy :: "HarnessRun \<Rightarrow> networkPolicyConfig \<Rightarrow> NetworkPolicy" where
  "buildRunNetworkPolicy run cfg =
     (let np = buildEgressNetworkPolicy [(''paddock.dev/run'', hr_Name run)] (runNetworkPolicyName (hr_Name run))
                 (hr_Namespace run) (runEgressLabels run) cfg
      in if hr_Mode run = HarnessRunModeInteractive then applyInteractiveIngress np cfg else np)"

definition seedEgressLabels :: "Workspace \<Rightarrow> labels" where
  "seedEgressLabels ws =
     [(''app.kubernetes.io/name'', ''paddock''), (''app.kubernetes.io/component'', ''workspace-seed-egress''),
      (''paddock.dev/workspace'', ws_Name ws)]"

definition buildSeedNetworkPolicy :: "Workspace \<Rightarrow> networkPolicyConfig \<Rightarrow> NetworkPolicy" where
  "buildSeedNetworkPolicy ws cfg =
     buildEgressNetworkPolicy [(''paddock.dev/workspace'', ws_Name ws)] (seedNetworkPolicyName ws) (ws_Namespace ws)
       (seedEgressLabels ws) cfg"

section \<open>The Cilium variant\<close>

text \<open>An unstructured object is a JSON value.\<close>

datatype json = JStr string | JList "json list" | JObj "(string \<times> json) list"

record CiliumNetworkPolicy =
  cnp_Name :: string
  cnp_Namespace :: string
  cnp_Labels :: labels
  cnp_Controller :: "(string \<times> string) option"
  cnp_Spec :: json

definition stringMapToInterface :: "labels \<Rightarrow> json" where
  "stringMapToInterface m = JObj (map (\<lambda>(k, v). (k, JStr v)) m)"

definition ciliumPublicCIDRSet :: "networkPolicyConfig \<Rightarrow> json" where
  "ciliumPublicCIDRSet cfg =
     JList [JObj [(''cidr'', JStr ''0.0.0.0/0''), (''except'', JList (map JStr (buildExceptCIDRs cfg)))]]"

definition ciliumPorts :: "(string \<times> string) list \<Rightarrow> json" where
  "ciliumPorts ps =
     JList [JObj [(''ports'', JList (map (\<lambda>(port, proto). JObj [(''port'', JStr port), (''protocol'', JStr proto)]) ps))]]"

definition ciliumEndpoint :: "labels \<Rightarrow> json" where
  "ciliumEndpoint m = JList [JObj [(''matchLabels'', stringMapToInterface m)]]"

definition buildCiliumEgressPolicy :: "labels \<Rightarrow> string \<Rightarrow> string \<Rightarrow> labels \<Rightarrow> networkPolicyConfig \<Rightarrow> CiliumNetworkPolicy" where
  "buildCiliumEgressPolicy selector name namespace lbls cfg =
     (let rules =
        [JObj [(''toEndpoints'', ciliumEndpoint [(''k8s:io.kubernetes.pod.namespace'', ''kube-system''), (''k8s-app'', ''kube-dns'')]),
               (''toPorts'', ciliumPorts [(''53'', ''UDP''), (''53'', ''TCP'')])],
         JObj [(''toCIDRSet'', ciliumPublicCIDRSet cfg), (''toPorts'', ciliumPorts [(''443'', ''TCP''), (''80'', ''TCP'')])],
         JObj [(''toCIDR'', JList [JStr ''127.0.0.0/8''])]]
        @ (if npc_BrokerNamespace cfg \<noteq> []
           then [JObj [(''toEndpoints'', ciliumEndpoint [(''k8s:io.kubernetes.pod.namespace'', npc_BrokerNamespace cfg),
                           (''app.kubernetes.io/component'', ''broker''), (''app.kubernetes.io/name'', ''paddock'')]),
                       (''toPorts'', ciliumPorts [(fmt_d (if npc_BrokerPort cfg = 0 then 8443 else npc_BrokerPort cfg), ''TCP'')])]]
           else [])
        @ [JObj [(''toEntities'', JList [JStr ''kube-apiserver'', JStr ''remote-node''])]]
      in \<lparr> cnp_Name = name, cnp_Namespace = namespace, cnp_Labels = lbls, cnp_Controller = None,
           cnp_Spec = JObj [(''endpointSelector'', JObj [(''matchLabels'', stringMapToInterface selector)]), (''egress'', JList rules)] \<rparr>)"

definition buildRunCiliumNetworkPolicy :: "HarnessRun \<Rightarrow> networkPolicyConfig \<Rightarrow> CiliumNetworkPolicy" where
  "buildRunCiliumNetworkPolicy run cfg =
     buildCiliumEgressPolicy [(''paddock.dev/run'', hr_Name run)] (runNetworkPolicyName (hr_Name run)) (hr_Namespace run)
       (runEgressLabels run) cfg"

definition buildSeedCiliumNetworkPolicy :: "Workspace \<Rightarrow> networkPolicyConfig \<Rightarrow> CiliumNetworkPolicy" where
  "buildSeedCiliumNetworkPolicy ws cfg =
     buildCiliumEgressPolicy [(''paddock.dev/workspace'', ws_Name ws)] (seedNetworkPolicyName ws) (ws_Namespace ws)
       (seedEgressLabels ws) cfg"

section \<open>Addresses of the API server\<close>

text \<open>The host name of a parsed URL and the answers of the resolver are parameters.\<close>

definition APIServerIPsFromConfig ::
  "(string \<Rightarrow> error_msg + string) \<Rightarrow> (string \<Rightarrow> error_msg + IP list) \<Rightarrow> string option \<Rightarrow> error_msg + IP list" where
  "APIServerIPsFromConfig urlHostname lookupIPAddr cfgHost =
     (case cfgHost of
        None \<Rightarrow> Inl ''APIServerIPsFromConfig: empty cfg.Host''
      | Some host \<Rightarrow>
          if TrimSpace host = [] then Inl ''APIServerIPsFromConfig: empty cfg.Host''
          else
            (case (if Contains host ''://''
                   then (case urlHostname host of
                           Inl err \<Rightarrow> Inl (''APIServerIPsFromConfig: parse host '' @ fmt_q host @ '': '' @ err)
                         | Inr h \<Rightarrow> Inr h)
                   else (case SplitHostPort host of Inr (h, p) \<Rightarrow> Inr h | Inl _ \<Rightarrow> Inr host)) of
               Inl err \<Rightarrow> Inl err
             | Inr h \<Rightarrow>
                 let h = rev (dropWhile (\<lambda>c. c \<in> {CHR ''['', CHR '']''}) (rev (dropWhile (\<lambda>c. c \<in> {CHR ''['', CHR '']''}) h)))
                 in (case ParseIP h of
                       Some ip \<Rightarrow>
                         (case To4 ip of
                            Some v4 \<Rightarrow> Inr [v4]
                          | None \<Rightarrow> Inl (''APIServerIPsFromConfig: host '' @ fmt_q h @ '' is IPv6 only; IPv4 required''))
                     | None \<Rightarrow>
                         (case lookupIPAddr h of
                            Inl err \<Rightarrow> Inl (''APIServerIPsFromConfig: lookup '' @ fmt_q h @ '': '' @ err)
                          | Inr addrs \<Rightarrow>
                              let v4s = List.map_filter To4 addrs
                              in if v4s = [] then Inl (''APIServerIPsFromConfig: '' @ fmt_q h @ '' resolved to no IPv4 addresses'')
                                 else Inr v4s))))"

section \<open>What a policy permits\<close>

text \<open>
  Egress to an address that is not selected by labels: some rule has a block that contains the address
  outside its exceptions, or no peers at all, and one of its ports.
\<close>

definition cidr_contains :: "string \<Rightarrow> IP \<Rightarrow> bool" where
  "cidr_contains c ip = (case ParseCIDR c of None \<Rightarrow> False | Some n \<Rightarrow> net_Contains n ip)"

definition peer_permits :: "NetworkPolicyPeer \<Rightarrow> IP \<Rightarrow> bool" where
  "peer_permits p ip =
     (case npp_IPBlock p of
        None \<Rightarrow> False
      | Some b \<Rightarrow> cidr_contains (ipb_CIDR b) ip \<and> \<not> list_ex (\<lambda>c. cidr_contains c ip) (ipb_Except b))"

definition port_permits :: "NetworkPolicyPort \<Rightarrow> string \<Rightarrow> int \<Rightarrow> bool" where
  "port_permits q proto port = (npt_Protocol q = proto \<and> (case npt_Port q of None \<Rightarrow> True | Some n \<Rightarrow> n = port))"

definition rule_permits :: "NetworkPolicyRule \<Rightarrow> IP \<Rightarrow> string \<Rightarrow> int \<Rightarrow> bool" where
  "rule_permits r ip proto port =
     ((npr_Peers r = [] \<or> list_ex (\<lambda>p. peer_permits p ip) (npr_Peers r))
      \<and> (npr_Ports r = [] \<or> list_ex (\<lambda>q. port_permits q proto port) (npr_Ports r)))"

definition np_permits :: "NetworkPolicy \<Rightarrow> IP \<Rightarrow> string \<Rightarrow> int \<Rightarrow> bool" where
  "np_permits np ip proto port = (''Egress'' \<in> set (np_PolicyTypes np) \<longrightarrow> list_ex (\<lambda>r. rule_permits r ip proto port) (np_Egress np))"

definition excluded :: "networkPolicyConfig \<Rightarrow> IP \<Rightarrow> bool" where
  "excluded cfg ip = list_ex (\<lambda>c. cidr_contains c ip) (buildExceptCIDRs cfg)"

lemmas permits_defs = np_permits_def rule_permits_def peer_permits_def port_permits_def podsPeer_def blockPeer_def brokerPeer_def

lemma egress_policy_permits:
  "np_permits (buildEgressNetworkPolicy sel name ns lbls cfg) ip proto port \<longleftrightarrow>
     proto = ''TCP'' \<and>
     (port \<in> {80, 443} \<and> cidr_contains openCIDR ip \<and> \<not> excluded cfg ip
      \<or> cidr_contains ''127.0.0.0/8'' ip
      \<or> port = 443 \<and> (\<exists>a \<in> set (npc_APIServerIPs cfg). cidr_contains (ip_String a @ ''/32'') ip))"
  by (auto simp: buildEgressNetworkPolicy_def Let_def permits_defs excluded_def buildBrokerEgressRule_def list_ex_iff)

lemma run_policy_permits:
  "np_permits (buildRunNetworkPolicy run cfg) = np_permits (buildEgressNetworkPolicy [(''paddock.dev/run'', hr_Name run)]
     (runNetworkPolicyName (hr_Name run)) (hr_Namespace run) (runEgressLabels run) cfg)"
  by (auto simp: buildRunNetworkPolicy_def applyInteractiveIngress_def np_permits_def Let_def fun_eq_iff buildEgressNetworkPolicy_def)

text \<open>The list the proxy is started with means the same networks as the exceptions of the policy.\<close>

lemma parseDeniedEntries_contains:
  "parseDeniedEntries es = Inr nets \<Longrightarrow>
     list_ex (\<lambda>n. net_Contains n ip) nets = list_ex (\<lambda>e. cidr_contains (TrimSpace e) ip) es"
proof (induction es arbitrary: nets)
  case (Cons e es)
  have "cidr_contains [] ip = False" by (simp add: cidr_contains_def ParseCIDR_def)
  then show ?case
    using Cons by (cases "parseDeniedEntries es") (auto simp: cidr_contains_def Let_def split: if_splits option.splits)
qed simp

definition plain_cidr :: "string \<Rightarrow> bool" where
  "plain_cidr c = list_all (\<lambda>ch. ch \<noteq> CHR '','' \<and> \<not> isSpace ch) c"

lemma except_plain:
  assumes "plain_cidr (npc_ClusterPodCIDR cfg)" "plain_cidr (npc_ClusterServiceCIDR cfg)"
  shows "\<forall>c \<in> set (buildExceptCIDRs cfg). plain_cidr c"
  using assms by (auto simp: buildExceptCIDRs_def rfc1918AndLinkLocalCIDRs_def plain_cidr_def isSpace_def)

lemma Join_no_space: "\<forall>e \<in> set es. \<forall>c \<in> set e. \<not> isSpace c \<Longrightarrow> \<forall>c \<in> set (Join es '',''). \<not> isSpace c"
proof -
  have "set (Join es '','') \<subseteq> insert (CHR '','') (\<Union> (set (map set es)))" for es
    by (induction es "'',''" rule: Join.induct) auto
  moreover have "\<not> isSpace CHR '',''" by (simp add: isSpace_def)
  ultimately show "\<forall>e \<in> set es. \<forall>c \<in> set e. \<not> isSpace c \<Longrightarrow> ?thesis" by fastforce
qed

lemma proxy_denies_excluded:
  assumes "plain_cidr (npc_ClusterPodCIDR cfg)" "plain_cidr (npc_ClusterServiceCIDR cfg)"
    and parsed: "ParseDeniedCIDRs (proxyDeniedCIDRs cfg) = Inr nets"
  shows "DeniedCIDRSet_Contains (Some nets) (Some ip) = excluded cfg ip"
proof -
  let ?es = "buildExceptCIDRs cfg"
  have plain: "\<forall>e \<in> set ?es. CHR '','' \<notin> set e \<and> (\<forall>c \<in> set e. \<not> isSpace c)"
    using except_plain [OF assms(1,2)] by (auto simp: plain_cidr_def list_all_iff)
  have csv: "proxyDeniedCIDRs cfg = Join ?es '',''" by (simp add: proxyDeniedCIDRs_def buildExceptCIDRs_def)
  have trim: "TrimSpace (Join ?es '','') = Join ?es '',''" "\<And>e. e \<in> set ?es \<Longrightarrow> TrimSpace e = e"
    using plain Join_no_space [of ?es] by (auto intro!: TrimSpace_no_space)
  have split: "SplitByte (Join ?es '','') CHR '','' = ?es"
    using plain by (intro SplitByte_Join) (auto simp: buildExceptCIDRs_def rfc1918AndLinkLocalCIDRs_def)
  have "Join ?es '','' \<noteq> []" by (simp add: buildExceptCIDRs_def rfc1918AndLinkLocalCIDRs_def)
  then have "parseDeniedEntries ?es = Inr nets"
    using parsed trim split by (simp add: csv ParseDeniedCIDRs_def)
  from parseDeniedEntries_contains [OF this] show ?thesis
    using trim(2) by (auto simp: DeniedCIDRSet_Contains_def excluded_def list_ex_iff)
qed

end
