(* ===== verification/Controller_Base.thy ===== *)
theory Controller_Base
  imports Controller_Network Audit_Events Broker_Client
begin

text \<open>
  What the reconcilers share: the API server as a store of objects, operations on it that may fail at
  any call, conditions (\<open>conditions.go\<close>), the emission of audit events (\<open>audit.go\<close>), and the reconciler's
  view of the broker (\<open>broker_client.go\<close>).

  The store maps a kind, a namespace and a name to an object. Whether a call fails, and how, is decided
  by a function of the number of the call, over which the theorems quantify: an error may come at any
  point of a reconcile, a read may miss an object that exists. A write of a Workspace's status compares
  resource versions. What the reconcilers only read (templates, policies, namespaces) is the record
  \<open>kube\<close>. The clock stands still during one reconcile.
\<close>

section \<open>Objects\<close>

datatype kind =
    KHarnessRun | KWorkspace | KJob | KSecret | KConfigMap | KServiceAccount | KRole | KRoleBinding
  | KNetworkPolicy | KCiliumNetworkPolicy | KCertificate | KPersistentVolumeClaim

type_synonym okey = "kind \<times> string \<times> string"
type_synonym owner = "string \<times> string"

record 'a owned =
  own_Labels :: labels
  own_Controller :: "owner option"
  own_Body :: 'a

record PolicyRule =
  prl_APIGroups :: "string list"
  prl_Resources :: "string list"
  prl_ResourceNames :: "string list"
  prl_Verbs :: "string list"

record RoleBindingBody =
  rbb_Subjects :: "(string \<times> string \<times> string) list"
  rbb_RoleRef :: "string \<times> string \<times> string"

record CertificateCondition =
  cec_Type :: string
  cec_Status :: ConditionStatus
  cec_Reason :: string
  cec_Message :: string

record Certificate =
  cert_Labels :: labels
  cert_Controller :: "owner option"
  cert_IsCA :: bool
  cert_CommonName :: string
  cert_SecretName :: string
  cert_Duration :: "duration option"
  cert_RenewBefore :: "duration option"
  cert_PrivateKey :: "(string \<times> int) option"
  cert_Usages :: "string list"
  cert_IssuerRef :: "string \<times> string"
  cert_Conditions :: "CertificateCondition list"
  cert_FailedIssuanceAttempts :: "int option"

record PVC =
  pvc_Name :: string
  pvc_Labels :: labels
  pvc_Controller :: "owner option"
  pvc_AccessModes :: "string list"
  pvc_Storage :: int
  pvc_StorageClassName :: "string option"
  pvc_Phase :: string

datatype object =
    ORun (the_run: HarnessRun)
  | OWorkspace (the_workspace: Workspace)
  | OJob (the_job: Job)
  | OSecret (the_secret: "(string, string) gomap owned")
  | OConfigMap (the_configmap: "(string, string) gomap owned")
  | OServiceAccount (the_sa: "unit owned")
  | ORole (the_role: "PolicyRule list owned")
  | ORoleBinding (the_rb: "RoleBindingBody owned")
  | ONetworkPolicy (the_np: NetworkPolicy)
  | OCilium (the_cnp: CiliumNetworkPolicy)
  | OCertificate (the_cert: Certificate)
  | OPVC (the_pvc: PVC)

fun kind_of :: "object \<Rightarrow> kind" where
  "kind_of (ORun _) = KHarnessRun"
| "kind_of (OWorkspace _) = KWorkspace"
| "kind_of (OJob _) = KJob"
| "kind_of (OSecret _) = KSecret"
| "kind_of (OConfigMap _) = KConfigMap"
| "kind_of (OServiceAccount _) = KServiceAccount"
| "kind_of (ORole _) = KRole"
| "kind_of (ORoleBinding _) = KRoleBinding"
| "kind_of (ONetworkPolicy _) = KNetworkPolicy"
| "kind_of (OCilium _) = KCiliumNetworkPolicy"
| "kind_of (OCertificate _) = KCertificate"
| "kind_of (OPVC _) = KPersistentVolumeClaim"

datatype effect =
    Audit AuditEvent
  | Event string string
  | Issued string string string "client_error + IssueResponse"
  | Revoked string string IssuedLease "client_error option"

record 's cluster =
  cl_kube :: kube
  cl_objects :: "okey \<Rightarrow> object option"
  cl_faults :: "nat \<Rightarrow> api_error option"
  cl_calls :: nat
  cl_now :: time
  cl_broker :: 's
  cl_log :: "effect list"

section \<open>Operations\<close>

datatype ctl_error =
    ApiErr api_error
  | PlainError error_msg
  | PromptSourceNotFound error_msg
  | PromptKeyMissing error_msg
  | ProxyCertPermanentFailure error_msg
  | SourceCAMisconfigured

definition ctl_Error :: "ctl_error \<Rightarrow> error_msg" where
  "ctl_Error e =
     (case e of ApiErr a \<Rightarrow> api_Error a | PlainError m \<Rightarrow> m
      | PromptSourceNotFound m \<Rightarrow> ''prompt source object not found: '' @ m
      | PromptKeyMissing m \<Rightarrow> ''prompt source is missing the requested key: '' @ m
      | ProxyCertPermanentFailure m \<Rightarrow> ''cert-manager Certificate permanently failed: '' @ m
      | SourceCAMisconfigured \<Rightarrow> ''source broker-CA Secret missing/empty key'')"

definition is_NotFound :: "ctl_error \<Rightarrow> bool" where
  "is_NotFound e = (case e of ApiErr a \<Rightarrow> IsNotFound a | _ \<Rightarrow> False)"

definition is_Conflict :: "ctl_error \<Rightarrow> bool" where
  "is_Conflict e = (case e of ApiErr a \<Rightarrow> IsConflict a | _ \<Rightarrow> False)"

definition wrap :: "string \<Rightarrow> ctl_error \<Rightarrow> ctl_error" where
  "wrap p e = (case e of ApiErr a \<Rightarrow> ApiErr (wrapErr p a) | PlainError m \<Rightarrow> PlainError (p @ '': '' @ m) | _ \<Rightarrow> e)"

type_synonym ('s, 'a) op = "'s cluster \<Rightarrow> (ctl_error + 'a) \<times> 's cluster"

definition ret :: "'a \<Rightarrow> ('s, 'a) op" where
  "ret a c = (Inr a, c)"

definition throw :: "ctl_error \<Rightarrow> ('s, 'a) op" where
  "throw e c = (Inl e, c)"

definition bnd :: "('s, 'a) op \<Rightarrow> ('a \<Rightarrow> ('s, 'b) op) \<Rightarrow> ('s, 'b) op" where
  "bnd m f c = (case m c of (Inl e, c') \<Rightarrow> (Inl e, c') | (Inr a, c') \<Rightarrow> f a c')"

text \<open>An operation whose error the caller inspects.\<close>

definition attempt :: "('s, 'a) op \<Rightarrow> ('s, ctl_error + 'a) op" where
  "attempt m c = (case m c of (r, c') \<Rightarrow> (Inr r, c'))"

definition getNow :: "('s, time) op" where
  "getNow c = (Inr (cl_now c), c)"

definition getKube :: "('s, kube) op" where
  "getKube c = (Inr (cl_kube c), c)"

definition emit :: "effect \<Rightarrow> ('s, unit) op" where
  "emit e c = (Inr (), c\<lparr> cl_log := cl_log c @ [e] \<rparr>)"

definition liftE :: "ctl_error + 'a \<Rightarrow> ('s, 'a) op" where
  "liftE x = (case x of Inl e \<Rightarrow> throw e | Inr a \<Rightarrow> ret a)"

section \<open>The API server\<close>

text \<open>One call: it counts, and it may fail before it reads or writes anything.\<close>

definition api :: "('s cluster \<Rightarrow> (api_error + 'a) \<times> 's cluster) \<Rightarrow> ('s, 'a) op" where
  "api act c =
     (let c' = c\<lparr> cl_calls := Suc (cl_calls c) \<rparr>
      in case cl_faults c (cl_calls c) of
           Some e \<Rightarrow> (Inl (ApiErr e), c')
         | None \<Rightarrow> (case act c' of (Inl e, c'') \<Rightarrow> (Inl (ApiErr e), c'') | (Inr a, c'') \<Rightarrow> (Inr a, c'')))"

definition put :: "okey \<Rightarrow> object option \<Rightarrow> 's cluster \<Rightarrow> 's cluster" where
  "put k v c = c\<lparr> cl_objects := (cl_objects c)(k := v) \<rparr>"

definition apiGet :: "okey \<Rightarrow> ('s, object) op" where
  "apiGet k = api (\<lambda>c. (case cl_objects c k of
     Some x \<Rightarrow> if kind_of x = fst k then Inr x else Inl (NotFound ''not found'') | None \<Rightarrow> Inl (NotFound ''not found''), c))"

definition apiCreate :: "okey \<Rightarrow> object \<Rightarrow> ('s, unit) op" where
  "apiCreate k x = api (\<lambda>c. case cl_objects c k of
     Some _ \<Rightarrow> (Inl (ApiError ''already exists''), c) | None \<Rightarrow> (Inr (), put k (Some x) c))"

definition apiUpdate :: "okey \<Rightarrow> object \<Rightarrow> ('s, unit) op" where
  "apiUpdate k x = api (\<lambda>c. case cl_objects c k of
     None \<Rightarrow> (Inl (NotFound ''not found''), c) | Some _ \<Rightarrow> (Inr (), put k (Some x) c))"

definition apiDelete :: "okey \<Rightarrow> ('s, unit) op" where
  "apiDelete k = api (\<lambda>c. case cl_objects c k of
     None \<Rightarrow> (Inl (NotFound ''not found''), c) | Some _ \<Rightarrow> (Inr (), put k None c))"

text \<open>
  The run's own writes. \<open>Update\<close> stores the metadata; when the object is being deleted and holds no
  finalizer any more, it vanishes. \<open>Status().Update\<close> stores the status.
\<close>

definition run_key :: "HarnessRun \<Rightarrow> okey" where
  "run_key run = (KHarnessRun, hr_Namespace run, hr_Name run)"

definition updateRun :: "HarnessRun \<Rightarrow> ('s, unit) op" where
  "updateRun run = api (\<lambda>c. case cl_objects c (run_key run) of
     Some (ORun stored) \<Rightarrow>
       (Inr (), put (run_key run)
          (if hr_DeletionTimestamp stored \<noteq> None \<and> hr_Finalizers run = [] then None
           else Some (ORun (stored\<lparr> hr_Finalizers := hr_Finalizers run \<rparr>))) c)
   | _ \<Rightarrow> (Inl (NotFound ''not found''), c))"

definition updateRunStatus :: "HarnessRun \<Rightarrow> ('s, unit) op" where
  "updateRunStatus run = api (\<lambda>c. case cl_objects c (run_key run) of
     Some (ORun stored) \<Rightarrow> (Inr (), put (run_key run) (Some (ORun (stored\<lparr> hr_Status := hr_Status run \<rparr>))) c)
   | _ \<Rightarrow> (Inl (NotFound ''not found''), c))"

definition ws_key :: "Workspace \<Rightarrow> okey" where
  "ws_key ws = (KWorkspace, ws_Namespace ws, ws_Name ws)"

text \<open>
  Optimistic concurrency: a write of a Workspace that was read before another write gets a conflict.
  The result is the object with its new version.
\<close>

definition updateWorkspaceStatus :: "Workspace \<Rightarrow> ('s, Workspace) op" where
  "updateWorkspaceStatus ws = api (\<lambda>c. case cl_objects c (ws_key ws) of
     Some (OWorkspace stored) \<Rightarrow>
       if ws_ResourceVersion stored \<noteq> ws_ResourceVersion ws then (Inl (Conflict ''the object has been modified''), c)
       else (let new = stored\<lparr> ws_Status := ws_Status ws, ws_ResourceVersion := Suc (ws_ResourceVersion stored) \<rparr>
             in (Inr new, put (ws_key ws) (Some (OWorkspace new)) c))
   | _ \<Rightarrow> (Inl (NotFound ''not found''), c))"

definition updateWorkspace :: "Workspace \<Rightarrow> ('s, Workspace) op" where
  "updateWorkspace ws = api (\<lambda>c. case cl_objects c (ws_key ws) of
     Some (OWorkspace stored) \<Rightarrow>
       if ws_ResourceVersion stored \<noteq> ws_ResourceVersion ws then (Inl (Conflict ''the object has been modified''), c)
       else (let new = stored\<lparr> ws_Finalizers := ws_Finalizers ws, ws_ResourceVersion := Suc (ws_ResourceVersion stored) \<rparr>
             in (Inr new, put (ws_key ws)
                   (if ws_DeletionTimestamp stored \<noteq> None \<and> ws_Finalizers ws = [] then None else Some (OWorkspace new)) c))
   | _ \<Rightarrow> (Inl (NotFound ''not found''), c))"

text \<open>\<open>controllerutil.SetControllerReference\<close>: refused when another object controls already.\<close>

definition setController :: "owner \<Rightarrow> owner option \<Rightarrow> ctl_error + owner option" where
  "setController own cur =
     (case cur of
        Some own' \<Rightarrow> if own' = own then Inr (Some own) else Inl (PlainError (''Object is already owned by another controller''))
      | None \<Rightarrow> Inr (Some own))"

definition run_owner :: "HarnessRun \<Rightarrow> owner" where "run_owner run = (''HarnessRun'', hr_Name run)"
definition ws_owner :: "Workspace \<Rightarrow> owner" where "ws_owner ws = (''Workspace'', ws_Name ws)"

text \<open>
  \<open>controllerutil.CreateOrUpdate\<close>: the mutation gets the stored object or nothing; an object that the
  mutation leaves as it is, is not written.
\<close>

datatype OperationResult = OpNone | OpCreated | OpUpdated

definition createOrUpdate :: "okey \<Rightarrow> (object option \<Rightarrow> ctl_error + object) \<Rightarrow> ('s, OperationResult) op" where
  "createOrUpdate k f =
     bnd (attempt (apiGet k)) (\<lambda>r. case r of
       Inl e \<Rightarrow> if is_NotFound e
                then bnd (liftE (f None)) (\<lambda>x. bnd (apiCreate k x) (\<lambda>_. ret OpCreated))
                else throw e
     | Inr old \<Rightarrow> bnd (liftE (f (Some old))) (\<lambda>x. if x = old then ret OpNone else bnd (apiUpdate k x) (\<lambda>_. ret OpUpdated)))"

text \<open>A conflict on an upsert is left to the next reconcile.\<close>

definition upsert :: "string \<Rightarrow> okey \<Rightarrow> (object option \<Rightarrow> ctl_error + object) \<Rightarrow> ('s, OperationResult) op" where
  "upsert what k f =
     bnd (attempt (createOrUpdate k f)) (\<lambda>r. case r of
       Inl e \<Rightarrow> if is_Conflict e then ret OpNone else throw (wrap what e)
     | Inr res \<Rightarrow> ret res)"

text \<open>The mutations used below: set the owner, then the body.\<close>

definition ownBody :: "owner \<Rightarrow> labels \<Rightarrow> ('a owned \<Rightarrow> object) \<Rightarrow> (object \<Rightarrow> 'a owned) \<Rightarrow> 'a \<Rightarrow> object option \<Rightarrow> ctl_error + object" where
  "ownBody own lbls mk prj body old =
     (let cur = (case old of Some x \<Rightarrow> prj x | None \<Rightarrow> \<lparr> own_Labels = lbls, own_Controller = None, own_Body = body \<rparr>)
      in case setController own (own_Controller cur) of
           Inl e \<Rightarrow> Inl e
         | Inr ow \<Rightarrow> Inr (mk (cur\<lparr> own_Controller := ow, own_Body := body \<rparr>)))"

section \<open>Conditions\<close>

definition mkCond :: "string \<Rightarrow> ConditionStatus \<Rightarrow> string \<Rightarrow> string \<Rightarrow> int \<Rightarrow> Condition" where
  "mkCond t s r m g =
     \<lparr> cond_Type = t, cond_Status = s, cond_Reason = r, cond_Message = m, cond_ObservedGeneration = g, cond_LastTransitionTime = 0 \<rparr>"

fun setCondition :: "time \<Rightarrow> Condition list \<Rightarrow> Condition \<Rightarrow> Condition list" where
  "setCondition now [] c = [c\<lparr> cond_LastTransitionTime := now \<rparr>]"
| "setCondition now (existing # cs) c =
     (if cond_Type existing \<noteq> cond_Type c then existing # setCondition now cs c
      else (if cond_Status existing = cond_Status c
            then c\<lparr> cond_LastTransitionTime := cond_LastTransitionTime existing \<rparr>
            else c\<lparr> cond_LastTransitionTime := now \<rparr>) # cs)"

section \<open>Audit\<close>

text \<open>The sink may be missing, and its errors are only logged: an emission is an entry of the log or nothing.\<close>

definition audit_write :: "bool \<Rightarrow> (time \<Rightarrow> AuditEvent) \<Rightarrow> ('s, unit) op" where
  "audit_write sink ev = bnd getNow (\<lambda>now. if sink then emit (Audit (ev now)) else ret ())"

definition EmitCredentialIssuedSummary :: "bool \<Rightarrow> string \<Rightarrow> string \<Rightarrow> nat \<Rightarrow> ('s, unit) op" where
  "EmitCredentialIssuedSummary sink runName namespace n =
     audit_write sink (\<lambda>now. NewCredentialIssued now
       \<lparr> cin_RunName = runName, cin_Namespace = namespace, cin_CredentialName = [], cin_Provider = [], cin_MatchedPolicy = [],
         cin_Reason = ''controller projected credentials into <run>-broker-creds'', cin_When = 0, cin_Count = int32 (int n) \<rparr>)"

definition EmitRunFailed :: "bool \<Rightarrow> string \<Rightarrow> string \<Rightarrow> string \<Rightarrow> string \<Rightarrow> ('s, unit) op" where
  "EmitRunFailed sink runName namespace reason message =
     audit_write sink (\<lambda>now. NewRunFailed now
       \<lparr> ri_RunName = runName, ri_Namespace = namespace, ri_Reason = reason @ '': '' @ message,
         ri_Decision = AuditDecisionDenied, ri_When = 0 \<rparr>)"

definition EmitRunCompleted :: "bool \<Rightarrow> string \<Rightarrow> string \<Rightarrow> AuditDecision \<Rightarrow> string \<Rightarrow> ('s, unit) op" where
  "EmitRunCompleted sink runName namespace decision reason =
     audit_write sink (\<lambda>now. NewRunCompleted now
       \<lparr> ri_RunName = runName, ri_Namespace = namespace, ri_Reason = reason, ri_Decision = decision, ri_When = 0 \<rparr>)"

definition EmitCAProjected :: "bool \<Rightarrow> string \<Rightarrow> string \<Rightarrow> string \<Rightarrow> ('s, unit) op" where
  "EmitCAProjected sink runName namespace secretName =
     audit_write sink (\<lambda>now. NewCAProjected now
       \<lparr> cpi_RunName = runName, cpi_Namespace = namespace, cpi_SecretName = secretName,
         cpi_Reason = ''controller projected '' @ secretName, cpi_When = 0 \<rparr>)"

definition EmitWorkspaceCAMisconfigured :: "bool \<Rightarrow> string \<Rightarrow> string \<Rightarrow> string \<Rightarrow> ('s, unit) op" where
  "EmitWorkspaceCAMisconfigured sink wsName namespace reason =
     audit_write sink (\<lambda>now. NewCAMisconfigured now
       \<lparr> cmi_Name = ''seed-'' @ wsName, cmi_Namespace = namespace, cmi_Reason = reason, cmi_When = 0 \<rparr>)"

definition EmitRunCAMisconfigured :: "bool \<Rightarrow> string \<Rightarrow> string \<Rightarrow> string \<Rightarrow> ('s, unit) op" where
  "EmitRunCAMisconfigured sink runName namespace reason =
     audit_write sink (\<lambda>now. NewCAMisconfigured now
       \<lparr> cmi_Name = runName, cmi_Namespace = namespace, cmi_Reason = reason, cmi_When = 0 \<rparr>)"

definition EmitNetworkPolicyEnforcementWithdrawn :: "bool \<Rightarrow> string \<Rightarrow> string \<Rightarrow> string \<Rightarrow> ('s, unit) op" where
  "EmitNetworkPolicyEnforcementWithdrawn sink runName namespace reason =
     audit_write sink (\<lambda>now. NewNetworkPolicyEnforcementWithdrawn now
       \<lparr> npi_RunName = runName, npi_Namespace = namespace, npi_Reason = reason, npi_When = 0 \<rparr>)"

definition EmitInteractiveRunTerminated :: "bool \<Rightarrow> string \<Rightarrow> string \<Rightarrow> string \<Rightarrow> ('s, unit) op" where
  "EmitInteractiveRunTerminated sink runName namespace reason =
     audit_write sink (\<lambda>now. NewInteractiveRunTerminated now
       \<lparr> iti_RunName = runName, iti_Namespace = namespace, iti_Reason = reason, iti_Decision = AuditDecisionGranted, iti_When = 0 \<rparr>)"

definition EmitBrokerCredsTampered :: "bool \<Rightarrow> string \<Rightarrow> string \<Rightarrow> string list \<Rightarrow> ('s, unit) op" where
  "EmitBrokerCredsTampered sink runName namespace prunedKeys =
     audit_write sink (\<lambda>now. NewBrokerCredsTampered now
       \<lparr> bti_RunName = runName, bti_Namespace = namespace, bti_PrunedKeys = prunedKeys, bti_When = 0 \<rparr>)"

section \<open>The broker as the reconciler sees it\<close>

record 's broker_issuer =
  bi_Issue :: "'s \<Rightarrow> string \<Rightarrow> string \<Rightarrow> string \<Rightarrow> (client_error + IssueResponse) \<times> 's"
  bi_Revoke :: "'s \<Rightarrow> string \<Rightarrow> string \<Rightarrow> IssuedLease \<Rightarrow> client_error option \<times> 's"

definition brokerHTTPIssue ::
  "broker_client \<Rightarrow> error_msg + string \<Rightarrow> ('s \<Rightarrow> BrokerIssueRequest broker_request \<Rightarrow> (error_msg + IssueResponse http_response) \<times> 's)
    \<Rightarrow> 's \<Rightarrow> string \<Rightarrow> string \<Rightarrow> string \<Rightarrow> (client_error + IssueResponse) \<times> 's" where
  "brokerHTTPIssue b token send st runName runNamespace credentialName =
     (case client_Do (b\<lparr> bc_RunName := runName, bc_RunNamespace := runNamespace \<rparr>) token send st \<lparr> biq_Name = credentialName \<rparr> of
        (Inl err, st') \<Rightarrow> (Inl err, st')
      | (Inr None, st') \<Rightarrow> (Inl (PlainErr ''decoding broker response: EOF''), st')
      | (Inr (Some out), st') \<Rightarrow> (Inr out, st'))"

definition brokerHTTPRevoke ::
  "broker_client \<Rightarrow> error_msg + string \<Rightarrow> ('s \<Rightarrow> RevokeRequest broker_request \<Rightarrow> (error_msg + unit http_response) \<times> 's)
    \<Rightarrow> 's \<Rightarrow> string \<Rightarrow> string \<Rightarrow> IssuedLease \<Rightarrow> client_error option \<times> 's" where
  "brokerHTTPRevoke b token send st runName runNamespace lease =
     (case client_Do (b\<lparr> bc_RunName := runName, bc_RunNamespace := runNamespace \<rparr>) token send st
             \<lparr> rvq_Provider = il_Provider lease, rvq_LeaseID = il_LeaseID lease, rvq_CredentialName = il_CredentialName lease \<rparr> of
        (Inl (BrokerErr be), st') \<Rightarrow> (if bke_Status be = 204 then None else Some (BrokerErr be), st')
      | (Inl err, st') \<Rightarrow> (Some err, st')
      | (Inr _, st') \<Rightarrow> (None, st'))"

definition newBrokerHTTPClient :: "client_env \<Rightarrow> string \<Rightarrow> string \<Rightarrow> error_msg + broker_client option" where
  "newBrokerHTTPClient e endpoint caPath =
     (if endpoint = [] then Inr None
      else map_sum id Some (newBrokerclient e \<lparr> opt_Endpoint = endpoint, opt_CABundlePath = caPath, opt_HasTokenReader = True,
             opt_RunName = [], opt_RunNamespace = [], opt_Timeout = 10 * second \<rparr>))"

definition IsBrokerCodeFatal :: "client_error \<Rightarrow> bool" where
  "IsBrokerCodeFatal err =
     (case err of
        BrokerErr be \<Rightarrow> bke_Code be \<in> {''RunNotFound'', ''CredentialNotFound'', ''PolicyMissing'', ''BadRequest'', ''Forbidden''}
      | PlainErr _ \<Rightarrow> False)"

section \<open>Frames\<close>

text \<open>
  An operation touches a set of keys when it leaves every other object, and all that is only read, as it
  was; the log only grows. The rules below compose along the structure of an operation.
\<close>

named_theorems touch

definition unchanged :: "okey set \<Rightarrow> 's cluster \<Rightarrow> 's cluster \<Rightarrow> bool" where
  "unchanged K c c' \<longleftrightarrow>
     (\<forall>k \<in> - K. cl_objects c' k = cl_objects c k) \<and> cl_kube c' = cl_kube c \<and> cl_faults c' = cl_faults c \<and> cl_now c' = cl_now c
     \<and> (\<exists>es. cl_log c' = cl_log c @ es)"

definition touches :: "okey set \<Rightarrow> ('s, 'a) op \<Rightarrow> bool" where
  "touches K m \<longleftrightarrow> (\<forall>c. unchanged K c (snd (m c)))"

lemma unchanged_refl [simp]: "unchanged K c c" by (simp add: unchanged_def)

lemma unchanged_trans: "unchanged K c c' \<Longrightarrow> unchanged K c' c'' \<Longrightarrow> unchanged K c c''"
  by (auto simp: unchanged_def)

lemma unchanged_mono: "unchanged K c c' \<Longrightarrow> K \<subseteq> K' \<Longrightarrow> unchanged K' c c'"
  by (auto simp: unchanged_def)

lemma unchanged_put [simp]: "k \<in> K \<Longrightarrow> unchanged K c (put k v c)"
  by (auto simp: unchanged_def put_def)

lemma unchanged_calls [simp]: "unchanged K (c\<lparr> cl_calls := n \<rparr>) c' = unchanged K c c'"
  by (simp add: unchanged_def)

lemma touchesD: "touches K m \<Longrightarrow> m c = (r, c') \<Longrightarrow> unchanged K c c'"
  by (metis snd_conv touches_def)

lemma unchanged_object: "unchanged K c c' \<Longrightarrow> k \<notin> K \<Longrightarrow> cl_objects c' k = cl_objects c k"
  by (simp add: unchanged_def)

lemma touches_mono: "touches K m \<Longrightarrow> K \<subseteq> K' \<Longrightarrow> touches K' m"
  by (auto simp: touches_def intro: unchanged_mono)

lemma touches_ret [touch]: "touches K (ret a)" by (simp add: touches_def ret_def)
lemma touches_throw [touch]: "touches K (throw e)" by (simp add: touches_def throw_def)
lemma touches_getNow [touch]: "touches K getNow" by (simp add: touches_def getNow_def)
lemma touches_getKube [touch]: "touches K getKube" by (simp add: touches_def getKube_def)
lemma touches_emit [touch]: "touches K (emit e)" by (simp add: touches_def emit_def unchanged_def)

lemma touches_liftE [touch]: "touches K (liftE x)"
  by (simp add: liftE_def touch split: sum.split)

lemma touches_bnd [touch]:
  assumes "touches K m" "\<And>a. touches K (f a)"
  shows "touches K (bnd m f)"
  unfolding touches_def
proof
  fix c
  obtain r c' where mc: "m c = (r, c')" by (cases "m c")
  have "unchanged K c c'" using assms(1) mc by (rule touchesD)
  moreover have "unchanged K c' (snd (f a c'))" for a using assms(2) [of a] by (simp add: touches_def)
  ultimately show "unchanged K c (snd (bnd m f c))"
    by (cases r) (auto simp: bnd_def mc intro: unchanged_trans)
qed

lemma touches_attempt [touch]: "touches K m \<Longrightarrow> touches K (attempt m)"
  unfolding touches_def attempt_def by (simp split: prod.split) (metis snd_conv)

lemma touches_if [touch]: "(b \<Longrightarrow> touches K m) \<Longrightarrow> (\<not> b \<Longrightarrow> touches K n) \<Longrightarrow> touches K (if b then m else n)"
  by simp

lemma touches_case_sum [touch]:
  "(\<And>e. x = Inl e \<Longrightarrow> touches K (f e)) \<Longrightarrow> (\<And>a. x = Inr a \<Longrightarrow> touches K (g a)) \<Longrightarrow> touches K (case x of Inl e \<Rightarrow> f e | Inr a \<Rightarrow> g a)"
  by (simp split: sum.split)

lemma touches_case_option [touch]:
  "(x = None \<Longrightarrow> touches K f) \<Longrightarrow> (\<And>a. x = Some a \<Longrightarrow> touches K (g a)) \<Longrightarrow> touches K (case x of None \<Rightarrow> f | Some a \<Rightarrow> g a)"
  by (simp split: option.split)

lemma touches_case_prod [touch]: "(\<And>a b. x = (a, b) \<Longrightarrow> touches K (f a b)) \<Longrightarrow> touches K (case x of (a, b) \<Rightarrow> f a b)"
  by (simp split: prod.split)

lemma touches_api:
  assumes "\<And>c. unchanged K c (snd (act c))"
  shows "touches K (api act)"
  unfolding touches_def
proof
  fix c
  have "unchanged K c (snd (act (c\<lparr> cl_calls := Suc (cl_calls c) \<rparr>)))"
    using assms [of "c\<lparr> cl_calls := Suc (cl_calls c) \<rparr>"] by simp
  then show "unchanged K c (snd (api act c))"
    by (auto simp: api_def Let_def unchanged_def split: option.split sum.split prod.split)
qed

lemma touches_apiGet [touch]: "touches K (apiGet k)"
  unfolding apiGet_def by (rule touches_api) simp

lemma touches_apiCreate [touch]: "k \<in> K \<Longrightarrow> touches K (apiCreate k x)"
  unfolding apiCreate_def by (rule touches_api) (simp split: option.split)

lemma touches_apiUpdate [touch]: "k \<in> K \<Longrightarrow> touches K (apiUpdate k x)"
  unfolding apiUpdate_def by (rule touches_api) (simp split: option.split)

lemma touches_apiDelete [touch]: "k \<in> K \<Longrightarrow> touches K (apiDelete k)"
  unfolding apiDelete_def by (rule touches_api) (simp split: option.split)

lemma touches_updateRun [touch]: "run_key run \<in> K \<Longrightarrow> touches K (updateRun run)"
  unfolding updateRun_def by (rule touches_api) (simp split: option.split object.split)

lemma touches_updateRunStatus [touch]: "run_key run \<in> K \<Longrightarrow> touches K (updateRunStatus run)"
  unfolding updateRunStatus_def by (rule touches_api) (simp split: option.split object.split)

lemma touches_updateWorkspaceStatus [touch]: "ws_key ws \<in> K \<Longrightarrow> touches K (updateWorkspaceStatus ws)"
  unfolding updateWorkspaceStatus_def by (rule touches_api) (simp add: Let_def split: option.split object.split)

lemma touches_updateWorkspace [touch]: "ws_key ws \<in> K \<Longrightarrow> touches K (updateWorkspace ws)"
  unfolding updateWorkspace_def by (rule touches_api) (simp add: Let_def split: option.split object.split)

lemma touches_createOrUpdate [touch]: "k \<in> K \<Longrightarrow> touches K (createOrUpdate k f)"
  unfolding createOrUpdate_def by (intro touch)

lemma touches_upsert [touch]: "k \<in> K \<Longrightarrow> touches K (upsert what k f)"
  unfolding upsert_def by (intro touch)

lemma touches_audit_write [touch]: "touches K (audit_write sink ev)"
  unfolding audit_write_def by (intro touch)

lemmas emits = EmitCredentialIssuedSummary_def EmitRunFailed_def EmitRunCompleted_def EmitCAProjected_def
  EmitWorkspaceCAMisconfigured_def EmitRunCAMisconfigured_def EmitNetworkPolicyEnforcementWithdrawn_def
  EmitInteractiveRunTerminated_def EmitBrokerCredsTampered_def

end
