(* ===== verification/Controller_Creds.thy ===== *)
theory Controller_Creds
  imports Controller_Base "HOL-Library.List_Lexorder" "HOL-Library.Char_ord"
begin

text \<open>
  What a run's pod needs before it starts: the Secret with the issued credentials
  (\<open>broker_credentials.go\<close>), the certificate of the proxy (\<open>proxy_tls.go\<close>), the broker's CA
  (\<open>broker_ca.go\<close>), and the upserts of the network policy (\<open>network_policy.go\<close>).
\<close>

record 's reconciler =
  rc_cfg :: ProxyBrokerConfig
  rc_RingMaxEvents :: int
  rc_BrokerClient :: "'s broker_issuer option"
  rc_ProxyAllowList :: string
  rc_IPTablesInitImage :: string
  rc_HomeInitImage :: string
  rc_Audit :: bool
  rc_order :: map_order
  rc_parseEvent :: "string \<Rightarrow> PaddockEvent option"
  rc_parseOutputs :: "string \<Rightarrow> HarnessRunOutputs option"
  rc_ctxDone :: "nat \<Rightarrow> bool"

section \<open>Credentials\<close>

definition leaseRenewSkew :: duration where "leaseRenewSkew = 30 * second"

definition brokerCredsSecretName :: "string \<Rightarrow> string" where "brokerCredsSecretName runName = runName @ ''-broker-creds''"

definition creds_key :: "HarnessRun \<Rightarrow> okey" where
  "creds_key run = (KSecret, hr_Namespace run, brokerCredsSecretName (hr_Name run))"

definition deleteBrokerCredsSecret :: "HarnessRun \<Rightarrow> ('s, unit) op" where
  "deleteBrokerCredsSecret run =
     bnd (attempt (apiGet (creds_key run))) (\<lambda>r. case r of
       Inl e \<Rightarrow> if is_NotFound e then ret () else throw e
     | Inr _ \<Rightarrow> bnd (attempt (apiDelete (creds_key run))) (\<lambda>r. case r of
                  Inl e \<Rightarrow> if is_NotFound e then ret () else throw e
                | Inr _ \<Rightarrow> ret ()))"

definition deriveProviderRef :: "IssueResponse \<Rightarrow> PoolLeaseRef option" where
  "deriveProviderRef resp =
     (if isr_Provider resp \<noteq> ''PATPool'' then None
      else case (isr_PoolSecretRef resp, isr_PoolSlotIndex resp) of
        (Some (name, key), Some idx) \<Rightarrow> Some \<lparr> plr_SecretRef = \<lparr> skr_Name = name, skr_Key = key \<rparr>, plr_SlotIndex = idx \<rparr>
      | _ \<Rightarrow> None)"

text \<open>The lease and the status that the run's status holds for a credential; of several the last.\<close>

definition cachedLease :: "time \<Rightarrow> HarnessRun \<Rightarrow> string \<Rightarrow> (CredentialStatus \<times> IssuedLease) option" where
  "cachedLease now run name =
     (case find (\<lambda>l. il_CredentialName l = name) (rev (hr_IssuedLeases run)) of
        None \<Rightarrow> None
      | Some lease \<Rightarrow>
          if (case il_ExpiresAt lease of None \<Rightarrow> False | Some t \<Rightarrow> now + leaseRenewSkew > t) then None
          else map_option (\<lambda>cs. (cs, lease)) (find (\<lambda>cs. cs_Name cs = name) (rev (hrt_Credentials (hr_Status run)))))"

definition canonicalData :: "CredentialRequirement list \<Rightarrow> (string, string) gomap \<Rightarrow> (string, string) gomap" where
  "canonicalData reqs data =
     fold (\<lambda>c m. mset_key (cr_Name c) (case map_of data (cr_Name c) of Some v \<Rightarrow> v | None \<Rightarrow> []) m) reqs []"

definition prunedKeys :: "CredentialRequirement list \<Rightarrow> (string, string) gomap \<Rightarrow> string list" where
  "prunedKeys reqs data = sort (filter (\<lambda>k. k \<notin> cr_Name ` set reqs) (map fst data))"

definition credsSecret :: "HarnessRun \<Rightarrow> (string, string) gomap \<Rightarrow> object option \<Rightarrow> ctl_error + object" where
  "credsSecret run data = ownBody (run_owner run) [] OSecret the_secret data"

definition cachedBrokerCredentials ::
  "'s reconciler \<Rightarrow> HarnessRun \<Rightarrow> CredentialRequirement list \<Rightarrow> ('s, (CredentialStatus list \<times> IssuedLease list) option) op" where
  "cachedBrokerCredentials r run reqs =
     (if length (hr_IssuedLeases run) < length reqs \<or> length (hrt_Credentials (hr_Status run)) < length reqs then ret None
      else bnd getNow (\<lambda>now.
        case those (map (\<lambda>c. cachedLease now run (cr_Name c)) reqs) of
          None \<Rightarrow> ret None
        | Some found \<Rightarrow>
            bnd (attempt (apiGet (creds_key run))) (\<lambda>g. case g of
              Inl _ \<Rightarrow> ret None
            | Inr obj \<Rightarrow>
                (let data = own_Body (the_secret obj); res = Some (map fst found, map snd found) in
                 if \<exists>c \<in> set reqs. map_of data (cr_Name c) \<in> {None, Some []} then ret None
                 else if length data > length reqs then
                   bnd (attempt (createOrUpdate (creds_key run) (credsSecret run (canonicalData reqs data)))) (\<lambda>u. case u of
                     Inl _ \<Rightarrow> ret None
                   | Inr _ \<Rightarrow> bnd (EmitBrokerCredsTampered (rc_Audit r) (hr_Name run) (hr_Namespace run) (prunedKeys reqs data))
                                (\<lambda>_. ret res))
                 else ret res))))"

datatype creds_outcome =
    CredsReady "CredentialStatus list" "IssuedLease list"
  | CredsTransient
  | CredsFatal string string

definition brokerIssue :: "'s broker_issuer \<Rightarrow> string \<Rightarrow> string \<Rightarrow> string \<Rightarrow> ('s, client_error + IssueResponse) op" where
  "brokerIssue b runName ns name c =
     (case bi_Issue b (cl_broker c) runName ns name of
        (x, st) \<Rightarrow> (Inr x, c\<lparr> cl_broker := st, cl_log := cl_log c @ [Issued runName ns name x] \<rparr>))"

definition statusOf :: "string \<Rightarrow> IssueResponse \<Rightarrow> CredentialStatus" where
  "statusOf name resp =
     \<lparr> cs_Name = name, cs_Provider = isr_Provider resp, cs_DeliveryMode = isr_DeliveryMode resp, cs_Hosts = isr_Hosts resp,
       cs_InContainerReason = isr_InContainerReason resp \<rparr>"

definition leaseOf :: "string \<Rightarrow> IssueResponse \<Rightarrow> IssuedLease" where
  "leaseOf name resp =
     \<lparr> il_Provider = isr_Provider resp, il_LeaseID = isr_LeaseID resp, il_CredentialName = name,
       il_ExpiresAt = Some (isr_ExpiresAt resp), il_PoolRef = deriveProviderRef resp \<rparr>"

text \<open>The loop that issues: the responses so far, or why it stopped.\<close>

fun issueLoop ::
  "'s broker_issuer \<Rightarrow> HarnessRun \<Rightarrow> CredentialRequirement list \<Rightarrow> (string \<times> IssueResponse) list
    \<Rightarrow> ('s, creds_outcome + (string \<times> IssueResponse) list) op" where
  "issueLoop b run [] acc = ret (Inr acc)"
| "issueLoop b run (c # cs) acc =
     bnd (brokerIssue b (hr_Name run) (hr_Namespace run) (cr_Name c)) (\<lambda>x. case x of
       Inl err \<Rightarrow> if IsBrokerCodeFatal err then ret (Inl (CredsFatal ''BrokerDenied'' (client_Error err))) else ret (Inl CredsTransient)
     | Inr resp \<Rightarrow> issueLoop b run cs (acc @ [(cr_Name c, resp)]))"

definition issuedData :: "(string \<times> IssueResponse) list \<Rightarrow> (string, string) gomap" where
  "issuedData rs = fold (\<lambda>(n, resp) m. mset_key n (isr_Value resp) m) rs []"

definition ensureBrokerCredentials :: "'s reconciler \<Rightarrow> HarnessRun \<Rightarrow> resolvedTemplate \<Rightarrow> ('s, creds_outcome) op" where
  "ensureBrokerCredentials r run tpl =
     (let reqs = rq_Credentials (hts_Requires (rt_Spec tpl)) in
      if reqs = [] then bnd (deleteBrokerCredsSecret run) (\<lambda>_. ret (CredsReady [] []))
      else case rc_BrokerClient r of
        None \<Rightarrow> ret (CredsFatal ''BrokerNotConfigured''
                 ''controller has no --broker-endpoint configured; runs against templates with spec.requires cannot proceed'')
      | Some b \<Rightarrow>
          (let sorted = sort_key cr_Name reqs in
           bnd (cachedBrokerCredentials r run sorted) (\<lambda>cached. case cached of
             Some (cs, ls) \<Rightarrow> ret (CredsReady cs ls)
           | None \<Rightarrow>
               bnd (issueLoop b run sorted []) (\<lambda>res. case res of
                 Inl stop \<Rightarrow> ret stop
               | Inr rs \<Rightarrow>
                   bnd (upsert ''upserting broker-creds secret'' (creds_key run) (credsSecret run (issuedData rs))) (\<lambda>_.
                   bnd (EmitCredentialIssuedSummary (rc_Audit r) (hr_Name run) (hr_Namespace run) (length rs)) (\<lambda>_.
                   ret (CredsReady (map (\<lambda>(n, x). statusOf n x) rs) (map (\<lambda>(n, x). leaseOf n x) rs))))))))"

section \<open>Certificates\<close>

definition isCertificatePermanentlyFailed :: "Certificate \<Rightarrow> error_msg option" where
  "isCertificatePermanentlyFailed cert =
     (case find (\<lambda>c. cec_Reason c = ''Failed'' \<and> cec_Type c \<in> {''Issuing'', ''Ready''}) (cert_Conditions cert) of
        Some c \<Rightarrow> Some (''Conditions['' @ cec_Type c @ ''].Reason=Failed message='' @ cec_Message c)
      | None \<Rightarrow>
          (case cert_FailedIssuanceAttempts cert of
             Some n \<Rightarrow> if n \<ge> 5 then Some (''FailedIssuanceAttempts='' @ fmt_d n) else None
           | None \<Rightarrow> None))"

definition proxyTLSSecretName :: "string \<Rightarrow> string" where "proxyTLSSecretName runName = runName @ ''-proxy-tls''"
definition hour :: duration where "hour = 60 * minute"
definition proxyCertDurationRun :: duration where "proxyCertDurationRun = 48 * hour"
definition proxyCertDurationWorkspace :: duration where "proxyCertDurationWorkspace = 8760 * hour"
definition proxyCertRenewBeforeWorkspace :: duration where "proxyCertRenewBeforeWorkspace = 720 * hour"

definition certMutation ::
  "owner \<Rightarrow> string \<Rightarrow> string \<Rightarrow> string \<Rightarrow> duration \<Rightarrow> duration \<Rightarrow> labels \<Rightarrow> object option \<Rightarrow> ctl_error + object" where
  "certMutation own secretName commonName clusterIssuer dur renewBefore lbls old =
     (let cert = (case old of
                    Some x \<Rightarrow> the_cert x
                  | None \<Rightarrow> \<lparr> cert_Labels = lbls, cert_Controller = None, cert_IsCA = False, cert_CommonName = [], cert_SecretName = [],
                      cert_Duration = None, cert_RenewBefore = None, cert_PrivateKey = None, cert_Usages = [],
                      cert_IssuerRef = ([], []), cert_Conditions = [], cert_FailedIssuanceAttempts = None \<rparr>)
      in case setController own (cert_Controller cert) of
           Inl e \<Rightarrow> Inl e
         | Inr ow \<Rightarrow>
             Inr (OCertificate (cert\<lparr> cert_Controller := ow, cert_IsCA := True, cert_CommonName := commonName,
               cert_SecretName := secretName, cert_Duration := Some dur,
               cert_RenewBefore := (if renewBefore > 0 then Some renewBefore else None),
               cert_PrivateKey := Some (''ECDSA'', 256),
               cert_Usages := [''digital signature'', ''key encipherment'', ''cert sign''],
               cert_IssuerRef := (''ClusterIssuer'', clusterIssuer) \<rparr>)))"

text \<open>Whether the certificate was created, and whether it is ready.\<close>

definition ensureProxyCACertificate ::
  "owner \<Rightarrow> string \<Rightarrow> string \<Rightarrow> string \<Rightarrow> string \<Rightarrow> duration \<Rightarrow> duration \<Rightarrow> labels \<Rightarrow> ('s, bool \<times> bool) op" where
  "ensureProxyCACertificate own ns secretName commonName clusterIssuer dur renewBefore lbls =
     (let k = (KCertificate, ns, secretName) in
      bnd (upsert (''upserting Certificate '' @ ns @ ''/'' @ secretName) k
             (certMutation own secretName commonName clusterIssuer dur renewBefore lbls)) (\<lambda>res.
      bnd (attempt (apiGet k)) (\<lambda>g. case g of
        Inl e \<Rightarrow> throw (wrap (''re-reading Certificate '' @ ns @ ''/'' @ secretName) e)
      | Inr x \<Rightarrow>
          (case isCertificatePermanentlyFailed (the_cert x) of
             Some reason \<Rightarrow> throw (ProxyCertPermanentFailure reason)
           | None \<Rightarrow> ret (res = OpCreated,
                          \<exists>cd \<in> set (cert_Conditions (the_cert x)). cec_Type cd = ''Ready'' \<and> cec_Status cd = ConditionTrue)))))"

definition ownLabels :: "string \<Rightarrow> HarnessRun \<Rightarrow> labels" where
  "ownLabels part run = [(''app.kubernetes.io/name'', ''paddock''), (''app.kubernetes.io/component'', part), (''paddock.dev/run'', hr_Name run)]"

definition ensureProxyTLS :: "'s reconciler \<Rightarrow> HarnessRun \<Rightarrow> ('s, bool) op" where
  "ensureProxyTLS r run =
     (if pbc_ProxyCAClusterIssuer (rc_cfg r) = [] then ret False
      else bnd (ensureProxyCACertificate (run_owner run) (hr_Namespace run) (proxyTLSSecretName (hr_Name run))
                  (''paddock-proxy-'' @ hr_Name run) (pbc_ProxyCAClusterIssuer (rc_cfg r)) proxyCertDurationRun 0
                  (ownLabels ''harnessrun-proxy-tls'' run)) (\<lambda>(created, ready).
           if created
           then bnd (EmitCAProjected (rc_Audit r) (hr_Name run) (hr_Namespace run) (proxyTLSSecretName (hr_Name run))) (\<lambda>_. ret ready)
           else ret ready))"

section \<open>The broker's CA\<close>

definition brokerCASecretName :: "string \<Rightarrow> string" where "brokerCASecretName runName = runName @ ''-broker-ca''"

definition caOf :: "object \<Rightarrow> string" where
  "caOf x = (case map_of (own_Body (the_secret x)) brokerCAKey of Some v \<Rightarrow> v | None \<Rightarrow> [])"

definition copyCAToSecret :: "owner \<Rightarrow> BrokerCASource \<Rightarrow> string \<Rightarrow> string \<Rightarrow> labels \<Rightarrow> ('s, bool) op" where
  "copyCAToSecret own src dstName dstNamespace lbls =
     bnd (attempt (apiGet (KSecret, bca_Namespace src, bca_Name src))) (\<lambda>g. case g of
       Inl e \<Rightarrow> if is_NotFound e then ret False
                else throw (wrap (''reading CA source Secret '' @ bca_Namespace src @ ''/'' @ bca_Name src) e)
     | Inr x \<Rightarrow>
         if caOf x = [] then ret False
         else bnd (upsert (''upserting '' @ dstNamespace @ ''/'' @ dstName) (KSecret, dstNamespace, dstName)
                     (ownBody own lbls OSecret the_secret [(brokerCAKey, caOf x)])) (\<lambda>res. ret (res = OpCreated)))"

definition brokerProxyConfigured :: "ProxyBrokerConfig \<Rightarrow> bool" where
  "brokerProxyConfigured c = (pbc_BrokerEndpoint c \<noteq> [] \<and> bca_Name (pbc_BrokerCASource c) \<noteq> [] \<and> pbc_ProxyImage c \<noteq> [])"

text \<open>What the paths of runs and seeds share; \<open>created\<close> is what happens when the copy is new.\<close>

definition projectBrokerCA :: "owner \<Rightarrow> BrokerCASource \<Rightarrow> string \<Rightarrow> string \<Rightarrow> labels \<Rightarrow> ('s, unit) op \<Rightarrow> ('s, bool) op" where
  "projectBrokerCA own src dstName ns lbls created =
     bnd (attempt (apiGet (KSecret, bca_Namespace src, bca_Name src))) (\<lambda>g. case g of
       Inl e \<Rightarrow> if is_NotFound e then ret False
                else throw (wrap (''reading source broker-CA Secret '' @ bca_Namespace src @ ''/'' @ bca_Name src) e)
     | Inr x \<Rightarrow>
         if caOf x = [] then throw SourceCAMisconfigured
         else bnd (copyCAToSecret own src dstName ns lbls) (\<lambda>new.
           if new then bnd created (\<lambda>_. ret True)
           else bnd (attempt (apiGet (KSecret, ns, dstName))) (\<lambda>g. case g of
             Inl e \<Rightarrow> if is_NotFound e then ret False
                      else throw (wrap (''re-reading broker-ca destination Secret '' @ ns @ ''/'' @ dstName) e)
           | Inr y \<Rightarrow> ret (caOf y \<noteq> []))))"

definition ensureBrokerCA :: "'s reconciler \<Rightarrow> HarnessRun \<Rightarrow> ('s, bool) op" where
  "ensureBrokerCA r run =
     (if \<not> brokerProxyConfigured (rc_cfg r) then ret True
      else projectBrokerCA (run_owner run) (pbc_BrokerCASource (rc_cfg r)) (brokerCASecretName (hr_Name run)) (hr_Namespace run)
             (ownLabels ''harnessrun-broker-ca'' run)
             (EmitCAProjected (rc_Audit r) (hr_Name run) (hr_Namespace run) (brokerCASecretName (hr_Name run))))"

section \<open>Network policy\<close>

definition npMutation :: "owner \<Rightarrow> NetworkPolicy \<Rightarrow> object option \<Rightarrow> ctl_error + object" where
  "npMutation own desired old =
     (case setController own (case old of Some x \<Rightarrow> np_Controller (the_np x) | None \<Rightarrow> None) of
        Inl e \<Rightarrow> Inl e
      | Inr ow \<Rightarrow> Inr (ONetworkPolicy (desired\<lparr> np_Controller := ow \<rparr>)))"

definition cnpMutation :: "owner \<Rightarrow> CiliumNetworkPolicy \<Rightarrow> object option \<Rightarrow> ctl_error + object" where
  "cnpMutation own desired old =
     (case setController own (case old of Some x \<Rightarrow> cnp_Controller (the_cnp x) | None \<Rightarrow> None) of
        Inl e \<Rightarrow> Inl e
      | Inr ow \<Rightarrow> Inr (OCilium (desired\<lparr> cnp_Controller := ow \<rparr>)))"

definition np_key :: "HarnessRun \<Rightarrow> okey" where
  "np_key run = (KNetworkPolicy, hr_Namespace run, runNetworkPolicyName (hr_Name run))"

definition cnp_key :: "HarnessRun \<Rightarrow> okey" where
  "cnp_key run = (KCiliumNetworkPolicy, hr_Namespace run, runNetworkPolicyName (hr_Name run))"

definition withdrawn :: "'s reconciler \<Rightarrow> HarnessRun \<Rightarrow> string \<Rightarrow> OperationResult \<Rightarrow> ('s, unit) op" where
  "withdrawn r run what res =
     (if res = OpCreated \<and> hrt_ObservedGeneration (hr_Status run) > 0
      then EmitNetworkPolicyEnforcementWithdrawn (rc_Audit r) (hr_Name run) (hr_Namespace run)
             (''per-run '' @ what @ '' '' @ runNetworkPolicyName (hr_Name run) @ '' was missing on reconcile; re-created'')
      else ret ())"

definition ensureRunCiliumNetworkPolicy :: "'s reconciler \<Rightarrow> HarnessRun \<Rightarrow> networkPolicyConfig \<Rightarrow> ('s, unit) op" where
  "ensureRunCiliumNetworkPolicy r run cfg =
     bnd (upsert ''upserting run CiliumNetworkPolicy'' (cnp_key run) (cnpMutation (run_owner run) (buildRunCiliumNetworkPolicy run cfg)))
       (withdrawn r run ''CiliumNetworkPolicy'')"

definition ensureRunNetworkPolicy :: "'s reconciler \<Rightarrow> HarnessRun \<Rightarrow> ('s, unit) op" where
  "ensureRunNetworkPolicy r run =
     (if hrt_NetworkPolicyEnforced (hr_Status run) \<noteq> Some True then ret ()
      else if pbc_CiliumCNPAvailable (rc_cfg r) then ensureRunCiliumNetworkPolicy r run (policyConfig (rc_cfg r))
      else bnd (upsert ''upserting run NetworkPolicy'' (np_key run)
                  (npMutation (run_owner run) (buildRunNetworkPolicy run (policyConfig (rc_cfg r)))))
             (withdrawn r run ''NetworkPolicy''))"

definition deleteIfPresent :: "okey \<Rightarrow> ('s, unit) op" where
  "deleteIfPresent k =
     bnd (attempt (apiGet k)) (\<lambda>g. case g of
       Inr _ \<Rightarrow> bnd (attempt (apiDelete k)) (\<lambda>d. case d of
                  Inl e \<Rightarrow> if is_NotFound e then ret () else throw e
                | Inr _ \<Rightarrow> ret ())
     | Inl e \<Rightarrow> if is_NotFound e then ret () else throw e)"

definition deleteRunNetworkPolicy :: "'s reconciler \<Rightarrow> HarnessRun \<Rightarrow> ('s, unit) op" where
  "deleteRunNetworkPolicy r run =
     bnd (deleteIfPresent (np_key run)) (\<lambda>_.
       if pbc_CiliumCNPAvailable (rc_cfg r) then deleteIfPresent (cnp_key run) else ret ())"

end
