(* ===== verification/Controller_Run.thy ===== *)
theory Controller_Run
  imports Controller_Creds
begin

text \<open>
  The reconciler of runs: \<open>harnessrun_controller.go\<close> and \<open>interactive_watchdog.go\<close>. \<open>Reconcile\<close> is one
  operation on the cluster; it is split where the code numbers its steps, each part calling the next, so
  that every early return is a branch. The run is a local copy that the steps change and \<open>commitStatus\<close>
  writes. Metrics are left out.
\<close>

datatype Result = Done | Requeue | RequeueAfter duration

section \<open>Watchdog\<close>

datatype watchdogAction = WatchdogNone | WatchdogCancelIdle | WatchdogCancelDetach | WatchdogCancelMaxLifetime

definition wd_Reason :: "watchdogAction \<Rightarrow> string" where
  "wd_Reason a =
     (case a of WatchdogCancelIdle \<Rightarrow> ''idle'' | WatchdogCancelDetach \<Rightarrow> ''detach''
      | WatchdogCancelMaxLifetime \<Rightarrow> ''max-lifetime'' | WatchdogNone \<Rightarrow> [])"

definition wd_ConditionReason :: "watchdogAction \<Rightarrow> string" where
  "wd_ConditionReason a =
     (case a of WatchdogCancelIdle \<Rightarrow> ''InteractiveTerminatedIdle'' | WatchdogCancelDetach \<Rightarrow> ''InteractiveTerminatedDetach''
      | WatchdogCancelMaxLifetime \<Rightarrow> ''InteractiveTerminatedMaxLifetime'' | WatchdogNone \<Rightarrow> [])"

definition wd_bound :: "duration option \<Rightarrow> duration \<Rightarrow> duration" where
  "wd_bound d fallback = (case d of None \<Rightarrow> fallback | Some x \<Rightarrow> if x \<le> 0 then fallback else x)"

text \<open>The value of a timeout: the override, the template's value, the default; each counts when positive.\<close>

definition wd_timeout ::
  "HarnessRun \<Rightarrow> InteractiveSpec \<Rightarrow> (InteractiveOverrides \<Rightarrow> duration option) \<Rightarrow> (InteractiveSpec \<Rightarrow> duration option) \<Rightarrow> duration \<Rightarrow> duration" where
  "wd_timeout run spec ov tp def =
     (let base = wd_bound (tp spec) def
      in case hrs_InteractiveOverrides (hr_Spec run) of None \<Rightarrow> base | Some o' \<Rightarrow> wd_bound (ov o') base)"

definition zeroInteractive :: InteractiveStatus where
  "zeroInteractive =
     \<lparr> ist_PromptCount = 0, ist_LastPromptAt = None, ist_AttachedSessions = 0, ist_LastAttachedAt = None, ist_IdleSince = None,
       ist_CurrentTurnSeq = None, ist_RenewalCount = 0, ist_LastRenewalAt = None \<rparr>"

definition nextDeadline :: "time \<Rightarrow> HarnessRun \<Rightarrow> resolvedTemplate \<Rightarrow> watchdogAction \<times> duration" where
  "nextDeadline now run tpl =
     (if hr_Mode run \<noteq> HarnessRunModeInteractive then (WatchdogNone, 0)
      else case hts_Interactive (rt_Spec tpl) of
        None \<Rightarrow> (WatchdogNone, 0)
      | Some spec \<Rightarrow>
          (let istat = (case hr_Interactive run of Some s \<Rightarrow> s | None \<Rightarrow> zeroInteractive);
               idleTimeout = wd_timeout run spec io_IdleTimeout ints_IdleTimeout (30 * minute);
               detachIdleTimeout = wd_timeout run spec io_DetachIdleTimeout ints_DetachIdleTimeout (15 * minute);
               detachTimeout = wd_timeout run spec io_DetachTimeout ints_DetachTimeout (5 * minute);
               maxLifetime = wd_timeout run spec io_MaxLifetime ints_MaxLifetime (24 * hour);
               effIdle = (if ist_AttachedSessions istat = 0 then detachIdleTimeout else idleTimeout);
               idle = map_option (\<lambda>t. effIdle - (now - t)) (ist_IdleSince istat);
               detach = (if ist_AttachedSessions istat = 0
                         then map_option (\<lambda>t. detachTimeout - (now - t)) (ist_LastAttachedAt istat) else None);
               lifetime = maxLifetime - (now - hr_CreationTimestamp run)
           in if (case idle of Some left \<Rightarrow> left \<le> 0 | None \<Rightarrow> False) then (WatchdogCancelIdle, 0)
              else if (case detach of Some left \<Rightarrow> left \<le> 0 | None \<Rightarrow> False) then (WatchdogCancelDetach, 0)
              else if lifetime \<le> 0 then (WatchdogCancelMaxLifetime, 0)
              else (let candidates = (case idle of Some d \<Rightarrow> [d] | None \<Rightarrow> []) @ (case detach of Some d \<Rightarrow> [d] | None \<Rightarrow> []) @ [lifetime];
                        smallest = foldl min (hd candidates) candidates
                    in (WatchdogNone, if smallest < second then second else smallest))))"

section \<open>Status\<close>

definition HarnessRunFinalizer :: string where "HarnessRunFinalizer = ''paddock.dev/harnessrun-finalizer''"
definition BrokerLeasesFinalizer :: string where "BrokerLeasesFinalizer = ''paddock.dev/broker-leases-finalizer''"

definition isTerminal :: "HarnessRunPhase \<Rightarrow> bool" where
  "isTerminal p \<longleftrightarrow> p \<in> {PhaseSucceeded, PhaseFailed, PhaseCancelled}"

definition onStatus :: "(HarnessRunStatus \<Rightarrow> HarnessRunStatus) \<Rightarrow> HarnessRun \<Rightarrow> HarnessRun" where
  "onStatus f run = run\<lparr> hr_Status := f (hr_Status run) \<rparr>"

definition setCond :: "time \<Rightarrow> string \<Rightarrow> ConditionStatus \<Rightarrow> string \<Rightarrow> string \<Rightarrow> HarnessRun \<Rightarrow> HarnessRun" where
  "setCond now t s reason msg run =
     onStatus (\<lambda>st. st\<lparr> hrt_Conditions := setCondition now (hrt_Conditions st) (mkCond t s reason msg (hr_Generation run)) \<rparr>) run"

definition setPhase :: "HarnessRunPhase \<Rightarrow> HarnessRun \<Rightarrow> HarnessRun" where
  "setPhase p = onStatus (\<lambda>st. st\<lparr> hrt_Phase := p \<rparr>)"

definition completed :: "time \<Rightarrow> HarnessRun \<Rightarrow> HarnessRun" where
  "completed now =
     onStatus (\<lambda>st. st\<lparr> hrt_CompletionTime := (case hrt_CompletionTime st of None \<Rightarrow> Some now | Some t \<Rightarrow> Some t) \<rparr>)"

definition failRun :: "time \<Rightarrow> string \<Rightarrow> string \<Rightarrow> string \<Rightarrow> HarnessRun \<Rightarrow> HarnessRun" where
  "failRun now condType reason message run =
     setCond now ''Completed'' ConditionTrue reason message
       (setCond now condType ConditionFalse reason message (completed now (setPhase PhaseFailed run)))"

definition failureReasonFromConditions :: "HarnessRun \<Rightarrow> string \<times> string" where
  "failureReasonFromConditions run =
     (case find (\<lambda>c. cond_Type c = ''Completed'' \<and> cond_Status c = ConditionTrue) (hrt_Conditions (hr_Status run)) of
        Some c \<Rightarrow> (cond_Reason c, cond_Message c)
      | None \<Rightarrow> (''Unknown'', []))"

definition emitTerminalAudit :: "'s reconciler \<Rightarrow> HarnessRun \<Rightarrow> ('s, unit) op" where
  "emitTerminalAudit r run =
     (if hr_Phase run = PhaseFailed then
        (case failureReasonFromConditions run of (reason, message) \<Rightarrow>
           bnd (EmitRunFailed (rc_Audit r) (hr_Name run) (hr_Namespace run) reason message) (\<lambda>_.
           EmitRunCompleted (rc_Audit r) (hr_Name run) (hr_Namespace run) AuditDecisionDenied reason))
      else if hr_Phase run = PhaseSucceeded then
        EmitRunCompleted (rc_Audit r) (hr_Name run) (hr_Namespace run) AuditDecisionGranted ''Succeeded''
      else if hr_Phase run = PhaseCancelled then
        EmitRunCompleted (rc_Audit r) (hr_Name run) (hr_Namespace run) AuditDecisionWarned ''Cancelled''
      else ret ())"

definition commitStatus :: "'s reconciler \<Rightarrow> HarnessRun \<Rightarrow> HarnessRunStatus \<Rightarrow> ('s, Result) op" where
  "commitStatus r run orig =
     (if orig = hr_Status run then ret Done
      else bnd (if \<not> isTerminal (hrt_Phase orig) \<and> isTerminal (hr_Phase run) then emitTerminalAudit r run else ret ()) (\<lambda>_.
           bnd (attempt (updateRunStatus run)) (\<lambda>u. case u of
             Inl e \<Rightarrow> if is_Conflict e then ret Requeue else throw e
           | Inr _ \<Rightarrow> ret Done)))"

definition commitThen :: "'s reconciler \<Rightarrow> HarnessRun \<Rightarrow> HarnessRunStatus \<Rightarrow> Result \<Rightarrow> ('s, Result) op" where
  "commitThen r run orig res = bnd (commitStatus r run orig) (\<lambda>_. ret res)"

definition pinNetworkPolicyEnforced :: "'s reconciler \<Rightarrow> HarnessRun \<Rightarrow> HarnessRun" where
  "pinNetworkPolicyEnforced r =
     onStatus (\<lambda>st. case hrt_NetworkPolicyEnforced st of
       Some _ \<Rightarrow> st | None \<Rightarrow> st\<lparr> hrt_NetworkPolicyEnforced := Some (networkPolicyEnforced (rc_cfg r)) \<rparr>)"

section \<open>Workspace\<close>

definition ephemeralWorkspace :: "HarnessRun \<Rightarrow> Workspace" where
  "ephemeralWorkspace run =
     \<lparr> ws_Name = ephemeralWSName run, ws_Namespace = hr_Namespace run,
       ws_Labels = [(''app.kubernetes.io/name'', ''paddock''), (''app.kubernetes.io/component'', ''workspace''),
                    (''paddock.dev/ephemeral'', ''true''), (''paddock.dev/run'', hr_Name run)],
       ws_ResourceVersion = 1, ws_Generation = 1, ws_DeletionTimestamp = None, ws_Finalizers = [], ws_Controller = Some (run_owner run),
       ws_Spec = \<lparr> wsp_Storage = \<lparr> wst_Size = 1073741824, wst_StorageClass = [], wst_AccessMode = ''ReadWriteOnce'' \<rparr>,
                   wsp_Seed = None, wsp_Ephemeral = True \<rparr>,
       ws_Status = \<lparr> wss_ObservedGeneration = 0, wss_Phase = WorkspacePhaseUnset, wss_PVCName = [], wss_SeedJobName = [],
                     wss_ActiveRunRef = [], wss_TotalRuns = 0, wss_LastCountedRun = [], wss_LastActivity = None, wss_Conditions = [] \<rparr> \<rparr>"

definition ensureWorkspace :: "HarnessRun \<Rightarrow> resolvedTemplate \<Rightarrow> ('s, Workspace option) op" where
  "ensureWorkspace run tpl =
     (if hrs_WorkspaceRef (hr_Spec run) \<noteq> []
      then bnd (apiGet (KWorkspace, hr_Namespace run, hrs_WorkspaceRef (hr_Spec run))) (\<lambda>x. ret (Some (the_workspace x)))
      else if \<not> wr_Required (hts_Workspace (rt_Spec tpl)) then ret None
      else (let desired = ephemeralWorkspace run in
            bnd (attempt (apiGet (ws_key desired))) (\<lambda>g. case g of
              Inl e \<Rightarrow> if is_NotFound e
                       then bnd (apiCreate (ws_key desired) (OWorkspace desired)) (\<lambda>_.
                            bnd (emit (Event ''EphemeralWorkspaceCreated'' (''Provisioned ephemeral workspace '' @ ws_Name desired)))
                              (\<lambda>_. ret (Some desired)))
                       else throw e
            | Inr x \<Rightarrow> ret (Some (the_workspace x)))))"

definition onWs :: "(WorkspaceStatus \<Rightarrow> WorkspaceStatus) \<Rightarrow> Workspace \<Rightarrow> Workspace" where
  "onWs f ws = ws\<lparr> ws_Status := f (ws_Status ws) \<rparr>"

definition bindUpdate :: "time \<Rightarrow> string \<Rightarrow> Workspace \<Rightarrow> Workspace" where
  "bindUpdate now runName =
     onWs (\<lambda>st. (if wss_LastCountedRun st \<noteq> runName
                then st\<lparr> wss_TotalRuns := int32 (wss_TotalRuns st + 1), wss_LastCountedRun := runName \<rparr> else st)
               \<lparr> wss_ActiveRunRef := runName, wss_LastActivity := Some now \<rparr>)"

text \<open>Whether the run holds the workspace, and the local copy afterwards.\<close>

definition bindWorkspace :: "Workspace \<Rightarrow> HarnessRun \<Rightarrow> ('s, bool \<times> Workspace) op" where
  "bindWorkspace ws run =
     (if wss_ActiveRunRef (ws_Status ws) = hr_Name run then ret (True, ws)
      else if wss_ActiveRunRef (ws_Status ws) \<noteq> [] then ret (False, ws)
      else bnd getNow (\<lambda>now. let ws' = bindUpdate now (hr_Name run) ws in
           bnd (attempt (updateWorkspaceStatus ws')) (\<lambda>u. case u of
             Inl e \<Rightarrow> if is_Conflict e then ret (False, ws') else throw e
           | Inr new \<Rightarrow> ret (True, new))))"

text \<open>The release of a binding, on the copy that \<open>clearWorkspaceBinding\<close> reads.\<close>

definition clearFresh :: "Workspace \<Rightarrow> string \<Rightarrow> ('s, unit) op" where
  "clearFresh ws runName =
     (if wss_ActiveRunRef (ws_Status ws) \<noteq> runName then ret ()
      else bnd getNow (\<lambda>now.
           bnd (attempt (updateWorkspaceStatus
                  (onWs (\<lambda>st. st\<lparr> wss_ActiveRunRef := [], wss_LastActivity := Some now \<rparr>) ws))) (\<lambda>u. case u of
             Inl e \<Rightarrow> if is_Conflict e then ret () else throw e
           | Inr _ \<Rightarrow> ret ())))"

definition clearWorkspaceBinding :: "Workspace \<Rightarrow> string \<Rightarrow> ('s, unit) op" where
  "clearWorkspaceBinding ws runName =
     (if wss_ActiveRunRef (ws_Status ws) \<noteq> runName then ret ()
      else bnd (attempt (apiGet (ws_key ws))) (\<lambda>g. case g of
        Inl e \<Rightarrow> if is_NotFound e then ret () else throw e
      | Inr x \<Rightarrow> clearFresh (the_workspace x) runName))"

section \<open>Prompt and output\<close>

definition resolvePrompt :: "HarnessRun \<Rightarrow> ('s, string) op" where
  "resolvePrompt run =
     (if hrs_Prompt (hr_Spec run) \<noteq> [] then ret (hrs_Prompt (hr_Spec run))
      else case hrs_PromptFrom (hr_Spec run) of
        None \<Rightarrow> throw (PlainError ''neither spec.prompt nor spec.promptFrom is set (webhook should have caught this)'')
      | Some pf \<Rightarrow>
          (case ps_ConfigMapKeyRef pf of
             Some ref \<Rightarrow>
               bnd (attempt (apiGet (KConfigMap, hr_Namespace run, ks_Name ref))) (\<lambda>g. case g of
                 Inl e \<Rightarrow> if is_NotFound e then throw (PromptSourceNotFound (''ConfigMap '' @ fmt_q (ks_Name ref))) else throw e
               | Inr x \<Rightarrow> (case map_of (own_Body (the_configmap x)) (ks_Key ref) of
                            None \<Rightarrow> throw (PromptKeyMissing (''ConfigMap '' @ ks_Name ref @ '' key '' @ fmt_q (ks_Key ref)))
                          | Some v \<Rightarrow> ret v))
           | None \<Rightarrow>
               (case ps_SecretKeyRef pf of
                  Some ref \<Rightarrow>
                    bnd (attempt (apiGet (KSecret, hr_Namespace run, ks_Name ref))) (\<lambda>g. case g of
                      Inl e \<Rightarrow> if is_NotFound e then throw (PromptSourceNotFound (''Secret '' @ fmt_q (ks_Name ref))) else throw e
                    | Inr x \<Rightarrow> (case map_of (own_Body (the_secret x)) (ks_Key ref) of
                                 None \<Rightarrow> throw (PromptKeyMissing (''Secret '' @ ks_Name ref @ '' key '' @ fmt_q (ks_Key ref)))
                               | Some v \<Rightarrow> ret v))
                | None \<Rightarrow> throw (PlainError ''spec.promptFrom has no source set''))))"

definition prompt_key :: "HarnessRun \<Rightarrow> okey" where
  "prompt_key run = (KSecret, hr_Namespace run, promptSecretName run)"

definition ensurePromptSecret :: "HarnessRun \<Rightarrow> ('s, unit) op" where
  "ensurePromptSecret run =
     bnd (resolvePrompt run) (\<lambda>prompt.
     let desired = \<lparr> own_Labels = ownLabels ''harnessrun-prompt'' run, own_Controller = Some (run_owner run),
                     own_Body = [(promptFileName, prompt)] \<rparr> in
     bnd (attempt (apiGet (prompt_key run))) (\<lambda>g. case g of
       Inl e \<Rightarrow> if is_NotFound e then apiCreate (prompt_key run) (OSecret desired) else throw e
     | Inr x \<Rightarrow>
         if own_Body (the_secret x) = own_Body desired then ret ()
         else bnd (attempt (apiUpdate (prompt_key run) (OSecret ((the_secret x)\<lparr> own_Body := own_Body desired \<rparr>)))) (\<lambda>u. case u of
                Inl e \<Rightarrow> if is_Conflict e then ret () else throw e
              | Inr _ \<Rightarrow> ret ())))"

definition createIfMissing :: "okey \<Rightarrow> object \<Rightarrow> ('s, unit) op" where
  "createIfMissing k x =
     bnd (attempt (apiGet k)) (\<lambda>g. case g of
       Inr _ \<Rightarrow> ret ()
     | Inl e \<Rightarrow> if is_NotFound e then apiCreate k x else throw e)"

definition out_key :: "HarnessRun \<Rightarrow> okey" where
  "out_key run = (KConfigMap, hr_Namespace run, outputCMName run)"

definition ensureOutputConfigMap :: "HarnessRun \<Rightarrow> ('s, unit) op" where
  "ensureOutputConfigMap run =
     createIfMissing (out_key run)
       (OConfigMap \<lparr> own_Labels = ownLabels ''harnessrun-output'' run, own_Controller = Some (run_owner run), own_Body = [] \<rparr>)"

definition collectorRules :: "HarnessRun \<Rightarrow> PolicyRule list" where
  "collectorRules run =
     [\<lparr> prl_APIGroups = [[]], prl_Resources = [''configmaps''], prl_ResourceNames = [outputCMName run], prl_Verbs = [''get'', ''update'', ''patch''] \<rparr>,
      \<lparr> prl_APIGroups = [''paddock.dev''], prl_Resources = [''auditevents''], prl_ResourceNames = [], prl_Verbs = [''create''] \<rparr>]"

definition ensureCollectorRBAC :: "HarnessRun \<Rightarrow> ('s, unit) op" where
  "ensureCollectorRBAC run =
     (let saName = collectorSAName run; ns = hr_Namespace run; lbls = ownLabels ''collector'' run; own = Some (run_owner run);
          sub = (\<lambda>what m. bnd (attempt m) (\<lambda>x. case x of Inl e \<Rightarrow> throw (wrap what e) | Inr _ \<Rightarrow> ret ()))
      in bnd (sub ''serviceaccount'' (createIfMissing (KServiceAccount, ns, saName)
                (OServiceAccount \<lparr> own_Labels = lbls, own_Controller = own, own_Body = () \<rparr>))) (\<lambda>_.
         bnd (upsert ''role'' (KRole, ns, saName) (ownBody (run_owner run) lbls ORole the_role (collectorRules run))) (\<lambda>_.
         sub ''rolebinding'' (createIfMissing (KRoleBinding, ns, saName)
           (ORoleBinding \<lparr> own_Labels = lbls, own_Controller = own,
              own_Body = \<lparr> rbb_Subjects = [(''ServiceAccount'', saName, ns)], rbb_RoleRef = (''rbac.authorization.k8s.io'', ''Role'', saName) \<rparr> \<rparr>)))))"

text \<open>A line of a mebibyte or more stops the scanner with an error.\<close>

definition parseEventsJSONL :: "(string \<Rightarrow> PaddockEvent option) \<Rightarrow> string \<Rightarrow> int \<Rightarrow> PaddockEvent list option" where
  "parseEventsJSONL unmarshal data cap =
     (let lines = SplitByte data (CHR 0x0A) in
      if \<exists>l \<in> set lines. length l \<ge> 1048576 then None
      else (let evs = List.map_filter (\<lambda>l. if TrimSpace l = [] then None else unmarshal (TrimSpace l)) lines
            in Some (if cap > 0 \<and> int (length evs) > cap then drop (length evs - nat cap) evs else evs)))"

definition ingestOutputConfigMap :: "'s reconciler \<Rightarrow> HarnessRun \<Rightarrow> ('s, HarnessRun) op" where
  "ingestOutputConfigMap r run =
     bnd (attempt (apiGet (out_key run))) (\<lambda>g. case g of
       Inl e \<Rightarrow> if is_NotFound e then ret run else throw e
     | Inr x \<Rightarrow>
         (let data = own_Body (the_configmap x);
              run1 = (case map_of data ''events.jsonl'' of
                        Some d \<Rightarrow> if d = [] then run
                                  else (case parseEventsJSONL (rc_parseEvent r) d (rc_RingMaxEvents r) of
                                          None \<Rightarrow> run | Some evs \<Rightarrow> onStatus (\<lambda>st. st\<lparr> hrt_RecentEvents := evs \<rparr>) run)
                      | None \<Rightarrow> run);
              run2 = (case map_of data ''result.json'' of
                        Some d \<Rightarrow> if d = [] then run1
                                  else (case rc_parseOutputs r d of
                                          None \<Rightarrow> run1 | Some out \<Rightarrow> onStatus (\<lambda>st. st\<lparr> hrt_Outputs := Some out \<rparr>) run1)
                      | None \<Rightarrow> run1)
          in ret run2))"

section \<open>Credentials\<close>

datatype credentialsOutcome = CredProceed | CredRequeue | CredFail string string

definition in60 :: "string \<Rightarrow> string" where
  "in60 reason = (if length reason > 60 then take 60 reason @ ''...'' else reason)"

definition credentialEvent :: "CredentialStatus \<Rightarrow> effect list" where
  "credentialEvent c =
     (if cs_DeliveryMode c = ''ProxyInjected''
      then [Event ''CredentialIssued'' (''name='' @ cs_Name c @ '' mode=ProxyInjected provider='' @ cs_Provider c)]
      else if cs_DeliveryMode c = ''InContainer''
      then [Event ''InContainerCredentialDelivered'' (''name='' @ cs_Name c @ '' reason='' @ fmt_q (in60 (cs_InContainerReason c)))]
      else [])"

fun emitAll :: "effect list \<Rightarrow> ('s, unit) op" where
  "emitAll [] = ret ()"
| "emitAll (e # es) = bnd (emit e) (\<lambda>_. emitAll es)"

definition issuedStatus :: "time \<Rightarrow> resolvedTemplate \<Rightarrow> CredentialStatus list \<Rightarrow> IssuedLease list \<Rightarrow> HarnessRun \<Rightarrow> HarnessRun" where
  "issuedStatus now tpl creds leases run =
     (let nProxy = length (filter (\<lambda>c. cs_DeliveryMode c = ''ProxyInjected'') creds);
          nIn = length (filter (\<lambda>c. cs_DeliveryMode c = ''InContainer'') creds);
          reqs = rq_Credentials (hts_Requires (rt_Spec tpl))
      in setCond now ''BrokerReady'' ConditionTrue ''Issued''
           (if reqs = [] then ''no broker credentials required'' else ''broker issued '' @ fmt_d (int (length reqs)) @ '' credential(s)'')
         (setCond now ''BrokerCredentialsReady'' ConditionTrue ''AllIssued''
           (fmt_d (int (length creds)) @ '' credentials issued: '' @ fmt_d (int nProxy) @ '' proxy-injected, '' @ fmt_d (int nIn) @ '' in-container'')
         (onStatus (\<lambda>st. st\<lparr> hrt_Credentials := creds,
              hrt_IssuedLeases := (if leases \<noteq> [] then leases else hrt_IssuedLeases st) \<rparr>) run)))"

definition reconcileCredentials :: "'s reconciler \<Rightarrow> HarnessRun \<Rightarrow> resolvedTemplate \<Rightarrow> ('s, credentialsOutcome \<times> HarnessRun) op" where
  "reconcileCredentials r run tpl =
     bnd getNow (\<lambda>now.
     bnd (ensureBrokerCredentials r run tpl) (\<lambda>out. case out of
       CredsFatal reason msg \<Rightarrow> ret (CredFail reason msg, run)
     | CredsTransient \<Rightarrow>
         ret (CredRequeue, setPhase PhasePending
                (setCond now ''BrokerReady'' ConditionFalse ''BrokerUnavailable'' ''waiting on broker to issue credentials'' run))
     | CredsReady creds leases \<Rightarrow>
         bnd (emitAll (concat (map credentialEvent creds))) (\<lambda>_. ret (CredProceed, issuedStatus now tpl creds leases run))))"

section \<open>Job\<close>

definition proxyConfigured :: "'s reconciler \<Rightarrow> bool" where
  "proxyConfigured r = (pbc_ProxyImage (rc_cfg r) \<noteq> [] \<and> pbc_ProxyCAClusterIssuer (rc_cfg r) \<noteq> [])"

definition jobPhase :: "Job \<Rightarrow> string" where
  "jobPhase job =
     (case find (\<lambda>c. jc_Status c = ConditionTrue \<and> jc_Type c \<in> {''Complete'', ''SuccessCriteriaMet'', ''Failed''}) (job_Conditions job) of
        Some c \<Rightarrow> if jc_Type c = ''Failed'' then ''Failed'' else ''Succeeded''
      | None \<Rightarrow> if job_Active job > 0 then ''Running'' else ''Pending'')"

definition resolveInterceptionMode :: "'s reconciler \<Rightarrow> HarnessRun \<Rightarrow> resolvedTemplate \<Rightarrow> ('s, InterceptionDecision) op" where
  "resolveInterceptionMode r run tpl =
     bnd getKube (\<lambda>c. case ListMatchingPolicies c (hr_Namespace run) (rt_SourceName tpl) of
       Inl e \<Rightarrow> throw (ApiErr e)
     | Inr matches \<Rightarrow>
         (case ResolveInterceptionMode c (hr_Namespace run) matches of
            Inl e \<Rightarrow> throw (PlainError e)
          | Inr decision \<Rightarrow>
              if \<not> id_Unavailable decision \<and> id_Mode decision = InterceptionModeTransparent \<and> rc_IPTablesInitImage r = []
              then ret \<lparr> id_Mode = InterceptionModeUnset, id_Unavailable = True,
                     id_Reason = ''controller-manager was started without --iptables-init-image; ''
                       @ ''transparent interception is unavailable in this cluster. Either ''
                       @ ''deploy the iptables-init image or set ''
                       @ ''spec.interception.cooperativeAccepted on the BrokerPolicy.'',
                     id_AcceptanceReason = [], id_MatchedPolicy = [] \<rparr>
              else ret decision))"

definition podInputs :: "'s reconciler \<Rightarrow> HarnessRun \<Rightarrow> resolvedTemplate \<Rightarrow> string \<Rightarrow> InterceptionDecision \<Rightarrow> podSpecInputs" where
  "podInputs r run tpl pvcName decision =
     (let on = proxyConfigured r; coop = on \<and> id_Mode decision = InterceptionModeCooperative;
          brk = on \<and> brokerProxyConfigured (rc_cfg r) in
      \<lparr> psi_workspacePVC = pvcName, psi_promptSecret = promptSecretName run, psi_outputConfigMap = outputCMName run,
        psi_serviceAccount = collectorSAName run,
        psi_brokerCredsSecret = (if rq_Credentials (hts_Requires (rt_Spec tpl)) \<noteq> [] then brokerCredsSecretName (hr_Name run) else []),
        psi_proxyImage = (if on then pbc_ProxyImage (rc_cfg r) else []),
        psi_proxyTLSSecret = (if on then proxyTLSSecretName (hr_Name run) else []),
        psi_proxyAllowList = (if on then rc_ProxyAllowList r else []),
        psi_interceptionMode = (if on then id_Mode decision else InterceptionModeUnset),
        psi_iptablesInitImage = (if on \<and> id_Mode decision = InterceptionModeTransparent then rc_IPTablesInitImage r else []),
        psi_homeInitImage = rc_HomeInitImage r,
        psi_brokerEndpoint = (if brk then pbc_BrokerEndpoint (rc_cfg r) else []),
        psi_brokerCASecret = (if brk then brokerCASecretName (hr_Name run) else []),
        psi_interceptionAcceptanceReason = (if coop then id_AcceptanceReason decision else []),
        psi_interceptionAcceptanceMatchedPolicy = (if coop then id_MatchedPolicy decision else []),
        psi_proxyDenyCIDR = (if on then proxyDeniedCIDRs (policyConfig (rc_cfg r)) else []) \<rparr>)"

definition job_key :: "HarnessRun \<Rightarrow> okey" where
  "job_key run = (KJob, hr_Namespace run, jobName run)"

definition ensureJob :: "'s reconciler \<Rightarrow> HarnessRun \<Rightarrow> resolvedTemplate \<Rightarrow> string \<Rightarrow> InterceptionDecision \<Rightarrow> ('s, Job) op" where
  "ensureJob r run tpl pvcName decision =
     (if proxyConfigured r \<and> id_Unavailable decision
      then throw (PlainError (''interception unavailable: '' @ id_Reason decision))
      else (let desired = (buildJob run tpl (hrt_WorkspaceRef (hr_Status run)) (podInputs r run tpl pvcName decision))
                            \<lparr> job_Controller := Some (run_owner run) \<rparr> in
            bnd (attempt (apiGet (job_key run))) (\<lambda>g. case g of
              Inl e \<Rightarrow> if is_NotFound e
                       then bnd (apiCreate (job_key run) (OJob desired)) (\<lambda>_.
                            bnd (emit (Event ''JobCreated'' (''Created Job '' @ job_Name desired))) (\<lambda>_. ret desired))
                       else throw e
            | Inr x \<Rightarrow> ret (the_job x))))"

text \<open>Step 7: the phase that the Job's state stands for, with the two conditions it sets.\<close>

definition translateJob :: "time \<Rightarrow> Job \<Rightarrow> HarnessRun \<Rightarrow> HarnessRunPhase \<times> HarnessRun" where
  "translateJob now job run =
     (let jp = jobPhase job;
          conds = (\<lambda>ready rReason compl dReason run.
             setCond now ''Completed'' compl dReason [] (setCond now ''PodReady'' ready rReason [] run))
      in if jp = ''Pending'' then (PhasePending, conds ConditionFalse ''Pending'' ConditionFalse ''InProgress'' run)
         else if jp = ''Running'' then
           (PhaseRunning, conds ConditionTrue ''Running'' ConditionFalse ''InProgress''
              (onStatus (\<lambda>st. st\<lparr> hrt_StartTime := (case hrt_StartTime st of None \<Rightarrow> Some now | Some t \<Rightarrow> Some t) \<rparr>) run))
         else if jp = ''Succeeded'' then (PhaseSucceeded, conds ConditionFalse ''Completed'' ConditionTrue ''Succeeded'' (completed now run))
         else (PhaseFailed, conds ConditionFalse ''Failed'' ConditionTrue ''Failed'' (completed now run)))"

text \<open>Step 9: release the workspace of a run that has ended, then write the status.\<close>

definition reconcileFinish ::
  "'s reconciler \<Rightarrow> HarnessRun \<Rightarrow> Workspace \<Rightarrow> HarnessRunStatus \<Rightarrow> string option \<Rightarrow> duration option \<Rightarrow> ('s, Result) op" where
  "reconcileFinish r run ws orig fired after =
     bnd (if isTerminal (hr_Phase run) then clearWorkspaceBinding ws (hr_Name run) else ret ()) (\<lambda>_.
     bnd (commitStatus r run orig) (\<lambda>_.
       case fired of
         Some reason \<Rightarrow> bnd (EmitInteractiveRunTerminated (rc_Audit r) (hr_Name run) (hr_Namespace run) reason) (\<lambda>_. ret Done)
       | None \<Rightarrow>
           if \<not> isTerminal (hr_Phase run)
           then ret (case after of Some d \<Rightarrow> RequeueAfter d | None \<Rightarrow> RequeueAfter (5 * second))
           else ret Done))"

definition deleteJob :: "okey \<Rightarrow> (Job \<Rightarrow> ('s, unit) op) \<Rightarrow> ('s, unit) op" where
  "deleteJob k announce =
     bnd (attempt (apiGet k)) (\<lambda>g. case g of
       Inl e \<Rightarrow> if is_NotFound e then ret () else throw e
     | Inr x \<Rightarrow>
         if job_Deleting (the_job x) then ret ()
         else bnd (attempt (apiDelete k)) (\<lambda>d. case d of
                Inl e \<Rightarrow> if is_NotFound e then announce (the_job x) else throw e
              | Inr _ \<Rightarrow> announce (the_job x)))"

text \<open>Step 8: an interactive run past a deadline loses its Job, then becomes cancelled.\<close>

definition reconcileWatchdog ::
  "'s reconciler \<Rightarrow> HarnessRun \<Rightarrow> Workspace \<Rightarrow> resolvedTemplate \<Rightarrow> HarnessRunStatus \<Rightarrow> ('s, Result) op" where
  "reconcileWatchdog r run ws tpl orig =
     (if hr_Mode run = HarnessRunModeInteractive \<and> hr_Phase run \<in> {PhaseIdle, PhaseRunning} then
        bnd getNow (\<lambda>now. case nextDeadline now run tpl of (action, after) \<Rightarrow>
          if action \<noteq> WatchdogNone then
            (let jName = (if hrt_JobName (hr_Status run) = [] then jobName run else hrt_JobName (hr_Status run)) in
             bnd (deleteJob (KJob, hr_Namespace run, jName) (\<lambda>_. ret ())) (\<lambda>_.
             reconcileFinish r
               (setCond now ''Completed'' ConditionTrue (wd_ConditionReason action)
                 (''interactive run terminated by watchdog: '' @ wd_Reason action) (completed now (setPhase PhaseCancelled run)))
               ws orig (Some (wd_Reason action)) None))
          else reconcileFinish r run ws orig None (Some after))
      else reconcileFinish r run ws orig None None)"

text \<open>Steps 4 to 7, once the egress is configured.\<close>

definition reconcileJob ::
  "'s reconciler \<Rightarrow> HarnessRun \<Rightarrow> Workspace \<Rightarrow> resolvedTemplate \<Rightarrow> InterceptionDecision \<Rightarrow> HarnessRunStatus \<Rightarrow> ('s, Result) op" where
  "reconcileJob r run ws tpl decision orig =
     bnd (ensureOutputConfigMap run) (\<lambda>_.
     bnd (ensureCollectorRBAC run) (\<lambda>_.
     bnd (if RequiresEmpty (hts_Requires (rt_Spec tpl)) then deleteRunNetworkPolicy r run else ensureRunNetworkPolicy r run) (\<lambda>_.
     bnd (ingestOutputConfigMap r run) (\<lambda>run.
     bnd (ensureJob r run tpl (wss_PVCName (ws_Status ws)) decision) (\<lambda>job.
     bnd getNow (\<lambda>now.
       (case translateJob now job
               (setCond now ''JobCreated'' ConditionTrue ''JobCreated'' (''Job '' @ job_Name job @ '' created'')
                 (onStatus (\<lambda>st. st\<lparr> hrt_JobName := job_Name job \<rparr>) run)) of
          (newPhase, run') \<Rightarrow> reconcileWatchdog r (setPhase newPhase run') ws tpl orig)))))))"

section \<open>Egress\<close>

definition zeroDecision :: InterceptionDecision where
  "zeroDecision = \<lparr> id_Mode = InterceptionModeUnset, id_Unavailable = False, id_Reason = [], id_AcceptanceReason = [], id_MatchedPolicy = [] \<rparr>"

definition caMisconfigured :: "'s reconciler \<Rightarrow> HarnessRun \<Rightarrow> HarnessRunStatus \<Rightarrow> string \<Rightarrow> string \<Rightarrow> ('s, Result) op" where
  "caMisconfigured r run orig reason msg =
     bnd getNow (\<lambda>now.
     bnd (emit (Event reason msg)) (\<lambda>_.
     bnd (EmitRunCAMisconfigured (rc_Audit r) (hr_Name run) (hr_Namespace run) msg) (\<lambda>_.
     commitThen r (setPhase PhaseFailed (setCond now ''EgressConfigured'' ConditionFalse reason msg run)) orig Done)))"

definition caPending :: "'s reconciler \<Rightarrow> HarnessRun \<Rightarrow> HarnessRunStatus \<Rightarrow> string \<Rightarrow> string \<Rightarrow> ('s, Result) op" where
  "caPending r run orig reason msg =
     bnd getNow (\<lambda>now.
     commitThen r (setPhase PhasePending (setCond now ''EgressConfigured'' ConditionFalse reason msg run)) orig (RequeueAfter (10 * second)))"

definition reconcileMode ::
  "'s reconciler \<Rightarrow> HarnessRun \<Rightarrow> Workspace \<Rightarrow> resolvedTemplate \<Rightarrow> HarnessRunStatus \<Rightarrow> ('s, Result) op" where
  "reconcileMode r run ws tpl orig =
     bnd getNow (\<lambda>now.
     bnd (resolveInterceptionMode r run tpl) (\<lambda>decision.
       if id_Unavailable decision then
         bnd (emit (Event ''InterceptionUnavailable'' (id_Reason decision))) (\<lambda>_.
         commitThen r
           (failRun now ''EgressConfigured'' ''InterceptionUnavailable'' (id_Reason decision)
             (setCond now ''InterceptionUnavailable'' ConditionTrue ''PSABlocksTransparent'' (id_Reason decision) run)) orig Done)
       else
         reconcileJob r
           (if id_Mode decision = InterceptionModeTransparent
            then setCond now ''EgressConfigured'' ConditionTrue ''Transparent'' ''MITM CA mounted; iptables REDIRECT installed (transparent mode)'' run
            else setCond now ''EgressConfigured'' ConditionTrue ''Cooperative'' ''MITM CA mounted; HTTPS_PROXY configured (cooperative mode)'' run)
           ws tpl decision orig))"

definition reconcileBrokerCA ::
  "'s reconciler \<Rightarrow> HarnessRun \<Rightarrow> Workspace \<Rightarrow> resolvedTemplate \<Rightarrow> HarnessRunStatus \<Rightarrow> ('s, Result) op" where
  "reconcileBrokerCA r run ws tpl orig =
     bnd (attempt (ensureBrokerCA r run)) (\<lambda>ca. case ca of
       Inl e \<Rightarrow>
         if e = SourceCAMisconfigured
         then caMisconfigured r run orig ''BrokerCAMisconfigured''
                (''source broker-CA Secret '' @ bca_Namespace (pbc_BrokerCASource (rc_cfg r)) @ ''/'' @ bca_Name (pbc_BrokerCASource (rc_cfg r))
                  @ '' exists but has missing/empty '' @ fmt_q brokerCAKey @ ''; operator must populate it'')
         else throw e
     | Inr ok \<Rightarrow>
         if \<not> ok then caPending r run orig ''BrokerCAPending'' ''waiting on cert-manager to populate the broker-serving-cert Secret''
         else reconcileMode r run ws tpl orig)"

definition reconcileEgress ::
  "'s reconciler \<Rightarrow> HarnessRun \<Rightarrow> Workspace \<Rightarrow> resolvedTemplate \<Rightarrow> HarnessRunStatus \<Rightarrow> ('s, Result) op" where
  "reconcileEgress r run ws tpl orig =
     (if proxyConfigured r then
        bnd (attempt (ensureProxyTLS r run)) (\<lambda>tls. case tls of
          Inl (ProxyCertPermanentFailure m) \<Rightarrow>
            caMisconfigured r run orig ''ProxyCAMisconfigured''
              (''cert-manager Certificate for proxy-tls permanently failed: '' @ ctl_Error (ProxyCertPermanentFailure m)
                @ ''; operator must fix the ClusterIssuer config'')
        | Inl e \<Rightarrow> throw e
        | Inr ok \<Rightarrow>
            if \<not> ok then caPending r run orig ''ProxyCAPending'' ''waiting on cert-manager to populate the MITM CA Secret''
            else reconcileBrokerCA r run ws tpl orig)
      else bnd getNow (\<lambda>now.
        reconcileJob r (setCond now ''EgressConfigured'' ConditionFalse ''ProxyNotConfigured''
            ''controller has no --proxy-image + --proxy-ca-source; egress is unproxied'' run) ws tpl zeroDecision orig))"

section \<open>Reconcile\<close>

text \<open>Step 4: prompt and credentials of a run that holds its workspace.\<close>

definition reconcileBound ::
  "'s reconciler \<Rightarrow> HarnessRun \<Rightarrow> Workspace \<Rightarrow> resolvedTemplate \<Rightarrow> HarnessRunStatus \<Rightarrow> ('s, Result) op" where
  "reconcileBound r run ws tpl orig =
     bnd getNow (\<lambda>now.
     bnd (attempt (ensurePromptSecret run)) (\<lambda>p. case p of
       Inl e \<Rightarrow>
         (case e of
            PromptSourceNotFound _ \<Rightarrow> commitStatus r (failRun now ''PromptResolved'' ''PromptSourceNotFound'' (ctl_Error e) run) orig
          | PromptKeyMissing _ \<Rightarrow> commitStatus r (failRun now ''PromptResolved'' ''PromptKeyMissing'' (ctl_Error e) run) orig
          | _ \<Rightarrow> throw e)
     | Inr _ \<Rightarrow>
         bnd (reconcileCredentials r (setCond now ''PromptResolved'' ConditionTrue ''Resolved'' ''prompt materialised'' run) tpl) (\<lambda>(out, run).
           case out of
             CredFail reason msg \<Rightarrow> commitStatus r (failRun now ''BrokerReady'' reason msg run) orig
           | CredRequeue \<Rightarrow> commitThen r run orig (RequeueAfter (10 * second))
           | CredProceed \<Rightarrow> bnd (commitStatus r run orig) (\<lambda>_. reconcileEgress r run ws tpl (hr_Status run)))))"

definition pendingOn :: "'s reconciler \<Rightarrow> HarnessRun \<Rightarrow> Workspace \<Rightarrow> HarnessRunStatus \<Rightarrow> string \<Rightarrow> string \<Rightarrow> ('s, Result) op" where
  "pendingOn r run ws orig reason msg =
     bnd getNow (\<lambda>now.
     commitThen r
       (onStatus (\<lambda>st. st\<lparr> hrt_Phase := PhasePending, hrt_WorkspaceRef := ws_Name ws \<rparr>)
         (setCond now ''WorkspaceBound'' ConditionFalse reason msg run)) orig (RequeueAfter (5 * second)))"

text \<open>Steps 2 and 3: find the workspace and bind it.\<close>

definition reconcileWorkspace :: "'s reconciler \<Rightarrow> HarnessRun \<Rightarrow> resolvedTemplate \<Rightarrow> HarnessRunStatus \<Rightarrow> ('s, Result) op" where
  "reconcileWorkspace r run tpl orig =
     bnd getNow (\<lambda>now.
     bnd (ensureWorkspace run tpl) (\<lambda>w. case w of
       None \<Rightarrow> commitStatus r (failRun now ''WorkspaceBound'' ''WorkspaceRequired''
                 ''templates without workspace.required=true are not supported in v0.1'' run) orig
     | Some ws \<Rightarrow>
         if wss_Phase (ws_Status ws) \<noteq> WorkspacePhaseActive
         then pendingOn r run ws orig ''WorkspaceNotReady'' (''workspace '' @ ws_Name ws @ '' is '' @ wsPhase_str (wss_Phase (ws_Status ws)))
         else bnd (bindWorkspace ws run) (\<lambda>(bound, ws).
           if \<not> bound
           then pendingOn r run ws orig ''WorkspaceBusy'' (''workspace '' @ ws_Name ws @ '' is in use by '' @ wss_ActiveRunRef (ws_Status ws))
           else reconcileBound r
                  (onStatus (\<lambda>st. st\<lparr> hrt_WorkspaceRef := ws_Name ws \<rparr>)
                    (setCond now ''WorkspaceBound'' ConditionTrue ''Bound'' (''bound to workspace '' @ ws_Name ws) run)) ws tpl orig)))"

text \<open>Step 1: the template.\<close>

definition reconcileLive :: "'s reconciler \<Rightarrow> HarnessRun \<Rightarrow> ('s, Result) op" where
  "reconcileLive r run0 =
     (let orig = hr_Status run0;
          run = pinNetworkPolicyEnforced r (onStatus (\<lambda>st. st\<lparr> hrt_ObservedGeneration := hr_Generation run0 \<rparr>) run0) in
      bnd getNow (\<lambda>now. bnd getKube (\<lambda>c.
        case resolveTemplate (rc_order r) c run of
          Inl err \<Rightarrow>
            if IsNotFound err
            then commitStatus r (failRun now ''TemplateResolved'' ''TemplateNotFound''
                   (''template '' @ fmt_q (tr_Name (hr_TemplateRef run)) @ '' not found'') run) orig
            else throw (ApiErr err)
        | Inr tpl \<Rightarrow>
            reconcileWorkspace r
              (setCond now ''TemplateResolved'' ConditionTrue ''TemplateResolved''
                (''using '' @ rt_SourceKind tpl @ ''/'' @ rt_SourceName tpl) run) tpl orig)))"

definition addFinalizer :: "string \<Rightarrow> HarnessRun \<Rightarrow> ('s, Result) op" where
  "addFinalizer f run =
     bnd (attempt (updateRun (run\<lparr> hr_Finalizers := hr_Finalizers run @ [f] \<rparr>))) (\<lambda>u. case u of
       Inl e \<Rightarrow> if is_Conflict e then ret Requeue else throw e
     | Inr _ \<Rightarrow> ret Requeue)"

section \<open>Deletion\<close>

definition brokerRevokeBudget :: "HarnessRun \<Rightarrow> duration" where
  "brokerRevokeBudget run =
     (let d = int (length (hr_IssuedLeases run)) * (5 * second)
      in if d > 30 * second then 30 * second else if d = 0 then 5 * second else d)"

definition brokerRevoke :: "'s broker_issuer \<Rightarrow> HarnessRun \<Rightarrow> IssuedLease \<Rightarrow> ('s, client_error option) op" where
  "brokerRevoke b run lease c =
     (case bi_Revoke b (cl_broker c) (hr_Name run) (hr_Namespace run) lease of
        (x, st) \<Rightarrow> (Inr x, c\<lparr> cl_broker := st, cl_log := cl_log c @ [Revoked (hr_Name run) (hr_Namespace run) lease x] \<rparr>))"

text \<open>
  Up to \<open>n\<close> attempts; \<open>done\<close> says, per call, whether the context ended while the code waited to retry.
\<close>

fun revokeRetry :: "'s broker_issuer \<Rightarrow> (nat \<Rightarrow> bool) \<Rightarrow> HarnessRun \<Rightarrow> IssuedLease \<Rightarrow> nat \<Rightarrow> error_msg \<Rightarrow> ('s, error_msg option) op" where
  "revokeRetry b gone run lease 0 lastErr = ret (Some lastErr)"
| "revokeRetry b gone run lease (Suc n) lastErr =
     bnd (brokerRevoke b run lease) (\<lambda>x. case x of
       None \<Rightarrow> ret None
     | Some err \<Rightarrow>
         if (case err of BrokerErr be \<Rightarrow> bke_Status be = 404 | PlainErr _ \<Rightarrow> False) then ret None
         else if (case err of BrokerErr be \<Rightarrow> bke_Status be \<ge> 400 \<and> bke_Status be < 500 | PlainErr _ \<Rightarrow> False)
         then ret (Some (client_Error err))
         else if gone n then ret (Some ''context deadline exceeded'')
         else revokeRetry b gone run lease n (client_Error err))"

definition revokeOneLeaseWithRetry :: "'s broker_issuer \<Rightarrow> (nat \<Rightarrow> bool) \<Rightarrow> HarnessRun \<Rightarrow> IssuedLease \<Rightarrow> ('s, error_msg option) op" where
  "revokeOneLeaseWithRetry b gone run lease = revokeRetry b gone run lease 3 []"

fun revokeLoop :: "'s broker_issuer \<Rightarrow> (nat \<Rightarrow> bool) \<Rightarrow> HarnessRun \<Rightarrow> IssuedLease list \<Rightarrow> string list \<Rightarrow> ('s, string list) op" where
  "revokeLoop b gone run [] errs = ret errs"
| "revokeLoop b gone run (lease # leases) errs =
     bnd (revokeOneLeaseWithRetry b gone run lease) (\<lambda>x.
       revokeLoop b gone run leases
         (case x of None \<Rightarrow> errs | Some err \<Rightarrow> errs @ [il_Provider lease @ ''/'' @ il_LeaseID lease @ '': '' @ err]))"

definition revokeIssuedLeases :: "'s reconciler \<Rightarrow> HarnessRun \<Rightarrow> ('s, error_msg option) op" where
  "revokeIssuedLeases r run =
     (if hr_IssuedLeases run = [] then ret None
      else case rc_BrokerClient r of
        None \<Rightarrow> ret (Some ''no broker client configured'')
      | Some b \<Rightarrow> bnd (revokeLoop b (rc_ctxDone r) run (hr_IssuedLeases run) []) (\<lambda>errs.
                  ret (if errs = [] then None else Some (''revoke failures: '' @ Join errs ''; ''))))"

definition dropFinalizer :: "string \<Rightarrow> HarnessRun \<Rightarrow> HarnessRun" where
  "dropFinalizer f run = run\<lparr> hr_Finalizers := filter (\<lambda>x. x \<noteq> f) (hr_Finalizers run) \<rparr>"

definition releaseFinalizer :: "string \<Rightarrow> HarnessRun \<Rightarrow> Result \<Rightarrow> ('s, Result) op" where
  "releaseFinalizer f run res =
     bnd (attempt (updateRun (dropFinalizer f run))) (\<lambda>u. case u of
       Inl e \<Rightarrow> if is_NotFound e then ret res else if is_Conflict e then ret Requeue else throw e
     | Inr _ \<Rightarrow> ret res)"

definition markCancelled :: "'s reconciler \<Rightarrow> HarnessRun \<Rightarrow> ('s, unit) op" where
  "markCancelled r run =
     (if isTerminal (hr_Phase run) then ret ()
      else bnd getNow (\<lambda>now.
        bnd (attempt (commitStatus r
               (onStatus (\<lambda>st. st\<lparr> hrt_Conditions := setCondition now (hrt_Conditions st)
                    (mkCond ''Completed'' ConditionTrue ''Cancelled'' ''HarnessRun was deleted'' 0) \<rparr>)
                 (completed now (setPhase PhaseCancelled run))) (hr_Status run))) (\<lambda>u. case u of
          Inl e \<Rightarrow> if is_NotFound e then ret () else throw e
        | Inr _ \<Rightarrow> ret ())))"

text \<open>
  The local copy keeps the status of before; only its finalizers are written afterwards, and a Get of the
  next reconcile reads what is stored.
\<close>

definition reconcileDelete :: "'s reconciler \<Rightarrow> HarnessRun \<Rightarrow> ('s, Result) op" where
  "reconcileDelete r run =
     (if BrokerLeasesFinalizer \<in> set (hr_Finalizers run) then
        bnd (revokeIssuedLeases r run) (\<lambda>err.
        bnd (case err of None \<Rightarrow> ret ()
             | Some m \<Rightarrow> emit (Event ''RevokeFailed'' (''Broker revoke failed; finalizer force-removed: '' @ m))) (\<lambda>_.
        releaseFinalizer BrokerLeasesFinalizer run Requeue))
      else if HarnessRunFinalizer \<notin> set (hr_Finalizers run) then ret Done
      else
        bnd (if hrt_JobName (hr_Status run) \<noteq> []
             then deleteJob (KJob, hr_Namespace run, hrt_JobName (hr_Status run))
                    (\<lambda>job. emit (Event ''Cancelling'' (''Deleting Job '' @ job_Name job)))
             else ret ()) (\<lambda>_.
        bnd (if hrt_WorkspaceRef (hr_Status run) \<noteq> []
             then bnd (attempt (apiGet (KWorkspace, hr_Namespace run, hrt_WorkspaceRef (hr_Status run)))) (\<lambda>g. case g of
                    Inr x \<Rightarrow> clearWorkspaceBinding (the_workspace x) (hr_Name run)
                  | Inl e \<Rightarrow> if is_NotFound e then ret () else throw e)
             else ret ()) (\<lambda>_.
        bnd (markCancelled r run) (\<lambda>_.
        releaseFinalizer HarnessRunFinalizer run Done))))"

text \<open>A run that has ended is looked at again only while its Job exists.\<close>

definition stillLive :: "HarnessRun \<Rightarrow> ('s, bool) op" where
  "stillLive run =
     (if \<not> isTerminal (hr_Phase run) then ret True
      else if hrt_JobName (hr_Status run) = [] then ret False
      else bnd (attempt (apiGet (KJob, hr_Namespace run, hrt_JobName (hr_Status run)))) (\<lambda>g. case g of
             Inl e \<Rightarrow> if is_NotFound e then ret False else throw e
           | Inr _ \<Rightarrow> ret True))"

definition runReconcile :: "'s reconciler \<Rightarrow> string \<Rightarrow> string \<Rightarrow> ('s, Result) op" where
  "runReconcile r ns name =
     bnd (attempt (apiGet (KHarnessRun, ns, name))) (\<lambda>g. case g of
       Inl e \<Rightarrow> if is_NotFound e then ret Done else throw e
     | Inr x \<Rightarrow>
         (let run = the_run x in
          if hr_DeletionTimestamp run \<noteq> None then reconcileDelete r run
          else if HarnessRunFinalizer \<notin> set (hr_Finalizers run) then addFinalizer HarnessRunFinalizer run
          else if BrokerLeasesFinalizer \<notin> set (hr_Finalizers run) then addFinalizer BrokerLeasesFinalizer run
          else bnd (stillLive run) (\<lambda>go. if go then reconcileLive r run else ret Done)))"

end
