(* ===== verification/Pod_Properties.thy ===== *)
theory Pod_Properties
  imports Controller_Run Fixtures
begin

text \<open>
  Properties of what the reconciler of runs computes without calls: the pod of a run, the policy on its
  egress, and the deadlines of an interactive run.
\<close>

section \<open>The pod\<close>


definition ex_inputs :: podSpecInputs where
  "ex_inputs = \<lparr> psi_workspacePVC = ''ws-w'', psi_promptSecret = ''r-prompt'', psi_outputConfigMap = ''r-out'', psi_serviceAccount = ''sa'',
     psi_brokerCredsSecret = ''r-broker-creds'', psi_proxyImage = ''proxy:1'', psi_proxyTLSSecret = ''r-proxy-tls'', psi_proxyAllowList = [],
     psi_interceptionMode = InterceptionModeCooperative, psi_iptablesInitImage = [], psi_homeInitImage = [], psi_brokerEndpoint = ''https://b'',
     psi_brokerCASecret = ''r-broker-ca'', psi_interceptionAcceptanceReason = ''ok'', psi_interceptionAcceptanceMatchedPolicy = ''p'',
     psi_proxyDenyCIDR = [] \<rparr>"

definition ex_pod_run :: HarnessRun where
  "ex_pod_run = ex_run\<lparr> hr_Spec := ex_run_spec\<lparr> hrs_ExtraEnv := [envVar ''HTTPS_PROXY'' ''http://elsewhere''] \<rparr> \<rparr>"

definition ex_pod_template :: resolvedTemplate where
  "ex_pod_template = \<lparr> rt_Spec = ex_template, rt_SourceKind = ''ClusterHarnessTemplate'', rt_SourceName = ''t'' \<rparr>"

lemma ex_proxy_mount:
  "(roMount proxyCAVolumeName agentCABundleMountPath)\<lparr> vm_SubPath := agentCABundleSubPath \<rparr>
     \<in> set (ctr_VolumeMounts (buildAgentContainer ex_pod_run ex_pod_template ex_inputs))"
  "secretVolume proxyCAVolumeName ''r-proxy-tls'' \<in> set (buildPodVolumes ex_inputs)"
  by (simp_all add: buildAgentContainer_def buildPodVolumes_def proxyEnabled_def ex_inputs_def)


section \<open>Egress of the pod\<close>

text \<open>
  C11: the policy and the proxy refuse the same networks. When the list the proxy is started with parses, an
  address outside the cluster's selectors is reachable under the run's NetworkPolicy exactly over TCP, on port
  80 or 443 when the proxy's own list does not contain it, on any port on loopback, and on port 443 at an
  address of the API server.
\<close>

theorem policy_agrees_with_proxy:
  assumes "plain_cidr (npc_ClusterPodCIDR cfg)" "plain_cidr (npc_ClusterServiceCIDR cfg)"
    and "ParseDeniedCIDRs (proxyDeniedCIDRs cfg) = Inr nets"
  shows "np_permits (buildRunNetworkPolicy run cfg) ip proto port \<longleftrightarrow>
     proto = ''TCP'' \<and>
     (port \<in> {80, 443} \<and> cidr_contains openCIDR ip \<and> \<not> DeniedCIDRSet_Contains (Some nets) (Some ip)
      \<or> cidr_contains ''127.0.0.0/8'' ip
      \<or> port = 443 \<and> (\<exists>a \<in> set (npc_APIServerIPs cfg). cidr_contains (ip_String a @ ''/32'') ip))"
  unfolding run_policy_permits egress_policy_permits proxy_denies_excluded [OF assms] ..

definition ex_net_config :: networkPolicyConfig where
  "ex_net_config = \<lparr> npc_ClusterPodCIDR = ''100.64.0.0/10'', npc_ClusterServiceCIDR = [], npc_BrokerNamespace = ''paddock-system'',
     npc_BrokerPort = 8443, npc_APIServerIPs = [] \<rparr>"

lemma ex_net_parses: "\<not> isl (ParseDeniedCIDRs (proxyDeniedCIDRs ex_net_config))"
  by code_simp

lemma ex_net_addresses:
  "cidr_contains openCIDR (the (ParseIP ''8.8.8.8''))" "excluded ex_net_config (the (ParseIP ''8.8.8.8'')) = False"
  "excluded ex_net_config (the (ParseIP ''100.64.1.2''))" "cidr_contains ''127.0.0.0/8'' (the (ParseIP ''100.64.1.2'')) = False"
  by code_simp+

theorem policy_agrees_with_proxy_witness:
  "np_permits (buildRunNetworkPolicy ex_pod_run ex_net_config) (the (ParseIP ''8.8.8.8'')) ''TCP'' 443
   \<and> \<not> np_permits (buildRunNetworkPolicy ex_pod_run ex_net_config) (the (ParseIP ''100.64.1.2'')) ''TCP'' 443"
proof -
  have plain: "plain_cidr (npc_ClusterPodCIDR ex_net_config)" "plain_cidr (npc_ClusterServiceCIDR ex_net_config)" by code_simp+
  obtain nets where nets: "ParseDeniedCIDRs (proxyDeniedCIDRs ex_net_config) = Inr nets" using ex_net_parses by (metis sum.collapse(2))
  show ?thesis
    using policy_agrees_with_proxy [OF plain nets] proxy_denies_excluded [OF plain nets] ex_net_addresses
    by (simp add: ex_net_config_def)
qed

section \<open>Deadlines\<close>

text \<open>The instants at which an interactive run is to end, in the order the watchdog looks at them.\<close>

definition wd_deadlines :: "HarnessRun \<Rightarrow> InteractiveSpec \<Rightarrow> (watchdogAction \<times> time) list" where
  "wd_deadlines run spec =
     (let st = (case hr_Interactive run of Some s \<Rightarrow> s | None \<Rightarrow> zeroInteractive);
          detached = (ist_AttachedSessions st = 0);
          idle = (if detached then wd_timeout run spec io_DetachIdleTimeout ints_DetachIdleTimeout (15 * minute)
                  else wd_timeout run spec io_IdleTimeout ints_IdleTimeout (30 * minute))
      in (case ist_IdleSince st of Some t \<Rightarrow> [(WatchdogCancelIdle, t + idle)] | None \<Rightarrow> [])
       @ (case ist_LastAttachedAt st of
            Some t \<Rightarrow> if detached then [(WatchdogCancelDetach, t + wd_timeout run spec io_DetachTimeout ints_DetachTimeout (5 * minute))] else []
          | None \<Rightarrow> [])
       @ [(WatchdogCancelMaxLifetime, hr_CreationTimestamp run + wd_timeout run spec io_MaxLifetime ints_MaxLifetime (24 * hour))])"

lemma wd_pick:
  fixes i l :: "time option"
  shows "(let idle = map_option (\<lambda>t. E - (now - t)) i;
              detach = (if s then map_option (\<lambda>t. T - (now - t)) l else None);
              lifetime = M - (now - c)
          in if (case idle of Some left \<Rightarrow> left \<le> 0 | None \<Rightarrow> False) then (WatchdogCancelIdle, 0)
             else if (case detach of Some left \<Rightarrow> left \<le> 0 | None \<Rightarrow> False) then (WatchdogCancelDetach, 0)
             else if lifetime \<le> 0 then (WatchdogCancelMaxLifetime, 0)
             else (let candidates = (case idle of Some d \<Rightarrow> [d] | None \<Rightarrow> []) @ (case detach of Some d \<Rightarrow> [d] | None \<Rightarrow> []) @ [lifetime];
                       smallest = foldl min (hd candidates) candidates
                   in (WatchdogNone, if smallest < second then second else smallest)))
    = (let ds = (case i of Some t \<Rightarrow> [(WatchdogCancelIdle, t + E)] | None \<Rightarrow> [])
              @ (case l of Some t \<Rightarrow> if s then [(WatchdogCancelDetach, t + T)] else [] | None \<Rightarrow> [])
              @ [(WatchdogCancelMaxLifetime, c + M)]
       in case find (\<lambda>(a, d). d \<le> now) ds of Some (a, d) \<Rightarrow> (a, 0) | None \<Rightarrow> (WatchdogNone, max second (Min (snd ` set ds) - now)))"
  by (cases i; cases l; cases s) (auto simp: Let_def min_def max_def)

text \<open>
  C13: the watchdog meets its deadlines. For an interactive run the first deadline that has passed is the one
  it acts on; when none has passed it does not act and asks to be woken at the nearest one, or in a second
  when that is nearer still.
\<close>

theorem watchdog_meets_deadlines:
  assumes "hr_Mode run = HarnessRunModeInteractive" "hts_Interactive (rt_Spec tpl) = Some spec"
  shows "nextDeadline now run tpl =
    (case find (\<lambda>(a, d). d \<le> now) (wd_deadlines run spec) of
       Some (a, d) \<Rightarrow> (a, 0)
     | None \<Rightarrow> (WatchdogNone, max second (Min (snd ` set (wd_deadlines run spec)) - now)))"
  using assms
  by (simp only: nextDeadline_def wd_deadlines_def wd_pick option.case if_not_P simp_thms Let_def [of "case hr_Interactive run of Some s \<Rightarrow> s | None \<Rightarrow> zeroInteractive"]
      Let_def [of "wd_timeout _ _ _ _ _"]) (simp only: Let_def)

definition ex_interactive_spec :: InteractiveSpec where
  "ex_interactive_spec = \<lparr> ints_Mode = ''persistent-process'', ints_IdleTimeout = None, ints_DetachIdleTimeout = None,
     ints_DetachTimeout = Some (10 * minute), ints_MaxLifetime = None, ints_MaxRecentEvents = None \<rparr>"

definition ex_interactive_run :: HarnessRun where
  "ex_interactive_run = ex_run\<lparr> hr_CreationTimestamp := 0, hr_Spec := ex_run_spec\<lparr> hrs_Mode := HarnessRunModeInteractive \<rparr>,
     hr_Status := ex_run_status\<lparr> hrt_Interactive := Some (zeroInteractive\<lparr> ist_LastAttachedAt := Some minute \<rparr>) \<rparr> \<rparr>"

definition ex_interactive_template :: resolvedTemplate where
  "ex_interactive_template = ex_pod_template\<lparr> rt_Spec := ex_template\<lparr> hts_Interactive := Some ex_interactive_spec \<rparr> \<rparr>"

theorem watchdog_meets_deadlines_witness:
  "nextDeadline (11 * minute) ex_interactive_run ex_interactive_template = (WatchdogCancelDetach, 0)
   \<and> nextDeadline (9 * minute) ex_interactive_run ex_interactive_template = (WatchdogNone, 2 * minute)"
proof -
  have "hr_Mode ex_interactive_run = HarnessRunModeInteractive" "hts_Interactive (rt_Spec ex_interactive_template) = Some ex_interactive_spec"
    by (simp_all add: ex_interactive_run_def ex_interactive_template_def)
  moreover have "wd_deadlines ex_interactive_run ex_interactive_spec = [(WatchdogCancelDetach, 11 * minute), (WatchdogCancelMaxLifetime, 24 * hour)]"
    by code_simp
  ultimately show ?thesis
    using watchdog_meets_deadlines [of ex_interactive_run ex_interactive_template ex_interactive_spec]
    by (simp add: minute_def hour_def second_def)
qed

end
