(* ===== verification/Controller_Facts.thy ===== *)
theory Controller_Facts
  imports Controller_Run
begin

text \<open>
  Facts on the reconciler of runs: a small logic of triples for operations that may fail, the keys each
  part of a reconcile touches, what holds when a Job is created, and the binding of workspaces.
\<close>

section \<open>Triples\<close>

text \<open>
  From a state with \<open>P\<close> the operation ends in \<open>Q\<close> of its result, or fails in a state with \<open>R\<close>.
\<close>

definition triple :: "('s cluster \<Rightarrow> bool) \<Rightarrow> ('s, 'a) op \<Rightarrow> ('a \<Rightarrow> 's cluster \<Rightarrow> bool) \<Rightarrow> ('s cluster \<Rightarrow> bool) \<Rightarrow> bool" where
  "triple P m Q R \<longleftrightarrow> (\<forall>c. P c \<longrightarrow> (case m c of (Inr a, c') \<Rightarrow> Q a c' | (Inl e, c') \<Rightarrow> R c'))"

named_theorems vc

lemma tripleD: "triple P m Q R \<Longrightarrow> P c \<Longrightarrow> m c = (Inr a, c') \<Longrightarrow> Q a c'"
  by (force simp: triple_def)

lemma tripleD_err: "triple P m Q R \<Longrightarrow> P c \<Longrightarrow> m c = (Inl e, c') \<Longrightarrow> R c'"
  by (force simp: triple_def)

lemma triple_same: "triple P m (\<lambda>_. Q) Q \<Longrightarrow> P c \<Longrightarrow> Q (snd (m c))"
  by (force simp: triple_def split: sum.splits)

lemma triple_bnd [vc]: "triple P m Q' R \<Longrightarrow> (\<And>a. triple (Q' a) (f a) Q R) \<Longrightarrow> triple P (bnd m f) Q R"
  by (force simp: triple_def bnd_def split: sum.splits)

lemma triple_ret [vc]: "(\<And>c. P c \<Longrightarrow> Q a c) \<Longrightarrow> triple P (ret a) Q R"
  by (simp add: triple_def ret_def)

lemma triple_throw [vc]: "(\<And>c. P c \<Longrightarrow> R c) \<Longrightarrow> triple P (throw e) Q R"
  by (simp add: triple_def throw_def)

lemma triple_attempt: "triple P m Q R' \<Longrightarrow> triple P (attempt m) (\<lambda>x c. case x of Inr a \<Rightarrow> Q a c | Inl e \<Rightarrow> R' c) R"
  by (force simp: triple_def attempt_def split: sum.splits)

lemma triple_try:
  "triple P m Q' R' \<Longrightarrow> (\<And>a. triple (Q' a) (g a) Q R) \<Longrightarrow> (\<And>e. triple R' (f e) Q R)
    \<Longrightarrow> triple P (bnd (attempt m) (\<lambda>x. case x of Inl e \<Rightarrow> f e | Inr a \<Rightarrow> g a)) Q R"
  by (rule triple_bnd [OF triple_attempt], assumption) (simp split: sum.split)

lemma triple_now: "(\<And>now. triple (\<lambda>c. P c \<and> cl_now c = now) (f now) Q R) \<Longrightarrow> triple P (bnd getNow f) Q R"
  by (simp add: triple_def bnd_def getNow_def)

lemma triple_kube: "(\<And>k. triple (\<lambda>c. P c \<and> cl_kube c = k) (f k) Q R) \<Longrightarrow> triple P (bnd getKube f) Q R"
  by (simp add: triple_def bnd_def getKube_def)

lemma triple_weaken:
  "triple P' m Q' R' \<Longrightarrow> (\<And>c. P c \<Longrightarrow> P' c) \<Longrightarrow> (\<And>a c. Q' a c \<Longrightarrow> Q a c) \<Longrightarrow> (\<And>c. R' c \<Longrightarrow> R c) \<Longrightarrow> triple P m Q R"
  by (force simp: triple_def split: sum.splits)

lemma triple_pre: "triple P' m Q R \<Longrightarrow> (\<And>c. P c \<Longrightarrow> P' c) \<Longrightarrow> triple P m Q R"
  by (rule triple_weaken)

lemma triple_and: "triple P m Q R \<Longrightarrow> triple P m Q' R' \<Longrightarrow> triple P m (\<lambda>a c. Q a c \<and> Q' a c) (\<lambda>c. R c \<and> R' c)"
  by (force simp: triple_def split: sum.splits)

lemma triple_both:
  "triple P m Q R \<Longrightarrow> triple P' m Q' R' \<Longrightarrow> triple (\<lambda>c. P c \<and> P' c) m (\<lambda>a c. Q a c \<and> Q' a c) (\<lambda>c. R c \<and> R' c)"
  by (force simp: triple_def split: sum.splits)

lemma triple_if [vc]: "(b \<Longrightarrow> triple P m Q R) \<Longrightarrow> (\<not> b \<Longrightarrow> triple P n Q R) \<Longrightarrow> triple P (if b then m else n) Q R"
  by simp

lemma triple_getNow [vc]: "(\<And>c. P c \<Longrightarrow> Q (cl_now c) c) \<Longrightarrow> triple P getNow Q R"
  by (simp add: triple_def getNow_def)

lemma triple_getKube [vc]: "(\<And>c. P c \<Longrightarrow> Q (cl_kube c) c) \<Longrightarrow> triple P getKube Q R"
  by (simp add: triple_def getKube_def)

text \<open>A predicate that looks only at keys an operation does not touch, and at what is never written, is kept.\<close>

definition framed :: "okey set \<Rightarrow> ('s cluster \<Rightarrow> bool) \<Rightarrow> bool" where
  "framed K P \<longleftrightarrow> (\<forall>c c'. unchanged K c c' \<longrightarrow> P c \<longrightarrow> P c')"

lemma triple_frame: "touches K m \<Longrightarrow> framed K P \<Longrightarrow> triple P m (\<lambda>_. P) P"
  unfolding triple_def framed_def by (auto dest: touchesD split: sum.splits)

lemma framed_calls: "framed K P \<Longrightarrow> P c \<Longrightarrow> P (c\<lparr> cl_calls := n \<rparr>)"
  unfolding framed_def by (metis unchanged_calls unchanged_refl unchanged_def)

lemma triple_api:
  assumes "framed K P" "\<And>c. P c \<Longrightarrow> R c" "\<And>c. P c \<Longrightarrow> (case act c of (Inr a, c') \<Rightarrow> Q a c' | (Inl e, c') \<Rightarrow> R c')"
  shows "triple P (api act) Q R"
  unfolding triple_def
proof (intro allI impI)
  fix c assume "P c"
  then have P: "P (c\<lparr> cl_calls := Suc (cl_calls c) \<rparr>)" using assms(1) by (rule framed_calls [rotated])
  then show "case api act c of (Inr a, c') \<Rightarrow> Q a c' | (Inl e, c') \<Rightarrow> R c'"
    using assms(2) [OF P] assms(3) [OF P] by (auto simp: api_def Let_def split: option.split sum.splits prod.splits)
qed

lemma triple_apiGet:
  "framed K P \<Longrightarrow> triple P (apiGet k) (\<lambda>x c. P c \<and> cl_objects c k = Some x \<and> kind_of x = fst k) P"
  unfolding apiGet_def by (rule triple_api) (auto split: option.split)

section \<open>Invariants\<close>

text \<open>An operation keeps a predicate of the state, whether it returns or fails.\<close>

named_theorems kept

definition keeps :: "('s cluster \<Rightarrow> bool) \<Rightarrow> ('s, 'a) op \<Rightarrow> bool" where
  "keeps I m \<longleftrightarrow> (\<forall>c. I c \<longrightarrow> I (snd (m c)))"

lemma keepsD: "keeps I m \<Longrightarrow> m c = (x, c') \<Longrightarrow> I c \<Longrightarrow> I c'"
  unfolding keeps_def by (metis snd_conv)

lemma keeps_triple: "keeps I m \<Longrightarrow> triple I m (\<lambda>_. I) I"
  by (auto simp: triple_def dest: keepsD split: sum.split)

lemma keeps_frame: "touches K m \<Longrightarrow> framed K I \<Longrightarrow> keeps I m"
  unfolding touches_def framed_def keeps_def by blast

lemma keeps_bnd [kept]:
  assumes "keeps I m" "\<And>a. keeps I (f a)"
  shows "keeps I (bnd m f)"
  unfolding keeps_def
proof (intro allI impI)
  fix c assume "I c"
  obtain r c' where mc: "m c = (r, c')" by (cases "m c")
  with \<open>I c\<close> have "I c'" using assms(1) by (blast dest: keepsD)
  moreover from this have "I (snd (f a c'))" for a using assms(2) [of a] by (simp add: keeps_def)
  ultimately show "I (snd (bnd m f c))" by (cases r) (simp_all add: bnd_def mc)
qed

lemma keeps_attempt [kept]: "keeps I m \<Longrightarrow> keeps I (attempt m)"
  by (auto simp: keeps_def attempt_def split: prod.split)

lemma keeps_if [kept]: "(b \<Longrightarrow> keeps I m) \<Longrightarrow> (\<not> b \<Longrightarrow> keeps I n) \<Longrightarrow> keeps I (if b then m else n)"
  by simp

lemma keeps_case_sum [kept]:
  "(\<And>e. keeps I (f e)) \<Longrightarrow> (\<And>a. keeps I (g a)) \<Longrightarrow> keeps I (case x of Inl e \<Rightarrow> f e | Inr a \<Rightarrow> g a)"
  by (simp split: sum.split)

lemma keeps_case_option [kept]: "keeps I f \<Longrightarrow> (\<And>a. keeps I (g a)) \<Longrightarrow> keeps I (case x of None \<Rightarrow> f | Some a \<Rightarrow> g a)"
  by (simp split: option.split)

lemma keeps_case_prod [kept]: "(\<And>a b. keeps I (f a b)) \<Longrightarrow> keeps I (case x of (a, b) \<Rightarrow> f a b)"
  by (simp split: prod.split)

lemma keeps_case_error [kept]:
  "(\<And>m. keeps I (f m)) \<Longrightarrow> (\<And>m. keeps I (g m)) \<Longrightarrow> (\<And>m. keeps I (h m)) \<Longrightarrow> keeps I z
    \<Longrightarrow> (\<And>a. keeps I (u a)) \<Longrightarrow> (\<And>m. keeps I (v m)) \<Longrightarrow>
    keeps I (case e of ApiErr a \<Rightarrow> u a | PlainError m \<Rightarrow> v m | PromptSourceNotFound m \<Rightarrow> f m | PromptKeyMissing m \<Rightarrow> g m
      | ProxyCertPermanentFailure m \<Rightarrow> h m | SourceCAMisconfigured \<Rightarrow> z)"
  by (simp split: ctl_error.split)

lemma keeps_case_outcome [kept]:
  "keeps I f \<Longrightarrow> keeps I g \<Longrightarrow> (\<And>a b. keeps I (h a b)) \<Longrightarrow>
    keeps I (case x of CredProceed \<Rightarrow> f | CredRequeue \<Rightarrow> g | CredFail a b \<Rightarrow> h a b)"
  by (simp split: credentialsOutcome.split)

lemma keeps_pure [kept]: "keeps I (ret a)" "keeps I (throw e)" "keeps I getNow" "keeps I getKube"
  by (simp_all add: keeps_def ret_def throw_def getNow_def getKube_def)

lemma keeps_liftE_bnd:
  assumes "\<And>a. x = Inr a \<Longrightarrow> keeps I (f a)"
  shows "keeps I (bnd (liftE x) f)"
  using assms by (cases x) (auto simp: keeps_def bnd_def liftE_def throw_def ret_def)

section \<open>Keys\<close>

text \<open>Every kind of object but runs, Jobs and workspaces.\<close>

definition side_keys :: "okey set" where
  "side_keys = {k. fst k \<notin> {KHarnessRun, KWorkspace, KJob}}"

lemma side_keys_iff [simp]: "(kd, ns, n) \<in> side_keys \<longleftrightarrow> kd \<notin> {KHarnessRun, KWorkspace, KJob}"
  by (simp add: side_keys_def)

lemmas key_defs = run_key_def ws_key_def creds_key_def prompt_key_def out_key_def job_key_def np_key_def cnp_key_def

lemma touches_brokerIssue [touch]: "touches K (brokerIssue b run ns n)"
  by (simp add: touches_def brokerIssue_def unchanged_def split: prod.split)

lemma touches_brokerRevoke [touch]: "touches K (brokerRevoke b run l)"
  by (simp add: touches_def brokerRevoke_def unchanged_def split: prod.split)

lemma touches_emitAll [touch]: "touches K (emitAll es)"
  by (induction es) (auto intro: touch)

lemma touches_issueLoop [touch]: "touches K (issueLoop b run reqs acc)"
  by (induction reqs arbitrary: acc) (auto intro!: touch)

lemma touches_revokeRetry [touch]: "touches K (revokeRetry b gone run l n e)"
  by (induction n arbitrary: e) (auto intro!: touch)

lemma touches_revokeLoop [touch]: "touches K (revokeLoop b gone run ls errs)"
  by (induction ls arbitrary: errs) (auto simp: revokeOneLeaseWithRetry_def intro!: touch)

lemma touches_revokeIssuedLeases [touch]: "touches K (revokeIssuedLeases r run)"
  unfolding revokeIssuedLeases_def by (intro touch)

lemma touches_commitStatus [touch]: "run_key run \<in> K \<Longrightarrow> touches K (commitStatus r run orig)"
  unfolding commitStatus_def emitTerminalAudit_def emits by (intro touch)

lemma touches_commitThen [touch]: "run_key run \<in> K \<Longrightarrow> touches K (commitThen r run orig res)"
  unfolding commitThen_def by (intro touch)

lemma run_key_onStatus [simp]: "run_key (onStatus f run) = run_key run"
  by (simp add: run_key_def onStatus_def)

lemma run_key_simps [simp]:
  "run_key (setCond now t s reason msg run) = run_key run" "run_key (setPhase p run) = run_key run"
  "run_key (completed now run) = run_key run" "run_key (failRun now ty reason msg run) = run_key run"
  by (simp_all add: setCond_def setPhase_def completed_def failRun_def)

lemma touches_creds [touch]: "creds_key run \<in> K \<Longrightarrow> touches K (ensureBrokerCredentials r run tpl)"
  unfolding ensureBrokerCredentials_def deleteBrokerCredsSecret_def cachedBrokerCredentials_def Let_def emits
  by (intro touch | assumption)+

lemma side_key_simps [simp]:
  "creds_key run \<in> side_keys" "prompt_key run \<in> side_keys" "out_key run \<in> side_keys" "np_key run \<in> side_keys" "cnp_key run \<in> side_keys"
  "run_key run \<notin> side_keys" "ws_key ws \<notin> side_keys" "job_key run \<notin> side_keys"
  by (simp_all add: key_defs)

lemma touches_reconcileCredentials [touch]: "touches side_keys (reconcileCredentials r run tpl)"
  unfolding reconcileCredentials_def by (intro touch) (auto split: creds_outcome.split intro!: touch)

lemma touches_ensurePromptSecret [touch]: "touches side_keys (ensurePromptSecret run)"
  unfolding ensurePromptSecret_def resolvePrompt_def Let_def by (intro touch side_key_simps)

lemma touches_createIfMissing [touch]: "k \<in> K \<Longrightarrow> touches K (createIfMissing k x)"
  unfolding createIfMissing_def by (intro touch)

lemma touches_deleteIfPresent [touch]: "k \<in> K \<Longrightarrow> touches K (deleteIfPresent k)"
  unfolding deleteIfPresent_def by (intro touch)

lemma touches_ensureProxyTLS [touch]: "touches side_keys (ensureProxyTLS r run)"
  unfolding ensureProxyTLS_def ensureProxyCACertificate_def Let_def emits by (intro touch) simp_all

lemma touches_ensureBrokerCA [touch]: "touches side_keys (ensureBrokerCA r run)"
  unfolding ensureBrokerCA_def projectBrokerCA_def copyCAToSecret_def emits by (intro touch) simp_all

lemma touches_policy [touch]:
  "touches side_keys (ensureRunNetworkPolicy r run)" "touches side_keys (deleteRunNetworkPolicy r run)"
  unfolding ensureRunNetworkPolicy_def ensureRunCiliumNetworkPolicy_def deleteRunNetworkPolicy_def withdrawn_def emits
  by (intro touch side_key_simps)+

lemma touches_ensureCollectorRBAC [touch]: "touches side_keys (ensureCollectorRBAC run)"
  unfolding ensureCollectorRBAC_def Let_def by (intro touch) simp_all

lemma touches_output [touch]:
  "touches side_keys (ensureOutputConfigMap run)" "touches K (ingestOutputConfigMap r run)"
  unfolding ensureOutputConfigMap_def ingestOutputConfigMap_def Let_def by (intro touch side_key_simps)+

lemma touches_resolveInterceptionMode [touch]: "touches K (resolveInterceptionMode r run tpl)"
  unfolding resolveInterceptionMode_def by (intro touch)

lemma touches_ensureJob [touch]: "job_key run \<in> K \<Longrightarrow> touches K (ensureJob r run tpl pvc d)"
  unfolding ensureJob_def Let_def by (intro touch)

lemma touches_clearWorkspaceBinding [touch]: "(\<And>w. ws_key w \<in> K) \<Longrightarrow> touches K (clearWorkspaceBinding ws n)"
  unfolding clearWorkspaceBinding_def clearFresh_def by (intro touch)

lemma ws_key_onWs [simp]: "ws_key (onWs f ws) = ws_key ws" "ws_key (bindUpdate now n ws) = ws_key ws"
  by (simp_all add: ws_key_def onWs_def bindUpdate_def)

lemma touches_bindWorkspace [touch]: "ws_key ws \<in> K \<Longrightarrow> touches K (bindWorkspace ws run)"
  unfolding bindWorkspace_def Let_def by (intro touch) simp

lemma touches_ensureWorkspace [touch]: "(\<And>w. ws_key w \<in> K) \<Longrightarrow> touches K (ensureWorkspace run tpl)"
  unfolding ensureWorkspace_def Let_def by (intro touch)

lemma touches_deleteJob [touch]: "k \<in> K \<Longrightarrow> (\<And>j. touches K (announce j)) \<Longrightarrow> touches K (deleteJob k announce)"
  unfolding deleteJob_def by (intro touch)

lemma run_fields [simp]:
  "hr_Name (onStatus f run) = hr_Name run" "hr_Namespace (onStatus f run) = hr_Namespace run" "hr_Spec (onStatus f run) = hr_Spec run"
  by (simp_all add: onStatus_def)

lemma run_fields_setCond [simp]:
  "hr_Name (setCond now t s reason msg run) = hr_Name run" "hr_Namespace (setCond now t s reason msg run) = hr_Namespace run"
  "hr_Spec (setCond now t s reason msg run) = hr_Spec run"
  by (simp_all add: setCond_def)

lemma touches_ca [touch]:
  "run_key run \<in> K \<Longrightarrow> touches K (caMisconfigured r run orig reason msg)" "run_key run \<in> K \<Longrightarrow> touches K (caPending r run orig reason msg)"
  "run_key run \<in> K \<Longrightarrow> touches K (pendingOn r run ws orig reason msg)"
  unfolding caMisconfigured_def caPending_def pendingOn_def emits by (intro touch; simp)+

end
