(* ===== verification/Controller_Typing.thy ===== *)
theory Controller_Typing
  imports Controller_Facts
begin

text \<open>
  The store is well typed: an object lies under the key of its kind and name, and a reconcile keeps it so,
  whichever calls fail. The rules follow the structure of an operation as those on frames do.
\<close>

section \<open>Typing of the store\<close>

text \<open>Every object lies under the key of its kind, and those that carry their name under that name.\<close>

definition well_placed :: "okey \<Rightarrow> object \<Rightarrow> bool" where
  "well_placed k x \<longleftrightarrow>
     kind_of x = fst k
     \<and> (case x of ORun run \<Rightarrow> run_key run = k | OWorkspace ws \<Rightarrow> ws_key ws = k
        | OJob job \<Rightarrow> (KJob, job_Namespace job, job_Name job) = k | _ \<Rightarrow> True)"

definition store_ok :: "'s cluster \<Rightarrow> bool" where
  "store_ok c \<longleftrightarrow> (\<forall>k x. cl_objects c k = Some x \<longrightarrow> well_placed k x)"

lemma store_okD: "store_ok c \<Longrightarrow> cl_objects c k = Some x \<Longrightarrow> well_placed k x"
  unfolding store_ok_def by blast

lemma store_ok_put [simp]:
  "store_ok c \<Longrightarrow> well_placed k x \<Longrightarrow> store_ok (put k (Some x) c)" "store_ok c \<Longrightarrow> store_ok (put k None c)"
  by (simp_all add: store_ok_def put_def)

lemma store_ok_update [simp]:
  "store_ok (c\<lparr> cl_calls := n \<rparr>) = store_ok c" "store_ok (c\<lparr> cl_broker := b, cl_log := l \<rparr>) = store_ok c" "store_ok (c\<lparr> cl_log := l \<rparr>) = store_ok c"
  by (simp_all add: store_ok_def)

lemma typed_silent: "touches {} m \<Longrightarrow> keeps store_ok m"
  unfolding keeps_def touches_def store_ok_def unchanged_def by simp

lemma typed_api:
  assumes "\<And>c. store_ok c \<Longrightarrow> store_ok (snd (act c))"
  shows "keeps store_ok (api act)"
  unfolding keeps_def
proof (intro allI impI)
  fix c :: "'a cluster" assume "store_ok c"
  then have "store_ok (snd (act (c\<lparr> cl_calls := Suc (cl_calls c) \<rparr>)))" by (intro assms) simp
  with \<open>store_ok c\<close> show "store_ok (snd (api act c))"
    by (auto simp: api_def Let_def split: option.split sum.split prod.split)
qed

lemma typed_basic [kept]: "keeps store_ok (apiGet k)" "keeps store_ok (audit_write sink ev)" "keeps store_ok (emit e)"
  by (intro typed_silent touch)+

lemma typed_apiCreate [kept]: "well_placed k x \<Longrightarrow> keeps store_ok (apiCreate k x)"
  unfolding apiCreate_def by (rule typed_api) (simp split: option.split)

lemma typed_apiUpdate [kept]: "well_placed k x \<Longrightarrow> keeps store_ok (apiUpdate k x)"
  unfolding apiUpdate_def by (rule typed_api) (simp split: option.split)

lemma typed_apiDelete [kept]: "keeps store_ok (apiDelete k)"
  unfolding apiDelete_def by (rule typed_api) (simp split: option.split)

lemma well_placed_run: "well_placed k (ORun run) \<longleftrightarrow> run_key run = k"
  by (auto simp: well_placed_def run_key_def)

lemma well_placed_ws: "well_placed k (OWorkspace ws) \<longleftrightarrow> ws_key ws = k"
  by (auto simp: well_placed_def ws_key_def)

lemma store_ok_put_run: "store_ok c \<Longrightarrow> cl_objects c k = Some (ORun x) \<Longrightarrow> run_key y = run_key x \<Longrightarrow> store_ok (put k (Some (ORun y)) c)"
  by (metis store_okD store_ok_put(1) well_placed_run)

lemma store_ok_put_ws: "store_ok c \<Longrightarrow> cl_objects c k = Some (OWorkspace x) \<Longrightarrow> ws_key y = ws_key x \<Longrightarrow> store_ok (put k (Some (OWorkspace y)) c)"
  by (metis store_okD store_ok_put(1) well_placed_ws)

lemma typed_run_writes [kept]: "keeps store_ok (updateRun run)" "keeps store_ok (updateRunStatus run)"
  unfolding updateRun_def updateRunStatus_def
  by (intro typed_api; auto intro: store_ok_put_run simp: run_key_def split: option.split object.split)+

lemma typed_ws_writes [kept]: "keeps store_ok (updateWorkspaceStatus ws)" "keeps store_ok (updateWorkspace ws)"
  unfolding updateWorkspaceStatus_def updateWorkspace_def Let_def
  by (intro typed_api; auto intro: store_ok_put_ws simp: ws_key_def split: option.split object.split)+

lemma typed_createOrUpdate [kept]:
  assumes "\<And>old x. f old = Inr x \<Longrightarrow> well_placed k x"
  shows "keeps store_ok (createOrUpdate k f)"
  unfolding createOrUpdate_def
  by (intro kept keeps_liftE_bnd assms) assumption+

lemma typed_upsert [kept]: "(\<And>old x. f old = Inr x \<Longrightarrow> well_placed k x) \<Longrightarrow> keeps store_ok (upsert what k f)"
  unfolding upsert_def by (intro kept)


lemma well_placed_owned [simp]:
  "well_placed (KSecret, ns, n) (OSecret a)" "well_placed (KConfigMap, ns, n) (OConfigMap a)"
  "well_placed (KServiceAccount, ns, n) (OServiceAccount u)" "well_placed (KRole, ns, n) (ORole rl)"
  "well_placed (KRoleBinding, ns, n) (ORoleBinding rb)" "well_placed (KNetworkPolicy, ns, n) (ONetworkPolicy np)"
  "well_placed (KCiliumNetworkPolicy, ns, n) (OCilium cnp)" "well_placed (KCertificate, ns, n) (OCertificate ct)"
  "well_placed (KPersistentVolumeClaim, ns, n) (OPVC pv)"
  by (simp_all add: well_placed_def)

lemma ownBody_shape: "ownBody own lbls mk prj body old = Inr x \<Longrightarrow> \<exists>o'. x = mk o'"
  by (auto simp: ownBody_def Let_def split: sum.splits option.splits)

lemma certMutation_shape: "certMutation own sn cn ci d rb lbls old = Inr x \<Longrightarrow> \<exists>ct. x = OCertificate ct"
  by (auto simp: certMutation_def Let_def split: sum.splits option.splits)

lemma npMutation_shape: "npMutation own np old = Inr x \<Longrightarrow> \<exists>p. x = ONetworkPolicy p"
  "cnpMutation own cnp old = Inr x \<Longrightarrow> \<exists>p. x = OCilium p"
  by (auto simp: npMutation_def cnpMutation_def split: sum.splits option.splits)

lemmas shapes = ownBody_shape certMutation_shape npMutation_shape

lemma typed_silent_ops [kept]: "keeps store_ok (emitAll es)" "keeps store_ok (brokerIssue b rn ns n)"
  "keeps store_ok (issueLoop b run reqs acc)" "keeps store_ok (revokeIssuedLeases r run)" "keeps store_ok (ingestOutputConfigMap r run)"
  "keeps store_ok (resolveInterceptionMode r run tpl)"
  by (intro typed_silent touch)+

lemma typed_creds [kept]: "keeps store_ok (reconcileCredentials r run tpl)"
  unfolding reconcileCredentials_def ensureBrokerCredentials_def deleteBrokerCredsSecret_def cachedBrokerCredentials_def
    creds_key_def credsSecret_def Let_def emits
  by (intro kept) (auto dest!: shapes split: creds_outcome.split intro!: kept)

lemma typed_createIfMissing [kept]: "well_placed k x \<Longrightarrow> keeps store_ok (createIfMissing k x)"
  unfolding createIfMissing_def by (intro kept)

lemma typed_deleteIfPresent [kept]: "keeps store_ok (deleteIfPresent k)"
  unfolding deleteIfPresent_def by (intro kept)

lemma typed_prompt [kept]: "keeps store_ok (ensurePromptSecret run)"
  unfolding ensurePromptSecret_def resolvePrompt_def prompt_key_def Let_def by (intro kept) simp_all

lemma typed_tls [kept]: "keeps store_ok (ensureProxyTLS r run)" "keeps store_ok (ensureBrokerCA r run)"
  unfolding ensureProxyTLS_def ensureProxyCACertificate_def ensureBrokerCA_def projectBrokerCA_def copyCAToSecret_def Let_def emits
  by (intro kept; force dest!: shapes)+

lemma typed_policy [kept]: "keeps store_ok (ensureRunNetworkPolicy r run)" "keeps store_ok (deleteRunNetworkPolicy r run)"
  unfolding ensureRunNetworkPolicy_def ensureRunCiliumNetworkPolicy_def deleteRunNetworkPolicy_def withdrawn_def np_key_def cnp_key_def emits
  by (intro kept; force dest!: shapes)+

lemma typed_rbac [kept]: "keeps store_ok (ensureCollectorRBAC run)" "keeps store_ok (ensureOutputConfigMap run)"
  unfolding ensureCollectorRBAC_def ensureOutputConfigMap_def out_key_def Let_def
  by (intro kept; force dest!: shapes)+

lemma typed_job [kept]: "keeps store_ok (ensureJob r run tpl pvc d)"
  unfolding ensureJob_def Let_def job_key_def
  by (intro kept) (simp add: well_placed_def buildJob_def Let_def)

lemma typed_commit [kept]: "keeps store_ok (commitStatus r run orig)" "keeps store_ok (commitThen r run orig res)"
  unfolding commitStatus_def commitThen_def emitTerminalAudit_def emits by (intro kept)+

lemma typed_workspace [kept]:
  "keeps store_ok (clearWorkspaceBinding ws n)" "keeps store_ok (bindWorkspace ws run)" "keeps store_ok (ensureWorkspace run tpl)"
  unfolding clearWorkspaceBinding_def clearFresh_def bindWorkspace_def ensureWorkspace_def Let_def by (intro kept; simp add: well_placed_ws)+

lemma typed_deleteJob [kept]: "(\<And>j. keeps store_ok (announce j)) \<Longrightarrow> keeps store_ok (deleteJob k announce)"
  unfolding deleteJob_def by (intro kept)

lemma typed_reconcileFinish [kept]: "keeps store_ok (reconcileFinish r run ws orig fired after)"
  unfolding reconcileFinish_def emits by (intro kept)

lemma typed_reconcileWatchdog [kept]: "keeps store_ok (reconcileWatchdog r run ws tpl orig)"
  unfolding reconcileWatchdog_def Let_def by (intro kept)

lemma typed_reconcileJob [kept]: "keeps store_ok (reconcileJob r run ws tpl d orig)"
  unfolding reconcileJob_def by (intro kept)

lemma typed_ca [kept]: "keeps store_ok (caMisconfigured r run orig reason msg)" "keeps store_ok (caPending r run orig reason msg)"
  "keeps store_ok (pendingOn r run ws orig reason msg)"
  unfolding caMisconfigured_def caPending_def pendingOn_def emits by (intro kept)+

lemma typed_reconcileBrokerCA [kept]: "keeps store_ok (reconcileBrokerCA r run ws tpl orig)"
  unfolding reconcileBrokerCA_def reconcileMode_def by (intro kept)

lemma typed_reconcileEgress [kept]: "keeps store_ok (reconcileEgress r run ws tpl orig)"
  unfolding reconcileEgress_def by (intro kept)

lemma typed_reconcileLive [kept]: "keeps store_ok (reconcileLive r run)"
  unfolding reconcileLive_def reconcileWorkspace_def reconcileBound_def Let_def by (intro kept)

lemma typed_reconcileDelete [kept]: "keeps store_ok (reconcileDelete r run)"
  unfolding reconcileDelete_def releaseFinalizer_def markCancelled_def by (intro kept)

lemma typed_runReconcile: "keeps store_ok (runReconcile r ns name)"
  unfolding runReconcile_def addFinalizer_def stillLive_def Let_def by (intro kept)

end
