(* ===== verification/Controller_Job.thy ===== *)
theory Controller_Job
  imports Controller_Typing
begin

text \<open>
  What holds when a reconcile creates the Job of a run: the template is resolved, the run holds an active
  workspace, every credential is leased, the proxy's certificate is ready and the mode of interception is
  decided. The proof carries these grounds from the step that establishes each of them to the creation.
\<close>

section \<open>Grounds\<close>

definition cert_ready :: "'s cluster \<Rightarrow> HarnessRun \<Rightarrow> bool" where
  "cert_ready c run \<longleftrightarrow>
     (\<exists>ct. cl_objects c (KCertificate, hr_Namespace run, proxyTLSSecretName (hr_Name run)) = Some (OCertificate ct)
       \<and> (\<exists>cd \<in> set (cert_Conditions ct). cec_Type cd = ''Ready'' \<and> cec_Status cd = ConditionTrue))"

definition holds_workspace :: "'s cluster \<Rightarrow> HarnessRun \<Rightarrow> string \<Rightarrow> bool" where
  "holds_workspace c run wsName \<longleftrightarrow>
     (\<exists>w. cl_objects c (KWorkspace, hr_Namespace run, wsName) = Some (OWorkspace w)
       \<and> wss_Phase (ws_Status w) = WorkspacePhaseActive \<and> wss_ActiveRunRef (ws_Status w) = hr_Name run)"

text \<open>
  A credential has a lease: an unexpired one in the run's status, or one that the broker issued with one
  of the effects \<open>es\<close>.
\<close>

definition issued_by :: "'s reconciler \<Rightarrow> HarnessRun \<Rightarrow> effect list \<Rightarrow> string \<Rightarrow> bool" where
  "issued_by r run es name \<longleftrightarrow>
     (\<exists>b st resp st'. rc_BrokerClient r = Some b \<and> bi_Issue b st (hr_Name run) (hr_Namespace run) name = (Inr resp, st')
       \<and> Issued (hr_Name run) (hr_Namespace run) name (Inr resp) \<in> set es)"

definition has_lease :: "'s reconciler \<Rightarrow> time \<Rightarrow> HarnessRun \<Rightarrow> effect list \<Rightarrow> CredentialRequirement \<Rightarrow> bool" where
  "has_lease r now run es q \<longleftrightarrow> cachedLease now run (cr_Name q) \<noteq> None \<or> issued_by r run es (cr_Name q)"

definition leased :: "'s reconciler \<Rightarrow> 's cluster \<Rightarrow> 's cluster \<Rightarrow> HarnessRun \<Rightarrow> resolvedTemplate \<Rightarrow> bool" where
  "leased r c0 c run tpl \<longleftrightarrow>
     (\<exists>es. cl_log c = cl_log c0 @ es
       \<and> (\<forall>q \<in> set (rq_Credentials (hts_Requires (rt_Spec tpl))). has_lease r (cl_now c0) run es q))"

definition decided :: "'s reconciler \<Rightarrow> kube \<Rightarrow> HarnessRun \<Rightarrow> resolvedTemplate \<Rightarrow> InterceptionDecision \<Rightarrow> bool" where
  "decided r k run tpl d \<longleftrightarrow>
     (if proxyConfigured r
      then \<not> id_Unavailable d \<and> (id_Mode d = InterceptionModeTransparent \<longrightarrow> rc_IPTablesInitImage r \<noteq> [])
        \<and> (\<exists>ms. ListMatchingPolicies k (hr_Namespace run) (rt_SourceName tpl) = Inr ms
             \<and> ResolveInterceptionMode k (hr_Namespace run) ms = Inr d)
      else d = zeroDecision)"

definition certified :: "'s reconciler \<Rightarrow> 's cluster \<Rightarrow> HarnessRun \<Rightarrow> bool" where
  "certified r c run \<longleftrightarrow> (proxyConfigured r \<longrightarrow> cert_ready c run)"

definition run_job :: "'s reconciler \<Rightarrow> HarnessRun \<Rightarrow> resolvedTemplate \<Rightarrow> string \<Rightarrow> string \<Rightarrow> InterceptionDecision \<Rightarrow> Job" where
  "run_job r run tpl wsName pvc d = (buildJob run tpl wsName (podInputs r run tpl pvc d))\<lparr> job_Controller := Some (run_owner run) \<rparr>"

definition no_new_job :: "'s cluster \<Rightarrow> 's cluster \<Rightarrow> bool" where
  "no_new_job c0 c \<longleftrightarrow> (\<forall>k. fst k = KJob \<longrightarrow> cl_objects c0 k = None \<longrightarrow> cl_objects c k = None)"

text \<open>A Job that \<open>c0\<close> does not have is the one of the run, with the grounds for it.\<close>

definition job_grounded :: "'s reconciler \<Rightarrow> 's cluster \<Rightarrow> HarnessRun \<Rightarrow> resolvedTemplate \<Rightarrow> 's cluster \<Rightarrow> bool" where
  "job_grounded r c0 run tpl c \<longleftrightarrow>
     (\<forall>k x. fst k = KJob \<longrightarrow> cl_objects c0 k = None \<longrightarrow> cl_objects c k = Some x \<longrightarrow>
       k = job_key run
       \<and> (\<exists>run' wsName pvc d. hr_Name run' = hr_Name run \<and> hr_Namespace run' = hr_Namespace run \<and> hr_Spec run' = hr_Spec run
            \<and> x = OJob (run_job r run' tpl wsName pvc d)
            \<and> holds_workspace c run wsName \<and> leased r c0 c run tpl \<and> certified r c run \<and> decided r (cl_kube c0) run tpl d))"

section \<open>What keeps the grounds\<close>

lemma has_lease_mono: "has_lease r now run es q \<Longrightarrow> set es \<subseteq> set es' \<Longrightarrow> has_lease r now run es' q"
  unfolding has_lease_def issued_by_def by blast

text \<open>The keys that the steps after the certificate touch.\<close>

definition late_keys :: "okey set" where
  "late_keys = {k. fst k \<notin> {KWorkspace, KJob, KCertificate}}"

lemma late_keys_iff [simp]: "(kd, ns, n) \<in> late_keys \<longleftrightarrow> kd \<notin> {KWorkspace, KJob, KCertificate}" "run_key run \<in> late_keys"
  by (simp_all add: late_keys_def run_key_def)

definition early_keys :: "okey set" where
  "early_keys = {k. fst k \<notin> {KWorkspace, KJob}}"

lemma early_keys_iff [simp]: "run_key run \<in> early_keys" "side_keys \<subseteq> early_keys" "late_keys \<subseteq> early_keys"
  by (auto simp: early_keys_def run_key_def side_keys_def late_keys_def)

text \<open>What is known before the certificate, and before the Job.\<close>

definition early :: "'s cluster \<Rightarrow> HarnessRun \<Rightarrow> string \<Rightarrow> 's cluster \<Rightarrow> bool" where
  "early c0 run wsName c \<longleftrightarrow>
     no_new_job c0 c \<and> holds_workspace c run wsName \<and> cl_kube c = cl_kube c0 \<and> cl_now c = cl_now c0 \<and> (\<exists>es. cl_log c = cl_log c0 @ es)"

definition prepared :: "'s reconciler \<Rightarrow> 's cluster \<Rightarrow> HarnessRun \<Rightarrow> resolvedTemplate \<Rightarrow> string \<Rightarrow> 's cluster \<Rightarrow> bool" where
  "prepared r c0 run tpl wsName c \<longleftrightarrow> early c0 run wsName c \<and> leased r c0 c run tpl"

definition ready :: "'s reconciler \<Rightarrow> 's cluster \<Rightarrow> HarnessRun \<Rightarrow> resolvedTemplate \<Rightarrow> string \<Rightarrow> 's cluster \<Rightarrow> bool" where
  "ready r c0 run tpl wsName c \<longleftrightarrow> prepared r c0 run tpl wsName c \<and> certified r c run"

lemma unchanged_early:
  assumes "unchanged K c c'" "K \<subseteq> early_keys" "early c0 run wsName c"
  shows "early c0 run wsName c'"
proof -
  have obj: "cl_objects c' k = cl_objects c k" if "fst k \<in> {KWorkspace, KJob}" for k
    using assms(1,2) that by (auto simp: unchanged_def early_keys_def)
  show ?thesis using assms(1,3)
    by (auto simp: early_def no_new_job_def holds_workspace_def obj unchanged_def)
qed

lemma unchanged_leased: "unchanged K c c' \<Longrightarrow> leased r c0 c run tpl \<Longrightarrow> leased r c0 c' run tpl"
  unfolding leased_def unchanged_def by (clarsimp) (metis has_lease_mono set_append sup_ge1)

lemma framed_early [simp]: "K \<subseteq> early_keys \<Longrightarrow> framed K (early c0 run wsName)"
  unfolding framed_def by (blast intro: unchanged_early)

lemma framed_prepared [simp]: "K \<subseteq> early_keys \<Longrightarrow> framed K (prepared r c0 run tpl wsName)"
  unfolding framed_def prepared_def by (blast intro: unchanged_early unchanged_leased)

lemma framed_ready [simp]: "framed late_keys (ready r c0 run tpl wsName)"
  unfolding framed_def ready_def prepared_def certified_def cert_ready_def
  by (auto intro: unchanged_early [OF _ early_keys_iff(3)] unchanged_leased simp: unchanged_object)

lemma grounded_early: "early c0 run wsName c \<Longrightarrow> job_grounded r c0 run0 tpl c"
  by (simp add: early_def no_new_job_def job_grounded_def)

lemma grounded_ready: "ready r c0 run tpl wsName c \<Longrightarrow> job_grounded r c0 run0 tpl c"
  unfolding ready_def prepared_def by (blast intro: grounded_early)

lemma framed_grounded:
  assumes "\<And>k. k \<in> K \<Longrightarrow> fst k \<notin> {KWorkspace, KJob, KCertificate}"
  shows "framed K (job_grounded r c0 run tpl)"
  unfolding framed_def
proof (intro allI impI)
  fix c c' assume u: "unchanged K c c'" and g: "job_grounded r c0 run tpl c"
  have obj: "cl_objects c' k = cl_objects c k" if "fst k \<in> {KWorkspace, KJob, KCertificate}" for k
    using u assms that unchanged_object by metis
  have "holds_workspace c' run w = holds_workspace c run w" "certified r c' run = certified r c run" for w
    by (simp_all add: holds_workspace_def certified_def cert_ready_def obj)
  with g show "job_grounded r c0 run tpl c'"
    using unchanged_leased [OF u] unfolding job_grounded_def by (simp add: obj) metis
qed

section \<open>Jobs that vanish\<close>

lemma framed_no_new:
  assumes "\<And>k. k \<in> K \<Longrightarrow> fst k \<noteq> KJob"
  shows "framed K (no_new_job c0)"
proof -
  have "cl_objects c' k = cl_objects c k" if "unchanged K c c'" "fst k = KJob" for c c' :: "'a cluster" and k
    using that assms unchanged_object by metis
  then show ?thesis unfolding framed_def no_new_job_def by metis
qed

lemma keeps_no_new_frame: "touches K m \<Longrightarrow> (\<And>k. k \<in> K \<Longrightarrow> fst k \<noteq> KJob) \<Longrightarrow> keeps (no_new_job c0) m"
  by (rule keeps_frame [OF _ framed_no_new])

lemma keeps_no_new_basic [kept]:
  "keeps (no_new_job c0) (apiGet k)" "keeps (no_new_job c0) (emit e)" "keeps (no_new_job c0) (audit_write sink ev)"
  by (rule keeps_no_new_frame [where K = "{}"]; simp add: touch)+

lemma keeps_no_new_apiDelete [kept]: "keeps (no_new_job c0) (apiDelete k)"
  by (auto simp: keeps_def apiDelete_def api_def Let_def no_new_job_def put_def split: option.splits)

lemma keeps_no_new_clear [kept]: "keeps (no_new_job c0) (clearWorkspaceBinding ws n)"
  by (rule keeps_no_new_frame [where K = "{k. fst k = KWorkspace}"]) (auto intro!: touch simp: ws_key_def)

lemma keeps_no_new_commit [kept]: "keeps (no_new_job c0) (commitStatus r run orig)" "keeps (no_new_job c0) (updateRun run)"
  by (rule keeps_no_new_frame [where K = "{run_key run}"]; auto intro!: touch simp: run_key_def)+

lemma keeps_no_new_deleteJob [kept]: "(\<And>j. keeps (no_new_job c0) (announce j)) \<Longrightarrow> keeps (no_new_job c0) (deleteJob k announce)"
  unfolding deleteJob_def by (intro kept)

lemma keeps_no_new_reconcileFinish [kept]: "keeps (no_new_job c0) (reconcileFinish r run ws orig fired after)"
  unfolding reconcileFinish_def emits by (intro kept)

lemma keeps_no_new_reconcileWatchdog [kept]: "keeps (no_new_job c0) (reconcileWatchdog r run ws tpl orig)"
  unfolding reconcileWatchdog_def Let_def by (intro kept)

lemma keeps_no_new_reconcileDelete [kept]: "keeps (no_new_job c0) (reconcileDelete r run)"
  unfolding reconcileDelete_def releaseFinalizer_def markCancelled_def
  by (intro kept keeps_no_new_frame [OF touches_revokeIssuedLeases [where K = "{}"]]) simp

lemma keeps_no_new_addFinalizer [kept]: "keeps (no_new_job c0) (addFinalizer f run)"
  unfolding addFinalizer_def by (intro kept)

section \<open>The step that creates\<close>

definition same_run :: "HarnessRun \<Rightarrow> HarnessRun \<Rightarrow> bool" where
  "same_run a b \<longleftrightarrow> hr_Name a = hr_Name b \<and> hr_Namespace a = hr_Namespace b \<and> hr_Spec a = hr_Spec b"

lemma same_run_simps [simp]:
  "same_run (onStatus f a) b = same_run a b" "same_run (setCond now t s reason msg a) b = same_run a b" "same_run (setPhase p a) b = same_run a b"
  by (simp_all add: same_run_def setPhase_def)

lemma same_run_keys: "same_run a b \<Longrightarrow> job_key a = job_key b" "same_run a b \<Longrightarrow> run_key a = run_key b"
  by (simp_all add: same_run_def job_key_def jobName_def run_key_def)

definition fresh_job :: "Job \<Rightarrow> bool" where
  "fresh_job job \<longleftrightarrow> job_Conditions job = [] \<and> job_Active job = 0"

lemma run_job_fresh: "fresh_job (run_job r run tpl wsName pvc d)"
  by (simp add: fresh_job_def run_job_def buildJob_def)

lemma ensureJob_grounded:
  assumes "same_run run run0" "hrt_WorkspaceRef (hr_Status run) = wsName" "decided r (cl_kube c0) run0 tpl d"
  shows "triple (ready r c0 run0 tpl wsName) (ensureJob r run tpl pvc d)
     (\<lambda>job c. no_new_job c0 c \<or> fresh_job job \<and> job_grounded r c0 run0 tpl c) (job_grounded r c0 run0 tpl)"
proof -
  let ?job = "run_job r run tpl wsName pvc d"
  have create: "triple (ready r c0 run0 tpl wsName) (apiCreate (job_key run) (OJob ?job)) (\<lambda>_. job_grounded r c0 run0 tpl) (job_grounded r c0 run0 tpl)"
  proof -
    have "job_grounded r c0 run0 tpl (put (job_key run) (Some (OJob ?job)) c)" if "ready r c0 run0 tpl wsName c" for c
    proof -
      have nn: "no_new_job c0 c" and held: "holds_workspace c run0 wsName" and l: "leased r c0 c run0 tpl" and ct: "certified r c run0"
        using that by (auto simp: ready_def prepared_def early_def)
      have "holds_workspace (put (job_key run) v c) run0 wsName" "leased r c0 (put (job_key run) v c) run0 tpl"
        "certified r (put (job_key run) v c) run0" for v
        using held l ct by (simp_all add: holds_workspace_def leased_def certified_def cert_ready_def put_def job_key_def)
      then show ?thesis
        using nn assms unfolding job_grounded_def no_new_job_def same_run_def
        by (auto simp: put_def job_key_def jobName_def split: if_splits) metis+
    qed
    then show ?thesis
      unfolding apiCreate_def by (intro triple_api [of late_keys]) (auto simp: grounded_ready split: option.split)
  qed
  have get: "triple (ready r c0 run0 tpl wsName) (apiGet k) (\<lambda>_. no_new_job c0) (ready r c0 run0 tpl wsName)" for k
    by (rule triple_weaken [OF triple_frame [OF touches_apiGet framed_ready]]) (auto simp: ready_def prepared_def early_def)
  have emit: "triple (job_grounded r c0 run0 tpl) (emit e) (\<lambda>_. job_grounded r c0 run0 tpl) (job_grounded r c0 run0 tpl)" for e
    by (rule keeps_triple, rule keeps_frame [where K = "{}"]) (auto intro: touch framed_grounded)
  show ?thesis
    unfolding ensureJob_def Let_def assms(2) run_job_def [symmetric]
    by (intro vc triple_try [OF get] triple_bnd [OF create] triple_bnd [OF emit]) (auto simp: grounded_ready run_job_fresh)
qed

lemma touches_pending_watchdog:
  "hr_Phase run = PhasePending \<Longrightarrow> touches {run_key run} (reconcileWatchdog r run ws tpl orig)"
  unfolding reconcileWatchdog_def reconcileFinish_def isTerminal_def emits by (simp, intro touch) simp_all

lemma translate_fresh:
  assumes "fresh_job job" "translateJob now job run = (p, run')"
  shows "p = PhasePending" "run_key run' = run_key run"
  using assms by (auto simp: fresh_job_def translateJob_def jobPhase_def Let_def)

lemma touches_late [touch]:
  "touches late_keys (ensureOutputConfigMap run)" "touches late_keys (ensureCollectorRBAC run)" "touches late_keys (ensureBrokerCA r run)"
  "touches late_keys (ensureRunNetworkPolicy r run)" "touches late_keys (deleteRunNetworkPolicy r run)"
  unfolding ensureOutputConfigMap_def ensureCollectorRBAC_def ensureBrokerCA_def projectBrokerCA_def copyCAToSecret_def
    ensureRunNetworkPolicy_def ensureRunCiliumNetworkPolicy_def deleteRunNetworkPolicy_def withdrawn_def out_key_def np_key_def cnp_key_def Let_def emits
  by ((intro touch) ; simp)+

lemma triple_step:
  "touches K m \<Longrightarrow> framed K B \<Longrightarrow> (\<And>c. B c \<Longrightarrow> R c) \<Longrightarrow> (\<And>a. triple B (f a) Q R) \<Longrightarrow> triple B (bnd m f) Q R"
  by (rule triple_bnd [where Q' = "\<lambda>_. B"]) (rule triple_weaken [OF triple_frame], assumption+)

lemma triple_keep: "touches K m \<Longrightarrow> framed K B \<Longrightarrow> (\<And>c. B c \<Longrightarrow> J c) \<Longrightarrow> triple B m (\<lambda>_. J) J"
  by (rule triple_weaken [OF triple_frame]) assumption+

lemma late_step:
  "touches late_keys m \<Longrightarrow> (\<And>a. triple (ready r c0 run tpl w) (f a) Q (job_grounded r c0 run tpl))
    \<Longrightarrow> triple (ready r c0 run tpl w) (bnd m f) Q (job_grounded r c0 run tpl)"
  by (rule triple_step [OF _ framed_ready grounded_ready])

lemma ingest_same: "triple P (ingestOutputConfigMap r run) (\<lambda>run' _. same_run run' run \<and> hrt_WorkspaceRef (hr_Status run') = hrt_WorkspaceRef (hr_Status run)) (\<lambda>_. True)"
  by (auto simp: triple_def ingestOutputConfigMap_def bnd_def attempt_def ret_def throw_def Let_def same_run_def onStatus_def split: sum.splits option.splits prod.splits)

lemma after_ensureJob:
  "triple (\<lambda>c. no_new_job c0 c \<or> fresh_job job \<and> job_grounded r c0 run0 tpl c)
     (case translateJob now job run of (p, run') \<Rightarrow> reconcileWatchdog r (setPhase p run') ws tpl orig)
     (\<lambda>_. job_grounded r c0 run0 tpl) (job_grounded r c0 run0 tpl)"
proof -
  obtain p run' where t: "translateJob now job run = (p, run')" by (cases "translateJob now job run")
  have old: "triple (no_new_job c0) (reconcileWatchdog r (setPhase p run') ws tpl orig) (\<lambda>_. job_grounded r c0 run0 tpl) (job_grounded r c0 run0 tpl)"
    by (rule triple_weaken [OF keeps_triple [OF keeps_no_new_reconcileWatchdog]]) (auto simp: no_new_job_def job_grounded_def)
  have new: "triple (job_grounded r c0 run0 tpl) (reconcileWatchdog r (setPhase p run') ws tpl orig) (\<lambda>_. job_grounded r c0 run0 tpl) (job_grounded r c0 run0 tpl)"
    if "fresh_job job"
    using translate_fresh [OF that t]
    by (intro triple_frame [OF touches_pending_watchdog framed_grounded]) (auto simp: setPhase_def onStatus_def run_key_def)
  show ?thesis unfolding t using old new by (auto simp: triple_def)
qed

lemma reconcileJob_grounded:
  assumes "same_run run run0" "hrt_WorkspaceRef (hr_Status run) = wsName" "decided r (cl_kube c0) run0 tpl d"
  shows "triple (ready r c0 run0 tpl wsName) (reconcileJob r run ws tpl d orig) (\<lambda>_. job_grounded r c0 run0 tpl) (job_grounded r c0 run0 tpl)"
proof -
  have ingest: "triple (ready r c0 run0 tpl wsName) (ingestOutputConfigMap r run)
      (\<lambda>run' c. ready r c0 run0 tpl wsName c \<and> same_run run' run \<and> hrt_WorkspaceRef (hr_Status run') = wsName) (job_grounded r c0 run0 tpl)"
    by (rule triple_weaken [OF triple_and [OF triple_frame [OF touches_output(2) framed_ready] ingest_same]])
      (auto simp: assms(2) intro: grounded_ready)
  have job: "triple (\<lambda>c. ready r c0 run0 tpl wsName c \<and> same_run run' run \<and> hrt_WorkspaceRef (hr_Status run') = wsName)
      (ensureJob r run' tpl pvc d) (\<lambda>job c. no_new_job c0 c \<or> fresh_job job \<and> job_grounded r c0 run0 tpl c) (job_grounded r c0 run0 tpl)" for run' pvc
    using ensureJob_grounded [of run' run0 wsName r c0 tpl d pvc] assms by (auto simp: triple_def same_run_def)
  show ?thesis
    unfolding reconcileJob_def
    by (rule late_step [OF touches_late(1)], rule late_step [OF touches_late(2)], rule late_step)
      (auto intro: touch triple_bnd [OF ingest] triple_bnd [OF job] triple_pre [OF after_ensureJob] triple_now)
qed

section \<open>The steps before\<close>

lemma reconcileMode_grounded:
  assumes "same_run run run0" "hrt_WorkspaceRef (hr_Status run) = wsName" "proxyConfigured r"
  shows "triple (ready r c0 run0 tpl wsName) (reconcileMode r run ws tpl orig) (\<lambda>_. job_grounded r c0 run0 tpl) (job_grounded r c0 run0 tpl)"
proof -
  have mode: "triple (ready r c0 run0 tpl wsName) (resolveInterceptionMode r run tpl)
      (\<lambda>d c. ready r c0 run0 tpl wsName c \<and> (\<not> id_Unavailable d \<longrightarrow> decided r (cl_kube c0) run0 tpl d)) (job_grounded r c0 run0 tpl)"
    using assms(1,3) unfolding resolveInterceptionMode_def triple_def
    by (auto simp: bnd_def getKube_def ret_def throw_def decided_def same_run_def ready_def prepared_def early_def grounded_early split: sum.splits)
  have fail: "triple (ready r c0 run0 tpl wsName) (bnd (emit e) (\<lambda>_. commitThen r run' orig res)) (\<lambda>_. job_grounded r c0 run0 tpl) (job_grounded r c0 run0 tpl)" for e run' res
    by (rule triple_keep [OF _ framed_ready grounded_ready]) (intro touch, simp)
  have go: "triple (\<lambda>c. ready r c0 run0 tpl wsName c \<and> decided r (cl_kube c0) run0 tpl d)
      (reconcileJob r (setCond now t s reason msg run) ws tpl d orig) (\<lambda>_. job_grounded r c0 run0 tpl) (job_grounded r c0 run0 tpl)"
    for d now t s reason msg
    using reconcileJob_grounded [of "setCond now t s reason msg run" run0 wsName r c0 tpl d ws orig] assms
    by (auto simp: triple_def setCond_def onStatus_def same_run_def)
  show ?thesis
    unfolding reconcileMode_def if_distrib [of "\<lambda>x. reconcileJob r x ws tpl _ orig"]
    by (rule triple_now, rule triple_pre, rule triple_bnd [OF mode], rule triple_if)
      (auto intro!: go triple_if intro: triple_pre [OF fail])
qed

lemma reconcileBrokerCA_grounded:
  assumes "same_run run run0" "hrt_WorkspaceRef (hr_Status run) = wsName" "proxyConfigured r"
  shows "triple (ready r c0 run0 tpl wsName) (reconcileBrokerCA r run ws tpl orig) (\<lambda>_. job_grounded r c0 run0 tpl) (job_grounded r c0 run0 tpl)"
proof -
  have stop: "triple (ready r c0 run0 tpl wsName) m (\<lambda>_. job_grounded r c0 run0 tpl) (job_grounded r c0 run0 tpl)" if "touches late_keys m" for m :: "('a, Result) op"
    by (rule triple_keep [OF that framed_ready grounded_ready])
  have ca: "triple (ready r c0 run0 tpl wsName) (ensureBrokerCA r run) (\<lambda>_. ready r c0 run0 tpl wsName) (ready r c0 run0 tpl wsName)"
    by (rule triple_frame [OF touches_late(3) framed_ready])
  show ?thesis
    unfolding reconcileBrokerCA_def
    by (rule triple_try [OF ca]; rule triple_if)
      (auto intro!: stop touch reconcileMode_grounded [OF assms] simp: caMisconfigured_def caPending_def emits)
qed

lemma certificate_ready:
  assumes "same_run run run0" "proxyConfigured r"
  shows "triple (prepared r c0 run0 tpl wsName) (ensureProxyTLS r run)
     (\<lambda>ok c. if ok then ready r c0 run0 tpl wsName c else prepared r c0 run0 tpl wsName c) (prepared r c0 run0 tpl wsName)"
proof -
  let ?P = "prepared r c0 run0 tpl wsName" and ?k = "(KCertificate, hr_Namespace run, proxyTLSSecretName (hr_Name run))"
  have fr: "framed side_keys ?P" by simp
  have up: "triple ?P (upsert what ?k f) (\<lambda>_. ?P) ?P" for what f
    by (rule triple_frame [OF touches_upsert fr]) simp
  have cert: "triple ?P (ensureProxyCACertificate own (hr_Namespace run) (proxyTLSSecretName (hr_Name run)) cn ci d rb lbls)
      (\<lambda>(created, ok) c. if ok then ready r c0 run0 tpl wsName c else ?P c) ?P" for own cn ci d rb lbls
    unfolding ensureProxyCACertificate_def Let_def
    by (rule triple_bnd [OF up], rule triple_try [OF triple_apiGet [OF fr]])
      (use assms in \<open>auto simp: triple_def throw_def ret_def ready_def certified_def cert_ready_def same_run_def split: option.split object.splits
         elim!: kind_of.elims\<close>)
  have emits: "triple (\<lambda>c. if ok then ready r c0 run0 tpl wsName c else ?P c) (EmitCAProjected s n ns sn)
      (\<lambda>_ c. if ok then ready r c0 run0 tpl wsName c else ?P c) ?P" for ok s n ns sn
    unfolding EmitCAProjected_def
    by (cases ok) (auto intro: triple_weaken [OF triple_frame [OF touches_audit_write framed_ready]] triple_frame [OF touches_audit_write fr] simp: ready_def)
  show ?thesis
    unfolding ensureProxyTLS_def
    by (rule triple_if, rule triple_ret, simp, rule triple_bnd [OF cert], clarify)
      (rule triple_if, rule triple_bnd [OF emits], rule triple_ret, assumption, rule triple_ret, assumption)
qed

lemma has_lease_append: "has_lease r now run es q \<Longrightarrow> has_lease r now run (es @ es') q"
  by (rule has_lease_mono) auto

lemma has_lease_issued:
  "rc_BrokerClient r = Some b \<Longrightarrow> bi_Issue b st (hr_Name run) (hr_Namespace run) (cr_Name q) = (Inr resp, st')
    \<Longrightarrow> has_lease r now run (es @ [Issued (hr_Name run) (hr_Namespace run) (cr_Name q) (Inr resp)]) q"
  unfolding has_lease_def issued_by_def by (rule disjI2) fastforce

definition log_leased :: "'s reconciler \<Rightarrow> 's cluster \<Rightarrow> HarnessRun \<Rightarrow> CredentialRequirement set \<Rightarrow> 's cluster \<Rightarrow> bool" where
  "log_leased r c0 run D c \<longleftrightarrow> (\<exists>es. cl_log c = cl_log c0 @ es \<and> (\<forall>q \<in> D. has_lease r (cl_now c0) run es q))"

lemma issueLoop_leased:
  assumes "same_run run run0" "rc_BrokerClient r = Some b"
  shows "triple (log_leased r c0 run0 D) (issueLoop b run reqs acc)
    (\<lambda>res c. case res of Inr _ \<Rightarrow> log_leased r c0 run0 (D \<union> set reqs) c | Inl out \<Rightarrow> \<forall>cs ls. out \<noteq> CredsReady cs ls) (\<lambda>_. True)"
proof (induction reqs arbitrary: D acc)
  case Nil
  show ?case by (simp add: triple_ret)
next
  case (Cons q qs)
  have step: "triple (log_leased r c0 run0 D) (brokerIssue b (hr_Name run) (hr_Namespace run) (cr_Name q))
      (\<lambda>x c. case x of Inr _ \<Rightarrow> log_leased r c0 run0 (insert q D) c | Inl _ \<Rightarrow> True) (\<lambda>_. True)"
    using assms unfolding triple_def brokerIssue_def log_leased_def
    by (auto simp: same_run_def has_lease_append split: prod.splits sum.split intro: has_lease_issued)
  have insert_qs: "D \<union> set (q # qs) = insert q D \<union> set qs" by auto
  show ?case
    unfolding issueLoop.simps
  proof (rule triple_bnd [OF step])
    fix x
    show "triple (\<lambda>c. case x of Inr _ \<Rightarrow> log_leased r c0 run0 (insert q D) c | Inl _ \<Rightarrow> True)
      (case x of Inl err \<Rightarrow> if IsBrokerCodeFatal err then ret (Inl (CredsFatal ''BrokerDenied'' (client_Error err))) else ret (Inl CredsTransient)
       | Inr resp \<Rightarrow> issueLoop b run qs (acc @ [(cr_Name q, resp)]))
      (\<lambda>res c. case res of Inr _ \<Rightarrow> log_leased r c0 run0 (D \<union> set (q # qs)) c | Inl out \<Rightarrow> \<forall>cs ls. out \<noteq> CredsReady cs ls) (\<lambda>_. True)"
      using Cons.IH [of "insert q D"] unfolding insert_qs by (cases x) (simp_all add: triple_ret)
  qed
qed

lemma leased_log: "leased r c0 c run tpl \<longleftrightarrow> log_leased r c0 run (set (rq_Credentials (hts_Requires (rt_Spec tpl)))) c"
  by (simp add: leased_def log_leased_def)

lemma framed_log_leased [simp]: "framed K (log_leased r c0 run D)"
  unfolding framed_def log_leased_def unchanged_def by (auto simp: has_lease_append simp del: split_paired_All)

lemma those_all: "those (map f xs) = Some ys \<Longrightarrow> x \<in> set xs \<Longrightarrow> f x \<noteq> None"
  by (induction xs arbitrary: ys) (auto split: option.splits)

lemma cached_leased:
  assumes "\<And>n. cachedLease (cl_now c0) run n = cachedLease (cl_now c0) run0 n"
  shows "triple (\<lambda>c. log_leased r c0 run0 {} c \<and> cl_now c = cl_now c0) (cachedBrokerCredentials r run reqs)
    (\<lambda>res c. case res of Some _ \<Rightarrow> log_leased r c0 run0 (set reqs) c | None \<Rightarrow> log_leased r c0 run0 {} c) (\<lambda>_. True)"
proof -
  let ?found = "those (map (\<lambda>q. cachedLease (cl_now c0) run (cr_Name q)) reqs)"
  have all: "log_leased r c0 run0 (set reqs) c" if "log_leased r c0 run0 {} c" "?found = Some ys" for c ys
    using that those_all [OF that(2)] by (auto simp: log_leased_def has_lease_def assms)
  have frame: "log_leased r c0 run0 {} (snd (m c))" if "touches UNIV m" "log_leased r c0 run0 {} c" for m :: "('a, 'x) op" and c
    using keeps_frame [OF that(1) framed_log_leased] that(2) by (simp add: keeps_def)
  have t: "touches UNIV (cachedBrokerCredentials r run reqs)"
    unfolding cachedBrokerCredentials_def Let_def emits by (intro touch) simp_all
  show ?thesis
    unfolding triple_def
  proof (intro allI impI)
    fix c assume c: "log_leased r c0 run0 {} c \<and> cl_now c = cl_now c0"
    obtain x c' where run: "cachedBrokerCredentials r run reqs c = (x, c')" by fastforce
    then have c': "log_leased r c0 run0 {} c'" using frame [OF t, of c] c by simp
    have "x \<noteq> Inr (Some y)" if "?found = None" for y
      using run that c by (auto simp: cachedBrokerCredentials_def bnd_def getNow_def ret_def split: if_splits)
    then show "case cachedBrokerCredentials r run reqs c of (Inl e, c') \<Rightarrow> True
      | (Inr res, c') \<Rightarrow> (case res of Some _ \<Rightarrow> log_leased r c0 run0 (set reqs) c' | None \<Rightarrow> log_leased r c0 run0 {} c')"
      using all c' unfolding run by (auto split: sum.split option.split)
  qed
qed

lemma silent_leased: "touches UNIV m \<Longrightarrow> triple (log_leased r c0 run D) m (\<lambda>_. log_leased r c0 run D) (\<lambda>_. True)"
  by (rule triple_weaken [OF triple_frame [OF _ framed_log_leased]]) simp_all

lemma ensureBrokerCredentials_leased:
  assumes "same_run run run0" "\<And>n. cachedLease (cl_now c0) run n = cachedLease (cl_now c0) run0 n"
  shows "triple (early c0 run0 wsName) (ensureBrokerCredentials r run tpl)
    (\<lambda>out c. (\<exists>cs ls. out = CredsReady cs ls) \<longrightarrow> leased r c0 c run0 tpl) (\<lambda>_. True)"
proof -
  let ?reqs = "rq_Credentials (hts_Requires (rt_Spec tpl))"
  have start: "early c0 run0 wsName c \<Longrightarrow> log_leased r c0 run0 {} c \<and> cl_now c = cl_now c0" for c
    by (auto simp: early_def log_leased_def)
  have loop: "triple (log_leased r c0 run0 {}) (issueLoop b run (sort_key cr_Name ?reqs) [])
      (\<lambda>res c. case res of Inr _ \<Rightarrow> log_leased r c0 run0 (set ?reqs) c | Inl out \<Rightarrow> \<forall>cs ls. out \<noteq> CredsReady cs ls) (\<lambda>_. True)"
    if "rc_BrokerClient r = Some b" for b
    using issueLoop_leased [OF assms(1) that, of c0 "{}" "sort_key cr_Name ?reqs" "[]"] unfolding set_sort Un_empty_left .
  have cached: "triple (early c0 run0 wsName) (cachedBrokerCredentials r run (sort_key cr_Name ?reqs))
      (\<lambda>res c. case res of Some _ \<Rightarrow> log_leased r c0 run0 (set ?reqs) c | None \<Rightarrow> log_leased r c0 run0 {} c) (\<lambda>_. True)"
    using triple_pre [OF cached_leased [OF assms(2), of r "sort_key cr_Name ?reqs"] start] unfolding set_sort .
  have keep: "triple (log_leased r c0 run0 (set ?reqs)) (bnd m (\<lambda>_. bnd n (\<lambda>_. ret x))) (\<lambda>out c. (\<exists>cs ls. out = CredsReady cs ls) \<longrightarrow> log_leased r c0 run0 (set ?reqs) c) (\<lambda>_. True)"
    if "touches UNIV m" "touches UNIV n" for m :: "('a, 'x) op" and n :: "('a, 'y) op" and x
    by (rule triple_bnd [OF silent_leased [OF that(1)]], rule triple_bnd [OF silent_leased [OF that(2)]], rule triple_ret) simp
  show ?thesis
    unfolding ensureBrokerCredentials_def Let_def leased_log
  proof (rule triple_if)
    assume none: "?reqs = []"
    show "triple (early c0 run0 wsName) (bnd (deleteBrokerCredsSecret run) (\<lambda>_. ret (CredsReady [] [])))
      (\<lambda>out c. (\<exists>cs ls. out = CredsReady cs ls) \<longrightarrow> log_leased r c0 run0 (set ?reqs) c) (\<lambda>_. True)"
      unfolding none
      by (rule triple_pre, rule triple_bnd [OF silent_leased [where D = "{}" and r = r]])
        (auto simp: deleteBrokerCredsSecret_def start intro!: vc touch)
  next
    assume "?reqs \<noteq> []"
    show "triple (early c0 run0 wsName) (case rc_BrokerClient r of
        None \<Rightarrow> ret (CredsFatal ''BrokerNotConfigured'' ''controller has no --broker-endpoint configured; runs against templates with spec.requires cannot proceed'')
      | Some b \<Rightarrow> bnd (cachedBrokerCredentials r run (sort_key cr_Name ?reqs)) (\<lambda>cached. case cached of
          Some (cs, ls) \<Rightarrow> ret (CredsReady cs ls)
        | None \<Rightarrow> bnd (issueLoop b run (sort_key cr_Name ?reqs) []) (\<lambda>res. case res of
            Inl stop \<Rightarrow> ret stop
          | Inr rs \<Rightarrow> bnd (upsert ''upserting broker-creds secret'' (creds_key run) (credsSecret run (issuedData rs))) (\<lambda>_.
              bnd (EmitCredentialIssuedSummary (rc_Audit r) (hr_Name run) (hr_Namespace run) (length rs)) (\<lambda>_.
              ret (CredsReady (map (\<lambda>(n, x). statusOf n x) rs) (map (\<lambda>(n, x). leaseOf n x) rs)))))))
      (\<lambda>out c. (\<exists>cs ls. out = CredsReady cs ls) \<longrightarrow> log_leased r c0 run0 (set ?reqs) c) (\<lambda>_. True)"
      by (auto split: option.split sum.split intro!: triple_ret triple_bnd [OF cached] triple_bnd [OF loop] keep touch simp: emits)
  qed
qed

lemma wsRef_simps [simp]:
  "hrt_WorkspaceRef (hr_Status (setCond now t s reason msg run)) = hrt_WorkspaceRef (hr_Status run)"
  "hrt_WorkspaceRef (hr_Status (setPhase p run)) = hrt_WorkspaceRef (hr_Status run)"
  by (simp_all add: setCond_def setPhase_def onStatus_def)

lemma issuedStatus_same: "same_run (issuedStatus now tpl creds leases run) run"
  "hrt_WorkspaceRef (hr_Status (issuedStatus now tpl creds leases run)) = hrt_WorkspaceRef (hr_Status run)"
  by (simp_all add: issuedStatus_def Let_def same_run_def onStatus_def)

definition bound_to :: "HarnessRun \<Rightarrow> string \<Rightarrow> HarnessRun \<Rightarrow> bool" where
  "bound_to run0 wsName run \<longleftrightarrow> same_run run run0 \<and> hrt_WorkspaceRef (hr_Status run) = wsName"

definition after_credentials ::
  "'s reconciler \<Rightarrow> 's cluster \<Rightarrow> HarnessRun \<Rightarrow> resolvedTemplate \<Rightarrow> string \<Rightarrow> credentialsOutcome \<times> HarnessRun \<Rightarrow> 's cluster \<Rightarrow> bool" where
  "after_credentials r c0 run0 tpl wsName x c \<longleftrightarrow>
     bound_to run0 wsName (snd x) \<and> early c0 run0 wsName c \<and> (fst x = CredProceed \<longrightarrow> prepared r c0 run0 tpl wsName c)"

lemma reconcileCredentials_prepared:
  assumes "bound_to run0 wsName run" "\<And>n. cachedLease (cl_now c0) run n = cachedLease (cl_now c0) run0 n"
  shows "triple (early c0 run0 wsName) (reconcileCredentials r run tpl) (after_credentials r c0 run0 tpl wsName) (early c0 run0 wsName)"
proof -
  have same: "same_run run run0" using assms(1) by (simp add: bound_to_def)
  have ens: "triple (early c0 run0 wsName) (ensureBrokerCredentials r run tpl)
      (\<lambda>out c. early c0 run0 wsName c \<and> ((\<exists>cs ls. out = CredsReady cs ls) \<longrightarrow> leased r c0 c run0 tpl)) (early c0 run0 wsName)"
    by (rule triple_weaken [OF triple_and [OF triple_frame [OF touches_creds framed_early] ensureBrokerCredentials_leased [OF same assms(2)]]])
      (auto simp: early_keys_def creds_key_def)
  have emitAll: "triple (prepared r c0 run0 tpl wsName) (emitAll es) (\<lambda>_. prepared r c0 run0 tpl wsName) (early c0 run0 wsName)" for es
    by (rule triple_weaken [OF triple_frame [OF touches_emitAll framed_prepared]]) (auto simp: prepared_def)
  have issued: "bound_to run0 wsName (issuedStatus now tpl cs ls run)" for now cs ls
    using assms(1) issuedStatus_same [of now tpl cs ls run] by (auto simp: bound_to_def same_run_def)
  have fin: "triple (\<lambda>c. early c0 run0 wsName c \<and> leased r c0 c run0 tpl) (bnd (emitAll es) (\<lambda>_. ret (CredProceed, issuedStatus now tpl cs ls run)))
      (after_credentials r c0 run0 tpl wsName) (early c0 run0 wsName)" for es now cs ls
    by (rule triple_pre [OF triple_bnd [OF emitAll]]) (auto simp: prepared_def after_credentials_def issued intro!: triple_ret)
  have moved: "bound_to run0 wsName (setPhase p (setCond now t s reason msg run))" for p now t s reason msg
    using assms(1) by (simp add: bound_to_def)
  show ?thesis
    unfolding reconcileCredentials_def
    by (rule triple_now, rule triple_pre, rule triple_bnd [OF ens])
      (use assms(1) in \<open>auto split: creds_outcome.split intro!: triple_ret fin simp: after_credentials_def moved\<close>)
qed

lemma reconcileEgress_grounded:
  assumes "bound_to run0 wsName run"
  shows "triple (prepared r c0 run0 tpl wsName) (reconcileEgress r run ws tpl orig) (\<lambda>_. job_grounded r c0 run0 tpl) (job_grounded r c0 run0 tpl)"
proof -
  have same: "same_run run run0" and ref: "hrt_WorkspaceRef (hr_Status run) = wsName" using assms by (simp_all add: bound_to_def)
  have prep: "prepared r c0 run0 tpl wsName c \<Longrightarrow> job_grounded r c0 run0 tpl c" for c
    unfolding prepared_def by (blast intro: grounded_early)
  have stop: "triple (prepared r c0 run0 tpl wsName) m (\<lambda>_. job_grounded r c0 run0 tpl) (job_grounded r c0 run0 tpl)" if "touches early_keys m" for m :: "('a, Result) op"
    by (rule triple_keep [OF that _ prep]) simp_all
  have off: "triple (prepared r c0 run0 tpl wsName) (reconcileJob r (setCond now t s reason msg run) ws tpl zeroDecision orig)
      (\<lambda>_. job_grounded r c0 run0 tpl) (job_grounded r c0 run0 tpl)" if "\<not> proxyConfigured r" for now t s reason msg
    by (rule triple_pre [OF reconcileJob_grounded]) (use that same ref in \<open>auto simp: ready_def certified_def decided_def\<close>)
  have on: "triple (\<lambda>c. if ok then ready r c0 run0 tpl wsName c else prepared r c0 run0 tpl wsName c)
      (if \<not> ok then caPending r run orig ''ProxyCAPending'' msg else reconcileBrokerCA r run ws tpl orig)
      (\<lambda>_. job_grounded r c0 run0 tpl) (job_grounded r c0 run0 tpl)" if "proxyConfigured r" for ok msg
    using reconcileBrokerCA_grounded [OF same ref that, of c0 tpl ws orig]
    by (cases ok) (auto intro!: stop touch)
  show ?thesis
    unfolding reconcileEgress_def
    apply (rule triple_if, rule triple_try [OF certificate_ready [OF same] on]; assumption?)
    subgoal for e by (cases e) (auto intro!: stop touch)
    by (rule triple_now, rule triple_pre [OF off]) auto
qed

lemma cachedLease_status [simp]:
  "cachedLease now' (setCond now t s reason msg run) n = cachedLease now' run n"
  "cachedLease now' (onStatus (\<lambda>st. st\<lparr> hrt_WorkspaceRef := w \<rparr>) run) n = cachedLease now' run n"
  "cachedLease now' (onStatus (\<lambda>st. st\<lparr> hrt_ObservedGeneration := g \<rparr>) run) n = cachedLease now' run n"
  "cachedLease now' (pinNetworkPolicyEnforced r run) n = cachedLease now' run n"
  by (simp_all add: cachedLease_def setCond_def onStatus_def pinNetworkPolicyEnforced_def split: option.split)

lemma reconcileBound_grounded:
  assumes "bound_to run0 wsName run" "\<And>now n. cachedLease now run n = cachedLease now run0 n"
  shows "triple (early c0 run0 wsName) (reconcileBound r run ws tpl orig) (\<lambda>_. job_grounded r c0 run0 tpl) (job_grounded r c0 run0 tpl)"
proof -
  have stop: "triple (early c0 run0 wsName) m (\<lambda>_. job_grounded r c0 run0 tpl) (job_grounded r c0 run0 tpl)" if "touches early_keys m" for m :: "('a, Result) op"
    by (rule triple_keep [OF that _ grounded_early]) simp_all
  have prompt: "triple (early c0 run0 wsName) (ensurePromptSecret run) (\<lambda>_. early c0 run0 wsName) (early c0 run0 wsName)"
    by (rule triple_frame [OF touches_ensurePromptSecret]) simp
  have creds: "triple (early c0 run0 wsName) (reconcileCredentials r (setCond now t s reason msg run) tpl)
      (after_credentials r c0 run0 tpl wsName) (job_grounded r c0 run0 tpl)" for now t s reason msg
    by (rule triple_weaken [OF reconcileCredentials_prepared])
      (use assms in \<open>auto simp: bound_to_def intro: grounded_early\<close>)
  have commit: "triple (prepared r c0 run0 tpl wsName) (commitStatus r run' orig) (\<lambda>_. prepared r c0 run0 tpl wsName) (job_grounded r c0 run0 tpl)" for run'
    by (rule triple_weaken [OF triple_frame [OF touches_commitStatus framed_prepared]]) (auto simp: prepared_def intro: grounded_early)
  have go: "triple (after_credentials r c0 run0 tpl wsName (out, run'))
      (case out of CredFail reason msg \<Rightarrow> commitStatus r (failRun now ''BrokerReady'' reason msg run') orig
       | CredRequeue \<Rightarrow> commitThen r run' orig (RequeueAfter (10 * second))
       | CredProceed \<Rightarrow> bnd (commitStatus r run' orig) (\<lambda>_. reconcileEgress r run' ws tpl (hr_Status run')))
      (\<lambda>_. job_grounded r c0 run0 tpl) (job_grounded r c0 run0 tpl)" for out run' now
  proof (cases "bound_to run0 wsName run'")
    case True
    then have seq: "triple (prepared r c0 run0 tpl wsName) (bnd (commitStatus r run' orig) (\<lambda>_. reconcileEgress r run' ws tpl (hr_Status run')))
      (\<lambda>_. job_grounded r c0 run0 tpl) (job_grounded r c0 run0 tpl)"
      by (intro triple_bnd [OF commit] reconcileEgress_grounded)
    show ?thesis
    proof (cases out)
      case CredProceed
      then show ?thesis by (auto simp: after_credentials_def intro: triple_pre [OF seq])
    qed (auto simp: after_credentials_def intro!: triple_pre [OF stop] touch)
  qed (simp add: after_credentials_def triple_def)
  show ?thesis
    unfolding reconcileBound_def
    by (rule triple_now, rule triple_pre, rule triple_try [OF prompt], rule triple_bnd [OF creds])
      (auto intro!: go stop touch split: ctl_error.split)
qed

definition stored_ws :: "'s cluster \<Rightarrow> HarnessRun \<Rightarrow> Workspace \<Rightarrow> bool" where
  "stored_ws c run ws \<longleftrightarrow> cl_objects c (ws_key ws) = Some (OWorkspace ws) \<and> ws_Namespace ws = hr_Namespace run"

definition begun :: "'s cluster \<Rightarrow> 's cluster \<Rightarrow> bool" where
  "begun c0 c \<longleftrightarrow> no_new_job c0 c \<and> cl_kube c = cl_kube c0 \<and> cl_now c = cl_now c0 \<and> (\<exists>es. cl_log c = cl_log c0 @ es)"

lemma framed_begun: "(\<And>k. k \<in> K \<Longrightarrow> fst k \<noteq> KJob) \<Longrightarrow> framed K (begun c0)"
  using framed_no_new [of K c0] unfolding framed_def begun_def by (metis append.assoc unchanged_def)

lemma begun_grounded: "begun c0 c \<Longrightarrow> job_grounded r c0 run tpl c"
  by (simp add: begun_def no_new_job_def job_grounded_def)

lemma framed_store_ok: "framed {} store_ok"
  by (simp add: framed_def store_ok_def unchanged_def)

lemma ensureWorkspace_stored:
  "triple store_ok (ensureWorkspace run tpl) (\<lambda>w c. case w of Some ws \<Rightarrow> stored_ws c run ws | None \<Rightarrow> True) (\<lambda>_. True)"
proof -
  have get: "triple store_ok (apiGet (KWorkspace, hr_Namespace run, n)) (\<lambda>x c. stored_ws c run (the_workspace x)) store_ok" for n
    by (rule triple_weaken [OF triple_apiGet [OF framed_store_ok]])
      (auto simp: stored_ws_def ws_key_def dest!: store_okD simp: well_placed_def elim!: kind_of.elims)
  have create: "triple store_ok (apiCreate (ws_key ws) (OWorkspace ws)) (\<lambda>_ c. cl_objects c (ws_key ws) = Some (OWorkspace ws)) (\<lambda>_. True)" for ws
    unfolding apiCreate_def by (rule triple_api [OF framed_store_ok]) (auto simp: put_def split: option.split)
  have emit: "triple (\<lambda>c. cl_objects c k = Some x) (emit e) (\<lambda>_ c. cl_objects c k = Some x) (\<lambda>_. True)" for k x e
    by (simp add: triple_def emit_def)
  have key: "ws_key (ephemeralWorkspace run) = (KWorkspace, hr_Namespace run, ephemeralWSName run)"
    by (simp add: ws_key_def ephemeralWorkspace_def)
  have get': "triple store_ok (apiGet (ws_key (ephemeralWorkspace run))) (\<lambda>x c. stored_ws c run (the_workspace x)) store_ok"
    unfolding key by (rule get)
  have ns: "ws_Namespace (ephemeralWorkspace run) = hr_Namespace run"
    by (simp add: ephemeralWorkspace_def)
  have get1: "triple store_ok (apiGet (KWorkspace, hr_Namespace run, n)) (\<lambda>x c. stored_ws c run (the_workspace x)) (\<lambda>_. True)" for n
    by (rule triple_weaken [OF get]) simp_all
  show ?thesis
    unfolding ensureWorkspace_def Let_def
    by (rule triple_if, rule triple_bnd [OF get1])
      (auto intro!: vc triple_try [OF get'] triple_bnd [OF create] triple_bnd [OF emit] simp: stored_ws_def ns simp del: split_paired_All)
qed

lemma bindWorkspace_holds:
  assumes "wss_Phase (ws_Status ws) = WorkspacePhaseActive"
  shows "triple (\<lambda>c. stored_ws c run ws) (bindWorkspace ws run) (\<lambda>(bound, ws') c. bound \<longrightarrow> holds_workspace c run (ws_Name ws')) (\<lambda>_. True)"
  using assms
  by (auto simp: triple_def bindWorkspace_def bnd_def getNow_def attempt_def ret_def throw_def updateWorkspaceStatus_def api_def Let_def
      stored_ws_def holds_workspace_def ws_key_def bindUpdate_def onWs_def put_def split: option.split sum.split object.split)

lemma early_begun: "begun c0 c \<Longrightarrow> holds_workspace c run wsName \<Longrightarrow> early c0 run wsName c"
  by (simp add: begun_def early_def)

lemma ws_keys_jobless: "k \<in> {k. fst k \<in> {KHarnessRun, KWorkspace}} \<Longrightarrow> fst k \<noteq> KJob"
  by auto

lemma holds_workspace_same: "same_run run run0 \<Longrightarrow> holds_workspace c run w = holds_workspace c run0 w"
  by (simp add: holds_workspace_def same_run_def)

lemma reconcileWorkspace_grounded:
  assumes "same_run run run0" "\<And>now n. cachedLease now run n = cachedLease now run0 n"
  shows "triple (\<lambda>c. begun c0 c \<and> store_ok c) (reconcileWorkspace r run tpl orig) (\<lambda>_. job_grounded r c0 run0 tpl) (job_grounded r c0 run0 tpl)"
proof -
  let ?K = "{k. fst k \<in> {KHarnessRun, KWorkspace}} :: okey set"
  have fr: "framed ?K (begun c0)" by (rule framed_begun) (rule ws_keys_jobless)
  have stop: "triple (begun c0) m (\<lambda>_. job_grounded r c0 run0 tpl) (job_grounded r c0 run0 tpl)" if "touches ?K m" for m :: "('a, Result) op"
    by (rule triple_keep [OF that fr begun_grounded])
  have ensure: "triple (\<lambda>c. begun c0 c \<and> store_ok c) (ensureWorkspace run tpl)
      (\<lambda>w c. begun c0 c \<and> (case w of Some ws \<Rightarrow> stored_ws c run ws | None \<Rightarrow> True)) (job_grounded r c0 run0 tpl)"
    by (rule triple_weaken [OF triple_both [OF triple_frame [OF _ fr] ensureWorkspace_stored]])
      (auto intro!: touch begun_grounded simp: ws_key_def)
  have bind: "triple (\<lambda>c. begun c0 c \<and> stored_ws c run ws) (bindWorkspace ws run)
      (\<lambda>x c. begun c0 c \<and> (fst x \<longrightarrow> early c0 run0 (ws_Name (snd x)) c)) (job_grounded r c0 run0 tpl)"
    if "wss_Phase (ws_Status ws) = WorkspacePhaseActive" for ws
    by (rule triple_weaken [OF triple_both [OF triple_frame [OF _ fr] bindWorkspace_holds [OF that]]])
      (auto intro!: touch begun_grounded intro: early_begun simp: ws_key_def holds_workspace_same [OF assms(1)])
  have go: "triple (early c0 run0 (ws_Name ws)) (reconcileBound r
        (onStatus (\<lambda>st. st\<lparr> hrt_WorkspaceRef := ws_Name ws \<rparr>) (setCond now t s reason msg run)) ws tpl orig)
      (\<lambda>_. job_grounded r c0 run0 tpl) (job_grounded r c0 run0 tpl)" for ws now t s reason msg
    by (rule reconcileBound_grounded) (use assms in \<open>auto simp: bound_to_def onStatus_def same_run_def cachedLease_status(2) [unfolded onStatus_def]\<close>)
  have held: "triple (\<lambda>c. begun c0 c \<and> stored_ws c run ws) (bnd (bindWorkspace ws run) (\<lambda>(bound, ws).
        if \<not> bound then pendingOn r run ws orig (reason1 ws) (msg1 ws)
        else reconcileBound r (onStatus (\<lambda>st. st\<lparr> hrt_WorkspaceRef := ws_Name ws \<rparr>) (setCond now t s reason (msg2 ws) run)) ws tpl orig))
      (\<lambda>_. job_grounded r c0 run0 tpl) (job_grounded r c0 run0 tpl)"
    if "wss_Phase (ws_Status ws) = WorkspacePhaseActive" for ws now t s reason reason1 msg1 msg2
    by (rule triple_bnd [OF bind [OF that]], clarify, rule triple_if, rule triple_pre [OF stop])
      (auto intro!: touch intro: triple_pre [OF go] simp: run_key_def)
  show ?thesis
    unfolding reconcileWorkspace_def
    apply (rule triple_now, rule triple_pre, rule triple_bnd [OF ensure])
    subgoal for now w
      by (cases w) (auto intro!: stop touch triple_if held intro: triple_pre [OF stop] simp: run_key_def)
    by simp
qed

lemma pin_fields [simp]:
  "hr_Name (pinNetworkPolicyEnforced r run) = hr_Name run" "hr_Namespace (pinNetworkPolicyEnforced r run) = hr_Namespace run"
  "hr_Spec (pinNetworkPolicyEnforced r run) = hr_Spec run" "same_run (pinNetworkPolicyEnforced r run) run0 = same_run run run0"
  by (simp_all add: pinNetworkPolicyEnforced_def)

lemma resolveTemplate_status [simp]: "resolveTemplate ord k (pinNetworkPolicyEnforced r (onStatus f run)) = resolveTemplate ord k run"
  by (simp add: resolveTemplate_def Let_def)

text \<open>A live run: a Job that is new stands on the grounds above, for the template that is resolved.\<close>

definition live_grounded :: "'s reconciler \<Rightarrow> 's cluster \<Rightarrow> HarnessRun \<Rightarrow> 's cluster \<Rightarrow> bool" where
  "live_grounded r c0 run c \<longleftrightarrow>
     no_new_job c0 c \<or> (\<exists>tpl. resolveTemplate (rc_order r) (cl_kube c0) run = Inr tpl \<and> job_grounded r c0 run tpl c)"

lemma reconcileLive_grounded:
  "triple (\<lambda>c. begun c0 c \<and> store_ok c) (reconcileLive r run) (\<lambda>_. live_grounded r c0 run) (live_grounded r c0 run)"
proof -
  let ?run = "pinNetworkPolicyEnforced r (onStatus (\<lambda>st. st\<lparr> hrt_ObservedGeneration := hr_Generation run \<rparr>) run)"
  have ws: "triple (\<lambda>c. begun c0 c \<and> store_ok c) (reconcileWorkspace r (setCond now t s reason msg ?run) tpl (hr_Status run))
      (\<lambda>_. live_grounded r c0 run) (live_grounded r c0 run)"
    if "resolveTemplate (rc_order r) (cl_kube c0) run = Inr tpl" for tpl now t s reason msg
    by (rule triple_weaken [OF reconcileWorkspace_grounded [where ?run0.0 = run]])
      (use that in \<open>auto simp: live_grounded_def same_run_def\<close>)
  have stop: "triple (\<lambda>c. begun c0 c \<and> store_ok c) (commitStatus r run' orig) (\<lambda>_. live_grounded r c0 run) (live_grounded r c0 run)" for run' orig
    by (rule triple_weaken [OF keeps_triple [OF keeps_no_new_commit(1)]]) (auto simp: live_grounded_def begun_def)
  have begun_live: "begun c0 c \<Longrightarrow> live_grounded r c0 run c" for c by (simp add: live_grounded_def begun_def)
  have decide: "triple (\<lambda>c. (begun c0 c \<and> store_ok c) \<and> cl_kube c = k)
      (case resolveTemplate (rc_order r) k run of
         Inl err \<Rightarrow> if IsNotFound err then commitStatus r (failRun now ty reason msg ?run) (hr_Status run) else throw (ApiErr err)
       | Inr tpl \<Rightarrow> reconcileWorkspace r (setCond now t s reason' (msg' tpl) ?run) tpl (hr_Status run))
      (\<lambda>_. live_grounded r c0 run) (live_grounded r c0 run)" for k now ty reason msg t s reason' msg'
  proof (cases "k = cl_kube c0")
    case True
    show ?thesis
      by (rule triple_pre [where P' = "\<lambda>c. begun c0 c \<and> store_ok c"])
        (auto simp: True begun_live split: sum.split intro!: stop ws triple_if triple_throw)
  qed (auto simp: triple_def begun_def)
  show ?thesis
    unfolding reconcileLive_def Let_def resolveTemplate_status
    by (rule triple_now, rule triple_pre, rule triple_kube, rule decide) simp
qed

lemma stillLive_silent: "touches {} (stillLive run)"
  unfolding stillLive_def by (intro touch)

text \<open>A run that a reconcile carries on: not being deleted, with both finalizers.\<close>

definition admitted :: "HarnessRun \<Rightarrow> bool" where
  "admitted run \<longleftrightarrow>
     hr_DeletionTimestamp run = None \<and> HarnessRunFinalizer \<in> set (hr_Finalizers run) \<and> BrokerLeasesFinalizer \<in> set (hr_Finalizers run)"

lemma runReconcile_grounded:
  assumes "store_ok c0" "cl_objects c0 (KHarnessRun, ns, name) = Some (ORun run)"
  shows "live_grounded r c0 run (snd (runReconcile r ns name c0)) \<and> (no_new_job c0 (snd (runReconcile r ns name c0)) \<or> admitted run)"
proof -
  let ?P = "\<lambda>c. begun c0 c \<and> store_ok c \<and> cl_objects c (KHarnessRun, ns, name) = Some (ORun run)"
  let ?G = "\<lambda>c. live_grounded r c0 run c \<and> (no_new_job c0 c \<or> admitted run)"
  have fr: "framed {} ?P"
    using framed_begun [of "{}" c0] framed_store_ok unfolding framed_def by (metis empty_iff unchanged_object)
  have weak: "?P c \<Longrightarrow> ?G c" for c by (simp add: begun_def live_grounded_def)
  have off: "triple ?P m (\<lambda>_. ?G) ?G" if "keeps (no_new_job c0) m" for m :: "('a, Result) op"
    by (rule triple_weaken [OF keeps_triple [OF that]]) (auto simp: begun_def live_grounded_def)
  have get: "triple ?P (apiGet (KHarnessRun, ns, name)) (\<lambda>x c. ?P c \<and> x = ORun run) ?P"
    by (rule triple_weaken [OF triple_apiGet [OF fr]]) auto
  have live: "triple ?P (reconcileLive r run) (\<lambda>_. ?G) ?G" if "admitted run"
    by (rule triple_weaken [OF reconcileLive_grounded [of c0 r run]]) (use that in auto)
  have still: "triple ?P (bnd (stillLive run) (\<lambda>go. if go then reconcileLive r run else ret Done)) (\<lambda>_. ?G) ?G" if "admitted run"
    by (rule triple_step [OF stillLive_silent fr weak], assumption) (intro triple_if live that off kept)
  have go: "triple (\<lambda>c. ?P c \<and> x = ORun run) (let run = the_run x in
          if hr_DeletionTimestamp run \<noteq> None then reconcileDelete r run
          else if HarnessRunFinalizer \<notin> set (hr_Finalizers run) then addFinalizer HarnessRunFinalizer run
          else if BrokerLeasesFinalizer \<notin> set (hr_Finalizers run) then addFinalizer BrokerLeasesFinalizer run
          else bnd (stillLive run) (\<lambda>go. if go then reconcileLive r run else ret Done)) (\<lambda>_. ?G) ?G" for x
  proof (cases "x = ORun run")
    case True
    show ?thesis
      unfolding True Let_def object.sel
      by (rule triple_pre [where P' = ?P]) (intro triple_if off kept still, simp_all add: admitted_def)
  qed (simp add: triple_def)
  have "triple ?P (runReconcile r ns name) (\<lambda>_. ?G) ?G"
    unfolding runReconcile_def by (rule triple_try [OF get go]) (intro triple_if off kept)
  from triple_same [OF this, of c0] assms show ?thesis by (simp add: begun_def no_new_job_def)
qed

end
