(* ===== verification/Controller_Start.thy ===== *)
theory Controller_Start
  imports Controller_Job
begin

text \<open>
  A run on a healthy cluster starts: when no call fails, the template resolves, the workspace is active
  and free, the broker grants, and the certificate of the proxy is ready, one reconcile creates the Job.
  The triples of this theory have \<open>False\<close> as their predicate of failure: the operation returns.
\<close>

section \<open>Calls that succeed\<close>

abbreviation sure :: "('s cluster \<Rightarrow> bool) \<Rightarrow> ('s, 'a) op \<Rightarrow> ('a \<Rightarrow> 's cluster \<Rightarrow> bool) \<Rightarrow> bool" where
  "sure P m Q \<equiv> triple P m Q (\<lambda>_. False)"

definition healthy :: "'s cluster \<Rightarrow> bool" where
  "healthy c \<longleftrightarrow> cl_faults c = (\<lambda>_. None)"

lemma triple_False [simp]: "triple (\<lambda>_. False) m Q R"
  by (simp add: triple_def)

lemma triple_given: "(b \<Longrightarrow> triple P m Q R) \<Longrightarrow> triple (\<lambda>c. P c \<and> b) m Q R"
  by (cases b) simp_all

lemma triple_carry: "(b \<Longrightarrow> triple P m Q R) \<Longrightarrow> triple (\<lambda>c. P c \<and> b) m (\<lambda>a c. Q a c \<and> b) R"
  by (cases b) simp_all

lemma triple_kube_at: "(\<And>c. P c \<Longrightarrow> cl_kube c = k) \<Longrightarrow> triple P (f k) Q R \<Longrightarrow> triple P (bnd getKube f) Q R"
  by (simp add: triple_def bnd_def getKube_def)

lemma sureD: "sure P m Q \<Longrightarrow> P c \<Longrightarrow> \<exists>a c'. m c = (Inr a, c') \<and> Q a c'"
  unfolding triple_def by (cases "m c"; cases "fst (m c)") fastforce+

lemma sureI: "(\<And>c. P c \<Longrightarrow> \<exists>a c'. m c = (Inr a, c') \<and> Q a c') \<Longrightarrow> sure P m Q"
  by (force simp: triple_def)

lemma triple_any_now: "(\<And>now. triple P (f now) Q R) \<Longrightarrow> triple P (bnd getNow f) Q R"
  by (simp add: triple_def bnd_def getNow_def)

lemma framed_healthy [simp]: "framed K healthy"
  by (auto simp: framed_def healthy_def unchanged_def)

lemma framed_conj [simp]: "framed K P \<Longrightarrow> framed K Q \<Longrightarrow> framed K (\<lambda>c. P c \<and> Q c)"
  by (auto simp: framed_def)

lemma framed_at [simp]: "k \<notin> K \<Longrightarrow> framed K (\<lambda>c. A (cl_objects c k))"
  by (auto simp: framed_def dest: unchanged_object)

lemma framed_sub: "framed K P \<Longrightarrow> K' \<subseteq> K \<Longrightarrow> framed K' P"
  unfolding framed_def by (meson unchanged_mono)

lemma sure_api:
  assumes "framed K P" "\<And>c. P c \<Longrightarrow> healthy c" "\<And>c. P c \<Longrightarrow> (case act c of (Inr a, c') \<Rightarrow> Q a c' | (Inl e, c') \<Rightarrow> False)"
  shows "sure P (api act) Q"
  unfolding triple_def
proof (intro allI impI)
  fix c assume c: "P c"
  then have P: "P (c\<lparr> cl_calls := Suc (cl_calls c) \<rparr>)" using assms(1) by (rule framed_calls [rotated])
  then show "case api act c of (Inr a, c') \<Rightarrow> Q a c' | (Inl e, c') \<Rightarrow> False"
    using assms(2) [OF c] assms(3) [OF P] by (auto simp: api_def Let_def healthy_def split: option.split sum.splits prod.splits)
qed

lemma framed_put: "framed {k} P \<Longrightarrow> P c \<Longrightarrow> P (put k v c)"
  unfolding framed_def by (meson insertI1 unchanged_put)

lemma sure_get:
  "framed {} P \<Longrightarrow> (\<And>c. P c \<Longrightarrow> healthy c) \<Longrightarrow> (\<And>c. P c \<Longrightarrow> \<exists>x. cl_objects c k = Some x \<and> kind_of x = fst k)
    \<Longrightarrow> sure P (apiGet k) (\<lambda>x c. P c \<and> cl_objects c k = Some x)"
  unfolding apiGet_def by (rule sure_api) (force split: option.split)+

lemma framed_absent: "framed {k} P \<Longrightarrow> framed {} (\<lambda>c. P c \<and> cl_objects c k = None)"
  unfolding framed_def by (metis emptyE unchanged_mono empty_subsetI unchanged_object)

lemma sure_create:
  assumes "framed {k} P" "\<And>c. P c \<Longrightarrow> healthy c"
  shows "sure (\<lambda>c. P c \<and> cl_objects c k = None) (apiCreate k x) (\<lambda>_ c. P c \<and> cl_objects c k = Some x)"
  unfolding apiCreate_def
  by (rule sure_api [OF framed_absent [OF assms(1)]]) (use assms in \<open>auto simp: framed_put, simp add: put_def\<close>)

text \<open>A read of an object that is missing, and what the caller does then.\<close>

lemma sure_missing:
  assumes "framed {} P" "\<And>c. P c \<Longrightarrow> healthy c" "\<And>c. P c \<Longrightarrow> cl_objects c k = None"
    and "\<And>e. is_NotFound e \<Longrightarrow> sure P (f e) Q"
  shows "sure P (bnd (attempt (apiGet k)) (\<lambda>x. case x of Inl e \<Rightarrow> f e | Inr a \<Rightarrow> g a)) Q"
  unfolding triple_def
proof (intro allI impI)
  fix c assume c: "P c"
  let ?c = "c\<lparr> cl_calls := Suc (cl_calls c) \<rparr>" and ?e = "ApiErr (NotFound ''not found'')"
  have "P ?c" using assms(1) c by (rule framed_calls)
  moreover have "apiGet k c = (Inl ?e, ?c)"
    using assms(2,3) [OF c] by (simp add: apiGet_def api_def healthy_def)
  moreover have "is_NotFound ?e" by (simp add: is_NotFound_def IsNotFound_def)
  ultimately show "case bnd (attempt (apiGet k)) (\<lambda>x. case x of Inl e \<Rightarrow> f e | Inr a \<Rightarrow> g a) c of (Inr a, c') \<Rightarrow> Q a c' | (Inl e, c') \<Rightarrow> False"
    using assms(4) [of ?e] by (simp add: bnd_def attempt_def triple_def)
qed

lemma sure_frame: "sure P m (\<lambda>_ _. True) \<Longrightarrow> touches K m \<Longrightarrow> framed K B \<Longrightarrow> (\<And>c. B c \<Longrightarrow> P c) \<Longrightarrow> sure B m (\<lambda>_. B)"
  using triple_and [OF triple_pre [of P m "\<lambda>_ _. True" "\<lambda>_. False" B] triple_frame [of K m B]] by (auto simp: triple_def)

lemma sure_createIfMissing:
  assumes "framed {k} P" "\<And>c. P c \<Longrightarrow> healthy c"
  shows "sure (\<lambda>c. P c \<and> cl_objects c k = None) (createIfMissing k x) (\<lambda>_. P)"
  unfolding createIfMissing_def
  by (rule sure_missing [OF framed_absent [OF assms(1)]]) (use assms in \<open>auto intro: triple_weaken [OF sure_create [OF assms]]\<close>)

lemma bnd_ret: "bnd (ret x) f = f x"
  by (rule ext) (simp add: bnd_def ret_def)

lemma sure_upsert_new:
  assumes "framed {k} P" "\<And>c. P c \<Longrightarrow> healthy c" "f None = Inr x"
  shows "sure (\<lambda>c. P c \<and> cl_objects c k = None) (upsert what k f) (\<lambda>res c. P c \<and> res = OpCreated)"
proof -
  have create: "sure (\<lambda>c. P c \<and> cl_objects c k = None) (bnd (apiCreate k x) (\<lambda>_. ret OpCreated)) (\<lambda>res c. P c \<and> res = OpCreated)"
    by (rule triple_bnd [OF sure_create [OF assms(1,2)]]) (auto intro: triple_ret)
  have "sure (\<lambda>c. P c \<and> cl_objects c k = None) (createOrUpdate k f) (\<lambda>res c. P c \<and> res = OpCreated)"
    unfolding createOrUpdate_def assms(3) liftE_def sum.case bnd_ret
    by (rule sure_missing [OF framed_absent [OF assms(1)]]) (use assms create in auto)
  then show ?thesis unfolding upsert_def by (rule triple_try) (auto simp: triple_def ret_def)
qed

section \<open>The parts of a reconcile\<close>

text \<open>The keys of the objects beside the run, its workspace, its certificate and its Job.\<close>

definition rbac_keys :: "HarnessRun \<Rightarrow> okey list" where
  "rbac_keys run = map (\<lambda>kd. (kd, hr_Namespace run, collectorSAName run)) [KServiceAccount, KRole, KRoleBinding]"

definition ca_key :: "HarnessRun \<Rightarrow> okey" where
  "ca_key run = (KSecret, hr_Namespace run, brokerCASecretName (hr_Name run))"

definition side_of :: "HarnessRun \<Rightarrow> okey set" where
  "side_of run = {prompt_key run, creds_key run, ca_key run, out_key run, np_key run, cnp_key run} \<union> set (rbac_keys run)"

lemma sure_audit: "framed K P \<Longrightarrow> sure P (audit_write sink ev) (\<lambda>_. P)"
  by (rule sure_frame [OF _ touches_audit_write]) (auto simp: triple_def audit_write_def bnd_def getNow_def emit_def ret_def)

lemma sure_prompt:
  assumes "framed {prompt_key run} P" "\<And>c. P c \<Longrightarrow> healthy c" "hrs_Prompt (hr_Spec run) \<noteq> []"
  shows "sure (\<lambda>c. P c \<and> cl_objects c (prompt_key run) = None) (ensurePromptSecret run) (\<lambda>_. P)"
  using assms(3) unfolding ensurePromptSecret_def resolvePrompt_def Let_def
  by (simp add: bnd_ret)
    (rule sure_missing [OF framed_absent [OF assms(1)]], use assms(2) in \<open>auto intro: triple_weaken [OF sure_create [OF assms(1,2)]]\<close>)

definition run_there :: "HarnessRun \<Rightarrow> 's cluster \<Rightarrow> bool" where
  "run_there run c \<longleftrightarrow> (\<exists>x. cl_objects c (run_key run) = Some (ORun x))"

lemma framed_run_there: "run_key run \<notin> K \<Longrightarrow> framed K (run_there run)"
  unfolding run_there_def framed_def by (metis unchanged_object)

text \<open>The run is stored with a property that a write of the status keeps.\<close>

definition run_such :: "(HarnessRun \<Rightarrow> bool) \<Rightarrow> HarnessRun \<Rightarrow> 's cluster \<Rightarrow> bool" where
  "run_such D run c \<longleftrightarrow> (\<exists>x. cl_objects c (run_key run) = Some (ORun x) \<and> D x)"

lemma framed_run_such: "run_key run \<notin> K \<Longrightarrow> framed K (run_such D run)"
  unfolding run_such_def framed_def by (metis unchanged_object)

lemma sure_commit_such:
  assumes "framed {run_key run} P" "\<And>c. P c \<Longrightarrow> healthy c" "\<And>x st. D x \<Longrightarrow> D (x\<lparr> hr_Status := st \<rparr>)"
  shows "sure (\<lambda>c. P c \<and> run_such D run c) (commitStatus r run orig) (\<lambda>_ c. P c \<and> run_such D run c)"
proof -
  let ?P = "\<lambda>c. P c \<and> run_such D run c"
  have fr: "framed {} ?P" using assms(1) by (intro framed_conj framed_run_such) (auto intro: framed_sub)
  have upd: "sure ?P (updateRunStatus run) (\<lambda>_. ?P)"
    unfolding updateRunStatus_def
    by (rule sure_api [OF fr]) (use assms in \<open>auto simp: run_such_def framed_put, auto simp add: put_def\<close>)
  have aud: "sure ?P (emitTerminalAudit r run) (\<lambda>_. ?P)"
    unfolding emitTerminalAudit_def emits
    by (auto simp: split_beta intro!: triple_if triple_bnd [OF sure_audit [OF fr]] sure_audit [OF fr] triple_ret)
  have aud': "sure ?P (if b then emitTerminalAudit r run else ret ()) (\<lambda>_. ?P)" for b
    by (intro triple_if aud triple_ret)
  show ?thesis
    unfolding commitStatus_def
    by (rule triple_if, rule triple_ret, assumption, rule triple_bnd [OF aud'], rule triple_try [OF upd], rule triple_ret) (auto simp: triple_def)
qed

lemma sure_commit:
  assumes "framed {run_key run} P" "\<And>c. P c \<Longrightarrow> healthy c"
  shows "sure (\<lambda>c. P c \<and> run_there run c) (commitStatus r run orig) (\<lambda>_ c. P c \<and> run_there run c)"
  using sure_commit_such [OF assms, of "\<lambda>_. True" r orig] by (simp add: run_such_def run_there_def)

text \<open>A set of keys that hold nothing yet, beside what the rest of a reconcile needs.\<close>

definition absent :: "('s cluster \<Rightarrow> bool) \<Rightarrow> okey set \<Rightarrow> 's cluster \<Rightarrow> bool" where
  "absent P S c \<longleftrightarrow> P c \<and> healthy c \<and> (\<forall>k \<in> S. cl_objects c k = None)"

lemma framed_absent_set: "framed K P \<Longrightarrow> K \<inter> S = {} \<Longrightarrow> framed K (absent P S)"
  unfolding framed_def absent_def by (metis disjoint_iff framed_def framed_healthy unchanged_object)

lemma absent_healthy: "absent P S c \<Longrightarrow> healthy c" by (simp add: absent_def)

lemma absent_insert: "absent P (insert k S) c \<longleftrightarrow> absent P S c \<and> cl_objects c k = None" by (auto simp: absent_def)

lemma absent_createIfMissing:
  "framed {k} P \<Longrightarrow> k \<notin> S \<Longrightarrow> sure (absent P (insert k S)) (createIfMissing k x) (\<lambda>_. absent P S)"
  unfolding absent_insert by (rule sure_createIfMissing) (auto intro: framed_absent_set absent_healthy)

lemma absent_upsert:
  "framed {k} P \<Longrightarrow> k \<notin> S \<Longrightarrow> f None = Inr x \<Longrightarrow> sure (absent P (insert k S)) (upsert what k f) (\<lambda>res c. absent P S c \<and> res = OpCreated)"
  unfolding absent_insert by (rule sure_upsert_new) (auto intro: framed_absent_set absent_healthy)

lemma absent_rbac:
  assumes "framed (side_of run) P" "set (rbac_keys run) \<inter> S = {}"
  shows "sure (absent P (set (rbac_keys run) \<union> S)) (ensureCollectorRBAC run) (\<lambda>_. absent P S)"
proof -
  let ?k = "\<lambda>kd. (kd, hr_Namespace run, collectorSAName run)"
  have fr: "framed {?k kd} P" if "kd \<in> {KServiceAccount, KRole, KRoleBinding}" for kd
    using assms(1) by (rule framed_sub) (use that in \<open>auto simp: side_of_def rbac_keys_def\<close>)
  have wrapped: "sure P1 (bnd (attempt m) (\<lambda>x. case x of Inl e \<Rightarrow> throw (wrap what e) | Inr _ \<Rightarrow> ret ())) (\<lambda>_. P2)"
    if "sure P1 m (\<lambda>_. P2)" for P1 P2 what and m :: "('a, unit) op"
    by (rule triple_try [OF that]) (auto simp: triple_def ret_def)
  have keys: "set (rbac_keys run) \<union> S = insert (?k KServiceAccount) (insert (?k KRole) (insert (?k KRoleBinding) S))"
    by (auto simp: rbac_keys_def)
  show ?thesis
    unfolding ensureCollectorRBAC_def Let_def keys
    by (rule triple_bnd [OF wrapped [OF absent_createIfMissing]], rule fr, simp, use assms(2) in \<open>simp add: rbac_keys_def\<close>,
        rule triple_bnd [OF absent_upsert], rule fr, simp, use assms(2) in \<open>simp add: rbac_keys_def\<close>,
        simp add: ownBody_def setController_def Let_def,
        rule triple_pre [OF wrapped [OF absent_createIfMissing]], rule fr, simp, use assms(2) in \<open>simp_all add: rbac_keys_def\<close>)
qed

text \<open>A handler that sees the error.\<close>

lemma triple_handle:
  assumes "\<And>c. P c \<Longrightarrow> (case m c of (Inr a, c') \<Rightarrow> Q' a c' | (Inl e, c') \<Rightarrow> E e c')"
    and "\<And>a. triple (Q' a) (g a) Q R" "\<And>e. triple (E e) (f e) Q R"
  shows "triple P (bnd (attempt m) (\<lambda>x. case x of Inl e \<Rightarrow> f e | Inr a \<Rightarrow> g a)) Q R"
proof (rule triple_bnd [where Q' = "\<lambda>x c. case x of Inr a \<Rightarrow> Q' a c | Inl e \<Rightarrow> E e c"])
  show "triple P (attempt m) (\<lambda>x c. case x of Inr a \<Rightarrow> Q' a c | Inl e \<Rightarrow> E e c) R"
    using assms(1) by (fastforce simp: triple_def attempt_def split: sum.splits)
  show "triple (\<lambda>c. case x of Inr a \<Rightarrow> Q' a c | Inl e \<Rightarrow> E e c) (case x of Inl e \<Rightarrow> f e | Inr a \<Rightarrow> g a) Q R" for x
    using assms(2,3) by (cases x) simp_all
qed

lemma sure_not_found: "(is_NotFound e \<Longrightarrow> sure P m Q) \<Longrightarrow> sure (\<lambda>c. P c \<and> is_NotFound e) m Q"
  by (auto simp: triple_def)

text \<open>Reads and deletions fail only with a missing object.\<close>

lemma sure_either:
  assumes "\<And>c. P c \<Longrightarrow> healthy c" "framed {} P"
    and "\<And>e. is_NotFound e \<Longrightarrow> sure P (f e) Q" "\<And>x. sure P (g x) Q"
  shows "sure P (bnd (attempt (apiGet k)) (\<lambda>x. case x of Inl e \<Rightarrow> f e | Inr a \<Rightarrow> g a)) Q"
proof (rule triple_handle [where Q' = "\<lambda>_. P" and E = "\<lambda>e c. P c \<and> is_NotFound e"])
  fix c assume "P c"
  from framed_calls [OF assms(2) this] assms(1) [OF this]
  show "case apiGet k c of (Inr a, c') \<Rightarrow> P c' | (Inl e, c') \<Rightarrow> P c' \<and> is_NotFound e"
    by (auto simp: apiGet_def api_def healthy_def Let_def is_NotFound_def IsNotFound_def split: option.split)
qed (auto intro: sure_not_found assms)

lemma sure_delete:
  assumes "\<And>c. P c \<Longrightarrow> healthy c" "framed {k} P"
    and "\<And>e. is_NotFound e \<Longrightarrow> sure P (f e) Q" "\<And>x. sure P (g x) Q"
  shows "sure P (bnd (attempt (apiDelete k)) (\<lambda>x. case x of Inl e \<Rightarrow> f e | Inr a \<Rightarrow> g a)) Q"
proof (rule triple_handle [where Q' = "\<lambda>_. P" and E = "\<lambda>e c. P c \<and> is_NotFound e"])
  fix c assume "P c"
  from framed_calls [OF assms(2) this] assms(1) [OF this] framed_put [OF assms(2)]
  show "case apiDelete k c of (Inr a, c') \<Rightarrow> P c' | (Inl e, c') \<Rightarrow> P c' \<and> is_NotFound e"
    by (auto simp: apiDelete_def api_def healthy_def Let_def is_NotFound_def IsNotFound_def split: option.split)
qed (auto intro: sure_not_found assms)

lemma sure_ret: "sure P (ret x) (\<lambda>_. P)"
  by (rule triple_ret)

lemma sure_deleteIfPresent: "(\<And>c. P c \<Longrightarrow> healthy c) \<Longrightarrow> framed {k} P \<Longrightarrow> sure P (deleteIfPresent k) (\<lambda>_. P)"
  unfolding deleteIfPresent_def by (intro sure_either sure_delete; simp add: sure_ret framed_sub [of "{k}"])

lemma sure_deleteBrokerCredsSecret:
  "(\<And>c. P c \<Longrightarrow> healthy c) \<Longrightarrow> framed {creds_key run} P \<Longrightarrow> sure P (deleteBrokerCredsSecret run) (\<lambda>_. P)"
  unfolding deleteBrokerCredsSecret_def by (intro sure_either sure_delete; simp add: sure_ret framed_sub [of "{creds_key run}"])

lemma sure_deletePolicy:
  "(\<And>c. P c \<Longrightarrow> healthy c) \<Longrightarrow> framed (side_of run) P \<Longrightarrow> sure P (deleteRunNetworkPolicy r run) (\<lambda>_. P)"
  unfolding deleteRunNetworkPolicy_def
  by (intro triple_bnd [OF sure_deleteIfPresent] triple_if sure_deleteIfPresent sure_ret)
    (auto intro: framed_sub simp: side_of_def)

lemma sure_ingest:
  assumes "\<And>c. P c \<Longrightarrow> healthy c" "framed {} P"
  shows "sure P (ingestOutputConfigMap r run) (\<lambda>run' c. P c \<and> same_run run' run \<and> hrt_WorkspaceRef (hr_Status run') = hrt_WorkspaceRef (hr_Status run))"
proof -
  have "sure P (ingestOutputConfigMap r run) (\<lambda>_. P)"
    unfolding ingestOutputConfigMap_def Let_def by (intro sure_either assms triple_if; simp add: sure_ret)
  from triple_and [OF this ingest_same] show ?thesis by (rule triple_weaken) auto
qed

lemma setController_new [simp]: "setController own None = Inr (Some own)"
  by (simp add: setController_def)

lemma sure_withdrawn: "framed {} P \<Longrightarrow> sure P (withdrawn r run what res) (\<lambda>_. P)"
  unfolding withdrawn_def emits by (auto intro!: triple_if sure_audit triple_ret)

lemma absent_sub: "absent P S' c \<Longrightarrow> S \<subseteq> S' \<Longrightarrow> absent P S c"
  by (auto simp: absent_def)

lemma absent_policy:
  assumes "framed (side_of run) P" "np_key run \<notin> S" "cnp_key run \<notin> S"
  shows "sure (absent P (insert (np_key run) (insert (cnp_key run) S))) (ensureRunNetworkPolicy r run) (\<lambda>_. absent P S)"
proof -
  have fr: "framed {k} P" if "k \<in> {np_key run, cnp_key run}" for k
    using assms(1) by (rule framed_sub) (use that in \<open>auto simp: side_of_def\<close>)
  have fr0: "framed {} (absent P S)" by (rule framed_absent_set [OF framed_sub [OF assms(1)]]) auto
  have wd: "sure (\<lambda>c. absent P S c \<and> res = OpCreated) (withdrawn r run what res) (\<lambda>_. absent P S)" for what res
    by (rule triple_pre [OF sure_withdrawn [OF fr0]]) simp
  have np: "sure (absent P (insert (np_key run) (insert (cnp_key run) S))) (upsert what (np_key run) (npMutation own pol)) (\<lambda>res c. absent P S c \<and> res = OpCreated)" for what own pol
    by (rule triple_pre [OF absent_upsert [OF fr assms(2)]]) (auto simp: npMutation_def absent_def)
  have cnp: "sure (absent P (insert (np_key run) (insert (cnp_key run) S))) (upsert what (cnp_key run) (cnpMutation own pol)) (\<lambda>res c. absent P S c \<and> res = OpCreated)" for what own pol
    by (rule triple_pre [OF absent_upsert [OF fr assms(3)]]) (auto simp: cnpMutation_def absent_def)
  show ?thesis
    unfolding ensureRunNetworkPolicy_def ensureRunCiliumNetworkPolicy_def
    by (intro triple_if triple_bnd [OF np wd] triple_bnd [OF cnp wd] triple_ret) (auto simp: absent_def)
qed

text \<open>The broker grants every credential of the template.\<close>

definition grants :: "'s reconciler \<Rightarrow> HarnessRun \<Rightarrow> resolvedTemplate \<Rightarrow> bool" where
  "grants r run tpl \<longleftrightarrow>
     rq_Credentials (hts_Requires (rt_Spec tpl)) = []
     \<or> (\<exists>b. rc_BrokerClient r = Some b
         \<and> (\<forall>q \<in> set (rq_Credentials (hts_Requires (rt_Spec tpl))). \<forall>st. \<not> isl (fst (bi_Issue b st (hr_Name run) (hr_Namespace run) (cr_Name q)))))"

lemma sure_issueLoop:
  assumes "framed {} P" "\<And>q st. q \<in> set qs \<Longrightarrow> \<not> isl (fst (bi_Issue b st (hr_Name run) (hr_Namespace run) (cr_Name q)))"
  shows "sure P (issueLoop b run qs acc) (\<lambda>res c. P c \<and> \<not> isl res)"
  using assms(2)
proof (induction qs arbitrary: acc)
  case Nil
  show ?case by (simp add: triple_ret)
next
  case (Cons q qs)
  have step: "sure P (brokerIssue b (hr_Name run) (hr_Namespace run) (cr_Name q)) (\<lambda>x c. P c \<and> \<not> isl x)"
  proof (rule triple_weaken [OF triple_and [OF triple_frame [OF touches_brokerIssue assms(1)]]])
    show "sure P (brokerIssue b (hr_Name run) (hr_Namespace run) (cr_Name q)) (\<lambda>x _. \<not> isl x)"
      using Cons.prems [of q] by (auto simp: triple_def brokerIssue_def split_beta)
  qed auto
  have rest: "sure P (issueLoop b run qs acc') (\<lambda>res c. P c \<and> \<not> isl res)" for acc' by (rule Cons.IH) (rule Cons.prems, simp)
  show ?case
    unfolding issueLoop.simps
    by (rule triple_bnd [OF step]) (auto split: sum.split intro: triple_pre [OF rest])
qed

lemma absent_credentials:
  assumes "framed (side_of run) P" "creds_key run \<notin> S" "grants r run tpl"
  shows "sure (absent P (insert (creds_key run) S)) (reconcileCredentials r run tpl)
    (\<lambda>x c. absent P S c \<and> fst x = CredProceed \<and> same_run (snd x) run \<and> hrt_WorkspaceRef (hr_Status (snd x)) = hrt_WorkspaceRef (hr_Status run))"
proof -
  let ?reqs = "rq_Credentials (hts_Requires (rt_Spec tpl))" and ?P = "absent P (insert (creds_key run) S)"
  have frk: "framed {creds_key run} P" using assms(1) by (rule framed_sub) (simp add: side_of_def)
  have frS: "framed {creds_key run} (absent P S)" by (rule framed_absent_set [OF frk]) (use assms(2) in simp)
  have fr0: "framed {} ?P" by (rule framed_absent_set [OF framed_sub [OF assms(1)]]) auto
  have frs: "framed {} (absent P S)" using frS by (rule framed_sub) simp
  have none: "?P c \<Longrightarrow> cl_objects c (creds_key run) = None" for c by (simp add: absent_def)
  have cached: "sure ?P (cachedBrokerCredentials r run qs) (\<lambda>res c. ?P c \<and> res = None)" for qs
    unfolding cachedBrokerCredentials_def
    by (rule triple_if, rule triple_ret, simp, rule triple_any_now)
      (auto split: option.split intro!: triple_ret sure_missing [OF fr0 absent_healthy none])
  have ens: "sure ?P (ensureBrokerCredentials r run tpl) (\<lambda>x c. absent P S c \<and> (\<exists>cs ls. x = CredsReady cs ls))"
  proof (cases "?reqs = []")
    case True
    then show ?thesis
      unfolding ensureBrokerCredentials_def Let_def
      by (simp, intro triple_pre [OF triple_bnd [OF sure_deleteBrokerCredsSecret [OF absent_healthy frS]]] triple_ret) (auto simp: absent_insert)
  next
    case False
    with assms(3) obtain b where b: "rc_BrokerClient r = Some b"
      "\<And>q st. q \<in> set ?reqs \<Longrightarrow> \<not> isl (fst (bi_Issue b st (hr_Name run) (hr_Namespace run) (cr_Name q)))" by (auto simp: grants_def)
    have loop: "sure ?P (issueLoop b run (sort_key cr_Name ?reqs) []) (\<lambda>res c. ?P c \<and> \<not> isl res)"
      by (rule sure_issueLoop [OF fr0]) (simp add: b(2))
    have up: "sure ?P (upsert what (creds_key run) (credsSecret run d)) (\<lambda>res c. absent P S c \<and> res = OpCreated)" for what d
      by (rule absent_upsert [OF frk assms(2)]) (simp add: credsSecret_def ownBody_def)
    have aud: "sure (\<lambda>c. absent P S c \<and> res = OpCreated) (EmitCredentialIssuedSummary s n ns k) (\<lambda>_. absent P S)" for s n ns k res
      unfolding emits by (rule triple_pre [OF sure_audit [OF frs]]) simp
    have issue: "sure ?P (bnd (issueLoop b run (sort_key cr_Name ?reqs) []) (\<lambda>res. case res of
                 Inl stop \<Rightarrow> ret stop
               | Inr rs \<Rightarrow>
                   bnd (upsert ''upserting broker-creds secret'' (creds_key run) (credsSecret run (issuedData rs))) (\<lambda>_.
                   bnd (EmitCredentialIssuedSummary (rc_Audit r) (hr_Name run) (hr_Namespace run) (length rs)) (\<lambda>_.
                   ret (CredsReady (map (\<lambda>(n, x). statusOf n x) rs) (map (\<lambda>(n, x). leaseOf n x) rs))))))
        (\<lambda>x c. absent P S c \<and> (\<exists>cs ls. x = CredsReady cs ls))"
      by (rule triple_bnd [OF loop])
        (auto split: sum.split intro!: triple_bnd [OF up] triple_bnd [OF aud] triple_ret)
    show ?thesis
      unfolding ensureBrokerCredentials_def Let_def b(1)
      using False by (simp, intro triple_bnd [OF cached]) (auto split: option.split intro: triple_pre [OF issue])
  qed
  have events: "sure (absent P S) (emitAll es) (\<lambda>_. absent P S)" for es
    by (rule sure_frame [OF _ touches_emitAll frs, of "\<lambda>_. True"])
      (induction es, auto simp: triple_def ret_def bnd_def emit_def)
  show ?thesis
    unfolding reconcileCredentials_def
    by (rule triple_any_now, rule triple_bnd [OF ens])
      (auto split: creds_outcome.split intro!: triple_bnd [OF events] triple_ret triple_pre [OF triple_bnd [OF events]]
        simp: issuedStatus_same)
qed

section \<open>Certificates\<close>

definition cert_key :: "HarnessRun \<Rightarrow> okey" where
  "cert_key run = (KCertificate, hr_Namespace run, proxyTLSSecretName (hr_Name run))"

definition cert_good :: "HarnessRun \<Rightarrow> 's cluster \<Rightarrow> bool" where
  "cert_good run c \<longleftrightarrow>
     (\<exists>ct. cl_objects c (cert_key run) = Some (OCertificate ct) \<and> cert_Controller ct \<in> {None, Some (run_owner run)}
       \<and> isCertificatePermanentlyFailed ct = None
       \<and> (\<exists>cd \<in> set (cert_Conditions ct). cec_Type cd = ''Ready'' \<and> cec_Status cd = ConditionTrue))"

lemma certMutation_good:
  assumes "cert_Controller ct \<in> {None, Some own}"
  obtains ct' where "certMutation own sn cn ci d rb lbls (Some (OCertificate ct)) = Inr (OCertificate ct')"
    "cert_Controller ct' = Some own" "cert_Conditions ct' = cert_Conditions ct" "cert_FailedIssuanceAttempts ct' = cert_FailedIssuanceAttempts ct"
  using assms by (auto simp: certMutation_def setController_def)

lemma sure_upsert_cert:
  assumes "framed {cert_key run} P" "\<And>c. P c \<Longrightarrow> healthy c"
  shows "sure (\<lambda>c. P c \<and> cert_good run c) (upsert what (cert_key run) (certMutation (run_owner run) sn cn ci d rb lbls)) (\<lambda>_ c. P c \<and> cert_good run c)"
  unfolding triple_def
proof (intro allI impI)
  fix c assume c: "P c \<and> cert_good run c"
  then obtain ct where ct: "cl_objects c (cert_key run) = Some (OCertificate ct)" "cert_Controller ct \<in> {None, Some (run_owner run)}"
    "isCertificatePermanentlyFailed ct = None" "\<exists>cd \<in> set (cert_Conditions ct). cec_Type cd = ''Ready'' \<and> cec_Status cd = ConditionTrue"
    by (auto simp: cert_good_def)
  obtain ct' where ct': "certMutation (run_owner run) sn cn ci d rb lbls (Some (OCertificate ct)) = Inr (OCertificate ct')"
    "cert_Controller ct' = Some (run_owner run)" "cert_Conditions ct' = cert_Conditions ct" "cert_FailedIssuanceAttempts ct' = cert_FailedIssuanceAttempts ct"
    using ct(2) by (rule certMutation_good)
  have same: "isCertificatePermanentlyFailed ct' = isCertificatePermanentlyFailed ct"
    unfolding isCertificatePermanentlyFailed_def ct'(3,4) ..
  have good: "cert_good run (put (cert_key run) (Some (OCertificate ct')) c')" for c' :: "'a cluster"
    using ct(3,4) ct' same by (auto simp: cert_good_def put_def)
  have P: "P (c\<lparr> cl_calls := n \<rparr>)" "P (put (cert_key run) v (c\<lparr> cl_calls := n \<rparr>))" for n v
    using framed_calls [OF assms(1)] framed_put [OF assms(1)] c by blast+
  have "cert_good run (c\<lparr> cl_calls := n \<rparr>)" for n using c by (simp add: cert_good_def)
  moreover have "cl_faults c = (\<lambda>_. None)" using assms(2) c by (simp add: healthy_def)
  ultimately show "case upsert what (cert_key run) (certMutation (run_owner run) sn cn ci d rb lbls) c of
      (Inr a, c') \<Rightarrow> P c' \<and> cert_good run c' | (Inl e, c') \<Rightarrow> False"
    using ct(1) ct'(1) P good
    by (simp add: upsert_def createOrUpdate_def bnd_def attempt_def apiGet_def apiUpdate_def api_def liftE_def ret_def throw_def Let_def cert_key_def)
qed

lemma sure_tls:
  assumes "framed {cert_key run} P" "\<And>c. P c \<Longrightarrow> healthy c" "proxyConfigured r"
  shows "sure (\<lambda>c. P c \<and> cert_good run c) (ensureProxyTLS r run) (\<lambda>ok c. P c \<and> cert_good run c \<and> ok)"
proof -
  let ?P = "\<lambda>c. P c \<and> cert_good run c"
  have fr: "framed {} ?P"
    using assms(1) unfolding framed_def cert_good_def by (metis empty_iff empty_subsetI unchanged_mono unchanged_object)
  have get: "sure ?P (apiGet (cert_key run)) (\<lambda>x c. ?P c \<and> cl_objects c (cert_key run) = Some x)"
    by (rule sure_get [OF fr]) (use assms(2) in \<open>auto simp: cert_good_def cert_key_def\<close>)
  have cert: "sure ?P (ensureProxyCACertificate (run_owner run) (hr_Namespace run) (proxyTLSSecretName (hr_Name run)) cn ci d rb lbls)
      (\<lambda>x c. ?P c \<and> snd x)" for cn ci d rb lbls
    unfolding ensureProxyCACertificate_def Let_def cert_key_def [symmetric]
    by (rule triple_bnd [OF sure_upsert_cert [OF assms(1,2)]], assumption, rule triple_try [OF get])
      (auto simp: triple_def ret_def throw_def cert_good_def split: option.split, blast+)
  have emit: "sure (\<lambda>c. ?P c \<and> ok) (EmitCAProjected s n ns sn) (\<lambda>_ c. ?P c \<and> ok)" for ok s n ns sn
    unfolding emits by (rule sure_audit [of "{}"]) (use fr in \<open>auto simp: framed_def\<close>)
  have issuer: "pbc_ProxyCAClusterIssuer (rc_cfg r) \<noteq> []" using assms(3) by (simp add: proxyConfigured_def)
  show ?thesis
    unfolding ensureProxyTLS_def
    by (simp add: issuer, rule triple_bnd [OF cert], clarify, simp only: snd_conv, rule triple_if, rule triple_bnd [OF emit])
      (auto intro!: triple_ret)
qed

text \<open>The broker's CA can be copied, when the configuration asks for it.\<close>

definition ca_source :: "'s reconciler \<Rightarrow> 's cluster \<Rightarrow> bool" where
  "ca_source r c \<longleftrightarrow>
     (brokerProxyConfigured (rc_cfg r) \<longrightarrow>
       (\<exists>x. cl_objects c (KSecret, bca_Namespace (pbc_BrokerCASource (rc_cfg r)), bca_Name (pbc_BrokerCASource (rc_cfg r))) = Some (OSecret x)
         \<and> caOf (OSecret x) \<noteq> []))"

lemma absent_ca:
  assumes "framed (side_of run) P" "ca_key run \<notin> S" "\<And>c. P c \<Longrightarrow> ca_source r c"
  shows "sure (absent P (insert (ca_key run) S)) (ensureBrokerCA r run) (\<lambda>ok c. absent P S c \<and> ok)"
proof (cases "brokerProxyConfigured (rc_cfg r)")
  case False
  then show ?thesis unfolding ensureBrokerCA_def by (auto intro: triple_ret absent_sub)
next
  case True
  let ?src = "(KSecret, bca_Namespace (pbc_BrokerCASource (rc_cfg r)), bca_Name (pbc_BrokerCASource (rc_cfg r)))" and ?P = "absent P (insert (ca_key run) S)"
  have frk: "framed {ca_key run} P" using assms(1) by (rule framed_sub) (simp add: side_of_def)
  have fr0: "framed {} ?P" by (rule framed_absent_set [OF framed_sub [OF assms(1)]]) auto
  have frs: "framed {} (absent P S)" by (rule framed_absent_set [OF framed_sub [OF assms(1)]]) auto
  have src: "\<exists>x. cl_objects c ?src = Some x \<and> kind_of x = fst ?src \<and> caOf x \<noteq> []" if "?P c" for c
    using assms(3) [of c] that True by (auto simp: absent_def ca_source_def)
  have get: "sure ?P (apiGet ?src) (\<lambda>x c. ?P c \<and> caOf x \<noteq> [])"
    by (rule triple_weaken [OF sure_get [OF fr0 absent_healthy]]) (use src in fastforce)+
  have up: "sure ?P (upsert what (ca_key run) (ownBody own lbls OSecret the_secret d)) (\<lambda>res c. absent P S c \<and> res = OpCreated)" for what own lbls d
    by (rule absent_upsert [OF frk assms(2)]) (simp add: ownBody_def)
  have copy: "sure ?P (copyCAToSecret own (pbc_BrokerCASource (rc_cfg r)) (brokerCASecretName (hr_Name run)) (hr_Namespace run) lbls)
      (\<lambda>new c. absent P S c \<and> new)" for own lbls
    unfolding copyCAToSecret_def ca_key_def [symmetric]
    by (rule triple_try [OF get], rule triple_if) (auto intro!: triple_bnd [OF triple_pre [OF up]] triple_ret)
  have emit: "sure (absent P S) (EmitCAProjected s n ns sn) (\<lambda>_. absent P S)" for s n ns sn
    unfolding emits by (rule sure_audit [OF frs])
  show ?thesis
    unfolding ensureBrokerCA_def projectBrokerCA_def using True
    by (simp, intro triple_try [OF get] triple_if) (auto intro!: triple_bnd [OF copy] triple_bnd [OF emit] triple_ret)
qed

section \<open>A run starts\<close>

definition job_there :: "HarnessRun \<Rightarrow> 's cluster \<Rightarrow> bool" where
  "job_there run c \<longleftrightarrow> (\<exists>job. cl_objects c (job_key run) = Some (OJob job) \<and> fresh_job job)"

lemma side_of_other: "run_key run \<notin> side_of run'" "job_key run \<notin> side_of run'" "cert_key run \<notin> side_of run'" "ws_key ws \<notin> side_of run'"
  by (auto simp: side_of_def rbac_keys_def key_defs ca_key_def cert_key_def)

lemma run_there_same: "same_run run run0 \<Longrightarrow> run_there run = run_there run0"
  by (auto simp: run_there_def same_run_keys(2))

lemma keys_same: "same_run run run0 \<Longrightarrow> rbac_keys run = rbac_keys run0 \<and> out_key run = out_key run0 \<and> np_key run = np_key run0 \<and> cnp_key run = cnp_key run0
   \<and> prompt_key run = prompt_key run0 \<and> creds_key run = creds_key run0 \<and> ca_key run = ca_key run0 \<and> cert_key run = cert_key run0 \<and> side_of run = side_of run0"
  by (simp add: same_run_def rbac_keys_def key_defs ca_key_def cert_key_def side_of_def collectorSAName_def outputCMName_def promptSecretName_def)

definition started :: "HarnessRun \<Rightarrow> 's cluster \<Rightarrow> bool" where
  "started run c \<longleftrightarrow> run_there run c \<and> healthy c \<and> job_there run c"

lemma sure_ensureJob:
  assumes "same_run run run0" "\<not> (proxyConfigured r \<and> id_Unavailable d)"
  shows "sure (absent (run_there run0) {job_key run0}) (ensureJob r run tpl pvc d) (\<lambda>job c. started run0 c \<and> fresh_job job)"
proof -
  let ?job = "(buildJob run tpl (hrt_WorkspaceRef (hr_Status run)) (podInputs r run tpl pvc d))\<lparr> job_Controller := Some (run_owner run) \<rparr>"
  have fr: "framed {job_key run0} (\<lambda>c. run_there run0 c \<and> healthy c)"
    by (simp add: framed_run_there job_key_def run_key_def)
  have pre: "absent (run_there run0) {job_key run0} c \<longleftrightarrow> (run_there run0 c \<and> healthy c) \<and> cl_objects c (job_key run0) = None" for c
    by (simp add: absent_def)
  have fresh: "fresh_job ?job" by (simp add: fresh_job_def buildJob_def)
  have create: "sure (absent (run_there run0) {job_key run0}) (apiCreate (job_key run0) (OJob ?job)) (\<lambda>_. started run0)"
    unfolding pre by (rule triple_weaken [OF sure_create [OF fr]]) (auto simp: started_def job_there_def fresh)
  have emit: "sure (started run0) (emit e) (\<lambda>_. started run0)" for e
    by (auto simp: triple_def emit_def started_def run_there_def healthy_def job_there_def)
  have fr0: "framed {} (absent (run_there run0) {job_key run0})"
    by (rule framed_absent_set) (simp_all add: framed_run_there)
  show ?thesis
    using assms(2) unfolding ensureJob_def Let_def same_run_keys(1) [OF assms(1)]
    by (simp del: de_Morgan_conj, intro sure_missing [OF fr0 absent_healthy])
      (auto simp: fresh intro!: triple_bnd [OF create] triple_bnd [OF emit] triple_ret simp: absent_insert)
qed

lemma sure_after_job:
  assumes "same_run run run0" "fresh_job job"
  shows "sure (started run0) (case translateJob now job run of (p, run') \<Rightarrow> reconcileWatchdog r (setPhase p run') ws tpl orig) (\<lambda>_. started run0)"
proof -
  obtain p run' where t: "translateJob now job run = (p, run')" by (cases "translateJob now job run")
  have p: "p = PhasePending" and k: "run_key run' = run_key run0"
    using translate_fresh [OF assms(2) t] same_run_keys(2) [OF assms(1)] by simp_all
  have fr: "framed {run_key run0} (\<lambda>c. healthy c \<and> job_there run0 c)"
    by (simp add: job_there_def framed_at [where A = "\<lambda>x. \<exists>j. x = Some (OJob j) \<and> fresh_job j" for j] job_key_def run_key_def)
  have same: "run_key (setPhase PhasePending run') = run_key run0" using k by simp
  have there: "run_there (setPhase PhasePending run') = run_there run0" unfolding run_there_def same ..
  have started: "started run0 = (\<lambda>c. (healthy c \<and> job_there run0 c) \<and> run_there run0 c)" by (auto simp: started_def)
  have commit: "sure (started run0) (commitStatus r (setPhase PhasePending run') orig) (\<lambda>_. started run0)"
    unfolding started there [symmetric] by (rule sure_commit) (simp_all add: k fr)
  have pending: "hr_Phase (setPhase PhasePending run') = PhasePending" by (simp add: setPhase_def onStatus_def)
  show ?thesis
    unfolding t p prod.case reconcileWatchdog_def reconcileFinish_def
    by (simp add: pending isTerminal_def bnd_ret) (intro triple_bnd [OF commit] triple_ret)
qed

text \<open>Once the egress is configured: the output, the roles, the policy, then the Job.\<close>

definition late_of :: "HarnessRun \<Rightarrow> okey set" where
  "late_of run = insert (out_key run) (set (rbac_keys run) \<union> {np_key run, cnp_key run, job_key run})"

lemma sure_reconcileJob:
  assumes run: "same_run run run0" and d: "\<not> (proxyConfigured r \<and> id_Unavailable d)"
  shows "sure (absent (run_there run0) (late_of run0)) (reconcileJob r run ws tpl d orig) (\<lambda>_. started run0)"
proof -
  let ?R = "run_there run0" and ?j = "job_key run"
  have fr: "framed (side_of run) ?R" by (rule framed_run_there) (rule side_of_other)
  have late: "late_of run0 = insert (out_key run) (set (rbac_keys run) \<union> insert (np_key run) (insert (cnp_key run) {?j}))"
    using keys_same [OF run] same_run_keys(1) [OF run] by (simp add: late_of_def)
  have out: "sure (absent ?R (insert (out_key run) S)) (ensureOutputConfigMap run) (\<lambda>_. absent ?R S)" if "out_key run \<notin> S" for S
    unfolding ensureOutputConfigMap_def
    by (rule absent_createIfMissing [OF framed_sub [OF fr] that]) (simp add: side_of_def)
  have frj: "framed (side_of run) (absent ?R {?j})" by (rule framed_absent_set [OF fr]) (simp add: side_of_other)
  have pol: "sure (absent ?R (insert (np_key run) (insert (cnp_key run) {?j})))
      (if b then deleteRunNetworkPolicy r run else ensureRunNetworkPolicy r run) (\<lambda>_. absent ?R {?j})" for b
    by (intro triple_if absent_policy [OF fr] triple_pre [OF sure_deletePolicy [OF absent_healthy frj]]) (auto simp: key_defs absent_insert)
  have ing: "sure (absent ?R {?j}) (ingestOutputConfigMap r run) (\<lambda>run' c. absent ?R {?j} c \<and> same_run run' run0)"
    by (rule triple_weaken [OF sure_ingest [OF absent_healthy framed_sub [OF frj]]]) (use run in \<open>auto simp: same_run_def\<close>)
  have job: "sure (\<lambda>c. absent ?R {?j} c \<and> same_run run' run0) (ensureJob r run' tpl pvc d) (\<lambda>job c. (started run0 c \<and> fresh_job job) \<and> same_run run' run0)" for run' pvc
    unfolding same_run_keys(1) [OF run] by (rule triple_carry, rule sure_ensureJob [OF _ d])
  have tail: "sure (\<lambda>c. (started run0 c \<and> fresh_job job) \<and> same_run run' run0)
      (case translateJob now job (setCond now t s reason msg (onStatus f run')) of (p, run') \<Rightarrow> reconcileWatchdog r (setPhase p run') ws tpl orig)
      (\<lambda>_. started run0)" for job run' now t s reason msg f
    by (rule triple_given, rule triple_given, rule sure_after_job) simp_all
  show ?thesis
    unfolding reconcileJob_def late
    by (rule triple_bnd [OF out], simp add: rbac_keys_def key_defs,
        rule triple_bnd [OF absent_rbac [OF fr]], simp add: rbac_keys_def key_defs,
        rule triple_bnd [OF pol], rule triple_bnd [OF ing], rule triple_bnd [OF job], rule triple_any_now, rule tail)
qed

text \<open>What the egress needs: a ready certificate, a CA to copy, and a decided mode of interception.\<close>

definition egress_ok :: "'s reconciler \<Rightarrow> HarnessRun \<Rightarrow> resolvedTemplate \<Rightarrow> 's cluster \<Rightarrow> bool" where
  "egress_ok r run tpl c \<longleftrightarrow>
     (proxyConfigured r \<longrightarrow> cert_good run c \<and> ca_source r c \<and> (\<exists>d. decided r (cl_kube c) run tpl d))"

definition ca_elsewhere :: "'s reconciler \<Rightarrow> HarnessRun \<Rightarrow> bool" where
  "ca_elsewhere r run \<longleftrightarrow>
     (KSecret, bca_Namespace (pbc_BrokerCASource (rc_cfg r)), bca_Name (pbc_BrokerCASource (rc_cfg r))) \<notin> side_of run"

lemma framed_egress_ok:
  assumes "cert_key run \<notin> K" "(KSecret, bca_Namespace (pbc_BrokerCASource (rc_cfg r)), bca_Name (pbc_BrokerCASource (rc_cfg r))) \<notin> K"
  shows "framed K (egress_ok r run tpl)"
  unfolding framed_def
proof (intro allI impI)
  fix c c' :: "'a cluster" assume u: "unchanged K c c'" and e: "egress_ok r run tpl c"
  have "cl_kube c' = cl_kube c" using u by (simp add: unchanged_def)
  with e show "egress_ok r run tpl c'"
    using unchanged_object [OF u assms(1)] unchanged_object [OF u assms(2)]
    by (simp add: egress_ok_def cert_good_def ca_source_def)
qed

definition ready_to_start :: "'s reconciler \<Rightarrow> HarnessRun \<Rightarrow> resolvedTemplate \<Rightarrow> 's cluster \<Rightarrow> bool" where
  "ready_to_start r run tpl c \<longleftrightarrow> egress_ok r run tpl c \<and> run_there run c"

lemma framed_ready_side: "ca_elsewhere r run \<Longrightarrow> framed (side_of run) (ready_to_start r run tpl)"
  unfolding ready_to_start_def ca_elsewhere_def by (intro framed_conj framed_egress_ok framed_run_there side_of_other)

lemma absent_weaken: "absent P S c \<Longrightarrow> (P c \<Longrightarrow> Q c) \<Longrightarrow> absent Q S c"
  by (simp add: absent_def)

lemma sure_mode:
  assumes "same_run run run0" "proxyConfigured r" "framed {} P" "\<And>c. P c \<Longrightarrow> \<exists>d. decided r (cl_kube c) run0 tpl d"
  shows "sure P (resolveInterceptionMode r run tpl) (\<lambda>d c. P c \<and> \<not> id_Unavailable d)"
  using assms(1,2,4) unfolding triple_def resolveInterceptionMode_def
  by (fastforce simp: bnd_def getKube_def ret_def throw_def decided_def same_run_def split: sum.splits)

lemma sure_reconcileEgress:
  assumes run: "same_run run run0" and ca: "ca_elsewhere r run0"
  shows "sure (absent (ready_to_start r run0 tpl) (insert (ca_key run0) (late_of run0))) (reconcileEgress r run ws tpl orig) (\<lambda>_. started run0)"
proof -
  let ?R = "ready_to_start r run0 tpl" and ?S = "late_of run0"
  have job: "sure (absent ?R ?S) (reconcileJob r (setCond now t s reason msg run) ws tpl d orig) (\<lambda>_. started run0)"
    if "\<not> (proxyConfigured r \<and> id_Unavailable d)" for now t s reason msg d
    by (rule triple_pre [OF sure_reconcileJob [OF _ that]]) (use run in \<open>auto intro: absent_weaken simp: ready_to_start_def\<close>)
  have keys: "ca_key run0 \<notin> ?S" "cert_key run0 \<notin> ?S"
    by (auto simp: late_of_def rbac_keys_def key_defs ca_key_def cert_key_def)
  show ?thesis
  proof (cases "proxyConfigured r")
    case False
    then show ?thesis
      unfolding reconcileEgress_def by (simp, intro triple_any_now triple_pre [OF job]) (auto simp: absent_insert)
  next
    case True
    have fr: "framed {} (absent ?R ?S)" by (rule framed_absent_set [OF framed_sub [OF framed_ready_side [OF ca]]]) auto
    have dec: "absent ?R ?S c \<Longrightarrow> \<exists>d. decided r (cl_kube c) run0 tpl d" for c
      using True by (simp add: absent_def ready_to_start_def egress_ok_def)
    have mode: "sure (absent ?R ?S) (reconcileMode r run ws tpl orig) (\<lambda>_. started run0)"
      unfolding reconcileMode_def
      by (rule triple_any_now, rule triple_bnd [OF sure_mode [OF run True fr dec]], assumption)
        (auto intro!: triple_given job split: if_splits)
    have cak: "ca_key run = ca_key run0" "side_of run = side_of run0" using keys_same [OF run] by simp_all
    have "sure (absent ?R (insert (ca_key run) ?S)) (ensureBrokerCA r run) (\<lambda>ok c. absent ?R ?S c \<and> ok)"
      by (rule absent_ca) (use True keys ca cak in \<open>auto simp: ready_to_start_def egress_ok_def framed_ready_side\<close>)
    then have brk: "sure (absent ?R (insert (ca_key run0) ?S)) (reconcileBrokerCA r run ws tpl orig) (\<lambda>_. started run0)"
      unfolding reconcileBrokerCA_def cak
      by (rule triple_try) (auto intro!: triple_given mode)
    let ?Q = "\<lambda>c. absent (\<lambda>c. ca_source r c \<and> (\<exists>d. decided r (cl_kube c) run0 tpl d) \<and> run_there run0 c) (insert (ca_key run0) ?S) c"
    have split: "absent ?R (insert (ca_key run0) ?S) = (\<lambda>c. ?Q c \<and> cert_good run0 c)"
      using True by (auto simp: absent_def ready_to_start_def egress_ok_def fun_eq_iff)
    have frQ: "framed {cert_key run} ?Q"
    proof (rule framed_absent_set)
      show "framed {cert_key run} (\<lambda>c. ca_source r c \<and> (\<exists>d. decided r (cl_kube c) run0 tpl d) \<and> run_there run0 c)"
        unfolding framed_def ca_source_def run_there_def
        by (auto simp: unchanged_def cert_key_def run_key_def)
      show "{cert_key run} \<inter> insert (ca_key run0) ?S = {}" using keys(2) keys_same [OF run] by (auto simp: cert_key_def ca_key_def)
    qed
    have good: "cert_good run = cert_good run0"
      using run keys_same [OF run] by (auto simp: fun_eq_iff cert_good_def run_owner_def same_run_def)
    have tls: "sure (absent ?R (insert (ca_key run0) ?S)) (ensureProxyTLS r run) (\<lambda>ok c. absent ?R (insert (ca_key run0) ?S) c \<and> ok)"
      unfolding split
      by (rule triple_weaken [OF sure_tls [OF frQ absent_healthy True, unfolded good]]) auto
    show ?thesis
      unfolding reconcileEgress_def using True
      by (simp, intro triple_try [OF tls]) (auto intro!: triple_given brk)
  qed
qed

section \<open>The steps before\<close>

lemma absent_prompt:
  assumes "framed (side_of run) P" "prompt_key run \<notin> S" "hrs_Prompt (hr_Spec run) \<noteq> []"
  shows "sure (absent P (insert (prompt_key run) S)) (ensurePromptSecret run) (\<lambda>_. absent P S)"
  unfolding absent_insert
  by (rule sure_prompt) (use assms in \<open>auto intro!: framed_absent_set absent_healthy intro: framed_sub simp: side_of_def\<close>)

lemma sure_reconcileBound:
  assumes run: "same_run run run0" and ca: "ca_elsewhere r run0" and "hrs_Prompt (hr_Spec run0) \<noteq> []" "grants r run0 tpl"
  shows "sure (absent (ready_to_start r run0 tpl) (insert (job_key run0) (side_of run0))) (reconcileBound r run ws tpl orig) (\<lambda>_. started run0)"
proof -
  let ?R = "ready_to_start r run0 tpl" and ?S = "insert (ca_key run0) (late_of run0)"
  have keys: "insert (job_key run0) (side_of run0) = insert (prompt_key run0) (insert (creds_key run0) ?S)"
    by (auto simp: side_of_def late_of_def)
  have fr: "framed (side_of run0) ?R" by (rule framed_ready_side [OF ca])
  have notin: "creds_key run0 \<notin> ?S" "prompt_key run0 \<notin> insert (creds_key run0) ?S"
    by (auto simp: late_of_def rbac_keys_def key_defs ca_key_def brokerCredsSecretName_def brokerCASecretName_def promptSecretName_def)
  have same: "same_run run' run0 \<Longrightarrow> prompt_key run' = prompt_key run0 \<and> creds_key run' = creds_key run0 \<and> side_of run' = side_of run0 \<and> run_key run' = run_key run0
      \<and> grants r run' tpl = grants r run0 tpl \<and> hr_Spec run' = hr_Spec run0" for run'
    using keys_same [of run' run0] same_run_keys(2) [of run' run0] by (auto simp: same_run_def grants_def)
  have prompt: "sure (absent ?R (insert (prompt_key run0) (insert (creds_key run0) ?S))) (ensurePromptSecret run) (\<lambda>_. absent ?R (insert (creds_key run0) ?S))"
    using absent_prompt [of run ?R "insert (creds_key run0) ?S"] same [OF run] fr notin assms(3) by simp
  have creds: "sure (absent ?R (insert (creds_key run0) ?S)) (reconcileCredentials r run' tpl)
      (\<lambda>x c. absent ?R ?S c \<and> fst x = CredProceed \<and> same_run (snd x) run0)" if "same_run run' run0" for run'
    by (rule triple_weaken [OF absent_credentials [of run' ?R ?S r tpl, unfolded same [OF that]]])
      (use same [OF that] fr notin assms(4) that in \<open>auto simp: same_run_def\<close>)
  have commit: "sure (absent ?R ?S) (commitStatus r run' orig) (\<lambda>_. absent ?R ?S)" if "same_run run' run0" for run' orig
  proof -
    have split: "absent ?R ?S = (\<lambda>c. absent (egress_ok r run0 tpl) ?S c \<and> run_there run' c)"
      using same [OF that] by (auto simp: fun_eq_iff absent_def ready_to_start_def run_there_def)
    have "run_key run' \<notin> ?S" "cert_key run0 \<noteq> run_key run'"
      by (auto simp: late_of_def rbac_keys_def key_defs ca_key_def cert_key_def)
    then show ?thesis
      unfolding split by (intro sure_commit framed_absent_set framed_egress_ok absent_healthy) (auto simp: run_key_def)
  qed
  have go: "sure (\<lambda>c. absent ?R ?S c \<and> fst x = CredProceed \<and> same_run (snd x) run0) (case x of (out, run) \<Rightarrow> case out of
             CredFail reason msg \<Rightarrow> commitStatus r (failRun now ty reason msg run) orig
           | CredRequeue \<Rightarrow> commitThen r run orig res
           | CredProceed \<Rightarrow> bnd (commitStatus r run orig) (\<lambda>_. reconcileEgress r run ws tpl (hr_Status run))) (\<lambda>_. started run0)" for x now ty res
    by (rule triple_given) (auto simp: split_beta intro!: triple_bnd [OF commit] sure_reconcileEgress [OF _ ca])
  show ?thesis
    unfolding reconcileBound_def keys
    by (rule triple_any_now, rule triple_try [OF prompt], rule triple_bnd [OF creds], use run in simp) (rule go, simp)
qed

lemma bind_free:
  assumes "cl_objects c (ws_key ws) = Some (OWorkspace ws)" "healthy c" "wss_ActiveRunRef (ws_Status ws) \<in> {[], hr_Name run}"
  shows "\<exists>ws' c'. bindWorkspace ws run c = (Inr (True, ws'), c')"
  using assms
  by (auto simp: bindWorkspace_def bnd_def getNow_def attempt_def ret_def updateWorkspaceStatus_def api_def Let_def healthy_def ws_key_def bindUpdate_def onWs_def)

text \<open>Everything a start needs, of the state before the reconcile.\<close>

definition can_start :: "'s reconciler \<Rightarrow> HarnessRun \<Rightarrow> resolvedTemplate \<Rightarrow> 's cluster \<Rightarrow> bool" where
  "can_start r run tpl c \<longleftrightarrow>
     healthy c \<and> cl_objects c (run_key run) = Some (ORun run) \<and> admitted run \<and> \<not> isTerminal (hr_Phase run)
     \<and> resolveTemplate (rc_order r) (cl_kube c) run = Inr tpl
     \<and> hrs_WorkspaceRef (hr_Spec run) \<noteq> []
     \<and> (\<exists>ws. cl_objects c (KWorkspace, hr_Namespace run, hrs_WorkspaceRef (hr_Spec run)) = Some (OWorkspace ws)
          \<and> ws_key ws = (KWorkspace, hr_Namespace run, hrs_WorkspaceRef (hr_Spec run))
          \<and> wss_Phase (ws_Status ws) = WorkspacePhaseActive \<and> wss_ActiveRunRef (ws_Status ws) \<in> {[], hr_Name run})
     \<and> hrs_Prompt (hr_Spec run) \<noteq> [] \<and> grants r run tpl
     \<and> egress_ok r run tpl c \<and> ca_elsewhere r run
     \<and> (\<forall>k \<in> insert (job_key run) (side_of run). cl_objects c k = None)"

lemma sure_reconcileWorkspace:
  assumes run: "same_run run run0" and can: "can_start r run0 tpl c0"
  shows "sure (\<lambda>c. cl_objects c = cl_objects c0 \<and> cl_kube c = cl_kube c0 \<and> healthy c) (reconcileWorkspace r run tpl orig) (\<lambda>_. started run0)"
proof -
  let ?P = "\<lambda>c. cl_objects c = cl_objects c0 \<and> cl_kube c = cl_kube c0 \<and> healthy c"
  let ?A = "absent (ready_to_start r run0 tpl) (insert (job_key run0) (side_of run0))"
  let ?k = "(KWorkspace, hr_Namespace run0, hrs_WorkspaceRef (hr_Spec run0))"
  obtain ws where ws: "cl_objects c0 ?k = Some (OWorkspace ws)" "ws_key ws = ?k" "wss_Phase (ws_Status ws) = WorkspacePhaseActive"
    "wss_ActiveRunRef (ws_Status ws) \<in> {[], hr_Name run0}"
    using can by (auto simp: can_start_def)
  have fields: "hr_Name run = hr_Name run0" "hr_Namespace run = hr_Namespace run0" "hr_Spec run = hr_Spec run0" using run by (simp_all add: same_run_def)
  have fr: "framed {} ?P" by (auto simp: framed_def unchanged_def healthy_def fun_eq_iff)
  have get: "sure ?P (apiGet ?k) (\<lambda>x c. ?P c \<and> x = OWorkspace ws)"
    by (rule triple_weaken [OF sure_get [OF fr]]) (auto simp: ws)
  have ensure: "sure ?P (ensureWorkspace run tpl) (\<lambda>w c. ?P c \<and> w = Some ws)"
    using can unfolding ensureWorkspace_def fields
    by (simp add: can_start_def) (rule triple_bnd [OF get], auto intro: triple_ret)
  have start: "?A c" if "?P c" for c
    using that can by (auto simp: absent_def can_start_def ready_to_start_def egress_ok_def run_there_def cert_good_def ca_source_def)
  have frA: "framed {ws_key ws} ?A"
  proof (rule framed_absent_set)
    show "framed {ws_key ws} (ready_to_start r run0 tpl)"
      unfolding ready_to_start_def by (intro framed_conj framed_egress_ok framed_run_there) (auto simp: ws_key_def cert_key_def run_key_def)
    show "{ws_key ws} \<inter> (insert (job_key run0) (side_of run0)) = {}"
      using side_of_other(4) [of ws run0] by (auto simp: ws_key_def job_key_def)
  qed
  have bind: "sure ?P (bindWorkspace ws run) (\<lambda>x c. ?A c \<and> fst x)"
  proof (rule triple_weaken [OF triple_both [of ?P _ "\<lambda>x _. fst x" "\<lambda>_. False" ?A "\<lambda>_. ?A" ?A]])
    show "sure ?P (bindWorkspace ws run) (\<lambda>x _. fst x)"
    proof (rule sureI)
      fix c assume "?P c"
      then obtain ws' c' where "bindWorkspace ws run c = (Inr (True, ws'), c')" using bind_free [of c ws run] ws by (auto simp: fields)
      then show "\<exists>a c'. bindWorkspace ws run c = (Inr a, c') \<and> fst a" by simp
    qed
    show "triple ?A (bindWorkspace ws run) (\<lambda>_. ?A) ?A" by (rule triple_frame [OF touches_bindWorkspace frA]) simp
  qed (use start in auto)
  have bound: "sure ?A (reconcileBound r run' ws' tpl orig) (\<lambda>_. started run0)" if "same_run run' run0" for run' ws'
    by (rule sure_reconcileBound [OF that]) (use can in \<open>simp_all add: can_start_def\<close>)
  have held: "sure (\<lambda>c. ?P c \<and> w = Some ws) (case w of None \<Rightarrow> f | Some ws \<Rightarrow>
         if wss_Phase (ws_Status ws) \<noteq> WorkspacePhaseActive then g ws
         else bnd (bindWorkspace ws run) (\<lambda>(bound, ws). if \<not> bound then h ws
           else reconcileBound r (onStatus (\<lambda>st. st\<lparr> hrt_WorkspaceRef := ws_Name ws \<rparr>) (setCond now t s reason (msg ws) run)) ws tpl orig)) (\<lambda>_. started run0)"
    for w f g h now t s reason msg
    by (rule triple_given) (auto simp: ws split_beta intro!: triple_bnd [OF bind] triple_given bound run)
  show ?thesis
    unfolding reconcileWorkspace_def by (rule triple_any_now, rule triple_bnd [OF ensure], rule held)
qed

lemma run_starts:
  assumes can: "can_start r run tpl c" and key: "run_key run = (KHarnessRun, ns, name)"
  shows "\<exists>res c'. runReconcile r ns name c = (Inr res, c') \<and> job_there run c'"
proof -
  let ?P = "\<lambda>c'. cl_objects c' = cl_objects c \<and> cl_kube c' = cl_kube c \<and> healthy c'"
  have fr: "framed {} ?P" by (auto simp: framed_def unchanged_def healthy_def fun_eq_iff)
  have get: "sure ?P (apiGet (KHarnessRun, ns, name)) (\<lambda>x c'. ?P c' \<and> x = ORun run)"
    by (rule triple_weaken [OF sure_get [OF fr]]) (use can key in \<open>auto simp: can_start_def\<close>)
  have live: "sure ?P (reconcileLive r run) (\<lambda>_. started run)"
    unfolding reconcileLive_def Let_def
    by (rule triple_any_now, rule triple_kube_at [where k = "cl_kube c"])
      (use can in \<open>auto simp: can_start_def same_run_def intro!: sure_reconcileWorkspace [OF _ can]\<close>)
  have "sure ?P (runReconcile r ns name) (\<lambda>_. started run)"
    unfolding runReconcile_def Let_def
    by (rule triple_try [OF get], rule triple_given)
      (use can live in \<open>auto simp: can_start_def admitted_def stillLive_def bnd_ret\<close>)
  from sureD [OF this, of c] show ?thesis
    using can by (auto simp: can_start_def started_def)
qed

end
