(* ===== verification/Controller_Properties.thy ===== *)
theory Controller_Properties
  imports Controller_Start Fixtures
begin

text \<open>
  Properties of the reconciler of runs and of the pods and policies it builds.
\<close>

section \<open>A concrete cluster\<close>

definition ex_workspace :: Workspace where
  "ex_workspace =
     \<lparr> ws_Name = ''w'', ws_Namespace = ''ns'', ws_Labels = [], ws_ResourceVersion = 1, ws_Generation = 1, ws_DeletionTimestamp = None,
       ws_Finalizers = [], ws_Controller = None,
       ws_Spec = \<lparr> wsp_Storage = \<lparr> wst_Size = 1, wst_StorageClass = [], wst_AccessMode = ''ReadWriteOnce'' \<rparr>, wsp_Seed = None, wsp_Ephemeral = False \<rparr>,
       ws_Status = \<lparr> wss_ObservedGeneration = 1, wss_Phase = WorkspacePhaseActive, wss_PVCName = ''ws-w'', wss_SeedJobName = [],
                     wss_ActiveRunRef = [], wss_TotalRuns = 0, wss_LastCountedRun = [], wss_LastActivity = None, wss_Conditions = [] \<rparr> \<rparr>"

definition ex_live_run :: HarnessRun where
  "ex_live_run = ex_run\<lparr> hr_Finalizers := [HarnessRunFinalizer, BrokerLeasesFinalizer], hr_Spec := ex_run_spec\<lparr> hrs_WorkspaceRef := ''w'' \<rparr>,
     hr_Status := ex_run_status\<lparr> hrt_Phase := PhasePending \<rparr> \<rparr>"

definition ex_response :: IssueResponse where
  "ex_response = \<lparr> isr_Value = ex_bearer, isr_LeaseID = ''l'', isr_ExpiresAt = 3600000000010, isr_Provider = ''AnthropicAPI'',
     isr_DeliveryMode = ''ProxyInjected'', isr_Hosts = [''a.io''], isr_InContainerReason = [], isr_PoolSecretRef = None, isr_PoolSlotIndex = None \<rparr>"

definition ex_issuer :: "unit broker_issuer" where
  "ex_issuer = \<lparr> bi_Issue = (\<lambda>st run ns name. (Inr ex_response, st)), bi_Revoke = (\<lambda>st run ns l. (None, st)) \<rparr>"

definition ex_config :: ProxyBrokerConfig where
  "ex_config = \<lparr> pbc_ProxyImage = [], pbc_BrokerEndpoint = [], pbc_BrokerNamespace = ''paddock-system'', pbc_BrokerPort = 8443,
     pbc_BrokerCASource = \<lparr> bca_Namespace = [], bca_Name = [] \<rparr>, pbc_ProxyCAClusterIssuer = [], pbc_NetworkPolicyEnforce = NetworkPolicyEnforceOn,
     pbc_NetworkPolicyAutoEnabled = False, pbc_ClusterPodCIDR = ''10.0.0.0/8'', pbc_ClusterServiceCIDR = [], pbc_APIServerIPs = [],
     pbc_CiliumCNPAvailable = False \<rparr>"

definition ex_reconciler_of :: "'s broker_issuer \<Rightarrow> 's reconciler" where
  "ex_reconciler_of b = \<lparr> rc_cfg = ex_config, rc_RingMaxEvents = 50, rc_BrokerClient = Some b, rc_ProxyAllowList = [],
     rc_IPTablesInitImage = [], rc_HomeInitImage = ''busybox'', rc_Audit = True, rc_order = (\<lambda>ks. ks), rc_parseEvent = (\<lambda>_. None),
     rc_parseOutputs = (\<lambda>_. None), rc_ctxDone = (\<lambda>_. False) \<rparr>"

definition ex_reconciler :: "unit reconciler" where
  "ex_reconciler = ex_reconciler_of ex_issuer"

definition ex_objects :: "HarnessRun \<Rightarrow> Workspace \<Rightarrow> okey \<Rightarrow> object option" where
  "ex_objects run ws = (\<lambda>k. if k = run_key run then Some (ORun run) else if k = ws_key ws then Some (OWorkspace ws) else None)"

definition ex_required :: "RequireSpec \<Rightarrow> HarnessTemplateSpec" where
  "ex_required rq = ex_template\<lparr> hts_Workspace := \<lparr> wr_Required = True, wr_MountPath = [] \<rparr>, hts_Requires := rq \<rparr>"

definition ex_ctl_kube :: "RequireSpec \<Rightarrow> kube" where
  "ex_ctl_kube rq = ex_kube\<lparr> getClusterTemplate := (\<lambda>n. if n = ''t'' then Inr \<lparr> ht_Name = ''t'', ht_Annotations = [], ht_Spec = ex_required rq \<rparr>
     else Inl (NotFound [])) \<rparr>"

definition ex_cluster :: "'s \<Rightarrow> (okey \<Rightarrow> object option) \<Rightarrow> 's cluster" where
  "ex_cluster st objs = \<lparr> cl_kube = ex_ctl_kube ex_requires, cl_objects = objs, cl_faults = (\<lambda>_. None), cl_calls = 0, cl_now = 10, cl_broker = st, cl_log = [] \<rparr>"

definition ex_start_at :: "'s \<Rightarrow> 's cluster" where
  "ex_start_at st = ex_cluster st (ex_objects ex_live_run ex_workspace)"

definition ex_start :: "unit cluster" where
  "ex_start = ex_start_at ()"

lemmas ex_defs = ex_start_def ex_start_at_def ex_cluster_def ex_objects_def ex_live_run_def ex_run_def ex_run_spec_def ex_run_status_def ex_workspace_def
  ex_reconciler_def ex_reconciler_of_def ex_config_def

definition ex_resolved :: resolvedTemplate where
  "ex_resolved = \<lparr> rt_Spec = ex_required ex_requires, rt_SourceKind = ''ClusterHarnessTemplate'', rt_SourceName = ''t'' \<rparr>"

lemma ex_start_run: "cl_objects (ex_start_at st) (KHarnessRun, ''ns'', ''r'') = Some (ORun ex_live_run)" "run_key ex_live_run = (KHarnessRun, ''ns'', ''r'')"
  by (simp_all add: ex_defs run_key_def)

lemma ex_resolves: "resolveTemplate (rc_order (ex_reconciler_of b)) (cl_kube (ex_start_at st)) ex_live_run = Inr ex_resolved"
  by (simp add: ex_defs resolveTemplate_def resolveClusterTemplate_def ex_ctl_kube_def ex_resolved_def)

lemma ex_start_ok: "store_ok (ex_start_at st)"
  by (simp add: ex_defs store_ok_def well_placed_def run_key_def ws_key_def)

lemma ex_can_start:
  assumes "grants (ex_reconciler_of b) ex_live_run ex_resolved"
  shows "can_start (ex_reconciler_of b) ex_live_run ex_resolved (ex_start_at st)"
  unfolding can_start_def
proof (intro conjI ballI)
  show "resolveTemplate (rc_order (ex_reconciler_of b)) (cl_kube (ex_start_at st)) ex_live_run = Inr ex_resolved" by (rule ex_resolves)
  show "cl_objects (ex_start_at st) k = None" if "k \<in> insert (job_key ex_live_run) (side_of ex_live_run)" for k
    using that by (auto simp: ex_defs side_of_def rbac_keys_def key_defs ca_key_def)
  show "grants (ex_reconciler_of b) ex_live_run ex_resolved" by (rule assms)
  show "egress_ok (ex_reconciler_of b) ex_live_run ex_resolved (ex_start_at st)" by (simp add: egress_ok_def proxyConfigured_def ex_defs)
  show "ca_elsewhere (ex_reconciler_of b) ex_live_run"
    by (auto simp: ca_elsewhere_def ex_defs side_of_def rbac_keys_def key_defs ca_key_def promptSecretName_def)
qed (auto simp: ex_defs healthy_def run_key_def ws_key_def admitted_def isTerminal_def)

lemma ex_starts:
  assumes "grants (ex_reconciler_of b) ex_live_run ex_resolved"
  obtains res c' job where "runReconcile (ex_reconciler_of b) ''ns'' ''r'' (ex_start_at st) = (Inr res, c')" "cl_objects c' (KJob, ''ns'', ''r'') = Some (OJob job)"
  using run_starts [OF ex_can_start [OF assms] ex_start_run(2), of st] by (auto simp: job_there_def job_key_def jobName_def ex_defs)

lemma ex_no_job: "cl_objects (ex_start_at st) (KJob, ''ns'', ''r'') = None"
  by (simp add: ex_defs run_key_def ws_key_def)

lemma ex_grants: "grants (ex_reconciler_of ex_issuer) ex_live_run ex_resolved"
  by (simp add: grants_def ex_defs ex_issuer_def)

section \<open>Starting a run\<close>

lemma new_job_grounds:
  assumes "store_ok c" "cl_objects c (KHarnessRun, ns, name) = Some (ORun run)" "runReconcile r ns name c = (res, c')"
    and "cl_objects c (KJob, jns, jname) = None" "cl_objects c' (KJob, jns, jname) = Some x"
  obtains tpl run' wsName pvc d where "admitted run" "(KJob, jns, jname) = job_key run" "resolveTemplate (rc_order r) (cl_kube c) run = Inr tpl"
    "hr_Name run' = hr_Name run" "hr_Namespace run' = hr_Namespace run" "hr_Spec run' = hr_Spec run"
    "x = OJob (run_job r run' tpl wsName pvc d)" "holds_workspace c' run wsName" "leased r c c' run tpl"
    "certified r c' run" "decided r (cl_kube c) run tpl d"
proof -
  have c': "c' = snd (runReconcile r ns name c)" using assms(3) by simp
  have new: "\<not> no_new_job c c'" using assms(4,5) by (auto simp: no_new_job_def)
  from runReconcile_grounded [OF assms(1,2), of r] new obtain tpl where
    tpl: "admitted run" "resolveTemplate (rc_order r) (cl_kube c) run = Inr tpl" "job_grounded r c run tpl c'"
    unfolding c' live_grounded_def by blast
  from tpl(3) assms(4,5) have "(KJob, jns, jname) = job_key run
       \<and> (\<exists>run' wsName pvc d. hr_Name run' = hr_Name run \<and> hr_Namespace run' = hr_Namespace run \<and> hr_Spec run' = hr_Spec run
            \<and> x = OJob (run_job r run' tpl wsName pvc d)
            \<and> holds_workspace c' run wsName \<and> leased r c c' run tpl \<and> certified r c' run \<and> decided r (cl_kube c) run tpl d)"
    unfolding job_grounded_def by (metis fst_conv)
  then show ?thesis using tpl that by metis
qed

text \<open>
  C5: a Job appears only on grounds. When a reconcile leaves a Job that was not there before, whatever
  calls failed on the way, the run is live with both finalizers, its template resolves, it holds an active
  workspace, each credential the template requires has an unexpired lease or was issued by the broker in
  this reconcile, the certificate of a configured proxy is ready, and the Job is the one built for the
  mode of interception that the namespace's policies decide.
\<close>

theorem job_created_on_grounds:
  assumes "store_ok c" "cl_objects c (KHarnessRun, ns, name) = Some (ORun run)" "runReconcile r ns name c = (res, c')"
    and "cl_objects c (KJob, jns, jname) = None" "cl_objects c' (KJob, jns, jname) = Some x"
  shows "admitted run \<and> (KJob, jns, jname) = job_key run
    \<and> (\<exists>tpl run' wsName pvc d. resolveTemplate (rc_order r) (cl_kube c) run = Inr tpl
        \<and> hr_Name run' = hr_Name run \<and> hr_Namespace run' = hr_Namespace run \<and> hr_Spec run' = hr_Spec run
        \<and> x = OJob (run_job r run' tpl wsName pvc d) \<and> holds_workspace c' run wsName \<and> leased r c c' run tpl
        \<and> certified r c' run \<and> decided r (cl_kube c) run tpl d)"
  using new_job_grounds [OF assms] by metis

theorem job_created_on_grounds_witness:
  "\<exists>c'. c' = snd (runReconcile ex_reconciler ''ns'' ''r'' ex_start) \<and> admitted ex_live_run \<and> leased ex_reconciler ex_start c' ex_live_run ex_resolved
     \<and> (\<exists>wsName. holds_workspace c' ex_live_run wsName)"
proof -
  obtain res c' job where run: "runReconcile ex_reconciler ''ns'' ''r'' ex_start = (Inr res, c')" "cl_objects c' (KJob, ''ns'', ''r'') = Some (OJob job)"
    unfolding ex_reconciler_def ex_start_def by (rule ex_starts [OF ex_grants])
  from job_created_on_grounds [OF ex_start_ok [of "()", folded ex_start_def] ex_start_run(1) [of "()", folded ex_start_def] run(1)
      ex_no_job [of "()", folded ex_start_def] run(2)]
  show ?thesis using run(1) ex_resolves [of ex_issuer "()", folded ex_reconciler_def ex_start_def] by fastforce
qed





section \<open>The reconciler and the broker\<close>

text \<open>The broker of the reconciler is the server itself, behind the client.\<close>

definition live_broker :: "broker_env \<Rightarrow> broker_client \<Rightarrow> error_msg + string \<Rightarrow> broker_state broker_issuer" where
  "live_broker e bc tok =
     \<lparr> bi_Issue = brokerHTTPIssue bc tok (\<lambda>st rq. case handleIssue e st rq of (resp, st') \<Rightarrow> (Inr resp, st')),
       bi_Revoke = brokerHTTPRevoke bc tok (\<lambda>st rq. case handleRevoke e st rq of (resp, st') \<Rightarrow> (Inr resp, st')) \<rparr>"

lemma live_broker_granted:
  assumes "bi_Issue (live_broker e bc tok) st name ns cred = (Inr resp, st')" "ns \<noteq> []"
  shows "\<exists>run grant bp pname. getRun (be_kube e) ns name = Inr run
    \<and> matchPolicyGrant (be_kube e) ns (tr_Name (hr_TemplateRef run)) cred = Inr (Some (grant, bp, pname))"
proof -
  have call: "client_Do (bc\<lparr> bc_RunName := name, bc_RunNamespace := ns \<rparr>) tok (\<lambda>st rq. case handleIssue e st rq of (resp, st') \<Rightarrow> (Inr resp, st')) st
      \<lparr> biq_Name = cred \<rparr> = (Inr (Some resp), st')"
    using assms(1) by (auto simp: live_broker_def brokerHTTPIssue_def split: prod.splits sum.splits option.splits)
  from call obtain rq s where rq: "client_request (bc\<lparr> bc_RunName := name, bc_RunNamespace := ns \<rparr>) tok \<lparr> biq_Name = cred \<rparr> = Inr rq"
    and ok: "handleIssue e st rq = (RespJSON s resp, st')"
    by (rule client_Do_ok) (auto split: prod.splits)
  from rq have hdr: "rq_HeaderRun rq = name" "rq_HeaderNamespace rq = ns" "rq_Body rq = Inr \<lparr> biq_Name = cred \<rparr>"
    by (auto simp: client_request_def split: sum.splits)
  from ok show ?thesis
  proof (rule handleIssue_issued)
    fix n ns' req result a
    assume id: "identified e rq n ns'" and req: "rq_Body rq = Inr req" and iss: "issue e (bs_provs st) ns' n req = (Inr result, Some a, bs_provs st')"
    have "n = name" "ns' = ns"
      using id hdr assms(2) by (auto simp: identified_def resolveRunIdentity_def Let_def split: if_splits)
    with iss req hdr show ?thesis by (auto elim!: issue_issued)
  qed
qed

text \<open>
  C6: no pod without a policy. With the broker's own handlers behind the reconciler's client, a Job
  appears for a run whose template requires a credential only if the run's status already holds an
  unexpired lease for it, or a BrokerPolicy of the run's namespace grants it to the run's template at the
  broker.
\<close>

theorem job_needs_policy_grant:
  assumes "store_ok c" "cl_objects c (KHarnessRun, ns, name) = Some (ORun run)" "rc_BrokerClient r = Some (live_broker e bc tok)"
    and "runReconcile r ns name c = (res, c')" "cl_objects c (KJob, jns, jname) = None" "cl_objects c' (KJob, jns, jname) = Some x"
    and "resolveTemplate (rc_order r) (cl_kube c) run = Inr tpl" "q \<in> set (rq_Credentials (hts_Requires (rt_Spec tpl)))" "ns \<noteq> []"
  shows "cachedLease (cl_now c) run (cr_Name q) \<noteq> None
    \<or> (\<exists>stored grant bp pname. getRun (be_kube e) ns name = Inr stored
        \<and> matchPolicyGrant (be_kube e) ns (tr_Name (hr_TemplateRef stored)) (cr_Name q) = Inr (Some (grant, bp, pname)))"
proof -
  have key: "hr_Name run = name" "hr_Namespace run = ns"
    using store_okD [OF assms(1,2)] by (simp_all add: well_placed_run run_key_def)
  have "leased r c c' run tpl" using new_job_grounds [OF assms(1,2,4,5,6)] assms(7) by (metis sum.inject(2))
  then obtain es where "has_lease r (cl_now c) run es q" using assms(8) by (auto simp: leased_def)
  then show ?thesis
    unfolding has_lease_def issued_by_def using live_broker_granted assms(3,9) key by (metis option.inject)
qed

definition ex_ctl_client :: broker_client where
  "ex_ctl_client = \<lparr> bc_Endpoint = ''https://b'', bc_RunName = [], bc_RunNamespace = [] \<rparr>"

definition ex_live :: "broker_state broker_issuer" where
  "ex_live = live_broker ex_env ex_ctl_client (Inr ''tok'')"

lemma ex_live_issues: "isl (fst (bi_Issue ex_live st ''r'' ''ns'' ''c'')) = False"
  by code_simp

lemma ex_live_grants: "grants (ex_reconciler_of ex_live) ex_live_run ex_resolved"
  using ex_live_issues by (simp add: grants_def ex_defs ex_resolved_def ex_required_def ex_template_def ex_requires_def)

theorem job_needs_policy_grant_witness:
  "\<exists>stored grant bp pname. getRun (be_kube ex_env) ''ns'' ''r'' = Inr stored
     \<and> matchPolicyGrant (be_kube ex_env) ''ns'' (tr_Name (hr_TemplateRef stored)) ''c'' = Inr (Some (grant, bp, pname))"
proof -
  obtain res c' job where run: "runReconcile (ex_reconciler_of ex_live) ''ns'' ''r'' (ex_start_at ex_state) = (Inr res, c')"
    "cl_objects c' (KJob, ''ns'', ''r'') = Some (OJob job)"
    by (rule ex_starts [OF ex_live_grants])
  have client: "rc_BrokerClient (ex_reconciler_of ex_live) = Some (live_broker ex_env ex_ctl_client (Inr ''tok''))"
    by (simp add: ex_reconciler_of_def ex_live_def)
  have req: "\<lparr> cr_Name = ''c'' \<rparr> \<in> set (rq_Credentials (hts_Requires (rt_Spec ex_resolved)))"
    by (simp add: ex_resolved_def ex_required_def ex_requires_def)
  have none: "cachedLease (cl_now (ex_start_at ex_state)) ex_live_run ''c'' = None" by (simp add: ex_defs cachedLease_def)
  from job_needs_policy_grant [OF ex_start_ok ex_start_run(1) client run(1) ex_no_job run(2) ex_resolves req] none
  show ?thesis by simp
qed

end
