(* ===== verification/Controller_Binding.thy ===== *)
theory Controller_Binding
  imports Controller_Facts
begin

text \<open>
  The binding of a workspace to a run as a lock. Reconciles of different runs interleave between their
  reads and their writes; other controllers write the workspace's status as well. What one reconcile reads
  may be old when it writes: only the resource version decides whether the write happens.
\<close>

section \<open>Steps\<close>

record 's lock_state =
  lk_cluster :: "'s cluster"
  lk_seen :: "Workspace set"
  lk_copy :: "string \<Rightarrow> Workspace option"
  lk_held :: "string set"

text \<open>
  A reconcile of a run reads the workspace and later binds the copy it read; a run that is past its bind
  releases the workspace, from any copy. One run is never reconciled twice at the same time, so a run does
  not release between its own read and bind. Any other writer keeps the reference it read.
\<close>

inductive lock_step :: "okey \<Rightarrow> 's lock_state \<Rightarrow> 's lock_state \<Rightarrow> bool" for k where
  Read: "apiGet k (lk_cluster s) = (Inr (OWorkspace w), c') \<Longrightarrow>
    lock_step k s (s\<lparr> lk_cluster := c', lk_seen := insert w (lk_seen s), lk_copy := (lk_copy s)(n := Some w) \<rparr>)"
| Bind: "lk_copy s (hr_Name run) = Some w \<Longrightarrow> bindWorkspace w run (lk_cluster s) = (x, c') \<Longrightarrow>
    lock_step k s (s\<lparr> lk_cluster := c', lk_copy := (lk_copy s)(hr_Name run := None),
      lk_held := (if \<exists>w'. x = Inr (True, w') then insert (hr_Name run) (lk_held s) else lk_held s) \<rparr>)"
| Clear: "lk_copy s n = None \<Longrightarrow> w \<in> lk_seen s \<Longrightarrow> clearFresh w n (lk_cluster s) = (x, c') \<Longrightarrow>
    lock_step k s (s\<lparr> lk_cluster := c', lk_held := lk_held s - {n} \<rparr>)"
| Other: "w \<in> lk_seen s \<Longrightarrow> ws_key w' = ws_key w \<Longrightarrow> ws_ResourceVersion w' = ws_ResourceVersion w \<Longrightarrow>
    wss_ActiveRunRef (ws_Status w') = wss_ActiveRunRef (ws_Status w) \<Longrightarrow> updateWorkspaceStatus w' (lk_cluster s) = (x, c') \<Longrightarrow>
    lock_step k s (s\<lparr> lk_cluster := c' \<rparr>)"

inductive lock_reach :: "okey \<Rightarrow> 's cluster \<Rightarrow> 's lock_state \<Rightarrow> bool" for k c0 where
  Init: "lock_reach k c0 \<lparr> lk_cluster = c0, lk_seen = {}, lk_copy = (\<lambda>_. None), lk_held = {} \<rparr>"
| Step: "lock_reach k c0 s \<Longrightarrow> lock_step k s s' \<Longrightarrow> lock_reach k c0 s'"

section \<open>The invariant\<close>

definition holder :: "okey \<Rightarrow> 's lock_state \<Rightarrow> string" where
  "holder k s = (case cl_objects (lk_cluster s) k of Some (OWorkspace w) \<Rightarrow> wss_ActiveRunRef (ws_Status w) | _ \<Rightarrow> [])"

definition lock_inv :: "okey \<Rightarrow> 's lock_state \<Rightarrow> bool" where
  "lock_inv k s \<longleftrightarrow>
     (\<exists>w. cl_objects (lk_cluster s) k = Some (OWorkspace w) \<and> ws_key w = k
       \<and> (\<forall>v \<in> lk_seen s. ws_key v = k \<and> ws_ResourceVersion v \<le> ws_ResourceVersion w
            \<and> (ws_ResourceVersion v = ws_ResourceVersion w \<longrightarrow> wss_ActiveRunRef (ws_Status v) = wss_ActiveRunRef (ws_Status w)))
       \<and> (\<forall>n v. lk_copy s n = Some v \<longrightarrow> v \<in> lk_seen s \<and> (n \<noteq> [] \<and> wss_ActiveRunRef (ws_Status v) = n \<longrightarrow> wss_ActiveRunRef (ws_Status w) = n))
       \<and> (\<forall>n \<in> lk_held s. n \<noteq> [] \<longrightarrow> wss_ActiveRunRef (ws_Status w) = n))"

text \<open>A write of the status goes through exactly on the current version.\<close>

lemma updateWorkspaceStatus_cases:
  assumes "updateWorkspaceStatus v c = (x, c')" "cl_objects c (ws_key v) = Some (OWorkspace w)"
  obtains (Written) "ws_ResourceVersion v = ws_ResourceVersion w"
      "cl_objects c' (ws_key v) = Some (OWorkspace (w\<lparr> ws_Status := ws_Status v, ws_ResourceVersion := Suc (ws_ResourceVersion w) \<rparr>))"
      "x = Inr (w\<lparr> ws_Status := ws_Status v, ws_ResourceVersion := Suc (ws_ResourceVersion w) \<rparr>)"
    | (Kept) "cl_objects c' (ws_key v) = Some (OWorkspace w)" "\<exists>e. x = Inl e"
  using assms by (auto simp: updateWorkspaceStatus_def api_def Let_def put_def split: option.splits if_splits)

lemma clearFresh_cases:
  assumes "clearFresh v n c = (x, c')" "cl_objects c (ws_key v) = Some (OWorkspace w)"
  obtains (Kept) "cl_objects c' (ws_key v) = Some (OWorkspace w)"
    | (Written) st where "wss_ActiveRunRef (ws_Status v) = n" "ws_ResourceVersion v = ws_ResourceVersion w"
      "cl_objects c' (ws_key v) = Some (OWorkspace (w\<lparr> ws_Status := st, ws_ResourceVersion := Suc (ws_ResourceVersion w) \<rparr>))"
      "wss_ActiveRunRef st = []"
proof (cases "wss_ActiveRunRef (ws_Status v) = n")
  case False
  then show ?thesis using assms Kept by (simp add: clearFresh_def ret_def)
next
  case True
  let ?v = "onWs (\<lambda>st. st\<lparr> wss_ActiveRunRef := [], wss_LastActivity := Some (cl_now c) \<rparr>) v"
  obtain u c1 where u: "updateWorkspaceStatus ?v c = (u, c1)" by fastforce
  have same: "cl_objects c' = cl_objects c1"
    using assms(1) True u by (auto simp: clearFresh_def bnd_def getNow_def attempt_def ret_def throw_def split: sum.splits if_splits)
  from u show ?thesis
  proof (rule updateWorkspaceStatus_cases [where w = w])
    show "cl_objects c (ws_key ?v) = Some (OWorkspace w)" using assms(2) by simp
  next
    assume "ws_ResourceVersion ?v = ws_ResourceVersion w"
      "cl_objects c1 (ws_key ?v) = Some (OWorkspace (w\<lparr> ws_Status := ws_Status ?v, ws_ResourceVersion := Suc (ws_ResourceVersion w) \<rparr>))"
    then show ?thesis using Written [of "ws_Status ?v"] True same by (simp add: onWs_def ws_key_def)
  next
    assume "cl_objects c1 (ws_key ?v) = Some (OWorkspace w)"
    then show ?thesis using Kept same by simp
  qed
qed

lemma bindWorkspace_cases:
  assumes "bindWorkspace v run c = (x, c')" "cl_objects c (ws_key v) = Some (OWorkspace w)"
  obtains (Mine) "wss_ActiveRunRef (ws_Status v) = hr_Name run" "cl_objects c' (ws_key v) = Some (OWorkspace w)"
    | (Kept) "cl_objects c' (ws_key v) = Some (OWorkspace w)" "\<nexists>w'. x = Inr (True, w')"
    | (Written) st where "wss_ActiveRunRef (ws_Status v) = []" "ws_ResourceVersion v = ws_ResourceVersion w"
      "cl_objects c' (ws_key v) = Some (OWorkspace (w\<lparr> ws_Status := st, ws_ResourceVersion := Suc (ws_ResourceVersion w) \<rparr>))"
      "wss_ActiveRunRef st = hr_Name run"
proof (cases "wss_ActiveRunRef (ws_Status v) = hr_Name run \<or> wss_ActiveRunRef (ws_Status v) \<noteq> []")
  case True
  then show ?thesis using assms Mine Kept by (auto simp: bindWorkspace_def ret_def split: if_splits)
next
  case False
  let ?v = "bindUpdate (cl_now c) (hr_Name run) v"
  obtain u c1 where u: "updateWorkspaceStatus ?v c = (u, c1)" by fastforce
  have same: "cl_objects c' = cl_objects c1" and res: "(\<exists>w'. x = Inr (True, w')) \<Longrightarrow> \<exists>w'. u = Inr w'"
    using assms(1) False u by (auto simp: bindWorkspace_def bnd_def getNow_def attempt_def ret_def throw_def Let_def split: sum.splits if_splits)
  from u show ?thesis
  proof (rule updateWorkspaceStatus_cases [where w = w])
    show "cl_objects c (ws_key ?v) = Some (OWorkspace w)" using assms(2) by simp
  next
    assume "ws_ResourceVersion ?v = ws_ResourceVersion w"
      "cl_objects c1 (ws_key ?v) = Some (OWorkspace (w\<lparr> ws_Status := ws_Status ?v, ws_ResourceVersion := Suc (ws_ResourceVersion w) \<rparr>))"
    then show ?thesis using Written [of "ws_Status ?v"] False same by (simp add: bindUpdate_def onWs_def ws_key_def)
  next
    assume "cl_objects c1 (ws_key ?v) = Some (OWorkspace w)" "\<exists>e. u = Inl e"
    then show ?thesis using Kept same res by auto
  qed
qed

text \<open>The invariant with the stored workspace named, and how it survives a write and a read.\<close>

definition lock_at :: "okey \<Rightarrow> Workspace \<Rightarrow> 's lock_state \<Rightarrow> bool" where
  "lock_at k w s \<longleftrightarrow>
     cl_objects (lk_cluster s) k = Some (OWorkspace w) \<and> ws_key w = k
     \<and> (\<forall>v \<in> lk_seen s. ws_key v = k \<and> ws_ResourceVersion v \<le> ws_ResourceVersion w
          \<and> (ws_ResourceVersion v = ws_ResourceVersion w \<longrightarrow> wss_ActiveRunRef (ws_Status v) = wss_ActiveRunRef (ws_Status w)))
     \<and> (\<forall>n v. lk_copy s n = Some v \<longrightarrow> v \<in> lk_seen s \<and> (n \<noteq> [] \<and> wss_ActiveRunRef (ws_Status v) = n \<longrightarrow> wss_ActiveRunRef (ws_Status w) = n))
     \<and> (\<forall>n \<in> lk_held s. n \<noteq> [] \<longrightarrow> wss_ActiveRunRef (ws_Status w) = n)"

lemma lock_inv_at: "lock_inv k s \<longleftrightarrow> (\<exists>w. lock_at k w s)"
  unfolding lock_inv_def lock_at_def ..

lemma lock_at_written:
  assumes "lock_at k w s" "cl_objects c' k = Some (OWorkspace (w\<lparr> ws_Status := st, ws_ResourceVersion := Suc (ws_ResourceVersion w) \<rparr>))"
    and "\<And>n v. cp n = Some v \<Longrightarrow> v \<in> lk_seen s \<and> (n \<noteq> [] \<and> wss_ActiveRunRef (ws_Status v) = n \<longrightarrow> wss_ActiveRunRef st = n)"
    and "\<And>n. n \<in> H \<Longrightarrow> n \<noteq> [] \<Longrightarrow> wss_ActiveRunRef st = n"
  shows "lock_inv k (s\<lparr> lk_cluster := c', lk_copy := cp, lk_held := H \<rparr>)"
  unfolding lock_inv_at lock_at_def
  by (rule exI [of _ "w\<lparr> ws_Status := st, ws_ResourceVersion := Suc (ws_ResourceVersion w) \<rparr>"])
    (use assms in \<open>auto simp: lock_at_def ws_key_def\<close>)

lemma lock_at_kept:
  assumes "lock_at k w s" "cl_objects c' k = Some (OWorkspace w)" "\<And>n v. cp n = Some v \<Longrightarrow> lk_copy s n = Some v"
    and "\<And>n. n \<in> H \<Longrightarrow> n \<noteq> [] \<Longrightarrow> wss_ActiveRunRef (ws_Status w) = n"
  shows "lock_inv k (s\<lparr> lk_cluster := c', lk_copy := cp, lk_held := H \<rparr>)"
  unfolding lock_inv_at lock_at_def
  by (rule exI [of _ w]) (use assms(1,2,4) in \<open>auto simp: lock_at_def dest!: assms(3)\<close>)

lemma lock_state_same [simp]: "s\<lparr> lk_cluster := c', lk_copy := lk_copy s, lk_held := H \<rparr> = s\<lparr> lk_cluster := c', lk_held := H \<rparr>"
  "s\<lparr> lk_cluster := c', lk_held := lk_held s \<rparr> = s\<lparr> lk_cluster := c' \<rparr>"
  by simp_all

lemma lock_step_inv:
  assumes "lock_step k s s'" "lock_inv k s"
  shows "lock_inv k s'"
  using assms
proof (cases rule: lock_step.cases)
  case (Read w c' n)
  from assms(2) obtain v where v: "lock_at k v s" by (auto simp: lock_inv_at)
  have "v = w" "cl_objects c' = cl_objects (lk_cluster s)"
    using Read(2) v by (auto simp: lock_at_def apiGet_def api_def Let_def split: option.splits if_splits)
  with v Read show ?thesis unfolding lock_inv_at lock_at_def by (intro exI [of _ w]) auto
next
  case (Bind run v x c')
  from assms(2) obtain w where w: "lock_at k w s" by (auto simp: lock_inv_at)
  then have seen: "v \<in> lk_seen s" and key: "ws_key v = k" using Bind(2) by (auto simp: lock_at_def)
  have stored: "cl_objects (lk_cluster s) (ws_key v) = Some (OWorkspace w)" using w key by (simp add: lock_at_def)
  let ?cp = "(lk_copy s)(hr_Name run := None)" and ?H = "if \<exists>w'. x = Inr (True, w') then insert (hr_Name run) (lk_held s) else lk_held s"
  from Bind(3) stored have "lock_inv k (s\<lparr> lk_cluster := c', lk_copy := ?cp, lk_held := ?H \<rparr>)"
  proof (cases rule: bindWorkspace_cases)
    case Mine
    then show ?thesis using w key Bind(2) by (intro lock_at_kept [OF w]) (auto simp: lock_at_def split: if_splits)
  next
    case Kept
    then show ?thesis using w key by (intro lock_at_kept [OF w]) (auto simp: lock_at_def split: if_splits)
  next
    case (Written st)
    then have free: "wss_ActiveRunRef (ws_Status w) = []" using w seen by (auto simp: lock_at_def)
    show ?thesis using Written w key free by (intro lock_at_written [OF w]) (auto simp: lock_at_def split: if_splits, metis)
  qed
  with Bind(1) show ?thesis by simp
next
  case (Clear n v x c')
  from assms(2) obtain w where w: "lock_at k w s" by (auto simp: lock_inv_at)
  then have key: "ws_key v = k" using Clear(3) by (auto simp: lock_at_def)
  have stored: "cl_objects (lk_cluster s) (ws_key v) = Some (OWorkspace w)" using w key by (simp add: lock_at_def)
  from Clear(4) stored have "lock_inv k (s\<lparr> lk_cluster := c', lk_copy := lk_copy s, lk_held := lk_held s - {n} \<rparr>)"
  proof (cases rule: clearFresh_cases)
    case Kept
    then show ?thesis using w key by (intro lock_at_kept [OF w]) (auto simp: lock_at_def)
  next
    case (Written st)
    then have mine: "wss_ActiveRunRef (ws_Status w) = n" using w Clear(3) by (auto simp: lock_at_def)
    show ?thesis using Written w key mine Clear(2) by (intro lock_at_written [OF w]) (auto simp: lock_at_def)
  qed
  with Clear(1) show ?thesis by simp
next
  case (Other v v' x c')
  from assms(2) obtain w where w: "lock_at k w s" by (auto simp: lock_inv_at)
  then have key: "ws_key v' = k" using Other(2,3) by (auto simp: lock_at_def)
  have stored: "cl_objects (lk_cluster s) (ws_key v') = Some (OWorkspace w)" using w key by (simp add: lock_at_def)
  from Other(6) stored have "lock_inv k (s\<lparr> lk_cluster := c', lk_copy := lk_copy s, lk_held := lk_held s \<rparr>)"
  proof (cases rule: updateWorkspaceStatus_cases)
    case Kept
    then show ?thesis using w key by (intro lock_at_kept [OF w]) (auto simp: lock_at_def)
  next
    case Written
    then have same: "wss_ActiveRunRef (ws_Status v') = wss_ActiveRunRef (ws_Status w)" using w Other(2,4,5) by (auto simp: lock_at_def)
    show ?thesis using Written w key same by (intro lock_at_written [OF w]) (auto simp: lock_at_def)
  qed
  with Other(1) show ?thesis by simp
qed

lemma lock_reach_inv:
  assumes "lock_reach k c0 s" "cl_objects c0 k = Some (OWorkspace w)" "ws_key w = k"
  shows "lock_inv k s"
  using assms(1)
proof induction
  case Init
  show ?case using assms(2,3) by (simp add: lock_inv_def)
next
  case (Step s s')
  from Step(2,3) show ?case by (rule lock_step_inv)
qed

end
