(* ===== verification/Controller_Deletion.thy ===== *)
theory Controller_Deletion
  imports Controller_Start
begin

text \<open>
  The deletion of a run: whatever the broker answers, two reconciles without failing calls attempt to
  revoke every lease, delete the Job, release the workspace and let the run go.
\<close>

section \<open>Revocation\<close>

definition revoked :: "HarnessRun \<Rightarrow> IssuedLease set \<Rightarrow> 's cluster \<Rightarrow> bool" where
  "revoked run ls c \<longleftrightarrow> (\<forall>l \<in> ls. \<exists>x. Revoked (hr_Name run) (hr_Namespace run) l x \<in> set (cl_log c))"

lemma framed_revoked [simp]: "framed K (revoked run ls)"
  unfolding framed_def revoked_def unchanged_def by fastforce

lemma revoked_insert: "revoked run (insert l ls) c \<longleftrightarrow> revoked run {l} c \<and> revoked run ls c"
  by (auto simp: revoked_def)

lemma sure_brokerRevoke: "framed {} P \<Longrightarrow> sure P (brokerRevoke b run l) (\<lambda>_ c. P c \<and> revoked run {l} c)"
  by (rule triple_weaken [OF triple_and [OF triple_frame [OF touches_brokerRevoke]]])
    (auto simp: triple_def brokerRevoke_def revoked_def split: prod.split)

text \<open>One attempt at least is made, and no answer of the broker is an error of the operation.\<close>

lemma sure_revokeRetry: "framed {} P \<Longrightarrow> sure P (revokeRetry b gone run l n e) (\<lambda>_. P)"
proof (induction n arbitrary: e)
  case 0
  then show ?case by (simp add: sure_ret)
next
  case (Suc n)
  have rest: "sure (\<lambda>c. P c \<and> revoked run {l} c) (revokeRetry b gone run l n e') (\<lambda>_. P)" for e'
    by (rule triple_pre [OF Suc.IH [OF Suc.prems]]) simp
  have stop: "sure (\<lambda>c. P c \<and> revoked run {l} c) (ret z) (\<lambda>_. P)" for z by (rule triple_ret) simp
  show ?case
    unfolding revokeRetry.simps
    by (rule triple_bnd [OF sure_brokerRevoke [OF Suc.prems]]) (auto split: option.split intro: triple_if rest stop)
qed

lemma sure_revokeOne:
  assumes "framed {} P"
  shows "sure P (revokeOneLeaseWithRetry b gone run l) (\<lambda>_ c. P c \<and> revoked run {l} c)"
proof -
  let ?Q = "\<lambda>c. P c \<and> revoked run {l} c"
  have fr: "framed {} ?Q" using assms by simp
  have three: "(3 :: nat) = Suc 2" by simp
  show ?thesis
    unfolding revokeOneLeaseWithRetry_def three revokeRetry.simps(2)
    by (rule triple_bnd [OF sure_brokerRevoke [OF assms]])
      (auto split: option.split intro!: triple_if sure_revokeRetry [OF fr] sure_ret simp del: revokeRetry.simps)
qed

lemma sure_revokeLoop:
  assumes "framed {} P"
  shows "sure P (revokeLoop b gone run ls errs) (\<lambda>_ c. P c \<and> revoked run (set ls) c)"
  using assms
proof (induction ls arbitrary: P errs)
  case Nil
  then show ?case by (auto intro: triple_ret simp: revoked_def)
next
  case (Cons l ls)
  have fr: "framed {} (\<lambda>c. P c \<and> revoked run {l} c)" using Cons.prems by simp
  show ?case
    unfolding revokeLoop.simps
    by (rule triple_bnd [OF sure_revokeOne [OF Cons.prems]], rule triple_weaken [OF Cons.IH [OF fr]])
      (auto simp: revoked_insert [of run l "set ls"])
qed

lemma sure_revokeIssuedLeases:
  assumes "framed {} P" "rc_BrokerClient r = Some b"
  shows "sure P (revokeIssuedLeases r run) (\<lambda>_ c. P c \<and> revoked run (set (hr_IssuedLeases run)) c)"
  unfolding revokeIssuedLeases_def assms(2)
  by (auto intro!: triple_if triple_ret triple_bnd [OF sure_revokeLoop [OF assms(1)]] simp: revoked_def)

section \<open>The Job and the workspace\<close>

definition job_gone :: "okey \<Rightarrow> 's cluster \<Rightarrow> bool" where
  "job_gone k c \<longleftrightarrow> (\<forall>job. cl_objects c k = Some (OJob job) \<longrightarrow> job_Deleting job)"

lemma framed_job_gone: "k \<notin> K \<Longrightarrow> framed K (job_gone k)"
  unfolding framed_def job_gone_def by (metis unchanged_object)

lemma sure_deleteJob:
  assumes "framed {k} P" "\<And>c. P c \<Longrightarrow> healthy c" "fst k = KJob" "\<And>j. touches {} (announce j)" "\<And>j c. \<not> isl (fst (announce j c))"
  shows "sure P (deleteJob k announce) (\<lambda>_ c. P c \<and> job_gone k c)"
proof -
  have say: "sure (\<lambda>c. P c \<and> job_gone k c) (announce j) (\<lambda>_ c. P c \<and> job_gone k c)" for j
  proof (rule sure_frame [OF _ assms(4), of "\<lambda>_. True"])
    show "sure (\<lambda>_. True) (announce j) (\<lambda>_ _. True)" using assms(5) [of j] by (auto simp: triple_def split: sum.split) (metis fst_conv sum.disc(1))
    show "framed {} (\<lambda>c. P c \<and> job_gone k c)" using assms(1) by (intro framed_conj framed_job_gone) (auto intro: framed_sub)
  qed simp
  show ?thesis
    unfolding deleteJob_def
  proof (rule triple_handle [where Q' = "\<lambda>x c. P c \<and> cl_objects c k = Some x \<and> kind_of x = KJob"
        and E = "\<lambda>e c. (P c \<and> job_gone k c) \<and> is_NotFound e"])
    fix c assume "P c"
    then show "case apiGet k c of (Inr a, c') \<Rightarrow> P c' \<and> cl_objects c' k = Some a \<and> kind_of a = KJob
        | (Inl e, c') \<Rightarrow> (P c' \<and> job_gone k c') \<and> is_NotFound e"
      using framed_calls [OF assms(1)] assms(2,3)
      by (auto simp: apiGet_def api_def healthy_def Let_def is_NotFound_def IsNotFound_def job_gone_def split: option.split)
  next
    fix x
    show "sure (\<lambda>c. P c \<and> cl_objects c k = Some x \<and> kind_of x = KJob)
      (if job_Deleting (the_job x) then ret ()
       else bnd (attempt (apiDelete k)) (\<lambda>d. case d of Inl e \<Rightarrow> if is_NotFound e then announce (the_job x) else throw e | Inr _ \<Rightarrow> announce (the_job x)))
      (\<lambda>_ c. P c \<and> job_gone k c)"
    proof (rule triple_if)
      assume "job_Deleting (the_job x)"
      then show "sure (\<lambda>c. P c \<and> cl_objects c k = Some x \<and> kind_of x = KJob) (ret ()) (\<lambda>_ c. P c \<and> job_gone k c)"
        by (intro triple_ret) (auto simp: job_gone_def)
    next
      show "sure (\<lambda>c. P c \<and> cl_objects c k = Some x \<and> kind_of x = KJob)
        (bnd (attempt (apiDelete k)) (\<lambda>d. case d of Inl e \<Rightarrow> if is_NotFound e then announce (the_job x) else throw e | Inr _ \<Rightarrow> announce (the_job x)))
        (\<lambda>_ c. P c \<and> job_gone k c)"
      proof (rule triple_handle [where Q' = "\<lambda>_ c. P c \<and> job_gone k c" and E = "\<lambda>_ _. False"])
        fix c assume c: "P c \<and> cl_objects c k = Some x \<and> kind_of x = KJob"
        then have "P (put k None (c\<lparr> cl_calls := n \<rparr>))" for n using framed_put [OF assms(1)] framed_calls [OF assms(1)] by blast
        with c assms(2) show "case apiDelete k c of (Inr a, c') \<Rightarrow> P c' \<and> job_gone k c' | (Inl e, c') \<Rightarrow> False"
          by (auto simp: apiDelete_def api_def healthy_def Let_def job_gone_def put_def)
      qed (auto intro: say)
    qed
  qed (auto intro!: sure_not_found triple_if triple_ret simp: triple_def ret_def)
qed

definition released :: "okey \<Rightarrow> string \<Rightarrow> 's cluster \<Rightarrow> bool" where
  "released k n c \<longleftrightarrow> (\<forall>w. cl_objects c k = Some (OWorkspace w) \<longrightarrow> wss_ActiveRunRef (ws_Status w) \<noteq> n)"

lemma framed_released: "k \<notin> K \<Longrightarrow> framed K (released k n)"
  unfolding framed_def released_def by (metis unchanged_object)

text \<open>The binding is cleared, on a store whose workspaces lie under their own names.\<close>

lemma clear_released:
  assumes "healthy c" "cl_objects c (ws_key ws) = Some (OWorkspace ws)" "n \<noteq> []"
  shows "\<exists>c'. clearWorkspaceBinding ws n c = (Inr (), c') \<and> released (ws_key ws) n c'"
proof (cases "wss_ActiveRunRef (ws_Status ws) = n")
  case False
  then show ?thesis using assms(2) by (auto simp: clearWorkspaceBinding_def ret_def released_def)
next
  case True
  let ?c = "c\<lparr> cl_calls := Suc (cl_calls c) \<rparr>"
  have get: "apiGet (ws_key ws) c = (Inr (OWorkspace ws), ?c)"
    using assms(1,2) by (simp add: apiGet_def api_def healthy_def ws_key_def)
  show ?thesis
    using assms True
    by (simp add: clearWorkspaceBinding_def clearFresh_def bnd_def attempt_def get getNow_def updateWorkspaceStatus_def api_def healthy_def ret_def
        released_def put_def Let_def) (simp add: onWs_def ws_key_def)
qed

lemma sure_release:
  assumes "framed {k. fst k = KWorkspace} P" "\<And>c. P c \<Longrightarrow> healthy c" "n \<noteq> []"
  shows "sure (\<lambda>c. P c \<and> store_ok c) (bnd (attempt (apiGet (KWorkspace, ns, w))) (\<lambda>g. case g of
      Inr x \<Rightarrow> clearWorkspaceBinding (the_workspace x) n | Inl e \<Rightarrow> if is_NotFound e then ret () else throw e))
    (\<lambda>_ c. P c \<and> released (KWorkspace, ns, w) n c)"
proof (rule triple_handle [where E = "\<lambda>e c. (P c \<and> released (KWorkspace, ns, w) n c) \<and> is_NotFound e"
      and Q' = "\<lambda>x c. P c \<and> (\<exists>ws. x = OWorkspace ws \<and> ws_key ws = (KWorkspace, ns, w) \<and> cl_objects c (KWorkspace, ns, w) = Some (OWorkspace ws))"])
  fix c assume c: "P c \<and> store_ok c"
  then have P: "P (c\<lparr> cl_calls := Suc (cl_calls c) \<rparr>)" using framed_calls [OF assms(1)] by blast
  have "cl_objects c (KWorkspace, ns, w) = Some (OWorkspace ws) \<Longrightarrow> ws_key ws = (KWorkspace, ns, w)" for ws
    using c store_okD by (fastforce simp: well_placed_ws)
  with c P assms(2) show "case apiGet (KWorkspace, ns, w) c of
      (Inr x, c') \<Rightarrow> P c' \<and> (\<exists>ws. x = OWorkspace ws \<and> ws_key ws = (KWorkspace, ns, w) \<and> cl_objects c' (KWorkspace, ns, w) = Some (OWorkspace ws))
    | (Inl e, c') \<Rightarrow> (P c' \<and> released (KWorkspace, ns, w) n c') \<and> is_NotFound e"
    by (auto simp: apiGet_def api_def healthy_def Let_def is_NotFound_def IsNotFound_def released_def split: option.split elim!: kind_of.elims)
next
  fix x
  show "sure (\<lambda>c. P c \<and> (\<exists>ws. x = OWorkspace ws \<and> ws_key ws = (KWorkspace, ns, w) \<and> cl_objects c (KWorkspace, ns, w) = Some (OWorkspace ws)))
      (clearWorkspaceBinding (the_workspace x) n) (\<lambda>_ c. P c \<and> released (KWorkspace, ns, w) n c)"
  proof (rule triple_weaken [OF triple_both [OF triple_frame [OF touches_clearWorkspaceBinding assms(1)]]])
    show "sure (\<lambda>c. healthy c \<and> (\<exists>ws. x = OWorkspace ws \<and> ws_key ws = (KWorkspace, ns, w) \<and> cl_objects c (KWorkspace, ns, w) = Some (OWorkspace ws)))
      (clearWorkspaceBinding (the_workspace x) n) (\<lambda>_ c. released (KWorkspace, ns, w) n c)"
      by (rule sureI) (use clear_released assms(3) in force)
  qed (use assms(2) in \<open>auto simp: ws_key_def\<close>)
qed (auto intro!: sure_not_found triple_if triple_ret simp: triple_def ret_def)

section \<open>Two reconciles\<close>

definition deleting :: "HarnessRun \<Rightarrow> bool" where
  "deleting x \<longleftrightarrow> hr_DeletionTimestamp x \<noteq> None"

text \<open>What is left of a run under deletion once the finalizers are those of \<open>run\<close> without \<open>f\<close>.\<close>

definition left_of :: "string \<Rightarrow> HarnessRun \<Rightarrow> HarnessRun \<Rightarrow> object option" where
  "left_of f run x =
     (let fs = hr_Finalizers (dropFinalizer f run) in if fs = [] then None else Some (ORun (x\<lparr> hr_Finalizers := fs \<rparr>)))"

lemma sure_releaseFinalizer:
  assumes "framed {run_key run} P" "\<And>c. P c \<Longrightarrow> healthy c"
  shows "sure (\<lambda>c. P c \<and> cl_objects c (run_key run) = Some (ORun x) \<and> deleting x) (releaseFinalizer f run res)
    (\<lambda>y c. P c \<and> y = res \<and> cl_objects c (run_key run) = left_of f run x)"
proof -
  have key: "run_key (dropFinalizer f run) = run_key run" by (simp add: dropFinalizer_def run_key_def)
  have upd: "sure (\<lambda>c. P c \<and> cl_objects c (run_key run) = Some (ORun x) \<and> deleting x) (updateRun (dropFinalizer f run))
    (\<lambda>_ c. P c \<and> cl_objects c (run_key run) = left_of f run x)"
    unfolding updateRun_def key
  proof (rule sure_api [where K = "{}"])
    show "framed {} (\<lambda>c. P c \<and> cl_objects c (run_key run) = Some (ORun x) \<and> deleting x)"
      using framed_sub [OF assms(1), of "{}"] unfolding framed_def by (metis empty_iff empty_subsetI unchanged_object)
  qed (use assms in \<open>auto simp: deleting_def left_of_def framed_put, auto simp: put_def\<close>)
  show ?thesis
    unfolding releaseFinalizer_def by (rule triple_try [OF upd]) (auto simp: triple_def ret_def)
qed

lemma sure_deleteRun:
  assumes "framed {} P" "\<And>c. P c \<Longrightarrow> healthy c \<and> cl_objects c (KHarnessRun, ns, name) = Some (ORun run)" "deleting run"
    and "sure P (reconcileDelete r run) Q"
  shows "sure P (runReconcile r ns name) Q"
proof -
  have "sure P (apiGet (KHarnessRun, ns, name)) (\<lambda>x c. P c \<and> x = ORun run)"
    by (rule triple_weaken [OF sure_get [OF assms(1)]]) (use assms(2) in auto)
  then show ?thesis
    unfolding runReconcile_def
    by (rule triple_try, intro triple_given) (use assms(3,4) in \<open>simp_all add: Let_def deleting_def\<close>)
qed

lemma delete_first:
  assumes "healthy c" "store_ok c" "cl_objects c (KHarnessRun, ns, name) = Some (ORun run)" "deleting run"
    and "BrokerLeasesFinalizer \<in> set (hr_Finalizers run)" "rc_BrokerClient r = Some b"
  shows "\<exists>c'. runReconcile r ns name c = (Inr Requeue, c') \<and> healthy c' \<and> store_ok c' \<and> revoked run (set (hr_IssuedLeases run)) c'
    \<and> cl_objects c' (KHarnessRun, ns, name) = left_of BrokerLeasesFinalizer run run"
proof -
  have key: "run_key run = (KHarnessRun, ns, name)" using store_okD [OF assms(2,3)] by (simp add: well_placed_run)
  let ?P = "\<lambda>c. healthy c \<and> cl_objects c (run_key run) = Some (ORun run) \<and> deleting run"
  have fr: "framed {} ?P" using framed_healthy unfolding framed_def by (metis empty_iff unchanged_object)
  have say: "sure (\<lambda>c. ?P c \<and> revoked run (set (hr_IssuedLeases run)) c) (case err of None \<Rightarrow> ret () | Some m \<Rightarrow> emit (e m))
      (\<lambda>_ c. (healthy c \<and> revoked run (set (hr_IssuedLeases run)) c) \<and> cl_objects c (run_key run) = Some (ORun run) \<and> deleting run)" for err e
    by (cases err) (auto simp: triple_def ret_def emit_def healthy_def revoked_def)
  have body: "sure ?P (reconcileDelete r run) (\<lambda>y c. (healthy c \<and> revoked run (set (hr_IssuedLeases run)) c)
      \<and> y = Requeue \<and> cl_objects c (run_key run) = left_of BrokerLeasesFinalizer run run)"
    unfolding reconcileDelete_def if_P [OF assms(5)]
    by (rule triple_bnd [OF sure_revokeIssuedLeases [OF fr assms(6)]], rule triple_bnd [OF say], rule sure_releaseFinalizer) simp_all
  have "sure ?P (runReconcile r ns name) (\<lambda>y c. (healthy c \<and> revoked run (set (hr_IssuedLeases run)) c)
      \<and> y = Requeue \<and> cl_objects c (run_key run) = left_of BrokerLeasesFinalizer run run)"
    by (rule sure_deleteRun [OF fr _ assms(4) body]) (simp add: key)
  from sureD [OF this, of c] assms key typed_runReconcile [of r ns name] show ?thesis
    by (auto simp: keeps_def)
qed

lemma sure_markCancelled:
  assumes "framed {run_key run} P" "\<And>c. P c \<Longrightarrow> healthy c"
  shows "sure (\<lambda>c. P c \<and> run_such deleting run c) (markCancelled r run) (\<lambda>_ c. P c \<and> run_such deleting run c)"
proof (unfold markCancelled_def, intro triple_if triple_ret triple_any_now, simp)
  fix now
  let ?run = "onStatus (\<lambda>st. st\<lparr> hrt_Conditions := setCondition now (hrt_Conditions st)
                    (mkCond ''Completed'' ConditionTrue ''Cancelled'' ''HarnessRun was deleted'' 0) \<rparr>)
                 (completed now (setPhase PhaseCancelled run))"
  have key: "run_key ?run = run_key run" by simp
  have such: "run_such D ?run = run_such D run" for D unfolding run_such_def key ..
  have "sure (\<lambda>c. P c \<and> run_such deleting run c) (commitStatus r ?run (hr_Status run)) (\<lambda>_ c. P c \<and> run_such deleting run c)"
    using sure_commit_such [of ?run P deleting r "hr_Status run"] assms unfolding key such by (simp add: deleting_def)
  then show "sure (\<lambda>c. P c \<and> run_such deleting run c)
      (bnd (attempt (commitStatus r ?run (hr_Status run))) (\<lambda>u. case u of Inl e \<Rightarrow> if is_NotFound e then ret () else throw e | Inr _ \<Rightarrow> ret ()))
      (\<lambda>_ c. P c \<and> run_such deleting run c)"
    by (rule triple_try) (auto simp: triple_def ret_def)
qed

text \<open>What the second reconcile of a deletion establishes before the last finalizer goes.\<close>

definition cleaned :: "HarnessRun \<Rightarrow> 's cluster \<Rightarrow> bool" where
  "cleaned run c \<longleftrightarrow> healthy c
     \<and> (hrt_JobName (hr_Status run) \<noteq> [] \<longrightarrow> job_gone (KJob, hr_Namespace run, hrt_JobName (hr_Status run)) c)
     \<and> (hrt_WorkspaceRef (hr_Status run) \<noteq> [] \<longrightarrow> released (KWorkspace, hr_Namespace run, hrt_WorkspaceRef (hr_Status run)) (hr_Name run) c)"

lemma framed_when: "framed K P \<Longrightarrow> framed K (\<lambda>c. b \<longrightarrow> P c)"
  by (auto simp: framed_def)

lemma framed_cleaned: "framed {run_key run} (cleaned run)"
  unfolding cleaned_def
  by (intro framed_conj framed_when framed_job_gone framed_released framed_healthy) (simp_all add: run_key_def)

lemma sure_kept: "sure P m Q \<Longrightarrow> keeps I m \<Longrightarrow> sure (\<lambda>c. P c \<and> I c) m (\<lambda>a c. Q a c \<and> I c)"
  using triple_both [OF _ keeps_triple, of P m Q "\<lambda>_. False" I] by simp

lemma sure_cleanJob:
  "sure (\<lambda>c. healthy c \<and> run_such deleting run c)
    (if hrt_JobName (hr_Status run) \<noteq> [] then deleteJob (KJob, hr_Namespace run, hrt_JobName (hr_Status run)) (\<lambda>job. emit (e job)) else ret ())
    (\<lambda>_ c. (healthy c \<and> run_such deleting run c)
      \<and> (hrt_JobName (hr_Status run) \<noteq> [] \<longrightarrow> job_gone (KJob, hr_Namespace run, hrt_JobName (hr_Status run)) c))"
proof (intro triple_if triple_ret, goal_cases)
  case 1
  show ?case
    by (rule triple_weaken [OF sure_deleteJob [of _ "\<lambda>c. healthy c \<and> run_such deleting run c"]])
      (auto intro!: framed_conj framed_healthy framed_run_such touch simp: run_key_def emit_def)
qed simp

lemma sure_cleanWorkspace:
  assumes "hr_Name run \<noteq> []"
  shows "sure (\<lambda>c. ((healthy c \<and> run_such deleting run c)
      \<and> (hrt_JobName (hr_Status run) \<noteq> [] \<longrightarrow> job_gone (KJob, hr_Namespace run, hrt_JobName (hr_Status run)) c)) \<and> store_ok c)
    (if hrt_WorkspaceRef (hr_Status run) \<noteq> []
     then bnd (attempt (apiGet (KWorkspace, hr_Namespace run, hrt_WorkspaceRef (hr_Status run)))) (\<lambda>g. case g of
            Inr x \<Rightarrow> clearWorkspaceBinding (the_workspace x) (hr_Name run)
          | Inl e \<Rightarrow> if is_NotFound e then ret () else throw e)
     else ret ()) (\<lambda>_ c. cleaned run c \<and> run_such deleting run c)"
proof -
  let ?P = "\<lambda>c. (healthy c \<and> run_such deleting run c)
      \<and> (hrt_JobName (hr_Status run) \<noteq> [] \<longrightarrow> job_gone (KJob, hr_Namespace run, hrt_JobName (hr_Status run)) c)"
  have fr: "framed {k. fst k = KWorkspace} ?P"
    by (intro framed_conj framed_when framed_job_gone framed_run_such framed_healthy) (simp_all add: run_key_def)
  show ?thesis
    by (intro triple_if triple_ret triple_weaken [OF sure_release [OF fr _ assms]]) (auto simp: cleaned_def)
qed

lemma delete_second:
  assumes "healthy c" "store_ok c" "cl_objects c (KHarnessRun, ns, name) = Some (ORun run)" "deleting run" "name \<noteq> []"
    and "BrokerLeasesFinalizer \<notin> set (hr_Finalizers run)" "HarnessRunFinalizer \<in> set (hr_Finalizers run)"
  shows "\<exists>c' x. runReconcile r ns name c = (Inr Done, c') \<and> cleaned run c'
    \<and> cl_objects c' (KHarnessRun, ns, name) = left_of HarnessRunFinalizer run x"
proof -
  have key: "run_key run = (KHarnessRun, ns, name)" using store_okD [OF assms(2,3)] by (simp add: well_placed_run)
  then have name: "hr_Name run \<noteq> []" using assms(5) by (simp add: run_key_def)
  let ?S = "\<lambda>c. healthy c \<and> run_such deleting run c"
  let ?P = "\<lambda>c. (healthy c \<and> cl_objects c (KHarnessRun, ns, name) = Some (ORun run)) \<and> store_ok c"
  have fr: "framed {} ?P" using framed_healthy framed_store_ok unfolding framed_def by (metis empty_iff unchanged_object)
  have drop: "sure (\<lambda>c. cleaned run c \<and> run_such deleting run c) (releaseFinalizer HarnessRunFinalizer run Done)
      (\<lambda>y c. y = Done \<and> cleaned run c \<and> (\<exists>x. cl_objects c (run_key run) = left_of HarnessRunFinalizer run x))"
  proof (rule sureI)
    fix c assume c: "cleaned run c \<and> run_such deleting run c"
    then obtain x where x: "cl_objects c (run_key run) = Some (ORun x)" "deleting x" by (auto simp: run_such_def)
    have "sure (\<lambda>c. cleaned run c \<and> cl_objects c (run_key run) = Some (ORun x) \<and> deleting x) (releaseFinalizer HarnessRunFinalizer run Done)
      (\<lambda>y c. cleaned run c \<and> y = Done \<and> cl_objects c (run_key run) = left_of HarnessRunFinalizer run x)"
      by (rule sure_releaseFinalizer [OF framed_cleaned]) (simp add: cleaned_def)
    from sureD [OF this, of c] c x
    show "\<exists>a c'. releaseFinalizer HarnessRunFinalizer run Done c = (Inr a, c')
      \<and> a = Done \<and> cleaned run c' \<and> (\<exists>x. cl_objects c' (run_key run) = left_of HarnessRunFinalizer run x)" by blast
  qed
  have body: "sure (\<lambda>c. ?S c \<and> store_ok c) (reconcileDelete r run)
      (\<lambda>y c. y = Done \<and> cleaned run c \<and> (\<exists>x. cl_objects c (run_key run) = left_of HarnessRunFinalizer run x))"
    unfolding reconcileDelete_def if_not_P [OF assms(6)] using assms(7)
    by (simp only: not_True_eq_False if_False simp_thms)
      (rule triple_bnd [OF sure_kept [OF sure_cleanJob]], intro kept, rule triple_bnd [OF sure_cleanWorkspace [OF name]],
        rule triple_bnd [OF sure_markCancelled [OF framed_cleaned]], simp add: cleaned_def, rule drop)
  have "sure ?P (runReconcile r ns name) (\<lambda>y c. y = Done \<and> cleaned run c \<and> (\<exists>x. cl_objects c (run_key run) = left_of HarnessRunFinalizer run x))"
    by (rule sure_deleteRun [OF fr _ assms(4) triple_pre [OF body]]) (use assms(4) in \<open>auto simp: run_such_def key\<close>)
  from sureD [OF this, of c] assms key show ?thesis by auto
qed

end
