(* ===== verification/Lifecycle_Properties.thy ===== *)
theory Lifecycle_Properties
  imports Controller_Properties Controller_Binding Controller_Deletion Pod_Properties
begin

text \<open>
  Properties of the life of a run: the workspace it shares with other runs, its end and its deletion.
\<close>

section \<open>One holder per workspace\<close>


definition ex_other_run :: HarnessRun where
  "ex_other_run = ex_live_run\<lparr> hr_Name := ''q'' \<rparr>"

definition ex_race :: "unit lock_state" where
  "ex_race = \<lparr> lk_cluster = ex_start\<lparr> cl_calls := 2 \<rparr>, lk_seen = {ex_workspace}, lk_copy = [''r'' \<mapsto> ex_workspace, ''q'' \<mapsto> ex_workspace], lk_held = {} \<rparr>"

lemma ex_race_reached: "lock_reach (ws_key ex_workspace) ex_start ex_race"
proof -
  let ?k = "ws_key ex_workspace"
  have get: "apiGet ?k (ex_start\<lparr> cl_calls := n \<rparr>) = (Inr (OWorkspace ex_workspace), ex_start\<lparr> cl_calls := Suc n \<rparr>)" for n
    by (simp add: apiGet_def api_def ex_defs ws_key_def run_key_def)
  have start: "ex_start\<lparr> cl_calls := 0 \<rparr> = ex_start" by (simp add: ex_defs)
  let ?s0 = "\<lparr> lk_cluster = ex_start, lk_seen = {}, lk_copy = (\<lambda>_. None), lk_held = {} \<rparr>"
  let ?s1 = "?s0\<lparr> lk_cluster := ex_start\<lparr> cl_calls := 1 \<rparr>, lk_seen := {ex_workspace}, lk_copy := [''r'' \<mapsto> ex_workspace] \<rparr>"
  have "lock_step ?k ?s0 ?s1" using lock_step.Read [of ?k ?s0 ex_workspace _ "''r''"] get [of 0] start by simp
  moreover have "lock_step ?k ?s1 ex_race" using lock_step.Read [of ?k ?s1 ex_workspace _ "''q''"] get [of 1] by (simp add: ex_race_def numeral_2_eq_2)
  ultimately show ?thesis by (rule lock_reach.Step [OF lock_reach.Step [OF lock_reach.Init]])
qed


section \<open>Deletion\<close>

text \<open>
  C9: a deletion completes. For a run under deletion that has Paddock's two finalizers and no others, and when
  no call to the API server fails, two reconciles end it, whatever the broker answers: the first attempts to
  revoke every lease, the second leaves no Job of the run but one already under deletion, no workspace bound
  to it, and no run.
\<close>

theorem run_deletion_completes:
  assumes "healthy c" "store_ok c" "cl_objects c (KHarnessRun, ns, name) = Some (ORun run)" "hr_DeletionTimestamp run \<noteq> None" "name \<noteq> []"
    and "set (hr_Finalizers run) = {HarnessRunFinalizer, BrokerLeasesFinalizer}" "rc_BrokerClient r = Some b"
  shows "\<exists>c1 c2. runReconcile r ns name c = (Inr Requeue, c1) \<and> runReconcile r ns name c1 = (Inr Done, c2)
    \<and> (\<forall>l \<in> set (hr_IssuedLeases run). \<exists>x. Revoked name ns l x \<in> set (cl_log c1))
    \<and> (hrt_JobName (hr_Status run) \<noteq> [] \<longrightarrow> job_gone (KJob, ns, hrt_JobName (hr_Status run)) c2)
    \<and> (hrt_WorkspaceRef (hr_Status run) \<noteq> [] \<longrightarrow> released (KWorkspace, ns, hrt_WorkspaceRef (hr_Status run)) name c2)
    \<and> cl_objects c2 (KHarnessRun, ns, name) = None"
proof -
  have key: "hr_Namespace run = ns" "hr_Name run = name" using store_okD [OF assms(2,3)] by (simp_all add: well_placed_run run_key_def)
  have fin: "BrokerLeasesFinalizer \<noteq> HarnessRunFinalizer" by (simp add: BrokerLeasesFinalizer_def HarnessRunFinalizer_def)
  let ?run = "run\<lparr> hr_Finalizers := hr_Finalizers (dropFinalizer BrokerLeasesFinalizer run) \<rparr>"
  have fs: "set (hr_Finalizers ?run) = {HarnessRunFinalizer}" using assms(6) fin by (auto simp: dropFinalizer_def)
  have left: "left_of BrokerLeasesFinalizer run run = Some (ORun ?run)" using fs by (simp add: left_of_def Let_def) (metis empty_iff empty_set insertI1)
  have del: "deleting run" "deleting ?run" using assms(4) by (simp_all add: deleting_def)
  have held: "BrokerLeasesFinalizer \<in> set (hr_Finalizers run)" "BrokerLeasesFinalizer \<notin> set (hr_Finalizers ?run)"
    "HarnessRunFinalizer \<in> set (hr_Finalizers ?run)" using fs fin assms(6) by auto
  obtain c1 where c1: "runReconcile r ns name c = (Inr Requeue, c1)" "healthy c1" "store_ok c1" "revoked run (set (hr_IssuedLeases run)) c1"
    "cl_objects c1 (KHarnessRun, ns, name) = Some (ORun ?run)"
    using delete_first [OF assms(1-3) del(1) held(1) assms(7)] unfolding left by blast
  have last: "left_of HarnessRunFinalizer ?run x = None" for x using assms(6) by (simp add: left_of_def Let_def dropFinalizer_def filter_empty_conv)
  obtain c2 where "runReconcile r ns name c1 = (Inr Done, c2)" "cleaned ?run c2" "cl_objects c2 (KHarnessRun, ns, name) = None"
    using delete_second [OF c1(2,3,5) del(2) assms(5) held(2,3)] unfolding last by blast
  with c1(1,4) show ?thesis by (auto simp: revoked_def cleaned_def key)
qed

definition ex_lease :: IssuedLease where
  "ex_lease = \<lparr> il_Provider = ''PATPool'', il_LeaseID = ''l'', il_CredentialName = ''c'', il_ExpiresAt = None, il_PoolRef = None \<rparr>"

definition ex_ending_run :: HarnessRun where
  "ex_ending_run = ex_live_run\<lparr> hr_DeletionTimestamp := Some 5,
     hr_Status := ex_run_status\<lparr> hrt_WorkspaceRef := ''w'', hrt_IssuedLeases := [ex_lease] \<rparr> \<rparr>"

definition ex_ending :: "unit cluster" where
  "ex_ending = ex_cluster () (ex_objects ex_ending_run (ex_workspace\<lparr> ws_Status := (ws_Status ex_workspace)\<lparr> wss_ActiveRunRef := ''r'' \<rparr> \<rparr>))"

theorem run_deletion_completes_witness:
  "\<exists>c1 c2. runReconcile ex_reconciler ''ns'' ''r'' ex_ending = (Inr Requeue, c1) \<and> runReconcile ex_reconciler ''ns'' ''r'' c1 = (Inr Done, c2)
     \<and> (\<exists>x. Revoked ''r'' ''ns'' ex_lease x \<in> set (cl_log c1)) \<and> released (KWorkspace, ''ns'', ''w'') ''r'' c2
     \<and> cl_objects c2 (KHarnessRun, ''ns'', ''r'') = None"
proof -
  have ok: "healthy ex_ending" "store_ok ex_ending" "cl_objects ex_ending (KHarnessRun, ''ns'', ''r'') = Some (ORun ex_ending_run)"
    by (simp_all add: ex_ending_def ex_ending_run_def ex_defs healthy_def store_ok_def well_placed_def run_key_def ws_key_def)
  have run: "hr_DeletionTimestamp ex_ending_run \<noteq> None" "set (hr_Finalizers ex_ending_run) = {HarnessRunFinalizer, BrokerLeasesFinalizer}"
    by (simp_all add: ex_ending_run_def ex_defs)
  have client: "rc_BrokerClient ex_reconciler = Some ex_issuer" by (simp add: ex_defs)
  show ?thesis
    using run_deletion_completes [OF ok run(1) _ run(2) client] by (auto simp: ex_ending_run_def)
qed

section \<open>Ends that are not ends\<close>

lemma healthy_get: "healthy c \<Longrightarrow> cl_objects c k = Some x \<Longrightarrow> kind_of x = fst k \<Longrightarrow> apiGet k c = (Inr x, c\<lparr> cl_calls := Suc (cl_calls c) \<rparr>)"
  by (simp add: apiGet_def api_def healthy_def)

lemma healthy_get_none:
  "healthy c \<Longrightarrow> cl_objects c k = None \<Longrightarrow> apiGet k c = (Inl (ApiErr (NotFound ''not found'')), c\<lparr> cl_calls := Suc (cl_calls c) \<rparr>)"
  by (simp add: apiGet_def api_def healthy_def)

lemma healthy_calls [simp]: "healthy (c\<lparr> cl_calls := n \<rparr>) = healthy c"
  by (simp add: healthy_def)

text \<open>The run as the steps after the resolution of its template see it.\<close>

definition resolved_run :: "'s reconciler \<Rightarrow> time \<Rightarrow> resolvedTemplate \<Rightarrow> HarnessRun \<Rightarrow> HarnessRun" where
  "resolved_run r now tpl run =
     setCond now ''TemplateResolved'' ConditionTrue ''TemplateResolved'' (''using '' @ rt_SourceKind tpl @ ''/'' @ rt_SourceName tpl)
       (pinNetworkPolicyEnforced r (onStatus (\<lambda>st. st\<lparr> hrt_ObservedGeneration := hr_Generation run \<rparr>) run))"

lemma reaches_workspace:
  assumes "healthy c" "cl_objects c (KHarnessRun, ns, name) = Some (ORun run)" "admitted run"
    and "resolveTemplate (rc_order r) (cl_kube c) run = Inr tpl"
    and "isTerminal (hr_Phase run) \<Longrightarrow> hrt_JobName (hr_Status run) \<noteq> []
      \<and> (\<exists>job. cl_objects c (KJob, hr_Namespace run, hrt_JobName (hr_Status run)) = Some (OJob job))"
  shows "\<exists>n. runReconcile r ns name c = reconcileWorkspace r (resolved_run r (cl_now c) tpl run) tpl (hr_Status run) (c\<lparr> cl_calls := n \<rparr>)"
proof -
  have get: "apiGet (KHarnessRun, ns, name) c = (Inr (ORun run), c\<lparr> cl_calls := Suc (cl_calls c) \<rparr>)"
    using healthy_get [OF assms(1,2)] by simp
  have live: "\<exists>n. stillLive run (c\<lparr> cl_calls := m \<rparr>) = (Inr True, c\<lparr> cl_calls := n \<rparr>)" for m
    using assms(1,5)
    by (intro exI [of _ "if isTerminal (hr_Phase run) then Suc m else m"]) (auto simp: stillLive_def ret_def bnd_def attempt_def healthy_get [of "c\<lparr> cl_calls := m \<rparr>"])
  obtain n where n: "stillLive run (c\<lparr> cl_calls := Suc (cl_calls c) \<rparr>) = (Inr True, c\<lparr> cl_calls := n \<rparr>)" using live by blast
  show ?thesis
    using assms(3,4) n
    by (auto simp: runReconcile_def bnd_def attempt_def get Let_def admitted_def reconcileLive_def getNow_def getKube_def resolved_run_def)
qed

text \<open>A status that is written on a healthy cluster is the stored one.\<close>

lemma commit_stored:
  assumes "healthy c" "cl_objects c (run_key run) = Some (ORun x)" "orig \<noteq> hr_Status run" "isTerminal (hrt_Phase orig) \<or> \<not> isTerminal (hr_Phase run)"
  shows "\<exists>n. commitStatus r run orig c = (Inr Done, put (run_key run) (Some (ORun (x\<lparr> hr_Status := hr_Status run \<rparr>))) (c\<lparr> cl_calls := n \<rparr>))"
  using assms by (auto simp: commitStatus_def bnd_def attempt_def ret_def updateRunStatus_def api_def healthy_def)

text \<open>
  A run that has ended becomes pending again. A run in a terminal phase whose Job still exists is
  reconciled as if it were live; when another run holds its workspace by then, the reconcile writes the phase
  \<open>Pending\<close> over the terminal one.
\<close>

theorem ended_run_reopened:
  assumes "healthy c" "cl_objects c (KHarnessRun, ns, name) = Some (ORun run)" "run_key run = (KHarnessRun, ns, name)" "admitted run"
    and "isTerminal (hr_Phase run)" "hrt_JobName (hr_Status run) \<noteq> []" "cl_objects c (KJob, ns, hrt_JobName (hr_Status run)) = Some (OJob job)"
    and "resolveTemplate (rc_order r) (cl_kube c) run = Inr tpl" "hrs_WorkspaceRef (hr_Spec run) \<noteq> []"
    and "cl_objects c (KWorkspace, ns, hrs_WorkspaceRef (hr_Spec run)) = Some (OWorkspace ws)" "wss_Phase (ws_Status ws) = WorkspacePhaseActive"
    and "wss_ActiveRunRef (ws_Status ws) \<notin> {[], name}"
  shows "\<exists>c' run'. runReconcile r ns name c = (Inr (RequeueAfter (5 * second)), c')
    \<and> cl_objects c' (KHarnessRun, ns, name) = Some (ORun run') \<and> hr_Phase run' = PhasePending"
proof -
  have key: "hr_Namespace run = ns" "hr_Name run = name" using assms(3) by (simp_all add: run_key_def)
  obtain n where n: "runReconcile r ns name c = reconcileWorkspace r (resolved_run r (cl_now c) tpl run) tpl (hr_Status run) (c\<lparr> cl_calls := n \<rparr>)"
    using reaches_workspace [OF assms(1,2,4,8)] assms(6,7) key by blast
  have fields: "hr_Name (resolved_run r now tpl run) = name" "hr_Namespace (resolved_run r now tpl run) = ns" "hr_Spec (resolved_run r now tpl run) = hr_Spec run" for now
    using key by (simp_all add: resolved_run_def)
  have get: "apiGet (KWorkspace, ns, hrs_WorkspaceRef (hr_Spec run)) (c\<lparr> cl_calls := n \<rparr>) = (Inr (OWorkspace ws), c\<lparr> cl_calls := Suc n \<rparr>)"
    using healthy_get [of "c\<lparr> cl_calls := n \<rparr>"] assms(1,10) by simp
  let ?run = "onStatus (\<lambda>st. st\<lparr> hrt_Phase := PhasePending, hrt_WorkspaceRef := ws_Name ws \<rparr>)
         (setCond (cl_now c) ''WorkspaceBound'' ConditionFalse ''WorkspaceBusy'' (''workspace '' @ ws_Name ws @ '' is in use by '' @ wss_ActiveRunRef (ws_Status ws))
           (resolved_run r (cl_now c) tpl run))"
  have rkey: "run_key ?run = (KHarnessRun, ns, name)" using fields by (simp add: run_key_def)
  have pend: "hr_Phase ?run = PhasePending" by (simp add: onStatus_def)
  have diff: "hr_Status run \<noteq> hr_Status ?run" "isTerminal (hrt_Phase (hr_Status run))" using assms(5) by (auto simp: onStatus_def isTerminal_def)
  obtain m where m: "commitStatus r ?run (hr_Status run) (c\<lparr> cl_calls := Suc n \<rparr>) =
      (Inr Done, put (KHarnessRun, ns, name) (Some (ORun (run\<lparr> hr_Status := hr_Status ?run \<rparr>))) (c\<lparr> cl_calls := m \<rparr>))"
    using commit_stored [of "c\<lparr> cl_calls := Suc n \<rparr>" ?run run "hr_Status run" r] assms(1,2) diff unfolding rkey by auto
  have "runReconcile r ns name c = (Inr (RequeueAfter (5 * second)), put (KHarnessRun, ns, name) (Some (ORun (run\<lparr> hr_Status := hr_Status ?run \<rparr>))) (c\<lparr> cl_calls := m \<rparr>))"
    unfolding n reconcileWorkspace_def ensureWorkspace_def using assms(9,11,12) get m
    by (simp add: bnd_def getNow_def fields ret_def bindWorkspace_def pendingOn_def commitThen_def)
  then show ?thesis using pend by (simp add: put_def)
qed

definition ex_done_run :: HarnessRun where
  "ex_done_run = ex_live_run\<lparr> hr_Status := ex_run_status\<lparr> hrt_Phase := PhaseSucceeded, hrt_JobName := ''r'', hrt_WorkspaceRef := ''w'' \<rparr> \<rparr>"

definition ex_done :: "unit cluster" where
  "ex_done = ex_cluster () ((ex_objects ex_done_run (ex_workspace\<lparr> ws_Status := (ws_Status ex_workspace)\<lparr> wss_ActiveRunRef := ''q'' \<rparr> \<rparr>))
     ((KJob, ''ns'', ''r'') \<mapsto> OJob (buildJob ex_done_run ex_resolved ''w'' ex_inputs)))"

lemma ex_resolves_live: "hr_Spec run = hr_Spec ex_live_run \<Longrightarrow> resolveTemplate (rc_order ex_reconciler) (cl_kube (ex_cluster () objs)) run = Inr ex_resolved"
  by (simp add: ex_defs resolveTemplate_def resolveClusterTemplate_def ex_ctl_kube_def ex_resolved_def)

theorem ended_run_reopened_witness:
  "\<exists>c' run'. runReconcile ex_reconciler ''ns'' ''r'' ex_done = (Inr (RequeueAfter (5 * second)), c')
    \<and> cl_objects c' (KHarnessRun, ''ns'', ''r'') = Some (ORun run') \<and> hr_Phase run' = PhasePending"
proof (rule ended_run_reopened)
  show "healthy ex_done" "cl_objects ex_done (KHarnessRun, ''ns'', ''r'') = Some (ORun ex_done_run)"
    "run_key ex_done_run = (KHarnessRun, ''ns'', ''r'')" "admitted ex_done_run" "isTerminal (hr_Phase ex_done_run)" "hrt_JobName (hr_Status ex_done_run) \<noteq> []"
    "cl_objects ex_done (KJob, ''ns'', hrt_JobName (hr_Status ex_done_run)) = Some (OJob (buildJob ex_done_run ex_resolved ''w'' ex_inputs))"
    "hrs_WorkspaceRef (hr_Spec ex_done_run) \<noteq> []"
    "cl_objects ex_done (KWorkspace, ''ns'', hrs_WorkspaceRef (hr_Spec ex_done_run))
      = Some (OWorkspace (ex_workspace\<lparr> ws_Status := (ws_Status ex_workspace)\<lparr> wss_ActiveRunRef := ''q'' \<rparr> \<rparr>))"
    by (simp_all add: ex_done_def ex_done_run_def ex_defs healthy_def run_key_def ws_key_def admitted_def isTerminal_def)
  show "resolveTemplate (rc_order ex_reconciler) (cl_kube ex_done) ex_done_run = Inr ex_resolved"
    unfolding ex_done_def by (rule ex_resolves_live) (simp add: ex_done_run_def)
qed (simp_all add: ex_workspace_def)

lemma sure_commit_stored:
  assumes "framed {run_key run} P" "\<And>c. P c \<Longrightarrow> healthy c" "orig \<noteq> hr_Status run"
  shows "sure (\<lambda>c. P c \<and> run_such (\<lambda>x. x = s) run c) (commitStatus r run orig)
    (\<lambda>y c. P c \<and> y = Done \<and> cl_objects c (run_key run) = Some (ORun (s\<lparr> hr_Status := hr_Status run \<rparr>)))"
proof -
  let ?P = "\<lambda>c. P c \<and> run_such (\<lambda>x. x = s) run c"
  let ?Q = "\<lambda>c. P c \<and> cl_objects c (run_key run) = Some (ORun (s\<lparr> hr_Status := hr_Status run \<rparr>))"
  have fr: "framed {} ?P" using assms(1) by (intro framed_conj framed_run_such) (auto intro: framed_sub)
  have upd: "sure ?P (updateRunStatus run) (\<lambda>_. ?Q)"
    unfolding updateRunStatus_def
    by (rule sure_api [OF fr]) (use assms in \<open>auto simp: run_such_def framed_put, auto simp add: put_def\<close>)
  have aud: "sure ?P (if b then emitTerminalAudit r run else ret ()) (\<lambda>_. ?P)" for b
    unfolding emitTerminalAudit_def emits
    by (auto simp: split_beta intro!: triple_if triple_bnd [OF sure_audit [OF fr]] sure_audit [OF fr] triple_ret)
  show ?thesis
    unfolding commitStatus_def if_not_P [OF assms(3)]
    by (rule triple_bnd [OF aud], rule triple_try [OF upd], rule triple_ret) (auto simp: triple_def)
qed

text \<open>A prompt from a Secret that is not there.\<close>

definition prompt_missing :: "HarnessRun \<Rightarrow> 's cluster \<Rightarrow> bool" where
  "prompt_missing run c \<longleftrightarrow> hrs_Prompt (hr_Spec run) = []
     \<and> (\<exists>pf ref. hrs_PromptFrom (hr_Spec run) = Some pf \<and> ps_ConfigMapKeyRef pf = None \<and> ps_SecretKeyRef pf = Some ref
          \<and> cl_objects c (KSecret, hr_Namespace run, ks_Name ref) = None)"

lemma prompt_missing_fails:
  assumes "healthy c" "prompt_missing run c"
  shows "\<exists>msg n. ensurePromptSecret run c = (Inl (PromptSourceNotFound msg), c\<lparr> cl_calls := n \<rparr>)"
  using assms
  by (auto simp: prompt_missing_def ensurePromptSecret_def resolvePrompt_def bnd_def attempt_def healthy_get_none throw_def is_NotFound_def IsNotFound_def)

lemma bind_writes:
  assumes "healthy c" "cl_objects c (ws_key ws) = Some (OWorkspace ws)" "wss_ActiveRunRef (ws_Status ws) = []" "hr_Name run \<noteq> []"
  shows "\<exists>ws' n. bindWorkspace ws run c = (Inr (True, ws'), put (ws_key ws) (Some (OWorkspace ws')) (c\<lparr> cl_calls := n \<rparr>))
    \<and> wss_ActiveRunRef (ws_Status ws') = hr_Name run"
  using assms
  by (auto simp: bindWorkspace_def bnd_def getNow_def attempt_def ret_def updateWorkspaceStatus_def api_def Let_def healthy_def
      bindUpdate_def onWs_def ws_key_def)


definition ex_failing_run :: HarnessRun where
  "ex_failing_run = ex_live_run\<lparr> hr_Spec := (hr_Spec ex_live_run)\<lparr> hrs_Prompt := [],
     hrs_PromptFrom := Some \<lparr> ps_ConfigMapKeyRef = None, ps_SecretKeyRef = Some \<lparr> ks_Name = ''s'', ks_Key = ''k'' \<rparr> \<rparr> \<rparr> \<rparr>"


end
