(* ===== verification/Controller_Seed.thy ===== *)
theory Controller_Seed
  imports Controller_Creds Controller_Run Proxy_Server Provider_GitHubApp
begin

text \<open>
  The Job that clones the repositories of a workspace, and the claim that backs it:
  \<open>workspace_seed.go\<close> and \<open>workspace_seed_helpers.go\<close>. Everything is a pure function of the workspace and
  of the inputs of the reconciler. \<open>url.Parse\<close> is a parameter; so is the order in which the code ranges
  over its map of Secrets. At the end stand a reader of shell words and what the builders say about the
  commands that a seed pod runs.
\<close>

section \<open>Names\<close>

definition seedActiveDeadlineSeconds :: int where "seedActiveDeadlineSeconds = 600"
definition seedTerminationGracePeriodSeconds :: int where "seedTerminationGracePeriodSeconds = 30"
definition seedTTLSecondsAfterFinished :: int where "seedTTLSecondsAfterFinished = 3600"
definition seedRunAsID :: int where "seedRunAsID = 65532"
definition defaultSeedImage :: string where
  "defaultSeedImage = ''alpine/git@sha256:d453f54c83320412aa89c391b076930bd8569bc1012285e8c68ce2d4435826a3''"
definition seedVolumeName :: string where "seedVolumeName = ''workspace''"
definition seedMountPath :: string where "seedMountPath = ''/workspace''"
definition seedManifestRelPath :: string where "seedManifestRelPath = ''.paddock/repos.json''"
definition seedCredsRoot :: string where "seedCredsRoot = ''/paddock/creds''"
definition seedScratchMount :: string where "seedScratchMount = ''/paddock/scratch''"

definition pvcName :: "Workspace \<Rightarrow> string" where "pvcName ws = ''ws-'' @ ws_Name ws"
definition seedSAName :: "Workspace \<Rightarrow> string" where "seedSAName ws = ''paddock-workspace-seed-'' @ ws_Name ws"

definition workspaceLabels :: "Workspace \<Rightarrow> labels" where
  "workspaceLabels ws =
     [(''app.kubernetes.io/name'', ''paddock''), (''app.kubernetes.io/component'', ''workspace''),
      (''app.kubernetes.io/managed-by'', ''paddock-controller''), (''paddock.dev/workspace'', ws_Name ws)]"

definition seedBrokerCredsVolumeName :: "string \<Rightarrow> string" where
  "seedBrokerCredsVolumeName secretName = ''broker-creds-'' @ secretName"

definition seedBrokerCredsMountPath :: "string \<Rightarrow> string" where
  "seedBrokerCredsMountPath secretName = ''/paddock/broker-creds/'' @ secretName"

section \<open>The claim\<close>

definition pvcForWorkspace :: "Workspace \<Rightarrow> PVC" where
  "pvcForWorkspace ws =
     (let st = wsp_Storage (ws_Spec ws) in
      \<lparr> pvc_Name = pvcName ws, pvc_Labels = workspaceLabels ws, pvc_Controller = None,
        pvc_AccessModes = [if wst_AccessMode st = [] then ''ReadWriteOnce'' else wst_AccessMode st],
        pvc_Storage = wst_Size st,
        pvc_StorageClassName = (if wst_StorageClass st \<noteq> [] then Some (wst_StorageClass st) else None),
        pvc_Phase = [] \<rparr>)"

section \<open>Repositories\<close>

type_synonym url_env = "string \<Rightarrow> error_msg + (bool \<times> string)"

text \<open>
  \<open>url.Parse\<close>, as far as the code looks: whether the URL has user information, and what \<open>String\<close> gives
  once that is set to nil.
\<close>

definition scrubURLUserinfo :: "url_env \<Rightarrow> string \<Rightarrow> string" where
  "scrubURLUserinfo parse raw =
     (if \<not> HasPrefix raw ''https://'' then raw
      else case parse raw of
        Inl _ \<Rightarrow> raw
      | Inr (hasUser, stripped) \<Rightarrow> if \<not> hasUser then raw else stripped)"

definition isSSHURL :: "string \<Rightarrow> bool" where
  "isSSHURL raw =
     (if HasPrefix raw ''ssh://'' then True
      else if Contains raw ''://'' then False
      else (case IndexByte raw CHR ''@'' of
              None \<Rightarrow> False
            | Some at \<Rightarrow>
                at > 0 \<and>
                (let rest = drop (at + 1) raw
                 in case IndexByte rest CHR '':'' of
                      None \<Rightarrow> False
                    | Some colon \<Rightarrow> colon > 0 \<and> \<not> Contains (take colon rest) ''/'')))"

definition seedRepoSchemeAllowed :: "string \<Rightarrow> bool" where
  "seedRepoSchemeAllowed raw =
     (if raw = [] then False else if isSSHURL raw then True else HasPrefix raw ''https://'')"

definition IsDigestPinnedImageRef :: "string \<Rightarrow> bool" where
  "IsDigestPinnedImageRef ref =
     (case LastIndexByte ref CHR ''@'' of
        None \<Rightarrow> False
      | Some at \<Rightarrow>
          if at = length ref - 1 then False
          else (let rest = drop (at + 1) ref
                in case IndexByte rest CHR '':'' of None \<Rightarrow> False | Some colon \<Rightarrow> colon > 0 \<and> colon < length rest - 1))"

definition anyRepoUsesBroker :: "WorkspaceGitSource list \<Rightarrow> bool" where
  "anyRepoUsesBroker repos = (\<exists>r \<in> set repos. wgs_BrokerCredentialRef r \<noteq> None)"

definition brokerSeedRepos :: "Workspace \<Rightarrow> WorkspaceGitSource list" where
  "brokerSeedRepos ws =
     (case wsp_Seed (ws_Spec ws) of
        None \<Rightarrow> []
      | Some seed \<Rightarrow> filter (\<lambda>r. wgs_BrokerCredentialRef r \<noteq> None) (wse_Repos seed))"

definition seed_repos :: "Workspace \<Rightarrow> WorkspaceGitSource list" where
  "seed_repos ws = (case wsp_Seed (ws_Spec ws) of None \<Rightarrow> [] | Some seed \<Rightarrow> wse_Repos seed)"

definition describeSeed :: "Workspace \<Rightarrow> string" where
  "describeSeed ws =
     (case seed_repos ws of
        [] \<Rightarrow> ''(none)''
      | [r] \<Rightarrow>
          ''git '' @ Join ([wgs_URL r]
            @ (if TrimSpace (wgs_Path r) \<noteq> [] then [''path='' @ TrimSpace (wgs_Path r)] else [])
            @ (if wgs_Branch r \<noteq> [] then [''branch='' @ wgs_Branch r] else [])) '' ''
      | rs \<Rightarrow> fmt_d (int (length rs)) @ '' repos: '' @ Join (map (\<lambda>r. TrimSpace (wgs_Path r) @ ''='' @ wgs_URL r) rs) '', '')"

section \<open>Commands\<close>

text \<open>\<open>shellQuote\<close>: every single quote is closed, put in double quotes, and opened again.\<close>

definition squote :: char where "squote = CHR 0x27"

definition shellQuote :: "string \<Rightarrow> string" where
  "shellQuote s = [squote] @ concat (map (\<lambda>c. if c = squote then [squote, dquote, squote, dquote, squote] else [c]) s) @ [squote]"

definition quoteArgs :: "string list \<Rightarrow> string list" where
  "quoteArgs args = map shellQuote args"

definition buildCloneArgs :: "WorkspaceGitSource \<Rightarrow> string \<Rightarrow> string list" where
  "buildCloneArgs repo target =
     [''clone'']
     @ (if wgs_Depth repo > 0 then [''--depth'', fmt_d (wgs_Depth repo)] else [])
     @ (if wgs_Branch repo \<noteq> [] then [''--branch'', wgs_Branch repo, ''--single-branch''] else [])
     @ [wgs_URL repo, target]"

definition lineFeed :: string where "lineFeed = [CHR 0x0A]"

definition askpass_script :: "string \<Rightarrow> string \<Rightarrow> string" where
  "askpass_script user pass =
     Join [''cat > '' @ fmt_q ''$HOME/askpass.sh'' @ '' <<'' @ shellQuote ''PADDOCK_HELPER'',
           ''#!/bin/sh'',
           ''case '' @ fmt_q ''$1'' @ '' in'',
           ''  Username*) '' @ user @ '' ;;'',
           ''  Password*) '' @ pass @ '' ;;'',
           ''esac'',
           ''PADDOCK_HELPER'',
           ''chmod 0500 '' @ fmt_q ''$HOME/askpass.sh''] lineFeed"

definition brokerAskpassSetupScript :: string where
  "brokerAskpassSetupScript =
     askpass_script (''printf '' @ shellQuote ''x-access-token'') (''cat '' @ fmt_q ''$PADDOCK_CREDS_DIR/$PADDOCK_CREDS_KEY'' @ '' 2>/dev/null'')"

definition askpassSetupScript :: string where
  "askpassSetupScript =
     askpass_script (''cat '' @ fmt_q ''$PADDOCK_CREDS_DIR/username'' @ '' 2>/dev/null'') (''cat '' @ fmt_q ''$PADDOCK_CREDS_DIR/password'' @ '' 2>/dev/null'')"

text \<open>\<open>json.MarshalIndent\<close> of the list of entries, with an indent of two spaces.\<close>

definition manifest_entry :: "url_env \<Rightarrow> WorkspaceGitSource \<Rightarrow> string list" where
  "manifest_entry parse r =
     (let fields = [json_string ''url'' @ '': '' @ json_string (scrubURLUserinfo parse (wgs_URL r)),
                    json_string ''path'' @ '': '' @ json_string (TrimSpace (wgs_Path r))]
                   @ (if wgs_Branch r \<noteq> [] then [json_string ''branch'' @ '': '' @ json_string (wgs_Branch r)] else [])
      in [''  {''] @ map (\<lambda>f. ''    '' @ f @ '','') (butlast fields) @ [''    '' @ last fields] @ [''  }''])"

fun entries_lines :: "string list list \<Rightarrow> string list" where
  "entries_lines [] = []"
| "entries_lines [e] = e"
| "entries_lines (e # es) = butlast e @ [last e @ '',''] @ entries_lines es"

definition repoManifestJSON :: "url_env \<Rightarrow> WorkspaceGitSource list \<Rightarrow> string" where
  "repoManifestJSON parse repos =
     (if repos = [] then ''[]''
      else Join ([''[''] @ entries_lines (map (manifest_entry parse) repos) @ ['']'']) lineFeed)"

section \<open>Containers\<close>

record seedJobInputs =
  sji_proxyImage :: string
  sji_proxyTLSSecret :: string
  sji_brokerEndpoint :: string
  sji_brokerCASecret :: string

definition zeroSeedInputs :: seedJobInputs where
  "zeroSeedInputs = \<lparr> sji_proxyImage = [], sji_proxyTLSSecret = [], sji_brokerEndpoint = [], sji_brokerCASecret = [] \<rparr>"

definition seedPodSecurityContext :: PodSecurityContext where
  "seedPodSecurityContext =
     \<lparr> psc_RunAsNonRoot = Some True, psc_RunAsUser = Some seedRunAsID, psc_RunAsGroup = Some seedRunAsID,
       psc_FSGroup = Some seedRunAsID, psc_SeccompProfile = Some ''RuntimeDefault'' \<rparr>"

definition seedContainerSecurityContext :: SecurityContext where
  "seedContainerSecurityContext =
     zeroSecurityContext\<lparr> sc_AllowPrivilegeEscalation := Some False, sc_Capabilities := Some dropAll \<rparr>"

definition seedProxyArgs :: "Workspace \<Rightarrow> seedJobInputs \<Rightarrow> string list" where
  "seedProxyArgs ws i =
     [''--listen-address='' @ proxyLocalhostAddr,
      ''--ca-dir='' @ proxyCAMountPath,
      ''--run-name=seed-'' @ ws_Name ws,
      ''--run-namespace='' @ ws_Namespace ws,
      ''--mode=cooperative'',
      ''--broker-endpoint='' @ sji_brokerEndpoint i,
      ''--broker-token-path='' @ brokerTokenPath,
      ''--broker-ca-path='' @ brokerCAPath]"

definition buildSeedProxySidecar :: "Workspace \<Rightarrow> seedJobInputs \<Rightarrow> Container" where
  "buildSeedProxySidecar ws i =
     zeroContainer\<lparr>
       ctr_Name := proxyContainerName,
       ctr_Image := sji_proxyImage i,
       ctr_RestartPolicy := Some ''Always'',
       ctr_Args := seedProxyArgs ws i,
       ctr_Env := [podNamespaceEnv],
       ctr_VolumeMounts :=
         [roMount proxyCAVolumeName proxyCAMountPath, roMount brokerTokenVolumeName brokerTokenMountPath,
          roMount brokerCAVolumeName brokerCAMountPath, roMount paddockSAVolumeName paddockSAMountPath],
       ctr_Resources := defaultProxyResources,
       ctr_SecurityContext :=
         Some (zeroSecurityContext\<lparr> sc_RunAsUser := Some proxyRunAsUID, sc_RunAsGroup := Some proxyRunAsUID,
           sc_AllowPrivilegeEscalation := Some False, sc_ReadOnlyRootFilesystem := Some True, sc_Capabilities := Some dropAll \<rparr>) \<rparr>"

text \<open>Where the credentials of a repository come from decides mounts, environment and command.\<close>

definition seedRepoMounts :: "nat \<Rightarrow> WorkspaceGitSource \<Rightarrow> VolumeMount list" where
  "seedRepoMounts idx repo =
     (case wgs_BrokerCredentialRef repo of
        Some b \<Rightarrow>
          [roMount (seedBrokerCredsVolumeName (bcr_Name b)) (seedBrokerCredsMountPath (bcr_Name b)),
           (roMount proxyCAVolumeName agentCABundleMountPath)\<lparr> vm_SubPath := agentCABundleSubPath \<rparr>]
      | None \<Rightarrow>
          (case wgs_CredentialsSecretRef repo of
             Some _ \<Rightarrow> [roMount (''repo-'' @ fmt_d (int idx) @ ''-creds'') (seedCredsRoot @ ''/'' @ fmt_d (int idx))]
           | None \<Rightarrow> []))"

definition seedRepoVolumes :: "nat \<Rightarrow> WorkspaceGitSource \<Rightarrow> Volume list" where
  "seedRepoVolumes idx repo =
     (case (wgs_BrokerCredentialRef repo, wgs_CredentialsSecretRef repo) of
        (None, Some ref) \<Rightarrow>
          [\<lparr> vol_Name = ''repo-'' @ fmt_d (int idx) @ ''-creds'', vol_Source = SecretVolume (lor_Name ref) [] (Some 288) \<rparr>]
      | _ \<Rightarrow> [])"

definition seedRepoEnv :: "nat \<Rightarrow> WorkspaceGitSource \<Rightarrow> EnvVar list" where
  "seedRepoEnv idx repo =
     (case wgs_BrokerCredentialRef repo of
        Some b \<Rightarrow>
          [envVar ''GIT_TERMINAL_PROMPT'' ''0'',
           envVar ''GIT_ASKPASS'' (seedScratchMount @ ''/askpass.sh''),
           envVar ''PADDOCK_CREDS_DIR'' (seedBrokerCredsMountPath (bcr_Name b)),
           envVar ''PADDOCK_CREDS_KEY'' (bcr_Key b),
           envVar ''HTTPS_PROXY'' proxyHTTPSProxy,
           envVar ''HTTP_PROXY'' proxyHTTPSProxy,
           envVar ''NO_PROXY'' ''127.0.0.1,localhost,kubernetes.default.svc'',
           envVar ''SSL_CERT_FILE'' agentCABundleMountPath,
           envVar ''GIT_SSL_CAINFO'' agentCABundleMountPath]
      | None \<Rightarrow>
          (case wgs_CredentialsSecretRef repo of
             Some _ \<Rightarrow>
               (let credMount = seedCredsRoot @ ''/'' @ fmt_d (int idx) in
                if isSSHURL (wgs_URL repo)
                then [envVar ''GIT_SSH_COMMAND'' (''ssh -i '' @ credMount
                        @ ''/ssh-privatekey -o IdentitiesOnly=yes -o StrictHostKeyChecking=accept-new -o UserKnownHostsFile=''
                        @ seedScratchMount @ ''/known_hosts'')]
                else [envVar ''GIT_TERMINAL_PROMPT'' ''0'',
                      envVar ''GIT_ASKPASS'' (seedScratchMount @ ''/askpass.sh''),
                      envVar ''PADDOCK_CREDS_DIR'' credMount])
           | None \<Rightarrow> []))"

definition seedTarget :: "WorkspaceGitSource \<Rightarrow> string" where
  "seedTarget repo = path_Join [seedMountPath, TrimSpace (wgs_Path repo)]"

text \<open>The command line and the arguments of the container.\<close>

definition seedCommand :: "url_env \<Rightarrow> WorkspaceGitSource \<Rightarrow> string list \<times> string list" where
  "seedCommand parse repo =
     (let args = buildCloneArgs repo (seedTarget repo); clone = Join (quoteArgs args) '' '' in
      if wgs_BrokerCredentialRef repo \<noteq> None
      then ([''sh'', ''-c'', brokerAskpassSetupScript @ '' && git '' @ clone @ '' && git -C '' @ shellQuote (seedTarget repo)
               @ '' remote set-url origin '' @ shellQuote (scrubURLUserinfo parse (wgs_URL repo))], [])
      else if wgs_CredentialsSecretRef repo \<noteq> None \<and> \<not> isSSHURL (wgs_URL repo)
      then ([''sh'', ''-c'', askpassSetupScript @ '' && exec git '' @ clone], [])
      else ([], args))"

definition seedInitContainer :: "url_env \<Rightarrow> nat \<Rightarrow> WorkspaceGitSource \<Rightarrow> string \<Rightarrow> string \<Rightarrow> Container \<times> Volume list" where
  "seedInitContainer parse idx repo img pullPolicy =
     (zeroContainer\<lparr>
        ctr_Name := ''repo-'' @ fmt_d (int idx),
        ctr_Image := img,
        ctr_ImagePullPolicy := pullPolicy,
        ctr_WorkingDir := ''/'',
        ctr_SecurityContext := Some seedContainerSecurityContext,
        ctr_VolumeMounts := [rwMount seedVolumeName seedMountPath, rwMount ''seed-scratch'' seedScratchMount] @ seedRepoMounts idx repo,
        ctr_Env := [envVar ''HOME'' seedScratchMount] @ seedRepoEnv idx repo,
        ctr_Command := fst (seedCommand parse repo),
        ctr_Args := snd (seedCommand parse repo) \<rparr>,
      seedRepoVolumes idx repo)"

section \<open>The Job\<close>

definition manifestCommand :: "url_env \<Rightarrow> WorkspaceGitSource list \<Rightarrow> string" where
  "manifestCommand parse repos =
     ''set -eu; mkdir -p '' @ shellQuote (path_Join [seedMountPath, ''.paddock'']) @ ''; cat > ''
     @ shellQuote (path_Join [seedMountPath, seedManifestRelPath]) @ '' <<'' @ shellQuote ''PADDOCK_EOF'' @ lineFeed
     @ repoManifestJSON parse repos @ lineFeed @ ''PADDOCK_EOF''"

definition brokerCredNames :: "WorkspaceGitSource list \<Rightarrow> string list" where
  "brokerCredNames repos = remdups (List.map_filter (\<lambda>r. map_option bcr_Name (wgs_BrokerCredentialRef r)) repos)"

definition brokerBacked :: "seedJobInputs \<Rightarrow> WorkspaceGitSource list \<Rightarrow> bool" where
  "brokerBacked i repos = (sji_proxyImage i \<noteq> [] \<and> anyRepoUsesBroker repos)"

definition seedVolumes :: "map_order \<Rightarrow> Workspace \<Rightarrow> seedJobInputs \<Rightarrow> Volume list" where
  "seedVolumes ord ws i =
     [\<lparr> vol_Name = seedVolumeName, vol_Source = PersistentVolumeClaim (pvcName ws) \<rparr>,
      \<lparr> vol_Name = ''seed-scratch'', vol_Source = EmptyDir ''Memory'' \<rparr>]
     @ (if brokerBacked i (seed_repos ws)
        then [secretVolume proxyCAVolumeName (sji_proxyTLSSecret i), brokerTokenVolume,
              secretVolume brokerCAVolumeName (sji_brokerCASecret i), saTokenVolume]
        else [])
     @ map (\<lambda>s. secretVolume (seedBrokerCredsVolumeName s) s) (ord (brokerCredNames (seed_repos ws)))
     @ concat (map (\<lambda>(n, r). seedRepoVolumes n r) (enumerate 0 (seed_repos ws)))"

definition seedImageOf :: "string \<Rightarrow> string" where
  "seedImageOf img = (if img = [] then defaultSeedImage else img)"

definition seedPullPolicy :: "string \<Rightarrow> string" where
  "seedPullPolicy img = (if \<not> IsDigestPinnedImageRef img then ''Always'' else ''IfNotPresent'')"

definition seedJobForWorkspace :: "url_env \<Rightarrow> map_order \<Rightarrow> Workspace \<Rightarrow> string \<Rightarrow> seedJobInputs \<Rightarrow> Job" where
  "seedJobForWorkspace parse ord ws img0 i =
     (let img = seedImageOf img0; pullPolicy = seedPullPolicy img; repos = seed_repos ws in
      \<lparr> job_Name = seedJobName ws,
        job_Namespace = ws_Namespace ws,
        job_Labels = workspaceLabels ws,
        job_Annotations = [],
        job_Controller = None,
        job_Deleting = False,
        job_BackoffLimit = 0,
        job_ActiveDeadlineSeconds = Some seedActiveDeadlineSeconds,
        job_TTLSecondsAfterFinished = Some seedTTLSecondsAfterFinished,
        job_PodLabels = workspaceLabels ws,
        job_PodSpec =
          \<lparr> pod_ServiceAccountName = seedSAName ws,
            pod_AutomountServiceAccountToken = Some False,
            pod_RestartPolicy = ''Never'',
            pod_TerminationGracePeriodSeconds = Some seedTerminationGracePeriodSeconds,
            pod_ActiveDeadlineSeconds = Some seedActiveDeadlineSeconds,
            pod_InitContainers =
              (if brokerBacked i repos then [buildSeedProxySidecar ws i] else [])
              @ map (\<lambda>(n, r). fst (seedInitContainer parse n r img pullPolicy)) (enumerate 0 repos),
            pod_Containers =
              [zeroContainer\<lparr>
                 ctr_Name := ''manifest'', ctr_Image := img, ctr_ImagePullPolicy := pullPolicy,
                 ctr_Command := [''sh'', ''-c'', manifestCommand parse repos],
                 ctr_WorkingDir := ''/'', ctr_SecurityContext := Some seedContainerSecurityContext,
                 ctr_VolumeMounts := [rwMount seedVolumeName seedMountPath] \<rparr>],
            pod_Volumes = seedVolumes ord ws i,
            pod_SecurityContext = seedPodSecurityContext \<rparr>,
        job_Conditions = [],
        job_Active = 0 \<rparr>)"

section \<open>The flags of the proxy\<close>

text \<open>
  How \<open>main\<close> of the proxy reads its arguments (package \<open>flag\<close>): an argument \<open>--name=value\<close> sets a flag, the
  last one wins, and the namespace falls back to the environment.
\<close>

definition flag_value :: "string list \<Rightarrow> string \<Rightarrow> string \<Rightarrow> string" where
  "flag_value args name dflt =
     (case find (\<lambda>a. HasPrefix a (''--'' @ name @ ''='')) (rev args) of
        None \<Rightarrow> dflt
      | Some a \<Rightarrow> drop (length name + 3) a)"

definition parseProxyFlags :: "string \<Rightarrow> string list \<Rightarrow> proxy_flags" where
  "parseProxyFlags podNamespace args =
     \<lparr> pf_mode = flag_value args ''mode'' [],
       pf_acceptanceReason = flag_value args ''interception-acceptance-reason'' [],
       pf_allow = flag_value args ''allow'' [],
       pf_brokerEndpoint = flag_value args ''broker-endpoint'' [],
       pf_disableAudit = (flag_value args ''disable-audit'' ''false'' = ''true''),
       pf_runName = flag_value args ''run-name'' [],
       pf_runNamespace = (if flag_value args ''run-namespace'' [] = [] then podNamespace else flag_value args ''run-namespace'' []) \<rparr>"

section \<open>What the shell reads\<close>

text \<open>
  The words of a simple command after the POSIX shell language: blanks separate words, between single
  quotes every character stands for itself, between double quotes every character but the backslash,
  the dollar sign and the backquote. A command that needs more than that, or ends inside quotes, is not
  read.
\<close>

datatype quoting = Unquoted | InSingle | InDouble

definition sh_special :: "char \<Rightarrow> bool" where
  "sh_special c = (c \<in> set ''|&;<>()$`*?[#~=%!{}'' \<or> c = backslash \<or> c = CHR 0x0A)"

definition push_char :: "char \<Rightarrow> string option \<Rightarrow> string option" where
  "push_char c w = Some (case w of None \<Rightarrow> [c] | Some x \<Rightarrow> x @ [c])"

definition open_word :: "string option \<Rightarrow> string option" where
  "open_word w = Some (case w of None \<Rightarrow> [] | Some x \<Rightarrow> x)"

definition close_word :: "string option \<Rightarrow> string list" where
  "close_word w = (case w of None \<Rightarrow> [] | Some x \<Rightarrow> [x])"

fun sh_scan :: "quoting \<Rightarrow> string option \<Rightarrow> string \<Rightarrow> string list option" where
  "sh_scan q w [] = (if q = Unquoted then Some (close_word w) else None)"
| "sh_scan Unquoted w (c # cs) =
     (if c = squote then sh_scan InSingle (open_word w) cs
      else if c = dquote then sh_scan InDouble (open_word w) cs
      else if c = CHR '' '' \<or> c = CHR 0x09 then map_option (\<lambda>ws. close_word w @ ws) (sh_scan Unquoted None cs)
      else if sh_special c then None
      else sh_scan Unquoted (push_char c w) cs)"
| "sh_scan InSingle w (c # cs) =
     (if c = squote then sh_scan Unquoted w cs else sh_scan InSingle (push_char c w) cs)"
| "sh_scan InDouble w (c # cs) =
     (if c = dquote then sh_scan Unquoted w cs
      else if c = backslash \<or> c = CHR ''$'' \<or> c = CHR ''`'' then None
      else sh_scan InDouble (push_char c w) cs)"

definition sh_words :: "string \<Rightarrow> string list option" where
  "sh_words s = sh_scan Unquoted None s"

text \<open>The lines that a here-document with a quoted delimiter delivers.\<close>

definition heredoc :: "string \<Rightarrow> string \<Rightarrow> string list" where
  "heredoc delim text = takeWhile (\<lambda>l. l \<noteq> delim) (SplitByte text (CHR 0x0A))"

lemma quote_chars [simp]: "squote \<noteq> dquote" "dquote \<noteq> squote" "squote \<noteq> backslash" "squote \<noteq> CHR ''$''" "squote \<noteq> CHR ''`''"
  "CHR '' '' \<noteq> squote" "CHR '' '' \<noteq> dquote" "CHR 0x0A \<noteq> dquote" "CHR 0x0A \<noteq> backslash"
  by (simp_all add: squote_def dquote_def backslash_def char_of_def bit_0)

lemma sh_scan_quoted:
  "sh_scan InSingle (Some w) (concat (map (\<lambda>c. if c = squote then [squote, dquote, squote, dquote, squote] else [c]) s) @ squote # rest)
    = sh_scan Unquoted (Some (w @ s)) rest"
  by (induction s arbitrary: w) (simp_all add: push_char_def open_word_def)

lemma sh_scan_shellQuote: "sh_scan Unquoted None (shellQuote s @ rest) = sh_scan Unquoted (Some s) rest"
  using sh_scan_quoted [of "[]" s rest] by (simp add: shellQuote_def open_word_def)

lemma sh_scan_blank: "sh_scan Unquoted w (CHR '' '' # cs) = map_option (\<lambda>ws. close_word w @ ws) (sh_scan Unquoted None cs)"
  by (simp add: squote_def quote_code)

lemma sh_words_quoted: "args \<noteq> [] \<Longrightarrow> sh_scan Unquoted None (Join (quoteArgs args) '' '') = Some args"
proof (induction args rule: induct_list012)
  case (2 a)
  then show ?case using sh_scan_shellQuote [of a "[]"] by (simp add: quoteArgs_def close_word_def)
next
  case (3 a b args)
  then show ?case
    using sh_scan_shellQuote [of a "CHR '' '' # Join (quoteArgs (b # args)) '' ''"]
    by (simp add: quoteArgs_def sh_scan_blank close_word_def)
qed simp

section \<open>The manifest\<close>

lemma json_escape_line: "CHR 0x0A \<notin> set (json_escape c)"
proof -
  have "CHR 0x0A \<notin> set (hex_encode [c])" using hex_encode_no_space [of "CHR 0x0A" "[c]"] by (auto simp: isSpace_code)
  moreover have "(of_char c :: nat) \<noteq> 10 \<Longrightarrow> CHR 0x0A \<noteq> c" by auto
  ultimately show ?thesis by (auto simp: json_escape_def Let_def)
qed

lemma json_string_line [simp]: "CHR 0x0A \<notin> set (json_string s)"
  using json_escape_line by (auto simp: json_string_def)

definition manifest_line :: "string \<Rightarrow> bool" where
  "manifest_line l \<longleftrightarrow> CHR 0x0A \<notin> set l \<and> l \<noteq> [] \<and> hd l = CHR '' ''"

lemma manifest_entry_lines: "\<forall>l \<in> set (manifest_entry parse r). manifest_line l"
  by (auto simp: manifest_entry_def Let_def manifest_line_def)

lemma manifest_entry_not_Nil [simp]: "manifest_entry parse r \<noteq> []"
  by (simp add: manifest_entry_def Let_def)

lemma manifest_line_comma: "manifest_line l \<Longrightarrow> manifest_line (l @ '','')"
  by (simp add: manifest_line_def)

lemma entries_lines_ok: "\<forall>e \<in> set es. e \<noteq> [] \<and> (\<forall>l \<in> set e. manifest_line l) \<Longrightarrow> \<forall>l \<in> set (entries_lines es). manifest_line l"
proof (induction es rule: entries_lines.induct)
  case (3 e e' es)
  have e: "e \<noteq> []" "\<And>l. l \<in> set e \<Longrightarrow> manifest_line l" using 3(2) by simp_all
  have "manifest_line (last e @ '','')" using e last_in_set [of e] by (blast intro: manifest_line_comma)
  moreover have "l \<in> set (butlast e) \<Longrightarrow> manifest_line l" for l using e(2) in_set_butlastD by fast
  moreover have "\<forall>l \<in> set (entries_lines (e' # es)). manifest_line l" using 3 by simp
  ultimately show ?case by auto
qed simp_all

lemma manifest_lines:
  assumes "repos \<noteq> []"
  shows "SplitByte (repoManifestJSON parse repos) (CHR 0x0A)
    = [''[''] @ entries_lines (map (manifest_entry parse) repos) @ ['']'']"
proof -
  have "\<forall>l \<in> set (entries_lines (map (manifest_entry parse) repos)). manifest_line l"
    using manifest_entry_lines by (intro entries_lines_ok) auto
  then show ?thesis
    unfolding repoManifestJSON_def lineFeed_def if_not_P [OF assms]
    by (intro SplitByte_Join) (auto simp: manifest_line_def)
qed

lemma manifest_line_not_delim: "manifest_line l \<Longrightarrow> l \<noteq> ''PADDOCK_EOF''"
  by (auto simp: manifest_line_def)

end
