(* ===== verification/Controller_Workspace.thy ===== *)
theory Controller_Workspace
  imports Controller_Seed
begin

text \<open>
  The reconciler of workspaces: \<open>workspace_controller.go\<close> and \<open>workspace_broker.go\<close>. It shares the API
  server, the errors and the upserts of \<open>Controller_Base\<close> and \<open>Controller_Creds\<close> with the reconciler of
  runs. The counters that the code exports as metrics are left out.
\<close>

record wsreconciler =
  wrc_cfg :: ProxyBrokerConfig
  wrc_SeedImage :: string
  wrc_Audit :: bool
  wrc_order :: map_order
  wrc_parse :: url_env

definition WorkspaceFinalizer :: string where "WorkspaceFinalizer = ''paddock.dev/workspace-finalizer''"

section \<open>The objects a workspace owns\<close>

definition pvc_key :: "Workspace \<Rightarrow> okey" where
  "pvc_key ws = (KPersistentVolumeClaim, ws_Namespace ws, pvcName ws)"

definition ensurePVC :: "Workspace \<Rightarrow> ('s, PVC) op" where
  "ensurePVC ws =
     (let desired = (pvcForWorkspace ws)\<lparr> pvc_Controller := Some (ws_owner ws) \<rparr> in
      bnd (attempt (apiGet (pvc_key ws))) (\<lambda>g. case g of
        Inl e \<Rightarrow> if is_NotFound e
                 then bnd (apiCreate (pvc_key ws) (OPVC desired)) (\<lambda>_.
                      bnd (emit (Event ''PVCCreated'' (''Created PVC '' @ pvc_Name desired))) (\<lambda>_. ret desired))
                 else throw e
      | Inr x \<Rightarrow> ret (the_pvc x)))"

definition seed_key :: "Workspace \<Rightarrow> okey" where
  "seed_key ws = (KJob, ws_Namespace ws, seedJobName ws)"

definition ensureSeedJob :: "wsreconciler \<Rightarrow> Workspace \<Rightarrow> seedJobInputs \<Rightarrow> ('s, Job) op" where
  "ensureSeedJob r ws inputs =
     (let desired = (seedJobForWorkspace (wrc_parse r) (wrc_order r) ws (wrc_SeedImage r) inputs)\<lparr> job_Controller := Some (ws_owner ws) \<rparr> in
      bnd (attempt (apiGet (seed_key ws))) (\<lambda>g. case g of
        Inl e \<Rightarrow> if is_NotFound e
                 then bnd (apiCreate (seed_key ws) (OJob desired)) (\<lambda>_.
                      bnd (emit (Event ''SeedStarted'' (''Started seed job '' @ job_Name desired))) (\<lambda>_. ret desired))
                 else throw e
      | Inr x \<Rightarrow> ret (the_job x)))"

definition seed_np_key :: "Workspace \<Rightarrow> okey" where
  "seed_np_key ws = (KNetworkPolicy, ws_Namespace ws, seedNetworkPolicyName ws)"

definition seed_cnp_key :: "Workspace \<Rightarrow> okey" where
  "seed_cnp_key ws = (KCiliumNetworkPolicy, ws_Namespace ws, seedNetworkPolicyName ws)"

definition ensureSeedCiliumNetworkPolicy :: "Workspace \<Rightarrow> networkPolicyConfig \<Rightarrow> ('s, unit) op" where
  "ensureSeedCiliumNetworkPolicy ws cfg =
     bnd (upsert ''upserting seed CiliumNetworkPolicy'' (seed_cnp_key ws) (cnpMutation (ws_owner ws) (buildSeedCiliumNetworkPolicy ws cfg)))
       (\<lambda>_. ret ())"

definition ensureSeedNetworkPolicy :: "wsreconciler \<Rightarrow> Workspace \<Rightarrow> ('s, unit) op" where
  "ensureSeedNetworkPolicy r ws =
     (if \<not> networkPolicyEnforced (wrc_cfg r)
      then bnd (deleteIfPresent (seed_np_key ws)) (\<lambda>_.
             if pbc_CiliumCNPAvailable (wrc_cfg r) then deleteIfPresent (seed_cnp_key ws) else ret ())
      else if pbc_CiliumCNPAvailable (wrc_cfg r) then ensureSeedCiliumNetworkPolicy ws (policyConfig (wrc_cfg r))
      else bnd (upsert ''upserting seed NetworkPolicy'' (seed_np_key ws)
                  (npMutation (ws_owner ws) (buildSeedNetworkPolicy ws (policyConfig (wrc_cfg r))))) (\<lambda>_. ret ()))"

section \<open>The broker's part of a seed\<close>

definition workspaceProxyConfigured :: "wsreconciler \<Rightarrow> bool" where
  "workspaceProxyConfigured r =
     (pbc_ProxyImage (wrc_cfg r) \<noteq> [] \<and> pbc_ProxyCAClusterIssuer (wrc_cfg r) \<noteq> [] \<and> pbc_BrokerEndpoint (wrc_cfg r) \<noteq> []
      \<and> bca_Name (pbc_BrokerCASource (wrc_cfg r)) \<noteq> [])"

definition workspaceProxyTLSSecretName :: "string \<Rightarrow> string" where "workspaceProxyTLSSecretName wsName = wsName @ ''-proxy-tls''"
definition workspaceBrokerCASecretName :: "string \<Rightarrow> string" where "workspaceBrokerCASecretName wsName = wsName @ ''-broker-ca''"

definition seedLabels :: "string \<Rightarrow> Workspace \<Rightarrow> labels" where
  "seedLabels part ws = [(''app.kubernetes.io/name'', ''paddock''), (''app.kubernetes.io/component'', part), (''paddock.dev/workspace'', ws_Name ws)]"

definition ensureSeedProxyTLS :: "wsreconciler \<Rightarrow> Workspace \<Rightarrow> ('s, bool) op" where
  "ensureSeedProxyTLS r ws =
     (if pbc_ProxyCAClusterIssuer (wrc_cfg r) = [] then ret False
      else bnd (ensureProxyCACertificate (ws_owner ws) (ws_Namespace ws) (workspaceProxyTLSSecretName (ws_Name ws))
                  (''paddock-proxy-ws-'' @ ws_Name ws) (pbc_ProxyCAClusterIssuer (wrc_cfg r))
                  proxyCertDurationWorkspace proxyCertRenewBeforeWorkspace (seedLabels ''workspace-proxy-tls'' ws))
             (\<lambda>(created, ready). ret ready))"

definition ensureSeedBrokerCA :: "wsreconciler \<Rightarrow> Workspace \<Rightarrow> ('s, bool) op" where
  "ensureSeedBrokerCA r ws =
     projectBrokerCA (ws_owner ws) (pbc_BrokerCASource (wrc_cfg r)) (workspaceBrokerCASecretName (ws_Name ws)) (ws_Namespace ws)
       (seedLabels ''workspace-broker-ca'' ws) (ret ())"

definition seedRules :: "PolicyRule list" where
  "seedRules =
     [\<lparr> prl_APIGroups = [''paddock.dev''], prl_Resources = [''auditevents''], prl_ResourceNames = [], prl_Verbs = [''create''] \<rparr>]"

definition ensureSeedRBAC :: "Workspace \<Rightarrow> ('s, unit) op" where
  "ensureSeedRBAC ws =
     (let saName = seedSAName ws; ns = ws_Namespace ws; lbls = seedLabels ''workspace-seed'' ws; own = ws_owner ws
      in bnd (upsert ''seed serviceaccount'' (KServiceAccount, ns, saName) (ownBody own lbls OServiceAccount the_sa ())) (\<lambda>_.
         bnd (upsert ''seed role'' (KRole, ns, saName) (ownBody own lbls ORole the_role seedRules)) (\<lambda>_.
         bnd (upsert ''seed rolebinding'' (KRoleBinding, ns, saName)
                (ownBody own lbls ORoleBinding the_rb
                   \<lparr> rbb_Subjects = [(''ServiceAccount'', saName, ns)], rbb_RoleRef = (''rbac.authorization.k8s.io'', ''Role'', saName) \<rparr>))
           (\<lambda>_. ret ()))))"

text \<open>The loop over the references; \<open>seen\<close> holds the tags that were looked up already.\<close>

fun credsReadyLoop :: "string \<Rightarrow> string list \<Rightarrow> BrokerCredentialReference list \<Rightarrow> ('s, BrokerCredentialReference option) op" where
  "credsReadyLoop ns seen [] = ret None"
| "credsReadyLoop ns seen (ref # refs) =
     (let tag = bcr_Name ref @ ''/'' @ bcr_Key ref in
      if tag \<in> set seen then credsReadyLoop ns seen refs
      else bnd (attempt (apiGet (KSecret, ns, bcr_Name ref))) (\<lambda>g. case g of
        Inl e \<Rightarrow> if is_NotFound e then ret (Some ref)
                 else throw (wrap (''reading broker-creds Secret '' @ ns @ ''/'' @ bcr_Name ref) e)
      | Inr x \<Rightarrow>
          if (case map_of (own_Body (the_secret x)) (bcr_Key ref) of None \<Rightarrow> True | Some v \<Rightarrow> v = []) then ret (Some ref)
          else credsReadyLoop ns (tag # seen) refs))"

definition seedBrokerCredsReady :: "Workspace \<Rightarrow> ('s, BrokerCredentialReference option) op" where
  "seedBrokerCredsReady ws =
     credsReadyLoop (ws_Namespace ws) [] (List.map_filter wgs_BrokerCredentialRef (brokerSeedRepos ws))"

section \<open>Status\<close>

definition setWsCond :: "time \<Rightarrow> string \<Rightarrow> ConditionStatus \<Rightarrow> string \<Rightarrow> string \<Rightarrow> Workspace \<Rightarrow> Workspace" where
  "setWsCond now t s rsn m ws =
     onWs (\<lambda>st. st\<lparr> wss_Conditions := setCondition now (wss_Conditions st) (mkCond t s rsn m (ws_Generation ws)) \<rparr>) ws"

definition setWsPhase :: "WorkspacePhase \<Rightarrow> Workspace \<Rightarrow> Workspace" where
  "setWsPhase p = onWs (\<lambda>st. st\<lparr> wss_Phase := p \<rparr>)"

text \<open>A status is written when it changed; a conflict is left to the next reconcile.\<close>

definition wsCommit :: "WorkspaceStatus \<Rightarrow> Workspace \<Rightarrow> ('s, unit) op" where
  "wsCommit orig ws =
     (if ws_Status ws = orig then ret ()
      else bnd (attempt (updateWorkspaceStatus ws)) (\<lambda>u. case u of
        Inl e \<Rightarrow> if is_Conflict e then ret () else throw e
      | Inr _ \<Rightarrow> ret ()))"

definition wsStop :: "WorkspaceStatus \<Rightarrow> WorkspacePhase \<Rightarrow> string \<Rightarrow> string \<Rightarrow> Result \<Rightarrow> Workspace \<Rightarrow> ('s, Result) op" where
  "wsStop orig p rsn m res ws =
     bnd getNow (\<lambda>now. bnd (wsCommit orig (setWsPhase p (setWsCond now ''Seeded'' ConditionFalse rsn m ws))) (\<lambda>_. ret res))"

definition wsMisconfigured :: "wsreconciler \<Rightarrow> WorkspaceStatus \<Rightarrow> string \<Rightarrow> string \<Rightarrow> Workspace \<Rightarrow> ('s, Result) op" where
  "wsMisconfigured r orig rsn m ws =
     bnd (emit (Event rsn m)) (\<lambda>_.
     bnd (EmitWorkspaceCAMisconfigured (wrc_Audit r) (ws_Name ws) (ws_Namespace ws) m) (\<lambda>_.
     wsStop orig WorkspacePhaseFailed rsn m Done ws))"

definition pvcCond :: "time \<Rightarrow> PVC \<Rightarrow> Workspace \<Rightarrow> Workspace" where
  "pvcCond now pvc ws =
     (if pvc_Phase pvc = ''Bound''
      then setWsCond now ''PVCBound'' ConditionTrue ''Bound'' (''PVC '' @ pvc_Name pvc @ '' is bound'') ws
      else setWsCond now ''PVCBound'' ConditionFalse ''Pending'' (''PVC '' @ pvc_Name pvc @ '' is '' @ pvc_Phase pvc) ws)"

section \<open>Reconcile\<close>

text \<open>The end of a pass that got as far as a phase: the summary, the status, and when to come back.\<close>

definition wsFinish :: "WorkspaceStatus \<Rightarrow> PVC \<Rightarrow> WorkspacePhase \<Rightarrow> Workspace \<Rightarrow> ('s, Result) op" where
  "wsFinish orig pvc p ws0 =
     bnd getNow (\<lambda>now.
     let ws1 = setWsPhase p ws0;
         ws2 = (if p = WorkspacePhaseActive then setWsCond now ''Ready'' ConditionTrue ''Ready'' ''workspace is ready'' ws1
                else setWsCond now ''Ready'' ConditionFalse (wsPhase_str p) (''workspace phase is '' @ wsPhase_str p) ws1);
         ws3 = onWs (\<lambda>st. st\<lparr> wss_ObservedGeneration := ws_Generation ws2 \<rparr>) ws2
     in bnd (wsCommit orig ws3) (\<lambda>_.
        ret (if p = WorkspacePhaseSeeding then RequeueAfter (5 * second)
             else if pvc_Phase pvc \<noteq> ''Bound'' then RequeueAfter (10 * second) else Done)))"

definition seedOutcome :: "WorkspaceStatus \<Rightarrow> Workspace \<Rightarrow> Job \<Rightarrow> WorkspacePhase \<times> ConditionStatus \<times> string \<times> string \<times> effect list" where
  "seedOutcome orig ws job =
     (if jobPhase job = ''Succeeded''
      then (WorkspacePhaseActive, ConditionTrue, ''SeedJobSucceeded'', describeSeed ws @ '' cloned'',
            if wss_Phase orig \<noteq> WorkspacePhaseActive then [Event ''Seeded'' (''Seed job completed: '' @ describeSeed ws)] else [])
      else if jobPhase job = ''Failed''
      then (WorkspacePhaseFailed, ConditionFalse, ''SeedJobFailed'', ''seed job failed; inspect logs'',
            if wss_Phase orig \<noteq> WorkspacePhaseFailed then [Event ''SeedFailed'' (''Seed job failed for '' @ describeSeed ws)] else [])
      else (WorkspacePhaseSeeding, ConditionFalse, ''Seeding'', ''seed job is '' @ jobPhase job, []))"

definition wsSeed :: "wsreconciler \<Rightarrow> WorkspaceStatus \<Rightarrow> PVC \<Rightarrow> seedJobInputs \<Rightarrow> Workspace \<Rightarrow> ('s, Result) op" where
  "wsSeed r orig pvc inputs ws =
     bnd (ensureSeedNetworkPolicy r ws) (\<lambda>_.
     bnd (ensureSeedJob r ws inputs) (\<lambda>job.
     bnd getNow (\<lambda>now.
     case seedOutcome orig ws job of (p, s, rsn, m, es) \<Rightarrow>
       bnd (emitAll es) (\<lambda>_.
       wsFinish orig pvc p (setWsCond now ''Seeded'' s rsn m (onWs (\<lambda>st. st\<lparr> wss_SeedJobName := job_Name job \<rparr>) ws))))))"

definition wsBrokerCA :: "wsreconciler \<Rightarrow> WorkspaceStatus \<Rightarrow> PVC \<Rightarrow> Workspace \<Rightarrow> ('s, Result) op" where
  "wsBrokerCA r orig pvc ws =
     bnd (attempt (ensureSeedBrokerCA r ws)) (\<lambda>a. case a of
       Inl SourceCAMisconfigured \<Rightarrow>
         wsMisconfigured r orig ''BrokerCAMisconfigured''
           (''source broker-CA Secret '' @ bca_Namespace (pbc_BrokerCASource (wrc_cfg r)) @ ''/'' @ bca_Name (pbc_BrokerCASource (wrc_cfg r))
            @ '' exists but has missing/empty '' @ fmt_q brokerCAKey @ ''; operator must populate it'') ws
     | Inl e \<Rightarrow> throw e
     | Inr ok \<Rightarrow>
         if \<not> ok then wsStop orig WorkspacePhaseSeeding ''BrokerCAPending''
                       ''cert-manager has not yet populated the broker-serving-cert Secret'' (RequeueAfter (10 * second)) ws
         else wsSeed r orig pvc
                \<lparr> sji_proxyImage = pbc_ProxyImage (wrc_cfg r), sji_proxyTLSSecret = workspaceProxyTLSSecretName (ws_Name ws),
                  sji_brokerEndpoint = pbc_BrokerEndpoint (wrc_cfg r), sji_brokerCASecret = workspaceBrokerCASecretName (ws_Name ws) \<rparr> ws)"

definition wsProxyTLS :: "wsreconciler \<Rightarrow> WorkspaceStatus \<Rightarrow> PVC \<Rightarrow> Workspace \<Rightarrow> ('s, Result) op" where
  "wsProxyTLS r orig pvc ws =
     bnd (attempt (ensureSeedProxyTLS r ws)) (\<lambda>a. case a of
       Inl (ProxyCertPermanentFailure why) \<Rightarrow>
         wsMisconfigured r orig ''ProxyCAMisconfigured''
           (''cert-manager Certificate for proxy-tls permanently failed: '' @ ctl_Error (ProxyCertPermanentFailure why)
            @ ''; operator must fix the ClusterIssuer config'') ws
     | Inl e \<Rightarrow> throw e
     | Inr ok \<Rightarrow>
         if \<not> ok then wsStop orig WorkspacePhaseSeeding ''ProxyCAPending''
                       ''cert-manager has not yet populated the paddock-proxy-ca Secret'' (RequeueAfter (10 * second)) ws
         else wsBrokerCA r orig pvc ws)"

definition wsBrokerSeed :: "wsreconciler \<Rightarrow> WorkspaceStatus \<Rightarrow> PVC \<Rightarrow> Workspace \<Rightarrow> ('s, Result) op" where
  "wsBrokerSeed r orig pvc ws =
     (if \<not> workspaceProxyConfigured r
      then wsStop orig WorkspacePhaseFailed ''BrokerProxyNotConfigured''
             ''manager lacks --broker-endpoint / --proxy-image / --proxy-ca-secret / --broker-ca-secret; broker-backed seed repos cannot run''
             Done ws
      else bnd (seedBrokerCredsReady ws) (\<lambda>missing. case missing of
        Some ref \<Rightarrow>
          wsStop orig WorkspacePhaseSeeding ''BrokerCredsPending''
            (''broker-creds Secret '' @ ws_Namespace ws @ ''/'' @ bcr_Name ref @ '' key '' @ fmt_q (bcr_Key ref) @ '' not yet populated'')
            (RequeueAfter (5 * second)) ws
      | None \<Rightarrow> wsProxyTLS r orig pvc ws))"

definition rejectedRepo :: "Workspace \<Rightarrow> nat option" where
  "rejectedRepo ws =
     map_option fst (find (\<lambda>(i, repo). \<not> seedRepoSchemeAllowed (wgs_URL repo)) (enumerate 0 (seed_repos ws)))"

definition wsLive :: "wsreconciler \<Rightarrow> Workspace \<Rightarrow> ('s, Result) op" where
  "wsLive r ws0 =
     (let orig = ws_Status ws0 in
      bnd (ensurePVC ws0) (\<lambda>pvc.
      bnd getNow (\<lambda>now.
      let ws = pvcCond now pvc (onWs (\<lambda>st. st\<lparr> wss_PVCName := pvc_Name pvc \<rparr>) ws0) in
      if seed_repos ws = []
      then wsFinish orig pvc WorkspacePhaseActive
             (setWsCond now ''Seeded'' ConditionTrue ''NoSeedRequired'' ''no seed source declared''
                (onWs (\<lambda>st. st\<lparr> wss_SeedJobName := [] \<rparr>) ws))
      else case rejectedRepo ws of
        Some i \<Rightarrow>
          wsStop orig WorkspacePhaseFailed ''SeedRejected''
            (''seed.repos['' @ fmt_d (int i) @ ''].url has a non-allowlisted scheme; only https:// and ssh:// are accepted'') Done ws
      | None \<Rightarrow>
          bnd (ensureSeedRBAC ws) (\<lambda>_.
          if brokerSeedRepos ws \<noteq> [] then wsBrokerSeed r orig pvc ws
          else wsSeed r orig pvc zeroSeedInputs ws))))"

definition wsReconcileDelete :: "Workspace \<Rightarrow> ('s, Result) op" where
  "wsReconcileDelete ws =
     (if WorkspaceFinalizer \<notin> set (ws_Finalizers ws) then ret Done
      else if wss_ActiveRunRef (ws_Status ws) \<noteq> []
      then bnd (emit (Event ''DeletionBlocked'' (''cannot delete while activeRunRef='' @ wss_ActiveRunRef (ws_Status ws) @ '' is set'')))
             (\<lambda>_. ret (RequeueAfter (15 * second)))
      else
        (let terminating = setWsPhase WorkspacePhaseTerminating ws in
         bnd (if wss_Phase (ws_Status ws) \<noteq> WorkspacePhaseTerminating
              then bnd (attempt (updateWorkspaceStatus terminating)) (\<lambda>u. case u of
                     Inl e \<Rightarrow> if is_Conflict e then ret terminating else throw e
                   | Inr new \<Rightarrow> ret new)
              else ret ws) (\<lambda>ws.
         bnd (attempt (updateWorkspace (ws\<lparr> ws_Finalizers := filter (\<lambda>f. f \<noteq> WorkspaceFinalizer) (ws_Finalizers ws) \<rparr>))) (\<lambda>u. case u of
           Inl e \<Rightarrow> if is_Conflict e then ret Requeue else throw e
         | Inr _ \<Rightarrow> ret Done))))"

definition wsAddFinalizer :: "Workspace \<Rightarrow> ('s, Result) op" where
  "wsAddFinalizer ws =
     bnd (attempt (updateWorkspace (ws\<lparr> ws_Finalizers := ws_Finalizers ws @ [WorkspaceFinalizer] \<rparr>))) (\<lambda>u. case u of
       Inl e \<Rightarrow> if is_Conflict e then ret Requeue else throw e
     | Inr _ \<Rightarrow> ret Requeue)"

text \<open>What a reconcile does with the copy it has read.\<close>

definition wsDispatch :: "wsreconciler \<Rightarrow> Workspace \<Rightarrow> ('s, Result) op" where
  "wsDispatch r ws =
     (if ws_DeletionTimestamp ws \<noteq> None then wsReconcileDelete ws
      else if WorkspaceFinalizer \<notin> set (ws_Finalizers ws) then wsAddFinalizer ws
      else wsLive r ws)"

definition wsReconcile :: "wsreconciler \<Rightarrow> string \<Rightarrow> string \<Rightarrow> ('s, Result) op" where
  "wsReconcile r namespace name =
     bnd (attempt (apiGet (KWorkspace, namespace, name))) (\<lambda>g. case g of
       Inl e \<Rightarrow> if is_NotFound e then ret Done else throw e
     | Inr x \<Rightarrow> wsDispatch r (the_workspace x))"

end
