(* ===== verification/Workspace_Facts.thy ===== *)
theory Workspace_Facts
  imports Controller_Workspace Controller_Start Controller_Binding
begin

text \<open>
  Facts on the reconciler of workspaces: which keys its parts touch, what its writes keep of the binding
  to a run, when a workspace becomes active, and the wait of a seed for the credentials of a run.
\<close>

lemma keeps_iff: "keeps I m \<longleftrightarrow> triple I m (\<lambda>_. I) I"
  using keeps_triple triple_same unfolding keeps_def by blast

section \<open>Keys\<close>

definition not_ws :: "okey set" where
  "not_ws = {k. fst k \<noteq> KWorkspace}"

lemma not_ws_iff [simp]: "(kd, ns, n) \<in> not_ws \<longleftrightarrow> kd \<noteq> KWorkspace"
  by (simp add: not_ws_def)

lemmas ws_keys = pvc_key_def seed_key_def seed_np_key_def seed_cnp_key_def

lemma touches_ensurePVC [touch]: "pvc_key ws \<in> K \<Longrightarrow> touches K (ensurePVC ws)"
  unfolding ensurePVC_def Let_def by (intro touch)

lemma touches_ensureSeedJob [touch]: "seed_key ws \<in> K \<Longrightarrow> touches K (ensureSeedJob r ws i)"
  unfolding ensureSeedJob_def Let_def by (intro touch)

lemma touches_seedPolicy [touch]: "seed_np_key ws \<in> K \<Longrightarrow> seed_cnp_key ws \<in> K \<Longrightarrow> touches K (ensureSeedNetworkPolicy r ws)"
  unfolding ensureSeedNetworkPolicy_def ensureSeedCiliumNetworkPolicy_def by (intro touch)

lemma touches_seedTLS [touch]: "touches not_ws (ensureSeedProxyTLS r ws)"
  unfolding ensureSeedProxyTLS_def ensureProxyCACertificate_def Let_def by (intro touch) simp

lemma touches_seedCA [touch]: "touches not_ws (ensureSeedBrokerCA r ws)"
  unfolding ensureSeedBrokerCA_def projectBrokerCA_def copyCAToSecret_def by (intro touch) simp

definition rbac_of :: "Workspace \<Rightarrow> okey set" where
  "rbac_of ws = {(KServiceAccount, ws_Namespace ws, seedSAName ws), (KRole, ws_Namespace ws, seedSAName ws), (KRoleBinding, ws_Namespace ws, seedSAName ws)}"

lemma touches_seedRBAC [touch]: "rbac_of ws \<subseteq> K \<Longrightarrow> touches K (ensureSeedRBAC ws)"
  unfolding ensureSeedRBAC_def Let_def rbac_of_def by (intro touch) auto

lemma touches_credsReadyLoop [touch]: "touches K (credsReadyLoop ns seen refs)"
  by (induction refs arbitrary: seen) (auto simp: Let_def intro!: touch)

lemma touches_wsCommit [touch]: "ws_key ws \<in> K \<Longrightarrow> touches K (wsCommit orig ws)"
  unfolding wsCommit_def by (intro touch)

section \<open>Copies\<close>

definition binding :: "Workspace \<Rightarrow> string \<times> int \<times> string \<times> time option" where
  "binding w = (wss_ActiveRunRef (ws_Status w), wss_TotalRuns (ws_Status w), wss_LastCountedRun (ws_Status w), wss_LastActivity (ws_Status w))"

text \<open>A copy of a workspace that differs from another only in what its own reconciler writes.\<close>

definition copy_of :: "Workspace \<Rightarrow> Workspace \<Rightarrow> bool" where
  "copy_of ws v \<longleftrightarrow> ws_Name v = ws_Name ws \<and> ws_Namespace v = ws_Namespace ws \<and> ws_Spec v = ws_Spec ws \<and> ws_Generation v = ws_Generation ws
     \<and> ws_ResourceVersion v = ws_ResourceVersion ws \<and> binding v = binding ws"

lemma copy_refl [simp]: "copy_of ws ws" by (simp add: copy_of_def)

lemma copy_steps [simp]:
  "copy_of ws (setWsCond now t s rsn m v) = copy_of ws v"
  "copy_of ws (setWsPhase p v) = copy_of ws v"
  "copy_of ws (pvcCond now pvc v) = copy_of ws v"
  "copy_of ws (onWs (\<lambda>st. st\<lparr> wss_PVCName := n \<rparr>) v) = copy_of ws v"
  "copy_of ws (onWs (\<lambda>st. st\<lparr> wss_SeedJobName := n \<rparr>) v) = copy_of ws v"
  "copy_of ws (onWs (\<lambda>st. st\<lparr> wss_ObservedGeneration := g \<rparr>) v) = copy_of ws v"
  by (simp_all add: copy_of_def setWsCond_def setWsPhase_def pvcCond_def onWs_def binding_def)

lemma copy_key: "copy_of ws v \<Longrightarrow> ws_key v = ws_key ws"
  by (simp add: copy_of_def ws_key_def)

lemma copy_repos: "copy_of ws v \<Longrightarrow> seed_repos v = seed_repos ws" "copy_of ws v \<Longrightarrow> seed_key v = seed_key ws"
  "copy_of ws v \<Longrightarrow> brokerSeedRepos v = brokerSeedRepos ws" "copy_of ws v \<Longrightarrow> rbac_of v = rbac_of ws"
  by (simp_all add: copy_of_def seed_repos_def seed_key_def seedJobName_def brokerSeedRepos_def rbac_of_def seedSAName_def)

section \<open>The binding survives\<close>

definition bound_as :: "Workspace \<Rightarrow> Workspace \<Rightarrow> 's cluster \<Rightarrow> bool" where
  "bound_as ws w c \<longleftrightarrow>
     (\<exists>w'. cl_objects c (ws_key w) = Some (OWorkspace w') \<and> binding w' = binding w
        \<and> (ws_ResourceVersion w' = ws_ResourceVersion ws \<longrightarrow> binding ws = binding w))"

lemma framed_at_key: "k \<notin> K \<Longrightarrow> (\<And>c c'. cl_objects c' k = cl_objects c k \<Longrightarrow> P c \<Longrightarrow> P c') \<Longrightarrow> framed K P"
  by (auto simp: framed_def unchanged_def)

lemma framed_bound_as: "ws_key w \<notin> K \<Longrightarrow> framed K (bound_as ws w)"
  by (erule framed_at_key) (simp add: bound_as_def)

lemma framed_not_ws_bound [kept]: "framed not_ws (bound_as ws w)"
  by (rule framed_bound_as) (simp add: ws_key_def)

lemma status_write_keeps:
  assumes "ws_key ws = ws_key w" "copy_of ws v"
  shows "keeps (bound_as ws w) (updateWorkspaceStatus v)"
  unfolding keeps_def
proof (intro allI impI)
  fix c assume I: "bound_as ws w c"
  have k: "ws_key v = ws_key w" "binding v = binding ws" "ws_ResourceVersion v = ws_ResourceVersion ws"
    using assms(1) copy_key [OF assms(2)] assms(2) by (simp_all add: copy_of_def)
  from I obtain w' where w': "cl_objects c (ws_key v) = Some (OWorkspace w')" "binding w' = binding w"
    "ws_ResourceVersion w' = ws_ResourceVersion ws \<longrightarrow> binding ws = binding w"
    unfolding bound_as_def k by blast
  obtain x c' where u: "updateWorkspaceStatus v c = (x, c')" by fastforce
  then show "bound_as ws w (snd (updateWorkspaceStatus v c))"
    by (cases rule: updateWorkspaceStatus_cases [OF _ w'(1)]) (use k w' in \<open>auto simp: bound_as_def binding_def\<close>)
qed

lemma wsCommit_keeps: "ws_key ws = ws_key w \<Longrightarrow> copy_of ws v \<Longrightarrow> keeps (bound_as ws w) (wsCommit orig v)"
  unfolding wsCommit_def by (intro kept status_write_keeps)

lemma keeps_side_ops [kept]:
  assumes "framed not_ws I"
  shows "keeps I (ensurePVC v)" "keeps I (ensureSeedJob r v i)" "keeps I (ensureSeedNetworkPolicy r v)"
    "keeps I (ensureSeedProxyTLS r v)" "keeps I (ensureSeedBrokerCA r v)" "keeps I (ensureSeedRBAC v)"
    "keeps I (seedBrokerCredsReady v)" "keeps I (emit e)" "keeps I (emitAll es)" "keeps I (EmitWorkspaceCAMisconfigured sink n ns m)"
  unfolding seedBrokerCredsReady_def EmitWorkspaceCAMisconfigured_def
  by (rule keeps_frame [OF _ assms], intro touch; simp add: ws_keys rbac_of_def)+

text \<open>Every path of a live reconcile ends with a write of a copy.\<close>

lemma live_parts_keep:
  assumes "ws_key ws = ws_key w"
  shows "copy_of ws v \<Longrightarrow> keeps (bound_as ws w) (wsStop orig p rsn m res v)"
    and "copy_of ws v \<Longrightarrow> keeps (bound_as ws w) (wsMisconfigured r orig rsn m v)"
    and "copy_of ws v \<Longrightarrow> keeps (bound_as ws w) (wsFinish orig pvc p v)"
    and "copy_of ws v \<Longrightarrow> keeps (bound_as ws w) (wsSeed r orig pvc i v)"
proof -
  show stop: "keeps (bound_as ws w) (wsStop orig p rsn m res v)" if "copy_of ws v" for p rsn m res v
    unfolding wsStop_def using that assms by (intro kept wsCommit_keeps) simp_all
  show "keeps (bound_as ws w) (wsMisconfigured r orig rsn m v)" if "copy_of ws v"
    unfolding wsMisconfigured_def using that by (intro kept stop)
  show finish: "keeps (bound_as ws w) (wsFinish orig pvc p v)" if "copy_of ws v" for p v
    unfolding wsFinish_def Let_def using that assms by (intro kept wsCommit_keeps) simp_all
  show "keeps (bound_as ws w) (wsSeed r orig pvc i v)" if "copy_of ws v"
    unfolding wsSeed_def using that by (intro kept finish) simp
qed

lemma live_keeps:
  assumes "ws_key ws = ws_key w"
  shows "keeps (bound_as ws w) (wsLive r ws)"
proof -
  note parts = live_parts_keep [OF assms]
  have ca: "keeps (bound_as ws w) (wsBrokerCA r orig pvc v)" if "copy_of ws v" for orig pvc v
    unfolding wsBrokerCA_def using that by (intro kept parts)
  have tls: "keeps (bound_as ws w) (wsProxyTLS r orig pvc v)" if "copy_of ws v" for orig pvc v
    unfolding wsProxyTLS_def using that by (intro kept parts ca)
  have broker: "keeps (bound_as ws w) (wsBrokerSeed r orig pvc v)" if "copy_of ws v" for orig pvc v
    unfolding wsBrokerSeed_def using that by (intro kept parts tls)
  show ?thesis
    unfolding wsLive_def Let_def by (intro kept parts broker) simp_all
qed

lemma addFinalizer_keeps:
  assumes "ws_key ws = ws_key w" "ws_DeletionTimestamp ws = None" "bound_as ws w c"
    "cl_objects c (ws_key w) = Some (OWorkspace w)" "ws_ResourceVersion ws = ws_ResourceVersion w \<longrightarrow> ws = w"
  shows "bound_as ws w (snd (wsAddFinalizer ws c))"
  using assms
  by (auto simp: wsAddFinalizer_def bnd_def attempt_def updateWorkspace_def api_def Let_def put_def bound_as_def binding_def
      is_Conflict_def IsConflict_def ws_key_def ret_def throw_def split: option.splits if_splits)

text \<open>A write of an old copy does nothing.\<close>

definition stored_at :: "okey \<Rightarrow> Workspace \<Rightarrow> 's cluster \<Rightarrow> bool" where
  "stored_at k w c \<longleftrightarrow> cl_objects c k = Some (OWorkspace w)"

lemma stale_writes:
  assumes "ws_key v = k" "ws_ResourceVersion v \<noteq> ws_ResourceVersion w"
  shows "triple (stored_at k w) (updateWorkspaceStatus v) (\<lambda>_ _. False) (stored_at k w)"
    and "triple (stored_at k w) (updateWorkspace v) (\<lambda>_ _. False) (stored_at k w)"
  using assms
  by (auto simp: triple_def stored_at_def updateWorkspaceStatus_def updateWorkspace_def api_def Let_def split: option.splits)

lemma triple_same_key: "triple (stored_at k w) m (\<lambda>_. stored_at k w) (stored_at k w) \<Longrightarrow> stored_at k w c \<Longrightarrow> stored_at k w (snd (m c))"
  by (rule triple_same)

lemma stale_finalizer:
  assumes "ws_key v = k" "ws_ResourceVersion v \<noteq> ws_ResourceVersion w"
  shows "triple (stored_at k w) (bnd (attempt (updateWorkspace (v\<lparr> ws_Finalizers := fs \<rparr>)))
    (\<lambda>u. case u of Inl e \<Rightarrow> if is_Conflict e then ret Requeue else throw e | Inr _ \<Rightarrow> ret x)) (\<lambda>_. stored_at k w) (stored_at k w)"
  by (rule triple_try, rule stale_writes(2)) (use assms in \<open>auto simp: ws_key_def intro!: vc\<close>)

lemma stale_delete:
  assumes "ws_key ws = ws_key w" "ws_ResourceVersion ws \<noteq> ws_ResourceVersion w"
  shows "triple (stored_at (ws_key w) w) (wsReconcileDelete ws) (\<lambda>_. stored_at (ws_key w) w) (stored_at (ws_key w) w)"
proof -
  let ?S = "stored_at (ws_key w) w"
  have copy: "triple ?S (if wss_Phase (ws_Status ws) \<noteq> WorkspacePhaseTerminating
      then bnd (attempt (updateWorkspaceStatus (setWsPhase WorkspacePhaseTerminating ws))) (\<lambda>u. case u of
        Inl e \<Rightarrow> if is_Conflict e then ret (setWsPhase WorkspacePhaseTerminating ws) else throw e | Inr new \<Rightarrow> ret new)
      else ret ws) (\<lambda>v c. ?S c \<and> (ws_key v = ws_key w \<and> ws_ResourceVersion v \<noteq> ws_ResourceVersion w)) ?S"
    using assms
    by (intro vc triple_try [OF stale_writes(1)]) (auto simp: setWsPhase_def onWs_def ws_key_def intro!: vc)
  have fin: "triple (\<lambda>c. ?S c \<and> (ws_key v = ws_key w \<and> ws_ResourceVersion v \<noteq> ws_ResourceVersion w))
      (bnd (attempt (updateWorkspace (v\<lparr> ws_Finalizers := filter (\<lambda>f. f \<noteq> WorkspaceFinalizer) (ws_Finalizers v) \<rparr>)))
        (\<lambda>u. case u of Inl e \<Rightarrow> if is_Conflict e then ret Requeue else throw e | Inr _ \<Rightarrow> ret Done)) (\<lambda>_. ?S) ?S" for v
    by (rule triple_given, rule stale_finalizer) auto
  have "framed {} ?S" by (rule framed_at_key [of "ws_key w"]) (simp_all add: stored_at_def)
  then have quiet: "triple ?S (emit e) (\<lambda>_. ?S) ?S" for e by (rule triple_frame [OF touches_emit])
  show ?thesis
    unfolding wsReconcileDelete_def Let_def
    by (intro triple_if triple_ret triple_bnd [OF quiet] triple_bnd [OF copy] fin) auto
qed

lemma dispatch_keeps:
  assumes "cl_objects c (ws_key w) = Some (OWorkspace w)" "ws_key ws = ws_key w"
    "ws_ResourceVersion ws = ws_ResourceVersion w \<longrightarrow> ws = w" "wss_ActiveRunRef (ws_Status w) \<noteq> []"
  shows "bound_as ws w (snd (wsDispatch r ws c))"
proof -
  have I: "bound_as ws w c" using assms by (auto simp: bound_as_def)
  show ?thesis
  proof (cases "ws_DeletionTimestamp ws = None")
    case True
    have "bound_as ws w (snd (wsLive r ws c))"
      using live_keeps [OF assms(2)] I unfolding keeps_def by blast
    then show ?thesis
      using True addFinalizer_keeps [OF assms(2) True I assms(1,3)] by (simp add: wsDispatch_def)
  next
    case del: False
    show ?thesis
    proof (cases "ws = w")
      case True
      then show ?thesis
        using del assms I by (auto simp: wsDispatch_def wsReconcileDelete_def ret_def bnd_def emit_def bound_as_def)
    next
      case False
      then have "stored_at (ws_key w) w (snd (wsReconcileDelete ws c))"
        using assms by (intro triple_same_key [OF stale_delete]) (auto simp: stored_at_def)
      then show ?thesis using del assms(3) False by (auto simp: wsDispatch_def bound_as_def stored_at_def)
    qed
  qed
qed

section \<open>When a workspace becomes active\<close>

definition inactive :: "okey \<Rightarrow> 's cluster \<Rightarrow> bool" where
  "inactive k c \<longleftrightarrow> (\<forall>w. cl_objects c k = Some (OWorkspace w) \<longrightarrow> wss_Phase (ws_Status w) \<noteq> WorkspacePhaseActive)"

definition seeded :: "Workspace \<Rightarrow> 's cluster \<Rightarrow> bool" where
  "seeded ws c \<longleftrightarrow> (\<exists>job. cl_objects c (seed_key ws) = Some (OJob job) \<and> jobPhase job = ''Succeeded'')"

definition rightly_active :: "Workspace \<Rightarrow> 's cluster \<Rightarrow> bool" where
  "rightly_active ws c \<longleftrightarrow> inactive (ws_key ws) c \<or> seed_repos ws = [] \<or> seeded ws c"

lemma framed_inactive [kept]: "framed not_ws (inactive (ws_key ws))"
  by (rule framed_at_key [of "ws_key ws"]) (simp_all add: inactive_def ws_key_def)

lemma commit_inactive:
  assumes "wss_Phase (ws_Status v) \<noteq> WorkspacePhaseActive" "ws_key v = ws_key ws"
  shows "keeps (inactive (ws_key ws)) (wsCommit orig v)"
  using assms
  by (auto simp: keeps_def wsCommit_def bnd_def attempt_def updateWorkspaceStatus_def api_def Let_def put_def inactive_def ret_def throw_def ws_key_def
      split: option.splits object.splits sum.splits)

lemma phase_of [simp]:
  "wss_Phase (ws_Status (setWsCond now t s rsn m v)) = wss_Phase (ws_Status v)" "wss_Phase (ws_Status (setWsPhase p v)) = p"
  "wss_Phase (ws_Status (onWs (\<lambda>st. st\<lparr> wss_ObservedGeneration := g \<rparr>) v)) = wss_Phase (ws_Status v)"
  by (simp_all add: setWsCond_def setWsPhase_def onWs_def)

lemma key_of [simp]:
  "ws_key (setWsCond now t s rsn m v) = ws_key v" "ws_key (setWsPhase p v) = ws_key v" "ws_key (pvcCond now pvc v) = ws_key v"
  "ws_key (onWs f v) = ws_key v"
  by (simp_all add: setWsCond_def setWsPhase_def onWs_def ws_key_def pvcCond_def)

lemma stops_inactive:
  "p \<noteq> WorkspacePhaseActive \<Longrightarrow> ws_key v = ws_key ws \<Longrightarrow> keeps (inactive (ws_key ws)) (wsStop orig p rsn m res v)"
  "ws_key v = ws_key ws \<Longrightarrow> keeps (inactive (ws_key ws)) (wsMisconfigured r orig rsn m v)"
  "p \<noteq> WorkspacePhaseActive \<Longrightarrow> ws_key v = ws_key ws \<Longrightarrow> keeps (inactive (ws_key ws)) (wsFinish orig pvc p v)"
  unfolding wsMisconfigured_def wsStop_def wsFinish_def Let_def by (intro kept commit_inactive; simp)+

lemma triple_apiCreate:
  "framed {k} P \<Longrightarrow> triple P (apiCreate k x) (\<lambda>_ c. P c \<and> cl_objects c k = Some x) P"
  unfolding apiCreate_def
  by (rule triple_api) (auto split: option.split intro: framed_put simp: put_def [of k] dest: framed_put [where v = "Some x"])

lemma seedJob_stored:
  assumes "framed {seed_key v} P"
  shows "triple P (ensureSeedJob r v i) (\<lambda>job c. P c \<and> cl_objects c (seed_key v) = Some (OJob job)) P"
proof -
  have quiet: "framed {} (\<lambda>c. P c \<and> cl_objects c (seed_key v) = Some x)" for x
    using assms framed_sub [OF assms, of "{}"] by (intro framed_conj framed_at [of "seed_key v"]) simp_all
  show ?thesis
    unfolding ensureSeedJob_def Let_def
  proof (rule triple_try [OF triple_apiGet [OF assms]])
    fix x show "triple (\<lambda>c. P c \<and> cl_objects c (seed_key v) = Some x \<and> kind_of x = fst (seed_key v)) (ret (the_job x))
      (\<lambda>job c. P c \<and> cl_objects c (seed_key v) = Some (OJob job)) P"
      by (rule triple_ret) (cases x, auto simp: seed_key_def)
  next
    fix e
    let ?d = "(seedJobForWorkspace (wrc_parse r) (wrc_order r) v (wrc_SeedImage r) i)\<lparr> job_Controller := Some (ws_owner v) \<rparr>"
    show "triple P (if is_NotFound e then bnd (apiCreate (seed_key v) (OJob ?d)) (\<lambda>_.
        bnd (emit (Event ''SeedStarted'' (''Started seed job '' @ job_Name ?d))) (\<lambda>_. ret ?d)) else throw e)
      (\<lambda>job c. P c \<and> cl_objects c (seed_key v) = Some (OJob job)) P"
      by (intro vc triple_bnd [OF triple_apiCreate [OF assms]] triple_bnd [OF triple_weaken [OF triple_frame [OF touches_emit quiet]]]) auto
  qed
qed

lemma keeps_then:
  assumes "keeps I m" "\<And>c. I c \<Longrightarrow> R c" "\<And>a. triple I (f a) Q R"
  shows "triple I (bnd m f) Q R"
  using triple_weaken [OF keeps_triple [OF assms(1)], of I "\<lambda>_. I" R] assms(2,3) by (intro triple_bnd) auto

lemma keeps_only: "keeps I m \<Longrightarrow> (\<And>c. I c \<Longrightarrow> R c) \<Longrightarrow> triple I m (\<lambda>_. R) R"
  using triple_weaken [OF keeps_triple [of I m], of I "\<lambda>_. R" R] by auto

lemma seed_activates:
  assumes "copy_of ws v"
  shows "triple (inactive (ws_key ws)) (wsSeed r orig pvc i v) (\<lambda>_. rightly_active ws) (rightly_active ws)"
proof -
  note k = copy_key [OF assms] copy_repos [OF assms]
  have bad: "rightly_active ws c" if "inactive (ws_key ws) c" for c using that by (simp add: rightly_active_def)
  have fr: "framed {seed_key v} (inactive (ws_key ws))"
    by (rule framed_sub [OF framed_inactive]) (simp add: seed_key_def)
  have fin: "triple (\<lambda>c. inactive (ws_key ws) c \<and> cl_objects c (seed_key v) = Some (OJob job))
      (bnd (emitAll es) (\<lambda>_. wsFinish orig pvc p u)) (\<lambda>_. rightly_active ws) (rightly_active ws)"
    if "seedOutcome orig v job = (p, s, rsn, m, es)" "copy_of ws u" for job p s rsn m es u
  proof (cases "p = WorkspacePhaseActive")
    case True
    then have succeeded: "jobPhase job = ''Succeeded''" using that by (auto simp: seedOutcome_def split: if_splits)
    have "touches {ws_key ws} (bnd (emitAll es) (\<lambda>_. wsFinish orig pvc p u))"
      unfolding wsFinish_def Let_def using copy_key [OF that(2)] by (intro touch) simp_all
    then have kept: "triple (\<lambda>c. cl_objects c (seed_key v) = Some (OJob job)) (bnd (emitAll es) (\<lambda>_. wsFinish orig pvc p u))
        (\<lambda>_ c. cl_objects c (seed_key v) = Some (OJob job)) (\<lambda>c. cl_objects c (seed_key v) = Some (OJob job))"
      by (rule triple_frame, intro framed_at) (simp add: seed_key_def ws_key_def)
    show ?thesis
      by (rule triple_weaken [OF kept]) (use succeeded in \<open>auto simp: rightly_active_def seeded_def k\<close>)
  next
    case False
    then have "keeps (inactive (ws_key ws)) (bnd (emitAll es) (\<lambda>_. wsFinish orig pvc p u))"
      using copy_key [OF that(2)] by (intro kept stops_inactive)
    then show ?thesis by (rule triple_weaken [OF keeps_triple]) (auto simp: bad)
  qed
  have stored: "triple (inactive (ws_key ws)) (ensureSeedJob r v i)
      (\<lambda>job c. inactive (ws_key ws) c \<and> cl_objects c (seed_key v) = Some (OJob job)) (rightly_active ws)"
    by (rule triple_weaken [OF seedJob_stored [OF fr]]) (simp_all add: bad)
  have job: "triple (inactive (ws_key ws)) (bnd (ensureSeedJob r v i) (\<lambda>job. bnd getNow (\<lambda>now.
      case seedOutcome orig v job of (p, s, rsn, m, es) \<Rightarrow> bnd (emitAll es) (\<lambda>_. wsFinish orig pvc p
        (setWsCond now ''Seeded'' s rsn m (onWs (\<lambda>st. st\<lparr> wss_SeedJobName := job_Name job \<rparr>) v))))))
      (\<lambda>_. rightly_active ws) (rightly_active ws)"
    by (rule triple_bnd [OF stored], rule triple_any_now) (auto split: prod.split intro!: fin assms)
  show ?thesis
    unfolding wsSeed_def by (rule keeps_then [OF _ bad job]) (intro kept)
qed

text \<open>Along a reconcile a workspace that is not active becomes so with no seed, or with a seed Job that succeeded.\<close>

lemma keeps_wrong: "keeps (inactive (ws_key ws)) m \<Longrightarrow> triple (inactive (ws_key ws)) m (\<lambda>_. rightly_active ws) (rightly_active ws)"
  by (erule keeps_only) (simp add: rightly_active_def)

lemma activates_after:
  assumes "keeps (inactive (ws_key ws)) m" "\<And>a. triple (inactive (ws_key ws)) (f a) (\<lambda>_. rightly_active ws) (rightly_active ws)"
  shows "triple (inactive (ws_key ws)) (bnd m f) (\<lambda>_. rightly_active ws) (rightly_active ws)"
  by (rule keeps_then [OF assms(1) _ assms(2)]) (simp add: rightly_active_def)

lemma active_unseeded: "seed_repos ws = [] \<Longrightarrow> triple P m (\<lambda>_. rightly_active ws) (rightly_active ws)"
  by (auto simp: triple_def rightly_active_def split: sum.split prod.split)

lemma triple_case_option:
  "(x = None \<Longrightarrow> triple P f Q R) \<Longrightarrow> (\<And>a. x = Some a \<Longrightarrow> triple P (g a) Q R) \<Longrightarrow> triple P (case x of None \<Rightarrow> f | Some a \<Rightarrow> g a) Q R"
  by (simp split: option.split)

lemma broker_activates:
  assumes "copy_of ws v"
  shows "triple (inactive (ws_key ws)) (wsBrokerSeed r orig pvc v) (\<lambda>_. rightly_active ws) (rightly_active ws)"
proof -
  note k = copy_key [OF assms]
  have ca: "triple (inactive (ws_key ws)) (wsBrokerCA r orig pvc v) (\<lambda>_. rightly_active ws) (rightly_active ws)"
    unfolding wsBrokerCA_def
    by (intro activates_after kept)
       (auto intro!: keeps_wrong stops_inactive kept seed_activates assms split: sum.split ctl_error.split simp: k)
  have tls: "triple (inactive (ws_key ws)) (wsProxyTLS r orig pvc v) (\<lambda>_. rightly_active ws) (rightly_active ws)"
    unfolding wsProxyTLS_def
    by (intro activates_after kept)
       (auto intro!: keeps_wrong stops_inactive kept ca split: sum.split ctl_error.split simp: k)
  show ?thesis
    unfolding wsBrokerSeed_def
    by (intro triple_if activates_after [OF keeps_side_ops(7)] framed_inactive triple_case_option tls keeps_wrong stops_inactive) (simp_all add: k)
qed

lemma live_activates:
  "triple (inactive (ws_key ws)) (wsLive r ws) (\<lambda>_. rightly_active ws) (rightly_active ws)"
proof -
  let ?T = "\<lambda>m. triple (inactive (ws_key ws)) m (\<lambda>_. rightly_active ws) (rightly_active ws)"
  have seed: "?T (bnd (ensureSeedRBAC v) (\<lambda>_. if brokerSeedRepos v \<noteq> [] then wsBrokerSeed r orig pvc v else wsSeed r orig pvc zeroSeedInputs v))"
    if "copy_of ws v" for v orig pvc
    by (intro activates_after kept triple_if broker_activates seed_activates that)
  have rest: "?T (if seed_repos v = [] then n else case rejectedRepo v of
      Some j \<Rightarrow> wsStop orig WorkspacePhaseFailed rsn (m j) Done v
    | None \<Rightarrow> bnd (ensureSeedRBAC v) (\<lambda>_. if brokerSeedRepos v \<noteq> [] then wsBrokerSeed r orig pvc v else wsSeed r orig pvc zeroSeedInputs v))"
    if "copy_of ws v" for v n orig pvc rsn m
    using copy_repos(1) [OF that] copy_key [OF that]
    by (intro triple_if triple_case_option seed [OF that] keeps_wrong stops_inactive active_unseeded) simp_all
  show ?thesis
    unfolding wsLive_def Let_def
    by (rule activates_after, intro kept, rule triple_any_now, rule rest) simp
qed

lemma dispatch_activates:
  "triple (inactive (ws_key ws)) (wsDispatch r ws) (\<lambda>_. rightly_active ws) (rightly_active ws)"
proof -
  have any: "keeps (inactive (ws_key ws)) (updateWorkspace v)" for v
    by (auto simp: keeps_def updateWorkspace_def api_def Let_def put_def inactive_def split: option.splits object.splits)
  have ending: "keeps (inactive (ws_key ws)) (updateWorkspaceStatus (setWsPhase WorkspacePhaseTerminating ws))"
    by (auto simp: keeps_def updateWorkspaceStatus_def api_def Let_def put_def inactive_def setWsPhase_def onWs_def split: option.splits object.splits)
  have "keeps (inactive (ws_key ws)) (wsReconcileDelete ws)" "keeps (inactive (ws_key ws)) (wsAddFinalizer ws)"
    unfolding wsReconcileDelete_def wsAddFinalizer_def Let_def by (intro kept any ending)+
  then show ?thesis
    unfolding wsDispatch_def by (intro triple_if keeps_wrong live_activates)
qed

section \<open>A seed that waits for a run\<close>

definition brokerRefs :: "Workspace \<Rightarrow> BrokerCredentialReference list" where
  "brokerRefs ws = List.map_filter wgs_BrokerCredentialRef (seed_repos ws)"

text \<open>
  The workspace takes credentials from the Secret of a run, the run uses the workspace. Names of Secrets
  hold no slash.
\<close>

definition waits_for :: "Workspace \<Rightarrow> HarnessRun \<Rightarrow> bool" where
  "waits_for ws run \<longleftrightarrow>
     hrs_WorkspaceRef (hr_Spec run) = ws_Name ws \<and> ws_Name ws \<noteq> [] \<and> hr_Namespace run = ws_Namespace ws
     \<and> (\<exists>ref \<in> set (brokerRefs ws). bcr_Name ref = brokerCredsSecretName (hr_Name run))
     \<and> (\<forall>ref \<in> set (brokerRefs ws). CHR ''/'' \<notin> set (bcr_Name ref))"

definition same_workspace :: "Workspace \<Rightarrow> Workspace \<Rightarrow> bool" where
  "same_workspace ws w \<longleftrightarrow> ws_Name w = ws_Name ws \<and> ws_Namespace w = ws_Namespace ws \<and> ws_Spec w = ws_Spec ws \<and> ws_DeletionTimestamp w = None"

definition awaiting :: "Workspace \<Rightarrow> HarnessRun \<Rightarrow> 's cluster \<Rightarrow> bool" where
  "awaiting ws run c \<longleftrightarrow>
     (\<exists>w. cl_objects c (ws_key ws) = Some (OWorkspace w) \<and> same_workspace ws w \<and> wss_Phase (ws_Status w) \<noteq> WorkspacePhaseActive)
     \<and> (\<exists>q. cl_objects c (run_key run) = Some (ORun q) \<and> hr_Name q = hr_Name run \<and> hr_Namespace q = hr_Namespace run
          \<and> hr_Spec q = hr_Spec run \<and> hr_DeletionTimestamp q = None)
     \<and> cl_objects c (creds_key run) = None"

lemma framed_awaiting: "K \<inter> {ws_key ws, run_key run, creds_key run} = {} \<Longrightarrow> framed K (awaiting ws run)"
  by (auto simp: framed_def awaiting_def unchanged_def)

lemma tag_name:
  "a @ ''/'' @ x = b @ ''/'' @ y \<Longrightarrow> CHR ''/'' \<notin> set a \<Longrightarrow> CHR ''/'' \<notin> set b \<Longrightarrow> a = b"
proof (induction a arbitrary: b)
  case Nil
  then show ?case by (cases b) auto
next
  case (Cons c a)
  then show ?case by (cases b) auto
qed

lemma credsReadyLoop_waits:
  assumes "framed {} P" "\<And>c. P c \<Longrightarrow> cl_objects c (KSecret, ns, nm) = None"
    and "\<forall>ref \<in> set refs. CHR ''/'' \<notin> set (bcr_Name ref)" "\<exists>ref \<in> set refs. bcr_Name ref = nm"
    and "\<forall>tag \<in> set seen. \<exists>a k. tag = a @ ''/'' @ k \<and> CHR ''/'' \<notin> set a \<and> a \<noteq> nm"
  shows "triple P (credsReadyLoop ns seen refs) (\<lambda>m c. P c \<and> m \<noteq> None) P"
  using assms(3-5)
proof (induction refs arbitrary: seen)
  case (Cons ref refs)
  let ?tag = "bcr_Name ref @ ''/'' @ bcr_Key ref"
  have rest: "triple P (credsReadyLoop ns seen' refs) (\<lambda>m c. P c \<and> m \<noteq> None) P"
    if "bcr_Name ref \<noteq> nm" "\<forall>tag \<in> set seen'. \<exists>a k. tag = a @ ''/'' @ k \<and> CHR ''/'' \<notin> set a \<and> a \<noteq> nm" for seen'
    using Cons that by auto
  show ?case
  proof (cases "?tag \<in> set seen")
    case True
    then have "bcr_Name ref \<noteq> nm" using Cons.prems(1,3) tag_name by fastforce
    then show ?thesis using True rest Cons.prems(3) by (simp add: Let_def)
  next
    case False
    have "triple P (bnd (attempt (apiGet (KSecret, ns, bcr_Name ref))) (\<lambda>g. case g of
        Inl e \<Rightarrow> if is_NotFound e then ret (Some ref) else throw (wrap (''reading broker-creds Secret '' @ ns @ ''/'' @ bcr_Name ref) e)
      | Inr x \<Rightarrow> if (case map_of (own_Body (the_secret x)) (bcr_Key ref) of None \<Rightarrow> True | Some v \<Rightarrow> v = []) then ret (Some ref)
                else credsReadyLoop ns (?tag # seen) refs)) (\<lambda>m c. P c \<and> m \<noteq> None) P"
    proof (rule triple_try [OF triple_apiGet [OF assms(1)]])
      fix x
      show "triple (\<lambda>c. P c \<and> cl_objects c (KSecret, ns, bcr_Name ref) = Some x \<and> kind_of x = fst (KSecret, ns, bcr_Name ref))
        (if (case map_of (own_Body (the_secret x)) (bcr_Key ref) of None \<Rightarrow> True | Some v \<Rightarrow> v = []) then ret (Some ref)
         else credsReadyLoop ns (?tag # seen) refs) (\<lambda>m c. P c \<and> m \<noteq> None) P"
      proof (cases "bcr_Name ref = nm")
        case True
        then show ?thesis using assms(2) by (auto simp: triple_def)
      next
        case other: False
        have "triple P (credsReadyLoop ns (?tag # seen) refs) (\<lambda>m c. P c \<and> m \<noteq> None) P"
          using other Cons.prems(1,3) by (intro rest) auto
        then show ?thesis by (intro triple_if triple_ret) (auto elim: triple_pre)
      qed
    next
      fix e show "triple P (if is_NotFound e then ret (Some ref)
          else throw (wrap (''reading broker-creds Secret '' @ ns @ ''/'' @ bcr_Name ref) e)) (\<lambda>m c. P c \<and> m \<noteq> None) P"
        by (intro vc) auto
    qed
    then show ?thesis unfolding credsReadyLoop.simps Let_def if_not_P [OF False] .
  qed
qed simp

lemma brokerRefs_of: "List.map_filter wgs_BrokerCredentialRef (brokerSeedRepos ws) = brokerRefs ws"
proof -
  have "List.map_filter wgs_BrokerCredentialRef (filter (\<lambda>r. wgs_BrokerCredentialRef r \<noteq> None) rs) = List.map_filter wgs_BrokerCredentialRef rs" for rs
    by (induction rs) (auto simp: List.map_filter_def)
  then show ?thesis
    by (simp add: brokerRefs_def brokerSeedRepos_def seed_repos_def List.map_filter_def split: option.split)
qed

lemma awaiting_commit:
  assumes "ws_key v = ws_key ws" "wss_Phase (ws_Status v) \<noteq> WorkspacePhaseActive"
  shows "keeps (awaiting ws run) (wsCommit orig v)"
proof -
  have k: "ws_key ws \<noteq> run_key run" "ws_key ws \<noteq> creds_key run" by (simp_all add: key_defs)
  have "keeps (awaiting ws run) (updateWorkspaceStatus v)"
    unfolding keeps_def
  proof (intro allI impI)
    fix c assume "awaiting ws run c"
    then show "awaiting ws run (snd (updateWorkspaceStatus v c))"
      using assms k
      by (auto simp: updateWorkspaceStatus_def api_def Let_def put_def awaiting_def same_workspace_def split: option.splits)
  qed
  then show ?thesis unfolding wsCommit_def by (intro kept)
qed

lemma awaiting_stop: "ws_key v = ws_key ws \<Longrightarrow> p \<noteq> WorkspacePhaseActive \<Longrightarrow> keeps (awaiting ws run) (wsStop orig p rsn m res v)"
  unfolding wsStop_def by (intro kept awaiting_commit) simp_all

lemma awaiting_side:
  "keeps (awaiting ws run) (ensurePVC v)" "keeps (awaiting ws run) (ensureSeedRBAC v)"
  using keeps_frame [OF touches_ensurePVC [of v "{pvc_key v}"] framed_awaiting [of "{pvc_key v}" ws run]]
    keeps_frame [OF touches_seedRBAC [of v "rbac_of v"] framed_awaiting [of "rbac_of v" ws run]]
  by (simp_all add: key_defs pvc_key_def rbac_of_def)

lemma awaiting_broker:
  assumes "waits_for ws run" "ws_key v = ws_key ws" "ws_Spec v = ws_Spec ws"
  shows "keeps (awaiting ws run) (wsBrokerSeed r orig pvc v)"
proof -
  have ns: "ws_Namespace v = ws_Namespace ws" using assms(2) by (simp add: ws_key_def)
  have refs: "brokerRefs v = brokerRefs ws" using assms(3) by (simp add: brokerRefs_def seed_repos_def)
  have creds: "triple (awaiting ws run) (seedBrokerCredsReady v) (\<lambda>m c. awaiting ws run c \<and> m \<noteq> None) (awaiting ws run)"
    unfolding seedBrokerCredsReady_def brokerRefs_of refs ns
    using assms(1)
    by (intro credsReadyLoop_waits [where nm = "brokerCredsSecretName (hr_Name run)"] framed_awaiting)
       (auto simp: waits_for_def awaiting_def creds_key_def)
  have stop: "triple (awaiting ws run) (wsStop orig p rsn m res v) (\<lambda>_. awaiting ws run) (awaiting ws run)" if "p \<noteq> WorkspacePhaseActive" for p rsn m res
    using that assms(2) by (intro keeps_triple awaiting_stop)
  have "triple (awaiting ws run) (wsBrokerSeed r orig pvc v) (\<lambda>_. awaiting ws run) (awaiting ws run)"
    unfolding wsBrokerSeed_def
    by (intro triple_if stop triple_bnd [OF creds]) (auto split: option.split intro: triple_pre [OF stop])
  then show ?thesis unfolding keeps_iff .
qed

lemma awaiting_live:
  assumes "waits_for ws run" "same_workspace ws w"
  shows "keeps (awaiting ws run) (wsLive r w)"
proof -
  have key: "ws_key w = ws_key ws" and spec: "ws_Spec w = ws_Spec ws" using assms(2) by (simp_all add: same_workspace_def ws_key_def)
  have copies: "seed_repos v \<noteq> []" "brokerSeedRepos v \<noteq> []" if "copy_of w v" for v
  proof -
    have "brokerRefs v \<noteq> []" using assms spec that by (auto simp: waits_for_def brokerRefs_def seed_repos_def copy_of_def)
    then show "seed_repos v \<noteq> []" "brokerSeedRepos v \<noteq> []"
      using brokerRefs_of [of v] by (auto simp: brokerRefs_def List.map_filter_def)
  qed
  have rest: "keeps (awaiting ws run) (if seed_repos v = [] then n else case rejectedRepo v of
      Some j \<Rightarrow> wsStop orig WorkspacePhaseFailed rsn (m j) Done v
    | None \<Rightarrow> bnd (ensureSeedRBAC v) (\<lambda>_. if brokerSeedRepos v \<noteq> [] then wsBrokerSeed r orig pvc v else wsSeed r orig pvc zeroSeedInputs v))"
    if "copy_of w v" for v n orig pvc rsn m
    using copies [OF that] copy_key [OF that] that key spec assms(1)
    by (auto intro!: kept awaiting_stop awaiting_side awaiting_broker simp: copy_of_def)
  show ?thesis
    unfolding wsLive_def Let_def by (intro keeps_bnd awaiting_side keeps_pure rest) simp
qed

text \<open>A reconcile that reads its object first: what it does with the object decides.\<close>

lemma triple_read:
  assumes "framed {} I" "\<And>c x. I c \<Longrightarrow> cl_objects c k = Some x \<Longrightarrow> A x" "\<And>x. A x \<Longrightarrow> triple I (f x) Q R" "\<And>e. triple I (g e) Q R"
  shows "triple I (bnd (attempt (apiGet k)) (\<lambda>x. case x of Inl e \<Rightarrow> g e | Inr x \<Rightarrow> f x)) Q R"
proof (rule triple_try [OF triple_apiGet [OF assms(1)]])
  fix x show "triple (\<lambda>c. I c \<and> cl_objects c k = Some x \<and> kind_of x = fst k) (f x) Q R"
  proof (cases "A x")
    case True
    then show ?thesis by (rule triple_pre [OF assms(3)]) simp
  next
    case False
    then show ?thesis using assms(2) by (auto simp: triple_def)
  qed
qed (rule assms(4))

lemma keeps_read:
  assumes "framed {} I" "\<And>c x. I c \<Longrightarrow> cl_objects c k = Some x \<Longrightarrow> A x" "\<And>x. A x \<Longrightarrow> keeps I (f x)" "\<And>e. keeps I (g e)"
  shows "keeps I (bnd (attempt (apiGet k)) (\<lambda>x. case x of Inl e \<Rightarrow> g e | Inr x \<Rightarrow> f x))"
  using triple_read [of I k A f "\<lambda>_. I" I g] assms unfolding keeps_iff by blast

lemma awaiting_addFinalizer: "same_workspace ws w \<Longrightarrow> keeps (awaiting ws run) (wsAddFinalizer w)"
proof -
  assume w: "same_workspace ws w"
  have "keeps (awaiting ws run) (updateWorkspace (w\<lparr> ws_Finalizers := fs \<rparr>))" for fs
    using w by (auto simp: keeps_def updateWorkspace_def api_def Let_def put_def awaiting_def same_workspace_def key_defs split: option.splits)
  then show ?thesis unfolding wsAddFinalizer_def by (intro kept)
qed

lemma awaiting_dispatch: "waits_for ws run \<Longrightarrow> same_workspace ws w \<Longrightarrow> keeps (awaiting ws run) (wsDispatch r w)"
  unfolding wsDispatch_def by (intro keeps_if awaiting_live awaiting_addFinalizer) (simp_all add: same_workspace_def)

lemma awaiting_ws:
  assumes "waits_for ws run"
  shows "keeps (awaiting ws run) (wsReconcile r (ws_Namespace ws) (ws_Name ws))"
  unfolding wsReconcile_def
proof (rule keeps_read [where A = "\<lambda>x. \<exists>w. x = OWorkspace w \<and> same_workspace ws w"])
  show "framed {} (awaiting ws run)" by (rule framed_awaiting) simp
next
  fix c x assume "awaiting ws run c" "cl_objects c (KWorkspace, ws_Namespace ws, ws_Name ws) = Some x"
  then show "\<exists>w. x = OWorkspace w \<and> same_workspace ws w" by (auto simp: awaiting_def ws_key_def)
next
  fix x assume "\<exists>w. x = OWorkspace w \<and> same_workspace ws w"
  then show "keeps (awaiting ws run) (wsDispatch r (the_workspace x))" using awaiting_dispatch [OF assms] by auto
qed (intro kept)

lemma awaiting_commitStatus:
  assumes "run_key q = run_key run"
  shows "keeps (awaiting ws run) (commitStatus r q orig)"
proof -
  have k: "run_key run \<noteq> ws_key ws" "run_key run \<noteq> creds_key run" by (simp_all add: key_defs)
  have "keeps (awaiting ws run) (updateRunStatus q)"
    using assms k by (auto simp: keeps_def updateRunStatus_def api_def Let_def put_def awaiting_def split: option.splits)
  moreover have "keeps (awaiting ws run) (emitTerminalAudit r q)"
    unfolding emitTerminalAudit_def emits by (rule keeps_frame [OF _ framed_awaiting [of "{}"]], intro touch) simp
  ultimately show ?thesis unfolding commitStatus_def by (intro kept)
qed

lemma awaiting_workspace:
  assumes "waits_for ws run" "same_run q run"
  shows "keeps (awaiting ws run) (reconcileWorkspace r q tpl orig)"
proof -
  have ref: "hrs_WorkspaceRef (hr_Spec q) = ws_Name ws" "ws_Name ws \<noteq> []" "hr_Namespace q = ws_Namespace ws"
    using assms by (auto simp: waits_for_def same_run_def)
  have get: "triple (awaiting ws run) (ensureWorkspace q tpl)
      (\<lambda>w c. awaiting ws run c \<and> (\<exists>v. w = Some v \<and> wss_Phase (ws_Status v) \<noteq> WorkspacePhaseActive)) (awaiting ws run)"
    using ref unfolding ensureWorkspace_def
    by (auto intro!: triple_bnd [OF triple_apiGet [OF framed_awaiting [of "{}"]]] triple_ret simp: awaiting_def ws_key_def)
  have pend: "triple (awaiting ws run) (pendingOn r q v orig rsn m) (\<lambda>_. awaiting ws run) (awaiting ws run)" for v rsn m
    unfolding pendingOn_def commitThen_def using same_run_keys(2) [OF assms(2)]
    by (intro keeps_triple kept awaiting_commitStatus) (simp add: run_key_def onStatus_def setCond_def)
  have "triple (awaiting ws run) (reconcileWorkspace r q tpl orig) (\<lambda>_. awaiting ws run) (awaiting ws run)"
    unfolding reconcileWorkspace_def
    by (rule triple_any_now, rule triple_bnd [OF get], rule triple_given) (auto intro: pend)
  then show ?thesis unfolding keeps_iff .
qed

lemma awaiting_live_run:
  assumes "waits_for ws run" "same_run q run"
  shows "keeps (awaiting ws run) (reconcileLive r q)"
proof -
  have k: "run_key q = run_key run" using assms(2) by (rule same_run_keys)
  show ?thesis
    unfolding reconcileLive_def Let_def
    using assms k
    by (intro kept awaiting_commitStatus awaiting_workspace)
       (auto simp: run_key_def failRun_def completed_def pinNetworkPolicyEnforced_def onStatus_def setCond_def setPhase_def same_run_def)
qed

lemma awaiting_addFinalizer_run:
  assumes "run_key q = run_key run" "hr_DeletionTimestamp q = None"
  shows "keeps (awaiting ws run) (addFinalizer f q)"
proof -
  have k: "run_key run \<noteq> ws_key ws" "run_key run \<noteq> creds_key run" by (simp_all add: key_defs)
  have "run_key (q\<lparr> hr_Finalizers := fs \<rparr>) = run_key run" for fs using assms(1) by (simp add: run_key_def)
  then have "keeps (awaiting ws run) (updateRun (q\<lparr> hr_Finalizers := fs \<rparr>))" for fs
    using k by (auto simp: keeps_def updateRun_def api_def Let_def put_def awaiting_def split: option.splits)
  then show ?thesis unfolding addFinalizer_def by (intro kept)
qed

lemma awaiting_run:
  assumes "waits_for ws run"
  shows "keeps (awaiting ws run) (runReconcile r (hr_Namespace run) (hr_Name run))"
  unfolding runReconcile_def Let_def
proof (rule keeps_read [where A = "\<lambda>x. \<exists>q. x = ORun q \<and> same_run q run \<and> hr_DeletionTimestamp q = None"])
  show frame: "framed {} (awaiting ws run)" by (rule framed_awaiting) simp
  fix c x assume "awaiting ws run c" "cl_objects c (KHarnessRun, hr_Namespace run, hr_Name run) = Some x"
  then show "\<exists>q. x = ORun q \<and> same_run q run \<and> hr_DeletionTimestamp q = None" by (auto simp: awaiting_def run_key_def same_run_def)
next
  fix x assume "\<exists>q. x = ORun q \<and> same_run q run \<and> hr_DeletionTimestamp q = None"
  then obtain q where q: "x = ORun q" "same_run q run" "hr_DeletionTimestamp q = None" by blast
  have "keeps (awaiting ws run) (stillLive q)" by (rule keeps_frame [OF stillLive_silent framed_awaiting]) simp
  then show "keeps (awaiting ws run) (if hr_DeletionTimestamp (the_run x) \<noteq> None then reconcileDelete r (the_run x)
      else if HarnessRunFinalizer \<notin> set (hr_Finalizers (the_run x)) then addFinalizer HarnessRunFinalizer (the_run x)
      else if BrokerLeasesFinalizer \<notin> set (hr_Finalizers (the_run x)) then addFinalizer BrokerLeasesFinalizer (the_run x)
      else bnd (stillLive (the_run x)) (\<lambda>go. if go then reconcileLive r (the_run x) else ret Done))"
    using q same_run_keys(2) [OF q(2)] assms
    by (auto intro!: kept awaiting_addFinalizer_run awaiting_live_run)
qed (intro kept)

section \<open>A pass in a healthy cluster\<close>

definition at_rest :: "Workspace \<Rightarrow> 's cluster \<Rightarrow> bool" where
  "at_rest w c \<longleftrightarrow> healthy c \<and> cl_objects c (ws_key w) = Some (OWorkspace w)"

definition claim_ok :: "Workspace \<Rightarrow> 's cluster \<Rightarrow> bool" where
  "claim_ok w c \<longleftrightarrow> (case cl_objects c (pvc_key w) of None \<Rightarrow> True | Some x \<Rightarrow> \<exists>p. x = OPVC p)"

lemma claim_pass:
  "sure (\<lambda>c. at_rest w c \<and> claim_ok w c) (ensurePVC w) (\<lambda>pvc c. at_rest w c \<and> (\<exists>p. cl_objects c (pvc_key w) = Some (OPVC p)))"
proof -
  have k: "fst (pvc_key w) = KPersistentVolumeClaim" "pvc_key w \<noteq> ws_key w" by (simp_all add: pvc_key_def ws_key_def)
  show ?thesis
    using k
    by (auto simp: triple_def at_rest_def claim_ok_def healthy_def ensurePVC_def Let_def bnd_def attempt_def apiGet_def apiCreate_def api_def
        is_NotFound_def IsNotFound_def put_def emit_def ret_def split: option.splits)
qed

text \<open>What is stored after a commit of a copy: the old object with the new status.\<close>

definition stored_status :: "Workspace \<Rightarrow> WorkspaceStatus \<Rightarrow> 's cluster \<Rightarrow> bool" where
  "stored_status w st c \<longleftrightarrow>
     healthy c \<and> (\<exists>rv. cl_objects c (ws_key w) = Some (OWorkspace (w\<lparr> ws_Status := st, ws_ResourceVersion := rv \<rparr>)))"

lemma commit_pass:
  assumes "copy_of w v" "orig = ws_Status w" "framed {ws_key w} B"
  shows "sure (\<lambda>c. at_rest w c \<and> B c) (wsCommit orig v) (\<lambda>_ c. stored_status w (ws_Status v) c \<and> B c)"
proof (cases "ws_Status v = orig")
  case True
  have "w\<lparr> ws_Status := ws_Status v, ws_ResourceVersion := ws_ResourceVersion w \<rparr> = w" using True assms(2) by simp
  then show ?thesis
    using True unfolding wsCommit_def at_rest_def stored_status_def
    by (auto intro!: triple_ret) (rule exI [of _ "ws_ResourceVersion w"], simp)
next
  case False
  have k: "ws_key v = ws_key w" "ws_ResourceVersion v = ws_ResourceVersion w" using assms(1) copy_key [OF assms(1)] by (auto simp: copy_of_def)
  have B: "B (c\<lparr> cl_calls := n, cl_objects := (cl_objects c)(ws_key w := x) \<rparr>)" if "B c" for c n x
    using framed_put [OF assms(3) framed_calls [OF assms(3) that, of n], of x] by (simp add: put_def)
  have "sure (\<lambda>c. at_rest w c \<and> B c) (updateWorkspaceStatus v) (\<lambda>_ c. stored_status w (ws_Status v) c \<and> B c)"
    using k B
    by (auto simp: triple_def updateWorkspaceStatus_def api_def Let_def at_rest_def healthy_def stored_status_def put_def)
  then show ?thesis
    unfolding wsCommit_def if_not_P [OF False] by (rule triple_try) (auto intro!: triple_ret)
qed

definition active_after :: "Workspace \<Rightarrow> 's cluster \<Rightarrow> bool" where
  "active_after w c \<longleftrightarrow> (\<exists>st. stored_status w st c \<and> wss_Phase st = WorkspacePhaseActive)"

lemma finish_pass:
  assumes "copy_of w v" "orig = ws_Status w" "framed {ws_key w} B"
  shows "sure (\<lambda>c. at_rest w c \<and> B c) (wsFinish orig pvc WorkspacePhaseActive v) (\<lambda>_ c. active_after w c \<and> B c)"
proof -
  have "sure (\<lambda>c. at_rest w c \<and> B c) (wsCommit orig u) (\<lambda>_ c. active_after w c \<and> B c)"
    if "copy_of w u" "wss_Phase (ws_Status u) = WorkspacePhaseActive" for u
    by (rule triple_weaken [OF commit_pass [OF that(1) assms(2,3)]]) (use that(2) in \<open>auto simp: active_after_def\<close>)
  then show ?thesis
    unfolding wsFinish_def Let_def if_P [OF refl] using assms(1)
    by (intro triple_any_now triple_bnd [where Q' = "\<lambda>_ c. active_after w c \<and> B c"] triple_ret) simp_all
qed

definition claimed :: "Workspace \<Rightarrow> 's cluster \<Rightarrow> bool" where
  "claimed w c \<longleftrightarrow> (\<exists>p. cl_objects c (pvc_key w) = Some (OPVC p))"

lemma framed_claimed: "pvc_key w \<notin> K \<Longrightarrow> framed K (claimed w)"
  by (erule framed_at_key) (simp add: claimed_def)

lemma seedless_pass:
  assumes "seed_repos w = []" "ws_DeletionTimestamp w = None" "WorkspaceFinalizer \<in> set (ws_Finalizers w)"
  shows "sure (\<lambda>c. at_rest w c \<and> claim_ok w c) (wsDispatch r w) (\<lambda>_ c. active_after w c \<and> claimed w c)"
proof -
  have B: "framed {ws_key w} (claimed w)" by (rule framed_claimed) (simp add: pvc_key_def ws_key_def)
  have live: "wsDispatch r w = wsLive r w" using assms by (simp add: wsDispatch_def)
  have repos: "seed_repos (pvcCond now pvc (onWs (\<lambda>st. st\<lparr> wss_PVCName := n \<rparr>) w)) = []" for now pvc n
    using assms(1) by (simp add: pvcCond_def setWsCond_def onWs_def seed_repos_def)
  show ?thesis
    unfolding live wsLive_def Let_def repos if_P [OF refl]
    by (rule triple_bnd [OF triple_weaken [OF claim_pass [of w]]], assumption, assumption, assumption,
        rule triple_any_now, fold claimed_def, rule finish_pass [OF _ refl B]) simp
qed

lemma read_workspace:
  assumes "sure (\<lambda>c. at_rest w c \<and> A c) (wsDispatch r w) Q" "framed {} (\<lambda>c. at_rest w c \<and> A c)"
  shows "sure (\<lambda>c. at_rest w c \<and> A c) (wsReconcile r (ws_Namespace w) (ws_Name w)) Q"
proof -
  have "sure (\<lambda>c. at_rest w c \<and> A c) (apiGet (ws_key w)) (\<lambda>x c. (at_rest w c \<and> A c) \<and> cl_objects c (ws_key w) = Some x)"
    using assms(2) by (rule sure_get) (auto simp: at_rest_def ws_key_def)
  then have get: "sure (\<lambda>c. at_rest w c \<and> A c) (apiGet (ws_key w)) (\<lambda>x c. (at_rest w c \<and> A c) \<and> x = OWorkspace w)"
    by (rule triple_weaken) (auto simp: at_rest_def)
  show ?thesis
    unfolding wsReconcile_def ws_key_def [symmetric]
  proof (rule triple_try [OF get])
    fix x show "sure (\<lambda>c. (at_rest w c \<and> A c) \<and> x = OWorkspace w) (wsDispatch r (the_workspace x)) Q"
      using assms(1) by (intro triple_given) simp
  qed simp
qed

text \<open>A pass over a seeded workspace whose Job is there and has succeeded.\<close>

definition policies_of :: "Workspace \<Rightarrow> okey set" where
  "policies_of ws = {seed_np_key ws, seed_cnp_key ws}"

definition with_job :: "Workspace \<Rightarrow> Job \<Rightarrow> 's cluster \<Rightarrow> bool" where
  "with_job w job c \<longleftrightarrow> at_rest w c \<and> cl_objects c (seed_key w) = Some (OJob job)"

lemma framed_with_job: "ws_key w \<notin> K \<Longrightarrow> seed_key w \<notin> K \<Longrightarrow> framed K (with_job w job)"
  by (auto simp: framed_def with_job_def at_rest_def unchanged_def healthy_def)

lemma absent_seedRBAC:
  assumes "framed (rbac_of v) P" "rbac_of v \<inter> S = {}"
  shows "sure (absent P (rbac_of v \<union> S)) (ensureSeedRBAC v) (\<lambda>_. absent P S)"
proof -
  let ?k = "\<lambda>kd. (kd, ws_Namespace v, seedSAName v)"
  have fr: "framed {?k kd} P" if "kd \<in> {KServiceAccount, KRole, KRoleBinding}" for kd
    using assms(1) by (rule framed_sub) (use that in \<open>auto simp: rbac_of_def\<close>)
  have new: "\<exists>x. ownBody own lbls mk prj body None = Inr x" for own lbls mk prj body
    by (simp add: ownBody_def Let_def)
  have step: "sure (absent P (insert (?k kd) S')) (upsert what (?k kd) (ownBody own lbls mk prj body)) (\<lambda>_. absent P S')"
    if "kd \<in> {KServiceAccount, KRole, KRoleBinding}" "?k kd \<notin> S'" for kd S' what own lbls mk prj body
    using new [of own lbls mk prj body] absent_upsert [OF fr [OF that(1)] that(2)] by (blast intro: triple_weaken)
  have keys: "rbac_of v \<union> S = insert (?k KServiceAccount) (insert (?k KRole) (insert (?k KRoleBinding) S))"
    by (auto simp: rbac_of_def)
  show ?thesis
    unfolding ensureSeedRBAC_def Let_def keys using assms(2)
    by (intro triple_bnd [OF step] sure_ret) (auto simp: rbac_of_def)
qed

lemma absent_upsert_only:
  "framed {k} P \<Longrightarrow> f None = Inr x \<Longrightarrow> sure (absent P {k}) (bnd (upsert what k f) (\<lambda>_. ret ())) (\<lambda>_. P)"
  by (rule triple_bnd [OF absent_upsert]) (auto intro!: triple_ret simp: absent_def)

lemma absent_seedPolicy:
  assumes "framed (policies_of v) P"
  shows "sure (absent P (policies_of v)) (ensureSeedNetworkPolicy r v) (\<lambda>_. P)"
proof -
  have fr: "framed {seed_np_key v} P" "framed {seed_cnp_key v} P" using assms by (auto intro: framed_sub simp: policies_of_def)
  have del: "sure (absent P {}) (deleteIfPresent k) (\<lambda>_. absent P {})" if "framed {k} P" for k
    by (rule sure_deleteIfPresent) (auto intro: framed_absent_set that absent_healthy)
  have dels: "sure (absent P {}) (bnd (deleteIfPresent (seed_np_key v)) (\<lambda>_.
      if pbc_CiliumCNPAvailable (wrc_cfg r) then deleteIfPresent (seed_cnp_key v) else ret ())) (\<lambda>_. P)"
    by (intro triple_bnd [OF del [OF fr(1)]] triple_if triple_weaken [OF del [OF fr(2)]] triple_ret) (auto simp: absent_def)
  have np: "sure (absent P {seed_np_key v}) (bnd (upsert what (seed_np_key v) (npMutation own np)) (\<lambda>_. ret ())) (\<lambda>_. P)" for what own np
    by (rule absent_upsert_only [OF fr(1)]) (simp add: npMutation_def)
  have cnp: "sure (absent P {seed_cnp_key v}) (bnd (upsert what (seed_cnp_key v) (cnpMutation own cnp)) (\<lambda>_. ret ())) (\<lambda>_. P)" for what own cnp
    by (rule absent_upsert_only [OF fr(2)]) (simp add: cnpMutation_def)
  show ?thesis
    unfolding ensureSeedNetworkPolicy_def ensureSeedCiliumNetworkPolicy_def
    by (intro triple_if triple_pre [OF dels] triple_pre [OF np] triple_pre [OF cnp]) (auto simp: absent_def policies_of_def)
qed

lemma seedJob_found:
  assumes "seed_key v = seed_key w"
  shows "sure (with_job w job) (ensureSeedJob r v i) (\<lambda>j c. with_job w job c \<and> j = job)"
proof -
  have "framed {} (with_job w job)" by (rule framed_with_job) simp_all
  then have "sure (with_job w job) (apiGet (seed_key w)) (\<lambda>x c. with_job w job c \<and> cl_objects c (seed_key w) = Some x)"
    by (rule sure_get) (auto simp: with_job_def at_rest_def seed_key_def)
  then show ?thesis
    unfolding ensureSeedJob_def Let_def assms by (rule triple_try) (auto intro!: triple_ret simp: with_job_def)
qed

lemma seed_pass:
  assumes "copy_of w v" "jobPhase job = ''Succeeded''"
  shows "sure (absent (with_job w job) (policies_of w)) (wsSeed r (ws_Status w) pvc i v) (\<lambda>_ c. active_after w c \<and> cl_objects c (seed_key w) = Some (OJob job))"
proof -
  have keys: "policies_of v = policies_of w" "seed_key v = seed_key w"
    using assms(1) by (simp_all add: copy_of_def policies_of_def ws_keys seedNetworkPolicyName_def seedJobName_def)
  have pol: "sure (absent (with_job w job) (policies_of w)) (ensureSeedNetworkPolicy r v) (\<lambda>_. with_job w job)"
    unfolding keys(1) [symmetric]
    by (rule absent_seedPolicy, rule framed_with_job) (auto simp: policies_of_def ws_keys ws_key_def)
  have fr: "framed {} (with_job w job)" by (rule framed_with_job) simp_all
  have quiet: "sure (with_job w job) (emitAll es) (\<lambda>_. with_job w job)" for es
    by (induction es) (auto simp: emit_def triple_def bnd_def ret_def with_job_def at_rest_def healthy_def split: sum.splits)
  have fin: "sure (with_job w job) (wsFinish (ws_Status w) pvc WorkspacePhaseActive u) (\<lambda>_ c. active_after w c \<and> cl_objects c (seed_key w) = Some (OJob job))" if "copy_of w u" for u
    unfolding with_job_def by (rule finish_pass [OF that refl], rule framed_at) (simp add: seed_key_def ws_key_def)
  obtain rsn m es where out: "seedOutcome (ws_Status w) v job = (WorkspacePhaseActive, ConditionTrue, rsn, m, es)"
    using assms(2) by (simp add: seedOutcome_def)
  show ?thesis
    unfolding wsSeed_def
  proof (rule triple_bnd [OF pol], rule triple_bnd [OF seedJob_found [OF keys(2)]], rule triple_any_now, rule triple_given)
    fix j now assume "j = job"
    then show "sure (with_job w job) (case seedOutcome (ws_Status w) v j of (p, s, rsn, m, es) \<Rightarrow> bnd (emitAll es) (\<lambda>_.
        wsFinish (ws_Status w) pvc p (setWsCond now ''Seeded'' s rsn m (onWs (\<lambda>st. st\<lparr> wss_SeedJobName := job_Name j \<rparr>) v)))) (\<lambda>_ c. active_after w c \<and> cl_objects c (seed_key w) = Some (OJob job))"
      using assms(1) unfolding \<open>j = job\<close> out prod.case by (intro triple_bnd [OF quiet] fin) simp
  qed
qed

definition seedable :: "Workspace \<Rightarrow> bool" where
  "seedable w \<longleftrightarrow> ws_DeletionTimestamp w = None \<and> WorkspaceFinalizer \<in> set (ws_Finalizers w) \<and> seed_repos w \<noteq> [] \<and> brokerSeedRepos w = []
     \<and> (\<forall>repo \<in> set (seed_repos w). seedRepoSchemeAllowed (wgs_URL repo))"

lemma no_rejection: "\<forall>repo \<in> set (seed_repos w). seedRepoSchemeAllowed (wgs_URL repo) \<Longrightarrow> rejectedRepo w = None"
  by (auto simp: rejectedRepo_def find_None_iff in_set_enumerate_eq)

lemma seeded_pass:
  assumes "seedable w" "jobPhase job = ''Succeeded''"
  shows "sure (\<lambda>c. at_rest w c \<and> (claim_ok w c \<and> absent (with_job w job) (rbac_of w \<union> policies_of w) c)) (wsDispatch r w) (\<lambda>_ c. active_after w c \<and> cl_objects c (seed_key w) = Some (OJob job))"
proof -
  let ?B = "absent (with_job w job) (rbac_of w \<union> policies_of w)"
  have B: "framed {pvc_key w} ?B"
    by (rule framed_absent_set, rule framed_with_job) (auto simp: ws_keys ws_key_def rbac_of_def policies_of_def)
  have claim: "sure (\<lambda>c. at_rest w c \<and> (claim_ok w c \<and> ?B c)) (ensurePVC w) (\<lambda>_. ?B)"
    using triple_both [OF claim_pass [of w] triple_frame [OF touches_ensurePVC B]] by (rule triple_weaken) auto
  have rest: "sure ?B (bnd (ensureSeedRBAC v) (\<lambda>_. wsSeed r (ws_Status w) pvc zeroSeedInputs v)) (\<lambda>_ c. active_after w c \<and> cl_objects c (seed_key w) = Some (OJob job))" if "copy_of w v" for v pvc
  proof (rule triple_bnd)
    show "sure ?B (ensureSeedRBAC v) (\<lambda>_. absent (with_job w job) (policies_of w))"
      unfolding copy_repos(4) [OF that, symmetric]
      by (rule absent_seedRBAC, rule framed_with_job) (auto simp: ws_keys ws_key_def rbac_of_def policies_of_def)
  qed (rule seed_pass [OF that assms(2)])
  have v: "seed_repos v \<noteq> []" "brokerSeedRepos v = []" "rejectedRepo v = None" if "copy_of w v" for v
    using assms(1) copy_repos [OF that] no_rejection [of v] by (simp_all add: seedable_def)
  have live: "wsDispatch r w = wsLive r w" using assms(1) by (simp add: wsDispatch_def seedable_def)
  show ?thesis
    unfolding live wsLive_def Let_def
    by (rule triple_bnd [OF claim], rule triple_any_now, simp add: v, rule rest) simp
qed

lemma reconcile_activates:
  assumes "wss_Phase (ws_Status w) \<noteq> WorkspacePhaseActive"
  shows "triple (stored_at (ws_key w) w) (wsReconcile r (ws_Namespace w) (ws_Name w)) (\<lambda>_. rightly_active w) (rightly_active w)"
proof -
  have weak: "inactive (ws_key w) c" "rightly_active w c" if "stored_at (ws_key w) w c" for c
    using that assms by (simp_all add: stored_at_def inactive_def rightly_active_def)
  show ?thesis
    unfolding wsReconcile_def ws_key_def [symmetric]
  proof (rule triple_read [where A = "\<lambda>x. x = OWorkspace w"])
    show "framed {} (stored_at (ws_key w) w)" by (rule framed_at_key [of "ws_key w"]) (simp_all add: stored_at_def)
  qed (auto intro!: vc triple_pre [OF dispatch_activates] weak simp: stored_at_def)
qed

lemma finalizer_pass:
  assumes "ws_DeletionTimestamp w = None" "WorkspaceFinalizer \<notin> set (ws_Finalizers w)"
  shows "sure (\<lambda>c. at_rest w c \<and> claim_ok w c) (wsDispatch r w)
    (\<lambda>_ c. at_rest (w\<lparr> ws_Finalizers := ws_Finalizers w @ [WorkspaceFinalizer], ws_ResourceVersion := Suc (ws_ResourceVersion w) \<rparr>) c \<and> claim_ok w c)"
  using assms
  by (auto simp: triple_def wsDispatch_def wsAddFinalizer_def bnd_def attempt_def updateWorkspace_def api_def Let_def at_rest_def healthy_def put_def ret_def
      ws_key_def claim_ok_def pvc_key_def)

lemma framed_pass: "framed {} (\<lambda>c. at_rest w c \<and> claim_ok w c)"
  by (auto simp: framed_def unchanged_def at_rest_def claim_ok_def healthy_def ws_key_def pvc_key_def)

end
