(* ===== verification/Workspace_Properties.thy ===== *)
theory Workspace_Properties
  imports Workspace_Facts Controller_Properties
begin

text \<open>
  Properties of workspaces: their binding and their deletion, when they become active, the commands their
  seed pods run, and the seeds that cannot work.
\<close>

section \<open>Bound workspaces\<close>

definition ex_ws :: Workspace where
  "ex_ws = ex_workspace\<lparr> ws_Finalizers := [WorkspaceFinalizer] \<rparr>"

definition ex_wsrec :: wsreconciler where
  "ex_wsrec = \<lparr> wrc_cfg = ex_config, wrc_SeedImage = [], wrc_Audit = True, wrc_order = id, wrc_parse = (\<lambda>_. Inl []) \<rparr>"

definition ex_store :: "okey list \<Rightarrow> object list \<Rightarrow> unit cluster" where
  "ex_store ks xs = ex_cluster () (map_of (zip ks xs))"


definition ex_held :: Workspace where
  "ex_held = onWs (\<lambda>st. st\<lparr> wss_ActiveRunRef := ''r'', wss_TotalRuns := 1 \<rparr>) (ex_ws\<lparr> ws_ResourceVersion := 7, ws_DeletionTimestamp := Some 5 \<rparr>)"


section \<open>Active workspaces\<close>

text \<open>
  C26: a workspace with a seed becomes active only after its seed. If a reconcile turns a workspace that was
  not active into an active one, the workspace declares no repository, or a Job under the name of its seed
  Job is stored and has succeeded.
\<close>

theorem active_after_seed:
  assumes "cl_objects c (ws_key w) = Some (OWorkspace w)" "wss_Phase (ws_Status w) \<noteq> WorkspacePhaseActive"
    and "wsReconcile r (ws_Namespace w) (ws_Name w) c = (x, c')"
    and "cl_objects c' (ws_key w) = Some (OWorkspace w')" "wss_Phase (ws_Status w') = WorkspacePhaseActive" "seed_repos w \<noteq> []"
  shows "\<exists>job. cl_objects c' (seed_key w) = Some (OJob job) \<and> jobPhase job = ''Succeeded''"
proof -
  have "rightly_active w (snd (wsReconcile r (ws_Namespace w) (ws_Name w) c))"
    using triple_same [OF reconcile_activates [OF assms(2)]] assms(1) by (simp add: stored_at_def)
  then show ?thesis using assms(3-6) by (auto simp: rightly_active_def inactive_def seeded_def)
qed

definition ex_seed_repo :: WorkspaceGitSource where
  "ex_seed_repo = \<lparr> wgs_URL = ''https://a.io/x'', wgs_Path = [], wgs_Branch = [], wgs_Depth = 0, wgs_BrokerCredentialRef = None, wgs_CredentialsSecretRef = None \<rparr>"

definition ex_seeding :: Workspace where
  "ex_seeding = setWsPhase WorkspacePhaseSeeding
     (ex_ws\<lparr> ws_Spec := (ws_Spec ex_ws)\<lparr> wsp_Seed := Some \<lparr> wse_Repos = [ex_seed_repo] \<rparr> \<rparr> \<rparr>)"

definition ex_done_job :: "owner \<Rightarrow> Job" where
  "ex_done_job own = (seedJobForWorkspace (\<lambda>_. Inl []) id ex_seeding [] zeroSeedInputs)\<lparr> job_Controller := Some own,
     job_Conditions := [\<lparr> jc_Type = ''Complete'', jc_Status = ConditionTrue \<rparr>] \<rparr>"

lemma ex_seeding_ok: "seedable ex_seeding"
  by (simp add: seedable_def ex_seeding_def setWsPhase_def onWs_def ex_ws_def ex_workspace_def seed_repos_def brokerSeedRepos_def ex_seed_repo_def
      seedRepoSchemeAllowed_def HasPrefix_def)

definition ex_seed_store :: "owner \<Rightarrow> unit cluster" where
  "ex_seed_store own = ex_store [ws_key ex_seeding, seed_key ex_seeding] [OWorkspace ex_seeding, OJob (ex_done_job own)]"

text \<open>A pass from a cluster that holds the workspace and a finished Job under the name of its seed Job.\<close>

lemma job_found_pass:
  assumes "healthy c" "cl_objects c (ws_key w) = Some (OWorkspace w)" "seedable w" "cl_objects c (pvc_key w) = None"
    and "\<forall>k \<in> rbac_of w \<union> policies_of w. cl_objects c k = None"
    and "cl_objects c (seed_key w) = Some (OJob job)" "jobPhase job = ''Succeeded''"
  obtains a c' w' where "wsReconcile r (ws_Namespace w) (ws_Name w) c = (Inr a, c')" "cl_objects c' (ws_key w) = Some (OWorkspace w')"
    "wss_Phase (ws_Status w') = WorkspacePhaseActive" "cl_objects c' (seed_key w) = Some (OJob job)"
proof -
  let ?A = "\<lambda>c. claim_ok w c \<and> absent (with_job w job) (rbac_of w \<union> policies_of w) c"
  have "framed {} (\<lambda>c. at_rest w c \<and> ?A c)"
    by (auto simp: framed_def unchanged_def at_rest_def claim_ok_def healthy_def ws_key_def pvc_key_def seed_key_def absent_def with_job_def)
  from sureD [OF read_workspace [OF seeded_pass [OF assms(3,7)] this, of r], of c]
  obtain a c' where "wsReconcile r (ws_Namespace w) (ws_Name w) c = (Inr a, c')" "active_after w c'" "cl_objects c' (seed_key w) = Some (OJob job)"
    using assms by (auto simp: at_rest_def claim_ok_def absent_def with_job_def)
  then show thesis using that by (auto simp: active_after_def stored_status_def)
qed

lemma ex_seeding_facts:
  "ws_Name ex_seeding = ''w''" "ws_Namespace ex_seeding = ''ns''" "wss_Phase (ws_Status ex_seeding) \<noteq> WorkspacePhaseActive" "seed_repos ex_seeding \<noteq> []"
  by (simp_all add: ex_seeding_def ex_ws_def ex_workspace_def setWsPhase_def onWs_def seed_repos_def)

lemma ex_seed_store_facts:
  "healthy (ex_seed_store own)" "cl_objects (ex_seed_store own) (ws_key ex_seeding) = Some (OWorkspace ex_seeding)"
  "cl_objects (ex_seed_store own) (pvc_key ex_seeding) = None" "\<forall>k \<in> rbac_of ex_seeding \<union> policies_of ex_seeding. cl_objects (ex_seed_store own) k = None"
  "cl_objects (ex_seed_store own) (seed_key ex_seeding) = Some (OJob (ex_done_job own))" "jobPhase (ex_done_job own) = ''Succeeded''"
  by (simp_all add: ex_seed_store_def ex_store_def ex_cluster_def healthy_def ws_key_def ws_keys rbac_of_def policies_of_def ex_done_job_def jobPhase_def)

theorem active_after_seed_witness:
  "\<exists>job. cl_objects (snd (wsReconcile ex_wsrec ''ns'' ''w'' (ex_seed_store (ws_owner ex_seeding)))) (seed_key ex_seeding) = Some (OJob job)
     \<and> jobPhase job = ''Succeeded''"
proof -
  note facts = ex_seed_store_facts [of "ws_owner ex_seeding"]
  obtain a c' w' where pass: "wsReconcile ex_wsrec (ws_Namespace ex_seeding) (ws_Name ex_seeding) (ex_seed_store (ws_owner ex_seeding)) = (Inr a, c')"
    "cl_objects c' (ws_key ex_seeding) = Some (OWorkspace w')" "wss_Phase (ws_Status w') = WorkspacePhaseActive"
    using job_found_pass [OF facts(1,2) ex_seeding_ok facts(3-6)] by blast
  then show ?thesis
    using active_after_seed [OF facts(2) ex_seeding_facts(3) pass ex_seeding_facts(4)] by (simp add: ex_seeding_facts(1,2))
qed

text \<open>
  A workspace without a seed becomes active. In a cluster whose calls succeed, two reconciles of a new
  workspace that declares no repository leave it active, with a claim for its storage.
\<close>

theorem seedless_becomes_active:
  assumes "healthy c" "cl_objects c (ws_key w) = Some (OWorkspace w)" "ws_DeletionTimestamp w = None" "seed_repos w = []"
    and "cl_objects c (pvc_key w) = None"
  shows "case wsReconcile r (ws_Namespace w) (ws_Name w) (snd (wsReconcile r (ws_Namespace w) (ws_Name w) c)) of (x, c') \<Rightarrow>
    (\<exists>w'. cl_objects c' (ws_key w) = Some (OWorkspace w') \<and> wss_Phase (ws_Status w') = WorkspacePhaseActive) \<and> claimed w c'"
proof -
  define like where "like v \<longleftrightarrow> ws_Name v = ws_Name w \<and> ws_Namespace v = ws_Namespace w \<and> ws_Spec v = ws_Spec w \<and> ws_DeletionTimestamp v = None" for v :: Workspace
  have keys: "ws_key v = ws_key w" "pvc_key v = pvc_key w" "seed_repos v = []" if "like v" for v
    using that assms(4) by (simp_all add: like_def ws_key_def pvc_key_def pvcName_def seed_repos_def)
  have pass: "active_after v (snd (wsReconcile r (ws_Namespace w) (ws_Name w) d)) \<and> claimed v (snd (wsReconcile r (ws_Namespace w) (ws_Name w) d))"
    if "at_rest v d" "claim_ok v d" "like v" "WorkspaceFinalizer \<in> set (ws_Finalizers v)" for v and d :: "'a cluster"
    using sureD [OF read_workspace [OF seedless_pass [OF keys(3) [OF that(3)] _ that(4)] framed_pass, of r], of d] that by (auto simp: like_def)
  have start: "at_rest w c" "claim_ok w c" "like w" using assms by (simp_all add: at_rest_def claim_ok_def like_def)
  have claims: "claim_ok v = (claim_ok w :: 'a cluster \<Rightarrow> bool)" if "like v" for v
    by (rule ext) (simp add: claim_ok_def keys(2) [OF that])
  obtain v c1 where v: "snd (wsReconcile r (ws_Namespace w) (ws_Name w) c) = c1" "at_rest v c1" "claim_ok v c1" "like v" "WorkspaceFinalizer \<in> set (ws_Finalizers v)"
  proof (cases "WorkspaceFinalizer \<in> set (ws_Finalizers w)")
    case True
    let ?c1 = "snd (wsReconcile r (ws_Namespace w) (ws_Name w) c)"
    from pass [OF start True] obtain st rv where "healthy ?c1" "claimed w ?c1"
      "cl_objects ?c1 (ws_key w) = Some (OWorkspace (w\<lparr> ws_Status := st, ws_ResourceVersion := rv \<rparr>))"
      by (auto simp: active_after_def stored_status_def)
    moreover have "like (w\<lparr> ws_Status := st, ws_ResourceVersion := rv \<rparr>)" using start(3) by (simp add: like_def)
    ultimately show thesis
      using that [OF refl, of "w\<lparr> ws_Status := st, ws_ResourceVersion := rv \<rparr>"] True keys claims
      by (auto simp: at_rest_def claim_ok_def claimed_def)
  next
    case False
    let ?v = "w\<lparr> ws_Finalizers := ws_Finalizers w @ [WorkspaceFinalizer], ws_ResourceVersion := Suc (ws_ResourceVersion w) \<rparr>"
    have like: "like ?v" using start(3) by (simp add: like_def)
    from sureD [OF read_workspace [OF finalizer_pass [OF assms(3) False] framed_pass, of r], of c] start
    obtain a c1 where "wsReconcile r (ws_Namespace w) (ws_Name w) c = (Inr a, c1)" "at_rest ?v c1" "claim_ok w c1" by auto
    then show thesis using that [of c1 ?v] like claims [OF like] by simp
  qed
  then show ?thesis
    using pass [OF v(2-5)] keys [OF v(4)] by (auto simp: active_after_def stored_status_def claimed_def split: prod.split)
qed

definition ex_new_ws :: Workspace where
  "ex_new_ws = ex_workspace\<lparr> ws_Status := ws_Status (ephemeralWorkspace ex_run) \<rparr>"

theorem seedless_becomes_active_witness:
  "case wsReconcile ex_wsrec ''ns'' ''w'' (snd (wsReconcile ex_wsrec ''ns'' ''w'' (ex_store [ws_key ex_new_ws] [OWorkspace ex_new_ws]))) of (x, c') \<Rightarrow>
     (\<exists>w'. cl_objects c' (ws_key ex_new_ws) = Some (OWorkspace w') \<and> wss_Phase (ws_Status w') = WorkspacePhaseActive) \<and> claimed ex_new_ws c'"
proof -
  let ?c = "ex_store [ws_key ex_new_ws] [OWorkspace ex_new_ws]"
  have "healthy ?c" "cl_objects ?c (ws_key ex_new_ws) = Some (OWorkspace ex_new_ws)" "cl_objects ?c (pvc_key ex_new_ws) = None"
    by (simp_all add: ex_store_def ex_cluster_def healthy_def ws_key_def pvc_key_def)
  moreover have "ws_DeletionTimestamp ex_new_ws = None" "seed_repos ex_new_ws = []" "ws_Name ex_new_ws = ''w''" "ws_Namespace ex_new_ws = ''ns''"
    by (simp_all add: ex_new_ws_def ex_workspace_def seed_repos_def)
  ultimately show ?thesis using seedless_becomes_active [of ?c ex_new_ws ex_wsrec] by simp
qed

text \<open>
  Any Job under the right name counts as the seed. A run whose name is the workspace's followed by
  \<open>-seed\<close> has its Job under the very key of the workspace's seed Job; once that Job has succeeded, one
  reconcile makes the workspace active. The controller starts no Job of its own and no repository was
  cloned. The code takes the existing Job without looking at its owner.
\<close>

theorem foreign_job_counts_as_seed:
  assumes "healthy c" "cl_objects c (ws_key w) = Some (OWorkspace w)" "seedable w" "cl_objects c (pvc_key w) = None"
    and "\<forall>k \<in> rbac_of w \<union> policies_of w. cl_objects c k = None"
    and "hr_Namespace run = ws_Namespace w" "hr_Name run = ws_Name w @ ''-seed''"
    and "cl_objects c (job_key run) = Some (OJob job)" "job_Controller job = Some (run_owner run)" "jobPhase job = ''Succeeded''"
  shows "case wsReconcile r (ws_Namespace w) (ws_Name w) c of (x, c') \<Rightarrow>
    (\<exists>w'. cl_objects c' (ws_key w) = Some (OWorkspace w') \<and> wss_Phase (ws_Status w') = WorkspacePhaseActive) \<and> cl_objects c' (seed_key w) = Some (OJob job)"
proof -
  have "seed_key w = job_key run" using assms(6,7) by (simp add: seed_key_def job_key_def seedJobName_def jobName_def)
  then show ?thesis
    using job_found_pass [OF assms(1-5) _ assms(10), where r = r] assms(8) by fastforce
qed

definition ex_namesake :: HarnessRun where
  "ex_namesake = ex_live_run\<lparr> hr_Name := ''w-seed'' \<rparr>"

theorem foreign_job_counts_as_seed_witness:
  "case wsReconcile ex_wsrec ''ns'' ''w'' (ex_seed_store (run_owner ex_namesake)) of (x, c') \<Rightarrow>
    (\<exists>w'. cl_objects c' (ws_key ex_seeding) = Some (OWorkspace w') \<and> wss_Phase (ws_Status w') = WorkspacePhaseActive)
    \<and> cl_objects c' (seed_key ex_seeding) = Some (OJob (ex_done_job (''HarnessRun'', ''w-seed'')))"
proof -
  note facts = ex_seed_store_facts [of "run_owner ex_namesake"]
  have run: "hr_Namespace ex_namesake = ws_Namespace ex_seeding" "hr_Name ex_namesake = ws_Name ex_seeding @ ''-seed''"
    by (simp_all add: ex_namesake_def ex_live_run_def ex_run_def ex_seeding_facts)
  have key: "job_key ex_namesake = seed_key ex_seeding" using run by (simp add: seed_key_def job_key_def seedJobName_def jobName_def)
  have own: "job_Controller (ex_done_job (run_owner ex_namesake)) = Some (run_owner ex_namesake)" "run_owner ex_namesake = (''HarnessRun'', ''w-seed'')"
    by (simp_all add: ex_done_job_def run_owner_def ex_namesake_def)
  show ?thesis
    using foreign_job_counts_as_seed [OF facts(1,2) ex_seeding_ok facts(3,4) run _ own(1) facts(6), of ex_wsrec] facts(5)
    by (simp add: key ex_seeding_facts(1,2) own(2))
qed

section \<open>Seeds that cannot work\<close>

text \<open>
  What may happen between two looks at the cluster: a reconcile of the workspace, a reconcile of the run, or
  anything else that leaves the workspace, the run and the Secret alone.
\<close>

inductive wait_step :: "wsreconciler \<Rightarrow> 's reconciler \<Rightarrow> Workspace \<Rightarrow> HarnessRun \<Rightarrow> 's cluster \<Rightarrow> 's cluster \<Rightarrow> bool" for wr r ws run where
  Workspace: "wsReconcile wr (ws_Namespace ws) (ws_Name ws) c = (x, c') \<Longrightarrow> wait_step wr r ws run c c'"
| Run: "runReconcile r (hr_Namespace run) (hr_Name run) c = (x, c') \<Longrightarrow> wait_step wr r ws run c c'"
| Rest: "\<forall>k \<in> {ws_key ws, run_key run, creds_key run}. cl_objects c' k = cl_objects c k \<Longrightarrow> wait_step wr r ws run c c'"

lemma awaiting_steps:
  assumes "waits_for ws run" "(wait_step wr r ws run)\<^sup>*\<^sup>* c c'" "awaiting ws run c"
  shows "awaiting ws run c'"
  using assms(2,3)
proof (induction rule: rtranclp_induct)
  case (step d e)
  from step.hyps(2) step.IH [OF step.prems] show ?case
  proof (cases rule: wait_step.cases)
    case Rest
    then show ?thesis using step.IH [OF step.prems] by (simp add: awaiting_def)
  qed (auto dest: keepsD [OF awaiting_ws [OF assms(1)]] keepsD [OF awaiting_run [OF assms(1)]])
qed

text \<open>
  C27: a seed that takes its credentials from the run that uses the workspace never runs. The workspace waits
  for the Secret of the run; the run issues its credentials, and so creates that Secret, only once the
  workspace is active. Whatever the reconciles do in whatever order, with calls failing anywhere, and whatever
  else happens in the cluster, the workspace does not become active and the Secret does not appear.
\<close>

theorem broker_seed_deadlock:
  assumes "waits_for ws run" "awaiting ws run c" "(wait_step wr r ws run)\<^sup>*\<^sup>* c c'"
  shows "cl_objects c' (creds_key run) = None
    \<and> (\<exists>w. cl_objects c' (ws_key ws) = Some (OWorkspace w) \<and> wss_Phase (ws_Status w) \<noteq> WorkspacePhaseActive)"
  using awaiting_steps [OF assms(1,3,2)] by (auto simp: awaiting_def)

definition ex_broker_repo :: WorkspaceGitSource where
  "ex_broker_repo = ex_seed_repo\<lparr> wgs_BrokerCredentialRef := Some \<lparr> bcr_Name = ''r-broker-creds'', bcr_Key = ''c'' \<rparr> \<rparr>"

definition ex_waiting :: Workspace where
  "ex_waiting = ex_seeding\<lparr> ws_Spec := (ws_Spec ex_ws)\<lparr> wsp_Seed := Some \<lparr> wse_Repos = [ex_broker_repo] \<rparr> \<rparr> \<rparr>"

theorem broker_seed_deadlock_witness:
  "cl_objects (snd (runReconcile ex_reconciler ''ns'' ''r'' (snd (wsReconcile ex_wsrec ''ns'' ''w''
       (ex_cluster () (ex_objects ex_live_run ex_waiting)))))) (KSecret, ''ns'', ''r-broker-creds'') = None"
proof -
  let ?c = "ex_cluster () (ex_objects ex_live_run ex_waiting)"
  have names: "ws_Name ex_waiting = ''w''" "ws_Namespace ex_waiting = ''ns''" "hr_Name ex_live_run = ''r''" "hr_Namespace ex_live_run = ''ns''"
    "creds_key ex_live_run = (KSecret, ''ns'', ''r-broker-creds'')"
    by (simp_all add: ex_waiting_def ex_seeding_facts ex_live_run_def ex_run_def creds_key_def brokerCredsSecretName_def)
  have waits: "waits_for ex_waiting ex_live_run"
    by (simp add: waits_for_def names brokerRefs_def seed_repos_def ex_waiting_def ex_broker_repo_def brokerCredsSecretName_def List.map_filter_def)
       (simp add: ex_live_run_def ex_seeding_facts)
  have start: "awaiting ex_waiting ex_live_run ?c"
    by (auto simp: awaiting_def ex_cluster_def ex_objects_def key_defs names brokerCredsSecretName_def same_workspace_def)
       (simp_all add: ex_waiting_def ex_seeding_def ex_ws_def ex_workspace_def setWsPhase_def onWs_def ex_live_run_def ex_run_def)
  have "wait_step ex_wsrec ex_reconciler ex_waiting ex_live_run c (snd (wsReconcile ex_wsrec ''ns'' ''w'' c))"
    "wait_step ex_wsrec ex_reconciler ex_waiting ex_live_run c (snd (runReconcile ex_reconciler ''ns'' ''r'' c))" for c
    using wait_step.Workspace [of ex_wsrec ex_waiting c] wait_step.Run [of ex_reconciler ex_live_run c] names by (metis prod.collapse)+
  then show ?thesis
    using broker_seed_deadlock [OF waits start rtranclp.rtrancl_into_rtrancl [OF r_into_rtranclp]] names(5) by metis
qed

text \<open>
  The proxy of a seed pod does not start. With the arguments that the controller gives it, whatever the
  workspace and the configuration, the proxy's own checks refuse: cooperative mode demands a reason that
  the controller does not pass. No seed through the broker can clone.
\<close>

theorem seed_proxy_never_starts:
  "refuseToStart (parseProxyFlags podNamespace (ctr_Args (buildSeedProxySidecar ws i))) configErr clientErr
    = Some ''--interception-acceptance-reason is required when --mode=cooperative''"
  by (simp add: buildSeedProxySidecar_def seedProxyArgs_def parseProxyFlags_def flag_value_def HasPrefix_def refuseToStart_def)

section \<open>Commands of a seed pod\<close>

lemma SplitByte_append_sep: "SplitByte (xs @ c # ys) c = SplitByte xs c @ SplitByte ys c"
proof (induction xs)
  case (Cons x xs)
  then show ?case by (cases "SplitByte xs c") auto
qed simp

text \<open>
  C28: the shell that clones a repository sees the arguments the controller meant. Whatever characters the
  URL, the branch and the path hold, quotes, blanks, dollar signs and newlines included, the words of the
  clone command are \<open>git\<close> and exactly the arguments that were quoted.
\<close>

theorem clone_command_words:
  "sh_words (''git '' @ Join (quoteArgs (buildCloneArgs repo target)) '' '') = Some (''git'' # buildCloneArgs repo target)"
proof -
  have "buildCloneArgs repo target \<noteq> []" by (simp add: buildCloneArgs_def)
  then show ?thesis
    by (simp add: sh_words_def sh_scan_blank sh_words_quoted push_char_def close_word_def sh_special_def squote_def quote_code)
qed

text \<open>
  The manifest reaches the workspace whole. Its text stands in a here-document; no URL, path or branch
  can end the document early, so the shell delivers the lines of the manifest and nothing else.
\<close>

theorem manifest_delivered:
  "heredoc ''PADDOCK_EOF'' (repoManifestJSON parse repos @ lineFeed @ ''PADDOCK_EOF'') = SplitByte (repoManifestJSON parse repos) (CHR 0x0A)"
proof -
  have delim: "''PADDOCK_EOF'' \<notin> set (SplitByte (repoManifestJSON parse repos) (CHR 0x0A))"
  proof (cases "repos = []")
    case False
    have "\<forall>l \<in> set (entries_lines (map (manifest_entry parse) repos)). manifest_line l"
      using manifest_entry_lines by (intro entries_lines_ok) auto
    then show ?thesis unfolding manifest_lines [OF False] by (auto dest: manifest_line_not_delim)
  qed (simp add: repoManifestJSON_def)
  have "SplitByte (repoManifestJSON parse repos @ lineFeed @ ''PADDOCK_EOF'') (CHR 0x0A)
      = SplitByte (repoManifestJSON parse repos) (CHR 0x0A) @ [''PADDOCK_EOF'']"
    by (simp add: lineFeed_def SplitByte_append_sep)
  then show ?thesis unfolding heredoc_def using delim by (simp add: takeWhile_append)
qed

text \<open>
  A repository URL can be an option of git. A URL that starts with a dash, in the form \<open>user@host:path\<close>,
  passes admission and the controller's own check of schemes, and stands among the arguments of \<open>git clone\<close>
  where git reads options, since nothing marks the end of the options.
\<close>

theorem url_read_as_option:
  assumes "raw = ''--upload-pack='' @ cmd @ ''@h:p''" "CHR ''@'' \<notin> set cmd" "\<not> Contains raw ''://''"
    and "wgs_URL repo = raw" "wgs_BrokerCredentialRef repo = None" "wgs_Branch repo = []" "wgs_Depth repo = 0"
  shows "validateRepoURL w p raw = None \<and> seedRepoSchemeAllowed raw \<and> seedCommand parse repo = ([], [''clone'', raw, seedTarget repo])"
proof -
  define pre where "pre = ''--upload-pack='' @ cmd"
  have raw: "raw = pre @ CHR ''@'' # ''h:p''" and pre: "CHR ''@'' \<notin> set pre" "pre \<noteq> []" "\<not> HasPrefix raw ''ssh://''" "raw \<noteq> []"
    using assms(1,2) by (simp_all add: pre_def HasPrefix_def)
  then have "IndexByte raw CHR ''@'' = Some (length pre)" "drop (length pre + 1) raw = ''h:p''" by (simp_all add: IndexByte_append)
  then have "isSSHURLLocal raw" "isSSHURL raw"
    using assms(3) pre by (simp_all add: isSSHURLLocal_def isSSHURL_def HasPrefix_def)
  then show ?thesis
    using assms(4-7) pre(4) by (simp add: validateRepoURL_def seedRepoSchemeAllowed_def seedCommand_def buildCloneArgs_def Let_def)
qed

definition ex_wenv :: webhook_env where
  "ex_wenv = \<lparr> we_aggregate = (\<lambda>_. []), we_IsDNS1123Subdomain = (\<lambda>_. []), we_urlParse = (\<lambda>_. Inl []) \<rparr>"

theorem url_read_as_option_witness:
  "validateRepoURL ex_wenv [] ''--upload-pack=touch x@h:p'' = None \<and> seedRepoSchemeAllowed ''--upload-pack=touch x@h:p''
    \<and> seedCommand (wrc_parse ex_wsrec) (ex_seed_repo\<lparr> wgs_URL := ''--upload-pack=touch x@h:p'' \<rparr>) = ([], [''clone'', ''--upload-pack=touch x@h:p'', ''/workspace''])"
proof -
  have "seedTarget (ex_seed_repo\<lparr> wgs_URL := u \<rparr>) = ''/workspace''" for u
    by (simp add: ex_seed_repo_def seedTarget_def) code_simp
  then show ?thesis
    using url_read_as_option [of "''--upload-pack=touch x@h:p''" "''touch x''" "ex_seed_repo\<lparr> wgs_URL := ''--upload-pack=touch x@h:p'' \<rparr>" ex_wenv "[]"
        "wrc_parse ex_wsrec"]
    by (simp add: ex_seed_repo_def HasPrefix_def)
qed

end
