(* ===== verification/Broker_Router.thy ===== *)
theory Broker_Router
  imports Broker_Server Proxy_Substitute "HOL-Library.Product_Lexorder"
begin

text \<open>
  What the broker keeps of interactive runs and how it reaches their pods: \<open>internal/broker/router.go\<close>, the
  selection of a pod in \<open>resolveRunPod\<close> (\<open>stream.go\<close>) and in the resolver of \<open>cmd/broker/main.go\<close>. Each method of
  the router holds its mutex from beginning to end, so it is one step on the map. The adapter inside the
  pod is a parameter: what it answers to a request.
\<close>

section \<open>The router's state\<close>

record runState =
  rst_attached :: int
  rst_turnSeq :: int

type_synonym router_state = "(string, runState) gomap"

definition router_key :: "string \<Rightarrow> string \<Rightarrow> string" where
  "router_key ns name = ns @ ''/'' @ name"

definition getLocked :: "router_state \<Rightarrow> string \<Rightarrow> string \<Rightarrow> runState \<times> router_state" where
  "getLocked st ns name =
     (case map_of st (router_key ns name) of
        Some s \<Rightarrow> (s, st)
      | None \<Rightarrow> (let s = \<lparr> rst_attached = 0, rst_turnSeq = 0 \<rparr> in (s, mset_key (router_key ns name) s st)))"

definition OnAttach :: "router_state \<Rightarrow> string \<Rightarrow> string \<Rightarrow> router_state" where
  "OnAttach st ns name =
     (case getLocked st ns name of (s, st') \<Rightarrow>
        mset_key (router_key ns name) (s\<lparr> rst_attached := int32 (rst_attached s + 1) \<rparr>) st')"

definition OnDetach :: "router_state \<Rightarrow> string \<Rightarrow> string \<Rightarrow> router_state" where
  "OnDetach st ns name =
     (case getLocked st ns name of (s, st') \<Rightarrow>
        if rst_attached s > 0
        then mset_key (router_key ns name) (s\<lparr> rst_attached := int32 (rst_attached s - 1) \<rparr>) st'
        else st')"

definition AttachedCount :: "router_state \<Rightarrow> string \<Rightarrow> string \<Rightarrow> int \<times> router_state" where
  "AttachedCount st ns name = (case getLocked st ns name of (s, st') \<Rightarrow> (rst_attached s, st'))"

definition NextTurnSeq :: "router_state \<Rightarrow> string \<Rightarrow> string \<Rightarrow> int \<times> router_state" where
  "NextTurnSeq st ns name =
     (case getLocked st ns name of (s, st') \<Rightarrow>
        let s' = s\<lparr> rst_turnSeq := int32 (rst_turnSeq s + 1) \<rparr>
        in (rst_turnSeq s', mset_key (router_key ns name) s' st'))"

definition ForgetRun :: "router_state \<Rightarrow> string \<Rightarrow> string \<Rightarrow> router_state" where
  "ForgetRun st ns name = mdelete (router_key ns name) st"

section \<open>Forwarding to the adapter\<close>

record adapter_request =
  ar_Method :: string
  ar_URL :: string
  ar_Header :: http_header
  ar_Body :: string

record adapter_response =
  arp_Status :: int
  arp_Header :: http_header
  arp_Body :: string

text \<open>What \<open>http.NewRequest\<close> and \<open>Client.Do\<close> give.\<close>

datatype send_result = BuildError error_msg | SendError error_msg | Answered adapter_response

type_synonym adapter = "adapter_request \<Rightarrow> send_result"
type_synonym adapter_resolver = "string \<Rightarrow> string \<Rightarrow> error_msg + string"

text \<open>What a handler of the interactive endpoints sends back.\<close>

datatype session_response =
    Envelope int string string
  | PlainError int string
  | Relayed adapter_response
  | StatusOnly int
  | Upgraded

fun resp_status :: "session_response \<Rightarrow> int" where
  "resp_status (Envelope s _ _) = s"
| "resp_status (PlainError s _) = s"
| "resp_status (Relayed r) = arp_Status r"
| "resp_status (StatusOnly s) = s"
| "resp_status Upgraded = 101"

text \<open>The headers of the caller's request, less its credentials; \<open>Header.Add\<close> canonicalises the names.\<close>

definition forwardHeaders :: "http_header \<Rightarrow> http_header" where
  "forwardHeaders h =
     map (\<lambda>(k, vs). (CanonicalHeaderKey k, vs))
       (filter (\<lambda>(k, vs). CanonicalHeaderKey k \<noteq> ''Authorization'' \<and> CanonicalHeaderKey k \<noteq> ''Cookie'' \<and> vs \<noteq> []) h)"

text \<open>The answer, and the request that went out, if one did.\<close>

definition forward ::
  "adapter_resolver \<Rightarrow> adapter \<Rightarrow> string \<Rightarrow> http_header \<Rightarrow> string \<Rightarrow> string \<Rightarrow> string \<Rightarrow> string
    \<Rightarrow> session_response \<times> adapter_request option" where
  "forward resolve send meth hdr ns runName path body =
     (case resolve ns runName of
        Inl err \<Rightarrow> (PlainError 502 (''adapter unavailable: '' @ err), None)
      | Inr addr \<Rightarrow>
          (let out = \<lparr> ar_Method = meth, ar_URL = ''http://'' @ addr @ path, ar_Header = forwardHeaders hdr, ar_Body = body \<rparr>
           in case send out of
                BuildError err \<Rightarrow> (PlainError 502 (''building upstream request: '' @ err), None)
              | SendError err \<Rightarrow> (PlainError 502 (''upstream error: '' @ err), Some out)
              | Answered resp \<Rightarrow> (Relayed resp, Some out)))"

section \<open>The pod of a run\<close>

text \<open>Of a pod, what the two selections read; the list is that of the run's namespace and label.\<close>

record pod_view =
  pd_Name :: string
  pd_Deleting :: bool
  pd_Phase :: string
  pd_PodIP :: string
  pd_Created :: time

definition pd_Running :: "pod_view \<Rightarrow> bool" where "pd_Running p \<longleftrightarrow> pd_Phase p = ''Running''"

text \<open>The loop of the resolver in \<open>main\<close>: the better of two pods, then the best of all.\<close>

definition betterPod :: "pod_view \<Rightarrow> pod_view \<Rightarrow> bool" where
  "betterPod p best \<longleftrightarrow>
     (pd_Running p \<and> \<not> pd_Running best) \<or> (pd_Running p = pd_Running best \<and> pd_Created p > pd_Created best)"

definition bestPod :: "pod_view list \<Rightarrow> pod_view option" where
  "bestPod pods =
     foldl (\<lambda>best p.
         if pd_Deleting p \<or> pd_PodIP p = [] then best
         else case best of
                None \<Rightarrow> Some p
              | Some b \<Rightarrow> if betterPod p b then Some p else best) None pods"

definition adapterResolver :: "(string \<Rightarrow> string \<Rightarrow> error_msg + pod_view list) \<Rightarrow> adapter_resolver" where
  "adapterResolver listPods ns runName =
     (case listPods ns runName of
        Inl err \<Rightarrow> Inl (''list pods: '' @ err)
      | Inr pods \<Rightarrow>
          (case bestPod pods of
             None \<Rightarrow> Inl (''no ready pod for run '' @ ns @ ''/'' @ runName)
           | Some best \<Rightarrow> Inr (pd_PodIP best @ '':8431'')))"

text \<open>\<open>sort.SliceStable\<close> on running first, latest first; \<open>sort_key\<close> is the library's stable sort.\<close>

definition pod_rank :: "pod_view \<Rightarrow> bool \<times> int" where
  "pod_rank p = (\<not> pd_Running p, - pd_Created p)"

definition resolveRunPod :: "(string \<Rightarrow> string \<Rightarrow> error_msg + pod_view list) \<Rightarrow> string \<Rightarrow> string \<Rightarrow> error_msg + string" where
  "resolveRunPod listPods ns runName =
     (case listPods ns runName of
        Inl err \<Rightarrow> Inl (''list pods: '' @ err)
      | Inr pods \<Rightarrow>
          (let candidates = filter (\<lambda>p. pd_Name p \<noteq> [] \<and> \<not> pd_Deleting p) pods
           in if candidates = [] then Inl (''no pod for run '' @ ns @ ''/'' @ runName @ '': no ready pod'')
              else Inr (pd_Name (hd (sort_key pod_rank candidates)))))"

section \<open>Lemmas on the router\<close>

text \<open>Names of Kubernetes objects hold no slash, so runs do not share an entry.\<close>

lemma router_key_inj:
  assumes "CHR ''/'' \<notin> set ns" "CHR ''/'' \<notin> set ns'" "router_key ns n = router_key ns' n'"
  shows "ns = ns' \<and> n = n'"
proof -
  have "takeWhile (\<lambda>c. c \<noteq> CHR ''/'') (router_key ns n) = ns" if "CHR ''/'' \<notin> set ns" for ns n
    using that unfolding router_key_def by (induction ns) auto
  then have "ns = ns'" using assms by metis
  then show ?thesis using assms(3) by (simp add: router_key_def)
qed

text \<open>The entry of a run, with the zero value where there is none.\<close>

definition entry_of :: "router_state \<Rightarrow> string \<Rightarrow> runState" where
  "entry_of st k = (case map_of st k of Some s \<Rightarrow> s | None \<Rightarrow> \<lparr> rst_attached = 0, rst_turnSeq = 0 \<rparr>)"

lemma getLocked_entry:
  "fst (getLocked st ns name) = entry_of st (router_key ns name)"
  "entry_of (snd (getLocked st ns name)) = entry_of st"
  by (auto simp: getLocked_def entry_of_def Let_def map_of_mset_key split: option.splits)

lemma entry_of_mset_key: "entry_of (mset_key k s st) = (entry_of st)(k := s)"
  by (auto simp: entry_of_def map_of_mset_key)

lemma entry_of_OnAttach:
  "entry_of (OnAttach st ns name) =
     (entry_of st)(router_key ns name := (entry_of st (router_key ns name))\<lparr> rst_attached := int32 (rst_attached (entry_of st (router_key ns name)) + 1) \<rparr>)"
  using getLocked_entry [of st ns name] by (auto simp: OnAttach_def entry_of_mset_key split: prod.splits)

lemma entry_of_OnDetach:
  "entry_of (OnDetach st ns name) =
     (let s = entry_of st (router_key ns name)
      in if rst_attached s > 0 then (entry_of st)(router_key ns name := s\<lparr> rst_attached := int32 (rst_attached s - 1) \<rparr>)
         else entry_of st)"
  using getLocked_entry [of st ns name] by (auto simp: OnDetach_def entry_of_mset_key Let_def split: prod.splits)

lemma entry_of_NextTurnSeq:
  "fst (NextTurnSeq st ns name) = int32 (rst_turnSeq (entry_of st (router_key ns name)) + 1)"
  "entry_of (snd (NextTurnSeq st ns name)) =
     (entry_of st)(router_key ns name := (entry_of st (router_key ns name))\<lparr> rst_turnSeq := int32 (rst_turnSeq (entry_of st (router_key ns name)) + 1) \<rparr>)"
  using getLocked_entry [of st ns name] by (auto simp: NextTurnSeq_def entry_of_mset_key Let_def split: prod.splits)

lemma entry_of_AttachedCount:
  "fst (AttachedCount st ns name) = rst_attached (entry_of st (router_key ns name))"
  "entry_of (snd (AttachedCount st ns name)) = entry_of st"
  using getLocked_entry [of st ns name] by (auto simp: AttachedCount_def split: prod.splits)

section \<open>Lemmas on forwarding\<close>

lemma forwardHeaders_clean:
  "(k, vs) \<in> set (forwardHeaders h) \<Longrightarrow> k \<noteq> ''Authorization'' \<and> k \<noteq> ''Cookie''"
  by (auto simp: forwardHeaders_def)

lemma forward_out:
  assumes "forward resolve send meth hdr ns runName path body = (resp, Some out)"
  shows "\<exists>addr. resolve ns runName = Inr addr
    \<and> out = \<lparr> ar_Method = meth, ar_URL = ''http://'' @ addr @ path, ar_Header = forwardHeaders hdr, ar_Body = body \<rparr>"
  using assms by (auto simp: forward_def Let_def split: sum.splits send_result.splits)

lemma forward_ok:
  assumes "forward resolve send meth hdr ns runName path body = (resp, out)" "resp_status resp \<noteq> 502"
  shows "\<exists>x r. out = Some x \<and> resp = Relayed r"
  using assms by (auto simp: forward_def Let_def split: sum.splits send_result.splits)

section \<open>Lemmas on the selection of a pod\<close>

lemma betterPod_rank: "betterPod p b \<longleftrightarrow> pod_rank p < pod_rank b"
  by (auto simp: betterPod_def pod_rank_def less_prod_def)

lemma insort_key_ne [simp]: "insort_key f x ys \<noteq> []"
  by (cases ys) auto

lemma hd_insort_key: "hd (insort_key f x ys) = (if ys = [] \<or> f x \<le> f (hd ys) then x else hd ys)"
  by (cases ys) auto

lemma sort_key_ne [simp]: "sort_key f xs = [] \<longleftrightarrow> xs = []"
  by (metis length_0_conv length_sort)

text \<open>The scan that keeps the first best element finds the head of the stable sort.\<close>

lemma scan_hd_sort:
  fixes f :: "'a \<Rightarrow> 'k::linorder"
  shows "foldl (\<lambda>b p. if f p < f b then p else b) x xs = hd (sort_key f (x # xs))"
proof (induction xs arbitrary: x)
  case Nil
  show ?case by simp
next
  case (Cons y ys)
  let ?s = "sort_key f ys"
  have "foldl (\<lambda>b p. if f p < f b then p else b) x (y # ys) = hd (sort_key f ((if f y < f x then y else x) # ys))"
    using Cons.IH by simp
  also have "\<dots> = hd (sort_key f (x # y # ys))"
    by (auto simp: hd_insort_key)
  finally show ?case .
qed

definition selectable :: "pod_view \<Rightarrow> bool" where
  "selectable p \<longleftrightarrow> \<not> pd_Deleting p \<and> pd_PodIP p \<noteq> []"

lemma bestPod_scan:
  "foldl (\<lambda>best p. if pd_Deleting p \<or> pd_PodIP p = [] then best
      else case best of None \<Rightarrow> Some p | Some b \<Rightarrow> if betterPod p b then Some p else best) (Some x) pods
   = Some (foldl (\<lambda>b p. if pod_rank p < pod_rank b then p else b) x (filter selectable pods))"
proof (induction pods arbitrary: x)
  case Nil
  show ?case by simp
next
  case (Cons p pods)
  then show ?case by (cases "selectable p"; cases "betterPod p x") (auto simp: selectable_def betterPod_rank)
qed

lemma bestPod_sort:
  "bestPod pods = (if filter selectable pods = [] then None else Some (hd (sort_key pod_rank (filter selectable pods))))"
proof (induction pods)
  case Nil
  show ?case by (simp add: bestPod_def)
next
  case (Cons p pods)
  show ?case
  proof (cases "selectable p")
    case True
    then have "bestPod (p # pods) = Some (foldl (\<lambda>b p. if pod_rank p < pod_rank b then p else b) p (filter selectable pods))"
      using bestPod_scan [of p pods] by (simp add: bestPod_def selectable_def)
    also have "\<dots> = Some (hd (sort_key pod_rank (filter selectable (p # pods))))"
      using True by (simp only: scan_hd_sort filter.simps if_True)
    finally show ?thesis using True by simp
  next
    case False
    then have "bestPod (p # pods) = bestPod pods" by (simp add: bestPod_def selectable_def)
    then show ?thesis using Cons.IH False by simp
  qed
qed

end
