(* ===== verification/Broker_Sessions.thy ===== *)
theory Broker_Sessions
  imports Broker_Router Audit_Events Controller_Run
begin

text \<open>
  The interactive endpoints of the broker: \<open>internal/broker/interactive.go\<close> (prompts, interrupts, ends and the
  callback at the end of a turn), \<open>renewal.go\<close> (lazy renewal of leases) and \<open>stream.go\<close> (attached streams and
  shells). The statuses of runs live in the API server, which the broker reads through a cache that may lag
  and writes by merge patches. A call to it can fail; which does is part of the environment, and so is what
  other requests do while a handler waits.
\<close>

section \<open>Environment and state\<close>

type_synonym run_store = "string \<times> string \<Rightarrow> HarnessRun option"

record session_state =
  ss_router :: router_state
  ss_runs :: run_store
  ss_provs :: prov_states
  ss_audit :: "AuditEvent list"
  ss_sent :: "adapter_request list"
  ss_execs :: "(string \<times> string \<times> string \<times> string list) list"

text \<open>The calls to the API server, in the order the handlers make them.\<close>

datatype session_call =
    GetRun | PatchLeases | UpdateLeases
  | GetFresh nat | PatchPrompt nat
  | GetTurn nat nat | PatchTurn nat
  | GetAttach bool | PatchAttach bool | UpdateAttach bool

record session_env =
  se_broker :: broker_env
  se_hasAudit :: bool
  se_hasRouter :: bool
  se_renewWindow :: "duration option"
  se_resolve :: adapter_resolver
  se_send :: adapter
  se_fault :: "session_call \<Rightarrow> api_error option"
  se_stale :: "session_call \<Rightarrow> run_store option"
  se_others :: "nat \<Rightarrow> session_state \<Rightarrow> session_state"
  se_polls :: nat
  se_restConfig :: bool
  se_listPods :: "string \<Rightarrow> string \<Rightarrow> error_msg + pod_view list"
  se_sessionID :: string
  se_accepts :: bool
  se_execOk :: bool

abbreviation se_kube :: "session_env \<Rightarrow> kube" where "se_kube e \<equiv> be_kube (se_broker e)"
abbreviation se_now :: "session_env \<Rightarrow> time" where "se_now e \<equiv> be_now (se_broker e)"

text \<open>A read of a run: past the cache, or through it.\<close>

definition lookupRun :: "run_store \<Rightarrow> string \<Rightarrow> string \<Rightarrow> api_error + HarnessRun" where
  "lookupRun runs ns name =
     (case runs (ns, name) of None \<Rightarrow> Inl (NotFound (''harnessruns '' @ fmt_q name @ '' not found'')) | Some run \<Rightarrow> Inr run)"

definition uncachedGet :: "session_env \<Rightarrow> session_state \<Rightarrow> session_call \<Rightarrow> string \<Rightarrow> string \<Rightarrow> api_error + HarnessRun" where
  "uncachedGet e st c ns name = (case se_fault e c of Some err \<Rightarrow> Inl err | None \<Rightarrow> lookupRun (ss_runs st) ns name)"

definition cachedGet :: "session_env \<Rightarrow> session_state \<Rightarrow> session_call \<Rightarrow> string \<Rightarrow> string \<Rightarrow> api_error + HarnessRun" where
  "cachedGet e st c ns name =
     (case se_fault e c of
        Some err \<Rightarrow> Inl err
      | None \<Rightarrow> lookupRun (case se_stale e c of Some old \<Rightarrow> old | None \<Rightarrow> ss_runs st) ns name)"

definition onRun :: "(HarnessRunStatus \<Rightarrow> HarnessRunStatus) \<Rightarrow> HarnessRun \<Rightarrow> HarnessRun" where
  "onRun f run = run\<lparr> hr_Status := f (hr_Status run) \<rparr>"

text \<open>
  A merge patch of \<open>status.interactive\<close> from \<open>base\<close> to \<open>new\<close>, applied to what the server holds: the fields that
  differ are written, the others keep the server's value. The counters are always serialised, so against
  a missing object they are written too. No resource version is sent.
\<close>

definition patched :: "'a option \<Rightarrow> 'a \<Rightarrow> 'a \<Rightarrow> 'a" where
  "patched base new cur = (if base = Some new then cur else new)"

definition mergeInteractive :: "InteractiveStatus option \<Rightarrow> InteractiveStatus \<Rightarrow> InteractiveStatus option \<Rightarrow> InteractiveStatus option" where
  "mergeInteractive base new cur =
     (if base = Some new then cur
      else
        (let c = (case cur of Some c \<Rightarrow> c | None \<Rightarrow> zeroInteractive);
             b = (case base of Some b \<Rightarrow> b | None \<Rightarrow> zeroInteractive)
         in Some
           \<lparr> ist_PromptCount = patched (map_option ist_PromptCount base) (ist_PromptCount new) (ist_PromptCount c),
             ist_LastPromptAt = patched (Some (ist_LastPromptAt b)) (ist_LastPromptAt new) (ist_LastPromptAt c),
             ist_AttachedSessions = patched (map_option ist_AttachedSessions base) (ist_AttachedSessions new) (ist_AttachedSessions c),
             ist_LastAttachedAt = patched (Some (ist_LastAttachedAt b)) (ist_LastAttachedAt new) (ist_LastAttachedAt c),
             ist_IdleSince = patched (Some (ist_IdleSince b)) (ist_IdleSince new) (ist_IdleSince c),
             ist_CurrentTurnSeq = patched (Some (ist_CurrentTurnSeq b)) (ist_CurrentTurnSeq new) (ist_CurrentTurnSeq c),
             ist_RenewalCount = patched (map_option ist_RenewalCount base) (ist_RenewalCount new) (ist_RenewalCount c),
             ist_LastRenewalAt = patched (Some (ist_LastRenewalAt b)) (ist_LastRenewalAt new) (ist_LastRenewalAt c) \<rparr>))"

definition patchStatus ::
  "session_env \<Rightarrow> session_call \<Rightarrow> string \<Rightarrow> string \<Rightarrow> (HarnessRunStatus \<Rightarrow> HarnessRunStatus) \<Rightarrow> session_state \<Rightarrow> api_error option \<times> session_state" where
  "patchStatus e c ns name f st =
     (case se_fault e c of
        Some err \<Rightarrow> (Some err, st)
      | None \<Rightarrow>
          (case ss_runs st (ns, name) of
             None \<Rightarrow> (Some (NotFound (''harnessruns '' @ fmt_q name @ '' not found'')), st)
           | Some cur \<Rightarrow> (None, st\<lparr> ss_runs := (ss_runs st)((ns, name) := Some (onRun f cur)) \<rparr>)))"

definition patchInteractive ::
  "session_env \<Rightarrow> session_call \<Rightarrow> string \<Rightarrow> string \<Rightarrow> InteractiveStatus option \<Rightarrow> InteractiveStatus \<Rightarrow> session_state
    \<Rightarrow> api_error option \<times> session_state" where
  "patchInteractive e c ns name base new =
     patchStatus e c ns name (\<lambda>s. s\<lparr> hrt_Interactive := mergeInteractive base new (hrt_Interactive s) \<rparr>)"

text \<open>An update carries the version of the copy it was made from: any change since is a conflict.\<close>

definition updateStatusOf :: "session_env \<Rightarrow> session_call \<Rightarrow> HarnessRun \<Rightarrow> HarnessRunStatus \<Rightarrow> session_state \<Rightarrow> api_error option \<times> session_state" where
  "updateStatusOf e c run new st =
     (let key = (hr_Namespace run, hr_Name run) in
      case se_fault e c of
        Some err \<Rightarrow> (Some err, st)
      | None \<Rightarrow>
          if ss_runs st key \<noteq> Some run then (Some (Conflict ''the object has been modified''), st)
          else (None, st\<lparr> ss_runs := (ss_runs st)(key := Some (run\<lparr> hr_Status := new \<rparr>)) \<rparr>))"

text \<open>\<open>retry.RetryOnConflict\<close> with \<open>retry.DefaultRetry\<close>: five attempts.\<close>

fun retryOnConflict :: "nat \<Rightarrow> nat \<Rightarrow> (nat \<Rightarrow> 's \<Rightarrow> api_error option \<times> 's) \<Rightarrow> 's \<Rightarrow> api_error option \<times> 's" where
  "retryOnConflict 0 i f s = (None, s)"
| "retryOnConflict (Suc n) i f s =
     (case f i s of
        (None, s') \<Rightarrow> (None, s')
      | (Some err, s') \<Rightarrow> if IsConflict err \<and> n > 0 then retryOnConflict n (Suc i) f s' else (Some err, s'))"

definition emitAudit :: "session_env \<Rightarrow> AuditEvent \<Rightarrow> session_state \<Rightarrow> bool \<times> session_state" where
  "emitAudit e ae st =
     (if be_auditOk (se_broker e) then (True, st\<lparr> ss_audit := ae # ss_audit st \<rparr>) else (False, st))"

text \<open>Events whose loss is only logged.\<close>

definition tryAudit :: "session_env \<Rightarrow> AuditEvent \<Rightarrow> session_state \<Rightarrow> session_state" where
  "tryAudit e ae st = (if se_hasAudit e then snd (emitAudit e ae st) else st)"

section \<open>Who may interact\<close>

datatype 'b decoded = TooLarge | BadBody error_msg | Decoded 'b

record 'b session_request =
  sq_Method :: string
  sq_Header :: http_header
  sq_PathNamespace :: string
  sq_PathName :: string
  sq_Body :: "'b decoded"
  sq_Unread :: string

definition pathRunIdentity :: "'b session_request \<Rightarrow> error_msg + (string \<times> string)" where
  "pathRunIdentity r =
     (if sq_PathNamespace r = [] \<or> sq_PathName r = [] then Inl ''path namespace/name required''
      else Inr (sq_PathNamespace r, sq_PathName r))"

definition sessionCaller :: "session_env \<Rightarrow> 'b session_request \<Rightarrow> error_msg + CallerIdentity" where
  "sessionCaller e r =
     authenticate (be_review (se_broker e))
       \<lparr> rq_Method = sq_Method r, rq_Authorization = header_Get (sq_Header r) ''Authorization'',
         rq_HeaderRun = header_Get (sq_Header r) ''X-Paddock-Run'',
         rq_HeaderNamespace = header_Get (sq_Header r) ''X-Paddock-Run-Namespace'',
         rq_PathNamespace = sq_PathNamespace r, rq_PathName = sq_PathName r, rq_Body = Inr () \<rparr>"

text \<open>The opening every handler of this file shares: caller, path, namespace, run.\<close>

definition runForCaller ::
  "session_env \<Rightarrow> 'b session_request \<Rightarrow> (string \<Rightarrow> string \<Rightarrow> api_error + HarnessRun)
    \<Rightarrow> session_response + (CallerIdentity \<times> string \<times> string \<times> HarnessRun)" where
  "runForCaller e r get =
     (case sessionCaller e r of
        Inl err \<Rightarrow> Inl (Envelope 401 ''Unauthorized'' err)
      | Inr caller \<Rightarrow>
          (case pathRunIdentity r of
             Inl err \<Rightarrow> Inl (Envelope 400 ''BadRequest'' err)
           | Inr (ns, name) \<Rightarrow>
               if \<not> ci_IsController caller \<and> ci_Namespace caller \<noteq> ns
               then Inl (Envelope 403 ''Forbidden'' ''namespace mismatch'')
               else (case get ns name of
                       Inl err \<Rightarrow>
                         if IsNotFound err then Inl (Envelope 404 ''RunNotFound'' ''run not found'')
                         else Inl (Envelope 500 ''ProviderFailure'' (api_Error err))
                     | Inr run \<Rightarrow> Inr (caller, ns, name, run))))"

definition runCapabilities :: "session_env \<Rightarrow> HarnessRun \<Rightarrow> IntersectionResult option" where
  "runCapabilities e run =
     (case ResolveTemplate (be_order (se_broker e)) (se_kube e) (hr_Namespace run) (hr_TemplateRef run) of
        Inl err \<Rightarrow> None
      | Inr (tpl, _) \<Rightarrow>
          (case ListMatchingPolicies (se_kube e) (hr_Namespace run) (tr_Name (hr_TemplateRef run)) of
             Inl err \<Rightarrow> None
           | Inr matching \<Rightarrow> Some (IntersectMatches matching (hts_Requires tpl))))"

definition allowInteract :: "session_env \<Rightarrow> HarnessRun \<Rightarrow> bool" where
  "allowInteract e run = (case runCapabilities e run of None \<Rightarrow> False | Some result \<Rightarrow> ir_RunsInteract result)"

definition allowShell :: "session_env \<Rightarrow> HarnessRun \<Rightarrow> ShellCapability option" where
  "allowShell e run = (case runCapabilities e run of None \<Rightarrow> None | Some result \<Rightarrow> ir_Shell result)"

definition notGranted :: session_response where
  "notGranted = Envelope 403 ''Forbidden'' (''no BrokerPolicy grants runs.interact for this run'' @ [CHR 0x27] @ ''s template'')"

definition noRouter :: session_response where
  "noRouter = Envelope 503 ''NotConfigured'' ''interactive router not configured''"

section \<open>Lazy renewal\<close>

definition renewLease :: "session_env \<Rightarrow> duration \<Rightarrow> string \<Rightarrow> string \<Rightarrow> session_state \<Rightarrow> IssuedLease \<Rightarrow> IssuedLease \<times> session_state" where
  "renewLease e window ns name st lease =
     (case il_ExpiresAt lease of
        None \<Rightarrow> (lease, st)
      | Some t \<Rightarrow>
          if t - se_now e > window then (lease, st)
          else (case LookupProvider (be_registry (se_broker e)) (il_Provider lease) of
                  Some GitHubApp \<Rightarrow>
                    (case githubRenew (be_prov (se_broker e)) (ps_github (ss_provs st)) lease of
                       (res, gh) \<Rightarrow>
                         let st' = st\<lparr> ss_provs := (ss_provs st)\<lparr> ps_github := gh \<rparr> \<rparr> in
                         (case res of
                            Inl err \<Rightarrow>
                              (lease, tryAudit e (NewCredentialRenewalFailed (se_now e)
                                 \<lparr> rfi_RunName = name, rfi_Namespace = ns, rfi_Provider = il_Provider lease,
                                   rfi_LeaseID = il_LeaseID lease, rfi_Error = perr_Error err, rfi_When = 0 \<rparr>) st')
                          | Inr new \<Rightarrow>
                              if IsZero (ir_ExpiresAt new) then (lease, st')
                              else (lease\<lparr> il_ExpiresAt := Some (ir_ExpiresAt new) \<rparr>,
                                    tryAudit e (NewCredentialRenewed (se_now e)
                                      \<lparr> rni_RunName = name, rni_Namespace = ns, rni_Provider = il_Provider lease,
                                        rni_LeaseID = il_LeaseID lease, rni_ExpiresAt = ir_ExpiresAt new, rni_When = 0 \<rparr>) st')))
                | _ \<Rightarrow> (lease, st)))"

fun WalkAndRenew :: "session_env \<Rightarrow> duration \<Rightarrow> string \<Rightarrow> string \<Rightarrow> session_state \<Rightarrow> IssuedLease list \<Rightarrow> IssuedLease list \<times> session_state" where
  "WalkAndRenew e window ns name st [] = ([], st)"
| "WalkAndRenew e window ns name st (l # ls) =
     (case renewLease e window ns name st l of (l', st1) \<Rightarrow>
        case WalkAndRenew e window ns name st1 ls of (ls', st2) \<Rightarrow> (l' # ls', st2))"

definition sameLease :: "IssuedLease \<Rightarrow> IssuedLease \<Rightarrow> bool" where
  "sameLease a b \<longleftrightarrow> il_Provider a = il_Provider b \<and> il_LeaseID a = il_LeaseID b \<and> il_ExpiresAt a = il_ExpiresAt b"

definition equalLeases :: "IssuedLease list \<Rightarrow> IssuedLease list \<Rightarrow> bool" where
  "equalLeases a b \<longleftrightarrow> list_all2 sameLease a b"

definition patchIssuedLeases :: "session_env \<Rightarrow> HarnessRun \<Rightarrow> IssuedLease list \<Rightarrow> session_state \<Rightarrow> session_state" where
  "patchIssuedLeases e run updated st =
     (case patchStatus e PatchLeases (hr_Namespace run) (hr_Name run)
             (\<lambda>s. if updated = hr_IssuedLeases run then s else s\<lparr> hrt_IssuedLeases := updated \<rparr>) st of
        (None, st') \<Rightarrow> st'
      | (Some err, st') \<Rightarrow> snd (updateStatusOf e UpdateLeases run ((hr_Status run)\<lparr> hrt_IssuedLeases := updated \<rparr>) st'))"

definition renewRun :: "session_env \<Rightarrow> HarnessRun \<Rightarrow> string \<Rightarrow> string \<Rightarrow> session_state \<Rightarrow> session_state" where
  "renewRun e run ns name st =
     (case se_renewWindow e of
        None \<Rightarrow> st
      | Some window \<Rightarrow>
          (case WalkAndRenew e window ns name st (hr_IssuedLeases run) of (updated, st') \<Rightarrow>
             if equalLeases updated (hr_IssuedLeases run) then st' else patchIssuedLeases e run updated st'))"

section \<open>Prompts\<close>

text \<open>A prompt that has passed every check: where it goes, its turn, and the body for the adapter.\<close>

record prompt_ticket =
  pt_ns :: string
  pt_name :: string
  pt_seq :: int
  pt_body :: string

definition promptBody :: "string \<Rightarrow> int \<Rightarrow> string \<Rightarrow> string" where
  "promptBody txt seq submitter =
     ''{'' @ json_string ''text'' @ '':'' @ json_string txt @ '','' @ json_string ''seq'' @ '':'' @ fmt_d seq
       @ '','' @ json_string ''submitter'' @ '':'' @ json_string submitter @ ''}''"

definition turnInFlight :: "HarnessRun \<Rightarrow> int option" where
  "turnInFlight run = (case hr_Interactive run of None \<Rightarrow> None | Some i \<Rightarrow> ist_CurrentTurnSeq i)"

text \<open>The checks on the run and the body that touch nothing.\<close>

definition checkPrompt :: "session_env \<Rightarrow> string session_request \<Rightarrow> HarnessRun \<Rightarrow> session_response + string" where
  "checkPrompt e r run =
     (if hr_Mode run \<noteq> HarnessRunModeInteractive then Inl (Envelope 400 ''BadRequest'' ''run is not Interactive mode'')
      else if \<not> allowInteract e run then Inl notGranted
      else if turnInFlight run \<noteq> None then Inl (Envelope 409 ''Conflict'' ''a prompt is already in flight'')
      else case sq_Body r of
        TooLarge \<Rightarrow> Inl (Envelope 400 ''BadRequest'' ''prompt body too large'')
      | BadBody err \<Rightarrow> Inl (Envelope 400 ''BadRequest'' (''decoding body: '' @ err))
      | Decoded txt \<Rightarrow>
          if txt = [] \<or> length txt > MaxInlinePromptBytes
          then Inl (Envelope 400 ''BadRequest'' ''prompt empty or too large'')
          else Inr txt)"

definition submittedEvent :: "session_env \<Rightarrow> CallerIdentity \<Rightarrow> string \<Rightarrow> string \<Rightarrow> string \<Rightarrow> int \<Rightarrow> AuditEvent" where
  "submittedEvent e caller ns name txt seq =
     NewPromptSubmitted (se_now e)
       \<lparr> pai_RunName = name, pai_Namespace = ns, pai_SubmitterSA = ci_ServiceAccount caller,
         pai_PromptHash = ''sha256:'' @ hex_encode (pe_sha256 (be_prov (se_broker e)) txt),
         pai_PromptLength = int (length txt), pai_TurnSeq = seq, pai_When = se_now e \<rparr>"

text \<open>Up to the forward: renewal, the turn's number, and the audit event that has to be written.\<close>

definition promptAdmit ::
  "session_env \<Rightarrow> string session_request \<Rightarrow> session_state \<Rightarrow> (session_response + prompt_ticket) \<times> session_state" where
  "promptAdmit e r st =
     (case runForCaller e r (cachedGet e st GetRun) of
        Inl resp \<Rightarrow> (Inl resp, st)
      | Inr (caller, ns, name, run) \<Rightarrow>
          (case checkPrompt e r run of
             Inl resp \<Rightarrow> (Inl resp, st)
           | Inr txt \<Rightarrow>
               (let st1 = renewRun e run ns name st in
                if \<not> se_hasRouter e then (Inl noRouter, st1)
                else (case NextTurnSeq (ss_router st1) ns name of (seq, rt) \<Rightarrow>
                        let st2 = st1\<lparr> ss_router := rt \<rparr>;
                            ticket = \<lparr> pt_ns = ns, pt_name = name, pt_seq = seq, pt_body = promptBody txt seq (ci_ServiceAccount caller) \<rparr>
                        in if \<not> se_hasAudit e then (Inr ticket, st2)
                           else (case emitAudit e (submittedEvent e caller ns name txt seq) st2 of (ok, st3) \<Rightarrow>
                                   if ok then (Inr ticket, st3)
                                   else (Inl (Envelope 503 ''AuditUnavailable'' ''paddock-broker: audit unavailable, please retry''), st3))))))"

definition sendOn ::
  "session_env \<Rightarrow> 'b session_request \<Rightarrow> string \<Rightarrow> string \<Rightarrow> string \<Rightarrow> string \<Rightarrow> session_state \<Rightarrow> session_response \<times> session_state" where
  "sendOn e r ns name path body st =
     (case forward (se_resolve e) (se_send e) (sq_Method r) (sq_Header r) ns name path body of (resp, out) \<Rightarrow>
        (resp, case out of None \<Rightarrow> st | Some q \<Rightarrow> st\<lparr> ss_sent := q # ss_sent st \<rparr>))"

definition promptForward :: "session_env \<Rightarrow> string session_request \<Rightarrow> prompt_ticket \<Rightarrow> session_state \<Rightarrow> session_response \<times> session_state" where
  "promptForward e r t = sendOn e r (pt_ns t) (pt_name t) ''/prompts'' (pt_body t)"

text \<open>After an answer of success the turn is put into the status, from a copy read through the cache.\<close>

definition promptStatus :: "time \<Rightarrow> int \<Rightarrow> InteractiveStatus option \<Rightarrow> InteractiveStatus" where
  "promptStatus now seq base =
     (let i = (case base of Some i \<Rightarrow> i | None \<Rightarrow> zeroInteractive)
      in i\<lparr> ist_PromptCount := int32 (ist_PromptCount i + 1), ist_LastPromptAt := Some now,
            ist_CurrentTurnSeq := Some seq, ist_IdleSince := None \<rparr>)"

definition promptRecord :: "session_env \<Rightarrow> prompt_ticket \<Rightarrow> session_state \<Rightarrow> session_state" where
  "promptRecord e t st =
     snd (retryOnConflict 5 0
       (\<lambda>i s. case cachedGet e s (GetFresh i) (pt_ns t) (pt_name t) of
                Inl err \<Rightarrow> (Some err, s)
              | Inr fresh \<Rightarrow>
                  patchInteractive e (PatchPrompt i) (pt_ns t) (pt_name t) (hr_Interactive fresh)
                    (promptStatus (se_now e) (pt_seq t) (hr_Interactive fresh)) s) st)"

definition handlePrompts :: "session_env \<Rightarrow> string session_request \<Rightarrow> session_state \<Rightarrow> session_response \<times> session_state" where
  "handlePrompts e r st =
     (case promptAdmit e r st of
        (Inl resp, st1) \<Rightarrow> (resp, st1)
      | (Inr t, st1) \<Rightarrow>
          (case promptForward e r t st1 of (resp, st2) \<Rightarrow>
             if resp_status resp < 200 \<or> resp_status resp \<ge> 300 then (resp, st2)
             else (resp, promptRecord e t st2)))"

section \<open>Interrupts and ends\<close>

definition handleInterrupt :: "session_env \<Rightarrow> unit session_request \<Rightarrow> session_state \<Rightarrow> session_response \<times> session_state" where
  "handleInterrupt e r st =
     (case runForCaller e r (cachedGet e st GetRun) of
        Inl resp \<Rightarrow> (resp, st)
      | Inr (caller, ns, name, run) \<Rightarrow>
          if \<not> allowInteract e run then (notGranted, st)
          else if \<not> se_hasRouter e then (noRouter, st)
          else sendOn e r ns name ''/interrupt'' (sq_Unread r) st)"

text \<open>
  \<open>sanitizeReason\<close> goes over the runes of a string: a byte and the continuation bytes after it. The string
  comes from the JSON decoder and is valid UTF-8.
\<close>

definition maxReasonBytes :: nat where "maxReasonBytes = 256"

definition isContinuation :: "char \<Rightarrow> bool" where
  "isContinuation c = (let n = (of_char c :: nat) in 128 \<le> n \<and> n < 192)"

definition isControl :: "string \<Rightarrow> bool" where
  "isControl rune =
     (case rune of
        [c] \<Rightarrow> (let n = (of_char c :: nat) in n < 32 \<or> n = 127)
      | [c, d] \<Rightarrow> (of_char c :: nat) = 194 \<and> (of_char d :: nat) < 160
      | _ \<Rightarrow> False)"

function sanitizeLoop :: "string \<Rightarrow> string \<Rightarrow> string" where
  "sanitizeLoop acc [] = acc"
| "sanitizeLoop acc (c # cs) =
     (if length acc \<ge> maxReasonBytes then acc
      else (let rune = c # takeWhile isContinuation cs; rest = dropWhile isContinuation cs
            in sanitizeLoop (acc @ (if isControl rune then '' '' else rune)) rest))"
  by pat_completeness auto
termination
  by (relation "measure (\<lambda>(acc, s). length s)") (auto simp: le_imp_less_Suc length_dropWhile_le)

definition sanitizeReason :: "string \<Rightarrow> string" where
  "sanitizeReason s = (if TrimSpace s = [] then [] else TrimSpace (sanitizeLoop [] (TrimSpace s)))"

text \<open>The body of an end is optional; \<open>sq_Unread\<close> is what the decoder has left of it.\<close>

definition endReason :: "string session_request \<Rightarrow> string" where
  "endReason r =
     (let cleaned = sanitizeReason (case sq_Body r of Decoded reason \<Rightarrow> reason | _ \<Rightarrow> [])
      in if cleaned \<noteq> [] then cleaned else ''explicit'')"

definition handleEnd :: "session_env \<Rightarrow> string session_request \<Rightarrow> session_state \<Rightarrow> session_response \<times> session_state" where
  "handleEnd e r st =
     (case runForCaller e r (cachedGet e st GetRun) of
        Inl resp \<Rightarrow> (resp, st)
      | Inr (caller, ns, name, run) \<Rightarrow>
          if \<not> allowInteract e run then (notGranted, st)
          else if \<not> se_hasRouter e then (noRouter, st)
          else (case sendOn e r ns name ''/end'' (sq_Unread r) st of (resp, st1) \<Rightarrow>
                  if resp_status resp < 200 \<or> resp_status resp \<ge> 300 then (resp, st1)
                  else (resp, tryAudit e (NewInteractiveRunTerminated (se_now e)
                          \<lparr> iti_RunName = name, iti_Namespace = ns, iti_Reason = endReason r,
                            iti_Decision = AuditDecisionGranted, iti_When = se_now e \<rparr>) st1)))"

section \<open>The end of a turn\<close>

text \<open>
  The loop that waits for a turn to appear: between two reads other requests go on. \<open>se_polls\<close> is how many
  further reads fit before the deadline.
\<close>

fun pollTurn ::
  "session_env \<Rightarrow> nat \<Rightarrow> string \<Rightarrow> string \<Rightarrow> nat \<Rightarrow> nat \<Rightarrow> session_state \<Rightarrow> (api_error + HarnessRun) \<times> session_state" where
  "pollTurn e a ns name j 0 st = (uncachedGet e st (GetTurn a j) ns name, st)"
| "pollTurn e a ns name j (Suc n) st =
     (case uncachedGet e st (GetTurn a j) ns name of
        Inl err \<Rightarrow> (Inl err, st)
      | Inr fresh \<Rightarrow>
          if turnInFlight fresh \<noteq> None then (Inr fresh, st)
          else pollTurn e a ns name (Suc j) n (se_others e j st))"

text \<open>One attempt; the second component is the variable \<open>completedSeq\<close>.\<close>

definition completeTurn :: "session_env \<Rightarrow> string \<Rightarrow> string \<Rightarrow> nat \<Rightarrow> session_state \<times> int option \<Rightarrow> api_error option \<times> session_state \<times> int option" where
  "completeTurn e ns name a s =
     (case s of (st, before) \<Rightarrow>
        (case pollTurn e a ns name 0 (se_polls e) st of
           (Inl err, st1) \<Rightarrow> (Some err, st1, before)
         | (Inr fresh, st1) \<Rightarrow>
             (case (hr_Interactive fresh, turnInFlight fresh) of
                (Some i, Some seq) \<Rightarrow>
                  (case patchInteractive e (PatchTurn a) ns name (Some i)
                          (i\<lparr> ist_CurrentTurnSeq := None, ist_IdleSince := Some (se_now e) \<rparr>) st1 of
                     (err, st2) \<Rightarrow> (err, st2, Some seq))
              | _ \<Rightarrow> (None, st1, None))))"

definition completedEvent :: "session_env \<Rightarrow> string \<Rightarrow> string \<Rightarrow> int \<Rightarrow> AuditEvent" where
  "completedEvent e ns name seq =
     NewPromptCompleted (se_now e)
       \<lparr> pci_RunName = name, pci_Namespace = ns, pci_TurnSeq = seq, pci_DurationMs = 0, pci_EventCount = 0,
         pci_Outcome = ''ok'', pci_When = se_now e \<rparr>"

definition handleTurnComplete :: "session_env \<Rightarrow> unit session_request \<Rightarrow> session_state \<Rightarrow> session_response \<times> session_state" where
  "handleTurnComplete e r st =
     (case runForCaller e r (uncachedGet e st GetRun) of
        Inl resp \<Rightarrow> (resp, st)
      | Inr (caller, ns, name, run) \<Rightarrow>
          if \<not> allowInteract e run then (notGranted, st)
          else (case retryOnConflict 5 0 (completeTurn e ns name) (st, None) of
                  (Some err, st1, _) \<Rightarrow> (Envelope 500 ''ProviderFailure'' (api_Error err), st1)
                | (None, st1, None) \<Rightarrow> (StatusOnly 202, st1)
                | (None, st1, Some seq) \<Rightarrow> (StatusOnly 202, tryAudit e (completedEvent e ns name seq) st1)))"

section \<open>Streams\<close>

definition attachStatus :: "time \<Rightarrow> bool \<Rightarrow> int \<Rightarrow> InteractiveStatus option \<Rightarrow> InteractiveStatus" where
  "attachStatus now attached n base =
     (let i = (case base of Some i \<Rightarrow> i | None \<Rightarrow> zeroInteractive)\<lparr> ist_AttachedSessions := n \<rparr>
      in if attached then i\<lparr> ist_LastAttachedAt := Some now \<rparr> else i)"

definition patchAttachStatus :: "session_env \<Rightarrow> string \<Rightarrow> string \<Rightarrow> bool \<Rightarrow> session_state \<Rightarrow> session_state" where
  "patchAttachStatus e ns name attached st =
     (case cachedGet e st (GetAttach attached) ns name of
        Inl err \<Rightarrow> st
      | Inr run \<Rightarrow>
          (case AttachedCount (ss_router st) ns name of (n, rt) \<Rightarrow>
             let st1 = st\<lparr> ss_router := rt \<rparr>; new = attachStatus (se_now e) attached n (hr_Interactive run)
             in case patchInteractive e (PatchAttach attached) ns name (hr_Interactive run) new st1 of
                  (None, st2) \<Rightarrow> st2
                | (Some err, st2) \<Rightarrow>
                    snd (updateStatusOf e (UpdateAttach attached) run ((hr_Status run)\<lparr> hrt_Interactive := Some new \<rparr>) st2)))"

definition streamAdmit :: "session_env \<Rightarrow> unit session_request \<Rightarrow> session_state \<Rightarrow> session_response + (string \<times> string \<times> string)" where
  "streamAdmit e r st =
     (case runForCaller e r (cachedGet e st GetRun) of
        Inl resp \<Rightarrow> Inl resp
      | Inr (caller, ns, name, run) \<Rightarrow>
          if \<not> allowInteract e run then Inl notGranted
          else if \<not> se_hasRouter e then Inl noRouter
          else (case se_resolve e ns name of
                  Inl err \<Rightarrow> Inl (Envelope 502 ''ProviderFailure'' (''resolve adapter: '' @ err))
                | Inr addr \<Rightarrow> Inr (ns, name, addr)))"

definition streamOpen :: "session_env \<Rightarrow> string \<Rightarrow> string \<Rightarrow> session_state \<Rightarrow> session_state" where
  "streamOpen e ns name st = patchAttachStatus e ns name True (st\<lparr> ss_router := OnAttach (ss_router st) ns name \<rparr>)"

definition streamClose :: "session_env \<Rightarrow> string \<Rightarrow> string \<Rightarrow> session_state \<Rightarrow> session_state" where
  "streamClose e ns name st = patchAttachStatus e ns name False (st\<lparr> ss_router := OnDetach (ss_router st) ns name \<rparr>)"

text \<open>
  \<open>during\<close> is what happens while the stream is open: frames, and other requests. A dial of the adapter that
  fails only makes it short. When the upgrade is refused the library has answered.
\<close>

definition handleStream ::
  "session_env \<Rightarrow> unit session_request \<Rightarrow> (session_state \<Rightarrow> session_state) \<Rightarrow> session_state \<Rightarrow> session_response \<times> session_state" where
  "handleStream e r during st =
     (case streamAdmit e r st of
        Inl resp \<Rightarrow> (resp, st)
      | Inr (ns, name, addr) \<Rightarrow>
          if \<not> se_accepts e then (StatusOnly 400, st)
          else (Upgraded, streamClose e ns name (during (streamOpen e ns name st))))"

section \<open>Shells\<close>

definition shellPhases :: "HarnessRunPhase list" where
  "shellPhases = [PhaseRunning, PhaseIdle, PhaseSucceeded, PhaseFailed, PhaseCancelled]"

definition shellPhaseAllowed :: "ShellCapability \<Rightarrow> HarnessRunPhase \<Rightarrow> bool" where
  "shellPhaseAllowed cap phase =
     (if sc_AllowedPhases cap = [] then phase \<in> set shellPhases else phase \<in> set (sc_AllowedPhases cap))"

record shell_session =
  sh_ns :: string
  sh_name :: string
  sh_pod :: string
  sh_container :: string
  sh_command :: "string list"
  sh_target :: string
  sh_submitter :: string

definition shellAdmit :: "session_env \<Rightarrow> unit session_request \<Rightarrow> session_state \<Rightarrow> session_response + shell_session" where
  "shellAdmit e r st =
     (case runForCaller e r (cachedGet e st GetRun) of
        Inl resp \<Rightarrow> Inl resp
      | Inr (caller, ns, name, run) \<Rightarrow>
          (case allowShell e run of
             None \<Rightarrow> Inl (Envelope 403 ''Forbidden'' (''no BrokerPolicy grants runs.shell for this run'' @ [CHR 0x27] @ ''s template''))
           | Some cap \<Rightarrow>
               if \<not> shellPhaseAllowed cap (hr_Phase run)
               then Inl (Envelope 400 ''BadRequest'' (''shell not allowed in phase '' @ phaseString (hr_Phase run)))
               else if \<not> se_restConfig e then Inl (Envelope 503 ''NotConfigured'' ''broker rest config not configured'')
               else (case resolveRunPod (se_listPods e) ns name of
                       Inl err \<Rightarrow> Inl (Envelope 404 ''RunNotFound'' err)
                     | Inr pod \<Rightarrow>
                         Inr \<lparr> sh_ns = ns, sh_name = name, sh_pod = pod,
                               sh_container = (if sc_Target cap = ''runtime'' then ''runtime'' else ''agent''),
                               sh_command = (if sc_Command cap = [] then [''/bin/bash''] else sc_Command cap),
                               sh_target = sc_Target cap, sh_submitter = ci_ServiceAccount caller \<rparr>)))"

definition shellOpened :: "session_env \<Rightarrow> shell_session \<Rightarrow> AuditEvent" where
  "shellOpened e s =
     NewShellSessionOpened (se_now e)
       \<lparr> soi_RunName = sh_name s, soi_Namespace = sh_ns s, soi_SessionID = se_sessionID e, soi_SubmitterSA = sh_submitter s,
         soi_Target = sh_target s, soi_Command = sh_command s, soi_When = se_now e \<rparr>"

definition shellClosed :: "session_env \<Rightarrow> shell_session \<Rightarrow> int \<Rightarrow> int \<Rightarrow> AuditEvent" where
  "shellClosed e s ms bytes =
     NewShellSessionClosed (se_now e)
       \<lparr> sci_RunName = sh_name s, sci_Namespace = sh_ns s, sci_SessionID = se_sessionID e, sci_DurationMs = ms,
         sci_ByteCount = bytes, sci_When = se_now e \<rparr>"

text \<open>\<open>during\<close> is the session: its effect on the rest of the state, its length and the bytes it moved.\<close>

definition handleShell ::
  "session_env \<Rightarrow> unit session_request \<Rightarrow> (session_state \<Rightarrow> session_state) \<Rightarrow> int \<Rightarrow> int \<Rightarrow> session_state
    \<Rightarrow> session_response \<times> session_state" where
  "handleShell e r during ms bytes st =
     (case shellAdmit e r st of
        Inl resp \<Rightarrow> (resp, st)
      | Inr s \<Rightarrow>
          if \<not> se_accepts e then (StatusOnly 400, st)
          else (let st1 = tryAudit e (shellOpened e s) st;
                    st2 = (if se_execOk e
                           then during (st1\<lparr> ss_execs := (sh_ns s, sh_pod s, sh_container s, sh_command s) # ss_execs st1 \<rparr>)
                           else st1)
                in (Upgraded, tryAudit e (shellClosed e s ms bytes) st2)))"

end
