(* ===== verification/Session_Facts.thy ===== *)
theory Session_Facts
  imports Broker_Sessions
begin

text \<open>
  What the parts of the session handlers leave alone, when a prompt is admitted, and what a patch does to the
  status of a run.
\<close>

section \<open>What is kept\<close>

lemma patchStatus_keeps [simp]:
  "ss_sent (snd (patchStatus e c ns name f st)) = ss_sent st"
  "ss_audit (snd (patchStatus e c ns name f st)) = ss_audit st"
  "ss_router (snd (patchStatus e c ns name f st)) = ss_router st"
  "ss_execs (snd (patchStatus e c ns name f st)) = ss_execs st"
  by (simp_all add: patchStatus_def split: option.split)

lemma updateStatusOf_keeps [simp]:
  "ss_sent (snd (updateStatusOf e c run new st)) = ss_sent st"
  "ss_audit (snd (updateStatusOf e c run new st)) = ss_audit st"
  "ss_router (snd (updateStatusOf e c run new st)) = ss_router st"
  by (simp_all add: updateStatusOf_def Let_def split: option.split)

lemma emitAudit_keeps [simp]:
  "ss_sent (snd (emitAudit e ae st)) = ss_sent st"
  "ss_router (snd (emitAudit e ae st)) = ss_router st"
  "ss_runs (snd (emitAudit e ae st)) = ss_runs st"
  "ss_execs (snd (emitAudit e ae st)) = ss_execs st"
  by (simp_all add: emitAudit_def)

lemma tryAudit_keeps [simp]:
  "ss_sent (tryAudit e ae st) = ss_sent st"
  "ss_router (tryAudit e ae st) = ss_router st"
  "ss_runs (tryAudit e ae st) = ss_runs st"
  "ss_execs (tryAudit e ae st) = ss_execs st"
  by (simp_all add: tryAudit_def)

lemma tryAudit_grows: "set (ss_audit st) \<subseteq> set (ss_audit (tryAudit e ae st))"
  by (auto simp: tryAudit_def emitAudit_def)

lemma renewLease_keeps [simp]:
  "ss_sent (snd (renewLease e w ns name st l)) = ss_sent st"
  "ss_router (snd (renewLease e w ns name st l)) = ss_router st"
  "ss_runs (snd (renewLease e w ns name st l)) = ss_runs st"
  by (auto simp: renewLease_def Let_def split: option.splits provider_kind.splits prod.splits sum.splits)

lemma WalkAndRenew_keeps [simp]:
  "ss_sent (snd (WalkAndRenew e w ns name st ls)) = ss_sent st"
  "ss_router (snd (WalkAndRenew e w ns name st ls)) = ss_router st"
  "ss_runs (snd (WalkAndRenew e w ns name st ls)) = ss_runs st"
proof -
  have "ss_sent (snd (WalkAndRenew e w ns name st ls)) = ss_sent st \<and> ss_router (snd (WalkAndRenew e w ns name st ls)) = ss_router st
    \<and> ss_runs (snd (WalkAndRenew e w ns name st ls)) = ss_runs st"
  proof (induction ls arbitrary: st)
    case (Cons l ls)
    obtain l' st1 where a: "renewLease e w ns name st l = (l', st1)" by fastforce
    obtain ls' st2 where b: "WalkAndRenew e w ns name st1 ls = (ls', st2)" by fastforce
    show ?case using a b Cons.IH [of st1] renewLease_keeps [of e w ns name st l] by simp
  qed simp
  then show "ss_sent (snd (WalkAndRenew e w ns name st ls)) = ss_sent st"
    "ss_router (snd (WalkAndRenew e w ns name st ls)) = ss_router st"
    "ss_runs (snd (WalkAndRenew e w ns name st ls)) = ss_runs st" by blast+
qed

lemma patchIssuedLeases_keeps [simp]:
  "ss_sent (patchIssuedLeases e run ls st) = ss_sent st"
  "ss_router (patchIssuedLeases e run ls st) = ss_router st"
  unfolding patchIssuedLeases_def
  by (auto split: prod.split option.split dest!: arg_cong [where f = snd] simp: prod_eq_iff)

lemma renewRun_keeps [simp]:
  "ss_sent (renewRun e run ns name st) = ss_sent st"
  "ss_router (renewRun e run ns name st) = ss_router st"
proof -
  have "ss_sent (renewRun e run ns name st) = ss_sent st \<and> ss_router (renewRun e run ns name st) = ss_router st"
  proof (cases "se_renewWindow e")
    case (Some w)
    obtain ls st' where "WalkAndRenew e w ns name st (hr_IssuedLeases run) = (ls, st')" by fastforce
    then show ?thesis using Some WalkAndRenew_keeps [of e w ns name st "hr_IssuedLeases run"] by (simp add: renewRun_def)
  qed (simp add: renewRun_def)
  then show "ss_sent (renewRun e run ns name st) = ss_sent st" "ss_router (renewRun e run ns name st) = ss_router st" by blast+
qed

lemma sendOn_keeps [simp]:
  "ss_runs (snd (sendOn e r ns name path body st)) = ss_runs st"
  "ss_audit (snd (sendOn e r ns name path body st)) = ss_audit st"
  "ss_router (snd (sendOn e r ns name path body st)) = ss_router st"
  by (auto simp: sendOn_def split: prod.split option.split)

section \<open>Renewal and the run\<close>

text \<open>Two copies of a run that differ in their leases at most.\<close>

definition but_leases :: "HarnessRun \<Rightarrow> HarnessRun \<Rightarrow> bool" where
  "but_leases a b \<longleftrightarrow> (\<exists>ls. b = onRun (\<lambda>s. s\<lparr> hrt_IssuedLeases := ls \<rparr>) a)"

definition stores_but_leases :: "run_store \<Rightarrow> run_store \<Rightarrow> bool" where
  "stores_but_leases a b \<longleftrightarrow> (\<forall>key. rel_option but_leases (a key) (b key))"

lemma but_leases_refl [simp]: "but_leases a a"
  unfolding but_leases_def onRun_def by (rule exI [of _ "hr_IssuedLeases a"]) simp

lemma but_leases_same:
  "but_leases a b \<Longrightarrow> hr_Spec b = hr_Spec a \<and> hr_Namespace b = hr_Namespace a \<and> hr_Name b = hr_Name a
     \<and> hr_Interactive b = hr_Interactive a \<and> hr_Phase b = hr_Phase a"
  by (auto simp: but_leases_def onRun_def)

lemma stores_refl [simp]: "stores_but_leases s s"
  by (simp add: stores_but_leases_def option.rel_refl)

lemma stores_put:
  "stores_but_leases s t \<Longrightarrow> rel_option but_leases (s key) v \<Longrightarrow> stores_but_leases s (t(key := v))"
  by (simp add: stores_but_leases_def)

lemma store_at: "stores_but_leases s t \<Longrightarrow> s key = Some run \<Longrightarrow> \<exists>run'. t key = Some run' \<and> but_leases run run'"
  unfolding stores_but_leases_def by (metis option.rel_cases option.distinct(1) option.inject)

lemma patchIssuedLeases_runs: "stores_but_leases (ss_runs st) (ss_runs (patchIssuedLeases e run ls st))"
proof -
  let ?key = "(hr_Namespace run, hr_Name run)"
  have leases: "but_leases x (onRun (\<lambda>s. if b then s else s\<lparr> hrt_IssuedLeases := ls \<rparr>) x)" for x b
    unfolding but_leases_def onRun_def by (cases b) (auto intro: exI [of _ "hr_IssuedLeases x"])
  have upd: "but_leases run (run\<lparr> hr_Status := (hr_Status run)\<lparr> hrt_IssuedLeases := ls \<rparr> \<rparr>)"
    unfolding but_leases_def onRun_def by auto
  show ?thesis
    unfolding patchIssuedLeases_def patchStatus_def updateStatusOf_def Let_def
    by (auto split: option.splits if_splits intro!: stores_put leases upd)
qed

lemma renewRun_runs: "stores_but_leases (ss_runs st) (ss_runs (renewRun e run ns name st))"
proof (cases "se_renewWindow e")
  case (Some w)
  obtain ls st' where w: "WalkAndRenew e w ns name st (hr_IssuedLeases run) = (ls, st')" by fastforce
  have "ss_runs st' = ss_runs st" using WalkAndRenew_keeps(3) [of e w ns name st "hr_IssuedLeases run"] w by simp
  then show ?thesis using Some w patchIssuedLeases_runs [of st' e run ls] by (simp add: renewRun_def)
qed (simp add: renewRun_def)

section \<open>Admission of a prompt\<close>

lemma promptAdmit_Inr:
  assumes "promptAdmit e r st = (Inr t, st')"
  obtains caller run prompt where "runForCaller e r (cachedGet e st GetRun) = Inr (caller, pt_ns t, pt_name t, run)"
    "checkPrompt e r run = Inr prompt" "se_hasRouter e" "se_hasAudit e \<Longrightarrow> be_auditOk (se_broker e)"
    "pt_seq t = int32 (rst_turnSeq (entry_of (ss_router st) (router_key (pt_ns t) (pt_name t))) + 1)"
    "pt_body t = promptBody prompt (pt_seq t) (ci_ServiceAccount caller)"
    "ss_router st' = snd (NextTurnSeq (ss_router st) (pt_ns t) (pt_name t))"
    "ss_sent st' = ss_sent st" "stores_but_leases (ss_runs st) (ss_runs st')"
    "se_hasAudit e \<Longrightarrow> submittedEvent e caller (pt_ns t) (pt_name t) prompt (pt_seq t) \<in> set (ss_audit st')"
proof -
  obtain caller ns name run prompt where a: "runForCaller e r (cachedGet e st GetRun) = Inr (caller, ns, name, run)"
    "checkPrompt e r run = Inr prompt"
    using assms by (auto simp: promptAdmit_def split: sum.splits)
  let ?st1 = "renewRun e run ns name st"
  obtain seq rt where n: "NextTurnSeq (ss_router ?st1) ns name = (seq, rt)" by fastforce
  have seq: "seq = int32 (rst_turnSeq (entry_of (ss_router st) (router_key ns name)) + 1)" "rt = snd (NextTurnSeq (ss_router st) ns name)"
    using n entry_of_NextTurnSeq(1) [of "ss_router ?st1" ns name] by auto
  have router: "se_hasRouter e" using assms a by (auto simp: promptAdmit_def Let_def split: if_splits)
  have t: "t = \<lparr> pt_ns = ns, pt_name = name, pt_seq = seq, pt_body = promptBody prompt seq (ci_ServiceAccount caller) \<rparr>"
    and ok: "se_hasAudit e \<Longrightarrow> be_auditOk (se_broker e)"
    and st': "st' = (if se_hasAudit e then snd (emitAudit e (submittedEvent e caller ns name prompt seq) (?st1\<lparr> ss_router := rt \<rparr>)) else ?st1\<lparr> ss_router := rt \<rparr>)"
    using assms a router n by (auto simp: promptAdmit_def Let_def emitAudit_def split: if_splits)
  show thesis
  proof (rule that)
    show "runForCaller e r (cachedGet e st GetRun) = Inr (caller, pt_ns t, pt_name t, run)" using a(1) t by simp
    show "stores_but_leases (ss_runs st) (ss_runs st')" using st' renewRun_runs [of st e run ns name] by (auto simp: emitAudit_def)
    show "submittedEvent e caller (pt_ns t) (pt_name t) prompt (pt_seq t) \<in> set (ss_audit st')" if "se_hasAudit e"
      using st' that ok t by (simp add: emitAudit_def)
  qed (use a t ok seq st' router in \<open>auto simp: emitAudit_def\<close>)
qed

text \<open>Nothing but the checks stands in the way of a prompt.\<close>

lemma promptAdmit_accepts:
  assumes "runForCaller e r (cachedGet e st GetRun) = Inr (caller, ns, name, run)" "checkPrompt e r run = Inr prompt"
    and "se_hasRouter e" "se_hasAudit e \<Longrightarrow> be_auditOk (se_broker e)"
  shows "\<exists>t st'. promptAdmit e r st = (Inr t, st') \<and> pt_ns t = ns \<and> pt_name t = name"
  using assms by (auto simp: promptAdmit_def Let_def emitAudit_def split: prod.split)

lemma checkPrompt_but_leases: "but_leases a b \<Longrightarrow> checkPrompt e r b = checkPrompt e r a"
proof -
  assume "but_leases a b"
  then have eq: "hr_Spec b = hr_Spec a" "hr_Namespace b = hr_Namespace a" "hr_Interactive b = hr_Interactive a"
    using but_leases_same by blast+
  show ?thesis unfolding checkPrompt_def allowInteract_def runCapabilities_def turnInFlight_def eq ..
qed

lemma runForCaller_Inr:
  assumes "runForCaller e r get = Inr (caller, ns, name, run)"
  shows "sessionCaller e r = Inr caller" "pathRunIdentity r = Inr (ns, name)" "ci_IsController caller \<or> ci_Namespace caller = ns"
    and "get ns name = Inr run"
  using assms by (auto simp: runForCaller_def split: sum.splits if_splits)

lemma runForCaller_get:
  assumes "runForCaller e r get = Inr (caller, ns, name, run)" "get' ns name = Inr run'"
  shows "runForCaller e r get' = Inr (caller, ns, name, run')"
  using runForCaller_Inr [OF assms(1)] assms(2) by (auto simp: runForCaller_def)

lemma checkPrompt_Inr:
  assumes "checkPrompt e r run = Inr prompt"
  shows "hr_Mode run = HarnessRunModeInteractive" "allowInteract e run" "turnInFlight run = None"
    and "sq_Body r = Decoded prompt" "prompt \<noteq> []" "length prompt \<le> MaxInlinePromptBytes"
  using assms by (auto simp: checkPrompt_def split: if_splits decoded.splits)

lemma allowInteract_grant:
  "allowInteract e run \<Longrightarrow>
   \<exists>matching. ListMatchingPolicies (se_kube e) (hr_Namespace run) (tr_Name (hr_TemplateRef run)) = Inr matching
     \<and> (\<exists>p \<in> set matching. policy_interact p)"
  by (auto simp: allowInteract_def runCapabilities_def IntersectMatches_fields(5) split: option.splits sum.splits prod.splits)

section \<open>Recording a turn\<close>

lemma retryOnConflict_keeps:
  assumes "\<And>i s. P s \<Longrightarrow> P (snd (f i s))" "P s"
  shows "P (snd (retryOnConflict n i f s))"
  using assms(2)
proof (induction n arbitrary: i s)
  case (Suc n)
  have "P (snd (f i s))" using assms(1) Suc.prems by blast
  then show ?case using Suc.IH by (auto split: prod.split option.split)
qed simp

lemma patchInteractive_keeps [simp]:
  "ss_sent (snd (patchInteractive e c ns name base new st)) = ss_sent st"
  "ss_audit (snd (patchInteractive e c ns name base new st)) = ss_audit st"
  "ss_router (snd (patchInteractive e c ns name base new st)) = ss_router st"
  by (simp_all add: patchInteractive_def)

lemma promptRecord_keeps [simp]:
  "ss_sent (promptRecord e t st) = ss_sent st"
  "ss_audit (promptRecord e t st) = ss_audit st"
  "ss_router (promptRecord e t st) = ss_router st"
proof -
  have "ss_sent (promptRecord e t st) = ss_sent st \<and> ss_audit (promptRecord e t st) = ss_audit st \<and> ss_router (promptRecord e t st) = ss_router st"
    unfolding promptRecord_def by (rule retryOnConflict_keeps) (auto split: sum.split)
  then show "ss_sent (promptRecord e t st) = ss_sent st" "ss_audit (promptRecord e t st) = ss_audit st"
    "ss_router (promptRecord e t st) = ss_router st" by blast+
qed

text \<open>On a server that answers and a cache that is up to date, the turn is in the status afterwards.\<close>

definition calm :: "session_env \<Rightarrow> bool" where
  "calm e \<longleftrightarrow> (\<forall>c. se_fault e c = None \<and> se_stale e c = None)"

lemma calm_get:
  "calm e \<Longrightarrow> cachedGet e st c ns name = lookupRun (ss_runs st) ns name"
  "calm e \<Longrightarrow> uncachedGet e st c ns name = lookupRun (ss_runs st) ns name"
  by (simp_all add: calm_def cachedGet_def uncachedGet_def)

lemma calm_patch:
  assumes "calm e" "ss_runs st (ns, name) = Some run"
  shows "patchInteractive e c ns name (hr_Interactive run) new st =
    (None, st\<lparr> ss_runs := (ss_runs st)((ns, name) := Some (onRun (\<lambda>s. s\<lparr> hrt_Interactive := Some new \<rparr>) run)) \<rparr>)"
proof -
  have m: "mergeInteractive (hr_Interactive run) new (hr_Interactive run) = Some new"
    by (auto simp: mergeInteractive_def patched_def Let_def zeroInteractive_def split: option.splits)
  show ?thesis using assms by (simp add: patchInteractive_def patchStatus_def calm_def onRun_def m)
qed

lemma retry_first: "f i s = (None, s') \<Longrightarrow> n > 0 \<Longrightarrow> retryOnConflict n i f s = (None, s')"
  by (cases n) auto

lemma numeral_5: "(5::nat) > 0" by simp

lemma promptRecord_calm:
  assumes "calm e" "ss_runs st (pt_ns t, pt_name t) = Some run"
  shows "promptRecord e t st =
    st\<lparr> ss_runs := (ss_runs st)((pt_ns t, pt_name t) := Some (onRun (\<lambda>s. s\<lparr> hrt_Interactive := Some (promptStatus (se_now e) (pt_seq t) (hr_Interactive run)) \<rparr>) run)) \<rparr>"
  unfolding promptRecord_def
  using assms by (subst retry_first [OF _ numeral_5]) (auto simp: calm_get lookupRun_def calm_patch)

lemma lookupRun_Inr: "lookupRun runs ns name = Inr run \<longleftrightarrow> runs (ns, name) = Some run"
  by (simp add: lookupRun_def split: option.split)

lemma recorded_turn:
  assumes "calm e" "ss_runs st (pt_ns t, pt_name t) = Some run"
  shows "\<exists>run'. ss_runs (promptRecord e t st) (pt_ns t, pt_name t) = Some run' \<and> turnInFlight run' = Some (pt_seq t)"
  using assms by (simp add: promptRecord_calm onRun_def turnInFlight_def promptStatus_def Let_def)

lemma pollTurn_calm:
  assumes "calm e" "ss_runs st (ns, name) = Some run" "turnInFlight run = Some seq"
  shows "pollTurn e a ns name 0 n st = (Inr run, st)"
  using assms by (cases n) (simp_all add: calm_get lookupRun_def)

text \<open>The status once a turn is over.\<close>

definition idleStatus :: "time \<Rightarrow> InteractiveStatus \<Rightarrow> InteractiveStatus" where
  "idleStatus now i = i\<lparr> ist_CurrentTurnSeq := None, ist_IdleSince := Some now \<rparr>"

lemma handleTurnComplete_calm:
  assumes calm: "calm e" and caller: "runForCaller e r (uncachedGet e st GetRun) = Inr (caller, ns, name, run)"
    and grant: "allowInteract e run" and turn: "turnInFlight run = Some seq"
  shows "\<exists>i. hr_Interactive run = Some i \<and>
    handleTurnComplete e r st = (StatusOnly 202, tryAudit e (completedEvent e ns name seq)
      (st\<lparr> ss_runs := (ss_runs st)((ns, name) := Some (onRun (\<lambda>s. s\<lparr> hrt_Interactive := Some (idleStatus (se_now e) i) \<rparr>) run)) \<rparr>))"
proof -
  obtain i where i: "hr_Interactive run = Some i" using turn by (auto simp: turnInFlight_def split: option.splits)
  have run: "ss_runs st (ns, name) = Some run"
    using runForCaller_Inr(4) [OF caller] by (auto simp: calm_get [OF calm] lookupRun_def split: option.splits)
  let ?st = "st\<lparr> ss_runs := (ss_runs st)((ns, name) := Some (onRun (\<lambda>s. s\<lparr> hrt_Interactive := Some (idleStatus (se_now e) i) \<rparr>) run)) \<rparr>"
  have "completeTurn e ns name 0 (st, None) = (None, ?st, Some seq)"
    using calm_patch [OF calm run, of "PatchTurn 0" "idleStatus (se_now e) i"] i turn
    by (simp add: completeTurn_def pollTurn_calm [OF calm run turn] idleStatus_def)
  then have "retryOnConflict 5 0 (completeTurn e ns name) (st, None) = (None, ?st, Some seq)"
    by (rule retry_first [OF _ numeral_5])
  then show ?thesis using caller grant i by (simp add: handleTurnComplete_def)
qed

section \<open>A run whose adapter answers\<close>

definition adapter_up :: "session_env \<Rightarrow> string \<Rightarrow> string \<Rightarrow> string \<Rightarrow> bool" where
  "adapter_up e ns name addr \<longleftrightarrow>
     se_resolve e ns name = Inr addr \<and> (\<forall>q. \<exists>a. se_send e q = Answered a \<and> 200 \<le> arp_Status a \<and> arp_Status a < 300)"

definition prompt_out :: "string session_request \<Rightarrow> prompt_ticket \<Rightarrow> string \<Rightarrow> adapter_request" where
  "prompt_out r t addr =
     \<lparr> ar_Method = sq_Method r, ar_URL = ''http://'' @ addr @ ''/prompts'', ar_Header = forwardHeaders (sq_Header r), ar_Body = pt_body t \<rparr>"

lemma promptForward_up:
  assumes "adapter_up e (pt_ns t) (pt_name t) addr"
  shows "\<exists>resp. promptForward e r t st = (resp, st\<lparr> ss_sent := prompt_out r t addr # ss_sent st \<rparr>)
    \<and> 200 \<le> resp_status resp \<and> resp_status resp < 300"
proof -
  obtain a where "se_send e (prompt_out r t addr) = Answered a" "200 \<le> arp_Status a" "arp_Status a < 300"
    using assms by (auto simp: adapter_up_def)
  then show ?thesis
    using assms by (simp add: adapter_up_def promptForward_def sendOn_def forward_def Let_def prompt_out_def)
qed

lemma handlePrompts_up:
  assumes "promptAdmit e r st = (Inr t, st1)" "adapter_up e (pt_ns t) (pt_name t) addr"
  shows "ss_sent (snd (handlePrompts e r st)) = prompt_out r t addr # ss_sent st"
proof -
  have "ss_sent st1 = ss_sent st" using promptAdmit_Inr [OF assms(1)] by metis
  then show ?thesis using assms(1) promptForward_up [OF assms(2), of r st1] by (auto simp: handlePrompts_def)
qed

section \<open>Renewal of leases\<close>

text \<open>A lease after a walk: as before, or a lease of the GitHub App close to its end with a new expiry.\<close>

definition renewed :: "session_env \<Rightarrow> duration \<Rightarrow> IssuedLease \<Rightarrow> IssuedLease \<Rightarrow> bool" where
  "renewed e w l l' \<longleftrightarrow>
     l' = l
     \<or> (LookupProvider (be_registry (se_broker e)) (il_Provider l) = Some GitHubApp
         \<and> (\<exists>t t'. il_ExpiresAt l = Some t \<and> t - se_now e \<le> w \<and> \<not> IsZero t' \<and> l' = l\<lparr> il_ExpiresAt := Some t' \<rparr>))"

lemma renewLease_renewed: "renewed e w l (fst (renewLease e w ns name st l))"
proof (cases "il_ExpiresAt l")
  case (Some t)
  show ?thesis
  proof (cases "LookupProvider (be_registry (se_broker e)) (il_Provider l) = Some GitHubApp \<and> t - se_now e \<le> w")
    case True
    obtain res gh where g: "githubRenew (be_prov (se_broker e)) (ps_github (ss_provs st)) l = (res, gh)" by fastforce
    show ?thesis
      using True Some g by (cases res) (auto simp: renewLease_def renewed_def Let_def)
  next
    case False
    then have "fst (renewLease e w ns name st l) = l"
      using Some by (auto simp: renewLease_def split: option.splits provider_kind.splits)
    then show ?thesis by (simp add: renewed_def)
  qed
qed (simp add: renewLease_def renewed_def)

lemma WalkAndRenew_renewed: "list_all2 (renewed e w) ls (fst (WalkAndRenew e w ns name st ls))"
proof (induction ls arbitrary: st)
  case (Cons l ls)
  obtain l' st1 where a: "renewLease e w ns name st l = (l', st1)" by fastforce
  obtain ls' st2 where b: "WalkAndRenew e w ns name st1 ls = (ls', st2)" by fastforce
  show ?case using a b Cons.IH [of st1] renewLease_renewed [of e w l ns name st] by simp
qed simp

section \<open>The reason of an end\<close>

lemma TrimSpace_subset: "set (TrimSpace s) \<subseteq> set s" "length (TrimSpace s) \<le> length s"
proof -
  show "set (TrimSpace s) \<subseteq> set s" unfolding TrimSpace_def by (auto dest!: set_dropWhileD)
  show "length (TrimSpace s) \<le> length s"
    unfolding TrimSpace_def using length_dropWhile_le [of isSpace s] length_dropWhile_le [of isSpace "rev (dropWhile isSpace s)"] by simp
qed

definition ascii :: "string \<Rightarrow> bool" where "ascii s \<longleftrightarrow> (\<forall>c \<in> set s. (of_char c :: nat) < 128)"

definition printable :: "string \<Rightarrow> bool" where
  "printable s \<longleftrightarrow> (\<forall>c \<in> set s. 32 \<le> (of_char c :: nat) \<and> (of_char c :: nat) < 127)"

lemma sanitizeLoop_ascii:
  assumes "ascii s" "printable acc" "length acc \<le> maxReasonBytes"
  shows "printable (sanitizeLoop acc s) \<and> length (sanitizeLoop acc s) \<le> maxReasonBytes"
  using assms
proof (induction acc s rule: sanitizeLoop.induct)
  case (2 acc c cs)
  have tw: "takeWhile isContinuation cs = []" "dropWhile isContinuation cs = cs"
    using 2(2) by (cases cs; auto simp: ascii_def isContinuation_def Let_def)+
  have c: "(of_char c :: nat) < 128" "ascii cs" using 2(2) by (auto simp: ascii_def)
  show ?case
  proof (cases "length acc \<ge> maxReasonBytes")
    case True
    then show ?thesis using 2(3,4) by simp
  next
    case False
    have p: "printable (acc @ (if isControl [c] then '' '' else [c]))"
      using 2(3) c(1) by (auto simp: printable_def isControl_def Let_def)
    have l: "length (acc @ (if isControl [c] then '' '' else [c])) \<le> maxReasonBytes" using False by simp
    show ?thesis using 2(1) [OF False refl refl, unfolded tw] c(2) p l False by (simp add: tw Let_def)
  qed
qed simp

section \<open>Shells\<close>

lemma allowShell_cap:
  "allowShell e run = Some cap \<Longrightarrow>
   \<exists>matching. ListMatchingPolicies (se_kube e) (hr_Namespace run) (tr_Name (hr_TemplateRef run)) = Inr matching
     \<and> merge_shells None (policy_shells matching) = Some cap"
  by (auto simp: allowShell_def runCapabilities_def IntersectMatches_fields(6) split: option.splits sum.splits prod.splits)

lemma shellAdmit_Inr:
  assumes "shellAdmit e r st = Inr s"
  obtains caller run cap where "runForCaller e r (cachedGet e st GetRun) = Inr (caller, sh_ns s, sh_name s, run)"
    "allowShell e run = Some cap" "shellPhaseAllowed cap (hr_Phase run)"
    "resolveRunPod (se_listPods e) (sh_ns s) (sh_name s) = Inr (sh_pod s)" "sh_submitter s = ci_ServiceAccount caller"
  using assms by (auto simp: shellAdmit_def split: sum.splits option.splits if_splits)

end
