(* ===== verification/Broker_Limit.thy ===== *)
theory Broker_Limit
  imports Go_Prelude
begin

text \<open>
  The rate limiter of the credential endpoints, \<open>internal/broker/ratelimit.go\<close>: a registry of two token
  buckets per run, and the sweep that drops idle entries. The buckets come from \<open>golang.org/x/time/rate\<close> and
  are a parameter: how one is made and what one answers at a time. A call reads the clock once.
\<close>

section \<open>The registry\<close>

record 'l limiter_api =
  la_New :: "int \<Rightarrow> int \<Rightarrow> 'l"
  la_Allow :: "time \<Rightarrow> 'l \<Rightarrow> bool \<times> 'l"

record 'l runLimiter =
  rlm_issue :: 'l
  rlm_substitute :: 'l
  rlm_lastTouched :: time

type_synonym 'l limiters = "(string \<times> string, 'l runLimiter) gomap"

definition issueRate :: int where "issueRate = 5"
definition issueBurst :: int where "issueBurst = 10"
definition substituteRate :: int where "substituteRate = 50"
definition substituteBurst :: int where "substituteBurst = 100"
definition limiterIdleTTL :: duration where "limiterIdleTTL = 5 * minute"

definition newRunLimiter :: "'l limiter_api \<Rightarrow> 'l runLimiter" where
  "newRunLimiter api =
     \<lparr> rlm_issue = la_New api issueRate issueBurst, rlm_substitute = la_New api substituteRate substituteBurst,
       rlm_lastTouched = 0 \<rparr>"

definition RunLimiter_Allow ::
  "'l limiter_api \<Rightarrow> time \<Rightarrow> 'l limiters \<Rightarrow> string \<Rightarrow> string \<Rightarrow> string \<Rightarrow> bool \<times> 'l limiters" where
  "RunLimiter_Allow api now runs namespace run kind =
     (let key = (namespace, run);
          rl = (case map_of runs key of Some rl \<Rightarrow> rl | None \<Rightarrow> newRunLimiter api)\<lparr> rlm_lastTouched := now \<rparr>
      in if kind = ''issue''
         then (case la_Allow api now (rlm_issue rl) of (ok, l) \<Rightarrow> (ok, mset_key key (rl\<lparr> rlm_issue := l \<rparr>) runs))
         else if kind = ''substitute''
         then (case la_Allow api now (rlm_substitute rl) of (ok, l) \<Rightarrow> (ok, mset_key key (rl\<lparr> rlm_substitute := l \<rparr>) runs))
         else (True, mset_key key rl runs))"

definition RunLimiter_Sweep :: "time \<Rightarrow> 'l limiters \<Rightarrow> 'l limiters" where
  "RunLimiter_Sweep now runs = filter (\<lambda>(k, rl). \<not> now - rlm_lastTouched rl > limiterIdleTTL) runs"

section \<open>Histories of the registry\<close>

text \<open>Requests and ticks of the sweeper, each with its time; the answers the requests get.\<close>

datatype limiter_event = Ask string string string | Tick

fun limiter_answers :: "'l limiter_api \<Rightarrow> 'l limiters \<Rightarrow> (time \<times> limiter_event) list \<Rightarrow> bool list" where
  "limiter_answers api runs [] = []"
| "limiter_answers api runs ((t, Ask ns run kind) # es) =
     (case RunLimiter_Allow api t runs ns run kind of (ok, runs') \<Rightarrow> ok # limiter_answers api runs' es)"
| "limiter_answers api runs ((t, Tick) # es) = limiter_answers api (RunLimiter_Sweep t runs) es"

section \<open>What a bucket promises\<close>

text \<open>
  A bucket in use since time \<open>t0\<close>, and the documented behaviour of one: full at first, refilled at its
  rate up to its burst, so that after \<open>burst / rate\<close> seconds of rest it answers like a new one.
\<close>

inductive bucket :: "'l limiter_api \<Rightarrow> int \<Rightarrow> int \<Rightarrow> time \<Rightarrow> 'l \<Rightarrow> bool" for api r b where
  bucket_new: "0 \<le> r \<Longrightarrow> 0 \<le> b \<Longrightarrow> bucket api r b t0 (la_New api r b)"
| bucket_used: "bucket api r b t0 l \<Longrightarrow> t0 \<le> t \<Longrightarrow> la_Allow api t l = (ok, l') \<Longrightarrow> bucket api r b t l'"

definition bucket_refills :: "'l limiter_api \<Rightarrow> bool" where
  "bucket_refills api \<longleftrightarrow>
     (\<forall>r b t0 l t. bucket api r b t0 l \<longrightarrow> b * second \<le> (t - t0) * r \<longrightarrow> la_Allow api t l = la_Allow api t (la_New api r b))"

text \<open>A token bucket in integer arithmetic: rate, burst, level in \<open>1 / second\<close> tokens, time of the last use.\<close>

definition token_bucket :: "(int \<times> int \<times> int \<times> time option) limiter_api" where
  "token_bucket =
     \<lparr> la_New = (\<lambda>r b. (r, b, b * second, None)),
       la_Allow = (\<lambda>t (r, b, level, used).
          let filled = (case used of None \<Rightarrow> b * second | Some u \<Rightarrow> min (b * second) (level + (t - u) * r))
          in if filled \<ge> second then (True, (r, b, filled - second, Some t)) else (False, (r, b, filled, Some t))) \<rparr>"

section \<open>Sweeping goes unnoticed\<close>

text \<open>Two buckets that answer alike from time \<open>t\<close> on: equal, or a new one and one that has rested.\<close>

definition alike :: "'l limiter_api \<Rightarrow> int \<Rightarrow> int \<Rightarrow> time \<Rightarrow> 'l \<Rightarrow> 'l \<Rightarrow> bool" where
  "alike api r b t x y \<longleftrightarrow>
     x = y \<or> (x = la_New api r b \<and> (\<exists>t0. bucket api r b t0 y \<and> b * second \<le> (t - t0) * r))"

definition bucket_by :: "'l limiter_api \<Rightarrow> int \<Rightarrow> int \<Rightarrow> time \<Rightarrow> 'l \<Rightarrow> bool" where
  "bucket_by api r b t l \<longleftrightarrow> (\<exists>t0 \<le> t. bucket api r b t0 l)"

definition seasoned :: "'l limiter_api \<Rightarrow> time \<Rightarrow> 'l runLimiter \<Rightarrow> bool" where
  "seasoned api t rl \<longleftrightarrow>
     rlm_lastTouched rl \<le> t
     \<and> bucket_by api issueRate issueBurst (rlm_lastTouched rl) (rlm_issue rl)
     \<and> bucket_by api substituteRate substituteBurst (rlm_lastTouched rl) (rlm_substitute rl)"

definition tracks :: "'l limiter_api \<Rightarrow> time \<Rightarrow> 'l runLimiter option \<Rightarrow> 'l runLimiter option \<Rightarrow> bool" where
  "tracks api t swept full \<longleftrightarrow>
     (case full of
        None \<Rightarrow> swept = None
      | Some y \<Rightarrow>
          seasoned api t y \<and>
          (case swept of
             None \<Rightarrow> t - rlm_lastTouched y > limiterIdleTTL
           | Some x \<Rightarrow>
               rlm_lastTouched x = rlm_lastTouched y
               \<and> alike api issueRate issueBurst t (rlm_issue x) (rlm_issue y)
               \<and> alike api substituteRate substituteBurst t (rlm_substitute x) (rlm_substitute y)))"

lemma bucket_by_new: "0 \<le> r \<Longrightarrow> 0 \<le> b \<Longrightarrow> bucket_by api r b t (la_New api r b)"
  unfolding bucket_by_def by (blast intro: bucket_new)

lemma bucket_by_later: "bucket_by api r b t l \<Longrightarrow> t \<le> t' \<Longrightarrow> bucket_by api r b t' l"
  unfolding bucket_by_def by (meson order_trans)

lemma bucket_by_used:
  assumes "bucket_by api r b t0 l" "t0 \<le> t" "la_Allow api t l = (ok, l')"
  shows "bucket_by api r b t l'"
  using assms unfolding bucket_by_def by (meson bucket_used order_refl order_trans)

lemma alike_allow: "bucket_refills api \<Longrightarrow> alike api r b t x y \<Longrightarrow> la_Allow api t x = la_Allow api t y"
  unfolding alike_def bucket_refills_def by metis

lemma alike_later:
  assumes "alike api r b t x y" "t \<le> t'" "0 \<le> r"
  shows "alike api r b t' x y"
proof -
  have "(t - t0) * r \<le> (t' - t0) * r" for t0 using assms(2,3) by (intro mult_right_mono) auto
  then show ?thesis using assms(1) unfolding alike_def by (meson order_trans)
qed

text \<open>Five minutes of rest fill both buckets: they need two seconds.\<close>

lemma rested_alike:
  assumes "bucket_by api r b t0 l" "t - t0 > limiterIdleTTL" "b * second \<le> limiterIdleTTL * r" "0 \<le> r"
  shows "alike api r b t (la_New api r b) l"
proof -
  obtain t1 where t1: "t1 \<le> t0" "bucket api r b t1 l" using assms(1) by (auto simp: bucket_by_def)
  have "limiterIdleTTL * r \<le> (t - t1) * r" using assms(2,4) t1(1) by (intro mult_right_mono) auto
  then show ?thesis using t1(2) assms(3) unfolding alike_def by fastforce
qed

lemma rates_fill:
  "issueBurst * second \<le> limiterIdleTTL * issueRate" "substituteBurst * second \<le> limiterIdleTTL * substituteRate"
  "0 \<le> issueRate" "0 \<le> substituteRate" "0 \<le> issueBurst" "0 \<le> substituteBurst"
  by (simp_all add: issueBurst_def issueRate_def substituteBurst_def substituteRate_def limiterIdleTTL_def second_def minute_def)

text \<open>The entry a request starts from, with its time set.\<close>

definition touched :: "'l limiter_api \<Rightarrow> time \<Rightarrow> 'l runLimiter option \<Rightarrow> 'l runLimiter" where
  "touched api t rl = (case rl of Some rl \<Rightarrow> rl | None \<Rightarrow> newRunLimiter api)\<lparr> rlm_lastTouched := t \<rparr>"

lemma touched_seasoned:
  assumes "\<And>y. full = Some y \<Longrightarrow> seasoned api t y"
  shows "seasoned api t (touched api t full)"
proof (cases full)
  case None
  then show ?thesis by (simp add: touched_def seasoned_def newRunLimiter_def bucket_by_new rates_fill)
next
  case (Some y)
  then show ?thesis
    using assms [OF Some] bucket_by_later by (fastforce simp: touched_def seasoned_def)
qed

lemma touched_time: "rlm_lastTouched (touched api t rl) = t"
  by (simp add: touched_def)

lemma touched_tracks:
  assumes "tracks api t swept full"
  shows "tracks api t (Some (touched api t swept)) (Some (touched api t full))"
proof -
  have s: "seasoned api t (touched api t full)"
    using assms by (intro touched_seasoned) (auto simp: tracks_def)
  show ?thesis
  proof (cases full)
    case None
    then show ?thesis using assms s by (simp add: tracks_def alike_def)
  next
    case full: (Some y)
    show ?thesis
    proof (cases swept)
      case None
      then have "seasoned api t y" "t - rlm_lastTouched y > limiterIdleTTL" using assms full by (auto simp: tracks_def)
      then have "alike api issueRate issueBurst t (la_New api issueRate issueBurst) (rlm_issue y)"
        "alike api substituteRate substituteBurst t (la_New api substituteRate substituteBurst) (rlm_substitute y)"
        using rates_fill by (auto simp: seasoned_def intro: rested_alike)
      then show ?thesis using s full None by (simp add: tracks_def touched_def newRunLimiter_def)
    next
      case (Some x)
      then show ?thesis using assms full s by (simp add: tracks_def touched_def)
    qed
  qed
qed

lemma tracks_later:
  assumes "tracks api t swept full" "t \<le> t'"
  shows "tracks api t' swept full"
proof (cases full)
  case None
  then show ?thesis using assms by (simp add: tracks_def)
next
  case full: (Some y)
  have "seasoned api t' y" using assms full by (auto simp: tracks_def seasoned_def)
  then show ?thesis using assms full rates_fill
    by (cases swept) (auto simp: tracks_def intro: alike_later)
qed

text \<open>One request: the same answer on both sides, and both sides go on tracking.\<close>

lemma allow_step:
  "RunLimiter_Allow api t runs ns run kind =
     (let rl = touched api t (map_of runs (ns, run)) in
      if kind = ''issue''
      then (fst (la_Allow api t (rlm_issue rl)), mset_key (ns, run) (rl\<lparr> rlm_issue := snd (la_Allow api t (rlm_issue rl)) \<rparr>) runs)
      else if kind = ''substitute''
      then (fst (la_Allow api t (rlm_substitute rl)), mset_key (ns, run) (rl\<lparr> rlm_substitute := snd (la_Allow api t (rlm_substitute rl)) \<rparr>) runs)
      else (True, mset_key (ns, run) rl runs))"
  by (simp add: RunLimiter_Allow_def touched_def Let_def split: prod.split)

lemma used_tracks:
  assumes api: "bucket_refills api" and tr: "tracks api t (Some x) (Some y)" and t: "rlm_lastTouched y = t"
  shows "tracks api t (Some (x\<lparr> rlm_issue := snd (la_Allow api t (rlm_issue x)) \<rparr>)) (Some (y\<lparr> rlm_issue := snd (la_Allow api t (rlm_issue y)) \<rparr>))"
    and "tracks api t (Some (x\<lparr> rlm_substitute := snd (la_Allow api t (rlm_substitute x)) \<rparr>)) (Some (y\<lparr> rlm_substitute := snd (la_Allow api t (rlm_substitute y)) \<rparr>))"
proof -
  have a: "alike api issueRate issueBurst t (rlm_issue x) (rlm_issue y)"
    "alike api substituteRate substituteBurst t (rlm_substitute x) (rlm_substitute y)"
    and b: "bucket_by api issueRate issueBurst t (rlm_issue y)" "bucket_by api substituteRate substituteBurst t (rlm_substitute y)"
    using tr t by (auto simp: tracks_def seasoned_def)
  have u: "bucket_by api issueRate issueBurst t (snd (la_Allow api t (rlm_issue y)))"
    "bucket_by api substituteRate substituteBurst t (snd (la_Allow api t (rlm_substitute y)))"
    using bucket_by_used [OF b(1) order_refl prod.collapse [symmetric]] bucket_by_used [OF b(2) order_refl prod.collapse [symmetric]] by simp_all
  note same = alike_allow [OF api a(1)] alike_allow [OF api a(2)]
  show "tracks api t (Some (x\<lparr> rlm_issue := snd (la_Allow api t (rlm_issue x)) \<rparr>)) (Some (y\<lparr> rlm_issue := snd (la_Allow api t (rlm_issue y)) \<rparr>))"
    using tr t u(1) b(2) a(2) same(1) by (simp add: tracks_def seasoned_def alike_def)
  show "tracks api t (Some (x\<lparr> rlm_substitute := snd (la_Allow api t (rlm_substitute x)) \<rparr>)) (Some (y\<lparr> rlm_substitute := snd (la_Allow api t (rlm_substitute y)) \<rparr>))"
    using tr t u(2) b(1) a(1) same(2) by (simp add: tracks_def seasoned_def alike_def)
qed

lemma allow_tracks:
  assumes api: "bucket_refills api" and tr: "\<And>k. tracks api t (map_of swept k) (map_of full k)"
    and s: "RunLimiter_Allow api t swept ns run kind = (a, swept')"
    and f: "RunLimiter_Allow api t full ns run kind = (b, full')"
  shows "a = b \<and> tracks api t (map_of swept' k) (map_of full' k)"
proof -
  let ?x = "touched api t (map_of swept (ns, run))" and ?y = "touched api t (map_of full (ns, run))"
  have xy: "tracks api t (Some ?x) (Some ?y)" by (rule touched_tracks [OF tr])
  then have "alike api issueRate issueBurst t (rlm_issue ?x) (rlm_issue ?y)"
    "alike api substituteRate substituteBurst t (rlm_substitute ?x) (rlm_substitute ?y)" by (auto simp: tracks_def)
  note same = this [THEN alike_allow [OF api]]
  show ?thesis
    using s f tr [of k] xy used_tracks [OF api xy touched_time] same unfolding allow_step Let_def
    by (auto simp: map_of_mset_key split: if_splits)
qed

lemma sweep_tracks:
  assumes "mkeys_ok swept" "\<And>k. tracks api t (map_of swept k) (map_of full k)"
  shows "tracks api t (map_of (RunLimiter_Sweep t swept) k) (map_of full k)"
proof -
  have "map_of (RunLimiter_Sweep t swept) k =
      (case map_of swept k of Some rl \<Rightarrow> if t - rlm_lastTouched rl > limiterIdleTTL then None else Some rl | None \<Rightarrow> None)"
    using map_of_filter_val [OF assms(1), of "\<lambda>_ rl. \<not> t - rlm_lastTouched rl > limiterIdleTTL" k]
    by (simp add: RunLimiter_Sweep_def split: option.splits)
  then show ?thesis using assms(2) [of k] by (auto simp: tracks_def split: option.splits)
qed

definition no_ticks :: "(time \<times> limiter_event) list \<Rightarrow> (time \<times> limiter_event) list" where
  "no_ticks = filter (\<lambda>(t, e). e \<noteq> Tick)"

lemma answers_track:
  assumes "bucket_refills api" "mkeys_ok swept" "\<And>k. tracks api t0 (map_of swept k) (map_of full k)"
    and "sorted (t0 # map fst es)"
  shows "limiter_answers api swept es = limiter_answers api full (no_ticks es)"
  using assms(2-)
proof (induction es arbitrary: swept full t0)
  case Nil
  show ?case by (simp add: no_ticks_def)
next
  case (Cons te es)
  obtain t e where te: "te = (t, e)" by (cases te)
  have t: "t0 \<le> t" "sorted (t # map fst es)" using Cons.prems(3) te by simp_all
  have tr: "tracks api t (map_of swept k) (map_of full k)" for k
    using tracks_later [OF Cons.prems(2) t(1)] .
  show ?case
  proof (cases e)
    case Tick
    have "mkeys_ok (RunLimiter_Sweep t swept)" using Cons.prems(1) by (simp add: RunLimiter_Sweep_def)
    from Cons.IH [OF this sweep_tracks [OF Cons.prems(1) tr] t(2)] show ?thesis
      using te Tick by (simp add: no_ticks_def)
  next
    case (Ask ns run kind)
    obtain a swept' where s: "RunLimiter_Allow api t swept ns run kind = (a, swept')" by fastforce
    obtain b full' where f: "RunLimiter_Allow api t full ns run kind = (b, full')" by fastforce
    note step = allow_tracks [OF assms(1) tr s f]
    have "mkeys_ok swept'" using s Cons.prems(1) unfolding allow_step Let_def by (auto split: if_splits)
    from Cons.IH [OF this conjunct2 [OF step] t(2)] show ?thesis
      using te Ask s f step by (simp add: no_ticks_def)
  qed
qed

text \<open>The integer bucket keeps the promise.\<close>

lemma token_bucket_allow:
  "la_Allow token_bucket t (r, b, level, used) =
     (let filled = (case used of None \<Rightarrow> b * second | Some u \<Rightarrow> min (b * second) (level + (t - u) * r))
      in if filled \<ge> second then (True, (r, b, filled - second, Some t)) else (False, (r, b, filled, Some t)))"
  by (simp add: token_bucket_def)

lemma token_bucket_level:
  assumes "bucket token_bucket r b t0 l"
  shows "\<exists>level used. l = (r, b, level, used) \<and> 0 \<le> r \<and> 0 \<le> b \<and> 0 \<le> level \<and> (\<forall>u. used = Some u \<longrightarrow> u \<le> t0)"
  using assms
proof (induction rule: bucket.induct)
  case (bucket_new t0)
  then show ?case by (simp add: token_bucket_def second_def)
next
  case (bucket_used t0 l t ok l')
  then obtain level used where l: "l = (r, b, level, used)" "0 \<le> r" "0 \<le> b" "0 \<le> level" "\<forall>u. used = Some u \<longrightarrow> u \<le> t0"
    by blast
  have "0 \<le> (t - u) * r" if "used = Some u" for u
    using l(2,5) that bucket_used.hyps(2) by (intro mult_nonneg_nonneg) auto
  then have "0 \<le> (case used of None \<Rightarrow> b * second | Some u \<Rightarrow> min (b * second) (level + (t - u) * r))"
    using l(3,4) by (auto simp: second_def split: option.splits)
  then show ?case using bucket_used.hyps(3) l unfolding l(1) token_bucket_allow
    by (auto simp: Let_def split: if_splits)
qed

lemma token_bucket_refills: "bucket_refills token_bucket"
  unfolding bucket_refills_def
proof (intro allI impI)
  fix r b t0 l t assume l: "bucket token_bucket r b t0 l" and rest: "b * second \<le> (t - t0) * r"
  obtain level used where x: "l = (r, b, level, used)" "0 \<le> r" "0 \<le> level" "\<forall>u. used = Some u \<longrightarrow> u \<le> t0"
    using token_bucket_level [OF l] by blast
  have "b * second \<le> level + (t - u) * r" if "used = Some u" for u
  proof -
    have "(t - t0) * r \<le> (t - u) * r" using x(2,4) that by (intro mult_right_mono) auto
    then show ?thesis using rest x(3) by linarith
  qed
  then have "(case used of None \<Rightarrow> b * second | Some u \<Rightarrow> min (b * second) (level + (t - u) * r)) = b * second"
    by (auto split: option.splits)
  moreover have "la_New token_bucket r b = (r, b, b * second, None)" by (simp add: token_bucket_def)
  ultimately show "la_Allow token_bucket t l = la_Allow token_bucket t (la_New token_bucket r b)"
    unfolding x(1) by (simp add: token_bucket_allow)
qed

end
