(* ===== verification/Broker_Restart.thy ===== *)
theory Broker_Restart
  imports Broker_Server
begin

text \<open>
  What the broker does at start-up: \<open>ReconstructLeases\<close> of \<open>internal/broker/reconstruct.go\<close> reserves the slots of
  the PAT pools that the statuses of live runs name. Bearers are not rebuilt. The lemmas follow a reserved
  slot through every later operation on the pool.
\<close>

definition leasePoolKey :: "HarnessRun \<Rightarrow> PoolLeaseRef \<Rightarrow> PatPoolKey" where
  "leasePoolKey run ref =
     \<lparr> pk_Namespace = hr_Namespace run, pk_Secret = skr_Name (plr_SecretRef ref), pk_Key = skr_Key (plr_SecretRef ref) \<rparr>"

text \<open>One lease of one run, the body of the inner loop.\<close>

definition reconstructLease :: "kube \<Rightarrow> time \<Rightarrow> HarnessRun \<Rightarrow> patpool_state \<Rightarrow> IssuedLease \<Rightarrow> patpool_state" where
  "reconstructLease k now run st lease =
     (case il_PoolRef lease of
        None \<Rightarrow> st
      | Some ref \<Rightarrow>
          if il_Provider lease \<noteq> ''PATPool'' then st
          else if (case il_ExpiresAt lease of Some t \<Rightarrow> t < now | None \<Rightarrow> False) then st
          else (case getSecret k (hr_Namespace run) (skr_Name (plr_SecretRef ref)) of
                  Inl err \<Rightarrow> st
                | Inr sec \<Rightarrow>
                    (case map_of (sec_Data sec) (skr_Key (plr_SecretRef ref)) of
                       None \<Rightarrow> st
                     | Some raw \<Rightarrow>
                         let entries = parsePoolEntries raw in
                         if plr_SlotIndex ref < 0 \<or> plr_SlotIndex ref \<ge> int (length entries) then st
                         else ReserveSlot st (leasePoolKey run ref) entries (plr_SlotIndex ref) (il_LeaseID lease))))"

definition reconstructRun :: "kube \<Rightarrow> time \<Rightarrow> patpool_state \<Rightarrow> HarnessRun \<Rightarrow> patpool_state" where
  "reconstructRun k now st run =
     (if isTerminalPhase (hr_Phase run) then st else foldl (reconstructLease k now run) st (hr_IssuedLeases run))"

definition ReconstructLeases :: "kube \<Rightarrow> time \<Rightarrow> registry \<Rightarrow> prov_states \<Rightarrow> (error_msg + unit) \<times> prov_states" where
  "ReconstructLeases k now reg ps =
     (case listRuns k of
        Inl err \<Rightarrow> (Inl (''listing HarnessRuns: '' @ api_Error err), ps)
      | Inr runs \<Rightarrow>
          (case LookupProvider reg ''PATPool'' of
             None \<Rightarrow> (Inr (), ps)
           | Some kind \<Rightarrow>
               if kind \<noteq> PATPool then (Inl ''registry returned non-PATPool provider for PATPool key'', ps)
               else (Inr (), ps\<lparr> ps_patpool := foldl (reconstructRun k now) (ps_patpool ps) runs \<rparr>)))"

section \<open>A reserved slot\<close>

text \<open>Slot \<open>i\<close> of a pool is taken, with no lease behind it.\<close>

definition spared :: "patPool \<Rightarrow> nat \<Rightarrow> bool" where
  "spared pool i \<longleftrightarrow>
     i < length (pp_leased pool) \<and> pp_leased pool ! i \<and> (\<forall>(b, l) \<in> set (pp_byBearer pool). pl_Index l \<noteq> int i)"

definition reserved :: "patpool_state \<Rightarrow> PatPoolKey \<Rightarrow> string list \<Rightarrow> nat \<Rightarrow> bool" where
  "reserved st key entries i \<longleftrightarrow> (\<exists>pool. map_of st key = Some pool \<and> pp_entries pool = entries \<and> spared pool i)"

lemma reserved_other: "reserved st key entries i \<Longrightarrow> key' \<noteq> key \<Longrightarrow> reserved (mset_key key' p st) key entries i"
  by (simp add: reserved_def map_of_mset_key)

lemma reserved_here: "pp_entries pool = entries \<Longrightarrow> spared pool i \<Longrightarrow> reserved (mset_key key pool st) key entries i"
  by (simp add: reserved_def map_of_mset_key)

text \<open>Reconciling with the same entries, releasing a lease and granting a slot keep it.\<close>

lemma spared_reconcile:
  assumes "spared pool i"
  shows "spared (reconcilePoolLocked pool (pp_entries pool) now) i"
proof -
  have "\<forall>(b, l) \<in> set (pp_byBearer pool). now > pl_ExpiresAt l \<longrightarrow> pl_Index l \<noteq> int i"
    using assms by (auto simp: spared_def)
  then show ?thesis
    using assms sweepSlots_kept [of "pp_byBearer pool" now i "pp_leased pool"]
    by (auto simp: spared_def reconcile_cases sweepPool_simps)
qed

lemma spared_release:
  assumes "spared pool i"
  shows "spared (releaseLocked pool c) i"
proof (cases "map_of (pp_byBearer pool) c")
  case (Some l)
  then have "pl_Index l \<noteq> int i" using assms map_of_SomeD by (fastforce simp: spared_def)
  then show ?thesis using Some assms by (auto simp: spared_def releaseLocked_def setSlot_other set_mdelete)
qed (use assms in \<open>simp add: releaseLocked_def\<close>)

lemma release_entries [simp]: "pp_entries (releaseLocked pool c) = pp_entries pool"
  by (simp add: releaseLocked_def split: option.split)

lemma spared_grant:
  assumes "spared pool i" "mkeys_ok (pp_byBearer pool)" "firstFreeIndex (pp_leased pool) = Some idx" "pl_Index lease = int idx"
  shows "spared (grantSlot pool idx b lease) i \<and> idx \<noteq> i"
proof -
  have "idx \<noteq> i" using firstFreeIndex_Some [OF assms(3)] assms(1) by (auto simp: spared_def)
  then show ?thesis using assms(1,4) by (auto simp: spared_def set_mset_key [OF assms(2)] nth_list_update split: if_splits)
qed

text \<open>
  \<open>Issue\<close>: when the pool's Secret still lists the same tokens, it hands out another slot and the reserved
  one stays.
\<close>

lemma reserved_issueLocked:
  assumes inv: "patpool_inv st" and res: "reserved st key entries i"
    and eq: "patIssueLocked e st req ref fresh = (x, st')" and same: "pool_key req ref = key \<Longrightarrow> fresh = entries"
  shows "reserved st' key entries i \<and> (\<forall>r. x = Inr r \<longrightarrow> pool_key req ref = key \<longrightarrow> ir_PoolSlotIndex r \<noteq> Some (int i))"
proof (cases "pool_key req ref = key")
  case False
  from eq show ?thesis
    by (cases rule: patIssueLocked_cases) (use False res in \<open>simp_all add: reserved_other\<close>)
next
  case True
  obtain pool where p: "map_of st key = Some pool" "pp_entries pool = entries" "spared pool i"
    using res by (auto simp: reserved_def)
  let ?pool = "issue_pool e st req ref fresh"
  have spared: "spared ?pool i" and entries: "pp_entries ?pool = entries"
    using spared_reconcile [OF p(3)] True same p(1,2) by (simp_all add: issue_pool_def pool_at_def)
  have keys: "mkeys_ok (pp_byBearer ?pool)" using issue_pool_wf [OF inv] by (simp add: pool_wf_def)
  from eq show ?thesis
  proof (cases rule: patIssueLocked_cases)
    case (granted idx buf r lease)
    have "pl_Index lease = int idx" using granted(5) by simp
    note g = spared_grant [OF spared keys granted(3) this, of "ir_Value r"]
    then show ?thesis using granted(1,9,10) True entries by (simp add: reserved_here)
  qed (use True entries spared in \<open>simp_all add: reserved_here\<close>)
qed

definition shows_pool :: "kube \<Rightarrow> PatPoolKey \<Rightarrow> string list \<Rightarrow> bool" where
  "shows_pool k key entries \<longleftrightarrow>
     (\<forall>found. readPool k (pk_Namespace key) (pk_Secret key) (pk_Key key) = Inr found \<longrightarrow> found = entries)"

lemma reserved_issue:
  assumes "patpool_inv st" "reserved st key entries i" "shows_pool (pe_kube e) key entries"
    and eq: "patIssue e st req = (x, st')"
  shows "reserved st' key entries i \<and>
    (\<forall>r ref. x = Inr r \<longrightarrow> pc_SecretRef (cg_Provider (iq_Grant req)) = Some ref \<longrightarrow> pool_key req ref = key
      \<longrightarrow> ir_PoolSlotIndex r \<noteq> Some (int i))"
  using eq
proof (cases rule: patIssue_cases)
  case (locked ref fresh)
  have "fresh = entries" if "pool_key req ref = key"
    using that locked(2) assms(3) by (auto simp: shows_pool_def pool_key_def)
  then show ?thesis using reserved_issueLocked [OF assms(1,2) locked(4)] locked(1) by auto
qed (use assms(2) in simp)

lemma reserved_revoke:
  assumes "patpool_inv st" "reserved st key entries i"
  shows "reserved (patRevoke st lid) key entries i"
proof (cases rule: patRevoke_cases [of st lid])
  case (2 k pool b)
  show ?thesis
  proof (cases "k = key")
    case True
    have "map_of st key = Some pool"
      using 2(1) assms(1) True by (simp add: patpool_inv_def mkeys_ok_map_of)
    then have "pp_entries pool = entries" "spared pool i" using assms(2) by (auto simp: reserved_def)
    then show ?thesis unfolding 2(2) True by (simp add: reserved_here spared_release)
  qed (use assms(2) 2 in \<open>simp add: reserved_other\<close>)
qed (use assms in simp)

lemma reserved_substitute:
  assumes inv: "patpool_inv st" and res: "reserved st key entries i" and sh: "shows_pool (pe_kube e) key entries"
  shows "reserved (snd (patSubstituteAuth e st req)) key entries i"
proof -
  obtain out st' where eq: "patSubstituteAuth e st req = (out, st')" by fastforce
  from eq inv have "reserved st' key entries i"
  proof (cases rule: patSubstituteAuth_cases)
    case (serve k pool fresh pool')
    show ?thesis
    proof (cases "k = key")
      case True
      then have p: "pp_entries pool = entries" "spared pool i" using serve(2) res by (auto simp: reserved_def)
      have fresh: "fresh = pp_entries pool" using serve(3) sh True p(1) by (simp add: shows_pool_def)
      let ?r = "reconcilePoolLocked pool (pp_entries pool) (pe_now e)"
      have "pool' = ?r \<or> (\<exists>c. pool' = releaseLocked ?r c)"
        using serve(4) unfolding fresh by (rule patServe_cases) auto
      then show ?thesis unfolding serve(5) True using spared_reconcile [OF p(2)] p(1)
        by (auto intro!: reserved_here spared_release)
    qed (use res serve(5) in \<open>simp add: reserved_other\<close>)
  qed (use res in simp_all)
  then show ?thesis using eq by simp
qed

text \<open>Everything that can happen to the pools while the Secret of \<open>key\<close> keeps its content.\<close>

inductive steady :: "PatPoolKey \<Rightarrow> string list \<Rightarrow> patpool_state \<Rightarrow> patpool_state \<Rightarrow> bool" for key entries st0 where
  steady_start: "steady key entries st0 st0"
| steady_issue: "steady key entries st0 st \<Longrightarrow> shows_pool (pe_kube e) key entries \<Longrightarrow> steady key entries st0 (snd (patIssue e st q))"
| steady_subst: "steady key entries st0 st \<Longrightarrow> shows_pool (pe_kube e) key entries \<Longrightarrow> steady key entries st0 (snd (patSubstituteAuth e st r))"
| steady_revoke: "steady key entries st0 st \<Longrightarrow> steady key entries st0 (patRevoke st lid)"

lemma steady_reserved:
  assumes "steady key entries st0 st" "patpool_inv st0" "reserved st0 key entries i"
  shows "patpool_inv st \<and> reserved st key entries i"
  using assms
proof (induction rule: steady.induct)
  case (steady_issue st e q)
  then show ?case using reserved_issue [of st key entries i e q] patIssue_inv by (metis prod.collapse)
qed (simp_all add: patSubstituteAuth_inv patRevoke_inv reserved_substitute reserved_revoke)

section \<open>What start-up reserves\<close>

text \<open>While leases are reconstructed, pools show their Secrets and hold no bearers.\<close>

definition bare :: "kube \<Rightarrow> patpool_state \<Rightarrow> bool" where
  "bare k st \<longleftrightarrow> mkeys_ok st \<and>
     (\<forall>key pool. map_of st key = Some pool \<longrightarrow>
        readPool k (pk_Namespace key) (pk_Secret key) (pk_Key key) = Inr (pp_entries pool)
        \<and> length (pp_leased pool) = length (pp_entries pool) \<and> pp_byBearer pool = [])"

lemma bare_reserve:
  assumes "bare k st" "readPool k (pk_Namespace key) (pk_Secret key) (pk_Key key) = Inr entries"
  shows "bare k (ReserveSlot st key entries i lid)"
    and "reserved st key' entries' j \<Longrightarrow> reserved (ReserveSlot st key entries i lid) key' entries' j"
    and "inRange i entries \<Longrightarrow> reserved (ReserveSlot st key entries i lid) key entries (nat i)"
proof -
  show "bare k (ReserveSlot st key entries i lid)"
    using assms by (auto simp: bare_def ReserveSlot_def Let_def map_of_mset_key split: option.splits if_splits)
  show "reserved (ReserveSlot st key entries i lid) key' entries' j" if "reserved st key' entries' j"
    using that by (auto simp: reserved_def spared_def ReserveSlot_def Let_def map_of_mset_key setSlot_def inRange_def nth_list_update split: option.splits)
  show "reserved (ReserveSlot st key entries i lid) key entries (nat i)" if "inRange i entries"
    using that assms
    by (cases "map_of st key") (auto simp: reserved_def spared_def bare_def ReserveSlot_def Let_def map_of_mset_key setSlot_def inRange_def)
qed

text \<open>A lease of a live run that start-up takes into account, with the tokens of its pool.\<close>

definition restorable :: "kube \<Rightarrow> time \<Rightarrow> HarnessRun \<Rightarrow> IssuedLease \<Rightarrow> PoolLeaseRef \<Rightarrow> string list \<Rightarrow> bool" where
  "restorable k now run lease ref entries \<longleftrightarrow>
     il_Provider lease = ''PATPool'' \<and> il_PoolRef lease = Some ref
     \<and> (case il_ExpiresAt lease of Some t \<Rightarrow> now \<le> t | None \<Rightarrow> True)
     \<and> readPool k (hr_Namespace run) (skr_Name (plr_SecretRef ref)) (skr_Key (plr_SecretRef ref)) = Inr entries
     \<and> inRange (plr_SlotIndex ref) entries"

lemma reconstructLease_skip:
  assumes "\<nexists>ref entries. restorable k now run lease ref entries"
  shows "reconstructLease k now run st lease = st"
  using assms unfolding reconstructLease_def restorable_def readPool_def inRange_def Let_def
  by (auto split: option.splits sum.splits)

lemma reconstructLease_reserve:
  assumes "restorable k now run lease ref entries"
  shows "reconstructLease k now run st lease = ReserveSlot st (leasePoolKey run ref) entries (plr_SlotIndex ref) (il_LeaseID lease)"
  using assms unfolding reconstructLease_def restorable_def readPool_def inRange_def Let_def
  by (auto split: option.splits sum.splits)

lemma restorable_pool:
  "restorable k now run lease ref entries \<Longrightarrow>
   readPool k (pk_Namespace (leasePoolKey run ref)) (pk_Secret (leasePoolKey run ref)) (pk_Key (leasePoolKey run ref)) = Inr entries"
  by (simp add: restorable_def leasePoolKey_def)

lemma reconstructLease_bare:
  assumes "bare k st"
  shows "bare k (reconstructLease k now run st lease)"
    and "reserved st key entries i \<Longrightarrow> reserved (reconstructLease k now run st lease) key entries i"
    and "restorable k now run lease ref es \<Longrightarrow>
      reserved (reconstructLease k now run st lease) (leasePoolKey run ref) es (nat (plr_SlotIndex ref))"
proof -
  show "bare k (reconstructLease k now run st lease)"
  proof (cases "\<exists>ref entries. restorable k now run lease ref entries")
    case True
    then show ?thesis using reconstructLease_reserve bare_reserve(1) [OF assms restorable_pool] by metis
  qed (simp add: reconstructLease_skip assms)
  show "reserved (reconstructLease k now run st lease) key entries i" if "reserved st key entries i"
  proof (cases "\<exists>ref entries. restorable k now run lease ref entries")
    case True
    then show ?thesis using reconstructLease_reserve bare_reserve(2) [OF assms restorable_pool that] by metis
  qed (simp add: reconstructLease_skip that)
  show "reserved (reconstructLease k now run st lease) (leasePoolKey run ref) es (nat (plr_SlotIndex ref))"
    if r: "restorable k now run lease ref es"
    using bare_reserve(3) [OF assms restorable_pool [OF r]] r reconstructLease_reserve [OF r]
    by (simp add: restorable_def)
qed

text \<open>The loop over the leases of a run, then the loop over the runs.\<close>

definition reserving :: "kube \<Rightarrow> (patpool_state \<Rightarrow> 'a \<Rightarrow> patpool_state) \<Rightarrow> bool" where
  "reserving k f \<longleftrightarrow>
     (\<forall>st x. bare k st \<longrightarrow> bare k (f st x) \<and> (\<forall>key entries i. reserved st key entries i \<longrightarrow> reserved (f st x) key entries i))"

lemma foldl_reserves:
  assumes f: "reserving k f" and st: "bare k st"
  shows "bare k (foldl f st xs)"
    and "reserved st key entries i \<Longrightarrow> reserved (foldl f st xs) key entries i"
    and "y \<in> set xs \<Longrightarrow> (\<And>st. bare k st \<Longrightarrow> reserved (f st y) key entries i) \<Longrightarrow> reserved (foldl f st xs) key entries i"
proof -
  show b: "bare k (foldl f st xs)" for xs using assms by (induction xs rule: rev_induct) (auto simp: reserving_def)
  show r: "reserved (foldl f st xs) key entries i" if "reserved st key entries i"
    using that b f by (induction xs rule: rev_induct) (auto simp: reserving_def)
  show "reserved (foldl f st xs) key entries i"
    if "y \<in> set xs" "\<And>st. bare k st \<Longrightarrow> reserved (f st y) key entries i"
    using that(1)
  proof (induction xs rule: rev_induct)
    case (snoc x xs)
    then show ?case using that(2) [OF b] f b [of xs] by (cases "x = y") (auto simp: reserving_def)
  qed simp
qed

lemma reserving_lease: "reserving k (reconstructLease k now run)"
  unfolding reserving_def using reconstructLease_bare(1,2) by blast

lemma reserving_run: "reserving k (reconstructRun k now)"
  unfolding reserving_def reconstructRun_def using foldl_reserves(1,2) [OF reserving_lease] by auto

lemma reconstructRun_reserves:
  assumes "bare k st" "\<not> isTerminalPhase (hr_Phase run)" "lease \<in> set (hr_IssuedLeases run)" "restorable k now run lease ref es"
  shows "reserved (reconstructRun k now st run) (leasePoolKey run ref) es (nat (plr_SlotIndex ref))"
proof -
  have "reserved (foldl (reconstructLease k now run) st (hr_IssuedLeases run)) (leasePoolKey run ref) es (nat (plr_SlotIndex ref))"
    by (rule foldl_reserves(3) [OF reserving_lease assms(1,3)]) (rule reconstructLease_bare(3) [OF _ assms(4)])
  then show ?thesis using assms(2) by (simp add: reconstructRun_def)
qed

lemma ReconstructLeases_reserves:
  assumes "ReconstructLeases k now reg (ps\<lparr> ps_patpool := [] \<rparr>) = (Inr (), ps')" "LookupProvider reg ''PATPool'' = Some PATPool"
    and "listRuns k = Inr runs" "run \<in> set runs" "\<not> isTerminalPhase (hr_Phase run)" "lease \<in> set (hr_IssuedLeases run)"
    and "restorable k now run lease ref entries"
  shows "reserved (ps_patpool ps') (leasePoolKey run ref) entries (nat (plr_SlotIndex ref)) \<and> patpool_inv (ps_patpool ps')"
proof
  have ps: "ps_patpool ps' = foldl (reconstructRun k now) [] runs"
    using assms(1-3) by (auto simp: ReconstructLeases_def)
  have start: "bare k []" by (simp add: bare_def)
  show "reserved (ps_patpool ps') (leasePoolKey run ref) entries (nat (plr_SlotIndex ref))"
    unfolding ps by (rule foldl_reserves(3) [OF reserving_run start assms(4)]) (rule reconstructRun_reserves [OF _ assms(5-7)])
  have "bare k (ps_patpool ps')" unfolding ps by (rule foldl_reserves(1) [OF reserving_run start])
  then show "patpool_inv (ps_patpool ps')" by (auto simp: bare_def patpool_inv_def pool_wf_def)
qed

end
