(* ===== verification/Session_Properties.thy ===== *)
theory Session_Properties
  imports Session_Facts Broker_Limit Broker_Restart Fixtures
begin

text \<open>
  The properties of the interactive endpoints, of the broker's restart and of its rate limiter, with
  concrete sessions to which they are applied.
\<close>

section \<open>Concrete sessions\<close>

definition ex_session_policy :: BrokerPolicy where
  "ex_session_policy = ex_policy\<lparr> bp_Spec := (bp_Spec ex_policy)\<lparr> bps_Grants := ex_grants\<lparr> gs_Runs :=
     Some \<lparr> rc_Interact = True, rc_Shell = Some \<lparr> sc_Target = [], sc_Command = [], sc_AllowedPhases = [], sc_RecordTranscript = False \<rparr> \<rparr> \<rparr> \<rparr> \<rparr>"

definition ex_session_run :: HarnessRun where
  "ex_session_run = ex_run\<lparr> hr_Spec := ex_run_spec\<lparr> hrs_Mode := HarnessRunModeInteractive \<rparr> \<rparr>"

definition ex_session :: session_env where
  "ex_session =
     \<lparr> se_broker = ex_env\<lparr> be_prov := ex_prov_env\<lparr> pe_kube := ex_kube\<lparr> listPolicies := (\<lambda>_. Inr [ex_session_policy]) \<rparr> \<rparr> \<rparr>,
       se_hasAudit = True, se_hasRouter = True, se_renewWindow = Some (5 * minute),
       se_resolve = (\<lambda>_ _. Inr ''10.0.0.1:8431''),
       se_send = (\<lambda>_. Answered \<lparr> arp_Status = 202, arp_Header = [], arp_Body = [] \<rparr>),
       se_fault = (\<lambda>_. None), se_stale = (\<lambda>_. None), se_others = (\<lambda>_ st. st), se_polls = 40, se_restConfig = True,
       se_listPods = (\<lambda>_ _. Inr [\<lparr> pd_Name = ''pod'', pd_Deleting = False, pd_Phase = ''Running'', pd_PodIP = ''10.0.0.1'', pd_Created = 1 \<rparr>]),
       se_sessionID = ''id'', se_accepts = True, se_execOk = True \<rparr>"

definition ex_session_state :: session_state where
  "ex_session_state =
     \<lparr> ss_router = [], ss_runs = (\<lambda>k. if k = (''ns'', ''r'') then Some ex_session_run else None),
       ss_provs = provs_init [] [], ss_audit = [], ss_sent = [], ss_execs = [] \<rparr>"

definition ex_session_request :: "'b decoded \<Rightarrow> 'b session_request" where
  "ex_session_request b =
     \<lparr> sq_Method = ''POST'', sq_Header = [(''Authorization'', [''Bearer tok'']), (''Accept'', [''x''])], sq_PathNamespace = ''ns'',
       sq_PathName = ''r'', sq_Body = b, sq_Unread = [] \<rparr>"

section \<open>Prompts\<close>

text \<open>
  C29: A prompt reaches an adapter only on these grounds: the caller is authenticated and is the controller or
  of the run's namespace, the run as read is interactive with no turn in flight, a policy of its namespace that
  applies to its template grants interaction, and the text is neither empty nor too long. What goes out is one
  request with the text, the turn's number and the caller's account, and with neither the caller's
  Authorization nor its Cookie header; with an audit sink the submission is on the log.
\<close>

theorem prompts_on_grounds:
  assumes "handlePrompts e r st = (resp, st')" "ss_sent st' \<noteq> ss_sent st"
  shows "\<exists>caller run prompt seq addr matching.
    sessionCaller e r = Inr caller \<and> (ci_IsController caller \<or> ci_Namespace caller = sq_PathNamespace r)
    \<and> cachedGet e st GetRun (sq_PathNamespace r) (sq_PathName r) = Inr run
    \<and> hr_Mode run = HarnessRunModeInteractive \<and> turnInFlight run = None
    \<and> ListMatchingPolicies (se_kube e) (hr_Namespace run) (tr_Name (hr_TemplateRef run)) = Inr matching
    \<and> (\<exists>p \<in> set matching. policy_interact p)
    \<and> sq_Body r = Decoded prompt \<and> prompt \<noteq> [] \<and> length prompt \<le> MaxInlinePromptBytes
    \<and> ss_sent st' = \<lparr> ar_Method = sq_Method r, ar_URL = ''http://'' @ addr @ ''/prompts'', ar_Header = forwardHeaders (sq_Header r),
                       ar_Body = promptBody prompt seq (ci_ServiceAccount caller) \<rparr> # ss_sent st
    \<and> (\<forall>(k, vs) \<in> set (forwardHeaders (sq_Header r)). k \<noteq> ''Authorization'' \<and> k \<noteq> ''Cookie'')
    \<and> (se_hasAudit e \<longrightarrow> submittedEvent e caller (sq_PathNamespace r) (sq_PathName r) prompt seq \<in> set (ss_audit st'))"
proof -
  obtain t st1 where admit: "promptAdmit e r st = (Inr t, st1)"
  proof (cases "promptAdmit e r st")
    case (Pair x st1)
    show thesis
    proof (cases x)
      case (Inl resp1)
      have "ss_sent st1 = ss_sent st"
        using Pair Inl by (auto simp: promptAdmit_def Let_def emitAudit_def split: sum.splits prod.splits if_splits)
      then show thesis using assms Pair Inl by (simp add: handlePrompts_def)
    next
      case (Inr t)
      then show thesis using that Pair by simp
    qed
  qed
  obtain caller run prompt where a: "runForCaller e r (cachedGet e st GetRun) = Inr (caller, pt_ns t, pt_name t, run)"
    "checkPrompt e r run = Inr prompt" "pt_body t = promptBody prompt (pt_seq t) (ci_ServiceAccount caller)" "ss_sent st1 = ss_sent st"
    "se_hasAudit e \<Longrightarrow> submittedEvent e caller (pt_ns t) (pt_name t) prompt (pt_seq t) \<in> set (ss_audit st1)"
    using promptAdmit_Inr [OF admit] by metis
  obtain resp2 out where f: "forward (se_resolve e) (se_send e) (sq_Method r) (sq_Header r) (pt_ns t) (pt_name t) ''/prompts'' (pt_body t) = (resp2, out)"
    by fastforce
  have st': "ss_sent st' = (case out of None \<Rightarrow> ss_sent st | Some q \<Rightarrow> q # ss_sent st)" "ss_audit st' = ss_audit st1"
    using assms(1) admit f a(4) by (auto simp: handlePrompts_def promptForward_def sendOn_def split: if_splits option.splits)
  then obtain q where q: "out = Some q" using assms(2) by (cases out) auto
  obtain addr where q': "q = \<lparr> ar_Method = sq_Method r, ar_URL = ''http://'' @ addr @ ''/prompts'', ar_Header = forwardHeaders (sq_Header r), ar_Body = pt_body t \<rparr>"
    using forward_out [OF f [unfolded q]] by blast
  have path: "pt_ns t = sq_PathNamespace r" "pt_name t = sq_PathName r"
    using runForCaller_Inr(2) [OF a(1)] by (auto simp: pathRunIdentity_def split: if_splits)
  obtain matching where m: "ListMatchingPolicies (se_kube e) (hr_Namespace run) (tr_Name (hr_TemplateRef run)) = Inr matching"
    "\<exists>p \<in> set matching. policy_interact p"
    using allowInteract_grant [OF checkPrompt_Inr(2) [OF a(2)]] by blast
  show ?thesis
    using runForCaller_Inr [OF a(1)] checkPrompt_Inr [OF a(2)] m st' q q' a(3,5) path forwardHeaders_clean
    by (intro exI [of _ caller] exI [of _ run] exI [of _ prompt] exI [of _ "pt_seq t"] exI [of _ addr] exI [of _ matching]) auto
qed

lemma ex_interact: "allowInteract ex_session ex_session_run"
  by code_simp

lemma ex_caller: "\<exists>caller. sessionCaller ex_session (ex_session_request b) = Inr caller \<and> ci_Namespace caller = ''ns'' \<and> \<not> ci_IsController caller"
proof -
  have "map_sum id (\<lambda>c. (ci_Namespace c, ci_IsController c)) (sessionCaller ex_session (ex_session_request (Decoded ()))) = Inr (''ns'', False)"
    by code_simp
  moreover have "sessionCaller ex_session (ex_session_request b) = sessionCaller ex_session (ex_session_request (Decoded ()))"
    by (simp add: sessionCaller_def ex_session_request_def)
  ultimately show ?thesis by (cases "sessionCaller ex_session (ex_session_request (Decoded ()))") simp_all
qed

lemma ex_calm: "calm ex_session"
  by (simp add: calm_def ex_session_def)

lemma ex_up: "adapter_up ex_session ns name ''10.0.0.1:8431''"
  by (simp add: adapter_up_def ex_session_def)

lemma ex_runForCaller:
  assumes "ss_runs st (''ns'', ''r'') = Some run"
  shows "\<exists>caller. runForCaller ex_session (ex_session_request b) (cachedGet ex_session st c) = Inr (caller, ''ns'', ''r'', run)
    \<and> runForCaller ex_session (ex_session_request b) (uncachedGet ex_session st c) = Inr (caller, ''ns'', ''r'', run)"
  using ex_caller [of b] assms
  by (auto simp: runForCaller_def calm_get [OF ex_calm] lookupRun_def pathRunIdentity_def ex_session_request_def)

lemma ex_prompt_ok: "checkPrompt ex_session (ex_session_request (Decoded ''go'')) ex_session_run = Inr ''go''"
  using ex_interact
  by (simp add: checkPrompt_def turnInFlight_def ex_session_request_def ex_session_run_def ex_run_def ex_run_spec_def
      ex_run_status_def MaxInlinePromptBytes_def)

lemma ex_prompt_admitted:
  "\<exists>t st'. promptAdmit ex_session (ex_session_request (Decoded ''go'')) ex_session_state = (Inr t, st') \<and> pt_ns t = ''ns'' \<and> pt_name t = ''r''"
proof -
  have "ss_runs ex_session_state (''ns'', ''r'') = Some ex_session_run" by (simp add: ex_session_state_def)
  from ex_runForCaller [OF this, of "Decoded ''go''" GetRun] obtain caller where
    "runForCaller ex_session (ex_session_request (Decoded ''go'')) (cachedGet ex_session ex_session_state GetRun) = Inr (caller, ''ns'', ''r'', ex_session_run)"
    by blast
  then show ?thesis by (rule promptAdmit_accepts [OF _ ex_prompt_ok]) (simp_all add: ex_session_def ex_env_def)
qed

theorem prompts_on_grounds_witness:
  "\<exists>caller. sessionCaller ex_session (ex_session_request (Decoded ''go'')) = Inr caller
     \<and> (ci_IsController caller \<or> ci_Namespace caller = ''ns'')"
proof -
  obtain t st1 where "promptAdmit ex_session (ex_session_request (Decoded ''go'')) ex_session_state = (Inr t, st1)"
    using ex_prompt_admitted by blast
  then have "ss_sent (snd (handlePrompts ex_session (ex_session_request (Decoded ''go'')) ex_session_state)) \<noteq> ss_sent ex_session_state"
    using handlePrompts_up [OF _ ex_up] by simp
  from prompts_on_grounds [OF prod.collapse [symmetric] this] show ?thesis by (auto simp: ex_session_request_def)
qed

text \<open>
  C30: The guard against a second prompt does not hold under concurrency. Two prompts that would each be
  admitted, the second checked after the first has been sent but before it is recorded: both are admitted,
  both reach the adapter, as consecutive turns, and after both are recorded the status names only one of them.
\<close>

theorem concurrent_prompts_both_run:
  assumes "calm e" "adapter_up e ns name addr"
    and "promptAdmit e r1 st = (Inr t1, st1)" "promptForward e r1 t1 st1 = (resp1, st2)" "pt_ns t1 = ns" "pt_name t1 = name"
    and "promptAdmit e r2 st = (Inr u, s)" "pt_ns u = ns" "pt_name u = name"
  shows "\<exists>t2 st3 resp2 st4 run. promptAdmit e r2 st2 = (Inr t2, st3) \<and> promptForward e r2 t2 st3 = (resp2, st4)
    \<and> resp_status resp1 < 300 \<and> resp_status resp2 < 300
    \<and> pt_seq t2 = int32 (pt_seq t1 + 1)
    \<and> ss_sent st4 = prompt_out r2 t2 addr # prompt_out r1 t1 addr # ss_sent st
    \<and> ss_runs (promptRecord e t2 (promptRecord e t1 st4)) (ns, name) = Some run \<and> turnInFlight run = Some (pt_seq t2)"
proof -
  obtain caller1 run1 where a: "runForCaller e r1 (cachedGet e st GetRun) = Inr (caller1, ns, name, run1)"
    "ss_router st1 = snd (NextTurnSeq (ss_router st) ns name)" "ss_sent st1 = ss_sent st" "stores_but_leases (ss_runs st) (ss_runs st1)"
    "pt_seq t1 = int32 (rst_turnSeq (entry_of (ss_router st) (router_key ns name)) + 1)"
    using promptAdmit_Inr [OF assms(3)] assms(5,6) by metis
  obtain caller2 run2 prompt where b: "runForCaller e r2 (cachedGet e st GetRun) = Inr (caller2, ns, name, run2)"
    "checkPrompt e r2 run2 = Inr prompt" "se_hasRouter e" "se_hasAudit e \<Longrightarrow> be_auditOk (se_broker e)"
    using promptAdmit_Inr [OF assms(7)] assms(8,9) by metis
  obtain resp1' where f1: "promptForward e r1 t1 st1 = (resp1', st1\<lparr> ss_sent := prompt_out r1 t1 addr # ss_sent st1 \<rparr>)" "resp_status resp1' < 300"
    using promptForward_up [of e t1 addr r1 st1] assms(2,5,6) by auto
  then have st2: "st2 = st1\<lparr> ss_sent := prompt_out r1 t1 addr # ss_sent st \<rparr>" and resp1: "resp_status resp1 < 300"
    using assms(4) a(3) by auto
  have "ss_runs st (ns, name) = Some run2"
    using runForCaller_Inr(4) [OF b(1)] assms(1) by (simp add: calm_get lookupRun_Inr)
  from store_at [OF a(4) this] obtain run' where run': "ss_runs st2 (ns, name) = Some run'" "but_leases run2 run'"
    using st2 by auto
  then have "cachedGet e st2 GetRun ns name = Inr run'" using assms(1) by (simp add: calm_get lookupRun_def)
  from promptAdmit_accepts [OF runForCaller_get [OF b(1), where get' = "cachedGet e st2 GetRun", OF this] _ b(3,4)] checkPrompt_but_leases [OF run'(2)] b(2)
  obtain t2 st3 where t2: "promptAdmit e r2 st2 = (Inr t2, st3)" "pt_ns t2 = ns" "pt_name t2 = name" by metis
  obtain caller run where c: "pt_seq t2 = int32 (rst_turnSeq (entry_of (ss_router st2) (router_key ns name)) + 1)"
    "ss_sent st3 = ss_sent st2" "stores_but_leases (ss_runs st2) (ss_runs st3)"
    using promptAdmit_Inr [OF t2(1)] t2(2,3) by metis
  have seq: "pt_seq t2 = int32 (pt_seq t1 + 1)"
    using c(1) st2 a(2,5) by (simp add: entry_of_NextTurnSeq)
  obtain resp2 where f2: "promptForward e r2 t2 st3 = (resp2, st3\<lparr> ss_sent := prompt_out r2 t2 addr # ss_sent st3 \<rparr>)" "resp_status resp2 < 300"
    using promptForward_up [of e t2 addr r2 st3] assms(2) t2(2,3) by auto
  let ?st4 = "st3\<lparr> ss_sent := prompt_out r2 t2 addr # ss_sent st3 \<rparr>"
  obtain run'' where run'': "ss_runs ?st4 (ns, name) = Some run''" using store_at [OF c(3) run'(1)] by auto
  have "\<exists>run. ss_runs (promptRecord e t2 (promptRecord e t1 ?st4)) (ns, name) = Some run \<and> turnInFlight run = Some (pt_seq t2)"
    using recorded_turn [OF assms(1), of "promptRecord e t1 ?st4" t2] recorded_turn [OF assms(1), of ?st4 t1] run'' t2(2,3) assms(5,6) by auto
  then show ?thesis using t2 f2 seq resp1 c(2) st2 by auto
qed

theorem concurrent_prompts_both_run_witness:
  "\<exists>t1 st1 resp1 st2 t2 st3 resp2 st4.
     promptAdmit ex_session (ex_session_request (Decoded ''go'')) ex_session_state = (Inr t1, st1)
     \<and> promptForward ex_session (ex_session_request (Decoded ''go'')) t1 st1 = (resp1, st2)
     \<and> promptAdmit ex_session (ex_session_request (Decoded ''go'')) st2 = (Inr t2, st3)
     \<and> promptForward ex_session (ex_session_request (Decoded ''go'')) t2 st3 = (resp2, st4)
     \<and> pt_seq t2 = int32 (pt_seq t1 + 1) \<and> length (ss_sent st4) = 2"
proof -
  obtain t1 st1 where t1: "promptAdmit ex_session (ex_session_request (Decoded ''go'')) ex_session_state = (Inr t1, st1)"
    "pt_ns t1 = ''ns''" "pt_name t1 = ''r''"
    using ex_prompt_admitted by blast
  obtain resp1 st2 where f1: "promptForward ex_session (ex_session_request (Decoded ''go'')) t1 st1 = (resp1, st2)" by fastforce
  have "ss_sent ex_session_state = []" by (simp add: ex_session_state_def)
  with concurrent_prompts_both_run [OF ex_calm ex_up t1(1) f1 t1(2,3) t1] t1(1) f1 show ?thesis by fastforce
qed

text \<open>
  The callback at the end of a turn ends whatever turn is recorded, since it does not say which turn it is
  for. One and the same callback, for any turn number in the status, clears the turn, puts that number on the
  audit log as completed, and opens the way for the next prompt, whether or not the adapter is done.
\<close>

theorem any_callback_ends_turn:
  assumes "calm e" "se_hasAudit e" "be_auditOk (se_broker e)" "se_hasRouter e"
    and "runForCaller e c (uncachedGet e st GetRun) = Inr (caller, ns, name, run)" "allowInteract e run"
    and "turnInFlight run = Some seq"
    and "runForCaller e r (cachedGet e st GetRun) = Inr (caller', ns, name, run)" "hr_Mode run = HarnessRunModeInteractive"
    and "sq_Body r = Decoded prompt" "prompt \<noteq> []" "length prompt \<le> MaxInlinePromptBytes"
  shows "\<exists>st' t st''. handleTurnComplete e c st = (StatusOnly 202, st') \<and> completedEvent e ns name seq \<in> set (ss_audit st')
    \<and> promptAdmit e r st' = (Inr t, st'')"
proof -
  obtain i where i: "hr_Interactive run = Some i" and h: "handleTurnComplete e c st = (StatusOnly 202, tryAudit e (completedEvent e ns name seq)
      (st\<lparr> ss_runs := (ss_runs st)((ns, name) := Some (onRun (\<lambda>s. s\<lparr> hrt_Interactive := Some (idleStatus (se_now e) i) \<rparr>) run)) \<rparr>))"
    using handleTurnComplete_calm [OF assms(1,5,6,7)] by blast
  let ?run = "onRun (\<lambda>s. s\<lparr> hrt_Interactive := Some (idleStatus (se_now e) i) \<rparr>) run"
  let ?st = "tryAudit e (completedEvent e ns name seq) (st\<lparr> ss_runs := (ss_runs st)((ns, name) := Some ?run) \<rparr>)"
  have "cachedGet e ?st GetRun ns name = Inr ?run" using assms(1) by (simp add: calm_get lookupRun_def)
  note caller = runForCaller_get [OF assms(8), where get' = "cachedGet e ?st GetRun", OF this]
  have same: "hr_Spec ?run = hr_Spec run" "hr_Namespace ?run = hr_Namespace run" "turnInFlight ?run = None"
    by (simp_all add: onRun_def turnInFlight_def idleStatus_def)
  have "allowInteract e ?run" using assms(6) unfolding allowInteract_def runCapabilities_def same(1,2) .
  then have "checkPrompt e r ?run = Inr prompt"
    using assms(9-12) same by (simp add: checkPrompt_def)
  then obtain t st'' where "promptAdmit e r ?st = (Inr t, st'')"
    using promptAdmit_accepts [OF caller _ assms(4)] assms(3) by blast
  moreover have "completedEvent e ns name seq \<in> set (ss_audit ?st)"
    using assms(2,3) by (simp add: tryAudit_def emitAudit_def)
  ultimately show ?thesis using h by blast
qed

definition ex_turn_run :: HarnessRun where
  "ex_turn_run = onRun (\<lambda>s. s\<lparr> hrt_Interactive := Some (zeroInteractive\<lparr> ist_CurrentTurnSeq := Some 7 \<rparr>) \<rparr>) ex_session_run"

theorem any_callback_ends_turn_witness:
  "\<exists>st' t st''. handleTurnComplete ex_session (ex_session_request (Decoded ()))
       (ex_session_state\<lparr> ss_runs := (\<lambda>_. Some ex_turn_run) \<rparr>) = (StatusOnly 202, st')
     \<and> completedEvent ex_session ''ns'' ''r'' 7 \<in> set (ss_audit st')
     \<and> promptAdmit ex_session (ex_session_request (Decoded ''go'')) st' = (Inr t, st'')"
proof -
  let ?st = "ex_session_state\<lparr> ss_runs := (\<lambda>_. Some ex_turn_run) \<rparr>"
  have run: "ss_runs ?st (''ns'', ''r'') = Some ex_turn_run" by simp
  obtain c1 where c1: "runForCaller ex_session (ex_session_request (Decoded ())) (uncachedGet ex_session ?st GetRun) = Inr (c1, ''ns'', ''r'', ex_turn_run)"
    using ex_runForCaller [OF run, of "Decoded ()" GetRun] by blast
  obtain c2 where c2: "runForCaller ex_session (ex_session_request (Decoded ''go'')) (cachedGet ex_session ?st GetRun) = Inr (c2, ''ns'', ''r'', ex_turn_run)"
    using ex_runForCaller [OF run, of "Decoded ''go''" GetRun] by blast
  have env: "se_hasAudit ex_session" "be_auditOk (se_broker ex_session)" "se_hasRouter ex_session"
    by (simp_all add: ex_session_def ex_env_def)
  have "allowInteract ex_session ex_turn_run" by code_simp
  moreover have "turnInFlight ex_turn_run = Some 7" "hr_Mode ex_turn_run = HarnessRunModeInteractive"
    by (simp_all add: ex_turn_run_def onRun_def turnInFlight_def ex_session_run_def ex_run_def ex_run_spec_def)
  moreover have "sq_Body (ex_session_request (Decoded ''go'')) = Decoded ''go''" "length ''go'' \<le> MaxInlinePromptBytes" "''go'' \<noteq> []"
    by (simp_all add: ex_session_request_def MaxInlinePromptBytes_def)
  ultimately show ?thesis using any_callback_ends_turn [OF ex_calm env c1 _ _ c2] by blast
qed

section \<open>Attached sessions\<close>

text \<open>
  Every order of streams that open and close, prompts that take a number and reads of the count; \<open>open\<close> lists
  the runs of the open streams. A stream closes once, and only after it has opened; there are never more
  than an \<open>int32\<close> can count.
\<close>

inductive router_run :: "router_state \<Rightarrow> (string \<times> string) list \<Rightarrow> bool" where
  router_new: "router_run [] []"
| router_attach: "router_run st open \<Longrightarrow> length open < 2147483647 \<Longrightarrow> router_run (OnAttach st ns name) ((ns, name) # open)"
| router_detach: "router_run st open \<Longrightarrow> (ns, name) \<in> set open \<Longrightarrow> router_run (OnDetach st ns name) (remove1 (ns, name) open)"
| router_turn: "router_run st open \<Longrightarrow> router_run (snd (NextTurnSeq st ns name)) open"
| router_count: "router_run st open \<Longrightarrow> router_run (snd (AttachedCount st ns name)) open"

definition streams_at :: "string \<Rightarrow> (string \<times> string) list \<Rightarrow> nat" where
  "streams_at k open = length (filter (\<lambda>(ns, name). router_key ns name = k) open)"

lemma streams_at_remove1:
  "(ns, name) \<in> set open \<Longrightarrow>
   streams_at k open = (if router_key ns name = k then Suc (streams_at k (remove1 (ns, name) open)) else streams_at k (remove1 (ns, name) open))"
  by (induction "open") (auto simp: streams_at_def split: if_splits)

lemma router_run_count:
  assumes "router_run st open"
  shows "length open < 2147483648 \<and> rst_attached (entry_of st k) = int (streams_at k open)"
  using assms
proof (induction arbitrary: k rule: router_run.induct)
  case router_new
  show ?case by (simp add: entry_of_def streams_at_def)
next
  case (router_attach st "open" ns name)
  have "streams_at k open \<le> length open" by (simp add: streams_at_def)
  then have "int32 (int (streams_at k open) + 1) = int (streams_at k open) + 1"
    using router_attach.hyps(2) by (intro int32_id) auto
  then show ?case using router_attach by (auto simp: entry_of_OnAttach streams_at_def)
next
  case (router_detach st "open" ns name)
  have "streams_at k open \<le> length open" by (simp add: streams_at_def)
  then have "int32 (int (streams_at k open) - 1) = int (streams_at k open) - 1"
    using router_detach.IH [of k] by (intro int32_id) auto
  then show ?case
    using router_detach.IH [of k] streams_at_remove1 [OF router_detach.hyps(2), of k]
    by (auto simp: entry_of_OnDetach Let_def length_remove1)
qed (auto simp: entry_of_NextTurnSeq entry_of_AttachedCount)

text \<open>
  C33: However streams and prompts interleave, the count of sessions the broker writes into a run's status is the
  number of streams open on that run, for runs whose namespaces hold no slash, as Kubernetes' names do not.
\<close>

theorem attached_count_exact:
  assumes "router_run st open" "CHR ''/'' \<notin> set ns" "\<forall>(ns', name') \<in> set open. CHR ''/'' \<notin> set ns'"
  shows "fst (AttachedCount st ns name) = int (length (filter (\<lambda>s. s = (ns, name)) open))"
proof -
  have "router_key ns' name' = router_key ns name \<longleftrightarrow> (ns', name') = (ns, name)" if "(ns', name') \<in> set open" for ns' name'
    using router_key_inj [of ns' ns name' name] assms(2,3) that by auto
  then have "filter (\<lambda>(ns', name'). router_key ns' name' = router_key ns name) open = filter (\<lambda>s. s = (ns, name)) open"
    by (intro filter_cong) auto
  then show ?thesis
    using router_run_count [OF assms(1), of "router_key ns name"] by (simp add: entry_of_AttachedCount streams_at_def)
qed

theorem attached_count_exact_witness:
  "fst (AttachedCount (OnDetach (OnAttach (OnAttach [] ''ns'' ''r'') ''ns'' ''r'') ''ns'' ''r'') ''ns'' ''r'') = 1"
proof -
  have "router_run (OnAttach (OnAttach [] ''ns'' ''r'') ''ns'' ''r'') [(''ns'', ''r''), (''ns'', ''r'')]"
    by (intro router_attach router_new) simp_all
  then have "router_run (OnDetach (OnAttach (OnAttach [] ''ns'' ''r'') ''ns'' ''r'') ''ns'' ''r'') (remove1 (''ns'', ''r'') [(''ns'', ''r''), (''ns'', ''r'')])"
    by (rule router_detach) simp
  from attached_count_exact [OF this, of "''ns''" "''r''"] show ?thesis by simp
qed

section \<open>Pods\<close>

text \<open>
  The two selections of a run's pod, the scan that finds the adapter and the stable sort that finds the pod
  for a shell, agree when every pod that is not going away has a name and an address.
\<close>

theorem pod_selections_agree:
  assumes "listPods ns name = Inr pods" "\<forall>p \<in> set pods. \<not> pd_Deleting p \<longrightarrow> pd_Name p \<noteq> [] \<and> pd_PodIP p \<noteq> []"
  shows "(case resolveRunPod listPods ns name of
      Inl _ \<Rightarrow> \<exists>err. adapterResolver listPods ns name = Inl err
    | Inr pod \<Rightarrow> \<exists>p \<in> set pods. pd_Name p = pod \<and> \<not> pd_Deleting p \<and> adapterResolver listPods ns name = Inr (pd_PodIP p @ '':8431''))"
proof -
  have same: "filter (\<lambda>p. pd_Name p \<noteq> [] \<and> \<not> pd_Deleting p) pods = filter selectable pods"
    using assms(2) by (intro filter_cong) (auto simp: selectable_def)
  show ?thesis
  proof (cases "filter selectable pods = []")
    case True
    then show ?thesis using assms(1) same by (simp add: resolveRunPod_def adapterResolver_def bestPod_sort)
  next
    case False
    let ?p = "hd (sort_key pod_rank (filter selectable pods))"
    have "?p \<in> set (sort_key pod_rank (filter selectable pods))" using False by (intro hd_in_set) simp
    then have "?p \<in> set pods" "\<not> pd_Deleting ?p" by (auto simp: selectable_def)
    then show ?thesis using False assms(1) same by (auto simp: resolveRunPod_def adapterResolver_def bestPod_sort)
  qed
qed

definition ex_pods :: "pod_view list" where
  "ex_pods =
     [\<lparr> pd_Name = ''a'', pd_Deleting = False, pd_Phase = ''Pending'', pd_PodIP = ''1.1.1.1'', pd_Created = 3 \<rparr>,
      \<lparr> pd_Name = ''b'', pd_Deleting = False, pd_Phase = ''Running'', pd_PodIP = ''1.1.1.2'', pd_Created = 2 \<rparr>]"

theorem pod_selections_agree_witness:
  "\<exists>p \<in> set ex_pods. pd_Name p = ''b'' \<and> adapterResolver (\<lambda>_ _. Inr ex_pods) ''ns'' ''r'' = Inr (pd_PodIP p @ '':8431'')"
proof -
  have "resolveRunPod (\<lambda>_ _. Inr ex_pods) ''ns'' ''r'' = Inr ''b''" by code_simp
  then show ?thesis using pod_selections_agree [of "\<lambda>_ _. Inr ex_pods" "''ns''" "''r''" ex_pods] by (simp add: ex_pods_def)
qed

section \<open>Rate limit\<close>

text \<open>
  C32: Dropping idle entries from the registry of rate limiters goes unnoticed: every request of every history gets
  the answer it would get if nothing were ever dropped. The bucket is only assumed to be as full as a new
  one after it has rested for its burst over its rate.
\<close>

theorem sweep_unobservable:
  assumes "bucket_refills lim" "sorted (map fst events)"
  shows "limiter_answers lim [] events = limiter_answers lim [] (no_ticks events)"
proof (cases events)
  case (Cons x xs)
  then show ?thesis
    using assms by (intro answers_track [of _ _ "fst x"]) (auto simp: tracks_def)
qed (simp add: no_ticks_def)

theorem sweep_unobservable_witness:
  "limiter_answers token_bucket [] [(0, Ask ''ns'' ''r'' ''issue''), (400 * second, Tick), (401 * second, Ask ''ns'' ''r'' ''issue'')] =
   limiter_answers token_bucket [] [(0, Ask ''ns'' ''r'' ''issue''), (401 * second, Ask ''ns'' ''r'' ''issue'')]"
  using sweep_unobservable [OF token_bucket_refills, of "[(0, Ask ''ns'' ''r'' ''issue''), (400 * second, Tick), (401 * second, Ask ''ns'' ''r'' ''issue'')]"]
  by (simp add: no_ticks_def second_def)

section \<open>Restart\<close>

text \<open>
  C31: A restart of the broker does not lend a token twice. For every unexpired lease of a live run on a pool of
  tokens, start-up reserves its slot; as long as the pool's Secret keeps its content, no later \<open>Issue\<close> hands that
  slot out, whatever is issued, substituted or revoked in between.
\<close>

theorem restart_avoids_live_slots:
  assumes "ReconstructLeases k now reg (ps\<lparr> ps_patpool := [] \<rparr>) = (Inr (), ps')" "LookupProvider reg ''PATPool'' = Some PATPool"
    and "listRuns k = Inr runs" "run \<in> set runs" "\<not> isTerminalPhase (hr_Phase run)" "lease \<in> set (hr_IssuedLeases run)"
    and "restorable k now run lease ref entries"
    and "steady (leasePoolKey run ref) entries (ps_patpool ps') st" "shows_pool (pe_kube e) (leasePoolKey run ref) entries"
    and "patIssue e st req = (Inr res, st')" "pc_SecretRef (cg_Provider (iq_Grant req)) = Some sref" "pool_key req sref = leasePoolKey run ref"
  shows "ir_PoolSlotIndex res \<noteq> Some (plr_SlotIndex ref)"
proof -
  have "reserved (ps_patpool ps') (leasePoolKey run ref) entries (nat (plr_SlotIndex ref)) \<and> patpool_inv (ps_patpool ps')"
    by (rule ReconstructLeases_reserves [OF assms(1-7)])
  then have "patpool_inv st \<and> reserved st (leasePoolKey run ref) entries (nat (plr_SlotIndex ref))"
    using steady_reserved [OF assms(8)] by blast
  then have "ir_PoolSlotIndex res \<noteq> Some (int (nat (plr_SlotIndex ref)))"
    using reserved_issue [OF _ _ assms(9,10)] assms(11,12) by blast
  then show ?thesis using assms(7) by (simp add: restorable_def inRange_def)
qed

definition ex_restart_ref :: PoolLeaseRef where
  "ex_restart_ref = \<lparr> plr_SecretRef = ex_secretRef, plr_SlotIndex = 0 \<rparr>"

definition ex_restart_lease :: IssuedLease where
  "ex_restart_lease = \<lparr> il_Provider = ''PATPool'', il_LeaseID = ''pat-1'', il_CredentialName = ''c'', il_ExpiresAt = None, il_PoolRef = Some ex_restart_ref \<rparr>"

definition ex_restart_run :: HarnessRun where
  "ex_restart_run = ex_run\<lparr> hr_Status := ex_run_status\<lparr> hrt_IssuedLeases := [ex_restart_lease] \<rparr> \<rparr>"

definition ex_restart_kube :: kube where
  "ex_restart_kube = ex_kube\<lparr> listRuns := Inr [ex_restart_run],
     getSecret := (\<lambda>_ _. Inr \<lparr> sec_Data = [(''k'', ''p1'' @ [CHR 0x0A] @ ''p2'')], sec_ResourceVersion = ''1'' \<rparr>) \<rparr>"

definition ex_restart_request :: IssueRequest where
  "ex_restart_request = ex_issueRequest\<lparr> iq_Grant := ex_grant\<lparr> cg_Provider := ex_provider\<lparr> pc_Kind := ''PATPool'' \<rparr> \<rparr> \<rparr>"

theorem restart_avoids_live_slots_witness:
  "ir_PoolSlotIndex (case fst (patIssue (ex_prov_env\<lparr> pe_kube := ex_restart_kube \<rparr>)
      (ps_patpool (snd (ReconstructLeases ex_restart_kube 5 (be_registry ex_env) (provs_init [] [])))) ex_restart_request) of Inr res \<Rightarrow> res)
   \<noteq> Some 0"
proof -
  let ?e = "ex_prov_env\<lparr> pe_kube := ex_restart_kube \<rparr>"
  let ?ps = "snd (ReconstructLeases ex_restart_kube 5 (be_registry ex_env) (provs_init [] []))"
  let ?key = "leasePoolKey ex_restart_run ex_restart_ref"
  have start: "(provs_init [] [])\<lparr> ps_patpool := [] \<rparr> = provs_init [] []" by (simp add: provs_init_def reserveAll_def)
  have read: "readPool ex_restart_kube ''ns'' ''s'' ''k'' = Inr [''p1'', ''p2'']" by code_simp
  have rec: "ReconstructLeases ex_restart_kube 5 (be_registry ex_env) ((provs_init [] [])\<lparr> ps_patpool := [] \<rparr>) = (Inr (), ?ps)"
    unfolding start
  proof -
    have "fst (ReconstructLeases ex_restart_kube 5 (be_registry ex_env) (provs_init [] [])) = Inr ()"
      by (simp add: ReconstructLeases_def ex_restart_kube_def LookupProvider_def ex_env_def)
    then show "ReconstructLeases ex_restart_kube 5 (be_registry ex_env) (provs_init [] []) = (Inr (), ?ps)"
      unfolding prod_eq_iff fst_conv snd_conv by blast
  qed
  have rest: "restorable ex_restart_kube 5 ex_restart_run ex_restart_lease ex_restart_ref [''p1'', ''p2'']"
    using read by (simp add: restorable_def ex_restart_lease_def ex_restart_ref_def ex_restart_run_def ex_run_def ex_secretRef_def inRange_def)
  have sh: "shows_pool (pe_kube ?e) ?key [''p1'', ''p2'']"
    using read by (simp add: shows_pool_def leasePoolKey_def ex_restart_run_def ex_run_def ex_restart_ref_def ex_secretRef_def)
  obtain res st' where issue: "patIssue ?e (ps_patpool ?ps) ex_restart_request = (Inr res, st')"
  proof -
    have "ps_patpool ?ps = [(?key, \<lparr> pp_entries = [''p1'', ''p2''], pp_leased = [True, False], pp_byBearer = [] \<rparr>)]" by code_simp
    moreover have "isl (fst (patIssue ?e [(?key, \<lparr> pp_entries = [''p1'', ''p2''], pp_leased = [True, False], pp_byBearer = [] \<rparr>)] ex_restart_request)) = False"
      by code_simp
    ultimately have "isl (fst (patIssue ?e (ps_patpool ?ps) ex_restart_request)) = False" by simp
    then show thesis using that by (metis prod.collapse sum.collapse(2))
  qed
  have reg: "LookupProvider (be_registry ex_env) ''PATPool'' = Some PATPool" by (simp add: ex_env_def LookupProvider_def)
  have runs: "listRuns ex_restart_kube = Inr [ex_restart_run]" by (simp add: ex_restart_kube_def)
  have run: "ex_restart_run \<in> set [ex_restart_run]" by simp
  have live: "\<not> isTerminalPhase (hr_Phase ex_restart_run)" "ex_restart_lease \<in> set (hr_IssuedLeases ex_restart_run)"
    by (simp_all add: ex_restart_run_def ex_run_status_def isTerminalPhase_def)
  have ref: "pc_SecretRef (cg_Provider (iq_Grant ex_restart_request)) = Some ex_secretRef" "pool_key ex_restart_request ex_secretRef = ?key"
    by (simp_all add: ex_restart_request_def ex_provider_def pool_key_def leasePoolKey_def ex_issueRequest_def ex_restart_run_def ex_run_def ex_restart_ref_def)
  have "ir_PoolSlotIndex res \<noteq> Some (plr_SlotIndex ex_restart_ref)"
    by (rule restart_avoids_live_slots [OF rec reg runs run live rest steady_start sh issue ref])
  then show ?thesis using issue by (simp add: ex_restart_ref_def)
qed

section \<open>Shells and ends\<close>



text \<open>
  The reason of an end that goes on the audit log, for a reason in ASCII, holds printable characters only and
  at most 256 of them.
\<close>

theorem end_reason_bounded:
  assumes "ascii s"
  shows "printable (sanitizeReason s) \<and> length (sanitizeReason s) \<le> maxReasonBytes"
proof (cases "TrimSpace s = []")
  case False
  have "ascii (TrimSpace s)" using assms TrimSpace_subset(1) [of s] by (auto simp: ascii_def)
  then have "printable (sanitizeLoop [] (TrimSpace s)) \<and> length (sanitizeLoop [] (TrimSpace s)) \<le> maxReasonBytes"
    by (rule sanitizeLoop_ascii) (simp_all add: printable_def)
  then show ?thesis
    using False TrimSpace_subset [of "sanitizeLoop [] (TrimSpace s)"] by (auto simp: sanitizeReason_def printable_def)
qed (simp add: sanitizeReason_def printable_def)

theorem end_reason_bounded_witness: "printable (sanitizeReason (''bye'' @ [CHR 0x0A] @ ''now''))"
  using end_reason_bounded [of "''bye'' @ [CHR 0x0A] @ ''now''"] by (simp add: ascii_def)

end
