(* ===== verification/Net_Init.thy ===== *)
theory Net_Init
  imports Controller_Pod Go_Net "HOL-Library.Sublist"
begin

text \<open>
  \<open>cmd/iptables-init\<close>, the init container of transparent mode: it parses its flags and installs the
  rules that send the pod's traffic to the proxy. The \<open>iptables\<close> program is a parameter, a function
  from its arguments and the state of the pod's network to an error and a new state; the locale
  \<open>netfilter\<close> states what its manual promises of the four commands the code uses. A rule is the list of
  its arguments. What a list of rules does to a packet is defined at the end of the theory, for the
  matches and targets that the code installs.
\<close>

section \<open>Running a command\<close>

text \<open>The error of \<open>exec.Cmd.Run\<close>: a failed exit with its code, or no start at all.\<close>

datatype cmd_error = ExitError int error_msg | CmdFailed error_msg

primrec cmd_text :: "cmd_error \<Rightarrow> error_msg" where
  "cmd_text (ExitError code m) = m"
| "cmd_text (CmdFailed m) = m"

type_synonym 's rulesRunner = "string list \<Rightarrow> 's \<Rightarrow> cmd_error option \<times> 's"

text \<open>What the process sees: the pod's network and its standard output, line by line.\<close>

type_synonym 'k initWorld = "'k \<times> string list"

definition realRunner :: "'k rulesRunner \<Rightarrow> 'k initWorld rulesRunner" where
  "realRunner iptables args w = (case iptables args (fst w) of (e, k') \<Rightarrow> (e, (k', snd w)))"

definition iptablesBinary :: string where
  "iptablesBinary = ''iptables''"

definition printRunner :: "'k initWorld rulesRunner" where
  "printRunner args w =
     (if ''-C'' \<in> set args then Some (CmdFailed ''dry-run: pretend -C missed'') else None,
      (fst w, snd w @ [iptablesBinary @ '' '' @ Join args '' '']))"

section \<open>Flags\<close>

record initFlags =
  fl_bypassUIDs :: string
  fl_proxyPort :: int
  fl_ports :: string
  fl_dryRun :: bool

definition defaultProxyPort :: int where
  "defaultProxyPort = 15001"

definition defaultFlags :: initFlags where
  "defaultFlags = \<lparr> fl_bypassUIDs = [], fl_proxyPort = defaultProxyPort, fl_ports = ''80,443'', fl_dryRun = False \<rparr>"

text \<open>
  \<open>flag.Parse\<close> on arguments of the form \<open>--name=value\<close>, the form in which the controller passes them, with
  decimal numbers. The result is \<open>None\<close> where the package would exit, and for the other forms it reads.
\<close>

fun parseFlags :: "string list \<Rightarrow> initFlags \<Rightarrow> initFlags option" where
  "parseFlags [] fl = Some fl"
| "parseFlags (a # as) fl =
     (if HasPrefix a ''--bypass-uids='' then parseFlags as (fl\<lparr> fl_bypassUIDs := TrimPrefix a ''--bypass-uids='' \<rparr>)
      else if HasPrefix a ''--ports='' then parseFlags as (fl\<lparr> fl_ports := TrimPrefix a ''--ports='' \<rparr>)
      else if HasPrefix a ''--proxy-port=''
      then (case Atoi (TrimPrefix a ''--proxy-port='') of
              Inl _ \<Rightarrow> None
            | Inr n \<Rightarrow> parseFlags as (fl\<lparr> fl_proxyPort := n \<rparr>))
      else if a = ''--dry-run=true'' then parseFlags as (fl\<lparr> fl_dryRun := True \<rparr>)
      else if a = ''--dry-run=false'' then parseFlags as (fl\<lparr> fl_dryRun := False \<rparr>)
      else None)"

text \<open>The loop of \<open>parseBypassUIDs\<close>; its map \<open>seen\<close> holds the members of \<open>out\<close>.\<close>

fun bypassLoop :: "string list \<Rightarrow> int list \<Rightarrow> error_msg + int list" where
  "bypassLoop [] out = Inr out"
| "bypassLoop (raw0 # rest) out =
     (let raw = TrimSpace raw0
      in if raw = [] then bypassLoop rest out
         else (case Atoi raw of
                 Inl e \<Rightarrow> Inl (''UID '' @ fmt_q raw @ '' is not an integer: '' @ e)
               | Inr uid \<Rightarrow>
                   if uid \<in> set out then Inl (''duplicate UID '' @ fmt_d uid)
                   else bypassLoop rest (out @ [uid])))"

definition parseBypassUIDs :: "string \<Rightarrow> error_msg + int list" where
  "parseBypassUIDs csv0 =
     (let csv = TrimSpace csv0
      in if csv = [] then Inl ''--bypass-uids must be non-empty (must include the proxy UID at minimum)''
         else bypassLoop (SplitByte csv CHR '','') [])"

definition splitPorts :: "string \<Rightarrow> string list" where
  "splitPorts csv = filter (\<lambda>p. p \<noteq> []) (map TrimSpace (SplitByte csv CHR '',''))"

section \<open>Rules\<close>

definition defaultChainName :: string where
  "defaultChainName = ''PADDOCK_OUTPUT''"

definition loopbackCIDR :: string where
  "loopbackCIDR = ''127.0.0.0/8''"

definition ensureChain :: "'s rulesRunner \<Rightarrow> string \<Rightarrow> 's \<Rightarrow> cmd_error option \<times> 's" where
  "ensureChain runner chain s =
     (case runner [''-t'', ''nat'', ''-N'', chain] s of
        (None, s') \<Rightarrow> (None, s')
      | (Some (ExitError code m), s') \<Rightarrow> (if code = 1 then None else Some (ExitError code m), s')
      | (Some e, s') \<Rightarrow> (Some e, s'))"

fun checkArgs :: "string list \<Rightarrow> string list" where
  "checkArgs [] = []"
| "checkArgs (a # as) = (if a = ''-A'' then ''-C'' # as else a # checkArgs as)"

definition appendIfMissing :: "'s rulesRunner \<Rightarrow> string list \<Rightarrow> 's \<Rightarrow> cmd_error option \<times> 's" where
  "appendIfMissing runner args s =
     (case runner (checkArgs args) s of
        (None, s') \<Rightarrow> (None, s')
      | (Some _, s') \<Rightarrow> runner args s')"

definition ownerSpec :: "int \<Rightarrow> string list" where
  "ownerSpec uid = [''-m'', ''owner'', ''--uid-owner'', fmt_d uid, ''-j'', ''RETURN'']"

definition loopbackSpec :: "string list" where
  "loopbackSpec = [''-d'', loopbackCIDR, ''-j'', ''RETURN'']"

definition redirectSpec :: "int \<Rightarrow> string \<Rightarrow> string list" where
  "redirectSpec proxyPort port = [''-p'', ''tcp'', ''--dport'', port, ''-j'', ''REDIRECT'', ''--to-ports'', fmt_d proxyPort]"

definition appendArgs :: "string list \<Rightarrow> string list" where
  "appendArgs spec = [''-t'', ''nat'', ''-A'', defaultChainName] @ spec"

text \<open>A loop that appends one rule per element and wraps the first error.\<close>

fun appendEach :: "('a \<Rightarrow> string list) \<Rightarrow> ('a \<Rightarrow> string) \<Rightarrow> 's rulesRunner \<Rightarrow> 'a list \<Rightarrow> 's \<Rightarrow> error_msg option \<times> 's" where
  "appendEach spec what runner [] s = (None, s)"
| "appendEach spec what runner (x # xs) s =
     (case appendIfMissing runner (appendArgs (spec x)) s of
        (None, s') \<Rightarrow> appendEach spec what runner xs s'
      | (Some e, s') \<Rightarrow> (Some (what x @ '': '' @ cmd_text e), s'))"

definition ownerWhat :: "int \<Rightarrow> string" where
  "ownerWhat uid = ''owner RETURN uid='' @ fmt_d uid"

definition redirectWhat :: "string \<Rightarrow> string" where
  "redirectWhat port = ''REDIRECT for :'' @ port"

definition installRules ::
  "'s rulesRunner \<Rightarrow> int list \<Rightarrow> string list \<Rightarrow> int \<Rightarrow> 's \<Rightarrow> error_msg option \<times> 's" where
  "installRules runner uids dports proxyPort s0 =
     (case appendEach ownerSpec ownerWhat runner uids s0 of
        (Some e, s) \<Rightarrow> (Some e, s)
      | (None, s1) \<Rightarrow>
          (case appendIfMissing runner (appendArgs loopbackSpec) s1 of
             (Some e, s) \<Rightarrow> (Some (''loopback RETURN: '' @ cmd_text e), s)
           | (None, s2) \<Rightarrow> appendEach (redirectSpec proxyPort) redirectWhat runner dports s2))"

definition jumpSpec :: "string list" where
  "jumpSpec = [''-p'', ''tcp'', ''-j'', defaultChainName]"

text \<open>The check and the insertion of the jump, in line in \<open>main\<close>.\<close>

definition insertJump :: "'s rulesRunner \<Rightarrow> 's \<Rightarrow> cmd_error option \<times> 's" where
  "insertJump runner s =
     (case runner ([''-t'', ''nat'', ''-C'', ''OUTPUT''] @ jumpSpec) s of
        (None, s') \<Rightarrow> (None, s')
      | (Some _, s') \<Rightarrow> runner ([''-t'', ''nat'', ''-I'', ''OUTPUT'', ''1''] @ jumpSpec) s')"

text \<open>The body of \<open>main\<close> after the flags: \<open>None\<close> is exit 0, \<open>Some\<close> the text given to \<open>fatal\<close>, which exits 1.\<close>

definition installAll :: "'s rulesRunner \<Rightarrow> int list \<Rightarrow> string list \<Rightarrow> int \<Rightarrow> 's \<Rightarrow> error_msg option \<times> 's" where
  "installAll runner uids dports proxyPort s0 =
     (case ensureChain runner defaultChainName s0 of
        (Some e, s) \<Rightarrow> (Some (''ensure chain: '' @ cmd_text e), s)
      | (None, s1) \<Rightarrow>
          (case insertJump runner s1 of
             (Some e, s) \<Rightarrow> (Some (''install OUTPUT jump: '' @ cmd_text e), s)
           | (None, s2) \<Rightarrow>
               (case installRules runner uids dports proxyPort s2 of
                  (Some e, s) \<Rightarrow> (Some (''install rules: '' @ e), s)
                | (None, s) \<Rightarrow> (None, s))))"

definition initMain :: "'k rulesRunner \<Rightarrow> initFlags \<Rightarrow> 'k initWorld \<Rightarrow> error_msg option \<times> 'k initWorld" where
  "initMain iptables fl w0 =
     (case parseBypassUIDs (fl_bypassUIDs fl) of
        Inl e \<Rightarrow> (Some (''parse --bypass-uids: '' @ e), w0)
      | Inr uids \<Rightarrow>
          (let runner = (if fl_dryRun fl then printRunner else realRunner iptables)
           in case installAll runner uids (splitPorts (fl_ports fl)) (fl_proxyPort fl) w0 of
                (Some e, w) \<Rightarrow> (Some e, w)
              | (None, w) \<Rightarrow>
                  (None, (fst w, snd w @
                    [''iptables-init: installed REDIRECT chain '' @ fmt_q defaultChainName @ '' (ports='' @ fl_ports fl
                     @ '', proxy='' @ fmt_d (fl_proxyPort fl) @ '', bypass-uids='' @ fmt_v (map fmt_d uids) @ '')'']))))"

text \<open>The rules in the order in which they are appended.\<close>

definition wantedRules :: "int list \<Rightarrow> string list \<Rightarrow> int \<Rightarrow> string list list" where
  "wantedRules uids dports proxyPort = map ownerSpec uids @ [loopbackSpec] @ map (redirectSpec proxyPort) dports"

section \<open>What iptables promises\<close>

text \<open>
  \<open>chain k c\<close> is the list of rules of chain \<open>c\<close> of the table \<open>nat\<close>. A command that fails, for whatever
  reason, changes nothing; one that succeeds does what it is for. Nothing is said of when a command
  succeeds, so a check may fail on a rule that is there.
\<close>

locale netfilter =
  fixes run :: "'k rulesRunner"
    and chain :: "'k \<Rightarrow> string \<Rightarrow> string list list option"
  assumes new_chain:
      "run [''-t'', ''nat'', ''-N'', c] k = (r, k') \<Longrightarrow>
       chain k' = (if r = None then (chain k)(c \<mapsto> []) else chain k) \<and> (r = None \<longrightarrow> chain k c = None)"
    and check_rule:
      "run ([''-t'', ''nat'', ''-C'', c] @ spec) k = (r, k') \<Longrightarrow>
       chain k' = chain k \<and> (r = None \<longrightarrow> (\<exists>rs. chain k c = Some rs \<and> spec \<in> set rs))"
    and append_rule:
      "run ([''-t'', ''nat'', ''-A'', c] @ spec) k = (r, k') \<Longrightarrow>
       (if r = None then \<exists>rs. chain k c = Some rs \<and> chain k' = (chain k)(c \<mapsto> rs @ [spec]) else chain k' = chain k)"
    and insert_rule:
      "run ([''-t'', ''nat'', ''-I'', c, ''1''] @ spec) k = (r, k') \<Longrightarrow>
       (if r = None then \<exists>rs. chain k c = Some rs \<and> chain k' = (chain k)(c \<mapsto> spec # rs) else chain k' = chain k)"


section \<open>First occurrences\<close>

text \<open>
  A rule that is repeated further down its chain never decides anything, so a chain is read through the
  first occurrences of its rules.
\<close>

definition firsts :: "'a list \<Rightarrow> 'a list" where
  "firsts xs = rev (remdups (rev xs))"

lemma set_firsts [simp]: "set (firsts xs) = set xs"
  by (simp add: firsts_def)

lemma firsts_snoc: "firsts (xs @ [x]) = (if x \<in> set xs then firsts xs else firsts xs @ [x])"
  by (simp add: firsts_def)

lemma firsts_distinct: "distinct xs \<Longrightarrow> firsts xs = xs"
  by (simp add: firsts_def distinct_remdups_id)

lemma firsts_append: "firsts (xs @ ys) = firsts xs @ filter (\<lambda>y. y \<notin> set xs) (firsts ys)"
proof (induction ys rule: rev_induct)
  case (snoc y ys)
  then show ?case by (auto simp: firsts_snoc simp flip: append_assoc)
qed (simp add: firsts_def)

text \<open>A prefix of the wanted rules that holds all the earlier ones and not the next ends just before it.\<close>

lemma prefix_stops:
  assumes "prefix ps (firsts (before @ d # after))" "set before \<subseteq> set ps" "d \<notin> set ps"
  shows "ps = firsts before"
proof -
  from assms have "d \<notin> set before" by auto
  then obtain rest where eq: "firsts (before @ d # after) = firsts before @ d # rest"
  proof -
    have "firsts (d # after) = d # filter (\<lambda>y. y \<noteq> d) (firsts after)"
      using firsts_append [of "[d]" after] by (simp add: firsts_def)
    then show thesis using that \<open>d \<notin> set before\<close> by (simp add: firsts_append)
  qed
  from assms(1) obtain zs where zs: "ps @ zs = firsts before @ d # rest" unfolding eq by (auto simp: prefix_def)
  then have ps: "ps = take (length ps) (firsts before @ d # rest)" by (metis append_eq_conv_conj)
  have "length ps \<le> length (firsts before)"
  proof (rule ccontr)
    assume "\<not> length ps \<le> length (firsts before)"
    then have "d \<in> set (take (length ps) (firsts before @ d # rest))"
      by (cases "length ps - length (firsts before)") simp_all
    with ps assms(3) show False by simp
  qed
  moreover have "length (firsts before) \<le> length ps"
  proof -
    have "length (firsts before) = card (set before)" by (simp add: firsts_def length_remdups_card_conv)
    also have "\<dots> \<le> card (set ps)" using assms(2) by (simp add: card_mono)
    finally show ?thesis using card_length [of ps] by simp
  qed
  ultimately show ?thesis using ps by simp
qed

section \<open>Installing\<close>

text \<open>The loops of \<open>installRules\<close> as one pass over the wanted rules, their messages aside.\<close>

fun appendAll :: "'s rulesRunner \<Rightarrow> string list list \<Rightarrow> 's \<Rightarrow> bool \<times> 's" where
  "appendAll runner [] s = (True, s)"
| "appendAll runner (r # rs) s =
     (case appendIfMissing runner (appendArgs r) s of
        (None, s') \<Rightarrow> appendAll runner rs s'
      | (Some _, s') \<Rightarrow> (False, s'))"

lemma appendAll_append:
  "appendAll runner (rs @ rs') s =
     (case appendAll runner rs s of (True, s') \<Rightarrow> appendAll runner rs' s' | (False, s') \<Rightarrow> (False, s'))"
  by (induction rs arbitrary: s) (auto split: prod.splits option.splits)

lemma appendEach_appendAll:
  "appendAll runner (map spec xs) s = (fst (appendEach spec what runner xs s) = None, snd (appendEach spec what runner xs s))"
  by (induction xs arbitrary: s) (auto split: prod.splits option.splits)

lemma installRules_appendAll:
  "appendAll runner (wantedRules uids dports port) s =
     (fst (installRules runner uids dports port s) = None, snd (installRules runner uids dports port s))"
  by (auto simp: wantedRules_def appendAll_append installRules_def
        appendEach_appendAll [where what = ownerWhat]
        appendEach_appendAll [where what = redirectWhat]
      split: prod.splits option.splits bool.splits)

context netfilter
begin

lemma ensureChain_effect:
  assumes "ensureChain run c k = (r, k')"
  shows "chain k' = chain k \<or> (chain k c = None \<and> chain k' = (chain k)(c \<mapsto> []))"
  using assms new_chain [of c k]
  by (auto simp: ensureChain_def split: prod.splits option.splits cmd_error.splits if_splits)

lemma insertJump_effect:
  assumes "insertJump run k = (r, k')"
  shows "chain k' = chain k \<or> (\<exists>rs. chain k ''OUTPUT'' = Some rs \<and> chain k' = (chain k)(''OUTPUT'' \<mapsto> jumpSpec # rs))"
    and "r = None \<Longrightarrow> \<exists>rs. chain k' ''OUTPUT'' = Some rs \<and> jumpSpec \<in> set rs"
proof -
  obtain r1 k1 where c: "run ([''-t'', ''nat'', ''-C'', ''OUTPUT''] @ jumpSpec) k = (r1, k1)" by fastforce
  note c' = check_rule [OF c]
  have ins: "run ([''-t'', ''nat'', ''-I'', ''OUTPUT'', ''1''] @ jumpSpec) k1 = (r, k')" if "r1 \<noteq> None"
    using assms c that by (auto simp: insertJump_def)
  show "chain k' = chain k \<or> (\<exists>rs. chain k ''OUTPUT'' = Some rs \<and> chain k' = (chain k)(''OUTPUT'' \<mapsto> jumpSpec # rs))"
    using assms c c' insert_rule [OF ins] by (cases r1) (auto simp: insertJump_def split: if_splits)
  show "\<exists>rs. chain k' ''OUTPUT'' = Some rs \<and> jumpSpec \<in> set rs" if "r = None"
    using assms c c' insert_rule [OF ins] that by (cases r1) (auto simp: insertJump_def)
qed

lemma appendIfMissing_effect:
  assumes "appendIfMissing run (appendArgs spec) k = (r, k')"
  shows "chain k' = chain k \<or>
           (\<exists>rs. chain k defaultChainName = Some rs \<and> chain k' = (chain k)(defaultChainName \<mapsto> rs @ [spec]))"
    and "r = None \<Longrightarrow> \<exists>rs. chain k' defaultChainName = Some rs \<and> spec \<in> set rs"
proof -
  obtain r1 k1 where c: "run ([''-t'', ''nat'', ''-C'', defaultChainName] @ spec) k = (r1, k1)" by fastforce
  note c' = check_rule [OF c]
  have eq: "checkArgs (appendArgs spec) = [''-t'', ''nat'', ''-C'', defaultChainName] @ spec"
    by (simp add: appendArgs_def)
  have app: "run ([''-t'', ''nat'', ''-A'', defaultChainName] @ spec) k1 = (r, k')" if "r1 \<noteq> None"
    using assms c that unfolding appendIfMissing_def eq by (auto simp: appendArgs_def)
  have same: "r = None \<and> k' = k1" if "r1 = None"
    using assms c that unfolding appendIfMissing_def eq by simp
  show "chain k' = chain k \<or>
      (\<exists>rs. chain k defaultChainName = Some rs \<and> chain k' = (chain k)(defaultChainName \<mapsto> rs @ [spec]))"
    using same c' append_rule [OF app] by (cases r1) (auto split: if_splits)
  show "\<exists>rs. chain k' defaultChainName = Some rs \<and> spec \<in> set rs" if "r = None"
    using same c' append_rule [OF app] that by (cases r1) auto
qed

lemma appendAll_absent:
  assumes "appendAll run rs k = (ok, k')" "rs \<noteq> []" "chain k defaultChainName = None"
  shows "\<not> ok \<and> chain k' = chain k"
proof -
  obtain r0 rest where rs: "rs = r0 # rest" using assms(2) by (cases rs) auto
  obtain r k1 where a: "appendIfMissing run (appendArgs r0) k = (r, k1)" by fastforce
  have "chain k1 = chain k" "r \<noteq> None" using appendIfMissing_effect [OF a] assms(3) by auto
  with assms(1) a rs show ?thesis by auto
qed

lemma appendAll_grows:
  assumes "appendAll run todo k = (ok, k')" "chain k defaultChainName = Some rs"
    "prefix (firsts rs) (firsts (before @ todo))" "set before \<subseteq> set rs"
  shows "\<exists>rs'. chain k' = (chain k)(defaultChainName \<mapsto> rs') \<and> prefix (firsts rs') (firsts (before @ todo))
           \<and> (ok \<longrightarrow> set (before @ todo) \<subseteq> set rs')"
  using assms
proof (induction todo arbitrary: k rs before)
  case Nil
  then show ?case by (intro exI [of _ rs]) (auto simp: fun_upd_idem)
next
  case (Cons d todo)
  obtain r k1 where a: "appendIfMissing run (appendArgs d) k = (r, k1)" by fastforce
  note eff = appendIfMissing_effect [OF a]
  have "prefix (firsts (rs @ [d])) (firsts (before @ d # todo))"
  proof (cases "d \<in> set rs")
    case True
    with Cons.prems(3) show ?thesis by (simp add: firsts_snoc)
  next
    case False
    then have "firsts rs = firsts before" using prefix_stops [OF Cons.prems(3)] Cons.prems(4) by simp
    moreover have "d \<notin> set before" using False Cons.prems(4) by auto
    ultimately have "firsts (rs @ [d]) = firsts (before @ [d])" using False by (simp add: firsts_snoc)
    then show ?thesis using firsts_append [of "before @ [d]" todo] by simp
  qed
  with eff(1) Cons.prems obtain rs1 where rs1: "chain k1 = (chain k)(defaultChainName \<mapsto> rs1)" "set rs \<subseteq> set rs1"
    "prefix (firsts rs1) (firsts (before @ d # todo))" by (fastforce simp: fun_upd_idem)
  show ?case
  proof (cases r)
    case None
    then have "d \<in> set rs1" using eff(2) rs1(1) by auto
    moreover have "appendAll run todo k1 = (ok, k')" using Cons.prems(1) a None by simp
    ultimately show ?thesis using Cons.IH [of k1 rs1 "before @ [d]"] rs1 Cons.prems(4) by fastforce
  next
    case (Some e)
    then have "\<not> ok \<and> k' = k1" using Cons.prems(1) a by auto
    then show ?thesis using rs1 by auto
  qed
qed

end

text \<open>What attempts leave behind: the jump in front of what was there, and a first part of the rules.\<close>

definition partlyInstalled :: "string list list \<Rightarrow> string list list \<Rightarrow> (string \<Rightarrow> string list list option) \<Rightarrow> bool" where
  "partlyInstalled D outs ch \<longleftrightarrow>
     (\<exists>n. ch ''OUTPUT'' = Some (replicate n jumpSpec @ outs)) \<and>
     (\<forall>rs. ch defaultChainName = Some rs \<longrightarrow> prefix (firsts rs) (firsts D))"

definition fullyInstalled :: "string list list \<Rightarrow> string list list \<Rightarrow> (string \<Rightarrow> string list list option) \<Rightarrow> bool" where
  "fullyInstalled D outs ch \<longleftrightarrow>
     (\<exists>n. ch ''OUTPUT'' = Some (jumpSpec # replicate n jumpSpec @ outs)) \<and>
     (\<exists>rs. ch defaultChainName = Some rs \<and> firsts rs = firsts D)"

lemma chain_not_OUTPUT [simp]: "defaultChainName \<noteq> ''OUTPUT''" "''OUTPUT'' \<noteq> defaultChainName"
  by (simp_all add: defaultChainName_def)

lemma wantedRules_not_Nil [simp]: "wantedRules uids dports port \<noteq> []"
  by (simp add: wantedRules_def)

context netfilter
begin

lemma ensureChain_keeps:
  assumes "ensureChain run defaultChainName k = (r, k')" "partlyInstalled D outs (chain k)"
  shows "partlyInstalled D outs (chain k')"
  using ensureChain_effect [OF assms(1)] assms(2) by (auto simp: partlyInstalled_def firsts_def)

lemma insertJump_keeps:
  assumes "insertJump run k = (r, k')" "partlyInstalled D outs (chain k)"
  shows "partlyInstalled D outs (chain k')"
proof -
  from assms(2) obtain n where n: "chain k ''OUTPUT'' = Some (replicate n jumpSpec @ outs)"
    by (auto simp: partlyInstalled_def)
  from insertJump_effect(1) [OF assms(1)] show ?thesis
  proof (elim disjE exE conjE)
    fix rs assume "chain k ''OUTPUT'' = Some rs" "chain k' = (chain k)(''OUTPUT'' \<mapsto> jumpSpec # rs)"
    with n assms(2) show ?thesis unfolding partlyInstalled_def by (auto intro: exI [of _ "Suc n"])
  qed (use assms(2) in simp)
qed

lemma appendAll_keeps:
  assumes "appendAll run D k = (ok, k')" "partlyInstalled D outs (chain k)" "D \<noteq> []"
  shows "partlyInstalled D outs (chain k')" and
    "ok \<Longrightarrow> \<exists>rs. chain k' defaultChainName = Some rs \<and> firsts rs = firsts D" and
    "chain k' ''OUTPUT'' = chain k ''OUTPUT''"
proof -
  consider "chain k defaultChainName = None" | rs where "chain k defaultChainName = Some rs" by fastforce
  then have "partlyInstalled D outs (chain k') \<and> chain k' ''OUTPUT'' = chain k ''OUTPUT'' \<and>
    (ok \<longrightarrow> (\<exists>rs. chain k' defaultChainName = Some rs \<and> firsts rs = firsts D))"
  proof cases
    case 1
    then show ?thesis using appendAll_absent [OF assms(1)] assms(2,3) by auto
  next
    case 2
    then obtain rs' where "chain k' = (chain k)(defaultChainName \<mapsto> rs')" "prefix (firsts rs') (firsts D)"
      "ok \<longrightarrow> set D \<subseteq> set rs'"
      using appendAll_grows [where before = "[]", OF assms(1)] assms(2) by (auto simp: partlyInstalled_def)
    moreover have "firsts rs' = firsts D" if "prefix (firsts rs') (firsts D)" "set D \<subseteq> set rs'"
    proof -
      have "length (firsts D) = card (set D)" "length (firsts rs') = card (set rs')"
        by (simp_all add: firsts_def length_remdups_card_conv)
      with that show ?thesis using card_mono [of "set rs'" "set D"]
        by (metis append_Nil2 append_eq_append_conv finite_set le_antisym prefix_def prefix_length_le)
    qed
    ultimately show ?thesis using assms(2) by (auto simp: partlyInstalled_def)
  qed
  then show "partlyInstalled D outs (chain k')" and
    "ok \<Longrightarrow> \<exists>rs. chain k' defaultChainName = Some rs \<and> firsts rs = firsts D" and
    "chain k' ''OUTPUT'' = chain k ''OUTPUT''" by auto
qed

lemma installAll_keeps:
  assumes "installAll run uids dports port k = (e, k')" "partlyInstalled (wantedRules uids dports port) outs (chain k)"
    "jumpSpec \<notin> set outs"
  shows "partlyInstalled (wantedRules uids dports port) outs (chain k')" and
    "e = None \<Longrightarrow> fullyInstalled (wantedRules uids dports port) outs (chain k')"
proof -
  let ?D = "wantedRules uids dports port"
  obtain r1 k1 where 1: "ensureChain run defaultChainName k = (r1, k1)" by fastforce
  obtain r2 k2 where 2: "insertJump run k1 = (r2, k2)" by fastforce
  obtain r3 k3 where 3: "installRules run uids dports port k2 = (r3, k3)" by fastforce
  have app: "appendAll run ?D k2 = (r3 = None, k3)" using installRules_appendAll [of run uids dports port k2] 3 by simp
  note p1 = ensureChain_keeps [OF 1 assms(2)]
  note p2 = insertJump_keeps [OF 2 p1]
  note p3 = appendAll_keeps [OF app p2 wantedRules_not_Nil]
  show "partlyInstalled ?D outs (chain k')"
    using assms(1) 1 2 3 p1 p2 p3(1) by (auto simp: installAll_def split: option.splits)
  assume "e = None"
  then have ok: "r2 = None" "r3 = None" "k' = k3"
    using assms(1) 1 2 3 by (auto simp: installAll_def split: option.splits)
  from p2 obtain n where n: "chain k2 ''OUTPUT'' = Some (replicate n jumpSpec @ outs)" by (auto simp: partlyInstalled_def)
  with insertJump_effect(2) [OF 2 ok(1)] assms(3) obtain m where "n = Suc m" by (cases n) auto
  with n p3 ok show "fullyInstalled ?D outs (chain k')" by (auto simp: fullyInstalled_def)
qed

end

text \<open>The process itself: its network changes by \<open>iptables\<close> alone.\<close>

lemma netfilter_realRunner:
  assumes "netfilter run chain"
  shows "netfilter (realRunner run) (\<lambda>w. chain (fst w))"
proof -
  have eq: "realRunner run args w = (r, w') \<longleftrightarrow> run args (fst w) = (r, fst w') \<and> snd w' = snd w" for args w r w'
    by (cases w') (auto simp: realRunner_def split: prod.splits)
  show ?thesis
  proof (unfold_locales, goal_cases)
    case (1 c w r w') then show ?case using netfilter.new_chain [OF assms, of c "fst w" r "fst w'"] by (simp add: eq)
  next
    case (2 c spec w r w') then show ?case using netfilter.check_rule [OF assms, of c spec "fst w" r "fst w'"] by (simp add: eq)
  next
    case (3 c spec w r w') then show ?case using netfilter.append_rule [OF assms, of c spec "fst w" r "fst w'"] by (simp add: eq)
  next
    case (4 c spec w r w') then show ?case using netfilter.insert_rule [OF assms, of c spec "fst w" r "fst w'"] by (simp add: eq)
  qed
qed


section \<open>What the rules do to a packet\<close>

text \<open>A packet that a process of the pod sends over IPv4.\<close>

record packet =
  pk_proto :: string
  pk_uid :: int
  pk_dst :: IP
  pk_dport :: int

definition wf_packet :: "packet \<Rightarrow> bool" where
  "wf_packet pk \<longleftrightarrow> length (pk_dst pk) = 4 \<and> (\<forall>b \<in> set (pk_dst pk). b < 256)"

definition optMatches :: "string \<Rightarrow> string \<Rightarrow> packet \<Rightarrow> bool" where
  "optMatches flag v pk \<longleftrightarrow>
     (if flag = ''-m'' then True
      else if flag = ''--uid-owner'' then v = fmt_d (pk_uid pk)
      else if flag = ''-d'' then (case ParseCIDR v of None \<Rightarrow> False | Some n \<Rightarrow> net_Contains n (pk_dst pk))
      else if flag = ''-p'' then v = pk_proto pk
      else if flag = ''--dport'' then v = fmt_d (pk_dport pk)
      else False)"

fun ruleMatches :: "string list \<Rightarrow> packet \<Rightarrow> bool" where
  "ruleMatches (flag # v # r) pk \<longleftrightarrow> flag = ''-j'' \<or> (optMatches flag v pk \<and> ruleMatches r pk)"
| "ruleMatches _ pk \<longleftrightarrow> True"

text \<open>The value of an option of a rule, the empty string when it has none.\<close>

fun ruleOption :: "string \<Rightarrow> string list \<Rightarrow> string" where
  "ruleOption name (flag # v # r) = (if flag = name then v else ruleOption name r)"
| "ruleOption name _ = []"

text \<open>
  The port to which a packet is redirected, \<open>None\<close> when it goes where it was sent: the first rule that
  matches decides, a jump enters a chain of the table, and falling off that chain, or \<open>RETURN\<close>, goes on
  after the jump. Chains that are jumped to do not jump themselves.
\<close>

fun fate :: "(string \<Rightarrow> string list list option) \<Rightarrow> string list list \<Rightarrow> packet \<Rightarrow> string option" where
  "fate ch [] pk = None"
| "fate ch (r # rs) pk =
     (if \<not> ruleMatches r pk then fate ch rs pk
      else if ruleOption ''-j'' r = ''REDIRECT'' then Some (ruleOption ''--to-ports'' r)
      else (case ch (ruleOption ''-j'' r) of
              None \<Rightarrow> None
            | Some sub \<Rightarrow>
                (case find (\<lambda>r'. ruleMatches r' pk) sub of
                   None \<Rightarrow> fate ch rs pk
                 | Some r' \<Rightarrow>
                     if ruleOption ''-j'' r' = ''REDIRECT'' then Some (ruleOption ''--to-ports'' r')
                     else if ruleOption ''-j'' r' = ''RETURN'' then fate ch rs pk
                     else None)))"

definition outputFate :: "(string \<Rightarrow> string list list option) \<Rightarrow> packet \<Rightarrow> string option" where
  "outputFate ch pk = (case ch ''OUTPUT'' of None \<Rightarrow> None | Some rs \<Rightarrow> fate ch rs pk)"

lemma find_firsts: "find P (firsts xs) = find P xs"
proof (induction xs rule: rev_induct)
  case (snoc x xs)
  then show ?case
    by (auto simp: firsts_snoc find_append find_None_iff split: option.splits)
qed (simp add: firsts_def)

lemma find_map_append:
  "find P (map f xs @ ys) = (if \<exists>x \<in> set xs. P (f x) then find P (map f xs) else find P ys)"
  by (induction xs) auto

text \<open>A packet meets the rules in the order in which they were wanted.\<close>

definition bypassed :: "int list \<Rightarrow> packet \<Rightarrow> bool" where
  "bypassed uids pk \<longleftrightarrow> (\<exists>uid \<in> set uids. fmt_d uid = fmt_d (pk_uid pk)) \<or> optMatches ''-d'' loopbackCIDR pk"

lemma ruleMatches_specs:
  "ruleMatches (ownerSpec uid) pk \<longleftrightarrow> fmt_d uid = fmt_d (pk_uid pk)"
  "ruleMatches loopbackSpec pk \<longleftrightarrow> optMatches ''-d'' loopbackCIDR pk"
  "ruleMatches (redirectSpec port dport) pk \<longleftrightarrow> pk_proto pk = ''tcp'' \<and> dport = fmt_d (pk_dport pk)"
  "ruleMatches jumpSpec pk \<longleftrightarrow> pk_proto pk = ''tcp''"
  by (auto simp: ownerSpec_def loopbackSpec_def redirectSpec_def jumpSpec_def optMatches_def)

lemma ruleOption_specs:
  "ruleOption ''-j'' (ownerSpec uid) = ''RETURN''"
  "ruleOption ''-j'' loopbackSpec = ''RETURN''"
  "ruleOption ''-j'' (redirectSpec port dport) = ''REDIRECT''"
  "ruleOption ''--to-ports'' (redirectSpec port dport) = fmt_d port"
  "ruleOption ''-j'' jumpSpec = defaultChainName"
  by (simp_all add: ownerSpec_def loopbackSpec_def redirectSpec_def jumpSpec_def)

lemma wantedRules_decide:
  assumes "pk_proto pk = ''tcp''"
  shows "case find (\<lambda>r. ruleMatches r pk) (wantedRules uids dports port) of
           None \<Rightarrow> \<not> bypassed uids pk \<and> fmt_d (pk_dport pk) \<notin> set dports
         | Some r \<Rightarrow> if bypassed uids pk then ruleOption ''-j'' r = ''RETURN''
                     else fmt_d (pk_dport pk) \<in> set dports \<and> (\<exists>p. r = redirectSpec port p)"
proof -
  let ?P = "\<lambda>r. ruleMatches r pk"
  have own: "\<exists>r. find ?P (map ownerSpec uids) = Some r \<and> ruleOption ''-j'' r = ''RETURN''"
    if "\<exists>uid \<in> set uids. ?P (ownerSpec uid)"
    using that by (induction uids) (auto simp: ruleOption_specs)
  have red: "find ?P (map (redirectSpec port) dports) =
      (if fmt_d (pk_dport pk) \<in> set dports then Some (redirectSpec port (fmt_d (pk_dport pk))) else None)"
    using assms by (induction dports) (auto simp: ruleMatches_specs)
  show ?thesis
  proof (cases "\<exists>uid \<in> set uids. ?P (ownerSpec uid)")
    case True
    then have "bypassed uids pk" by (auto simp: bypassed_def ruleMatches_specs)
    with True own show ?thesis by (auto simp: wantedRules_def find_map_append)
  next
    case False
    then show ?thesis
      using red by (auto simp: wantedRules_def find_map_append bypassed_def ruleMatches_specs ruleOption_specs)
  qed
qed

lemma installed_fate:
  assumes "fullyInstalled (wantedRules uids dports port) outs ch"
  shows "outputFate ch pk =
    (if pk_proto pk = ''tcp'' \<and> \<not> bypassed uids pk \<and> fmt_d (pk_dport pk) \<in> set dports then Some (fmt_d port)
     else fate ch outs pk)"
proof -
  let ?D = "wantedRules uids dports port"
  from assms obtain n rs where n: "ch ''OUTPUT'' = Some (replicate (Suc n) jumpSpec @ outs)"
    and rs: "ch defaultChainName = Some rs" "firsts rs = firsts ?D" by (auto simp: fullyInstalled_def)
  have sub: "find P rs = find P ?D" for P using rs(2) find_firsts by metis
  have jump: "jumpSpec = [''-p'', ''tcp'', ''-j'', defaultChainName]" by (simp add: jumpSpec_def)
  have dn: "defaultChainName \<noteq> ''REDIRECT''" by (simp add: defaultChainName_def)
  have "fate ch (replicate m jumpSpec @ outs) pk =
    (if m \<noteq> 0 \<and> pk_proto pk = ''tcp'' \<and> \<not> bypassed uids pk \<and> fmt_d (pk_dport pk) \<in> set dports then Some (fmt_d port)
     else fate ch outs pk)" for m
  proof (induction m)
    case (Suc m)
    show ?case
    proof (cases "pk_proto pk = ''tcp''")
      case True
      note dec = wantedRules_decide [OF True, of uids dports port]
      show ?thesis
      proof (cases "find (\<lambda>r. ruleMatches r pk) ?D")
        case None
        then show ?thesis using dec Suc rs(1) sub True dn by (simp add: ruleMatches_specs ruleOption_specs)
      next
        case (Some r)
        then show ?thesis using dec Suc rs(1) sub True dn
          by (cases "bypassed uids pk") (auto simp: ruleMatches_specs ruleOption_specs)
      qed
    qed (use Suc in \<open>simp add: ruleMatches_specs\<close>)
  qed simp
  from this [of "Suc n"] n show ?thesis by (simp add: outputFate_def)
qed

end
