(* ===== verification/Net_Properties.thy ===== *)
theory Net_Properties
  imports Net_Init
begin

text \<open>
  Properties of the init container of transparent mode: what a pod's packets meet once the container
  that the controller renders has exited with success, however often it failed before. The theory also
  holds a model of the table \<open>nat\<close> that keeps the promises of \<open>netfilter\<close>, on which they are applied.
\<close>

section \<open>The table\<close>

definition noSuch :: cmd_error where
  "noSuch = ExitError 1 ''exit status 1''"

definition natRun :: "(string \<times> string list list) list rulesRunner" where
  "natRun args t =
     (if take 2 args \<noteq> [''-t'', ''nat''] \<or> length args < 4 then (Some (ExitError 2 ''exit status 2''), t)
      else (let cmd = args ! 2; c = args ! 3; spec = drop 4 args
            in case map_of t c of
                 None \<Rightarrow> if cmd = ''-N'' \<and> spec = [] then (None, (c, []) # t) else (Some noSuch, t)
               | Some rs \<Rightarrow>
                   if cmd = ''-C'' then (if spec \<in> set rs then None else Some noSuch, t)
                   else if cmd = ''-A'' then (None, AList.update c (rs @ [spec]) t)
                   else if cmd = ''-I'' \<and> spec \<noteq> [] \<and> hd spec = ''1'' then (None, AList.update c (tl spec # rs) t)
                   else (Some noSuch, t)))"

interpretation tbl: netfilter natRun map_of
  by unfold_locales (auto simp: natRun_def Let_def update_conv' split: option.splits if_splits)

lemma natRun_append:
  assumes "map_of t defaultChainName \<noteq> None"
  shows "\<exists>t'. appendIfMissing (realRunner natRun) (appendArgs spec) (t, out) = (None, (t', out))
           \<and> map_of t' defaultChainName \<noteq> None"
  using assms by (auto simp: appendIfMissing_def appendArgs_def realRunner_def natRun_def update_conv')

lemma natRun_appendAll:
  assumes "map_of t defaultChainName \<noteq> None"
  shows "fst (appendAll (realRunner natRun) rs (t, out))"
  using assms
proof (induction rs arbitrary: t)
  case (Cons r rs)
  from natRun_append [OF Cons.prems, of r out] Cons.IH show ?case by auto
qed simp

section \<open>Decimal numbers\<close>

lemma digit_val_char: "d < 10 \<Longrightarrow> digit_val (char_of (48 + d)) = d"
  by (simp add: digit_val_def)

lemma digits_val_decimal: "digits_val (decimal_nat n) = n"
proof (induction n rule: decimal_nat.induct)
  case (1 n)
  show ?case
  proof (cases "n < 10")
    case True
    then show ?thesis by (subst decimal_nat.simps) (simp add: digits_val_def digit_val_char)
  next
    case False
    then have "digits_val (decimal_nat n) = digits_val (decimal_nat (n div 10)) * 10 + n mod 10"
      by (subst decimal_nat.simps) (simp add: digits_val_def digit_val_char)
    with 1 False show ?thesis by simp
  qed
qed

lemma decimal_nat_digit: "c \<in> set (decimal_nat n) \<Longrightarrow> isDigit c"
proof (induction n rule: decimal_nat.induct)
  case (1 n)
  then show ?case by (subst (asm) (2) decimal_nat.simps) (auto simp: isDigit_def split: if_splits)
qed

lemma decimal_nat_not_Nil: "decimal_nat n \<noteq> []"
  by (subst decimal_nat.simps) simp

lemma fmt_d_inj: "fmt_d i = fmt_d j \<longleftrightarrow> i = j"
proof -
  have neg: "CHR ''-'' # a \<noteq> decimal_nat n" for a n
    using decimal_nat_digit [of "CHR ''-''" n] by (cases "decimal_nat n") (auto simp: isDigit_def)
  have inj: "decimal_nat a = decimal_nat b \<Longrightarrow> a = b" for a b by (metis digits_val_decimal)
  show ?thesis
  proof
    assume "fmt_d i = fmt_d j"
    then show "i = j" using neg neg [symmetric]
      by (auto simp: fmt_d_def split: if_splits dest!: inj)
  qed simp
qed

section \<open>The container in a pod\<close>

text \<open>The kubelet starts the container again after every failure, in the same network.\<close>

inductive attempts :: "'k rulesRunner \<Rightarrow> initFlags \<Rightarrow> 'k initWorld \<Rightarrow> 'k initWorld \<Rightarrow> bool"
  for run fl w0 where
  fresh: "attempts run fl w0 w0"
| failed: "attempts run fl w0 w \<Longrightarrow> initMain run fl w = (Some e, w') \<Longrightarrow> attempts run fl w0 w'"

definition podFlags :: initFlags where
  "podFlags = \<lparr> fl_bypassUIDs = ''1337,1339'', fl_proxyPort = 15001, fl_ports = ''80,443'', fl_dryRun = False \<rparr>"

lemma decimal_literals: "decimal_nat 1337 = ''1337''" "decimal_nat 1339 = ''1339''" "decimal_nat 15001 = ''15001''"
  "decimal_nat 80 = ''80''" "decimal_nat 443 = ''443''"
  by (simp_all add: decimal_nat_code)

lemma container_flags: "parseFlags (ctr_Args (buildIPTablesInitContainer i)) defaultFlags = Some podFlags"
proof -
  have args: "ctr_Args (buildIPTablesInitContainer i) =
      [''--bypass-uids=1337,1339'', ''--proxy-port=15001'', ''--ports=80,443'']"
    by (simp add: buildIPTablesInitContainer_def proxyRunAsUID_def runtimeRunAsUID_def proxyListenPort_def fmt_d_def
        decimal_literals)
  have "parseFlags [''--bypass-uids=1337,1339'', ''--proxy-port=15001'', ''--ports=80,443''] defaultFlags = Some podFlags"
    by code_simp
  then show ?thesis by (simp only: args)
qed

lemma podFlags_read:
  "parseBypassUIDs (fl_bypassUIDs podFlags) = Inr [1337, 1339]"
  "splitPorts (fl_ports podFlags) = [''80'', ''443'']"
  by code_simp+

lemma initMain_pod:
  assumes "initMain run podFlags w = (e, w')"
  shows "\<exists>e' w''. installAll (realRunner run) [1337, 1339] [''80'', ''443''] 15001 w = (e', w'')
           \<and> (e = None \<longleftrightarrow> e' = None) \<and> fst w' = fst w''"
proof -
  obtain e' w'' where i: "installAll (realRunner run) [1337, 1339] [''80'', ''443''] 15001 w = (e', w'')" by (rule prod.exhaust)
  then show ?thesis using assms unfolding initMain_def podFlags_read
    by (cases e') (auto simp: podFlags_def)
qed

text \<open>The table accepts everything.\<close>

lemma natRun_pod:
  assumes "map_of t defaultChainName = None" "map_of t ''OUTPUT'' \<noteq> None"
  shows "\<exists>w'. initMain natRun podFlags (t, out) = (None, w')"
proof -
  let ?t1 = "(defaultChainName, []) # t"
  have e: "ensureChain (realRunner natRun) defaultChainName (t, out) = (None, (?t1, out))"
    using assms(1) by (simp add: ensureChain_def realRunner_def natRun_def)
  obtain t2 where j: "insertJump (realRunner natRun) (?t1, out) = (None, (t2, out))" "map_of t2 defaultChainName \<noteq> None"
  proof -
    from assms(2) obtain rs where "map_of t ''OUTPUT'' = Some rs" by auto
    then show thesis using that
      by (cases "jumpSpec \<in> set rs") (auto simp: insertJump_def realRunner_def natRun_def update_conv')
  qed
  let ?ins = "installRules (realRunner natRun) [1337, 1339] [''80'', ''443''] 15001 (t2, out)"
  have "fst ?ins = None"
    using natRun_appendAll [OF j(2), of "wantedRules [1337, 1339] [''80'', ''443''] 15001" out]
    unfolding installRules_appendAll by simp
  then obtain w where i: "?ins = (None, w)" by (metis prod.collapse)
  have "installAll (realRunner natRun) [1337, 1339] [''80'', ''443''] 15001 (t, out) = (None, w)"
    by (simp only: installAll_def e j i prod.case option.case)
  then show ?thesis unfolding initMain_def podFlags_read by (simp add: podFlags_def)
qed

lemma loopback_first_byte:
  assumes "wf_packet pk"
  shows "optMatches ''-d'' loopbackCIDR pk \<longleftrightarrow> hd (pk_dst pk) = 127"
proof -
  have cidr: "ParseCIDR loopbackCIDR = Some \<lparr> net_IP = [127, 0, 0, 0], net_Mask = [255, 0, 0, 0] \<rparr>" by code_simp
  obtain a b c d where dst: "pk_dst pk = [a, b, c, d]" and lt: "a < 256"
    using assms by (auto simp: wf_packet_def length_Suc_conv numeral_eq_Suc)
  have "byte_and a 255 = a"
  proof -
    have "and a (mask 8) = take_bit 8 a" by (simp add: take_bit_eq_mask)
    moreover have "take_bit 8 a = a" using lt by (simp add: take_bit_eq_mod)
    moreover have "(255::nat) = mask 8" by (simp add: mask_eq_exp_minus_1)
    ultimately show ?thesis by (simp add: byte_and_def)
  qed
  moreover have "byte_and 127 255 = 127" by code_simp
  ultimately show ?thesis
    by (auto simp: optMatches_def cidr dst net_Contains_def To4_def byte_and_def)
qed

context netfilter
begin

lemma pod_attempts:
  assumes "attempts run podFlags w0 w" "partlyInstalled (wantedRules [1337, 1339] [''80'', ''443''] 15001) outs (chain (fst w0))"
    "jumpSpec \<notin> set outs"
  shows "partlyInstalled (wantedRules [1337, 1339] [''80'', ''443''] 15001) outs (chain (fst w))"
  using assms(1)
proof induction
  case (failed w e w')
  then show ?case
    using initMain_pod [OF failed(2)] netfilter.installAll_keeps(1) [OF netfilter_realRunner [OF netfilter_axioms]] assms(3)
    by fastforce
qed (rule assms(2))

lemma pod_installs:
  assumes "attempts run podFlags w0 w" "initMain run podFlags w = (None, w')"
    "chain (fst w0) defaultChainName = None" "chain (fst w0) ''OUTPUT'' = Some outs" "jumpSpec \<notin> set outs"
  shows "fullyInstalled (wantedRules [1337, 1339] [''80'', ''443''] 15001) outs (chain (fst w'))"
proof -
  have "partlyInstalled (wantedRules [1337, 1339] [''80'', ''443''] 15001) outs (chain (fst w0))"
    using assms(3,4) by (auto simp: partlyInstalled_def intro: exI [of _ 0])
  from pod_attempts [OF assms(1) this assms(5)] show ?thesis
    using initMain_pod [OF assms(2)] netfilter.installAll_keeps(2) [OF netfilter_realRunner [OF netfilter_axioms]] assms(5)
    by fastforce
qed

end

section \<open>Properties\<close>

text \<open>
  C35: transparent interception is complete. Take the flags from the container that the controller
  renders, any behaviour of \<open>iptables\<close> that keeps its promises, calls failing at random included, and a
  pod network that never saw the program. After any number of failed attempts and one that exits with
  success, a packet sent in the pod is redirected to the proxy's port exactly when it is TCP to port 80
  or 443, outside the loopback network, and not sent by the proxy's or the runtime's user; every other
  packet meets the rules that were there before, and only those.
\<close>

theorem agent_traffic_redirected:
  assumes "netfilter run chain"
    and "parseFlags (ctr_Args (buildIPTablesInitContainer i)) defaultFlags = Some fl"
    and "chain (fst w0) defaultChainName = None" "chain (fst w0) ''OUTPUT'' = Some outs" "jumpSpec \<notin> set outs"
    and "attempts run fl w0 w" "initMain run fl w = (None, w')"
    and "wf_packet pk"
  shows "outputFate (chain (fst w')) pk =
    (if pk_proto pk = ''tcp'' \<and> pk_dport pk \<in> {80, 443} \<and> hd (pk_dst pk) \<noteq> 127
        \<and> pk_uid pk \<notin> {proxyRunAsUID, runtimeRunAsUID}
     then Some (fmt_d proxyListenPort) else fate (chain (fst w')) outs pk)"
proof -
  have "fl = podFlags" using assms(2) container_flags by simp
  with assms have "fullyInstalled (wantedRules [1337, 1339] [''80'', ''443''] 15001) outs (chain (fst w'))"
    using netfilter.pod_installs by blast
  note f = installed_fate [OF this, of pk]
  have ports: "''80'' = fmt_d 80" "''443'' = fmt_d 443" by (simp_all add: fmt_d_def decimal_literals)
  have "fmt_d (pk_dport pk) \<in> set [''80'', ''443''] \<longleftrightarrow> pk_dport pk \<in> {80, 443}"
    unfolding ports by (simp add: fmt_d_inj)
  moreover have "bypassed [1337, 1339] pk \<longleftrightarrow> pk_uid pk \<in> {proxyRunAsUID, runtimeRunAsUID} \<or> hd (pk_dst pk) = 127"
    using loopback_first_byte [OF assms(8)]
    by (auto simp: bypassed_def fmt_d_inj proxyRunAsUID_def runtimeRunAsUID_def)
  ultimately show ?thesis using f by (auto simp: proxyListenPort_def)
qed


text \<open>
  On the table above, whose chain \<open>OUTPUT\<close> holds a rule of the cluster: one attempt
  installs everything, and the agent's request to 10.0.0.7 is redirected.
\<close>

definition clusterRule :: "string list" where
  "clusterRule = [''-p'', ''udp'', ''-j'', ''REDIRECT'', ''--to-ports'', ''53'']"

definition agentPacket :: packet where
  "agentPacket = \<lparr> pk_proto = ''tcp'', pk_uid = 65532, pk_dst = [10, 0, 0, 7], pk_dport = 443 \<rparr>"

theorem agent_traffic_redirected_witness:
  "\<exists>w'. initMain natRun podFlags ([(''OUTPUT'', [clusterRule])], []) = (None, w')
     \<and> outputFate (map_of (fst w')) agentPacket = Some (fmt_d proxyListenPort)"
proof -
  let ?w0 = "([(''OUTPUT'', [clusterRule])], [])"
  obtain w' where w': "initMain natRun podFlags ?w0 = (None, w')"
    using natRun_pod [of "[(''OUTPUT'', [clusterRule])]" "[]"] by (auto simp: defaultChainName_def)
  have "outputFate (map_of (fst w')) agentPacket =
    (if pk_proto agentPacket = ''tcp'' \<and> pk_dport agentPacket \<in> {80, 443} \<and> hd (pk_dst agentPacket) \<noteq> 127
        \<and> pk_uid agentPacket \<notin> {proxyRunAsUID, runtimeRunAsUID}
     then Some (fmt_d proxyListenPort) else fate (map_of (fst w')) [clusterRule] agentPacket)"
    using agent_traffic_redirected [OF tbl.netfilter_axioms container_flags, of ?w0 "[clusterRule]" ?w0 w' agentPacket] w'
    by (simp add: attempts.fresh wf_packet_def agentPacket_def clusterRule_def jumpSpec_def defaultChainName_def)
  then show ?thesis using w' by (auto simp: agentPacket_def proxyRunAsUID_def runtimeRunAsUID_def)
qed

section \<open>The list of users\<close>

text \<open>
  An accepted list names each user once. It may be empty all the same: a lone comma passes the check
  that the comment of \<open>parseBypassUIDs\<close> describes.
\<close>

lemma bypassLoop_distinct: "bypassLoop parts out = Inr uids \<Longrightarrow> distinct out \<Longrightarrow> distinct uids"
  by (induction parts out rule: bypassLoop.induct) (auto simp: Let_def split: if_splits sum.splits)

lemma parseBypassUIDs_distinct: "parseBypassUIDs csv = Inr uids \<Longrightarrow> distinct uids"
  by (auto simp: parseBypassUIDs_def Let_def split: if_splits dest: bypassLoop_distinct)

lemma empty_bypass_accepted: "parseBypassUIDs '','' = Inr []"
  by code_simp

text \<open>A dry run leaves the network alone.\<close>

lemma printRunner_net [simp]: "fst (snd (printRunner args w)) = fst w"
  by (simp add: printRunner_def)

lemma appendIfMissing_dry [simp]: "fst (snd (appendIfMissing printRunner args w)) = fst w"
proof -
  obtain e w1 where c: "printRunner (checkArgs args) w = (e, w1)" by (rule prod.exhaust)
  then have "fst w1 = fst w" by (metis printRunner_net snd_conv)
  with c show ?thesis by (cases e) (simp_all add: appendIfMissing_def)
qed

lemma appendAll_dry: "fst (snd (appendAll printRunner rs w)) = fst w"
proof (induction rs arbitrary: w)
  case (Cons r rs)
  obtain e w1 where a: "appendIfMissing printRunner (appendArgs r) w = (e, w1)" by (rule prod.exhaust)
  then have "fst w1 = fst w" using appendIfMissing_dry by (metis snd_conv)
  with a Cons show ?case by (cases e) auto
qed simp

lemma installAll_dry: "fst (snd (installAll printRunner uids dports port w)) = fst w"
proof -
  obtain e1 w1 where 1: "ensureChain printRunner defaultChainName w = (e1, w1)" by (rule prod.exhaust)
  obtain e2 w2 where 2: "insertJump printRunner w1 = (e2, w2)" by (rule prod.exhaust)
  obtain e3 w3 where 3: "installRules printRunner uids dports port w2 = (e3, w3)" by (rule prod.exhaust)
  have "fst w1 = fst w" using 1 by (auto simp: ensureChain_def printRunner_def split: if_splits)
  moreover have "fst w2 = fst w1" using 2 by (auto simp: insertJump_def printRunner_def jumpSpec_def split: if_splits)
  moreover have "fst w3 = fst w2"
    using appendAll_dry [of "wantedRules uids dports port" w2] installRules_appendAll [of printRunner uids dports port w2] 3
    by simp
  ultimately show ?thesis using 1 2 3 by (auto simp: installAll_def split: option.splits)
qed

lemma dry_run_pure: "fl_dryRun fl \<Longrightarrow> fst (snd (initMain run fl w)) = fst w"
proof -
  assume dry: "fl_dryRun fl"
  show ?thesis
  proof (cases "parseBypassUIDs (fl_bypassUIDs fl)")
    case (Inr uids)
    obtain e w1 where i: "installAll printRunner uids (splitPorts (fl_ports fl)) (fl_proxyPort fl) w = (e, w1)"
      by (rule prod.exhaust)
    then have "fst w1 = fst w" by (metis installAll_dry snd_conv)
    with Inr i dry show ?thesis by (cases e) (simp_all add: initMain_def)
  qed (simp add: initMain_def)
qed

end
