(* ===== verification/Runtime_Proxy.thy ===== *)
theory Runtime_Proxy
  imports Api_Types
begin

text \<open>
  \<open>internal/runtime/proxy\<close>, the HTTP surface of the runtime sidecar in an interactive run: prompts,
  interrupts and ends become writes on the two sockets of the harness supervisor, and what the harness
  prints is fanned out to the streams and converted to events. Reading and writing a socket, JSON and
  the hooks of a harness are parameters: a write has a result, a formatter and a converter are functions.
  A line of the stream is kept as the value that is encoded, before its encoding as JSON.
\<close>

section \<open>Fan-out\<close>

text \<open>
  A channel of the fan-out is its number with the lines in its buffer. Closing it removes it: nothing is
  sent on a channel that is not in the map, and its reader takes what is left.
\<close>

record 'l fanout =
  fo_subs :: "(nat, 'l list) gomap"
  fo_recent :: "'l list"

definition fanoutReplaySize :: nat where
  "fanoutReplaySize = 32"

definition chanCap :: nat where
  "chanCap = 64"

definition newFanout :: "'l fanout" where
  "newFanout = \<lparr> fo_subs = [], fo_recent = [] \<rparr>"

text \<open>A send in a \<open>select\<close> with a default: dropped when the buffer is full.\<close>

definition trySend :: "'l list \<Rightarrow> 'l \<Rightarrow> 'l list" where
  "trySend buf line = (if length buf < chanCap then buf @ [line] else buf)"

definition subscribe :: "nat \<Rightarrow> 'l fanout \<Rightarrow> 'l fanout" where
  "subscribe ch f = f\<lparr> fo_subs := (ch, foldl trySend [] (fo_recent f)) # fo_subs f \<rparr>"

definition unsubscribe :: "nat \<Rightarrow> 'l fanout \<Rightarrow> 'l fanout" where
  "unsubscribe ch f = f\<lparr> fo_subs := mdelete ch (fo_subs f) \<rparr>"

definition broadcast :: "'l \<Rightarrow> 'l fanout \<Rightarrow> 'l fanout" where
  "broadcast line f =
     f\<lparr> fo_recent := (if length (fo_recent f) \<ge> fanoutReplaySize then tl (fo_recent f) else fo_recent f) @ [line],
        fo_subs := map (\<lambda>(ch, buf). (ch, trySend buf line)) (fo_subs f) \<rparr>"

text \<open>A receive by the goroutine that writes to the client of \<open>/stream\<close>.\<close>

definition receive :: "nat \<Rightarrow> 'l fanout \<Rightarrow> 'l option \<times> 'l fanout" where
  "receive ch f =
     (case map_of (fo_subs f) ch of
        Some (l # buf) \<Rightarrow> (Some l, f\<lparr> fo_subs := map (\<lambda>(c, b). (c, if c = ch then buf else b)) (fo_subs f) \<rparr>)
      | _ \<Rightarrow> (None, f))"

section \<open>Dialling the supervisor\<close>

record BackoffConfig =
  bo_Initial :: duration
  bo_Max :: duration
  bo_Tries :: int

definition nextDelay :: "BackoffConfig \<Rightarrow> duration \<Rightarrow> duration" where
  "nextDelay cfg d = (if d * 2 > bo_Max cfg then bo_Max cfg else d * 2)"

text \<open>
  \<open>dial i\<close> is the result of attempt \<open>i\<close>, \<open>cancelled i\<close> the error of the context if it ends during the wait
  after that attempt. The result comes with the time spent waiting.
\<close>

fun dialLoop ::
  "string \<Rightarrow> (nat \<Rightarrow> error_msg + 'c) \<Rightarrow> (nat \<Rightarrow> error_msg option) \<Rightarrow> BackoffConfig \<Rightarrow> nat \<Rightarrow> nat \<Rightarrow> duration \<Rightarrow> error_msg
   \<Rightarrow> (error_msg + 'c) \<times> duration" where
  "dialLoop path dial cancelled cfg i 0 delay lastErr =
     (Inl (''dial '' @ path @ '': exhausted '' @ fmt_d (bo_Tries cfg) @ '' tries: '' @ lastErr), 0)"
| "dialLoop path dial cancelled cfg i (Suc left) delay lastErr =
     (case dial i of
        Inr c \<Rightarrow> (Inr c, 0)
      | Inl e \<Rightarrow>
          if left = 0
          then (Inl (''dial '' @ path @ '': exhausted '' @ fmt_d (bo_Tries cfg) @ '' tries: '' @ e), 0)
          else (case cancelled i of
                  Some ctxErr \<Rightarrow> (Inl ctxErr, 0)
                | None \<Rightarrow>
                    (case dialLoop path dial cancelled cfg (Suc i) left (nextDelay cfg delay) e of
                       (r, t) \<Rightarrow> (r, delay + t))))"

definition dialUDSWithBackoff ::
  "string \<Rightarrow> (nat \<Rightarrow> error_msg + 'c) \<Rightarrow> (nat \<Rightarrow> error_msg option) \<Rightarrow> BackoffConfig \<Rightarrow> (error_msg + 'c) \<times> duration" where
  "dialUDSWithBackoff path dial cancelled cfg = dialLoop path dial cancelled cfg 0 (nat (bo_Tries cfg)) (bo_Initial cfg) ''%!w(<nil>)''"

fun backoffSum :: "BackoffConfig \<Rightarrow> nat \<Rightarrow> duration \<Rightarrow> duration" where
  "backoffSum cfg 0 d = 0"
| "backoffSum cfg (Suc n) d = nextDelay cfg d + backoffSum cfg n (nextDelay cfg d)"

definition totalBackoff :: "BackoffConfig \<Rightarrow> duration" where
  "totalBackoff cfg = bo_Initial cfg + backoffSum cfg (nat (bo_Tries cfg - 1)) (bo_Initial cfg) + 5 * second"

section \<open>Messages on the sockets\<close>

record ctlMessage =
  cm_Action :: string
  cm_Reason :: string
  cm_Seq :: int

definition ctl :: "string \<Rightarrow> ctlMessage" where
  "ctl action = \<lparr> cm_Action = action, cm_Reason = [], cm_Seq = 0 \<rparr>"

datatype udsWrite = WCtl ctlMessage | WData string | WDataEOF

record promptRequest =
  prq_Text :: string
  prq_Seq :: int
  prq_Submitter :: string

record rtConfig =
  rtc_Mode :: string
  rtc_PromptFormatter :: "(string \<Rightarrow> int \<Rightarrow> error_msg + string) option"
  rtc_Converter :: "(string \<Rightarrow> PaddockEvent list \<times> error_msg option) option"
  rtc_OnPromptReceived :: bool
  rtc_OnEvent :: bool
  rtc_OnTurnComplete :: bool
  rtc_EventsPath :: string

record rtServer =
  rts_closed :: bool
  rts_open :: bool

datatype rtEffect =
    OnPromptReceived string int string
  | Wrote udsWrite
  | ConnsClosed

record httpRequest =
  hq_Method :: string
  hq_Body :: string
  hq_ReadErr :: "error_msg option"

type_synonym rtReply = "int \<times> string"

definition newline :: char where
  "newline = CHR 0x0A"

definition Close :: "rtServer \<Rightarrow> rtServer \<times> rtEffect list" where
  "Close s = (s\<lparr> rts_closed := True, rts_open := False \<rparr>, if rts_open s then [ConnsClosed] else [])"

section \<open>Handlers\<close>

text \<open>\<open>wr\<close> is the result of a write on a socket; a write that fails leaves nothing on it.\<close>

type_synonym uds = "udsWrite \<Rightarrow> error_msg option"

definition writeCtl :: "uds \<Rightarrow> ctlMessage \<Rightarrow> error_msg option \<times> rtEffect list" where
  "writeCtl wr m = (case wr (WCtl m) of None \<Rightarrow> (None, [Wrote (WCtl m)]) | Some e \<Rightarrow> (Some (''write ctl: '' @ e), []))"

definition perPrompt :: "rtConfig \<Rightarrow> bool" where
  "perPrompt cfg \<longleftrightarrow> rtc_Mode cfg = ''per-prompt-process''"

text \<open>The guards that the three handlers share.\<close>

definition rtGuard :: "rtServer \<Rightarrow> httpRequest \<Rightarrow> rtReply option" where
  "rtGuard s r =
     (if hq_Method r \<noteq> ''POST'' then Some (405, ''method not allowed'')
      else if rts_closed s then Some (503, ''runtime proxy closed'')
      else None)"

text \<open>Reading the body under \<open>MaxBytesReader\<close>.\<close>

definition readBody :: "httpRequest \<Rightarrow> error_msg + string" where
  "readBody r =
     (case hq_ReadErr r of
        Some e \<Rightarrow> Inl e
      | None \<Rightarrow> if length (hq_Body r) > MaxInlinePromptBytes + 1 then Inl ''http: request body too large'' else Inr (hq_Body r))"

text \<open>The last write of a failing handler closes the connections; the reply is 502.\<close>

definition giveUp :: "rtServer \<Rightarrow> rtEffect list \<Rightarrow> error_msg \<Rightarrow> rtReply \<times> rtEffect list \<times> rtServer" where
  "giveUp s effs e = (case Close s of (s', ce) \<Rightarrow> ((502, e), effs @ ce, s'))"

definition rtHandlePrompts ::
  "rtConfig \<Rightarrow> (string \<Rightarrow> error_msg + promptRequest) \<Rightarrow> uds \<Rightarrow> rtServer \<Rightarrow> httpRequest \<Rightarrow> rtReply \<times> rtEffect list \<times> rtServer" where
  "rtHandlePrompts cfg unmarshal wr s r =
     (case rtGuard s r of Some rep \<Rightarrow> (rep, [], s) | None \<Rightarrow>
      (case readBody r of Inl e \<Rightarrow> ((400, ''read body: '' @ e), [], s) | Inr body \<Rightarrow>
       (case unmarshal body of Inl e \<Rightarrow> ((400, ''decode body: '' @ e), [], s) | Inr req \<Rightarrow>
        (let e0 = (if rtc_OnPromptReceived cfg then [OnPromptReceived (prq_Text req) (prq_Seq req) (prq_Submitter req)] else []) in
         (case (case rtc_PromptFormatter cfg of None \<Rightarrow> Inr body | Some f \<Rightarrow> f (prq_Text req) (prq_Seq req)) of
            Inl e \<Rightarrow> ((500, ''format prompt: '' @ e), e0, s)
          | Inr harnessLine \<Rightarrow>
              (case (if perPrompt cfg then writeCtl wr ((ctl ''begin-prompt'')\<lparr> cm_Seq := prq_Seq req \<rparr>) else (None, [])) of
                 (Some e, _) \<Rightarrow> giveUp s e0 e
               | (None, e1) \<Rightarrow>
                   (let d = WData (harnessLine @ [newline]) in
                    (case wr d of
                       Some e \<Rightarrow> giveUp s (e0 @ e1) (''write data UDS: '' @ e)
                     | None \<Rightarrow>
                         (case (if perPrompt cfg then writeCtl wr ((ctl ''end-prompt'')\<lparr> cm_Seq := prq_Seq req \<rparr>) else (None, [])) of
                            (Some e, _) \<Rightarrow> giveUp s (e0 @ e1 @ [Wrote d]) e
                          | (None, e2) \<Rightarrow> ((202, ''{'' @ [dquote] @ ''seq'' @ [dquote] @ '':'' @ fmt_d (prq_Seq req) @ ''}'' @ [newline]), e0 @ e1 @ [Wrote d] @ e2, s))))))))))"

text \<open>\<open>reason\<close> is what the optional body decodes to, empty when it does not.\<close>

definition rtHandleEnd :: "uds \<Rightarrow> rtServer \<Rightarrow> httpRequest \<Rightarrow> string \<Rightarrow> rtReply \<times> rtEffect list \<times> rtServer" where
  "rtHandleEnd wr s r reason =
     (case rtGuard s r of Some rep \<Rightarrow> (rep, [], s) | None \<Rightarrow>
      (case writeCtl wr ((ctl ''end'')\<lparr> cm_Reason := reason \<rparr>) of
         (Some e, _) \<Rightarrow> ((502, e), [], s)
       | (None, e1) \<Rightarrow> ((202, []), e1 @ (if wr WDataEOF = None then [Wrote WDataEOF] else []), s)))"

definition rtHandleInterrupt :: "uds \<Rightarrow> rtServer \<Rightarrow> httpRequest \<Rightarrow> rtReply \<times> rtEffect list \<times> rtServer" where
  "rtHandleInterrupt wr s r =
     (case rtGuard s r of Some rep \<Rightarrow> (rep, [], s) | None \<Rightarrow>
      (case writeCtl wr (ctl ''interrupt'') of
         (Some e, _) \<Rightarrow> ((502, e), [], s)
       | (None, e1) \<Rightarrow> ((202, []), e1, s)))"

section \<open>What the harness prints\<close>

definition trimNewlines :: "string \<Rightarrow> string" where
  "trimNewlines s = rev (dropWhile (\<lambda>c. c = newline) (rev s))"

text \<open>A line of \<open>/stream\<close>: the harness's own JSON under its type, or the text as it is.\<close>

datatype streamLine = TypedLine string string | RawLine string

text \<open>\<open>probe\<close> is the type field of a line that is a JSON object, empty when it has none.\<close>

definition wrapStreamLine :: "(string \<Rightarrow> string option) \<Rightarrow> string \<Rightarrow> streamLine" where
  "wrapStreamLine probe raw =
     (let trimmed = trimNewlines raw
      in case probe trimmed of
           Some t \<Rightarrow> if t \<noteq> [] then TypedLine t trimmed else RawLine trimmed
         | None \<Rightarrow> RawLine trimmed)"

text \<open>\<open>ReadBytes('\n')\<close> until the end: lines with their newline, and an unfinished last one.\<close>

fun readLines :: "string \<Rightarrow> string list" where
  "readLines [] = []"
| "readLines (c # cs) =
     (if c = newline then [c] # readLines cs
      else (case readLines cs of
              [] \<Rightarrow> [[c]]
            | l # ls \<Rightarrow> (c # l) # ls))"

definition turnTerminalEventType :: "string \<Rightarrow> bool" where
  "turnTerminalEventType t \<longleftrightarrow> t = ''Result'' \<or> t = ''Error''"

datatype readerEffect =
    Streamed streamLine
  | OnEvent PaddockEvent
  | EventFile PaddockEvent
  | OnTurnComplete

text \<open>
  One line of \<open>runDataReader\<close>. The file of events is written only without the hook; writing it is taken
  to succeed.
\<close>

definition readDataLine :: "rtConfig \<Rightarrow> (string \<Rightarrow> string option) \<Rightarrow> string \<Rightarrow> readerEffect list" where
  "readDataLine cfg probe line =
     [Streamed (wrapStreamLine probe line)] @
     (case rtc_Converter cfg of
        None \<Rightarrow> []
      | Some conv \<Rightarrow>
          (let events = fst (conv line)
           in (if rtc_OnEvent cfg then map OnEvent events
               else if rtc_EventsPath cfg \<noteq> [] then map EventFile events else [])
              @ (if rtc_OnTurnComplete cfg
                 then map (\<lambda>_. OnTurnComplete) (filter (\<lambda>ev. turnTerminalEventType (pev_Type ev)) events) else [])))"

text \<open>The reader until the end of its input, or an error other than the end.\<close>

definition runDataReader ::
  "rtConfig \<Rightarrow> (string \<Rightarrow> string option) \<Rightarrow> string \<Rightarrow> error_msg option \<Rightarrow> error_msg option \<times> readerEffect list" where
  "runDataReader cfg probe input readErr =
     (map_option (\<lambda>e. ''read data UDS: '' @ e) readErr, concat (map (readDataLine cfg probe) (readLines input)))"

text \<open>What the control reader logs of an event of the supervisor.\<close>

definition ctlReport :: "string \<Rightarrow> int \<Rightarrow> int \<Rightarrow> string option" where
  "ctlReport ev seq exitCode =
     (if ev = [] then None
      else if ev = ''crashed'' then Some (''supervisor reported crashed exit_code='' @ fmt_d exitCode)
      else if ev = ''prompt-crashed''
      then Some (''supervisor reported prompt-crashed seq='' @ fmt_d seq @ '' exit_code='' @ fmt_d exitCode)
      else Some (''supervisor reported unknown event '' @ fmt_q ev))"

end
