(* ===== verification/Supervisor.thy ===== *)
theory Supervisor
  imports Runtime_Proxy
begin

text \<open>
  \<open>cmd/harness-supervisor\<close>, the process that runs the harness in the agent's container. Its
  configuration and the wait with its escalation of signals are functions; the mode with one process per
  prompt is a step relation over its goroutines, whose critical sections are the steps: the control
  loop, the reader of the data socket, and the copier of the harness's output. The runtime proxy at
  the other end of the sockets is the environment; what it writes for a prompt is what \<open>rtHandlePrompts\<close>
  of \<open>Runtime_Proxy\<close> writes. The loop of the mode with one long process is a function of the events it
  selects. \<open>shlex.Split\<close> and the harness are parameters.
\<close>

section \<open>Configuration\<close>

record supConfig =
  sc_Mode :: string
  sc_DataSocket :: string
  sc_CtlSocket :: string
  sc_HarnessBin :: string
  sc_HarnessArgs :: "string list"
  sc_WorkDir :: string

text \<open>A lookup in a Go map of strings: the empty string when the key is missing.\<close>

definition getenv :: "(string, string) gomap \<Rightarrow> string \<Rightarrow> string" where
  "getenv env k = (case map_of env k of Some v \<Rightarrow> v | None \<Rightarrow> [])"

text \<open>A later entry replaces an earlier one of the same name; an entry without a name is left out.\<close>

definition envMap :: "string list \<Rightarrow> (string, string) gomap" where
  "envMap environ =
     foldl (\<lambda>out kv. case IndexByte kv CHR ''='' of
               Some i \<Rightarrow> if i > 0 then mset_key (take i kv) (drop (i + 1) kv) out else out
             | None \<Rightarrow> out) [] environ"

definition validateEnv :: "(string \<Rightarrow> error_msg + string list) \<Rightarrow> (string, string) gomap \<Rightarrow> error_msg + supConfig" where
  "validateEnv split env =
     (let mode = getenv env ''PADDOCK_INTERACTIVE_MODE'';
          required = [''PADDOCK_AGENT_DATA_SOCKET'', ''PADDOCK_AGENT_CTL_SOCKET'', ''PADDOCK_HARNESS_BIN''] in
      if mode = [] then Inl ''PADDOCK_INTERACTIVE_MODE is required''
      else if mode \<noteq> ''persistent-process'' \<and> mode \<noteq> ''per-prompt-process''
      then Inl (''PADDOCK_INTERACTIVE_MODE must be persistent-process or per-prompt-process, got '' @ fmt_q mode)
      else (case find (\<lambda>k. getenv env k = []) required of
              Some k \<Rightarrow> Inl (k @ '' is required'')
            | None \<Rightarrow>
                (case split (getenv env ''PADDOCK_HARNESS_ARGS'') of
                   Inl e \<Rightarrow> Inl (''PADDOCK_HARNESS_ARGS: '' @ e)
                 | Inr args \<Rightarrow>
                     (let workdir = getenv env ''PADDOCK_HARNESS_WORKDIR'' in
                      Inr \<lparr> sc_Mode = mode,
                            sc_DataSocket = getenv env ''PADDOCK_AGENT_DATA_SOCKET'',
                            sc_CtlSocket = getenv env ''PADDOCK_AGENT_CTL_SOCKET'',
                            sc_HarnessBin = getenv env ''PADDOCK_HARNESS_BIN'',
                            sc_HarnessArgs = args,
                            sc_WorkDir = (if workdir = [] then getenv env ''PADDOCK_WORKSPACE'' else workdir) \<rparr>))))"

section \<open>Waiting for the harness\<close>

datatype signal = SIGINT | SIGTERM | SIGKILL

text \<open>The error of \<open>cmd.Wait\<close>: an exit code other than zero, death by a signal, or another failure.\<close>

datatype wait_error = ExitStatus int | Signalled signal | WaitFailed error_msg

primrec exitCodeOf :: "wait_error \<Rightarrow> int" where
  "exitCodeOf (ExitStatus n) = n"
| "exitCodeOf (Signalled s) = - 1"
| "exitCodeOf (WaitFailed m) = - 1"

text \<open>
  What a harness does once its input has ended: when it exits by itself and how, and when it exits
  after SIGTERM and how; \<open>None\<close> for never. Nothing survives SIGKILL. Where two events coincide, the exit
  is taken to come first.
\<close>

record harnessProc =
  hp_exits :: "(duration \<times> wait_error option) option"
  hp_onTerm :: "(duration \<times> wait_error option) option"

definition shutdownGentle :: duration where
  "shutdownGentle = 2 * second"

definition shutdownHard :: duration where
  "shutdownHard = 3 * second"

text \<open>The signals sent to the process group, the time passed, and the result of \<open>cmd.Wait\<close>.\<close>

definition waitWithTimeout :: "harnessProc \<Rightarrow> duration \<Rightarrow> duration \<Rightarrow> signal list \<times> duration \<times> wait_error option" where
  "waitWithTimeout h gentle hard =
     (let own = (\<lambda>limit. case hp_exits h of Some (t, r) \<Rightarrow> if t \<le> limit then Some (t, r) else None | None \<Rightarrow> None);
          term = (case hp_onTerm h of Some (d, r) \<Rightarrow> if d \<le> hard then Some (gentle + d, r) else None | None \<Rightarrow> None)
      in case own gentle of
           Some (t, r) \<Rightarrow> ([], t, r)
         | None \<Rightarrow>
             (case (own (gentle + hard), term) of
                (Some (t, r), Some (t', r')) \<Rightarrow> if t \<le> t' then ([SIGTERM], t, r) else ([SIGTERM], t', r')
              | (Some (t, r), None) \<Rightarrow> ([SIGTERM], t, r)
              | (None, Some (t', r')) \<Rightarrow> ([SIGTERM], t', r')
              | (None, None) \<Rightarrow> ([SIGTERM, SIGKILL], gentle + hard, Some (Signalled SIGKILL))))"

section \<open>One long process\<close>

record supEvent =
  sv_Event :: string
  sv_Seq :: int
  sv_ExitCode :: int

text \<open>What the loop of \<open>runPersistent\<close> selects.\<close>

datatype persistentCase = CtxDone | CtlMsg ctlMessage | CtlClosed | StdoutDone

datatype persistentEffect = Killed signal | StdinClosed | Sent supEvent | Logged string

text \<open>
  The loop, with the harness as it behaves after its input ends; \<open>None\<close> as a result while the loop waits
  for more. The result of the process, nil or an error, is the second part.
\<close>

definition shutDown :: "harnessProc \<Rightarrow> persistentEffect list \<times> wait_error option option" where
  "shutDown h = (case waitWithTimeout h shutdownGentle shutdownHard of
                   (sigs, _, r) \<Rightarrow> (StdinClosed # map Killed sigs, Some r))"

fun persistentLoop :: "harnessProc \<Rightarrow> persistentCase list \<Rightarrow> persistentEffect list \<times> wait_error option option" where
  "persistentLoop h [] = ([], None)"
| "persistentLoop h (CtxDone # evs) = shutDown h"
| "persistentLoop h (CtlClosed # evs) = shutDown h"
| "persistentLoop h (CtlMsg m # evs) =
     (if cm_Action m = ''interrupt'' then (case persistentLoop h evs of (es, r) \<Rightarrow> (Killed SIGINT # es, r))
      else if cm_Action m = ''end'' then shutDown h
      else (case persistentLoop h evs of (es, r) \<Rightarrow> (Logged (''unknown ctl action: '' @ fmt_q (cm_Action m)) # es, r)))"
| "persistentLoop h (StdoutDone # evs) =
     (case waitWithTimeout h shutdownGentle shutdownHard of
        (sigs, _, None) \<Rightarrow> (map Killed sigs, Some None)
      | (sigs, _, Some e) \<Rightarrow>
          (map Killed sigs @ [Sent \<lparr> sv_Event = ''crashed'', sv_Seq = 0, sv_ExitCode = exitCodeOf e \<rparr>], Some (Some e)))"

text \<open>
  The inner loop that copies a chunk of output to the current connection. \<open>tries\<close> holds the results of
  successive calls of \<open>Write\<close>, each the number of bytes taken and whether it failed; the result is the
  list of parts that connections took, and \<open>None\<close> if \<open>tries\<close> ends first.
\<close>

fun writeChunk :: "string \<Rightarrow> (nat \<times> bool) list \<Rightarrow> string list option" where
  "writeChunk [] tries = Some []"
| "writeChunk (c # cs) [] = None"
| "writeChunk (c # cs) ((w, failed) # tries) =
     map_option (\<lambda>ps. take w (c # cs) # ps) (writeChunk (drop w (c # cs)) tries)"

section \<open>One process per prompt: state\<close>

datatype supError = PromptActive int | StartFailed int error_msg

text \<open>
  Where the control loop is: at its \<open>select\<close>; in \<open>endPrompt\<close> at the receive from a drain channel; in
  \<open>endPrompt\<close> waiting for the process; or returned. The flag says that the loop returns after \<open>endPrompt\<close>.
\<close>

datatype mainPc = Looping | Awaiting nat bool | Reaping bool | Returned "supError option"

text \<open>Where the reader is: at its read, in \<open>writeToStdin\<close> with bytes, in \<open>runDrain\<close>, or returned.\<close>

datatype readerPc = Reading | Writing string | Draining nat "nat option" | Gone

record supState =
  su_main :: mainPc
  su_reader :: readerPc
  su_ctl :: "ctlMessage list"
  su_ctlEOF :: bool
  su_events :: "supEvent list"
  su_data :: string
  su_dataEOF :: bool
  su_deadline :: bool
  su_stdin :: "nat option"
  su_cmd :: "nat option"
  su_activeSeq :: int
  su_drainAck :: "nat option"
  su_chans :: nat
  su_closed :: "nat set"
  su_procs :: nat
  su_running :: bool
  su_exit :: "wait_error option"
  su_fed :: "nat \<Rightarrow> string"
  su_ended :: "nat set"
  su_pipe :: string
  su_out :: string
  su_posts :: "udsWrite list list"
  su_sent :: "string list"
  su_panic :: bool

text \<open>
  The fields of \<open>promptState\<close> are \<open>su_stdin\<close> and \<open>su_cmd\<close> (processes are numbered), \<open>su_activeSeq\<close> and
  \<open>su_drainAck\<close> (channels are numbered, \<open>su_closed\<close> are the closed ones). \<open>su_ctl\<close> and \<open>su_data\<close> are what is
  in the sockets, \<open>su_deadline\<close> a read deadline that has passed. Of the processes, \<open>su_fed\<close> is what was
  written to their input, \<open>su_ended\<close> those whose input was closed, \<open>su_pipe\<close> the unread output of the
  current one, \<open>su_out\<close> what was written to the data socket. \<open>su_posts\<close> holds the writes that handlers of
  the runtime have still to do, \<open>su_sent\<close> the bytes of every prompt accepted so far.
\<close>

definition initialSup :: supState where
  "initialSup =
     \<lparr> su_main = Looping, su_reader = Reading, su_ctl = [], su_ctlEOF = False, su_events = [], su_data = [],
       su_dataEOF = False, su_deadline = False, su_stdin = None, su_cmd = None, su_activeSeq = 0,
       su_drainAck = None, su_chans = 0, su_closed = {}, su_procs = 0, su_running = False, su_exit = None,
       su_fed = (\<lambda>_. []), su_ended = {}, su_pipe = [], su_out = [], su_posts = [], su_sent = [], su_panic = False \<rparr>"

text \<open>Everything stops when the loop has returned, and on a panic.\<close>

definition alive :: "supState \<Rightarrow> bool" where
  "alive s \<longleftrightarrow> \<not> su_panic s \<and> (\<forall>e. su_main s \<noteq> Returned e)"

section \<open>One process per prompt: operations\<close>

definition startProc :: "int \<Rightarrow> supState \<Rightarrow> supState" where
  "startProc seq s =
     s\<lparr> su_cmd := Some (su_procs s), su_stdin := Some (su_procs s), su_activeSeq := seq, su_procs := Suc (su_procs s),
        su_running := True, su_exit := None, su_pipe := [] \<rparr>"

text \<open>\<open>start\<close> is the error of creating the pipes or starting the process.\<close>

definition beginPrompt :: "error_msg option \<Rightarrow> int \<Rightarrow> supState \<Rightarrow> supState" where
  "beginPrompt start seq s =
     (if su_cmd s \<noteq> None then s\<lparr> su_main := Returned (Some (PromptActive seq)) \<rparr>
      else (case start of
              Some e \<Rightarrow> s\<lparr> su_main := Returned (Some (StartFailed seq e)) \<rparr>
            | None \<Rightarrow> startProc seq s))"

text \<open>\<open>endPrompt\<close> up to the receive; with the flag, \<open>endActivePrompt\<close> and the return that follows it.\<close>

definition endPrompt :: "bool \<Rightarrow> supState \<Rightarrow> supState" where
  "endPrompt exit s =
     (if su_cmd s = None then (if exit then s\<lparr> su_main := Returned None \<rparr> else s)
      else s\<lparr> su_drainAck := Some (su_chans s), su_chans := Suc (su_chans s), su_deadline := True,
              su_main := Awaiting (su_chans s) exit \<rparr>)"

text \<open>\<open>endPrompt\<close> after the receive: the input is taken out of the state and closed.\<close>

definition closeInput :: "bool \<Rightarrow> supState \<Rightarrow> supState" where
  "closeInput exit s =
     s\<lparr> su_stdin := None, su_drainAck := None, su_ended := su_ended s \<union> set_option (su_stdin s), su_main := Reaping exit \<rparr>"

text \<open>
  \<open>endPrompt\<close> after the wait. \<open>cmd.Wait\<close> closes the parent's end of the output pipe as soon as the
  process is gone, so what the copier has not read by then is lost.
\<close>

definition reap :: "bool \<Rightarrow> supState \<Rightarrow> supState" where
  "reap exit s =
     s\<lparr> su_cmd := None, su_activeSeq := 0, su_pipe := [],
        su_main := (if exit then Returned None else Looping),
        su_events := su_events s @ (case su_exit s of
            None \<Rightarrow> []
          | Some e \<Rightarrow> [\<lparr> sv_Event = ''prompt-crashed'', sv_Seq = su_activeSeq s, sv_ExitCode = exitCodeOf e \<rparr>]) \<rparr>"

text \<open>The dispatch of the control loop on a message.\<close>

definition onCtl :: "error_msg option \<Rightarrow> ctlMessage \<Rightarrow> supState \<Rightarrow> supState" where
  "onCtl start m s =
     (if cm_Action m = ''begin-prompt'' then beginPrompt start (cm_Seq m) s
      else if cm_Action m = ''end-prompt'' then endPrompt False s
      else if cm_Action m = ''end'' then endPrompt True s
      else s)"

definition feed :: "nat option \<Rightarrow> string \<Rightarrow> supState \<Rightarrow> supState" where
  "feed w p s = (case w of None \<Rightarrow> s | Some q \<Rightarrow> s\<lparr> su_fed := (su_fed s)(q := su_fed s q @ p) \<rparr>)"

text \<open>Closing a channel twice is a panic.\<close>

definition closeChan :: "nat \<Rightarrow> supState \<Rightarrow> supState" where
  "closeChan ch s = (if ch \<in> su_closed s then s\<lparr> su_panic := True \<rparr> else s\<lparr> su_closed := insert ch (su_closed s) \<rparr>)"

definition releaseDrain :: "supState \<Rightarrow> supState" where
  "releaseDrain s =
     (case su_drainAck s of
        None \<Rightarrow> s\<lparr> su_reader := Gone \<rparr>
      | Some ch \<Rightarrow> closeChan ch (s\<lparr> su_drainAck := None, su_reader := Gone \<rparr>))"

section \<open>One process per prompt: steps\<close>

text \<open>
  The steps of the supervisor itself. A read takes some of the bytes in the socket, and with a deadline
  in the past none. The drain ends when the socket is empty, by the short deadline or at the end.
\<close>

inductive internal :: "supState \<Rightarrow> supState \<Rightarrow> bool" where
  main_ctl: "alive s \<Longrightarrow> su_main s = Looping \<Longrightarrow> su_ctl s = m # ms \<Longrightarrow> internal s (onCtl start m (s\<lparr> su_ctl := ms \<rparr>))"
| main_ctl_eof: "alive s \<Longrightarrow> su_main s = Looping \<Longrightarrow> su_ctl s = [] \<Longrightarrow> su_ctlEOF s \<Longrightarrow> internal s (s\<lparr> su_main := Returned None \<rparr>)"
| main_drained: "alive s \<Longrightarrow> su_main s = Awaiting ch exit \<Longrightarrow> ch \<in> su_closed s \<Longrightarrow> internal s (closeInput exit s)"
| main_kill: "alive s \<Longrightarrow> su_main s = Reaping exit \<Longrightarrow> su_running s
    \<Longrightarrow> internal s (s\<lparr> su_running := False, su_exit := Some (Signalled sig) \<rparr>)"
| main_reap: "alive s \<Longrightarrow> su_main s = Reaping exit \<Longrightarrow> \<not> su_running s \<Longrightarrow> internal s (reap exit s)"
| reader_read: "alive s \<Longrightarrow> su_reader s = Reading \<Longrightarrow> \<not> su_deadline s \<Longrightarrow> su_data s = p @ rest \<Longrightarrow> p \<noteq> []
    \<Longrightarrow> internal s (s\<lparr> su_data := rest, su_reader := Writing p \<rparr>)"
| reader_write: "alive s \<Longrightarrow> su_reader s = Writing p \<Longrightarrow> su_stdin s = Some q
    \<Longrightarrow> internal s (feed (Some q) p (s\<lparr> su_reader := Reading \<rparr>))"
| reader_drop: "alive s \<Longrightarrow> su_reader s = Writing p \<Longrightarrow> su_stdin s = None \<Longrightarrow> su_drainAck s \<noteq> None
    \<Longrightarrow> internal s (s\<lparr> su_reader := Reading \<rparr>)"
| reader_timeout: "alive s \<Longrightarrow> su_reader s = Reading \<Longrightarrow> su_deadline s \<Longrightarrow> su_drainAck s = Some ch
    \<Longrightarrow> internal s (s\<lparr> su_deadline := False, su_reader := Draining ch (su_stdin s) \<rparr>)"
| reader_timeout_stray: "alive s \<Longrightarrow> su_reader s = Reading \<Longrightarrow> su_deadline s \<Longrightarrow> su_drainAck s = None
    \<Longrightarrow> internal s (releaseDrain s)"
| drain_read: "alive s \<Longrightarrow> su_reader s = Draining ch w \<Longrightarrow> su_data s = p @ rest \<Longrightarrow> p \<noteq> []
    \<Longrightarrow> internal s (feed w p (s\<lparr> su_data := rest \<rparr>))"
| drain_done: "alive s \<Longrightarrow> su_reader s = Draining ch w \<Longrightarrow> su_data s = []
    \<Longrightarrow> internal s (closeChan ch (s\<lparr> su_reader := Reading \<rparr>))"
| reader_eof: "alive s \<Longrightarrow> su_reader s = Reading \<Longrightarrow> \<not> su_deadline s \<Longrightarrow> su_data s = [] \<Longrightarrow> su_dataEOF s
    \<Longrightarrow> internal s (releaseDrain s)"
| copier: "alive s \<Longrightarrow> su_cmd s \<noteq> None \<Longrightarrow> su_pipe s = p @ rest \<Longrightarrow> p \<noteq> []
    \<Longrightarrow> internal s (s\<lparr> su_pipe := rest, su_out := su_out s @ p \<rparr>)"

text \<open>The harness prints and exits.\<close>

inductive harness :: "supState \<Rightarrow> supState \<Rightarrow> bool" where
  prints: "alive s \<Longrightarrow> su_running s \<Longrightarrow> harness s (s\<lparr> su_pipe := su_pipe s @ bs \<rparr>)"
| exits: "alive s \<Longrightarrow> su_running s \<Longrightarrow> harness s (s\<lparr> su_running := False, su_exit := r \<rparr>)"

text \<open>One write of a handler of the runtime. A write on a half-closed data socket fails and ends the handler.\<close>

primrec doWrite :: "udsWrite \<Rightarrow> supState \<Rightarrow> supState" where
  "doWrite (WCtl m) s = s\<lparr> su_ctl := su_ctl s @ [m] \<rparr>"
| "doWrite (WData bs) s = s\<lparr> su_data := su_data s @ bs \<rparr>"
| "doWrite WDataEOF s = s\<lparr> su_dataEOF := True \<rparr>"

text \<open>The writes of an accepted prompt, and of an accepted end, in the order of the handlers.\<close>

definition promptWrites :: "int \<Rightarrow> string \<Rightarrow> udsWrite list" where
  "promptWrites seq bs =
     [WCtl ((ctl ''begin-prompt'')\<lparr> cm_Seq := seq \<rparr>), WData bs, WCtl ((ctl ''end-prompt'')\<lparr> cm_Seq := seq \<rparr>)]"

definition endWrites :: "string \<Rightarrow> udsWrite list" where
  "endWrites reason = [WCtl ((ctl ''end'')\<lparr> cm_Reason := reason \<rparr>), WDataEOF]"

text \<open>The last turn is over: nothing of it is left to be written or read, and its input was closed.\<close>

definition turnOver :: "supState \<Rightarrow> bool" where
  "turnOver s \<longleftrightarrow>
     filter (\<lambda>ws. ws \<noteq> [WCtl (ctl ''interrupt'')]) (su_posts s) = [] \<and>
     filter (\<lambda>m. cm_Action m \<noteq> ''interrupt'') (su_ctl s) = [] \<and> su_stdin s = None"

text \<open>
  The runtime. With \<open>serial\<close> a prompt is accepted only when the last turn is over; with \<open>ends\<close> the session
  may be ended, and the supervisor told to terminate.
\<close>

inductive runtime :: "bool \<Rightarrow> bool \<Rightarrow> supState \<Rightarrow> supState \<Rightarrow> bool" for serial ends where
  accept_prompt: "alive s \<Longrightarrow> (serial \<Longrightarrow> turnOver s)
    \<Longrightarrow> runtime serial ends s (s\<lparr> su_posts := su_posts s @ [promptWrites seq bs], su_sent := su_sent s @ [bs] \<rparr>)"
| accept_interrupt: "alive s \<Longrightarrow> runtime serial ends s (s\<lparr> su_posts := su_posts s @ [[WCtl (ctl ''interrupt'')]] \<rparr>)"
| accept_end: "alive s \<Longrightarrow> ends \<Longrightarrow> runtime serial ends s (s\<lparr> su_posts := su_posts s @ [endWrites reason] \<rparr>)"
| performs: "alive s \<Longrightarrow> su_posts s = ps @ (w # ws) # qs \<Longrightarrow> (su_dataEOF s \<Longrightarrow> \<forall>bs. w \<noteq> WData bs)
    \<Longrightarrow> runtime serial ends s (doWrite w (s\<lparr> su_posts := ps @ (if ws = [] then [] else [ws]) @ qs \<rparr>))"
| fails: "alive s \<Longrightarrow> su_posts s = ps @ (WData bs # ws) # qs \<Longrightarrow> su_dataEOF s
    \<Longrightarrow> runtime serial ends s (s\<lparr> su_posts := ps @ qs \<rparr>)"
| closes: "alive s \<Longrightarrow> ends \<Longrightarrow> runtime serial ends s (s\<lparr> su_ctlEOF := True, su_dataEOF := True \<rparr>)"
| terminates: "alive s \<Longrightarrow> ends \<Longrightarrow> su_main s = Looping \<Longrightarrow> runtime serial ends s (endPrompt True s)"

definition step :: "bool \<Rightarrow> bool \<Rightarrow> supState \<Rightarrow> supState \<Rightarrow> bool" where
  "step serial ends s s' \<longleftrightarrow> internal s s' \<or> harness s s' \<or> runtime serial ends s s'"

definition reachable :: "bool \<Rightarrow> bool \<Rightarrow> supState \<Rightarrow> bool" where
  "reachable serial ends s \<longleftrightarrow> (step serial ends)\<^sup>*\<^sup>* initialSup s"

inductive_cases internalE: "internal s s'"
inductive_cases harnessE: "harness s s'"
inductive_cases runtimeE: "runtime serial ends s s'"

end
