(* ===== verification/Supervisor_Facts.thy ===== *)
theory Supervisor_Facts
  imports Supervisor
begin

text \<open>
  The supervisor under a runtime that sends one prompt at a time and never ends the session: a turn goes
  through five phases, which every step respects, and the supervisor's own steps come to an end.
\<close>

section \<open>Phases of a turn\<close>

abbreviation beginMsg :: "int \<Rightarrow> ctlMessage" where
  "beginMsg seq \<equiv> (ctl ''begin-prompt'')\<lparr> cm_Seq := seq \<rparr>"

abbreviation endMsg :: "int \<Rightarrow> ctlMessage" where
  "endMsg seq \<equiv> (ctl ''end-prompt'')\<lparr> cm_Seq := seq \<rparr>"

definition ctlOf :: "supState \<Rightarrow> ctlMessage list" where
  "ctlOf s = filter (\<lambda>m. cm_Action m \<noteq> ''interrupt'') (su_ctl s)"

definition postsOf :: "supState \<Rightarrow> udsWrite list list" where
  "postsOf s = filter (\<lambda>ws. ws \<noteq> [WCtl (ctl ''interrupt'')]) (su_posts s)"

text \<open>Bytes that the runtime wrote and the reader has not passed on.\<close>

definition held :: "supState \<Rightarrow> string" where
  "held s = (case su_reader s of Writing p \<Rightarrow> p | _ \<Rightarrow> []) @ su_data s"

definition pumping :: "supState \<Rightarrow> bool" where
  "pumping s \<longleftrightarrow> su_reader s = Reading \<or> (\<exists>p. su_reader s = Writing p \<and> p \<noteq> [])"

text \<open>The first \<open>k\<close> processes got their prompts and had their input closed, and no other had.\<close>

definition settled :: "nat \<Rightarrow> supState \<Rightarrow> bool" where
  "settled k s \<longleftrightarrow> (\<forall>q < k. su_fed s q = su_sent s ! q) \<and> su_ended s = {..<k}"

definition sound :: "supState \<Rightarrow> bool" where
  "sound s \<longleftrightarrow> \<not> su_panic s \<and> \<not> su_dataEOF s \<and> \<not> su_ctlEOF s \<and> (\<forall>ch \<in> su_closed s. ch < su_chans s)
     \<and> (\<forall>q \<ge> su_procs s. su_fed s q = [])"

text \<open>Between turns for the control loop: at its select, or still waiting for the last process.\<close>

definition resting :: "supState \<Rightarrow> bool" where
  "resting s \<longleftrightarrow> su_stdin s = None \<and> su_drainAck s = None \<and> \<not> su_deadline s
     \<and> (su_main s = Looping \<and> su_cmd s = None \<or> su_main s = Reaping False \<and> su_cmd s \<noteq> None)"

definition phaseIdle :: "supState \<Rightarrow> bool" where
  "phaseIdle s \<longleftrightarrow> sound s \<and> resting s \<and> su_reader s = Reading \<and> su_data s = [] \<and> postsOf s = [] \<and> ctlOf s = []
     \<and> su_procs s = length (su_sent s) \<and> settled (length (su_sent s)) s"

definition phaseSent :: "supState \<Rightarrow> bool" where
  "phaseSent s \<longleftrightarrow> sound s \<and> resting s \<and> pumping s \<and> (\<exists>pre b seq. su_sent s = pre @ [b] \<and> su_procs s = length pre
     \<and> settled (length pre) s
     \<and> (postsOf s = [promptWrites seq b] \<and> ctlOf s = [] \<and> held s = []
        \<or> postsOf s = [[WData b, WCtl (endMsg seq)]] \<and> ctlOf s = [beginMsg seq] \<and> held s = []
        \<or> postsOf s = [[WCtl (endMsg seq)]] \<and> ctlOf s = [beginMsg seq] \<and> held s = b
        \<or> postsOf s = [] \<and> ctlOf s = [beginMsg seq, endMsg seq] \<and> held s = b))"

definition phaseActive :: "supState \<Rightarrow> bool" where
  "phaseActive s \<longleftrightarrow> sound s \<and> pumping s \<and> su_main s = Looping \<and> su_drainAck s = None \<and> \<not> su_deadline s
     \<and> (\<exists>pre b seq. su_sent s = pre @ [b] \<and> su_procs s = Suc (length pre) \<and> settled (length pre) s
        \<and> su_stdin s = Some (length pre) \<and> su_cmd s = Some (length pre)
        \<and> (postsOf s = [[WData b, WCtl (endMsg seq)]] \<and> ctlOf s = [] \<and> su_fed s (length pre) @ held s = []
           \<or> postsOf s = [[WCtl (endMsg seq)]] \<and> ctlOf s = [] \<and> su_fed s (length pre) @ held s = b
           \<or> postsOf s = [] \<and> ctlOf s = [endMsg seq] \<and> su_fed s (length pre) @ held s = b))"

definition phaseDraining :: "supState \<Rightarrow> bool" where
  "phaseDraining s \<longleftrightarrow> sound s \<and> postsOf s = [] \<and> ctlOf s = []
     \<and> (\<exists>pre b ch. su_sent s = pre @ [b] \<and> su_procs s = Suc (length pre) \<and> settled (length pre) s
        \<and> su_stdin s = Some (length pre) \<and> su_cmd s = Some (length pre)
        \<and> su_main s = Awaiting ch False \<and> su_drainAck s = Some ch \<and> ch \<notin> su_closed s
        \<and> (pumping s \<and> su_deadline s \<or> su_reader s = Draining ch (Some (length pre)) \<and> \<not> su_deadline s)
        \<and> ch < su_chans s \<and> su_fed s (length pre) @ held s = b)"

definition phaseDrained :: "supState \<Rightarrow> bool" where
  "phaseDrained s \<longleftrightarrow> sound s \<and> postsOf s = [] \<and> ctlOf s = [] \<and> su_reader s = Reading \<and> \<not> su_deadline s \<and> su_data s = []
     \<and> (\<exists>pre b ch. su_sent s = pre @ [b] \<and> su_procs s = Suc (length pre) \<and> settled (length pre) s
        \<and> su_stdin s = Some (length pre) \<and> su_cmd s = Some (length pre)
        \<and> su_main s = Awaiting ch False \<and> su_drainAck s = Some ch \<and> ch \<in> su_closed s \<and> su_fed s (length pre) = b)"

text \<open>The loop has returned because a process could not be started.\<close>

definition startFailed :: "supState \<Rightarrow> bool" where
  "startFailed s \<longleftrightarrow> \<not> su_panic s \<and> (\<exists>seq e. su_main s = Returned (Some (StartFailed seq e)))
     \<and> (\<forall>q \<in> su_ended s. q < length (su_sent s) \<and> su_fed s q = su_sent s ! q)"

definition inPhase :: "supState \<Rightarrow> bool" where
  "inPhase s \<longleftrightarrow> phaseIdle s \<or> phaseSent s \<or> phaseActive s \<or> phaseDraining s \<or> phaseDrained s \<or> startFailed s"

lemmas phases = phaseIdle_def phaseSent_def phaseActive_def phaseDraining_def phaseDrained_def

lemmas phase_parts = sound_def resting_def pumping_def settled_def held_def

lemma phaseSentI:
  assumes "sound s" "resting s" "pumping s" "su_sent s = pre @ [b]" "su_procs s = length pre" "settled (length pre) s"
    "postsOf s = [promptWrites seq b] \<and> ctlOf s = [] \<and> held s = []
      \<or> postsOf s = [[WData b, WCtl (endMsg seq)]] \<and> ctlOf s = [beginMsg seq] \<and> held s = []
      \<or> postsOf s = [[WCtl (endMsg seq)]] \<and> ctlOf s = [beginMsg seq] \<and> held s = b
      \<or> postsOf s = [] \<and> ctlOf s = [beginMsg seq, endMsg seq] \<and> held s = b"
  shows "phaseSent s"
  unfolding phaseSent_def using assms by blast

lemma phaseActiveI:
  assumes "sound s" "pumping s" "su_main s = Looping" "su_drainAck s = None" "\<not> su_deadline s"
    "su_sent s = pre @ [b]" "su_procs s = Suc (length pre)" "settled (length pre) s"
    "su_stdin s = Some (length pre)" "su_cmd s = Some (length pre)"
    "postsOf s = [[WData b, WCtl (endMsg seq)]] \<and> ctlOf s = [] \<and> su_fed s (length pre) @ held s = []
      \<or> postsOf s = [[WCtl (endMsg seq)]] \<and> ctlOf s = [] \<and> su_fed s (length pre) @ held s = b
      \<or> postsOf s = [] \<and> ctlOf s = [endMsg seq] \<and> su_fed s (length pre) @ held s = b"
  shows "phaseActive s"
  unfolding phaseActive_def using assms by blast

lemma not_alive_startFailed: "startFailed s \<Longrightarrow> \<not> alive s"
  by (auto simp: startFailed_def alive_def)

section \<open>Steps of the harness and of the runtime\<close>

lemma settled_cong: "su_fed s' = su_fed s \<Longrightarrow> su_ended s' = su_ended s \<Longrightarrow> su_sent s' = su_sent s \<Longrightarrow> settled k s' = settled k s"
  by (simp add: settled_def)

lemma harness_keeps:
  assumes "harness s s'" "inPhase s"
  shows "inPhase s'"
  using assms
  by (elim harnessE) (simp_all add: inPhase_def phases phase_parts startFailed_def postsOf_def ctlOf_def)

lemma accept_keeps:
  assumes "turnOver s" "inPhase s" "alive s"
  shows "inPhase (s\<lparr> su_posts := su_posts s @ [promptWrites seq bs], su_sent := su_sent s @ [bs] \<rparr>)" (is "inPhase ?s'")
proof -
  have t: "postsOf s = []" "ctlOf s = []" "su_stdin s = None" using assms(1) by (auto simp: turnOver_def postsOf_def ctlOf_def)
  with assms(2,3) have idle: "phaseIdle s"
    by (auto simp: inPhase_def phaseSent_def phaseActive_def phaseDraining_def phaseDrained_def dest: not_alive_startFailed)
  have "postsOf ?s' = [promptWrites seq bs]" using t by (simp add: postsOf_def promptWrites_def)
  with idle t have "phaseSent ?s'"
    by (auto simp: phaseIdle_def phaseSent_def phase_parts ctlOf_def nth_append)
  then show ?thesis by (simp add: inPhase_def)
qed

text \<open>What a phase does not look at: interrupts on their way, and interrupts in the socket.\<close>

lemma inPhase_interrupts:
  assumes "inPhase s" "postsOf s' = postsOf s" "ctlOf s' = ctlOf s" "s' = s\<lparr> su_posts := posts, su_ctl := msgs \<rparr>"
  shows "inPhase s'"
proof -
  have eq: "su_main s' = su_main s" "su_reader s' = su_reader s" "su_ctlEOF s' = su_ctlEOF s" "su_data s' = su_data s"
    "su_dataEOF s' = su_dataEOF s" "su_deadline s' = su_deadline s" "su_stdin s' = su_stdin s" "su_cmd s' = su_cmd s"
    "su_drainAck s' = su_drainAck s" "su_chans s' = su_chans s" "su_closed s' = su_closed s" "su_procs s' = su_procs s"
    "su_fed s' = su_fed s" "su_ended s' = su_ended s" "su_sent s' = su_sent s" "su_panic s' = su_panic s"
    by (simp_all add: assms(4))
  from assms(1) show ?thesis
    unfolding inPhase_def phases phase_parts startFailed_def assms(2,3) eq .
qed

text \<open>The next write of the prompt's handler.\<close>

lemma filter_pick:
  assumes "filter P xs = [y]" "xs = ps @ x # qs" "P x"
  shows "x = y \<and> filter P ps = [] \<and> filter P qs = []"
  using assms by (auto simp: append_eq_Cons_conv)

lemma prompt_write_keeps:
  assumes "inPhase s" "alive s" "su_posts s = ps @ (w # ws) # qs" "(w # ws) \<noteq> [WCtl (ctl ''interrupt'')]"
  shows "inPhase (doWrite w (s\<lparr> su_posts := ps @ (if ws = [] then [] else [ws]) @ qs \<rparr>))" (is "inPhase ?s'")
proof -
  let ?P = "\<lambda>ws. ws \<noteq> [WCtl (ctl ''interrupt'')]"
  have "(w # ws) \<in> set (postsOf s)" using assms(3,4) by (simp add: postsOf_def)
  then have one: "postsOf s = [w # ws]"
    using assms(1,2) by (auto simp: inPhase_def phases dest: not_alive_startFailed)
  have f: "filter ?P (su_posts s) = [w # ws]" using one by (simp only: postsOf_def)
  have "?P (w # ws)" using assms(4) .
  from filter_pick [where P = ?P, OF f assms(3) this] have rest: "filter ?P ps = []" "filter ?P qs = []" by blast+
  have posts': "postsOf ?s' = (if ws = [] \<or> ws = [WCtl (ctl ''interrupt'')] then [] else [ws])"
    using rest by (cases w) (auto simp: postsOf_def)
  have ctl': "ctlOf ?s' = ctlOf s @ (case w of WCtl m \<Rightarrow> if cm_Action m = ''interrupt'' then [] else [m] | _ \<Rightarrow> [])"
    by (cases w) (simp_all add: ctlOf_def)
  have keep: "phaseSent ?s' \<or> phaseActive ?s'"
  proof -
    from assms(1,2) one consider "phaseSent s" | "phaseActive s"
      by (auto simp: inPhase_def phaseIdle_def phaseDraining_def phaseDrained_def dest: not_alive_startFailed)
    then show ?thesis
    proof cases
      case 1
      then obtain pre b seq where p: "sound s" "resting s" "pumping s" "su_sent s = pre @ [b]" "su_procs s = length pre"
        "settled (length pre) s" and
        "postsOf s = [promptWrites seq b] \<and> ctlOf s = [] \<and> held s = []
        \<or> postsOf s = [[WData b, WCtl (endMsg seq)]] \<and> ctlOf s = [beginMsg seq] \<and> held s = []
        \<or> postsOf s = [[WCtl (endMsg seq)]] \<and> ctlOf s = [beginMsg seq] \<and> held s = b"
        using one by (auto simp: phaseSent_def)
      then have "w # ws = promptWrites seq b \<and> ctlOf s = [] \<and> held s = []
        \<or> w # ws = [WData b, WCtl (endMsg seq)] \<and> ctlOf s = [beginMsg seq] \<and> held s = []
        \<or> w # ws = [WCtl (endMsg seq)] \<and> ctlOf s = [beginMsg seq] \<and> held s = b"
        unfolding one by simp
      then have "phaseSent ?s'"
        using p posts' ctl'
        by (elim disjE conjE; intro phaseSentI [where pre = pre and b = b and seq = seq])
          (simp_all add: sound_def resting_def pumping_def settled_def held_def promptWrites_def ctl_def)
      then show ?thesis ..
    next
      case 2
      then obtain pre b seq where p: "sound s" "pumping s" "su_main s = Looping" "su_drainAck s = None" "\<not> su_deadline s"
        "su_sent s = pre @ [b]" "su_procs s = Suc (length pre)" "settled (length pre) s"
        "su_stdin s = Some (length pre)" "su_cmd s = Some (length pre)" and
        "postsOf s = [[WData b, WCtl (endMsg seq)]] \<and> ctlOf s = [] \<and> su_fed s (length pre) @ held s = []
           \<or> postsOf s = [[WCtl (endMsg seq)]] \<and> ctlOf s = [] \<and> su_fed s (length pre) @ held s = b"
        using one by (auto simp: phaseActive_def)
      then have "w # ws = [WData b, WCtl (endMsg seq)] \<and> ctlOf s = [] \<and> su_fed s (length pre) @ held s = []
           \<or> w # ws = [WCtl (endMsg seq)] \<and> ctlOf s = [] \<and> su_fed s (length pre) @ held s = b"
        unfolding one by simp
      then have "phaseActive ?s'"
        using p posts' ctl'
        by (elim disjE conjE; intro phaseActiveI [where pre = pre and b = b and seq = seq])
          (simp_all add: sound_def pumping_def settled_def held_def ctl_def)
      then show ?thesis ..
    qed
  qed
  then show ?thesis by (auto simp: inPhase_def)
qed

lemma runtime_keeps:
  assumes "runtime True False s s'" "inPhase s"
  shows "inPhase s'"
  using assms(1)
proof cases
  case (accept_prompt seq bs)
  then show ?thesis using accept_keeps assms(2) by simp
next
  case accept_interrupt
  then show ?thesis
    by (intro inPhase_interrupts [OF assms(2), where posts = "su_posts s @ [[WCtl (ctl ''interrupt'')]]" and msgs = "su_ctl s"])
      (simp_all add: postsOf_def ctlOf_def)
next
  case (performs ps w ws qs)
  show ?thesis
  proof (cases "(w # ws) = [WCtl (ctl ''interrupt'')]")
    case True
    with performs show ?thesis
      by (intro inPhase_interrupts [OF assms(2), where posts = "ps @ qs" and msgs = "su_ctl s @ [ctl ''interrupt'']"])
        (simp_all add: postsOf_def ctlOf_def ctl_def)
  next
    case False
    with prompt_write_keeps [OF assms(2)] performs show ?thesis by simp
  qed
next
  case (fails ps bs ws qs)
  then show ?thesis using assms(2)
    by (auto simp: inPhase_def phases sound_def dest: not_alive_startFailed)
qed simp_all


section \<open>Steps of the supervisor\<close>

text \<open>What a phase does not look at either: the process once started, and its output.\<close>

lemma inPhase_process:
  assumes "inPhase s"
  shows "inPhase (s\<lparr> su_running := r, su_exit := e \<rparr>)" "inPhase (s\<lparr> su_pipe := p, su_out := u \<rparr>)"
  using assms by (simp_all add: inPhase_def phases phase_parts startFailed_def postsOf_def ctlOf_def)

lemma onCtl_interrupt: "cm_Action m = ''interrupt'' \<Longrightarrow> onCtl start m s = s"
  by (simp add: onCtl_def)

lemma begin_keeps:
  assumes "phaseSent s" "su_main s = Looping" "su_ctl s = m # ms" "cm_Action m \<noteq> ''interrupt''"
  shows "inPhase (onCtl start m (s\<lparr> su_ctl := ms \<rparr>))" (is "inPhase ?s'")
proof -
  obtain pre b seq where p: "sound s" "resting s" "pumping s" "su_sent s = pre @ [b]" "su_procs s = length pre"
    "settled (length pre) s"
    and d: "postsOf s = [[WData b, WCtl (endMsg seq)]] \<and> ctlOf s = [beginMsg seq] \<and> held s = []
        \<or> postsOf s = [[WCtl (endMsg seq)]] \<and> ctlOf s = [beginMsg seq] \<and> held s = b
        \<or> postsOf s = [] \<and> ctlOf s = [beginMsg seq, endMsg seq] \<and> held s = b"
    using assms by (auto simp: phaseSent_def ctlOf_def)
  have m: "m = beginMsg seq" and ms: "filter (\<lambda>m. cm_Action m \<noteq> ''interrupt'') ms = tl (ctlOf s)"
    using d assms(3,4) by (auto simp: ctlOf_def)
  have none: "su_cmd s = None" using p(2) assms(2) by (simp add: resting_def)
  show ?thesis
  proof (cases start)
    case None
    then have s': "?s' = startProc seq (s\<lparr> su_ctl := ms \<rparr>)" using none m by (simp add: onCtl_def beginPrompt_def ctl_def)
    have fed: "su_fed s (length pre) = []" using p by (simp add: sound_def)
    have "phaseActive ?s'"
      using d p ms fed assms(2) unfolding s'
      by (elim disjE conjE; intro phaseActiveI [where pre = pre and b = b and seq = seq])
        (simp_all add: startProc_def sound_def resting_def pumping_def settled_def held_def postsOf_def ctlOf_def)
    then show ?thesis by (simp add: inPhase_def)
  next
    case (Some e)
    then have s': "?s' = s\<lparr> su_ctl := ms, su_main := Returned (Some (StartFailed seq e)) \<rparr>"
      using none m by (simp add: onCtl_def beginPrompt_def ctl_def)
    have "startFailed ?s'" using p unfolding s' by (auto simp: startFailed_def sound_def settled_def)
    then show ?thesis by (simp add: inPhase_def)
  qed
qed

lemma end_keeps:
  assumes "phaseActive s" "su_ctl s = m # ms" "cm_Action m \<noteq> ''interrupt''"
  shows "inPhase (onCtl start m (s\<lparr> su_ctl := ms \<rparr>))" (is "inPhase ?s'")
proof -
  obtain pre b seq where p: "sound s" "pumping s" "su_main s = Looping" "su_drainAck s = None" "\<not> su_deadline s"
    "su_sent s = pre @ [b]" "su_procs s = Suc (length pre)" "settled (length pre) s"
    "su_stdin s = Some (length pre)" "su_cmd s = Some (length pre)"
    and d: "postsOf s = []" "ctlOf s = [endMsg seq]" "su_fed s (length pre) @ held s = b"
    using assms by (auto simp: phaseActive_def ctlOf_def)
  have m: "m = endMsg seq" and ms: "filter (\<lambda>m. cm_Action m \<noteq> ''interrupt'') ms = []"
    using d assms(2,3) by (auto simp: ctlOf_def)
  have s': "?s' = s\<lparr> su_ctl := ms, su_drainAck := Some (su_chans s), su_chans := Suc (su_chans s), su_deadline := True,
      su_main := Awaiting (su_chans s) False \<rparr>"
    using m p(10) by (simp add: onCtl_def endPrompt_def ctl_def)
  have "su_chans s \<notin> su_closed s" "\<forall>ch \<in> su_closed s. ch < Suc (su_chans s)" using p(1) by (auto simp: sound_def)
  then have "phaseDraining ?s'" using p d ms unfolding s' phaseDraining_def
    by (intro conjI exI [of _ pre] exI [of _ b] exI [of _ "su_chans s"])
      (simp_all add: sound_def pumping_def settled_def held_def postsOf_def ctlOf_def)
  then show ?thesis by (simp add: inPhase_def)
qed

lemma ctl_keeps:
  assumes "inPhase s" "alive s" "su_main s = Looping" "su_ctl s = m # ms"
  shows "inPhase (onCtl start m (s\<lparr> su_ctl := ms \<rparr>))"
proof (cases "cm_Action m = ''interrupt''")
  case True
  then show ?thesis
    using assms by (intro inPhase_interrupts [OF assms(1), where posts = "su_posts s" and msgs = ms])
      (simp_all add: onCtl_interrupt postsOf_def ctlOf_def)
next
  case False
  then have "ctlOf s \<noteq> []" using assms(4) by (simp add: ctlOf_def)
  with assms consider "phaseSent s" | "phaseActive s"
    by (auto simp: inPhase_def phaseIdle_def phaseDraining_def phaseDrained_def dest: not_alive_startFailed)
  then show ?thesis using begin_keeps [OF _ assms(3,4) False] end_keeps [OF _ assms(4) False] by cases auto
qed

lemma reap_keeps:
  assumes "inPhase s" "alive s" "su_main s = Reaping exit"
  shows "inPhase (reap exit s)"
proof -
  from assms consider "phaseIdle s" | "phaseSent s"
    by (auto simp: inPhase_def phaseActive_def phaseDraining_def phaseDrained_def dest: not_alive_startFailed)
  then show ?thesis
    using assms(3)
    by cases (auto simp: inPhase_def phaseIdle_def phaseSent_def reap_def phase_parts postsOf_def ctlOf_def)
qed

lemma closeInput_keeps:
  assumes "inPhase s" "alive s" "su_main s = Awaiting ch exit" "ch \<in> su_closed s"
  shows "inPhase (closeInput exit s)"
proof -
  from assms have "phaseDrained s"
    by (auto simp: inPhase_def phaseIdle_def phaseSent_def phaseActive_def phaseDraining_def resting_def dest: not_alive_startFailed)
  then obtain pre b where p: "sound s" "postsOf s = []" "ctlOf s = []" "su_reader s = Reading" "\<not> su_deadline s" "su_data s = []"
    "su_sent s = pre @ [b]" "su_procs s = Suc (length pre)" "settled (length pre) s" "su_stdin s = Some (length pre)"
    "su_cmd s = Some (length pre)" "su_fed s (length pre) = b" "exit = False"
    using assms(3) by (auto simp: phaseDrained_def)
  then have "phaseIdle (closeInput exit s)"
    by (auto simp: phaseIdle_def closeInput_def sound_def resting_def settled_def postsOf_def ctlOf_def nth_append less_Suc_eq)
  then show ?thesis by (simp add: inPhase_def)
qed


lemma read_keeps:
  assumes "inPhase s" "alive s" "su_reader s = Reading" "\<not> su_deadline s" "su_data s = p @ rest" "p \<noteq> []"
  shows "inPhase (s\<lparr> su_data := rest, su_reader := Writing p \<rparr>)" (is "inPhase ?s'")
proof -
  have eq: "held ?s' = held s" "postsOf ?s' = postsOf s" "ctlOf ?s' = ctlOf s" "sound ?s' = sound s"
    "resting ?s' = resting s" "pumping ?s'" "settled k ?s' = settled k s" for k
    using assms by (simp_all add: held_def postsOf_def ctlOf_def sound_def resting_def pumping_def settled_def)
  from assms consider "phaseSent s" | "phaseActive s"
    by (auto simp: inPhase_def phaseIdle_def phaseDraining_def phaseDrained_def dest: not_alive_startFailed)
  then show ?thesis
  proof cases
    case 1
    then have "phaseSent ?s'" unfolding phaseSent_def using eq(6) by (simp add: eq(1-5,7))
    then show ?thesis by (simp add: inPhase_def)
  next
    case 2
    then have "phaseActive ?s'" unfolding phaseActive_def using eq(6) by (simp add: eq(1-5,7))
    then show ?thesis by (simp add: inPhase_def)
  qed
qed

text \<open>Handing bytes on to the prompt's own process.\<close>

lemma feed_facts:
  assumes "settled k s" "sound s" "k < su_procs s"
  shows "settled k (feed (Some k) p s)" "sound (feed (Some k) p s)" "su_fed (feed (Some k) p s) k = su_fed s k @ p"
    "postsOf (feed (Some k) p s) = postsOf s" "ctlOf (feed (Some k) p s) = ctlOf s" "held (feed (Some k) p s) = held s"
    "su_reader (feed (Some k) p s) = su_reader s" "su_data (feed (Some k) p s) = su_data s"
  using assms by (auto simp: feed_def settled_def sound_def postsOf_def ctlOf_def held_def)

lemma feed_other:
  "su_main (feed w p s) = su_main s" "su_stdin (feed w p s) = su_stdin s" "su_cmd (feed w p s) = su_cmd s"
  "su_drainAck (feed w p s) = su_drainAck s" "su_deadline (feed w p s) = su_deadline s" "su_sent (feed w p s) = su_sent s"
  "su_procs (feed w p s) = su_procs s" "su_closed (feed w p s) = su_closed s" "su_chans (feed w p s) = su_chans s"
  by (simp_all add: feed_def split: option.splits)

lemma write_keeps:
  assumes "inPhase s" "alive s" "su_reader s = Writing p" "su_stdin s = Some q"
  shows "inPhase (feed (Some q) p (s\<lparr> su_reader := Reading \<rparr>))" (is "inPhase (feed _ _ ?t)")
proof -
  have eq: "postsOf ?t = postsOf s" "ctlOf ?t = ctlOf s" "sound ?t = sound s" "settled k ?t = settled k s" for k
    by (simp_all add: postsOf_def ctlOf_def sound_def settled_def)
  have held: "held s = p @ held ?t" using assms(3) by (simp add: held_def)
  from assms consider "phaseActive s" | "phaseDraining s"
    by (auto simp: inPhase_def phaseIdle_def phaseSent_def phaseDrained_def resting_def dest: not_alive_startFailed)
  then show ?thesis
  proof cases
    case 1
    then obtain pre b seq where p: "sound s" "su_main s = Looping" "su_drainAck s = None" "\<not> su_deadline s"
      "su_sent s = pre @ [b]" "su_procs s = Suc (length pre)" "settled (length pre) s"
      "su_stdin s = Some (length pre)" "su_cmd s = Some (length pre)"
      and d: "postsOf s = [[WData b, WCtl (endMsg seq)]] \<and> ctlOf s = [] \<and> su_fed s (length pre) @ held s = []
           \<or> postsOf s = [[WCtl (endMsg seq)]] \<and> ctlOf s = [] \<and> su_fed s (length pre) @ held s = b
           \<or> postsOf s = [] \<and> ctlOf s = [endMsg seq] \<and> su_fed s (length pre) @ held s = b"
      by (auto simp: phaseActive_def)
    have q: "q = length pre" using p assms(4) by simp
    note f = feed_facts [of q ?t p] feed_other [of "Some q" p ?t]
    have "phaseActive (feed (Some q) p ?t)"
      using d p f q held by (elim disjE conjE; intro phaseActiveI [where pre = pre and b = b and seq = seq])
        (simp_all add: eq pumping_def)
    then show ?thesis by (simp add: inPhase_def)
  next
    case 2
    then obtain pre b ch where p: "sound s" "postsOf s = []" "ctlOf s = []" "su_sent s = pre @ [b]"
      "su_procs s = Suc (length pre)" "settled (length pre) s" "su_stdin s = Some (length pre)" "su_cmd s = Some (length pre)"
      "su_main s = Awaiting ch False" "su_drainAck s = Some ch" "ch \<notin> su_closed s" "su_deadline s"
      "ch < su_chans s" "su_fed s (length pre) @ held s = b"
      using assms(3) by (auto simp: phaseDraining_def)
    have q: "q = length pre" using p assms(4) by simp
    note f = feed_facts [of q ?t p] feed_other [of "Some q" p ?t]
    have "phaseDraining (feed (Some q) p ?t)"
      unfolding phaseDraining_def using p f q held
      by (intro conjI exI [of _ pre] exI [of _ b] exI [of _ ch]) (simp_all add: eq pumping_def)
    then show ?thesis by (simp add: inPhase_def)
  qed
qed

lemma drain_keeps:
  assumes "inPhase s" "alive s" "su_reader s = Draining ch w"
  shows "su_data s = p @ rest \<Longrightarrow> inPhase (feed w p (s\<lparr> su_data := rest \<rparr>))"
    and "su_data s = [] \<Longrightarrow> inPhase (closeChan ch (s\<lparr> su_reader := Reading \<rparr>))"
proof -
  from assms have "phaseDraining s"
    by (auto simp: inPhase_def phaseIdle_def phaseSent_def phaseActive_def phaseDrained_def pumping_def dest: not_alive_startFailed)
  with assms(3) obtain pre b where p: "sound s" "postsOf s = []" "ctlOf s = []" "su_sent s = pre @ [b]"
    "su_procs s = Suc (length pre)" "settled (length pre) s" "su_stdin s = Some (length pre)" "su_cmd s = Some (length pre)"
    "su_main s = Awaiting ch False" "su_drainAck s = Some ch" "ch \<notin> su_closed s" "\<not> su_deadline s"
    "ch < su_chans s" "su_fed s (length pre) @ held s = b" "w = Some (length pre)"
    by (auto simp: phaseDraining_def pumping_def)
  show "inPhase (feed w p (s\<lparr> su_data := rest \<rparr>))" if "su_data s = p @ rest"
  proof -
    let ?t = "s\<lparr> su_data := rest \<rparr>"
    have eq: "postsOf ?t = postsOf s" "ctlOf ?t = ctlOf s" "sound ?t = sound s" "settled k ?t = settled k s" for k
      by (simp_all add: postsOf_def ctlOf_def sound_def settled_def)
    have held: "held s = p @ held ?t" using that assms(3) by (simp add: held_def)
    note f = feed_facts [of "length pre" ?t p] feed_other [of w p ?t]
    have "phaseDraining (feed w p ?t)"
      unfolding phaseDraining_def using p f held assms(3)
      by (intro conjI exI [of _ pre] exI [of _ b] exI [of _ ch]) (simp_all add: eq pumping_def)
    then show ?thesis by (simp add: inPhase_def)
  qed
  show "inPhase (closeChan ch (s\<lparr> su_reader := Reading \<rparr>))" if "su_data s = []"
  proof -
    have "su_fed s (length pre) = b" using p(14) that assms(3) by (simp add: held_def)
    then have "phaseDrained (closeChan ch (s\<lparr> su_reader := Reading \<rparr>))"
      using p that unfolding phaseDrained_def
      by (intro conjI exI [of _ pre] exI [of _ b] exI [of _ ch])
        (simp_all add: closeChan_def sound_def settled_def postsOf_def ctlOf_def)
    then show ?thesis by (simp add: inPhase_def)
  qed
qed

lemma timeout_keeps:
  assumes "inPhase s" "alive s" "su_reader s = Reading" "su_deadline s"
  shows "\<exists>ch. su_drainAck s = Some ch \<and> inPhase (s\<lparr> su_deadline := False, su_reader := Draining ch (su_stdin s) \<rparr>)"
proof -
  from assms have "phaseDraining s"
    by (auto simp: inPhase_def phaseIdle_def phaseSent_def phaseActive_def phaseDrained_def resting_def dest: not_alive_startFailed)
  with assms(3,4) obtain pre b ch where p: "sound s" "postsOf s = []" "ctlOf s = []" "su_sent s = pre @ [b]"
    "su_procs s = Suc (length pre)" "settled (length pre) s" "su_stdin s = Some (length pre)" "su_cmd s = Some (length pre)"
    "su_main s = Awaiting ch False" "su_drainAck s = Some ch" "ch \<notin> su_closed s"
    "ch < su_chans s" "su_fed s (length pre) @ held s = b"
    by (auto simp: phaseDraining_def)
  then have "phaseDraining (s\<lparr> su_deadline := False, su_reader := Draining ch (su_stdin s) \<rparr>)"
    using assms(3) unfolding phaseDraining_def
    by (intro conjI exI [of _ pre] exI [of _ b] exI [of _ ch])
      (simp_all add: sound_def settled_def postsOf_def ctlOf_def held_def)
  then show ?thesis using p(10) by (auto simp: inPhase_def)
qed

lemma never_stray:
  assumes "inPhase s" "alive s"
  shows "\<not> su_dataEOF s" "\<not> su_ctlEOF s" "su_stdin s = None \<Longrightarrow> su_drainAck s = None"
  using assms by (auto simp: inPhase_def phases sound_def resting_def dest: not_alive_startFailed)

lemma internal_keeps:
  assumes "internal s s'" "inPhase s"
  shows "inPhase s'"
  using assms(1)
proof cases
  case (main_ctl m ms start)
  then show ?thesis using ctl_keeps [OF assms(2)] by simp
next
  case main_ctl_eof
  then show ?thesis using never_stray(2) [OF assms(2)] by simp
next
  case (main_drained ch exit)
  then show ?thesis using closeInput_keeps [OF assms(2)] by simp
next
  case (main_kill exit sig)
  then show ?thesis using inPhase_process(1) [OF assms(2)] by simp
next
  case (main_reap exit)
  then show ?thesis using reap_keeps [OF assms(2)] by simp
next
  case (reader_read p rest)
  then show ?thesis using read_keeps [OF assms(2)] by simp
next
  case (reader_write p q)
  then show ?thesis using write_keeps [OF assms(2)] by simp
next
  case (reader_drop p)
  then show ?thesis using never_stray(3) [OF assms(2)] by simp
next
  case (reader_timeout ch)
  then show ?thesis using timeout_keeps [OF assms(2)] by fastforce
next
  case reader_timeout_stray
  then show ?thesis using timeout_keeps [OF assms(2)] by fastforce
next
  case (drain_read ch w p rest)
  then show ?thesis using drain_keeps(1) [OF assms(2)] by simp
next
  case (drain_done ch w)
  then show ?thesis using drain_keeps(2) [OF assms(2)] by simp
next
  case reader_eof
  then show ?thesis using never_stray(1) [OF assms(2)] by simp
next
  case (copier p rest)
  then show ?thesis using inPhase_process(2) [OF assms(2)] by simp
qed

lemma inPhase_initial: "inPhase initialSup"
  by (simp add: inPhase_def phaseIdle_def initialSup_def sound_def resting_def settled_def postsOf_def ctlOf_def)

lemma reachable_inPhase: "reachable True False s \<Longrightarrow> inPhase s"
  unfolding reachable_def
proof (induction rule: rtranclp_induct)
  case base
  show ?case by (rule inPhase_initial)
next
  case (step s s')
  then show ?case using internal_keeps harness_keeps runtime_keeps unfolding step_def by blast
qed


section \<open>The supervisor comes to rest\<close>

primrec mainRank :: "mainPc \<Rightarrow> nat" where
  "mainRank (Awaiting ch exit) = 6"
| "mainRank (Reaping exit) = 4"
| "mainRank Looping = 1"
| "mainRank (Returned e) = 0"

primrec readerRank :: "readerPc \<Rightarrow> nat" where
  "readerRank (Draining ch w) = 3"
| "readerRank (Writing p) = 2"
| "readerRank Reading = 1"
| "readerRank Gone = 0"

definition workLeft :: "supState \<Rightarrow> nat" where
  "workLeft s = 20 * length (su_ctl s) + 2 * length (su_data s) + mainRank (su_main s) + readerRank (su_reader s)
     + (if su_deadline s then 3 else 0) + length (su_pipe s) + (if su_running s then 1 else 0)"

lemma workLeft_onCtl:
  assumes "su_main s = Looping"
  shows "workLeft (onCtl start m s) < workLeft s + 20"
  using assms by (auto simp: onCtl_def beginPrompt_def endPrompt_def startProc_def workLeft_def split: option.splits)

lemma workLeft_decreases: "internal s s' \<Longrightarrow> workLeft s' < workLeft s"
proof (induction rule: internal.induct)
  case (main_ctl s m ms start)
  then show ?case using workLeft_onCtl [of "s\<lparr> su_ctl := ms \<rparr>" start m] by (simp add: workLeft_def)
next
  case (reader_read s p rest)
  then show ?case by (cases p) (simp_all add: workLeft_def)
qed (auto simp: workLeft_def closeInput_def reap_def releaseDrain_def closeChan_def feed_def split: option.splits if_splits)

lemma internal_terminates: "wfP (\<lambda>s' s. internal s s')"
  using wfp_if_convertible_to_nat [of "\<lambda>s' s. internal s s'" workLeft] workLeft_decreases by blast

lemma internal_stops: "\<exists>t. internal\<^sup>*\<^sup>* s t \<and> (\<nexists>u. internal t u)"
proof (induction s rule: measure_induct_rule [of workLeft])
  case (less s)
  show ?case
  proof (cases "\<exists>u. internal s u")
    case True
    then obtain u where u: "internal s u" ..
    from less [OF workLeft_decreases [OF u]] show ?thesis using u by (meson converse_rtranclp_into_rtranclp)
  qed auto
qed

text \<open>Where the control loop can always go on.\<close>

lemma main_can_step:
  assumes "alive s" "su_main s = Looping \<and> su_ctl s \<noteq> [] \<or> su_main s = Reaping exit \<or> su_main s = Awaiting ch exit \<and> ch \<in> su_closed s"
  shows "\<exists>u. internal s u"
  using assms by (cases "su_ctl s"; cases "su_running s") (blast intro: internal.intros)+

lemma draining_can_step:
  assumes "alive s" "phaseDraining s"
  shows "\<exists>u. internal s u"
proof -
  from assms(2) obtain q ch where q: "su_stdin s = Some q" "su_drainAck s = Some ch"
    "pumping s \<and> su_deadline s \<or> su_reader s = Draining ch (Some q)" by (auto simp: phaseDraining_def)
  show ?thesis
  proof (cases "su_reader s")
    case Reading
    with q have "su_deadline s" by (auto simp: pumping_def)
    with Reading q assms(1) show ?thesis by (blast intro: internal.reader_timeout)
  next
    case (Writing p)
    with q assms(1) show ?thesis by (blast intro: internal.reader_write)
  next
    case (Draining c w)
    then show ?thesis
      using assms(1) internal.drain_done [of s c w] internal.drain_read [of s c w "su_data s" "[]"] by (cases "su_data s") auto
  next
    case Gone
    with q show ?thesis by (auto simp: pumping_def)
  qed
qed

lemma rest_is_idle:
  assumes "inPhase s" "alive s" "su_posts s = []" "\<nexists>u. internal s u"
  shows "phaseIdle s \<and> su_main s = Looping"
proof -
  have posts: "postsOf s = []" using assms(3) by (simp add: postsOf_def)
  have ctl: "ctlOf s \<noteq> [] \<Longrightarrow> su_ctl s \<noteq> []" by (auto simp: ctlOf_def)
  note no = main_can_step [OF assms(2)] draining_can_step [OF assms(2)]
  from assms(1,2) consider "phaseIdle s" | "phaseSent s" | "phaseActive s" | "phaseDraining s" | "phaseDrained s"
    by (auto simp: inPhase_def dest: not_alive_startFailed)
  then show ?thesis
  proof cases
    case 1
    then show ?thesis using no(1) assms(4) by (auto simp: phaseIdle_def resting_def)
  next
    case 2
    then have "su_ctl s \<noteq> []" "su_main s = Looping \<or> su_main s = Reaping False"
      using posts ctl by (auto simp: phaseSent_def resting_def promptWrites_def)
    then show ?thesis using no(1) assms(4) by blast
  next
    case 3
    then have "su_ctl s \<noteq> []" "su_main s = Looping" using posts ctl by (auto simp: phaseActive_def)
    then show ?thesis using no(1) assms(4) by blast
  next
    case 4
    then show ?thesis using no(2) assms(4) by blast
  next
    case 5
    then show ?thesis using no(1) assms(4) by (auto simp: phaseDrained_def)
  qed
qed

lemma internal_environment: "internal s t \<Longrightarrow> su_posts t = su_posts s \<and> su_sent t = su_sent s"
  by (induction rule: internal.induct)
    (auto simp: onCtl_def beginPrompt_def endPrompt_def startProc_def closeInput_def reap_def releaseDrain_def closeChan_def
      feed_def split: option.splits)

lemma internals_keep:
  assumes "internal\<^sup>*\<^sup>* s t" "inPhase s"
  shows "inPhase t \<and> su_posts t = su_posts s \<and> su_sent t = su_sent s"
  using assms by (induction rule: rtranclp_induct) (auto dest: internal_environment internal_keeps)

lemma inPhase_ended:
  assumes "inPhase s" "q \<in> su_ended s"
  shows "q < length (su_sent s) \<and> su_fed s q = su_sent s ! q"
  using assms by (auto simp: inPhase_def phases settled_def startFailed_def)

lemma inPhase_no_panic: "inPhase s \<Longrightarrow> \<not> su_panic s"
  by (auto simp: inPhase_def phases sound_def startFailed_def)

section \<open>A reader that is gone\<close>

lemma blocked_forever:
  assumes "(step serial ends)\<^sup>*\<^sup>* s t" "su_reader s = Gone" "su_main s = Awaiting ch exit" "ch \<notin> su_closed s"
  shows "su_reader t = Gone \<and> su_main t = Awaiting ch exit \<and> ch \<notin> su_closed t"
  using assms(1)
proof (induction rule: rtranclp_induct)
  case base
  show ?case using assms by simp
next
  case (step t u)
  from step.hyps(2) show ?case unfolding step_def
  proof (elim disjE)
    assume "internal t u"
    then show ?thesis using step.IH by cases simp_all
  next
    assume "harness t u"
    then show ?thesis using step.IH by cases simp_all
  next
    assume "runtime serial ends t u"
    then show ?thesis
    proof cases
      case (performs ps w ws qs)
      then show ?thesis using step.IH by (cases w) simp_all
    qed (use step.IH in simp_all)
  qed
qed


lemma blocked_always:
  assumes "su_reader s = Gone" "su_main s = Awaiting ch exit" "ch \<notin> su_closed s"
  shows "su_main ` {t. (step serial ends)\<^sup>*\<^sup>* s t} = {Awaiting ch exit}"
proof -
  have all: "su_main t = Awaiting ch exit" if "(step serial ends)\<^sup>*\<^sup>* s t" for t using blocked_forever [OF that assms] by simp
  have "s \<in> {t. (step serial ends)\<^sup>*\<^sup>* s t}" by simp
  then have "{t. (step serial ends)\<^sup>*\<^sup>* s t} \<noteq> {}" by blast
  moreover have "su_main ` {t. (step serial ends)\<^sup>*\<^sup>* s t} = (\<lambda>t. Awaiting ch exit) ` {t. (step serial ends)\<^sup>*\<^sup>* s t}"
    by (rule image_cong) (simp_all add: all)
  ultimately show ?thesis by (simp add: image_constant_conv)
qed

end
