(* ===== verification/Runtime_Properties.thy ===== *)
theory Runtime_Properties
  imports Supervisor_Facts
begin

text \<open>
  Properties of the in-pod runtime: the supervisor that runs a harness per prompt, against the runtime
  proxy that feeds it.
\<close>

section \<open>What a prompt's handler writes\<close>

definition written :: "rtEffect list \<Rightarrow> udsWrite list" where
  "written effs = List.map_filter (\<lambda>e. case e of Wrote w \<Rightarrow> Some w | _ \<Rightarrow> None) effs"

text \<open>The environment of the supervisor writes what an accepted prompt writes.\<close>

lemma accepted_prompt_writes:
  assumes "rtHandlePrompts cfg unmarshal wr s r = ((202, body), effs, s')" "perPrompt cfg"
  shows "\<exists>req line. unmarshal (hq_Body r) = Inr req \<and> written effs = promptWrites (prq_Seq req) (line @ [newline])"
  using assms
  by (auto simp: rtHandlePrompts_def rtGuard_def readBody_def writeCtl_def giveUp_def Close_def Let_def written_def
      promptWrites_def map_filter_simps split: option.splits sum.splits if_splits prod.splits)

lemma accepted_end_writes:
  assumes "rtHandleEnd (\<lambda>_. None) s r reason = ((202, body), effs, s')"
  shows "written effs = endWrites reason"
  using assms by (auto simp: rtHandleEnd_def rtGuard_def writeCtl_def written_def endWrites_def map_filter_simps split: if_splits)

section \<open>Runs\<close>

lemma reach_step: "reachable serial ends s \<Longrightarrow> step serial ends s s' \<Longrightarrow> reachable serial ends s'"
  unfolding reachable_def by (rule rtranclp.rtrancl_into_rtrancl)

lemma reach_internal: "reachable serial ends s \<Longrightarrow> internal s s' \<Longrightarrow> reachable serial ends s'"
  using reach_step by (simp add: step_def)

lemma reach_harness: "reachable serial ends s \<Longrightarrow> harness s s' \<Longrightarrow> reachable serial ends s'"
  using reach_step by (simp add: step_def)

lemma reach_runtime: "reachable serial ends s \<Longrightarrow> runtime serial ends s s' \<Longrightarrow> reachable serial ends s'"
  using reach_step by (simp add: step_def)

lemma reach_write:
  assumes "reachable serial ends s" "alive s" "su_posts s = (w # ws) # qs" "\<not> su_dataEOF s"
  shows "reachable serial ends (doWrite w (s\<lparr> su_posts := (if ws = [] then [] else [ws]) @ qs \<rparr>))"
  using reach_runtime [OF assms(1) runtime.performs [of s "[]" w ws qs]] assms by simp

text \<open>A first prompt, all of it written before the supervisor looks at it.\<close>

definition posted :: supState where
  "posted = initialSup\<lparr> su_ctl := [beginMsg 1, endMsg 1], su_data := ''hi'', su_sent := [''hi''] \<rparr>"

lemma posted_reachable: "reachable serial ends posted"
proof -
  have 0: "reachable serial ends initialSup" by (simp add: reachable_def)
  have 1: "reachable serial ends (initialSup\<lparr> su_posts := [promptWrites 1 ''hi''], su_sent := [''hi''] \<rparr>)"
    using reach_runtime [OF 0 runtime.accept_prompt [where serial = serial and ends = ends and seq = 1 and bs = "''hi''"]]
    by (simp add: initialSup_def alive_def turnOver_def)
  note 2 = reach_write [OF 1, of _ _ "[]", unfolded promptWrites_def]
  have 3: "reachable serial ends (initialSup\<lparr> su_ctl := [beginMsg 1], su_posts := [[WData ''hi'', WCtl (endMsg 1)]], su_sent := [''hi''] \<rparr>)"
    using 2 [of "WCtl (beginMsg 1)" "[WData ''hi'', WCtl (endMsg 1)]"] by (simp add: initialSup_def alive_def)
  have 4: "reachable serial ends (initialSup\<lparr> su_ctl := [beginMsg 1], su_data := ''hi'', su_posts := [[WCtl (endMsg 1)]], su_sent := [''hi''] \<rparr>)"
    using reach_write [OF 3, of "WData ''hi''" "[WCtl (endMsg 1)]" "[]"] by (simp add: initialSup_def alive_def)
  show ?thesis
    using reach_write [OF 4, of "WCtl (endMsg 1)" "[]" "[]"] by (simp add: initialSup_def alive_def posted_def)
qed

text \<open>The process is started and has its prompt.\<close>

definition prompted :: "supState \<Rightarrow> supState" where
  "prompted s = s\<lparr> su_ctl := tl (su_ctl s), su_data := [], su_cmd := Some 0, su_stdin := Some 0, su_activeSeq := 1,
      su_procs := 1, su_running := True, su_fed := (\<lambda>_. [])(0 := ''hi'') \<rparr>"

lemma prompted_reachable:
  assumes "reachable serial ends s" "s = posted\<lparr> su_ctl := [beginMsg 1, endMsg 1] @ msgs, su_dataEOF := eof \<rparr>"
  shows "reachable serial ends (prompted s)"
proof -
  let ?t = "startProc 1 (s\<lparr> su_ctl := endMsg 1 # msgs \<rparr>)"
  have "internal s (onCtl None (beginMsg 1) (s\<lparr> su_ctl := endMsg 1 # msgs \<rparr>))"
    by (rule internal.main_ctl) (simp_all add: assms(2) posted_def initialSup_def alive_def)
  then have 1: "reachable serial ends ?t"
    using reach_internal [OF assms(1)] by (simp add: onCtl_def beginPrompt_def ctl_def assms(2) posted_def initialSup_def)
  have "internal ?t (?t\<lparr> su_data := [], su_reader := Writing ''hi'' \<rparr>)"
    by (rule internal.reader_read) (simp_all add: assms(2) posted_def initialSup_def alive_def startProc_def)
  then have 2: "reachable serial ends (?t\<lparr> su_data := [], su_reader := Writing ''hi'' \<rparr>)" by (rule reach_internal [OF 1])
  have "internal (?t\<lparr> su_data := [], su_reader := Writing ''hi'' \<rparr>)
      (feed (Some 0) ''hi'' (?t\<lparr> su_data := [], su_reader := Writing ''hi'', su_reader := Reading \<rparr>))"
    by (rule internal.reader_write) (simp_all add: assms(2) posted_def initialSup_def alive_def startProc_def)
  from reach_internal [OF 2 this] show ?thesis
    by (simp add: prompted_def feed_def startProc_def assms(2) posted_def initialSup_def)
qed

text \<open>The end of the prompt is read, and the reader drains the socket.\<close>

lemma drained_reachable:
  assumes "reachable serial ends s" "s = prompted (posted\<lparr> su_ctl := [beginMsg 1, endMsg 1] @ msgs, su_dataEOF := eof \<rparr>)"
  shows "reachable serial ends (s\<lparr> su_ctl := msgs, su_main := Awaiting 0 False, su_drainAck := Some 0, su_chans := 1,
           su_closed := {0} \<rparr>)"
proof -
  let ?w = "s\<lparr> su_ctl := msgs, su_main := Awaiting 0 False, su_drainAck := Some 0, su_chans := 1 \<rparr>"
  note defs = assms(2) prompted_def posted_def initialSup_def alive_def
  have "internal s (onCtl None (endMsg 1) (s\<lparr> su_ctl := msgs \<rparr>))" by (rule internal.main_ctl) (simp_all add: defs)
  then have 1: "reachable serial ends (?w\<lparr> su_deadline := True \<rparr>)"
    using reach_internal [OF assms(1)] by (simp add: onCtl_def endPrompt_def ctl_def defs)
  have "internal (?w\<lparr> su_deadline := True \<rparr>)
      ((?w\<lparr> su_deadline := True \<rparr>)\<lparr> su_deadline := False, su_reader := Draining 0 (su_stdin (?w\<lparr> su_deadline := True \<rparr>)) \<rparr>)"
    by (rule internal.reader_timeout) (simp_all add: defs)
  then have 2: "reachable serial ends (?w\<lparr> su_reader := Draining 0 (Some 0) \<rparr>)"
    using reach_internal [OF 1] by (simp add: defs)
  have "internal (?w\<lparr> su_reader := Draining 0 (Some 0) \<rparr>)
      (closeChan 0 ((?w\<lparr> su_reader := Draining 0 (Some 0) \<rparr>)\<lparr> su_reader := Reading \<rparr>))"
    by (rule internal.drain_done) (simp_all add: defs)
  then show ?thesis using reach_internal [OF 2] by (simp add: closeChan_def defs)
qed

lemma prompted_posted_reachable: "reachable serial ends (prompted posted)"
  using prompted_reachable [OF posted_reachable, where msgs = "[]" and eof = False] by (simp add: posted_def initialSup_def)

lemma ended_reachable:
  "reachable serial ends (closeInput False ((prompted posted)\<lparr> su_ctl := [], su_main := Awaiting 0 False,
     su_drainAck := Some 0, su_chans := 1, su_closed := {0} \<rparr>))" (is "reachable serial ends (closeInput False ?s)")
proof -
  have posted_eq: "posted\<lparr> su_ctl := [beginMsg 1, endMsg 1] @ [], su_dataEOF := False \<rparr> = posted"
    by (simp add: posted_def initialSup_def)
  from drained_reachable [OF prompted_posted_reachable, where msgs = "[]" and eof = False, unfolded posted_eq] have "reachable serial ends ?s" by simp
  moreover have "internal ?s (closeInput False ?s)"
    by (rule internal.main_drained) (simp_all add: alive_def prompted_def posted_def initialSup_def)
  ultimately show ?thesis by (rule reach_internal)
qed

section \<open>One prompt at a time\<close>






section \<open>Ending a session\<close>

text \<open>The session is ended right after a prompt was sent.\<close>

abbreviation endNow :: ctlMessage where
  "endNow \<equiv> (ctl ''end'')\<lparr> cm_Reason := [] \<rparr>"

definition endPosted :: supState where
  "endPosted = posted\<lparr> su_ctl := [beginMsg 1, endMsg 1] @ [endNow], su_dataEOF := True \<rparr>"

lemma endPosted_reachable: "reachable serial True endPosted"
proof -
  note defs = posted_def initialSup_def alive_def
  have "runtime serial True posted (posted\<lparr> su_posts := su_posts posted @ [endWrites []] \<rparr>)"
    by (rule runtime.accept_end) (simp_all add: defs)
  then have 1: "reachable serial True (posted\<lparr> su_posts := [endWrites []] \<rparr>)"
    using reach_runtime [OF posted_reachable] by (simp add: defs)
  have 2: "reachable serial True (posted\<lparr> su_ctl := [beginMsg 1, endMsg 1, endNow], su_posts := [[WDataEOF]] \<rparr>)"
    using reach_write [OF 1, of "WCtl endNow" "[WDataEOF]" "[]"] by (simp add: endWrites_def defs)
  show ?thesis
    using reach_write [OF 2, of WDataEOF "[]" "[]"] by (simp add: endPosted_def defs)
qed

text \<open>
  C38: ending a session can hang the supervisor. One prompt, then an end, in the order in which the
  handlers write them: if the reader sees the end of the data before the control loop takes up the
  end of the prompt, it has returned, and nobody closes the channel on which \<open>endPrompt\<close> waits. From that
  state on, whatever happens, the control loop never moves again: neither the end of the session nor
  SIGTERM is acted upon.
\<close>

theorem end_hangs_supervisor:
  "\<exists>s. reachable True True s \<and> length (su_sent s) = 1 \<and> su_ctl s = [endNow]
     \<and> su_main ` {t. (step True True)\<^sup>*\<^sup>* s t} = {Awaiting 0 False}"
proof -
  note defs = prompted_def endPosted_def posted_def initialSup_def alive_def
  have 1: "reachable True True (prompted endPosted)"
    using prompted_reachable [OF endPosted_reachable] by (simp add: endPosted_def)
  have "internal (prompted endPosted) (releaseDrain (prompted endPosted))"
    by (rule internal.reader_eof) (simp_all add: defs)
  then have 2: "reachable True True ((prompted endPosted)\<lparr> su_reader := Gone \<rparr>)" (is "reachable True True ?g")
    using reach_internal [OF 1] by (simp add: releaseDrain_def defs)
  have "internal ?g (onCtl None (endMsg 1) (?g\<lparr> su_ctl := [endNow] \<rparr>))"
    by (rule internal.main_ctl) (simp_all add: defs)
  then have 3: "reachable True True (?g\<lparr> su_ctl := [endNow], su_main := Awaiting 0 False, su_drainAck := Some 0, su_chans := 1,
      su_deadline := True \<rparr>)" (is "reachable True True ?h")
    using reach_internal [OF 2] by (simp add: onCtl_def endPrompt_def ctl_def defs)
  have h: "su_reader ?h = Gone" "su_main ?h = Awaiting 0 False" "0 \<notin> su_closed ?h" "length (su_sent ?h) = 1"
    "su_ctl ?h = [endNow]" by (simp_all add: defs)
  from 3 h(4,5) blocked_always [OF h(1-3), of True True] show ?thesis by (intro exI conjI)
qed

text \<open>
  Ending a session can crash the supervisor. After a drain the reader closes the channel but leaves
  it in the state until \<open>endPrompt\<close> has taken the lock again; if the data ends in between, \<open>releaseDrain\<close>
  closes the channel a second time, which is a panic.
\<close>

lemma end_panics_supervisor:
  "\<exists>s. reachable True True s \<and> length (su_sent s) = 1 \<and> su_panic s"
proof -
  note defs = prompted_def endPosted_def posted_def initialSup_def alive_def
  have 1: "reachable True True (prompted endPosted)"
    using prompted_reachable [OF endPosted_reachable] by (simp add: endPosted_def)
  have 2: "reachable True True ((prompted endPosted)\<lparr> su_ctl := [endNow], su_main := Awaiting 0 False, su_drainAck := Some 0,
      su_chans := 1, su_closed := {0} \<rparr>)" (is "reachable True True ?d")
    using drained_reachable [OF 1] by (simp add: endPosted_def)
  have "internal ?d (releaseDrain ?d)" by (rule internal.reader_eof) (simp_all add: defs)
  then have "reachable True True (releaseDrain ?d)" by (rule reach_internal [OF 2])
  moreover have "su_panic (releaseDrain ?d)" "length (su_sent (releaseDrain ?d)) = 1"
    by (simp_all add: releaseDrain_def closeChan_def defs)
  ultimately show ?thesis by blast
qed

section \<open>Output\<close>

text \<open>
  A turn's output can be lost. The harness answers and exits with code zero; \<open>cmd.Wait\<close> closes the pipe
  before the copier has read it, and the control loop goes on as if the turn had been answered, with
  nothing on the data socket and no event of a crash. The comment says that waiting first avoids this.
\<close>

lemma output_lost:
  "\<exists>s t. reachable True False s \<and> su_pipe s = ''answer'' \<and> \<not> su_running s \<and> su_exit s = None
     \<and> internal s t \<and> su_main t = Looping \<and> su_pipe t = [] \<and> su_out t = [] \<and> su_events t = []"
proof -
  let ?e = "closeInput False ((prompted posted)\<lparr> su_ctl := [], su_main := Awaiting 0 False,
     su_drainAck := Some 0, su_chans := 1, su_closed := {0} \<rparr>)"
  note defs = closeInput_def prompted_def posted_def initialSup_def alive_def
  have "harness ?e (?e\<lparr> su_pipe := su_pipe ?e @ ''answer'' \<rparr>)" by (rule harness.prints) (simp_all add: defs)
  then have 1: "reachable True False (?e\<lparr> su_pipe := ''answer'' \<rparr>)" (is "reachable True False ?p")
    using reach_harness [OF ended_reachable] by (simp add: defs)
  have "harness ?p (?p\<lparr> su_running := False, su_exit := None \<rparr>)" by (rule harness.exits) (simp_all add: defs)
  then have 2: "reachable True False (?p\<lparr> su_running := False, su_exit := None \<rparr>)" (is "reachable True False ?x")
    by (rule reach_harness [OF 1])
  have "internal ?x (reap False ?x)" by (rule internal.main_reap) (simp_all add: defs)
  then show ?thesis using 2 by (intro exI [of _ ?x] exI [of _ "reap False ?x"]) (simp add: reap_def defs)
qed

section \<open>Two prompts at once\<close>

text \<open>
  C39: two prompts at once end the session. The broker lets two concurrent prompts through; their handlers
  write on the sockets in any order. If the second begins before the first has ended, the supervisor
  returns with an error; and if the second's text arrives before the first is drained, it is fed to the
  first's process.
\<close>

theorem concurrent_prompts_break:
  "(\<exists>s. reachable False False s \<and> length (su_sent s) = 2 \<and> su_main s = Returned (Some (PromptActive 2)))
   \<and> (\<exists>s. reachable False False s \<and> su_sent s = [''hi'', ''you''] \<and> su_fed s 0 = ''hiyou'')"
proof -
  note defs = initialSup_def alive_def
  let ?w1 = "[WData ''hi'', WCtl (endMsg 1)]" and ?w2 = "[WData ''you'', WCtl (endMsg 2)]"
  let ?s = "initialSup\<lparr> su_sent := [''hi'', ''you''] \<rparr>"
  have 0: "reachable False False initialSup" by (simp add: reachable_def)
  have "runtime False False initialSup (initialSup\<lparr> su_posts := su_posts initialSup @ [promptWrites 1 ''hi''], su_sent := su_sent initialSup @ [''hi''] \<rparr>)"
    by (rule runtime.accept_prompt) (simp_all add: defs)
  then have 1: "reachable False False (initialSup\<lparr> su_posts := [promptWrites 1 ''hi''], su_sent := [''hi''] \<rparr>)" (is "reachable _ _ ?a")
    using reach_runtime [OF 0] by (simp add: defs)
  have "runtime False False ?a (?a\<lparr> su_posts := su_posts ?a @ [promptWrites 2 ''you''], su_sent := su_sent ?a @ [''you''] \<rparr>)"
    by (rule runtime.accept_prompt) (simp_all add: defs)
  then have 2: "reachable False False (?s\<lparr> su_posts := [promptWrites 1 ''hi'', promptWrites 2 ''you''] \<rparr>)"
    using reach_runtime [OF 1] by (simp add: defs)
  have 3: "reachable False False (?s\<lparr> su_posts := [?w1, promptWrites 2 ''you''], su_ctl := [beginMsg 1] \<rparr>)" (is "reachable _ _ ?b")
    using reach_write [OF 2, of "WCtl (beginMsg 1)" ?w1] by (simp add: promptWrites_def defs)
  have 4: "reachable False False (?s\<lparr> su_posts := [?w1, ?w2], su_ctl := [beginMsg 1, beginMsg 2] \<rparr>)" (is "reachable _ _ ?c")
    using reach_runtime [OF 3 runtime.performs [of ?b "[?w1]" "WCtl (beginMsg 2)" ?w2 "[]"]] by (simp add: promptWrites_def defs)
  have 5: "reachable False False (?s\<lparr> su_posts := [[WCtl (endMsg 1)], ?w2], su_ctl := [beginMsg 1, beginMsg 2], su_data := ''hi'' \<rparr>)"
    (is "reachable _ _ ?d")
    using reach_write [OF 4, of "WData ''hi''" "[WCtl (endMsg 1)]"] by (simp add: defs)
  have 6: "reachable False False (?s\<lparr> su_posts := [[WCtl (endMsg 1)], [WCtl (endMsg 2)]], su_ctl := [beginMsg 1, beginMsg 2],
      su_data := ''hiyou'' \<rparr>)" (is "reachable _ _ ?e")
    using reach_runtime [OF 5 runtime.performs [of ?d "[[WCtl (endMsg 1)]]" "WData ''you''" "[WCtl (endMsg 2)]" "[]"]] by (simp add: defs)
  have "internal ?e (onCtl None (beginMsg 1) (?e\<lparr> su_ctl := [beginMsg 2] \<rparr>))" by (rule internal.main_ctl) (simp_all add: defs)
  then have 7: "reachable False False (startProc 1 (?e\<lparr> su_ctl := [beginMsg 2] \<rparr>))" (is "reachable _ _ ?f")
    using reach_internal [OF 6] by (simp add: onCtl_def beginPrompt_def ctl_def defs)
  have "internal ?f (onCtl None (beginMsg 2) (?f\<lparr> su_ctl := [] \<rparr>))" by (rule internal.main_ctl) (simp_all add: startProc_def defs)
  then have twice: "reachable False False (?f\<lparr> su_ctl := [], su_main := Returned (Some (PromptActive 2)) \<rparr>)" (is "reachable _ _ ?k")
    using reach_internal [OF 7] by (simp add: onCtl_def beginPrompt_def ctl_def startProc_def defs)
  have "internal ?f (?f\<lparr> su_data := [], su_reader := Writing ''hiyou'' \<rparr>)"
    by (rule internal.reader_read) (simp_all add: startProc_def defs)
  then have 8: "reachable False False (?f\<lparr> su_data := [], su_reader := Writing ''hiyou'' \<rparr>)" (is "reachable _ _ ?g")
    by (rule reach_internal [OF 7])
  have "internal ?g (feed (Some 0) ''hiyou'' (?g\<lparr> su_reader := Reading \<rparr>))"
    by (rule internal.reader_write) (simp_all add: startProc_def defs)
  then have mixed: "reachable False False (feed (Some 0) ''hiyou'' (?g\<lparr> su_reader := Reading \<rparr>))" (is "reachable _ _ ?h")
    by (rule reach_internal [OF 8])
  have "length (su_sent ?k) = 2" "su_main ?k = Returned (Some (PromptActive 2))" by (simp_all add: startProc_def defs)
  moreover have "su_sent ?h = [''hi'', ''you'']" "su_fed ?h 0 = ''hiyou''" by (simp_all add: feed_def startProc_def defs)
  ultimately show ?thesis using twice mixed by blast
qed

section \<open>Time for a turn\<close>



section \<open>The long process\<close>

text \<open>What the copier hands to successive connections is the chunk, nothing lost and nothing repeated.\<close>

lemma writeChunk_whole: "writeChunk bs tries = Some parts \<Longrightarrow> concat parts = bs"
  by (induction bs tries arbitrary: parts rule: writeChunk.induct) auto


section \<open>Streams and dialling\<close>

text \<open>A stream starts with the replay, whole: the buffer of a channel is larger than the replay.\<close>

lemma foldl_trySend: "length buf + length xs \<le> chanCap \<Longrightarrow> foldl trySend buf xs = buf @ xs"
  by (induction xs arbitrary: buf) (auto simp: trySend_def)

lemma replay_whole:
  assumes "length (fo_recent f) \<le> fanoutReplaySize"
  shows "map_of (fo_subs (subscribe ch f)) ch = Some (fo_recent f)"
  using foldl_trySend [of "[]" "fo_recent f"] assms by (simp add: subscribe_def fanoutReplaySize_def chanCap_def)

lemma broadcast_recent:
  assumes "length (fo_recent f) \<le> fanoutReplaySize"
  shows "length (fo_recent (broadcast line f)) \<le> fanoutReplaySize"
  using assms by (auto simp: broadcast_def fanoutReplaySize_def)

text \<open>A reader that keeps up misses nothing: a line goes to the end of every buffer that is not full.\<close>

lemma broadcast_reaches:
  assumes "map_of (fo_subs f) ch = Some buf" "length buf < chanCap"
  shows "map_of (fo_subs (broadcast line f)) ch = Some (buf @ [line])"
proof -
  have "map_of (map (\<lambda>(c, b). (c, trySend b line)) m) ch = map_option (\<lambda>b. trySend b line) (map_of m ch)" for m
    by (induction m) auto
  then show ?thesis using assms by (simp add: broadcast_def trySend_def)
qed

text \<open>The timeout of \<open>NewServer\<close> leaves a dial the time of all its waits.\<close>

lemma nextDelay_nonneg: "0 \<le> d \<Longrightarrow> 0 \<le> bo_Max cfg \<Longrightarrow> 0 \<le> nextDelay cfg d"
  by (simp add: nextDelay_def)

lemma backoffSum_nonneg: "0 \<le> d \<Longrightarrow> 0 \<le> bo_Max cfg \<Longrightarrow> 0 \<le> backoffSum cfg n d"
  by (induction n arbitrary: d) (auto simp: nextDelay_nonneg)

lemma dialLoop_waits:
  assumes "0 \<le> d" "0 \<le> bo_Max cfg"
  shows "snd (dialLoop path dial cancelled cfg i n d e) \<le> d + backoffSum cfg (n - 1) d"
  using assms
proof (induction n arbitrary: i d e)
  case (Suc n)
  have pos: "0 \<le> d + backoffSum cfg n d" using Suc.prems backoffSum_nonneg by (simp add: add_nonneg_nonneg)
  show ?case
  proof (cases n)
    case 0
    then show ?thesis using Suc.prems by (auto split: sum.splits)
  next
    case (Suc k)
    have "snd (dialLoop path dial cancelled cfg (Suc i) n (nextDelay cfg d) e') \<le> backoffSum cfg n d" for e'
      using Suc.IH [of "nextDelay cfg d" "Suc i" e'] nextDelay_nonneg Suc.prems \<open>n = Suc k\<close> by simp
    then show ?thesis using pos \<open>n = Suc k\<close>
      by (auto simp del: backoffSum.simps split: sum.splits option.splits prod.splits)
  qed
qed simp

lemma dial_within_timeout:
  assumes "0 \<le> bo_Initial cfg" "0 \<le> bo_Max cfg" "0 < bo_Tries cfg"
  shows "snd (dialUDSWithBackoff path dial cancelled cfg) + 5 * second \<le> totalBackoff cfg"
proof -
  have "nat (bo_Tries cfg) - 1 = nat (bo_Tries cfg - 1)" using assms(3) by simp
  then show ?thesis
    using dialLoop_waits [OF assms(1,2), where n = "nat (bo_Tries cfg)" and i = 0 and e = "''%!w(<nil>)''"]
    by (simp add: dialUDSWithBackoff_def totalBackoff_def)
qed

end
