(* ===== verification/Spec2Isabelle.thy ===== *)
theory Spec2Isabelle
  imports Policy_Properties Provider_Properties Broker_Properties Webhook_Properties Proxy_Properties Pod_Properties
    Controller_Properties Lifecycle_Properties Workspace_Properties Session_Properties Net_Properties Runtime_Properties
begin

text \<open>
  Paddock runs AI agents in Kubernetes pods. An agent's pod never holds an upstream credential: the
  broker hands it a Paddock bearer, and a proxy beside the agent exchanges the bearer for the real
  credential on the way out. What a run may use is decided by the BrokerPolicies of its namespace.
  This development models the decision-making core of the system: admission of policies, templates,
  runs and workspaces, the credential endpoints of the broker, the proxy that enforces both, and the
  controllers that turn a run into a pod.

  \<^bold>\<open>Theories and what they model\<close>

  \<^item> \<open>Go_Prelude\<close>: what the code uses of Go's standard library (package strings, slices, \<open>int32\<close>
    conversion, ASCII case folding), the result type \<open>error + value\<close>, and shared lemmas.
  \<^item> \<open>Api_Types\<close>: the custom resources of \<open>api/v1alpha1\<close> as records and datatypes, and the API server
    as the record \<open>kube\<close>, whose reads may fail.
  \<^item> \<open>Policy_Match\<close>, \<open>Policy_Intersect\<close>, \<open>Policy_Resolver\<close>: \<open>internal/policy\<close>. Host and template
    matching, the intersection of requirements with grants, discovery windows, the interception mode,
    template resolution and inheritance.
  \<^item> \<open>Broker_Matching\<close>: \<open>internal/broker/matching.go\<close>, the run-time lookups of grants.
  \<^item> \<open>Bearer\<close>: minting and extraction of bearers, with base64 and hexadecimal written out.
  \<^item> \<open>Provider_Base\<close>: the provider interface of \<open>internal/broker/providers\<close> and its contract: the locale
    \<open>substituter\<close> (a provider claims the bearers of its prefix only and keeps silent on others) and
    \<open>lease_provider\<close> (what it honours, it has issued, for the same namespace, hosts and expiry).
  \<^item> \<open>Provider_Anthropic\<close>, \<open>Provider_UserSecret\<close>, \<open>Provider_GitHubApp\<close>, \<open>Provider_PATPool\<close>: the four
    providers, each with its invariant and its interpretation of \<open>lease_provider\<close>.
  \<^item> \<open>Broker_Auth\<close>: authentication by TokenReview and the namespace scope of a caller.
  \<^item> \<open>Broker_Server\<close>: the registry and the handlers of \<open>/v1/issue\<close>, \<open>/v1/validate-egress\<close>,
    \<open>/v1/substitute-auth\<close> and \<open>/v1/revoke\<close>, over the state of the providers and the audit log.
  \<^item> \<open>Broker_Facts\<close>: dispatch among providers, reachable provider states, case rules of the handlers.
  \<^item> \<open>Audit_Events\<close>: \<open>internal/auditing\<close>, every builder of audit events and the sink.
  \<^item> \<open>Webhook_Base\<close>, \<open>Webhook_Policy\<close>, \<open>Webhook_Run\<close>: \<open>internal/webhook\<close>, admission of policies, audit
    events, templates, runs and workspaces, as functions from a spec to its list of field errors.
  \<^item> \<open>Go_Net\<close>: what the proxy uses of package net: addresses, CIDR masks, host and port splitting.
  \<^item> \<open>Broker_Client\<close>: \<open>internal/brokerclient\<close>; the server it calls is a parameter, which the proxy's
    theorems instantiate by the broker's handlers.
  \<^item> \<open>Proxy_Egress\<close>: verdicts on destinations, with the locale \<open>egress_validator\<close> (an allowed destination
    is a granted one) interpreted for the static list and for the broker.
  \<^item> \<open>Proxy_Cache\<close>: the resolver's cache and the cache of forged certificates, both interpretations of
    the locale \<open>bounded_cache\<close>; \<open>Proxy_Limit\<close>: the connection limit under every interleaving.
  \<^item> \<open>Proxy_Substitute\<close>, \<open>Proxy_Server\<close>: the request loop and the handlers of both proxy modes, each
    returning the list of its effects (dials, audit writes, replies, relayed requests).
  \<^item> \<open>Proxy_Facts\<close>: what the handlers dial and relay, and the reachable states of the resolver.
  \<^item> \<open>Controller_Pod\<close>, \<open>Controller_Network\<close>: the Job and pod of a run and the policies on its egress
    (\<open>internal/controller/pod_spec.go\<close>, \<open>network_policy.go\<close> and their neighbours), as pure functions.
  \<^item> \<open>Controller_Base\<close>: what a reconciler sees: a cluster of stored objects with a schedule of failing
    calls, and the operations on it as functions from a cluster to a result or error and a cluster;
    the controller's audit events and its client of the broker.
  \<^item> \<open>Controller_Creds\<close>, \<open>Controller_Run\<close>: credentials and certificates of a run, the watchdog, and the
    reconciler of \<open>harnessrun_controller.go\<close>, one definition per step of \<open>Reconcile\<close>.
  \<^item> \<open>Controller_Facts\<close>: rules for statements about operations (what holds before, after a return and
    after a failure), which keys an operation touches, and invariants; \<open>Controller_Typing\<close>: the typing of
    the store; \<open>Controller_Job\<close>: what a new Job rests on; \<open>Controller_Start\<close>: operations that cannot fail on
    a healthy cluster, and the start of a run; \<open>Controller_Deletion\<close>: its end; \<open>Controller_Binding\<close>: the
    workspace as a lock, a step relation over interleaved reads and writes.
  \<^item> \<open>Controller_Seed\<close>: the claim and the seed Job of a workspace (\<open>workspace_seed.go\<close> and its helpers), with a
    reader of POSIX shell words against which its commands are stated; \<open>Controller_Workspace\<close>: the reconciler
    of \<open>workspace_controller.go\<close> and \<open>workspace_broker.go\<close>; \<open>Workspace_Facts\<close>: what each of its steps touches.
  \<^item> \<open>Broker_Router\<close>: the in-memory state of interactive runs (\<open>internal/broker/router.go\<close>) and the search for a
    run's pod; \<open>Broker_Limit\<close>: the limiter per caller of \<open>ratelimit.go\<close>; \<open>Broker_Restart\<close>: what a restarted
    broker takes from the runs' status (\<open>reconstruct.go\<close>); \<open>Broker_Sessions\<close>: the handlers of prompts,
    interrupts, ends, shells and streams (\<open>interactive.go\<close>, \<open>stream.go\<close>) and the renewal walk of
    \<open>renewal.go\<close>; \<open>Session_Facts\<close>: what a handler leaves alone and what it answers on each branch.
  \<^item> \<open>Net_Init\<close>: the init container of transparent mode (\<open>cmd/iptables-init\<close>), with the locale \<open>netfilter\<close> of what
    the \<open>iptables\<close> program promises and the meaning of the installed rules for a packet.
  \<^item> \<open>Runtime_Proxy\<close>: the HTTP surface of the runtime sidecar (\<open>internal/runtime/proxy\<close>); \<open>Supervisor\<close>: the
    harness supervisor (\<open>cmd/harness-supervisor\<close>), its mode with one process per prompt as a step relation
    over its goroutines, the harness and the runtime; \<open>Supervisor_Facts\<close>: the phases of a turn, which every
    step respects, and the measure that the supervisor's own steps decrease.
  \<^item> \<open>Fixtures\<close>: a concrete cluster on which the theorems are applied.
  \<^item> \<open>Policy_Properties\<close>, \<open>Provider_Properties\<close>, \<open>Broker_Properties\<close>, \<open>Webhook_Properties\<close>,
    \<open>Proxy_Properties\<close>, \<open>Pod_Properties\<close>, \<open>Controller_Properties\<close>, \<open>Lifecycle_Properties\<close>,
    \<open>Workspace_Properties\<close>, \<open>Session_Properties\<close>, \<open>Net_Properties\<close>, \<open>Runtime_Properties\<close>: the properties.

  \<^bold>\<open>How code became definitions\<close>

  A method with a receiver takes the receiver's state and returns it updated; a critical section
  under the provider's mutex is one such step. A Go error is the left side of a sum. Maps that are
  iterated are association lists, and where Go's iteration order is unspecified it is a parameter
  (\<open>map_order\<close>) or shown not to matter. Times are integers in nanoseconds; ports keep their \<open>int32\<close>
  truncation. Parameters stand for what is not under the repository: the API server, the TokenReview
  service, random bytes, SHA-256, RSA and PEM, GitHub's HTTP endpoint, the rate limiter of
  \<open>x/time/rate\<close>, the \<open>iptables\<close> program, the harness, and the success of an audit write. Request
  bodies are taken after JSON decoding.
  No definition uses fuel; every loop of the modelled code is structural recursion on a list or has a
  termination measure.

  \<^bold>\<open>What is shown\<close>

  The policy theorems relate admission to the run-time checks: what admission accepts, the broker
  later allows. The provider theorems show that each provider honours only what it issued, that the
  PAT pool never lends a token twice, and how the GitHub token cache behaves. The broker theorems
  compose both: a credential leaves the broker only on a chain from an authenticated caller through a
  live run and its grants to an earlier issue, with an entry on the audit log. The admission theorems
  show what an accepted object guarantees to the components that use it later. The proxy theorems
  compose the proxy with the broker: it dials only what the broker grants and forwards no bearer. The
  controller theorems show on what grounds a Job appears, with the broker's handlers composed in, that
  an admissible run starts and a deleted one ends, that a workspace has one holder under every
  interleaving, and that the pod, its network policy and its proxy confine the agent. The workspace
  theorems show when a workspace becomes active and that a held one survives, that the shell reads the
  clone command as intended, and where seeding through the broker goes wrong. The session theorems show
  that a prompt or a shell reaches a pod only on the caller's grounds, that attachments are counted
  exactly, that a restart hands out no slot that a live lease holds and that sweeping the limiter is
  unobservable, and two behaviours the comments deny: two prompts at once both run, and any callback
  ends the current turn. In the pod, the init container leaves exactly the intended packets redirected,
  however often it failed before; under one prompt at a time every prompt reaches its own process whole
  and every turn ends, while ending a session can hang the supervisor, two prompts at once break it, and
  a turn gets five seconds.

  \<^bold>\<open>Not modelled\<close>

  HTTP transport, TLS, metrics and logging; the conversion and publication of harness output, the
  reconcilers of policy conditions and audit retention, and the user interfaces.
\<close>

end
